(* ===== verification/Prelude.thy ===== *)
theory Prelude
  imports Main "HOL-Library.AList" "HOL-Library.List_Lexorder" "HOL-Library.Char_ord"
begin

text \<open>
  What the components share: the fallible result type of
  \<^verbatim>\<open>packages/domain/src/result.ts\<close>, the string operations the guards use, plain
  JavaScript objects used as dictionaries, and the theorem collections of the development.

  A JavaScript string is a list of characters here, each read as the code unit of the
  same number (so the strings of the model are those with code units below 256).  A
  record object whose keys are strings is an association list in insertion order:
  \<^term>\<open>AList.update\<close> overwrites in place or appends, as a spread with one computed key
  does.
\<close>

named_theorems machine_simps "definitions of a machine: its guards, actions and tables"

named_theorems guard_simps "definitions of the guards of a machine"

subsection \<open>Results\<close>

text \<open>\<open>Result<T, E>\<close>: \<open>err\<close> is \<^term>\<open>Inl\<close>, \<open>ok\<close> is \<^term>\<open>Inr\<close>.\<close>

type_synonym ('t, 'e) result = "'e + 't"

definition ok :: "'t \<Rightarrow> ('t, 'e) result" where
  "ok v = Inr v"

definition err :: "'e \<Rightarrow> ('t, 'e) result" where
  "err e = Inl e"

definition is_ok :: "('t, 'e) result \<Rightarrow> bool" where
  "is_ok r = (case r of Inl _ \<Rightarrow> False | Inr _ \<Rightarrow> True)"

lemma ok_eq [simp]: "ok v = Inr w \<longleftrightarrow> v = w" "ok v \<noteq> Inl e" "ok v = ok w \<longleftrightarrow> v = w"
  by (simp_all add: ok_def)

lemma err_eq [simp]: "err e = Inl d \<longleftrightarrow> e = d" "err e \<noteq> Inr v" "err e = err d \<longleftrightarrow> e = d"
  by (simp_all add: err_def)

lemma ok_err [simp]: "ok v \<noteq> err e" "err e \<noteq> ok v"
  by (simp_all add: ok_def err_def)

lemma Inr_eq_ok [simp]: "Inr w = ok v \<longleftrightarrow> w = v" "Inl e \<noteq> ok v" "Inl e = err d \<longleftrightarrow> e = d"
  "Inr w \<noteq> err e"
  by (auto simp: ok_def err_def)

lemma is_ok_simps [simp]: "is_ok (ok v)" "\<not> is_ok (err e)" "is_ok (Inr v)" "\<not> is_ok (Inl e)"
  by (simp_all add: is_ok_def ok_def err_def)

lemma case_result_simps [simp]:
  "(case ok v of Inl e \<Rightarrow> f e | Inr w \<Rightarrow> g w) = g v"
  "(case err d of Inl e \<Rightarrow> f e | Inr w \<Rightarrow> g w) = f d"
  by (simp_all add: ok_def err_def)

lemma is_okE: "is_ok r \<Longrightarrow> (\<And>v. r = Inr v \<Longrightarrow> P) \<Longrightarrow> P"
  by (cases r) auto

subsection \<open>Strings\<close>

text \<open>
  \<open>String.prototype.trim\<close> drops white space and line ends: tab, line feed, vertical
  tab, form feed, carriage return, space and no-break space below code unit 256.
\<close>

definition js_space :: "char \<Rightarrow> bool" where
  "js_space c \<longleftrightarrow> of_char c \<in> {9, 10, 11, 12, 13, 32, 160 :: nat}"

definition js_trim :: "string \<Rightarrow> string" where
  "js_trim s = rev (dropWhile js_space (rev (dropWhile js_space s)))"

definition non_blank :: "string \<Rightarrow> bool" where
  "non_blank s \<longleftrightarrow> length (js_trim s) > 0"

lemma non_blank_iff: "non_blank s \<longleftrightarrow> (\<exists>c\<in>set s. \<not> js_space c)"
proof -
  have "js_trim s = [] \<longleftrightarrow> (\<forall>c\<in>set (dropWhile js_space s). js_space c)"
    by (simp add: js_trim_def dropWhile_eq_Nil_conv)
  also have "\<dots> \<longleftrightarrow> (\<forall>c\<in>set s. js_space c)"
    by (induction s) auto
  finally show ?thesis
    by (auto simp: non_blank_def)
qed

lemma non_blank_nonempty: "non_blank s \<Longrightarrow> s \<noteq> []"
  by (auto simp: non_blank_iff)

lemma not_non_blank_Nil [simp]: "\<not> non_blank []"
  by (simp add: non_blank_iff)

subsection \<open>Dictionaries\<close>

type_synonym 'v dict = "(string \<times> 'v) list"

definition has_own :: "'v dict \<Rightarrow> string \<Rightarrow> bool" where
  "has_own d k \<longleftrightarrow> map_of d k \<noteq> None"

definition sorted_keys :: "'v dict \<Rightarrow> string list" where
  "sorted_keys d = sort (map fst d)"

lemma has_own_update [simp]: "has_own (AList.update k v d) j \<longleftrightarrow> j = k \<or> has_own d j"
  by (simp add: has_own_def update_conv')

lemma has_own_iff: "has_own d k \<longleftrightarrow> k \<in> fst ` set d"
  by (simp add: has_own_def map_of_eq_None_iff)

lemma map_of_const: "map_of (map (\<lambda>k. (k, v)) ks) k = (if k \<in> set ks then Some v else None)"
  by (induction ks) auto

lemma distinct_sorted_keys: "distinct (map fst d) \<Longrightarrow> distinct (sorted_keys d)"
  by (simp add: sorted_keys_def)

lemma set_sorted_keys: "set (sorted_keys d) = fst ` set d"
  by (simp add: sorted_keys_def)

subsection \<open>Lists\<close>

lemma find_Some_iff: "find P xs = Some x \<Longrightarrow> P x \<and> x \<in> set xs"
  by (induction xs) (auto split: if_splits)

lemma foldl_invariant:
  assumes "I s" "\<And>s x. I s \<Longrightarrow> x \<in> set xs \<Longrightarrow> I (f s x)"
  shows "I (foldl f s xs)"
  using assms by (induction xs arbitrary: s) auto

end
