(* ===== verification/JsNumber.thy ===== *)
theory JsNumber
  imports Complex_Main Prelude
begin

text \<open>
  JavaScript numbers: IEEE 754 binary64 values.  A finite value is kept as the rational
  number it denotes, so every comparison and every argument of an operation is exact; the
  result of an arithmetic operation is the exact result rounded by \<open>fl\<close>, to nearest with
  ties to even, with gradual underflow and overflow to an infinity.  The two zeros are
  identified: the modelled code neither divides by a zero it has not excluded nor
  inspects the sign of a zero.
\<close>

subsection \<open>The values\<close>

datatype number = Fin rat | PosInf | NegInf | NaN

definition isFinite :: "number \<Rightarrow> bool" where
  "isFinite x = (case x of Fin _ \<Rightarrow> True | _ \<Rightarrow> False)"

definition isInteger :: "number \<Rightarrow> bool" where
  "isInteger x = (case x of Fin r \<Rightarrow> of_int \<lfloor>r\<rfloor> = r | _ \<Rightarrow> False)"

definition isSafeInteger :: "number \<Rightarrow> bool" where
  "isSafeInteger x =
     (case x of Fin r \<Rightarrow> of_int \<lfloor>r\<rfloor> = r \<and> \<bar>r\<bar> \<le> 9007199254740991 | _ \<Rightarrow> False)"

text \<open>\<open>===\<close> on numbers: \<open>NaN\<close> equals nothing.\<close>

definition num_eq :: "number \<Rightarrow> number \<Rightarrow> bool" where
  "num_eq x y \<longleftrightarrow> x = y \<and> x \<noteq> NaN"

instantiation number :: ord
begin

fun less_eq_number :: "number \<Rightarrow> number \<Rightarrow> bool" where
  "less_eq_number NaN _ = False"
| "less_eq_number _ NaN = False"
| "less_eq_number (Fin a) (Fin b) = (a \<le> b)"
| "less_eq_number NegInf _ = True"
| "less_eq_number _ PosInf = True"
| "less_eq_number _ _ = False"

definition less_number :: "number \<Rightarrow> number \<Rightarrow> bool" where
  "x < y \<longleftrightarrow> x \<le> y \<and> \<not> num_eq x (y :: number)"

instance ..

end

lemma number_le_simps [simp]:
  "\<not> NaN \<le> x" "\<not> x \<le> NaN" "Fin a \<le> Fin b \<longleftrightarrow> a \<le> b"
  "NegInf \<le> x \<longleftrightarrow> x \<noteq> NaN" "x \<le> PosInf \<longleftrightarrow> x \<noteq> NaN"
  "\<not> Fin a \<le> NegInf" "\<not> PosInf \<le> Fin a" "\<not> PosInf \<le> NegInf"
  by (cases x; simp)+

lemma number_lt_simps [simp]:
  "\<not> NaN < x" "\<not> x < NaN" "Fin a < Fin b \<longleftrightarrow> a < b" "NegInf < Fin a" "Fin a < PosInf"
  "\<not> Fin a < NegInf" "\<not> PosInf < x" "\<not> x < NegInf" "NegInf < PosInf"
  by (cases x; auto simp: less_number_def num_eq_def)+

lemma num_eq_simps [simp]:
  "num_eq (Fin a) (Fin b) \<longleftrightarrow> a = b" "\<not> num_eq NaN x" "\<not> num_eq x NaN"
  by (auto simp: num_eq_def)

lemma num_eqD: "num_eq x y \<Longrightarrow> x = y"
  by (simp add: num_eq_def)

lemma isFinite_simps [simp]:
  "isFinite (Fin a)" "\<not> isFinite PosInf" "\<not> isFinite NegInf" "\<not> isFinite NaN"
  by (simp_all add: isFinite_def)

lemma isFiniteE: "isFinite x \<Longrightarrow> (\<And>r. x = Fin r \<Longrightarrow> P) \<Longrightarrow> P"
  by (cases x) auto

lemma isSafeInteger_iff:
  "isSafeInteger x \<longleftrightarrow> (\<exists>n. x = Fin (of_int n) \<and> \<bar>n\<bar> \<le> 9007199254740991)"
proof
  assume "isSafeInteger x"
  then obtain r where r: "x = Fin r" "of_int \<lfloor>r\<rfloor> = r" "\<bar>r\<bar> \<le> 9007199254740991"
    by (auto simp: isSafeInteger_def split: number.splits)
  then have "\<bar>of_int \<lfloor>r\<rfloor> :: rat\<bar> \<le> 9007199254740991"
    by (simp only: r(2))
  then have "\<bar>\<lfloor>r\<rfloor>\<bar> \<le> 9007199254740991"
    by (metis of_int_abs of_int_le_iff of_int_numeral)
  with r show "\<exists>n. x = Fin (of_int n) \<and> \<bar>n\<bar> \<le> 9007199254740991"
    by metis
next
  assume "\<exists>n. x = Fin (of_int n) \<and> \<bar>n\<bar> \<le> 9007199254740991"
  then obtain n where "x = Fin (of_int n)" and "\<bar>n\<bar> \<le> 9007199254740991"
    by blast
  moreover from this(2) have "\<bar>of_int n :: rat\<bar> \<le> 9007199254740991"
    by (metis of_int_abs of_int_le_iff of_int_numeral)
  ultimately show "isSafeInteger x"
    by (simp add: isSafeInteger_def)
qed

lemma isSafeIntegerE:
  assumes "isSafeInteger x"
  obtains n where "x = Fin (of_int n)" "\<bar>n\<bar> \<le> 9007199254740991"
  using assms by (auto simp: isSafeInteger_iff)

lemma number_lt_imp_le: "(x :: number) < y \<Longrightarrow> x \<le> y"
  by (simp add: less_number_def)

lemma number_le_trans: "(x :: number) \<le> y \<Longrightarrow> y \<le> z \<Longrightarrow> x \<le> z"
  by (cases x; cases y; cases z) auto

lemma number_lt_le_trans: "(x :: number) < y \<Longrightarrow> y \<le> z \<Longrightarrow> x < z"
  by (cases x; cases y; cases z) auto

lemma number_le_lt_trans: "(x :: number) \<le> y \<Longrightarrow> y < z \<Longrightarrow> x < z"
  by (cases x; cases y; cases z) auto

lemma number_not_le: "x \<noteq> NaN \<Longrightarrow> y \<noteq> NaN \<Longrightarrow> \<not> x \<le> y \<longleftrightarrow> y < (x :: number)"
  by (cases x; cases y) auto

lemma number_not_lt: "x \<noteq> NaN \<Longrightarrow> y \<noteq> NaN \<Longrightarrow> \<not> x < y \<longleftrightarrow> y \<le> (x :: number)"
  by (cases x; cases y) auto

lemma number_le_refl [simp]: "x \<le> x \<longleftrightarrow> x \<noteq> (NaN :: number)"
  by (cases x) auto

lemma number_lt_irrefl [simp]: "\<not> x < (x :: number)"
  by (cases x) auto

subsection \<open>Rounding to binary64\<close>

function nlog2 :: "int \<Rightarrow> nat" where
  "nlog2 n = (if n \<le> 1 then 0 else Suc (nlog2 (n div 2)))"
  by pat_completeness auto
termination
  by (relation "measure nat") auto

declare nlog2.simps [simp del]

lemma nlog2_bounds: "0 < n \<Longrightarrow> 2 ^ nlog2 n \<le> n \<and> n < 2 ^ Suc (nlog2 n)"
proof (induction n rule: nlog2.induct)
  case (1 n)
  show ?case
  proof (cases "n \<le> 1")
    case True
    with 1 show ?thesis by (simp add: nlog2.simps [of n])
  next
    case False
    with 1 have "2 ^ nlog2 (n div 2) \<le> n div 2" "n div 2 < 2 ^ Suc (nlog2 (n div 2))"
      by auto
    with False show ?thesis by (simp add: nlog2.simps [of n]) linarith
  qed
qed

text \<open>The floor of the binary logarithm of a positive rational.\<close>

definition ilog2 :: "rat \<Rightarrow> int" where
  "ilog2 x =
     (let (p, q) = quotient_of x; k = int (nlog2 p) - int (nlog2 q)
      in if 2 powi k \<le> x then k else k - 1)"

lemma ilog2_bounds:
  assumes "0 < x"
  shows "2 powi ilog2 x \<le> x" "x < 2 powi (ilog2 x + 1)"
proof -
  obtain p q where pq: "quotient_of x = (p, q)"
    by force
  have q: "0 < q" and x: "x = of_int p / of_int q"
    using pq quotient_of_denom_pos quotient_of_div by blast+
  with assms have p: "0 < p"
    by (simp add: zero_less_divide_iff)
  define a b where "a = nlog2 p" and "b = nlog2 q"
  have "2 ^ a \<le> p" "p < 2 ^ Suc a" "2 ^ b \<le> q" "q < 2 ^ Suc b"
    using nlog2_bounds [of p] nlog2_bounds [of q] p q by (auto simp: a_def b_def)
  then have P: "2 ^ a \<le> (of_int p :: rat)" "(of_int p :: rat) < 2 ^ Suc a"
    and Q: "2 ^ b \<le> (of_int q :: rat)" "(of_int q :: rat) < 2 ^ Suc b"
    by (metis of_int_le_iff of_int_less_iff of_int_numeral of_int_power)+
  let ?k = "int a - int b"
  have pow: "(2 :: rat) powi ?k = 2 ^ a / 2 ^ b"
    by (simp add: power_int_diff)
  have up: "x < 2 powi (?k + 1)"
  proof -
    have "x < 2 ^ Suc a / 2 ^ b"
      unfolding x using P Q q p by (intro frac_less) auto
    also have "\<dots> = 2 powi (?k + 1)"
      by (simp add: power_int_add pow)
    finally show ?thesis .
  qed
  have lo: "2 powi (?k - 1) \<le> x"
  proof -
    have "(2 :: rat) powi (?k - 1) = 2 ^ a / 2 ^ Suc b"
      by (simp add: power_int_diff)
    also have "\<dots> \<le> x"
      unfolding x using P Q q p by (intro frac_le) auto
    finally show ?thesis .
  qed
  have eq: "ilog2 x = (if 2 powi ?k \<le> x then ?k else ?k - 1)"
    by (simp add: ilog2_def pq a_def b_def)
  show "2 powi ilog2 x \<le> x" "x < 2 powi (ilog2 x + 1)"
    using up lo by (auto simp: eq)
qed

lemma powi2_le_iff: "(2 :: rat) powi a \<le> 2 powi b \<longleftrightarrow> a \<le> b"
  by (metis linorder_not_le one_less_numeral_iff power_int_increasing power_int_strict_increasing
      order_less_imp_le semiring_norm(76))

lemma powi2_less_iff: "(2 :: rat) powi a < 2 powi b \<longleftrightarrow> a < b"
  using powi2_le_iff [of b a] by (simp flip: linorder_not_le)

lemma powi2_pos [simp]: "0 < (2 :: rat) powi a"
  by simp

lemma ilog2_mono:
  assumes "0 < x" "x \<le> y"
  shows "ilog2 x \<le> ilog2 y"
proof -
  have "2 powi ilog2 x \<le> x" "y < 2 powi (ilog2 y + 1)"
    using assms ilog2_bounds by auto
  with assms(2) have "(2 :: rat) powi ilog2 x < 2 powi (ilog2 y + 1)"
    by linarith
  then show ?thesis
    by (simp add: powi2_less_iff)
qed

text \<open>Rounding to the nearest integer, ties to even.\<close>

definition round_even :: "rat \<Rightarrow> int" where
  "round_even q =
     (let f = \<lfloor>q\<rfloor>; d = q - of_int f
      in if d < 1 / 2 then f else if 1 / 2 < d then f + 1 else if even f then f else f + 1)"

lemma round_even_of_int [simp]: "round_even (of_int n) = n"
  by (simp add: round_even_def)

lemma round_even_floor: "round_even q = \<lfloor>q\<rfloor> \<or> round_even q = \<lfloor>q\<rfloor> + 1"
  by (simp add: round_even_def Let_def)

lemma round_even_mono:
  assumes "x \<le> y"
  shows "round_even x \<le> round_even y"
proof (cases "\<lfloor>x\<rfloor> = \<lfloor>y\<rfloor>")
  case True
  with assms show ?thesis
    by (auto simp: round_even_def Let_def)
next
  case False
  with assms have "\<lfloor>x\<rfloor> + 1 \<le> \<lfloor>y\<rfloor>"
    using floor_mono [of x y] by linarith
  then show ?thesis
    using round_even_floor [of x] round_even_floor [of y] by linarith
qed

lemma round_even_le: "x \<le> of_int n \<Longrightarrow> round_even x \<le> n"
  using round_even_mono [of x "of_int n"] by simp

lemma round_even_ge: "of_int n \<le> x \<Longrightarrow> n \<le> round_even x"
  using round_even_mono [of "of_int n" x] by simp

text \<open>The exponent of the last place of the binade a positive value lies in.\<close>

definition ulp_exp :: "rat \<Rightarrow> int" where
  "ulp_exp a = max (ilog2 a) (-1022) - 52"

text \<open>Magnitudes first: the rounded significand times the unit in the last place.\<close>

definition round_mag :: "rat \<Rightarrow> rat" where
  "round_mag a = of_int (round_even (a / 2 powi ulp_exp a)) * 2 powi ulp_exp a"

text \<open>The magnitude from which a rounded value overflows.\<close>

definition fl_limit :: rat where
  "fl_limit = 2 ^ 1024"

lemma fl_limit_pos [simp]: "0 < fl_limit"
  unfolding fl_limit_def by (rule zero_less_power) simp

definition fl :: "rat \<Rightarrow> number" where
  "fl x =
     (if x = 0 then Fin 0
      else let m = round_mag \<bar>x\<bar>
           in if fl_limit \<le> m then (if 0 < x then PosInf else NegInf)
              else Fin (if 0 < x then m else - m))"

subsection \<open>What rounding keeps\<close>

definition dyadic :: "rat \<Rightarrow> bool" where
  "dyadic r \<longleftrightarrow> (\<exists>m e. r = of_int m * 2 powi e \<and> \<bar>m\<bar> < 2 ^ 53 \<and> - 1074 \<le> e)"

text \<open>The rationals that are binary64 values.\<close>

definition representable :: "rat \<Rightarrow> bool" where
  "representable r \<longleftrightarrow> dyadic r \<and> \<bar>r\<bar> < fl_limit"

lemma ulp_exp_ge: "- 1074 \<le> ulp_exp a"
  by (simp add: ulp_exp_def)

lemma ulp_exp_mono: "0 < a \<Longrightarrow> a \<le> b \<Longrightarrow> ulp_exp a \<le> ulp_exp b"
  using ilog2_mono [of a b] by (simp add: ulp_exp_def)

lemma scaled_less:
  assumes "0 < a"
  shows "a / 2 powi ulp_exp a < 2 ^ 53"
proof -
  have "a < 2 powi (ilog2 a + 1)"
    by (rule ilog2_bounds [OF assms])
  also have "\<dots> \<le> 2 powi (53 + ulp_exp a)"
    unfolding powi2_le_iff by (simp add: ulp_exp_def)
  also have "\<dots> = 2 ^ 53 * 2 powi ulp_exp a"
    by (simp add: power_int_add)
  finally show ?thesis
    by (simp add: divide_less_eq)
qed

lemma round_scaled_le: "0 < a \<Longrightarrow> round_even (a / 2 powi ulp_exp a) \<le> 2 ^ 53"
  using scaled_less [of a] by (intro round_even_le) simp

lemma round_scaled_ge: "0 < a \<Longrightarrow> 0 \<le> round_even (a / 2 powi ulp_exp a)"
  by (intro round_even_ge) simp

lemma round_mag_nonneg: "0 < a \<Longrightarrow> 0 \<le> round_mag a"
  using round_scaled_ge [of a] by (simp add: round_mag_def)

lemma round_mag_mono:
  assumes "0 < a" "a \<le> b"
  shows "round_mag a \<le> round_mag b"
proof (cases "ulp_exp a = ulp_exp b")
  case True
  with assms show ?thesis
    by (simp add: round_mag_def round_even_mono divide_right_mono mult_right_mono)
next
  case False
  then have less: "ulp_exp a < ulp_exp b"
    using ulp_exp_mono [OF assms] by simp
  then have E: "ulp_exp b = ilog2 b - 52"
    using ulp_exp_ge [of a] by (auto simp: ulp_exp_def max_def split: if_splits)
  have b: "0 < b" using assms by simp
  have "round_mag a \<le> 2 ^ 53 * 2 powi ulp_exp a"
    using round_scaled_le [OF assms(1)] unfolding round_mag_def
    by (intro mult_right_mono) (metis of_int_le_iff of_int_numeral of_int_power, simp)
  also have "\<dots> = 2 powi (53 + ulp_exp a)"
    by (simp add: power_int_add)
  also have "\<dots> \<le> 2 powi (52 + ulp_exp b)"
    using less by (simp add: powi2_le_iff)
  also have "\<dots> = 2 ^ 52 * 2 powi ulp_exp b"
    by (simp add: power_int_add)
  also have "\<dots> \<le> round_mag b"
  proof -
    have "(2 :: rat) ^ 52 * 2 powi ulp_exp b \<le> b"
      using ilog2_bounds(1) [OF b] by (simp add: E power_int_diff)
    then have "of_int (2 ^ 52) \<le> b / 2 powi ulp_exp b"
      by (simp add: le_divide_eq)
    then have "2 ^ 52 \<le> round_even (b / 2 powi ulp_exp b)"
      by (rule round_even_ge)
    then have "(2 :: rat) ^ 52 \<le> of_int (round_even (b / 2 powi ulp_exp b))"
      by (metis of_int_le_iff of_int_numeral of_int_power)
    then show ?thesis
      unfolding round_mag_def by (intro mult_right_mono) simp_all
  qed
  finally show ?thesis .
qed

lemma round_mag_exact:
  assumes "dyadic a" "0 < a"
  shows "round_mag a = a"
proof -
  obtain m e where a: "a = of_int m * 2 powi e" and m: "\<bar>m\<bar> < 2 ^ 53" and e: "- 1074 \<le> e"
    using assms by (auto simp: dyadic_def)
  have mpos: "0 < m"
  proof (rule ccontr)
    assume "\<not> 0 < m"
    then have "of_int m * (2 :: rat) powi e \<le> 0"
      by (intro mult_nonpos_nonneg) simp_all
    with assms(2) show False by (simp add: a)
  qed
  have "ulp_exp a \<le> e"
  proof (cases "ilog2 a \<le> -1022")
    case True
    then show ?thesis using e by (simp add: ulp_exp_def)
  next
    case False
    have "2 powi ilog2 a \<le> a"
      by (rule ilog2_bounds [OF assms(2)])
    also have "a < 2 ^ 53 * 2 powi e"
    proof -
      have "of_int m < (2 :: rat) ^ 53"
        using m mpos by (metis abs_of_pos of_int_less_iff of_int_numeral of_int_power)
      then show ?thesis by (simp add: a)
    qed
    also have "\<dots> = 2 powi (53 + e)"
      by (simp add: power_int_add)
    finally have "ilog2 a < 53 + e"
      by (simp add: powi2_less_iff)
    with False show ?thesis by (simp add: ulp_exp_def)
  qed
  then obtain k where k: "e = ulp_exp a + int k"
    using zle_iff_zadd by blast
  have "a = of_int (m * 2 ^ k) * 2 powi ulp_exp a"
    by (subst a) (simp add: k power_int_add)
  then have "a / 2 powi ulp_exp a = of_int (m * 2 ^ k)"
    by (simp add: divide_eq_eq)
  then have "round_mag a = of_int (m * 2 ^ k) * 2 powi ulp_exp a"
    by (simp only: round_mag_def round_even_of_int)
  with \<open>a = of_int (m * 2 ^ k) * 2 powi ulp_exp a\<close> show ?thesis by simp
qed

lemma dyadic_round_mag:
  assumes "0 < a"
  shows "dyadic (round_mag a)"
proof (cases "round_even (a / 2 powi ulp_exp a) = 2 ^ 53")
  case True
  then have "round_mag a = of_int (2 ^ 53) * 2 powi ulp_exp a"
    by (simp only: round_mag_def)
  also have "\<dots> = of_int (2 ^ 52) * 2 powi (ulp_exp a + 1)"
    by (simp add: power_int_add)
  finally have "round_mag a = of_int (2 ^ 52) * 2 powi (ulp_exp a + 1)" .
  moreover have "\<bar>2 ^ 52 :: int\<bar> < 2 ^ 53" "- 1074 \<le> ulp_exp a + 1"
    using ulp_exp_ge [of a] by simp_all
  ultimately show ?thesis
    unfolding dyadic_def by blast
next
  case False
  with round_scaled_le [OF assms] round_scaled_ge [OF assms]
  have "\<bar>round_even (a / 2 powi ulp_exp a)\<bar> < 2 ^ 53"
    by simp
  then show ?thesis
    unfolding dyadic_def round_mag_def using ulp_exp_ge [of a] by blast
qed

lemma representable_0 [simp]: "representable 0"
proof -
  have "(0 :: rat) = of_int 0 * 2 powi 0 \<and> \<bar>0 :: int\<bar> < 2 ^ 53 \<and> - 1074 \<le> (0 :: int)"
    by simp
  then have "dyadic 0"
    unfolding dyadic_def by blast
  then show ?thesis by (simp add: representable_def)
qed

lemma dyadic_uminus: "dyadic r \<Longrightarrow> dyadic (- r)"
proof -
  assume "dyadic r"
  then obtain m e where "r = of_int m * 2 powi e" "\<bar>m\<bar> < 2 ^ 53" "- 1074 \<le> e"
    unfolding dyadic_def by blast
  then have "- r = of_int (- m) * 2 powi e \<and> \<bar>- m\<bar> < 2 ^ 53 \<and> - 1074 \<le> e"
    by simp
  then show "dyadic (- r)"
    unfolding dyadic_def by blast
qed

lemma representable_uminus [simp]: "representable (- r) \<longleftrightarrow> representable r"
  using dyadic_uminus [of r] dyadic_uminus [of "- r"] by (auto simp: representable_def)

lemma dyadic_abs: "dyadic r \<Longrightarrow> dyadic \<bar>r\<bar>"
  using dyadic_uminus by (simp add: abs_if)

lemma fl_0 [simp]: "fl 0 = Fin 0"
  by (simp add: fl_def)

lemma fl_not_NaN [simp]: "fl x \<noteq> NaN"
  by (simp add: fl_def Let_def)

lemma fl_representable:
  assumes "representable r"
  shows "fl r = Fin r"
proof (cases "r = 0")
  case False
  with assms have "round_mag \<bar>r\<bar> = \<bar>r\<bar>" "\<not> fl_limit \<le> \<bar>r\<bar>"
    by (auto simp: representable_def not_le intro: round_mag_exact dyadic_abs)
  then show ?thesis
    unfolding fl_def Let_def by (simp only:) (use False in auto)
qed simp

lemma fl_FinD:
  assumes "fl x = Fin r"
  shows "representable r"
proof (cases "x = 0")
  case False
  define m where "m = round_mag \<bar>x\<bar>"
  have m: "dyadic m" "0 \<le> m"
    using False by (simp_all add: m_def dyadic_round_mag round_mag_nonneg)
  have "m < fl_limit" "r = m \<or> r = - m"
    using assms False unfolding fl_def m_def Let_def by (auto simp only: split: if_splits)
  with m show ?thesis
    by (auto simp: representable_def intro: dyadic_uminus)
qed (use assms in simp)

lemma fl_representable_iff: "fl r = Fin r \<longleftrightarrow> representable r"
  using fl_representable fl_FinD by blast

instantiation number :: "{plus, minus, uminus, times, inverse, abs, sgn}"
begin

fun uminus_number :: "number \<Rightarrow> number" where
  "uminus_number (Fin a) = Fin (- a)"
| "uminus_number PosInf = NegInf"
| "uminus_number NegInf = PosInf"
| "uminus_number NaN = NaN"

fun plus_number :: "number \<Rightarrow> number \<Rightarrow> number" where
  "plus_number (Fin a) (Fin b) = fl (a + b)"
| "plus_number NaN _ = NaN"
| "plus_number _ NaN = NaN"
| "plus_number PosInf NegInf = NaN"
| "plus_number NegInf PosInf = NaN"
| "plus_number PosInf _ = PosInf"
| "plus_number NegInf _ = NegInf"
| "plus_number _ y = y"

definition minus_number :: "number \<Rightarrow> number \<Rightarrow> number" where
  "x - y = x + - (y :: number)"

fun sign_of :: "number \<Rightarrow> rat" where
  "sign_of (Fin a) = sgn a"
| "sign_of PosInf = 1"
| "sign_of NegInf = - 1"
| "sign_of NaN = 0"

definition inf_of :: "rat \<Rightarrow> number" where
  "inf_of s = (if s > 0 then PosInf else if s < 0 then NegInf else NaN)"

fun times_number :: "number \<Rightarrow> number \<Rightarrow> number" where
  "times_number (Fin a) (Fin b) = fl (a * b)"
| "times_number NaN _ = NaN"
| "times_number _ NaN = NaN"
| "times_number x y = inf_of (sign_of x * sign_of y)"

text \<open>Division by zero: not a number for zero over zero, else the infinity of the
  dividend's sign (the divisor read as the positive zero).\<close>

fun divide_number :: "number \<Rightarrow> number \<Rightarrow> number" where
  "divide_number (Fin a) (Fin b) = (if b = 0 then inf_of (sgn a) else fl (a / b))"
| "divide_number NaN _ = NaN"
| "divide_number _ NaN = NaN"
| "divide_number (Fin a) _ = Fin 0"
| "divide_number x (Fin b) = inf_of (sign_of x * (if b < 0 then - 1 else 1))"
| "divide_number _ _ = NaN"

definition inverse_number :: "number \<Rightarrow> number" where
  "inverse x = Fin 1 div (x :: number)"

fun abs_number :: "number \<Rightarrow> number" where
  "abs_number (Fin a) = Fin \<bar>a\<bar>"
| "abs_number NaN = NaN"
| "abs_number _ = PosInf"

text \<open>\<open>Math.sign\<close>.\<close>

definition sgn_number :: "number \<Rightarrow> number" where
  "sgn x = (if x = NaN then NaN else Fin (sign_of (x :: number)))"

instance ..

end

text \<open>\<open>Math.max\<close> and \<open>Math.min\<close> of two numbers, \<open>Math.floor\<close> and \<open>Math.ceil\<close>.\<close>

definition js_max :: "number \<Rightarrow> number \<Rightarrow> number" where
  "js_max x y = (if x = NaN \<or> y = NaN then NaN else if x \<le> y then y else x)"

definition js_min :: "number \<Rightarrow> number \<Rightarrow> number" where
  "js_min x y = (if x = NaN \<or> y = NaN then NaN else if x \<le> y then x else y)"

text \<open>\<open>Number.EPSILON\<close>.\<close>

definition EPSILON :: number where
  "EPSILON = Fin (1 / 2 ^ 52)"

fun js_floor :: "number \<Rightarrow> number" where
  "js_floor (Fin a) = Fin (of_int \<lfloor>a\<rfloor>)"
| "js_floor x = x"

fun js_ceil :: "number \<Rightarrow> number" where
  "js_ceil (Fin a) = Fin (of_int \<lceil>a\<rceil>)"
| "js_ceil x = x"

subsection \<open>Laws of the rounded operations\<close>

lemma fl_uminus: "fl (- x) = - fl x"
  by (simp add: fl_def Let_def)

lemma fl_nonneg: "0 \<le> x \<Longrightarrow> Fin 0 \<le> fl x"
  by (simp add: fl_def Let_def round_mag_nonneg)

lemma fl_mono_pos:
  assumes "0 \<le> x" "x \<le> y"
  shows "fl x \<le> fl y"
proof (cases "x = 0")
  case True
  with assms show ?thesis by (simp add: fl_nonneg)
next
  case False
  with assms have "round_mag x \<le> round_mag y"
    by (intro round_mag_mono) auto
  with False assms show ?thesis
    by (simp add: fl_def Let_def)
qed

lemma number_uminus_le: "- x \<le> - (y :: number) \<longleftrightarrow> y \<le> x"
  by (cases x; cases y) auto

lemma fl_mono: "x \<le> y \<Longrightarrow> fl x \<le> fl y"
proof -
  assume le: "x \<le> y"
  consider "0 \<le> x" | "x < 0" "0 \<le> y" | "y < 0"
    by linarith
  then show ?thesis
  proof cases
    case 1
    with le show ?thesis by (rule fl_mono_pos [rotated])
  next
    case 2
    then have "Fin 0 \<le> fl (- x)" "Fin 0 \<le> fl y"
      by (simp_all add: fl_nonneg)
    moreover from this(1) have "fl x \<le> Fin 0"
      using number_uminus_le [of "Fin 0" "fl x"] by (simp add: fl_uminus)
    ultimately show ?thesis
      by (rule_tac number_le_trans)
  next
    case 3
    with le have "fl (- y) \<le> fl (- x)"
      by (intro fl_mono_pos) auto
    then show ?thesis
      by (simp add: fl_uminus number_uminus_le)
  qed
qed

lemma fl_le_representable: "representable b \<Longrightarrow> x \<le> b \<Longrightarrow> fl x \<le> Fin b"
  using fl_mono [of x b] by (simp add: fl_representable)

lemma fl_ge_representable: "representable a \<Longrightarrow> a \<le> x \<Longrightarrow> Fin a \<le> fl x"
  using fl_mono [of a x] by (simp add: fl_representable)

lemma fl_nonpos: "x \<le> 0 \<Longrightarrow> fl x \<le> Fin 0"
  using fl_le_representable [of 0 x] by simp

lemma representable_of_int:
  assumes "\<bar>n\<bar> \<le> 2 ^ 53"
  shows "representable (of_int n)"
proof -
  have lim: "(2 :: rat) ^ 53 < fl_limit"
    unfolding fl_limit_def by (rule power_strict_increasing) simp_all
  have "\<bar>of_int n :: rat\<bar> \<le> 2 ^ 53"
    using assms by (metis of_int_abs of_int_le_iff of_int_numeral of_int_power)
  with lim have "\<bar>of_int n\<bar> < fl_limit"
    by linarith
  moreover have "dyadic (of_int n)"
  proof (cases "\<bar>n\<bar> = 2 ^ 53")
    case True
    then obtain s where s: "n = s * 2 ^ 53" "\<bar>s\<bar> = 1"
      by (cases "0 \<le> n") (auto intro: that [of 1] that [of "- 1"])
    have "of_int n = of_int (s * 2 ^ 52) * (2 :: rat) powi 1"
      by (simp add: s(1))
    moreover have "\<bar>s * 2 ^ 52\<bar> < 2 ^ 53"
      by (simp add: abs_mult s(2))
    ultimately show ?thesis
      unfolding dyadic_def by (intro exI [of _ "s * 2 ^ 52"] exI [of _ 1]) simp
  next
    case False
    with assms have "\<bar>n\<bar> < 2 ^ 53" by simp
    then show ?thesis
      unfolding dyadic_def by (intro exI [of _ n] exI [of _ 0]) simp
  qed
  ultimately show ?thesis by (simp add: representable_def)
qed

lemma fl_of_int: "\<bar>n\<bar> \<le> 2 ^ 53 \<Longrightarrow> fl (of_int n) = Fin (of_int n)"
  by (intro fl_representable representable_of_int)

lemma fl_numeral [simp]:
  "(numeral k :: int) \<le> 2 ^ 53 \<Longrightarrow> fl (numeral k) = Fin (numeral k)"
  using fl_of_int [of "numeral k"] by simp

lemma fl_neg_numeral [simp]:
  "(numeral k :: int) \<le> 2 ^ 53 \<Longrightarrow> fl (- numeral k) = Fin (- numeral k)"
  using fl_of_int [of "- numeral k"] by simp

lemma fl_1 [simp]: "fl 1 = Fin 1"
  using fl_of_int [of 1] by simp

lemma representable_1 [simp]: "representable 1"
  using representable_of_int [of 1] by simp

lemma representable_numeral [simp]:
  "(numeral k :: int) \<le> 2 ^ 53 \<Longrightarrow> representable (numeral k)"
  using representable_of_int [of "numeral k"] by simp

text \<open>The sum and the difference of integers below \<open>2 ^ 52\<close> in magnitude are exact.\<close>

lemma fl_add_int:
  "\<bar>a + b\<bar> \<le> 2 ^ 53 \<Longrightarrow> Fin (of_int a) + Fin (of_int b) = Fin (of_int (a + b))"
  using fl_of_int [of "a + b"] by simp

lemma fl_diff_int:
  "\<bar>a - b\<bar> \<le> 2 ^ 53 \<Longrightarrow> Fin (of_int a) - Fin (of_int b) = Fin (of_int (a - b))"
  using fl_of_int [of "a - b"] by (simp add: minus_number_def)

lemma number_diff_Fin: "Fin a - Fin b = fl (a - b)"
  by (simp add: minus_number_def)

lemma number_diff_le_0_iff_lemma: "a \<le> b \<Longrightarrow> Fin a - Fin b \<le> Fin 0"
  by (simp add: number_diff_Fin fl_nonpos)

text \<open>Every finite number of a program is a binary64 value.\<close>

definition binary64 :: "number \<Rightarrow> bool" where
  "binary64 x = (case x of Fin r \<Rightarrow> representable r | _ \<Rightarrow> True)"

lemma binary64_simps [simp]:
  "binary64 (Fin r) \<longleftrightarrow> representable r" "binary64 PosInf" "binary64 NegInf" "binary64 NaN"
  by (simp_all add: binary64_def)

lemma binary64_fl [simp]: "binary64 (fl x)"
  using fl_FinD [of x] by (cases "fl x") auto

lemma binary64_uminus [simp]: "binary64 (- x) \<longleftrightarrow> binary64 x"
  by (cases x) auto

lemma binary64_plus: "binary64 x \<Longrightarrow> binary64 y \<Longrightarrow> binary64 (x + y)"
  by (cases x; cases y) auto

lemma binary64_minus: "binary64 x \<Longrightarrow> binary64 y \<Longrightarrow> binary64 (x - y)"
  by (simp add: minus_number_def binary64_plus)

lemma binary64_times: "binary64 x \<Longrightarrow> binary64 y \<Longrightarrow> binary64 (x * y)"
  by (cases x; cases y) (auto simp: inf_of_def)

lemma binary64_divide: "binary64 x \<Longrightarrow> binary64 y \<Longrightarrow> binary64 (x / y)"
  by (cases x; cases y) (auto simp: inf_of_def)

lemma js_min_le: "js_min x y \<noteq> NaN \<Longrightarrow> js_min x y \<le> x \<and> js_min x y \<le> y"
  by (cases x; cases y) (auto simp: js_min_def)

lemma js_max_ge: "js_max x y \<noteq> NaN \<Longrightarrow> x \<le> js_max x y \<and> y \<le> js_max x y"
  by (cases x; cases y) (auto simp: js_max_def)

lemma js_max_eq_NaN [simp]: "js_max x y = NaN \<longleftrightarrow> x = NaN \<or> y = NaN"
  by (auto simp: js_max_def)

lemma js_min_eq_NaN [simp]: "js_min x y = NaN \<longleftrightarrow> x = NaN \<or> y = NaN"
  by (auto simp: js_min_def)

text \<open>A dyadic fraction with a significand of at most 53 bits is exact.\<close>

lemma representable_frac:
  assumes "\<bar>m\<bar> < 2 ^ 53" "k \<le> 1074"
  shows "representable (of_int m / 2 ^ k)"
proof -
  have "of_int m / 2 ^ k = of_int m * (2 :: rat) powi (- int k)"
    by (simp add: power_int_minus divide_inverse)
  then have "dyadic (of_int m / 2 ^ k)"
    unfolding dyadic_def using assms by (intro exI [of _ m] exI [of _ "- int k"]) simp
  moreover have "\<bar>of_int m / 2 ^ k :: rat\<bar> < fl_limit"
  proof -
    have "\<bar>of_int m / 2 ^ k :: rat\<bar> \<le> \<bar>of_int m\<bar>"
      by (simp add: divide_le_eq mult_left_mono [of 1 "2 ^ k" "\<bar>of_int m\<bar> :: rat", simplified])
    also have "\<dots> < fl_limit"
      using representable_of_int [of m] assms(1) by (simp add: representable_def)
    finally show ?thesis .
  qed
  ultimately show ?thesis by (simp add: representable_def)
qed

lemma fl_frac: "\<bar>m\<bar> < 2 ^ 53 \<Longrightarrow> k \<le> 1074 \<Longrightarrow> fl (of_int m / 2 ^ k) = Fin (of_int m / 2 ^ k)"
  by (intro fl_representable representable_frac)

subsection \<open>Signs and bounds of rounded results\<close>

lemma times_ge_self: "binary64 s \<Longrightarrow> Fin 0 < s \<Longrightarrow> s \<noteq> PosInf \<Longrightarrow> Fin 1 \<le> y \<Longrightarrow> s \<le> s * y"
  by (cases s; cases y) (auto simp: inf_of_def intro: fl_ge_representable)

lemma times_le_self: "binary64 s \<Longrightarrow> Fin 0 < s \<Longrightarrow> s \<noteq> PosInf \<Longrightarrow> y \<le> Fin 1 \<Longrightarrow> s * y \<le> s"
  by (cases s; cases y) (auto simp: inf_of_def intro: fl_le_representable)

lemma one_plus_ge: "Fin 0 \<le> y \<Longrightarrow> Fin 1 \<le> Fin 1 + y"
  by (cases y) (auto intro: fl_ge_representable)

lemma two_minus_le: "Fin 1 \<le> y \<Longrightarrow> Fin 2 - y \<le> Fin 1"
  by (cases y) (auto simp: minus_number_def intro: fl_le_representable)

lemma bps_nonneg: "Fin 0 < t \<Longrightarrow> Fin 0 \<le> t / Fin 10000"
  by (cases t) (auto simp: inf_of_def intro: fl_nonneg)

lemma fin_plus_NaN: "Fin a + y = NaN \<longleftrightarrow> y = NaN" and fin_divide_NaN: "b \<noteq> 0 \<Longrightarrow> Fin a / Fin b \<noteq> NaN"
  and fin_times_NaN: "0 < a \<Longrightarrow> Fin a * y = NaN \<longleftrightarrow> y = NaN"
  and uminus_NaN: "- y = NaN \<longleftrightarrow> (y :: number) = NaN"
  by (cases y; simp add: inf_of_def)+

lemma le_not_le: "x \<le> a \<Longrightarrow> \<not> h \<le> a \<Longrightarrow> h \<noteq> NaN \<Longrightarrow> x \<le> (h :: number)"
  by (cases x; cases a; cases h) auto

end
