(* ===== verification/Workflow.thy ===== *)
theory Workflow
  imports JsNumber
begin

text \<open>
  The vocabulary the machines share, from \<^verbatim>\<open>models/trading-cycle.types.ts\<close>: shutdown
  modes, outcomes, workflow errors, control permissions and the per-phase counters; and the
  market regimes of \<^verbatim>\<open>models/regime-filter.types.ts\<close>.
\<close>

datatype RegimeKind = BULLISH | BEARISH | RANGE

datatype shutdownMode = NoShutdown | StopShutdown | KillSwitchShutdown | PermissionRevokedShutdown

datatype cycleOutcome =
  OutIdle | OutRunning | OutNoAction | OutRiskRejected | OutOrderConfirmed | OutOrderRejected
| OutCancelled | OutFailed

datatype workflowPhase =
  PhSchedule | PhMarketData | PhIndicators | PhStrategies | PhAllocation | PhRisk | PhOrderIntent
| PhAuthorization | PhExecution | PhReconciliation | PhPersistence | PhCancellation

datatype workflowErrorCode =
  ControlPermissionRequired | TradePermissionRequired | PermissionRevoked | DuplicateAlarm
| StaleMarketData | RateLimited | NetworkUnavailable | InvalidResponse | InvalidIndicators
| StrategyFailure | AllocationFailure | RiskFailure | OrderIntentFailure | AuthenticationFailure
| AuthorizationExpired | OrderRejectedCode | OrderOutcomeUnknownCode | ReconciliationFailure
| PersistenceFailure | ScheduleFailure | CancellationFailure

record workflowError =
  phase :: workflowPhase
  code :: workflowErrorCode
  retryable :: bool
  detail :: "string option"
  retryAfterMs :: "number option"

text \<open>An error literal of the machines, with neither diagnostic field.\<close>

definition mkError :: "workflowPhase \<Rightarrow> workflowErrorCode \<Rightarrow> bool \<Rightarrow> workflowError" where
  "mkError p k r = \<lparr>phase = p, code = k, retryable = r, detail = None, retryAfterMs = None\<rparr>"

lemma mkError_simps [simp]:
  "phase (mkError p k r) = p" "code (mkError p k r) = k" "retryable (mkError p k r) = r"
  by (simp_all add: mkError_def)

record controlPermissions =
  canControl :: bool
  canTrade :: bool

text \<open>
  \<open>RetryLimits\<close> and \<open>RetryAttempts\<close> have the same fields.  A limit is any number the
  deployment supplies; an attempt count starts at zero and is only ever incremented by
  one, so it is a natural number (its additions are exact below \<open>2 ^ 53\<close>).
\<close>

record 'n retryCounts =
  schedule :: 'n
  marketData :: 'n
  authorization :: 'n
  execution :: 'n
  reconciliation :: 'n
  persistence :: 'n

type_synonym retryLimits = "number retryCounts"
type_synonym retryAttempts = "nat retryCounts"

text \<open>Limits that are natural numbers.\<close>

definition natural_limits :: "nat retryCounts \<Rightarrow> retryLimits" where
  "natural_limits L =
     \<lparr>schedule = Fin (of_nat (schedule L)), marketData = Fin (of_nat (marketData L)),
      authorization = Fin (of_nat (authorization L)), execution = Fin (of_nat (execution L)),
      reconciliation = Fin (of_nat (reconciliation L)),
      persistence = Fin (of_nat (persistence L))\<rparr>"

text \<open>\<open>attempts.x < limits.x\<close>.\<close>

definition below :: "nat \<Rightarrow> number \<Rightarrow> bool" where
  "below n limit \<longleftrightarrow> Fin (of_nat n) < limit"

lemma below_Fin: "below n (Fin (of_nat k)) \<longleftrightarrow> n < k"
  by (simp add: below_def)

lemma below_numeral [simp]:
  "below n (Fin (numeral k)) \<longleftrightarrow> n < numeral k" "below n (Fin 1) \<longleftrightarrow> n < 1"
  "\<not> below n (Fin 0)"
  using below_Fin [of n "numeral k"] below_Fin [of n 1] below_Fin [of n 0] by simp_all

end
