(* ===== verification/Statechart.thy ===== *)
theory Statechart
  imports Prelude
begin

text \<open>
  The machines under \<^verbatim>\<open>models/*.machine.ts\<close> are tables handed to the \<open>xstate\<close> package:
  for each state and event a list of guarded transitions, actions that assign to the
  context, eventless (\<open>always\<close>) transitions, entry actions and final states.  The tables
  are translated as data of the types below.

  The package itself is not part of the repository.  What the machines rely on is its
  documented reading of a table, stated here as relations: the first enabled transition
  of the active state is taken, else the first enabled one of an enclosing state, else the
  event is ignored; the actions run in order; a target state is entered; enabled
  eventless transitions are then taken until none is left; a final state ignores every
  event.  A property of a machine is stated for every pair of functions \<open>init\<close> (the
  snapshot of a started actor) and \<open>send\<close> that satisfies \<open>xstate_runtime\<close>.
\<close>

subsection \<open>Tables\<close>

datatype ('st, 'ev, 'cx) transition =
  Trans (guard_of: "'cx \<Rightarrow> 'ev \<Rightarrow> bool") (target_of: "'st option")
    (actions_of: "('cx \<Rightarrow> 'ev \<Rightarrow> 'cx) list")

datatype ('st, 'cx) eventless =
  Always (eguard_of: "'cx \<Rightarrow> bool") (etarget_of: 'st) (eactions_of: "('cx \<Rightarrow> 'cx) list")

text \<open>The four shapes a row of a table has.\<close>

abbreviation goto_if :: "('cx \<Rightarrow> 'ev \<Rightarrow> bool) \<Rightarrow> 'st \<Rightarrow> ('cx \<Rightarrow> 'ev \<Rightarrow> 'cx) list
    \<Rightarrow> ('st, 'ev, 'cx) transition" where
  "goto_if g s as \<equiv> Trans g (Some s) as"

abbreviation goto :: "'st \<Rightarrow> ('cx \<Rightarrow> 'ev \<Rightarrow> 'cx) list \<Rightarrow> ('st, 'ev, 'cx) transition" where
  "goto s as \<equiv> Trans (\<lambda>_ _. True) (Some s) as"

abbreviation stay_if :: "('cx \<Rightarrow> 'ev \<Rightarrow> bool) \<Rightarrow> ('cx \<Rightarrow> 'ev \<Rightarrow> 'cx) list
    \<Rightarrow> ('st, 'ev, 'cx) transition" where
  "stay_if g as \<equiv> Trans g None as"

abbreviation stay :: "('cx \<Rightarrow> 'ev \<Rightarrow> 'cx) list \<Rightarrow> ('st, 'ev, 'cx) transition" where
  "stay as \<equiv> Trans (\<lambda>_ _. True) None as"

record ('st, 'ev, 'cx) machine =
  m_initial :: 'st
  m_on :: "'st \<Rightarrow> 'ev \<Rightarrow> ('st, 'ev, 'cx) transition list"
  m_outer :: "'st \<Rightarrow> 'ev \<Rightarrow> ('st, 'ev, 'cx) transition list"
  m_always :: "'st \<Rightarrow> ('st, 'cx) eventless list"
  m_entry :: "'st \<Rightarrow> ('cx \<Rightarrow> 'cx) list"
  m_final :: "'st \<Rightarrow> bool"

type_synonym ('st, 'cx) snapshot = "'st \<times> 'cx"

subsection \<open>How a table is read\<close>

definition select :: "('st, 'ev, 'cx) machine \<Rightarrow> ('st, 'cx) snapshot \<Rightarrow> 'ev
    \<Rightarrow> ('st, 'ev, 'cx) transition option" where
  "select M s e =
     find (\<lambda>t. guard_of t (snd s) e) (m_on M (fst s) e @ m_outer M (fst s) e)"

definition enter :: "('st, 'ev, 'cx) machine \<Rightarrow> 'st \<Rightarrow> 'cx \<Rightarrow> ('st, 'cx) snapshot" where
  "enter M st c = (st, foldl (\<lambda>c a. a c) c (m_entry M st))"

definition microstep :: "('st, 'ev, 'cx) machine \<Rightarrow> ('st, 'cx) snapshot \<Rightarrow> 'ev
    \<Rightarrow> ('st, 'ev, 'cx) transition \<Rightarrow> ('st, 'cx) snapshot" where
  "microstep M s e t =
     (let c = foldl (\<lambda>c a. a c e) (snd s) (actions_of t)
      in case target_of t of None \<Rightarrow> (fst s, c) | Some st \<Rightarrow> enter M st c)"

definition eselect :: "('st, 'ev, 'cx) machine \<Rightarrow> ('st, 'cx) snapshot
    \<Rightarrow> ('st, 'cx) eventless option" where
  "eselect M s = find (\<lambda>t. eguard_of t (snd s)) (m_always M (fst s))"

definition estep :: "('st, 'ev, 'cx) machine \<Rightarrow> ('st, 'cx) snapshot
    \<Rightarrow> ('st, 'cx) eventless \<Rightarrow> ('st, 'cx) snapshot" where
  "estep M s t = enter M (etarget_of t) (foldl (\<lambda>c a. a c) (snd s) (eactions_of t))"

inductive settles :: "('st, 'ev, 'cx) machine \<Rightarrow> ('st, 'cx) snapshot
    \<Rightarrow> ('st, 'cx) snapshot \<Rightarrow> bool" for M where
  settled: "eselect M s = None \<Longrightarrow> settles M s s"
| settling: "eselect M s = Some t \<Longrightarrow> settles M (estep M s t) s' \<Longrightarrow> settles M s s'"

inductive macrostep :: "('st, 'ev, 'cx) machine \<Rightarrow> ('st, 'cx) snapshot \<Rightarrow> 'ev
    \<Rightarrow> ('st, 'cx) snapshot \<Rightarrow> bool" for M where
  finished: "m_final M (fst s) \<Longrightarrow> macrostep M s e s"
| taken: "\<not> m_final M (fst s) \<Longrightarrow> select M s e = Some t \<Longrightarrow>
    settles M (microstep M s e t) s' \<Longrightarrow> macrostep M s e s'"
| ignored: "\<not> m_final M (fst s) \<Longrightarrow> select M s e = None \<Longrightarrow>
    settles M s s' \<Longrightarrow> macrostep M s e s'"

definition started :: "('st, 'ev, 'cx) machine \<Rightarrow> 'cx \<Rightarrow> ('st, 'cx) snapshot \<Rightarrow> bool" where
  "started M c s \<longleftrightarrow> settles M (enter M (m_initial M) c) s"

text \<open>
  The documented contract of the package for one machine: \<open>init\<close> gives the snapshot of an
  actor started with a context, \<open>send\<close> the snapshot after an event.
\<close>

definition xstate_runtime :: "('st, 'ev, 'cx) machine \<Rightarrow> ('cx \<Rightarrow> ('st, 'cx) snapshot)
    \<Rightarrow> (('st, 'cx) snapshot \<Rightarrow> 'ev \<Rightarrow> ('st, 'cx) snapshot) \<Rightarrow> bool" where
  "xstate_runtime M init send \<longleftrightarrow>
     (\<forall>c s. started M c s \<longrightarrow> init c = s) \<and> (\<forall>s e s'. macrostep M s e s' \<longrightarrow> send s e = s')"

subsection \<open>An executable reading\<close>

definition sc_settle :: "('st, 'ev, 'cx) machine \<Rightarrow> ('st, 'cx) snapshot
    \<Rightarrow> ('st, 'cx) snapshot" where
  "sc_settle M s = (case eselect M s of None \<Rightarrow> s | Some t \<Rightarrow> estep M s t)"

definition sc_start :: "('st, 'ev, 'cx) machine \<Rightarrow> 'cx \<Rightarrow> ('st, 'cx) snapshot" where
  "sc_start M c = sc_settle M (enter M (m_initial M) c)"

definition sc_send :: "('st, 'ev, 'cx) machine \<Rightarrow> ('st, 'cx) snapshot \<Rightarrow> 'ev
    \<Rightarrow> ('st, 'cx) snapshot" where
  "sc_send M s e =
     (if m_final M (fst s) then s
      else sc_settle M (case select M s e of None \<Rightarrow> s | Some t \<Rightarrow> microstep M s e t))"

text \<open>The same on a state and a context, for rewriting through a table.\<close>

lemma sc_settle_pair:
  "sc_settle M (st, c) =
     (case find (\<lambda>t. eguard_of t c) (m_always M st) of None \<Rightarrow> (st, c)
      | Some t \<Rightarrow> enter M (etarget_of t) (foldl (\<lambda>c a. a c) c (eactions_of t)))"
  by (simp add: sc_settle_def eselect_def estep_def split: option.splits)

lemma sc_send_pair:
  "sc_send M (st, c) e =
     (if m_final M st then (st, c)
      else sc_settle M
        (case find (\<lambda>t. guard_of t c e) (m_on M st e @ m_outer M st e) of None \<Rightarrow> (st, c)
         | Some t \<Rightarrow>
             (case target_of t of None \<Rightarrow> (st, foldl (\<lambda>c a. a c e) c (actions_of t))
              | Some st' \<Rightarrow> enter M st' (foldl (\<lambda>c a. a c e) c (actions_of t)))))"
  by (simp add: sc_send_def select_def microstep_def Let_def split: option.splits)

lemmas chart_eval = sc_send_pair sc_settle_pair sc_start_def enter_def

text \<open>The snapshot after a sequence of events.\<close>

abbreviation play :: "('s \<Rightarrow> 'ev \<Rightarrow> 's) \<Rightarrow> 's \<Rightarrow> 'ev list \<Rightarrow> 's" where
  "play send s es \<equiv> foldl send s es"

lemmas chart_simps =
  sc_send_def sc_settle_def sc_start_def select_def eselect_def microstep_def estep_def enter_def

subsection \<open>Machines whose eventless transitions do not chain\<close>

text \<open>
  In every machine of the repository the target of an eventless transition has no enabled
  eventless transition of its own, so settling is at most one step and the relations
  are the executable functions.
\<close>

locale shallow_machine =
  fixes M :: "('st, 'ev, 'cx) machine"
  assumes shallow: "eselect M s = Some t \<Longrightarrow> eselect M (estep M s t) = None"
begin

lemma settles_iff: "settles M s s' \<longleftrightarrow> s' = sc_settle M s"
proof
  assume "settles M s s'"
  then show "s' = sc_settle M s"
  proof cases
    case settled
    then show ?thesis by (simp add: sc_settle_def)
  next
    case (settling t)
    from settling(2) show ?thesis
      by cases (use settling(1) shallow in \<open>auto simp: sc_settle_def\<close>)
  qed
next
  assume s': "s' = sc_settle M s"
  show "settles M s s'"
  proof (cases "eselect M s")
    case None
    then show ?thesis by (simp add: s' sc_settle_def settled)
  next
    case (Some t)
    then have "settles M (estep M s t) (estep M s t)"
      by (intro settled shallow)
    with Some show ?thesis
      by (simp add: s' sc_settle_def settling)
  qed
qed

lemma macrostep_iff: "macrostep M s e s' \<longleftrightarrow> s' = sc_send M s e"
proof
  assume "macrostep M s e s'"
  then show "s' = sc_send M s e"
    by cases (auto simp: sc_send_def settles_iff)
next
  assume "s' = sc_send M s e"
  then show "macrostep M s e s'"
    by (auto simp: sc_send_def settles_iff intro: macrostep.intros split: option.splits if_splits)
qed

lemma runtime_iff:
  "xstate_runtime M init send \<longleftrightarrow> init = sc_start M \<and> send = sc_send M"
  unfolding xstate_runtime_def started_def settles_iff macrostep_iff
  by (simp add: fun_eq_iff sc_start_def)

lemma runtime_sc: "xstate_runtime M (sc_start M) (sc_send M)"
  by (simp add: runtime_iff)

text \<open>An invariant kept by every row of the table holds after every run.\<close>

lemma sc_send_invariant:
  assumes "I s"
    and micro: "\<And>t. I s \<Longrightarrow> select M s e = Some t \<Longrightarrow> I (microstep M s e t)"
    and evless: "\<And>s t. I s \<Longrightarrow> eselect M s = Some t \<Longrightarrow> I (estep M s t)"
  shows "I (sc_send M s e)"
  using assms by (auto simp: sc_send_def sc_settle_def split: option.splits)

end

text \<open>A started actor of a machine, driven by events.\<close>

locale xstate_actor = shallow_machine M
  for M :: "('st, 'ev, 'cx) machine" +
  fixes init :: "'cx \<Rightarrow> ('st, 'cx) snapshot"
    and send :: "('st, 'cx) snapshot \<Rightarrow> 'ev \<Rightarrow> ('st, 'cx) snapshot"
  assumes runtime: "xstate_runtime M init send"
begin

lemma init_eq: "init = sc_start M" and send_eq: "send = sc_send M"
  using runtime by (simp_all add: runtime_iff)

lemma play_invariant:
  assumes "I s" "\<And>s e. I s \<Longrightarrow> I (sc_send M s e)"
  shows "I (play send s es)"
  using assms by (auto simp: send_eq intro: foldl_invariant)

text \<open>A quantity no event decreases.\<close>

lemma play_monotone:
  assumes "\<And>s e. R s (sc_send M s e)" "\<And>s. R s s" "\<And>s t u. R s t \<Longrightarrow> R t u \<Longrightarrow> R s u"
  shows "R s (play send s es)"
proof (induction es rule: rev_induct)
  case (snoc e es)
  then show ?case
    using assms(1) [of "play send s es" e] by (auto simp: send_eq intro: assms(3))
qed (simp add: assms(2))

text \<open>Final states are left by no event.\<close>

lemma play_final: "m_final M (fst s) \<Longrightarrow> play send s es = s"
  by (induction es) (simp_all add: send_eq sc_send_def)

end

end
