(* ===== verification/TradingCycle.thy ===== *)
theory TradingCycle
  imports Workflow Statechart
begin

text \<open>
  The trading-cycle machine, \<^verbatim>\<open>models/trading-cycle.machine.ts\<close>, over the types of
  \<^verbatim>\<open>models/trading-cycle.types.ts\<close>: its guards, its actions and its table of transitions,
  in the order of the source.
\<close>

subsection \<open>Input, context, events\<close>

record tradingCycleInput =
  in_agentId :: string
  in_strategyIds :: "string list"
  in_maxMarketStalenessMs :: "number option"
  in_lastDecisionCandleClosedAt :: "number option"
  in_retryLimits :: "number option retryCounts"

record marketAdmissionRec =
  adm_cycleId :: string
  adm_candleClosedAt :: number
  adm_evaluatedAt :: number

record tradingCycleContext =
  agentId :: string
  strategyIds :: "string list"
  permissions :: controlPermissions
  cycleId :: "string option"
  triggeredAt :: "number option"
  nextWakeAt :: "number option"
  marketSnapshotId :: "string option"
  accountSnapshotId :: "string option"
  lastDecisionCandleClosedAt :: "number option"
  marketAdmission :: "marketAdmissionRec option"
  indicatorsId :: "string option"
  signalsId :: "string option"
  decisionId :: "string option"
  clientOrderId :: "string option"
  exchangeOrderId :: "string option"
  orderMayBeInFlight :: bool
  authorizationExpiresAt :: "number option"
  shutdownMode :: shutdownMode
  killRequestId :: "string option"
  killCompleted :: bool
  outcome :: cycleOutcome
  terminalFailure :: bool
  lastError :: "workflowError option"
  maxMarketStalenessMs :: number
  retryLimits :: "number retryCounts"
  attempts :: "nat retryCounts"

datatype tradingCycleEvent =
  START_REQUESTED controlPermissions
| STOP_REQUESTED controlPermissions
| KILL_SWITCH_ENGAGED controlPermissions string
| PERMISSION_REVOKED
| RESET controlPermissions
| SCHEDULE_SUCCEEDED number
| SCHEDULE_FAILED workflowError
| ALARM_FIRED string number
| MARKET_DATA_READY string number number
| ACCOUNT_RECONCILED string
| ACCOUNT_RECONCILIATION_FAILED workflowError
| MARKET_DATA_FAILED workflowError
| INDICATORS_COMPUTED string
| INDICATORS_FAILED workflowError
| STRATEGIES_EVALUATED string
| STRATEGIES_FAILED workflowError
| ALLOCATION_COMPLETED string number
| ALLOCATION_FAILED workflowError
| RISK_APPROVED
| RISK_REJECTED
| RISK_FAILED workflowError
| ORDER_INTENT_PERSISTED string
| ORDER_INTENT_FAILED workflowError
| AUTHORIZATION_READY number number
| AUTHORIZATION_FAILED workflowError
| ORDER_CONFIRMED string
| ORDER_REJECTED workflowError
| ORDER_NO_LONGER_NEEDED
| ORDER_OUTCOME_UNKNOWN workflowError
| ORDER_PROTECTION_FAILED "string option" workflowError
| ORDER_RECONCILED "string option"
| RECONCILIATION_FAILED workflowError
| PERSIST_SUCCEEDED
| PERSIST_FAILED workflowError
| EFFECT_CANCELLED
| EFFECT_CANCEL_FAILED workflowError
| RETRY_TIMER_ELAPSED

type_synonym guard = "tradingCycleContext \<Rightarrow> tradingCycleEvent \<Rightarrow> bool"
type_synonym action = "tradingCycleContext \<Rightarrow> tradingCycleEvent \<Rightarrow> tradingCycleContext"

definition defaultRetryLimits :: "number retryCounts" where
  "defaultRetryLimits = \<lparr>schedule = Fin 3, marketData = Fin 3, authorization = Fin 2,
     execution = Fin 1, reconciliation = Fin 4, persistence = Fin 5\<rparr>"

definition emptyAttempts :: "nat retryCounts" where
  "emptyAttempts = \<lparr>schedule = 0, marketData = 0, authorization = 0, execution = 0,
     reconciliation = 0, persistence = 0\<rparr>"

text \<open>The \<open>error\<close> field of the events that carry one.\<close>

definition eventError :: "tradingCycleEvent \<Rightarrow> workflowError option" where
  "eventError e =
     (case e of
        SCHEDULE_FAILED x \<Rightarrow> Some x
      | ACCOUNT_RECONCILIATION_FAILED x \<Rightarrow> Some x
      | MARKET_DATA_FAILED x \<Rightarrow> Some x
      | INDICATORS_FAILED x \<Rightarrow> Some x
      | STRATEGIES_FAILED x \<Rightarrow> Some x
      | ALLOCATION_FAILED x \<Rightarrow> Some x
      | RISK_FAILED x \<Rightarrow> Some x
      | ORDER_INTENT_FAILED x \<Rightarrow> Some x
      | AUTHORIZATION_FAILED x \<Rightarrow> Some x
      | ORDER_REJECTED x \<Rightarrow> Some x
      | ORDER_OUTCOME_UNKNOWN x \<Rightarrow> Some x
      | ORDER_PROTECTION_FAILED _ x \<Rightarrow> Some x
      | RECONCILIATION_FAILED x \<Rightarrow> Some x
      | PERSIST_FAILED x \<Rightarrow> Some x
      | EFFECT_CANCEL_FAILED x \<Rightarrow> Some x
      | _ \<Rightarrow> None)"

subsection \<open>Guards\<close>

definition canStart :: guard where
  "canStart c e = (case e of START_REQUESTED p \<Rightarrow> canControl p \<and> canTrade p | _ \<Rightarrow> False)"

definition canControl_guard :: guard where
  "canControl_guard c e =
     (case e of
        STOP_REQUESTED p \<Rightarrow> canControl p
      | KILL_SWITCH_ENGAGED p controlId \<Rightarrow> canControl p \<and> non_blank controlId
      | RESET p \<Rightarrow> canControl p
      | _ \<Rightarrow> False)"

definition isNewAlarm :: guard where
  "isNewAlarm c e = (case e of ALARM_FIRED i _ \<Rightarrow> Some i \<noteq> cycleId c | _ \<Rightarrow> False)"

definition isDuplicateDecisionCandle :: guard where
  "isDuplicateDecisionCandle c e =
     (case e of
        MARKET_DATA_READY _ closedAt _ \<Rightarrow>
          (case lastDecisionCandleClosedAt c of None \<Rightarrow> False | Some l \<Rightarrow> closedAt \<le> l)
      | _ \<Rightarrow> False)"

definition isFreshMarketData :: guard where
  "isFreshMarketData c e =
     (case e of
        MARKET_DATA_READY _ closedAt evaluatedAt \<Rightarrow>
          (case triggeredAt c of
             None \<Rightarrow> False
           | Some t \<Rightarrow>
               isSafeInteger t \<and> Fin 0 \<le> t \<and>
               isSafeInteger closedAt \<and> Fin 0 \<le> closedAt \<and>
               isSafeInteger evaluatedAt \<and> t \<le> evaluatedAt \<and>
               closedAt \<le> t \<and> evaluatedAt - closedAt \<le> maxMarketStalenessMs c)
      | _ \<Rightarrow> False)"

definition hasAllocatedOrders :: guard where
  "hasAllocatedOrders c e = (case e of ALLOCATION_COMPLETED _ n \<Rightarrow> Fin 0 < n | _ \<Rightarrow> False)"

definition hasTradePermission :: guard where
  "hasTradePermission c e = canTrade (permissions c)"

definition authorizationIsUsable :: guard where
  "authorizationIsUsable c e =
     (case e of
        AUTHORIZATION_READY expiresAt issuedAt \<Rightarrow>
          issuedAt < expiresAt \<and> expiresAt - issuedAt \<le> Fin 120000
      | _ \<Rightarrow> False)"

definition canRetryInvalidAuthorization :: guard where
  "canRetryInvalidAuthorization c e =
     (case e of
        AUTHORIZATION_READY _ _ \<Rightarrow>
          below (authorization (attempts c)) (authorization (retryLimits c))
      | _ \<Rightarrow> False)"

definition shouldRetrySchedule :: guard where
  "shouldRetrySchedule c e =
     (case e of
        SCHEDULE_FAILED x \<Rightarrow> retryable x \<and> below (schedule (attempts c)) (schedule (retryLimits c))
      | _ \<Rightarrow> False)"

definition shouldRetryMarketData :: guard where
  "shouldRetryMarketData c e =
     (case e of
        MARKET_DATA_FAILED x \<Rightarrow>
          retryable x \<and> below (marketData (attempts c)) (marketData (retryLimits c))
      | _ \<Rightarrow> False)"

definition canRetryStaleMarketData :: guard where
  "canRetryStaleMarketData c e = below (marketData (attempts c)) (marketData (retryLimits c))"

definition shouldRetryAuthorization :: guard where
  "shouldRetryAuthorization c e =
     (case e of
        AUTHORIZATION_FAILED x \<Rightarrow>
          retryable x \<and> below (authorization (attempts c)) (authorization (retryLimits c))
      | _ \<Rightarrow> False)"

definition shouldRetryExecution :: guard where
  "shouldRetryExecution c e =
     (case e of
        ORDER_REJECTED x \<Rightarrow>
          retryable x \<and> below (execution (attempts c)) (execution (retryLimits c))
      | _ \<Rightarrow> False)"

definition shouldRetryReconciliation :: guard where
  "shouldRetryReconciliation c e =
     (case e of
        RECONCILIATION_FAILED x \<Rightarrow>
          retryable x \<and> below (reconciliation (attempts c)) (reconciliation (retryLimits c))
      | _ \<Rightarrow> False)"

definition shouldRetryAccountReconciliation :: guard where
  "shouldRetryAccountReconciliation c e =
     (case e of
        ACCOUNT_RECONCILIATION_FAILED x \<Rightarrow>
          retryable x \<and> below (reconciliation (attempts c)) (reconciliation (retryLimits c))
      | _ \<Rightarrow> False)"

definition shouldRetryPersistence :: guard where
  "shouldRetryPersistence c e =
     (case e of
        PERSIST_FAILED x \<Rightarrow>
          retryable x \<and> below (persistence (attempts c)) (persistence (retryLimits c))
      | _ \<Rightarrow> False)"

definition shutdownRequested :: "tradingCycleContext \<Rightarrow> bool" where
  "shutdownRequested c \<longleftrightarrow> shutdownMode c \<noteq> NoShutdown"

definition shouldStopAfterPersistence :: guard where
  "shouldStopAfterPersistence c e \<longleftrightarrow> shutdownMode c = StopShutdown"

definition shouldHaltAfterPersistence :: guard where
  "shouldHaltAfterPersistence c e \<longleftrightarrow>
     (shutdownMode c = KillSwitchShutdown \<and> killCompleted c) \<or> shutdownMode c = PermissionRevokedShutdown"

definition shouldExecuteKillAfterPersistence :: guard where
  "shouldExecuteKillAfterPersistence c e \<longleftrightarrow>
     shutdownMode c = KillSwitchShutdown \<and> \<not> killCompleted c"

definition shouldFailAfterPersistence :: guard where
  "shouldFailAfterPersistence c e \<longleftrightarrow> terminalFailure c"

lemmas tc_guard_defs [guard_simps] =
  canStart_def canControl_guard_def isNewAlarm_def isDuplicateDecisionCandle_def
  isFreshMarketData_def hasAllocatedOrders_def hasTradePermission_def authorizationIsUsable_def
  canRetryInvalidAuthorization_def shouldRetrySchedule_def shouldRetryMarketData_def
  canRetryStaleMarketData_def shouldRetryAuthorization_def shouldRetryExecution_def
  shouldRetryReconciliation_def shouldRetryAccountReconciliation_def shouldRetryPersistence_def
  shutdownRequested_def shouldStopAfterPersistence_def shouldHaltAfterPersistence_def
  shouldExecuteKillAfterPersistence_def shouldFailAfterPersistence_def

subsection \<open>Actions\<close>

definition initializeRun :: action where
  "initializeRun c e =
     (case e of
        START_REQUESTED p \<Rightarrow>
          c\<lparr>permissions := p, marketAdmission := None, shutdownMode := NoShutdown,
            killCompleted := False, outcome := OutIdle, terminalFailure := False,
            lastError := None, attempts := (attempts c)\<lparr>schedule := 0\<rparr>\<rparr>
      | _ \<Rightarrow> c)"

definition recordStartDenied :: action where
  "recordStartDenied c e =
     (case e of
        START_REQUESTED p \<Rightarrow>
          c\<lparr>lastError := Some (mkError PhSchedule
              (if canControl p then TradePermissionRequired else ControlPermissionRequired)
              False)\<rparr>
      | _ \<Rightarrow> c)"

definition recordControlDenied :: action where
  "recordControlDenied c e =
     c\<lparr>lastError := Some (mkError PhCancellation ControlPermissionRequired False)\<rparr>"

definition recordSchedule :: action where
  "recordSchedule c e =
     (case e of
        SCHEDULE_SUCCEEDED n \<Rightarrow>
          c\<lparr>nextWakeAt := Some n, attempts := (attempts c)\<lparr>schedule := 0\<rparr>\<rparr>
      | _ \<Rightarrow> c)"

definition beginCycle :: action where
  "beginCycle c e =
     (case e of
        ALARM_FIRED i t \<Rightarrow>
          c\<lparr>cycleId := Some i, triggeredAt := Some t, marketAdmission := None,
            nextWakeAt := None, marketSnapshotId := None, accountSnapshotId := None,
            indicatorsId := None, signalsId := None, decisionId := None,
            clientOrderId := None, exchangeOrderId := None, orderMayBeInFlight := False,
            authorizationExpiresAt := None, killCompleted := False, outcome := OutRunning,
            terminalFailure := False, lastError := None, attempts := emptyAttempts\<rparr>
      | _ \<Rightarrow> c)"

definition recordDuplicateAlarm :: action where
  "recordDuplicateAlarm c e =
     c\<lparr>lastError := Some (mkError PhSchedule DuplicateAlarm False)\<rparr>"

definition recordMarketData :: action where
  "recordMarketData c e =
     (case e of
        MARKET_DATA_READY snapshotId closedAt evaluatedAt \<Rightarrow>
          c\<lparr>marketSnapshotId := Some snapshotId,
            marketAdmission := Some
              \<lparr>adm_cycleId = (case cycleId c of None \<Rightarrow> [] | Some i \<Rightarrow> i),
               adm_candleClosedAt = closedAt, adm_evaluatedAt = evaluatedAt\<rparr>,
            lastDecisionCandleClosedAt := Some closedAt,
            attempts := (attempts c)\<lparr>marketData := 0\<rparr>\<rparr>
      | _ \<Rightarrow> c)"

definition recordAccountReconciliation :: action where
  "recordAccountReconciliation c e =
     (case e of
        ACCOUNT_RECONCILED snapshotId \<Rightarrow>
          c\<lparr>accountSnapshotId := Some snapshotId,
            attempts := (attempts c)\<lparr>reconciliation := 0\<rparr>\<rparr>
      | _ \<Rightarrow> c)"

definition recordDuplicateMarketData :: action where
  "recordDuplicateMarketData c e =
     (case e of
        MARKET_DATA_READY snapshotId _ _ \<Rightarrow>
          c\<lparr>marketSnapshotId := Some snapshotId, attempts := (attempts c)\<lparr>marketData := 0\<rparr>\<rparr>
      | _ \<Rightarrow> c)"

definition recordStaleMarketData :: action where
  "recordStaleMarketData c e =
     c\<lparr>lastError := Some (mkError PhMarketData StaleMarketData True),
       attempts := (attempts c)\<lparr>marketData := marketData (attempts c) + 1\<rparr>\<rparr>"

definition recordIndicators :: action where
  "recordIndicators c e =
     (case e of INDICATORS_COMPUTED i \<Rightarrow> c\<lparr>indicatorsId := Some i\<rparr> | _ \<Rightarrow> c)"

definition recordSignals :: action where
  "recordSignals c e =
     (case e of STRATEGIES_EVALUATED i \<Rightarrow> c\<lparr>signalsId := Some i\<rparr> | _ \<Rightarrow> c)"

definition recordDecision :: action where
  "recordDecision c e =
     (case e of ALLOCATION_COMPLETED i _ \<Rightarrow> c\<lparr>decisionId := Some i\<rparr> | _ \<Rightarrow> c)"

definition markNoAction :: action where
  "markNoAction c e = c\<lparr>outcome := OutNoAction\<rparr>"

definition markRiskRejected :: action where
  "markRiskRejected c e = c\<lparr>outcome := OutRiskRejected\<rparr>"

definition recordOrderIntent :: action where
  "recordOrderIntent c e =
     (case e of ORDER_INTENT_PERSISTED i \<Rightarrow> c\<lparr>clientOrderId := Some i\<rparr> | _ \<Rightarrow> c)"

definition recordAuthorization :: action where
  "recordAuthorization c e =
     (case e of
        AUTHORIZATION_READY expiresAt _ \<Rightarrow> c\<lparr>authorizationExpiresAt := Some expiresAt\<rparr>
      | _ \<Rightarrow> c)"

definition recordInvalidAuthorization :: action where
  "recordInvalidAuthorization c e =
     c\<lparr>authorizationExpiresAt := None,
       lastError := Some (mkError PhAuthorization AuthorizationExpired True)\<rparr>"

definition markOrderSubmissionStarted :: action where
  "markOrderSubmissionStarted c e = c\<lparr>orderMayBeInFlight := True\<rparr>"

definition recordOrderConfirmed :: action where
  "recordOrderConfirmed c e =
     (case e of
        ORDER_CONFIRMED i \<Rightarrow>
          c\<lparr>exchangeOrderId := Some i, orderMayBeInFlight := False,
            outcome := OutOrderConfirmed\<rparr>
      | _ \<Rightarrow> c)"

definition recordOrderRejected :: action where
  "recordOrderRejected c e = c\<lparr>orderMayBeInFlight := False, outcome := OutOrderRejected\<rparr>"

definition recordOrderNoLongerNeeded :: action where
  "recordOrderNoLongerNeeded c e = c\<lparr>orderMayBeInFlight := False, outcome := OutNoAction\<rparr>"

definition recordProtectionFailure :: action where
  "recordProtectionFailure c e =
     (case e of
        ORDER_PROTECTION_FAILED i x \<Rightarrow>
          c\<lparr>exchangeOrderId := i, orderMayBeInFlight := False, outcome := OutFailed,
            terminalFailure := True, lastError := Some x\<rparr>
      | _ \<Rightarrow> c)"

definition recordReconciliation :: action where
  "recordReconciliation c e =
     (case e of
        ORDER_RECONCILED i \<Rightarrow>
          c\<lparr>exchangeOrderId := i, orderMayBeInFlight := False,
            outcome := (if i = None then OutOrderRejected else OutOrderConfirmed)\<rparr>
      | _ \<Rightarrow> c)"

definition requestStop :: action where
  "requestStop c e = c\<lparr>shutdownMode := StopShutdown\<rparr>"

definition requestKillSwitch :: action where
  "requestKillSwitch c e =
     (case e of
        KILL_SWITCH_ENGAGED _ controlId \<Rightarrow>
          c\<lparr>shutdownMode := KillSwitchShutdown, killRequestId := Some controlId,
            killCompleted := False\<rparr>
      | _ \<Rightarrow> c)"

definition revokePermission :: action where
  "revokePermission c e =
     c\<lparr>permissions := (permissions c)\<lparr>canTrade := False\<rparr>,
       shutdownMode := PermissionRevokedShutdown,
       lastError := Some (mkError PhExecution PermissionRevoked False)\<rparr>"

definition markCancelled :: action where
  "markCancelled c e =
     c\<lparr>outcome := OutCancelled, orderMayBeInFlight := False,
       killCompleted := (shutdownMode c = KillSwitchShutdown \<or> killCompleted c)\<rparr>"

definition recordError :: action where
  "recordError c e = c\<lparr>lastError := eventError e\<rparr>"

definition markFailed :: action where
  "markFailed c e = c\<lparr>outcome := OutFailed\<rparr>"

definition markTerminalFailure :: action where
  "markTerminalFailure c e =
     c\<lparr>outcome := OutFailed, terminalFailure := True, orderMayBeInFlight := False\<rparr>"

definition incrementScheduleAttempt :: action where
  "incrementScheduleAttempt c e =
     c\<lparr>attempts := (attempts c)\<lparr>schedule := schedule (attempts c) + 1\<rparr>\<rparr>"

definition incrementMarketDataAttempt :: action where
  "incrementMarketDataAttempt c e =
     c\<lparr>attempts := (attempts c)\<lparr>marketData := marketData (attempts c) + 1\<rparr>\<rparr>"

definition incrementAuthorizationAttempt :: action where
  "incrementAuthorizationAttempt c e =
     c\<lparr>attempts := (attempts c)\<lparr>authorization := authorization (attempts c) + 1\<rparr>\<rparr>"

definition incrementExecutionAttempt :: action where
  "incrementExecutionAttempt c e =
     c\<lparr>attempts := (attempts c)\<lparr>execution := execution (attempts c) + 1\<rparr>,
       orderMayBeInFlight := False\<rparr>"

definition incrementReconciliationAttempt :: action where
  "incrementReconciliationAttempt c e =
     c\<lparr>attempts := (attempts c)\<lparr>reconciliation := reconciliation (attempts c) + 1\<rparr>\<rparr>"

definition incrementPersistenceAttempt :: action where
  "incrementPersistenceAttempt c e =
     c\<lparr>attempts := (attempts c)\<lparr>persistence := persistence (attempts c) + 1\<rparr>\<rparr>"

definition clearTransientAuthorization :: action where
  "clearTransientAuthorization c e = c\<lparr>authorizationExpiresAt := None\<rparr>"

definition resetMachine :: action where
  "resetMachine c e =
     c\<lparr>permissions := \<lparr>canControl = False, canTrade = False\<rparr>, cycleId := None,
       triggeredAt := None, nextWakeAt := None, marketSnapshotId := None,
       marketAdmission := None, accountSnapshotId := None, indicatorsId := None,
       signalsId := None, decisionId := None, clientOrderId := None,
       exchangeOrderId := None, orderMayBeInFlight := False, authorizationExpiresAt := None,
       shutdownMode := NoShutdown, killRequestId := None, killCompleted := False,
       outcome := OutIdle, terminalFailure := False, lastError := None,
       attempts := emptyAttempts, retryLimits := retryLimits c\<rparr>"

lemmas tc_action_defs [machine_simps] =
  initializeRun_def recordStartDenied_def recordControlDenied_def recordSchedule_def
  beginCycle_def recordDuplicateAlarm_def recordMarketData_def recordAccountReconciliation_def
  recordDuplicateMarketData_def recordStaleMarketData_def recordIndicators_def
  recordSignals_def recordDecision_def markNoAction_def markRiskRejected_def
  recordOrderIntent_def recordAuthorization_def recordInvalidAuthorization_def
  markOrderSubmissionStarted_def recordOrderConfirmed_def recordOrderRejected_def
  recordOrderNoLongerNeeded_def recordProtectionFailure_def recordReconciliation_def
  requestStop_def requestKillSwitch_def revokePermission_def markCancelled_def recordError_def
  markFailed_def markTerminalFailure_def incrementScheduleAttempt_def
  incrementMarketDataAttempt_def incrementAuthorizationAttempt_def
  incrementExecutionAttempt_def incrementReconciliationAttempt_def
  incrementPersistenceAttempt_def clearTransientAuthorization_def resetMachine_def

subsection \<open>States and transitions\<close>

datatype tradingCycleState =
  Stopped
| Scheduling
| RetryingSchedule
| Waiting
| ReconcilingAccount
| RetryingAccountReconciliation
| FetchingMarketData
| RetryingMarketData
| ComputingIndicators
| EvaluatingStrategies
| Allocating
| CheckingRisk
| PersistingOrderIntent
| Authorizing
| RetryingAuthorization
| SubmittingOrder
| RetryingExecution
| ReconcilingOrder
| RetryingReconciliation
| Cancelling
| Persisting
| RetryingPersistence
| Failed
| Halted

type_synonym rows =
  "tradingCycleEvent \<Rightarrow> (tradingCycleState, tradingCycleEvent, tradingCycleContext) transition list"

text \<open>The handlers of the root state.\<close>

definition root_rows :: rows where
  "root_rows e =
     (case e of
        STOP_REQUESTED _ \<Rightarrow> [stay_if canControl_guard [requestStop], stay [recordControlDenied]]
      | KILL_SWITCH_ENGAGED _ _ \<Rightarrow>
          [stay_if canControl_guard [requestKillSwitch], stay [recordControlDenied]]
      | PERMISSION_REVOKED \<Rightarrow> [stay [revokePermission]]
      | _ \<Rightarrow> [])"

definition stopped_rows :: rows where
  "stopped_rows e =
     (case e of
        START_REQUESTED _ \<Rightarrow>
          [goto_if canStart Scheduling [initializeRun], stay [recordStartDenied]]
      | KILL_SWITCH_ENGAGED _ _ \<Rightarrow>
          [goto_if canControl_guard Cancelling [requestKillSwitch], stay [recordControlDenied]]
      | _ \<Rightarrow> [])"

definition scheduling_rows :: rows where
  "scheduling_rows e =
     (case e of
        SCHEDULE_SUCCEEDED _ \<Rightarrow> [goto Waiting [recordSchedule]]
      | SCHEDULE_FAILED _ \<Rightarrow>
          [goto_if shouldRetrySchedule RetryingSchedule [recordError, incrementScheduleAttempt],
           goto Failed [recordError, markFailed]]
      | _ \<Rightarrow> [])"

definition retryingSchedule_rows :: rows where
  "retryingSchedule_rows e =
     (case e of
        RETRY_TIMER_ELAPSED \<Rightarrow> [goto Scheduling []]
      | _ \<Rightarrow> [])"

definition waiting_rows :: rows where
  "waiting_rows e =
     (case e of
        ALARM_FIRED _ _ \<Rightarrow>
          [goto_if isNewAlarm ReconcilingAccount [beginCycle], stay [recordDuplicateAlarm]]
      | _ \<Rightarrow> [])"

definition reconcilingAccount_rows :: rows where
  "reconcilingAccount_rows e =
     (case e of
        ACCOUNT_RECONCILED _ \<Rightarrow> [goto FetchingMarketData [recordAccountReconciliation]]
      | ACCOUNT_RECONCILIATION_FAILED _ \<Rightarrow>
          [goto_if shouldRetryAccountReconciliation RetryingAccountReconciliation
             [recordError, incrementReconciliationAttempt],
           goto Persisting [recordError, markFailed]]
      | _ \<Rightarrow> [])"

definition retryingAccountReconciliation_rows :: rows where
  "retryingAccountReconciliation_rows e =
     (case e of
        RETRY_TIMER_ELAPSED \<Rightarrow> [goto ReconcilingAccount []]
      | _ \<Rightarrow> [])"

definition fetchingMarketData_rows :: rows where
  "fetchingMarketData_rows e =
     (case e of
        MARKET_DATA_READY _ _ _ \<Rightarrow>
          [goto_if isDuplicateDecisionCandle Persisting [recordDuplicateMarketData, markNoAction],
           goto_if isFreshMarketData ComputingIndicators [recordMarketData],
           goto_if canRetryStaleMarketData RetryingMarketData [recordStaleMarketData],
           goto Persisting [recordStaleMarketData, markNoAction]]
      | MARKET_DATA_FAILED _ \<Rightarrow>
          [goto_if shouldRetryMarketData RetryingMarketData
             [recordError, incrementMarketDataAttempt],
           goto Persisting [recordError, markFailed]]
      | _ \<Rightarrow> [])"

definition retryingMarketData_rows :: rows where
  "retryingMarketData_rows e =
     (case e of
        RETRY_TIMER_ELAPSED \<Rightarrow> [goto FetchingMarketData []]
      | _ \<Rightarrow> [])"

definition computingIndicators_rows :: rows where
  "computingIndicators_rows e =
     (case e of
        INDICATORS_COMPUTED _ \<Rightarrow> [goto EvaluatingStrategies [recordIndicators]]
      | INDICATORS_FAILED _ \<Rightarrow> [goto Persisting [recordError, markFailed]]
      | _ \<Rightarrow> [])"

definition evaluatingStrategies_rows :: rows where
  "evaluatingStrategies_rows e =
     (case e of
        STRATEGIES_EVALUATED _ \<Rightarrow> [goto Allocating [recordSignals]]
      | STRATEGIES_FAILED _ \<Rightarrow> [goto Persisting [recordError, markFailed]]
      | _ \<Rightarrow> [])"

definition allocating_rows :: rows where
  "allocating_rows e =
     (case e of
        ALLOCATION_COMPLETED _ _ \<Rightarrow>
          [goto_if hasAllocatedOrders CheckingRisk [recordDecision],
           goto Persisting [recordDecision, markNoAction]]
      | ALLOCATION_FAILED _ \<Rightarrow> [goto Persisting [recordError, markFailed]]
      | _ \<Rightarrow> [])"

definition checkingRisk_rows :: rows where
  "checkingRisk_rows e =
     (case e of
        RISK_APPROVED \<Rightarrow>
          [goto_if hasTradePermission PersistingOrderIntent [], goto Cancelling [revokePermission]]
      | RISK_REJECTED \<Rightarrow> [goto Persisting [markRiskRejected]]
      | RISK_FAILED _ \<Rightarrow> [goto Persisting [recordError, markFailed]]
      | _ \<Rightarrow> [])"

definition persistingOrderIntent_rows :: rows where
  "persistingOrderIntent_rows e =
     (case e of
        ORDER_INTENT_PERSISTED _ \<Rightarrow> [goto Authorizing [recordOrderIntent]]
      | ORDER_INTENT_FAILED _ \<Rightarrow> [goto Persisting [recordError, markFailed]]
      | _ \<Rightarrow> [])"

definition authorizing_rows :: rows where
  "authorizing_rows e =
     (case e of
        AUTHORIZATION_READY _ _ \<Rightarrow>
          [goto_if authorizationIsUsable SubmittingOrder
             [recordAuthorization, markOrderSubmissionStarted],
           goto_if canRetryInvalidAuthorization RetryingAuthorization
             [recordInvalidAuthorization, incrementAuthorizationAttempt],
           goto Persisting [recordInvalidAuthorization, markFailed]]
      | AUTHORIZATION_FAILED _ \<Rightarrow>
          [goto_if shouldRetryAuthorization RetryingAuthorization
             [recordError, incrementAuthorizationAttempt],
           goto Persisting [recordError, markFailed]]
      | _ \<Rightarrow> [])"

definition retryingAuthorization_rows :: rows where
  "retryingAuthorization_rows e =
     (case e of
        RETRY_TIMER_ELAPSED \<Rightarrow> [goto Authorizing []]
      | _ \<Rightarrow> [])"

definition submittingOrder_rows :: rows where
  "submittingOrder_rows e =
     (case e of
        ORDER_CONFIRMED _ \<Rightarrow> [goto Persisting [recordOrderConfirmed]]
      | ORDER_REJECTED _ \<Rightarrow>
          [goto_if shouldRetryExecution RetryingExecution
             [recordError, incrementExecutionAttempt, clearTransientAuthorization],
           goto Persisting [recordError, recordOrderRejected]]
      | ORDER_NO_LONGER_NEEDED \<Rightarrow> [goto Persisting [recordOrderNoLongerNeeded]]
      | ORDER_OUTCOME_UNKNOWN _ \<Rightarrow> [goto ReconcilingOrder [recordError]]
      | ORDER_PROTECTION_FAILED _ _ \<Rightarrow> [goto Persisting [recordProtectionFailure]]
      | _ \<Rightarrow> [])"

definition retryingExecution_rows :: rows where
  "retryingExecution_rows e =
     (case e of
        RETRY_TIMER_ELAPSED \<Rightarrow> [goto Authorizing []]
      | _ \<Rightarrow> [])"

definition reconcilingOrder_rows :: rows where
  "reconcilingOrder_rows e =
     (case e of
        ORDER_RECONCILED _ \<Rightarrow> [goto Persisting [recordReconciliation]]
      | RECONCILIATION_FAILED _ \<Rightarrow>
          [goto_if shouldRetryReconciliation RetryingReconciliation
             [recordError, incrementReconciliationAttempt],
           goto Failed [recordError, markFailed]]
      | ORDER_PROTECTION_FAILED _ _ \<Rightarrow> [goto Persisting [recordProtectionFailure]]
      | ORDER_NO_LONGER_NEEDED \<Rightarrow> [goto Persisting [recordOrderNoLongerNeeded]]
      | _ \<Rightarrow> [])"

definition retryingReconciliation_rows :: rows where
  "retryingReconciliation_rows e =
     (case e of
        RETRY_TIMER_ELAPSED \<Rightarrow> [goto ReconcilingOrder []]
      | _ \<Rightarrow> [])"

definition cancelling_rows :: rows where
  "cancelling_rows e =
     (case e of
        EFFECT_CANCELLED \<Rightarrow> [goto Persisting [markCancelled]]
      | EFFECT_CANCEL_FAILED _ \<Rightarrow> [goto Persisting [recordError, markTerminalFailure]]
      | _ \<Rightarrow> [])"

definition persisting_rows :: rows where
  "persisting_rows e =
     (case e of
        PERSIST_SUCCEEDED \<Rightarrow>
          [goto_if shouldFailAfterPersistence Failed [],
           goto_if shouldStopAfterPersistence Stopped [],
           goto_if shouldExecuteKillAfterPersistence Cancelling [],
           goto_if shouldHaltAfterPersistence Halted [],
           goto Scheduling []]
      | PERSIST_FAILED _ \<Rightarrow>
          [goto_if shouldRetryPersistence RetryingPersistence
             [recordError, incrementPersistenceAttempt],
           goto Failed [recordError, markFailed]]
      | _ \<Rightarrow> [])"

definition retryingPersistence_rows :: rows where
  "retryingPersistence_rows e =
     (case e of
        RETRY_TIMER_ELAPSED \<Rightarrow> [goto Persisting []]
      | _ \<Rightarrow> [])"

definition failed_rows :: rows where
  "failed_rows e =
     (case e of
        RESET _ \<Rightarrow> [goto_if canControl_guard Stopped [resetMachine], stay [recordControlDenied]]
      | _ \<Rightarrow> [])"

definition halted_rows :: rows where
  "halted_rows e =
     (case e of
        RESET _ \<Rightarrow> [goto_if canControl_guard Stopped [resetMachine], stay [recordControlDenied]]
      | _ \<Rightarrow> [])"

primrec tradingCycle_on :: "tradingCycleState \<Rightarrow> rows" where
  "tradingCycle_on Stopped = stopped_rows"
| "tradingCycle_on Scheduling = scheduling_rows"
| "tradingCycle_on RetryingSchedule = retryingSchedule_rows"
| "tradingCycle_on Waiting = waiting_rows"
| "tradingCycle_on ReconcilingAccount = reconcilingAccount_rows"
| "tradingCycle_on RetryingAccountReconciliation = retryingAccountReconciliation_rows"
| "tradingCycle_on FetchingMarketData = fetchingMarketData_rows"
| "tradingCycle_on RetryingMarketData = retryingMarketData_rows"
| "tradingCycle_on ComputingIndicators = computingIndicators_rows"
| "tradingCycle_on EvaluatingStrategies = evaluatingStrategies_rows"
| "tradingCycle_on Allocating = allocating_rows"
| "tradingCycle_on CheckingRisk = checkingRisk_rows"
| "tradingCycle_on PersistingOrderIntent = persistingOrderIntent_rows"
| "tradingCycle_on Authorizing = authorizing_rows"
| "tradingCycle_on RetryingAuthorization = retryingAuthorization_rows"
| "tradingCycle_on SubmittingOrder = submittingOrder_rows"
| "tradingCycle_on RetryingExecution = retryingExecution_rows"
| "tradingCycle_on ReconcilingOrder = reconcilingOrder_rows"
| "tradingCycle_on RetryingReconciliation = retryingReconciliation_rows"
| "tradingCycle_on Cancelling = cancelling_rows"
| "tradingCycle_on Persisting = persisting_rows"
| "tradingCycle_on RetryingPersistence = retryingPersistence_rows"
| "tradingCycle_on Failed = failed_rows"
| "tradingCycle_on Halted = halted_rows"

text \<open>\<open>always\<close>: a requested shutdown interrupts every state before a submission.\<close>

primrec tradingCycle_always :: "tradingCycleState
    \<Rightarrow> (tradingCycleState, tradingCycleContext) eventless list" where
  "tradingCycle_always Stopped = []"
| "tradingCycle_always Scheduling = [Always shutdownRequested Cancelling []]"
| "tradingCycle_always RetryingSchedule = [Always shutdownRequested Cancelling []]"
| "tradingCycle_always Waiting = [Always shutdownRequested Cancelling []]"
| "tradingCycle_always ReconcilingAccount = [Always shutdownRequested Cancelling []]"
| "tradingCycle_always RetryingAccountReconciliation = [Always shutdownRequested Cancelling []]"
| "tradingCycle_always FetchingMarketData = [Always shutdownRequested Cancelling []]"
| "tradingCycle_always RetryingMarketData = [Always shutdownRequested Cancelling []]"
| "tradingCycle_always ComputingIndicators = [Always shutdownRequested Cancelling []]"
| "tradingCycle_always EvaluatingStrategies = [Always shutdownRequested Cancelling []]"
| "tradingCycle_always Allocating = [Always shutdownRequested Cancelling []]"
| "tradingCycle_always CheckingRisk = [Always shutdownRequested Cancelling []]"
| "tradingCycle_always PersistingOrderIntent = [Always shutdownRequested Cancelling []]"
| "tradingCycle_always Authorizing = [Always shutdownRequested Cancelling []]"
| "tradingCycle_always RetryingAuthorization = [Always shutdownRequested Cancelling []]"
| "tradingCycle_always SubmittingOrder = [Always shutdownRequested ReconcilingOrder []]"
| "tradingCycle_always RetryingExecution = [Always shutdownRequested Cancelling []]"
| "tradingCycle_always ReconcilingOrder = []"
| "tradingCycle_always RetryingReconciliation = []"
| "tradingCycle_always Cancelling = []"
| "tradingCycle_always Persisting = []"
| "tradingCycle_always RetryingPersistence = []"
| "tradingCycle_always Failed = []"
| "tradingCycle_always Halted = []"

definition tradingCycleMachine ::
    "(tradingCycleState, tradingCycleEvent, tradingCycleContext) machine" where
  "tradingCycleMachine =
     \<lparr>m_initial = Stopped, m_on = tradingCycle_on, m_outer = (\<lambda>_. root_rows),
      m_always = tradingCycle_always, m_entry = (\<lambda>_. []), m_final = (\<lambda>_. False)\<rparr>"

text \<open>The context a machine is created with; absent retry limits take the defaults.\<close>

definition override :: "number option \<Rightarrow> number \<Rightarrow> number" where
  "override x d = (case x of None \<Rightarrow> d | Some y \<Rightarrow> y)"

definition tradingCycle_context :: "tradingCycleInput \<Rightarrow> tradingCycleContext" where
  "tradingCycle_context i =
     \<lparr>agentId = in_agentId i, strategyIds = in_strategyIds i,
      permissions = \<lparr>canControl = False, canTrade = False\<rparr>, cycleId = None,
      triggeredAt = None, nextWakeAt = None, marketSnapshotId = None,
      accountSnapshotId = None,
      lastDecisionCandleClosedAt = in_lastDecisionCandleClosedAt i,
      marketAdmission = None, indicatorsId = None, signalsId = None, decisionId = None,
      clientOrderId = None, exchangeOrderId = None, orderMayBeInFlight = False,
      authorizationExpiresAt = None, shutdownMode = NoShutdown, killRequestId = None,
      killCompleted = False, outcome = OutIdle, terminalFailure = False, lastError = None,
      maxMarketStalenessMs = override (in_maxMarketStalenessMs i) (Fin 90000),
      retryLimits =
        \<lparr>schedule = override (schedule (in_retryLimits i)) (schedule defaultRetryLimits),
         marketData = override (marketData (in_retryLimits i)) (marketData defaultRetryLimits),
         authorization =
           override (authorization (in_retryLimits i)) (authorization defaultRetryLimits),
         execution = override (execution (in_retryLimits i)) (execution defaultRetryLimits),
         reconciliation =
           override (reconciliation (in_retryLimits i)) (reconciliation defaultRetryLimits),
         persistence =
           override (persistence (in_retryLimits i)) (persistence defaultRetryLimits)\<rparr>,
      attempts = emptyAttempts\<rparr>"

lemmas tc_row_defs [machine_simps] =
  root_rows_def stopped_rows_def scheduling_rows_def retryingSchedule_rows_def
  waiting_rows_def reconcilingAccount_rows_def retryingAccountReconciliation_rows_def
  fetchingMarketData_rows_def retryingMarketData_rows_def computingIndicators_rows_def
  evaluatingStrategies_rows_def allocating_rows_def checkingRisk_rows_def
  persistingOrderIntent_rows_def authorizing_rows_def retryingAuthorization_rows_def
  submittingOrder_rows_def retryingExecution_rows_def reconcilingOrder_rows_def
  retryingReconciliation_rows_def cancelling_rows_def persisting_rows_def
  retryingPersistence_rows_def failed_rows_def halted_rows_def

lemma tc_machine_simps [simp]:
  "m_initial tradingCycleMachine = Stopped" "m_on tradingCycleMachine = tradingCycle_on"
  "m_outer tradingCycleMachine = (\<lambda>_. root_rows)"
  "m_always tradingCycleMachine = tradingCycle_always"
  "m_entry tradingCycleMachine = (\<lambda>_. [])" "m_final tradingCycleMachine = (\<lambda>_. False)"
  by (simp_all add: tradingCycleMachine_def)

interpretation tc: shallow_machine tradingCycleMachine
proof
  fix s :: "(tradingCycleState, tradingCycleContext) snapshot" and t
  assume "eselect tradingCycleMachine s = Some t"
  then show "eselect tradingCycleMachine (estep tradingCycleMachine s t) = None"
    by (cases "fst s") (auto simp: eselect_def estep_def enter_def split: if_splits)
qed

interpretation tc_actor: xstate_actor tradingCycleMachine
  "sc_start tradingCycleMachine" "sc_send tradingCycleMachine"
  by unfold_locales (rule tc.runtime_sc)

end
