(* ===== verification/TradingCycleProps.thy ===== *)
theory TradingCycleProps
  imports TradingCycle "HOL-Library.Sublist"
begin

text \<open>
  Invariants of the trading-cycle machine over every sequence of events: freshness of the
  admitted market data, the order pipeline, orders in flight, bounded retries, and what a
  kill request guarantees.  Each is one lemma about a single event, proved by going
  through the rows of the table, and lifted to runs by \<open>tc_actor.play_invariant\<close>.
\<close>

type_synonym tc_snapshot = "(tradingCycleState, tradingCycleContext) snapshot"

abbreviation tc_send :: "tc_snapshot \<Rightarrow> tradingCycleEvent \<Rightarrow> tc_snapshot" where
  "tc_send \<equiv> sc_send tradingCycleMachine"

abbreviation tc_boot :: "tradingCycleInput \<Rightarrow> tc_snapshot" where
  "tc_boot i \<equiv> sc_start tradingCycleMachine (tradingCycle_context i)"

subsection \<open>Automation for one event\<close>

text \<open>Where a requested shutdown takes a state at once.\<close>

definition interrupt :: "tradingCycleState \<Rightarrow> tradingCycleState" where
  "interrupt st =
     (if tradingCycle_always st = [] then st
      else if st = SubmittingOrder then ReconcilingOrder else Cancelling)"

lemma tc_settle: "sc_settle tradingCycleMachine (st, c) =
    (if shutdownMode c = NoShutdown then st else interrupt st, c)"
  by (cases st) (simp_all add: sc_settle_def eselect_def estep_def enter_def
    shutdownRequested_def interrupt_def)

lemma tc_boot_eq: "tc_boot i = (Stopped, tradingCycle_context i)"
  by (simp add: sc_start_def enter_def tc_settle tradingCycle_context_def)

text \<open>The outcome of one event: the effect of the selected row, then the interruption.\<close>

definition effect_of :: "tradingCycleState \<Rightarrow> tradingCycleContext \<Rightarrow> tradingCycleEvent
    \<Rightarrow> (tradingCycleState, tradingCycleEvent, tradingCycleContext) transition \<Rightarrow> tc_snapshot" where
  "effect_of st c e t =
     sc_settle tradingCycleMachine
       (case target_of t of None \<Rightarrow> st | Some st' \<Rightarrow> st', foldl (\<lambda>c a. a c e) c (actions_of t))"

lemma tc_send_rule:
  assumes skip: "P (sc_settle tradingCycleMachine (st, c))"
    and row: "\<And>t. Some t = find (\<lambda>t. guard_of t c e) (tradingCycle_on st e @ root_rows e)
      \<Longrightarrow> P (effect_of st c e t)"
  shows "P (tc_send (st, c) e)"
proof (cases "find (\<lambda>t. guard_of t c e) (tradingCycle_on st e @ root_rows e)")
  case None
  with skip show ?thesis by (simp add: sc_send_def select_def)
next
  case (Some t)
  with row [of t] show ?thesis
    by (simp add: effect_of_def sc_send_def select_def microstep_def enter_def Let_def
        split: option.splits)
qed

text \<open>
  A fact about one event goes through the table: the selected row is the first enabled one,
  so \<open>tc_rows\<close> leaves one goal per row, with the negated guards of the rows before it.
\<close>

lemma row_selectE:
  assumes "Some t = (if g then x else y)"
  obtains (enabled) g "Some t = x" | (disabled) "\<not> g" "Some t = y"
  using assms by (auto split: if_splits)

lemmas tc_rows =
  tradingCycle_on.simps tc_row_defs tradingCycleEvent.case append.simps find.simps if_True
  transition.sel option.inject option.distinct

lemmas tc_effects =
  effect_of_def transition.sel option.case foldl.simps tc_settle interrupt_def tc_action_defs

text \<open>A run from the start under any functions that satisfy the contract of the package.\<close>

lemma tc_runtime:
  assumes "xstate_runtime tradingCycleMachine init send"
  shows "init = sc_start tradingCycleMachine" "send = tc_send"
  using assms by (simp_all add: tc.runtime_iff)

lemma tc_play_invariant:
  assumes "xstate_runtime tradingCycleMachine init send"
    and "I (Stopped, tradingCycle_context i)"
    and "\<And>st c e. I (st, c) \<Longrightarrow> I (tc_send (st, c) e)"
  shows "I (play send (init (tradingCycle_context i)) es)"
  unfolding tc_runtime [OF assms(1)] tc_boot_eq
  by (rule tc_actor.play_invariant) (use assms(2,3) in \<open>auto simp del: split_paired_All\<close>)

subsection \<open>State after every event\<close>

definition tc_inflight :: "tc_snapshot \<Rightarrow> bool" where
  "tc_inflight s \<longleftrightarrow>
     (case s of (st, c) \<Rightarrow>
       (if st \<in> {SubmittingOrder, ReconcilingOrder, RetryingReconciliation} then orderMayBeInFlight c
        else orderMayBeInFlight c \<longrightarrow> st = Failed))"

lemma tc_inflight_send: "tc_inflight (st, c) \<Longrightarrow> tc_inflight (tc_send (st, c) e)"
  by (rule tc_send_rule, (cases st; simp add: tc_effects tc_inflight_def),
      (cases st; cases e), simp_all only: tc_rows, (safe elim!: row_selectE),
      simp_all add: tc_effects tc_inflight_def)

definition tc_permitted :: "tc_snapshot \<Rightarrow> bool" where
  "tc_permitted s \<longleftrightarrow>
     (case s of (st, c) \<Rightarrow>
       st \<notin> {Stopped, Failed, Halted} \<longrightarrow> shutdownMode c = NoShutdown \<longrightarrow>
       canControl (permissions c) \<and> canTrade (permissions c))"

lemma tc_permitted_send: "tc_permitted (st, c) \<Longrightarrow> tc_permitted (tc_send (st, c) e)"
  by (rule tc_send_rule, (cases st; simp add: tc_effects tc_permitted_def),
      (cases st; cases e), simp_all only: tc_rows, (safe elim!: row_selectE),
      simp_all add: tc_effects tc_permitted_def tc_guard_defs)

text \<open>No shutdown is pending in a state that one interrupts.\<close>

definition tc_quiet :: "tc_snapshot \<Rightarrow> bool" where
  "tc_quiet s \<longleftrightarrow> (tradingCycle_always (fst s) \<noteq> [] \<longrightarrow> shutdownMode (snd s) = NoShutdown)"

lemma tc_quiet_settle: "tc_quiet (sc_settle tradingCycleMachine s)"
  by (cases s; cases "fst s") (simp_all add: tc_settle tc_quiet_def interrupt_def)

lemma tc_quiet_send: "tc_quiet (tc_send s e)"
  by (simp add: sc_send_def tc_quiet_settle)

text \<open>Between the admission of market data and the end of the cycle.\<close>

definition decided_states :: "tradingCycleState set" where
  "decided_states =
     {ComputingIndicators, EvaluatingStrategies, Allocating, CheckingRisk,
      PersistingOrderIntent, Authorizing, RetryingAuthorization, SubmittingOrder,
      RetryingExecution, ReconcilingOrder, RetryingReconciliation}"

definition fresh_at :: "number \<Rightarrow> number \<Rightarrow> number \<Rightarrow> number \<Rightarrow> bool" where
  "fresh_at t x y m \<longleftrightarrow>
     isSafeInteger t \<and> Fin 0 \<le> t \<and> isSafeInteger x \<and> Fin 0 \<le> x \<and> isSafeInteger y \<and>
     t \<le> y \<and> x \<le> t \<and> y - x \<le> m"

definition tc_fresh :: "tc_snapshot \<Rightarrow> bool" where
  "tc_fresh s \<longleftrightarrow>
     (case s of (st, c) \<Rightarrow>
       (cycleId c = None \<longleftrightarrow> triggeredAt c = None) \<and>
       (st \<in> decided_states \<longrightarrow>
         (\<exists>i t x y. cycleId c = Some i \<and> triggeredAt c = Some t \<and>
            marketAdmission c =
              Some \<lparr>adm_cycleId = i, adm_candleClosedAt = x, adm_evaluatedAt = y\<rparr> \<and>
            lastDecisionCandleClosedAt c = Some x \<and> fresh_at t x y (maxMarketStalenessMs c))))"

lemma tc_fresh_send: "tc_fresh (st, c) \<Longrightarrow> tc_fresh (tc_send (st, c) e)"
  by (rule tc_send_rule, (cases st; simp add: tc_effects tc_fresh_def fresh_at_def decided_states_def),
      (cases st; cases e), simp_all only: tc_rows, (safe elim!: row_selectE),
      simp_all add: tc_effects tc_fresh_def fresh_at_def decided_states_def tc_guard_defs split: option.splits)

text \<open>What no event changes.\<close>

lemma tc_send_limits:
  "retryLimits (snd (tc_send (st, c) e)) = retryLimits c"
  by (rule tc_send_rule, (cases st; simp add: tc_effects),
      (cases st; cases e), simp_all only: tc_rows, (safe elim!: row_selectE),
      simp_all add: tc_effects)

lemma tc_send_staleness:
  "maxMarketStalenessMs (snd (tc_send (st, c) e)) = maxMarketStalenessMs c"
  by (rule tc_send_rule, (cases st; simp add: tc_effects),
      (cases st; cases e), simp_all only: tc_rows, (safe elim!: row_selectE),
      simp_all add: tc_effects)

subsection \<open>Bounded retries\<close>

text \<open>The limits as natural numbers, and the counters against them.\<close>

definition tc_bounded :: "nat retryCounts \<Rightarrow> tc_snapshot \<Rightarrow> bool" where
  "tc_bounded L s \<longleftrightarrow>
     (case s of (st, c) \<Rightarrow>
       retryLimits c = natural_limits L \<and>
       schedule (attempts c) \<le> schedule L \<and>
       marketData (attempts c) \<le> marketData L + 1 \<and>
       (st \<in> {FetchingMarketData, RetryingMarketData, ReconcilingAccount,
          RetryingAccountReconciliation} \<longrightarrow> marketData (attempts c) \<le> marketData L) \<and>
       authorization (attempts c) \<le> authorization L \<and>
       execution (attempts c) \<le> execution L \<and>
       reconciliation (attempts c) \<le> reconciliation L \<and>
       persistence (attempts c) \<le> persistence L)"

lemma tc_bounded_send: "tc_bounded L (st, c) \<Longrightarrow> tc_bounded L (tc_send (st, c) e)"
  by (rule tc_send_rule, (cases st; simp add: tc_effects tc_bounded_def),
      (cases st; cases e), simp_all only: tc_rows, (safe elim!: row_selectE),
      simp_all add: tc_effects tc_bounded_def tc_guard_defs below_Fin emptyAttempts_def natural_limits_def)

subsection \<open>The path to an order\<close>

text \<open>
  The events of the current cycle: the log starts again when an alarm is accepted.
\<close>

definition log_send :: "(tc_snapshot \<Rightarrow> tradingCycleEvent \<Rightarrow> tc_snapshot)
    \<Rightarrow> tc_snapshot \<times> tradingCycleEvent list \<Rightarrow> tradingCycleEvent
    \<Rightarrow> tc_snapshot \<times> tradingCycleEvent list" where
  "log_send send p e =
     (let s' = send (fst p) e
      in (s', if fst (fst p) = Waiting \<and> fst s' = ReconcilingAccount then [e] else snd p @ [e]))"

lemma fst_play_log: "fst (play (log_send send) p es) = play send (fst p) es"
  by (induction es arbitrary: p) (simp_all add: log_send_def Let_def)

text \<open>Stages of a cycle, each extending the one before by one event of the log.\<close>

definition alarmed :: "string option \<Rightarrow> number option \<Rightarrow> tradingCycleEvent list \<Rightarrow> bool" where
  "alarmed i t l \<longleftrightarrow> (\<exists>j u rest. i = Some j \<and> t = Some u \<and> l = ALARM_FIRED j u # rest)"

definition path1 :: "marketAdmissionRec option \<Rightarrow> tradingCycleEvent list \<Rightarrow> bool" where
  "path1 a l \<longleftrightarrow> (\<exists>m b. a = Some b \<and>
     subseq [MARKET_DATA_READY m (adm_candleClosedAt b) (adm_evaluatedAt b)] l)"

definition path2 :: "marketAdmissionRec option \<Rightarrow> string option \<Rightarrow> tradingCycleEvent list \<Rightarrow> bool" where
  "path2 a d l \<longleftrightarrow> (\<exists>m b k n. a = Some b \<and> d = Some k \<and> Fin 0 < n \<and>
     subseq [MARKET_DATA_READY m (adm_candleClosedAt b) (adm_evaluatedAt b),
       ALLOCATION_COMPLETED k n] l)"

definition path3 :: "marketAdmissionRec option \<Rightarrow> string option \<Rightarrow> tradingCycleEvent list \<Rightarrow> bool" where
  "path3 a d l \<longleftrightarrow> (\<exists>m b k n. a = Some b \<and> d = Some k \<and> Fin 0 < n \<and>
     subseq [MARKET_DATA_READY m (adm_candleClosedAt b) (adm_evaluatedAt b),
       ALLOCATION_COMPLETED k n, RISK_APPROVED] l)"

definition path4 :: "marketAdmissionRec option \<Rightarrow> string option \<Rightarrow> string option
    \<Rightarrow> tradingCycleEvent list \<Rightarrow> bool" where
  "path4 a d i l \<longleftrightarrow> (\<exists>m b k n j. a = Some b \<and> d = Some k \<and> i = Some j \<and> Fin 0 < n \<and>
     subseq [MARKET_DATA_READY m (adm_candleClosedAt b) (adm_evaluatedAt b),
       ALLOCATION_COMPLETED k n, RISK_APPROVED, ORDER_INTENT_PERSISTED j] l)"

definition path5 :: "marketAdmissionRec option \<Rightarrow> string option \<Rightarrow> string option
    \<Rightarrow> tradingCycleEvent list \<Rightarrow> bool" where
  "path5 a d i l \<longleftrightarrow> (\<exists>m b k n j x y. a = Some b \<and> d = Some k \<and> i = Some j \<and> Fin 0 < n \<and>
     y < x \<and> x - y \<le> Fin 120000 \<and>
     subseq [MARKET_DATA_READY m (adm_candleClosedAt b) (adm_evaluatedAt b),
       ALLOCATION_COMPLETED k n, RISK_APPROVED, ORDER_INTENT_PERSISTED j,
       AUTHORIZATION_READY x y] l)"

lemma subseq_snoc: "subseq xs ys \<Longrightarrow> subseq (xs @ [e]) (ys @ [e])"
  by (rule list_emb_append_mono) auto

lemma subseq_keep: "subseq xs ys \<Longrightarrow> subseq xs (ys @ [e])"
  using list_emb_append_mono [of "(=)" xs ys "[]" "[e]"] by simp

lemma subseq_butlast: "subseq (xs @ [e]) ys \<Longrightarrow> subseq xs ys"
  by (rule subseq_order.trans [of _ "xs @ [e]"]) (simp_all add: subseq_keep)

lemma alarmed_simps:
  "alarmed i t l \<Longrightarrow> alarmed i t (l @ [e])" "alarmed (Some j) (Some u) [ALARM_FIRED j u]"
  by (auto simp: alarmed_def)

lemma path_keep:
  "path1 a l \<Longrightarrow> path1 a (l @ [e])" "path2 a d l \<Longrightarrow> path2 a d (l @ [e])"
  "path3 a d l \<Longrightarrow> path3 a d (l @ [e])" "path4 a d i l \<Longrightarrow> path4 a d i (l @ [e])"
  "path5 a d i l \<Longrightarrow> path5 a d i (l @ [e])"
  unfolding path1_def path2_def path3_def path4_def path5_def by (blast intro: subseq_keep)+

lemma path1_intro:
  "path1 (Some \<lparr>adm_cycleId = i, adm_candleClosedAt = x, adm_evaluatedAt = y\<rparr>)
     (l @ [MARKET_DATA_READY m x y])"
  by (auto simp: path1_def)

lemma subseq_snocs:
  "subseq [a] l \<Longrightarrow> subseq [a, e] (l @ [e])"
  "subseq [a, b] l \<Longrightarrow> subseq [a, b, e] (l @ [e])"
  "subseq [a, b, c] l \<Longrightarrow> subseq [a, b, c, e] (l @ [e])"
  "subseq [a, b, c, d] l \<Longrightarrow> subseq [a, b, c, d, e] (l @ [e])"
  using subseq_snoc [of "[a]" l e] subseq_snoc [of "[a, b]" l e]
    subseq_snoc [of "[a, b, c]" l e] subseq_snoc [of "[a, b, c, d]" l e] by simp_all

lemma path2_intro:
  "path1 a l \<Longrightarrow> Fin 0 < n \<Longrightarrow> path2 a (Some k) (l @ [ALLOCATION_COMPLETED k n])"
  unfolding path1_def path2_def by (blast intro: subseq_snocs)

lemma path3_intro: "path2 a d l \<Longrightarrow> path3 a d (l @ [RISK_APPROVED])"
  unfolding path2_def path3_def by (blast intro: subseq_snocs)

lemma path4_intro: "path3 a d l \<Longrightarrow> path4 a d (Some j) (l @ [ORDER_INTENT_PERSISTED j])"
  unfolding path3_def path4_def by (blast intro: subseq_snocs)

lemma path5_intro:
  "path4 a d i l \<Longrightarrow> y < x \<Longrightarrow> x - y \<le> Fin 120000 \<Longrightarrow>
     path5 a d i (l @ [AUTHORIZATION_READY x y])"
  unfolding path4_def path5_def by (blast intro: subseq_snocs)

lemmas path_rules =
  alarmed_simps path_keep path1_intro path2_intro path3_intro path4_intro path5_intro

definition tc_logged :: "tc_snapshot \<times> tradingCycleEvent list \<Rightarrow> bool" where
  "tc_logged p \<longleftrightarrow>
     (case p of ((st, c), l) \<Rightarrow>
       (st \<in> decided_states \<union> {ReconcilingAccount, RetryingAccountReconciliation,
          FetchingMarketData, RetryingMarketData} \<longrightarrow> alarmed (cycleId c) (triggeredAt c) l) \<and>
       (st \<in> {ComputingIndicators, EvaluatingStrategies, Allocating} \<longrightarrow>
          path1 (marketAdmission c) l) \<and>
       (st = CheckingRisk \<longrightarrow> path2 (marketAdmission c) (decisionId c) l) \<and>
       (st = PersistingOrderIntent \<longrightarrow> path3 (marketAdmission c) (decisionId c) l) \<and>
       (st \<in> {Authorizing, RetryingAuthorization, RetryingExecution, SubmittingOrder,
          ReconcilingOrder, RetryingReconciliation} \<longrightarrow>
          path4 (marketAdmission c) (decisionId c) (clientOrderId c) l) \<and>
       (st \<in> {SubmittingOrder, ReconcilingOrder, RetryingReconciliation} \<longrightarrow>
          path5 (marketAdmission c) (decisionId c) (clientOrderId c) l))"

lemma tc_logged_send:
  "tc_logged ((st, c), l) \<Longrightarrow> tc_logged (log_send tc_send ((st, c), l) e)"
  unfolding log_send_def Let_def fst_conv snd_conv
  by (rule tc_send_rule [where P = "\<lambda>s. tc_logged
        (s, if st = Waiting \<and> fst s = ReconcilingAccount then [e] else l @ [e])"],
      (cases st; simp add: tc_effects tc_logged_def decided_states_def path_rules),
      (cases st; cases e), simp_all only: tc_rows, (safe elim!: row_selectE),
      simp_all add: tc_effects tc_logged_def decided_states_def path_rules tc_guard_defs)

subsection \<open>Submissions per cycle\<close>

text \<open>How often the current cycle has entered \<open>submittingOrder\<close>.\<close>

definition count_send :: "(tc_snapshot \<Rightarrow> tradingCycleEvent \<Rightarrow> tc_snapshot)
    \<Rightarrow> tc_snapshot \<times> nat \<Rightarrow> tradingCycleEvent \<Rightarrow> tc_snapshot \<times> nat" where
  "count_send send p e =
     (let s' = send (fst p) e
      in (s', if fst (fst p) = Waiting \<and> fst s' = ReconcilingAccount then 0
              else if fst (fst p) \<noteq> SubmittingOrder \<and> fst s' = SubmittingOrder then snd p + 1
              else snd p))"

definition tc_counted :: "nat retryCounts \<Rightarrow> tc_snapshot \<times> nat \<Rightarrow> bool" where
  "tc_counted L p \<longleftrightarrow>
     (case p of ((st, c), n) \<Rightarrow>
       (st \<in> {ReconcilingAccount, RetryingAccountReconciliation, FetchingMarketData,
          RetryingMarketData, ComputingIndicators, EvaluatingStrategies, Allocating,
          CheckingRisk, PersistingOrderIntent} \<longrightarrow> n = 0) \<and>
       (st \<in> {Authorizing, RetryingAuthorization, RetryingExecution} \<longrightarrow>
          n \<le> execution (attempts c)) \<and>
       (st = SubmittingOrder \<longrightarrow> n \<le> execution (attempts c) + 1) \<and>
       n \<le> execution L + 1)"

lemma tc_counted_send:
  "tc_counted L ((st, c), n) \<Longrightarrow> tc_bounded L (st, c) \<Longrightarrow>
     tc_counted L (count_send tc_send ((st, c), n) e)"
  unfolding count_send_def Let_def fst_conv snd_conv
  by (rule tc_send_rule [where P = "\<lambda>s. tc_counted L
        (s, if st = Waiting \<and> fst s = ReconcilingAccount then 0
            else if st \<noteq> SubmittingOrder \<and> fst s = SubmittingOrder then n + 1 else n)"],
      (cases st; simp add: tc_effects tc_counted_def tc_bounded_def),
      (cases st; cases e), simp_all only: tc_rows, (safe elim!: row_selectE),
      simp_all add: tc_effects tc_counted_def tc_guard_defs tc_bounded_def natural_limits_def below_Fin)

lemma fst_play_count: "fst (play (count_send send) p es) = play send (fst p) es"
  by (induction es arbitrary: p) (simp_all add: count_send_def Let_def)

end
