(* ===== verification/TradingCycleCorrect.thy ===== *)
theory TradingCycleCorrect
  imports TradingCycleProps
begin

text \<open>
  What the trading-cycle machine guarantees of every run of an actor, for every pair of
  functions that satisfies the contract of the state-machine package.
\<close>

subsection \<open>Runs used as examples\<close>

definition full_control :: controlPermissions where
  "full_control = \<lparr>canControl = True, canTrade = True\<rparr>"

definition sample_input :: tradingCycleInput where
  "sample_input = \<lparr>in_agentId = ''agent'', in_strategyIds = [''ema''],
     in_maxMarketStalenessMs = None, in_lastDecisionCandleClosedAt = None,
     in_retryLimits = \<lparr>schedule = None, marketData = None, authorization = None,
       execution = None, reconciliation = None, persistence = None\<rparr>\<rparr>"

text \<open>From a start to a submission, with one market-data retry on the way.\<close>

definition sample_run :: "tradingCycleEvent list" where
  "sample_run =
     [START_REQUESTED full_control, SCHEDULE_SUCCEEDED (Fin 100000),
      ALARM_FIRED ''c1'' (Fin 100000), ACCOUNT_RECONCILED ''a1'',
      MARKET_DATA_READY ''old'' (Fin 1) (Fin 100001), RETRY_TIMER_ELAPSED,
      MARKET_DATA_READY ''m1'' (Fin 60000) (Fin 100002), INDICATORS_COMPUTED ''i1'',
      STRATEGIES_EVALUATED ''s1'', ALLOCATION_COMPLETED ''d1'' (Fin 1), RISK_APPROVED,
      ORDER_INTENT_PERSISTED ''o1'', AUTHORIZATION_READY (Fin 160000) (Fin 100003)]"

definition sample_limits :: "nat retryCounts" where
  "sample_limits = \<lparr>schedule = 3, marketData = 3, authorization = 2, execution = 1,
     reconciliation = 4, persistence = 5\<rparr>"

text \<open>A kill of the order in flight, up to the answered cancellation.\<close>

definition sample_kill :: "tradingCycleEvent list" where
  "sample_kill =
     [KILL_SWITCH_ENGAGED full_control ''k1'', ORDER_RECONCILED None, PERSIST_SUCCEEDED,
      EFFECT_CANCELLED]"

lemmas sample_defs = full_control_def sample_input_def sample_run_def sample_limits_def

lemma runtime_of_tc: "xstate_runtime tradingCycleMachine (sc_start tradingCycleMachine) tc_send"
  by (rule tc.runtime_sc)

text \<open>Evaluation of concrete runs.\<close>

lemma tc_step: "tc_send (st, c) e =
    (case find (\<lambda>t. guard_of t c e) (tradingCycle_on st e @ root_rows e) of
       None \<Rightarrow> sc_settle tradingCycleMachine (st, c) | Some t \<Rightarrow> effect_of st c e t)"
  by (cases "find (\<lambda>t. guard_of t c e) (tradingCycle_on st e @ root_rows e)")
    (simp_all add: sc_send_def select_def effect_of_def microstep_def enter_def Let_def
      split: option.splits)
lemma tc_start: "sc_start tradingCycleMachine c = (Stopped, c)"
  by (simp add: sc_start_def enter_def tc_settle interrupt_def)

lemmas tc_eval = tc_step tc_start tc_rows tc_effects tc_guard_defs tradingCycle_context_def
  defaultRetryLimits_def override_def emptyAttempts_def isSafeInteger_def number_diff_Fin
  mkError_def non_blank_iff js_space_def

lemma sample_run_state:
  "fst (play tc_send (tc_boot sample_input) sample_run) = SubmittingOrder"
  "clientOrderId (snd (play tc_send (tc_boot sample_input) sample_run)) = Some ''o1''"
  by (simp_all add: sample_defs tc_eval)

subsection \<open>Lifting to runs\<close>

lemma tc_reachable:
  assumes "xstate_runtime tradingCycleMachine init send"
  shows "tc_inflight (play send (init (tradingCycle_context i)) es)"
    "tc_permitted (play send (init (tradingCycle_context i)) es)"
    "tc_fresh (play send (init (tradingCycle_context i)) es)"
  using tc_play_invariant [OF assms, where I = tc_inflight, of i es]
    tc_play_invariant [OF assms, where I = tc_permitted, of i es]
    tc_play_invariant [OF assms, where I = tc_fresh, of i es]
    tc_inflight_send tc_permitted_send tc_fresh_send
  by (simp_all add: tc_inflight_def [of "(Stopped, _)"] tc_permitted_def [of "(Stopped, _)"]
    tc_fresh_def [of "(Stopped, _)"] tradingCycle_context_def decided_states_def)

lemma tc_play_quiet:
  assumes "xstate_runtime tradingCycleMachine init send"
  shows "tc_quiet (play send (init (tradingCycle_context i)) es)"
  by (rule tc_play_invariant [OF assms, where I = tc_quiet])
     (simp_all add: tc_quiet_def [of "(Stopped, _)"] tradingCycle_context_def tc_quiet_send)

lemma tc_play_bounded:
  assumes "xstate_runtime tradingCycleMachine init send"
    and "retryLimits (tradingCycle_context i) = natural_limits L"
  shows "tc_bounded L (play send (init (tradingCycle_context i)) es)"
  using tc_play_invariant [OF assms(1), where I = "tc_bounded L"] tc_bounded_send assms(2)
  by (simp add: tc_bounded_def tradingCycle_context_def emptyAttempts_def)

lemma tc_play_staleness:
  assumes "xstate_runtime tradingCycleMachine init send"
  shows "maxMarketStalenessMs (snd (play send (init (tradingCycle_context i)) es)) =
    maxMarketStalenessMs (tradingCycle_context i)"
  by (rule tc_play_invariant [OF assms, where I = "\<lambda>s. maxMarketStalenessMs (snd s) = _"])
     (simp_all add: tc_send_staleness)

lemma play_snoc: "play send s (es @ [e]) = send (play send s es) e"
  by simp

lemma tc_play_logged:
  "tc_logged (play (log_send tc_send) ((Stopped, tradingCycle_context i), []) es)"
proof (induction es rule: rev_induct)
  case (snoc e es)
  then show ?case
    by (cases "play (log_send tc_send) ((Stopped, tradingCycle_context i), []) es";
        cases "fst (play (log_send tc_send) ((Stopped, tradingCycle_context i), []) es)")
       (simp add: tc_logged_send)
qed (simp add: tc_logged_def decided_states_def)

text \<open>The closing times of the candles admitted so far.\<close>

definition candle_send :: "(tc_snapshot \<Rightarrow> tradingCycleEvent \<Rightarrow> tc_snapshot)
    \<Rightarrow> tc_snapshot \<times> number list \<Rightarrow> tradingCycleEvent \<Rightarrow> tc_snapshot \<times> number list" where
  "candle_send send p e =
     (let s' = send (fst p) e
      in (s', case (fst s', e) of
           (ComputingIndicators, MARKET_DATA_READY _ x _) \<Rightarrow>
             if fst (fst p) = FetchingMarketData then snd p @ [x] else snd p
         | _ \<Rightarrow> snd p))"

definition tc_candles :: "number option \<Rightarrow> tc_snapshot \<times> number list \<Rightarrow> bool" where
  "tc_candles l p \<longleftrightarrow>
     tc_quiet (fst p) \<and> sorted_wrt (<) (snd p) \<and>
     (\<forall>x\<in>set (snd p). isSafeInteger x \<and> (\<forall>y. l = Some y \<longrightarrow> y \<noteq> NaN \<longrightarrow> y < x)) \<and>
     lastDecisionCandleClosedAt (snd (fst p)) = (if snd p = [] then l else Some (last (snd p)))"

lemma tc_send_candle:
  assumes "tc_quiet (st, c)"
  shows "if st = FetchingMarketData \<and> fst (tc_send (st, c) e) = ComputingIndicators
   then (\<exists>i x y. e = MARKET_DATA_READY i x y \<and> isSafeInteger x \<and>
      lastDecisionCandleClosedAt (snd (tc_send (st, c) e)) = Some x \<and>
      (\<forall>l. lastDecisionCandleClosedAt c = Some l \<longrightarrow> \<not> x \<le> l))
   else lastDecisionCandleClosedAt (snd (tc_send (st, c) e)) = lastDecisionCandleClosedAt c"
  by (rule tc_send_rule [where P = "\<lambda>s. if st = FetchingMarketData \<and> fst s = ComputingIndicators
        then (\<exists>i x y. e = MARKET_DATA_READY i x y \<and> isSafeInteger x \<and>
          lastDecisionCandleClosedAt (snd s) = Some x \<and>
          (\<forall>l. lastDecisionCandleClosedAt c = Some l \<longrightarrow> \<not> x \<le> l))
        else lastDecisionCandleClosedAt (snd s) = lastDecisionCandleClosedAt c"],
      (cases st; simp add: tc_effects), insert assms, (cases st; cases e),
      simp_all only: tc_rows, (safe elim!: row_selectE),
      simp_all add: tc_effects tc_guard_defs tc_quiet_def split: option.splits)

lemma tc_candles_send:
  assumes "tc_candles l ((st, c), xs)"
  shows "tc_candles l (candle_send tc_send ((st, c), xs) e)"
proof (cases "st = FetchingMarketData \<and> fst (tc_send (st, c) e) = ComputingIndicators")
  case True
  have q: "tc_quiet (st, c)"
    using assms by (simp add: tc_candles_def)
  from True tc_send_candle [OF q, of e] obtain i x y where x: "e = MARKET_DATA_READY i x y"
    "isSafeInteger x" "lastDecisionCandleClosedAt (snd (tc_send (st, c) e)) = Some x"
    and gt: "\<And>l. lastDecisionCandleClosedAt c = Some l \<Longrightarrow> \<not> x \<le> l"
    by auto
  have "\<forall>y\<in>set xs. y < x"
  proof (cases xs rule: rev_cases)
    case (snoc ys z)
    then have "z < x"
      using assms gt x(2) by (auto simp: tc_candles_def isSafeInteger_iff)
    moreover have "\<forall>y\<in>set ys. y < z"
      using assms snoc by (auto simp: tc_candles_def sorted_wrt_append)
    ultimately show ?thesis
      by (auto simp: snoc intro: number_lt_le_trans number_lt_imp_le)
  qed simp
  moreover have "y < x" if "l = Some y" "y \<noteq> NaN" for y
  proof (cases xs)
    case Nil
    then show ?thesis
      using gt [of y] that assms x(2) by (auto simp: tc_candles_def number_not_le isSafeInteger_iff)
  next
    case (Cons z zs)
    then show ?thesis
      using that assms calculation
      by (auto simp: tc_candles_def intro: number_lt_le_trans number_lt_imp_le)
  qed
  ultimately show ?thesis
    using assms True x tc_quiet_send
    by (auto simp: tc_candles_def candle_send_def sorted_wrt_append)
next
  case False
  have q: "tc_quiet (st, c)"
    using assms by (simp add: tc_candles_def)
  from False have "snd (candle_send tc_send ((st, c), xs) e) = xs"
    by (auto simp: candle_send_def Let_def split: tradingCycleState.splits tradingCycleEvent.splits)
  moreover have "fst (candle_send tc_send ((st, c), xs) e) = tc_send (st, c) e"
    by (simp add: candle_send_def Let_def)
  moreover have "lastDecisionCandleClosedAt (snd (tc_send (st, c) e)) = lastDecisionCandleClosedAt c"
    using tc_send_candle [OF q, of e] False by (simp only: if_False)
  ultimately show ?thesis
    using assms tc_quiet_send by (simp add: tc_candles_def)
qed

lemma tc_play_candles:
  "tc_candles (in_lastDecisionCandleClosedAt i)
     (play (candle_send tc_send) ((Stopped, tradingCycle_context i), []) es)"
proof (induction es rule: rev_induct)
  case (snoc e es)
  then show ?case
    by (cases "play (candle_send tc_send) ((Stopped, tradingCycle_context i), []) es")
       (metis play_snoc prod.exhaust tc_candles_send)
qed (simp add: tc_candles_def tc_quiet_def tradingCycle_context_def)

text \<open>From a persisted intent to the end of its cycle.\<close>

definition ordering_states :: "tradingCycleState set" where
  "ordering_states =
     {Authorizing, RetryingAuthorization, SubmittingOrder, RetryingExecution, ReconcilingOrder,
      RetryingReconciliation}"

lemma tc_send_identity:
  "st \<in> ordering_states \<Longrightarrow> fst (tc_send (st, c) e) \<in> ordering_states \<longrightarrow>
     clientOrderId (snd (tc_send (st, c) e)) = clientOrderId c \<and>
     decisionId (snd (tc_send (st, c) e)) = decisionId c \<and>
     marketAdmission (snd (tc_send (st, c) e)) = marketAdmission c \<and>
     cycleId (snd (tc_send (st, c) e)) = cycleId c"
  by (rule tc_send_rule [where P = "\<lambda>s. fst s \<in> ordering_states \<longrightarrow>
        clientOrderId (snd s) = clientOrderId c \<and> decisionId (snd s) = decisionId c \<and>
        marketAdmission (snd s) = marketAdmission c \<and> cycleId (snd s) = cycleId c"],
      (cases st; simp add: tc_effects ordering_states_def), (cases st; cases e),
      simp_all only: tc_rows, (safe elim!: row_selectE),
      simp_all add: tc_effects ordering_states_def)

lemma tc_send_kill_accepted:
  "canControl p \<Longrightarrow> non_blank k \<Longrightarrow>
     \<not> killCompleted (snd (tc_send (st, c) (KILL_SWITCH_ENGAGED p k)))"
  by (cases st) (simp_all add: tc_eval)

lemma tc_send_kill:
  "killCompleted (snd (tc_send (st, c) e)) \<longrightarrow> killCompleted c \<or>
     (e = EFFECT_CANCELLED \<and> st = Cancelling \<and> shutdownMode c = KillSwitchShutdown)"
  by (rule tc_send_rule [where P = "\<lambda>s. killCompleted (snd s) \<longrightarrow> killCompleted c \<or>
        (e = EFFECT_CANCELLED \<and> st = Cancelling \<and> shutdownMode c = KillSwitchShutdown)"],
      (cases st; simp add: tc_effects), (cases st; cases e),
      simp_all only: tc_rows, (safe elim!: row_selectE),
      simp_all add: tc_effects tc_guard_defs)

definition halt_entry :: "tradingCycleState \<Rightarrow> tradingCycleContext \<Rightarrow> tradingCycleEvent
    \<Rightarrow> tradingCycleState \<Rightarrow> bool" where
  "halt_entry st c e st' \<longleftrightarrow>
     (st' = Halted \<longrightarrow> st = Halted \<or>
       st = Persisting \<and> e = PERSIST_SUCCEEDED \<and> \<not> terminalFailure c \<and>
       (shutdownMode c = KillSwitchShutdown \<and> killCompleted c \<or>
        shutdownMode c = PermissionRevokedShutdown))"

lemma tc_send_to_halted: "halt_entry st c e (fst (tc_send (st, c) e))"
  by (rule tc_send_rule [where P = "\<lambda>s. halt_entry st c e (fst s)"],
      (cases st; simp add: tc_effects halt_entry_def), (cases st; cases e),
      simp_all only: tc_rows, (safe elim!: row_selectE),
      simp_all add: tc_effects tc_guard_defs halt_entry_def)

lemma tc_send_from_halted:
  "fst (tc_send (Halted, c) e) \<noteq> Halted \<longrightarrow>
      (\<exists>p. e = RESET p \<and> canControl p) \<and> fst (tc_send (Halted, c) e) = Stopped"
  by (cases e) (simp_all add: tc_eval)

lemma tc_play_counted:
  assumes "tc_bounded L (Stopped, tradingCycle_context i)"
  shows "tc_counted L (play (count_send tc_send) ((Stopped, tradingCycle_context i), 0) es)"
proof (induction es rule: rev_induct)
  case (snoc e es)
  obtain st c n where eq:
    "play (count_send tc_send) ((Stopped, tradingCycle_context i), 0) es = ((st, c), n)"
    by (metis prod.exhaust)
  have "tc_bounded L (fst (play (count_send tc_send) ((Stopped, tradingCycle_context i), 0) es))"
    unfolding fst_play_count fst_conv
    by (rule tc_actor.play_invariant) (use assms in \<open>auto simp: tc_bounded_send\<close>)
  with snoc show ?case
    by (simp add: eq tc_counted_send)
qed (simp add: tc_counted_def)

lemma fresh_at_exact:
  assumes "fresh_at t x y m"
  shows "\<exists>T X Y. t = Fin (of_int T) \<and> x = Fin (of_int X) \<and> y = Fin (of_int Y) \<and>
    0 \<le> X \<and> X \<le> T \<and> T \<le> Y \<and> Y < 2 ^ 53 \<and> Fin (of_int (Y - X)) \<le> m"
proof -
  from assms obtain T X Y where eq: "t = Fin (of_int T)" "x = Fin (of_int X)" "y = Fin (of_int Y)"
    and "\<bar>Y\<bar> \<le> 9007199254740991"
    by (auto simp: fresh_at_def elim!: isSafeIntegerE)
  moreover from assms eq have "0 \<le> X" "X \<le> T" "T \<le> Y" "Fin (of_int Y) - Fin (of_int X) \<le> m"
    by (simp_all add: fresh_at_def)
  moreover from calculation have "Fin (of_int Y) - Fin (of_int X) = Fin (of_int (Y - X))"
    by (intro fl_diff_int) auto
  ultimately show ?thesis
    by auto
qed

subsection \<open>Properties\<close>

text \<open>C1: an order in flight has the whole pipeline behind it.  In every run, whenever
  the machine submits or reconciles an order, the current cycle has seen, in this order, the
  alarm of that cycle, market data, an allocation with orders, a risk approval, a persisted
  order intent and an authorization that is usable for at most two minutes; the identifiers
  kept in the context are those of these events, and the market data were closed no later than
  the trigger, evaluated no earlier, and no older than the limit, all in exact milliseconds.\<close>

theorem order_in_flight_path:
  assumes "xstate_runtime tradingCycleMachine init send"
    and "play (log_send send) (init (tradingCycle_context i), []) es = ((st, c), l)"
    and "st \<in> {SubmittingOrder, ReconcilingOrder, RetryingReconciliation}"
  shows "\<exists>cid t m x y k n j expires issued T X Y.
    cycleId c = Some cid \<and> triggeredAt c = Some t \<and> decisionId c = Some k \<and>
    clientOrderId c = Some j \<and> lastDecisionCandleClosedAt c = Some x \<and>
    marketAdmission c = Some \<lparr>adm_cycleId = cid, adm_candleClosedAt = x, adm_evaluatedAt = y\<rparr> \<and>
    subseq [ALARM_FIRED cid t, MARKET_DATA_READY m x y, ALLOCATION_COMPLETED k n, RISK_APPROVED,
      ORDER_INTENT_PERSISTED j, AUTHORIZATION_READY expires issued] l \<and>
    Fin 0 < n \<and> issued < expires \<and> expires - issued \<le> Fin 120000 \<and>
    t = Fin (of_int T) \<and> x = Fin (of_int X) \<and> y = Fin (of_int Y) \<and>
    0 \<le> X \<and> X \<le> T \<and> T \<le> Y \<and> Fin (of_int (Y - X)) \<le> maxMarketStalenessMs c"
proof -
  have "fst (play (log_send send) (init (tradingCycle_context i), []) es) = (st, c)"
    using assms(2) by simp
  then have sc: "play send (init (tradingCycle_context i)) es = (st, c)"
    by (simp only: fst_play_log fst_conv)
  have st: "st \<in> decided_states"
    using assms(3) by (auto simp: decided_states_def)
  have "tc_fresh (st, c)"
    using tc_reachable(3) [OF assms(1), of i es] by (simp only: sc)
  with st obtain cid t x y where ids: "cycleId c = Some cid" "triggeredAt c = Some t"
    "marketAdmission c = Some \<lparr>adm_cycleId = cid, adm_candleClosedAt = x, adm_evaluatedAt = y\<rparr>"
    "lastDecisionCandleClosedAt c = Some x" and fresh: "fresh_at t x y (maxMarketStalenessMs c)"
    unfolding tc_fresh_def prod.case by blast
  have "tc_logged ((st, c), l)"
    using tc_play_logged [of i es] assms(2) by (simp add: tc_runtime [OF assms(1)] tc_boot_eq)
  then have "alarmed (Some cid) (Some t) l"
    and "path5 (marketAdmission c) (decisionId c) (clientOrderId c) l"
    using assms(3) st ids unfolding tc_logged_def prod.case by auto
  moreover from this(1) obtain rest where l: "l = ALARM_FIRED cid t # rest"
    by (auto simp: alarmed_def)
  ultimately obtain m k n j ex iss where kj: "decisionId c = Some k" "clientOrderId c = Some j"
    and n: "Fin 0 < n" "iss < ex" "ex - iss \<le> Fin 120000"
    and "subseq [MARKET_DATA_READY m x y, ALLOCATION_COMPLETED k n, RISK_APPROVED,
      ORDER_INTENT_PERSISTED j, AUTHORIZATION_READY ex iss] l"
    unfolding path5_def ids option.inject by auto
  then have path: "subseq [ALARM_FIRED cid t, MARKET_DATA_READY m x y, ALLOCATION_COMPLETED k n,
      RISK_APPROVED, ORDER_INTENT_PERSISTED j, AUTHORIZATION_READY ex iss] l"
    by (simp add: l)
  from fresh_at_exact [OF fresh] ids kj n path show ?thesis
    by blast
qed

theorem order_in_flight_path_witness:
  "\<exists>c l. play (log_send tc_send) (tc_boot sample_input, []) sample_run = ((SubmittingOrder, c), l) \<and>
     clientOrderId c = Some ''o1'' \<and> subseq [RISK_APPROVED, ORDER_INTENT_PERSISTED ''o1''] l"
proof -
  obtain c l where p: "play (log_send tc_send) (tc_boot sample_input, []) sample_run
      = ((SubmittingOrder, c), l)" and c: "clientOrderId c = Some ''o1''"
    using sample_run_state fst_play_log [of tc_send "(tc_boot sample_input, [])" sample_run]
    by (metis prod.collapse fst_conv)
  obtain cid t m x y k n j ex iss where j: "clientOrderId c = Some j"
    and path: "subseq [ALARM_FIRED cid t, MARKET_DATA_READY m x y, ALLOCATION_COMPLETED k n,
      RISK_APPROVED, ORDER_INTENT_PERSISTED j, AUTHORIZATION_READY ex iss] l"
    using order_in_flight_path [OF runtime_of_tc p] unfolding insert_iff by blast
  have "subseq [RISK_APPROVED, ORDER_INTENT_PERSISTED j] l"
    by (rule subseq_order.trans [OF _ path]) simp
  with p c j show ?thesis
    by auto
qed

text \<open>C16: an order may be in flight only while the machine submits or reconciles it,
  and always then; after that only \<open>failed\<close> may still hold an order of unknown outcome.\<close>

theorem order_may_be_in_flight_iff:
  assumes "xstate_runtime tradingCycleMachine init send"
    and "play send (init (tradingCycle_context i)) es = (st, c)" and "st \<noteq> Failed"
  shows "orderMayBeInFlight c \<longleftrightarrow>
    st \<in> {SubmittingOrder, ReconcilingOrder, RetryingReconciliation}"
  using tc_reachable(1) [OF assms(1), of i es] assms(2,3)
  by (auto simp: tc_inflight_def split: if_splits)

theorem order_may_be_in_flight_iff_witness:
  "orderMayBeInFlight (snd (play tc_send (tc_boot sample_input) sample_run))"
  using order_may_be_in_flight_iff [OF runtime_of_tc surjective_pairing, of sample_input sample_run]
  by (simp add: sample_run_state)

text \<open>C17: a shutdown request interrupts, and no work is done without permission.  After
  every event, a machine in a state before or during a submission has no shutdown pending
  and holds both permissions; with a shutdown pending only the states that reconcile,
  cancel, persist or rest are left.\<close>

theorem shutdown_interrupts:
  assumes "xstate_runtime tradingCycleMachine init send"
    and "play send (init (tradingCycle_context i)) es = (st, c)"
  shows "if shutdownMode c = NoShutdown
    then st \<in> {Stopped, Failed, Halted} \<or> (canControl (permissions c) \<and> canTrade (permissions c))
    else st \<in> {Stopped, ReconcilingOrder, RetryingReconciliation, Cancelling, Persisting,
      RetryingPersistence, Failed, Halted}"
  using tc_reachable(2) [OF assms(1), of i es] tc_play_quiet [OF assms(1), of i es] assms(2)
  by (cases st) (simp_all add: tc_permitted_def tc_quiet_def)

theorem shutdown_interrupts_witness:
  "fst (play tc_send (tc_boot sample_input) (sample_run @ [PERMISSION_REVOKED]))
     \<in> {Stopped, ReconcilingOrder, RetryingReconciliation, Cancelling, Persisting,
        RetryingPersistence, Failed, Halted}"
proof -
  have "shutdownMode (snd (play tc_send (tc_boot sample_input) (sample_run @ [PERMISSION_REVOKED])))
    = PermissionRevokedShutdown"
    by (simp add: sample_defs tc_eval)
  with shutdown_interrupts [OF runtime_of_tc surjective_pairing,
      of sample_input "sample_run @ [PERMISSION_REVOKED]"]
  show ?thesis by (metis shutdownMode.distinct(5))
qed

text \<open>The attempt counters stay within their limits: with natural limits \<open>L\<close> no counter ever
  exceeds its limit, except the counter of market data, which may count one more, the stale answer
  that ends the cycle.  This is of the counters only; the entries into the submission are bounded by
  \<open>submissions_bounded\<close>, and the steps of a cycle by \<open>run_returns\<close>.\<close>

theorem retries_bounded:
  assumes "xstate_runtime tradingCycleMachine init send"
    and "retryLimits (tradingCycle_context i) = natural_limits L"
    and "play send (init (tradingCycle_context i)) es = (st, c)"
  shows "schedule (attempts c) \<le> schedule L \<and>
    marketData (attempts c) \<le> (if st = RetryingMarketData then marketData L else marketData L + 1) \<and>
    authorization (attempts c) \<le> authorization L \<and> execution (attempts c) \<le> execution L \<and>
    reconciliation (attempts c) \<le> reconciliation L \<and> persistence (attempts c) \<le> persistence L"
  using tc_play_bounded [OF assms(1,2), of es] assms(3) by (simp_all add: tc_bounded_def)

theorem retries_bounded_witness:
  "marketData (attempts (snd (play tc_send (tc_boot sample_input) (take 5 sample_run)))) \<le> 3"
proof -
  have "retryLimits (tradingCycle_context sample_input) =
      natural_limits sample_limits"
    by (simp add: sample_defs tc_eval natural_limits_def)
  moreover have "fst (play tc_send (tc_boot sample_input) (take 5 sample_run)) = RetryingMarketData"
    by (simp add: sample_defs tc_eval)
  ultimately show ?thesis
    using retries_bounded [OF runtime_of_tc _ surjective_pairing, where i = sample_input
        and L = sample_limits and es = "take 5 sample_run"]
    by (simp add: sample_limits_def)
qed

text \<open>C18: a cycle submits at most once more than the execution limit.  The count of
  entries into \<open>submittingOrder\<close> since the last accepted alarm never exceeds it.\<close>

theorem submissions_bounded:
  assumes "xstate_runtime tradingCycleMachine init send"
    and "retryLimits (tradingCycle_context i) = natural_limits L"
  shows "snd (play (count_send send) (init (tradingCycle_context i), 0) es) \<le> execution L + 1"
proof -
  have "tc_bounded L (Stopped, tradingCycle_context i)"
    using tc_play_bounded [OF assms, of "[]"] by (simp add: tc_runtime [OF assms(1)] tc_boot_eq)
  from tc_play_counted [OF this, of es] show ?thesis
    by (simp add: tc_runtime [OF assms(1)] tc_boot_eq tc_counted_def split: prod.splits)
qed

theorem submissions_bounded_witness:
  "snd (play (count_send tc_send) (tc_boot sample_input, 0) sample_run) \<le> 2"
proof -
  have "retryLimits (tradingCycle_context sample_input) = natural_limits sample_limits"
    by (simp add: sample_defs tc_eval natural_limits_def)
  from submissions_bounded [OF runtime_of_tc this, of sample_run] show ?thesis
    by (simp add: sample_limits_def)
qed

text \<open>Market data are decided on once.  Along any run, whatever resets, retries and
  restarts it contains, the closing times of the candles admitted to a decision strictly
  increase, starting above the one the machine was created with.\<close>

theorem decision_candles_increase:
  assumes "xstate_runtime tradingCycleMachine init send"
  shows "sorted_wrt (<) (snd (play (candle_send send) (init (tradingCycle_context i), []) es)) \<and>
    (\<forall>l x. in_lastDecisionCandleClosedAt i = Some l \<longrightarrow> l \<noteq> NaN \<longrightarrow>
       x \<in> set (snd (play (candle_send send) (init (tradingCycle_context i), []) es)) \<longrightarrow> l < x)"
  using tc_play_candles [of i es]
  by (auto simp: tc_runtime [OF assms(1)] tc_boot_eq tc_candles_def split: prod.splits)

theorem decision_candles_increase_witness:
  "sorted_wrt (<) (snd (play (candle_send tc_send) (tc_boot sample_input, []) sample_run))"
  using decision_candles_increase [OF runtime_of_tc, of sample_input sample_run] by blast

text \<open>One intent per cycle.  Between the persisted intent and the end of the cycle,
  whatever fails and is retried, the client order id, the decision and the admission the
  order was made from do not change.\<close>

theorem order_identity_kept:
  assumes "xstate_runtime tradingCycleMachine init send"
    and "fst s \<in> ordering_states" and "fst (send s e) \<in> ordering_states"
  shows "clientOrderId (snd (send s e)) = clientOrderId (snd s) \<and>
    decisionId (snd (send s e)) = decisionId (snd s) \<and>
    marketAdmission (snd (send s e)) = marketAdmission (snd s) \<and>
    cycleId (snd (send s e)) = cycleId (snd s)"
  using tc_send_identity [of "fst s" "snd s" e] assms(2,3)
  by (simp add: tc_runtime [OF assms(1)])

theorem order_identity_kept_witness:
  "clientOrderId (snd (tc_send (play tc_send (tc_boot sample_input) sample_run)
     (ORDER_REJECTED (mkError PhExecution RateLimited True)))) = Some ''o1''"
proof -
  have "fst (tc_send (play tc_send (tc_boot sample_input) sample_run)
     (ORDER_REJECTED (mkError PhExecution RateLimited True))) = RetryingExecution"
    by (simp add: sample_defs tc_eval)
  then show ?thesis
    using order_identity_kept [OF runtime_of_tc,
        of "play tc_send (tc_boot sample_input) sample_run"
          "ORDER_REJECTED (mkError PhExecution RateLimited True)"]
    by (simp add: sample_run_state ordering_states_def)
qed

text \<open>A completed kill was executed.  Whenever the context says a kill is completed,
  the run contains the cancellation of the exchange-side effects, answered in \<open>cancelling\<close>
  while the kill switch was the pending shutdown, and no kill request was accepted since.\<close>

theorem kill_completed_was_executed:
  assumes "xstate_runtime tradingCycleMachine init send"
    and "killCompleted (snd (play send (init (tradingCycle_context i)) es))"
  shows "\<exists>pre post. es = pre @ EFFECT_CANCELLED # post \<and>
    fst (play send (init (tradingCycle_context i)) pre) = Cancelling \<and>
    shutdownMode (snd (play send (init (tradingCycle_context i)) pre)) = KillSwitchShutdown \<and>
    (\<forall>p k. KILL_SWITCH_ENGAGED p k \<in> set post \<longrightarrow> \<not> (canControl p \<and> non_blank k))"
  using assms(2)
proof (induction es rule: rev_induct)
  case Nil
  then show ?case
    by (simp add: tc_runtime [OF assms(1)] tc_start tradingCycle_context_def)
next
  case (snoc e es)
  let ?s = "play send (init (tradingCycle_context i)) es"
  from snoc.prems have "killCompleted (snd (tc_send ?s e))"
    by (simp add: tc_runtime [OF assms(1)])
  from tc_send_kill [of "fst ?s" "snd ?s" e] tc_send_kill_accepted [of _ _ "fst ?s" "snd ?s"] this
  consider (kept) "killCompleted (snd ?s)"
      "\<forall>p k. e = KILL_SWITCH_ENGAGED p k \<longrightarrow> \<not> (canControl p \<and> non_blank k)"
    | (executed) "e = EFFECT_CANCELLED" "fst ?s = Cancelling"
      "shutdownMode (snd ?s) = KillSwitchShutdown"
    by auto
  then show ?case
  proof cases
    case kept
    from snoc.IH [OF kept(1)] obtain pre post where
      "es = pre @ EFFECT_CANCELLED # post"
      "fst (play send (init (tradingCycle_context i)) pre) = Cancelling"
      "shutdownMode (snd (play send (init (tradingCycle_context i)) pre)) = KillSwitchShutdown"
      "\<forall>p k. KILL_SWITCH_ENGAGED p k \<in> set post \<longrightarrow> \<not> (canControl p \<and> non_blank k)"
      by blast
    with kept(2) show ?thesis
      by (intro exI [of _ pre] exI [of _ "post @ [e]"]) auto
  next
    case executed
    then show ?thesis
      by (intro exI [of _ es] exI [of _ "[]"]) simp
  qed
qed

theorem kill_completed_was_executed_witness:
  "\<exists>pre post. sample_run @ sample_kill = pre @ EFFECT_CANCELLED # post \<and>
     fst (play tc_send (tc_boot sample_input) pre) = Cancelling"
proof -
  have "killCompleted (snd (play tc_send (tc_boot sample_input) (sample_run @ sample_kill)))"
    by (simp add: sample_defs sample_kill_def tc_eval)
  from kill_completed_was_executed [OF runtime_of_tc this] show ?thesis
    by blast
qed

text \<open>\<open>halted\<close> is entered only by a persisted cycle, after a completed kill or a
  revoked permission, and \<open>halted\<close> is left only by a reset of an operator.\<close>

theorem halted_boundary:
  assumes "xstate_runtime tradingCycleMachine init send"
  shows "(fst s \<noteq> Halted \<longrightarrow> fst (send s e) = Halted \<longrightarrow>
      fst s = Persisting \<and> e = PERSIST_SUCCEEDED \<and> \<not> terminalFailure (snd s) \<and>
      (shutdownMode (snd s) = KillSwitchShutdown \<and> killCompleted (snd s) \<or>
       shutdownMode (snd s) = PermissionRevokedShutdown)) \<and>
    (fst s = Halted \<longrightarrow> fst (send s e) \<noteq> Halted \<longrightarrow>
      (\<exists>p. e = RESET p \<and> canControl p) \<and> fst (send s e) = Stopped)"
  using tc_send_to_halted [of "fst s" "snd s" e] tc_send_from_halted [of "snd s" e]
  by (cases s) (auto simp: tc_runtime [OF assms(1)] halt_entry_def)

theorem halted_boundary_witness:
  "fst (play tc_send (tc_boot sample_input) (sample_run @ sample_kill)) = Persisting \<and>
   killCompleted (snd (play tc_send (tc_boot sample_input) (sample_run @ sample_kill)))"
proof -
  have at: "fst (play tc_send (tc_boot sample_input) (sample_run @ sample_kill)) = Persisting"
    "shutdownMode (snd (play tc_send (tc_boot sample_input) (sample_run @ sample_kill)))
       = KillSwitchShutdown"
    "fst (tc_send (play tc_send (tc_boot sample_input) (sample_run @ sample_kill))
       PERSIST_SUCCEEDED) = Halted"
    by (simp_all add: sample_defs sample_kill_def tc_eval)
  with halted_boundary [OF runtime_of_tc,
      of "play tc_send (tc_boot sample_input) (sample_run @ sample_kill)" PERSIST_SUCCEEDED]
  show ?thesis by simp
qed

text \<open>C22: a stop or a revocation that follows a kill request overtakes it.  A kill accepted
  while a cycle is being persisted is recorded, but when a stop request (or a revoked
  permission) arrives before the persistence is confirmed, the machine goes to \<open>stopped\<close>
  (or \<open>halted\<close>) with the kill not completed: the cancellation is never run.\<close>

theorem kill_overtaken:
  assumes "xstate_runtime tradingCycleMachine init send"
    and "canControl p" "canControl q" "non_blank k" "\<not> terminalFailure c"
  shows "(let s = play send (Persisting, c)
            [KILL_SWITCH_ENGAGED p k, STOP_REQUESTED q, PERSIST_SUCCEEDED]
          in fst s = Stopped \<and> killRequestId (snd s) = Some k \<and> \<not> killCompleted (snd s)) \<and>
    (let s = play send (Persisting, c)
            [KILL_SWITCH_ENGAGED p k, PERMISSION_REVOKED, PERSIST_SUCCEEDED]
          in fst s = Halted \<and> killRequestId (snd s) = Some k \<and> \<not> killCompleted (snd s))"
  using assms(2-5) by (simp add: tc_runtime [OF assms(1)] Let_def tc_eval)

theorem kill_overtaken_witness:
  "\<exists>es. fst (play tc_send (tc_boot sample_input) es) = Stopped \<and>
     killRequestId (snd (play tc_send (tc_boot sample_input) es)) = Some ''k1'' \<and>
     \<not> killCompleted (snd (play tc_send (tc_boot sample_input) es))"
proof -
  let ?run = "sample_run @ [ORDER_CONFIRMED ''x1'']"
  let ?s = "play tc_send (tc_boot sample_input) ?run"
  have st: "?s = (Persisting, snd ?s)" and "\<not> terminalFailure (snd ?s)"
    by (simp_all add: sample_defs tc_eval)
  then have "let s = play tc_send (Persisting, snd ?s)
      [KILL_SWITCH_ENGAGED full_control ''k1'', STOP_REQUESTED full_control, PERSIST_SUCCEEDED]
    in fst s = Stopped \<and> killRequestId (snd s) = Some ''k1'' \<and> \<not> killCompleted (snd s)"
    using kill_overtaken [OF runtime_of_tc, of full_control full_control "''k1''" "snd ?s"]
    by (simp add: full_control_def non_blank_iff js_space_def)
  then show ?thesis
    unfolding st [symmetric] Let_def foldl_append [symmetric] by blast
qed

text \<open>An operator can always bring the machine back.  From every snapshot at most four
  events, with a controlling permission, lead to \<open>stopped\<close>.\<close>

theorem operator_recovers:
  assumes "xstate_runtime tradingCycleMachine init send" and "canControl (p :: controlPermissions)"
  shows "\<exists>es. length es \<le> 4 \<and> fst (play send s es) = Stopped"
proof -
  define x where "x = mkError PhPersistence PersistenceFailure False"
  obtain st c where s: "s = (st, c)"
    by (cases s)
  define es where "es =
    (if st = Stopped then []
     else if st \<in> {Failed, Halted} then [RESET p]
     else if st = Persisting then [PERSIST_FAILED x, RESET p]
     else if st = RetryingPersistence then [RETRY_TIMER_ELAPSED, PERSIST_FAILED x, RESET p]
     else if st = RetryingReconciliation then
       [RETRY_TIMER_ELAPSED, RECONCILIATION_FAILED x, RESET p]
     else if st = ReconcilingOrder then [RECONCILIATION_FAILED x, RESET p]
     else if st = SubmittingOrder then [STOP_REQUESTED p, RECONCILIATION_FAILED x, RESET p]
     else if st = Cancelling then [EFFECT_CANCELLED, PERSIST_FAILED x, RESET p]
     else [STOP_REQUESTED p, EFFECT_CANCELLED, PERSIST_FAILED x, RESET p])"
  have "length es \<le> 4"
    by (simp add: es_def)
  moreover have "fst (play send s es) = Stopped"
    using assms(2) by (cases st)
      (simp_all add: s es_def x_def tc_runtime [OF assms(1)] tc_eval)
  ultimately show ?thesis
    by blast
qed

theorem operator_recovers_witness:
  "\<exists>es. length es \<le> 4 \<and> fst (play tc_send (tc_boot sample_input) (sample_run @ es)) = Stopped"
  using operator_recovers [OF runtime_of_tc, of full_control
      "play tc_send (tc_boot sample_input) sample_run"]
  by (simp add: full_control_def)

end
