(* ===== verification/CycleBudget.thy ===== *)
theory CycleBudget
  imports TradingCycleProps
begin

text \<open>
  How long a cycle can take: the events that answer a phase, and a rank each of them lowers.
\<close>

text \<open>The events that answer the effect of a phase.\<close>

primrec phase_event :: "tradingCycleState \<Rightarrow> tradingCycleEvent \<Rightarrow> bool" where
  "phase_event Stopped e = False"
| "phase_event Scheduling e = (case e of SCHEDULE_SUCCEEDED _ \<Rightarrow> True | SCHEDULE_FAILED _ \<Rightarrow> True | _ \<Rightarrow> False)"
| "phase_event RetryingSchedule e = (e = RETRY_TIMER_ELAPSED)"
| "phase_event Waiting e = (case e of ALARM_FIRED _ _ \<Rightarrow> True | _ \<Rightarrow> False)"
| "phase_event ReconcilingAccount e =
     (case e of ACCOUNT_RECONCILED _ \<Rightarrow> True | ACCOUNT_RECONCILIATION_FAILED _ \<Rightarrow> True | _ \<Rightarrow> False)"
| "phase_event RetryingAccountReconciliation e = (e = RETRY_TIMER_ELAPSED)"
| "phase_event FetchingMarketData e =
     (case e of MARKET_DATA_READY _ _ _ \<Rightarrow> True | MARKET_DATA_FAILED _ \<Rightarrow> True | _ \<Rightarrow> False)"
| "phase_event RetryingMarketData e = (e = RETRY_TIMER_ELAPSED)"
| "phase_event ComputingIndicators e =
     (case e of INDICATORS_COMPUTED _ \<Rightarrow> True | INDICATORS_FAILED _ \<Rightarrow> True | _ \<Rightarrow> False)"
| "phase_event EvaluatingStrategies e =
     (case e of STRATEGIES_EVALUATED _ \<Rightarrow> True | STRATEGIES_FAILED _ \<Rightarrow> True | _ \<Rightarrow> False)"
| "phase_event Allocating e =
     (case e of ALLOCATION_COMPLETED _ _ \<Rightarrow> True | ALLOCATION_FAILED _ \<Rightarrow> True | _ \<Rightarrow> False)"
| "phase_event CheckingRisk e =
     (case e of RISK_APPROVED \<Rightarrow> True | RISK_REJECTED \<Rightarrow> True | RISK_FAILED _ \<Rightarrow> True | _ \<Rightarrow> False)"
| "phase_event PersistingOrderIntent e =
     (case e of ORDER_INTENT_PERSISTED _ \<Rightarrow> True | ORDER_INTENT_FAILED _ \<Rightarrow> True | _ \<Rightarrow> False)"
| "phase_event Authorizing e =
     (case e of AUTHORIZATION_READY _ _ \<Rightarrow> True | AUTHORIZATION_FAILED _ \<Rightarrow> True | _ \<Rightarrow> False)"
| "phase_event RetryingAuthorization e = (e = RETRY_TIMER_ELAPSED)"
| "phase_event SubmittingOrder e =
     (case e of ORDER_CONFIRMED _ \<Rightarrow> True | ORDER_REJECTED _ \<Rightarrow> True | ORDER_NO_LONGER_NEEDED \<Rightarrow> True
      | ORDER_OUTCOME_UNKNOWN _ \<Rightarrow> True | ORDER_PROTECTION_FAILED _ _ \<Rightarrow> True | _ \<Rightarrow> False)"
| "phase_event RetryingExecution e = (e = RETRY_TIMER_ELAPSED)"
| "phase_event ReconcilingOrder e =
     (case e of ORDER_RECONCILED _ \<Rightarrow> True | RECONCILIATION_FAILED _ \<Rightarrow> True
      | ORDER_PROTECTION_FAILED _ _ \<Rightarrow> True | ORDER_NO_LONGER_NEEDED \<Rightarrow> True | _ \<Rightarrow> False)"
| "phase_event RetryingReconciliation e = (e = RETRY_TIMER_ELAPSED)"
| "phase_event Cancelling e =
     (case e of EFFECT_CANCELLED \<Rightarrow> True | EFFECT_CANCEL_FAILED _ \<Rightarrow> True | _ \<Rightarrow> False)"
| "phase_event Persisting e =
     (case e of PERSIST_SUCCEEDED \<Rightarrow> True | PERSIST_FAILED _ \<Rightarrow> True | _ \<Rightarrow> False)"
| "phase_event RetryingPersistence e = (e = RETRY_TIMER_ELAPSED)"
| "phase_event Failed e = False"
| "phase_event Halted e = False"

text \<open>
  The steps still possible, from the retries left.  A reconciliation of the account restores
  the retries of the order's reconciliation; a kill left to execute costs two more.
\<close>

definition left :: "nat \<Rightarrow> nat \<Rightarrow> nat" where
  "left limit used = limit - used"

lemma left_Suc: "n < k \<Longrightarrow> left k n = Suc (left k (Suc n))" and left_0 [simp]: "left k 0 = k"
  and left_le: "left k n \<le> k"
  by (simp_all add: left_def Suc_diff_Suc)

definition schedule_rank :: "nat retryCounts \<Rightarrow> nat retryCounts \<Rightarrow> nat" where
  "schedule_rank L n = 2 * left (schedule L) (schedule n) + 2"

definition persist_rank :: "nat retryCounts \<Rightarrow> nat retryCounts \<Rightarrow> nat" where
  "persist_rank L n = 2 * left (persistence L) (persistence n) + 1 + schedule_rank L n"

definition submit_rank :: "nat retryCounts \<Rightarrow> nat retryCounts \<Rightarrow> nat \<Rightarrow> nat" where
  "submit_rank L n r =
     2 * left (authorization L) (authorization n) + 3 * left (execution L) (execution n) + 2 * r + 5 +
     persist_rank L n"

definition cycle_rank :: "nat retryCounts \<Rightarrow> tc_snapshot \<Rightarrow> nat" where
  "cycle_rank L s =
     (let c = snd s; n = attempts c; r = left (reconciliation L) (reconciliation n);
          kill = (if shutdownMode c = KillSwitchShutdown \<and> \<not> killCompleted c \<and> \<not> terminalFailure c
            then 2 else 0);
          m = 2 * left (marketData L) (marketData n)
      in case fst s of
           Stopped \<Rightarrow> 1 | Failed \<Rightarrow> 1 | Halted \<Rightarrow> 1 | Waiting \<Rightarrow> 1
         | Scheduling \<Rightarrow> schedule_rank L n
         | RetryingSchedule \<Rightarrow> schedule_rank L n + 1
         | Persisting \<Rightarrow> persist_rank L n + kill
         | RetryingPersistence \<Rightarrow> persist_rank L n + kill + 1
         | Cancelling \<Rightarrow> persist_rank L n + 1
         | ReconcilingOrder \<Rightarrow> 2 * r + 3 + persist_rank L n
         | RetryingReconciliation \<Rightarrow> 2 * r + 4 + persist_rank L n
         | SubmittingOrder \<Rightarrow> submit_rank L n r - 1
         | Authorizing \<Rightarrow> submit_rank L n r
         | RetryingExecution \<Rightarrow> submit_rank L n r + 1
         | RetryingAuthorization \<Rightarrow> submit_rank L n r + 1
         | PersistingOrderIntent \<Rightarrow> submit_rank L n r + 1
         | CheckingRisk \<Rightarrow> submit_rank L n r + 2
         | Allocating \<Rightarrow> submit_rank L n r + 3
         | EvaluatingStrategies \<Rightarrow> submit_rank L n r + 4
         | ComputingIndicators \<Rightarrow> submit_rank L n r + 5
         | FetchingMarketData \<Rightarrow> submit_rank L n r + m + 6
         | RetryingMarketData \<Rightarrow> submit_rank L n r + m + 7
         | ReconcilingAccount \<Rightarrow> submit_rank L n (reconciliation L) + m + 2 * r + 7
         | RetryingAccountReconciliation \<Rightarrow> submit_rank L n (reconciliation L) + m + 2 * r + 8)"

lemmas rank_defs = cycle_rank_def submit_rank_def persist_rank_def schedule_rank_def Let_def

definition cycle_bound :: "nat retryCounts \<Rightarrow> nat" where
  "cycle_bound L = submit_rank L emptyAttempts (reconciliation L) + 2 * marketData L +
     2 * reconciliation L + 8"

lemma natural_limits_simps [simp]:
  "schedule (natural_limits L) = Fin (of_nat (schedule L))"
  "marketData (natural_limits L) = Fin (of_nat (marketData L))"
  "authorization (natural_limits L) = Fin (of_nat (authorization L))"
  "execution (natural_limits L) = Fin (of_nat (execution L))"
  "reconciliation (natural_limits L) = Fin (of_nat (reconciliation L))"
  "persistence (natural_limits L) = Fin (of_nat (persistence L))"
  by (simp_all add: natural_limits_def)

text \<open>The rows that answer a phase end with an unconditional one, so one is taken.\<close>

lemma answer_selected:
  assumes "phase_event st e"
  shows "find (\<lambda>t. guard_of t c e) (tradingCycle_on st e @ root_rows e) \<noteq> None"
  using assms
  by (cases st; cases e; simp only: phase_event.simps tradingCycleEvent.case tradingCycleEvent.distinct
      simp_thms) (simp_all add: tc_row_defs)

lemma tc_answer_rule:
  assumes "phase_event st e"
    and row: "\<And>t. Some t = find (\<lambda>t. guard_of t c e) (tradingCycle_on st e @ root_rows e)
      \<Longrightarrow> P (effect_of st c e t)"
  shows "P (tc_send (st, c) e)"
  using answer_selected [OF assms(1), of c] row
  by (auto simp: effect_of_def sc_send_def select_def microstep_def enter_def Let_def
      split: option.splits)

lemma no_shutdown: "x \<notin> {StopShutdown, KillSwitchShutdown, PermissionRevokedShutdown} \<Longrightarrow> x = NoShutdown"
  by (cases x) simp_all

lemma cycle_rank_decreases:
  assumes "retryLimits c = natural_limits L" "tc_quiet (st, c)" "phase_event st e" "st \<noteq> Waiting"
  shows "cycle_rank L (tc_send (st, c) e) < cycle_rank L (st, c)"
  using assms(3)
proof (rule tc_answer_rule)
  fix t
  assume "Some t = find (\<lambda>t. guard_of t c e) (tradingCycle_on st e @ root_rows e)"
  with assms show "cycle_rank L (effect_of st c e t) < cycle_rank L (st, c)"
    by ((cases st; cases e; simp only: phase_event.simps tradingCycleEvent.case
            tradingCycleEvent.distinct simp_thms if_True if_False),
        simp_all only: tc_rows, safe elim!: row_selectE, simp_all add: tc_quiet_def tc_effects,
        simp_all add: rank_defs below_Fin tc_guard_defs left_Suc no_shutdown split: if_splits)
qed

lemma cycle_rank_pos: "1 \<le> cycle_rank L s"
  by (cases "fst s") (simp_all add: rank_defs)

lemma double_left: "2 * left k n \<le> 2 * k" "3 * left k n \<le> 3 * k"
  by (simp_all add: left_le)

text \<open>A cycle that starts has all its retries.\<close>

lemma cycle_rank_alarm:
  assumes "tc_quiet (Waiting, c)"
  shows "cycle_rank L (tc_send (Waiting, c) (ALARM_FIRED i t)) < cycle_bound L"
  using assms
  by (simp add: sc_send_def select_def microstep_def enter_def tc_row_defs tc_settle tc_quiet_def
      tc_action_defs isNewAlarm_def rank_defs cycle_bound_def emptyAttempts_def)

lemma cycle_rank_le:
  assumes "tc_quiet s"
  shows "cycle_rank L s \<le> cycle_bound L"
proof -
  let ?n = "attempts (snd s)"
  have "left (schedule L) (schedule ?n) \<le> schedule L"
    "left (marketData L) (marketData ?n) \<le> marketData L"
    "left (authorization L) (authorization ?n) \<le> authorization L"
    "left (execution L) (execution ?n) \<le> execution L"
    "left (reconciliation L) (reconciliation ?n) \<le> reconciliation L"
    "left (persistence L) (persistence ?n) \<le> persistence L"
    by (rule left_le)+
  then show ?thesis
    by (cases "fst s") (simp_all add: rank_defs cycle_bound_def emptyAttempts_def)
qed

definition default_counts :: "nat retryCounts" where
  "default_counts = \<lparr>schedule = 3, marketData = 3, authorization = 2, execution = 1,
     reconciliation = 4, persistence = 5\<rparr>"

lemma defaultRetryLimits_natural: "defaultRetryLimits = natural_limits default_counts"
  by (simp add: defaultRetryLimits_def natural_limits_def default_counts_def)

lemma default_bound: "cycle_bound default_counts = 61"
  by (simp add: cycle_bound_def rank_defs default_counts_def emptyAttempts_def)

end
