(* ===== verification/Domain.thy ===== *)
theory Domain
  imports JsNumber "HOL-Library.Word"
begin

text \<open>
  The validated values of \<^verbatim>\<open>packages/domain/src\<close>: signals, order intents, fills and client
  order identifiers (\<^verbatim>\<open>trading.ts\<close>), product identifiers, candles and the integrity of a
  candle series (\<^verbatim>\<open>market.ts\<close>).
\<close>

unbundle bit_operations_syntax

subsection \<open>Strings of digits\<close>

definition digit :: "nat \<Rightarrow> char" where
  "digit n = (if n < 10 then char_of (48 + n) else char_of (87 + n))"

function radix :: "nat \<Rightarrow> nat \<Rightarrow> string" where
  "radix b n = (if b < 2 \<or> n < b then [digit n] else radix b (n div b) @ [digit (n mod b)])"
  by pat_completeness auto
termination
  by (relation "measure snd") (auto intro!: div_less_dividend)

declare radix.simps [simp del]

definition pad_start :: "nat \<Rightarrow> char \<Rightarrow> string \<Rightarrow> string" where
  "pad_start n c s = replicate (n - length s) c @ s"

definition slice :: "nat \<Rightarrow> nat \<Rightarrow> string \<Rightarrow> string" where
  "slice i j s = take (j - i) (drop i s)"

subsection \<open>Trading values\<close>

datatype SignalSide = SigBuy | SigSell | SigHold
datatype OrderSide = BUY | SELL
datatype OrderType = MARKET | LIMIT

record Signal =
  sig_strategyId :: string
  sig_productId :: string
  sig_side :: SignalSide
  sig_confidence :: number
  sig_suggestedSize :: number
  sig_reasonCode :: string

record OrderIntent =
  clientOrderId :: string
  decisionId :: string
  strategyIds :: "string list"
  productId :: string
  side :: OrderSide
  order_type :: OrderType
  quantity :: number
  limitPrice :: "number option"

record Fill =
  fillId :: string
  fill_clientOrderId :: string
  exchangeOrderId :: string
  price :: number
  fill_quantity :: number
  fee :: number
  executedAt :: number

datatype TradingValidationError =
  EMPTY_IDENTIFIER string
| INVALID_CONFIDENCE
| INVALID_SUGGESTED_SIZE
| HOLD_WITH_SIZE
| INVALID_QUANTITY
| INVALID_LIMIT_PRICE
| MARKET_WITH_LIMIT_PRICE
| EMPTY_STRATEGIES
| INVALID_FILL
| INVALID_ORDER_INDEX

definition isNonEmpty :: "string \<Rightarrow> bool" where
  "isNonEmpty s = non_blank s"

definition isPositiveFinite :: "number \<Rightarrow> bool" where
  "isPositiveFinite v \<longleftrightarrow> isFinite v \<and> Fin 0 < v"

definition createSignal :: "Signal \<Rightarrow> (Signal, TradingValidationError) result" where
  "createSignal i =
     (if \<not> isNonEmpty (sig_strategyId i) then err (EMPTY_IDENTIFIER ''strategyId'')
      else if \<not> isNonEmpty (sig_reasonCode i) then err (EMPTY_IDENTIFIER ''reasonCode'')
      else if \<not> isFinite (sig_confidence i) \<or> sig_confidence i < Fin 0 \<or> Fin 1 < sig_confidence i
      then err INVALID_CONFIDENCE
      else if \<not> isFinite (sig_suggestedSize i) \<or> sig_suggestedSize i < Fin 0
      then err INVALID_SUGGESTED_SIZE
      else if sig_side i = SigHold \<and> \<not> num_eq (sig_suggestedSize i) (Fin 0) then err HOLD_WITH_SIZE
      else ok i)"

text \<open>FNV-1a over the code units, in 32-bit arithmetic (\<open>^=\<close>, \<open>Math.imul\<close>, \<open>>>> 0\<close>).\<close>

definition hash32 :: "string \<Rightarrow> 32 word \<Rightarrow> 32 word" where
  "hash32 value seed = foldl (\<lambda>h c. (h XOR of_nat (of_char c)) * 0x01000193) seed value"

definition hex :: "32 word \<Rightarrow> string" where
  "hex w = pad_start 8 (CHR ''0'') (radix 16 (unat w))"

text \<open>The hashed source string; an index that passed the check is a natural number.\<close>

definition order_source :: "string \<Rightarrow> string \<Rightarrow> string \<Rightarrow> nat \<Rightarrow> string" where
  "order_source agent cycle decision index =
     agent @ [CHR 0x1F] @ cycle @ [CHR 0x1F] @ decision @ [CHR 0x1F] @ radix 10 index"

definition createClientOrderId :: "string \<Rightarrow> string \<Rightarrow> string \<Rightarrow> number
    \<Rightarrow> (string, TradingValidationError) result" where
  "createClientOrderId agentId cycleId decision index =
     (if \<not> isNonEmpty agentId then err (EMPTY_IDENTIFIER ''agentId'')
      else if \<not> isNonEmpty cycleId then err (EMPTY_IDENTIFIER ''cycleId'')
      else if \<not> isNonEmpty decision then err (EMPTY_IDENTIFIER ''decisionId'')
      else if \<not> isSafeInteger index \<or> index < Fin 0 then err INVALID_ORDER_INDEX
      else
        let n = (case index of Fin r \<Rightarrow> nat \<lfloor>r\<rfloor> | _ \<Rightarrow> 0);
            source = order_source agentId cycleId decision n;
            digest = hex (hash32 source 0x811c9dc5) @ hex (hash32 source 0x9e3779b9) @
              hex (hash32 source 0x85ebca6b) @ hex (hash32 source 0xc2b2ae35)
        in ok (slice 0 8 digest @ ''-'' @ slice 8 12 digest @ ''-5'' @ slice 13 16 digest @ ''-a''
             @ slice 17 20 digest @ ''-'' @ slice 20 32 digest))"

definition createOrderIntent :: "OrderIntent \<Rightarrow> (OrderIntent, TradingValidationError) result" where
  "createOrderIntent i =
     (if \<not> isNonEmpty (clientOrderId i) then err (EMPTY_IDENTIFIER ''clientOrderId'')
      else if \<not> isNonEmpty (decisionId i) then err (EMPTY_IDENTIFIER ''decisionId'')
      else if strategyIds i = [] \<or> list_ex (\<lambda>s. \<not> isNonEmpty s) (strategyIds i)
      then err EMPTY_STRATEGIES
      else if \<not> isPositiveFinite (quantity i) then err INVALID_QUANTITY
      else if order_type i = LIMIT \<and>
          (case limitPrice i of None \<Rightarrow> True | Some p \<Rightarrow> \<not> isPositiveFinite p)
      then err INVALID_LIMIT_PRICE
      else if order_type i = MARKET \<and> limitPrice i \<noteq> None then err MARKET_WITH_LIMIT_PRICE
      else ok i)"

definition createFill :: "Fill \<Rightarrow> (Fill, TradingValidationError) result" where
  "createFill i =
     (if \<not> isNonEmpty (fillId i) \<or> \<not> isNonEmpty (fill_clientOrderId i) \<or>
         \<not> isNonEmpty (exchangeOrderId i) \<or> \<not> isPositiveFinite (price i) \<or>
         \<not> isPositiveFinite (fill_quantity i) \<or> \<not> isFinite (fee i) \<or> fee i < Fin 0 \<or>
         \<not> isSafeInteger (executedAt i) \<or> executedAt i < Fin 0
      then err INVALID_FILL else ok i)"

subsection \<open>Market values\<close>

datatype Timeframe =
  ONE_MINUTE | FIVE_MINUTE | FIFTEEN_MINUTE | ONE_HOUR | SIX_HOUR | ONE_DAY

record Candle =
  start :: number
  open_price :: number
  high :: number
  low :: number
  close_price :: number
  volume :: number

datatype PriceField = FOpen | FHigh | FLow | FClose

datatype MarketValidationError =
  INVALID_PRODUCT_ID
| INVALID_TIMESTAMP
| INVALID_PRICE PriceField
| INVALID_VOLUME
| INVALID_OHLC_RANGE
| EMPTY_CANDLE_SERIES
| UNSORTED_CANDLE_SERIES nat
| DUPLICATE_CANDLE nat

definition TIMEFRAME_MILLISECONDS :: "Timeframe \<Rightarrow> number" where
  "TIMEFRAME_MILLISECONDS t =
     (case t of ONE_MINUTE \<Rightarrow> Fin 60000 | FIVE_MINUTE \<Rightarrow> Fin 300000
      | FIFTEEN_MINUTE \<Rightarrow> Fin 900000 | ONE_HOUR \<Rightarrow> Fin 3600000
      | SIX_HOUR \<Rightarrow> Fin 21600000 | ONE_DAY \<Rightarrow> Fin 86400000)"

definition MAX_TICKER_DIVERGENCE_BPS :: number where
  "MAX_TICKER_DIVERGENCE_BPS = Fin 100"

datatype MarketDataIntegrityError =
  INVALID_INTERVAL
| INVALID_SERIES MarketValidationError
| CANDLE_GAP nat number
| TICKER_INVALID_PRICE
| TICKER_INCOHERENT number number

text \<open>
  \<open>toUpperCase\<close> on code units below 256: sharp s becomes two letters; the micro sign and y
  with diaeresis leave the range and stay as they are here (no product id contains either).
\<close>

definition upper_char :: "char \<Rightarrow> string" where
  "upper_char c =
     (let n = (of_char c :: nat)
      in if n = 223 then ''SS''
         else if (97 \<le> n \<and> n \<le> 122) \<or> (224 \<le> n \<and> n \<le> 254 \<and> n \<noteq> 247) then [char_of (n - 32)]
         else [c])"

definition js_upper :: "string \<Rightarrow> string" where
  "js_upper s = concat (map upper_char s)"

text \<open>\<open>split\<close> on one character.\<close>

fun split_on :: "char \<Rightarrow> string \<Rightarrow> string list" where
  "split_on c [] = [[]]"
| "split_on c (x # xs) =
     (if x = c then [] # split_on c xs
      else (case split_on c xs of [] \<Rightarrow> [[x]] | p # ps \<Rightarrow> (x # p) # ps))"

definition asset_char :: "char \<Rightarrow> bool" where
  "asset_char c \<longleftrightarrow>
     (let n = (of_char c :: nat) in (65 \<le> n \<and> n \<le> 90) \<or> (48 \<le> n \<and> n \<le> 57))"

definition assetPattern :: "string \<Rightarrow> bool" where
  "assetPattern s \<longleftrightarrow> 2 \<le> length s \<and> length s \<le> 15 \<and> list_all asset_char s"

definition createProductId :: "string \<Rightarrow> (string, MarketValidationError) result" where
  "createProductId raw =
     (let normalized = js_upper (js_trim raw)
      in case split_on (CHR ''-'') normalized of
           [x, y] \<Rightarrow>
             if \<not> assetPattern x \<or> \<not> assetPattern y \<or> x = y then err INVALID_PRODUCT_ID
             else ok normalized
         | _ \<Rightarrow> err INVALID_PRODUCT_ID)"

definition createCandle :: "Candle \<Rightarrow> (Candle, MarketValidationError) result" where
  "createCandle i =
     (if \<not> isSafeInteger (start i) \<or> start i < Fin 0 then err INVALID_TIMESTAMP
      else if \<not> isPositiveFinite (open_price i) then err (INVALID_PRICE FOpen)
      else if \<not> isPositiveFinite (high i) then err (INVALID_PRICE FHigh)
      else if \<not> isPositiveFinite (low i) then err (INVALID_PRICE FLow)
      else if \<not> isPositiveFinite (close_price i) then err (INVALID_PRICE FClose)
      else if \<not> isFinite (volume i) \<or> volume i < Fin 0 then err INVALID_VOLUME
      else if high i < js_max (js_max (open_price i) (close_price i)) (low i) \<or>
          js_min (js_min (open_price i) (close_price i)) (high i) < low i
      then err INVALID_OHLC_RANGE
      else ok i)"

text \<open>The loop of \<open>validateCandleSeries\<close>: the index and the candle validated last.\<close>

fun validate_candles :: "nat \<Rightarrow> Candle option \<Rightarrow> Candle list
    \<Rightarrow> (Candle list, MarketValidationError) result" where
  "validate_candles index previous [] = ok []"
| "validate_candles index previous (c # cs) =
     (case createCandle c of
        Inl e \<Rightarrow> err e
      | Inr v \<Rightarrow>
          if (case previous of None \<Rightarrow> False | Some p \<Rightarrow> num_eq (start c) (start p))
          then err (DUPLICATE_CANDLE index)
          else if (case previous of None \<Rightarrow> False | Some p \<Rightarrow> start c < start p)
          then err (UNSORTED_CANDLE_SERIES index)
          else (case validate_candles (Suc index) (Some v) cs of
              Inl e \<Rightarrow> err e
            | Inr vs \<Rightarrow> ok (v # vs)))"

definition validateCandleSeries :: "Candle list \<Rightarrow> (Candle list, MarketValidationError) result" where
  "validateCandleSeries cs =
     (if cs = [] then err EMPTY_CANDLE_SERIES else validate_candles 0 None cs)"

text \<open>The continuity loop: the index of the first candle that does not follow the one before.\<close>

fun find_gap :: "number \<Rightarrow> nat \<Rightarrow> Candle option \<Rightarrow> Candle list \<Rightarrow> nat option" where
  "find_gap d index previous [] = None"
| "find_gap d index previous (c # cs) =
     (if (case previous of None \<Rightarrow> False | Some p \<Rightarrow> \<not> num_eq (start c - start p) d)
      then Some index else find_gap d (Suc index) (Some c) cs)"

definition validateMarketDataIntegrity :: "Candle list \<Rightarrow> number \<Rightarrow> number option
    \<Rightarrow> (Candle list, MarketDataIntegrityError) result" where
  "validateMarketDataIntegrity cs intervalMs ticker =
     (if \<not> isSafeInteger intervalMs \<or> intervalMs \<le> Fin 0 then err INVALID_INTERVAL
      else case validateCandleSeries cs of
          Inl e \<Rightarrow> err (INVALID_SERIES e)
        | Inr vs \<Rightarrow>
            (case find_gap intervalMs 0 None vs of
               Some i \<Rightarrow> err (CANDLE_GAP i intervalMs)
             | None \<Rightarrow>
                 (case (ticker, vs) of
                    (Some p, _ # _) \<Rightarrow>
                      if \<not> isFinite p \<or> p \<le> Fin 0 then err TICKER_INVALID_PRICE
                      else
                        let lc = close_price (last vs);
                            divergenceBps = (\<bar>p - lc\<bar> / lc) * Fin 10000
                        in if MAX_TICKER_DIVERGENCE_BPS < divergenceBps
                           then err (TICKER_INCOHERENT divergenceBps MAX_TICKER_DIVERGENCE_BPS)
                           else ok vs
                  | _ \<Rightarrow> ok vs)))"

end
