(* ===== verification/Strategies.thy ===== *)
theory Strategies
  imports Domain Workflow
begin

text \<open>
  The strategies, \<^verbatim>\<open>packages/strategies/src\<close>: each turns the indicators of a candle into one
  validated signal; wrappers resize a signal or calibrate its confidence; a registry runs
  them in the order of their identifiers.  The snapshot of the indicators is that of
  \<^verbatim>\<open>packages/indicators-prolog/src/engine.ts\<close>.
\<close>

subsection \<open>Indicator snapshots\<close>

record OrderBookVwap =
  vwap_bid :: number
  vwap_ask :: number
  vwap_mid :: number

record BidAskSpread =
  spread_absolute :: number
  spread_bps :: number

record IndicatorSnapshot =
  snapshotId :: string
  candleClosedAt :: number
  rsi :: number
  emaFast :: number
  emaSlow :: number
  signalEmaFast :: "number option"
  signalEmaSlow :: "number option"
  macd :: number
  atr :: number
  historicalVolatility :: number
  momentum :: number
  periodicReturns :: "number dict"
  ohlcvVwap :: "number option"
  tradeVwap :: "number option"
  orderBookVwap :: "OrderBookVwap option"
  bidAskSpread :: "BidAskSpread option"
  relativeVolume :: "number option"
  volumeSpike :: "bool option"
  volumeTrend :: "number option"
  vwapDeviation :: "number option"
  trendStrength :: number
  fundingAvg :: "number option"

subsection \<open>Strategies and their registry\<close>

record StrategyContext =
  ctx_productId :: string
  ctx_candles :: "Candle list"
  ctx_indicators :: IndicatorSnapshot
  ctx_previousIndicators :: "IndicatorSnapshot option"

datatype StrategyError =
  INVALID_STRATEGY_CONFIG string
| INSUFFICIENT_STRATEGY_DATA string
| INVALID_STRATEGY_SIGNAL string TradingValidationError
| DUPLICATE_STRATEGY_ID string

record Strategy =
  strategy_id :: string
  evaluate :: "StrategyContext \<Rightarrow> (Signal, StrategyError) result"

record StrategyRegistry =
  ids :: "string list"
  get_strategy :: "string \<Rightarrow> Strategy option"
  evaluateAll :: "StrategyContext \<Rightarrow> (Signal list, StrategyError) result"

definition strategySignal :: "string \<Rightarrow> (Signal, TradingValidationError) result
    \<Rightarrow> (Signal, StrategyError) result" where
  "strategySignal i sg =
     (case sg of Inr v \<Rightarrow> ok v | Inl e \<Rightarrow> err (INVALID_STRATEGY_SIGNAL i e))"

text \<open>The loop that fills \<open>byId\<close>.\<close>

fun register :: "Strategy dict \<Rightarrow> Strategy list \<Rightarrow> (Strategy dict, StrategyError) result" where
  "register byId [] = ok byId"
| "register byId (s # ss) =
     (if has_own byId (strategy_id s) then err (DUPLICATE_STRATEGY_ID (strategy_id s))
      else register (AList.update (strategy_id s) s byId) ss)"

text \<open>The loop of \<open>evaluateAll\<close>.\<close>

fun evaluateIds :: "Strategy dict \<Rightarrow> string list \<Rightarrow> StrategyContext
    \<Rightarrow> (Signal list, StrategyError) result" where
  "evaluateIds byId [] cx = ok []"
| "evaluateIds byId (i # is) cx =
     (case map_of byId i of
        None \<Rightarrow> evaluateIds byId is cx
      | Some s \<Rightarrow>
          (case evaluate s cx of
             Inl e \<Rightarrow> err e
           | Inr v \<Rightarrow>
               (case evaluateIds byId is cx of Inl e \<Rightarrow> err e | Inr vs \<Rightarrow> ok (v # vs))))"

definition createStrategyRegistry :: "Strategy list \<Rightarrow> (StrategyRegistry, StrategyError) result" where
  "createStrategyRegistry strategies =
     (case register [] strategies of
        Inl e \<Rightarrow> err e
      | Inr byId \<Rightarrow>
          let is = sorted_keys byId
          in ok \<lparr>ids = is, get_strategy = map_of byId,
            evaluateAll = evaluateIds byId is\<rparr>)"

text \<open>The signal every strategy ends with.\<close>

definition emit :: "string \<Rightarrow> StrategyContext \<Rightarrow> SignalSide \<Rightarrow> number \<Rightarrow> number \<Rightarrow> string
    \<Rightarrow> (Signal, StrategyError) result" where
  "emit i cx sd confidence amount reason =
     strategySignal i (createSignal
       \<lparr>sig_strategyId = i, sig_productId = ctx_productId cx, sig_side = sd,
        sig_confidence = confidence,
        sig_suggestedSize = amount, sig_reasonCode = reason\<rparr>)"

definition sized :: "SignalSide \<Rightarrow> number \<Rightarrow> number" where
  "sized sd baseSize = (if sd = SigHold then Fin 0 else baseSize)"

definition by_side :: "SignalSide \<Rightarrow> string \<Rightarrow> string \<Rightarrow> string \<Rightarrow> string" where
  "by_side sd up down rest = (case sd of SigBuy \<Rightarrow> up | SigSell \<Rightarrow> down | SigHold \<Rightarrow> rest)"

subsection \<open>Crossing of two averages\<close>

record EmaCrossConfig =
  cross_id :: "string option"
  cross_baseSize :: number

text \<open>The pair of signal averages, if both are positive: the fast one and the slow one.\<close>

definition emaPair :: "IndicatorSnapshot \<Rightarrow> (number \<times> number) option" where
  "emaPair s =
     (let fast = (case signalEmaFast s of None \<Rightarrow> Fin 0 | Some v \<Rightarrow> v);
          slow = (case signalEmaSlow s of None \<Rightarrow> Fin 0 | Some v \<Rightarrow> v)
      in if Fin 0 < fast \<and> Fin 0 < slow then Some (fast, slow) else None)"

text \<open>The pairs a decision reads: now and before, both from the same source.\<close>

definition crossPairs :: "StrategyContext \<Rightarrow> (number \<times> number) \<times> (number \<times> number) option" where
  "crossPairs cx =
     (let now = ctx_indicators cx
      in case (emaPair now, ctx_previousIndicators cx) of
           (Some p, Some before) \<Rightarrow>
             (case emaPair before of
                Some q \<Rightarrow> (p, Some q)
              | None \<Rightarrow> ((emaFast now, emaSlow now), Some (emaFast before, emaSlow before)))
         | (_, before) \<Rightarrow>
             ((emaFast now, emaSlow now), map_option (\<lambda>b. (emaFast b, emaSlow b)) before))"

definition crossSide :: "(number \<times> number) \<times> (number \<times> number) option \<Rightarrow> SignalSide" where
  "crossSide ps =
     (case ps of
        ((fast, slow), Some (fast0, slow0)) \<Rightarrow>
          if fast0 \<le> slow0 \<and> slow < fast then SigBuy
          else if slow0 \<le> fast0 \<and> fast < slow then SigSell
          else SigHold
      | _ \<Rightarrow> SigHold)"

definition createEmaCrossStrategy :: "EmaCrossConfig \<Rightarrow> Strategy" where
  "createEmaCrossStrategy config =
     (let i = (case cross_id config of None \<Rightarrow> ''ema-cross'' | Some i \<Rightarrow> i)
      in \<lparr>strategy_id = i, evaluate = (\<lambda>cx.
           if \<not> isFinite (cross_baseSize config) \<or> cross_baseSize config \<le> Fin 0
           then err (INVALID_STRATEGY_CONFIG i)
           else
             let ps = crossPairs cx;
                 fast = fst (fst ps); slow = snd (fst ps);
                 sd = crossSide ps;
                 denominator = js_max \<bar>slow\<bar> EPSILON;
                 confidence = js_min (Fin 1) (\<bar>fast - slow\<bar> / denominator)
             in emit i cx sd confidence (sized sd (cross_baseSize config))
                  (by_side sd ''EMA_CROSS_UP'' ''EMA_CROSS_DOWN''
                     (if ctx_previousIndicators cx = None then ''EMA_WARMUP'' else ''EMA_NO_CROSS'')))\<rparr>)"

subsection \<open>Breakout of a range\<close>

record BreakoutConfig =
  breakout_id :: "string option"
  lookback :: number
  breakout_baseSize :: number

definition createBreakoutStrategy :: "BreakoutConfig \<Rightarrow> Strategy" where
  "createBreakoutStrategy config =
     (let i = (case breakout_id config of None \<Rightarrow> ''breakout'' | Some i \<Rightarrow> i)
      in \<lparr>strategy_id = i, evaluate = (\<lambda>cx.
           if \<not> isSafeInteger (lookback config) \<or> lookback config < Fin 2 \<or>
              \<not> isFinite (breakout_baseSize config) \<or> breakout_baseSize config \<le> Fin 0
           then err (INVALID_STRATEGY_CONFIG i)
           else
             let n = (case lookback config of Fin r \<Rightarrow> nat \<lfloor>r\<rfloor> | _ \<Rightarrow> 0);
                 cs = ctx_candles cx
             in if length cs < n + 1 then err (INSUFFICIENT_STRATEGY_DATA i)
                else
                  let latest = close_price (last cs);
                      history = butlast (drop (length cs - (n + 1)) cs);
                      highest = foldl js_max NegInf (map high history);
                      lowest = foldl js_min PosInf (map low history);
                      sd = (if highest < latest then SigBuy
                        else if latest < lowest then SigSell else SigHold);
                      boundary = (if sd = SigSell then lowest else highest);
                      confidence = (if sd = SigHold then Fin 0
                        else js_min (Fin 1) (\<bar>latest - boundary\<bar> / js_max boundary EPSILON))
                  in emit i cx sd confidence (sized sd (breakout_baseSize config))
                       (by_side sd ''BREAKOUT_UP'' ''BREAKOUT_DOWN'' ''BREAKOUT_INSIDE_RANGE''))\<rparr>)"

subsection \<open>Reversion of the relative strength\<close>

record RsiReversionConfig =
  rsi_id :: "string option"
  oversold :: number
  overbought :: number
  rsi_baseSize :: number

definition createRsiReversionStrategy :: "RsiReversionConfig \<Rightarrow> Strategy" where
  "createRsiReversionStrategy config =
     (let i = (case rsi_id config of None \<Rightarrow> ''rsi-reversion'' | Some i \<Rightarrow> i)
      in \<lparr>strategy_id = i, evaluate = (\<lambda>cx.
           if \<not> isFinite (oversold config) \<or> \<not> isFinite (overbought config) \<or>
              \<not> isFinite (rsi_baseSize config) \<or> oversold config \<le> Fin 0 \<or>
              Fin 100 \<le> overbought config \<or> overbought config \<le> oversold config \<or>
              rsi_baseSize config \<le> Fin 0
           then err (INVALID_STRATEGY_CONFIG i)
           else
             let r = rsi (ctx_indicators cx);
                 sd = (if r < oversold config then SigBuy
                   else if overbought config < r then SigSell else SigHold);
                 confidence = js_min (Fin 1) (\<bar>Fin 50 - r\<bar> / Fin 50)
             in emit i cx sd confidence (sized sd (rsi_baseSize config))
                  (by_side sd ''RSI_OVERSOLD'' ''RSI_OVERBOUGHT'' ''RSI_NEUTRAL''))\<rparr>)"

subsection \<open>Crossing of a band\<close>

record EmaBandTrendConfig =
  band_id :: "string option"
  band_baseSize :: number

definition BAND_BPS :: number where
  "BAND_BPS = Fin 100"

definition upperBand :: "number \<Rightarrow> number" where
  "upperBand slow = slow * (Fin 1 + BAND_BPS / Fin 10000)"

definition lowerBand :: "number \<Rightarrow> number" where
  "lowerBand slow = slow * (Fin 2 - (Fin 1 + BAND_BPS / Fin 10000))"

definition validPair :: "number \<Rightarrow> number \<Rightarrow> bool" where
  "validPair fast slow \<longleftrightarrow>
     isFinite fast \<and> Fin 0 < fast \<and> isFinite slow \<and> Fin 0 < slow"

definition spreadBps :: "number \<Rightarrow> number \<Rightarrow> number" where
  "spreadBps fast slow = ((fast - slow) / slow) * Fin 10000"

definition bandSide :: "IndicatorSnapshot \<Rightarrow> IndicatorSnapshot \<Rightarrow> SignalSide" where
  "bandSide before now =
     (if emaFast before \<le> upperBand (emaSlow before) \<and> upperBand (emaSlow now) < emaFast now
      then SigBuy
      else if lowerBand (emaSlow before) \<le> emaFast before \<and> emaFast now < lowerBand (emaSlow now)
      then SigSell
      else SigHold)"

definition createEmaBandTrendStrategy :: "EmaBandTrendConfig \<Rightarrow> Strategy" where
  "createEmaBandTrendStrategy config =
     (let i = (case band_id config of None \<Rightarrow> ''ema-band-trend'' | Some i \<Rightarrow> i)
      in \<lparr>strategy_id = i, evaluate = (\<lambda>cx.
           if \<not> isFinite (band_baseSize config) \<or> band_baseSize config \<le> Fin 0
           then err (INVALID_STRATEGY_CONFIG i)
           else
             let now = ctx_indicators cx; warmup = emit i cx SigHold (Fin 0) (Fin 0) ''EMA_BAND_WARMUP''
             in if \<not> validPair (emaFast now) (emaSlow now) then warmup
                else case ctx_previousIndicators cx of
                    None \<Rightarrow> warmup
                  | Some before \<Rightarrow>
                      if \<not> validPair (emaFast before) (emaSlow before) then warmup
                      else
                        let sd = bandSide before now;
                            confidence = js_min (Fin 1)
                              (\<bar>spreadBps (emaFast now) (emaSlow now)\<bar> / BAND_BPS)
                        in emit i cx sd confidence (sized sd (band_baseSize config))
                             (by_side sd ''EMA_BAND_BULL_ENTRY'' ''EMA_BAND_BEAR_EXIT''
                                ''EMA_BAND_NO_EVENT''))\<rparr>)"

subsection \<open>Trend with the funding rate\<close>

text \<open>\<open>FUNDING_TREND_ENTER_THRESHOLD\<close>, the literal \<open>0.0000088750099537037\<close>.\<close>

definition FUNDING_TREND_ENTER_THRESHOLD :: number where
  "FUNDING_TREND_ENTER_THRESHOLD = fl (88750099537037 / 10000000000000000000)"

record FundingTrendConfig =
  funding_id :: "string option"
  enterThreshold :: "number option"
  funding_baseSize :: number

definition fundingSide :: "IndicatorSnapshot \<Rightarrow> number \<Rightarrow> number \<Rightarrow> SignalSide" where
  "fundingSide now avg threshold =
     (if emaSlow now < emaFast now \<and> avg \<le> - threshold then SigBuy
      else if emaFast now < emaSlow now \<and> threshold \<le> avg then SigSell
      else SigHold)"

definition createFundingTrendStrategy :: "FundingTrendConfig \<Rightarrow> Strategy" where
  "createFundingTrendStrategy config =
     (let i = (case funding_id config of None \<Rightarrow> ''funding-trend'' | Some i \<Rightarrow> i);
          threshold = (case enterThreshold config of
              None \<Rightarrow> FUNDING_TREND_ENTER_THRESHOLD | Some t \<Rightarrow> t)
      in \<lparr>strategy_id = i, evaluate = (\<lambda>cx.
           if \<not> isFinite threshold \<or> threshold \<le> Fin 0 \<or>
              \<not> isFinite (funding_baseSize config) \<or> funding_baseSize config \<le> Fin 0
           then err (INVALID_STRATEGY_CONFIG i)
           else
             let now = ctx_indicators cx; warmup = emit i cx SigHold (Fin 0) (Fin 0) ''FUNDING_WARMUP''
             in case fundingAvg now of
                  None \<Rightarrow> warmup
                | Some avg \<Rightarrow>
                    if \<not> isFinite avg then warmup
                    else
                      let sd = fundingSide now avg threshold;
                          amplitude = (\<bar>avg\<bar> - threshold) / threshold;
                          confidence = js_min (Fin 1) (js_max (Fin 0) amplitude)
                      in emit i cx sd confidence (sized sd (funding_baseSize config))
                           (by_side sd ''FUNDING_LONG_CARRY'' ''FUNDING_SHORT_CROWDING''
                              ''FUNDING_NO_SIGNAL''))\<rparr>)"

subsection \<open>A target notional for every signal\<close>

text \<open>\<^verbatim>\<open>models/signal-sizing.ts\<close>.\<close>

datatype SignalSizingErrorCode =
  INVALID_TARGET_SIGNAL_NOTIONAL
| INVALID_SIGNAL_REFERENCE_PRICE
| INVALID_RESOLVED_SIGNAL_QUANTITY

definition resolveTargetSignalQuantity :: "number \<Rightarrow> number
    \<Rightarrow> (number, SignalSizingErrorCode) result" where
  "resolveTargetSignalQuantity targetNotional referencePrice =
     (if \<not> isPositiveFinite targetNotional then err INVALID_TARGET_SIGNAL_NOTIONAL
      else if \<not> isPositiveFinite referencePrice then err INVALID_SIGNAL_REFERENCE_PRICE
      else
        let q = targetNotional / referencePrice
        in if isPositiveFinite q then ok q else err INVALID_RESOLVED_SIGNAL_QUANTITY)"

definition withTargetSignalNotional :: "Strategy \<Rightarrow> number \<Rightarrow> Strategy" where
  "withTargetSignalNotional strategy target =
     \<lparr>strategy_id = strategy_id strategy, evaluate = (\<lambda>cx.
        case evaluate strategy cx of
          Inl e \<Rightarrow> err e
        | Inr v \<Rightarrow>
            if sig_side v = SigHold then ok v
            else
              let reference = (if ctx_candles cx = [] then NaN else close_price (last (ctx_candles cx)))
              in case resolveTargetSignalQuantity target reference of
                   Inl _ \<Rightarrow>
                     err (INVALID_STRATEGY_SIGNAL (strategy_id strategy) INVALID_SUGGESTED_SIZE)
                 | Inr q \<Rightarrow>
                     (case createSignal (v\<lparr>sig_suggestedSize := q\<rparr>) of
                        Inr w \<Rightarrow> ok w
                      | Inl e \<Rightarrow> err (INVALID_STRATEGY_SIGNAL (strategy_id strategy) e)))\<rparr>"

subsection \<open>Calibration of the confidence\<close>

text \<open>
  \<^verbatim>\<open>models/confidence-calibration.ts\<close>.  The power operator of the language on a fractional
  exponent is only approximated, in a way its standard leaves to the implementation: it is the
  parameter \<open>pow\<close>.
\<close>

definition CONFIDENCE_CALIBRATION_PROFILES :: "string list" where
  "CONFIDENCE_CALIBRATION_PROFILES = [''IDENTITY'', ''POWER_HALF'', ''POWER_THIRD'', ''POWER_QUARTER'']"

datatype ConfidenceCalibrationErrorCode =
  INVALID_CONFIDENCE_CALIBRATION_PROFILE | INVALID_RAW_CONFIDENCE

definition isConfidenceCalibrationProfile :: "string \<Rightarrow> bool" where
  "isConfidenceCalibrationProfile p \<longleftrightarrow> list_ex (\<lambda>q. q = p) CONFIDENCE_CALIBRATION_PROFILES"

definition PROFILE_EXPONENTS :: "string \<Rightarrow> number" where
  "PROFILE_EXPONENTS p =
     (if p = ''IDENTITY'' then Fin 1 else if p = ''POWER_HALF'' then Fin 1 / Fin 2
      else if p = ''POWER_THIRD'' then Fin 1 / Fin 3 else Fin 1 / Fin 4)"

definition calibrateConfidence :: "(number \<Rightarrow> number \<Rightarrow> number) \<Rightarrow> string \<Rightarrow> number
    \<Rightarrow> (number, ConfidenceCalibrationErrorCode) result" where
  "calibrateConfidence pow profile raw =
     (if \<not> isConfidenceCalibrationProfile profile then err INVALID_CONFIDENCE_CALIBRATION_PROFILE
      else if \<not> isFinite raw \<or> raw < Fin 0 \<or> Fin 1 < raw then err INVALID_RAW_CONFIDENCE
      else if num_eq raw (Fin 0) \<or> num_eq raw (Fin 1) then ok raw
      else ok (pow raw (PROFILE_EXPONENTS profile)))"

definition withConfidenceCalibration :: "(number \<Rightarrow> number \<Rightarrow> number) \<Rightarrow> Strategy \<Rightarrow> string
    \<Rightarrow> Strategy" where
  "withConfidenceCalibration pow strategy profile =
     \<lparr>strategy_id = strategy_id strategy, evaluate = (\<lambda>cx.
        if \<not> isConfidenceCalibrationProfile profile
        then err (INVALID_STRATEGY_CONFIG (strategy_id strategy))
        else case evaluate strategy cx of
            Inl e \<Rightarrow> err e
          | Inr v \<Rightarrow>
              if sig_side v = SigHold then ok v
              else case calibrateConfidence pow profile (sig_confidence v) of
                  Inl _ \<Rightarrow> err (INVALID_STRATEGY_CONFIG (strategy_id strategy))
                | Inr x \<Rightarrow>
                    (case createSignal (v\<lparr>sig_confidence := x\<rparr>) of
                       Inr w \<Rightarrow> ok w
                     | Inl e \<Rightarrow> err (INVALID_STRATEGY_SIGNAL (strategy_id strategy) e)))\<rparr>"

text \<open>\<^verbatim>\<open>models/regime-sizing.ts\<close>: the profile of a regime, warm-up included.\<close>

record RegimeConditionalSizingPolicy =
  sizing_bullish :: string
  sizing_bearish :: string
  sizing_range :: string
  sizing_warmUp :: string

definition isValidRegimeConditionalSizingPolicy :: "RegimeConditionalSizingPolicy \<Rightarrow> bool" where
  "isValidRegimeConditionalSizingPolicy p \<longleftrightarrow>
     isConfidenceCalibrationProfile (sizing_bullish p) \<and>
     isConfidenceCalibrationProfile (sizing_bearish p) \<and>
     isConfidenceCalibrationProfile (sizing_range p) \<and>
     isConfidenceCalibrationProfile (sizing_warmUp p)"

definition resolveRegimeSizingProfile :: "RegimeConditionalSizingPolicy \<Rightarrow> RegimeKind option
    \<Rightarrow> string" where
  "resolveRegimeSizingProfile p r =
     (case r of None \<Rightarrow> sizing_warmUp p
      | Some BULLISH \<Rightarrow> sizing_bullish p
      | Some BEARISH \<Rightarrow> sizing_bearish p
      | Some RANGE \<Rightarrow> sizing_range p)"

end
