(* ===== verification/TargetExposure.thy ===== *)
theory TargetExposure
  imports Strategies
begin

text \<open>
  The target-exposure policy, \<^verbatim>\<open>models/target-exposure.ts\<close>: from daily candles, the position
  and the cash, the order that brings the exposure to its target; and the strategy that reports
  it, \<^verbatim>\<open>packages/strategies/src/target-exposure.ts\<close>.  \<open>Math.sqrt\<close> and the power operator are
  approximated by the language implementation: they are the parameters \<open>rt\<close> and \<open>pow\<close>.
\<close>

subsection \<open>Calendar\<close>

text \<open>
  The time value of \<open>new Date(start)\<close> in days since the epoch, if it is a date; then the day
  of the week and the day of the month as the language standard computes them.
\<close>

definition utc_day :: "number \<Rightarrow> int option" where
  "utc_day t =
     (case t of
        Fin r \<Rightarrow>
          if \<bar>r\<bar> \<le> 8640000000000000
          then Some ((if 0 \<le> r then \<lfloor>r\<rfloor> else \<lceil>r\<rceil>) div 86400000) else None
      | _ \<Rightarrow> None)"

definition dayFromYear :: "int \<Rightarrow> int" where
  "dayFromYear y = 365 * (y - 1970) + (y - 1969) div 4 - (y - 1901) div 100 + (y - 1601) div 400"

definition yearFromDay :: "int \<Rightarrow> int" where
  "yearFromDay d =
     (let y = 1970 + (d * 400) div 146097
      in if d < dayFromYear y then y - 1 else if dayFromYear (y + 1) \<le> d then y + 1 else y)"

definition inLeapYear :: "int \<Rightarrow> int" where
  "inLeapYear d =
     (let y = yearFromDay d in if dayFromYear (y + 1) - dayFromYear y = 366 then 1 else 0)"

definition monthStarts :: "int \<Rightarrow> int list" where
  "monthStarts l =
     [0, 31, 59 + l, 90 + l, 120 + l, 151 + l, 181 + l, 212 + l, 243 + l, 273 + l, 304 + l, 334 + l]"

definition isUtcMonday :: "number \<Rightarrow> bool" where
  "isUtcMonday t = (case utc_day t of None \<Rightarrow> False | Some d \<Rightarrow> (d + 4) mod 7 = 1)"

definition isUtcMonthStart :: "number \<Rightarrow> bool" where
  "isUtcMonthStart t =
     (case utc_day t of None \<Rightarrow> False
      | Some d \<Rightarrow> d - dayFromYear (yearFromDay d) \<in> set (monthStarts (inLeapYear d)))"

subsection \<open>Statistics\<close>

definition simpleMovingAverage :: "number list \<Rightarrow> nat \<Rightarrow> number option" where
  "simpleMovingAverage closes period =
     (if period < 1 \<or> length closes < period then None
      else Some (foldl (+) (Fin 0) (drop (length closes - period) closes) / Fin (of_nat period)))"

text \<open>The simple returns of the last \<open>period\<close> closes.\<close>

definition simpleReturns :: "number list \<Rightarrow> nat \<Rightarrow> number list" where
  "simpleReturns closes period =
     map (\<lambda>i. closes ! i / closes ! (i - 1) - Fin 1) [length closes - period ..< length closes]"

definition annualizedRealizedVolatility :: "(number \<Rightarrow> number \<Rightarrow> number) \<Rightarrow> (number \<Rightarrow> number)
    \<Rightarrow> number list \<Rightarrow> nat \<Rightarrow> number option" where
  "annualizedRealizedVolatility pow rt closes period =
     (if period < 2 \<or> length closes < period + 1 then None
      else
        let returns = simpleReturns closes period;
            mean = foldl (+) (Fin 0) returns / Fin (of_nat (length returns));
            variance = foldl (\<lambda>s v. s + pow (v - mean) (Fin 2)) (Fin 0) returns /
              Fin (of_nat (length returns - 1))
        in Some (rt variance * rt (Fin 365)))"

subsection \<open>The decision\<close>

definition VOL_TARGET :: number where "VOL_TARGET = Fin (1 / 2)"
definition TREND_SMA_PERIOD :: nat where "TREND_SMA_PERIOD = 200"
definition VOL_PERIOD :: nat where "VOL_PERIOD = 30"
definition DRIFT_THRESHOLD :: number where "DRIFT_THRESHOLD = fl (1 / 10)"
definition MIN_ORDER_NOTIONAL :: number where "MIN_ORDER_NOTIONAL = Fin 10"

datatype TargetExposureReason =
  ANCHOR | MONTH_START | DRIFT | IN_BAND | BELOW_MIN_ORDER | INSUFFICIENT_HISTORY

record TargetExposureInput =
  te_candles :: "Candle list"
  te_positionQuantity :: number
  te_cash :: number
  te_feeBps :: number
  te_slippageBps :: number

record TargetExposureDecision =
  te_side :: SignalSide
  te_quantity :: number
  te_notional :: number
  te_reason :: TargetExposureReason
  te_target :: "number option"
  te_exposure :: "number option"
  te_trend :: "bool option"
  te_vol30 :: "number option"
  te_anchorStart :: "number option"

definition insufficientHistory :: TargetExposureDecision where
  "insufficientHistory =
     \<lparr>te_side = SigHold, te_quantity = Fin 0, te_notional = Fin 0, te_reason = INSUFFICIENT_HISTORY,
      te_target = None, te_exposure = None, te_trend = None, te_vol30 = None,
      te_anchorStart = None\<rparr>"

fun contiguousDays :: "Candle list \<Rightarrow> bool" where
  "contiguousDays (c # d # cs) \<longleftrightarrow>
     num_eq (start d - start c) (Fin 86400000) \<and> contiguousDays (d # cs)"
| "contiguousDays _ \<longleftrightarrow> True"

definition trendAt :: "number list \<Rightarrow> nat \<Rightarrow> bool option" where
  "trendAt closes index =
     (case simpleMovingAverage (take (index + 1) closes) TREND_SMA_PERIOD of
        None \<Rightarrow> None | Some sma \<Rightarrow> Some (sma < closes ! index))"

text \<open>The search for the anchor, downwards from the index before its argument.\<close>

fun findAnchor :: "Candle list \<Rightarrow> nat \<Rightarrow> nat option" where
  "findAnchor cs 0 = None"
| "findAnchor cs (Suc index) =
     (case (trendAt (map close_price cs) index,
            if index > 0 then trendAt (map close_price cs) (index - 1) else None) of
        (Some current, Some previous) \<Rightarrow>
          if isUtcMonday (start (cs ! index)) \<or> current \<noteq> previous then Some index
          else findAnchor cs index
      | _ \<Rightarrow> None)"

definition planTargetExposure :: "(number \<Rightarrow> number \<Rightarrow> number) \<Rightarrow> (number \<Rightarrow> number)
    \<Rightarrow> TargetExposureInput \<Rightarrow> TargetExposureDecision" where
  "planTargetExposure pow rt i =
     (let cs = te_candles i; closes = map close_price cs; top = length cs - 1
      in if \<not> contiguousDays cs then insufficientHistory
         else case findAnchor cs (length cs) of
             None \<Rightarrow> insufficientHistory
           | Some anchor \<Rightarrow>
               (case (trendAt closes anchor,
                   annualizedRealizedVolatility pow rt (take (anchor + 1) closes) VOL_PERIOD) of
                  (Some anchorTrend, Some anchorVol) \<Rightarrow>
                    if anchorVol \<le> Fin 0 then insufficientHistory
                    else
                      let target = (if anchorTrend then js_min (Fin 1) (VOL_TARGET / anchorVol)
                            else Fin 0);
                          px = close_price (cs ! top);
                          holding = js_max (Fin 0) (te_positionQuantity i) * px;
                          equity = js_max (Fin 0) (te_cash i) + holding;
                          exposure = (if Fin 0 < equity then holding / equity else Fin 0);
                          decide = (\<lambda>sd q n r.
                            \<lparr>te_side = sd, te_quantity = q, te_notional = n, te_reason = r,
                             te_target = Some target, te_exposure = Some exposure,
                             te_trend = trendAt closes top,
                             te_vol30 = annualizedRealizedVolatility pow rt closes VOL_PERIOD,
                             te_anchorStart = Some (start (cs ! anchor))\<rparr>);
                          reason = (if anchor = top then Some ANCHOR
                            else if isUtcMonthStart (start (cs ! top)) then Some MONTH_START
                            else if DRIFT_THRESHOLD < \<bar>exposure - target\<bar> then Some DRIFT
                            else None)
                      in case reason of
                           None \<Rightarrow> decide SigHold (Fin 0) (Fin 0) IN_BAND
                         | Some r \<Rightarrow>
                             let delta = target * equity - holding;
                                 buyCostFactor = (Fin 1 + te_slippageBps i / Fin 10000) *
                                   (Fin 1 + te_feeBps i / Fin 10000);
                                 notional = (if Fin 0 < delta
                                   then js_min delta ((js_max (Fin 0) (te_cash i) / buyCostFactor) *
                                     (Fin 1 - fl (1 / 1000000000)))
                                   else js_min (- delta) holding)
                             in if notional < MIN_ORDER_NOTIONAL
                                then decide SigHold (Fin 0) (Fin 0) BELOW_MIN_ORDER
                                else
                                  let q = (if Fin 0 < delta then notional / px
                                        else js_min (notional / px)
                                          (js_max (Fin 0) (te_positionQuantity i)))
                                  in decide (if Fin 0 < delta then SigBuy else SigSell) q (q * px) r
                | _ \<Rightarrow> insufficientHistory))"

text \<open>The change of the position over the last candle; \<open>-0\<close> is \<open>0\<close> here.\<close>

definition decisionCandlePnl :: "Candle list \<Rightarrow> number \<Rightarrow> number option" where
  "decisionCandlePnl cs q =
     (if length cs < 2 then None
      else Some (js_max (Fin 0) q *
        (close_price (last cs) - close_price (cs ! (length cs - 2)))))"

text \<open>The risk gate: the daily result it uses, and whether the portfolio is asked.\<close>

definition targetExposureRiskGate :: "OrderSide \<Rightarrow> number \<Rightarrow> number option \<Rightarrow> number \<times> bool" where
  "targetExposureRiskGate sd pnl candlePnl =
     (if sd = SELL then Fin 0
      else js_min pnl (case candlePnl of None \<Rightarrow> pnl | Some x \<Rightarrow> x), sd = BUY)"

subsection \<open>The strategy\<close>

definition createTargetExposureStrategy :: "(number \<Rightarrow> number \<Rightarrow> number) \<Rightarrow> (number \<Rightarrow> number)
    \<Rightarrow> string option \<Rightarrow> Strategy" where
  "createTargetExposureStrategy pow rt config_id =
     (let i = (case config_id of None \<Rightarrow> ''target-exposure'' | Some i \<Rightarrow> i)
      in \<lparr>strategy_id = i, evaluate = (\<lambda>cx.
           let plan = planTargetExposure pow rt
                 \<lparr>te_candles = ctx_candles cx, te_positionQuantity = Fin 0, te_cash = Fin 1,
                  te_feeBps = Fin 0, te_slippageBps = Fin 0\<rparr>;
               ready = (te_reason plan \<noteq> INSUFFICIENT_HISTORY \<and> te_target plan \<noteq> None);
               sd = (if \<not> ready then SigHold
                 else if te_trend plan = Some True then SigBuy else SigSell)
           in emit i cx sd
                (if ready then (case te_target plan of None \<Rightarrow> Fin 0 | Some t \<Rightarrow> t) else Fin 0)
                (Fin 0)
                (if \<not> ready then ''TARGET_EXPOSURE_WARMUP''
                 else if sd = SigBuy then ''TARGET_EXPOSURE_TREND_UP''
                 else ''TARGET_EXPOSURE_TREND_DOWN''))\<rparr>)"

end
