(* ===== verification/PaperExecution.thy ===== *)
theory PaperExecution
  imports Domain
begin

text \<open>
  The paper broker, \<^verbatim>\<open>packages/paper-execution/src/index.ts\<close>: one market order against a
  cash-and-position portfolio, with slippage, a fee and rounding tolerances.
\<close>

record PaperBrokerConfig =
  feeBps :: number
  slippageBps :: number

record PaperPortfolio =
  cash :: number
  positionQuantity :: number
  averagePrice :: number

record PaperTrade =
  fill :: Fill
  closedQuantity :: number
  realizedPnl :: number

record PaperExecution =
  portfolio :: PaperPortfolio
  trade :: PaperTrade

datatype PaperBrokerError =
  INVALID_BROKER_CONFIG
| INVALID_MARKET_PRICE
| INVALID_FILL_RESULT
| INSUFFICIENT_CASH
| INSUFFICIENT_POSITION

definition validConfig :: "PaperBrokerConfig \<Rightarrow> bool" where
  "validConfig c \<longleftrightarrow>
     isFinite (feeBps c) \<and> Fin 0 \<le> feeBps c \<and> feeBps c < Fin 10000 \<and>
     isFinite (slippageBps c) \<and> Fin 0 \<le> slippageBps c \<and> slippageBps c < Fin 10000"

text \<open>
  A timestamp in a template string.  A fill whose timestamp is not a natural number is
  rejected whatever its identifier says, so only those are spelled out.
\<close>

definition timestamp_string :: "number \<Rightarrow> string" where
  "timestamp_string t = (case t of Fin r \<Rightarrow> radix 10 (nat \<lfloor>r\<rfloor>) | _ \<Rightarrow> ''NaN'')"

definition direction :: "OrderIntent \<Rightarrow> number" where
  "direction i = (if side i = BUY then Fin 1 else Fin (- 1))"

definition executionPrice :: "OrderIntent \<Rightarrow> number \<Rightarrow> PaperBrokerConfig \<Rightarrow> number" where
  "executionPrice i mp c = mp * (Fin 1 + direction i * (slippageBps c / Fin 10000))"

definition executionFee :: "OrderIntent \<Rightarrow> number \<Rightarrow> PaperBrokerConfig \<Rightarrow> number" where
  "executionFee i mp c = executionPrice i mp c * quantity i * (feeBps c / Fin 10000)"

definition tolerance :: "number \<Rightarrow> number" where
  "tolerance x = js_max (Fin 1) \<bar>x\<bar> * EPSILON * Fin 16"

definition executePaperOrder :: "PaperPortfolio \<Rightarrow> OrderIntent \<Rightarrow> number \<Rightarrow> number
    \<Rightarrow> PaperBrokerConfig \<Rightarrow> (PaperExecution, PaperBrokerError) result" where
  "executePaperOrder pf i mp ts c =
     (if \<not> validConfig c then err INVALID_BROKER_CONFIG
      else if \<not> isFinite mp \<or> mp \<le> Fin 0 then err INVALID_MARKET_PRICE
      else
        let px = executionPrice i mp c;
            charge = executionFee i mp c;
            notional = px * quantity i;
            cashTolerance = tolerance (cash pf);
            positionTolerance = tolerance (positionQuantity pf)
        in
          if side i = BUY \<and> cash pf + cashTolerance < notional + charge then err INSUFFICIENT_CASH
          else if side i = SELL \<and> positionQuantity pf + positionTolerance < quantity i
          then err INSUFFICIENT_POSITION
          else case createFill
              \<lparr>fillId = ''paper:'' @ clientOrderId i @ '':'' @ timestamp_string ts,
               fill_clientOrderId = clientOrderId i, exchangeOrderId = ''paper:'' @ clientOrderId i,
               price = px, fill_quantity = quantity i, fee = charge, executedAt = ts\<rparr> of
              Inl _ \<Rightarrow> err INVALID_FILL_RESULT
            | Inr f \<Rightarrow>
                let current = positionQuantity pf;
                    delta = direction i * quantity i;
                    sameDirection = (num_eq current (Fin 0) \<or> num_eq (sgn current) (sgn delta));
                    closed = (if sameDirection then Fin 0 else js_min \<bar>current\<bar> \<bar>delta\<bar>);
                    grossRealized =
                      (if num_eq closed (Fin 0) then Fin 0
                       else if Fin 0 < current then (px - averagePrice pf) * closed
                       else (averagePrice pf - px) * closed);
                    realized = (if num_eq closed (Fin 0) then Fin 0 else grossRealized - charge);
                    rawNext = current + delta;
                    next = (if \<bar>rawNext\<bar> \<le> positionTolerance then Fin 0 else rawNext);
                    average =
                      (if sameDirection
                       then (if num_eq next (Fin 0) then Fin 0
                             else (\<bar>current\<bar> * averagePrice pf + \<bar>delta\<bar> * px +
                                 (if side i = BUY then charge else Fin 0)) / \<bar>next\<bar>)
                       else if num_eq next (Fin 0) then Fin 0
                       else if \<not> num_eq (sgn next) (sgn current) then px
                       else averagePrice pf);
                    cashDelta = (if side i = BUY then - (notional + charge) else notional - charge);
                    rawCash = cash pf + cashDelta;
                    nextCash = (if \<bar>rawCash\<bar> \<le> cashTolerance then Fin 0 else rawCash)
                in ok \<lparr>portfolio = \<lparr>cash = nextCash, positionQuantity = next,
                      averagePrice = average\<rparr>,
                    trade = \<lparr>fill = f, closedQuantity = closed, realizedPnl = realized\<rparr>\<rparr>)"

end
