(* ===== verification/Risk.thy ===== *)
theory Risk
  imports Domain
begin

text \<open>
  The risk gate of one order, \<^verbatim>\<open>packages/risk/src/risk.ts\<close>, and the consolidated admission
  of a portfolio, \<^verbatim>\<open>packages/risk/src/portfolio.ts\<close>.
\<close>

subsection \<open>One order\<close>

record RiskConfig =
  maxOrderNotional :: number
  maxPositionNotional :: number
  maxGrossExposure :: number
  maxDailyLoss :: number
  cooldownMs :: number
  stopLossBps :: number
  takeProfitBps :: number

record RiskSnapshot =
  marketPrice :: number
  currentPositionQuantity :: number
  otherExposureNotional :: number
  dailyPnl :: number
  lastTradeAt :: "number option"
  now :: number
  killSwitchActive :: bool

datatype RiskReasonCode =
  KILL_SWITCH_ACTIVE
| DAILY_LOSS_LIMIT
| COOLDOWN_ACTIVE
| SPOT_SHORT_FORBIDDEN
| ORDER_NOTIONAL_LIMIT
| POSITION_NOTIONAL_LIMIT
| GROSS_EXPOSURE_LIMIT

record RiskApproval =
  stopLossPrice :: number
  takeProfitPrice :: number
  projectedPositionNotional :: number
  projectedGrossExposure :: number

datatype RiskDecision = APPROVED RiskApproval | REJECTED RiskReasonCode

datatype RiskError = INVALID_RISK_CONFIG | INVALID_RISK_SNAPSHOT

definition validPositive :: "number \<Rightarrow> bool" where
  "validPositive v \<longleftrightarrow> isFinite v \<and> Fin 0 < v"

definition validConfig :: "RiskConfig \<Rightarrow> bool" where
  "validConfig c \<longleftrightarrow>
     validPositive (maxOrderNotional c) \<and> validPositive (maxPositionNotional c) \<and>
     validPositive (maxGrossExposure c) \<and> validPositive (maxDailyLoss c) \<and>
     isSafeInteger (cooldownMs c) \<and> Fin 0 \<le> cooldownMs c \<and>
     validPositive (stopLossBps c) \<and> validPositive (takeProfitBps c) \<and>
     stopLossBps c < Fin 10000 \<and> takeProfitBps c < Fin 100000"

definition validSnapshot :: "RiskSnapshot \<Rightarrow> bool" where
  "validSnapshot s \<longleftrightarrow>
     validPositive (marketPrice s) \<and> isFinite (currentPositionQuantity s) \<and>
     isFinite (otherExposureNotional s) \<and> Fin 0 \<le> otherExposureNotional s \<and>
     isFinite (dailyPnl s) \<and> isSafeInteger (now s) \<and> Fin 0 \<le> now s \<and>
     (case lastTradeAt s of None \<Rightarrow> True
      | Some t \<Rightarrow> isSafeInteger t \<and> Fin 0 \<le> t \<and> t \<le> now s)"

text \<open>The literal \<open>-1e-12\<close>.\<close>

definition short_tolerance :: number where
  "short_tolerance = - fl (1 / 1000000000000)"

definition orderNotional :: "OrderIntent \<Rightarrow> RiskSnapshot \<Rightarrow> number" where
  "orderNotional i s = quantity i * marketPrice s"

definition projectedQuantity :: "OrderIntent \<Rightarrow> RiskSnapshot \<Rightarrow> number" where
  "projectedQuantity i s =
     currentPositionQuantity s + (if side i = BUY then quantity i else - quantity i)"

definition projectedNotional :: "OrderIntent \<Rightarrow> RiskSnapshot \<Rightarrow> number" where
  "projectedNotional i s = \<bar>projectedQuantity i s\<bar> * marketPrice s"

definition projectedExposure :: "OrderIntent \<Rightarrow> RiskSnapshot \<Rightarrow> number" where
  "projectedExposure i s = otherExposureNotional s + projectedNotional i s"

definition checkRisk :: "OrderIntent \<Rightarrow> RiskSnapshot \<Rightarrow> RiskConfig
    \<Rightarrow> (RiskDecision, RiskError) result" where
  "checkRisk i s c =
     (if \<not> validConfig c then err INVALID_RISK_CONFIG
      else if \<not> validSnapshot s then err INVALID_RISK_SNAPSHOT
      else if killSwitchActive s then ok (REJECTED KILL_SWITCH_ACTIVE)
      else if dailyPnl s \<le> - maxDailyLoss c then ok (REJECTED DAILY_LOSS_LIMIT)
      else if (case lastTradeAt s of None \<Rightarrow> False | Some t \<Rightarrow> now s - t < cooldownMs c)
      then ok (REJECTED COOLDOWN_ACTIVE)
      else if maxOrderNotional c < orderNotional i s then ok (REJECTED ORDER_NOTIONAL_LIMIT)
      else if projectedQuantity i s < short_tolerance then ok (REJECTED SPOT_SHORT_FORBIDDEN)
      else if maxPositionNotional c < projectedNotional i s
      then ok (REJECTED POSITION_NOTIONAL_LIMIT)
      else if maxGrossExposure c < projectedExposure i s then ok (REJECTED GROSS_EXPOSURE_LIMIT)
      else
        let stopDistance = stopLossBps c / Fin 10000;
            takeDistance = takeProfitBps c / Fin 10000
        in ok (APPROVED
          \<lparr>stopLossPrice = (if side i = BUY then marketPrice s * (Fin 1 - stopDistance)
             else marketPrice s * (Fin 1 + stopDistance)),
           takeProfitPrice = (if side i = BUY then marketPrice s * (Fin 1 + takeDistance)
             else marketPrice s * (Fin 1 - takeDistance)),
           projectedPositionNotional = projectedNotional i s,
           projectedGrossExposure = projectedExposure i s\<rparr>))"

subsection \<open>A portfolio\<close>

record PortfolioRiskLimits =
  pf_maxGrossExposure :: number
  pf_maxDailyLoss :: number

record PortfolioProductRiskInput =
  pf_productId :: string
  pf_intent :: "OrderIntent option"
  pf_snapshot :: RiskSnapshot
  pf_config :: RiskConfig

datatype PortfolioReasonCode =
  LocalReason RiskReasonCode
| CONSOLIDATED_DAILY_LOSS_LIMIT
| CONSOLIDATED_GROSS_EXPOSURE_LIMIT

datatype PortfolioProductDecision =
  PF_APPROVED RiskApproval
| PF_REJECTED PortfolioReasonCode
| NO_ORDER

type_synonym PortfolioProductRiskOutcome = "string \<times> PortfolioProductDecision"

record PortfolioRiskEvaluation =
  decisions :: "PortfolioProductRiskOutcome list"
  consolidatedGrossExposure :: number
  consolidatedDailyPnl :: number

datatype PortfolioRiskError =
  ProductError RiskError
| INVALID_PORTFOLIO_LIMITS
| DUPLICATE_PORTFOLIO_PRODUCT string

definition validLimits :: "PortfolioRiskLimits \<Rightarrow> bool" where
  "validLimits l \<longleftrightarrow>
     isFinite (pf_maxGrossExposure l) \<and> Fin 0 < pf_maxGrossExposure l \<and>
     isFinite (pf_maxDailyLoss l) \<and> Fin 0 < pf_maxDailyLoss l"

definition currentNotional :: "PortfolioProductRiskInput \<Rightarrow> number" where
  "currentNotional p = \<bar>currentPositionQuantity (pf_snapshot p)\<bar> * marketPrice (pf_snapshot p)"

text \<open>The loop over neighbours of the sorted list.\<close>

fun duplicateProduct :: "PortfolioProductRiskInput list \<Rightarrow> string option" where
  "duplicateProduct (p # q # ps) =
     (if pf_productId p = pf_productId q then Some (pf_productId q) else duplicateProduct (q # ps))"
| "duplicateProduct _ = None"

text \<open>One iteration of the admission loop, and the loop: an error leaves it at once.\<close>

definition admitProduct :: "PortfolioRiskLimits \<Rightarrow> number \<Rightarrow> PortfolioProductRiskInput
    \<Rightarrow> (PortfolioProductDecision \<times> number, RiskError) result" where
  "admitProduct l running p =
     (case pf_intent p of
        None \<Rightarrow> ok (NO_ORDER, running)
      | Some i \<Rightarrow>
          (case checkRisk i (pf_snapshot p) (pf_config p) of
             Inl e \<Rightarrow> err e
           | Inr (REJECTED r) \<Rightarrow> ok (PF_REJECTED (LocalReason r), running)
           | Inr (APPROVED a) \<Rightarrow>
               let delta = projectedPositionNotional a - currentNotional p
               in if pf_maxGrossExposure l < running + delta
                  then ok (PF_REJECTED CONSOLIDATED_GROSS_EXPOSURE_LIMIT, running)
                  else ok (PF_APPROVED a, running + delta)))"

fun admitProducts :: "PortfolioRiskLimits \<Rightarrow> number \<Rightarrow> PortfolioProductRiskInput list
    \<Rightarrow> (PortfolioProductRiskOutcome list \<times> number, RiskError) result" where
  "admitProducts l running [] = ok ([], running)"
| "admitProducts l running (p # ps) =
     (case admitProduct l running p of
        Inl e \<Rightarrow> err e
      | Inr (d, running') \<Rightarrow>
          (case admitProducts l running' ps of
             Inl e \<Rightarrow> err e
           | Inr (ds, final) \<Rightarrow> ok ((pf_productId p, d) # ds, final)))"

definition evaluatePortfolioRisk :: "PortfolioProductRiskInput list \<Rightarrow> PortfolioRiskLimits
    \<Rightarrow> (PortfolioRiskEvaluation, PortfolioRiskError) result" where
  "evaluatePortfolioRisk products l =
     (if \<not> validLimits l then err INVALID_PORTFOLIO_LIMITS
      else
        let sorted = sort_key pf_productId products
        in case duplicateProduct sorted of
            Some i \<Rightarrow> err (DUPLICATE_PORTFOLIO_PRODUCT i)
          | None \<Rightarrow>
              let pnl = foldl (\<lambda>t p. t + dailyPnl (pf_snapshot p)) (Fin 0) sorted;
                  gross = foldl (\<lambda>t p. t + currentNotional p) (Fin 0) sorted
              in if pnl \<le> - pf_maxDailyLoss l
                 then ok \<lparr>decisions = map (\<lambda>p.
                      (pf_productId p, PF_REJECTED CONSOLIDATED_DAILY_LOSS_LIMIT)) sorted,
                    consolidatedGrossExposure = gross, consolidatedDailyPnl = pnl\<rparr>
                 else (case admitProducts l gross sorted of
                     Inl e \<Rightarrow> err (ProductError e)
                   | Inr (ds, final) \<Rightarrow> ok \<lparr>decisions = ds,
                       consolidatedGrossExposure = final, consolidatedDailyPnl = pnl\<rparr>))"

end
