(* ===== verification/CyclePlanning.thy ===== *)
theory CyclePlanning
  imports Domain Workflow TradingCycle
begin

text \<open>
  The pure planning functions around one cycle: wake routing (\<^verbatim>\<open>models/cycle-wake.ts\<close>), the
  daily risk window (\<^verbatim>\<open>models/daily-risk.ts\<close>), the marked value of a paper portfolio
  (\<^verbatim>\<open>models/paper-valuation.ts\<close>), retries of the market request
  (\<^verbatim>\<open>models/market-retry-schedule.ts\<close>), the choice of a market source
  (\<^verbatim>\<open>models/market-source-failover.ts\<close>), the wake-up schedule
  (\<^verbatim>\<open>models/cycle-schedule.ts\<close>) and the admission record
  (\<^verbatim>\<open>models/decision-admission-telemetry.ts\<close>).
\<close>

subsection \<open>Wakes\<close>

record CycleWakePlan =
  wake_triggerAlarm :: bool
  wake_pendingAlarm :: bool

definition planCycleWake :: "tradingCycleState \<Rightarrow> bool \<Rightarrow> CycleWakePlan" where
  "planCycleWake ph alarm =
     \<lparr>wake_triggerAlarm = (alarm \<and> ph = Waiting), wake_pendingAlarm = (alarm \<and> ph \<noteq> Waiting)\<rparr>"

definition shouldStartPendingCycle :: "CycleWakePlan \<Rightarrow> tradingCycleState option \<Rightarrow> bool" where
  "shouldStartPendingCycle plan ph \<longleftrightarrow> wake_pendingAlarm plan \<and> ph = Some Waiting"

subsection \<open>The value of a paper portfolio\<close>

datatype PaperValuationQuality = fresh | stale | unavailable

record PaperValuationMark =
  mark_price :: number
  mark_source :: string
  mark_timeframe :: string
  mark_candleClosedAt :: number
  mark_maxMarketStalenessMs :: number

record PaperValuationInput =
  pv_cash :: number
  pv_positionQuantity :: number
  pv_mark :: "PaperValuationMark option"
  pv_asOf :: number

record PaperValuation =
  val_asOf :: number
  equity :: "number option"
  exposureNotional :: "number option"
  exposureQuality :: PaperValuationQuality
  val_markPrice :: "number option"
  val_markSource :: "string option"
  val_timeframe :: "string option"
  val_candleClosedAt :: "number option"
  ageMs :: "number option"
  quality :: PaperValuationQuality

datatype PaperValuationErrorCode =
  INVALID_PORTFOLIO | INVALID_AS_OF | INVALID_MARK | VALUATION_OVERFLOW

definition isSafeTime :: "number \<Rightarrow> bool" where
  "isSafeTime v \<longleftrightarrow> isSafeInteger v \<and> Fin 0 \<le> v"

definition isValidPaperValuationMark :: "PaperValuationMark \<Rightarrow> bool" where
  "isValidPaperValuationMark v \<longleftrightarrow>
     isFinite (mark_price v) \<and> Fin 0 < mark_price v \<and>
     mark_source v = ''COINBASE_CANDLE_CLOSE'' \<and> non_blank (mark_timeframe v) \<and>
     isSafeTime (mark_candleClosedAt v) \<and>
     isSafeInteger (mark_maxMarketStalenessMs v) \<and> Fin 0 < mark_maxMarketStalenessMs v"

definition normalizePaperValuationMark :: "PaperValuationMark option \<Rightarrow> PaperValuationMark option" where
  "normalizePaperValuationMark v =
     (case v of None \<Rightarrow> None | Some w \<Rightarrow> if isValidPaperValuationMark w then Some w else None)"

definition acceptPaperValuationMark :: "PaperValuationMark option \<Rightarrow> PaperValuationMark option
    \<Rightarrow> PaperValuationMark option" where
  "acceptPaperValuationMark candidate before =
     (case normalizePaperValuationMark candidate of
        Some v \<Rightarrow> Some v | None \<Rightarrow> normalizePaperValuationMark before)"

definition ageMsQuality :: "PaperValuationInput \<Rightarrow> number \<Rightarrow> PaperValuationQuality" where
  "ageMsQuality i age =
     (case pv_mark i of
        Some m \<Rightarrow> if age \<le> mark_maxMarketStalenessMs m then fresh else stale
      | None \<Rightarrow> stale)"

definition projectPaperValuation :: "PaperValuationInput
    \<Rightarrow> (PaperValuation, PaperValuationErrorCode) result" where
  "projectPaperValuation i =
     (if \<not> isFinite (pv_cash i) \<or> pv_cash i < Fin 0 \<or> \<not> isFinite (pv_positionQuantity i) \<or>
         pv_positionQuantity i < Fin 0
      then err INVALID_PORTFOLIO
      else if \<not> isSafeTime (pv_asOf i) then err INVALID_AS_OF
      else
        let flat = num_eq (pv_positionQuantity i) (Fin 0)
        in case pv_mark i of
             None \<Rightarrow>
               ok \<lparr>val_asOf = pv_asOf i, equity = (if flat then Some (pv_cash i) else None),
                 exposureNotional = (if flat then Some (Fin 0) else None),
                 exposureQuality = (if flat then fresh else unavailable), val_markPrice = None,
                 val_markSource = None, val_timeframe = None, val_candleClosedAt = None,
                 ageMs = None, quality = unavailable\<rparr>
           | Some m \<Rightarrow>
               if \<not> isValidPaperValuationMark m \<or> pv_asOf i < mark_candleClosedAt m
               then err INVALID_MARK
               else
                 let eq = pv_cash i + pv_positionQuantity i * mark_price m;
                     exposure = \<bar>pv_positionQuantity i\<bar> * mark_price m
                 in if \<not> isFinite eq \<or> \<not> isFinite exposure then err VALUATION_OVERFLOW
                    else
                      let age = pv_asOf i - mark_candleClosedAt m
                      in ok \<lparr>val_asOf = pv_asOf i, equity = Some eq,
                           exposureNotional = Some exposure,
                           exposureQuality = (if flat then fresh else ageMsQuality i age),
                           val_markPrice = Some (mark_price m),
                           val_markSource = Some (mark_source m),
                           val_timeframe = Some (mark_timeframe m),
                           val_candleClosedAt = Some (mark_candleClosedAt m), ageMs = Some age,
                           quality = ageMsQuality i age\<rparr>)"

subsection \<open>The daily risk window\<close>

definition DAY_MS :: number where
  "DAY_MS = Fin 86400000"

record DailyRiskWindow =
  utcDayStart :: number
  openingEquity :: number

record DailyRiskAssessment =
  risk_window :: DailyRiskWindow
  risk_dailyPnl :: number

definition resolveDailyRiskWindow :: "DailyRiskWindow option \<Rightarrow> number \<Rightarrow> number
    \<Rightarrow> DailyRiskAssessment" where
  "resolveDailyRiskWindow current t marked =
     (let day = js_floor (t / DAY_MS) * DAY_MS;
          opened = \<lparr>utcDayStart = day, openingEquity = marked\<rparr>;
          w = (case current of None \<Rightarrow> opened
            | Some c \<Rightarrow> if \<not> num_eq (utcDayStart c) day then opened else c)
      in \<lparr>risk_window = w, risk_dailyPnl = marked - openingEquity w\<rparr>)"

record PaperDailyRiskState =
  paper_window :: "DailyRiskWindow option"
  paper_dailyPnl :: number

definition resolvePaperDailyRisk :: "DailyRiskWindow option \<Rightarrow> number \<Rightarrow> number
    \<Rightarrow> (PaperValuation, PaperValuationErrorCode) result \<Rightarrow> PaperDailyRiskState" where
  "resolvePaperDailyRisk current pnl t valuation =
     (case valuation of
        Inl _ \<Rightarrow> \<lparr>paper_window = current, paper_dailyPnl = pnl\<rparr>
      | Inr v \<Rightarrow>
          (case equity v of
             None \<Rightarrow> \<lparr>paper_window = current, paper_dailyPnl = pnl\<rparr>
           | Some eq \<Rightarrow>
               let a = resolveDailyRiskWindow current t eq
               in \<lparr>paper_window = Some (risk_window a), paper_dailyPnl = risk_dailyPnl a\<rparr>))"

subsection \<open>Retries of the market request\<close>

definition MARKET_RETRY_DELAYS_MS :: "number list" where
  "MARKET_RETRY_DELAYS_MS = [Fin 60000, Fin 300000, Fin 900000]"

definition MARKET_RETRY_MAX_DELAY_MS :: number where
  "MARKET_RETRY_MAX_DELAY_MS = Fin 900000"

definition MARKET_RETRY_MAX_REARMS :: number where
  "MARKET_RETRY_MAX_REARMS = Fin 3"

definition alignRetryInstant :: "number \<Rightarrow> number" where
  "alignRetryInstant t = js_ceil (t / Fin 1000) * Fin 1000"

record MarketRetryPlanInput =
  plan_attempt :: number
  plan_retryLimit :: number
  plan_retryable :: bool
  plan_retryAfterMs :: "number option"
  plan_now :: number
  plan_triggeredAt :: number
  plan_timeframeMs :: number
  plan_maxMarketStalenessMs :: number

datatype MarketRetryExhaustionReason = NOT_RETRYABLE | BUDGET | DEADLINE

datatype MarketRetryPlan =
  RetryAt (retry_attempt: number) (retry_nextRetryAt: number) (retry_deadlineAt: number)
| RetryExhausted MarketRetryExhaustionReason (retry_deadlineAt: number)

definition resolveMarketRetryDeadline :: "number \<Rightarrow> number \<Rightarrow> number \<Rightarrow> number" where
  "resolveMarketRetryDeadline triggered timeframeMs staleness =
     js_floor (triggered / timeframeMs) * timeframeMs + staleness"

text \<open>An element of an array by a number: absent unless the number is an index.\<close>

definition element_at :: "'a list \<Rightarrow> number \<Rightarrow> 'a option" where
  "element_at xs k =
     (case k of
        Fin r \<Rightarrow> if r = of_int \<lfloor>r\<rfloor> \<and> 0 \<le> r \<and> nat \<lfloor>r\<rfloor> < length xs then Some (xs ! nat \<lfloor>r\<rfloor>) else None
      | _ \<Rightarrow> None)"

definition delayForAttempt :: "number \<Rightarrow> number option \<Rightarrow> number" where
  "delayForAttempt attempt after =
     (let table = (case element_at MARKET_RETRY_DELAYS_MS
              (js_min attempt (Fin (of_nat (length MARKET_RETRY_DELAYS_MS)) - Fin 1)) of
            None \<Rightarrow> MARKET_RETRY_MAX_DELAY_MS | Some d \<Rightarrow> d);
          requested = (case after of
            None \<Rightarrow> table | Some a \<Rightarrow> if isFinite a \<and> table < a then a else table)
      in js_min requested MARKET_RETRY_MAX_DELAY_MS)"

definition planMarketRetry :: "MarketRetryPlanInput \<Rightarrow> MarketRetryPlan" where
  "planMarketRetry i =
     (let deadline = resolveMarketRetryDeadline (plan_triggeredAt i) (plan_timeframeMs i)
            (plan_maxMarketStalenessMs i)
      in if \<not> plan_retryable i then RetryExhausted NOT_RETRYABLE deadline
         else if plan_retryLimit i \<le> plan_attempt i then RetryExhausted BUDGET deadline
         else
           let instant = alignRetryInstant
                 (plan_now i + delayForAttempt (plan_attempt i) (plan_retryAfterMs i))
           in if deadline < instant then RetryExhausted DEADLINE deadline
              else RetryAt (plan_attempt i + Fin 1) instant deadline)"

record MarketRetryWakePayload =
  payload_productId :: "string option"
  payload_attempt :: number
  payload_nextRetryAt :: "number option"
  payload_rearm :: "number option"

datatype MarketRetryWake =
  Rearm number MarketRetryWakePayload
| Drop
| RunProduct "string option"

definition resolveRetryWake :: "number \<Rightarrow> number option \<Rightarrow> MarketRetryWakePayload option
    \<Rightarrow> MarketRetryWake" where
  "resolveRetryWake t persisted payload =
     (let product = (case payload of None \<Rightarrow> None | Some p \<Rightarrow> payload_productId p);
          rearm = (case payload of None \<Rightarrow> Fin 0
            | Some p \<Rightarrow> (case payload_rearm p of None \<Rightarrow> Fin 0 | Some r \<Rightarrow> r))
      in case persisted of
           None \<Rightarrow> RunProduct product
         | Some deadline \<Rightarrow>
             if t < deadline
             then if MARKET_RETRY_MAX_REARMS \<le> rearm then Drop
                  else
                    let instant = alignRetryInstant deadline
                    in Rearm instant \<lparr>payload_productId = product,
                         payload_attempt = (case payload of None \<Rightarrow> Fin 0
                           | Some p \<Rightarrow> payload_attempt p),
                         payload_nextRetryAt = Some instant, payload_rearm = Some (rearm + Fin 1)\<rparr>
             else RunProduct product)"

subsection \<open>The source of market data\<close>

datatype MarketSourceId = COINBASE | HYPERLIQUID | DYDX

datatype MarketSourceFailure =
  RATE_LIMITED | NETWORK_UNAVAILABLE | INVALID_RESPONSE | STALE_SERIES | BASIS_REJECTED_SOURCE

definition MARKET_SOURCE_ORDER :: "MarketSourceId list" where
  "MARKET_SOURCE_ORDER = [COINBASE, HYPERLIQUID, DYDX]"

definition BASIS_MAX_BPS :: number where
  "BASIS_MAX_BPS = Fin 200"

definition BASIS_REFERENCE_MAX_AGE_MS :: number where
  "BASIS_REFERENCE_MAX_AGE_MS = Fin 4 * Fin 3600000"

text \<open>The resolution \<open>exhausted\<close> is \<^term>\<open>None\<close>.\<close>

fun resolveMarketSource :: "MarketSourceId list \<Rightarrow> (MarketSourceId \<Rightarrow> MarketSourceFailure option)
    \<Rightarrow> MarketSourceId option" where
  "resolveMarketSource [] failures = None"
| "resolveMarketSource (s # ss) failures =
     (if failures s = None then Some s else resolveMarketSource ss failures)"

record BasisGateInput =
  backupClose :: number
  backupCandleStart :: number
  referenceClose :: number
  referenceCandleStart :: number
  referenceFetchedAt :: number
  basis_now :: number

datatype BasisAssessment = BASIS_OK | NO_REFERENCE | BASIS_REJECTED

definition assessBasisGate :: "BasisGateInput \<Rightarrow> BasisAssessment" where
  "assessBasisGate i =
     (if \<not> isFinite (backupClose i) \<or> backupClose i \<le> Fin 0 \<or>
         \<not> isFinite (referenceClose i) \<or> referenceClose i \<le> Fin 0 \<or>
         \<not> isSafeInteger (backupCandleStart i) \<or> \<not> isSafeInteger (referenceCandleStart i) \<or>
         \<not> isSafeInteger (referenceFetchedAt i) \<or> \<not> isSafeInteger (basis_now i)
      then NO_REFERENCE
      else if \<not> num_eq (backupCandleStart i) (referenceCandleStart i) then NO_REFERENCE
      else if BASIS_REFERENCE_MAX_AGE_MS < basis_now i - referenceFetchedAt i then NO_REFERENCE
      else
        let bps = (\<bar>backupClose i - referenceClose i\<bar> / referenceClose i) * Fin 10000
        in if BASIS_MAX_BPS < bps then BASIS_REJECTED else BASIS_OK)"

subsection \<open>The schedule of cycles\<close>

definition DAY_SECONDS :: int where "DAY_SECONDS = 86400"
definition HOUR_SECONDS :: int where "HOUR_SECONDS = 3600"
definition SCHEDULE_OFFSET_MINUTES :: int where "SCHEDULE_OFFSET_MINUTES = 1"
definition OFFSET_THRESHOLD_SECONDS :: int where "OFFSET_THRESHOLD_SECONDS = 600"

datatype CycleScheduleResolution =
  Cron (cron_expression: string) (schedule_intervalSeconds: number)
| Interval (schedule_intervalSeconds: number)

definition decimal :: "int \<Rightarrow> string" where
  "decimal n = radix 10 (nat n)"

fun join_with :: "string \<Rightarrow> string list \<Rightarrow> string" where
  "join_with sep [] = []"
| "join_with sep [x] = x"
| "join_with sep (x # y # xs) = x @ sep @ join_with sep (y # xs)"

text \<open>The cron expression of a whole number of minutes that divides a day.\<close>

definition cronExpression :: "int \<Rightarrow> string" where
  "cronExpression n =
     (let offset = (if OFFSET_THRESHOLD_SECONDS \<le> n then SCHEDULE_OFFSET_MINUTES else 0);
          minutes = n div 60
      in if n < HOUR_SECONDS
         then (if offset = 0 then (if minutes = 1 then ''*'' else ''*/'' @ decimal minutes)
               else join_with '',''
                 (map (\<lambda>k. decimal (offset + int k * minutes)) [0..<nat (60 div minutes)]))
           @ '' * * * *''
         else if n = HOUR_SECONDS then decimal offset @ '' * * * *''
         else if n < DAY_SECONDS
         then decimal offset @ '' */'' @ decimal (n div HOUR_SECONDS) @ '' * * *''
         else decimal offset @ '' 0 * * *'')"

definition resolveCycleSchedule :: "number \<Rightarrow> CycleScheduleResolution" where
  "resolveCycleSchedule seconds =
     (case seconds of
        Fin r \<Rightarrow>
          if isSafeInteger seconds \<and> Fin 60 \<le> seconds \<and> \<lfloor>r\<rfloor> mod 60 = 0 \<and>
             DAY_SECONDS mod \<lfloor>r\<rfloor> = 0
          then Cron (cronExpression \<lfloor>r\<rfloor>) seconds
          else Interval seconds
      | _ \<Rightarrow> Interval seconds)"

record MissedDecisionInput =
  missed_triggeredAt :: number
  missed_timeframeMs :: number
  missed_maxMarketStalenessMs :: number
  missed_lastDecision :: "number option"
  missed_lastMissed :: "number option"
  missed_completedAt :: number

text \<open>Whether the decision was missed, and the close of its candle.\<close>

definition resolveMissedDecision :: "MissedDecisionInput \<Rightarrow> bool \<times> number" where
  "resolveMissedDecision i =
     (let closed = js_floor (missed_triggeredAt i / missed_timeframeMs i) * missed_timeframeMs i;
          evaluatedAt = js_max (missed_triggeredAt i) (missed_completedAt i);
          windowClosed = missed_maxMarketStalenessMs i < evaluatedAt - closed;
          decided = (case missed_lastDecision i of None \<Rightarrow> False | Some l \<Rightarrow> closed \<le> l);
          reported = (case missed_lastMissed i of None \<Rightarrow> False | Some l \<Rightarrow> closed \<le> l)
      in (windowClosed \<and> \<not> decided \<and> \<not> reported, closed))"

subsection \<open>The admission record\<close>

definition normalizeMarketAdmission :: "marketAdmissionRec option \<Rightarrow> tradingCycleContext
    \<Rightarrow> marketAdmissionRec option" where
  "normalizeMarketAdmission admission c =
     (case (admission, triggeredAt c) of
        (Some a, Some trigger) \<Rightarrow>
          if adm_cycleId a = [] \<or> length (adm_cycleId a) > 128 \<or>
             Some (adm_cycleId a) \<noteq> tradingCycleContext.cycleId c \<or>
             \<not> isSafeInteger (adm_candleClosedAt a) \<or> adm_candleClosedAt a < Fin 0 \<or>
             \<not> isSafeInteger (adm_evaluatedAt a) \<or>
             \<not> isSafeInteger trigger \<or> trigger < Fin 0 \<or>
             (case lastDecisionCandleClosedAt c of
                None \<Rightarrow> True | Some l \<Rightarrow> \<not> num_eq (adm_candleClosedAt a) l) \<or>
             trigger < adm_candleClosedAt a \<or> adm_evaluatedAt a < trigger \<or>
             \<not> isFinite (maxMarketStalenessMs c) \<or> maxMarketStalenessMs c < Fin 0 \<or>
             maxMarketStalenessMs c < adm_evaluatedAt a - adm_candleClosedAt a
          then None else Some a
      | _ \<Rightarrow> None)"

record DecisionAdmission =
  da_cycleId :: "string option"
  da_triggeredAt :: "number option"
  da_admitted :: bool
  da_candleClosedAt :: "number option"
  da_evaluatedAt :: "number option"

definition projectDecisionAdmission :: "tradingCycleContext \<Rightarrow> DecisionAdmission" where
  "projectDecisionAdmission c =
     (let a = normalizeMarketAdmission (marketAdmission c) c
      in \<lparr>da_cycleId = tradingCycleContext.cycleId c, da_triggeredAt = triggeredAt c,
          da_admitted = (a \<noteq> None), da_candleClosedAt = map_option adm_candleClosedAt a,
          da_evaluatedAt = map_option adm_evaluatedAt a\<rparr>)"

end
