(* ===== verification/Allocator.thy ===== *)
theory Allocator
  imports Domain
begin

text \<open>
  The allocation of a decision, \<^verbatim>\<open>packages/allocator/src/allocator.ts\<close>: signals are grouped
  by product, netted, and turned into market orders under a shared notional budget.
\<close>

record AllocationInput =
  agentId :: string
  cycleId :: string
  alloc_decisionId :: string
  signals :: "Signal list"
  marketPrices :: "number dict"
  capitalAvailable :: number
  maxDecisionNotional :: number
  minNetQuantity :: number

datatype AllocationOutcome = NO_ACTION | ALLOCATED

record AllocationDecision =
  dec_decisionId :: string
  dec_outcome :: AllocationOutcome
  dec_orders :: "OrderIntent list"
  netQuantities :: "number dict"

datatype AllocationError =
  INVALID_ALLOCATION_CONFIG
| MISSING_MARKET_PRICE string
| INVALID_CLIENT_ORDER_ID TradingValidationError
| INVALID_ORDER_INTENT TradingValidationError

definition validInput :: "AllocationInput \<Rightarrow> bool" where
  "validInput i \<longleftrightarrow>
     non_blank (agentId i) \<and> non_blank (cycleId i) \<and> non_blank (alloc_decisionId i) \<and>
     isFinite (capitalAvailable i) \<and> Fin 0 \<le> capitalAvailable i \<and>
     isFinite (maxDecisionNotional i) \<and> Fin 0 < maxDecisionNotional i \<and>
     isFinite (minNetQuantity i) \<and> Fin 0 \<le> minNetQuantity i"

text \<open>\<open>groups\<close>: the signals of each product that are not a hold, in the order they came.\<close>

definition groupSignals :: "Signal list \<Rightarrow> Signal list dict" where
  "groupSignals xs =
     foldl (\<lambda>g s. if sig_side s = SigHold then g
       else AList.update (sig_productId s)
         ((case map_of g (sig_productId s) of None \<Rightarrow> [] | Some ss \<Rightarrow> ss) @ [s]) g) [] xs"

definition netOf :: "Signal list \<Rightarrow> number" where
  "netOf ss =
     foldl (\<lambda>t s. t + (if sig_side s = SigBuy then Fin 1 else Fin (- 1)) * sig_suggestedSize s *
       sig_confidence s) (Fin 0) ss"

definition contributors :: "SignalSide \<Rightarrow> Signal list \<Rightarrow> string list" where
  "contributors sd ss = sort (map sig_strategyId (filter (\<lambda>s. sig_side s = sd) ss))"

text \<open>The variables of the loop: the budget left, the net quantities and the orders so far.\<close>

type_synonym alloc_state = "number \<times> number dict \<times> OrderIntent list"

definition allocateProduct :: "AllocationInput \<Rightarrow> Signal list dict \<Rightarrow> string \<Rightarrow> alloc_state
    \<Rightarrow> (alloc_state, AllocationError) result" where
  "allocateProduct i groups k st =
     (case st of (remaining, nets, orders) \<Rightarrow>
       (case map_of groups k of
          None \<Rightarrow> ok st
        | Some ss \<Rightarrow>
            (case map_of (marketPrices i) k of
               None \<Rightarrow> err (MISSING_MARKET_PRICE k)
             | Some px \<Rightarrow>
                 if \<not> isFinite px \<or> px \<le> Fin 0 then err (MISSING_MARKET_PRICE k)
                 else
                   let net = netOf ss;
                       nets' = AList.update k net nets;
                       qty = js_min \<bar>net\<bar> (remaining / px)
                   in
                     if \<bar>net\<bar> \<le> minNetQuantity i \<or> remaining \<le> Fin 0
                     then ok (remaining, nets', orders)
                     else if qty \<le> minNetQuantity i then ok (remaining, nets', orders)
                     else case createClientOrderId (agentId i) (cycleId i) (alloc_decisionId i)
                         (Fin (of_nat (length orders))) of
                         Inl e \<Rightarrow> err (INVALID_CLIENT_ORDER_ID e)
                       | Inr cid \<Rightarrow>
                           let sd = (if Fin 0 < net then BUY else SELL)
                           in case createOrderIntent
                               \<lparr>clientOrderId = cid, decisionId = alloc_decisionId i,
                                strategyIds =
                                  contributors (if sd = BUY then SigBuy else SigSell) ss,
                                productId = k, side = sd, order_type = MARKET, quantity = qty,
                                limitPrice = None\<rparr> of
                               Inl e \<Rightarrow> err (INVALID_ORDER_INTENT e)
                             | Inr intent \<Rightarrow>
                                 ok (remaining - qty * px, nets', orders @ [intent]))))"

fun allocateProducts :: "AllocationInput \<Rightarrow> Signal list dict \<Rightarrow> string list \<Rightarrow> alloc_state
    \<Rightarrow> (alloc_state, AllocationError) result" where
  "allocateProducts i groups [] st = ok st"
| "allocateProducts i groups (k # ks) st =
     (case allocateProduct i groups k st of
        Inl e \<Rightarrow> err e | Inr st' \<Rightarrow> allocateProducts i groups ks st')"

definition allocateSignals :: "AllocationInput \<Rightarrow> (AllocationDecision, AllocationError) result" where
  "allocateSignals i =
     (if \<not> validInput i then err INVALID_ALLOCATION_CONFIG
      else
        let groups = groupSignals (signals i)
        in case allocateProducts i groups (sorted_keys groups)
            (js_min (capitalAvailable i) (maxDecisionNotional i), [], []) of
            Inl e \<Rightarrow> err e
          | Inr (_, nets, orders) \<Rightarrow>
              ok \<lparr>dec_decisionId = alloc_decisionId i,
                dec_outcome = (if orders = [] then NO_ACTION else ALLOCATED),
                dec_orders = orders, netQuantities = nets\<rparr>)"

end
