(* ===== verification/Interpreter.thy ===== *)
theory Interpreter
  imports TradingCycle Strategies TargetExposure PaperExecution Risk CyclePlanning Allocator
begin

text \<open>
  The interpreter of the trading cycle, \<^verbatim>\<open>apps/agent/src/interpreter.ts\<close>, over the types of
  \<^verbatim>\<open>types.ts\<close> and \<^verbatim>\<open>configuration.ts\<close>, the machine session of \<^verbatim>\<open>machine-session.ts\<close> and the
  registry of \<^verbatim>\<open>strategy-registry.ts\<close>.  It reads the phase of the machine, performs the effect
  of that phase and sends the outcome to the machine, at most 64 times.

  The effects are arguments: each reads and changes a world of any type \<open>'w\<close>, and answers a
  value or, as a rejected promise does, none.  Code outside the repository is collected in a
  \<open>host\<close>: the machine package (\<open>h_send\<close>, \<open>h_restore\<close>), the Prolog engine (\<open>h_indicators\<close>), the
  approximated functions of the language and its rendering of numbers.
\<close>

subsection \<open>Configuration and artifacts\<close>

record IndicatorConfig =
  rsiPeriod :: number
  emaFastPeriod :: number
  emaSlowPeriod :: number
  atrPeriod :: number
  historicalVolatilityPeriod :: number
  momentumPeriod :: number
  returnPeriods :: "number list"
  vwapPeriod :: number
  relativeVolumePeriod :: number
  volumeSpikeThreshold :: number
  volumeTrendPeriod :: number
  trendStrengthPeriod :: number
  signalEmaFastPeriod :: "number option"
  signalEmaSlowPeriod :: "number option"

datatype AgentSizingPolicy =
  NATIVE
| TARGET_SIGNAL_NOTIONAL (targetSignalNotional: number) (confidenceCalibration: string)
| TARGET_EXPOSURE number number number number number

datatype ExecutionMode = PAPER | LIVE | PERP

record AgentConfiguration =
  conf_productId :: string
  conf_timeframe :: Timeframe
  conf_strategyIds :: "string list"
  conf_intervalSeconds :: number
  conf_maxMarketStalenessMs :: number
  conf_candleLimit :: number
  conf_initialCapital :: number
  conf_maxDecisionNotional :: number
  conf_minNetQuantity :: number
  conf_executionMode :: ExecutionMode
  conf_sizingPolicy :: AgentSizingPolicy
  conf_indicators :: IndicatorConfig
  conf_risk :: RiskConfig
  conf_broker :: PaperBrokerConfig

record MarketSnapshot =
  ms_productId :: string
  ms_timeframe :: Timeframe
  ms_candles :: "Candle list"
  ms_source :: string
  ms_cached :: bool
  ms_valuationMark :: "PaperValuationMark option"

record CycleExecution =
  exec_exchangeOrderId :: string
  exec_fill :: "Fill option"
  exec_protectiveOrderId :: "string option"

record AccountReconciliation =
  rec_snapshotId :: string
  rec_observedAt :: number
  rec_portfolio :: PaperPortfolio
  rec_accountEquity :: number
  rec_otherExposureNotional :: number

record MarketRetryCheckpoint =
  mr_attempt :: number
  mr_nextRetryAt :: number
  mr_deadlineAt :: number
  mr_errorCode :: "workflowErrorCode option"

record CycleArtifacts =
  art_cycleId :: string
  art_triggeredAt :: number
  art_marketRetry :: "MarketRetryCheckpoint option"
  art_market :: "MarketSnapshot option"
  art_indicators :: "IndicatorSnapshot option"
  art_signals :: "Signal list option"
  art_allocation :: "AllocationDecision option"
  art_risk :: "RiskDecision option"
  art_order :: "OrderIntent option"
  art_execution :: "CycleExecution option"

text \<open>A credential has a type the code never looks into.\<close>

typedecl Credential

record ExecutionAuthorization =
  auth_issuedAt :: number
  auth_expiresAt :: number
  auth_credential :: "Credential option"

text \<open>
  The answer to a submission.  Confirmed: the exchange's order, the portfolio, the fill, the
  protective order, and the account's equity, other exposure and time, if observed.  Protection
  failed: the same, observed, with an error.
\<close>

datatype OrderSubmission =
  CONFIRMED string PaperPortfolio "Fill option" "string option" "number option" "number option"
    "number option"
| PROTECTION_FAILED "string option" PaperPortfolio "Fill option" "string option" number number
    number workflowError
| TERMINAL_FAILED "string option" "Fill option" workflowError
| NO_SELL_NEEDED PaperPortfolio number number number
| SUBMISSION_REJECTED workflowError
| UNKNOWN "string option" workflowError

record PortfolioAdmissionDecision =
  adm_approved :: bool
  adm_reasonCode :: "string option"

subsection \<open>Effects, input and result\<close>

type_synonym PersistedTradingMachine = "tradingCycleState \<times> tradingCycleContext"

type_synonym ('w, 'a) effect = "'w \<Rightarrow> 'a option \<times> 'w"

record 'w TradingCycleEffects =
  reconcileAccount :: "PaperPortfolio \<Rightarrow> number
    \<Rightarrow> ('w, (AccountReconciliation, workflowError) result) effect"
  fetchMarketData :: "AgentConfiguration \<Rightarrow> number
    \<Rightarrow> ('w, (MarketSnapshot, workflowError) result) effect"
  fetchFundingData :: "(AgentConfiguration \<Rightarrow> Candle list \<Rightarrow> ('w, number list option) effect) option"
  ensureSchedule :: "number \<Rightarrow> ('w, (number, workflowError) result) effect"
  scheduleRetry :: "(number \<Rightarrow> number \<Rightarrow> ('w, unit) effect) option"
  checkpoint :: "CycleArtifacts \<Rightarrow> ('w, (unit, workflowError) result) effect"
  persistMachine :: "PersistedTradingMachine \<Rightarrow> ('w, unit) effect"
  persistOrderIntent :: "string \<Rightarrow> OrderIntent \<Rightarrow> ('w, (unit, workflowError) result) effect"
  authorize :: "OrderIntent \<Rightarrow> ('w, (ExecutionAuthorization, workflowError) result) effect"
  submitOrder :: "OrderIntent \<Rightarrow> RiskApproval \<Rightarrow> ExecutionAuthorization \<Rightarrow> number
    \<Rightarrow> PaperPortfolio \<Rightarrow> number \<Rightarrow> ('w, OrderSubmission) effect"
  reconcileOrder :: "OrderIntent \<Rightarrow> RiskApproval \<Rightarrow> PaperPortfolio
    \<Rightarrow> ('w, (OrderSubmission, workflowError) result) effect"
  cancelCurrentEffect :: "shutdownMode \<Rightarrow> ('w, (unit, workflowError) result) effect"
  persistCycle :: "CycleArtifacts option \<Rightarrow> PersistedTradingMachine
    \<Rightarrow> ('w, (unit, workflowError) result) effect"
  proposePortfolioRisk :: "(string \<Rightarrow> number \<Rightarrow> ('w, PortfolioAdmissionDecision) effect) option"

record 'w RunTradingCycleInput =
  run_agentId :: string
  run_configuration :: AgentConfiguration
  run_machine :: PersistedTradingMachine
  run_artifacts :: "CycleArtifacts option"
  run_previousIndicators :: "IndicatorSnapshot option"
  run_portfolio :: PaperPortfolio
  run_dailyPnl :: number
  run_dailyRiskWindow :: "DailyRiskWindow option"
  run_lastTradeAt :: "number option"
  run_triggeredAt :: number
  run_cycleId :: string
  run_triggerAlarm :: bool
  run_effects :: "'w TradingCycleEffects"
  run_now :: "('w, number) effect"

record RunTradingCycleResult =
  res_machine :: PersistedTradingMachine
  res_artifacts :: "CycleArtifacts option"
  res_previousIndicators :: "IndicatorSnapshot option"
  res_portfolio :: PaperPortfolio
  res_dailyRiskWindow :: "DailyRiskWindow option"
  res_dailyPnl :: number
  res_accountEquity :: "number option"
  res_otherExposureNotional :: number

record host =
  h_send :: "PersistedTradingMachine \<Rightarrow> tradingCycleEvent \<Rightarrow> PersistedTradingMachine"
  h_restore :: "PersistedTradingMachine \<Rightarrow> PersistedTradingMachine"
  h_indicators :: "Candle list \<Rightarrow> IndicatorConfig \<Rightarrow> (number list \<times> number) option
    \<Rightarrow> (IndicatorSnapshot, string) result"
  h_pow :: "number \<Rightarrow> number \<Rightarrow> number"
  h_sqrt :: "number \<Rightarrow> number"
  h_number_string :: "number \<Rightarrow> string"

subsection \<open>Registry and session\<close>

text \<open>The strategy of one identifier; none where the code throws.\<close>

definition configuredStrategy :: "host \<Rightarrow> AgentConfiguration \<Rightarrow> string \<Rightarrow> Strategy option" where
  "configuredStrategy h c i =
     (let built =
        (if i = ''rsi-reversion'' then Some (createRsiReversionStrategy
           \<lparr>rsi_id = Some i, oversold = Fin 30, overbought = Fin 70, rsi_baseSize = fl (1 / 100)\<rparr>)
         else if i = ''ema-cross'' then Some (createEmaCrossStrategy
           \<lparr>cross_id = Some i, cross_baseSize = fl (1 / 100)\<rparr>)
         else if i = ''breakout'' then Some (createBreakoutStrategy
           \<lparr>breakout_id = Some i, lookback = Fin 20, breakout_baseSize = fl (1 / 100)\<rparr>)
         else if i = ''funding-trend'' then Some (createFundingTrendStrategy
           \<lparr>funding_id = Some i, enterThreshold = Some FUNDING_TREND_ENTER_THRESHOLD,
            funding_baseSize = fl (1 / 100)\<rparr>)
         else if i = ''target-exposure'' then Some (createTargetExposureStrategy (h_pow h) (h_sqrt h) (Some i))
         else None)
      in case built of
           None \<Rightarrow> None
         | Some strategy \<Rightarrow>
             (case conf_sizingPolicy c of
                TARGET_SIGNAL_NOTIONAL notional calibration \<Rightarrow>
                  let calibrated = (if i = ''rsi-reversion'' \<or> i = ''funding-trend'' then strategy
                    else withConfidenceCalibration (h_pow h) strategy calibration)
                  in Some (withTargetSignalNotional calibrated notional)
              | _ \<Rightarrow> Some strategy))"

definition createConfiguredStrategyRegistry :: "host \<Rightarrow> AgentConfiguration
    \<Rightarrow> StrategyRegistry option" where
  "createConfiguredStrategyRegistry h c =
     (let built = map (configuredStrategy h c) (conf_strategyIds c)
      in if list_ex Option.is_none built then None
         else case createStrategyRegistry (map the built) of Inl _ \<Rightarrow> None | Inr r \<Rightarrow> Some r)"

text \<open>
  The session of a persisted machine.  The other fields the code defaults are those a record
  written by an older version lacks; the record type of the model has them all.
\<close>

definition createTradingMachineSession :: "host \<Rightarrow> PersistedTradingMachine
    \<Rightarrow> PersistedTradingMachine" where
  "createTradingMachineSession h m =
     h_restore h (fst m, (snd m)\<lparr>marketAdmission :=
       normalizeMarketAdmission (marketAdmission (snd m)) (snd m)\<rparr>)"

subsection \<open>Actions of the interpreter\<close>

text \<open>The variables of \<open>runTradingCycle\<close>, with the session and the world.\<close>

record 'w interp =
  session :: PersistedTradingMachine
  artifacts :: "CycleArtifacts option"
  previousIndicators :: "IndicatorSnapshot option"
  held :: PaperPortfolio
  authorization_held :: "ExecutionAuthorization option"
  alarmTriggered :: bool
  dailyRiskWindow :: "DailyRiskWindow option"
  pnl :: number
  accountEquity :: "number option"
  otherExposure :: number
  world :: 'w

text \<open>An action changes the variables and answers a value, or throws.\<close>

type_synonym ('w, 'a) act = "'w interp \<Rightarrow> 'a option \<times> 'w interp"

definition pure :: "'a \<Rightarrow> ('w, 'a) act" where
  "pure x = (\<lambda>s. (Some x, s))"

definition throw :: "('w, 'a) act" where
  "throw = (\<lambda>s. (None, s))"

definition seq :: "('w, 'a) act \<Rightarrow> ('a \<Rightarrow> ('w, 'b) act) \<Rightarrow> ('w, 'b) act" where
  "seq m f = (\<lambda>s. case m s of (None, t) \<Rightarrow> (None, t) | (Some x, t) \<Rightarrow> f x t)"

definition asks :: "('w interp \<Rightarrow> ('w, 'a) act) \<Rightarrow> ('w, 'a) act" where
  "asks f = (\<lambda>s. f s s)"

definition assign :: "('w interp \<Rightarrow> 'w interp) \<Rightarrow> ('w, unit) act" where
  "assign g = (\<lambda>s. (Some (), g s))"

definition call :: "('w, 'a) effect \<Rightarrow> ('w, 'a) act" where
  "call f = (\<lambda>s. case f (world s) of (r, w) \<Rightarrow> (r, s\<lparr>world := w\<rparr>))"

text \<open>How a \<open>case\<close> of the loop ends: by \<open>break\<close>, or by \<open>return currentResult()\<close>.\<close>

datatype control = Break | Return

definition andBreak :: "('w, unit) act \<Rightarrow> ('w, control) act" where
  "andBreak m = seq m (\<lambda>_. pure Break)"

definition send_event :: "host \<Rightarrow> 'w TradingCycleEffects \<Rightarrow> tradingCycleEvent \<Rightarrow> ('w, unit) act" where
  "send_event h E e =
     seq (assign (\<lambda>s. s\<lparr>session := h_send h (session s) e\<rparr>))
       (\<lambda>_. asks (\<lambda>s. call (persistMachine E (session s))))"

definition checkpoint_artifacts :: "host \<Rightarrow> 'w TradingCycleEffects \<Rightarrow> CycleArtifacts
    \<Rightarrow> (workflowError \<Rightarrow> tradingCycleEvent) \<Rightarrow> ('w, bool) act" where
  "checkpoint_artifacts h E next_artifacts failureEvent =
     seq (assign (\<lambda>s. s\<lparr>artifacts := Some next_artifacts\<rparr>)) (\<lambda>_.
     seq (call (checkpoint E next_artifacts)) (\<lambda>r.
       case r of
         Inr _ \<Rightarrow> pure True
       | Inl e \<Rightarrow> seq (send_event h E (failureEvent e)) (\<lambda>_. pure False)))"

text \<open>A checkpoint, then the event of success.\<close>

definition checkpointed :: "host \<Rightarrow> 'w TradingCycleEffects \<Rightarrow> CycleArtifacts
    \<Rightarrow> (workflowError \<Rightarrow> tradingCycleEvent) \<Rightarrow> ('w, unit) act \<Rightarrow> ('w, control) act" where
  "checkpointed h E next_artifacts failureEvent done_event =
     seq (checkpoint_artifacts h E next_artifacts failureEvent) (\<lambda>b.
       if b then andBreak done_event else pure Break)"

definition anchorReconciledDailyRisk :: "AgentConfiguration \<Rightarrow> number \<Rightarrow> number
    \<Rightarrow> 'w interp \<Rightarrow> 'w interp" where
  "anchorReconciledDailyRisk c observedAt eq s =
     (if conf_executionMode c = PAPER then s
      else
        let a = resolveDailyRiskWindow (dailyRiskWindow s) observedAt eq
        in s\<lparr>dailyRiskWindow := Some (risk_window a), pnl := risk_dailyPnl a\<rparr>)"

text \<open>An observed account: equity, other exposure and the daily window.\<close>

definition observeAccount :: "AgentConfiguration \<Rightarrow> number \<Rightarrow> number \<Rightarrow> number
    \<Rightarrow> 'w interp \<Rightarrow> 'w interp" where
  "observeAccount c eq other observedAt s =
     anchorReconciledDailyRisk c observedAt eq (s\<lparr>accountEquity := Some eq, otherExposure := other\<rparr>)"

definition currentResult :: "'w interp \<Rightarrow> RunTradingCycleResult" where
  "currentResult s =
     \<lparr>res_machine = session s, res_artifacts = artifacts s,
      res_previousIndicators = previousIndicators s, res_portfolio = held s,
      res_dailyRiskWindow = dailyRiskWindow s, res_dailyPnl = pnl s,
      res_accountEquity = accountEquity s, res_otherExposureNotional = otherExposure s\<rparr>"

definition timeframeMilliseconds :: "Timeframe \<Rightarrow> number" where
  "timeframeMilliseconds t =
     (case t of ONE_MINUTE \<Rightarrow> Fin 60000 | FIVE_MINUTE \<Rightarrow> Fin 300000 | FIFTEEN_MINUTE \<Rightarrow> Fin 900000
      | ONE_HOUR \<Rightarrow> Fin 3600000 | SIX_HOUR \<Rightarrow> Fin 21600000 | ONE_DAY \<Rightarrow> Fin 86400000)"

definition missingArtifact :: "workflowPhase \<Rightarrow> workflowError" where
  "missingArtifact ph =
     mkError ph (case ph of
         PhIndicators \<Rightarrow> InvalidIndicators | PhStrategies \<Rightarrow> StrategyFailure
       | PhAllocation \<Rightarrow> AllocationFailure | PhRisk \<Rightarrow> RiskFailure
       | PhOrderIntent \<Rightarrow> OrderIntentFailure | PhAuthorization \<Rightarrow> AuthenticationFailure
       | PhReconciliation \<Rightarrow> ReconciliationFailure | _ \<Rightarrow> PersistenceFailure) False"

definition freshArtifacts :: "string \<Rightarrow> number \<Rightarrow> CycleArtifacts" where
  "freshArtifacts cycle triggered =
     \<lparr>art_cycleId = cycle, art_triggeredAt = triggered, art_marketRetry = None, art_market = None,
      art_indicators = None, art_signals = None, art_allocation = None, art_risk = None,
      art_order = None, art_execution = None\<rparr>"

text \<open>\<open>artifacts ?? { cycleId, triggeredAt }\<close> and \<open>artifacts?.triggeredAt ?? triggeredAt\<close>.\<close>

definition currentArtifacts :: "'w RunTradingCycleInput \<Rightarrow> 'w interp \<Rightarrow> CycleArtifacts" where
  "currentArtifacts i s =
     (case artifacts s of Some a \<Rightarrow> a | None \<Rightarrow> freshArtifacts (run_cycleId i) (run_triggeredAt i))"

definition triggered :: "'w RunTradingCycleInput \<Rightarrow> 'w interp \<Rightarrow> number" where
  "triggered i s = (case artifacts s of Some a \<Rightarrow> art_triggeredAt a | None \<Rightarrow> run_triggeredAt i)"

text \<open>\<open>market?.candles.at(-1)\<close>.\<close>

definition lastCandle :: "CycleArtifacts \<Rightarrow> Candle option" where
  "lastCandle a =
     (case art_market a of
        None \<Rightarrow> None
      | Some m \<Rightarrow> if ms_candles m = [] then None else Some (last (ms_candles m)))"

definition FUNDING_AVG_PERIOD :: number where
  "FUNDING_AVG_PERIOD = Fin 72"

definition resolveFundingInput :: "'w RunTradingCycleInput \<Rightarrow> Candle list
    \<Rightarrow> ('w, (number list \<times> number) option) act" where
  "resolveFundingInput i cs =
     (let c = run_configuration i
      in case fetchFundingData (run_effects i) of
           None \<Rightarrow> pure None
         | Some fetch \<Rightarrow>
             if conf_executionMode c \<noteq> PERP \<or> \<not> list_ex (\<lambda>x. x = ''funding-trend'') (conf_strategyIds c)
             then pure None
             else seq (call (fetch c cs)) (\<lambda>r. pure
               (case r of
                  None \<Rightarrow> None
                | Some rates \<Rightarrow>
                    if rates \<noteq> [] \<and> length rates \<le> length cs \<and> list_all isFinite rates
                    then Some (rates, FUNDING_AVG_PERIOD) else None)))"

subsection \<open>One phase each\<close>

definition waiting_effect :: "host \<Rightarrow> 'w RunTradingCycleInput \<Rightarrow> bool \<Rightarrow> ('w, control) act" where
  "waiting_effect h i wake = asks (\<lambda>s.
     if \<not> wake \<or> alarmTriggered s then pure Return
     else
       seq (assign (\<lambda>s. s\<lparr>artifacts := Some (freshArtifacts (run_cycleId i) (run_triggeredAt i))\<rparr>)) (\<lambda>_.
       seq (send_event h (run_effects i) (ALARM_FIRED (run_cycleId i) (run_triggeredAt i))) (\<lambda>_.
       seq (assign (\<lambda>s. s\<lparr>alarmTriggered := True\<rparr>)) (\<lambda>_. pure Break))))"

definition scheduling_effect :: "host \<Rightarrow> 'w RunTradingCycleInput \<Rightarrow> ('w, control) act" where
  "scheduling_effect h i =
     seq (call (ensureSchedule (run_effects i) (conf_intervalSeconds (run_configuration i)))) (\<lambda>r.
     andBreak (send_event h (run_effects i)
       (case r of Inr t \<Rightarrow> SCHEDULE_SUCCEEDED t | Inl e \<Rightarrow> SCHEDULE_FAILED e)))"

text \<open>The plan of a retry that is not planned yet.\<close>

definition marketRetryPlan :: "'w RunTradingCycleInput \<Rightarrow> 'w interp \<Rightarrow> number \<Rightarrow> MarketRetryPlan" where
  "marketRetryPlan i s t =
     (let c = snd (session s); n = Fin (of_nat (marketData (attempts c)))
      in planMarketRetry
        \<lparr>plan_attempt = js_max (Fin 0) (n - Fin 1), plan_retryLimit = marketData (retryLimits c),
         plan_retryable = (case lastError c of None \<Rightarrow> True | Some e \<Rightarrow> retryable e),
         plan_retryAfterMs = (case lastError c of None \<Rightarrow> None | Some e \<Rightarrow> retryAfterMs e),
         plan_now = t, plan_triggeredAt = triggered i s,
         plan_timeframeMs = timeframeMilliseconds (conf_timeframe (run_configuration i)),
         plan_maxMarketStalenessMs = conf_maxMarketStalenessMs (run_configuration i)\<rparr>)"

definition planRetry :: "host \<Rightarrow> 'w RunTradingCycleInput \<Rightarrow> number \<Rightarrow> ('w, control) act" where
  "planRetry h i t = asks (\<lambda>s.
     let E = run_effects i; c = snd (session s)
     in case marketRetryPlan i s t of
          RetryExhausted _ _ \<Rightarrow> andBreak (send_event h E RETRY_TIMER_ELAPSED)
        | RetryAt attempt nextRetryAt deadlineAt \<Rightarrow>
            let planned = (currentArtifacts i s)\<lparr>art_marketRetry := Some
                  \<lparr>mr_attempt = Fin (of_nat (marketData (attempts c))), mr_nextRetryAt = nextRetryAt,
                   mr_deadlineAt = deadlineAt, mr_errorCode = map_option code (lastError c)\<rparr>\<rparr>
            in seq (call (checkpoint E planned)) (\<lambda>r.
                 case r of
                   Inl _ \<Rightarrow> pure Return
                 | Inr _ \<Rightarrow>
                     seq (assign (\<lambda>s. s\<lparr>artifacts := Some planned\<rparr>)) (\<lambda>_.
                     seq (case scheduleRetry E of
                          None \<Rightarrow> pure () | Some f \<Rightarrow> call (f nextRetryAt attempt)) (\<lambda>_. pure Return))))"

definition retryingMarketData_effect :: "host \<Rightarrow> 'w RunTradingCycleInput \<Rightarrow> ('w, control) act" where
  "retryingMarketData_effect h i =
     (let E = run_effects i; elapsed = andBreak (send_event h E RETRY_TIMER_ELAPSED)
      in seq (call (run_now i)) (\<lambda>t. asks (\<lambda>s.
        let c = snd (session s); n = Fin (of_nat (marketData (attempts c)))
        in case (case artifacts s of None \<Rightarrow> None | Some a \<Rightarrow> art_marketRetry a) of
             Some m \<Rightarrow>
               if num_eq (mr_attempt m) n
               then if t < mr_nextRetryAt m then pure Return else elapsed
               else planRetry h i t
           | None \<Rightarrow> planRetry h i t)))"

definition retrying_effect :: "host \<Rightarrow> 'w RunTradingCycleInput \<Rightarrow> ('w, control) act" where
  "retrying_effect h i = andBreak (send_event h (run_effects i) RETRY_TIMER_ELAPSED)"

definition reconcilingAccount_effect :: "host \<Rightarrow> 'w RunTradingCycleInput \<Rightarrow> ('w, control) act" where
  "reconcilingAccount_effect h i = asks (\<lambda>s.
     seq (call (reconcileAccount (run_effects i) (held s) (triggered i s))) (\<lambda>r.
     case r of
       Inl e \<Rightarrow> andBreak (send_event h (run_effects i) (ACCOUNT_RECONCILIATION_FAILED e))
     | Inr v \<Rightarrow>
         seq (assign (\<lambda>s. observeAccount (run_configuration i) (rec_accountEquity v)
            (rec_otherExposureNotional v) (rec_observedAt v) (s\<lparr>held := rec_portfolio v\<rparr>))) (\<lambda>_.
         andBreak (send_event h (run_effects i) (ACCOUNT_RECONCILED (rec_snapshotId v))))))"

definition marketSnapshotName :: "host \<Rightarrow> MarketSnapshot \<Rightarrow> number \<Rightarrow> string" where
  "marketSnapshotName h m t =
     ''market:'' @ ms_productId m @ '':'' @ h_number_string h t @ '':'' @ radix 10 (length (ms_candles m))"

definition fetchingMarketData_effect :: "host \<Rightarrow> 'w RunTradingCycleInput \<Rightarrow> ('w, control) act" where
  "fetchingMarketData_effect h i = asks (\<lambda>s.
     let E = run_effects i
     in seq (call (fetchMarketData E (run_configuration i) (triggered i s))) (\<lambda>r.
        case r of
          Inl e \<Rightarrow> andBreak (send_event h E (MARKET_DATA_FAILED e))
        | Inr m \<Rightarrow>
            seq (checkpoint_artifacts h E ((currentArtifacts i s)\<lparr>art_market := Some m\<rparr>)
                MARKET_DATA_FAILED) (\<lambda>b.
            if \<not> b then pure Break
            else if ms_candles m = []
            then andBreak (send_event h E
              (MARKET_DATA_FAILED (mkError PhMarketData InvalidResponse False)))
            else
              let newest = last (ms_candles m)
              in seq (call (run_now i)) (\<lambda>t.
                 andBreak (send_event h E
                   (MARKET_DATA_READY (marketSnapshotName h m (start newest))
                     (start newest + timeframeMilliseconds (ms_timeframe m)) t))))))"

definition computingIndicators_effect :: "host \<Rightarrow> 'w RunTradingCycleInput \<Rightarrow> ('w, control) act" where
  "computingIndicators_effect h i = asks (\<lambda>s.
     let E = run_effects i
     in case artifacts s of
          None \<Rightarrow> andBreak (send_event h E (INDICATORS_FAILED (missingArtifact PhIndicators)))
        | Some a \<Rightarrow>
            (case art_market a of
               None \<Rightarrow> andBreak (send_event h E (INDICATORS_FAILED (missingArtifact PhIndicators)))
             | Some m \<Rightarrow>
                 seq (resolveFundingInput i (ms_candles m)) (\<lambda>funding.
                 case h_indicators h (ms_candles m) (conf_indicators (run_configuration i)) funding of
                   Inl _ \<Rightarrow> andBreak (send_event h E
                     (INDICATORS_FAILED (mkError PhIndicators InvalidIndicators False)))
                 | Inr v \<Rightarrow> checkpointed h E (a\<lparr>art_indicators := Some v\<rparr>) INDICATORS_FAILED
                     (send_event h E (INDICATORS_COMPUTED (snapshotId v))))))"

definition evaluatingStrategies_effect :: "host \<Rightarrow> 'w RunTradingCycleInput \<Rightarrow> StrategyRegistry
    \<Rightarrow> ('w, control) act" where
  "evaluatingStrategies_effect h i registry = asks (\<lambda>s.
     let E = run_effects i;
         missing = andBreak (send_event h E (STRATEGIES_FAILED (missingArtifact PhStrategies)))
     in case artifacts s of
          None \<Rightarrow> missing
        | Some a \<Rightarrow>
            (case (art_market a, art_indicators a) of
               (Some m, Some v) \<Rightarrow>
                 (case evaluateAll registry
                     \<lparr>ctx_productId = conf_productId (run_configuration i), ctx_candles = ms_candles m,
                      ctx_indicators = v, ctx_previousIndicators = previousIndicators s\<rparr> of
                    Inl _ \<Rightarrow> andBreak (send_event h E
                      (STRATEGIES_FAILED (mkError PhStrategies StrategyFailure False)))
                  | Inr vs \<Rightarrow> checkpointed h E (a\<lparr>art_signals := Some vs\<rparr>) STRATEGIES_FAILED
                      (send_event h E (STRATEGIES_EVALUATED (''signals:'' @ art_cycleId a))))
             | _ \<Rightarrow> missing))"

text \<open>The allocation of the target-exposure policy; the code reads the error of no branch.\<close>

definition targetExposureAllocation :: "host \<Rightarrow> 'w RunTradingCycleInput \<Rightarrow> 'w interp
    \<Rightarrow> CycleArtifacts \<Rightarrow> string \<Rightarrow> (AllocationDecision, TradingValidationError) result" where
  "targetExposureAllocation h i s a decision =
     (let c = run_configuration i; product = conf_productId c;
          d = planTargetExposure (h_pow h) (h_sqrt h)
            \<lparr>te_candles = (case art_market a of None \<Rightarrow> [] | Some m \<Rightarrow> ms_candles m),
             te_positionQuantity = positionQuantity (held s), te_cash = cash (held s),
             te_feeBps = feeBps (conf_broker c), te_slippageBps = slippageBps (conf_broker c)\<rparr>;
          net = (case te_side d of SigBuy \<Rightarrow> te_quantity d | SigSell \<Rightarrow> - te_quantity d
            | SigHold \<Rightarrow> Fin 0);
          answer = (\<lambda>oc os. ok \<lparr>dec_decisionId = decision, dec_outcome = oc, dec_orders = os,
            netQuantities = [(product, net)]\<rparr>)
      in if te_side d = SigHold then answer NO_ACTION []
         else case createClientOrderId (run_agentId i) (art_cycleId a) decision (Fin 0) of
             Inl e \<Rightarrow> err e
           | Inr cid \<Rightarrow>
               (case createOrderIntent
                   \<lparr>OrderIntent.clientOrderId = cid, OrderIntent.decisionId = decision, OrderIntent.strategyIds = [''target-exposure''],
                    productId = product, side = (if te_side d = SigBuy then BUY else SELL),
                    order_type = MARKET, quantity = te_quantity d, limitPrice = None\<rparr> of
                  Inl e \<Rightarrow> err e
                | Inr intent \<Rightarrow> answer ALLOCATED [intent]))"

definition usesTargetExposure :: "AgentConfiguration \<Rightarrow> bool" where
  "usesTargetExposure c = (case conf_sizingPolicy c of TARGET_EXPOSURE _ _ _ _ _ \<Rightarrow> True | _ \<Rightarrow> False)"

definition allocationInput :: "'w RunTradingCycleInput \<Rightarrow> 'w interp \<Rightarrow> CycleArtifacts \<Rightarrow> string
    \<Rightarrow> Signal list \<Rightarrow> number \<Rightarrow> AllocationInput" where
  "allocationInput i s a decision sigs px =
     (let c = run_configuration i
      in \<lparr>AllocationInput.agentId = run_agentId i, cycleId = art_cycleId a, alloc_decisionId = decision,
          signals = sigs, marketPrices = [(conf_productId c, px)],
          capitalAvailable = js_max (Fin 0) (cash (held s)),
          maxDecisionNotional = conf_maxDecisionNotional c,
          minNetQuantity = conf_minNetQuantity c\<rparr>)"

text \<open>The allocation a policy asks for; an error keeps no more than that it is one.\<close>

definition allocation :: "host \<Rightarrow> 'w RunTradingCycleInput \<Rightarrow> 'w interp \<Rightarrow> CycleArtifacts
    \<Rightarrow> Signal list \<Rightarrow> number \<Rightarrow> AllocationDecision option" where
  "allocation h i s a sigs px =
     (let decision = ''decision:'' @ art_cycleId a
      in if usesTargetExposure (run_configuration i)
         then (case targetExposureAllocation h i s a decision of Inl _ \<Rightarrow> None | Inr v \<Rightarrow> Some v)
         else (case allocateSignals (allocationInput i s a decision sigs px) of
                 Inl _ \<Rightarrow> None | Inr v \<Rightarrow> Some v))"

definition allocating_effect :: "host \<Rightarrow> 'w RunTradingCycleInput \<Rightarrow> ('w, control) act" where
  "allocating_effect h i = asks (\<lambda>s.
     let E = run_effects i;
         missing = andBreak (send_event h E (ALLOCATION_FAILED (missingArtifact PhAllocation)))
     in case artifacts s of
          None \<Rightarrow> missing
        | Some a \<Rightarrow>
            (case (art_signals a, lastCandle a) of
               (Some sigs, Some newest) \<Rightarrow>
                 (case allocation h i s a sigs (close_price newest) of
                    None \<Rightarrow> andBreak (send_event h E
                      (ALLOCATION_FAILED (mkError PhAllocation AllocationFailure False)))
                  | Some d \<Rightarrow>
                      let b = a\<lparr>art_allocation := Some d\<rparr>;
                          c = (case dec_orders d of [] \<Rightarrow> b | x # _ \<Rightarrow> b\<lparr>art_order := Some x\<rparr>)
                      in checkpointed h E c ALLOCATION_FAILED
                        (send_event h E (ALLOCATION_COMPLETED (''decision:'' @ art_cycleId a)
                          (Fin (of_nat (length (dec_orders d)))))))
             | _ \<Rightarrow> missing))"

text \<open>The gate of the target-exposure policy, if it is the policy.\<close>

definition targetExposureGate :: "'w RunTradingCycleInput \<Rightarrow> 'w interp \<Rightarrow> CycleArtifacts
    \<Rightarrow> OrderIntent \<Rightarrow> (number \<times> bool) option" where
  "targetExposureGate i s a order =
     (if usesTargetExposure (run_configuration i)
      then Some (targetExposureRiskGate (side order) (pnl s)
        (decisionCandlePnl (case art_market a of None \<Rightarrow> [] | Some m \<Rightarrow> ms_candles m)
          (positionQuantity (held s))))
      else None)"

definition riskSnapshot :: "'w RunTradingCycleInput \<Rightarrow> 'w interp \<Rightarrow> CycleArtifacts
    \<Rightarrow> OrderIntent \<Rightarrow> number \<Rightarrow> RiskSnapshot" where
  "riskSnapshot i s a order px =
     \<lparr>marketPrice = px, currentPositionQuantity = positionQuantity (held s),
      otherExposureNotional = otherExposure s,
      dailyPnl = (case targetExposureGate i s a order of None \<Rightarrow> pnl s | Some g \<Rightarrow> fst g),
      lastTradeAt = run_lastTradeAt i, now = art_triggeredAt a,
      killSwitchActive = (shutdownMode (snd (session s)) = KillSwitchShutdown)\<rparr>"

text \<open>The consolidated admission: asked for an approved order when it is wired.\<close>

definition portfolioAdmission :: "'w RunTradingCycleInput \<Rightarrow> (number \<times> bool) option
    \<Rightarrow> RiskDecision \<Rightarrow> ('w, bool) act" where
  "portfolioAdmission i gate r =
     (case (r, proposePortfolioRisk (run_effects i)) of
        (APPROVED v, Some propose) \<Rightarrow>
          if (case gate of None \<Rightarrow> True | Some g \<Rightarrow> snd g)
          then seq (call (propose (conf_productId (run_configuration i)) (projectedPositionNotional v)))
            (\<lambda>d. pure (adm_approved d))
          else pure True
      | _ \<Rightarrow> pure True)"

definition is_approved :: "RiskDecision \<Rightarrow> bool" where
  "is_approved r = (case r of APPROVED _ \<Rightarrow> True | REJECTED _ \<Rightarrow> False)"

definition checkingRisk_effect :: "host \<Rightarrow> 'w RunTradingCycleInput \<Rightarrow> ('w, control) act" where
  "checkingRisk_effect h i = asks (\<lambda>s.
     let E = run_effects i;
         missing = andBreak (send_event h E (RISK_FAILED (missingArtifact PhRisk)))
     in case artifacts s of
          None \<Rightarrow> missing
        | Some a \<Rightarrow>
            (case (art_order a, lastCandle a) of
               (Some order, Some newest) \<Rightarrow>
                 (case checkRisk order (riskSnapshot i s a order (close_price newest))
                     (conf_risk (run_configuration i)) of
                    Inl _ \<Rightarrow> andBreak (send_event h E (RISK_FAILED (mkError PhRisk RiskFailure False)))
                  | Inr r \<Rightarrow>
                      seq (portfolioAdmission i (targetExposureGate i s a order) r) (\<lambda>admitted.
                      if \<not> admitted then andBreak (send_event h E RISK_REJECTED)
                      else checkpointed h E (a\<lparr>art_risk := Some r\<rparr>) RISK_FAILED
                        (send_event h E (if is_approved r then RISK_APPROVED else RISK_REJECTED))))
             | _ \<Rightarrow> missing))"

definition persistingOrderIntent_effect :: "host \<Rightarrow> 'w RunTradingCycleInput \<Rightarrow> ('w, control) act" where
  "persistingOrderIntent_effect h i = asks (\<lambda>s.
     let E = run_effects i;
         missing = andBreak (send_event h E (ORDER_INTENT_FAILED (missingArtifact PhOrderIntent)))
     in case artifacts s of
          None \<Rightarrow> missing
        | Some a \<Rightarrow>
            (case art_order a of
               None \<Rightarrow> missing
             | Some order \<Rightarrow>
                 seq (call (persistOrderIntent E (art_cycleId a) order)) (\<lambda>r.
                 andBreak (send_event h E
                   (case r of
                      Inr _ \<Rightarrow> ORDER_INTENT_PERSISTED (OrderIntent.clientOrderId order)
                    | Inl e \<Rightarrow> ORDER_INTENT_FAILED e)))))"

definition authorizing_effect :: "host \<Rightarrow> 'w RunTradingCycleInput \<Rightarrow> ('w, control) act" where
  "authorizing_effect h i = asks (\<lambda>s.
     let E = run_effects i;
         missing = andBreak (send_event h E (AUTHORIZATION_FAILED (missingArtifact PhAuthorization)))
     in case artifacts s of
          None \<Rightarrow> missing
        | Some a \<Rightarrow>
            (case art_order a of
               None \<Rightarrow> missing
             | Some order \<Rightarrow>
                 seq (call (authorize E order)) (\<lambda>r.
                 case r of
                   Inr v \<Rightarrow>
                     seq (assign (\<lambda>s. s\<lparr>authorization_held := Some v\<rparr>)) (\<lambda>_.
                     andBreak (send_event h E (AUTHORIZATION_READY (auth_expiresAt v) (auth_issuedAt v))))
                 | Inl e \<Rightarrow> andBreak (send_event h E (AUTHORIZATION_FAILED e)))))"

text \<open>The observation of a confirmed order, when it has all three fields.\<close>

definition observeConfirmed :: "AgentConfiguration \<Rightarrow> PaperPortfolio \<Rightarrow> number option
    \<Rightarrow> number option \<Rightarrow> number option \<Rightarrow> 'w interp \<Rightarrow> 'w interp" where
  "observeConfirmed c pf eq other observedAt s =
     (let t = s\<lparr>held := pf\<rparr>
      in case (eq, other, observedAt) of
           (Some e, Some x, Some u) \<Rightarrow> observeAccount c e x u t
         | _ \<Rightarrow> t)"

definition withExecution :: "CycleArtifacts \<Rightarrow> string \<Rightarrow> Fill option \<Rightarrow> string option
    \<Rightarrow> CycleArtifacts" where
  "withExecution a x f p =
     a\<lparr>art_execution := Some
       \<lparr>exec_exchangeOrderId = x, exec_fill = f, exec_protectiveOrderId = p\<rparr>\<rparr>"

definition withExecutionIf :: "CycleArtifacts \<Rightarrow> string option \<Rightarrow> Fill option \<Rightarrow> string option
    \<Rightarrow> CycleArtifacts" where
  "withExecutionIf a x f p = (case x of None \<Rightarrow> a | Some y \<Rightarrow> withExecution a y f p)"

text \<open>
  The branches on the status of a submission.  Submitting and reconciling differ in the events
  of a failed checkpoint, a confirmation, a rejection and an unknown outcome.
\<close>

definition settleSubmission :: "host \<Rightarrow> 'w RunTradingCycleInput \<Rightarrow> CycleArtifacts
    \<Rightarrow> (workflowError \<Rightarrow> tradingCycleEvent) \<Rightarrow> (string \<Rightarrow> tradingCycleEvent)
    \<Rightarrow> (workflowError \<Rightarrow> tradingCycleEvent) \<Rightarrow> (workflowError \<Rightarrow> tradingCycleEvent)
    \<Rightarrow> OrderSubmission \<Rightarrow> ('w, control) act" where
  "settleSubmission h i a onCheckpoint onConfirmed onRejected onUnknown r =
     (let E = run_effects i; c = run_configuration i
      in case r of
           CONFIRMED x pf f p eq other u \<Rightarrow>
             seq (assign (observeConfirmed c pf eq other u)) (\<lambda>_.
             checkpointed h E (withExecution a x f p) onCheckpoint (send_event h E (onConfirmed x)))
         | SUBMISSION_REJECTED e \<Rightarrow> andBreak (send_event h E (onRejected e))
         | NO_SELL_NEEDED pf eq other u \<Rightarrow>
             seq (assign (\<lambda>s. observeAccount c eq other u (s\<lparr>held := pf\<rparr>))) (\<lambda>_.
             andBreak (send_event h E ORDER_NO_LONGER_NEEDED))
         | PROTECTION_FAILED x pf f p eq other u e \<Rightarrow>
             seq (assign (\<lambda>s. (observeAccount c eq other u (s\<lparr>held := pf\<rparr>))
               \<lparr>artifacts := Some (withExecutionIf a x f p)\<rparr>)) (\<lambda>_.
             andBreak (send_event h E (ORDER_PROTECTION_FAILED x e)))
         | TERMINAL_FAILED x f e \<Rightarrow>
             seq (assign (\<lambda>s. if x = None then s
               else s\<lparr>artifacts := Some (withExecutionIf a x f None)\<rparr>)) (\<lambda>_.
             andBreak (send_event h E (ORDER_PROTECTION_FAILED x e)))
         | UNKNOWN _ e \<Rightarrow> andBreak (send_event h E (onUnknown e)))"

definition submittingOrder_effect :: "host \<Rightarrow> 'w RunTradingCycleInput \<Rightarrow> ('w, control) act" where
  "submittingOrder_effect h i = asks (\<lambda>s.
     let E = run_effects i;
         missing = andBreak (send_event h E
           (ORDER_OUTCOME_UNKNOWN (mkError PhExecution OrderOutcomeUnknownCode True)))
     in case artifacts s of
          None \<Rightarrow> missing
        | Some a \<Rightarrow>
            (case (art_order a, art_risk a, lastCandle a, authorization_held s) of
               (Some order, Some (APPROVED v), Some newest, Some token) \<Rightarrow>
                 seq (call (submitOrder E order v token (close_price newest) (held s)
                   (art_triggeredAt a))) (\<lambda>r.
                 seq (assign (\<lambda>s. s\<lparr>authorization_held := None\<rparr>)) (\<lambda>_.
                 settleSubmission h i a ORDER_OUTCOME_UNKNOWN ORDER_CONFIRMED ORDER_REJECTED
                   ORDER_OUTCOME_UNKNOWN r))
             | _ \<Rightarrow> missing))"

definition reconcilingOrder_effect :: "host \<Rightarrow> 'w RunTradingCycleInput \<Rightarrow> ('w, control) act" where
  "reconcilingOrder_effect h i = asks (\<lambda>s.
     let E = run_effects i;
         missing = andBreak (send_event h E (RECONCILIATION_FAILED (missingArtifact PhReconciliation)))
     in case artifacts s of
          None \<Rightarrow> missing
        | Some a \<Rightarrow>
            (case (art_order a, art_risk a) of
               (Some order, Some (APPROVED v)) \<Rightarrow>
                 seq (call (reconcileOrder E order v (held s))) (\<lambda>r.
                 case r of
                   Inl e \<Rightarrow> andBreak (send_event h E (RECONCILIATION_FAILED e))
                 | Inr sub \<Rightarrow> settleSubmission h i a RECONCILIATION_FAILED
                     (\<lambda>x. ORDER_RECONCILED (Some x)) (\<lambda>_. ORDER_RECONCILED None)
                     RECONCILIATION_FAILED sub)
             | _ \<Rightarrow> missing))"

definition cancelling_effect :: "host \<Rightarrow> 'w RunTradingCycleInput \<Rightarrow> ('w, control) act" where
  "cancelling_effect h i = asks (\<lambda>s.
     seq (call (cancelCurrentEffect (run_effects i) (shutdownMode (snd (session s))))) (\<lambda>r.
     andBreak (send_event h (run_effects i)
       (case r of Inr _ \<Rightarrow> EFFECT_CANCELLED | Inl e \<Rightarrow> EFFECT_CANCEL_FAILED e))))"

definition persisting_effect :: "host \<Rightarrow> 'w RunTradingCycleInput \<Rightarrow> ('w, control) act" where
  "persisting_effect h i = asks (\<lambda>s.
     seq (call (persistCycle (run_effects i) (artifacts s) (session s))) (\<lambda>r.
     seq (assign (\<lambda>s. case artifacts s of None \<Rightarrow> s
         | Some a \<Rightarrow> (case art_indicators a of None \<Rightarrow> s
             | Some v \<Rightarrow> s\<lparr>previousIndicators := Some v\<rparr>))) (\<lambda>_.
     andBreak (send_event h (run_effects i)
       (case r of Inr _ \<Rightarrow> PERSIST_SUCCEEDED | Inl e \<Rightarrow> PERSIST_FAILED e)))))"

subsection \<open>The loop\<close>

primrec phase_effect :: "host \<Rightarrow> 'w RunTradingCycleInput \<Rightarrow> StrategyRegistry \<Rightarrow> bool
    \<Rightarrow> tradingCycleState \<Rightarrow> ('w, control) act" where
  "phase_effect h i registry wake Stopped = pure Return"
| "phase_effect h i registry wake Failed = pure Return"
| "phase_effect h i registry wake Halted = pure Return"
| "phase_effect h i registry wake Waiting = waiting_effect h i wake"
| "phase_effect h i registry wake Scheduling = scheduling_effect h i"
| "phase_effect h i registry wake RetryingMarketData = retryingMarketData_effect h i"
| "phase_effect h i registry wake RetryingSchedule = retrying_effect h i"
| "phase_effect h i registry wake RetryingAuthorization = retrying_effect h i"
| "phase_effect h i registry wake RetryingExecution = retrying_effect h i"
| "phase_effect h i registry wake RetryingReconciliation = retrying_effect h i"
| "phase_effect h i registry wake RetryingAccountReconciliation = retrying_effect h i"
| "phase_effect h i registry wake RetryingPersistence = retrying_effect h i"
| "phase_effect h i registry wake ReconcilingAccount = reconcilingAccount_effect h i"
| "phase_effect h i registry wake FetchingMarketData = fetchingMarketData_effect h i"
| "phase_effect h i registry wake ComputingIndicators = computingIndicators_effect h i"
| "phase_effect h i registry wake EvaluatingStrategies = evaluatingStrategies_effect h i registry"
| "phase_effect h i registry wake Allocating = allocating_effect h i"
| "phase_effect h i registry wake CheckingRisk = checkingRisk_effect h i"
| "phase_effect h i registry wake PersistingOrderIntent = persistingOrderIntent_effect h i"
| "phase_effect h i registry wake Authorizing = authorizing_effect h i"
| "phase_effect h i registry wake SubmittingOrder = submittingOrder_effect h i"
| "phase_effect h i registry wake ReconcilingOrder = reconcilingOrder_effect h i"
| "phase_effect h i registry wake Cancelling = cancelling_effect h i"
| "phase_effect h i registry wake Persisting = persisting_effect h i"

definition interpreter_step :: "host \<Rightarrow> 'w RunTradingCycleInput \<Rightarrow> StrategyRegistry \<Rightarrow> bool
    \<Rightarrow> ('w, control) act" where
  "interpreter_step h i registry wake =
     asks (\<lambda>s. phase_effect h i registry wake (fst (session s)))"

definition MAX_INTERPRETER_STEPS :: nat where
  "MAX_INTERPRETER_STEPS = 64"

text \<open>The \<open>for\<close> loop with so many steps left; without any, the code throws.\<close>

primrec interpreter_loop :: "host \<Rightarrow> 'w RunTradingCycleInput \<Rightarrow> StrategyRegistry \<Rightarrow> bool
    \<Rightarrow> nat \<Rightarrow> ('w, RunTradingCycleResult) act" where
  "interpreter_loop h i registry wake 0 = throw"
| "interpreter_loop h i registry wake (Suc n) =
     seq (interpreter_step h i registry wake) (\<lambda>k.
     case k of
       Return \<Rightarrow> asks (\<lambda>s. pure (currentResult s))
     | Break \<Rightarrow> interpreter_loop h i registry wake n)"

definition initial_interp :: "host \<Rightarrow> 'w RunTradingCycleInput \<Rightarrow> 'w \<Rightarrow> 'w interp" where
  "initial_interp h i w =
     \<lparr>session = createTradingMachineSession h (run_machine i), artifacts = run_artifacts i,
      previousIndicators = run_previousIndicators i, held = run_portfolio i,
      authorization_held = None, alarmTriggered = False, dailyRiskWindow = run_dailyRiskWindow i,
      pnl = run_dailyPnl i, accountEquity = None, otherExposure = Fin 0, world = w\<rparr>"

definition runTradingCycle :: "host \<Rightarrow> 'w RunTradingCycleInput \<Rightarrow> 'w
    \<Rightarrow> RunTradingCycleResult option \<times> 'w" where
  "runTradingCycle h i w =
     (case createConfiguredStrategyRegistry h (run_configuration i) of
        None \<Rightarrow> (None, w)
      | Some registry \<Rightarrow>
          let wake = wake_triggerAlarm (planCycleWake (fst (run_machine i)) (run_triggerAlarm i))
          in case interpreter_loop h i registry wake MAX_INTERPRETER_STEPS (initial_interp h i w) of
               (r, s) \<Rightarrow> (r, world s))"

end
