(* ===== verification/InterpreterProps.thy ===== *)
theory InterpreterProps
  imports CycleBudget Interpreter
begin

text \<open>
  What one step of the interpreter does to the machine: it sends one event that answers the
  phase, or returns.  With the rank of \<^verbatim>\<open>CycleBudget\<close>, a run ends within its budget of steps.
\<close>

named_theorems act_intros "rules for the actions of the interpreter"

subsection \<open>Actions that answer the phase\<close>

text \<open>An action that leaves the machine and the alarm alone.\<close>

definition quiet :: "('w, 'a) act \<Rightarrow> bool" where
  "quiet m \<longleftrightarrow>
     (\<forall>s x t. m s = (x, t) \<longrightarrow> session t = session s \<and> alarmTriggered t = alarmTriggered s)"

text \<open>An action that breaks after one event of \<open>P\<close>, or, where \<open>R\<close>, returns having sent none.\<close>

definition answered :: "host \<Rightarrow> bool \<Rightarrow> (tradingCycleEvent \<Rightarrow> bool) \<Rightarrow> 'w interp \<Rightarrow> control option \<Rightarrow> 'w interp
    \<Rightarrow> bool" where
  "answered h R P s x t \<longleftrightarrow>
     alarmTriggered t = alarmTriggered s \<and>
     (case x of None \<Rightarrow> True
      | Some Return \<Rightarrow> R \<and> session t = session s
      | Some Break \<Rightarrow> (\<exists>e. P e \<and> session t = h_send h (session s) e))"

definition answers :: "host \<Rightarrow> bool \<Rightarrow> (tradingCycleEvent \<Rightarrow> bool) \<Rightarrow> ('w, control) act \<Rightarrow> bool" where
  "answers h R P m \<longleftrightarrow> (\<forall>s x t. m s = (x, t) \<longrightarrow> answered h R P s x t)"

text \<open>An action that never throws.\<close>

definition settled_act :: "('w, 'a) act \<Rightarrow> bool" where
  "settled_act m \<longleftrightarrow> (\<forall>s. fst (m s) \<noteq> None)"

lemma quiet_pure [act_intros]: "quiet (pure x)"
  by (simp add: quiet_def pure_def)

lemma quiet_call [act_intros]: "quiet (call f)"
  by (auto simp: quiet_def call_def split: prod.splits)

lemma quiet_assign [act_intros]:
  "(\<And>s. session (g s) = session s \<and> alarmTriggered (g s) = alarmTriggered s) \<Longrightarrow> quiet (assign g)"
  by (auto simp: quiet_def assign_def)

lemma quiet_seq [act_intros]: "quiet m \<Longrightarrow> (\<And>x. quiet (f x)) \<Longrightarrow> quiet (seq m f)"
  unfolding quiet_def seq_def by (auto split: prod.splits option.splits)

lemma answeredI:
  "alarmTriggered t = alarmTriggered s \<Longrightarrow> P e \<Longrightarrow> session t = h_send h (session s) e \<Longrightarrow>
   answered h R P s (Some Break) t"
  by (auto simp: answered_def)

lemma answered_None [simp]: "answered h R P s None t \<longleftrightarrow> alarmTriggered t = alarmTriggered s"
  by (simp add: answered_def)

lemma answered_cong:
  "answered h R P u x t \<Longrightarrow> session u = session s \<Longrightarrow> alarmTriggered u = alarmTriggered s \<Longrightarrow>
   answered h R P s x t"
  unfolding answered_def by simp (simp split: option.splits control.splits)

lemma answers_return [act_intros]: "R \<Longrightarrow> answers h R P (pure Return)"
  by (simp add: answers_def answered_def pure_def)

lemma answers_asks [act_intros]: "(\<And>s. answers h R P (f s)) \<Longrightarrow> answers h R P (asks f)"
  by (simp add: answers_def asks_def)

lemma answers_seq [act_intros]:
  assumes "quiet m" "\<And>x. answers h R P (f x)"
  shows "answers h R P (seq m f)"
  unfolding answers_def
proof (intro allI impI)
  fix s x t
  assume run: "seq m f s = (x, t)"
  obtain y u where u: "m s = (y, u)" by fastforce
  then have same: "session u = session s" "alarmTriggered u = alarmTriggered s"
    using assms(1) unfolding quiet_def by blast+
  show "answered h R P s x t"
  proof (cases y)
    case None
    with run u same show ?thesis by (simp add: seq_def)
  next
    case (Some v)
    with run u have "f v u = (x, t)" by (simp add: seq_def)
    with assms(2) have "answered h R P u x t" unfolding answers_def by blast
    then show ?thesis using same by (rule answered_cong)
  qed
qed

lemma send_event_eq:
  "send_event h E e s =
     (case persistMachine E (h_send h (session s) e) (world s) of
        (r, w) \<Rightarrow> (r, s\<lparr>session := h_send h (session s) e, world := w\<rparr>))"
  by (simp add: send_event_def seq_def assign_def asks_def call_def)

lemma answers_send [act_intros]: "P e \<Longrightarrow> answers h R P (andBreak (send_event h E e))"
  unfolding answers_def andBreak_def seq_def pure_def send_event_eq
  by (auto split: prod.splits option.splits intro: answeredI)

lemma checkpoint_artifacts_eq:
  "checkpoint_artifacts h E a f s =
     (case checkpoint E a (world s) of
        (None, w) \<Rightarrow> (None, s\<lparr>artifacts := Some a, world := w\<rparr>)
      | (Some (Inr _), w) \<Rightarrow> (Some True, s\<lparr>artifacts := Some a, world := w\<rparr>)
      | (Some (Inl e), w) \<Rightarrow>
          (case send_event h E (f e) (s\<lparr>artifacts := Some a, world := w\<rparr>) of
             (None, t) \<Rightarrow> (None, t) | (Some _, t) \<Rightarrow> (Some False, t)))"
  by (simp add: checkpoint_artifacts_def seq_def assign_def call_def pure_def split: prod.splits option.splits sum.splits)

lemma answers_checkpoint [act_intros]:
  assumes "\<And>e. P (f e)" "answers h R P (g True)" "g False = pure Break"
  shows "answers h R P (seq (checkpoint_artifacts h E a f) g)"
  unfolding answers_def
proof (intro allI impI)
  fix s x t
  assume run: "seq (checkpoint_artifacts h E a f) g s = (x, t)"
  obtain r w where r: "checkpoint E a (world s) = (r, w)" by fastforce
  consider "r = None" | e where "r = Some (Inl e)" | u where "r = Some (Inr u)"
    by (cases r; cases "the r") auto
  then show "answered h R P s x t"
  proof cases
    case 1
    with run r show ?thesis by (auto simp: seq_def checkpoint_artifacts_eq)
  next
    case (2 e)
    obtain r' w' where "persistMachine E (h_send h (session s) (f e)) w = (r', w')" by fastforce
    with run r 2 assms(3) show ?thesis
      by (cases r') (auto simp: seq_def checkpoint_artifacts_eq send_event_eq pure_def
        intro: answeredI [where e = "f e"] assms(1))
  next
    case 3
    with run r have "g True (s\<lparr>artifacts := Some a, world := w\<rparr>) = (x, t)"
      by (simp add: seq_def checkpoint_artifacts_eq)
    with assms(2) have "answered h R P (s\<lparr>artifacts := Some a, world := w\<rparr>) x t"
      unfolding answers_def by blast
    then show ?thesis by (rule answered_cong) simp_all
  qed
qed

lemma answers_checkpointed [act_intros]:
  "(\<And>e. P (f e)) \<Longrightarrow> answers h R P (andBreak m) \<Longrightarrow> answers h R P (checkpointed h E a f m)"
  unfolding checkpointed_def by (rule answers_checkpoint) simp_all

lemma answers_if [act_intros]: "(b \<Longrightarrow> answers h R P m) \<Longrightarrow> (\<not> b \<Longrightarrow> answers h R P n) \<Longrightarrow> answers h R P (if b then m else n)"
  by simp


lemma answers_sum [act_intros]:
  "(\<And>e. answers h R P (f e)) \<Longrightarrow> (\<And>v. answers h R P (g v)) \<Longrightarrow>
   answers h R P (case r of Inl e \<Rightarrow> f e | Inr v \<Rightarrow> g v)"
  by (cases r) simp_all

lemma answers_option [act_intros]:
  "answers h R P m \<Longrightarrow> (\<And>v. answers h R P (g v)) \<Longrightarrow> answers h R P (case r of None \<Rightarrow> m | Some v \<Rightarrow> g v)"
  by (cases r) simp_all

lemma answers_risk [act_intros]:
  "(\<And>v. answers h R P (f v)) \<Longrightarrow> (\<And>v. answers h R P (g v)) \<Longrightarrow>
   answers h R P (case r of APPROVED v \<Rightarrow> f v | REJECTED v \<Rightarrow> g v)"
  by (cases r) simp_all

lemma answers_plan [act_intros]:
  "(\<And>a b c. answers h R P (f a b c)) \<Longrightarrow> (\<And>a b. answers h R P (g a b)) \<Longrightarrow>
   answers h R P (case r of RetryAt a b c \<Rightarrow> f a b c | RetryExhausted a b \<Rightarrow> g a b)"
  by (cases r) simp_all

lemma quiet_option [act_intros]:
  "quiet m \<Longrightarrow> (\<And>v. quiet (g v)) \<Longrightarrow> quiet (case r of None \<Rightarrow> m | Some v \<Rightarrow> g v)"
  by (cases r) simp_all

lemma quiet_if [act_intros]: "quiet m \<Longrightarrow> quiet n \<Longrightarrow> quiet (if b then m else n)"
  by simp

lemma observe_keeps [simp]:
  "session (anchorReconciledDailyRisk c u eq s) = session s"
  "alarmTriggered (anchorReconciledDailyRisk c u eq s) = alarmTriggered s"
  "session (observeAccount c eq x u s) = session s"
  "alarmTriggered (observeAccount c eq x u s) = alarmTriggered s"
  "session (observeConfirmed c pf a b d s) = session s"
  "alarmTriggered (observeConfirmed c pf a b d s) = alarmTriggered s"
  by (simp_all add: anchorReconciledDailyRisk_def observeAccount_def observeConfirmed_def Let_def
      split: option.split)

lemma quiet_funding [act_intros]: "quiet (resolveFundingInput i cs)"
  unfolding resolveFundingInput_def Let_def by (intro act_intros)

lemma quiet_admission [act_intros]: "quiet (portfolioAdmission i g r)"
  unfolding portfolioAdmission_def by (cases r) (auto intro!: act_intros)

lemma answers_submission [act_intros]:
  assumes "\<And>e. P (onCheckpoint e)" "\<And>x. P (onConfirmed x)" "\<And>e. P (onRejected e)"
    "\<And>e. P (onUnknown e)" "P ORDER_NO_LONGER_NEEDED" "\<And>x e. P (ORDER_PROTECTION_FAILED x e)"
  shows "answers h R P (settleSubmission h i a onCheckpoint onConfirmed onRejected onUnknown r)"
  unfolding settleSubmission_def Let_def
  by (cases r) (simp_all, (intro act_intros assms; simp)+)

lemma answers_planRetry [act_intros]:
  "P RETRY_TIMER_ELAPSED \<Longrightarrow> answers h True P (planRetry h i t)"
  unfolding planRetry_def Let_def by (intro act_intros) (auto split: option.split)

lemma answers_fetching: "answers h False (phase_event FetchingMarketData) (fetchingMarketData_effect h i)"
  unfolding fetchingMarketData_effect_def Let_def
  by (intro answers_asks answers_seq [OF quiet_call] answers_sum answers_checkpoint) (auto intro!: act_intros)

lemma answers_retryingMarketData:
  "answers h True (phase_event RetryingMarketData) (retryingMarketData_effect h i)"
  unfolding retryingMarketData_effect_def Let_def by (intro act_intros) simp_all

lemma answers_computing: "answers h False (phase_event ComputingIndicators) (computingIndicators_effect h i)"
  unfolding computingIndicators_effect_def Let_def by (intro act_intros) simp_all

lemma answers_evaluating:
  "answers h False (phase_event EvaluatingStrategies) (evaluatingStrategies_effect h i registry)"
  unfolding evaluatingStrategies_effect_def Let_def case_prod_conv by (intro act_intros) simp_all

lemma answers_allocating: "answers h False (phase_event Allocating) (allocating_effect h i)"
  unfolding allocating_effect_def Let_def case_prod_conv by (intro act_intros) simp_all

lemma answers_checking: "answers h False (phase_event CheckingRisk) (checkingRisk_effect h i)"
  unfolding checkingRisk_effect_def Let_def case_prod_conv by (intro act_intros) simp_all

lemma answers_intent:
  "answers h False (phase_event PersistingOrderIntent) (persistingOrderIntent_effect h i)"
  unfolding persistingOrderIntent_effect_def Let_def by (intro act_intros) (simp split: sum.split)+

lemma answers_authorizing: "answers h False (phase_event Authorizing) (authorizing_effect h i)"
  unfolding authorizing_effect_def Let_def by (intro act_intros) simp_all

lemma answers_submitting: "answers h False (phase_event SubmittingOrder) (submittingOrder_effect h i)"
  unfolding submittingOrder_effect_def Let_def case_prod_conv by (intro act_intros) simp_all

lemma answers_reconciling: "answers h False (phase_event ReconcilingOrder) (reconcilingOrder_effect h i)"
  unfolding reconcilingOrder_effect_def Let_def case_prod_conv by (intro act_intros) simp_all

lemma answers_persisting: "answers h False (phase_event Persisting) (persisting_effect h i)"
  unfolding persisting_effect_def by (intro act_intros) (auto split: option.split sum.split)

lemma answers_retrying: "P RETRY_TIMER_ELAPSED \<Longrightarrow> answers h R P (retrying_effect h i)"
  unfolding retrying_effect_def by (intro act_intros)

lemma answers_scheduling: "answers h False (phase_event Scheduling) (scheduling_effect h i)"
  unfolding scheduling_effect_def by (intro act_intros) (simp split: sum.split)

lemma answers_account: "answers h False (phase_event ReconcilingAccount) (reconcilingAccount_effect h i)"
  unfolding reconcilingAccount_effect_def by (intro act_intros) simp_all

lemma answers_cancelling: "answers h False (phase_event Cancelling) (cancelling_effect h i)"
  unfolding cancelling_effect_def by (intro act_intros) (simp split: sum.split)

text \<open>Where a run may rest.\<close>

definition rests :: "tradingCycleState \<Rightarrow> bool" where
  "rests st \<longleftrightarrow> st \<in> {Stopped, Failed, Halted, Waiting, RetryingMarketData}"

text \<open>Every phase but the wake.\<close>

lemma phase_answers:
  assumes "st \<noteq> Waiting"
  shows "answers h (rests st) (phase_event st) (phase_effect h i registry wake st)"
  using assms
  by (cases st)
    (simp_all add: rests_def answers_fetching answers_retryingMarketData answers_computing
      answers_evaluating answers_allocating answers_checking answers_intent answers_authorizing
      answers_submitting answers_reconciling answers_persisting answers_retrying answers_scheduling
      answers_account answers_cancelling answers_return)

subsection \<open>Effects that settle\<close>

text \<open>No promise of the effects is rejected: \<open>resolves\<close> for one effect, and for all of an input.\<close>

definition resolves :: "('w, 'a) effect \<Rightarrow> bool" where
  "resolves f \<longleftrightarrow> (\<forall>w. fst (f w) \<noteq> None)"

definition effects_settle :: "'w RunTradingCycleInput \<Rightarrow> bool" where
  "effects_settle i \<longleftrightarrow>
     (let E = run_effects i
      in (\<forall>p t. resolves (reconcileAccount E p t)) \<and> (\<forall>c t. resolves (fetchMarketData E c t)) \<and>
         (case fetchFundingData E of None \<Rightarrow> True | Some f \<Rightarrow> \<forall>c cs. resolves (f c cs)) \<and>
         (\<forall>t. resolves (ensureSchedule E t)) \<and>
         (case scheduleRetry E of None \<Rightarrow> True | Some f \<Rightarrow> \<forall>t n. resolves (f t n)) \<and>
         (\<forall>a. resolves (checkpoint E a)) \<and> (\<forall>m. resolves (persistMachine E m)) \<and>
         (\<forall>c x. resolves (persistOrderIntent E c x)) \<and> (\<forall>x. resolves (authorize E x)) \<and>
         (\<forall>x v a px p t. resolves (submitOrder E x v a px p t)) \<and>
         (\<forall>x v p. resolves (reconcileOrder E x v p)) \<and> (\<forall>m. resolves (cancelCurrentEffect E m)) \<and>
         (\<forall>a m. resolves (persistCycle E a m)) \<and>
         (case proposePortfolioRisk E of None \<Rightarrow> True | Some f \<Rightarrow> \<forall>p n. resolves (f p n)) \<and>
         resolves (run_now i))"

lemma settled_pure: "settled_act (pure x)" and settled_assign: "settled_act (assign g)"
  by (simp_all add: settled_act_def pure_def assign_def)

lemma settled_call: "resolves f \<Longrightarrow> settled_act (call f)"
  by (simp add: settled_act_def resolves_def call_def split: prod.splits) (metis fst_conv)

lemma settled_asks: "(\<And>s. settled_act (f s)) \<Longrightarrow> settled_act (asks f)"
  by (simp add: settled_act_def asks_def)

lemma settled_seq:
  assumes "settled_act m" "\<And>x. settled_act (f x)"
  shows "settled_act (seq m f)"
  unfolding settled_act_def
proof
  fix s
  obtain y t where "m s = (Some y, t)"
    using assms(1) unfolding settled_act_def by (metis option.exhaust prod.collapse)
  then show "fst (seq m f s) \<noteq> None"
    using assms(2) [of y] by (simp add: seq_def settled_act_def)
qed

lemma settled_if: "settled_act m \<Longrightarrow> settled_act n \<Longrightarrow> settled_act (if b then m else n)"
  by simp

lemma settled_sum: "(\<And>e. settled_act (f e)) \<Longrightarrow> (\<And>v. settled_act (g v)) \<Longrightarrow>
    settled_act (case r of Inl e \<Rightarrow> f e | Inr v \<Rightarrow> g v)"
  by (cases r) simp_all

lemma settled_option: "settled_act m \<Longrightarrow> (\<And>v. r = Some v \<Longrightarrow> settled_act (g v)) \<Longrightarrow>
    settled_act (case r of None \<Rightarrow> m | Some v \<Rightarrow> g v)"
  by (cases r) simp_all

lemma settled_plan: "(\<And>a b c. settled_act (f a b c)) \<Longrightarrow> (\<And>a b. settled_act (g a b)) \<Longrightarrow>
    settled_act (case r of RetryAt a b c \<Rightarrow> f a b c | RetryExhausted a b \<Rightarrow> g a b)"
  by (cases r) simp_all

lemma settled_risk: "(\<And>v. settled_act (f v)) \<Longrightarrow> (\<And>v. settled_act (g v)) \<Longrightarrow>
    settled_act (case r of APPROVED v \<Rightarrow> f v | REJECTED v \<Rightarrow> g v)"
  by (cases r) simp_all

lemmas settled_rules = settled_pure settled_assign settled_call settled_asks settled_seq settled_if
  settled_sum settled_option settled_plan settled_risk

lemma settled_funding:
  assumes "effects_settle i"
  shows "settled_act (resolveFundingInput i cs)"
  using assms unfolding resolveFundingInput_def Let_def effects_settle_def
  by (intro settled_rules) simp

lemma settled_steps:
  assumes "effects_settle i"
  shows "settled_act (phase_effect h i registry wake st)"
proof -
  let ?E = "run_effects i"
  note E = assms [unfolded effects_settle_def Let_def]
  have send: "settled_act (send_event h ?E e)" for e
    unfolding send_event_def using E by (intro settled_rules) (simp del: split_paired_All)
  have send_break: "settled_act (andBreak (send_event h ?E e))" for e
    unfolding andBreak_def by (intro settled_rules send)
  have check: "settled_act (checkpoint_artifacts h ?E a f)" for a f
    unfolding checkpoint_artifacts_def using E by (intro settled_rules send) simp
  have checkpointed: "settled_act (checkpointed h ?E a f (send_event h ?E e))" for a f e
    unfolding checkpointed_def by (intro settled_rules check send_break)
  have submission: "settled_act (settleSubmission h i a p q r' u r)" for a p q r' u r
    unfolding settleSubmission_def Let_def
    by (cases r) (simp_all, (intro settled_rules checkpointed send_break)+)
  have plan: "settled_act (planRetry h i t)" for t
    unfolding planRetry_def Let_def using E by (intro settled_rules send_break) simp_all
  have admission: "settled_act (portfolioAdmission i g r)" for g r
    unfolding portfolioAdmission_def case_prod_conv using E by (intro settled_rules) simp_all
  note rules = settled_rules send send_break check checkpointed submission plan admission
    settled_funding [OF assms]
  show ?thesis
    using E
    by (cases st; simp only: phase_effect.simps)
      (unfold waiting_effect_def scheduling_effect_def retryingMarketData_effect_def
        retrying_effect_def reconcilingAccount_effect_def fetchingMarketData_effect_def
        computingIndicators_effect_def evaluatingStrategies_effect_def allocating_effect_def
        checkingRisk_effect_def persistingOrderIntent_effect_def authorizing_effect_def
        submittingOrder_effect_def reconcilingOrder_effect_def cancelling_effect_def
        persisting_effect_def Let_def case_prod_conv,
       (intro rules; simp del: split_paired_All)+)
qed

subsection \<open>A run ends\<close>

text \<open>The host, with the machine package as its contract has it.\<close>

definition machine_host :: "host \<Rightarrow> bool" where
  "machine_host h \<longleftrightarrow>
     (\<exists>init. xstate_runtime tradingCycleMachine init (h_send h)) \<and> (\<forall>m. h_restore h m = m)"

lemma machine_hostD: "machine_host h \<Longrightarrow> h_send h = tc_send" "machine_host h \<Longrightarrow> h_restore h m = m"
  by (auto simp: machine_host_def dest: tc_runtime simp del: split_paired_All)

text \<open>A session the induction over the loop keeps.\<close>

definition budgeted :: "nat retryCounts \<Rightarrow> tc_snapshot \<Rightarrow> bool" where
  "budgeted L m \<longleftrightarrow> tc_quiet m \<and> retryLimits (snd m) = natural_limits L"

lemma budgeted_send: "budgeted L m \<Longrightarrow> budgeted L (tc_send m e)"
  by (cases m) (simp add: budgeted_def tc_quiet_send tc_send_limits)

lemma loop_returns:
  assumes host: "machine_host h" and settle: "effects_settle i"
  shows "budgeted L (session s) \<Longrightarrow> \<not> wake \<or> alarmTriggered s \<Longrightarrow> cycle_rank L (session s) \<le> n \<Longrightarrow>
    \<exists>r t. interpreter_loop h i registry wake n s = (Some r, t) \<and> rests (fst (res_machine r))"
proof (induction n arbitrary: s)
  case 0
  then show ?case using cycle_rank_pos [of L "session s"] by simp
next
  case (Suc n)
  obtain st c where m: "session s = (st, c)" by fastforce
  show ?case
  proof (cases "st = Waiting")
    case True
    with Suc.prems m show ?thesis
      by (auto simp: interpreter_step_def asks_def waiting_effect_def pure_def seq_def
          currentResult_def rests_def)
  next
    case False
    obtain k t where step: "phase_effect h i registry wake st s = (Some k, t)"
      using settled_steps [OF settle] unfolding settled_act_def by (metis option.exhaust prod.collapse)
    then have loop: "interpreter_loop h i registry wake (Suc n) s =
        (case k of Return \<Rightarrow> (Some (currentResult t), t) | Break \<Rightarrow> interpreter_loop h i registry wake n t)"
      by (simp add: interpreter_step_def asks_def seq_def m pure_def split: control.split)
    from phase_answers [OF False, of h i registry wake] step
    have out: "answered h (rests st) (phase_event st) s (Some k) t"
      unfolding answers_def by blast
    show ?thesis
    proof (cases k)
      case Return
      with loop out m show ?thesis by (simp add: answered_def currentResult_def)
    next
      case Break
      with out m obtain e where e: "phase_event st e" and t: "session t = tc_send (st, c) e"
        "alarmTriggered t = alarmTriggered s"
        unfolding answered_def by (auto simp: machine_hostD [OF host])
      have "cycle_rank L (tc_send (st, c) e) < cycle_rank L (st, c)"
        using Suc.prems(1) m e False by (intro cycle_rank_decreases) (simp_all add: budgeted_def)
      with Suc.prems m t have "\<exists>r u. interpreter_loop h i registry wake n t = (Some r, u) \<and>
          rests (fst (res_machine r))"
        by (intro Suc.IH) (simp_all add: budgeted_send)
      with loop Break show ?thesis by simp
    qed
  qed
qed

text \<open>With the alarm, the loop spends one step more.\<close>

lemma wake_returns:
  assumes host: "machine_host h" and settle: "effects_settle i"
    and s: "budgeted L (session s)" "fst (session s) = Waiting" "\<not> alarmTriggered s"
    and n: "cycle_bound L \<le> n"
  shows "\<exists>r t. interpreter_loop h i registry True (Suc n) s = (Some r, t) \<and> rests (fst (res_machine r))"
proof -
  obtain c where m: "session s = (Waiting, c)" using s(2) by (cases "session s") auto
  let ?e = "ALARM_FIRED (run_cycleId i) (run_triggeredAt i)"
  obtain k t where step: "waiting_effect h i True s = (Some k, t)"
    using settled_steps [OF settle, of h undefined True Waiting] unfolding settled_act_def
    by (metis option.exhaust phase_effect.simps(4) prod.collapse)
  then have k: "k = Break" and t: "session t = tc_send (Waiting, c) ?e" "alarmTriggered t"
    using s m by (auto simp: waiting_effect_def asks_def seq_def assign_def send_event_eq pure_def
        machine_hostD [OF host] split: prod.splits option.splits)
  have loop: "interpreter_loop h i registry True (Suc n) s = interpreter_loop h i registry True n t"
    using step by (simp add: interpreter_step_def asks_def seq_def m k)
  have "cycle_rank L (session t) < cycle_bound L"
    unfolding t using s(1) m by (intro cycle_rank_alarm) (simp add: budgeted_def)
  then show ?thesis
    unfolding loop using s(1) n t
    by (intro loop_returns [OF host settle, of L]) (simp_all add: budgeted_send m)
qed

lemma run_returns_bound:
  assumes host: "machine_host h" and settle: "effects_settle i"
    and registry: "createConfiguredStrategyRegistry h (run_configuration i) = Some registry"
    and m: "budgeted L (run_machine i)" and n: "cycle_bound L < MAX_INTERPRETER_STEPS"
  shows "\<exists>r w'. runTradingCycle h i w = (Some r, w') \<and> rests (fst (res_machine r))"
proof -
  let ?s = "initial_interp h i w" and ?w = "wake_triggerAlarm (planCycleWake (fst (run_machine i)) (run_triggerAlarm i))"
  have s: "budgeted L (session ?s)" "fst (session ?s) = fst (run_machine i)" "\<not> alarmTriggered ?s"
    using m by (auto simp: initial_interp_def createTradingMachineSession_def machine_hostD [OF host]
        budgeted_def tc_quiet_def)
  obtain n' where n': "MAX_INTERPRETER_STEPS = Suc n'" by (simp add: MAX_INTERPRETER_STEPS_def)
  have "\<exists>r t. interpreter_loop h i registry ?w MAX_INTERPRETER_STEPS ?s = (Some r, t) \<and>
      rests (fst (res_machine r))"
  proof (cases ?w)
    case True
    then have "fst (run_machine i) = Waiting" by (simp add: planCycleWake_def)
    then show ?thesis
      using wake_returns [OF host settle, of L ?s n' registry] True s n n' by simp
  next
    case False
    have "cycle_rank L (session ?s) \<le> MAX_INTERPRETER_STEPS"
      using cycle_rank_le [of "session ?s" L] s(1) n by (simp add: budgeted_def)
    with False s(1) show ?thesis by (intro loop_returns [OF host settle, of L]) simp_all
  qed
  then show ?thesis by (auto simp: runTradingCycle_def registry)
qed

end
