(* ===== verification/CycleJournal.thy ===== *)
theory CycleJournal
  imports InterpreterProps
begin

text \<open>
  What a run does to the world before it submits an order.  Each effect is run with a journal
  beside the world, newest entry first; a run keeps the journal safe whatever the effects answer
  and wherever they throw.
\<close>

subsection \<open>Journal\<close>

datatype journal_entry =
  Persisted PersistedTradingMachine
| Proposed string number bool
| IntentPersisted string OrderIntent
| Authorized OrderIntent ExecutionAuthorization
| Submitted OrderIntent RiskApproval ExecutionAuthorization number PaperPortfolio number

type_synonym journal = "journal_entry list"

text \<open>An effect that adds entries for its answer, none standing for a rejected promise.\<close>

definition journaled :: "('w, 'a) effect \<Rightarrow> ('a option \<Rightarrow> journal) \<Rightarrow> ('w \<times> journal, 'a) effect" where
  "journaled f k = (\<lambda>(w, l). case f w of (r, w') \<Rightarrow> (r, (w', k r @ l)))"

abbreviation unlogged :: "('w, 'a) effect \<Rightarrow> ('w \<times> journal, 'a) effect" where
  "unlogged f \<equiv> journaled f (\<lambda>_. [])"

text \<open>An entry for an answer that is not an error.\<close>

definition on_success :: "('a \<Rightarrow> journal_entry) \<Rightarrow> ('a, 'e) result option \<Rightarrow> journal" where
  "on_success f r = (case r of Some (Inr x) \<Rightarrow> [f x] | _ \<Rightarrow> [])"

definition on_answer :: "('a \<Rightarrow> journal_entry) \<Rightarrow> 'a option \<Rightarrow> journal" where
  "on_answer f r = (case r of Some x \<Rightarrow> [f x] | None \<Rightarrow> [])"

definition journal_effects :: "'w TradingCycleEffects \<Rightarrow> ('w \<times> journal) TradingCycleEffects" where
  "journal_effects E =
     \<lparr>reconcileAccount = (\<lambda>p t. unlogged (reconcileAccount E p t)),
      fetchMarketData = (\<lambda>c t. unlogged (fetchMarketData E c t)),
      fetchFundingData = map_option (\<lambda>f c cs. unlogged (f c cs)) (fetchFundingData E),
      ensureSchedule = (\<lambda>t. unlogged (ensureSchedule E t)),
      scheduleRetry = map_option (\<lambda>f t n. unlogged (f t n)) (scheduleRetry E),
      checkpoint = (\<lambda>a. unlogged (checkpoint E a)),
      persistMachine = (\<lambda>m. journaled (persistMachine E m) (on_answer (\<lambda>_. Persisted m))),
      persistOrderIntent = (\<lambda>c x. journaled (persistOrderIntent E c x) (on_success (\<lambda>_. IntentPersisted c x))),
      authorize = (\<lambda>x. journaled (authorize E x) (on_success (Authorized x))),
      submitOrder = (\<lambda>x v a px p t. journaled (submitOrder E x v a px p t) (\<lambda>_. [Submitted x v a px p t])),
      reconcileOrder = (\<lambda>x v p. unlogged (reconcileOrder E x v p)),
      cancelCurrentEffect = (\<lambda>m. unlogged (cancelCurrentEffect E m)),
      persistCycle = (\<lambda>a m. unlogged (persistCycle E a m)),
      proposePortfolioRisk = map_option (\<lambda>f p n. journaled (f p n)
        (on_answer (\<lambda>d. Proposed p n (adm_approved d)))) (proposePortfolioRisk E)\<rparr>"

definition journal_input :: "'w RunTradingCycleInput \<Rightarrow> ('w \<times> journal) RunTradingCycleInput" where
  "journal_input i =
     \<lparr>run_agentId = run_agentId i, run_configuration = run_configuration i,
      run_machine = run_machine i, run_artifacts = run_artifacts i,
      run_previousIndicators = run_previousIndicators i, run_portfolio = run_portfolio i,
      run_dailyPnl = run_dailyPnl i, run_dailyRiskWindow = run_dailyRiskWindow i,
      run_lastTradeAt = run_lastTradeAt i, run_triggeredAt = run_triggeredAt i,
      run_cycleId = run_cycleId i, run_triggerAlarm = run_triggerAlarm i,
      run_effects = journal_effects (run_effects i), run_now = unlogged (run_now i)\<rparr>"

text \<open>The journal of a run that starts with an empty one.\<close>

definition journal_of :: "host \<Rightarrow> 'w RunTradingCycleInput \<Rightarrow> 'w \<Rightarrow> journal" where
  "journal_of h i w = snd (snd (runTradingCycle h (journal_input i) (w, [])))"

subsection \<open>A safe journal\<close>

text \<open>The last authorization that no submission has used.\<close>

primrec pending_token :: "journal \<Rightarrow> (OrderIntent \<times> ExecutionAuthorization) option" where
  "pending_token [] = None"
| "pending_token (x # l) =
     (case x of Authorized order token \<Rightarrow> Some (order, token)
      | Submitted _ _ _ _ _ _ \<Rightarrow> None | _ \<Rightarrow> pending_token l)"

definition usable_token :: "ExecutionAuthorization \<Rightarrow> bool" where
  "usable_token a \<longleftrightarrow>
     auth_issuedAt a < auth_expiresAt a \<and> auth_expiresAt a - auth_issuedAt a \<le> Fin 120000"

text \<open>Every submission uses the pending authorization, of its own order.\<close>

primrec authorized_journal :: "journal \<Rightarrow> bool" where
  "authorized_journal [] = True"
| "authorized_journal (x # l) \<longleftrightarrow> authorized_journal l \<and>
     (case x of Submitted order _ token _ _ _ \<Rightarrow> pending_token l = Some (order, token) \<and> usable_token token
      | _ \<Rightarrow> True)"

text \<open>
  Every submission was approved by the risk check at the price, position and time it is submitted
  with, admitted by the portfolio where one is asked, and follows its persisted intent.
\<close>

definition portfolio_asked :: "'w RunTradingCycleInput \<Rightarrow> OrderIntent \<Rightarrow> bool" where
  "portfolio_asked i order \<longleftrightarrow>
     proposePortfolioRisk (run_effects i) \<noteq> None \<and>
     (usesTargetExposure (run_configuration i) \<longrightarrow> side order = BUY)"

definition passed :: "'w RunTradingCycleInput \<Rightarrow> OrderIntent \<Rightarrow> RiskApproval \<Rightarrow> number
    \<Rightarrow> PaperPortfolio \<Rightarrow> journal \<Rightarrow> bool" where
  "passed i order v px p l \<longleftrightarrow>
     (\<exists>snap. checkRisk order snap (conf_risk (run_configuration i)) = ok (APPROVED v) \<and>
        marketPrice snap = px \<and> currentPositionQuantity snap = positionQuantity p \<and>
        now snap = run_triggeredAt i \<and> lastTradeAt snap = run_lastTradeAt i) \<and>
     (portfolio_asked i order \<longrightarrow>
        Proposed (conf_productId (run_configuration i)) (projectedPositionNotional v) True \<in> set l)"

primrec checked_journal :: "'w RunTradingCycleInput \<Rightarrow> journal \<Rightarrow> bool" where
  "checked_journal i [] = True"
| "checked_journal i (x # l) \<longleftrightarrow> checked_journal i l \<and>
     (case x of Submitted order v _ px p t \<Rightarrow>
        t = run_triggeredAt i \<and> passed i order v px p l \<and>
        IntentPersisted (run_cycleId i) order \<in> set l
      | _ \<Rightarrow> True)"

text \<open>The machine the journal last persisted, from one it starts with.\<close>

primrec last_persisted :: "PersistedTradingMachine \<Rightarrow> journal \<Rightarrow> PersistedTradingMachine" where
  "last_persisted m [] = m"
| "last_persisted m (x # l) = (case x of Persisted m' \<Rightarrow> m' | _ \<Rightarrow> last_persisted m l)"

subsection \<open>Invariant of the loop\<close>

text \<open>
  What holds in each phase of the cycle.  The parts behind \<open>F\<close> need a cycle that began in this run.
\<close>

definition undecided :: "'w RunTradingCycleInput \<Rightarrow> CycleArtifacts option \<Rightarrow> bool" where
  "undecided i a \<longleftrightarrow>
     (\<forall>x. a = Some x \<longrightarrow> art_cycleId x = run_cycleId i \<and> art_triggeredAt x = run_triggeredAt i \<and>
        art_risk x = None)"

definition approved :: "'w RunTradingCycleInput \<Rightarrow> CycleArtifacts option \<Rightarrow> PaperPortfolio
    \<Rightarrow> journal \<Rightarrow> bool" where
  "approved i a p l \<longleftrightarrow>
     (\<forall>x. a = Some x \<longrightarrow> art_cycleId x = run_cycleId i \<and> art_triggeredAt x = run_triggeredAt i \<and>
        (\<forall>order v c. art_order x = Some order \<longrightarrow> art_risk x = Some (APPROVED v) \<longrightarrow>
           lastCandle x = Some c \<longrightarrow> passed i order v (close_price c) p l))"

definition intended :: "CycleArtifacts option \<Rightarrow> journal \<Rightarrow> bool" where
  "intended a l \<longleftrightarrow>
     (\<forall>x order. a = Some x \<longrightarrow> art_order x = Some order \<longrightarrow>
        IntentPersisted (art_cycleId x) order \<in> set l)"

definition tokened :: "CycleArtifacts option \<Rightarrow> ExecutionAuthorization option \<Rightarrow> journal \<Rightarrow> bool" where
  "tokened a k l \<longleftrightarrow>
     (\<forall>x order token. a = Some x \<longrightarrow> art_order x = Some order \<longrightarrow> k = Some token \<longrightarrow>
        pending_token l = Some (order, token) \<and> usable_token token)"

definition deciding :: "tradingCycleState set" where
  "deciding = {ReconcilingAccount, RetryingAccountReconciliation, FetchingMarketData,
     RetryingMarketData, ComputingIndicators, EvaluatingStrategies, Allocating, CheckingRisk}"

definition ordering :: "tradingCycleState set" where
  "ordering = {Authorizing, RetryingAuthorization, RetryingExecution, SubmittingOrder}"

definition phase_ok :: "bool \<Rightarrow> 'w RunTradingCycleInput \<Rightarrow> tradingCycleState \<Rightarrow> CycleArtifacts option
    \<Rightarrow> PaperPortfolio \<Rightarrow> ExecutionAuthorization option \<Rightarrow> journal \<Rightarrow> bool" where
  "phase_ok F i st a p k l \<longleftrightarrow>
     (F \<longrightarrow> (st \<in> deciding \<longrightarrow> undecided i a) \<and>
        (st \<in> insert PersistingOrderIntent ordering \<longrightarrow> approved i a p l) \<and>
        (st \<in> ordering \<longrightarrow> intended a l)) \<and>
     (st = SubmittingOrder \<longrightarrow> tokened a k l)"

definition safe :: "bool \<Rightarrow> 'w RunTradingCycleInput \<Rightarrow> journal \<Rightarrow> bool" where
  "safe F i l \<longleftrightarrow> authorized_journal l \<and> (F \<longrightarrow> checked_journal i l)"

text \<open>Entries of the machine's persistence change none of these.\<close>

lemma phase_ok_Persisted [simp]: "phase_ok F i st a p k (Persisted m # l) = phase_ok F i st a p k l"
  by (simp add: phase_ok_def approved_def passed_def intended_def tokened_def)

lemma safe_other [simp]:
  "safe F i (Persisted m # l) = safe F i l" "safe F i (Proposed q n b # l) = safe F i l"
  "safe F i (IntentPersisted c x # l) = safe F i l" "safe F i (Authorized x a # l) = safe F i l"
  by (simp_all add: safe_def)

subsection \<open>Phases after an event\<close>

text \<open>A phase the invariant says nothing of.\<close>

definition free :: "tradingCycleState \<Rightarrow> bool" where
  "free st \<longleftrightarrow> st \<notin> deciding \<and> st \<noteq> PersistingOrderIntent \<and> st \<notin> ordering"

text \<open>A phase at most before the decision.\<close>

definition unordered :: "tradingCycleState \<Rightarrow> bool" where
  "unordered st \<longleftrightarrow> st \<noteq> PersistingOrderIntent \<and> st \<notin> ordering"

lemmas phase_sets = deciding_def ordering_def

lemma phase_ok_free: "free st \<Longrightarrow> phase_ok F i st a p k l"
  by (auto simp: free_def phase_ok_def phase_sets)

lemma phase_ok_unordered: "unordered st \<Longrightarrow> (F \<longrightarrow> undecided i a) \<Longrightarrow> phase_ok F i st a p k l"
  by (auto simp: unordered_def phase_ok_def phase_sets)

lemma deciding_unordered: "st \<in> deciding \<Longrightarrow> unordered st"
  by (cases st) (simp_all add: unordered_def phase_sets)

lemma phase_ok_intent: "(F \<longrightarrow> approved i a p l) \<Longrightarrow> phase_ok F i PersistingOrderIntent a p k l"
  by (simp add: phase_ok_def phase_sets)

lemma phase_ok_order:
  "st \<in> ordering \<Longrightarrow> (F \<longrightarrow> approved i a p l) \<Longrightarrow> (F \<longrightarrow> intended a l) \<Longrightarrow>
   (st = SubmittingOrder \<longrightarrow> tokened a k l) \<Longrightarrow> phase_ok F i st a p k l"
  by (cases st) (simp_all add: phase_ok_def phase_sets)

lemma phase_ok_either: "n = st \<or> free n \<Longrightarrow> phase_ok F i st a p k l \<Longrightarrow> phase_ok F i n a p k l"
  by (auto simp: phase_ok_free)

lemma approved_more: "approved i a p l \<Longrightarrow> approved i a p (x # l)"
  by (auto simp: approved_def passed_def)

lemma intended_more: "intended a l \<Longrightarrow> intended a (x # l)"
  by (auto simp: intended_def)

text \<open>The phase after an event, by the rows of the table.\<close>

lemma free_after:
  assumes "phase_event st e" "free st" "st \<noteq> Waiting"
  shows "free (fst (tc_send (st, c) e))"
  using assms(1)
proof (rule tc_answer_rule)
  fix t
  assume "Some t = find (\<lambda>t. guard_of t c e) (tradingCycle_on st e @ root_rows e)"
  with assms show "free (fst (effect_of st c e t))"
    by ((cases st; cases e; simp only: phase_event.simps tradingCycleEvent.case
            tradingCycleEvent.distinct simp_thms if_True if_False),
        simp_all only: tc_rows, safe elim!: row_selectE, simp_all add: tc_effects free_def phase_sets)
qed

lemma deciding_after:
  assumes "phase_event st e" "st \<in> deciding" "e \<noteq> RISK_APPROVED"
  shows "unordered (fst (tc_send (st, c) e))"
  using assms(1)
proof (rule tc_answer_rule)
  fix t
  assume "Some t = find (\<lambda>t. guard_of t c e) (tradingCycle_on st e @ root_rows e)"
  with assms show "unordered (fst (effect_of st c e t))"
    by ((cases st; cases e; simp only: phase_event.simps tradingCycleEvent.case
            tradingCycleEvent.distinct simp_thms if_True if_False),
        simp_all only: tc_rows, safe elim!: row_selectE,
        simp_all add: tc_effects unordered_def phase_sets)
qed

lemma alarm_after: "unordered (fst (tc_send (Waiting, c) (ALARM_FIRED i t)))"
  by (simp add: sc_send_def select_def microstep_def enter_def tc_row_defs tc_settle tc_action_defs
      unordered_def phase_sets interrupt_def)

lemma approved_after:
  "fst (tc_send (CheckingRisk, c) RISK_APPROVED) = PersistingOrderIntent \<or>
   free (fst (tc_send (CheckingRisk, c) RISK_APPROVED))"
  "free (fst (tc_send (CheckingRisk, c) RISK_REJECTED))"
  "free (fst (tc_send (CheckingRisk, c) (RISK_FAILED f)))"
  by (simp_all add: sc_send_def select_def microstep_def enter_def tc_row_defs tc_settle tc_action_defs
      free_def phase_sets interrupt_def)

lemma intent_after:
  "fst (tc_send (PersistingOrderIntent, c) (ORDER_INTENT_PERSISTED x)) = Authorizing \<or>
    free (fst (tc_send (PersistingOrderIntent, c) (ORDER_INTENT_PERSISTED x)))"
  "free (fst (tc_send (PersistingOrderIntent, c) (ORDER_INTENT_FAILED f)))"
  by (simp_all add: sc_send_def select_def microstep_def enter_def tc_row_defs tc_settle tc_action_defs
      free_def phase_sets interrupt_def)

lemma authorization_after:
  "fst (tc_send (Authorizing, c) (AUTHORIZATION_READY x y)) = SubmittingOrder \<and>
     y < x \<and> x - y \<le> Fin 120000 \<or>
   fst (tc_send (Authorizing, c) (AUTHORIZATION_READY x y)) = RetryingAuthorization \<or>
   free (fst (tc_send (Authorizing, c) (AUTHORIZATION_READY x y)))"
  "fst (tc_send (Authorizing, c) (AUTHORIZATION_FAILED f)) = RetryingAuthorization \<or>
   free (fst (tc_send (Authorizing, c) (AUTHORIZATION_FAILED f)))"
  by (simp_all add: sc_send_def select_def microstep_def enter_def tc_row_defs tc_settle tc_action_defs
      free_def phase_sets interrupt_def authorizationIsUsable_def)

lemma retry_after:
  "fst (tc_send (RetryingAuthorization, c) RETRY_TIMER_ELAPSED) = Authorizing \<or>
   free (fst (tc_send (RetryingAuthorization, c) RETRY_TIMER_ELAPSED))"
  "fst (tc_send (RetryingExecution, c) RETRY_TIMER_ELAPSED) = Authorizing \<or>
   free (fst (tc_send (RetryingExecution, c) RETRY_TIMER_ELAPSED))"
  by (simp_all add: sc_send_def select_def microstep_def enter_def tc_row_defs tc_settle tc_action_defs
      free_def phase_sets interrupt_def)

lemma submission_after:
  assumes "phase_event SubmittingOrder e"
  shows "(\<exists>f. e = ORDER_REJECTED f) \<and> fst (tc_send (SubmittingOrder, c) e) = RetryingExecution \<or>
    free (fst (tc_send (SubmittingOrder, c) e))"
  using assms
  by (cases e) (simp_all add: sc_send_def select_def microstep_def enter_def tc_row_defs tc_settle
      tc_action_defs free_def phase_sets interrupt_def)

end
