(* ===== verification/InterpreterSafety.thy ===== *)
theory InterpreterSafety
  imports CycleJournal
begin

text \<open>
  The invariant of the journal over every run of the interpreter: weakest preconditions of its
  actions, one lemma per phase, and the properties of a whole run.
\<close>

subsection \<open>Weakest preconditions\<close>

text \<open>\<open>Q\<close> holds of the answer, or \<open>S\<close> of the journal where the action throws.\<close>

definition wp :: "(journal \<Rightarrow> bool) \<Rightarrow> ('w \<times> journal, 'a) act \<Rightarrow> ('a \<Rightarrow> ('w \<times> journal) interp \<Rightarrow> bool)
    \<Rightarrow> ('w \<times> journal) interp \<Rightarrow> bool" where
  "wp S m Q s = (case m s of (None, t) \<Rightarrow> S (snd (world t)) | (Some x, t) \<Rightarrow> Q x t)"

lemma wp_pure: "Q x s \<Longrightarrow> wp S (pure x) Q s"
  by (simp add: wp_def pure_def)

lemma wp_asks: "wp S (f s) Q s \<Longrightarrow> wp S (asks f) Q s"
  by (simp add: wp_def asks_def)

lemma wp_assign: "Q () (g s) \<Longrightarrow> wp S (assign g) Q s"
  by (simp add: wp_def assign_def)

lemma wp_seq: "wp S m (\<lambda>x. wp S (f x) Q) s \<Longrightarrow> wp S (seq m f) Q s"
  by (simp add: wp_def seq_def split: prod.splits option.splits)

lemma wp_if: "(b \<Longrightarrow> wp S m Q s) \<Longrightarrow> (\<not> b \<Longrightarrow> wp S n Q s) \<Longrightarrow> wp S (if b then m else n) Q s"
  by simp

lemma wp_sum: "(\<And>e. r = Inl e \<Longrightarrow> wp S (f e) Q s) \<Longrightarrow> (\<And>v. r = Inr v \<Longrightarrow> wp S (g v) Q s) \<Longrightarrow>
    wp S (case r of Inl e \<Rightarrow> f e | Inr v \<Rightarrow> g v) Q s"
  by (cases r) simp_all

lemma wp_option: "(r = None \<Longrightarrow> wp S m Q s) \<Longrightarrow> (\<And>v. r = Some v \<Longrightarrow> wp S (g v) Q s) \<Longrightarrow>
    wp S (case r of None \<Rightarrow> m | Some v \<Rightarrow> g v) Q s"
  by (cases r) simp_all

lemma wp_risk: "(\<And>v. r = APPROVED v \<Longrightarrow> wp S (f v) Q s) \<Longrightarrow> (\<And>v. r = REJECTED v \<Longrightarrow> wp S (g v) Q s) \<Longrightarrow>
    wp S (case r of APPROVED v \<Rightarrow> f v | REJECTED v \<Rightarrow> g v) Q s"
  by (cases r) simp_all

lemma wp_plan: "(\<And>a b c. wp S (f a b c) Q s) \<Longrightarrow> (\<And>a b. wp S (g a b) Q s) \<Longrightarrow>
    wp S (case r of RetryAt a b c \<Rightarrow> f a b c | RetryExhausted a b \<Rightarrow> g a b) Q s"
  by (cases r) simp_all

lemma wp_call:
  assumes "\<And>w. S (k None @ snd (world s))"
    and "\<And>x w. Q x (s\<lparr>world := (w, k (Some x) @ snd (world s))\<rparr>)"
  shows "wp S (call (journaled f k)) Q s"
proof -
  obtain w l where s: "world s = (w, l)" by fastforce
  obtain r w' where f: "f w = (r, w')" by fastforce
  show ?thesis
    using assms s f by (cases r) (simp_all add: wp_def call_def journaled_def)
qed

lemma wp_cong: "wp S m Q s \<Longrightarrow> (\<And>x t. Q x t \<Longrightarrow> R x t) \<Longrightarrow> wp S m R s"
  by (auto simp: wp_def split: prod.splits option.splits)

text \<open>What the loop keeps: a safe journal, the phase's invariant, and the machine last persisted.\<close>

definition kept :: "PersistedTradingMachine \<Rightarrow> bool \<Rightarrow> 'w RunTradingCycleInput
    \<Rightarrow> ('w \<times> journal) interp \<Rightarrow> bool" where
  "kept m F i s \<longleftrightarrow>
     (let l = snd (world s)
      in safe F i l \<and> phase_ok F i (fst (session s)) (artifacts s) (held s) (authorization_held s) l \<and>
         session s = last_persisted m l)"

text \<open>The state of an action inside a phase: only the world's first part is arbitrary.\<close>

lemma journal_input_simps [simp]:
  "run_agentId (journal_input i) = run_agentId i"
  "run_configuration (journal_input i) = run_configuration i"
  "run_machine (journal_input i) = run_machine i"
  "run_artifacts (journal_input i) = run_artifacts i"
  "run_portfolio (journal_input i) = run_portfolio i"
  "run_lastTradeAt (journal_input i) = run_lastTradeAt i"
  "run_triggeredAt (journal_input i) = run_triggeredAt i"
  "run_cycleId (journal_input i) = run_cycleId i"
  "run_triggerAlarm (journal_input i) = run_triggerAlarm i"
  "run_effects (journal_input i) = journal_effects (run_effects i)"
  "run_now (journal_input i) = unlogged (run_now i)"
  by (simp_all add: journal_input_def)

lemma journal_effects_simps [simp]:
  "reconcileAccount (journal_effects E) p t = unlogged (reconcileAccount E p t)"
  "fetchMarketData (journal_effects E) c t = unlogged (fetchMarketData E c t)"
  "fetchFundingData (journal_effects E) = map_option (\<lambda>f c cs. unlogged (f c cs)) (fetchFundingData E)"
  "ensureSchedule (journal_effects E) t = unlogged (ensureSchedule E t)"
  "scheduleRetry (journal_effects E) = map_option (\<lambda>f t n. unlogged (f t n)) (scheduleRetry E)"
  "checkpoint (journal_effects E) a = unlogged (checkpoint E a)"
  "persistMachine (journal_effects E) m = journaled (persistMachine E m) (on_answer (\<lambda>_. Persisted m))"
  "persistOrderIntent (journal_effects E) cy x =
     journaled (persistOrderIntent E cy x) (on_success (\<lambda>_. IntentPersisted cy x))"
  "authorize (journal_effects E) x = journaled (authorize E x) (on_success (Authorized x))"
  "submitOrder (journal_effects E) x v tk px p t =
     journaled (submitOrder E x v tk px p t) (\<lambda>_. [Submitted x v tk px p t])"
  "reconcileOrder (journal_effects E) x v p = unlogged (reconcileOrder E x v p)"
  "cancelCurrentEffect (journal_effects E) sm = unlogged (cancelCurrentEffect E sm)"
  "persistCycle (journal_effects E) ar m = unlogged (persistCycle E ar m)"
  "proposePortfolioRisk (journal_effects E) = map_option (\<lambda>f p n. journaled (f p n)
     (on_answer (\<lambda>d. Proposed p n (adm_approved d)))) (proposePortfolioRisk E)"
  by (simp_all add: journal_effects_def)

lemma on_answer_simps [simp]:
  "on_answer f None = []" "on_answer f (Some x) = [f x]"
  "on_success g None = []" "on_success g (Some (Inr y)) = [g y]" "on_success g (Some (Inl z)) = []"
  by (simp_all add: on_answer_def on_success_def)

lemma safe_intent [simp]: "safe F i (on_success (\<lambda>_. IntentPersisted cy x) r @ l) = safe F i l"
  by (auto simp: on_success_def split: option.split sum.split)

text \<open>Sending an event: only the phase after it matters.\<close>

lemma wp_send:
  assumes "h_send h = tc_send" "safe F i (snd (world s))"
    and "\<And>n w. Q () (s\<lparr>session := n, world := (w, Persisted n # snd (world s))\<rparr>) \<longleftrightarrow> R n"
    and "R (tc_send (session s) e)"
  shows "wp (safe F i) (send_event h (journal_effects E) e) Q s"
  unfolding send_event_def
  by (intro wp_seq wp_assign wp_asks) (simp add: assms, intro wp_call; simp add: assms)

lemma wp_send_break:
  assumes "h_send h = tc_send" "safe F i (snd (world s))"
    and "phase_ok F i (fst (tc_send (session s) e)) (artifacts s) (held s) (authorization_held s)
      (snd (world s))"
  shows "wp (safe F i) (andBreak (send_event h (journal_effects E) e)) (\<lambda>_. kept m F i) s"
  unfolding andBreak_def
  by (intro wp_seq wp_send [where R = "\<lambda>n. phase_ok F i (fst n) (artifacts s) (held s)
      (authorization_held s) (snd (world s))"]) (use assms in \<open>simp_all add: wp_def pure_def kept_def\<close>)

lemma wp_checkpoint:
  assumes "h_send h = tc_send" "safe F i (snd (world s))" "g False = pure Break"
    and "\<And>e. phase_ok F i (fst (tc_send (session s) (f e))) (Some a) (held s) (authorization_held s)
      (snd (world s))"
    and "\<And>w. wp (safe F i) (g True) (\<lambda>_. kept m F i)
      (s\<lparr>artifacts := Some a, world := (w, snd (world s))\<rparr>)"
  shows "wp (safe F i) (seq (checkpoint_artifacts h (journal_effects E) a f) g) (\<lambda>_. kept m F i) s"
proof -
  let ?R = "\<lambda>n. phase_ok F i (fst n) (Some a) (held s) (authorization_held s) (snd (world s))"
  show ?thesis
    unfolding checkpoint_artifacts_def
    apply (intro wp_seq wp_assign)
    apply (simp only: journal_effects_simps)
    apply (intro wp_call wp_sum wp_pure wp_seq wp_send [where R = ?R])
    using assms by (simp_all add: wp_def pure_def kept_def)
qed

lemma wp_checkpointed:
  assumes "h_send h = tc_send" "safe F i (snd (world s))"
    and "\<And>e. phase_ok F i (fst (tc_send (session s) (f e))) (Some a) (held s) (authorization_held s)
      (snd (world s))"
    and "phase_ok F i (fst (tc_send (session s) e)) (Some a) (held s) (authorization_held s)
      (snd (world s))"
  shows "wp (safe F i) (checkpointed h (journal_effects E) a f (send_event h (journal_effects E) e))
    (\<lambda>_. kept m F i) s"
  unfolding checkpointed_def
  by (intro wp_checkpoint assms) (simp_all add: wp_send_break assms)

text \<open>An event of a phase the invariant says nothing of, and of one before the decision.\<close>

lemma free_send:
  "session s = (st, c) \<Longrightarrow> free st \<Longrightarrow> st \<noteq> Waiting \<Longrightarrow> phase_event st e \<Longrightarrow>
   phase_ok F i (fst (tc_send (session s) e)) a p k l"
  by (simp add: phase_ok_free free_after)

lemma deciding_send:
  "session s = (st, c) \<Longrightarrow> st \<in> deciding \<Longrightarrow> phase_event st e \<Longrightarrow> e \<noteq> RISK_APPROVED \<Longrightarrow>
   (F \<longrightarrow> undecided i a) \<Longrightarrow> phase_ok F i (fst (tc_send (session s) e)) a p k l"
  by (simp add: phase_ok_unordered deciding_after)

text \<open>What \<open>kept\<close> gives a phase.\<close>

lemma keptD:
  assumes "kept m F i s" "session s = (st, c)"
  shows "safe F i (snd (world s))" "session s = last_persisted m (snd (world s))"
    "st \<in> deciding \<Longrightarrow> F \<longrightarrow> undecided i (artifacts s)"
    "st \<in> insert PersistingOrderIntent ordering \<Longrightarrow> F \<longrightarrow> approved i (artifacts s) (held s) (snd (world s))"
    "st \<in> ordering \<Longrightarrow> F \<longrightarrow> intended (artifacts s) (snd (world s))"
    "st = SubmittingOrder \<Longrightarrow> tokened (artifacts s) (authorization_held s) (snd (world s))"
  using assms by (auto simp: kept_def phase_ok_def Let_def)

lemma keptI:
  "safe F i (snd (world s)) \<Longrightarrow> session s = last_persisted m (snd (world s)) \<Longrightarrow>
   phase_ok F i (fst (session s)) (artifacts s) (held s) (authorization_held s) (snd (world s)) \<Longrightarrow>
   kept m F i s"
  by (simp add: kept_def)

lemmas wp_rules = wp_seq wp_asks wp_assign wp_pure wp_if wp_sum wp_option wp_risk wp_plan

text \<open>Phases the invariant says nothing of.\<close>

lemma keep_scheduling:
  assumes host: "h_send h = tc_send" and k: "kept m F i s" and st: "session s = (Scheduling, c)"
  shows "wp (safe F i) (scheduling_effect h (journal_input i)) (\<lambda>_. kept m F i) s"
  unfolding scheduling_effect_def journal_input_simps journal_effects_simps
  using keptD(1) [OF k st]
  by (intro wp_seq wp_call wp_send_break host free_send [where st = Scheduling and c = c])
    (simp_all add: free_def phase_sets st split: sum.split)

lemma keep_cancelling:
  assumes host: "h_send h = tc_send" and k: "kept m F i s" and st: "session s = (Cancelling, c)"
  shows "wp (safe F i) (cancelling_effect h (journal_input i)) (\<lambda>_. kept m F i) s"
  unfolding cancelling_effect_def journal_input_simps journal_effects_simps
  using keptD(1) [OF k st]
  by (intro wp_asks wp_seq wp_call wp_send_break host free_send [where st = Cancelling and c = c])
    (simp_all add: free_def phase_sets st split: sum.split)

lemma keep_persisting:
  assumes host: "h_send h = tc_send" and k: "kept m F i s" and st: "session s = (Persisting, c)"
  shows "wp (safe F i) (persisting_effect h (journal_input i)) (\<lambda>_. kept m F i) s"
  unfolding persisting_effect_def journal_input_simps journal_effects_simps
  using keptD(1) [OF k st]
  by (intro wp_asks wp_seq wp_assign wp_call wp_send_break host free_send [where st = Persisting and c = c])
    (simp_all add: free_def phase_sets st split: sum.split option.split)

lemma keep_retrying:
  assumes host: "h_send h = tc_send" and k: "kept m F i s" and st: "session s = (st, c)"
    and "phase_ok F i (fst (tc_send (st, c) RETRY_TIMER_ELAPSED)) (artifacts s) (held s)
      (authorization_held s) (snd (world s))"
  shows "wp (safe F i) (retrying_effect h (journal_input i)) (\<lambda>_. kept m F i) s"
  unfolding retrying_effect_def journal_input_simps
  using keptD(1) [OF k st] assms(4) st by (intro wp_send_break host) simp_all

lemma keep_waiting:
  assumes host: "h_send h = tc_send" and k: "kept m F i s" and st: "session s = (Waiting, c)"
  shows "wp (safe F i) (waiting_effect h (journal_input i) wake) (\<lambda>_. kept m F i) s"
proof -
  let ?a = "Some (freshArtifacts (run_cycleId i) (run_triggeredAt i))"
  have "phase_ok F i (fst (tc_send (session s) (ALARM_FIRED (run_cycleId i) (run_triggeredAt i)))) ?a
      (held s) (authorization_held s) (snd (world s))"
    by (simp add: st phase_ok_unordered alarm_after undecided_def freshArtifacts_def)
  then show ?thesis
    unfolding waiting_effect_def journal_input_simps using k keptD(1) [OF k st]
    by (intro wp_asks wp_if wp_seq wp_assign wp_pure
        wp_send [OF host, where R = "\<lambda>n. phase_ok F i (fst n) ?a (held s) (authorization_held s)
          (snd (world s))"]) (simp_all add: kept_def wp_def assign_def seq_def pure_def)
qed

subsection \<open>Phases before the decision\<close>

lemma observe_others [simp]:
  "world (observeAccount cf eq x u s) = world s" "artifacts (observeAccount cf eq x u s) = artifacts s"
  "held (observeAccount cf eq x u s) = held s"
  "authorization_held (observeAccount cf eq x u s) = authorization_held s"
  by (simp_all add: observeAccount_def anchorReconciledDailyRisk_def Let_def)

lemma observeConfirmed_others [simp]:
  "world (observeConfirmed cf p eq x u s) = world s"
  "artifacts (observeConfirmed cf p eq x u s) = artifacts s"
  "authorization_held (observeConfirmed cf p eq x u s) = authorization_held s"
  by (simp_all add: observeConfirmed_def Let_def split: option.split)

lemma keep_account:
  assumes host: "h_send h = tc_send" and k: "kept m F i s" and st: "session s = (ReconcilingAccount, c)"
  shows "wp (safe F i) (reconcilingAccount_effect h (journal_input i)) (\<lambda>_. kept m F i) s"
  unfolding reconcilingAccount_effect_def journal_input_simps journal_effects_simps
  using keptD(1,3) [OF k st]
  by (intro wp_asks wp_seq wp_call wp_sum wp_assign wp_send_break host
      deciding_send [where st = ReconcilingAccount and c = c]) (simp_all add: deciding_def st)

lemma undecided_current: "undecided i (artifacts s) \<Longrightarrow>
    undecided i (Some ((currentArtifacts (journal_input i) s)\<lparr>art_market := x\<rparr>))"
  "undecided i (artifacts s) \<Longrightarrow>
    undecided i (Some ((currentArtifacts (journal_input i) s)\<lparr>art_marketRetry := y\<rparr>))"
  by (cases "artifacts s"; simp add: undecided_def currentArtifacts_def freshArtifacts_def)+

lemma undecided_update:
  "undecided i (Some a) \<Longrightarrow> undecided i (Some (a\<lparr>art_indicators := x\<rparr>))"
  "undecided i (Some a) \<Longrightarrow> undecided i (Some (a\<lparr>art_signals := y\<rparr>))"
  "undecided i (Some a) \<Longrightarrow> undecided i (Some (a\<lparr>art_allocation := z\<rparr>))"
  "undecided i (Some a) \<Longrightarrow> undecided i (Some (a\<lparr>art_allocation := z, art_order := u\<rparr>))"
  by (simp_all add: undecided_def)

lemma keep_fetching:
  assumes host: "h_send h = tc_send" and k: "kept m F i s" and st: "session s = (FetchingMarketData, c)"
  shows "wp (safe F i) (fetchingMarketData_effect h (journal_input i)) (\<lambda>_. kept m F i) s"
  unfolding fetchingMarketData_effect_def journal_input_simps journal_effects_simps Let_def
  using keptD(1,3) [OF k st]
  by (intro wp_asks)
    (intro wp_seq wp_call wp_sum wp_if wp_send_break wp_checkpoint host
      deciding_send [where st = FetchingMarketData and c = c];
     simp add: deciding_def st undecided_current)

text \<open>\<open>kept\<close> is about six fields only.\<close>

lemma kept_cong:
  "kept m F i s \<Longrightarrow> session t = session s \<Longrightarrow> snd (world t) = snd (world s) \<Longrightarrow>
   artifacts t = artifacts s \<Longrightarrow> held t = held s \<Longrightarrow> authorization_held t = authorization_held s \<Longrightarrow>
   kept m F i t"
  by (simp add: kept_def)

lemma kept_undecided:
  assumes k: "kept m F i s" and st: "session s = (st, c)" and d: "st \<in> deciding"
    and a: "F \<longrightarrow> undecided i (artifacts t)" and t: "session t = session s" "snd (world t) = snd (world s)"
  shows "kept m F i t"
proof (rule keptI)
  show "phase_ok F i (fst (session t)) (artifacts t) (held t) (authorization_held t) (snd (world t))"
    using d a by (simp add: t(1) st phase_ok_unordered deciding_unordered)
qed (use keptD(1,2) [OF k st] t in simp_all)

lemma wp_planRetry:
  assumes host: "h_send h = tc_send" and k: "kept m F i s" and st: "session s = (RetryingMarketData, c)"
  shows "wp (safe F i) (planRetry h (journal_input i) t) (\<lambda>_. kept m F i) s"
proof -
  have return: "wp (safe F i) (pure Return) (\<lambda>_. kept m F i) u"
    if "F \<longrightarrow> undecided i (artifacts u)" "session u = session s" "snd (world u) = snd (world s)" for u
    using kept_undecided [OF k st] that by (intro wp_pure) (simp add: deciding_def)
  have schedule: "wp (safe F i) (case scheduleRetry (journal_effects (run_effects i)) of
      None \<Rightarrow> pure () | Some f \<Rightarrow> call (f x y)) (\<lambda>_. wp (safe F i) (pure Return) (\<lambda>_. kept m F i)) u"
    if "F \<longrightarrow> undecided i (artifacts u)" "session u = session s" "snd (world u) = snd (world s)" for u x y
    using that return keptD(1) [OF k st]
    by (cases "scheduleRetry (run_effects i)") (simp_all add: wp_pure wp_call)
  show ?thesis
    unfolding planRetry_def journal_input_simps journal_effects_simps(6) Let_def
    using keptD(1,3) [OF k st]
    by (intro wp_asks)
      (intro wp_plan wp_seq wp_call wp_sum wp_assign wp_send_break host return schedule
        deciding_send [where st = RetryingMarketData and c = c];
       simp add: deciding_def st undecided_current)
qed

lemma keep_retryingMarketData:
  assumes host: "h_send h = tc_send" and k: "kept m F i s" and st: "session s = (RetryingMarketData, c)"
  shows "wp (safe F i) (retryingMarketData_effect h (journal_input i)) (\<lambda>_. kept m F i) s"
  unfolding retryingMarketData_effect_def journal_input_simps Let_def
proof (intro wp_seq wp_call wp_asks wp_option wp_if wp_pure wp_planRetry wp_send_break host
    deciding_send [where st = RetryingMarketData and c = c])
qed (use keptD(1,3) [OF k st] k st in \<open>simp_all add: deciding_def kept_cong [OF k]\<close>)

lemma wp_funding:
  assumes "Q None s" "\<And>x w. Q x (s\<lparr>world := (w, snd (world s))\<rparr>)" "S (snd (world s))"
  shows "wp S (resolveFundingInput (journal_input i) cs) Q s"
proof (cases "fetchFundingData (run_effects i)")
  case None
  then show ?thesis using assms by (simp add: resolveFundingInput_def wp_pure)
next
  case (Some f)
  then show ?thesis
    unfolding resolveFundingInput_def journal_input_simps journal_effects_simps Let_def option.simps
    by (simp only: option.simps) (intro wp_if wp_pure wp_seq wp_call; simp add: assms)
qed

lemma keep_computing:
  assumes host: "h_send h = tc_send" and k: "kept m F i s" and st: "session s = (ComputingIndicators, c)"
  shows "wp (safe F i) (computingIndicators_effect h (journal_input i)) (\<lambda>_. kept m F i) s"
  unfolding computingIndicators_effect_def journal_input_simps Let_def
  using keptD(1,3) [OF k st]
  by (intro wp_asks wp_option wp_seq wp_funding wp_sum wp_send_break wp_checkpointed host
      deciding_send [where st = ComputingIndicators and c = c];
     simp add: deciding_def st undecided_update)

lemma keep_evaluating:
  assumes host: "h_send h = tc_send" and k: "kept m F i s" and st: "session s = (EvaluatingStrategies, c)"
  shows "wp (safe F i) (evaluatingStrategies_effect h (journal_input i) registry) (\<lambda>_. kept m F i) s"
  unfolding evaluatingStrategies_effect_def journal_input_simps Let_def case_prod_conv
  using keptD(1,3) [OF k st]
  by (intro wp_asks wp_option wp_sum wp_send_break wp_checkpointed host
      deciding_send [where st = EvaluatingStrategies and c = c];
     simp add: deciding_def st undecided_update)

lemma keep_allocating:
  assumes host: "h_send h = tc_send" and k: "kept m F i s" and st: "session s = (Allocating, c)"
  shows "wp (safe F i) (allocating_effect h (journal_input i)) (\<lambda>_. kept m F i) s"
  unfolding allocating_effect_def journal_input_simps Let_def case_prod_conv
  using keptD(1,3) [OF k st]
  by (intro wp_asks wp_option wp_send_break wp_checkpointed host
      deciding_send [where st = Allocating and c = c];
     simp add: deciding_def st undecided_update split: list.split)

subsection \<open>The decision and the order\<close>

lemma wp_admission:
  assumes "safe F i (snd (world s))"
    and Q: "\<And>w l b. (b \<Longrightarrow> \<forall>v. r = APPROVED v \<longrightarrow> proposePortfolioRisk (run_effects i) \<noteq> None \<longrightarrow>
        (case g of None \<Rightarrow> True | Some z \<Rightarrow> snd z) \<longrightarrow>
        Proposed (conf_productId (run_configuration i)) (projectedPositionNotional v) True \<in> set l) \<Longrightarrow>
        safe F i l \<Longrightarrow> Q b (s\<lparr>world := (w, l)\<rparr>)"
  shows "wp (safe F i) (portfolioAdmission (journal_input i) g r) Q s"
proof -
  have pure: "wp (safe F i) (pure True) Q s"
    if "\<forall>v. r = APPROVED v \<longrightarrow> proposePortfolioRisk (run_effects i) \<noteq> None \<longrightarrow>
      \<not> (case g of None \<Rightarrow> True | Some z \<Rightarrow> snd z)"
    using Q [of True "snd (world s)" "fst (world s)"] assms(1) that by (auto intro!: wp_pure)
  show ?thesis
  proof (cases "\<exists>v f. r = APPROVED v \<and> proposePortfolioRisk (run_effects i) = Some f")
    case True
    then obtain v f where v: "r = APPROVED v" "proposePortfolioRisk (run_effects i) = Some f" by blast
    show ?thesis
      unfolding portfolioAdmission_def v journal_input_simps journal_effects_simps
      by (simp only: prod.case option.simps RiskDecision.case)
        (intro wp_if wp_seq wp_call wp_pure pure Q; simp add: v assms)
  next
    case False
    then show ?thesis
      unfolding portfolioAdmission_def journal_input_simps journal_effects_simps
      by (cases r; cases "proposePortfolioRisk (run_effects i)") (simp_all add: pure)
  qed
qed

text \<open>What the check of an order gives.\<close>

lemma passedI:
  assumes "checkRisk order (riskSnapshot (journal_input i) s a order (close_price newest))
      (conf_risk (run_configuration i)) = Inr (APPROVED v)"
    and "art_triggeredAt a = run_triggeredAt i"
    and "proposePortfolioRisk (run_effects i) \<noteq> None \<longrightarrow>
        (case targetExposureGate (journal_input i) s a order of None \<Rightarrow> True | Some z \<Rightarrow> snd z) \<longrightarrow>
        Proposed (conf_productId (run_configuration i)) (projectedPositionNotional v) True \<in> set l"
  shows "passed i order v (close_price newest) (held s) l"
  unfolding passed_def
proof (intro conjI exI)
  show "checkRisk order (riskSnapshot (journal_input i) s a order (close_price newest))
      (conf_risk (run_configuration i)) = ok (APPROVED v)"
    using assms(1) by simp
  show "portfolio_asked i order \<longrightarrow>
      Proposed (conf_productId (run_configuration i)) (projectedPositionNotional v) True \<in> set l"
    using assms(3) by (auto simp: portfolio_asked_def targetExposureGate_def targetExposureRiskGate_def)
qed (simp_all add: riskSnapshot_def assms(2))

lemma keep_checking:
  assumes host: "h_send h = tc_send" and k: "kept m F i s" and st: "session s = (CheckingRisk, c)"
  shows "wp (safe F i) (checkingRisk_effect h (journal_input i)) (\<lambda>_. kept m F i) s"
proof -
  have approve: "phase_ok F i (fst (tc_send (CheckingRisk, c) (if is_approved r then RISK_APPROVED else RISK_REJECTED)))
      (Some (a\<lparr>art_risk := Some r\<rparr>)) (held s) k' l"
    if a: "artifacts s = Some a" "art_order a = Some order" "lastCandle a = Some newest"
      and r: "checkRisk order (riskSnapshot (journal_input i) s a order (close_price newest))
        (conf_risk (run_configuration i)) = Inr r"
      and p: "\<forall>v. r = APPROVED v \<longrightarrow> proposePortfolioRisk (run_effects i) \<noteq> None \<longrightarrow>
        (case targetExposureGate (journal_input i) s a order of None \<Rightarrow> True | Some z \<Rightarrow> snd z) \<longrightarrow>
        Proposed (conf_productId (run_configuration i)) (projectedPositionNotional v) True \<in> set l"
    for a order newest r k' l
  proof (cases r)
    case (REJECTED x)
    then show ?thesis by (simp add: is_approved_def phase_ok_free approved_after)
  next
    case (APPROVED v)
    have "approved i (Some (a\<lparr>art_risk := Some r\<rparr>)) (held s) l" if F
      using keptD(3) [OF k st] that a APPROVED r p
      by (auto simp: approved_def undecided_def deciding_def lastCandle_def intro!: passedI)
    then show ?thesis
      using approved_after(1) [of c] APPROVED
      by (auto simp: is_approved_def phase_ok_free) (simp add: phase_ok_def phase_sets)
  qed
  show ?thesis
    unfolding checkingRisk_effect_def journal_input_simps Let_def case_prod_conv
    using keptD(1,3) [OF k st]
    by (intro wp_asks)
      (intro wp_option wp_sum wp_seq wp_admission wp_if wp_send_break wp_checkpointed host;
       simp add: st approve phase_ok_free approved_after)
qed

lemma keep_intent:
  assumes host: "h_send h = tc_send" and k: "kept m F i s" and st: "session s = (PersistingOrderIntent, c)"
  shows "wp (safe F i) (persistingOrderIntent_effect h (journal_input i)) (\<lambda>_. kept m F i) s"
proof -
  have persisted: "phase_ok F i (fst (tc_send (PersistingOrderIntent, c)
      (case x of Inl e \<Rightarrow> ORDER_INTENT_FAILED e | Inr _ \<Rightarrow> ORDER_INTENT_PERSISTED (OrderIntent.clientOrderId order))))
      (Some a) (held s) k' (on_success (\<lambda>_. IntentPersisted (art_cycleId a) order) (Some x) @ snd (world s))"
    if a: "artifacts s = Some a" "art_order a = Some order" for a order k' x
  proof (cases x)
    case (Inl e)
    then show ?thesis by (simp add: phase_ok_free intent_after)
  next
    case (Inr u)
    have "intended (Some a) (IntentPersisted (art_cycleId a) order # snd (world s))"
      using a by (simp add: intended_def)
    then have "phase_ok F i Authorizing (Some a) (held s) k'
        (IntentPersisted (art_cycleId a) order # snd (world s))"
      using keptD(4) [OF k st] a by (intro phase_ok_order) (simp_all add: ordering_def approved_more)
    then show ?thesis
      using intent_after(1) [of c "OrderIntent.clientOrderId order"] Inr by (auto simp: phase_ok_free)
  qed
  show ?thesis
    unfolding persistingOrderIntent_effect_def journal_input_simps journal_effects_simps Let_def
    using keptD(1) [OF k st]
    by (intro wp_asks)
      (intro wp_option wp_seq wp_call wp_send_break host;
       simp add: st persisted phase_ok_free intent_after split: sum.split)
qed

lemma keep_authorizing:
  assumes host: "h_send h = tc_send" and k: "kept m F i s" and st: "session s = (Authorizing, c)"
  shows "wp (safe F i) (authorizing_effect h (journal_input i)) (\<lambda>_. kept m F i) s"
proof -
  have failed: "phase_ok F i (fst (tc_send (Authorizing, c) (AUTHORIZATION_FAILED e))) a (held s)
      k' (snd (world s))" if "artifacts s = a" for a e k'
    using keptD(4,5) [OF k st] that
    by (intro phase_ok_either [OF authorization_after(2)] phase_ok_order) (simp_all add: ordering_def)
  have ready: "phase_ok F i (fst (tc_send (Authorizing, c) (AUTHORIZATION_READY (auth_expiresAt v) (auth_issuedAt v))))
      (Some a) (held s) (Some v) (Authorized order v # snd (world s))"
    if a: "artifacts s = Some a" "art_order a = Some order" for a order v
  proof -
    have "F \<longrightarrow> approved i (Some a) (held s) (Authorized order v # snd (world s))"
      "F \<longrightarrow> intended (Some a) (Authorized order v # snd (world s))"
      using keptD(4,5) [OF k st] a by (simp_all add: ordering_def approved_more intended_more)
    moreover have "tokened (Some a) (Some v) (Authorized order v # snd (world s))"
      if "auth_issuedAt v < auth_expiresAt v" "auth_expiresAt v - auth_issuedAt v \<le> Fin 120000"
      using that a by (simp add: tokened_def usable_token_def)
    ultimately have "phase_ok F i n (Some a) (held s) (Some v) (Authorized order v # snd (world s))"
      if "n = SubmittingOrder \<and> auth_issuedAt v < auth_expiresAt v \<and>
          auth_expiresAt v - auth_issuedAt v \<le> Fin 120000 \<or> n = RetryingAuthorization" for n
      using that by (intro phase_ok_order) (auto simp: ordering_def)
    then show ?thesis
      using authorization_after(1) [of c "auth_expiresAt v" "auth_issuedAt v"]
      by (elim disjE) (simp_all add: phase_ok_free)
  qed
  show ?thesis
    unfolding authorizing_effect_def journal_input_simps journal_effects_simps Let_def
    using keptD(1) [OF k st]
    by (intro wp_asks)
      (intro wp_option wp_seq wp_call wp_sum wp_assign wp_send_break host;
       simp add: st ready failed)
qed

text \<open>After a submission only a rejection can lead back to an order.\<close>

lemma wp_settle:
  assumes host: "h_send h = tc_send" and safe: "safe F i (snd (world s))"
    and free: "\<And>e. free (fst (tc_send (session s) (onCheckpoint e)))"
      "\<And>x. free (fst (tc_send (session s) (onConfirmed x)))"
      "\<And>e. free (fst (tc_send (session s) (onUnknown e)))"
      "free (fst (tc_send (session s) ORDER_NO_LONGER_NEEDED))"
      "\<And>x e. free (fst (tc_send (session s) (ORDER_PROTECTION_FAILED x e)))"
    and rejected: "\<And>e. phase_ok F i (fst (tc_send (session s) (onRejected e))) (artifacts s) (held s)
      (authorization_held s) (snd (world s))"
  shows "wp (safe F i) (settleSubmission h (journal_input i) a onCheckpoint onConfirmed onRejected onUnknown r)
    (\<lambda>_. kept m F i) s"
  unfolding settleSubmission_def Let_def journal_input_simps
  by (cases r; simp only: OrderSubmission.case;
      (intro wp_seq wp_assign wp_send_break wp_checkpointed host;
       simp add: safe rejected phase_ok_free free))

lemma submission_free:
  "free (fst (tc_send (SubmittingOrder, c) (ORDER_OUTCOME_UNKNOWN e)))"
  "free (fst (tc_send (SubmittingOrder, c) (ORDER_CONFIRMED x)))"
  "free (fst (tc_send (SubmittingOrder, c) ORDER_NO_LONGER_NEEDED))"
  "free (fst (tc_send (SubmittingOrder, c) (ORDER_PROTECTION_FAILED y e)))"
  using submission_after [of "ORDER_OUTCOME_UNKNOWN e" c] submission_after [of "ORDER_CONFIRMED x" c]
    submission_after [of ORDER_NO_LONGER_NEEDED c] submission_after [of "ORDER_PROTECTION_FAILED y e" c]
  by simp_all

lemma keep_submitting:
  assumes host: "h_send h = tc_send" and k: "kept m F i s" and st: "session s = (SubmittingOrder, c)"
  shows "wp (safe F i) (submittingOrder_effect h (journal_input i)) (\<lambda>_. kept m F i) s"
proof -
  have safe: "safe F i (Submitted order v token (close_price newest) (held s) (art_triggeredAt a) # snd (world s))"
    if a: "artifacts s = Some a" "art_order a = Some order" "art_risk a = Some (APPROVED v)"
      "lastCandle a = Some newest" "authorization_held s = Some token" for a order v newest token
    using keptD [OF k st] a
    by (auto simp: safe_def ordering_def tokened_def approved_def intended_def)
  have rejected: "phase_ok F i (fst (tc_send (SubmittingOrder, c) (ORDER_REJECTED e))) (Some a) (held s) k'
      (x # snd (world s))" if "artifacts s = Some a" for a e k' x
  proof -
    have after: "fst (tc_send (SubmittingOrder, c) (ORDER_REJECTED e)) = RetryingExecution \<or>
        free (fst (tc_send (SubmittingOrder, c) (ORDER_REJECTED e)))"
      using submission_after [of "ORDER_REJECTED e" c] by simp
    show ?thesis
      using keptD(4,5) [OF k st] that
      by (intro phase_ok_either [OF after] phase_ok_order)
        (simp_all add: ordering_def approved_more intended_more)
  qed
  show ?thesis
    unfolding submittingOrder_effect_def journal_input_simps journal_effects_simps Let_def case_prod_conv
    using keptD(1) [OF k st]
    by (intro wp_asks)
      (intro wp_option wp_risk wp_seq wp_call wp_assign wp_settle wp_send_break host;
       simp add: st safe rejected phase_ok_free submission_free)
qed

lemma reconciliation_free:
  "phase_event ReconcilingOrder e \<Longrightarrow> free (fst (tc_send (ReconcilingOrder, c) e))"
  by (rule free_after) (simp_all add: free_def phase_sets)

lemma keep_reconciling:
  assumes host: "h_send h = tc_send" and k: "kept m F i s" and st: "session s = (ReconcilingOrder, c)"
  shows "wp (safe F i) (reconcilingOrder_effect h (journal_input i)) (\<lambda>_. kept m F i) s"
  unfolding reconcilingOrder_effect_def journal_input_simps journal_effects_simps Let_def case_prod_conv
  using keptD(1) [OF k st]
  by (intro wp_asks)
    (intro wp_option wp_risk wp_seq wp_call wp_sum wp_settle wp_send_break host;
     simp add: st phase_ok_free reconciliation_free)

lemma retry_ok:
  assumes k: "kept m F i s" and st: "session s = (st, c)" and "phase_event st RETRY_TIMER_ELAPSED"
  shows "phase_ok F i (fst (tc_send (st, c) RETRY_TIMER_ELAPSED)) (artifacts s) (held s)
    (authorization_held s) (snd (world s))"
proof -
  consider "free st" "st \<noteq> Waiting" | "st \<in> deciding" | "st = RetryingAuthorization" | "st = RetryingExecution"
    using assms(3) by (cases st) (simp_all add: free_def phase_sets)
  then show ?thesis
  proof cases
    case 1
    with assms(3) show ?thesis by (simp add: phase_ok_free free_after)
  next
    case 2
    with assms(3) keptD(3) [OF k st] show ?thesis by (intro phase_ok_unordered deciding_after) simp_all
  next
    case 3
    with keptD(4,5) [OF k st] show ?thesis
      by (simp only:) (intro phase_ok_either [OF retry_after(1)] phase_ok_order; simp add: ordering_def)
  next
    case 4
    with keptD(4,5) [OF k st] show ?thesis
      by (simp only:) (intro phase_ok_either [OF retry_after(2)] phase_ok_order; simp add: ordering_def)
  qed
qed

text \<open>One step of the loop.\<close>

lemma keep_step:
  assumes host: "h_send h = tc_send" and k: "kept m F i s" and st: "session s = (st, c)"
  shows "wp (safe F i) (phase_effect h (journal_input i) registry wake st) (\<lambda>_. kept m F i) s"
proof -
  note here = host k st
  have retry: "phase_event st RETRY_TIMER_ELAPSED \<Longrightarrow>
      wp (safe F i) (retrying_effect h (journal_input i)) (\<lambda>_. kept m F i) s"
    by (rule keep_retrying [OF here retry_ok [OF k st]])
  show ?thesis
    using retry keep_scheduling [OF host k] keep_cancelling [OF host k] keep_persisting [OF host k]
      keep_waiting [OF host k] keep_account [OF host k] keep_fetching [OF host k]
      keep_retryingMarketData [OF host k] keep_computing [OF host k] keep_evaluating [OF host k]
      keep_allocating [OF host k] keep_checking [OF host k] keep_intent [OF host k]
      keep_authorizing [OF host k] keep_submitting [OF host k] keep_reconciling [OF host k] wp_pure st k
    by (cases st) simp_all
qed

subsection \<open>A whole run\<close>

lemma keep_loop:
  assumes host: "h_send h = tc_send"
  shows "kept m F i s \<Longrightarrow> wp (safe F i) (interpreter_loop h (journal_input i) registry wake n)
    (\<lambda>r t. safe F i (snd (world t)) \<and> res_machine r = last_persisted m (snd (world t))) s"
proof (induction n arbitrary: s)
  case 0
  then show ?case by (simp add: wp_def throw_def kept_def Let_def)
next
  case (Suc n)
  obtain st c where st: "session s = (st, c)" by fastforce
  have "wp (safe F i) (interpreter_step h (journal_input i) registry wake) (\<lambda>_. kept m F i) s"
    unfolding interpreter_step_def using keep_step [OF host Suc.prems st]
    by (intro wp_asks) (simp add: st)
  moreover have "wp (safe F i) (case k of Return \<Rightarrow> asks (\<lambda>s. pure (currentResult s))
      | Break \<Rightarrow> interpreter_loop h (journal_input i) registry wake n)
      (\<lambda>r t. safe F i (snd (world t)) \<and> res_machine r = last_persisted m (snd (world t))) t" if "kept m F i t" for k t
  proof (cases k)
    case Break
    with Suc.IH [OF that] show ?thesis by simp
  next
    case Return
    with that show ?thesis by (simp add: wp_def asks_def pure_def currentResult_def kept_def Let_def)
  qed
  ultimately show ?case
    by (simp add: wp_seq wp_cong)
qed

lemma keep_initial:
  assumes "machine_host h" "F \<Longrightarrow> fst (run_machine i) = Waiting"
  shows "kept (createTradingMachineSession h (run_machine i)) F i (initial_interp h (journal_input i) (w, []))"
proof -
  have "F \<longrightarrow> free (fst (createTradingMachineSession h (run_machine i)))"
    using assms by (auto simp: createTradingMachineSession_def machine_hostD [OF assms(1)] free_def phase_sets)
  then show ?thesis
    unfolding kept_def Let_def
    by (cases F) (auto simp: initial_interp_def safe_def phase_ok_free, simp add: phase_ok_def tokened_def)
qed

lemma run_kept:
  assumes host: "machine_host h" and F: "F \<Longrightarrow> fst (run_machine i) = Waiting"
    and run: "runTradingCycle h (journal_input i) (w, []) = (r, (w', l))"
  shows "safe F i l" "r = Some x \<Longrightarrow> res_machine x = last_persisted (createTradingMachineSession h (run_machine i)) l"
proof -
  have "safe F i l \<and> (\<forall>x. r = Some x \<longrightarrow>
      res_machine x = last_persisted (createTradingMachineSession h (run_machine i)) l)"
  proof (cases "createConfiguredStrategyRegistry h (run_configuration i)")
    case None
    with run show ?thesis by (simp add: runTradingCycle_def safe_def)
  next
    case (Some registry)
    show ?thesis
      using run Some keep_loop [OF machine_hostD(1) [OF host] keep_initial [OF host, of F i w],
          of registry "wake_triggerAlarm (planCycleWake (fst (run_machine i)) (run_triggerAlarm i))"
            MAX_INTERPRETER_STEPS] F
      by (auto simp: runTradingCycle_def wp_def Let_def split: prod.splits option.splits)
  qed
  then show "safe F i l" "r = Some x \<Longrightarrow>
      res_machine x = last_persisted (createTradingMachineSession h (run_machine i)) l" by simp_all
qed

lemma journal_safe:
  assumes "machine_host h" "F \<Longrightarrow> fst (run_machine i) = Waiting"
  shows "safe F i (journal_of h i w)"
  using run_kept(1) [OF assms] by (metis journal_of_def prod.collapse)

end
