(* ===== verification/JournalFaithful.thy ===== *)
theory JournalFaithful
  imports InterpreterSafety
begin

text \<open>
  The journal changes nothing: a run with it answers and leaves the world as the run without it.
\<close>

definition beside :: "'w interp \<Rightarrow> journal \<Rightarrow> ('w \<times> journal) interp" where
  "beside s l =
     \<lparr>session = session s, artifacts = artifacts s, previousIndicators = previousIndicators s,
      held = held s, authorization_held = authorization_held s, alarmTriggered = alarmTriggered s,
      dailyRiskWindow = dailyRiskWindow s, pnl = pnl s, accountEquity = accountEquity s,
      otherExposure = otherExposure s, world = (world s, l)\<rparr>"

lemma beside_simps [simp]:
  "session (beside s l) = session s" "artifacts (beside s l) = artifacts s"
  "previousIndicators (beside s l) = previousIndicators s" "held (beside s l) = held s"
  "authorization_held (beside s l) = authorization_held s"
  "alarmTriggered (beside s l) = alarmTriggered s" "dailyRiskWindow (beside s l) = dailyRiskWindow s"
  "pnl (beside s l) = pnl s" "accountEquity (beside s l) = accountEquity s"
  "otherExposure (beside s l) = otherExposure s" "world (beside s l) = (world s, l)"
  by (simp_all add: beside_def)

text \<open>An action with the journal that answers and acts as one without.\<close>

definition mirrors :: "('w, 'a) act \<Rightarrow> ('w \<times> journal, 'a) act \<Rightarrow> bool" where
  "mirrors m m' \<longleftrightarrow> (\<forall>s l. \<exists>l'. m' (beside s l) = (fst (m s), beside (snd (m s)) l'))"

lemma mirrors_pure: "mirrors (pure x) (pure x)"
  by (auto simp: mirrors_def pure_def)

lemma mirrors_throw: "mirrors throw throw"
  by (auto simp: mirrors_def throw_def)

lemma mirrors_call: "mirrors (call f) (call (journaled f k))"
  by (auto simp: mirrors_def call_def journaled_def beside_def split: prod.split)

lemma mirrors_assign: "(\<And>s l. g' (beside s l) = beside (g s) l) \<Longrightarrow> mirrors (assign g) (assign g')"
  by (auto simp: mirrors_def assign_def)

lemma mirrors_asks: "(\<And>s l. mirrors (f s) (f' (beside s l))) \<Longrightarrow> mirrors (asks f) (asks f')"
  by (auto simp: mirrors_def asks_def)

lemma mirrors_seq:
  assumes "mirrors m m'" "\<And>x. mirrors (f x) (f' x)"
  shows "mirrors (seq m f) (seq m' f')"
  unfolding mirrors_def
proof (intro allI)
  fix s l
  obtain l' where m: "m' (beside s l) = (fst (m s), beside (snd (m s)) l')"
    using assms(1) unfolding mirrors_def by blast
  show "\<exists>l'. seq m' f' (beside s l) = (fst (seq m f s), beside (snd (seq m f s)) l')"
  proof (cases "fst (m s)")
    case None
    with m show ?thesis by (auto simp: seq_def split: prod.split)
  next
    case (Some x)
    obtain l'' where "f' x (beside (snd (m s)) l') = (fst (f x (snd (m s))), beside (snd (f x (snd (m s)))) l'')"
      using assms(2) [of x] unfolding mirrors_def by blast
    with m Some show ?thesis by (auto simp: seq_def split: prod.split)
  qed
qed

lemma mirrors_if: "mirrors m m' \<Longrightarrow> mirrors n n' \<Longrightarrow> mirrors (if b then m else n) (if b then m' else n')"
  by simp

lemma mirrors_sum: "(\<And>e. mirrors (f e) (f' e)) \<Longrightarrow> (\<And>v. mirrors (g v) (g' v)) \<Longrightarrow>
    mirrors (case r of Inl e \<Rightarrow> f e | Inr v \<Rightarrow> g v) (case r of Inl e \<Rightarrow> f' e | Inr v \<Rightarrow> g' v)"
  by (cases r) simp_all

lemma mirrors_option: "mirrors m m' \<Longrightarrow> (\<And>v. mirrors (g v) (g' v)) \<Longrightarrow>
    mirrors (case r of None \<Rightarrow> m | Some v \<Rightarrow> g v) (case r of None \<Rightarrow> m' | Some v \<Rightarrow> g' v)"
  by (cases r) simp_all

lemma mirrors_map_option: "mirrors m m' \<Longrightarrow> (\<And>v. mirrors (g v) (g' (f v))) \<Longrightarrow>
    mirrors (case r of None \<Rightarrow> m | Some v \<Rightarrow> g v) (case map_option f r of None \<Rightarrow> m' | Some v \<Rightarrow> g' v)"
  by (cases r) simp_all

lemma mirrors_risk: "(\<And>v. mirrors (f v) (f' v)) \<Longrightarrow> (\<And>v. mirrors (g v) (g' v)) \<Longrightarrow>
    mirrors (case r of APPROVED v \<Rightarrow> f v | REJECTED v \<Rightarrow> g v)
      (case r of APPROVED v \<Rightarrow> f' v | REJECTED v \<Rightarrow> g' v)"
  by (cases r) simp_all

lemma mirrors_plan: "(\<And>a b c. mirrors (f a b c) (f' a b c)) \<Longrightarrow> (\<And>a b. mirrors (g a b) (g' a b)) \<Longrightarrow>
    mirrors (case r of RetryAt a b c \<Rightarrow> f a b c | RetryExhausted a b \<Rightarrow> g a b)
      (case r of RetryAt a b c \<Rightarrow> f' a b c | RetryExhausted a b \<Rightarrow> g' a b)"
  by (cases r) simp_all

lemmas mirror_rules = mirrors_seq mirrors_asks mirrors_pure mirrors_call mirrors_assign mirrors_if
  mirrors_sum mirrors_risk mirrors_plan

text \<open>What the phases read.\<close>

lemma journal_input_reads [simp]:
  "currentArtifacts (journal_input i) (beside s l) = currentArtifacts i s"
  "triggered (journal_input i) (beside s l) = triggered i s"
  "marketRetryPlan (journal_input i) (beside s l) t = marketRetryPlan i s t"
  "allocation h (journal_input i) (beside s l) a sigs px = allocation h i s a sigs px"
  "targetExposureGate (journal_input i) (beside s l) a order = targetExposureGate i s a order"
  "riskSnapshot (journal_input i) (beside s l) a order px = riskSnapshot i s a order px"
  unfolding currentArtifacts_def triggered_def marketRetryPlan_def allocation_def
    targetExposureAllocation_def allocationInput_def targetExposureGate_def riskSnapshot_def
    journal_input_simps beside_simps
  by (rule refl)+

lemma beside_updates:
  "beside (s\<lparr>session := m\<rparr>) l = (beside s l)\<lparr>session := m\<rparr>"
  "beside (s\<lparr>artifacts := a\<rparr>) l = (beside s l)\<lparr>artifacts := a\<rparr>"
  "beside (s\<lparr>held := p\<rparr>) l = (beside s l)\<lparr>held := p\<rparr>"
  "beside (s\<lparr>authorization_held := k\<rparr>) l = (beside s l)\<lparr>authorization_held := k\<rparr>"
  "beside (s\<lparr>alarmTriggered := b\<rparr>) l = (beside s l)\<lparr>alarmTriggered := b\<rparr>"
  "beside (s\<lparr>previousIndicators := v\<rparr>) l = (beside s l)\<lparr>previousIndicators := v\<rparr>"
  "beside (observeAccount cf eq x u s) l = observeAccount cf eq x u (beside s l)"
  "beside (observeConfirmed cf q eq' x' u' s) l = observeConfirmed cf q eq' x' u' (beside s l)"
  by (simp_all add: beside_def observeConfirmed_def observeAccount_def anchorReconciledDailyRisk_def Let_def
      split: option.split)

lemma mirrors_send:
  "mirrors (send_event h E e) (send_event h (journal_effects E) e)"
  "mirrors (andBreak (send_event h E e)) (andBreak (send_event h (journal_effects E) e))"
  unfolding andBreak_def send_event_def journal_effects_simps
  by (intro mirror_rules; simp add: beside_updates mirrors_call)+

lemma mirrors_checkpoint:
  "mirrors (checkpoint_artifacts h E a f) (checkpoint_artifacts h (journal_effects E) a f)"
  "mirrors (checkpointed h E a f (send_event h E e))
     (checkpointed h (journal_effects E) a f (send_event h (journal_effects E) e))"
  unfolding checkpointed_def checkpoint_artifacts_def journal_effects_simps
  by (intro mirror_rules mirrors_send; simp add: beside_updates)+

lemma mirrors_settle:
  "mirrors (settleSubmission h i a p q r' u r) (settleSubmission h (journal_input i) a p q r' u r)"
  unfolding settleSubmission_def Let_def journal_input_simps
  by (cases r; simp only: OrderSubmission.case;
      (intro mirror_rules mirrors_send mirrors_checkpoint; simp add: beside_updates))

lemmas journal_reads = journal_input_simps journal_effects_simps journal_input_reads beside_simps

lemma mirrors_planRetry: "mirrors (planRetry h i t) (planRetry h (journal_input i) t)"
  unfolding planRetry_def Let_def
  by (intro mirrors_asks, simp only: journal_reads)
    (intro mirror_rules mirrors_map_option mirrors_send; simp add: beside_updates)

lemma mirrors_funding: "mirrors (resolveFundingInput i cs) (resolveFundingInput (journal_input i) cs)"
  unfolding resolveFundingInput_def Let_def journal_reads
  by (intro mirror_rules mirrors_map_option)

lemma mirrors_admission: "mirrors (portfolioAdmission i g r) (portfolioAdmission (journal_input i) g r)"
proof (cases r)
  case (APPROVED v)
  then show ?thesis
    by (cases "proposePortfolioRisk (run_effects i)")
      (simp_all add: portfolioAdmission_def mirrors_pure mirrors_seq [OF mirrors_call])
qed (simp add: portfolioAdmission_def mirrors_pure)

lemmas mirror_phases = mirror_rules mirrors_send mirrors_checkpoint mirrors_settle mirrors_planRetry
  mirrors_funding mirrors_admission mirrors_map_option mirrors_option

lemma mirrors_waiting: "mirrors (waiting_effect h i b) (waiting_effect h (journal_input i) b)"
  unfolding waiting_effect_def journal_input_simps
  by (intro mirrors_asks, simp only: journal_reads) (intro mirror_phases; simp add: beside_updates)

lemma mirrors_marketRetry:
  "mirrors (retryingMarketData_effect h i) (retryingMarketData_effect h (journal_input i))"
  unfolding retryingMarketData_effect_def Let_def journal_input_simps
  by (intro mirrors_seq mirrors_call mirrors_asks, simp only: journal_reads)
    (intro mirror_phases; simp)

lemma mirrors_account:
  "mirrors (reconcilingAccount_effect h i) (reconcilingAccount_effect h (journal_input i))"
  unfolding reconcilingAccount_effect_def
  by (intro mirrors_asks, simp only: journal_reads) (intro mirror_phases; simp add: beside_updates)

lemma mirrors_fetching:
  "mirrors (fetchingMarketData_effect h i) (fetchingMarketData_effect h (journal_input i))"
  unfolding fetchingMarketData_effect_def Let_def
  by (intro mirrors_asks, simp only: journal_reads) (intro mirror_phases; simp add: beside_updates)

lemma mirrors_computing:
  "mirrors (computingIndicators_effect h i) (computingIndicators_effect h (journal_input i))"
  unfolding computingIndicators_effect_def Let_def
  by (intro mirrors_asks, simp only: journal_reads) (intro mirror_phases; simp add: beside_updates)

lemma mirrors_evaluating:
  "mirrors (evaluatingStrategies_effect h i registry) (evaluatingStrategies_effect h (journal_input i) registry)"
  unfolding evaluatingStrategies_effect_def Let_def case_prod_conv
  by (intro mirrors_asks, simp only: journal_reads) (intro mirror_phases; simp add: beside_updates)

lemma mirrors_allocating: "mirrors (allocating_effect h i) (allocating_effect h (journal_input i))"
  unfolding allocating_effect_def Let_def case_prod_conv
  by (intro mirrors_asks, simp only: journal_reads) (intro mirror_phases; simp add: beside_updates)

lemma mirrors_checking: "mirrors (checkingRisk_effect h i) (checkingRisk_effect h (journal_input i))"
  unfolding checkingRisk_effect_def Let_def case_prod_conv
  by (intro mirrors_asks, simp only: journal_reads) (intro mirror_phases; simp add: beside_updates)

lemma mirrors_intent:
  "mirrors (persistingOrderIntent_effect h i) (persistingOrderIntent_effect h (journal_input i))"
  unfolding persistingOrderIntent_effect_def Let_def
  by (intro mirrors_asks, simp only: journal_reads) (intro mirror_phases; simp add: beside_updates)

lemma mirrors_authorizing: "mirrors (authorizing_effect h i) (authorizing_effect h (journal_input i))"
  unfolding authorizing_effect_def Let_def
  by (intro mirrors_asks, simp only: journal_reads) (intro mirror_phases; simp add: beside_updates)

lemma mirrors_submitting: "mirrors (submittingOrder_effect h i) (submittingOrder_effect h (journal_input i))"
  unfolding submittingOrder_effect_def Let_def case_prod_conv
  by (intro mirrors_asks, simp only: journal_reads) (intro mirror_phases; simp add: beside_updates)

lemma mirrors_reconciling:
  "mirrors (reconcilingOrder_effect h i) (reconcilingOrder_effect h (journal_input i))"
  unfolding reconcilingOrder_effect_def Let_def case_prod_conv
  by (intro mirrors_asks, simp only: journal_reads) (intro mirror_phases; simp add: beside_updates)

lemma mirrors_others:
  "mirrors (scheduling_effect h i) (scheduling_effect h (journal_input i))"
  "mirrors (retrying_effect h i) (retrying_effect h (journal_input i))"
  "mirrors (cancelling_effect h i) (cancelling_effect h (journal_input i))"
  "mirrors (persisting_effect h i) (persisting_effect h (journal_input i))"
  unfolding scheduling_effect_def retrying_effect_def cancelling_effect_def persisting_effect_def
    journal_input_simps journal_effects_simps
  by (intro mirror_phases; simp add: journal_reads mirrors_call beside_updates split: option.split)+

lemma mirrors_step:
  "mirrors (phase_effect h i registry wake st) (phase_effect h (journal_input i) registry wake st)"
  by (cases st) (simp_all add: mirrors_waiting mirrors_marketRetry mirrors_account mirrors_fetching
      mirrors_computing mirrors_evaluating mirrors_allocating mirrors_checking mirrors_intent
      mirrors_authorizing mirrors_submitting mirrors_reconciling mirrors_others mirrors_pure)

lemma mirrors_control: "mirrors m m' \<Longrightarrow> mirrors n n' \<Longrightarrow>
    mirrors (case k of Return \<Rightarrow> m | Break \<Rightarrow> n) (case k of Return \<Rightarrow> m' | Break \<Rightarrow> n')"
  by (cases k) simp_all

lemma mirrors_loop:
  "mirrors (interpreter_loop h i registry wake n) (interpreter_loop h (journal_input i) registry wake n)"
proof (induction n)
  case 0
  show ?case by (simp add: mirrors_throw)
next
  case (Suc n)
  show ?case
    unfolding interpreter_loop.simps interpreter_step_def
    by (intro mirrors_seq mirrors_control mirrors_asks Suc.IH)
      (simp_all add: mirrors_step currentResult_def mirrors_pure)
qed

lemma beside_initial: "initial_interp h (journal_input i) (w, l) = beside (initial_interp h i w) l"
  by (simp add: initial_interp_def beside_def journal_input_def)

text \<open>What the journal of a run shows is what the run without it does.\<close>

lemma journal_changes_nothing:
  "\<exists>l'. runTradingCycle h (journal_input i) (w, l) =
     (fst (runTradingCycle h i w), (snd (runTradingCycle h i w), l'))"
proof (cases "createConfiguredStrategyRegistry h (run_configuration i)")
  case None
  then show ?thesis by (simp add: runTradingCycle_def)
next
  case (Some registry)
  let ?loop = "\<lambda>j. interpreter_loop h j registry
    (wake_triggerAlarm (planCycleWake (fst (run_machine i)) (run_triggerAlarm i))) MAX_INTERPRETER_STEPS"
  obtain r t where run: "?loop i (initial_interp h i w) = (r, t)" by fastforce
  obtain l' where "interpreter_loop h (journal_input i) registry
      (wake_triggerAlarm (planCycleWake (fst (run_machine i)) (run_triggerAlarm i))) MAX_INTERPRETER_STEPS
      (beside (initial_interp h i w) l) = (r, beside t l')"
    using mirrors_loop [of h i registry "wake_triggerAlarm (planCycleWake (fst (run_machine i)) (run_triggerAlarm i))"
        MAX_INTERPRETER_STEPS] run unfolding mirrors_def by (metis fst_conv snd_conv)
  then show ?thesis
    using run Some by (auto simp: runTradingCycle_def beside_initial Let_def)
qed

end
