(* ===== verification/RegimeFilter.thy ===== *)
theory RegimeFilter
  imports Workflow Statechart
begin

text \<open>
  The regime filter: the policies and the classification of
  \<^verbatim>\<open>models/regime-filter.ts\<close>, the types of \<^verbatim>\<open>models/regime-filter.types.ts\<close> and the
  machine of \<^verbatim>\<open>models/regime-filter.machine.ts\<close>, with the hysteresis it is built for.
\<close>

subsection \<open>Types\<close>

datatype RegimeFilterPolicy =
  EMA_THRESHOLD (thresholdBps: number) (bearishThresholdBps: "number option")
    (minObservations: number) (confirmationCount: number)
| EMA_SLOPE (slopeThresholdBps: number) (slopePeriods: number)
    (minObservations: number) (confirmationCount: number)

record RegimeObservation =
  start :: number
  emaFast :: number
  emaSlow :: number

datatype RegimeFilterErrorCode = INVALID_REGIME_POLICY | INVALID_REGIME_OBSERVATION

datatype RegimeFilterStopReason = OPERATOR_STOP | SESSION_END

text \<open>A list that is absent (or not an array) is \<open>None\<close>.\<close>

type_synonym RegimePermissions = "RegimeKind \<Rightarrow> string list option"

record RegimeFilterContext =
  policy :: RegimeFilterPolicy
  regime :: "RegimeKind option"
  observationCount :: nat
  pendingKind :: "RegimeKind option"
  pendingCount :: nat
  opposingKind :: "RegimeKind option"
  opposingCount :: nat
  lastObservationStart :: "number option"
  emaSlowHistory :: "number list"
  lastError :: "RegimeFilterErrorCode option"
  stopReason :: "RegimeFilterStopReason option"

datatype RegimeFilterEvent =
  CANDLE_CLOSED RegimeObservation
| STOP_REQUESTED RegimeFilterStopReason

subsection \<open>Validation, classification, permissions\<close>

definition DEFAULT_REGIME_PERMISSIONS :: RegimePermissions where
  "DEFAULT_REGIME_PERMISSIONS k =
     (case k of BULLISH \<Rightarrow> Some [''ema-cross'', ''breakout'']
      | BEARISH \<Rightarrow> Some [''rsi-reversion''] | RANGE \<Rightarrow> Some [''rsi-reversion''])"

definition hasValidSharedFields :: "RegimeFilterPolicy \<Rightarrow> bool" where
  "hasValidSharedFields p \<longleftrightarrow>
     isInteger (minObservations p) \<and> Fin 1 \<le> minObservations p \<and>
     isInteger (confirmationCount p) \<and> Fin 1 \<le> confirmationCount p"

definition isValidBps :: "number \<Rightarrow> bool" where
  "isValidBps v \<longleftrightarrow> isFinite v \<and> Fin 0 < v \<and> v < Fin 10000"

definition isValidRegimeFilterPolicy :: "RegimeFilterPolicy \<Rightarrow> bool" where
  "isValidRegimeFilterPolicy p \<longleftrightarrow>
     hasValidSharedFields p \<and>
     (case p of
        EMA_THRESHOLD t b _ _ \<Rightarrow>
          isValidBps t \<and> (case b of None \<Rightarrow> True | Some x \<Rightarrow> isValidBps x)
      | EMA_SLOPE t n _ _ \<Rightarrow> isValidBps t \<and> isInteger n \<and> Fin 1 \<le> n)"

definition isValidRegimeObservation :: "RegimeObservation \<Rightarrow> number option \<Rightarrow> bool" where
  "isValidRegimeObservation ob lst \<longleftrightarrow>
     isSafeInteger (start ob) \<and> Fin 0 < start ob \<and>
     (case lst of None \<Rightarrow> True | Some l \<Rightarrow> l < start ob) \<and>
     isFinite (emaFast ob) \<and> Fin 0 < emaFast ob \<and>
     isFinite (emaSlow ob) \<and> Fin 0 < emaSlow ob"

text \<open>\<open>REGIME_KINDS\<close>; \<open>indexOf(id) === index\<close> is a first occurrence.\<close>

definition REGIME_KINDS :: "RegimeKind list" where
  "REGIME_KINDS = [BULLISH, BEARISH, RANGE]"

fun index_of :: "'a \<Rightarrow> 'a list \<Rightarrow> nat option" where
  "index_of x [] = None"
| "index_of x (y # ys) = (if x = y then Some 0 else map_option Suc (index_of x ys))"

definition isValidRegimePermissions :: "RegimePermissions \<Rightarrow> bool" where
  "isValidRegimePermissions v \<longleftrightarrow>
     list_all (\<lambda>k. v k \<noteq> None) REGIME_KINDS \<and>
     list_all (\<lambda>k. case v k of None \<Rightarrow> False
       | Some ids \<Rightarrow> list_all (\<lambda>(i, x). non_blank x \<and> index_of x ids = Some i)
           (List.enumerate 0 ids)) REGIME_KINDS"

definition classifyRegimeObservation :: "RegimeFilterPolicy \<Rightarrow> RegimeObservation
    \<Rightarrow> number list \<Rightarrow> RegimeKind option" where
  "classifyRegimeObservation p ob history =
     (case p of
        EMA_THRESHOLD t b _ _ \<Rightarrow>
          (let threshold = Fin 1 + t / Fin 10000;
               bearThreshold = Fin 1 + (case b of None \<Rightarrow> t | Some x \<Rightarrow> x) / Fin 10000
           in if emaSlow ob * threshold < emaFast ob then Some BULLISH
              else if emaFast ob < emaSlow ob * (Fin 2 - bearThreshold) then Some BEARISH
              else Some RANGE)
      | EMA_SLOPE t n _ _ \<Rightarrow>
          if Fin (of_nat (length history)) < n then None
          else (case history of
              [] \<Rightarrow> None
            | reference # _ \<Rightarrow>
                if reference \<le> Fin 0 then None
                else
                  let slopeBps = (emaSlow ob / reference - Fin 1) * Fin 10000;
                      epsilon = fl (1 / 1000000)
                  in if t + epsilon < slopeBps then Some BULLISH
                     else if slopeBps < - (t + epsilon) then Some BEARISH
                     else Some RANGE))"

definition resolveRegimePermission :: "RegimeKind \<Rightarrow> string \<Rightarrow> RegimePermissions
    \<Rightarrow> (bool, RegimeFilterErrorCode) result" where
  "resolveRegimePermission k strategyId perms =
     (case perms k of None \<Rightarrow> err INVALID_REGIME_POLICY | Some ids \<Rightarrow> ok (strategyId \<in> set ids))"

subsection \<open>The machine\<close>

definition rawKind :: "RegimeFilterContext \<Rightarrow> RegimeFilterEvent \<Rightarrow> RegimeKind option" where
  "rawKind c e =
     (case e of
        CANDLE_CLOSED ob \<Rightarrow>
          if isValidRegimeObservation ob (lastObservationStart c)
          then classifyRegimeObservation (policy c) ob (emaSlowHistory c) else None
      | _ \<Rightarrow> None)"

definition historyCap :: "RegimeFilterPolicy \<Rightarrow> number" where
  "historyCap p = (case p of EMA_SLOPE _ n _ _ \<Rightarrow> n | _ \<Rightarrow> Fin 0)"

text \<open>\<open>Array.prototype.slice\<close> with one argument.\<close>

definition js_slice :: "number \<Rightarrow> 'a list \<Rightarrow> 'a list" where
  "js_slice x xs =
     (case x of
        Fin r \<Rightarrow>
          if r < 0 then drop (nat (int (length xs) + \<lceil>r\<rceil>)) xs else drop (nat \<lfloor>r\<rfloor>) xs
      | PosInf \<Rightarrow> [] | NegInf \<Rightarrow> xs | NaN \<Rightarrow> xs)"

definition appendedHistory :: "RegimeFilterContext \<Rightarrow> RegimeFilterEvent \<Rightarrow> number list" where
  "appendedHistory c e =
     (case e of
        CANDLE_CLOSED ob \<Rightarrow>
          if num_eq (historyCap (policy c)) (Fin 0) then emaSlowHistory c
          else js_slice (- historyCap (policy c)) (emaSlowHistory c @ [emaSlow ob])
      | _ \<Rightarrow> emaSlowHistory c)"

definition pendingStreak :: "RegimeFilterContext \<Rightarrow> RegimeKind \<Rightarrow> nat" where
  "pendingStreak c raw = (if pendingKind c = Some raw then pendingCount c + 1 else 1)"

definition warmedUp :: "RegimeFilterContext \<Rightarrow> RegimeKind \<Rightarrow> bool" where
  "warmedUp c raw \<longleftrightarrow>
     minObservations (policy c) \<le> Fin (of_nat (observationCount c + 1)) \<and>
     confirmationCount (policy c) \<le> Fin (of_nat (pendingStreak c raw))"

definition opposingStreak :: "RegimeFilterContext \<Rightarrow> RegimeKind \<Rightarrow> nat" where
  "opposingStreak c raw = (if opposingKind c = Some raw then opposingCount c + 1 else 1)"

definition isSwitchConfirmed :: "RegimeFilterContext \<Rightarrow> RegimeKind option \<Rightarrow> bool" where
  "isSwitchConfirmed c raw =
     (case raw of None \<Rightarrow> False
      | Some k \<Rightarrow> raw \<noteq> regime c \<and> confirmationCount (policy c) \<le> Fin (of_nat (opposingStreak c k)))"

type_synonym guard = "RegimeFilterContext \<Rightarrow> RegimeFilterEvent \<Rightarrow> bool"
type_synonym action = "RegimeFilterContext \<Rightarrow> RegimeFilterEvent \<Rightarrow> RegimeFilterContext"

definition validPolicy :: "RegimeFilterContext \<Rightarrow> bool" where
  "validPolicy c = isValidRegimeFilterPolicy (policy c)"

definition observationValid :: guard where
  "observationValid c e =
     (case e of CANDLE_CLOSED ob \<Rightarrow> isValidRegimeObservation ob (lastObservationStart c)
      | _ \<Rightarrow> False)"

definition observationInvalid :: guard where
  "observationInvalid c e =
     (case e of CANDLE_CLOSED ob \<Rightarrow> \<not> isValidRegimeObservation ob (lastObservationStart c)
      | _ \<Rightarrow> True)"

definition warming :: "RegimeKind \<Rightarrow> guard" where
  "warming k c e \<longleftrightarrow> rawKind c e = Some k \<and> warmedUp c k"

definition switchTo :: "RegimeKind \<Rightarrow> guard" where
  "switchTo k c e \<longleftrightarrow> isSwitchConfirmed c (rawKind c e) \<and> rawKind c e = Some k"

definition recordInvalidPolicy :: "RegimeFilterContext \<Rightarrow> RegimeFilterContext" where
  "recordInvalidPolicy c = c\<lparr>lastError := Some INVALID_REGIME_POLICY\<rparr>"

definition recordInvalidObservation :: action where
  "recordInvalidObservation c e = c\<lparr>lastError := Some INVALID_REGIME_OBSERVATION\<rparr>"

text \<open>The \<open>base\<close> of the three recording actions.\<close>

definition recordBase :: "RegimeFilterContext \<Rightarrow> RegimeObservation \<Rightarrow> RegimeFilterContext" where
  "recordBase c ob =
     c\<lparr>observationCount := observationCount c + 1, lastObservationStart := Some (start ob),
       emaSlowHistory := appendedHistory c (CANDLE_CLOSED ob)\<rparr>"

definition recordWarmingObservation :: action where
  "recordWarmingObservation c e =
     (case e of
        CANDLE_CLOSED ob \<Rightarrow>
          (case rawKind c e of
             None \<Rightarrow> recordBase c ob
           | Some raw \<Rightarrow>
               (recordBase c ob)\<lparr>pendingKind := Some raw, pendingCount := pendingStreak c raw\<rparr>)
      | _ \<Rightarrow> c)"

definition recordRegimeObservation :: action where
  "recordRegimeObservation c e =
     (case e of
        CANDLE_CLOSED ob \<Rightarrow>
          if regime c = None then c
          else (case rawKind c e of
              None \<Rightarrow> recordBase c ob
            | Some raw \<Rightarrow>
                if Some raw = regime c
                then (recordBase c ob)\<lparr>opposingKind := None, opposingCount := 0\<rparr>
                else (recordBase c ob)
                  \<lparr>opposingKind := Some raw, opposingCount := opposingStreak c raw\<rparr>)
      | _ \<Rightarrow> c)"

definition recordRegimeEntry :: action where
  "recordRegimeEntry c e =
     (case e of
        CANDLE_CLOSED ob \<Rightarrow>
          (case rawKind c e of
             None \<Rightarrow> recordBase c ob
           | Some raw \<Rightarrow>
               (recordBase c ob)\<lparr>regime := Some raw, pendingKind := None, pendingCount := 0,
                 opposingKind := None, opposingCount := 0\<rparr>)
      | _ \<Rightarrow> c)"

definition recordStop :: action where
  "recordStop c e = (case e of STOP_REQUESTED r \<Rightarrow> c\<lparr>stopReason := Some r\<rparr> | _ \<Rightarrow> c)"

datatype regimeState =
  Idle | WarmingUp | RegimeBullish | RegimeBearish | RegimeRange | Stopped | Failed

type_synonym rows =
  "RegimeFilterEvent \<Rightarrow> (regimeState, RegimeFilterEvent, RegimeFilterContext) transition list"

definition warmingUp_rows :: rows where
  "warmingUp_rows e =
     (case e of
        CANDLE_CLOSED _ \<Rightarrow>
          [goto_if observationInvalid Failed [recordInvalidObservation],
           goto_if (warming BULLISH) RegimeBullish [recordRegimeEntry],
           goto_if (warming BEARISH) RegimeBearish [recordRegimeEntry],
           goto_if (warming RANGE) RegimeRange [recordRegimeEntry],
           stay_if observationValid [recordWarmingObservation],
           goto Failed [recordInvalidObservation]]
      | STOP_REQUESTED _ \<Rightarrow> [goto Stopped [recordStop]])"

definition regimeBullish_rows :: rows where
  "regimeBullish_rows e =
     (case e of
        CANDLE_CLOSED _ \<Rightarrow>
          [goto_if observationInvalid Failed [recordInvalidObservation],
           goto_if (switchTo BEARISH) RegimeBearish [recordRegimeEntry],
           goto_if (switchTo RANGE) RegimeRange [recordRegimeEntry],
           stay_if observationValid [recordRegimeObservation],
           goto Failed [recordInvalidObservation]]
      | STOP_REQUESTED _ \<Rightarrow> [goto Stopped [recordStop]])"

definition regimeBearish_rows :: rows where
  "regimeBearish_rows e =
     (case e of
        CANDLE_CLOSED _ \<Rightarrow>
          [goto_if observationInvalid Failed [recordInvalidObservation],
           goto_if (switchTo BULLISH) RegimeBullish [recordRegimeEntry],
           goto_if (switchTo RANGE) RegimeRange [recordRegimeEntry],
           stay_if observationValid [recordRegimeObservation],
           goto Failed [recordInvalidObservation]]
      | STOP_REQUESTED _ \<Rightarrow> [goto Stopped [recordStop]])"

definition regimeRange_rows :: rows where
  "regimeRange_rows e =
     (case e of
        CANDLE_CLOSED _ \<Rightarrow>
          [goto_if observationInvalid Failed [recordInvalidObservation],
           goto_if (switchTo BULLISH) RegimeBullish [recordRegimeEntry],
           goto_if (switchTo BEARISH) RegimeBearish [recordRegimeEntry],
           stay_if observationValid [recordRegimeObservation],
           goto Failed [recordInvalidObservation]]
      | STOP_REQUESTED _ \<Rightarrow> [goto Stopped [recordStop]])"

primrec regimeFilter_on :: "regimeState \<Rightarrow> rows" where
  "regimeFilter_on Idle = (\<lambda>_. [])"
| "regimeFilter_on WarmingUp = warmingUp_rows"
| "regimeFilter_on RegimeBullish = regimeBullish_rows"
| "regimeFilter_on RegimeBearish = regimeBearish_rows"
| "regimeFilter_on RegimeRange = regimeRange_rows"
| "regimeFilter_on Stopped = (\<lambda>_. [])"
| "regimeFilter_on Failed = (\<lambda>_. [])"

definition regimeFilter_always :: "regimeState
    \<Rightarrow> (regimeState, RegimeFilterContext) eventless list" where
  "regimeFilter_always st =
     (case st of
        Idle \<Rightarrow> [Always validPolicy WarmingUp [], Always (\<lambda>_. True) Failed [recordInvalidPolicy]]
      | _ \<Rightarrow> [])"

definition regimeFilter_entry :: "regimeState
    \<Rightarrow> (RegimeFilterContext \<Rightarrow> RegimeFilterContext) list" where
  "regimeFilter_entry st =
     (case st of
        RegimeBullish \<Rightarrow> [\<lambda>c. c\<lparr>regime := Some BULLISH\<rparr>]
      | RegimeBearish \<Rightarrow> [\<lambda>c. c\<lparr>regime := Some BEARISH\<rparr>]
      | RegimeRange \<Rightarrow> [\<lambda>c. c\<lparr>regime := Some RANGE\<rparr>]
      | _ \<Rightarrow> [])"

definition regimeFilterMachine ::
    "(regimeState, RegimeFilterEvent, RegimeFilterContext) machine" where
  "regimeFilterMachine =
     \<lparr>m_initial = Idle, m_on = regimeFilter_on, m_outer = (\<lambda>_ _. []),
      m_always = regimeFilter_always, m_entry = regimeFilter_entry,
      m_final = (\<lambda>st. st \<in> {Stopped, Failed})\<rparr>"

definition regimeFilter_context :: "RegimeFilterPolicy \<Rightarrow> RegimeFilterContext" where
  "regimeFilter_context p =
     \<lparr>policy = p, regime = None, observationCount = 0, pendingKind = None, pendingCount = 0,
      opposingKind = None, opposingCount = 0, lastObservationStart = None,
      emaSlowHistory = [], lastError = None, stopReason = None\<rparr>"

lemma rf_machine_simps [simp]:
  "m_initial regimeFilterMachine = Idle" "m_on regimeFilterMachine = regimeFilter_on"
  "m_outer regimeFilterMachine = (\<lambda>_ _. [])"
  "m_always regimeFilterMachine = regimeFilter_always"
  "m_entry regimeFilterMachine = regimeFilter_entry"
  "m_final regimeFilterMachine st \<longleftrightarrow> st \<in> {Stopped, Failed}"
  by (simp_all add: regimeFilterMachine_def)

lemmas rf_rows [machine_simps] =
  warmingUp_rows_def regimeBullish_rows_def regimeBearish_rows_def regimeRange_rows_def
  regimeFilter_always_def regimeFilter_entry_def

lemmas rf_actions [machine_simps] =
  recordInvalidPolicy_def recordInvalidObservation_def recordBase_def
  recordWarmingObservation_def recordRegimeObservation_def recordRegimeEntry_def recordStop_def

lemmas rf_guards [guard_simps] =
  validPolicy_def observationValid_def observationInvalid_def warming_def switchTo_def

interpretation rf: shallow_machine regimeFilterMachine
proof
  fix s :: "(regimeState, RegimeFilterContext) snapshot" and t
  assume "eselect regimeFilterMachine s = Some t"
  then show "eselect regimeFilterMachine (estep regimeFilterMachine s t) = None"
    by (cases "fst s")
       (auto simp: eselect_def estep_def enter_def regimeFilter_always_def split: if_splits)
qed

interpretation rf_actor: xstate_actor regimeFilterMachine
  "sc_start regimeFilterMachine" "sc_send regimeFilterMachine"
  by unfold_locales (rule rf.runtime_sc)

end
