(* ===== verification/RegimeFilterProps.thy ===== *)
theory RegimeFilterProps
  imports RegimeFilter
begin

text \<open>
  The regime filter against its specification: hysteresis as a function of the sequence of
  classifications, saturation of the slope history, and the sign of a classification.
\<close>

type_synonym rf_snapshot = "(regimeState, RegimeFilterContext) snapshot"

abbreviation rf_send :: "rf_snapshot \<Rightarrow> RegimeFilterEvent \<Rightarrow> rf_snapshot" where
  "rf_send \<equiv> sc_send regimeFilterMachine"

subsection \<open>The specification of the hysteresis\<close>

text \<open>
  A history of classifications, the newest first; \<open>None\<close> is an observation that could not
  be classified yet.  A regime is entered after \<open>m\<close> observations and left for another when
  the last \<open>n\<close> effective classifications agree on it.
\<close>

definition effective :: "RegimeKind option list \<Rightarrow> RegimeKind list" where
  "effective h = List.map_filter id h"

definition steady :: "nat \<Rightarrow> RegimeKind \<Rightarrow> RegimeKind option list \<Rightarrow> bool" where
  "steady n k h \<longleftrightarrow> take n (effective h) = replicate n k"

fun debounce :: "nat \<Rightarrow> nat \<Rightarrow> RegimeKind option list \<Rightarrow> RegimeKind option" where
  "debounce m n [] = None"
| "debounce m n (None # h) = debounce m n h"
| "debounce m n (Some k # h) =
     (case debounce m n h of
        None \<Rightarrow> if m \<le> length (Some k # h) \<and> steady n k (Some k # h) then Some k else None
      | Some r \<Rightarrow> if k \<noteq> r \<and> steady n k (Some k # h) then Some k else Some r)"

definition regime_state :: "RegimeKind option \<Rightarrow> regimeState" where
  "regime_state r =
     (case r of None \<Rightarrow> WarmingUp | Some BULLISH \<Rightarrow> RegimeBullish
      | Some BEARISH \<Rightarrow> RegimeBearish | Some RANGE \<Rightarrow> RegimeRange)"

text \<open>The classifications of a run, kept beside the snapshot.\<close>

definition raw_send :: "(rf_snapshot \<Rightarrow> RegimeFilterEvent \<Rightarrow> rf_snapshot)
    \<Rightarrow> rf_snapshot \<times> RegimeKind option list \<Rightarrow> RegimeFilterEvent
    \<Rightarrow> rf_snapshot \<times> RegimeKind option list" where
  "raw_send send p e =
     (send (fst p) e,
      case e of CANDLE_CLOSED _ \<Rightarrow> rawKind (snd (fst p)) e # snd p | _ \<Rightarrow> snd p)"

definition leading :: "RegimeKind \<Rightarrow> RegimeKind option list \<Rightarrow> nat" where
  "leading k h = length (takeWhile ((=) k) (effective h))"

lemma leading_simps [simp]:
  "leading k [] = 0" "leading k (None # h) = leading k h"
  "leading k (Some j # h) = (if j = k then Suc (leading k h) else 0)"
  by (simp_all add: leading_def effective_def)

lemma take_replicate_iff: "take n xs = replicate n x \<longleftrightarrow> n \<le> length (takeWhile ((=) x) xs)"
proof (induction xs arbitrary: n)
  case (Cons y ys)
  then show ?case by (cases n) auto
qed simp

lemma steady_iff: "steady n k h \<longleftrightarrow> n \<le> leading k h"
  by (simp add: steady_def leading_def take_replicate_iff)

definition rf_follows :: "RegimeFilterPolicy \<Rightarrow> nat \<Rightarrow> nat
    \<Rightarrow> rf_snapshot \<times> RegimeKind option list \<Rightarrow> bool" where
  "rf_follows P m n p \<longleftrightarrow>
     (case p of ((st, c), h) \<Rightarrow>
       policy c = P \<and>
       (st \<in> {Stopped, Failed} \<or>
        observationCount c = length h \<and> regime c = debounce m n h \<and>
        st = regime_state (regime c) \<and>
        (regime c = None \<longrightarrow>
          (\<forall>k. (if pendingKind c = Some k then pendingCount c else 0) = leading k h)) \<and>
        (\<forall>r. regime c = Some r \<longrightarrow>
          (\<forall>k. k \<noteq> r \<longrightarrow> (if opposingKind c = Some k then opposingCount c else 0) = leading k h))))"

lemma regime_state_simps [simp]:
  "regime_state None = WarmingUp" "regime_state (Some BULLISH) = RegimeBullish"
  "regime_state (Some BEARISH) = RegimeBearish" "regime_state (Some RANGE) = RegimeRange"
  "Idle \<noteq> regime_state r" "regime_state r \<noteq> Idle"
  "regime_state r \<noteq> Stopped" "regime_state r \<noteq> Failed"
  "Stopped \<noteq> regime_state r" "Failed \<noteq> regime_state r"
  by (simp_all add: regime_state_def split: option.splits RegimeKind.splits)

text \<open>What an observation does, in one equation per kind of state.\<close>

lemma rf_send_warming:
  "rf_send (WarmingUp, c) (CANDLE_CLOSED ob) =
     (if \<not> isValidRegimeObservation ob (lastObservationStart c)
      then (Failed, c\<lparr>lastError := Some INVALID_REGIME_OBSERVATION\<rparr>)
      else case rawKind c (CANDLE_CLOSED ob) of
          None \<Rightarrow> (WarmingUp, recordBase c ob)
        | Some k \<Rightarrow>
            if warmedUp c k
            then (regime_state (Some k), (recordBase c ob)\<lparr>regime := Some k, pendingKind := None,
              pendingCount := 0, opposingKind := None, opposingCount := 0\<rparr>)
            else (WarmingUp, (recordBase c ob)
              \<lparr>pendingKind := Some k, pendingCount := pendingStreak c k\<rparr>))"
  by (cases "rawKind c (CANDLE_CLOSED ob)"; cases "the (rawKind c (CANDLE_CLOSED ob))")
     (simp_all add: chart_eval rf_rows rf_guards rf_actions)

lemma rf_send_regime:
  assumes "regime c = Some r"
  shows "rf_send (regime_state (Some r), c) (CANDLE_CLOSED ob) =
     (if \<not> isValidRegimeObservation ob (lastObservationStart c)
      then (Failed, c\<lparr>lastError := Some INVALID_REGIME_OBSERVATION\<rparr>)
      else case rawKind c (CANDLE_CLOSED ob) of
          None \<Rightarrow> (regime_state (Some r), recordBase c ob)
        | Some k \<Rightarrow>
            if k = r
            then (regime_state (Some r), (recordBase c ob)\<lparr>opposingKind := None, opposingCount := 0\<rparr>)
            else if confirmationCount (policy c) \<le> Fin (of_nat (opposingStreak c k))
            then (regime_state (Some k), (recordBase c ob)\<lparr>regime := Some k, pendingKind := None,
              pendingCount := 0, opposingKind := None, opposingCount := 0\<rparr>)
            else (regime_state (Some r), (recordBase c ob)
              \<lparr>opposingKind := Some k, opposingCount := opposingStreak c k\<rparr>))"
  using assms by (cases r; cases "rawKind c (CANDLE_CLOSED ob)"; cases "the (rawKind c (CANDLE_CLOSED ob))")
    (simp_all add: chart_eval rf_rows rf_guards rf_actions isSwitchConfirmed_def)

lemma recordBase_simps [simp]:
  "policy (recordBase c ob) = policy c" "regime (recordBase c ob) = regime c"
  "observationCount (recordBase c ob) = Suc (observationCount c)"
  "pendingKind (recordBase c ob) = pendingKind c" "pendingCount (recordBase c ob) = pendingCount c"
  "opposingKind (recordBase c ob) = opposingKind c"
  "opposingCount (recordBase c ob) = opposingCount c"
  "lastObservationStart (recordBase c ob) = Some (start ob)"
  "emaSlowHistory (recordBase c ob) = appendedHistory c (CANDLE_CLOSED ob)"
  by (simp_all add: recordBase_def)

lemma rf_follows_send:
  assumes "rf_follows P m n ((st, c), h)"
    and P: "minObservations P = Fin (of_nat m)" "confirmationCount P = Fin (of_nat n)"
  shows "rf_follows P m n (raw_send rf_send ((st, c), h) e)"
proof (cases "st \<in> {Stopped, Failed}")
  case True
  with assms(1) show ?thesis
    by (auto simp: rf_follows_def raw_send_def chart_eval)
next
  case live: False
  with assms(1) have c: "policy c = P" "observationCount c = length h" "regime c = debounce m n h"
    "st = regime_state (regime c)"
    and pend: "\<And>k. regime c = None \<Longrightarrow>
      (if pendingKind c = Some k then pendingCount c else 0) = leading k h"
    and opp: "\<And>k r. regime c = Some r \<Longrightarrow> k \<noteq> r \<Longrightarrow>
      (if opposingKind c = Some k then opposingCount c else 0) = leading k h"
    by (auto simp: rf_follows_def)
  show ?thesis
  proof (cases e)
    case (STOP_REQUESTED r)
    with live assms c show ?thesis
      by (cases st) (simp_all add: rf_follows_def raw_send_def chart_eval rf_rows rf_actions)
  next
    case (CANDLE_CLOSED ob)
    show ?thesis
    proof (cases "regime c")
      case None
      have "pendingStreak c k = Suc (leading k h)" for k
        using pend [OF None, of k] by (auto simp: pendingStreak_def)
      moreover have "pendingKind c = Some k \<Longrightarrow> pendingCount c = leading k h"
        and "pendingKind c \<noteq> Some k \<Longrightarrow> leading k h = 0" for k
        using pend [OF None, of k] by simp_all
      ultimately show ?thesis
        using None c P by (simp add: CANDLE_CLOSED raw_send_def rf_send_warming rf_follows_def
          steady_iff warmedUp_def split: option.splits)
    next
      case (Some r)
      have "opposingStreak c k = Suc (leading k h)" if "k \<noteq> r" for k
        using opp [OF Some that] by (auto simp: opposingStreak_def)
      moreover have "opposingKind c = Some k \<Longrightarrow> k \<noteq> r \<Longrightarrow> opposingCount c = leading k h"
        and "opposingKind c \<noteq> Some k \<Longrightarrow> k \<noteq> r \<Longrightarrow> leading k h = 0" for k
        using opp [OF Some, of k] by simp_all
      ultimately show ?thesis
        using Some c P by (simp add: CANDLE_CLOSED raw_send_def rf_send_regime
          rf_follows_def steady_iff split: option.splits)
    qed
  qed
qed

subsection \<open>The slope history\<close>

definition rf_history :: "RegimeFilterPolicy \<Rightarrow> nat \<Rightarrow> rf_snapshot \<Rightarrow> bool" where
  "rf_history P q s \<longleftrightarrow>
     (case s of (st, c) \<Rightarrow>
       policy c = P \<and> (st \<in> {Stopped, Failed} \<or> st = regime_state (regime c)) \<and>
       (\<forall>x\<in>set (emaSlowHistory c). Fin 0 < x) \<and> length (emaSlowHistory c) \<le> q \<and>
       (regime c \<noteq> None \<longrightarrow> length (emaSlowHistory c) = q))"

lemma appendedHistory_slope:
  assumes "slopePeriods (policy c) = Fin (of_nat q)" "0 < q" "policy c = EMA_SLOPE t n k j"
  shows "appendedHistory c (CANDLE_CLOSED ob) =
    drop (Suc (length (emaSlowHistory c)) - q) (emaSlowHistory c @ [emaSlow ob])"
proof -
  have "\<lceil>- rat_of_nat q\<rceil> = - int q"
    using ceiling_of_int [of "- int q", where 'a = rat] by simp
  moreover have "nat (1 + int (length (emaSlowHistory c)) - int q) =
      Suc (length (emaSlowHistory c)) - q"
    by simp
  ultimately show ?thesis
    using assms by (simp add: appendedHistory_def historyCap_def js_slice_def)
qed

lemma rawKind_slope:
  assumes "policy c = EMA_SLOPE t (Fin (of_nat q)) k j" "0 < q"
    and "\<forall>x\<in>set (emaSlowHistory c). Fin 0 < x"
    and "isValidRegimeObservation ob (lastObservationStart c)"
  shows "rawKind c (CANDLE_CLOSED ob) = None \<longleftrightarrow> length (emaSlowHistory c) < q"
proof (cases "emaSlowHistory c")
  case (Cons x xs)
  then have "\<not> x \<le> Fin 0"
    using assms(3) by (cases x) auto
  with Cons assms show ?thesis
    by (simp add: rawKind_def classifyRegimeObservation_def Let_def)
qed (use assms in \<open>simp add: rawKind_def classifyRegimeObservation_def\<close>)

lemma rf_history_send:
  assumes inv: "rf_history P q (st, c)" and P: "P = EMA_SLOPE t (Fin (of_nat q)) k j" "0 < q"
  shows "rf_history P q (rf_send (st, c) e)"
proof (cases "st \<in> {Stopped, Failed}")
  case True
  with inv show ?thesis
    by (auto simp: chart_eval)
next
  case live: False
  with inv have c: "policy c = P" "st = regime_state (regime c)"
    "\<forall>x\<in>set (emaSlowHistory c). Fin 0 < x" "length (emaSlowHistory c) \<le> q"
    "regime c \<noteq> None \<Longrightarrow> length (emaSlowHistory c) = q"
    by (auto simp: rf_history_def)
  show ?thesis
  proof (cases e)
    case (STOP_REQUESTED r)
    with live inv show ?thesis
      by (cases st) (simp_all add: rf_history_def chart_eval rf_rows rf_actions)
  next
    case (CANDLE_CLOSED ob)
    have hist: "appendedHistory c (CANDLE_CLOSED ob) =
        drop (Suc (length (emaSlowHistory c)) - q) (emaSlowHistory c @ [emaSlow ob])"
      by (rule appendedHistory_slope) (use c P in simp_all)
    have len: "length (appendedHistory c (CANDLE_CLOSED ob)) = min q (Suc (length (emaSlowHistory c)))"
      by (simp add: hist)
    have pos: "x \<in> set (appendedHistory c (CANDLE_CLOSED ob)) \<Longrightarrow> Fin 0 < x"
      if "isValidRegimeObservation ob (lastObservationStart c)" for x
      using in_set_dropD [of x] c(3) that by (fastforce simp: hist isValidRegimeObservation_def)
    note raw = rawKind_slope [OF _ P(2) c(3), of t k j ob]
    show ?thesis
    proof (cases "regime c")
      case None
      then show ?thesis
        using inv c(1,2,4) P raw len pos
        by (auto simp: CANDLE_CLOSED rf_send_warming rf_history_def min_def split: option.splits)
    next
      case (Some r)
      then show ?thesis
        using inv c P raw len pos
        by (auto simp: CANDLE_CLOSED rf_send_regime rf_history_def min_def split: option.splits)
    qed
  qed
qed

subsection \<open>The sign of a rounded comparison\<close>

lemma minus_one_sign:
  "Fin 0 < x - Fin 1 \<Longrightarrow> Fin 1 < x" "x - Fin 1 < Fin 0 \<Longrightarrow> x < Fin 1"
proof -
  show "Fin 1 < x" if "Fin 0 < x - Fin 1"
  proof (cases x)
    case (Fin r)
    with that fl_nonpos [of "r - 1"] show ?thesis
      by (cases "r \<le> 1"; cases "fl (r - 1)") (auto simp: minus_number_def)
  qed (use that in \<open>simp_all add: minus_number_def\<close>)
  show "x < Fin 1" if "x - Fin 1 < Fin 0"
  proof (cases x)
    case (Fin r)
    with that fl_nonneg [of "r - 1"] show ?thesis
      by (cases "1 \<le> r"; cases "fl (r - 1)") (auto simp: minus_number_def)
  qed (use that in \<open>simp_all add: minus_number_def\<close>)
qed

lemma times_bps_sign:
  "Fin 0 < x * Fin 10000 \<Longrightarrow> Fin 0 < x" "x * Fin 10000 < Fin 0 \<Longrightarrow> x < Fin 0"
proof -
  show "Fin 0 < x" if "Fin 0 < x * Fin 10000"
  proof (cases x)
    case (Fin r)
    with that fl_nonpos [of "r * 10000"] show ?thesis
      by (cases "r \<le> 0"; cases "fl (r * 10000)") auto
  qed (use that in \<open>simp_all add: inf_of_def\<close>)
  show "x < Fin 0" if "x * Fin 10000 < Fin 0"
  proof (cases x)
    case (Fin r)
    with that fl_nonneg [of "r * 10000"] show ?thesis
      by (cases "0 \<le> r"; cases "fl (r * 10000)") auto
  qed (use that in \<open>simp_all add: inf_of_def\<close>)
qed

lemma divide_sign:
  "Fin 1 < Fin a / x \<Longrightarrow> Fin 0 < x \<Longrightarrow> x < Fin a"
  "y / x < Fin 1 \<Longrightarrow> Fin 0 < x \<Longrightarrow> x \<noteq> PosInf \<Longrightarrow> y < x"
proof -
  show "x < Fin a" if "Fin 1 < Fin a / x" "Fin 0 < x"
  proof (cases x)
    case (Fin b)
    with that fl_le_representable [of 1 "a / b"] show ?thesis
      by (cases "a \<le> b"; cases "fl (a / b)") auto
  qed (use that in simp_all)
  show "y < x" if "y / x < Fin 1" "Fin 0 < x" "x \<noteq> PosInf"
  proof (cases x)
    case (Fin b)
    show ?thesis
    proof (cases y)
      case y: (Fin a)
      with Fin that fl_ge_representable [of 1 "a / b"] show ?thesis
        by (cases "b \<le> a"; cases "fl (a / b)") auto
    qed (use Fin that in \<open>simp_all add: inf_of_def\<close>)
  qed (use that in simp_all)
qed

lemma classify_slope_sign:
  assumes "isValidBps t" "isFinite (emaSlow ob)" "Fin 0 < emaSlow ob" "h = r # rs" "Fin 0 < r"
  shows "t + fl (1 / 1000000) < (emaSlow ob / r - Fin 1) * Fin 10000 \<Longrightarrow> r < emaSlow ob"
    "(emaSlow ob / r - Fin 1) * Fin 10000 < - (t + fl (1 / 1000000)) \<Longrightarrow> emaSlow ob < r"
proof -
  let ?e = "t + fl (1 / 1000000)" and ?x = "(emaSlow ob / r - Fin 1) * Fin 10000"
  have "Fin 0 \<le> fl (1 / 1000000)"
    by (simp add: fl_nonneg)
  then have e: "Fin 0 \<le> ?e"
    using assms(1) by (cases t; cases "fl (1 / 1000000)")
      (auto simp: isValidBps_def intro: fl_nonneg)
  obtain a where a: "emaSlow ob = Fin a"
    using assms(2) by (rule isFiniteE)
  show "r < emaSlow ob" if "?e < ?x"
    unfolding a
  proof (rule divide_sign(1) [OF minus_one_sign(1) [OF times_bps_sign(1)]])
    show "Fin 0 < (Fin a / r - Fin 1) * Fin 10000"
      using number_le_lt_trans [OF e that] by (simp only: a)
  qed (rule assms(5))
  have "- ?e \<le> - Fin 0"
    using e by (simp only: number_uminus_le)
  then have "- ?e \<le> Fin 0"
    by simp
  show "emaSlow ob < r" if "?x < - ?e"
  proof (cases "r = PosInf")
    case False
    have "?x < Fin 0"
      using that \<open>- ?e \<le> Fin 0\<close> by (rule number_lt_le_trans)
    then have "emaSlow ob / r < Fin 1"
      by (rule minus_one_sign(2) [OF times_bps_sign(2)])
    then show ?thesis
      using assms(5) False by (rule divide_sign)
  qed (simp add: a)
qed

subsection \<open>Runs\<close>

lemma rf_runtime:
  assumes "xstate_runtime regimeFilterMachine init send"
  shows "init = sc_start regimeFilterMachine" "send = rf_send"
  using assms by (simp_all add: rf.runtime_iff)

lemma rf_boot:
  "isValidRegimeFilterPolicy P \<Longrightarrow>
     sc_start regimeFilterMachine (regimeFilter_context P) = (WarmingUp, regimeFilter_context P)"
  by (simp add: chart_eval rf_rows validPolicy_def regimeFilter_context_def)

lemma rf_play_follows:
  assumes "minObservations P = Fin (of_nat m)" "confirmationCount P = Fin (of_nat n)"
  shows "rf_follows P m n (play (raw_send rf_send) ((WarmingUp, regimeFilter_context P), []) es)"
proof (rule foldl_invariant)
  show "rf_follows P m n ((WarmingUp, regimeFilter_context P), [])"
    by (simp add: rf_follows_def regimeFilter_context_def)
qed (use rf_follows_send [OF _ assms] in \<open>auto simp del: split_paired_All\<close>)

lemma rf_play_history:
  assumes "P = EMA_SLOPE t (Fin (of_nat q)) k j" "0 < q"
  shows "rf_history P q (play rf_send (WarmingUp, regimeFilter_context P) es)"
proof (rule foldl_invariant)
  show "rf_history P q (WarmingUp, regimeFilter_context P)"
    by (simp add: rf_history_def regimeFilter_context_def)
qed (use rf_history_send [OF _ assms] in \<open>auto simp del: split_paired_All\<close>)

subsection \<open>Properties\<close>

definition sample_policy :: RegimeFilterPolicy where
  "sample_policy = EMA_THRESHOLD (Fin 625) None (Fin 2) (Fin 2)"

definition sample_slope :: RegimeFilterPolicy where
  "sample_slope = EMA_SLOPE (Fin 100) (Fin 1) (Fin 1) (Fin 1)"

definition sample_candle :: "rat \<Rightarrow> rat \<Rightarrow> rat \<Rightarrow> RegimeFilterEvent" where
  "sample_candle t f s = CANDLE_CLOSED \<lparr>start = Fin t, emaFast = Fin f, emaSlow = Fin s\<rparr>"

definition sample_observations :: "RegimeFilterEvent list" where
  "sample_observations =
     [sample_candle 1 120 100, sample_candle 2 120 100, sample_candle 3 64 128,
      sample_candle 4 64 128]"

lemma sample_numbers:
  "fl (1 / 16) = Fin (1 / 16)" "fl (17 / 16) = Fin (17 / 16)" "fl (15 / 16) = Fin (15 / 16)"
  using fl_frac [of 1 4] fl_frac [of 17 4] fl_frac [of 15 4] by simp_all

lemma sample_epsilon: "Fin 100 + fl (1 / 1000000) < Fin 625"
proof -
  obtain x where x: "fl (1 / 1000000) = Fin x" "x \<le> 1"
    using fl_le_representable [of 1 "1 / 1000000"] fl_nonneg [of "1 / 1000000"]
    by (cases "fl (1 / 1000000)") simp_all
  then have "fl (100 + x) \<le> Fin 101"
    by (intro fl_le_representable) simp_all
  then have "fl (100 + x) < Fin 625"
    by (rule number_le_lt_trans) simp
  then show ?thesis
    by (simp add: x)
qed

lemmas sample_rf = sample_policy_def sample_slope_def sample_candle_def sample_observations_def

lemmas rf_eval = chart_eval rf_rows rf_guards rf_actions rawKind_def classifyRegimeObservation_def
  isValidRegimeObservation_def isSafeInteger_def warmedUp_def pendingStreak_def
  isSwitchConfirmed_def opposingStreak_def appendedHistory_def historyCap_def js_slice_def
  regimeFilter_context_def isValidRegimeFilterPolicy_def hasValidSharedFields_def
  isValidBps_def isInteger_def Let_def number_diff_Fin
  sample_numbers sample_epsilon ceiling_minus

text \<open>C27: the filter implements its hysteresis specification.  In every run that is neither
  stopped nor failed, the regime, and the state of the machine, are the specified function of
  the classifications seen so far: entered after \<open>m\<close> observations, changed only when the last
  \<open>n\<close> effective classifications agree.\<close>

theorem regime_follows_debounce:
  assumes "xstate_runtime regimeFilterMachine init send"
    and "isValidRegimeFilterPolicy P"
    and "minObservations P = Fin (of_nat m)" "confirmationCount P = Fin (of_nat n)"
    and "play (raw_send send) (init (regimeFilter_context P), []) es = ((st, c), h)"
    and "st \<notin> {Stopped, Failed}"
  shows "regime c = debounce m n h \<and> st = regime_state (debounce m n h) \<and>
    observationCount c = length h"
  using rf_play_follows [OF assms(3,4), of es] assms(5,6)
  by (simp add: rf_runtime [OF assms(1)] rf_boot [OF assms(2)] rf_follows_def)

theorem regime_follows_debounce_witness:
  "\<exists>st c h. play (raw_send rf_send)
       (sc_start regimeFilterMachine (regimeFilter_context sample_policy), []) sample_observations
       = ((st, c), h) \<and> regime c = debounce 2 2 h"
proof -
  obtain st c h where p: "play (raw_send rf_send)
      (sc_start regimeFilterMachine (regimeFilter_context sample_policy), []) sample_observations
      = ((st, c), h)"
    by (metis prod.exhaust)
  have "fst (fst (play (raw_send rf_send)
      (sc_start regimeFilterMachine (regimeFilter_context sample_policy), []) sample_observations))
      = RegimeBearish"
    by (simp add: sample_rf raw_send_def rf_eval)
  then have "st \<notin> {Stopped, Failed}"
    by (simp add: p)
  with regime_follows_debounce [OF rf.runtime_sc _ _ _ p, of 2 2] p show ?thesis
    by (simp add: sample_rf isValidRegimeFilterPolicy_def hasValidSharedFields_def isValidBps_def
      isInteger_def)
qed

text \<open>A classification has the right sign.  Under a valid policy a valid observation is
  bullish only if the fast average is above the slow one (or, by slope, the slow average above
  its reference), and bearish only if it is below, whatever the rounding does.\<close>

theorem classification_sign:
  assumes "isValidRegimeFilterPolicy P" "isValidRegimeObservation ob lst"
    and "binary64 (emaSlow ob)"
  shows "(classifyRegimeObservation P ob h = Some BULLISH \<longrightarrow>
      (case P of EMA_THRESHOLD _ _ _ _ \<Rightarrow> emaSlow ob < emaFast ob
        | EMA_SLOPE _ _ _ _ \<Rightarrow> hd h < emaSlow ob)) \<and>
    (classifyRegimeObservation P ob h = Some BEARISH \<longrightarrow>
      (case P of EMA_THRESHOLD _ _ _ _ \<Rightarrow> emaFast ob < emaSlow ob
        | EMA_SLOPE _ _ _ _ \<Rightarrow> emaSlow ob < hd h))"
proof (cases P)
  case (EMA_THRESHOLD t b m n)
  define x where "x = (case b of None \<Rightarrow> t | Some x \<Rightarrow> x)"
  have pos: "Fin 0 < t" "Fin 0 < x" and s: "Fin 0 < emaSlow ob" "emaSlow ob \<noteq> PosInf"
    using assms EMA_THRESHOLD by (auto simp: isValidRegimeFilterPolicy_def isValidBps_def x_def
      isValidRegimeObservation_def split: option.splits)
  have "emaSlow ob \<le> emaSlow ob * (Fin 1 + t / Fin 10000)"
    by (intro times_ge_self one_plus_ge bps_nonneg assms s pos)
  moreover have "emaSlow ob * (Fin 2 - (Fin 1 + x / Fin 10000)) \<le> emaSlow ob"
    by (intro times_le_self two_minus_le one_plus_ge bps_nonneg assms s pos)
  ultimately show ?thesis
    unfolding EMA_THRESHOLD classifyRegimeObservation_def RegimeFilterPolicy.case Let_def
      x_def [symmetric]
    by (auto split: if_splits intro: number_le_lt_trans number_lt_le_trans)
next
  case (EMA_SLOPE t q m n)
  have v: "isValidBps t" "isFinite (emaSlow ob)" "Fin 0 < emaSlow ob"
    using assms EMA_SLOPE
    by (simp_all add: isValidRegimeFilterPolicy_def isValidRegimeObservation_def)
  show ?thesis
  proof (cases h)
    case (Cons r rs)
    show ?thesis
    proof (cases "Fin 0 < r")
      case True
      with classify_slope_sign [OF v Cons] show ?thesis
        by (auto simp: EMA_SLOPE classifyRegimeObservation_def Let_def Cons)
    next
      case False
      then have "r \<le> Fin 0 \<or> r = NaN"
        by (cases r) auto
      moreover have "emaSlow ob / NaN = NaN"
        by (cases "emaSlow ob") simp_all
      ultimately show ?thesis
        by (auto simp: EMA_SLOPE classifyRegimeObservation_def Let_def Cons minus_number_def
          split: if_splits)
    qed
  qed (simp add: EMA_SLOPE classifyRegimeObservation_def)
qed

theorem classification_sign_witness:
  "classifyRegimeObservation sample_slope \<lparr>start = Fin 2, emaFast = Fin 5, emaSlow = Fin 136\<rparr>
     [Fin 128] = Some BULLISH \<and> Fin 128 < Fin 136"
proof -
  have "isValidRegimeObservation \<lparr>start = Fin 2, emaFast = Fin 5, emaSlow = Fin 136\<rparr> None"
    by (simp add: isValidRegimeObservation_def isSafeInteger_def)
  moreover have "isValidRegimeFilterPolicy sample_slope"
    by (simp add: sample_slope_def isValidRegimeFilterPolicy_def hasValidSharedFields_def
      isValidBps_def isInteger_def)
  moreover have "classifyRegimeObservation sample_slope
      \<lparr>start = Fin 2, emaFast = Fin 5, emaSlow = Fin 136\<rparr> [Fin 128] = Some BULLISH"
    by (simp add: sample_slope_def rf_eval)
  ultimately show ?thesis
    using classification_sign [of sample_slope "\<lparr>start = Fin 2, emaFast = Fin 5, emaSlow = Fin 136\<rparr>"
        None "[Fin 128]"]
    by (simp add: sample_slope_def)
qed

text \<open>A confirmed regime is never pending.  With a slope policy, once a regime has been
  entered the history is full and every later valid observation is classified.\<close>

theorem slope_never_pending:
  assumes "xstate_runtime regimeFilterMachine init send"
    and "isValidRegimeFilterPolicy P" "P = EMA_SLOPE t (Fin (of_nat q)) k j"
    and "play send (init (regimeFilter_context P)) es = (st, c)" "regime c \<noteq> None"
    and "isValidRegimeObservation ob (lastObservationStart c)"
  shows "length (emaSlowHistory c) = q \<and> rawKind c (CANDLE_CLOSED ob) \<noteq> None"
proof -
  have q: "0 < q"
    using assms(2,3) by (cases q) (simp_all add: isValidRegimeFilterPolicy_def)
  have "rf_history P q (st, c)"
    using rf_play_history [OF assms(3) q, of es] assms(4)
    by (simp add: rf_runtime [OF assms(1)] rf_boot [OF assms(2)])
  then have c: "policy c = P" "length (emaSlowHistory c) = q" "\<forall>x\<in>set (emaSlowHistory c). Fin 0 < x"
    using assms(5) by (auto simp: rf_history_def)
  with rawKind_slope [of c t q k j ob] q assms(3,6) show ?thesis
    by simp
qed

theorem slope_never_pending_witness:
  "rawKind (snd (play rf_send (sc_start regimeFilterMachine (regimeFilter_context sample_slope))
       [sample_candle 1 2 128, sample_candle 2 2 136])) (sample_candle 3 2 104) \<noteq> None"
proof -
  let ?s = "play rf_send (sc_start regimeFilterMachine (regimeFilter_context sample_slope))
    [sample_candle 1 2 128, sample_candle 2 2 136]"
  have "lastObservationStart (snd ?s) = Some (Fin 2)" "regime (snd ?s) \<noteq> None"
    by (simp_all add: sample_rf rf_eval)
  with slope_never_pending [OF rf.runtime_sc _ _ surjective_pairing, of sample_slope _ 1 _ _
      "[sample_candle 1 2 128, sample_candle 2 2 136]"
      "\<lparr>start = Fin 3, emaFast = Fin 2, emaSlow = Fin 104\<rparr>"]
  show ?thesis
    by (simp add: sample_slope_def sample_candle_def isValidRegimeFilterPolicy_def
      hasValidSharedFields_def isValidBps_def isInteger_def isValidRegimeObservation_def
      isSafeInteger_def)
qed

end
