(* ===== verification/StrategiesProps.thy ===== *)
theory StrategiesProps
  imports TargetExposure RegimeFilterProps "HOL-Library.Multiset"
begin

text \<open>
  Strategies: what every signal they emit satisfies, what the registry runs, and the band
  strategy as the change of the classified regime.
\<close>

subsection \<open>The registry\<close>

lemma update_new: "k \<notin> fst ` set d \<Longrightarrow> AList.update k v d = d @ [(k, v)]"
  by (induction d) auto

lemma register_distinct:
  "distinct (map strategy_id ss) \<Longrightarrow> fst ` set d \<inter> strategy_id ` set ss = {} \<Longrightarrow>
     register d ss = ok (d @ map (\<lambda>s. (strategy_id s, s)) ss)"
proof (induction ss arbitrary: d)
  case (Cons s ss)
  then show ?case
    by (auto simp: has_own_iff update_new)
qed simp

lemma register_duplicate:
  "\<not> (distinct (map strategy_id ss) \<and> fst ` set d \<inter> strategy_id ` set ss = {}) \<Longrightarrow>
     \<exists>i\<in>strategy_id ` set ss. register d ss = err (DUPLICATE_STRATEGY_ID i)"
proof (induction ss arbitrary: d)
  case (Cons s ss)
  show ?case
  proof (cases "has_own d (strategy_id s)")
    case False
    then have "\<exists>i\<in>strategy_id ` set ss.
        register (AList.update (strategy_id s) s d) ss = err (DUPLICATE_STRATEGY_ID i)"
      using Cons.prems by (intro Cons.IH) (auto simp: has_own_iff update_new)
    with False show ?thesis
      by auto
  qed simp
qed simp

lemma cons_result_iff:
  "(case r of Inl e \<Rightarrow> err e | Inr vs \<Rightarrow> ok (v # vs)) = Inr ws \<longleftrightarrow>
     (\<exists>vs. r = Inr vs \<and> ws = v # vs)"
  by (cases r) auto

lemma evaluateIds_iff:
  assumes "\<And>i. i \<in> set is \<Longrightarrow> map_of d i = Some (f i)"
  shows "evaluateIds d is cx = Inr vs \<longleftrightarrow> list_all2 (\<lambda>i v. evaluate (f i) cx = Inr v) is vs"
  using assms
proof (induction "is" arbitrary: vs)
  case (Cons i "is")
  then show ?case
    by (cases vs; cases "evaluate (f i) cx") (auto simp: cons_result_iff)
qed auto

lemma evaluateIds_cong:
  "map_of d = map_of d' \<Longrightarrow> evaluateIds d is cx = evaluateIds d' is cx"
  by (induction "is") (auto split: option.splits sum.splits)

definition by_id :: "Strategy list \<Rightarrow> Strategy dict" where
  "by_id ss = map (\<lambda>s. (strategy_id s, s)) ss"

lemma map_of_by_id:
  "distinct (map strategy_id ss) \<Longrightarrow> map_of (by_id ss) i = Some s \<longleftrightarrow> s \<in> set ss \<and> strategy_id s = i"
  by (auto simp: by_id_def map_of_eq_Some_iff o_def)

lemma createStrategyRegistry_eq:
  "distinct (map strategy_id ss) \<Longrightarrow> createStrategyRegistry ss =
     ok \<lparr>ids = sort (map strategy_id ss), get_strategy = map_of (by_id ss),
       evaluateAll = evaluateIds (by_id ss) (sort (map strategy_id ss))\<rparr>"
  by (simp add: createStrategyRegistry_def register_distinct sorted_keys_def by_id_def o_def Let_def)

lemma sort_key_ids: "map strategy_id (sort_key strategy_id ss) = sort (map strategy_id ss)"
  by (rule properties_for_sort [symmetric]) simp_all

text \<open>The registry.  It is created exactly when the identifiers are distinct, a refusal naming
  one that is not; it lists the identifiers in order, finds every strategy by its identifier,
  and evaluates all of them in that order; and the order of registration makes no difference.\<close>

theorem registry_sorted:
  "(is_ok (createStrategyRegistry ss) \<longleftrightarrow> distinct (map strategy_id ss)) \<and>
   (\<forall>e. createStrategyRegistry ss = Inl e \<longrightarrow> (\<exists>s\<in>set ss. e = DUPLICATE_STRATEGY_ID (strategy_id s))) \<and>
   (\<forall>r. createStrategyRegistry ss = Inr r \<longrightarrow>
      ids r = sort (map strategy_id ss) \<and>
      (\<forall>i s. get_strategy r i = Some s \<longleftrightarrow> s \<in> set ss \<and> strategy_id s = i) \<and>
      (\<forall>cx vs. evaluateAll r cx = Inr vs \<longleftrightarrow>
         list_all2 (\<lambda>s v. evaluate s cx = Inr v) (sort_key strategy_id ss) vs) \<and>
      (\<forall>ss'. mset ss' = mset ss \<longrightarrow> createStrategyRegistry ss' = Inr r))"
proof (cases "distinct (map strategy_id ss)")
  case True
  have all: "evaluateIds (by_id ss) (sort (map strategy_id ss)) cx = Inr vs \<longleftrightarrow>
      list_all2 (\<lambda>s v. evaluate s cx = Inr v) (sort_key strategy_id ss) vs" for cx vs
  proof -
    define f where "f = the \<circ> map_of (by_id ss)"
    have f: "map_of (by_id ss) (strategy_id s) = Some s" if "s \<in> set ss" for s
      using that True by (simp add: map_of_by_id)
    then have f': "f (strategy_id s) = s" if "s \<in> set ss" for s
      using that by (simp add: f_def)
    have "evaluateIds (by_id ss) (sort (map strategy_id ss)) cx = Inr vs \<longleftrightarrow>
        list_all2 (\<lambda>i v. evaluate (f i) cx = Inr v) (map strategy_id (sort_key strategy_id ss)) vs"
      unfolding sort_key_ids by (rule evaluateIds_iff) (auto simp: f f')
    also have "\<dots> \<longleftrightarrow> list_all2 (\<lambda>s v. evaluate s cx = Inr v) (sort_key strategy_id ss) vs"
      unfolding list_all2_map1 using f' by (intro list.rel_cong) auto
    finally show ?thesis .
  qed
  have same: "createStrategyRegistry ss' = createStrategyRegistry ss" if "mset ss' = mset ss" for ss'
  proof -
    have m: "mset (map strategy_id ss') = mset (map strategy_id ss)"
      using that by simp
    have d: "distinct (map strategy_id ss')"
      using True mset_eq_imp_distinct_iff [OF m] by simp
    have set: "set ss' = set ss"
      using that by (rule mset_eq_setD)
    have maps: "map_of (by_id ss') = map_of (by_id ss)"
    proof
      fix i
      have "map_of (by_id ss') i = Some s \<longleftrightarrow> map_of (by_id ss) i = Some s" for s
        using True d set by (simp add: map_of_by_id)
      then show "map_of (by_id ss') i = map_of (by_id ss) i"
        by (metis not_None_eq)
    qed
    have sorts: "sort (map strategy_id ss') = sort (map strategy_id ss)"
      using m by (intro properties_for_sort) simp_all
    show ?thesis
      unfolding createStrategyRegistry_eq [OF d] createStrategyRegistry_eq [OF True] maps sorts
      by (simp add: fun_eq_iff evaluateIds_cong [OF maps])
  qed
  show ?thesis
    using True all same by (auto simp: createStrategyRegistry_eq map_of_by_id)
next
  case False
  then obtain s where "s \<in> set ss" "register [] ss = err (DUPLICATE_STRATEGY_ID (strategy_id s))"
    using register_duplicate [of ss "[]"] by auto
  with False show ?thesis
    by (auto simp: createStrategyRegistry_def)
qed



definition sample_strategies :: "Strategy list" where
  "sample_strategies =
     [createRsiReversionStrategy \<lparr>rsi_id = None, oversold = Fin 30, overbought = Fin 70,
        rsi_baseSize = Fin 1\<rparr>,
      createBreakoutStrategy \<lparr>breakout_id = None, lookback = Fin 20, breakout_baseSize = Fin 1\<rparr>]"

theorem registry_sorted_witness:
  "\<exists>r. createStrategyRegistry sample_strategies = Inr r \<and> ids r = [''breakout'', ''rsi-reversion''] \<and>
     createStrategyRegistry (rev sample_strategies) = Inr r"
proof -
  have m: "map strategy_id sample_strategies = [''rsi-reversion'', ''breakout'']"
    by (simp add: sample_strategies_def createRsiReversionStrategy_def createBreakoutStrategy_def
      Let_def)
  then have "is_ok (createStrategyRegistry sample_strategies)"
    using registry_sorted [THEN conjunct1, of sample_strategies] by simp
  then obtain r where r: "createStrategyRegistry sample_strategies = Inr r"
    by (rule is_okE)
  with registry_sorted [THEN conjunct2, THEN conjunct2, rule_format, OF r] m show ?thesis
    by simp
qed

subsection \<open>Signals\<close>

text \<open>The strategies that can be built, wrappers included.\<close>

inductive strategy_of :: "(number \<Rightarrow> number \<Rightarrow> number) \<Rightarrow> (number \<Rightarrow> number) \<Rightarrow> bool \<Rightarrow> Strategy \<Rightarrow> bool" for pow rt where
  "strategy_of pow rt True (createEmaCrossStrategy c1)"
| "strategy_of pow rt True (createBreakoutStrategy c2)"
| "strategy_of pow rt True (createRsiReversionStrategy c3)"
| "strategy_of pow rt True (createEmaBandTrendStrategy c4)"
| "strategy_of pow rt True (createFundingTrendStrategy c5)"
| "strategy_of pow rt False (createTargetExposureStrategy pow rt i)"
| "strategy_of pow rt sizes s \<Longrightarrow> strategy_of pow rt True (withTargetSignalNotional s x)"
| "strategy_of pow rt sizes s \<Longrightarrow> strategy_of pow rt sizes (withConfidenceCalibration pow s profile)"

text \<open>
  What one evaluation promises: a valid signal for the product, or an error of the strategy.  A
  strategy that sizes its orders gives a positive size exactly when it trades; one that only
  informs gives none.
\<close>

definition signal_for :: "bool \<Rightarrow> string \<Rightarrow> StrategyContext \<Rightarrow> Signal \<Rightarrow> bool" where
  "signal_for sizes i cx v \<longleftrightarrow>
     createSignal v = Inr v \<and> sig_strategyId v = i \<and> sig_productId v = ctx_productId cx \<and>
     (if sig_side v = SigHold \<or> \<not> sizes then sig_suggestedSize v = Fin 0
      else isPositiveFinite (sig_suggestedSize v))"

definition error_of :: "string \<Rightarrow> StrategyError \<Rightarrow> bool" where
  "error_of i e \<longleftrightarrow>
     e \<in> {INVALID_STRATEGY_CONFIG i, INSUFFICIENT_STRATEGY_DATA i} \<or>
     (\<exists>x. e = INVALID_STRATEGY_SIGNAL i x)"

definition answers :: "bool \<Rightarrow> string \<Rightarrow> StrategyContext \<Rightarrow> (Signal, StrategyError) result \<Rightarrow> bool" where
  "answers z i cx r \<longleftrightarrow> (case r of Inl e \<Rightarrow> error_of i e | Inr v \<Rightarrow> signal_for z i cx v)"

lemma answers_simps [simp]:
  "answers z i cx (Inr v) = signal_for z i cx v" "answers z i cx (ok v) = signal_for z i cx v"
  "answers z i cx (Inl e) = error_of i e" "answers z i cx (err e) = error_of i e"
  by (simp_all add: answers_def ok_def err_def)

lemma error_of_simps [simp]:
  "error_of i (INVALID_STRATEGY_CONFIG i)" "error_of i (INSUFFICIENT_STRATEGY_DATA i)"
  "error_of i (INVALID_STRATEGY_SIGNAL i x)"
  by (simp_all add: error_of_def)

lemma createSignal_ok: "createSignal w = Inr v \<Longrightarrow> v = w"
  by (auto simp: createSignal_def split: if_splits)

lemma answers_signal:
  assumes "sig_strategyId w = i" "sig_productId w = ctx_productId cx"
    and "if sig_side w = SigHold \<or> \<not> z then sig_suggestedSize w = Fin 0
      else isPositiveFinite (sig_suggestedSize w)"
  shows "answers z i cx (strategySignal i (createSignal w))"
  using assms
  by (cases "createSignal w") (auto simp: strategySignal_def signal_for_def dest: createSignal_ok)

lemma answers_emit:
  assumes "if sd = SigHold \<or> \<not> z then q = Fin 0 else isPositiveFinite q"
  shows "answers z i cx (emit i cx sd c q r)"
  unfolding emit_def using assms by (intro answers_signal) simp_all

lemma answers_sized:
  assumes "isFinite b" "\<not> b \<le> Fin 0"
  shows "answers True i cx (emit i cx sd c (sized sd b) r)"
  using assms
  by (intro answers_emit) (auto simp: sized_def isPositiveFinite_def elim!: isFiniteE)

lemma answers_hold: "answers z i cx (emit i cx SigHold c (Fin 0) r)"
  by (intro answers_emit) simp

lemma answers_informs: "answers False i cx (emit i cx sd c (Fin 0) r)"
  by (intro answers_emit) simp

lemma answers_resized:
  assumes "answers z i cx r" "r = Inr v" "sig_side v \<noteq> SigHold"
  shows "isPositiveFinite q \<Longrightarrow>
      answers True i cx (strategySignal i (createSignal (v\<lparr>sig_suggestedSize := q\<rparr>)))"
    "answers z i cx (strategySignal i (createSignal (v\<lparr>sig_confidence := x\<rparr>)))"
  using assms by (auto intro!: answers_signal simp: signal_for_def)

lemma answers_held:
  assumes "answers z i cx (Inr v)" "sig_side v = SigHold"
  shows "answers True i cx (Inr v)"
  using assms by (simp add: signal_for_def)

lemma strategySignal_fold:
  "(case r of Inl e \<Rightarrow> err (INVALID_STRATEGY_SIGNAL i e) | Inr w \<Rightarrow> ok w) = strategySignal i r"
  by (simp add: strategySignal_def)

text \<open>C36: what a strategy answers.  Every strategy that the package can build, through any
  wrappers, answers for every context either with an error that bears its identifier, or with a
  signal that passes validation and bears its identifier and the product of the context.  Its size
  is zero when it holds.  When it trades, its size is positive and finite, except for the
  strategy of the target exposure, which only informs: its size is always zero, until a target
  notional is put around it.\<close>

theorem strategies_answer:
  assumes "strategy_of pow rt sizes s"
  shows "answers sizes (strategy_id s) cx (evaluate s cx)"
  using assms
proof induction
  case (7 sizes s x)
  show ?case
  proof (cases "evaluate s cx")
    case (Inr v)
    with 7 show ?thesis
      by (auto simp: withTargetSignalNotional_def strategySignal_fold resolveTargetSignalQuantity_def
        Let_def intro: answers_resized(1) [OF _ Inr] answers_held [unfolded answers_simps] split: sum.splits)
  qed (use 7 in \<open>simp add: withTargetSignalNotional_def\<close>)
next
  case (8 sizes s profile)
  show ?case
  proof (cases "evaluate s cx")
    case (Inr v)
    with 8 show ?thesis
      by (auto simp: withConfidenceCalibration_def strategySignal_fold
        intro: answers_resized(2) [OF _ Inr] split: sum.splits)
  qed (use 8 in \<open>simp add: withConfidenceCalibration_def\<close>)
qed (auto simp: createEmaCrossStrategy_def createBreakoutStrategy_def createRsiReversionStrategy_def
      createEmaBandTrendStrategy_def createFundingTrendStrategy_def createTargetExposureStrategy_def Let_def
      intro: answers_sized answers_hold answers_informs split: option.splits)

definition sample_rsi :: Strategy where
  "sample_rsi = withTargetSignalNotional
     (createRsiReversionStrategy \<lparr>rsi_id = None, oversold = Fin 30, overbought = Fin 70,
        rsi_baseSize = Fin 1\<rparr>) (Fin 100)"

theorem strategies_answer_witness:
  "\<forall>cx. answers True ''rsi-reversion'' cx (evaluate sample_rsi cx)"
proof
  fix cx
  have "strategy_of (\<lambda>x _. x) (\<lambda>x. x) True sample_rsi"
    unfolding sample_rsi_def by (rule strategy_of.intros(7) [OF strategy_of.intros(3)])
  moreover have "strategy_id sample_rsi = ''rsi-reversion''"
    by (simp add: sample_rsi_def withTargetSignalNotional_def createRsiReversionStrategy_def Let_def)
  ultimately show "answers True ''rsi-reversion'' cx (evaluate sample_rsi cx)"
    using strategies_answer [of "\<lambda>x _. x" "\<lambda>x. x" True sample_rsi cx] by simp
qed

subsection \<open>The band strategy and the regime\<close>

text \<open>The regime of a snapshot under the symmetric threshold policy of the band.\<close>

definition band_regime :: "IndicatorSnapshot \<Rightarrow> RegimeKind option" where
  "band_regime s = classifyRegimeObservation (EMA_THRESHOLD BAND_BPS None (Fin 1) (Fin 1))
     \<lparr>start = Fin 0, emaFast = IndicatorSnapshot.emaFast s, emaSlow = IndicatorSnapshot.emaSlow s\<rparr> []"

abbreviation usable :: "IndicatorSnapshot \<Rightarrow> bool" where
  "usable s \<equiv> validPair (IndicatorSnapshot.emaFast s) (IndicatorSnapshot.emaSlow s) \<and>
     binary64 (IndicatorSnapshot.emaSlow s)"

lemma band_regime_eq:
  "band_regime s =
     Some (if upperBand (IndicatorSnapshot.emaSlow s) < IndicatorSnapshot.emaFast s then BULLISH
       else if IndicatorSnapshot.emaFast s < lowerBand (IndicatorSnapshot.emaSlow s) then BEARISH
       else RANGE)"
  by (simp add: band_regime_def classifyRegimeObservation_def upperBand_def lowerBand_def Let_def)

lemma bands_around:
  assumes "usable s"
  shows "lowerBand (IndicatorSnapshot.emaSlow s) \<le> IndicatorSnapshot.emaSlow s"
    "IndicatorSnapshot.emaSlow s \<le> upperBand (IndicatorSnapshot.emaSlow s)"
  using assms unfolding upperBand_def lowerBand_def
  by (intro times_le_self times_ge_self two_minus_le one_plus_ge bps_nonneg;
      auto simp: validPair_def BAND_BPS_def)+


lemma finite_times_NaN: "isFinite a \<Longrightarrow> isFinite b \<Longrightarrow> a * b \<noteq> NaN"
  by (cases a; cases b) auto

lemma bandSide_regime:
  assumes "usable before" "usable now"
  shows "bandSide before now =
    (if band_regime now = Some BULLISH \<and> band_regime before \<noteq> Some BULLISH then SigBuy
     else if band_regime now = Some BEARISH \<and> band_regime before \<noteq> Some BEARISH then SigSell
     else SigHold)"
proof -
  define f0 u0 l0 where "f0 = IndicatorSnapshot.emaFast before"
    and "u0 = upperBand (IndicatorSnapshot.emaSlow before)"
    and "l0 = lowerBand (IndicatorSnapshot.emaSlow before)"
  define f1 u1 l1 where "f1 = IndicatorSnapshot.emaFast now"
    and "u1 = upperBand (IndicatorSnapshot.emaSlow now)"
    and "l1 = lowerBand (IndicatorSnapshot.emaSlow now)"
  have "l0 \<le> u0" "l1 \<le> u1"
    using bands_around [OF assms(1)] bands_around [OF assms(2)]
    by (auto simp: u0_def l0_def u1_def l1_def intro: number_le_trans)
  then have n: "l0 \<noteq> NaN" "u0 \<noteq> NaN" "l1 \<noteq> NaN" "u1 \<noteq> NaN"
    by auto
  moreover have "f0 \<noteq> NaN" "f1 \<noteq> NaN"
    using assms by (auto simp: validPair_def f0_def f1_def)
  ultimately have "\<not> u0 < f0 \<longleftrightarrow> f0 \<le> u0" "\<not> f0 < l0 \<longleftrightarrow> l0 \<le> f0" "f1 < l1 \<Longrightarrow> \<not> u1 < f1"
      "f0 < l0 \<Longrightarrow> \<not> u0 < f0"
    using \<open>l0 \<le> u0\<close> \<open>l1 \<le> u1\<close>
    by (simp_all add: number_not_lt number_not_le [symmetric])
       (meson number_le_trans number_lt_imp_le number_lt_le_trans number_not_le)+
  then show ?thesis
    unfolding bandSide_def band_regime_eq f0_def [symmetric] u0_def [symmetric] l0_def [symmetric]
      f1_def [symmetric] u1_def [symmetric] l1_def [symmetric]
    by auto
qed

text \<open>The band strategy trades the change of the regime.  On usable snapshots its signal is a buy
  exactly on the candle where the regime filter's threshold classification becomes bullish, a
  sale exactly where it becomes bearish, and a hold otherwise; so no side is emitted twice
  in a row.\<close>

theorem band_follows_regime:
  assumes "evaluate (createEmaBandTrendStrategy config) cx = Inr v"
    and "ctx_previousIndicators cx = Some before" "ctx_indicators cx = now"
    and "usable before" "usable now"
  shows "sig_side v =
    (if band_regime now = Some BULLISH \<and> band_regime before \<noteq> Some BULLISH then SigBuy
     else if band_regime now = Some BEARISH \<and> band_regime before \<noteq> Some BEARISH then SigSell
     else SigHold)"
proof -
  have "sig_side v = bandSide before now"
    using assms
    by (auto simp: createEmaBandTrendStrategy_def emit_def strategySignal_def Let_def
      dest!: createSignal_ok split: option.splits if_splits sum.splits)
  then show ?thesis
    by (simp add: bandSide_regime [OF assms(4,5)])
qed

definition sample_indicators :: "number \<Rightarrow> number \<Rightarrow> IndicatorSnapshot" where
  "sample_indicators fast slow =
     \<lparr>snapshotId = ''s'', candleClosedAt = Fin 0, rsi = Fin 50, emaFast = fast, emaSlow = slow,
      signalEmaFast = None, signalEmaSlow = None, macd = Fin 0, atr = Fin 1,
      historicalVolatility = Fin 0, momentum = Fin 0, periodicReturns = [], ohlcvVwap = None,
      tradeVwap = None, orderBookVwap = None, bidAskSpread = None, relativeVolume = None,
      volumeSpike = None, volumeTrend = None, vwapDeviation = None, trendStrength = Fin 0,
      fundingAvg = None\<rparr>"

definition sample_context :: StrategyContext where
  "sample_context = \<lparr>ctx_productId = ''BTC-USD'', ctx_candles = [],
     ctx_indicators = sample_indicators (Fin 256) (Fin 128),
     ctx_previousIndicators = Some (sample_indicators (Fin 128) (Fin 128))\<rparr>"

lemma sample_band: "upperBand (Fin 128) < Fin 256" "\<not> upperBand (Fin 128) < Fin 128"
proof -
  have u: "usable (sample_indicators (Fin 128) (Fin 128))"
    by (simp add: sample_indicators_def validPair_def)
  show "\<not> upperBand (Fin 128) < Fin 128"
    using bands_around(2) [OF u] number_le_lt_trans [of "Fin 128" _ "Fin 128"]
    by (auto simp: sample_indicators_def)
  have half: "representable (1 / 2)" "representable (3 / 2)"
    using representable_frac [of 1 1] representable_frac [of 3 1] by simp_all
  have "fl (1 / 100) \<le> Fin (1 / 2)" "Fin 0 \<le> fl (1 / 100)"
    by (simp_all add: fl_le_representable half fl_nonneg)
  then obtain q where q: "fl (1 / 100) = Fin q" "q \<le> 1 / 2"
    by (cases "fl (1 / 100)") auto
  then have "fl (1 + q) \<le> Fin (3 / 2)" "fl (1 + q) \<noteq> NegInf"
    using fl_le_representable [OF half(2), of "1 + q"] fl_nonneg [of "1 + q"] \<open>Fin 0 \<le> fl (1 / 100)\<close>
    by auto
  then obtain r where r: "fl (1 + q) = Fin r" "r \<le> 3 / 2"
    by (cases "fl (1 + q)") auto
  have "fl (128 * r) \<le> Fin 192"
    using r(2) by (intro fl_le_representable) simp_all
  then show "upperBand (Fin 128) < Fin 256"
    using q r by (cases "fl (128 * r)") (simp_all add: upperBand_def BAND_BPS_def)
qed

theorem band_follows_regime_witness:
  "\<exists>v. evaluate (createEmaBandTrendStrategy \<lparr>band_id = None, band_baseSize = Fin 1\<rparr>) sample_context =
     Inr v \<and> sig_side v = SigBuy"
proof -
  have "\<exists>v. evaluate (createEmaBandTrendStrategy \<lparr>band_id = None, band_baseSize = Fin 1\<rparr>)
      sample_context = Inr v"
    by (cases "bandSide (sample_indicators (Fin 128) (Fin 128)) (sample_indicators (Fin 256) (Fin 128))")
       (simp_all add: createEmaBandTrendStrategy_def sample_context_def sample_indicators_def
        validPair_def emit_def strategySignal_def createSignal_def isNonEmpty_def non_blank_iff
        js_space_def sized_def by_side_def spreadBps_def BAND_BPS_def js_min_def minus_number_def
        Let_def)
  then obtain v where v: "evaluate (createEmaBandTrendStrategy
      \<lparr>band_id = None, band_baseSize = Fin 1\<rparr>) sample_context = Inr v"
    by blast
  have "usable (sample_indicators (Fin 128) (Fin 128))" "usable (sample_indicators (Fin 256) (Fin 128))"
    by (simp_all add: sample_indicators_def validPair_def)
  with band_follows_regime [OF v] sample_band have "sig_side v = SigBuy"
    by (simp add: sample_context_def band_regime_eq) (simp add: sample_indicators_def)
  with v show ?thesis
    by blast
qed

end
