(* ===== verification/RiskProps.thy ===== *)
theory RiskProps
  imports Risk "HOL-Library.Multiset"
begin

text \<open>
  What the risk gate admits, and the consolidated admission of a portfolio: its bounds, its
  independence of the order of the products, and what it does to orders that reduce risk.
\<close>

subsection \<open>One order\<close>

lemma finite_cases:
  assumes "isFinite x" obtains r where "x = Fin r"
  using assms by (rule isFiniteE)

lemma not_less_le: "x \<noteq> NaN \<Longrightarrow> y \<noteq> NaN \<Longrightarrow> \<not> x < y \<longleftrightarrow> y \<le> (x :: number)"
  by (rule number_not_lt)

lemma times_pos_NaN: "isFinite x \<Longrightarrow> Fin 0 < x \<Longrightarrow> y * x = NaN \<longleftrightarrow> y = NaN"
  by (cases x; cases y) (simp_all add: inf_of_def)

lemma plus_fin_NaN: "isFinite x \<Longrightarrow> x + y = NaN \<longleftrightarrow> y = NaN"
  by (elim isFiniteE) (simp add: fin_plus_NaN)

lemma abs_NaN: "\<bar>x\<bar> = NaN \<longleftrightarrow> x = (NaN :: number)"
  by (cases x) simp_all

text \<open>No comparison of the gate is undefined for a validated snapshot and quantity.\<close>

lemma gate_defined:
  assumes "validSnapshot s" "isFinite (quantity i)"
  shows "orderNotional i s \<noteq> NaN" "projectedQuantity i s \<noteq> NaN" "projectedNotional i s \<noteq> NaN"
    "projectedExposure i s \<noteq> NaN"
  using assms by (auto simp: validSnapshot_def validPositive_def orderNotional_def
    projectedQuantity_def projectedNotional_def projectedExposure_def times_pos_NaN plus_fin_NaN
    abs_NaN uminus_NaN)

lemma short_tolerance_NaN: "short_tolerance \<noteq> NaN"
  by (simp add: short_tolerance_def uminus_NaN)

text \<open>The order passes every limit of the gate.\<close>

definition within_limits :: "OrderIntent \<Rightarrow> RiskSnapshot \<Rightarrow> RiskConfig \<Rightarrow> bool" where
  "within_limits i s c \<longleftrightarrow>
     \<not> killSwitchActive s \<and> - maxDailyLoss c < dailyPnl s \<and>
     (\<forall>t. lastTradeAt s = Some t \<longrightarrow> cooldownMs c \<le> now s - t) \<and>
     orderNotional i s \<le> maxOrderNotional c \<and> short_tolerance \<le> projectedQuantity i s \<and>
     projectedNotional i s \<le> maxPositionNotional c \<and>
     projectedExposure i s \<le> maxGrossExposure c"

lemma within_limits_iff:
  assumes "validConfig c" "validSnapshot s" "isFinite (quantity i)"
  shows "within_limits i s c \<longleftrightarrow>
     \<not> killSwitchActive s \<and> \<not> dailyPnl s \<le> - maxDailyLoss c \<and>
     \<not> (case lastTradeAt s of None \<Rightarrow> False | Some t \<Rightarrow> now s - t < cooldownMs c) \<and>
     \<not> maxOrderNotional c < orderNotional i s \<and> \<not> projectedQuantity i s < short_tolerance \<and>
     \<not> maxPositionNotional c < projectedNotional i s \<and>
     \<not> maxGrossExposure c < projectedExposure i s"
proof -
  have limits: "maxOrderNotional c \<noteq> NaN" "maxPositionNotional c \<noteq> NaN" "maxGrossExposure c \<noteq> NaN"
    using assms(1) by (auto simp: validConfig_def validPositive_def)
  have "- maxDailyLoss c < dailyPnl s \<longleftrightarrow> \<not> dailyPnl s \<le> - maxDailyLoss c"
    using assms(1,2) by (auto simp: validConfig_def validPositive_def validSnapshot_def not_le
      elim!: isFiniteE)
  moreover have "(\<forall>t. lastTradeAt s = Some t \<longrightarrow> cooldownMs c \<le> now s - t) \<longleftrightarrow>
      \<not> (case lastTradeAt s of None \<Rightarrow> False | Some t \<Rightarrow> now s - t < cooldownMs c)"
  proof (cases "lastTradeAt s")
    case (Some t)
    with assms(1,2) have "isSafeInteger t" "isSafeInteger (now s)" "isSafeInteger (cooldownMs c)"
      by (auto simp: validConfig_def validSnapshot_def)
    then have "now s - t \<noteq> NaN" "cooldownMs c \<noteq> NaN"
      by (auto simp: isSafeInteger_iff number_diff_Fin)
    with Some show ?thesis
      by (simp add: number_not_lt)
  qed simp
  ultimately show ?thesis
    unfolding within_limits_def
    using gate_defined [OF assms(2,3)] limits short_tolerance_NaN by (simp add: number_not_lt)
qed

text \<open>C28: an order is approved exactly within every limit.  For valid inputs and a finite
  quantity, the gate approves if and only if the kill switch is off, the daily loss and the
  cooldown allow trading, the position does not go short beyond the tolerance, and the order,
  the projected position and the projected exposure are at most their limits.  Otherwise it
  rejects; it fails only on an invalid configuration or snapshot.\<close>

theorem approved_iff_within_limits:
  assumes "isFinite (quantity i)"
  shows "((\<exists>a. checkRisk i s c = Inr (APPROVED a)) \<longleftrightarrow>
      validConfig c \<and> validSnapshot s \<and> within_limits i s c) \<and>
    ((\<exists>r. checkRisk i s c = Inr (REJECTED r)) \<longleftrightarrow>
      validConfig c \<and> validSnapshot s \<and> \<not> within_limits i s c) \<and>
    (\<forall>a. checkRisk i s c = Inr (APPROVED a) \<longrightarrow>
      projectedPositionNotional a = projectedNotional i s \<and>
      projectedPositionNotional a \<le> maxPositionNotional c \<and>
      projectedGrossExposure a \<le> maxGrossExposure c)"
proof (cases "validConfig c \<and> validSnapshot s")
  case True
  note w = within_limits_iff [OF True [THEN conjunct1] True [THEN conjunct2] assms]
  show ?thesis
  proof (cases "within_limits i s c")
    case yes: True
    then have "projectedNotional i s \<le> maxPositionNotional c" "projectedExposure i s \<le> maxGrossExposure c"
      by (simp_all add: within_limits_def)
    with yes [unfolded w] True yes show ?thesis
      by (auto simp: checkRisk_def Let_def)
  next
    case False
    with False [unfolded w] True show ?thesis
      by (auto simp: checkRisk_def Let_def)
  qed
qed (auto simp: checkRisk_def)

definition sample_config :: RiskConfig where
  "sample_config = \<lparr>maxOrderNotional = Fin 1000, maxPositionNotional = Fin 2000,
     maxGrossExposure = Fin 3000, maxDailyLoss = Fin 100, cooldownMs = Fin 60000,
     stopLossBps = Fin 625, takeProfitBps = Fin 1250\<rparr>"

definition sample_snapshot :: RiskSnapshot where
  "sample_snapshot = \<lparr>marketPrice = Fin 64, currentPositionQuantity = Fin 10,
     otherExposureNotional = Fin 0, dailyPnl = Fin 0, lastTradeAt = Some (Fin 1000),
     now = Fin 90000, killSwitchActive = False\<rparr>"

definition sample_order :: "OrderSide \<Rightarrow> OrderIntent" where
  "sample_order sd = \<lparr>clientOrderId = ''o1'', decisionId = ''d1'', strategyIds = [''ema''],
     productId = ''BTC-USD'', side = sd, order_type = MARKET, quantity = Fin 4,
     limitPrice = None\<rparr>"

lemmas risk_samples = sample_config_def sample_snapshot_def sample_order_def

lemma short_tolerance_bounds: "short_tolerance \<le> Fin 0" "Fin (- 1) \<le> short_tolerance"
proof -
  have "Fin 0 \<le> fl (1 / 1000000000000)" "fl (1 / 1000000000000) \<le> Fin 1"
    by (simp_all add: fl_nonneg fl_le_representable)
  then show "short_tolerance \<le> Fin 0" "Fin (- 1) \<le> short_tolerance"
    by (cases "fl (1 / 1000000000000)"; simp add: short_tolerance_def)+
qed

lemma sample_not_short: "short_tolerance \<le> Fin (numeral n)" "short_tolerance \<le> Fin 0"
  by (rule number_le_trans [OF short_tolerance_bounds(1)], simp)+

lemmas risk_eval = validConfig_def validSnapshot_def validPositive_def within_limits_def
  orderNotional_def projectedQuantity_def projectedNotional_def projectedExposure_def
  isSafeInteger_def number_diff_Fin sample_not_short

theorem approved_iff_within_limits_witness:
  "\<exists>a. checkRisk (sample_order BUY) sample_snapshot sample_config = Inr (APPROVED a) \<and>
     projectedPositionNotional a \<le> Fin 2000"
proof -
  obtain a where a: "checkRisk (sample_order BUY) sample_snapshot sample_config = Inr (APPROVED a)"
    using approved_iff_within_limits [of "sample_order BUY" sample_snapshot sample_config]
    by (auto simp: risk_samples risk_eval)
  with approved_iff_within_limits [of "sample_order BUY" sample_snapshot sample_config] show ?thesis
    by (auto simp: risk_samples)
qed

lemma minus_le_one: "Fin 0 \<le> y \<Longrightarrow> Fin 1 - y \<le> Fin 1"
  by (cases y) (auto simp: minus_number_def intro: fl_le_representable)

text \<open>The protective levels of an approval are on the right side of the market.  Whatever
  the rounding, the stop of a purchase is at or below the market price and its objective at or
  above; for a sale it is the other way round.\<close>

theorem approval_levels_sided:
  assumes "checkRisk i s c = Inr (APPROVED a)" and "binary64 (marketPrice s)"
  shows "if side i = BUY then stopLossPrice a \<le> marketPrice s \<and> marketPrice s \<le> takeProfitPrice a
    else takeProfitPrice a \<le> marketPrice s \<and> marketPrice s \<le> stopLossPrice a"
proof -
  have v: "validConfig c" "validSnapshot s"
    using assms(1) by (auto simp: checkRisk_def split: if_splits)
  then have m: "Fin 0 < marketPrice s" "marketPrice s \<noteq> PosInf"
    and b: "Fin 0 < stopLossBps c" "Fin 0 < takeProfitBps c"
    by (auto simp: validConfig_def validSnapshot_def validPositive_def)
  have "a = \<lparr>stopLossPrice = (if side i = BUY then marketPrice s * (Fin 1 - stopLossBps c / Fin 10000)
             else marketPrice s * (Fin 1 + stopLossBps c / Fin 10000)),
           takeProfitPrice = (if side i = BUY then marketPrice s * (Fin 1 + takeProfitBps c / Fin 10000)
             else marketPrice s * (Fin 1 - takeProfitBps c / Fin 10000)),
           projectedPositionNotional = projectedNotional i s,
           projectedGrossExposure = projectedExposure i s\<rparr>"
    using assms(1) by (auto simp: checkRisk_def Let_def split: if_splits)
  then show ?thesis
    by (auto intro!: times_ge_self times_le_self one_plus_ge minus_le_one bps_nonneg assms(2) m b)
qed

theorem approval_levels_sided_witness:
  "\<exists>a. checkRisk (sample_order BUY) sample_snapshot sample_config = Inr (APPROVED a) \<and>
     stopLossPrice a \<le> Fin 64"
proof -
  obtain a where a: "checkRisk (sample_order BUY) sample_snapshot sample_config = Inr (APPROVED a)"
    using approved_iff_within_limits [of "sample_order BUY" sample_snapshot sample_config]
    by (auto simp: risk_samples risk_eval)
  with approval_levels_sided [OF a] show ?thesis
    by (auto simp: risk_samples)
qed

subsection \<open>A portfolio\<close>

lemma admitProducts_outcome:
  assumes "admitProducts l running ps = Inr (ds, final)"
  shows "map fst ds = map pf_productId ps \<and>
    (final = running \<and> (\<forall>(k, d)\<in>set ds. \<forall>a. d \<noteq> PF_APPROVED a) \<or>
     \<not> pf_maxGrossExposure l < final)"
  using assms
proof (induction ps arbitrary: running ds)
  case (Cons p ps)
  then obtain d nx ds' where step: "admitProduct l running p = Inr (d, nx)"
    and rest: "admitProducts l nx ps = Inr (ds', final)" and ds: "ds = (pf_productId p, d) # ds'"
    by (auto split: sum.splits prod.splits)
  have "nx = running \<and> (\<forall>a. d \<noteq> PF_APPROVED a) \<or> \<not> pf_maxGrossExposure l < nx"
    using step by (auto simp: admitProduct_def Let_def split: option.splits sum.splits
      RiskDecision.splits if_splits)
  with Cons.IH [OF rest] show ?case
    by (auto simp: ds)
qed simp

lemma map_sort_key: "map f (sort_key f xs) = sort (map f xs)"
  by (rule properties_for_sort [symmetric]) (simp_all add: mset_map)

lemma duplicateProduct_iff:
  "sorted (map pf_productId ps) \<Longrightarrow> duplicateProduct ps = None \<longleftrightarrow> distinct (map pf_productId ps)"
proof (induction ps rule: duplicateProduct.induct)
  case (1 p q ps)
  then show ?case by (auto simp: order_antisym)
qed auto

text \<open>
  The exposure of a portfolio, from its positions: what is held at the market, plus, for every
  approved order, the change of the notional of the position when the order is filled.
\<close>

abbreviation held_notional :: "PortfolioProductRiskInput \<Rightarrow> number" where
  "held_notional p \<equiv> \<bar>currentPositionQuantity (pf_snapshot p)\<bar> * marketPrice (pf_snapshot p)"

definition order_change :: "OrderIntent \<Rightarrow> PortfolioProductRiskInput \<Rightarrow> number" where
  "order_change i p =
     \<bar>currentPositionQuantity (pf_snapshot p) + (if side i = BUY then quantity i else - quantity i)\<bar> *
       marketPrice (pf_snapshot p) - held_notional p"

definition exposure_after :: "number \<Rightarrow> PortfolioProductRiskInput \<times> PortfolioProductDecision \<Rightarrow> number" where
  "exposure_after t x =
     (case x of (p, d) \<Rightarrow>
       (case (pf_intent p, d) of (Some i, PF_APPROVED _) \<Rightarrow> t + order_change i p | _ \<Rightarrow> t))"

text \<open>The decision of a product, when the portfolio has the exposure \<open>t\<close> before it.\<close>

definition decided :: "PortfolioRiskLimits \<Rightarrow> number \<Rightarrow> PortfolioProductRiskInput
    \<Rightarrow> PortfolioProductDecision \<Rightarrow> bool" where
  "decided l t p d \<longleftrightarrow>
     (case pf_intent p of
        None \<Rightarrow> d = NO_ORDER
      | Some i \<Rightarrow>
          (case checkRisk i (pf_snapshot p) (pf_config p) of
             Inl _ \<Rightarrow> False
           | Inr (REJECTED r) \<Rightarrow> d = PF_REJECTED (LocalReason r)
           | Inr (APPROVED a) \<Rightarrow>
               d = (if pf_maxGrossExposure l < t + order_change i p
                    then PF_REJECTED CONSOLIDATED_GROSS_EXPOSURE_LIMIT else PF_APPROVED a)))"

lemma approved_change:
  "checkRisk i (pf_snapshot p) c = Inr (APPROVED a) \<Longrightarrow>
     projectedPositionNotional a - currentNotional p = order_change i p"
  by (auto simp: checkRisk_def Let_def projectedNotional_def projectedQuantity_def currentNotional_def
      order_change_def split: if_splits)

lemma admitProduct_decided:
  assumes "admitProduct l t p = Inr (d, t')"
  shows "decided l t p d" "t' = exposure_after t (p, d)"
  using assms approved_change [of _ p]
  by (auto simp: admitProduct_def decided_def exposure_after_def Let_def split: option.splits sum.splits
      RiskDecision.splits if_splits)

lemma admitProducts_decided:
  "admitProducts l t ps = Inr (ds, final) \<Longrightarrow>
     map fst ds = map pf_productId ps \<and> final = foldl exposure_after t (zip ps (map snd ds)) \<and>
     (\<forall>n<length ps. decided l (foldl exposure_after t (zip (take n ps) (map snd ds))) (ps ! n) (snd (ds ! n)))"
proof (induction ps arbitrary: t ds)
  case (Cons p ps)
  then obtain d t' ds' where step: "admitProduct l t p = Inr (d, t')"
    and rest: "admitProducts l t' ps = Inr (ds', final)" and ds: "ds = (pf_productId p, d) # ds'"
    by (auto split: sum.splits prod.splits)
  show ?case
    using Cons.IH [OF rest] admitProduct_decided [OF step] by (auto simp: ds nth_Cons split: nat.split)
qed simp

text \<open>C30: the consolidated cap is respected by every admission.  When a portfolio is evaluated
  and its daily loss allows trading, the products are decided in the order of their distinct
  identifiers.  The exposure starts at the notional of all positions held; an order its own gate
  approves is admitted exactly when the exposure plus the change it makes to the notional of its
  position is not above the cap, and then the exposure grows by that change; an order its gate
  rejects is rejected for the same reason.  The exposure reported is the one that results, and it
  is not above the cap, or no order was admitted at all.\<close>

theorem portfolio_cap_respected:
  assumes "evaluatePortfolioRisk ps l = Inr ev"
    and "\<not> consolidatedDailyPnl ev \<le> - pf_maxDailyLoss l"
    and "products = sort_key pf_productId ps"
    and "exposure = (\<lambda>n. foldl exposure_after (foldl (\<lambda>t p. t + held_notional p) (Fin 0) products)
      (zip (take n products) (map snd (decisions ev))))"
  shows "map fst (decisions ev) = map pf_productId products \<and> distinct (map fst (decisions ev)) \<and>
    (\<forall>n<length ps. decided l (exposure n) (products ! n) (snd (decisions ev ! n))) \<and>
    consolidatedGrossExposure ev = exposure (length ps) \<and>
    (\<not> pf_maxGrossExposure l < consolidatedGrossExposure ev \<or>
     (\<forall>(k, d)\<in>set (decisions ev). \<forall>a. d \<noteq> PF_APPROVED a))"
proof -
  have "foldl (\<lambda>t p. t + currentNotional p) (Fin 0) products = foldl (\<lambda>t p. t + held_notional p) (Fin 0) products"
    by (simp add: currentNotional_def)
  then obtain ds final
    where run: "admitProducts l (foldl (\<lambda>t p. t + held_notional p) (Fin 0) products) products = Inr (ds, final)"
      and ev: "decisions ev = ds" "consolidatedGrossExposure ev = final"
      and dup: "duplicateProduct products = None"
    using assms(1,2) unfolding assms(3)
    by (auto simp: evaluatePortfolioRisk_def Let_def split: if_splits option.splits sum.splits)
  have "distinct (map pf_productId products)"
    using dup duplicateProduct_iff [of products] by (simp add: assms(3))
  then show ?thesis
    using admitProducts_decided [OF run] admitProducts_outcome [OF run]
    by (auto simp: ev assms(3,4))
qed

lemma sort_key_unique:
  "mset xs = mset ys \<Longrightarrow> distinct (map f xs) \<Longrightarrow> sort_key f xs = sort_key f ys"
proof -
  assume m: "mset xs = mset ys" and d: "distinct (map f xs)"
  then have "set xs = set ys"
    by (metis set_mset_mset)
  moreover have "distinct (map f ys)"
    using m d by (metis mset_eq_imp_distinct_iff mset_map)
  moreover have inj: "inj_on f (set xs)"
    using d by (simp add: distinct_map)
  ultimately show ?thesis
    using d by (intro map_sorted_distinct_set_unique [of f]) (simp_all add: distinct_map)
qed

lemma duplicateProduct_ids:
  "map pf_productId xs = map pf_productId ys \<Longrightarrow> duplicateProduct xs = duplicateProduct ys"
proof (induction xs arbitrary: ys rule: duplicateProduct.induct)
  case (1 p q ps)
  then show ?case by (cases ys; cases "tl ys") auto
qed (auto simp: neq_Nil_conv)

text \<open>An evaluation does not depend on the order in which products are listed.\<close>

theorem portfolio_order_irrelevant:
  assumes "mset ps = mset qs"
  shows "evaluatePortfolioRisk ps l = evaluatePortfolioRisk qs l"
proof -
  have ids: "map pf_productId (sort_key pf_productId ps) = map pf_productId (sort_key pf_productId qs)"
    unfolding map_sort_key using assms by (intro properties_for_sort) (simp_all add: mset_map)
  show ?thesis
  proof (cases "distinct (map pf_productId ps)")
    case True
    then show ?thesis
      by (simp add: evaluatePortfolioRisk_def sort_key_unique [OF assms])
  next
    case False
    then have "duplicateProduct (sort_key pf_productId ps) \<noteq> None"
      by (subst duplicateProduct_iff) (simp_all add: distinct_map card_distinct)
    then show ?thesis
      using duplicateProduct_ids [OF ids] by (auto simp: evaluatePortfolioRisk_def Let_def)
  qed
qed

definition sample_product :: "string \<Rightarrow> OrderIntent option \<Rightarrow> PortfolioProductRiskInput" where
  "sample_product k o' = \<lparr>pf_productId = k, pf_intent = o', pf_snapshot = sample_snapshot,
     pf_config = sample_config\<rparr>"

definition sample_limits :: "rat \<Rightarrow> PortfolioRiskLimits" where
  "sample_limits x = \<lparr>pf_maxGrossExposure = Fin x, pf_maxDailyLoss = Fin 100\<rparr>"

lemmas pf_samples = sample_product_def sample_limits_def risk_samples

lemma sample_check:
  "checkRisk (sample_order sd) sample_snapshot sample_config =
     Inr (APPROVED
       \<lparr>stopLossPrice = (if sd = BUY then Fin 60 else Fin 68),
        takeProfitPrice = (if sd = BUY then Fin 72 else Fin 56),
        projectedPositionNotional = (if sd = BUY then Fin 896 else Fin 384),
        projectedGrossExposure = (if sd = BUY then Fin 896 else Fin 384)\<rparr>)"
proof -
  have n: "fl (1 / 16) = Fin (1 / 16)" "fl (1 / 8) = Fin (1 / 8)" "fl (15 / 16) = Fin (15 / 16)"
    "fl (17 / 16) = Fin (17 / 16)" "fl (9 / 8) = Fin (9 / 8)" "fl (7 / 8) = Fin (7 / 8)"
    using fl_frac [of 1 4] fl_frac [of 1 3] fl_frac [of 15 4] fl_frac [of 17 4] fl_frac [of 9 3]
      fl_frac [of 7 3] by simp_all
  have t: "\<not> Fin 14 < short_tolerance" "\<not> Fin 6 < short_tolerance"
    using number_lt_le_trans [OF _ short_tolerance_bounds(1), of "Fin 14"]
      number_lt_le_trans [OF _ short_tolerance_bounds(1), of "Fin 6"] by fastforce+
  show ?thesis
    by (cases sd) (simp_all add: checkRisk_def risk_samples risk_eval Let_def n t)
qed

lemma sample_product_simps [simp]:
  "pf_productId (sample_product k o') = k" "pf_intent (sample_product k o') = o'"
  "pf_snapshot (sample_product k o') = sample_snapshot"
  "pf_config (sample_product k o') = sample_config"
  "currentNotional (sample_product k o') = Fin 640" "dailyPnl sample_snapshot = Fin 0"
  "pf_maxGrossExposure (sample_limits x) = Fin x" "pf_maxDailyLoss (sample_limits x) = Fin 100"
  by (simp_all add: pf_samples currentNotional_def)

lemma sample_admit:
  "admitProduct (sample_limits x) (Fin r) (sample_product k (Some (sample_order sd))) =
     (let r' = fl (r + (if sd = BUY then 256 else - 256))
      in if Fin x < r' then ok (PF_REJECTED CONSOLIDATED_GROSS_EXPOSURE_LIMIT, Fin r)
         else ok (PF_APPROVED
           \<lparr>stopLossPrice = (if sd = BUY then Fin 60 else Fin 68),
            takeProfitPrice = (if sd = BUY then Fin 72 else Fin 56),
            projectedPositionNotional = (if sd = BUY then Fin 896 else Fin 384),
            projectedGrossExposure = (if sd = BUY then Fin 896 else Fin 384)\<rparr>, r'))"
  by (simp add: admitProduct_def sample_check number_diff_Fin Let_def)

lemmas pf_eval = evaluatePortfolioRisk_def Let_def validLimits_def sample_admit

theorem portfolio_cap_respected_witness:
  "\<exists>ev. evaluatePortfolioRisk [sample_product ''ETH-USD'' (Some (sample_order BUY)),
       sample_product ''BTC-USD'' (Some (sample_order BUY))] (sample_limits 1600) = Inr ev \<and>
     map fst (decisions ev) = [''BTC-USD'', ''ETH-USD''] \<and>
     (\<exists>a. snd (decisions ev ! 0) = PF_APPROVED a) \<and> \<not> Fin 1600 < consolidatedGrossExposure ev"
proof -
  let ?ps = "[sample_product ''ETH-USD'' (Some (sample_order BUY)),
       sample_product ''BTC-USD'' (Some (sample_order BUY))]"
  let ?a = "\<lparr>stopLossPrice = Fin 60, takeProfitPrice = Fin 72,
    projectedPositionNotional = Fin 896, projectedGrossExposure = Fin 896\<rparr>"
  define ev where "ev = \<lparr>decisions = [(''BTC-USD'', PF_APPROVED ?a),
      (''ETH-USD'', PF_REJECTED CONSOLIDATED_GROSS_EXPOSURE_LIMIT)],
    consolidatedGrossExposure = Fin 1536, consolidatedDailyPnl = Fin 0\<rparr>"
  have le: "''BTC-USD'' \<le> ''ETH-USD''" "\<not> ''ETH-USD'' \<le> ''BTC-USD''"
    by code_simp+
  have "sort_key pf_productId ?ps = rev ?ps"
    by (simp add: le)
  then have ev: "evaluatePortfolioRisk ?ps (sample_limits 1600) = Inr ev"
    by (simp add: pf_eval ev_def del: sort_key_simps)
  moreover have "\<not> consolidatedDailyPnl ev \<le> - pf_maxDailyLoss (sample_limits 1600)"
    by (simp add: ev_def)
  then have "\<not> pf_maxGrossExposure (sample_limits 1600) < consolidatedGrossExposure ev \<or>
      (\<forall>(k, d)\<in>set (decisions ev). \<forall>a. d \<noteq> PF_APPROVED a)"
    using portfolio_cap_respected [OF ev _ refl refl] by blast
  ultimately show ?thesis
    by (simp add: ev_def)
qed

theorem portfolio_order_irrelevant_witness:
  "evaluatePortfolioRisk [sample_product ''ETH-USD'' None, sample_product ''BTC-USD'' None]
     (sample_limits 100) =
   evaluatePortfolioRisk [sample_product ''BTC-USD'' None, sample_product ''ETH-USD'' None]
     (sample_limits 100)"
  by (rule portfolio_order_irrelevant) simp

text \<open>A reduction of risk can be blocked by the cap.  Take one product whose current
  exposure is above the consolidated cap, and an order its own gate approves.  If the exposure
  after the order is still above the cap, the order is rejected, even when it lowers the
  exposure: nothing in the admission distinguishes a reduction.\<close>

theorem derisking_can_be_blocked:
  assumes "validLimits l" "pf_intent p = Some i"
    and "checkRisk i (pf_snapshot p) (pf_config p) = Inr (APPROVED a)"
    and "\<not> dailyPnl (pf_snapshot p) \<le> - pf_maxDailyLoss l" "binary64 (dailyPnl (pf_snapshot p))"
    and "binary64 (currentNotional p)"
    and "projectedPositionNotional a < currentNotional p"
    and "pf_maxGrossExposure l < currentNotional p + (projectedPositionNotional a - currentNotional p)"
  shows "\<exists>ev. evaluatePortfolioRisk [p] l = Inr ev \<and>
    decisions ev = [(pf_productId p, PF_REJECTED CONSOLIDATED_GROSS_EXPOSURE_LIMIT)]"
proof -
  have zero: "Fin 0 + x = x" if "binary64 x" for x
    using that by (cases x) (simp_all add: fl_representable)
  have "admitProduct l (currentNotional p) p =
      ok (PF_REJECTED CONSOLIDATED_GROSS_EXPOSURE_LIMIT, currentNotional p)"
    using assms(2,3,8) by (simp add: admitProduct_def Let_def)
  then show ?thesis
    using assms(1,4) zero [OF assms(5)] zero [OF assms(6)]
    by (simp add: evaluatePortfolioRisk_def)
qed

theorem derisking_can_be_blocked_witness:
  "\<exists>ev. evaluatePortfolioRisk [sample_product ''BTC-USD'' (Some (sample_order SELL))]
       (sample_limits 300) = Inr ev \<and>
     decisions ev = [(''BTC-USD'', PF_REJECTED CONSOLIDATED_GROSS_EXPOSURE_LIMIT)]"
  using derisking_can_be_blocked [of "sample_limits 300"
      "sample_product ''BTC-USD'' (Some (sample_order SELL))" "sample_order SELL"]
  by (simp add: validLimits_def sample_check number_diff_Fin binary64_def)

end
