(* ===== verification/AllocatorProps.thy ===== *)
theory AllocatorProps
  imports Allocator
begin

text \<open>
  The allocator: which orders an allocation contains, and that it does not depend on how the
  signals of different products are interleaved.
\<close>

subsection \<open>Groups\<close>

definition active :: "string \<Rightarrow> Signal list \<Rightarrow> Signal list" where
  "active k xs = filter (\<lambda>s. sig_productId s = k \<and> sig_side s \<noteq> SigHold) xs"

lemma map_of_groupSignals:
  "map_of (groupSignals xs) k = (if active k xs = [] then None else Some (active k xs))"
proof (induction xs rule: rev_induct)
  case (snoc x xs)
  then show ?case
    by (auto simp: groupSignals_def active_def update_conv' split: if_splits)
qed (simp add: groupSignals_def active_def)

lemma distinct_groupSignals: "distinct (map fst (groupSignals xs))"
  unfolding groupSignals_def
  by (rule foldl_invariant) (auto simp: distinct_update)

lemma sorted_keys_groupSignals:
  "sorted (sorted_keys (groupSignals xs)) \<and> distinct (sorted_keys (groupSignals xs)) \<and>
   set (sorted_keys (groupSignals xs)) = {k. active k xs \<noteq> []}"
proof -
  have "k \<in> fst ` set (groupSignals xs) \<longleftrightarrow> active k xs \<noteq> []" for k
    using map_of_groupSignals [of xs k] map_of_eq_None_iff [of "groupSignals xs" k] by auto
  then show ?thesis
    using distinct_sorted_keys [OF distinct_groupSignals]
    by (auto simp: set_sorted_keys sorted_keys_def)
qed

lemma allocateProduct_cong:
  "map_of g k = map_of h k \<Longrightarrow> allocateProduct i g k st = allocateProduct i h k st"
  by (simp add: allocateProduct_def)

lemma allocateProducts_cong:
  "(\<And>k. map_of g k = map_of h k) \<Longrightarrow> allocateProducts i g ks st = allocateProducts i h ks st"
  by (induction ks arbitrary: st)
     (auto simp: allocateProduct_cong [of g _ h] split: sum.splits)

lemma allocateProduct_signals:
  "allocateProduct (i\<lparr>signals := xs\<rparr>) g k st = allocateProduct i g k st"
  unfolding allocateProduct_def
  by (simp cong del: prod.case_cong_weak option.case_cong_weak sum.case_cong_weak if_weak_cong)

lemma allocateProducts_signals:
  "allocateProducts (i\<lparr>signals := xs\<rparr>) g ks st = allocateProducts i g ks st"
  by (induction ks arbitrary: st) (simp_all add: allocateProduct_signals split: sum.splits)

subsection \<open>A sample\<close>

lemma createClientOrderId_ok:
  assumes "non_blank a" "non_blank c" "non_blank d" "n < 2 ^ 52"
  obtains u where "createClientOrderId a c d (Fin (of_nat n)) = Inr u" "non_blank u"
proof -
  have "rat_of_nat n \<le> 9007199254740991"
    using assms(4) by (simp add: of_nat_less_iff [of n "2 ^ 52", where 'a = rat, symmetric])
  then have "isSafeInteger (Fin (of_nat n))"
    by (simp add: isSafeInteger_def)
  with assms that show thesis
    by (auto simp: createClientOrderId_def Let_def isNonEmpty_def non_blank_iff js_space_def)
qed

definition sample_signal :: "string \<Rightarrow> SignalSide \<Rightarrow> Signal" where
  "sample_signal k sd = \<lparr>sig_strategyId = ''breakout'', sig_productId = k, sig_side = sd,
     sig_confidence = Fin 1, sig_suggestedSize = Fin 2, sig_reasonCode = ''r''\<rparr>"

definition sample_allocation :: AllocationInput where
  "sample_allocation =
     \<lparr>agentId = ''a'', cycleId = ''c'', alloc_decisionId = ''d'',
      signals = [sample_signal ''ETH-USD'' SigSell, sample_signal ''BTC-USD'' SigBuy],
      marketPrices = [(''ETH-USD'', Fin 8), (''BTC-USD'', Fin 64)],
      capitalAvailable = Fin 256, maxDecisionNotional = Fin 512, minNetQuantity = Fin 0\<rparr>"

lemmas sample_allocation_defs = sample_allocation_def sample_signal_def

lemma sample_allocates:
  "\<exists>d. allocateSignals sample_allocation = Inr d \<and>
     map (\<lambda>x. (productId x, side x, quantity x)) (dec_orders d) =
       [(''BTC-USD'', BUY, Fin 2), (''ETH-USD'', SELL, Fin 2)]"
proof -
  have nb: "non_blank ''a''" "non_blank ''c''" "non_blank ''d''" "non_blank ''breakout''"
    by (simp_all add: non_blank_iff js_space_def)
  obtain u where u: "createClientOrderId ''a'' ''c'' ''d'' (Fin 0) = Inr u" "non_blank u"
    using createClientOrderId_ok [OF nb(1-3), of 0] by auto
  obtain v where v: "createClientOrderId ''a'' ''c'' ''d'' (Fin 1) = Inr v" "non_blank v"
    using createClientOrderId_ok [OF nb(1-3), of 1] by auto
  have g: "groupSignals (signals sample_allocation) =
      [(''ETH-USD'', [sample_signal ''ETH-USD'' SigSell]),
       (''BTC-USD'', [sample_signal ''BTC-USD'' SigBuy])]"
    by (simp add: groupSignals_def sample_allocation_defs)
  have ks: "sorted_keys [(''ETH-USD'', [sample_signal ''ETH-USD'' SigSell]),
       (''BTC-USD'', [sample_signal ''BTC-USD'' SigBuy])] = [''BTC-USD'', ''ETH-USD'']"
    by (simp add: sorted_keys_def)
  show ?thesis
    using u v nb g ks unfolding sample_allocation_defs
    by (simp add: allocateSignals_def validInput_def Let_def allocateProduct_def
      createOrderIntent_def isNonEmpty_def netOf_def contributors_def js_min_def
      isPositiveFinite_def minus_number_def)
qed

subsection \<open>Products are independent\<close>

text \<open>The interleaving of products does not matter.  Two lists of signals with the same
  signals for each product, in the same order, leaving holds aside, give the same allocation.\<close>

theorem allocation_ignores_interleaving:
  assumes "\<And>k. active k xs = active k ys"
  shows "allocateSignals (i\<lparr>signals := xs\<rparr>) = allocateSignals (i\<lparr>signals := ys\<rparr>)"
proof -
  have "sorted_keys (groupSignals xs) = sorted_keys (groupSignals ys)"
    using sorted_keys_groupSignals [of xs] sorted_keys_groupSignals [of ys] assms
    by (intro sorted_distinct_set_unique) auto
  moreover have "map_of (groupSignals xs) k = map_of (groupSignals ys) k" for k
    by (simp add: map_of_groupSignals assms)
  then have "allocateProducts i (groupSignals xs) = allocateProducts i (groupSignals ys)"
    by (intro ext allocateProducts_cong)
  moreover have "allocateSignals (i\<lparr>signals := zs\<rparr>) =
    (if \<not> validInput i then err INVALID_ALLOCATION_CONFIG
     else case allocateProducts i (groupSignals zs) (sorted_keys (groupSignals zs))
            (js_min (capitalAvailable i) (maxDecisionNotional i), [], []) of
            Inl e \<Rightarrow> err e
          | Inr (_, nets, orders) \<Rightarrow>
              ok \<lparr>dec_decisionId = alloc_decisionId i,
                dec_outcome = (if orders = [] then NO_ACTION else ALLOCATED),
                dec_orders = orders, netQuantities = nets\<rparr>)" for zs
    unfolding allocateSignals_def Let_def
    by (simp add: allocateProducts_signals validInput_def
      cong del: prod.case_cong_weak sum.case_cong_weak if_weak_cong)
  ultimately show ?thesis
    by simp
qed

theorem allocation_ignores_interleaving_witness:
  "allocateSignals sample_allocation =
     allocateSignals (sample_allocation\<lparr>signals :=
       [sample_signal ''BTC-USD'' SigBuy, sample_signal ''BTC-USD'' SigHold,
        sample_signal ''ETH-USD'' SigSell]\<rparr>)"
proof -
  have "active k (signals sample_allocation) = active k
      [sample_signal ''BTC-USD'' SigBuy, sample_signal ''BTC-USD'' SigHold,
        sample_signal ''ETH-USD'' SigSell]" for k
    by (auto simp: active_def sample_allocation_defs)
  from allocation_ignores_interleaving [OF this, of sample_allocation] show ?thesis
    by (simp add: sample_allocation_def)
qed

subsection \<open>The orders of an allocation\<close>

text \<open>The \<open>n\<close>-th order of an allocation: what its product, its signals and the budget make it.\<close>

definition order_for :: "AllocationInput \<Rightarrow> nat \<Rightarrow> OrderIntent \<Rightarrow> bool" where
  "order_for i n ord \<longleftrightarrow>
     (let ss = active (productId ord) (signals i); net = netOf ss;
          budget = js_min (capitalAvailable i) (maxDecisionNotional i)
      in ss \<noteq> [] \<and>
         createClientOrderId (agentId i) (cycleId i) (alloc_decisionId i) (Fin (of_nat n))
           = Inr (clientOrderId ord) \<and>
         decisionId ord = alloc_decisionId i \<and> order_type ord = MARKET \<and> limitPrice ord = None \<and>
         side ord = (if Fin 0 < net then BUY else SELL) \<and>
         strategyIds ord =
           contributors (if Fin 0 < net then SigBuy else SigSell) ss \<and>
         isPositiveFinite (quantity ord) \<and> \<not> quantity ord \<le> minNetQuantity i \<and>
         quantity ord \<le> \<bar>net\<bar> \<and>
         (\<exists>px. map_of (marketPrices i) (productId ord) = Some px \<and> isPositiveFinite px \<and>
            quantity ord \<le> budget / px))"

definition alloc_inv :: "AllocationInput \<Rightarrow> string set \<Rightarrow> alloc_state \<Rightarrow> bool" where
  "alloc_inv i K st \<longleftrightarrow>
     (case st of (remaining, nets, orders) \<Rightarrow>
       (\<forall>n<length orders. order_for i n (orders ! n)) \<and>
       sorted_wrt (<) (map productId orders) \<and> productId ` set orders \<subseteq> K \<and>
       binary64 remaining \<and> remaining \<le> js_min (capitalAvailable i) (maxDecisionNotional i))"

lemma minus_le_self: "binary64 r \<Longrightarrow> Fin 0 < r \<Longrightarrow> r \<noteq> PosInf \<Longrightarrow> Fin 0 \<le> x \<Longrightarrow> r - x \<le> r"
  by (cases r; cases x) (auto simp: minus_number_def intro: fl_le_representable)

lemma divide_mono: "x \<le> y \<Longrightarrow> Fin 0 < x \<Longrightarrow> isPositiveFinite p \<Longrightarrow> x / p \<le> y / p"
  by (cases x; cases y; cases p)
     (auto simp: isPositiveFinite_def inf_of_def intro!: fl_mono divide_right_mono)

lemma times_nonneg: "isPositiveFinite x \<Longrightarrow> isPositiveFinite y \<Longrightarrow> Fin 0 \<le> x * y"
  by (cases x; cases y) (auto simp: isPositiveFinite_def intro: fl_nonneg)

lemma createOrderIntent_ok:
  "createOrderIntent x = Inr y \<Longrightarrow> y = x \<and> isPositiveFinite (quantity x)"
  by (auto simp: createOrderIntent_def split: if_splits)

lemma allocateProduct_priced:
  assumes "map_of (groupSignals (signals i)) k = Some ss" "map_of (marketPrices i) k = Some px"
    and "isPositiveFinite px"
  shows "allocateProduct i (groupSignals (signals i)) k (r, nets, orders) =
    (let net = netOf ss; qty = js_min \<bar>net\<bar> (r / px)
     in if \<bar>net\<bar> \<le> minNetQuantity i \<or> r \<le> Fin 0 \<or> qty \<le> minNetQuantity i
       then ok (r, AList.update k net nets, orders)
       else case createClientOrderId (agentId i) (cycleId i) (alloc_decisionId i)
           (Fin (of_nat (length orders))) of
         Inl e \<Rightarrow> err (INVALID_CLIENT_ORDER_ID e)
       | Inr cid \<Rightarrow>
           let sd = (if Fin 0 < net then BUY else SELL)
           in case createOrderIntent
               \<lparr>clientOrderId = cid, decisionId = alloc_decisionId i,
                strategyIds = contributors (if sd = BUY then SigBuy else SigSell) ss,
                productId = k, side = sd, order_type = MARKET, quantity = qty,
                limitPrice = None\<rparr> of
               Inl e \<Rightarrow> err (INVALID_ORDER_INTENT e)
             | Inr intent \<Rightarrow>
                 ok (r - qty * px, AList.update k net nets, orders @ [intent]))"
proof -
  have "\<not> px \<le> Fin 0"
    using assms(3) by (cases px) (auto simp: isPositiveFinite_def)
  with assms show ?thesis
    by (simp add: allocateProduct_def isPositiveFinite_def Let_def
      cong del: sum.case_cong_weak if_weak_cong)
qed

lemma alloc_inv_product:
  assumes inv: "alloc_inv i K st" and fin: "isFinite (capitalAvailable i)"
      "isFinite (maxDecisionNotional i)"
    and new: "\<forall>j\<in>K. j < k"
    and step: "allocateProduct i (groupSignals (signals i)) k st = Inr st'"
  shows "alloc_inv i (insert k K) st'"
proof -
  obtain r nets orders where st: "st = (r, nets, orders)"
    by (cases st)
  from inv have keep: "alloc_inv i (insert k K) (r, nets', orders)" for nets'
    by (auto simp: alloc_inv_def st)
  define ss where "ss = active k (signals i)"
  show ?thesis
  proof (cases "map_of (groupSignals (signals i)) k")
    case None
    with step have "st' = (r, nets, orders)"
      by (simp add: allocateProduct_def st)
    with keep show ?thesis
      by simp
  next
    case (Some ss')
    then have ss: "ss' = ss" "ss \<noteq> []"
      by (auto simp: map_of_groupSignals ss_def split: if_splits)
    from step Some ss obtain px where px: "map_of (marketPrices i) k = Some px" "isPositiveFinite px"
      by (auto simp: allocateProduct_def st isPositiveFinite_def not_le
        split: option.splits if_splits elim!: isFiniteE)
    define net qty where "net = netOf ss" and "qty = js_min \<bar>net\<bar> (r / px)"
    have r: "binary64 r" "r \<le> js_min (capitalAvailable i) (maxDecisionNotional i)"
      using inv by (auto simp: alloc_inv_def st)
    note eq = allocateProduct_priced [OF Some [unfolded ss(1)] px, of r nets orders,
      folded net_def, unfolded Let_def, folded qty_def]
    show ?thesis
    proof (cases "\<bar>net\<bar> \<le> minNetQuantity i \<or> r \<le> Fin 0 \<or> qty \<le> minNetQuantity i")
      case True
      with step eq have "st' = (r, AList.update k net nets, orders)"
        by (simp add: st)
      with keep show ?thesis
        by simp
    next
      case False
      define ord where "ord = (\<lambda>cid. \<lparr>clientOrderId = cid, decisionId = alloc_decisionId i,
        strategyIds = contributors (if Fin 0 < net then SigBuy else SigSell) ss, productId = k,
        side = (if Fin 0 < net then BUY else SELL), order_type = MARKET, quantity = qty,
        limitPrice = None\<rparr>)"
      from False step eq obtain cid where cid:
        "createClientOrderId (agentId i) (cycleId i) (alloc_decisionId i)
           (Fin (of_nat (length orders))) = Inr cid"
        and made: "createOrderIntent (ord cid) = Inr (ord cid)"
        and st': "st' = (r - qty * px, AList.update k net nets, orders @ [ord cid])"
        by (auto simp: st ord_def dest!: createOrderIntent_ok split: sum.splits if_splits)
      have qty: "isPositiveFinite qty"
        using createOrderIntent_ok [OF made] by (simp add: ord_def)
      then have "qty \<noteq> NaN"
        by (auto simp: isPositiveFinite_def)
      then have le: "qty \<le> \<bar>net\<bar>" "qty \<le> r / px"
        using js_min_le [of "\<bar>net\<bar>" "r / px"] by (simp_all add: qty_def)
      have "r \<noteq> NaN"
        using \<open>qty \<noteq> NaN\<close> by (auto simp: qty_def)
      then have pos: "Fin 0 < r"
        using False number_not_le [of r "Fin 0"] by simp
      have "r \<noteq> PosInf"
        using r(2) fin by (auto simp: js_min_def elim!: isFiniteE split: if_splits)
      then have spent: "r - qty * px \<le> r"
        using minus_le_self [OF r(1) pos] times_nonneg [OF qty px(2)] by blast
      have "binary64 (qty * px)"
        using qty px(2) by (cases qty; cases px) (auto simp: isPositiveFinite_def)
      then have b: "binary64 (r - qty * px)"
        using r(1) by (rule binary64_minus [rotated])
      have "qty \<le> js_min (capitalAvailable i) (maxDecisionNotional i) / px"
        using le(2) divide_mono [OF r(2) pos px(2)] by (rule number_le_trans)
      then have "order_for i (length orders) (ord cid)"
        using cid qty le False ss px
        by (simp add: order_for_def ord_def ss_def [symmetric] net_def [symmetric] Let_def)
      then show ?thesis
        using inv new b spent number_le_trans [OF spent r(2)]
        by (auto simp: alloc_inv_def st st' nth_append less_Suc_eq ord_def sorted_wrt_append)
    qed
  qed
qed

lemma alloc_inv_products:
  assumes "allocateProducts i (groupSignals (signals i)) ks st = Inr st'" "alloc_inv i K st"
    and "isFinite (capitalAvailable i)" "isFinite (maxDecisionNotional i)"
    and "sorted_wrt (<) ks" "\<forall>j\<in>K. \<forall>k\<in>set ks. j < k"
  shows "alloc_inv i (K \<union> set ks) st'"
  using assms
proof (induction ks arbitrary: st K)
  case (Cons k ks)
  from Cons.prems(1) obtain st1 where
    step: "allocateProduct i (groupSignals (signals i)) k st = Inr st1" and
    rest: "allocateProducts i (groupSignals (signals i)) ks st1 = Inr st'"
    by (auto split: sum.splits)
  have "alloc_inv i (insert k K) st1"
    using Cons.prems by (intro alloc_inv_product [OF _ _ _ _ step]) auto
  then have "alloc_inv i (insert k K \<union> set ks) st'"
    using Cons.prems by (intro Cons.IH [OF rest]) auto
  then show ?case
    by simp
qed simp

text \<open>C33: what an accepted allocation contains.  Every order is a market order of one product, the
  products in strictly increasing order; its client id is that of its position in the list; its
  side and its contributors follow the net of the signals of the product; its quantity is a
  positive finite number above the threshold, at most the net, and at most what the whole budget
  (the smaller of the capital and of the cap on a decision) buys at the market price.\<close>

theorem allocation_orders:
  assumes accepted: "allocateSignals i = Inr d"
    and width: "binary64 (capitalAvailable i)" "binary64 (maxDecisionNotional i)"
  shows "sorted_wrt (<) (map productId (dec_orders d)) \<and>
    (\<forall>n<length (dec_orders d). order_for i n (dec_orders d ! n)) \<and>
    (dec_outcome d = NO_ACTION \<longleftrightarrow> dec_orders d = [])"
proof -
  from accepted have valid: "validInput i"
    by (auto simp: allocateSignals_def split: if_splits)
  define b where "b = js_min (capitalAvailable i) (maxDecisionNotional i)"
  define ks where "ks = sorted_keys (groupSignals (signals i))"
  from accepted valid obtain r nets where
    run: "allocateProducts i (groupSignals (signals i)) ks (b, [], []) = Inr (r, nets, dec_orders d)"
    and "dec_outcome d = (if dec_orders d = [] then NO_ACTION else ALLOCATED)"
    by (auto simp: allocateSignals_def Let_def b_def ks_def split: sum.splits prod.splits)
  moreover have "alloc_inv i ({} \<union> set ks) (r, nets, dec_orders d)"
  proof (rule alloc_inv_products [OF run])
    have "b \<noteq> NaN"
      using valid by (auto simp: b_def validInput_def)
    then show "alloc_inv i {} (b, [], [])"
      using width by (auto simp: alloc_inv_def b_def js_min_def)
    show "sorted_wrt (<) ks"
      using sorted_keys_groupSignals by (simp add: ks_def strict_sorted_iff)
  qed (use valid in \<open>auto simp: validInput_def\<close>)
  ultimately show ?thesis
    by (auto simp: alloc_inv_def)
qed

theorem allocation_orders_witness:
  "\<exists>d. allocateSignals sample_allocation = Inr d \<and>
     order_for sample_allocation 0 (dec_orders d ! 0) \<and>
     order_for sample_allocation 1 (dec_orders d ! 1)"
proof -
  obtain d where d: "allocateSignals sample_allocation = Inr d"
    and m: "map (\<lambda>x. (productId x, side x, quantity x)) (dec_orders d) =
       [(''BTC-USD'', BUY, Fin 2), (''ETH-USD'', SELL, Fin 2)]"
    using sample_allocates by (elim exE conjE) (rule that)
  have "length (dec_orders d) = 2"
    using arg_cong [OF m, of length] by simp
  moreover have "binary64 (capitalAvailable sample_allocation)"
    "binary64 (maxDecisionNotional sample_allocation)"
    by (simp_all add: sample_allocation_def)
  ultimately show ?thesis
    using allocation_orders [OF d] d by auto
qed

end
