(* ===== verification/InterpreterCorrect.thy ===== *)
theory InterpreterCorrect
  imports JournalFaithful TradingCycleCorrect StrategiesProps RiskProps AllocatorProps
begin

text \<open>
  A cycle run from the alarm to the confirmed order, on concrete effects: the properties of the
  interpreter applied to it are not vacuous.
\<close>

definition demo_indicators :: IndicatorSnapshot where
  "demo_indicators =
     \<lparr>snapshotId = ''i1'', candleClosedAt = Fin 60000, rsi = Fin 0, emaFast = Fin 128,
      emaSlow = Fin 128, signalEmaFast = None, signalEmaSlow = None, macd = Fin 0, atr = Fin 1,
      historicalVolatility = Fin 0, momentum = Fin 0, periodicReturns = [], ohlcvVwap = None,
      tradeVwap = None, orderBookVwap = None, bidAskSpread = None, relativeVolume = None,
      volumeSpike = None, volumeTrend = None, vwapDeviation = None, trendStrength = Fin 0,
      fundingAvg = None\<rparr>"

definition demo_host :: host where
  "demo_host =
     \<lparr>h_send = tc_send, h_restore = (\<lambda>m. m), h_indicators = (\<lambda>_ _ _. Inr demo_indicators),
      h_pow = (\<lambda>x _. x), h_sqrt = (\<lambda>x. x), h_number_string = (\<lambda>_. ''t'')\<rparr>"

definition demo_config :: AgentConfiguration where
  "demo_config =
     \<lparr>conf_productId = ''BTC-USD'', conf_timeframe = ONE_MINUTE, conf_strategyIds = [''rsi-reversion''],
      conf_intervalSeconds = Fin 60, conf_maxMarketStalenessMs = Fin 300000,
      conf_candleLimit = Fin 1, conf_initialCapital = Fin 1024, conf_maxDecisionNotional = Fin 512,
      conf_minNetQuantity = Fin 0, conf_executionMode = PAPER,
      conf_sizingPolicy = TARGET_SIGNAL_NOTIONAL (Fin 256) ''none'',
      conf_indicators = \<lparr>rsiPeriod = Fin 14, emaFastPeriod = Fin 12, emaSlowPeriod = Fin 26,
        atrPeriod = Fin 14, historicalVolatilityPeriod = Fin 20, momentumPeriod = Fin 10,
        returnPeriods = [], vwapPeriod = Fin 20, relativeVolumePeriod = Fin 20,
        volumeSpikeThreshold = Fin 2, volumeTrendPeriod = Fin 20, trendStrengthPeriod = Fin 14,
        signalEmaFastPeriod = None, signalEmaSlowPeriod = None\<rparr>,
      conf_risk = sample_config, conf_broker = \<lparr>feeBps = Fin 0, slippageBps = Fin 0\<rparr>\<rparr>"

definition demo_candle :: Candle where
  "demo_candle = \<lparr>Candle.start = Fin 0, open_price = Fin 128, high = Fin 128, low = Fin 128,
     close_price = Fin 128, volume = Fin 1\<rparr>"

definition demo_market :: MarketSnapshot where
  "demo_market = \<lparr>ms_productId = ''BTC-USD'', ms_timeframe = ONE_MINUTE, ms_candles = [demo_candle],
     ms_source = ''live'', ms_cached = False, ms_valuationMark = None\<rparr>"

definition demo_portfolio :: PaperPortfolio where
  "demo_portfolio = \<lparr>cash = Fin 1024, positionQuantity = Fin 0, averagePrice = Fin 0\<rparr>"

definition demo_token :: ExecutionAuthorization where
  "demo_token = \<lparr>auth_issuedAt = Fin 100003, auth_expiresAt = Fin 160000, auth_credential = None\<rparr>"

definition demo_effects :: "unit TradingCycleEffects" where
  "demo_effects =
     \<lparr>reconcileAccount = (\<lambda>p t w. (Some (Inr \<lparr>rec_snapshotId = ''a1'', rec_observedAt = t,
        rec_portfolio = p, rec_accountEquity = cash p, rec_otherExposureNotional = Fin 0\<rparr>), w)),
      fetchMarketData = (\<lambda>_ _ w. (Some (Inr demo_market), w)), fetchFundingData = None,
      ensureSchedule = (\<lambda>_ w. (Some (Inr (Fin 200000)), w)), scheduleRetry = None,
      checkpoint = (\<lambda>_ w. (Some (Inr ()), w)), persistMachine = (\<lambda>_ w. (Some (), w)),
      persistOrderIntent = (\<lambda>_ _ w. (Some (Inr ()), w)),
      authorize = (\<lambda>_ w. (Some (Inr demo_token), w)),
      submitOrder = (\<lambda>_ _ _ _ p _ w. (Some (CONFIRMED ''x1'' p None None None None None), w)),
      reconcileOrder = (\<lambda>_ _ p w. (Some (Inr (CONFIRMED ''x1'' p None None None None None)), w)),
      cancelCurrentEffect = (\<lambda>_ w. (Some (Inr ()), w)),
      persistCycle = (\<lambda>_ _ w. (Some (Inr ()), w)),
      proposePortfolioRisk = Some (\<lambda>_ _ w. (Some \<lparr>adm_approved = True, adm_reasonCode = None\<rparr>, w))\<rparr>"

definition demo_machine :: PersistedTradingMachine where
  "demo_machine = play tc_send (tc_boot sample_input)
     [START_REQUESTED full_control, SCHEDULE_SUCCEEDED (Fin 100000)]"

definition demo_input :: "unit RunTradingCycleInput" where
  "demo_input =
     \<lparr>run_agentId = ''agent'', run_configuration = demo_config, run_machine = demo_machine,
      run_artifacts = None, run_previousIndicators = None, run_portfolio = demo_portfolio,
      run_dailyPnl = Fin 0, run_dailyRiskWindow = None, run_lastTradeAt = None,
      run_triggeredAt = Fin 100000, run_cycleId = ''c1'', run_triggerAlarm = True,
      run_effects = demo_effects, run_now = (\<lambda>w. (Some (Fin 100002), w))\<rparr>"

lemmas demo_defs = demo_host_def demo_config_def demo_effects_def demo_input_def

subsection \<open>Hypotheses of the properties\<close>

lemma demo_machine_state: "fst demo_machine = Waiting" "tc_quiet demo_machine"
  "retryLimits (snd demo_machine) = defaultRetryLimits"
  by (simp_all add: demo_machine_def sample_defs tc_eval tc_quiet_def)

lemma demo_host_ok: "machine_host demo_host"
  using runtime_of_tc by (auto simp: machine_host_def demo_host_def)

lemma demo_settles: "effects_settle demo_input"
  by (simp add: effects_settle_def demo_input_def demo_effects_def resolves_def)

definition demo_strategy :: Strategy where
  "demo_strategy = the (configuredStrategy demo_host demo_config ''rsi-reversion'')"

lemma demo_strategy_eq: "demo_strategy = withTargetSignalNotional (createRsiReversionStrategy
     \<lparr>rsi_id = Some ''rsi-reversion'', oversold = Fin 30, overbought = Fin 70,
      rsi_baseSize = fl (1 / 100)\<rparr>) (Fin 256)"
  by (simp add: demo_strategy_def configuredStrategy_def demo_config_def Let_def)

lemma demo_configured: "configuredStrategy demo_host demo_config ''rsi-reversion'' = Some demo_strategy"
  by (simp add: demo_strategy_def configuredStrategy_def demo_config_def Let_def)

lemma demo_strategy_id: "strategy_id demo_strategy = ''rsi-reversion''"
  by (simp add: demo_strategy_eq withTargetSignalNotional_def createRsiReversionStrategy_def Let_def)

definition demo_registry :: StrategyRegistry where
  "demo_registry = the (createConfiguredStrategyRegistry demo_host demo_config)"

lemma demo_registers: "createConfiguredStrategyRegistry demo_host demo_config = Some demo_registry"
  "evaluateAll demo_registry = evaluateIds [(''rsi-reversion'', demo_strategy)] [''rsi-reversion'']"
proof -
  have strategies: "map (configuredStrategy demo_host demo_config) (conf_strategyIds demo_config) = [Some demo_strategy]"
    using demo_configured by (simp add: demo_config_def)
  have "createConfiguredStrategyRegistry demo_host demo_config = Some
    \<lparr>ids = [''rsi-reversion''], get_strategy = map_of [(''rsi-reversion'', demo_strategy)],
     evaluateAll = evaluateIds [(''rsi-reversion'', demo_strategy)] [''rsi-reversion'']\<rparr>"
    unfolding createConfiguredStrategyRegistry_def strategies
    by (simp add: createStrategyRegistry_def demo_strategy_id has_own_def sorted_keys_def Let_def)
  then show "createConfiguredStrategyRegistry demo_host demo_config = Some demo_registry"
    "evaluateAll demo_registry = evaluateIds [(''rsi-reversion'', demo_strategy)] [''rsi-reversion'']"
    by (simp_all add: demo_registry_def)
qed

subsection \<open>The decision\<close>

definition demo_signal :: Signal where
  "demo_signal = \<lparr>sig_strategyId = ''rsi-reversion'', sig_productId = ''BTC-USD'', sig_side = SigBuy,
     sig_confidence = Fin 1, sig_suggestedSize = Fin 2, sig_reasonCode = ''RSI_OVERSOLD''\<rparr>"

definition demo_context :: StrategyContext where
  "demo_context = \<lparr>ctx_productId = ''BTC-USD'', ctx_candles = [demo_candle],
     ctx_indicators = demo_indicators, ctx_previousIndicators = None\<rparr>"

lemma fl_hundredth: "isFinite (fl (1 / 100))" "Fin 0 < fl (1 / 100)"
proof -
  have "fl (1 / 100) \<le> Fin (1 / 2)" "Fin (1 / 2 ^ 7) \<le> fl (1 / 100)"
    using representable_frac [of 1 1] representable_frac [of 1 7]
    by (simp_all add: fl_le_representable fl_ge_representable)
  then show "isFinite (fl (1 / 100))" "Fin 0 < fl (1 / 100)"
    by (cases "fl (1 / 100)"; simp)+
qed

lemma demo_names: "non_blank ''rsi-reversion''" "non_blank ''RSI_OVERSOLD''" "non_blank ''agent''"
  "non_blank ''c1''" "non_blank ''decision:c1''"
  by (simp_all add: non_blank_iff js_space_def)

lemma demo_evaluates: "evaluateAll demo_registry demo_context = Inr [demo_signal]"
proof -
  obtain q where q: "fl (1 / 100) = Fin q" "0 < q"
    using fl_hundredth by (cases "fl (1 / 100)") auto
  have full: "\<bar>Fin 50 - Fin 0\<bar> / Fin 50 = Fin 1"
    by (simp add: number_diff_Fin)
  have "evaluate (createRsiReversionStrategy \<lparr>rsi_id = Some ''rsi-reversion'', oversold = Fin 30,
      overbought = Fin 70, rsi_baseSize = Fin q\<rparr>) demo_context = Inr (demo_signal\<lparr>sig_suggestedSize := Fin q\<rparr>)"
    using q(2) by (simp add: createRsiReversionStrategy_def demo_context_def demo_indicators_def Let_def emit_def
        strategySignal_def createSignal_def isNonEmpty_def demo_names sized_def by_side_def js_min_def
        demo_signal_def full)
  then have "evaluate demo_strategy demo_context = Inr demo_signal"
    by (simp add: demo_strategy_eq withTargetSignalNotional_def q(1))
      (simp add: demo_signal_def demo_context_def demo_candle_def resolveTargetSignalQuantity_def
        isPositiveFinite_def createSignal_def isNonEmpty_def demo_names Let_def)
  then show ?thesis
    unfolding demo_registers(2) by simp
qed

definition demo_artifacts :: CycleArtifacts where
  "demo_artifacts = (freshArtifacts ''c1'' (Fin 100000))
     \<lparr>art_market := Some demo_market, art_indicators := Some demo_indicators,
      art_signals := Some [demo_signal]\<rparr>"

definition demo_allocation :: AllocationInput where
  "demo_allocation = \<lparr>AllocationInput.agentId = ''agent'', AllocationInput.cycleId = ''c1'',
     alloc_decisionId = ''decision:c1'', signals = [demo_signal], marketPrices = [(''BTC-USD'', Fin 128)],
     capitalAvailable = Fin 1024, maxDecisionNotional = Fin 512, minNetQuantity = Fin 0\<rparr>"

definition demo_decision :: AllocationDecision where
  "demo_decision = (case allocateSignals demo_allocation of Inr d \<Rightarrow> d)"

definition demo_order :: OrderIntent where
  "demo_order = hd (dec_orders demo_decision)"

lemma demo_allocates: "allocateSignals demo_allocation = Inr demo_decision"
  "dec_orders demo_decision = [demo_order]" "side demo_order = BUY" "quantity demo_order = Fin 2"
proof -
  obtain u where u: "createClientOrderId ''agent'' ''c1'' ''decision:c1'' (Fin 0) = Inr u" "non_blank u"
    using createClientOrderId_ok [OF demo_names(3-5), of 0] by auto
  have g: "groupSignals [demo_signal] = [(''BTC-USD'', [demo_signal])]"
    by (simp add: groupSignals_def demo_signal_def)
  have "\<exists>d x. allocateSignals demo_allocation = Inr d \<and> dec_orders d = [x] \<and> side x = BUY \<and> quantity x = Fin 2"
    using u g unfolding demo_allocation_def
    by (simp add: allocateSignals_def validInput_def Let_def allocateProduct_def createOrderIntent_def
        isNonEmpty_def netOf_def contributors_def js_min_def isPositiveFinite_def minus_number_def
        sorted_keys_def demo_names demo_signal_def)
  then show "allocateSignals demo_allocation = Inr demo_decision"
    "dec_orders demo_decision = [demo_order]" "side demo_order = BUY" "quantity demo_order = Fin 2"
    by (auto simp: demo_decision_def demo_order_def)
qed

definition demo_risk :: RiskSnapshot where
  "demo_risk = \<lparr>marketPrice = Fin 128, currentPositionQuantity = Fin 0, otherExposureNotional = Fin 0,
     dailyPnl = Fin 0, lastTradeAt = None, now = Fin 100000, killSwitchActive = False\<rparr>"

definition demo_approval :: RiskApproval where
  "demo_approval = (case checkRisk demo_order demo_risk sample_config of Inr (APPROVED v) \<Rightarrow> v)"

lemma demo_approved: "checkRisk demo_order demo_risk sample_config = Inr (APPROVED demo_approval)"
proof -
  have "\<not> Fin 2 < short_tolerance"
    using number_lt_le_trans [of "Fin 2" short_tolerance "Fin 0"] short_tolerance_bounds(1) by auto
  then have "\<exists>v. checkRisk demo_order demo_risk sample_config = Inr (APPROVED v)"
    unfolding checkRisk_def
    by (simp add: demo_risk_def demo_allocates sample_config_def risk_eval)
  then show ?thesis by (auto simp: demo_approval_def)
qed

subsection \<open>The run\<close>

definition demo_events :: "tradingCycleEvent list" where
  "demo_events =
     [ALARM_FIRED ''c1'' (Fin 100000), ACCOUNT_RECONCILED ''a1'',
      MARKET_DATA_READY ''market:BTC-USD:t:1'' (Fin 60000) (Fin 100002), INDICATORS_COMPUTED ''i1'',
      STRATEGIES_EVALUATED ''signals:c1'', ALLOCATION_COMPLETED ''decision:c1'' (Fin 1), RISK_APPROVED,
      ORDER_INTENT_PERSISTED (OrderIntent.clientOrderId demo_order),
      AUTHORIZATION_READY (Fin 160000) (Fin 100003), ORDER_CONFIRMED ''x1'', PERSIST_SUCCEEDED,
      SCHEDULE_SUCCEEDED (Fin 200000)]"

definition demo_at :: "nat \<Rightarrow> PersistedTradingMachine" where
  "demo_at n = play tc_send demo_machine (take n demo_events)"

lemma demo_at_0: "demo_at 0 = demo_machine"
  by (simp add: demo_at_def)

lemma demo_at_next:
  "demo_events ! n = e \<Longrightarrow> n < length demo_events \<Longrightarrow> tc_send (demo_at n) e = demo_at (Suc n)"
  by (auto simp: demo_at_def take_Suc_conv_app_nth play_snoc)

lemma demo_phases:
  "map (\<lambda>n. fst (demo_at n)) [0 ..< 13] =
     [Waiting, ReconcilingAccount, FetchingMarketData, ComputingIndicators, EvaluatingStrategies,
      Allocating, CheckingRisk, PersistingOrderIntent, Authorizing, SubmittingOrder, Persisting,
      Scheduling, Waiting]"
  "shutdownMode (snd (demo_at 6)) = NoShutdown"
  by (simp_all add: demo_at_def demo_events_def demo_machine_def upt_rec take_Cons' sample_defs tc_eval)

lemma demo_phase:
  "fst (demo_at 0) = Waiting" "fst (demo_at 1) = ReconcilingAccount" "fst (demo_at 2) = FetchingMarketData"
  "fst (demo_at 3) = ComputingIndicators" "fst (demo_at 4) = EvaluatingStrategies"
  "fst (demo_at 5) = Allocating" "fst (demo_at 6) = CheckingRisk" "fst (demo_at 7) = PersistingOrderIntent"
  "fst (demo_at 8) = Authorizing" "fst (demo_at 9) = SubmittingOrder" "fst (demo_at 10) = Persisting"
  "fst (demo_at 11) = Scheduling" "fst (demo_at 12) = Waiting"
  using demo_phases(1) by (simp_all add: upt_rec eval_nat_numeral)

lemma demo_sends:
  "tc_send (demo_at 0) (ALARM_FIRED ''c1'' (Fin 100000)) = demo_at 1"
  "tc_send (demo_at 1) (ACCOUNT_RECONCILED ''a1'') = demo_at 2"
  "tc_send (demo_at 2) (MARKET_DATA_READY ''market:BTC-USD:t:1'' (Fin 60000) (Fin 100002)) = demo_at 3"
  "tc_send (demo_at 3) (INDICATORS_COMPUTED ''i1'') = demo_at 4"
  "tc_send (demo_at 4) (STRATEGIES_EVALUATED ''signals:c1'') = demo_at 5"
  "tc_send (demo_at 5) (ALLOCATION_COMPLETED ''decision:c1'' (Fin 1)) = demo_at 6"
  "tc_send (demo_at 6) RISK_APPROVED = demo_at 7"
  "tc_send (demo_at 7) (ORDER_INTENT_PERSISTED (OrderIntent.clientOrderId demo_order)) = demo_at 8"
  "tc_send (demo_at 8) (AUTHORIZATION_READY (Fin 160000) (Fin 100003)) = demo_at 9"
  "tc_send (demo_at 9) (ORDER_CONFIRMED ''x1'') = demo_at 10"
  "tc_send (demo_at 10) PERSIST_SUCCEEDED = demo_at 11"
  "tc_send (demo_at 11) (SCHEDULE_SUCCEEDED (Fin 200000)) = demo_at 12"
  by (simp_all add: demo_at_next demo_events_def eval_nat_numeral)

text \<open>The state of the run, with any journal so far.\<close>

definition demo_state :: "PersistedTradingMachine \<Rightarrow> CycleArtifacts option \<Rightarrow> IndicatorSnapshot option
    \<Rightarrow> ExecutionAuthorization option \<Rightarrow> bool \<Rightarrow> number option \<Rightarrow> journal
    \<Rightarrow> (unit \<times> journal) interp" where
  "demo_state m a p k b e l =
     \<lparr>session = m, artifacts = a, previousIndicators = p, held = demo_portfolio,
      authorization_held = k, alarmTriggered = b, dailyRiskWindow = None, pnl = Fin 0,
      accountEquity = e, otherExposure = Fin 0, world = ((), l)\<rparr>"

abbreviation demo_step :: "(unit \<times> journal) interp \<Rightarrow> (unit \<times> journal) interp \<Rightarrow> bool" where
  "demo_step s t \<equiv> interpreter_step demo_host (journal_input demo_input) demo_registry True s = (Some Break, t)"

definition demo_fresh :: CycleArtifacts where
  "demo_fresh = freshArtifacts ''c1'' (Fin 100000)"

lemma demo_host_simps [simp]: "h_send demo_host = tc_send" "h_restore demo_host m = m"
  "h_indicators demo_host cs cf fu = Inr demo_indicators" "h_number_string demo_host x = ''t''"
  by (simp_all add: demo_host_def)

lemma demo_input_simps [simp]:
  "run_agentId demo_input = ''agent''" "run_configuration demo_input = demo_config"
  "run_machine demo_input = demo_machine" "run_artifacts demo_input = None"
  "run_portfolio demo_input = demo_portfolio" "run_lastTradeAt demo_input = None"
  "run_triggeredAt demo_input = Fin 100000" "run_cycleId demo_input = ''c1''"
  "run_triggerAlarm demo_input" "run_effects demo_input = demo_effects"
  "run_now demo_input w = (Some (Fin 100002), w)"
  by (simp_all add: demo_input_def)

lemma demo_effects_simps [simp]:
  "reconcileAccount demo_effects p t u = (Some (Inr \<lparr>rec_snapshotId = ''a1'', rec_observedAt = t,
      rec_portfolio = p, rec_accountEquity = cash p, rec_otherExposureNotional = Fin 0\<rparr>), u)"
  "fetchMarketData demo_effects cf t u = (Some (Inr demo_market), u)"
  "fetchFundingData demo_effects = None" "ensureSchedule demo_effects t u = (Some (Inr (Fin 200000)), u)"
  "checkpoint demo_effects ar u = (Some (Inr ()), u)" "persistMachine demo_effects m u = (Some (), u)"
  "persistOrderIntent demo_effects cy x u = (Some (Inr ()), u)"
  "authorize demo_effects x u = (Some (Inr demo_token), u)"
  "submitOrder demo_effects x v tk px p t u = (Some (CONFIRMED ''x1'' p None None None None None), u)"
  "persistCycle demo_effects a m u = (Some (Inr ()), u)"
  "proposePortfolioRisk demo_effects =
     Some (\<lambda>_ _ w. (Some \<lparr>adm_approved = True, adm_reasonCode = None\<rparr>, w))"
  by (simp_all add: demo_effects_def)

lemmas demo_run = interpreter_step_def asks_def seq_def assign_def call_def pure_def andBreak_def
  send_event_def checkpoint_artifacts_def checkpointed_def journaled_def demo_state_def demo_phase
  demo_phase(2) [unfolded One_nat_def] demo_sends demo_sends(2) [unfolded One_nat_def]
  demo_fresh_def freshArtifacts_def Let_def

lemma demo_step_alarm: "demo_step (demo_state (demo_at 0) None None None False None l)
    (demo_state (demo_at 1) (Some demo_fresh) None None True None (Persisted (demo_at 1) # l))"
  by (simp add: demo_run waiting_effect_def)

lemma demo_step_account: "demo_step (demo_state (demo_at 1) (Some demo_fresh) None None True None l)
    (demo_state (demo_at 2) (Some demo_fresh) None None True (Some (Fin 1024)) (Persisted (demo_at 2) # l))"
  by (simp add: demo_run reconcilingAccount_effect_def observeAccount_def anchorReconciledDailyRisk_def
      demo_config_def demo_portfolio_def)

lemma radix_1: "radix 10 (Suc 0) = ''1''"
  by code_simp

lemma demo_step_market:
  "demo_step (demo_state (demo_at 2) (Some demo_fresh) None None True e l)
    (demo_state (demo_at 3) (Some (demo_fresh\<lparr>art_market := Some demo_market\<rparr>)) None None True e
      (Persisted (demo_at 3) # l))"
  by (simp add: demo_run fetchingMarketData_effect_def currentArtifacts_def marketSnapshotName_def radix_1
      demo_market_def demo_candle_def timeframeMilliseconds_def)

lemma demo_step_indicators:
  "demo_step (demo_state (demo_at 3) (Some (demo_fresh\<lparr>art_market := Some demo_market\<rparr>)) None None True e l)
    (demo_state (demo_at 4) (Some (demo_fresh\<lparr>art_market := Some demo_market,
      art_indicators := Some demo_indicators\<rparr>)) None None True e (Persisted (demo_at 4) # l))"
  by (simp add: demo_run computingIndicators_effect_def resolveFundingInput_def)
    (simp add: demo_indicators_def demo_sends)

lemma demo_step_signals:
  "demo_step (demo_state (demo_at 4) (Some (demo_fresh\<lparr>art_market := Some demo_market,
      art_indicators := Some demo_indicators\<rparr>)) None None True e l)
    (demo_state (demo_at 5) (Some (demo_fresh\<lparr>art_market := Some demo_market,
      art_indicators := Some demo_indicators, art_signals := Some [demo_signal]\<rparr>)) None None True e
      (Persisted (demo_at 5) # l))"
proof -
  have cx: "\<lparr>ctx_productId = conf_productId demo_config, ctx_candles = ms_candles demo_market,
      ctx_indicators = demo_indicators, ctx_previousIndicators = None\<rparr> = demo_context"
    by (simp add: demo_config_def demo_market_def demo_context_def)
  show ?thesis
    by (simp add: demo_run evaluatingStrategies_effect_def cx demo_evaluates)
qed

definition demo_decided :: CycleArtifacts where
  "demo_decided = demo_fresh\<lparr>art_market := Some demo_market, art_indicators := Some demo_indicators,
     art_signals := Some [demo_signal], art_allocation := Some demo_decision, art_order := Some demo_order\<rparr>"

lemma demo_step_allocation:
  "demo_step (demo_state (demo_at 5) (Some (demo_fresh\<lparr>art_market := Some demo_market,
      art_indicators := Some demo_indicators, art_signals := Some [demo_signal]\<rparr>)) None None True e l)
    (demo_state (demo_at 6) (Some demo_decided) None None True e (Persisted (demo_at 6) # l))"
proof -
  have input: "allocationInput (journal_input demo_input) s a ''decision:c1'' [demo_signal] (Fin 128) = demo_allocation"
    if "held s = demo_portfolio" "art_cycleId a = ''c1''" for s :: "(unit \<times> journal) interp" and a
    using that by (simp add: allocationInput_def demo_allocation_def demo_config_def demo_portfolio_def
        js_min_def js_max_def)
  show ?thesis
    by (simp add: demo_run allocating_effect_def lastCandle_def demo_market_def demo_candle_def
        allocation_def usesTargetExposure_def demo_config_def demo_decided_def)
      (simp add: demo_run input demo_allocates)
qed

lemma demo_step_risk:
  "demo_step (demo_state (demo_at 6) (Some demo_decided) None None True e l)
    (demo_state (demo_at 7) (Some (demo_decided\<lparr>art_risk := Some (APPROVED demo_approval)\<rparr>)) None None True e
      (Persisted (demo_at 7) # Proposed ''BTC-USD'' (projectedPositionNotional demo_approval) True # l))"
proof -
  have risk: "checkRisk demo_order (riskSnapshot (journal_input demo_input)
      (demo_state (demo_at 6) (Some demo_decided) None None True e l) demo_decided demo_order (Fin 128))
      sample_config = Inr (APPROVED demo_approval)"
  proof -
    have "riskSnapshot (journal_input demo_input) (demo_state (demo_at 6) (Some demo_decided) None None True e l)
        demo_decided demo_order (Fin 128) = demo_risk"
      by (simp add: riskSnapshot_def demo_risk_def demo_state_def targetExposureGate_def usesTargetExposure_def
          demo_config_def demo_portfolio_def demo_decided_def demo_fresh_def freshArtifacts_def demo_phases(2))
    then show ?thesis by (simp add: demo_approved)
  qed
  have session: "session (demo_state (demo_at 6) (Some demo_decided) None None True e l) = demo_at 6"
    by (simp add: demo_state_def)
  have a: "artifacts (demo_state (demo_at 6) (Some demo_decided) None None True e l) = Some demo_decided"
    "art_order demo_decided = Some demo_order" "lastCandle demo_decided = Some demo_candle"
    "close_price demo_candle = Fin 128" "conf_risk demo_config = sample_config"
    "conf_productId demo_config = ''BTC-USD''"
    "targetExposureGate (journal_input demo_input) s b x = None" for s b x
    by (simp_all add: demo_state_def demo_decided_def lastCandle_def demo_market_def demo_candle_def
        demo_config_def targetExposureGate_def usesTargetExposure_def)
  show ?thesis
    by (simp add: interpreter_step_def asks_def checkingRisk_effect_def a risk Let_def demo_phase session)
      (simp add: demo_run portfolioAdmission_def is_approved_def a)
qed

lemma demo_step_intent:
  "demo_step (demo_state (demo_at 7) (Some (demo_decided\<lparr>art_risk := Some (APPROVED demo_approval)\<rparr>)) None None True e l)
    (demo_state (demo_at 8) (Some (demo_decided\<lparr>art_risk := Some (APPROVED demo_approval)\<rparr>)) None None True e
      (Persisted (demo_at 8) # IntentPersisted ''c1'' demo_order # l))"
  by (simp add: demo_run persistingOrderIntent_effect_def demo_decided_def)

lemma demo_step_authorization:
  "demo_step (demo_state (demo_at 8) (Some (demo_decided\<lparr>art_risk := Some (APPROVED demo_approval)\<rparr>)) None None True e l)
    (demo_state (demo_at 9) (Some (demo_decided\<lparr>art_risk := Some (APPROVED demo_approval)\<rparr>)) None (Some demo_token) True e
      (Persisted (demo_at 9) # Authorized demo_order demo_token # l))"
  by (simp add: demo_run authorizing_effect_def demo_decided_def demo_token_def)

lemma demo_step_submission:
  "demo_step (demo_state (demo_at 9) (Some (demo_decided\<lparr>art_risk := Some (APPROVED demo_approval)\<rparr>)) None
      (Some demo_token) True e l)
    (demo_state (demo_at 10) (Some (withExecution (demo_decided\<lparr>art_risk := Some (APPROVED demo_approval)\<rparr>)
        ''x1'' None None)) None None True e
      (Persisted (demo_at 10) #
       Submitted demo_order demo_approval demo_token (Fin 128) demo_portfolio (Fin 100000) # l))"
proof -
  have c: "lastCandle (demo_decided\<lparr>art_risk := x\<rparr>) = Some demo_candle" "close_price demo_candle = Fin 128" for x
    by (simp_all add: lastCandle_def demo_decided_def demo_market_def demo_candle_def)
  have o: "art_order demo_decided = Some demo_order" "art_triggeredAt demo_decided = Fin 100000"
    by (simp_all add: demo_decided_def demo_fresh_def freshArtifacts_def)
  show ?thesis
    by (simp add: demo_run submittingOrder_effect_def c o settleSubmission_def observeConfirmed_def
        withExecution_def)
qed

lemma demo_step_persisting:
  "demo_step (demo_state (demo_at 10) (Some (withExecution (demo_decided\<lparr>art_risk := Some (APPROVED demo_approval)\<rparr>)
        ''x1'' None None)) None None True e l)
    (demo_state (demo_at 11) (Some (withExecution (demo_decided\<lparr>art_risk := Some (APPROVED demo_approval)\<rparr>)
        ''x1'' None None)) (Some demo_indicators) None True e (Persisted (demo_at 11) # l))"
  by (simp add: demo_run persisting_effect_def withExecution_def demo_decided_def)

lemma demo_step_scheduling:
  "demo_step (demo_state (demo_at 11) a p k b e l) (demo_state (demo_at 12) a p k b e (Persisted (demo_at 12) # l))"
  by (simp add: demo_run scheduling_effect_def)

lemma demo_rests: "interpreter_step demo_host (journal_input demo_input) demo_registry True
    (demo_state (demo_at 12) a p k True e l) = (Some Return, demo_state (demo_at 12) a p k True e l)"
  by (simp add: demo_run waiting_effect_def)

text \<open>The journal of the run, newest entry first.\<close>

definition demo_journal :: journal where
  "demo_journal =
     [Persisted (demo_at 12), Persisted (demo_at 11), Persisted (demo_at 10),
      Submitted demo_order demo_approval demo_token (Fin 128) demo_portfolio (Fin 100000),
      Persisted (demo_at 9), Authorized demo_order demo_token,
      Persisted (demo_at 8), IntentPersisted ''c1'' demo_order,
      Persisted (demo_at 7), Proposed ''BTC-USD'' (projectedPositionNotional demo_approval) True,
      Persisted (demo_at 6), Persisted (demo_at 5), Persisted (demo_at 4), Persisted (demo_at 3),
      Persisted (demo_at 2), Persisted (demo_at 1)]"

lemma loop_step:
  "interpreter_step h i r wk s = (Some Break, t) \<Longrightarrow>
   interpreter_loop h i r wk (Suc n) s = interpreter_loop h i r wk n t"
  by (simp add: seq_def)

lemma demo_initial: "initial_interp demo_host (journal_input demo_input) ((), []) =
    demo_state (demo_at 0) None None None False None []"
proof -
  have none: "marketAdmission (snd demo_machine) = None"
    by (simp add: demo_machine_def sample_defs tc_eval)
  have "(snd demo_machine)\<lparr>marketAdmission := None\<rparr> = snd demo_machine"
    using none by (cases "snd demo_machine") simp
  then have "(fst demo_machine, (snd demo_machine)\<lparr>marketAdmission := None\<rparr>) = demo_machine"
    by (intro prod_eqI) (simp_all only: fst_conv snd_conv)
  then have "createTradingMachineSession demo_host demo_machine = demo_machine"
    by (simp only: createTradingMachineSession_def demo_host_simps none normalizeMarketAdmission_def
        option.case prod.case)
  then show ?thesis
    by (simp add: initial_interp_def demo_state_def demo_at_0 journal_input_def)
      (simp add: demo_input_def)
qed

lemma demo_loop:
  "\<exists>r. interpreter_loop demo_host (journal_input demo_input) demo_registry True MAX_INTERPRETER_STEPS
     (demo_state (demo_at 0) None None None False None []) =
       (Some r, demo_state (demo_at 12) (Some (withExecution (demo_decided\<lparr>art_risk := Some (APPROVED demo_approval)\<rparr>)
        ''x1'' None None)) (Some demo_indicators) None True (Some (Fin 1024)) demo_journal) \<and>
     res_machine r = demo_at 12"
proof -
  have steps: "MAX_INTERPRETER_STEPS = Suc (Suc (Suc (Suc (Suc (Suc (Suc (Suc (Suc (Suc (Suc (Suc (Suc 51))))))))))))"
    by (simp add: MAX_INTERPRETER_STEPS_def)
  have last: "interpreter_loop demo_host (journal_input demo_input) demo_registry True (Suc n)
      (demo_state (demo_at 12) a p k True e l) = (Some (currentResult (demo_state (demo_at 12) a p k True e l)),
       demo_state (demo_at 12) a p k True e l)" for n a p k e l
    by (simp add: seq_def demo_rests asks_def pure_def)
  show ?thesis
    unfolding steps demo_journal_def
    by (simp only: loop_step [OF demo_step_alarm] loop_step [OF demo_step_account]
        loop_step [OF demo_step_market] loop_step [OF demo_step_indicators] loop_step [OF demo_step_signals]
        loop_step [OF demo_step_allocation] loop_step [OF demo_step_risk] loop_step [OF demo_step_intent]
        loop_step [OF demo_step_authorization] loop_step [OF demo_step_submission]
        loop_step [OF demo_step_persisting] loop_step [OF demo_step_scheduling] last)
      (simp add: currentResult_def demo_state_def)
qed

lemma demo_runs:
  "\<exists>r. runTradingCycle demo_host (journal_input demo_input) ((), []) = (Some r, ((), demo_journal)) \<and>
     res_machine r = demo_at 12"
proof -
  have "wake_triggerAlarm (planCycleWake (fst demo_machine) True) = True"
    by (simp add: planCycleWake_def demo_machine_state)
  then show ?thesis
    using demo_loop
    by (auto simp: runTradingCycle_def demo_registers(1) demo_initial demo_state_def Let_def)
qed

lemma demo_journal_of: "journal_of demo_host demo_input () = demo_journal"
  using demo_runs by (auto simp: journal_of_def)

subsection \<open>Properties of a run\<close>

text \<open>C4: With the machine package, a registry that builds and effects that settle, a run under the
  default retry limits returns within its 64 steps, never by the error after the last one, and
  returns a machine that rests: stopped, failed, halted, waiting, or waiting for a market retry.\<close>

theorem run_returns:
  assumes "machine_host h" "effects_settle i"
    and "createConfiguredStrategyRegistry h (run_configuration i) \<noteq> None"
    and "tc_quiet (run_machine i)" "retryLimits (snd (run_machine i)) = defaultRetryLimits"
  shows "\<exists>r w'. runTradingCycle h i w = (Some r, w') \<and> rests (fst (res_machine r))"
proof -
  obtain registry where "createConfiguredStrategyRegistry h (run_configuration i) = Some registry"
    using assms(3) by blast
  then show ?thesis
    using assms by (intro run_returns_bound [where L = default_counts])
      (simp_all add: budgeted_def defaultRetryLimits_natural default_bound MAX_INTERPRETER_STEPS_def)
qed

theorem run_returns_witness:
  "\<exists>r w'. runTradingCycle demo_host demo_input () = (Some r, w') \<and> rests (fst (res_machine r))"
  by (rule run_returns) (simp_all add: demo_host_ok demo_settles demo_registers demo_machine_state)

text \<open>C3: Whatever the effects answer, and from whatever phase a run starts, every order it submits
  carries the authorization obtained for that very order in this run, a usable one (issued before
  it expires, for two minutes at most), that no earlier submission used.\<close>

theorem submissions_authorized:
  assumes "machine_host h"
  shows "authorized_journal (journal_of h i w)"
  using journal_safe [OF assms, of False i w] by (simp add: safe_def)

theorem submissions_authorized_witness:
  "authorized_journal demo_journal \<and>
   Submitted demo_order demo_approval demo_token (Fin 128) demo_portfolio (Fin 100000) \<in> set demo_journal"
  using submissions_authorized [OF demo_host_ok, of demo_input "()"]
  by (simp add: demo_journal_of) (simp add: demo_journal_def)

text \<open>C2: In a run that starts waiting, every order submitted was approved by the risk check at the
  price, the position and the time it is submitted with, was admitted by the consolidated portfolio
  where one is wired and the order is not a sale that reduces a target exposure, and had its intent
  persisted before, whatever the effects answer and wherever they throw.\<close>

theorem submissions_checked:
  assumes "machine_host h" "fst (run_machine i) = Waiting"
  shows "checked_journal i (journal_of h i w)"
  using journal_safe [of h True i w] assms by (simp add: safe_def)

theorem submissions_checked_witness:
  "checked_journal demo_input demo_journal \<and> portfolio_asked demo_input demo_order \<and>
   Submitted demo_order demo_approval demo_token (Fin 128) demo_portfolio (Fin 100000) \<in> set demo_journal"
  using submissions_checked [OF demo_host_ok, of demo_input "()"]
  by (simp add: demo_journal_of demo_machine_state)
    (simp add: demo_journal_def portfolio_asked_def demo_allocates)

text \<open>C5: The machine a run returns is the one it persisted last, or, when it persisted none, the
  session it started from.\<close>

theorem returned_machine_persisted:
  assumes "machine_host h" "runTradingCycle h i w = (Some r, w')"
  shows "res_machine r =
    last_persisted (createTradingMachineSession h (run_machine i)) (journal_of h i w)"
proof -
  obtain l where "runTradingCycle h (journal_input i) (w, []) = (Some r, (w', l))"
    using journal_changes_nothing [of h i w "[]"] assms(2) by auto
  then show ?thesis
    using run_kept(2) [OF assms(1), of False i w] by (simp add: journal_of_def)
qed

theorem returned_machine_persisted_witness:
  "\<exists>r. runTradingCycle demo_host demo_input () = (Some r, ()) \<and>
     res_machine r = last_persisted (createTradingMachineSession demo_host demo_machine) demo_journal"
proof -
  obtain r where "fst (runTradingCycle demo_host demo_input ()) = Some r"
    using demo_runs journal_changes_nothing [of demo_host demo_input "()" "[]"]
    by (metis prod.inject)
  then have "runTradingCycle demo_host demo_input () = (Some r, ())"
    by (intro prod_eqI) simp_all
  with returned_machine_persisted [OF demo_host_ok this] show ?thesis
    by (simp add: demo_journal_of)
qed

end
