(* ===== verification/ProtectiveOrder.thy ===== *)
theory ProtectiveOrder
  imports Workflow Statechart
begin

text \<open>
  Protective orders (a stop and a take-profit attached to a long position): the policies,
  plans and price resolutions of \<^verbatim>\<open>models/protective-order.ts\<close>, the types of
  \<^verbatim>\<open>models/protective-order.types.ts\<close> and the machine of
  \<^verbatim>\<open>models/protective-order.machine.ts\<close>.
\<close>

subsection \<open>Types\<close>

datatype ActiveProtectiveExitPolicy =
  FIXED_BPS number number
| ATR_MULTIPLE number number
| TRAILING_BPS number "number option"

datatype RegimeExitArm =
  ArmNone
| ArmFixed number number
| ArmTrailing number

record RegimeConditionalExitPolicy =
  bullish :: RegimeExitArm
  bearish :: RegimeExitArm
  range :: RegimeExitArm
  warmUp :: RegimeExitArm

datatype ProtectiveMode = FIXED_BPS_MODE | ATR_MULTIPLE_MODE | TRAILING_BPS_MODE

fun mode :: "ActiveProtectiveExitPolicy \<Rightarrow> ProtectiveMode" where
  "mode (FIXED_BPS _ _) = FIXED_BPS_MODE"
| "mode (ATR_MULTIPLE _ _) = ATR_MULTIPLE_MODE"
| "mode (TRAILING_BPS _ _) = TRAILING_BPS_MODE"

record ProtectiveOrderPlan =
  positionId :: string
  quantity :: number
  averageEntryPrice :: number
  stopPrice :: number
  takeProfitPrice :: "number option"
  anchorPrice :: number
  armedAt :: number
  policyMode :: ProtectiveMode

datatype ProtectiveExitKind = STOP_LOSS | TAKE_PROFIT
datatype ProtectiveExitReason = GAP_OPEN | INTRABAR | AMBIGUOUS_STOP_FIRST

record ProtectiveExitResolution =
  kind :: ProtectiveExitKind
  reason :: ProtectiveExitReason
  referencePrice :: number
  triggeredAt :: number

text \<open>\<open>ProtectiveResolution\<close>: \<open>None\<close> is the status \<open>NOT_TRIGGERED\<close>.\<close>

type_synonym ProtectiveResolution = "ProtectiveExitResolution option"

record ProtectiveExitSummaryInput =
  exitKind :: ProtectiveExitKind
  exitReason :: ProtectiveExitReason

record ProtectiveExitCounts =
  protectiveExitCount :: nat
  stopLossExitCount :: nat
  takeProfitExitCount :: nat
  ambiguousExitCount :: nat

datatype ProtectiveOrderErrorCode =
  INVALID_PROTECTIVE_POLICY
| INVALID_PROTECTIVE_PLAN
| INVALID_PROTECTIVE_CANDLE
| INVALID_PROTECTIVE_SEQUENCE

type_synonym 't ProtectiveResult = "('t, ProtectiveOrderErrorCode) result"

record CreateProtectiveOrderPlanInput =
  in_positionId :: string
  in_quantity :: number
  in_averageEntryPrice :: number
  in_atr :: "number option"
  in_armedAt :: number
  in_policy :: ActiveProtectiveExitPolicy

record ProtectiveOpen =
  open_start :: number
  open_open :: number

record ProtectiveRange =
  range_start :: number
  range_high :: number
  range_low :: number

datatype ProtectiveCancelReason = POSITION_CLOSED | STRATEGY_EXIT | REGIME_CHANGED

record ProtectiveOrderContext =
  policy :: ActiveProtectiveExitPolicy
  plan :: "ProtectiveOrderPlan option"
  currentCandleStart :: "number option"
  currentOpen :: "number option"
  lastCandleStart :: "number option"
  resolution :: "ProtectiveExitResolution option"
  cancelReason :: "ProtectiveCancelReason option"
  lastError :: "ProtectiveOrderErrorCode option"

datatype ProtectiveOrderEvent =
  ARM_REQUESTED string number number "number option" number
| POSITION_INCREASED number number "number option" number
| POSITION_REDUCED number number
| CANDLE_OPENED number number
| CANDLE_RANGE_REPLAYED number number number
| CANCEL_REQUESTED ProtectiveCancelReason

subsection \<open>Policies\<close>

definition positiveFinite :: "number \<Rightarrow> bool" where
  "positiveFinite v \<longleftrightarrow> isFinite v \<and> Fin 0 < v"

definition validTimestamp :: "number \<Rightarrow> bool" where
  "validTimestamp v \<longleftrightarrow> isSafeInteger v \<and> Fin 0 \<le> v"

definition isValidProtectiveExitPolicy :: "ActiveProtectiveExitPolicy \<Rightarrow> bool" where
  "isValidProtectiveExitPolicy p =
     (case p of
        FIXED_BPS sl tp \<Rightarrow>
          positiveFinite sl \<and> sl < Fin 10000 \<and> positiveFinite tp \<and> tp < Fin 100000
      | ATR_MULTIPLE s t \<Rightarrow> positiveFinite s \<and> positiveFinite t
      | TRAILING_BPS b tp \<Rightarrow>
          positiveFinite b \<and> b < Fin 10000 \<and>
          (case tp of None \<Rightarrow> True | Some t \<Rightarrow> positiveFinite t \<and> t < Fin 100000))"

definition isValidRegimeExitArm :: "RegimeExitArm \<Rightarrow> bool" where
  "isValidRegimeExitArm a =
     (case a of
        ArmNone \<Rightarrow> True
      | ArmFixed sl tp \<Rightarrow> isValidProtectiveExitPolicy (FIXED_BPS sl tp)
      | ArmTrailing b \<Rightarrow> isValidProtectiveExitPolicy (TRAILING_BPS b None))"

definition isValidRegimeConditionalExitPolicy :: "RegimeConditionalExitPolicy \<Rightarrow> bool" where
  "isValidRegimeConditionalExitPolicy p \<longleftrightarrow>
     isValidRegimeExitArm (bullish p) \<and> isValidRegimeExitArm (bearish p) \<and>
     isValidRegimeExitArm (range p) \<and> isValidRegimeExitArm (warmUp p)"

definition resolveRegimeExitArm :: "RegimeConditionalExitPolicy \<Rightarrow> RegimeKind option
    \<Rightarrow> ActiveProtectiveExitPolicy option" where
  "resolveRegimeExitArm p k =
     (let arm = (case k of None \<Rightarrow> warmUp p | Some BULLISH \<Rightarrow> bullish p
         | Some BEARISH \<Rightarrow> bearish p | Some RANGE \<Rightarrow> range p)
      in case arm of ArmNone \<Rightarrow> None | ArmFixed sl tp \<Rightarrow> Some (FIXED_BPS sl tp)
         | ArmTrailing b \<Rightarrow> Some (TRAILING_BPS b None))"

text \<open>\<open>===\<close> on \<open>number | null\<close>.\<close>

definition opt_eq :: "number option \<Rightarrow> number option \<Rightarrow> bool" where
  "opt_eq x y =
     (case (x, y) of (None, None) \<Rightarrow> True | (Some a, Some b) \<Rightarrow> num_eq a b | _ \<Rightarrow> False)"

definition activeProtectivePolicyEquals :: "ActiveProtectiveExitPolicy option
    \<Rightarrow> ActiveProtectiveExitPolicy option \<Rightarrow> bool" where
  "activeProtectivePolicyEquals a b =
     (case (a, b) of
        (None, None) \<Rightarrow> True
      | (Some x, Some y) \<Rightarrow>
          (case (x, y) of
             (FIXED_BPS sl tp, FIXED_BPS sl' tp') \<Rightarrow> num_eq sl sl' \<and> num_eq tp tp'
           | (ATR_MULTIPLE s t, ATR_MULTIPLE s' t') \<Rightarrow> num_eq s s' \<and> num_eq t t'
           | (TRAILING_BPS b tp, TRAILING_BPS b' tp') \<Rightarrow> num_eq b b' \<and> opt_eq tp tp'
           | _ \<Rightarrow> False)
      | _ \<Rightarrow> False)"

subsection \<open>Plans\<close>

definition createProtectiveOrderPlan :: "CreateProtectiveOrderPlanInput
    \<Rightarrow> ProtectiveOrderPlan ProtectiveResult" where
  "createProtectiveOrderPlan i =
     (let entry = in_averageEntryPrice i;
          atr = (case in_atr i of None \<Rightarrow> NaN | Some x \<Rightarrow> x);
          build = (\<lambda>sp tp. \<lparr>positionId = in_positionId i, quantity = in_quantity i,
            averageEntryPrice = entry, stopPrice = sp, takeProfitPrice = tp,
            anchorPrice = entry, armedAt = in_armedAt i, policyMode = mode (in_policy i)\<rparr>)
      in
        if \<not> isValidProtectiveExitPolicy (in_policy i) then err INVALID_PROTECTIVE_POLICY
        else if \<not> non_blank (in_positionId i) \<or> \<not> positiveFinite (in_quantity i) \<or>
            \<not> positiveFinite entry \<or> \<not> validTimestamp (in_armedAt i) \<or>
            (mode (in_policy i) = ATR_MULTIPLE_MODE \<and>
              (in_atr i = None \<or> \<not> positiveFinite atr))
        then err INVALID_PROTECTIVE_PLAN
        else
          let sp = (case in_policy i of
              FIXED_BPS sl _ \<Rightarrow> entry - entry * (sl / Fin 10000)
            | TRAILING_BPS b _ \<Rightarrow> entry * (Fin 1 - b / Fin 10000)
            | ATR_MULTIPLE s _ \<Rightarrow> entry - atr * s)
          in case in_policy i of
            TRAILING_BPS _ tpb \<Rightarrow>
              if \<not> positiveFinite sp \<or> entry \<le> sp then err INVALID_PROTECTIVE_PLAN
              else
                let tp = (case tpb of None \<Rightarrow> None
                    | Some t \<Rightarrow> Some (entry * (Fin 1 + t / Fin 10000)))
                in (case tp of
                      Some t \<Rightarrow>
                        if \<not> positiveFinite t \<or> t \<le> entry then err INVALID_PROTECTIVE_PLAN
                        else ok (build sp tp)
                    | None \<Rightarrow> ok (build sp tp))
          | pol \<Rightarrow>
              let takeDistance = (case pol of
                  FIXED_BPS _ t \<Rightarrow> entry * (t / Fin 10000)
                | ATR_MULTIPLE _ t \<Rightarrow> atr * t
                | TRAILING_BPS _ _ \<Rightarrow> NaN);
                  tp = entry + takeDistance
              in if \<not> positiveFinite sp \<or> \<not> positiveFinite tp \<or> entry \<le> sp \<or> tp \<le> entry
                 then err INVALID_PROTECTIVE_PLAN
                 else ok (build sp (Some tp)))"

definition advanceTrailingPlan :: "ProtectiveOrderPlan \<Rightarrow> ActiveProtectiveExitPolicy
    \<Rightarrow> ProtectiveRange \<Rightarrow> ProtectiveOrderPlan" where
  "advanceTrailingPlan p pol candle =
     (case pol of
        TRAILING_BPS b _ \<Rightarrow>
          if policyMode p \<noteq> TRAILING_BPS_MODE \<or> range_high candle \<le> anchorPrice p then p
          else p\<lparr>anchorPrice := range_high candle,
             stopPrice := js_max (stopPrice p) (range_high candle * (Fin 1 - b / Fin 10000))\<rparr>
      | _ \<Rightarrow> p)"

subsection \<open>Triggers\<close>

definition trigger :: "ProtectiveExitKind \<Rightarrow> ProtectiveExitReason \<Rightarrow> number \<Rightarrow> number
    \<Rightarrow> ProtectiveExitResolution" where
  "trigger k r p t = \<lparr>kind = k, reason = r, referencePrice = p, triggeredAt = t\<rparr>"

definition resolveProtectiveOpen :: "ProtectiveOrderPlan \<Rightarrow> ProtectiveOpen
    \<Rightarrow> ProtectiveResolution ProtectiveResult" where
  "resolveProtectiveOpen p candle =
     (if \<not> validTimestamp (open_start candle) \<or> open_start candle < armedAt p \<or>
         \<not> positiveFinite (open_open candle)
      then err INVALID_PROTECTIVE_CANDLE
      else if open_open candle \<le> stopPrice p
      then ok (Some (trigger STOP_LOSS GAP_OPEN (open_open candle) (open_start candle)))
      else case takeProfitPrice p of
          None \<Rightarrow> ok None
        | Some t \<Rightarrow>
            if t \<le> open_open candle
            then ok (Some (trigger TAKE_PROFIT GAP_OPEN (open_open candle) (open_start candle)))
            else ok None)"

definition resolveProtectiveRange :: "ProtectiveOrderPlan \<Rightarrow> ProtectiveRange
    \<Rightarrow> ProtectiveResolution ProtectiveResult" where
  "resolveProtectiveRange p candle =
     (if \<not> validTimestamp (range_start candle) \<or> range_start candle < armedAt p \<or>
         \<not> positiveFinite (range_high candle) \<or> \<not> positiveFinite (range_low candle) \<or>
         range_high candle < range_low candle
      then err INVALID_PROTECTIVE_CANDLE
      else
        let stopHit = range_low candle \<le> stopPrice p;
            takeHit = (case takeProfitPrice p of None \<Rightarrow> False | Some t \<Rightarrow> t \<le> range_high candle)
        in if stopHit \<and> takeHit
           then ok (Some (trigger STOP_LOSS AMBIGUOUS_STOP_FIRST (stopPrice p) (range_start candle)))
           else if stopHit
           then ok (Some (trigger STOP_LOSS INTRABAR (stopPrice p) (range_start candle)))
           else case takeProfitPrice p of
               Some t \<Rightarrow>
                 if takeHit then ok (Some (trigger TAKE_PROFIT INTRABAR t (range_start candle)))
                 else ok None
             | None \<Rightarrow> ok None)"

text \<open>The loop of \<open>summarizeProtectiveExits\<close> over its three counters.\<close>

definition summarizeProtectiveExits :: "ProtectiveExitSummaryInput list \<Rightarrow> ProtectiveExitCounts" where
  "summarizeProtectiveExits exits =
     (case foldl (\<lambda>(s, t, a) x.
         let (s, t) = (if exitKind x = STOP_LOSS then (s + 1, t) else (s, t + 1))
         in (s, t, if exitReason x = AMBIGUOUS_STOP_FIRST then a + 1 else a)) (0, 0, 0) exits
      of (s, t, a) \<Rightarrow>
        \<lparr>protectiveExitCount = s + t, stopLossExitCount = s, takeProfitExitCount = t,
         ambiguousExitCount = a\<rparr>)"

subsection \<open>The machine\<close>

definition planFromEvent :: "ProtectiveOrderContext \<Rightarrow> ProtectiveOrderEvent
    \<Rightarrow> ProtectiveOrderPlan ProtectiveResult option" where
  "planFromEvent c e =
     (case e of
        ARM_REQUESTED i q p atr t \<Rightarrow>
          Some (createProtectiveOrderPlan
            \<lparr>in_positionId = i, in_quantity = q, in_averageEntryPrice = p, in_atr = atr,
             in_armedAt = t, in_policy = policy c\<rparr>)
      | POSITION_INCREASED q p atr t \<Rightarrow>
          (case plan c of
             None \<Rightarrow> None
           | Some pl \<Rightarrow> Some (createProtectiveOrderPlan
               \<lparr>in_positionId = positionId pl, in_quantity = q, in_averageEntryPrice = p,
                in_atr = atr, in_armedAt = t, in_policy = policy c\<rparr>))
      | _ \<Rightarrow> None)"

definition openResolution :: "ProtectiveOrderContext \<Rightarrow> ProtectiveOrderEvent
    \<Rightarrow> ProtectiveResolution ProtectiveResult option" where
  "openResolution c e =
     (case (e, plan c) of
        (CANDLE_OPENED s p, Some pl) \<Rightarrow>
          Some (resolveProtectiveOpen pl \<lparr>open_start = s, open_open = p\<rparr>)
      | _ \<Rightarrow> None)"

definition rangeResolution :: "ProtectiveOrderContext \<Rightarrow> ProtectiveOrderEvent
    \<Rightarrow> ProtectiveResolution ProtectiveResult option" where
  "rangeResolution c e =
     (case (e, plan c) of
        (CANDLE_RANGE_REPLAYED s h l, Some pl) \<Rightarrow>
          Some (resolveProtectiveRange pl \<lparr>range_start = s, range_high = h, range_low = l\<rparr>)
      | _ \<Rightarrow> None)"

definition triggeredResolution :: "ProtectiveResolution ProtectiveResult option
    \<Rightarrow> ProtectiveExitResolution option" where
  "triggeredResolution r =
     (case r of None \<Rightarrow> None
      | Some r' \<Rightarrow> (case r' of Inl _ \<Rightarrow> None | Inr v \<Rightarrow> v))"

type_synonym guard = "ProtectiveOrderContext \<Rightarrow> ProtectiveOrderEvent \<Rightarrow> bool"
type_synonym action = "ProtectiveOrderContext \<Rightarrow> ProtectiveOrderEvent \<Rightarrow> ProtectiveOrderContext"

definition plannable :: guard where
  "plannable c e = (case planFromEvent c e of None \<Rightarrow> False | Some r \<Rightarrow> is_ok r)"

definition canArm :: guard where
  "canArm c e = plannable c e"

text \<open>\<open>context.currentCandleStart === null || t === context.currentCandleStart\<close>.\<close>

definition inCandle :: "ProtectiveOrderContext \<Rightarrow> number \<Rightarrow> bool" where
  "inCandle c t = (case currentCandleStart c of None \<Rightarrow> True | Some s \<Rightarrow> num_eq t s)"

definition canIncrease :: guard where
  "canIncrease c e =
     (case e of
        POSITION_INCREASED q _ _ t \<Rightarrow>
          (case plan c of None \<Rightarrow> False
           | Some pl \<Rightarrow> quantity pl < q \<and> plannable c e \<and> inCandle c t)
      | _ \<Rightarrow> False)"

definition canReduce :: guard where
  "canReduce c e =
     (case e of
        POSITION_REDUCED q t \<Rightarrow>
          (case plan c of None \<Rightarrow> False
           | Some pl \<Rightarrow> isFinite q \<and> Fin 0 < q \<and> q < quantity pl \<and> armedAt pl \<le> t \<and> inCandle c t)
      | _ \<Rightarrow> False)"

definition openTriggers :: guard where
  "openTriggers c e =
     (case e of
        CANDLE_OPENED s _ \<Rightarrow>
          plan c \<noteq> None \<and> (case lastCandleStart c of None \<Rightarrow> True | Some l \<Rightarrow> l < s) \<and>
          triggeredResolution (openResolution c e) \<noteq> None
      | _ \<Rightarrow> False)"

definition validOpenWithoutTrigger :: guard where
  "validOpenWithoutTrigger c e =
     (case e of
        CANDLE_OPENED s _ \<Rightarrow>
          plan c \<noteq> None \<and> (case lastCandleStart c of None \<Rightarrow> True | Some l \<Rightarrow> \<not> s \<le> l) \<and>
          openResolution c e = Some (ok None)
      | _ \<Rightarrow> False)"

definition rangeTriggers :: guard where
  "rangeTriggers c e =
     (case e of
        CANDLE_RANGE_REPLAYED s h l \<Rightarrow>
          plan c \<noteq> None \<and>
          (case currentCandleStart c of None \<Rightarrow> False | Some s' \<Rightarrow> num_eq s' s) \<and>
          (case currentOpen c of None \<Rightarrow> False | Some p \<Rightarrow> l \<le> p \<and> p \<le> h) \<and>
          triggeredResolution (rangeResolution c e) \<noteq> None
      | _ \<Rightarrow> False)"

definition validRangeWithoutTrigger :: guard where
  "validRangeWithoutTrigger c e =
     (case e of
        CANDLE_RANGE_REPLAYED s h l \<Rightarrow>
          plan c \<noteq> None \<and>
          (case currentCandleStart c of None \<Rightarrow> False | Some s' \<Rightarrow> num_eq s' s) \<and>
          (case currentOpen c of None \<Rightarrow> False | Some p \<Rightarrow> \<not> p < l \<and> \<not> h < p) \<and>
          rangeResolution c e = Some (ok None)
      | _ \<Rightarrow> False)"

definition recordPlan :: action where
  "recordPlan c e =
     (case planFromEvent c e of
        Some (Inr pl) \<Rightarrow>
          c\<lparr>plan := Some pl, resolution := None, cancelReason := None, lastError := None\<rparr>
      | _ \<Rightarrow> c)"

definition reducePlan :: action where
  "reducePlan c e =
     (case (e, plan c) of
        (POSITION_REDUCED q _, Some pl) \<Rightarrow> c\<lparr>plan := Some (pl\<lparr>quantity := q\<rparr>)\<rparr>
      | _ \<Rightarrow> c)"

definition recordOpen :: action where
  "recordOpen c e =
     (case e of
        CANDLE_OPENED s p \<Rightarrow> c\<lparr>currentCandleStart := Some s, currentOpen := Some p\<rparr>
      | _ \<Rightarrow> c)"

definition recordOpenTrigger :: action where
  "recordOpenTrigger c e =
     c\<lparr>resolution := triggeredResolution (openResolution c e),
       lastCandleStart := (case e of CANDLE_OPENED s _ \<Rightarrow> Some s | _ \<Rightarrow> None),
       currentCandleStart := None, currentOpen := None\<rparr>"

definition recordRangeTrigger :: action where
  "recordRangeTrigger c e =
     c\<lparr>resolution := triggeredResolution (rangeResolution c e),
       lastCandleStart := (case e of CANDLE_RANGE_REPLAYED s _ _ \<Rightarrow> Some s | _ \<Rightarrow> None),
       currentCandleStart := None, currentOpen := None\<rparr>"

definition completeRange :: action where
  "completeRange c e =
     c\<lparr>lastCandleStart := (case e of CANDLE_RANGE_REPLAYED s _ _ \<Rightarrow> Some s | _ \<Rightarrow> None),
       currentCandleStart := None, currentOpen := None,
       plan := (case (plan c, e) of
           (Some pl, CANDLE_RANGE_REPLAYED s h l) \<Rightarrow>
             Some (advanceTrailingPlan pl (policy c)
               \<lparr>range_start = s, range_high = h, range_low = l\<rparr>)
         | _ \<Rightarrow> plan c)\<rparr>"

definition recordCancel :: action where
  "recordCancel c e =
     (case e of CANCEL_REQUESTED r \<Rightarrow> c\<lparr>cancelReason := Some r\<rparr> | _ \<Rightarrow> c)"

definition recordInvalidPlan :: action where
  "recordInvalidPlan c e = c\<lparr>lastError := Some INVALID_PROTECTIVE_PLAN\<rparr>"

definition recordInvalidSequence :: action where
  "recordInvalidSequence c e = c\<lparr>lastError := Some INVALID_PROTECTIVE_SEQUENCE\<rparr>"

text \<open>\<open>armed.awaitingOpen\<close> and \<open>armed.awaitingRange\<close> are the two states of \<open>armed\<close>, whose
  own handler is the outer one.\<close>

datatype protectiveState =
  Idle | ArmedAwaitingOpen | ArmedAwaitingRange | Triggered | Cancelled | Failed

type_synonym rows =
  "ProtectiveOrderEvent \<Rightarrow> (protectiveState, ProtectiveOrderEvent, ProtectiveOrderContext) transition list"

definition idle_rows :: rows where
  "idle_rows e =
     (case e of
        ARM_REQUESTED _ _ _ _ _ \<Rightarrow>
          [goto_if canArm ArmedAwaitingOpen [recordPlan], goto Failed [recordInvalidPlan]]
      | CANDLE_OPENED _ _ \<Rightarrow> [goto Failed [recordInvalidSequence]]
      | CANDLE_RANGE_REPLAYED _ _ _ \<Rightarrow> [goto Failed [recordInvalidSequence]]
      | _ \<Rightarrow> [])"

definition armed_rows :: rows where
  "armed_rows e =
     (case e of CANCEL_REQUESTED _ \<Rightarrow> [goto Cancelled [recordCancel]] | _ \<Rightarrow> [])"

definition awaitingOpen_rows :: rows where
  "awaitingOpen_rows e =
     (case e of
        POSITION_INCREASED _ _ _ _ \<Rightarrow>
          [stay_if canIncrease [recordPlan], goto Failed [recordInvalidPlan]]
      | POSITION_REDUCED _ _ \<Rightarrow>
          [stay_if canReduce [reducePlan], goto Failed [recordInvalidPlan]]
      | CANDLE_OPENED _ _ \<Rightarrow>
          [goto_if openTriggers Triggered [recordOpenTrigger],
           goto_if validOpenWithoutTrigger ArmedAwaitingRange [recordOpen],
           goto Failed [recordInvalidSequence]]
      | CANDLE_RANGE_REPLAYED _ _ _ \<Rightarrow> [goto Failed [recordInvalidSequence]]
      | _ \<Rightarrow> [])"

definition awaitingRange_rows :: rows where
  "awaitingRange_rows e =
     (case e of
        POSITION_INCREASED _ _ _ _ \<Rightarrow>
          [stay_if canIncrease [recordPlan], goto Failed [recordInvalidPlan]]
      | POSITION_REDUCED _ _ \<Rightarrow>
          [stay_if canReduce [reducePlan], goto Failed [recordInvalidPlan]]
      | CANDLE_RANGE_REPLAYED _ _ _ \<Rightarrow>
          [goto_if rangeTriggers Triggered [recordRangeTrigger],
           goto_if validRangeWithoutTrigger ArmedAwaitingOpen [completeRange],
           goto Failed [recordInvalidSequence]]
      | CANDLE_OPENED _ _ \<Rightarrow> [goto Failed [recordInvalidSequence]]
      | _ \<Rightarrow> [])"

definition protectiveOrder_on :: "protectiveState \<Rightarrow> rows" where
  "protectiveOrder_on st =
     (case st of
        Idle \<Rightarrow> idle_rows
      | ArmedAwaitingOpen \<Rightarrow> awaitingOpen_rows
      | ArmedAwaitingRange \<Rightarrow> awaitingRange_rows
      | _ \<Rightarrow> (\<lambda>_. []))"

definition protectiveOrder_outer :: "protectiveState \<Rightarrow> rows" where
  "protectiveOrder_outer st =
     (if st \<in> {ArmedAwaitingOpen, ArmedAwaitingRange} then armed_rows else (\<lambda>_. []))"

definition protectiveOrderMachine ::
    "(protectiveState, ProtectiveOrderEvent, ProtectiveOrderContext) machine" where
  "protectiveOrderMachine =
     \<lparr>m_initial = Idle, m_on = protectiveOrder_on, m_outer = protectiveOrder_outer,
      m_always = (\<lambda>_. []), m_entry = (\<lambda>_. []),
      m_final = (\<lambda>st. st \<in> {Triggered, Cancelled, Failed})\<rparr>"

definition protectiveOrder_context :: "ActiveProtectiveExitPolicy \<Rightarrow> ProtectiveOrderContext" where
  "protectiveOrder_context p =
     \<lparr>policy = p, plan = None, currentCandleStart = None, currentOpen = None,
      lastCandleStart = None, resolution = None, cancelReason = None, lastError = None\<rparr>"

lemma po_machine_simps [simp]:
  "m_initial protectiveOrderMachine = Idle" "m_on protectiveOrderMachine = protectiveOrder_on"
  "m_outer protectiveOrderMachine = protectiveOrder_outer"
  "m_always protectiveOrderMachine = (\<lambda>_. [])" "m_entry protectiveOrderMachine = (\<lambda>_. [])"
  "m_final protectiveOrderMachine st \<longleftrightarrow> st \<in> {Triggered, Cancelled, Failed}"
  by (simp_all add: protectiveOrderMachine_def)

lemmas po_rows [machine_simps] =
  idle_rows_def armed_rows_def awaitingOpen_rows_def awaitingRange_rows_def
  protectiveOrder_on_def protectiveOrder_outer_def

lemmas po_actions [machine_simps] =
  recordPlan_def reducePlan_def recordOpen_def recordOpenTrigger_def recordRangeTrigger_def
  completeRange_def recordCancel_def recordInvalidPlan_def recordInvalidSequence_def

lemmas po_guards [guard_simps] =
  canArm_def canIncrease_def canReduce_def openTriggers_def validOpenWithoutTrigger_def
  rangeTriggers_def validRangeWithoutTrigger_def

interpretation po: shallow_machine protectiveOrderMachine
  by unfold_locales (simp add: eselect_def)

interpretation po_actor: xstate_actor protectiveOrderMachine
  "sc_start protectiveOrderMachine" "sc_send protectiveOrderMachine"
  by unfold_locales (rule po.runtime_sc)

end
