(* ===== verification/ProtectiveOrderProps.thy ===== *)
theory ProtectiveOrderProps
  imports ProtectiveOrder
begin

text \<open>
  Protective orders: the bracket a plan promises, what a candle triggers, and the
  invariants of the machine from arming to its final state.
\<close>

type_synonym po_snapshot = "(protectiveState, ProtectiveOrderContext) snapshot"

abbreviation po_send :: "po_snapshot \<Rightarrow> ProtectiveOrderEvent \<Rightarrow> po_snapshot" where
  "po_send \<equiv> sc_send protectiveOrderMachine"

lemma positiveFiniteE:
  assumes "positiveFinite x"
  obtains r where "x = Fin r" "0 < r"
  using assms by (cases x) (auto simp: positiveFinite_def)

lemma po_runtime:
  assumes "xstate_runtime protectiveOrderMachine init send"
  shows "init = sc_start protectiveOrderMachine" "send = po_send"
  using assms by (simp_all add: po.runtime_iff)

lemma po_boot: "sc_start protectiveOrderMachine c = (Idle, c)"
  by (simp add: chart_eval)

subsection \<open>Plans\<close>

text \<open>The bracket of a plan: a positive stop below the entry, an objective above it.\<close>

definition bracket :: "ActiveProtectiveExitPolicy \<Rightarrow> ProtectiveOrderPlan \<Rightarrow> bool" where
  "bracket pol p \<longleftrightarrow>
     isValidProtectiveExitPolicy pol \<and> policyMode p = mode pol \<and>
     non_blank (positionId p) \<and> positiveFinite (quantity p) \<and>
     positiveFinite (averageEntryPrice p) \<and> validTimestamp (armedAt p) \<and>
     Fin 0 < stopPrice p \<and> averageEntryPrice p \<le> anchorPrice p \<and>
     (mode pol \<noteq> TRAILING_BPS_MODE \<longrightarrow>
        stopPrice p < averageEntryPrice p \<and> takeProfitPrice p \<noteq> None) \<and>
     (\<forall>t. takeProfitPrice p = Some t \<longrightarrow> positiveFinite t \<and> averageEntryPrice p < t)"

lemma not_ge_lt: "positiveFinite x \<Longrightarrow> positiveFinite y \<Longrightarrow> \<not> y \<le> x \<Longrightarrow> x < y"
  by (auto elim!: positiveFiniteE)

lemma createProtectiveOrderPlan_ok:
  assumes "createProtectiveOrderPlan i = Inr p"
  shows "bracket (in_policy i) p \<and> stopPrice p < averageEntryPrice p \<and>
    anchorPrice p = averageEntryPrice p \<and> positionId p = in_positionId i \<and>
    quantity p = in_quantity i \<and> averageEntryPrice p = in_averageEntryPrice i \<and>
    armedAt p = in_armedAt i"
  using assms
  by (cases "in_policy i")
     (auto simp: createProtectiveOrderPlan_def Let_def bracket_def positiveFinite_def
        intro: not_ge_lt simp del: number_lt_simps split: if_splits option.splits)

lemma planFromEvent_bracket:
  "planFromEvent c e = Some (Inr p) \<Longrightarrow> bracket (policy c) p \<and> stopPrice p < averageEntryPrice p"
  by (auto simp: planFromEvent_def split: ProtectiveOrderEvent.splits option.splits
    dest!: createProtectiveOrderPlan_ok)

lemma plannableE:
  assumes "plannable c e"
  obtains p where "planFromEvent c e = Some (Inr p)"
  using assms by (auto simp: plannable_def split: option.splits elim!: is_okE)

text \<open>A trailing advance never lowers the stop and touches nothing else but the anchor.\<close>

lemma trailing_level:
  assumes "positiveFinite h" "positiveFinite b"
  shows "h * (Fin 1 - b / Fin 10000) \<noteq> NaN"
proof -
  obtain r q where "h = Fin r" "0 < r" "b = Fin q"
    using assms by (auto elim!: positiveFiniteE)
  then show ?thesis
    by (simp add: fin_times_NaN minus_number_def fin_plus_NaN uminus_NaN del: divide_number.simps)
       (simp add: fin_divide_NaN del: divide_number.simps)
qed

lemma advanceTrailingPlan_keeps:
  assumes "bracket pol p" "positiveFinite (range_high k)"
  shows "bracket pol (advanceTrailingPlan p pol k) \<and>
    stopPrice p \<le> stopPrice (advanceTrailingPlan p pol k) \<and>
    quantity (advanceTrailingPlan p pol k) = quantity p \<and>
    averageEntryPrice (advanceTrailingPlan p pol k) = averageEntryPrice p \<and>
    takeProfitPrice (advanceTrailingPlan p pol k) = takeProfitPrice p"
proof (cases "\<exists>b tp. pol = TRAILING_BPS b tp \<and> \<not> range_high k \<le> anchorPrice p")
  case True
  then obtain b tp where pol: "pol = TRAILING_BPS b tp" and new: "\<not> range_high k \<le> anchorPrice p"
    by blast
  define x where "x = range_high k * (Fin 1 - b / Fin 10000)"
  have "x \<noteq> NaN"
    using assms unfolding x_def by (intro trailing_level) (auto simp: bracket_def pol
      isValidProtectiveExitPolicy_def)
  moreover have "stopPrice p \<noteq> NaN"
    using assms(1) by (auto simp: bracket_def)
  moreover have "averageEntryPrice p \<le> range_high k"
    by (rule le_not_le [OF _ new]) (use assms in \<open>auto simp: bracket_def positiveFinite_def\<close>)
  moreover have up: "stopPrice p \<le> js_max (stopPrice p) x"
    using calculation by (intro conjunct1 [OF js_max_ge]) simp
  moreover have "Fin 0 < js_max (stopPrice p) x"
    using assms(1) up by (intro number_lt_le_trans [OF _ up]) (simp add: bracket_def)
  ultimately show ?thesis
    using assms new by (simp add: advanceTrailingPlan_def pol bracket_def x_def [symmetric])
next
  case False
  with assms show ?thesis
    by (cases pol) (auto simp: advanceTrailingPlan_def bracket_def)
qed

subsection \<open>The machine\<close>

text \<open>What a trigger means: the stop at or below its price, the objective at or above.\<close>

definition justified :: "ProtectiveOrderPlan \<Rightarrow> ProtectiveExitResolution \<Rightarrow> bool" where
  "justified p r \<longleftrightarrow>
     armedAt p \<le> triggeredAt r \<and>
     (kind r = STOP_LOSS \<longrightarrow> referencePrice r \<le> stopPrice p) \<and>
     (kind r = TAKE_PROFIT \<longrightarrow> (\<exists>t. takeProfitPrice p = Some t \<and> t \<le> referencePrice r)) \<and>
     (reason r \<noteq> GAP_OPEN \<longrightarrow> (referencePrice r = stopPrice p \<or> takeProfitPrice p = Some (referencePrice r))) \<and>
     (reason r = AMBIGUOUS_STOP_FIRST \<longrightarrow> kind r = STOP_LOSS \<and> takeProfitPrice p \<noteq> None)"

definition po_inv :: "ActiveProtectiveExitPolicy \<Rightarrow> po_snapshot \<Rightarrow> bool" where
  "po_inv P s \<longleftrightarrow>
     (case s of (st, c) \<Rightarrow>
       policy c = P \<and> (st = Idle \<longrightarrow> plan c = None \<and> lastCandleStart c = None) \<and>
       (st \<notin> {Idle, Failed} \<longrightarrow> (\<exists>p. plan c = Some p \<and> bracket P p \<and>
         (st = Triggered \<longrightarrow> (\<exists>r. resolution c = Some r \<and> justified p r \<and>
            lastCandleStart c = Some (triggeredAt r))))) \<and>
       (st \<noteq> Triggered \<longrightarrow> resolution c = None) \<and>
       (st \<in> {Idle, ArmedAwaitingOpen} \<longrightarrow> currentCandleStart c = None \<and> currentOpen c = None) \<and>
       (st = ArmedAwaitingRange \<longrightarrow> (\<exists>t x. currentCandleStart c = Some t \<and>
          validTimestamp t \<and> currentOpen c = Some x \<and> positiveFinite x \<and>
          (\<forall>l. lastCandleStart c = Some l \<longrightarrow> l < t))) \<and>
       (\<forall>l. lastCandleStart c = Some l \<longrightarrow> validTimestamp l))"

lemma resolveProtectiveOpen_some:
  "resolveProtectiveOpen p k = Inr (Some r) \<Longrightarrow> bracket P p \<Longrightarrow>
     justified p r \<and> triggeredAt r = open_start k \<and> validTimestamp (open_start k)"
  by (auto simp: resolveProtectiveOpen_def justified_def trigger_def validTimestamp_def
    isSafeInteger_iff bracket_def split: if_splits option.splits)

lemma resolveProtectiveRange_some:
  "resolveProtectiveRange p k = Inr (Some r) \<Longrightarrow> bracket P p \<Longrightarrow>
     justified p r \<and> triggeredAt r = range_start k \<and> validTimestamp (range_start k)"
  by (auto simp: resolveProtectiveRange_def justified_def trigger_def validTimestamp_def Let_def
    isSafeInteger_iff bracket_def split: if_splits option.splits)

text \<open>The events of an armed order, one equation each.\<close>

definition armed_failed :: "ProtectiveOrderContext \<Rightarrow> ProtectiveOrderErrorCode \<Rightarrow> po_snapshot" where
  "armed_failed c x = (Failed, c\<lparr>lastError := Some x\<rparr>)"

lemma po_send_position:
  assumes "st \<in> {ArmedAwaitingOpen, ArmedAwaitingRange}" "plan c = Some p"
  shows "po_send (st, c) (POSITION_INCREASED q x a t) =
      (case planFromEvent c (POSITION_INCREASED q x a t) of
         Some (Inr p') \<Rightarrow>
           if quantity p < q \<and> inCandle c t
           then (st, c\<lparr>plan := Some p', resolution := None, cancelReason := None, lastError := None\<rparr>)
           else armed_failed c INVALID_PROTECTIVE_PLAN
       | _ \<Rightarrow> armed_failed c INVALID_PROTECTIVE_PLAN)"
    and "po_send (st, c) (POSITION_REDUCED q t) =
      (if isFinite q \<and> Fin 0 < q \<and> q < quantity p \<and> armedAt p \<le> t \<and> inCandle c t
       then (st, c\<lparr>plan := Some (p\<lparr>quantity := q\<rparr>)\<rparr>)
       else armed_failed c INVALID_PROTECTIVE_PLAN)"
    and "po_send (st, c) (CANCEL_REQUESTED r) = (Cancelled, c\<lparr>cancelReason := Some r\<rparr>)"
    and "po_send (st, c) (ARM_REQUESTED i q x a t) = (st, c)"
proof -
  show "po_send (st, c) (POSITION_INCREASED q x a t) =
      (case planFromEvent c (POSITION_INCREASED q x a t) of
         Some (Inr p') \<Rightarrow>
           if quantity p < q \<and> inCandle c t
           then (st, c\<lparr>plan := Some p', resolution := None, cancelReason := None, lastError := None\<rparr>)
           else armed_failed c INVALID_PROTECTIVE_PLAN
       | _ \<Rightarrow> armed_failed c INVALID_PROTECTIVE_PLAN)"
    using assms by (cases "planFromEvent c (POSITION_INCREASED q x a t)";
      cases "the (planFromEvent c (POSITION_INCREASED q x a t))";
      cases "quantity p < q \<and> inCandle c t")
      (auto simp: chart_eval po_rows po_actions po_guards plannable_def armed_failed_def)
  show "po_send (st, c) (POSITION_REDUCED q t) =
      (if isFinite q \<and> Fin 0 < q \<and> q < quantity p \<and> armedAt p \<le> t \<and> inCandle c t
       then (st, c\<lparr>plan := Some (p\<lparr>quantity := q\<rparr>)\<rparr>)
       else armed_failed c INVALID_PROTECTIVE_PLAN)"
    using assms
    by (cases "isFinite q \<and> Fin 0 < q \<and> q < quantity p \<and> armedAt p \<le> t \<and> inCandle c t")
      (auto simp: chart_eval po_rows po_actions po_guards armed_failed_def)
qed (use assms in \<open>auto simp: chart_eval po_rows po_actions\<close>)

text \<open>The candle follows the last one that was completed.\<close>

definition follows :: "ProtectiveOrderContext \<Rightarrow> number \<Rightarrow> bool" where
  "follows c s \<longleftrightarrow> (\<forall>l. lastCandleStart c = Some l \<longrightarrow> l < s)"

lemma po_send_open:
  assumes "plan c = Some p" "\<forall>l. lastCandleStart c = Some l \<longrightarrow> validTimestamp l"
  shows "po_send (ArmedAwaitingOpen, c) (CANDLE_OPENED s x) =
      (case resolveProtectiveOpen p \<lparr>open_start = s, open_open = x\<rparr> of
         Inl _ \<Rightarrow> armed_failed c INVALID_PROTECTIVE_SEQUENCE
       | Inr r \<Rightarrow>
           if \<not> follows c s then armed_failed c INVALID_PROTECTIVE_SEQUENCE
           else (case r of
               None \<Rightarrow> (ArmedAwaitingRange, c\<lparr>currentCandleStart := Some s, currentOpen := Some x\<rparr>)
             | Some r \<Rightarrow> (Triggered, c\<lparr>resolution := Some r, lastCandleStart := Some s,
                 currentCandleStart := None, currentOpen := None\<rparr>)))"
    (is "_ = (case ?r of Inl _ \<Rightarrow> _ | Inr r \<Rightarrow> ?step r)")
proof (cases ?r)
  case (Inr r)
  then have "validTimestamp s"
    by (auto simp: resolveProtectiveOpen_def split: if_splits)
  with assms(2) have order: "(case lastCandleStart c of None \<Rightarrow> True | Some l \<Rightarrow> l < s) = follows c s"
    "(case lastCandleStart c of None \<Rightarrow> True | Some l \<Rightarrow> \<not> s \<le> l) = follows c s"
    by (auto simp: follows_def validTimestamp_def isSafeInteger_iff not_le split: option.splits)
  from Inr assms(1) show ?thesis
    by (cases r; cases "follows c s")
       (simp_all add: chart_eval po_rows po_actions po_guards order openResolution_def
         triggeredResolution_def armed_failed_def)
qed (use assms(1) in \<open>simp add: chart_eval po_rows po_actions po_guards openResolution_def
    triggeredResolution_def armed_failed_def\<close>)

lemma po_send_range:
  assumes "plan c = Some p" "currentCandleStart c = Some t" "currentOpen c = Some x"
    and "positiveFinite x"
  shows "po_send (ArmedAwaitingRange, c) (CANDLE_RANGE_REPLAYED s h l) =
      (case resolveProtectiveRange p \<lparr>range_start = s, range_high = h, range_low = l\<rparr> of
         Inl _ \<Rightarrow> armed_failed c INVALID_PROTECTIVE_SEQUENCE
       | Inr r \<Rightarrow>
           if s \<noteq> t \<or> \<not> (l \<le> x \<and> x \<le> h) then armed_failed c INVALID_PROTECTIVE_SEQUENCE
           else (case r of
               None \<Rightarrow> (ArmedAwaitingOpen, c\<lparr>lastCandleStart := Some s, currentCandleStart := None,
                 currentOpen := None, plan := Some (advanceTrailingPlan p (policy c)
                   \<lparr>range_start = s, range_high = h, range_low = l\<rparr>)\<rparr>)
             | Some r \<Rightarrow> (Triggered, c\<lparr>resolution := Some r, lastCandleStart := Some s,
                 currentCandleStart := None, currentOpen := None\<rparr>)))"
    (is "_ = (case ?r of Inl _ \<Rightarrow> _ | Inr r \<Rightarrow> ?step r)")
proof (cases ?r)
  case (Inr r)
  then have "validTimestamp s" "positiveFinite h" "positiveFinite l"
    by (auto simp: resolveProtectiveRange_def split: if_splits)
  with assms(4) have order: "num_eq t s \<longleftrightarrow> s = t" "s = t \<Longrightarrow> num_eq t t" "\<not> x < l \<longleftrightarrow> l \<le> x" "\<not> h < x \<longleftrightarrow> x \<le> h"
    by (auto simp: num_eq_def validTimestamp_def isSafeInteger_iff not_less elim!: positiveFiniteE)
  from Inr assms(1-3) show ?thesis
    by (cases r; cases "s = t \<and> l \<le> x \<and> x \<le> h")
       (auto simp: chart_eval po_rows po_actions po_guards order rangeResolution_def
         triggeredResolution_def armed_failed_def)
qed (use assms(1-3) in \<open>auto simp: chart_eval po_rows po_actions po_guards rangeResolution_def
    triggeredResolution_def armed_failed_def\<close>)

lemma po_inv_position:
  assumes inv: "po_inv P (st, c)" and st: "st \<in> {ArmedAwaitingOpen, ArmedAwaitingRange}"
  shows "po_inv P (po_send (st, c) (POSITION_INCREASED q x a t))"
    "po_inv P (po_send (st, c) (POSITION_REDUCED q t))"
    "po_inv P (po_send (st, c) (CANCEL_REQUESTED r))"
    "po_inv P (po_send (st, c) (ARM_REQUESTED i q x a t))"
proof -
  from inv st obtain p where p: "plan c = Some p" "bracket P p" "policy c = P"
    by (auto simp: po_inv_def)
  note eqs = po_send_position [OF st p(1)]
  show "po_inv P (po_send (st, c) (POSITION_INCREASED q x a t))"
    using inv st p planFromEvent_bracket [of c "POSITION_INCREASED q x a t"]
    by (auto simp: eqs po_inv_def armed_failed_def split: option.splits sum.splits)
  show "po_inv P (po_send (st, c) (POSITION_REDUCED q t))"
    using inv st p
    by (auto simp: eqs po_inv_def armed_failed_def bracket_def positiveFinite_def)
  show "po_inv P (po_send (st, c) (CANCEL_REQUESTED r))"
    "po_inv P (po_send (st, c) (ARM_REQUESTED i q x a t))"
    using inv st p by (auto simp: eqs po_inv_def)
qed

lemma po_inv_open:
  assumes inv: "po_inv P (ArmedAwaitingOpen, c)"
  shows "po_inv P (po_send (ArmedAwaitingOpen, c) (CANDLE_OPENED s x))"
proof -
  from inv obtain p where p: "plan c = Some p" "bracket P p" "policy c = P"
    and ts: "\<forall>l. lastCandleStart c = Some l \<longrightarrow> validTimestamp l"
    by (auto simp: po_inv_def)
  have valid: "validTimestamp s \<and> positiveFinite x"
    if "resolveProtectiveOpen p \<lparr>open_start = s, open_open = x\<rparr> = Inr r" for r
    using that by (auto simp: resolveProtectiveOpen_def split: if_splits)
  show ?thesis
    using inv p valid resolveProtectiveOpen_some [OF _ p(2), of "\<lparr>open_start = s, open_open = x\<rparr>"]
    by (auto simp: po_send_open [OF p(1) ts] po_inv_def armed_failed_def follows_def
      split: option.splits sum.splits)
qed

lemma po_inv_range:
  assumes inv: "po_inv P (ArmedAwaitingRange, c)"
  shows "po_inv P (po_send (ArmedAwaitingRange, c) (CANDLE_RANGE_REPLAYED s h l))"
proof -
  let ?k = "\<lparr>range_start = s, range_high = h, range_low = l\<rparr>"
  from inv obtain p t x where p: "plan c = Some p" "bracket P p" "policy c = P"
    and cur: "currentCandleStart c = Some t" "currentOpen c = Some x" "positiveFinite x"
    by (auto simp: po_inv_def)
  have valid: "validTimestamp s \<and> positiveFinite h"
    if "resolveProtectiveRange p ?k = Inr r" for r
    using that by (auto simp: resolveProtectiveRange_def split: if_splits)
  show ?thesis
    using inv p valid resolveProtectiveRange_some [OF _ p(2), of ?k]
      advanceTrailingPlan_keeps [OF p(2), of ?k]
    by (auto simp: po_send_range [OF p(1) cur] po_inv_def armed_failed_def
      split: option.splits sum.splits)
qed

lemma po_inv_send:
  assumes "po_inv P (st, c)"
  shows "po_inv P (po_send (st, c) e)"
proof (cases st)
  case Idle
  show ?thesis
  proof (cases "canArm c e")
    case True
    then obtain p where "planFromEvent c e = Some (Inr p)"
      by (auto simp: canArm_def elim!: plannableE)
    with Idle True assms planFromEvent_bracket [of c e p] show ?thesis
      by (cases e) (simp_all add: chart_eval po_rows po_actions po_inv_def)
  next
    case False
    with Idle assms show ?thesis
      by (cases e) (simp_all add: chart_eval po_rows po_actions po_inv_def)
  qed
next
  case ArmedAwaitingOpen
  with assms po_inv_position [OF assms] po_inv_open [of P c] show ?thesis
    by (cases e) (auto simp: chart_eval po_rows po_actions po_inv_def)
next
  case ArmedAwaitingRange
  with assms po_inv_position [OF assms] po_inv_range [of P c] show ?thesis
    by (cases e) (auto simp: chart_eval po_rows po_actions po_inv_def)
qed (use assms in \<open>simp_all add: chart_eval\<close>)

lemma po_play_inv: "po_inv P (play po_send (Idle, protectiveOrder_context P) es)"
proof (rule foldl_invariant)
  show "po_inv P (Idle, protectiveOrder_context P)"
    by (simp add: po_inv_def protectiveOrder_context_def)
qed (use po_inv_send in \<open>auto simp del: split_paired_All\<close>)

subsection \<open>Properties\<close>

definition sample_trailing :: ActiveProtectiveExitPolicy where
  "sample_trailing = TRAILING_BPS (Fin 625) None"

definition sample_orders :: "ProtectiveOrderEvent list" where
  "sample_orders =
     [ARM_REQUESTED ''p1'' (Fin 2) (Fin 128) None (Fin 1000), CANDLE_OPENED (Fin 2000) (Fin 128),
      CANDLE_RANGE_REPLAYED (Fin 2000) (Fin 160) (Fin 124)]"

lemma po_numbers:
  "fl (1 / 16) = Fin (1 / 16)" "fl (15 / 16) = Fin (15 / 16)" "fl (17 / 16) = Fin (17 / 16)"
  using fl_frac [of 1 4] fl_frac [of 15 4] fl_frac [of 17 4] by simp_all

lemmas po_eval = chart_eval po_rows po_actions po_guards planFromEvent_def plannable_def
  createProtectiveOrderPlan_def isValidProtectiveExitPolicy_def positiveFinite_def
  validTimestamp_def isSafeInteger_def Let_def number_diff_Fin po_numbers non_blank_iff
  js_space_def openResolution_def rangeResolution_def triggeredResolution_def
  resolveProtectiveOpen_def resolveProtectiveRange_def trigger_def advanceTrailingPlan_def
  js_max_def protectiveOrder_context_def ok_def err_def is_ok_def

lemmas po_samples = sample_trailing_def sample_orders_def

text \<open>A plan is a bracket around the entry.  Every plan that is created has a positive,
  finite quantity and a positive stop strictly below the entry price; its objective, when it
  has one, is finite and strictly above it, and only a trailing policy may have none.  It is
  the plan of the request, anchored at the entry, under a valid policy.\<close>

theorem created_plan_is_bracket:
  assumes "createProtectiveOrderPlan i = Inr p"
  shows "bracket (in_policy i) p \<and> stopPrice p < averageEntryPrice p \<and>
    anchorPrice p = averageEntryPrice p \<and> positionId p = in_positionId i \<and>
    quantity p = in_quantity i \<and> averageEntryPrice p = in_averageEntryPrice i \<and>
    armedAt p = in_armedAt i"
  using assms by (rule createProtectiveOrderPlan_ok)

theorem created_plan_is_bracket_witness:
  "\<exists>p. createProtectiveOrderPlan \<lparr>in_positionId = ''p1'', in_quantity = Fin 2,
      in_averageEntryPrice = Fin 128, in_atr = Some (Fin 4), in_armedAt = Fin 1000,
      in_policy = ATR_MULTIPLE (Fin 2) (Fin 3)\<rparr> = Inr p \<and>
    stopPrice p = Fin 120 \<and> takeProfitPrice p = Some (Fin 140) \<and> stopPrice p < averageEntryPrice p"
proof -
  let ?i = "\<lparr>in_positionId = ''p1'', in_quantity = Fin 2,
      in_averageEntryPrice = Fin 128, in_atr = Some (Fin 4), in_armedAt = Fin 1000,
      in_policy = ATR_MULTIPLE (Fin 2) (Fin 3)\<rparr>"
  obtain p where p: "createProtectiveOrderPlan ?i = Inr p" "stopPrice p = Fin 120"
    "takeProfitPrice p = Some (Fin 140)"
    by (simp add: po_eval)
  with created_plan_is_bracket [OF p(1)] show ?thesis
    by auto
qed

text \<open>C26: an armed order stays protected.  In every run, in both armed states and after a
  trigger or a cancellation there is a plan with the bracket of the policy; a triggered order
  carries a resolution its plan justifies: a stop at or below the stop price, an objective at
  or above the objective, at the exact level when it was reached inside a candle; and nothing
  is resolved before.\<close>

theorem armed_order_is_protected:
  assumes "xstate_runtime protectiveOrderMachine init send"
    and "play send (init (protectiveOrder_context P)) es = (st, c)"
    and "st \<in> {ArmedAwaitingOpen, ArmedAwaitingRange, Triggered, Cancelled}"
  shows "\<exists>p. plan c = Some p \<and> bracket P p \<and>
    (if st = Triggered then \<exists>r. resolution c = Some r \<and> justified p r \<and>
       lastCandleStart c = Some (triggeredAt r)
     else resolution c = None)"
  using po_play_inv [of P es] assms(2,3)
  by (auto simp: po_runtime [OF assms(1)] po_boot po_inv_def)

theorem armed_order_is_protected_witness:
  "resolution (snd (play po_send (sc_start protectiveOrderMachine
     (protectiveOrder_context sample_trailing)) sample_orders)) = None"
proof -
  let ?s = "play po_send (sc_start protectiveOrderMachine
     (protectiveOrder_context sample_trailing)) sample_orders"
  have "fst ?s = ArmedAwaitingOpen"
    by (simp add: po_samples po_eval)
  with armed_order_is_protected [OF po.runtime_sc surjective_pairing, of sample_trailing sample_orders]
  show ?thesis by auto
qed

text \<open>No gap is missed and none is invented.  For an order armed with a plan \<open>p\<close>, a valid
  opening price of a later candle ends the order exactly when it is at or beyond one of the two
  levels, the stop deciding first; otherwise the order waits for the range of that candle.\<close>

theorem opening_price_decides:
  assumes "xstate_runtime protectiveOrderMachine init send"
    and "play send (init (protectiveOrder_context P)) es = (ArmedAwaitingOpen, c)"
    and "plan c = Some p" "validTimestamp s" "armedAt p \<le> s" "positiveFinite x" "follows c s"
  shows "fst (send (ArmedAwaitingOpen, c) (CANDLE_OPENED s x)) =
      (if x \<le> stopPrice p \<or> (\<exists>t. takeProfitPrice p = Some t \<and> t \<le> x) then Triggered
       else ArmedAwaitingRange) \<and>
    resolution (snd (send (ArmedAwaitingOpen, c) (CANDLE_OPENED s x))) =
      (if x \<le> stopPrice p then Some (trigger STOP_LOSS GAP_OPEN x s)
       else if \<exists>t. takeProfitPrice p = Some t \<and> t \<le> x then Some (trigger TAKE_PROFIT GAP_OPEN x s)
       else None)"
proof -
  have "po_inv P (ArmedAwaitingOpen, c)"
    using po_play_inv [of P es] assms(2) by (simp add: po_runtime [OF assms(1)] po_boot)
  then have ts: "\<forall>l. lastCandleStart c = Some l \<longrightarrow> validTimestamp l" and "resolution c = None"
    by (auto simp: po_inv_def)
  moreover have "\<not> s < armedAt p"
    using assms(5) by (cases s; cases "armedAt p") auto
  ultimately show ?thesis
    using assms(3-7) unfolding po_runtime [OF assms(1)] po_send_open [OF assms(3) ts]
    by (auto simp: resolveProtectiveOpen_def split: option.splits)
qed

theorem opening_price_decides_witness:
  "fst (play po_send (sc_start protectiveOrderMachine (protectiveOrder_context sample_trailing))
     (sample_orders @ [CANDLE_OPENED (Fin 3000) (Fin 149)])) = Triggered"
proof -
  let ?s = "play po_send (sc_start protectiveOrderMachine
     (protectiveOrder_context sample_trailing)) sample_orders"
  obtain p where st: "?s = (ArmedAwaitingOpen, snd ?s)" and p: "plan (snd ?s) = Some p"
    "armedAt p = Fin 1000" "stopPrice p = Fin 150" "lastCandleStart (snd ?s) = Some (Fin 2000)"
    by (simp add: po_samples po_eval)
  then have "fst (po_send (ArmedAwaitingOpen, snd ?s) (CANDLE_OPENED (Fin 3000) (Fin 149))) = Triggered"
    by (subst opening_price_decides [OF po.runtime_sc st p(1), THEN conjunct1])
       (simp_all add: follows_def validTimestamp_def isSafeInteger_def positiveFinite_def)
  then show ?thesis
    by (subst foldl_append) (simp only: st [symmetric] foldl.simps)
qed

text \<open>A range resolves to the stop first.  For the open candle of an armed order, a valid
  range that contains the opening price ends the order exactly when it reaches a level; when it
  reaches both, the stop wins and the resolution says it was ambiguous.  A range that reaches
  neither completes the candle and re-arms the order with the advanced plan.\<close>

theorem range_decides:
  assumes "xstate_runtime protectiveOrderMachine init send"
    and "play send (init (protectiveOrder_context P)) es = (ArmedAwaitingRange, c)"
    and "plan c = Some p" "currentCandleStart c = Some s" "armedAt p \<le> s" "currentOpen c = Some x"
    and "positiveFinite h" "positiveFinite l" "l \<le> x" "x \<le> h"
  shows "(let s' = send (ArmedAwaitingRange, c) (CANDLE_RANGE_REPLAYED s h l);
              stop = (l \<le> stopPrice p);
              take = (\<exists>t. takeProfitPrice p = Some t \<and> t \<le> h)
    in fst s' = (if stop \<or> take then Triggered else ArmedAwaitingOpen) \<and>
       resolution (snd s') =
         (if stop \<and> take then Some (trigger STOP_LOSS AMBIGUOUS_STOP_FIRST (stopPrice p) s)
          else if stop then Some (trigger STOP_LOSS INTRABAR (stopPrice p) s)
          else if take then Some (trigger TAKE_PROFIT INTRABAR (the (takeProfitPrice p)) s)
          else None) \<and>
       (\<not> stop \<and> \<not> take \<longrightarrow> plan (snd s') = Some (advanceTrailingPlan p P
          \<lparr>range_start = s, range_high = h, range_low = l\<rparr>)) \<and>
       lastCandleStart (snd s') = Some s \<and> currentCandleStart (snd s') = None)"
proof -
  have inv: "po_inv P (ArmedAwaitingRange, c)"
    using po_play_inv [of P es] assms(2) by (simp add: po_runtime [OF assms(1)] po_boot)
  then have x: "positiveFinite x" "validTimestamp s" "resolution c = None" "policy c = P"
    using assms by (auto simp: po_inv_def)
  moreover have "\<not> s < armedAt p"
    using assms(5) by (cases s; cases "armedAt p") auto
  moreover have "\<not> h < l"
    using number_le_trans [OF assms(9,10)] by (cases h; cases l) auto
  ultimately show ?thesis
    using assms(3-10) unfolding po_runtime [OF assms(1)] po_send_range [OF assms(3,4,6) x(1)]
    by (auto simp: resolveProtectiveRange_def Let_def split: option.splits)
qed

theorem range_decides_witness:
  "fst (play po_send (sc_start protectiveOrderMachine (protectiveOrder_context sample_trailing))
     (take 2 sample_orders @ [CANDLE_RANGE_REPLAYED (Fin 2000) (Fin 160) (Fin 120)])) = Triggered"
proof -
  let ?s = "play po_send (sc_start protectiveOrderMachine
     (protectiveOrder_context sample_trailing)) (take 2 sample_orders)"
  obtain p where st: "?s = (ArmedAwaitingRange, snd ?s)" and p: "plan (snd ?s) = Some p"
    "armedAt p = Fin 1000" "stopPrice p = Fin 120" "currentCandleStart (snd ?s) = Some (Fin 2000)"
    "currentOpen (snd ?s) = Some (Fin 128)"
    by (simp add: po_samples po_eval)
  then have "fst (po_send (ArmedAwaitingRange, snd ?s)
      (CANDLE_RANGE_REPLAYED (Fin 2000) (Fin 160) (Fin 120))) = Triggered"
    using range_decides [OF po.runtime_sc st p(1) p(4) _ p(5), of "Fin 160" "Fin 120"]
    by (simp add: positiveFinite_def Let_def)
  then show ?thesis
    by (subst foldl_append) (simp only: st [symmetric] foldl.simps)
qed

text \<open>Protection is never loosened.  Between two armed states, every event other than an
  increase of the position keeps the entry price and the objective, never lowers the stop and
  never raises the quantity.\<close>

theorem stop_never_lowered:
  assumes "xstate_runtime protectiveOrderMachine init send"
    and "play send (init (protectiveOrder_context P)) es = (st, c)"
    and "st \<in> {ArmedAwaitingOpen, ArmedAwaitingRange}" "plan c = Some p"
    and "send (st, c) e = (st', c')" "st' \<in> {ArmedAwaitingOpen, ArmedAwaitingRange}"
    and "\<nexists>q x a t. e = POSITION_INCREASED q x a t"
  shows "\<exists>p'. plan c' = Some p' \<and> stopPrice p \<le> stopPrice p' \<and> quantity p' \<le> quantity p \<and>
    averageEntryPrice p' = averageEntryPrice p \<and> takeProfitPrice p' = takeProfitPrice p"
proof -
  have inv: "po_inv P (st, c)"
    using po_play_inv [of P es] assms(2) by (simp add: po_runtime [OF assms(1)] po_boot)
  have step: "po_send (st, c) e = (st', c')"
    using assms(5) by (simp add: po_runtime [OF assms(1)])
  have refl: "stopPrice p \<le> stopPrice p" "quantity p \<le> quantity p" and br: "bracket P p"
    using inv assms(3,4) by (auto simp: po_inv_def bracket_def positiveFinite_def)
  show ?thesis
  proof (cases e)
    case (POSITION_REDUCED q t)
    then show ?thesis
      using step assms(6) refl
      by (auto simp: po_send_position(2) [OF assms(3,4)] armed_failed_def number_lt_imp_le
        split: if_splits)
  next
    case (CANDLE_OPENED s x)
    show ?thesis
      using step assms(3,4,6) refl inv unfolding CANDLE_OPENED
      by (auto simp: po_send_open [of c p] armed_failed_def po_inv_def chart_eval po_rows po_actions
        split: if_splits option.splits sum.splits)
  next
    case (CANDLE_RANGE_REPLAYED s h l)
    let ?k = "\<lparr>range_start = s, range_high = h, range_low = l\<rparr>"
    show ?thesis
    proof (cases "st = ArmedAwaitingRange")
      case True
      with inv obtain t x where cur: "currentCandleStart c = Some t" "currentOpen c = Some x"
        "positiveFinite x" and pol: "policy c = P"
        by (auto simp: po_inv_def)
      have "positiveFinite h" if "resolveProtectiveRange p ?k = Inr r" for r
        using that by (auto simp: resolveProtectiveRange_def split: if_splits)
      then show ?thesis
        using step assms(6) refl advanceTrailingPlan_keeps [OF br, of ?k] pol
        unfolding CANDLE_RANGE_REPLAYED True
        by (auto simp: po_send_range [OF assms(4) cur] armed_failed_def
          split: if_splits option.splits sum.splits)
    next
      case False
      then show ?thesis
        using step assms(3,6) unfolding CANDLE_RANGE_REPLAYED
        by (auto simp: chart_eval po_rows po_actions)
    qed
  qed (use step assms refl in \<open>auto simp: po_send_position [OF assms(3,4)]\<close>)
qed

theorem stop_never_lowered_witness:
  "\<exists>p'. plan (snd (play po_send (sc_start protectiveOrderMachine
      (protectiveOrder_context sample_trailing)) sample_orders)) = Some p' \<and> Fin 120 \<le> stopPrice p'"
proof -
  let ?s = "play po_send (sc_start protectiveOrderMachine
     (protectiveOrder_context sample_trailing)) (take 2 sample_orders)"
  let ?e = "CANDLE_RANGE_REPLAYED (Fin 2000) (Fin 160) (Fin 124)"
  obtain p where st: "?s = (ArmedAwaitingRange, snd ?s)" and p: "plan (snd ?s) = Some p"
    "stopPrice p = Fin 120"
    by (simp add: po_samples po_eval)
  moreover have "fst (po_send (ArmedAwaitingRange, snd ?s) ?e) = ArmedAwaitingOpen"
    by (simp add: po_samples po_eval)
  ultimately have "\<exists>p'. plan (snd (po_send (ArmedAwaitingRange, snd ?s) ?e)) = Some p' \<and>
      Fin 120 \<le> stopPrice p'"
    using stop_never_lowered [OF po.runtime_sc st _ p(1) surjective_pairing, of ?e] by auto
  moreover have "play po_send (sc_start protectiveOrderMachine
      (protectiveOrder_context sample_trailing)) sample_orders = po_send ?s ?e"
    by (simp add: sample_orders_def)
  ultimately show ?thesis
    by (simp only: st [symmetric])
qed

text \<open>Policies are compared by value.  The comparison that decides whether an order must be
  re-armed is equality, on policies without not-a-number parameters.\<close>

theorem policy_equality:
  "activeProtectivePolicyEquals a b \<longleftrightarrow>
     a = b \<and> (\<forall>p. a = Some p \<longrightarrow>
       (case p of FIXED_BPS x y \<Rightarrow> x \<noteq> NaN \<and> y \<noteq> NaN | ATR_MULTIPLE x y \<Rightarrow> x \<noteq> NaN \<and> y \<noteq> NaN
        | TRAILING_BPS x y \<Rightarrow> x \<noteq> NaN \<and> y \<noteq> Some NaN))"
  by (auto simp: activeProtectivePolicyEquals_def opt_eq_def num_eq_def
    split: option.splits ActiveProtectiveExitPolicy.splits)

theorem policy_equality_witness:
  "activeProtectivePolicyEquals (Some (TRAILING_BPS (Fin 5) None)) (Some (TRAILING_BPS (Fin 5) None))"
  by (subst policy_equality) simp

text \<open>The counts of exits partition the exits of a replay.\<close>

theorem exit_counts:
  "summarizeProtectiveExits xs =
     \<lparr>protectiveExitCount = length xs,
      stopLossExitCount = length (filter (\<lambda>x. exitKind x = STOP_LOSS) xs),
      takeProfitExitCount = length (filter (\<lambda>x. exitKind x = TAKE_PROFIT) xs),
      ambiguousExitCount = length (filter (\<lambda>x. exitReason x = AMBIGUOUS_STOP_FIRST) xs)\<rparr>"
proof -
  have other: "exitKind x = TAKE_PROFIT \<longleftrightarrow> exitKind x \<noteq> STOP_LOSS" for x
    by (cases "exitKind x") simp_all
  have "foldl (\<lambda>(s, t, a) x.
         let (s, t) = (if exitKind x = STOP_LOSS then (s + 1, t) else (s, t + 1))
         in (s, t, if exitReason x = AMBIGUOUS_STOP_FIRST then a + 1 else a)) (s, t, a) xs =
      (s + length (filter (\<lambda>x. exitKind x = STOP_LOSS) xs),
       t + length (filter (\<lambda>x. exitKind x = TAKE_PROFIT) xs),
       a + length (filter (\<lambda>x. exitReason x = AMBIGUOUS_STOP_FIRST) xs))" for s t a :: nat
    by (induction xs arbitrary: s t a) (auto simp: other)
  moreover have "length xs = length (filter (\<lambda>x. exitKind x = STOP_LOSS) xs) +
      length (filter (\<lambda>x. exitKind x = TAKE_PROFIT) xs)"
    by (induction xs) (auto simp: other)
  ultimately show ?thesis
    by (simp add: summarizeProtectiveExits_def)
qed

end
