(* ===== verification/DomainProps.thy ===== *)
theory DomainProps
  imports Domain
begin

text \<open>
  The validated values of the domain: what a client order identifier looks like and what it
  depends on, what an accepted candle series is, and product identifiers as normal forms.
\<close>

subsection \<open>Digits\<close>

definition hex_char :: "char \<Rightarrow> bool" where
  "hex_char c \<longleftrightarrow> c \<in> set ''0123456789abcdef''"

lemma digit_hex: "n < 16 \<Longrightarrow> hex_char (digit n)"
proof -
  have "\<forall>n\<in>set [0..<16]. hex_char (digit n)"
    by code_simp
  then show "n < 16 \<Longrightarrow> hex_char (digit n)"
    by simp
qed

lemma radix_hex: "hex_char c" if "c \<in> set (radix 16 n)"
  using that
proof (induction "16 :: nat" n rule: radix.induct)
  case (1 n)
  then show ?case
    by (subst (asm) (2) radix.simps) (auto split: if_splits intro: digit_hex)
qed

lemma length_radix: "0 < k \<Longrightarrow> n < b ^ k \<Longrightarrow> length (radix b n) \<le> k"
proof (induction b n arbitrary: k rule: radix.induct)
  case (1 b n)
  show ?case
  proof (cases "b < 2 \<or> n < b")
    case True
    with 1 show ?thesis by (subst radix.simps) simp
  next
    case False
    with 1(2,3) obtain j where k: "k = Suc j" "0 < j"
      by (cases k; cases "k - 1") auto
    from False k 1(3) have "n div b < b ^ j"
      by (simp add: less_mult_imp_div_less mult.commute)
    with 1(1) [OF False k(2)] False k show ?thesis
      by (subst radix.simps) simp
  qed
qed

lemma hex_props: "length (hex w) = 8" "c \<in> set (hex w) \<Longrightarrow> hex_char c"
proof -
  have "unat w < 16 ^ 8"
    using unsigned_less [of w] by simp
  then have "length (radix 16 (unat w)) \<le> 8"
    by (intro length_radix) simp_all
  then show "length (hex w) = 8"
    by (simp add: hex_def pad_start_def)
  have "hex_char (CHR ''0'')"
    by (simp add: hex_char_def)
  then show "c \<in> set (hex w) \<Longrightarrow> hex_char c"
    by (auto simp: hex_def pad_start_def intro: radix_hex)
qed

lemma set_slice: "c \<in> set (slice i j s) \<Longrightarrow> c \<in> set s"
  by (auto simp: slice_def dest: in_set_takeD in_set_dropD)

definition read_radix :: "nat \<Rightarrow> string \<Rightarrow> nat" where
  "read_radix b s = foldl (\<lambda>n c. n * b + (of_char c - 48)) 0 s"

lemma read_radix: "read_radix 10 (radix 10 n) = n"
proof (induction "10 :: nat" n rule: radix.induct)
  case (1 n)
  have d: "of_char (digit k) - 48 = k" if "k < 10" for k
    using that by (simp add: digit_def of_char_of)
  from 1 show ?case
    by (subst radix.simps) (auto simp: read_radix_def d)
qed

lemma radix_inject: "radix 10 m = radix 10 n \<Longrightarrow> m = n"
  by (metis read_radix)

lemma split_at_first:
  "x \<notin> set xs \<Longrightarrow> x \<notin> set ys \<Longrightarrow> xs @ x # rs = ys @ x # ss \<Longrightarrow> xs = ys \<and> rs = ss"
proof (induction xs arbitrary: ys)
  case Nil
  then show ?case by (cases ys) auto
next
  case (Cons z zs)
  then show ?case by (cases ys) auto
qed

subsection \<open>Identifiers\<close>

text \<open>A client order identifier has the form of a version 5 UUID.  It is computed exactly
  when the three identifiers are not blank and the index is a natural number; the result is
  eight, four, four, four and twelve hexadecimal digits, with the version and variant marks.\<close>

theorem client_order_id_uuid:
  "(is_ok (createClientOrderId agent cycle decision index) \<longleftrightarrow>
      non_blank agent \<and> non_blank cycle \<and> non_blank decision \<and>
      isSafeInteger index \<and> Fin 0 \<le> index) \<and>
   (\<forall>u. createClientOrderId agent cycle decision index = Inr u \<longrightarrow>
      (\<exists>a b c d e. u = a @ ''-'' @ b @ ''-5'' @ c @ ''-a'' @ d @ ''-'' @ e \<and>
        length a = 8 \<and> length b = 4 \<and> length c = 3 \<and> length d = 3 \<and> length e = 12 \<and>
        list_all hex_char (a @ b @ c @ d @ e)))"
proof -
  have ix: "\<not> index < Fin 0 \<longleftrightarrow> Fin 0 \<le> index" if "isSafeInteger index"
    using that by (auto simp: isSafeInteger_iff not_less)
  have "\<exists>a b c d e. u = a @ ''-'' @ b @ ''-5'' @ c @ ''-a'' @ d @ ''-'' @ e \<and>
        length a = 8 \<and> length b = 4 \<and> length c = 3 \<and> length d = 3 \<and> length e = 12 \<and>
        list_all hex_char (a @ b @ c @ d @ e)"
    if "createClientOrderId agent cycle decision index = Inr u" for u
  proof -
    define src where "src = order_source agent cycle decision
      (case index of Fin r \<Rightarrow> nat \<lfloor>r\<rfloor> | _ \<Rightarrow> 0)"
    define dg where "dg = hex (hash32 src 0x811c9dc5) @ hex (hash32 src 0x9e3779b9) @
      hex (hash32 src 0x85ebca6b) @ hex (hash32 src 0xc2b2ae35)"
    have u: "u = slice 0 8 dg @ ''-'' @ slice 8 12 dg @ ''-5'' @ slice 13 16 dg @ ''-a'' @
        slice 17 20 dg @ ''-'' @ slice 20 32 dg"
      using that by (simp add: createClientOrderId_def Let_def dg_def src_def split: if_splits)
    have "length dg = 32"
      by (simp add: dg_def hex_props)
    moreover have "hex_char k" if "k \<in> set dg" for k
      using that hex_props by (auto simp: dg_def)
    ultimately show ?thesis
      unfolding u
      by (intro exI conjI refl) (auto simp: slice_def list_all_iff dest: in_set_takeD in_set_dropD)
  qed
  then show ?thesis
    using ix by (auto simp: createClientOrderId_def isNonEmpty_def Let_def)
qed

theorem client_order_id_uuid_witness:
  "\<exists>a b c d e. createClientOrderId ''agent'' ''c1'' ''d1'' (Fin 0) =
     Inr (a @ ''-'' @ b @ ''-5'' @ c @ ''-a'' @ d @ ''-'' @ e) \<and> length e = 12"
proof -
  have "is_ok (createClientOrderId ''agent'' ''c1'' ''d1'' (Fin 0))"
    using client_order_id_uuid [of "''agent''" "''c1''" "''d1''" "Fin 0"]
    by (simp add: non_blank_iff js_space_def isSafeInteger_def)
  then obtain u where u: "createClientOrderId ''agent'' ''c1'' ''d1'' (Fin 0) = Inr u"
    by (rule is_okE)
  from client_order_id_uuid [THEN conjunct2, rule_format, OF u] u show ?thesis
    by metis
qed

text \<open>C40: two orders hash the same source only if they are the same order.  When no identifier
  contains the separator, the string that is hashed determines the agent, the cycle, the
  decision and the index.\<close>

theorem order_source_injective:
  assumes "order_source a c d n = order_source a' c' d' n'"
    and "CHR 0x1F \<notin> set (a @ c @ d @ a' @ c' @ d')"
  shows "a = a' \<and> c = c' \<and> d = d' \<and> n = n'"
proof -
  have "a = a'" and r1: "c @ CHR 0x1F # d @ CHR 0x1F # radix 10 n =
      c' @ CHR 0x1F # d' @ CHR 0x1F # radix 10 n'"
    using assms split_at_first [of "CHR 0x1F" a a'] by (auto simp: order_source_def)
  moreover have "c = c'" and r2: "d @ CHR 0x1F # radix 10 n = d' @ CHR 0x1F # radix 10 n'"
    using r1 assms(2) split_at_first [of "CHR 0x1F" c c'] by auto
  moreover have "d = d'" "radix 10 n = radix 10 n'"
    using r2 assms(2) split_at_first [of "CHR 0x1F" d d'] by auto
  ultimately show ?thesis
    using radix_inject by blast
qed

theorem order_source_injective_witness:
  "order_source ''agent'' ''c1'' ''d1'' 1 \<noteq> order_source ''agent'' ''c1'' ''d'' 11"
  using order_source_injective [of "''agent''" "''c1''" "''d1''" 1 "''agent''" "''c1''" "''d''" 11]
  by auto

lemma set_split_on: "set s \<subseteq> insert k (\<Union> (set ` set (split_on k s)))"
proof (induction s)
  case (Cons x xs)
  then show ?case by (cases "split_on k xs") auto
qed simp

lemma upper_asset: "asset_char c \<or> c = CHR ''-'' \<Longrightarrow> upper_char c = [c]"
  by (auto simp: upper_char_def asset_char_def Let_def)

lemma js_trim_id: "list_all (\<lambda>c. \<not> js_space c) s \<Longrightarrow> js_trim s = s"
proof -
  have dw: "dropWhile js_space s = s" if "list_all (\<lambda>c. \<not> js_space c) s" for s
    using that by (cases s) auto
  show "list_all (\<lambda>c. \<not> js_space c) s \<Longrightarrow> js_trim s = s"
    using dw [of s] dw [of "rev s"] by (simp add: js_trim_def)
qed

text \<open>Product identifiers are normal forms: a created identifier is created from itself.\<close>

theorem product_id_idempotent:
  assumes "createProductId raw = Inr p"
  shows "createProductId p = Inr p"
proof -
  define u where "u = js_upper (js_trim raw)"
  from assms obtain x y where sp: "split_on (CHR ''-'') u = [x, y]" "assetPattern x" "assetPattern y"
    "x \<noteq> y" "p = u"
    by (auto simp: createProductId_def u_def [symmetric] split: list.splits if_splits)
  have chars: "asset_char c \<or> c = CHR ''-''" if "c \<in> set u" for c
    using that set_split_on [of u "CHR ''-''"] sp by (auto simp: assetPattern_def list_all_iff)
  then have "\<not> js_space c" if "c \<in> set u" for c
    using that by (fastforce simp: js_space_def asset_char_def Let_def)
  then have "js_trim u = u"
    by (intro js_trim_id) (simp add: list_all_iff)
  moreover have "js_upper u = u"
    using chars by (induction u) (auto simp: js_upper_def upper_asset)
  ultimately show ?thesis
    using sp by (simp add: createProductId_def)
qed

theorem product_id_idempotent_witness:
  "createProductId '' btc-usd'' = Inr ''BTC-USD'' \<and> createProductId ''BTC-USD'' = Inr ''BTC-USD''"
proof -
  have "createProductId '' btc-usd'' = Inr ''BTC-USD''"
    by code_simp
  with product_id_idempotent [OF this] show ?thesis
    by simp
qed

subsection \<open>Candle series\<close>

definition valid_candle :: "Candle \<Rightarrow> bool" where
  "valid_candle c \<longleftrightarrow>
     isSafeInteger (start c) \<and> Fin 0 \<le> start c \<and>
     (\<forall>x\<in>{open_price c, high c, low c, close_price c}. isFinite x \<and> Fin 0 < x) \<and>
     isFinite (volume c) \<and> Fin 0 \<le> volume c \<and>
     low c \<le> open_price c \<and> low c \<le> close_price c \<and>
     open_price c \<le> high c \<and> close_price c \<le> high c"

lemma createCandle_ok: "createCandle c = Inr v \<longleftrightarrow> v = c \<and> valid_candle c"
proof -
  have "\<not> start c < Fin 0 \<longleftrightarrow> Fin 0 \<le> start c" if "isSafeInteger (start c)"
    using that by (auto simp: isSafeInteger_iff not_less)
  moreover have "\<not> volume c < Fin 0 \<longleftrightarrow> Fin 0 \<le> volume c" if "isFinite (volume c)"
    using that by (auto simp: not_less elim!: isFiniteE)
  moreover have "\<not> (high c < js_max (js_max (open_price c) (close_price c)) (low c) \<or>
      js_min (js_min (open_price c) (close_price c)) (high c) < low c) \<longleftrightarrow>
      low c \<le> open_price c \<and> low c \<le> close_price c \<and> open_price c \<le> high c \<and> close_price c \<le> high c"
    if "isFinite (open_price c)" "isFinite (high c)" "isFinite (low c)" "isFinite (close_price c)"
    using that by (elim isFiniteE) (auto simp: js_max_def js_min_def)
  ultimately show ?thesis
    unfolding createCandle_def valid_candle_def isPositiveFinite_def
    by (auto split: if_splits)
qed

lemma validate_candles_ok:
  "validate_candles k prev cs = Inr vs \<Longrightarrow> vs = cs \<and> list_all valid_candle cs"
  by (induction k prev cs arbitrary: vs rule: validate_candles.induct)
     (auto simp: createCandle_ok split: sum.splits if_splits)

lemma find_gap_None:
  assumes "find_gap (Fin (of_int D)) k (Some p) cs = None" "list_all valid_candle (p # cs)"
    and "start p = Fin (of_int t)" "j < length cs"
  shows "start (cs ! j) = Fin (of_int (t + (1 + int j) * D))"
  using assms
proof (induction cs arbitrary: k p t j)
  case (Cons c cs)
  obtain u where u: "start c = Fin (of_int u)" "0 \<le> u" "u < 2 ^ 53"
    using Cons.prems(2) by (auto simp: valid_candle_def isSafeInteger_iff)
  have t: "0 \<le> t" "t < 2 ^ 53"
    using Cons.prems(2,3) by (auto simp: valid_candle_def isSafeInteger_iff)
  have "start c - start p = Fin (of_int (u - t))"
    using u t Cons.prems(3) by (simp add: fl_diff_int)
  with Cons.prems(1) have "of_int (u - t) = (of_int D :: rat)" and
    rest: "find_gap (Fin (of_int D)) (Suc k) (Some c) cs = None"
    by (auto split: if_splits)
  then have D: "u = t + D"
    by (simp only: of_int_eq_iff)
  show ?case
  proof (cases j)
    case 0
    with u D show ?thesis by simp
  next
    case (Suc i)
    with Cons.IH [OF rest _ u(1), of i] Cons.prems(2,4) D show ?thesis
      by (simp add: algebra_simps)
  qed
qed simp

lemma divergence_not_NaN:
  assumes "isFinite p" "isFinite x" "Fin 0 < x"
  shows "(\<bar>p - x\<bar> / x) * Fin 10000 \<noteq> NaN"
proof -
  obtain a b where "p = Fin a" "x = Fin b" "0 < b"
    using assms by (auto elim!: isFiniteE)
  moreover have "fl (\<bar>u\<bar> / b) * Fin 10000 \<noteq> NaN" for u
    by (cases "fl (\<bar>u\<bar> / b)") (simp_all add: inf_of_def)
  ultimately show ?thesis
    by (cases "fl (a - b)") (simp_all add: number_diff_Fin inf_of_def)
qed

text \<open>An accepted series is contiguous.  The integrity check returns the candles it was
  given, unchanged; every candle is valid (prices positive and finite, low and high around open
  and close), the starting times are exactly an arithmetic progression with the interval as its
  difference, and a ticker, if any, diverges from the last close by at most the tolerance.\<close>

theorem accepted_series_is_contiguous:
  assumes "validateMarketDataIntegrity cs d ticker = Inr vs"
  shows "vs = cs \<and> cs \<noteq> [] \<and> list_all valid_candle cs \<and>
    (\<exists>t D. d = Fin (of_int D) \<and> 0 < D \<and>
       (\<forall>k<length cs. start (cs ! k) = Fin (of_int (t + int k * D)))) \<and>
    (\<forall>p. ticker = Some p \<longrightarrow> isFinite p \<and> Fin 0 < p \<and>
       (\<bar>p - close_price (last cs)\<bar> / close_price (last cs)) * Fin 10000 \<le> Fin 100)"
proof -
  obtain D where D: "d = Fin (of_int D)" "0 < D"
    and vs: "validateCandleSeries cs = Inr vs" and gap: "find_gap d 0 None vs = None"
    using assms by (auto simp: validateMarketDataIntegrity_def isSafeInteger_iff not_le Let_def
      simp del: times_number.simps divide_number.simps
      split: if_splits sum.splits option.splits list.splits)
  then have cs: "vs = cs" "list_all valid_candle cs"
    using validate_candles_ok [of 0 None cs vs] by (auto simp: validateCandleSeries_def split: if_splits)
  obtain c rest where Cons: "cs = c # rest"
    using vs by (cases cs) (auto simp: validateCandleSeries_def)
  obtain t where t: "start c = Fin (of_int t)"
    using cs(2) by (auto simp: Cons valid_candle_def isSafeInteger_iff)
  have steps: "start (cs ! k) = Fin (of_int (t + int k * D))" if "k < length cs" for k
  proof (cases k)
    case (Suc j)
    with that gap cs t show ?thesis
      using find_gap_None [of D "Suc 0" c rest t j] by (simp add: Cons D)
  qed (simp add: Cons t)
  have ticker: "isFinite p \<and> Fin 0 < p \<and>
      (\<bar>p - close_price (last cs)\<bar> / close_price (last cs)) * Fin 10000 \<le> Fin 100"
    if "ticker = Some p" for p
  proof -
    have lc: "isFinite (close_price (last cs))" "Fin 0 < close_price (last cs)"
      using cs(2) last_in_set [of cs] by (auto simp: Cons list_all_iff valid_candle_def)
    have "isFinite p" "\<not> p \<le> Fin 0"
      and "\<not> Fin 100 < (\<bar>p - close_price (last cs)\<bar> / close_price (last cs)) * Fin 10000"
      using assms that D vs gap cs Cons
      by (auto simp: validateMarketDataIntegrity_def MAX_TICKER_DIVERGENCE_BPS_def Let_def
        simp del: times_number.simps divide_number.simps split: if_splits)
    with divergence_not_NaN [OF _ lc] show ?thesis
      by (auto simp: number_not_lt elim!: isFiniteE simp del: times_number.simps divide_number.simps)
  qed
  from cs Cons D steps ticker show ?thesis
    by blast
qed

definition sample_series :: "Candle list" where
  "sample_series =
     [\<lparr>start = Fin 60000, open_price = Fin 100, high = Fin 110, low = Fin 90,
       close_price = Fin 100, volume = Fin 5\<rparr>,
      \<lparr>start = Fin 120000, open_price = Fin 100, high = Fin 104, low = Fin 96,
       close_price = Fin 100, volume = Fin 0\<rparr>]"

theorem accepted_series_is_contiguous_witness:
  "validateMarketDataIntegrity sample_series (Fin 60000) (Some (Fin 100)) = Inr sample_series \<and>
   (\<exists>t D. Fin 60000 = Fin (of_int D) \<and> start (sample_series ! 1) = Fin (of_int (t + D)))"
proof -
  have ok: "validateMarketDataIntegrity sample_series (Fin 60000) (Some (Fin 100)) = Inr sample_series"
    by code_simp
  from accepted_series_is_contiguous [OF ok] obtain t D where
    "Fin 60000 = Fin (of_int D)"
    "\<forall>k<length sample_series. start (sample_series ! k) = Fin (of_int (t + int k * D))"
    by blast
  moreover from this(2) have "start (sample_series ! 1) = Fin (of_int (t + int 1 * D))"
    by (rule allE [of _ 1]) (simp add: sample_series_def)
  ultimately show ?thesis
    using ok by auto
qed

end
