(* ===== verification/PaperProps.thy ===== *)
theory PaperProps
  imports PaperExecution
begin

text \<open>
  The paper broker: when an order is executed, at what price, and what a full close and the
  rounding tolerances do to the portfolio.
\<close>

lemma createFill_ok:
  "createFill f = Inr g \<longleftrightarrow> g = f \<and> isNonEmpty (fillId f) \<and> isNonEmpty (fill_clientOrderId f) \<and>
     isNonEmpty (exchangeOrderId f) \<and> isPositiveFinite (price f) \<and>
     isPositiveFinite (fill_quantity f) \<and> isFinite (fee f) \<and> \<not> fee f < Fin 0 \<and>
     isSafeInteger (executedAt f) \<and> \<not> executedAt f < Fin 0"
  by (auto simp: createFill_def)

text \<open>The order is covered by the portfolio, up to the rounding tolerance.\<close>

definition covered :: "PaperPortfolio \<Rightarrow> OrderIntent \<Rightarrow> number \<Rightarrow> PaperBrokerConfig \<Rightarrow> bool" where
  "covered pf i mp c \<longleftrightarrow>
     (if side i = BUY
      then \<not> cash pf + tolerance (cash pf)
         < executionPrice i mp c * quantity i + executionFee i mp c
      else \<not> positionQuantity pf + tolerance (positionQuantity pf) < quantity i)"

definition fillable :: "OrderIntent \<Rightarrow> number \<Rightarrow> number \<Rightarrow> PaperBrokerConfig \<Rightarrow> bool" where
  "fillable i mp ts c \<longleftrightarrow>
     non_blank (clientOrderId i) \<and> isPositiveFinite (executionPrice i mp c) \<and>
     isPositiveFinite (quantity i) \<and> isFinite (executionFee i mp c) \<and>
     Fin 0 \<le> executionFee i mp c \<and> isSafeInteger ts \<and> Fin 0 \<le> ts"

lemma paper_non_blank: "non_blank (''paper:'' @ s)"
  by (simp add: non_blank_iff js_space_def)

lemma bps_nonneg_weak: "isFinite t \<Longrightarrow> Fin 0 \<le> t \<Longrightarrow> Fin 0 \<le> t / Fin 10000"
  by (cases t) (auto intro: fl_nonneg)

lemma one_times_nonneg: "Fin 0 \<le> y \<Longrightarrow> Fin 0 \<le> Fin 1 * y"
  by (cases y) (auto simp: inf_of_def intro: fl_nonneg)

lemma one_plus_minus_le: "Fin 0 \<le> y \<Longrightarrow> Fin 1 + Fin (- 1) * y \<le> Fin 1"
proof (cases y)
  case (Fin r)
  assume "Fin 0 \<le> y"
  with Fin have "fl (- r) \<le> Fin 0"
    by (intro fl_nonpos) simp
  with Fin show ?thesis
    by (cases "fl (- r)") (auto intro: fl_le_representable)
qed (auto simp: inf_of_def)

lemma paper_fill_aux:
  assumes "binary64 mp"
  shows "(is_ok (executePaperOrder pf i mp ts c) \<longleftrightarrow>
      validConfig c \<and> isFinite mp \<and> Fin 0 < mp \<and> covered pf i mp c \<and> fillable i mp ts c) \<and>
    (\<forall>x. executePaperOrder pf i mp ts c = Inr x \<longrightarrow>
      (if side i = BUY then mp \<le> price (fill (trade x)) else price (fill (trade x)) \<le> mp) \<and>
      Fin 0 \<le> fee (fill (trade x)) \<and> fill_quantity (fill (trade x)) = quantity i)"
proof (cases "validConfig c \<and> isFinite mp \<and> Fin 0 < mp \<and> covered pf i mp c")
  case True
  then have mp: "isFinite mp" "\<not> mp \<le> Fin 0" "mp \<noteq> PosInf"
    and slip: "Fin 0 \<le> slippageBps c / Fin 10000" and v: "validConfig c"
    using bps_nonneg_weak by (auto simp: validConfig_def elim!: isFiniteE)
  have price: "if side i = BUY then mp \<le> executionPrice i mp c else executionPrice i mp c \<le> mp"
    using slip True mp by (auto simp: executionPrice_def direction_def
      intro!: times_ge_self times_le_self one_plus_ge one_plus_minus_le assms one_times_nonneg)
  let ?f = "\<lparr>fillId = ''paper:'' @ clientOrderId i @ '':'' @ timestamp_string ts,
    fill_clientOrderId = clientOrderId i, exchangeOrderId = ''paper:'' @ clientOrderId i,
    price = executionPrice i mp c, fill_quantity = quantity i, fee = executionFee i mp c,
    executedAt = ts\<rparr>"
  have cov: "\<not> (side i = BUY \<and> cash pf + tolerance (cash pf)
      < executionPrice i mp c * quantity i + executionFee i mp c)"
    "\<not> (side i = SELL \<and> positionQuantity pf + tolerance (positionQuantity pf) < quantity i)"
    using True by (auto simp: covered_def)
  have fill: "createFill ?f = (if fillable i mp ts c then Inr ?f else Inl INVALID_FILL)"
  proof -
    have "\<not> executionFee i mp c < Fin 0 \<longleftrightarrow> Fin 0 \<le> executionFee i mp c"
      if "isFinite (executionFee i mp c)"
      using that by (auto simp: not_less elim!: isFiniteE)
    moreover have "\<not> ts < Fin 0 \<longleftrightarrow> Fin 0 \<le> ts" if "isSafeInteger ts"
      using that by (auto simp: isSafeInteger_iff not_less)
    ultimately show ?thesis
      by (auto simp: createFill_def fillable_def isNonEmpty_def paper_non_blank [simplified] err_def ok_def)
  qed
  show ?thesis
  proof (cases "fillable i mp ts c")
    case ok: True
    then show ?thesis
      using True v mp cov fill price unfolding executePaperOrder_def Let_def
      by (auto simp: fillable_def)
  next
    case False
    then show ?thesis
      using True v mp cov fill unfolding executePaperOrder_def Let_def
      by auto
  qed
next
  case False
  have sides: "side i = SELL \<longleftrightarrow> side i \<noteq> BUY"
    by (cases "side i") simp_all
  have "mp \<le> Fin 0 \<longleftrightarrow> \<not> Fin 0 < mp" if "isFinite mp"
    using that by (auto simp: not_less elim!: isFiniteE)
  with False show ?thesis
    unfolding executePaperOrder_def Let_def covered_def
    by (auto simp: sides split: if_splits)
qed


lemmas paper_fill_iff = paper_fill_aux [THEN conjunct1]

text \<open>C39: an order is executed exactly when it is valid and covered, and never at a better
  price than the market.  The fill of a purchase is at or above the market price, that of a sale
  at or below, its fee is not negative, and its quantity is the whole quantity of the order.\<close>

theorem paper_fill:
  assumes "binary64 mp"
  shows "(is_ok (executePaperOrder pf i mp ts c) \<longleftrightarrow>
      validConfig c \<and> isFinite mp \<and> Fin 0 < mp \<and> covered pf i mp c \<and> fillable i mp ts c) \<and>
    (\<forall>x. executePaperOrder pf i mp ts c = Inr x \<longrightarrow>
      (if side i = BUY then mp \<le> price (fill (trade x)) else price (fill (trade x)) \<le> mp) \<and>
      Fin 0 \<le> fee (fill (trade x)) \<and> fill_quantity (fill (trade x)) = quantity i)"
  using assms by (rule paper_fill_aux)

definition sample_paper_order :: "OrderSide \<Rightarrow> rat \<Rightarrow> OrderIntent" where
  "sample_paper_order sd q = \<lparr>clientOrderId = ''o1'', decisionId = ''d1'', strategyIds = [''ema''],
     productId = ''BTC-USD'', side = sd, order_type = MARKET, quantity = Fin q,
     limitPrice = None\<rparr>"

definition sample_broker :: PaperBrokerConfig where
  "sample_broker = \<lparr>feeBps = Fin 0, slippageBps = Fin 0\<rparr>"

lemmas paper_samples = sample_paper_order_def sample_broker_def

lemmas paper_eval = executePaperOrder_def Let_def validConfig_def executionPrice_def
  executionFee_def direction_def tolerance_def createFill_ok EPSILON_def

theorem paper_fill_witness:
  "is_ok (executePaperOrder \<lparr>cash = Fin 1000, positionQuantity = Fin 0, averagePrice = Fin 0\<rparr>
     (sample_paper_order BUY 2) (Fin 100) (Fin 5) sample_broker)"
proof -
  have "Fin 0 \<le> fl (1000 * (1 / 2 ^ 52)) * Fin 16" "fl (1000 * (1 / 2 ^ 52)) * Fin 16 \<le> Fin 1"
    using fl_frac [of 1000 52] fl_frac [of 16000 52] by simp_all
  then have "Fin 1000 \<le> Fin 1000 + fl (1000 * (1 / 2 ^ 52)) * Fin 16"
    using fl_ge_representable [of 1000] by (cases "fl (1000 * (1 / 2 ^ 52)) * Fin 16") auto
  then have "\<not> Fin 1000 + fl (1000 * (1 / 2 ^ 52)) * Fin 16 < Fin 200"
    by (cases "Fin 1000 + fl (1000 * (1 / 2 ^ 52)) * Fin 16") auto
  then show ?thesis
    using paper_fill [THEN conjunct1, of "Fin 100" "\<lparr>cash = Fin 1000, positionQuantity = Fin 0,
        averagePrice = Fin 0\<rparr>" "sample_paper_order BUY 2" "Fin 5" sample_broker]
    by (simp add: paper_samples validConfig_def covered_def fillable_def executionPrice_def
      executionFee_def direction_def tolerance_def EPSILON_def js_max_def isPositiveFinite_def
      non_blank_iff js_space_def isSafeInteger_def binary64_def)
qed

text \<open>A full close realizes the whole position.  Selling exactly the quantity held leaves
  no position and no average price; the trade closes that quantity and realizes the difference
  to the average price, less the fee.\<close>

theorem paper_full_close:
  assumes "executePaperOrder pf i mp ts c = Inr x"
    and "side i = SELL" "quantity i = positionQuantity pf" "binary64 (positionQuantity pf)"
  shows "positionQuantity (portfolio x) = Fin 0 \<and> averagePrice (portfolio x) = Fin 0 \<and>
    closedQuantity (trade x) = positionQuantity pf \<and>
    realizedPnl (trade x) =
      (executionPrice i mp c - averagePrice pf) * positionQuantity pf - executionFee i mp c"
proof -
  have sd: "side i \<noteq> BUY"
    using assms(2) by simp
  have f: "isPositiveFinite (quantity i)"
    using assms(1) unfolding executePaperOrder_def Let_def
    by (auto simp: createFill_def split: if_splits sum.splits)
  then obtain q where q: "positionQuantity pf = Fin q" "0 < q" "representable q"
    using assms(3,4) by (auto simp: isPositiveFinite_def elim!: isFiniteE)
  then have delta: "direction i * quantity i = Fin (- q)"
    using sd assms(3) by (simp add: direction_def fl_representable)
  have sums: "Fin q + Fin (- q) = Fin 0" "js_min (Fin q) (Fin q) = Fin q"
    using q by (simp_all add: js_min_def)
  have if_same: "(if b then Fin 0 else Fin 0) = Fin 0" for b
    by simp
  show ?thesis
    using assms(1) q sd unfolding executePaperOrder_def Let_def delta
    by (auto simp: assms(3) sums if_same sgn_number_def simp del: plus_number.simps
      split: if_splits sum.splits)
qed

theorem paper_full_close_witness:
  "\<exists>x. executePaperOrder \<lparr>cash = Fin 1000, positionQuantity = Fin 2, averagePrice = Fin 90\<rparr>
     (sample_paper_order SELL 2) (Fin 100) (Fin 5) sample_broker = Inr x \<and>
     realizedPnl (trade x) = Fin 20"
proof -
  let ?pf = "\<lparr>cash = Fin 1000, positionQuantity = Fin 2, averagePrice = Fin 90\<rparr>"
  have "Fin 0 \<le> fl (2 * (1 / 2 ^ 52)) * Fin 16" "fl (2 * (1 / 2 ^ 52)) * Fin 16 \<le> Fin 1"
    using fl_frac [of 2 52] fl_frac [of 32 52] by simp_all
  then have "Fin 2 \<le> Fin 2 + fl (2 * (1 / 2 ^ 52)) * Fin 16"
    using fl_ge_representable [of 2] by (cases "fl (2 * (1 / 2 ^ 52)) * Fin 16") auto
  then have "\<not> Fin 2 + fl (2 * (1 / 2 ^ 52)) * Fin 16 < Fin 2"
    by (cases "Fin 2 + fl (2 * (1 / 2 ^ 52)) * Fin 16") auto
  then have "is_ok (executePaperOrder ?pf (sample_paper_order SELL 2) (Fin 100) (Fin 5) sample_broker)"
    using paper_fill_iff [of "Fin 100" ?pf "sample_paper_order SELL 2" "Fin 5" sample_broker]
    by (simp add: paper_samples validConfig_def covered_def fillable_def executionPrice_def
      executionFee_def direction_def tolerance_def EPSILON_def js_max_def isPositiveFinite_def
      non_blank_iff js_space_def isSafeInteger_def binary64_def)
  then obtain x where "executePaperOrder ?pf (sample_paper_order SELL 2) (Fin 100) (Fin 5)
      sample_broker = Inr x"
    by (rule is_okE)
  with paper_full_close [OF this] show ?thesis
    by (simp add: paper_samples executionPrice_def executionFee_def direction_def number_diff_Fin)
qed

text \<open>An example of a purchase that leaves negative cash: its cost is within the tolerance of the
  affordability check once the sum of the cash and the tolerance is rounded up.\<close>

theorem paper_cash_can_go_negative:
  "\<exists>x. executePaperOrder
      \<lparr>cash = Fin 4644337115725825, positionQuantity = Fin 0, averagePrice = Fin 0\<rparr>
      (sample_paper_order BUY 1) (Fin 4644337115725842) (Fin 5) sample_broker = Inr x \<and>
    cash (portfolio x) = Fin (- 17)"
proof -
  have "fl (4644337115725825 + 4644337115725825 / 2 ^ 48) = Fin 4644337115725842"
    by code_simp
  moreover have "fl (4644337115725825 / 2 ^ 52) = Fin (4644337115725825 / 2 ^ 52)"
    "fl (4644337115725825 / 2 ^ 48) = Fin (4644337115725825 / 2 ^ 48)"
    using fl_frac [of 4644337115725825 52] fl_frac [of 4644337115725825 48] by simp_all
  moreover have "fl 4644337115725842 = Fin 4644337115725842" "fl (- 17) = Fin (- 17)"
    using fl_of_int [of 4644337115725842] by simp_all
  ultimately show ?thesis
    by (simp add: executePaperOrder_def Let_def paper_samples validConfig_def executionPrice_def
      executionFee_def direction_def tolerance_def EPSILON_def js_max_def createFill_def
      isPositiveFinite_def isNonEmpty_def non_blank_iff js_space_def isSafeInteger_def
      number_diff_Fin)
qed

end
