(* ===== verification/PortfolioMachine.thy ===== *)
theory PortfolioMachine
  imports JsNumber Statechart
begin

text \<open>
  The portfolio of several products, \<^verbatim>\<open>models/multi-product-portfolio.machine.ts\<close>: one status,
  one reported exposure and one daily result per product, the consolidated admission of risk
  proposals, the kill switch, and the wait for every product to come to rest.
\<close>

subsection \<open>Data\<close>

record PortfolioRiskLimits =
  maxGrossExposure :: number
  maxDailyLoss :: number

datatype PortfolioProductStatus = P_running | P_stopped | P_halted | P_failed

datatype PortfolioConsolidatedReasonCode =
  CONSOLIDATED_DAILY_LOSS_LIMIT
| CONSOLIDATED_GROSS_EXPOSURE_LIMIT
| CONSOLIDATED_KILL_SWITCH
| UNKNOWN_PRODUCT

record PortfolioRiskDecisionRecord =
  decided_productId :: string
  approved :: bool
  reasonCode :: "PortfolioConsolidatedReasonCode option"

datatype PortfolioWorkflowError =
  E_CONTROL_PERMISSION_REQUIRED
| E_INVALID_PORTFOLIO_INPUT
| E_UNKNOWN_PRODUCT

record MultiProductPortfolioInput =
  in_products :: "string list"
  in_limits :: PortfolioRiskLimits

record MultiProductPortfolioContext =
  products :: "string list"
  statuses :: "PortfolioProductStatus dict"
  exposure :: "number dict"
  dailyPnl :: "number dict"
  limits :: PortfolioRiskLimits
  killSwitchActive :: bool
  lastDecision :: "PortfolioRiskDecisionRecord option"
  lastError :: "PortfolioWorkflowError option"

datatype MultiProductPortfolioEvent =
  PORTFOLIO_STARTED
| PRODUCT_STOPPED string
| PRODUCT_HALTED string
| PRODUCT_FAILED string
| PRODUCT_EXPOSURE_REPORTED string number number
| RISK_PROPOSED string number
| KILL_SWITCH_ENGAGED string
| RESET

subsection \<open>Sums\<close>

text \<open>\<open>record[key] ?? 0\<close>.\<close>

definition entry_or_zero :: "number dict \<Rightarrow> string \<Rightarrow> number" where
  "entry_or_zero d k = (case map_of d k of None \<Rightarrow> Fin 0 | Some v \<Rightarrow> v)"

definition sumOverSorted :: "number dict \<Rightarrow> number" where
  "sumOverSorted d = foldl (\<lambda>total k. total + entry_or_zero d k) (Fin 0) (sorted_keys d)"

definition sumWithReplacement :: "number dict \<Rightarrow> string \<Rightarrow> number \<Rightarrow> number" where
  "sumWithReplacement d key v =
     foldl (\<lambda>total k. total + (if k = key then v else entry_or_zero d k)) (Fin 0) (sorted_keys d)"

definition validLimits :: "PortfolioRiskLimits \<Rightarrow> bool" where
  "validLimits l \<longleftrightarrow>
     isFinite (maxGrossExposure l) \<and> Fin 0 < maxGrossExposure l \<and>
     isFinite (maxDailyLoss l) \<and> Fin 0 < maxDailyLoss l"

definition fromEntries :: "(string \<times> 'v) list \<Rightarrow> 'v dict" where
  "fromEntries es = foldl (\<lambda>d (k, v). AList.update k v d) [] es"

definition zeroed :: "string list \<Rightarrow> number dict" where
  "zeroed ps = fromEntries (map (\<lambda>p. (p, Fin 0)) ps)"

definition runningStatuses :: "string list \<Rightarrow> PortfolioProductStatus dict" where
  "runningStatuses ps = fromEntries (map (\<lambda>p. (p, P_running)) ps)"

fun productOf :: "MultiProductPortfolioEvent \<Rightarrow> string option" where
  "productOf (PRODUCT_STOPPED p) = Some p"
| "productOf (PRODUCT_HALTED p) = Some p"
| "productOf (PRODUCT_FAILED p) = Some p"
| "productOf (PRODUCT_EXPOSURE_REPORTED p _ _) = Some p"
| "productOf (RISK_PROPOSED p _) = Some p"
| "productOf _ = None"

subsection \<open>Guards\<close>

type_synonym guard = "MultiProductPortfolioContext \<Rightarrow> MultiProductPortfolioEvent \<Rightarrow> bool"
type_synonym action =
  "MultiProductPortfolioContext \<Rightarrow> MultiProductPortfolioEvent \<Rightarrow> MultiProductPortfolioContext"

definition inputValid :: "MultiProductPortfolioContext \<Rightarrow> bool" where
  "inputValid c \<longleftrightarrow>
     length (products c) > 0 \<and> length (remdups (products c)) = length (products c) \<and>
     validLimits (limits c)"

definition productKnown :: guard where
  "productKnown c e = (case productOf e of None \<Rightarrow> False | Some p \<Rightarrow> has_own (statuses c) p)"

definition controlIdPresent :: guard where
  "controlIdPresent c e = (case e of KILL_SWITCH_ENGAGED i \<Rightarrow> non_blank i | _ \<Rightarrow> False)"

definition admissible :: guard where
  "admissible c e =
     (case e of
        RISK_PROPOSED p proposed \<Rightarrow>
          has_own (statuses c) p \<and> map_of (statuses c) p = Some P_running \<and>
          \<not> killSwitchActive c \<and>
          - maxDailyLoss (limits c) < sumOverSorted (dailyPnl c) \<and>
          sumWithReplacement (exposure c) p proposed \<le> maxGrossExposure (limits c)
      | _ \<Rightarrow> False)"

definition portfolioQuiescent :: "MultiProductPortfolioContext \<Rightarrow> bool" where
  "portfolioQuiescent c \<longleftrightarrow>
     list_all (\<lambda>p. map_of (statuses c) p \<noteq> Some P_running \<and> map_of (statuses c) p \<noteq> None)
       (products c)"

subsection \<open>Actions\<close>

definition initializePortfolio :: action where
  "initializePortfolio c e =
     c\<lparr>statuses := runningStatuses (products c), exposure := zeroed (products c),
       dailyPnl := zeroed (products c), killSwitchActive := False, lastDecision := None,
       lastError := None\<rparr>"

definition markProduct :: "PortfolioProductStatus \<Rightarrow> action" where
  "markProduct status c e =
     (case productOf e of None \<Rightarrow> c
      | Some p \<Rightarrow> c\<lparr>statuses := AList.update p status (statuses c)\<rparr>)"

definition recordExposure :: action where
  "recordExposure c e =
     (case e of
        PRODUCT_EXPOSURE_REPORTED p gross pnl \<Rightarrow>
          c\<lparr>exposure := AList.update p gross (exposure c),
            dailyPnl := AList.update p pnl (dailyPnl c)\<rparr>
      | _ \<Rightarrow> c)"

definition commitProposal :: action where
  "commitProposal c e =
     (case e of
        RISK_PROPOSED p proposed \<Rightarrow>
          c\<lparr>exposure := AList.update p proposed (exposure c),
            lastDecision := Some \<lparr>decided_productId = p, approved = True, reasonCode = None\<rparr>\<rparr>
      | _ \<Rightarrow> c)"

definition rejectProposal :: action where
  "rejectProposal c e =
     (case e of
        RISK_PROPOSED p proposed \<Rightarrow>
          let reason =
            (if \<not> has_own (statuses c) p then UNKNOWN_PRODUCT
             else if killSwitchActive c then CONSOLIDATED_KILL_SWITCH
             else if sumOverSorted (dailyPnl c) \<le> - maxDailyLoss (limits c)
             then CONSOLIDATED_DAILY_LOSS_LIMIT
             else CONSOLIDATED_GROSS_EXPOSURE_LIMIT)
          in c\<lparr>lastDecision :=
               Some \<lparr>decided_productId = p, approved = False, reasonCode = Some reason\<rparr>\<rparr>
      | _ \<Rightarrow> c)"

definition requestKillSwitch :: action where
  "requestKillSwitch c e = c\<lparr>killSwitchActive := True\<rparr>"

definition recordControlDenied :: action where
  "recordControlDenied c e = c\<lparr>lastError := Some E_CONTROL_PERMISSION_REQUIRED\<rparr>"

definition recordUnknownProduct :: action where
  "recordUnknownProduct c e = c\<lparr>lastError := Some E_UNKNOWN_PRODUCT\<rparr>"

definition resetPortfolio :: action where
  "resetPortfolio c e =
     c\<lparr>statuses := [], exposure := [], dailyPnl := [], killSwitchActive := False,
       lastDecision := None, lastError := None\<rparr>"

subsection \<open>The machine\<close>

datatype portfolioState = Validating | Rejected | Idle | Running | Draining | Complete | Halted

type_synonym rows =
  "MultiProductPortfolioEvent \<Rightarrow>
     (portfolioState, MultiProductPortfolioEvent, MultiProductPortfolioContext) transition list"

definition idle_rows :: rows where
  "idle_rows e =
     (case e of PORTFOLIO_STARTED \<Rightarrow> [goto Running [initializePortfolio]] | _ \<Rightarrow> [])"

text \<open>The rows on products, the same in \<open>running\<close> and \<open>draining\<close>.\<close>

definition product_rows :: rows where
  "product_rows e =
     (case e of
        PRODUCT_STOPPED _ \<Rightarrow>
          [stay_if productKnown [markProduct P_stopped], stay [recordUnknownProduct]]
      | PRODUCT_HALTED _ \<Rightarrow>
          [stay_if productKnown [markProduct P_halted], stay [recordUnknownProduct]]
      | PRODUCT_FAILED _ \<Rightarrow>
          [stay_if productKnown [markProduct P_failed], stay [recordUnknownProduct]]
      | PRODUCT_EXPOSURE_REPORTED _ _ _ \<Rightarrow>
          [stay_if productKnown [recordExposure], stay [recordUnknownProduct]]
      | _ \<Rightarrow> [])"

definition running_rows :: rows where
  "running_rows e =
     (case e of
        RISK_PROPOSED _ _ \<Rightarrow> [stay_if admissible [commitProposal], stay [rejectProposal]]
      | KILL_SWITCH_ENGAGED _ \<Rightarrow>
          [goto_if controlIdPresent Draining [requestKillSwitch], stay [recordControlDenied]]
      | _ \<Rightarrow> product_rows e)"

definition draining_rows :: rows where
  "draining_rows e =
     (case e of
        RISK_PROPOSED _ _ \<Rightarrow> [stay [rejectProposal]]
      | KILL_SWITCH_ENGAGED _ \<Rightarrow>
          [stay_if controlIdPresent [requestKillSwitch], stay [recordControlDenied]]
      | _ \<Rightarrow> product_rows e)"

definition ended_rows :: rows where
  "ended_rows e = (case e of RESET \<Rightarrow> [goto Idle [resetPortfolio]] | _ \<Rightarrow> [])"

primrec portfolio_on :: "portfolioState \<Rightarrow> rows" where
  "portfolio_on Validating = (\<lambda>_. [])"
| "portfolio_on Rejected = (\<lambda>_. [])"
| "portfolio_on Idle = idle_rows"
| "portfolio_on Running = running_rows"
| "portfolio_on Draining = draining_rows"
| "portfolio_on Complete = ended_rows"
| "portfolio_on Halted = ended_rows"

definition portfolio_always :: "portfolioState
    \<Rightarrow> (portfolioState, MultiProductPortfolioContext) eventless list" where
  "portfolio_always st =
     (case st of
        Validating \<Rightarrow> [Always inputValid Idle [], Always (\<lambda>_. True) Rejected []]
      | Running \<Rightarrow> [Always portfolioQuiescent Complete []]
      | Draining \<Rightarrow> [Always portfolioQuiescent Halted []]
      | _ \<Rightarrow> [])"

definition multiProductPortfolioMachine ::
    "(portfolioState, MultiProductPortfolioEvent, MultiProductPortfolioContext) machine" where
  "multiProductPortfolioMachine =
     \<lparr>m_initial = Validating, m_on = portfolio_on, m_outer = (\<lambda>_ _. []),
      m_always = portfolio_always, m_entry = (\<lambda>_. []), m_final = (\<lambda>_. False)\<rparr>"

definition portfolio_context :: "MultiProductPortfolioInput \<Rightarrow> MultiProductPortfolioContext" where
  "portfolio_context i =
     \<lparr>products = sort (in_products i), statuses = [], exposure = [], dailyPnl = [],
      limits = in_limits i, killSwitchActive = False, lastDecision = None, lastError = None\<rparr>"

lemma pf_machine_simps [simp]:
  "m_initial multiProductPortfolioMachine = Validating"
  "m_on multiProductPortfolioMachine = portfolio_on"
  "m_outer multiProductPortfolioMachine = (\<lambda>_ _. [])"
  "m_always multiProductPortfolioMachine = portfolio_always"
  "m_entry multiProductPortfolioMachine = (\<lambda>_. [])"
  "\<not> m_final multiProductPortfolioMachine st"
  by (simp_all add: multiProductPortfolioMachine_def)

lemmas pf_rows [machine_simps] =
  idle_rows_def product_rows_def running_rows_def draining_rows_def ended_rows_def
  portfolio_always_def

lemmas pf_actions [machine_simps] =
  initializePortfolio_def markProduct_def recordExposure_def commitProposal_def
  rejectProposal_def requestKillSwitch_def recordControlDenied_def recordUnknownProduct_def
  resetPortfolio_def

interpretation pf: shallow_machine multiProductPortfolioMachine
proof
  fix s :: "(portfolioState, MultiProductPortfolioContext) snapshot" and t
  assume "eselect multiProductPortfolioMachine s = Some t"
  then show "eselect multiProductPortfolioMachine (estep multiProductPortfolioMachine s t) = None"
    by (cases "fst s")
       (auto simp: eselect_def estep_def enter_def portfolio_always_def split: if_splits)
qed

interpretation pf_actor: xstate_actor multiProductPortfolioMachine
  "sc_start multiProductPortfolioMachine" "sc_send multiProductPortfolioMachine"
  by unfold_locales (rule pf.runtime_sc)

end
