(* ===== verification/PortfolioMachineProps.thy ===== *)
theory PortfolioMachineProps
  imports PortfolioMachine
begin

text \<open>
  The portfolio machine: the dictionaries always speak of the configured products, the
  admission guard computes the exposure the commit then has, the kill switch ends approvals,
  and a drained portfolio halts.
\<close>

type_synonym pf_snapshot = "(portfolioState, MultiProductPortfolioContext) snapshot"

abbreviation pf_send :: "pf_snapshot \<Rightarrow> MultiProductPortfolioEvent \<Rightarrow> pf_snapshot" where
  "pf_send \<equiv> sc_send multiProductPortfolioMachine"

lemma pf_runtime:
  assumes "xstate_runtime multiProductPortfolioMachine init send"
  shows "init = sc_start multiProductPortfolioMachine" "send = pf_send"
  using assms by (simp_all add: pf.runtime_iff)

subsection \<open>Dictionaries\<close>

lemma map_of_fromEntries:
  "map_of (fromEntries (map (\<lambda>p. (p, v)) ps)) k = (if k \<in> set ps then Some v else None)"
  by (induction ps rule: rev_induct) (simp_all add: fromEntries_def update_conv')

lemma distinct_fromEntries: "distinct (map fst (fromEntries es))"
  unfolding fromEntries_def by (rule foldl_invariant) (auto simp: distinct_update split: prod.splits)

lemma keys_update: "map_of d k \<noteq> None \<Longrightarrow> map fst (AList.update k v d) = map fst d"
  by (induction d) (auto split: if_splits)

text \<open>The projected sum is the sum of the updated dictionary.\<close>

lemma sumWithReplacement_update:
  assumes "has_own d p"
  shows "sumWithReplacement d p x = sumOverSorted (AList.update p x d)"
proof -
  have "entry_or_zero (AList.update p x d) k = (if k = p then x else entry_or_zero d k)" for k
    by (simp add: entry_or_zero_def update_conv')
  then show ?thesis
    using assms
    by (simp add: sumWithReplacement_def sumOverSorted_def sorted_keys_def keys_update has_own_def)
qed

subsection \<open>The invariant\<close>

text \<open>A dictionary that speaks of exactly the products.\<close>

definition speaks_of :: "string list \<Rightarrow> 'v dict \<Rightarrow> bool" where
  "speaks_of ps d \<longleftrightarrow> distinct (map fst d) \<and> (\<forall>k. has_own d k \<longleftrightarrow> k \<in> set ps)"

lemma speaks_of_fromEntries: "speaks_of ps (fromEntries (map (\<lambda>p. (p, v)) ps))"
  by (simp add: speaks_of_def distinct_fromEntries has_own_def map_of_fromEntries)

lemma speaks_of_update: "speaks_of ps d \<Longrightarrow> p \<in> set ps \<Longrightarrow> speaks_of ps (AList.update p v d)"
  by (auto simp: speaks_of_def distinct_update)

definition pf_inv :: "MultiProductPortfolioInput \<Rightarrow> pf_snapshot \<Rightarrow> bool" where
  "pf_inv i s \<longleftrightarrow>
     (case s of (st, c) \<Rightarrow>
       products c = sort (in_products i) \<and> limits c = in_limits i \<and>
       (st = Rejected \<longleftrightarrow> \<not> inputValid c) \<and> st \<noteq> Validating \<and>
       (st \<in> {Running, Draining, Complete, Halted} \<longrightarrow>
          speaks_of (products c) (statuses c) \<and> speaks_of (products c) (exposure c) \<and>
          speaks_of (products c) (dailyPnl c)) \<and>
       (killSwitchActive c \<longleftrightarrow> st \<in> {Draining, Halted}) \<and>
       (st \<in> {Running, Draining} \<longrightarrow> \<not> portfolioQuiescent c) \<and>
       (st \<in> {Complete, Halted} \<longrightarrow> portfolioQuiescent c))"

lemma pf_inv_start: "pf_inv i (sc_start multiProductPortfolioMachine (portfolio_context i))"
  by (simp add: chart_eval pf_rows pf_inv_def) (simp add: portfolio_context_def)

lemma not_quiescent_initially:
  "inputValid c \<Longrightarrow> \<not> portfolioQuiescent (initializePortfolio c e)"
  by (cases "products c")
     (auto simp: inputValid_def portfolioQuiescent_def initializePortfolio_def
        runningStatuses_def map_of_fromEntries list_all_iff simp del: list.map)

lemma inputValid_update [simp]:
  "inputValid (c\<lparr>statuses := a\<rparr>) = inputValid c" "inputValid (c\<lparr>exposure := d\<rparr>) = inputValid c"
  "inputValid (c\<lparr>dailyPnl := d\<rparr>) = inputValid c"
  "inputValid (c\<lparr>killSwitchActive := b\<rparr>) = inputValid c"
  "inputValid (c\<lparr>lastDecision := l\<rparr>) = inputValid c"
  "inputValid (c\<lparr>lastError := m\<rparr>) = inputValid c"
  by (simp_all add: inputValid_def)

lemma portfolioQuiescent_update [simp]:
  "portfolioQuiescent (c\<lparr>exposure := d\<rparr>) = portfolioQuiescent c"
  "portfolioQuiescent (c\<lparr>dailyPnl := d\<rparr>) = portfolioQuiescent c"
  "portfolioQuiescent (c\<lparr>killSwitchActive := b\<rparr>) = portfolioQuiescent c"
  "portfolioQuiescent (c\<lparr>lastDecision := l\<rparr>) = portfolioQuiescent c"
  "portfolioQuiescent (c\<lparr>lastError := m\<rparr>) = portfolioQuiescent c"
  by (simp_all add: portfolioQuiescent_def)

lemmas pf_eval = chart_eval pf_rows

lemma speaks_of_initial: "speaks_of ps (zeroed ps)" "speaks_of ps (runningStatuses ps)"
  by (simp_all add: zeroed_def runningStatuses_def speaks_of_fromEntries)

lemma speaks_of_known: "speaks_of ps d \<Longrightarrow> has_own d p \<Longrightarrow> p \<in> set ps"
  by (simp add: speaks_of_def)

lemma pf_inv_send: "pf_inv i s \<Longrightarrow> pf_inv i (pf_send s e)"
proof -
  assume inv: "pf_inv i s"
  obtain st c where s: "s = (st, c)"
    by (cases s)
  have q: "\<not> portfolioQuiescent (initializePortfolio c e)" if "inputValid c"
    using that by (rule not_quiescent_initially)
  show ?thesis
    using inv q unfolding s
    by (cases st; cases e)
       (auto simp: pf_inv_def pf_eval pf_actions productKnown_def admissible_def speaks_of_initial
         intro: speaks_of_update dest: speaks_of_known split: if_splits)
qed

lemma pf_inv_play:
  assumes "xstate_runtime multiProductPortfolioMachine init send"
  shows "pf_inv i (play send (init (portfolio_context i)) es)"
  unfolding pf_runtime [OF assms]
  by (rule pf_actor.play_invariant) (rule pf_inv_start, rule pf_inv_send)

subsection \<open>A sample\<close>

definition sample_portfolio :: MultiProductPortfolioInput where
  "sample_portfolio =
     \<lparr>in_products = [''ETH'', ''BTC''],
      in_limits = \<lparr>maxGrossExposure = Fin 100, maxDailyLoss = Fin 10\<rparr>\<rparr>"

abbreviation pf_sample :: "MultiProductPortfolioEvent list \<Rightarrow> pf_snapshot" where
  "pf_sample \<equiv> play pf_send (sc_start multiProductPortfolioMachine (portfolio_context sample_portfolio))"

lemmas pf_sample_eval =
  pf_eval pf_actions productKnown_def controlIdPresent_def admissible_def inputValid_def
  validLimits_def portfolioQuiescent_def runningStatuses_def zeroed_def fromEntries_def
  sumWithReplacement_def sumOverSorted_def entry_or_zero_def sorted_keys_def has_own_def
  sample_portfolio_def portfolio_context_def non_blank_iff js_space_def

subsection \<open>Admission\<close>


lemma portfolioQuiescent_decision [simp]:
  "portfolioQuiescent (commitProposal c e) = portfolioQuiescent c"
  "portfolioQuiescent (rejectProposal c e) = portfolioQuiescent c"
  by (simp_all add: commitProposal_def rejectProposal_def Let_def
    split: MultiProductPortfolioEvent.split)

lemma pf_send_proposal:
  assumes "st \<in> {Running, Draining}" "\<not> portfolioQuiescent c"
  shows "pf_send (st, c) (RISK_PROPOSED p x) =
    (st, if st = Running \<and> admissible c (RISK_PROPOSED p x)
         then commitProposal c (RISK_PROPOSED p x) else rejectProposal c (RISK_PROPOSED p x))"
  using assms by (cases st) (simp_all add: pf_eval)

text \<open>C31: what a risk proposal is answered.  In an operating portfolio the answer names the
  product; it is an approval exactly when the portfolio is running, the product is one of its
  products and running, the consolidated daily result is above the loss limit, and the
  exposure consolidated over the products with the proposed one in place is within the cap.
  An approval records that exposure, and nothing else changes the exposures, the statuses or
  the results.\<close>

theorem proposal_decided:
  assumes "xstate_runtime multiProductPortfolioMachine init send"
    and s: "play send (init (portfolio_context i)) es = (st, c)" and op: "st \<in> {Running, Draining}"
    and e: "e = RISK_PROPOSED p x"
  shows "\<exists>c' d. send (st, c) e = (st, c') \<and> lastDecision c' = Some d \<and> decided_productId d = p \<and>
    (approved d \<longleftrightarrow> reasonCode d = None) \<and>
    (approved d \<longleftrightarrow>
       st = Running \<and> p \<in> set (in_products i) \<and> map_of (statuses c) p = Some P_running \<and>
       - maxDailyLoss (in_limits i) < sumOverSorted (dailyPnl c) \<and>
       sumOverSorted (AList.update p x (exposure c)) \<le> maxGrossExposure (in_limits i)) \<and>
    exposure c' = (if approved d then AList.update p x (exposure c) else exposure c) \<and>
    statuses c' = statuses c \<and> dailyPnl c' = dailyPnl c \<and> killSwitchActive c' = killSwitchActive c"
proof -
  have inv: "pf_inv i (st, c)"
    using pf_inv_play [OF assms(1), of i es] s by simp
  note send = pf_runtime(2) [OF assms(1)]
  have known: "has_own (statuses c) p \<longleftrightarrow> p \<in> set (in_products i)" "has_own (exposure c) p \<longleftrightarrow> p \<in> set (in_products i)"
    using inv op by (cases st; simp add: pf_inv_def speaks_of_def)+
  have lim: "limits c = in_limits i"
    using inv by (simp add: pf_inv_def)
  define A where "A \<longleftrightarrow> p \<in> set (in_products i) \<and> map_of (statuses c) p = Some P_running \<and>
       - maxDailyLoss (in_limits i) < sumOverSorted (dailyPnl c) \<and>
       sumOverSorted (AList.update p x (exposure c)) \<le> maxGrossExposure (in_limits i)"
  have adm: "admissible c e \<longleftrightarrow> \<not> killSwitchActive c \<and> A"
    using known sumWithReplacement_update [of "exposure c" p x] lim
    by (auto simp: admissible_def e A_def)
  have quiet: "\<not> portfolioQuiescent c" "killSwitchActive c \<longleftrightarrow> st = Draining"
    using inv op by (cases st; simp add: pf_inv_def)+
  define c' where "c' = (if st = Running \<and> A then commitProposal c e else rejectProposal c e)"
  have "send (st, c) e = (st, c')"
    using op quiet adm by (auto simp: send e pf_send_proposal c'_def)
  moreover have "lastDecision c' \<noteq> None"
    by (simp add: c'_def e commitProposal_def rejectProposal_def Let_def)
  ultimately show ?thesis
    unfolding A_def [symmetric]
    by (cases "st = Running \<and> A")
       (simp_all add: c'_def e commitProposal_def rejectProposal_def Let_def)
qed

subsection \<open>The kill switch\<close>

text \<open>Reports that a product came to rest.\<close>

definition at_rest :: "string \<Rightarrow> MultiProductPortfolioEvent \<Rightarrow> bool" where
  "at_rest p e \<longleftrightarrow> e = PRODUCT_STOPPED p \<or> e = PRODUCT_HALTED p \<or> e = PRODUCT_FAILED p"

definition resting :: "MultiProductPortfolioContext \<Rightarrow> string \<Rightarrow> bool" where
  "resting c p \<longleftrightarrow> map_of (statuses c) p \<noteq> Some P_running"

definition not_approved :: "PortfolioRiskDecisionRecord option \<Rightarrow> bool" where
  "not_approved d \<longleftrightarrow> (case d of None \<Rightarrow> True | Some r \<Rightarrow> \<not> approved r)"

definition draining_step :: "string list \<Rightarrow> MultiProductPortfolioEvent \<Rightarrow> pf_snapshot \<Rightarrow> pf_snapshot \<Rightarrow> bool" where
  "draining_step ps e s s' \<longleftrightarrow>
     fst s' \<in> {Draining, Halted} \<and> (fst s = Halted \<longrightarrow> fst s' = Halted) \<and>
     (lastDecision (snd s') = lastDecision (snd s) \<or> not_approved (lastDecision (snd s'))) \<and>
     (\<forall>p\<in>set ps. fst s = Draining \<and> (at_rest p e \<or> resting (snd s) p) \<longrightarrow> resting (snd s') p)"

lemma draining_step:
  assumes "pf_inv i s" "fst s \<in> {Draining, Halted}" "e \<noteq> RESET"
  shows "draining_step (in_products i) e s (pf_send s e)"
proof -
  obtain st c where s: "s = (st, c)"
    by (cases s)
  show ?thesis
  proof (cases st)
    case Halted
    with assms show ?thesis
      by (cases e) (simp_all add: s pf_eval draining_step_def)
  next
    case Draining
    have known: "has_own (statuses c) p \<longleftrightarrow> p \<in> set (in_products i)" for p
      using assms(1) by (simp add: pf_inv_def s Draining speaks_of_def)
    show ?thesis
      using assms(3) known
      by (cases e) (simp_all add: s Draining pf_eval pf_actions draining_step_def not_approved_def
        resting_def at_rest_def productKnown_def update_conv' Let_def)
  qed (use assms(2) s in simp_all)
qed

lemma draining_play:
  assumes "pf_inv i s" "fst s \<in> {Draining, Halted}" "RESET \<notin> set es"
  shows "pf_inv i (play pf_send s es) \<and> fst (play pf_send s es) \<in> {Draining, Halted} \<and>
    (lastDecision (snd (play pf_send s es)) = lastDecision (snd s) \<or>
       not_approved (lastDecision (snd (play pf_send s es)))) \<and>
    (\<forall>p\<in>set (in_products i). (\<exists>e\<in>set es. at_rest p e) \<longrightarrow>
       fst (play pf_send s es) = Halted \<or> resting (snd (play pf_send s es)) p)"
  using assms(3)
proof (induction es rule: rev_induct)
  case (snoc e es)
  define t where "t = play pf_send s es"
  have t: "pf_inv i t" "fst t \<in> {Draining, Halted}"
    using snoc by (simp_all add: t_def)
  have "draining_step (in_products i) e t (pf_send t e)"
    using snoc.prems by (intro draining_step [OF t]) auto
  with snoc show ?case
    using pf_inv_send [OF t(1), of e]
    by (auto simp: t_def [symmetric] draining_step_def)
qed (use assms in auto)

text \<open>C32: the kill switch ends approvals and drains.  Once it is engaged, and until a reset, it
  stays engaged whatever happens and no proposal is approved; and once every product has
  reported that it stopped, halted or failed, in any order and among any other events, the
  portfolio is halted.\<close>

theorem kill_switch_drains:
  assumes "xstate_runtime multiProductPortfolioMachine init send"
    and s: "play send (init (portfolio_context i)) es = (st, c)" and kill: "killSwitchActive c"
    and "RESET \<notin> set es'" and s': "play send (st, c) es' = (st', c')"
  shows "killSwitchActive c' \<and> st' \<in> {Draining, Halted} \<and>
    (\<forall>d. lastDecision c' = Some d \<and> lastDecision c' \<noteq> lastDecision c \<longrightarrow> \<not> approved d) \<and>
    ((\<forall>p\<in>set (in_products i). \<exists>e\<in>set es'. at_rest p e) \<longrightarrow> st' = Halted)"
proof -
  note rt = pf_runtime [OF assms(1)]
  have inv: "pf_inv i (st, c)"
    using pf_inv_play [OF assms(1), of i es] s by simp
  then have "st \<in> {Draining, Halted}"
    using kill by (simp add: pf_inv_def)
  then have "fst (st, c) \<in> {Draining, Halted}"
    by simp
  from draining_play [OF inv this assms(4)] s' have d: "pf_inv i (st', c')" "st' \<in> {Draining, Halted}"
    "lastDecision c' = lastDecision c \<or> not_approved (lastDecision c')"
    "\<And>p. p \<in> set (in_products i) \<Longrightarrow> \<exists>e\<in>set es'. at_rest p e \<Longrightarrow> st' = Halted \<or> resting c' p"
    by (simp_all add: rt)
  have "st' = Halted" if "\<forall>p\<in>set (in_products i). \<exists>e\<in>set es'. at_rest p e"
  proof (rule ccontr)
    assume "st' \<noteq> Halted"
    then have st': "st' = Draining" and rest: "\<forall>p\<in>set (in_products i). resting c' p"
      using d(2,4) that by auto
    then have "portfolioQuiescent c'"
      using d(1) by (auto simp: portfolioQuiescent_def pf_inv_def resting_def list_all_iff
        speaks_of_def has_own_def)
    with d(1) st' show False
      by (simp add: pf_inv_def)
  qed
  with d show ?thesis
    by (auto simp: pf_inv_def not_approved_def)
qed

theorem kill_switch_drains_witness:
  "fst (pf_sample [PORTFOLIO_STARTED, KILL_SWITCH_ENGAGED ''op'', PRODUCT_STOPPED ''BTC'',
     RISK_PROPOSED ''ETH'' (Fin 1), PRODUCT_FAILED ''ETH'']) = Halted"
proof -
  define es es' where "es = [PORTFOLIO_STARTED, KILL_SWITCH_ENGAGED ''op'']"
    and "es' = [PRODUCT_STOPPED ''BTC'', RISK_PROPOSED ''ETH'' (Fin 1), PRODUCT_FAILED ''ETH'']"
  obtain st c where s: "pf_sample es = (st, c)"
    by (cases "pf_sample es")
  then have "killSwitchActive c"
    by (auto simp: es_def pf_sample_eval)
  moreover obtain st' c' where s': "play pf_send (st, c) es' = (st', c')"
    by (cases "play pf_send (st, c) es'")
  ultimately have "st' = Halted"
    using kill_switch_drains [OF pf.runtime_sc s _ _ s']
    by (simp add: es'_def at_rest_def sample_portfolio_def)
  moreover have "pf_sample (es @ es') = (st', c')"
    using s s' by simp
  ultimately show ?thesis
    by (simp add: es_def es'_def)
qed

theorem proposal_decided_witness:
  "\<exists>c'. pf_sample [PORTFOLIO_STARTED, PRODUCT_EXPOSURE_REPORTED ''BTC'' (Fin 60) (Fin (- 2)),
     RISK_PROPOSED ''ETH'' (Fin 30)] = (Running, c') \<and>
     map_of (exposure c') ''ETH'' = Some (Fin 30)"
proof -
  define es where "es = [PORTFOLIO_STARTED, PRODUCT_EXPOSURE_REPORTED ''BTC'' (Fin 60) (Fin (- 2))]"
  obtain st c where s: "pf_sample es = (st, c)"
    by (cases "pf_sample es")
  then have st: "st = Running" "statuses c = [(''BTC'', P_running), (''ETH'', P_running)]"
    "exposure c = [(''BTC'', Fin 60), (''ETH'', Fin 0)]"
    "dailyPnl c = [(''BTC'', Fin (- 2)), (''ETH'', Fin 0)]"
    by (auto simp: es_def pf_sample_eval)
  have "sumOverSorted (AList.update ''ETH'' (Fin 30) (exposure c)) \<le> Fin 100"
    "- Fin 10 < sumOverSorted (dailyPnl c)"
    by (simp_all add: st sumOverSorted_def sorted_keys_def entry_or_zero_def)
  with proposal_decided [OF pf.runtime_sc s _ refl, of "''ETH''" "Fin 30"] st
  obtain c' where "pf_send (st, c) (RISK_PROPOSED ''ETH'' (Fin 30)) = (st, c')"
    "exposure c' = [(''BTC'', Fin 60), (''ETH'', Fin 30)]"
    by (auto simp: sample_portfolio_def)
  moreover have "pf_sample (es @ [RISK_PROPOSED ''ETH'' (Fin 30)]) =
      pf_send (st, c) (RISK_PROPOSED ''ETH'' (Fin 30))"
    using s by simp
  ultimately show ?thesis
    using st by (simp add: es_def)
qed

end
