(* ===== verification/RoundingError.thy ===== *)
theory RoundingError
  imports JsNumber
begin

text \<open>
  The relative error of one rounding: half a unit in the last place, that is
  a part in \<open>2 ^ 53\<close> of the value in the normal range.
\<close>

definition unit_roundoff :: rat where
  "unit_roundoff = 1 / 2 ^ 53"

text \<open>The least normal magnitude.\<close>

definition min_normal :: rat where
  "min_normal = 2 powi (- 1022)"

lemma min_normal_pos [simp]: "0 < min_normal"
  by (simp only: min_normal_def powi2_pos)

lemma representable_min_normal: "representable min_normal"
proof -
  have "min_normal = of_int 1 * 2 powi (- 1022) \<and> \<bar>1 :: int\<bar> < 2 ^ 53 \<and> - 1074 \<le> (- 1022 :: int)"
    by (simp add: min_normal_def)
  then have "dyadic min_normal" unfolding dyadic_def by blast
  moreover have "min_normal < 2 powi (int 1024)" unfolding min_normal_def powi2_less_iff by simp
  then have "\<bar>min_normal\<bar> < fl_limit"
    unfolding fl_limit_def power_int_of_nat by (simp only: abs_of_pos min_normal_pos)
  ultimately show ?thesis unfolding representable_def by (rule conjI)
qed

lemma round_even_error: "\<bar>of_int (round_even q) - q\<bar> \<le> 1 / 2"
proof -
  have "q - of_int \<lfloor>q\<rfloor> < 1" "of_int \<lfloor>q\<rfloor> \<le> q"
    by linarith+
  then show ?thesis
    unfolding round_even_def Let_def by (auto split: if_split)
qed

lemma ulp_exp_normal:
  assumes "min_normal \<le> a"
  shows "2 powi ulp_exp a / 2 \<le> a * unit_roundoff"
proof -
  have a: "0 < a" by (rule less_le_trans [OF min_normal_pos assms])
  have "(2 :: rat) powi max (ilog2 a) (- 1022) \<le> a"
    using ilog2_bounds(1) [OF a] assms by (simp add: max_def min_normal_def)
  moreover have "(2 :: rat) powi ulp_exp a / 2 = 2 powi max (ilog2 a) (- 1022) * unit_roundoff"
    by (simp add: ulp_exp_def unit_roundoff_def power_int_diff)
  ultimately show ?thesis
    by (simp add: unit_roundoff_def divide_right_mono)
qed

lemma round_mag_error:
  assumes "min_normal \<le> a"
  shows "\<bar>round_mag a - a\<bar> \<le> a * unit_roundoff"
proof -
  let ?e = "(2 :: rat) powi ulp_exp a"
  have "round_mag a - a = (of_int (round_even (a / ?e)) - a / ?e) * ?e"
    by (simp add: round_mag_def left_diff_distrib)
  then have "\<bar>round_mag a - a\<bar> = \<bar>of_int (round_even (a / ?e)) - a / ?e\<bar> * ?e"
    by (simp add: abs_mult)
  also have "\<dots> \<le> 1 / 2 * ?e"
    by (intro mult_right_mono round_even_error) simp
  finally show ?thesis
    using ulp_exp_normal [OF assms] by simp
qed

lemma fl_error:
  assumes "fl a = Fin r" "min_normal \<le> a"
  shows "r \<le> a * (1 + unit_roundoff)" "a * (1 - unit_roundoff) \<le> r"
proof -
  have "0 < a" by (rule less_le_trans [OF min_normal_pos assms(2)])
  with assms have "r = round_mag a"
    by (auto simp: fl_def Let_def split: if_splits)
  then show "r \<le> a * (1 + unit_roundoff)" "a * (1 - unit_roundoff) \<le> r"
    using round_mag_error [OF assms(2)] by (simp_all add: algebra_simps abs_le_iff)
qed

text \<open>Below the normal range the error is absolute; one bound covers both.\<close>

lemma fl_upper:
  assumes "fl a = Fin r" "0 \<le> a"
  shows "r \<le> a * (1 + unit_roundoff) + min_normal"
proof (cases "min_normal \<le> a")
  case True
  then show ?thesis
    using fl_error(1) [OF assms(1) True] min_normal_pos by linarith
next
  case False
  with False assms have "r \<le> min_normal"
    using fl_le_representable [OF representable_min_normal, of a] by simp
  moreover have "0 \<le> a * (1 + unit_roundoff)"
    using assms(2) by (simp add: unit_roundoff_def)
  ultimately show ?thesis by simp
qed

lemma fl_Fin_le:
  assumes "representable b" "0 \<le> a" "a \<le> b"
  obtains r where "fl a = Fin r" "0 \<le> r" "r \<le> b"
  using fl_le_representable [OF assms(1,3)] fl_nonneg [OF assms(2)] that
  by (cases "fl a") auto

lemma normal_of_ge: "min_normal \<le> a" if "1 \<le> a" for a :: rat
proof -
  have "min_normal \<le> 2 powi 0" by (simp only: min_normal_def powi2_le_iff)
  with that show ?thesis by simp
qed

end
