(* ===== verification/TargetExposureProps.thy ===== *)
theory TargetExposureProps
  imports TargetExposure RoundingError PaperExecution
begin

text \<open>
  The year of a day brackets it; the arithmetic of a planned order, rounding included; and the
  order of a plan is covered by the portfolio it was planned for.
\<close>

subsection \<open>The calendar\<close>

lemma div_bounds: "k * (x div k) \<le> x" "x < k * (x div k) + k" if "0 < k" for k x :: int
  using that pos_mod_bound [of k x] pos_mod_sign [of k x] mult_div_mod_eq [of k x] by linarith+

lemma dayFromYear_bounds:
  "400 * dayFromYear y \<le> 146097 * (y - 1970) + 589"
  "146097 * (y - 1970) - 506 \<le> 400 * dayFromYear y"
proof -
  define a b c where "a = (y - 1969) div 4" "b = (y - 1901) div 100" "c = (y - 1601) div 400"
  note abc = this
  have "4 * a \<le> y - 1969" "y - 1969 < 4 * a + 4" "100 * b \<le> y - 1901" "y - 1901 < 100 * b + 100"
    "400 * c \<le> y - 1601" "y - 1601 < 400 * c + 400"
    unfolding abc by (rule div_bounds, simp)+
  then show "400 * dayFromYear y \<le> 146097 * (y - 1970) + 589"
    "146097 * (y - 1970) - 506 \<le> 400 * dayFromYear y"
    unfolding dayFromYear_def abc [symmetric] by (simp_all add: algebra_simps)
qed

lemma yearFromDay: "dayFromYear (yearFromDay d) \<le> d" "d < dayFromYear (yearFromDay d + 1)"
proof -
  define q where "q = d * 400 div 146097"
  have "146097 * q \<le> d * 400" "d * 400 < 146097 * q + 146097"
    unfolding q_def by (rule div_bounds, simp)+
  then have "dayFromYear (1970 + q - 1) \<le> d" "d < dayFromYear (1970 + q + 1 + 1)"
    using dayFromYear_bounds [of "1970 + q - 1"] dayFromYear_bounds [of "1970 + q + 1 + 1"]
    by (simp_all add: algebra_simps)
  then show "dayFromYear (yearFromDay d) \<le> d" "d < dayFromYear (yearFromDay d + 1)"
    unfolding yearFromDay_def q_def [symmetric] Let_def by (auto simp: not_less not_le)
qed

subsection \<open>The arithmetic of a buy\<close>

text \<open>
  The arithmetic of one buy: cash \<open>c\<close>, slippage \<open>s\<close> and fee \<open>f\<close> as fractions, price \<open>p\<close>.
  Every \<open>fl\<close> is one operation of the code, in its order.
\<close>

lemma error_product:
  fixes u :: rat
  assumes u: "u = unit_roundoff"
  shows "(1 + u) ^ 7 * (1 - 9 / 10 ^ 10) \<le> (1 - 1 / 10 ^ 10) * (1 - u) ^ 3"
  unfolding u unit_roundoff_def by (simp add: power_divide)

lemma margin: "\<exists>m. Fin 1 - fl (1 / 1000000000) = Fin m \<and> 0 \<le> m \<and> m \<le> 1 - 9 / 10 ^ 10"
proof -
  obtain e where e: "fl (1 / 1000000000) = Fin e" "0 \<le> e" "e \<le> 1"
    by (rule fl_Fin_le [OF representable_1, of "1 / 1000000000"]) simp_all
  have "1 / 1000000000 * (1 - unit_roundoff) \<le> e"
  proof (rule fl_error(2) [OF e(1)])
    have "min_normal \<le> 2 powi (- 30)" unfolding min_normal_def powi2_le_iff by simp
    also have "(2 :: rat) powi (- 30) \<le> 1 / 1000000000" by simp
    finally show "min_normal \<le> 1 / 1000000000" .
  qed
  then have e1: "999 / 10 ^ 12 \<le> e" by (simp add: unit_roundoff_def)
  obtain m where m: "fl (1 - e) = Fin m" "0 \<le> m" "m \<le> 1"
    by (rule fl_Fin_le [OF representable_1, of "1 - e"]) (use e in simp_all)
  have "m \<le> 1 - 9 / 10 ^ 10"
  proof (cases "e \<le> 1 / 2")
    case True
    have "m \<le> (1 - e) * (1 + unit_roundoff) + min_normal"
      by (rule fl_upper [OF m(1)]) (use e in simp)
    moreover have "min_normal \<le> 1 / 10 ^ 12"
    proof -
      have "min_normal \<le> 2 powi (- 40)" unfolding min_normal_def powi2_le_iff by simp
      also have "(2 :: rat) powi (- 40) \<le> 1 / 10 ^ 12" by simp
      finally show ?thesis .
    qed
    moreover have "(1 - e) * (1 + unit_roundoff) \<le> 1 - e + 1 / 10 ^ 15"
    proof -
      have "(1 - e) * (1 + unit_roundoff) = 1 - e + (1 - e) * unit_roundoff"
        by (simp add: distrib_left)
      moreover have "(1 - e) * unit_roundoff \<le> 1 * unit_roundoff"
        using e by (intro mult_right_mono) (simp_all add: unit_roundoff_def)
      moreover have "unit_roundoff \<le> 1 / 10 ^ 15"
        by (simp add: unit_roundoff_def)
      ultimately show ?thesis by simp
    qed
    ultimately show ?thesis using e1 by simp
  next
    case False
    have "fl (1 - e) \<le> fl (1 / 2)" by (rule fl_mono) (use False in simp)
    moreover have "fl (1 / 2) = Fin (1 / 2)" using fl_frac [of 1 1] by simp
    ultimately have "m \<le> 1 / 2" using m by simp
    then show ?thesis by simp
  qed
  with m e show ?thesis by (intro exI [of _ m]) (simp add: number_diff_Fin)
qed

lemma buy_cost_bound:
  fixes s f :: rat
  defines "u \<equiv> unit_roundoff"
  assumes c: "1 \<le> c" and p: "0 < p" and sf: "0 \<le> s" "0 \<le> f" and x: "x \<le> (1 + s) * (1 + u)"
    and b: "(1 + s) * (1 + f) * (1 - u) ^ 3 \<le> b" and m: "0 \<le> m" "m \<le> 1 - 9 / 10 ^ 10"
    and k: "k \<le> c / b * (1 + u)" and n: "0 \<le> n" "n \<le> k * m * (1 + u)"
    and q: "0 \<le> q" "q \<le> n / p * (1 + u)" and P: "0 \<le> P" "P \<le> p * x * (1 + u)"
    and nt: "0 \<le> nt" "nt \<le> P * q * (1 + u)" and ch: "ch \<le> nt * f * (1 + u) + min_normal"
  shows "nt + ch \<le> c"
proof -
  define z w where "z = 1 + u" "w = (1 - u) ^ 3"
  have u: "0 \<le> u" by (simp add: u_def unit_roundoff_def)
  have z: "1 \<le> z" using u by (simp add: z_w_def)
  have w: "0 < w" by (simp add: z_w_def u_def unit_roundoff_def)
  have S: "0 < (1 + s) * (1 + f) * w" using sf w by simp
  have b0: "0 < b" by (rule less_le_trans [OF S]) (use b in \<open>simp add: z_w_def\<close>)
  note [simp] = mult_nonneg_nonneg
  have z0: "0 \<le> z" "0 < z" using z by simp_all
  have "n \<le> k * m * z" using n z_w_def by simp
  also have "\<dots> \<le> c / b * z * m * z"
    using m z0 k by (intro mult_right_mono) (simp_all add: z_w_def)
  finally have n1: "n \<le> c * m * z ^ 2 / b" by (simp add: field_simps power2_eq_square)
  have "P * q \<le> (p * x * z) * (n / p * z)"
    using P q p by (intro mult_mono) (auto simp: z_w_def)
  also have "\<dots> = x * n * z ^ 2" using p by (simp add: power2_eq_square field_simps)
  also have "\<dots> \<le> (1 + s) * z * n * z ^ 2"
    using x n(1) z0 by (intro mult_right_mono) (simp_all add: z_w_def)
  finally have "P * q * z \<le> (1 + s) * z * n * z ^ 2 * z"
    using z0 by (intro mult_right_mono) auto
  then have "nt \<le> (1 + s) * z ^ 4 * n"
    using nt(2) by (simp add: z_w_def [symmetric] power2_eq_square power4_eq_xxxx algebra_simps)
  also have "\<dots> \<le> (1 + s) * z ^ 4 * (c * m * z ^ 2 / b)"
    using n1 sf z0 by (intro mult_left_mono) auto
  finally have "nt * b \<le> (1 + s) * (c * m * z ^ 6)"
    using b0 by (simp add: field_simps eval_nat_numeral)
  moreover have "nt * ((1 + s) * (1 + f) * w) \<le> nt * b"
    using b nt(1) by (intro mult_left_mono) (auto simp: z_w_def)
  ultimately have "(1 + s) * (nt * (1 + f) * w) \<le> (1 + s) * (c * m * z ^ 6)"
    by (simp add: mult_ac)
  then have "nt * (1 + f) * w \<le> c * m * z ^ 6"
    using sf by (simp only: mult_le_cancel_left_pos)
  then have "nt * (1 + f) * w * z \<le> c * m * z ^ 6 * z"
    using z0 by (intro mult_right_mono) auto
  also have "\<dots> = c * (z ^ 7 * m)" by (simp add: eval_nat_numeral)
  also have "\<dots> \<le> c * ((1 - 1 / 10 ^ 10) * w)"
  proof (rule mult_left_mono)
    have "z ^ 7 * m \<le> z ^ 7 * (1 - 9 / 10 ^ 10)" using m z0 by (intro mult_left_mono) auto
    also have "\<dots> \<le> (1 - 1 / 10 ^ 10) * w"
      using error_product [of u] by (simp only: z_w_def u_def)
    finally show "z ^ 7 * m \<le> (1 - 1 / 10 ^ 10) * w" .
  qed (use c in simp)
  finally have "(nt * (1 + f) * z) * w \<le> (c * (1 - 1 / 10 ^ 10)) * w" by (simp add: mult_ac)
  then have le: "nt * (1 + f) * z \<le> c * (1 - 1 / 10 ^ 10)" using w by (simp only: mult_le_cancel_right_pos)
  have "nt * 1 \<le> nt * z" using nt(1) z by (intro mult_left_mono) auto
  then have "nt + ch \<le> nt * (1 + f) * z + min_normal"
    using ch by (simp add: z_w_def [symmetric] algebra_simps)
  also have "min_normal \<le> 2 powi (- 40)" unfolding min_normal_def powi2_le_iff by simp
  finally show ?thesis using le c by (simp add: algebra_simps)
qed

lemma fl_Fin_less_limit:
  assumes "fl a = Fin r"
  shows "a < fl_limit"
proof (rule ccontr)
  assume "\<not> a < fl_limit"
  then have le: "fl_limit \<le> a" by simp
  have "fl_limit = of_int 1 * 2 powi 1024 \<and> \<bar>1 :: int\<bar> < 2 ^ 53 \<and> - 1074 \<le> (1024 :: int)"
    by (simp add: fl_limit_def)
  then have "dyadic fl_limit" unfolding dyadic_def by blast
  then have "round_mag fl_limit = fl_limit" by (rule round_mag_exact) (rule fl_limit_pos)
  then have "fl fl_limit = PosInf"
    using fl_limit_pos order_less_imp_not_eq2 [OF fl_limit_pos]
    by (simp only: fl_def Let_def abs_of_pos order_refl simp_thms if_True if_False)
  with fl_mono [OF le] assms show False by simp
qed

lemma limit_normal: "min_normal \<le> 10 / fl_limit"
proof -
  have "min_normal * fl_limit = 2 powi (- 1022) * 2 powi (int 1024)"
    unfolding min_normal_def fl_limit_def by (simp only: power_int_of_nat)
  also have "\<dots> = (2 :: rat) powi 2"
    by (subst power_int_add [symmetric]) simp_all
  finally show ?thesis by (simp add: pos_le_divide_eq)
qed

lemma price_normal:
  assumes "fl (n / p) = Fin r" "10 \<le> n" "0 < p"
  shows "min_normal \<le> p"
proof -
  have "n / p < fl_limit" by (rule fl_Fin_less_limit [OF assms(1)])
  with assms have "10 < fl_limit * p" by (simp add: pos_divide_less_eq)
  then have "10 / fl_limit \<le> p" by (simp add: pos_divide_le_eq mult.commute)
  with limit_normal show ?thesis by simp
qed

text \<open>A rate in basis points as a fraction, and one plus it.\<close>

lemma rate_fraction:
  assumes "isFinite X" "Fin 0 \<le> X" "X < Fin 10000"
  obtains s x where "X / Fin 10000 = Fin s" "0 \<le> s" "s \<le> 1" "Fin 1 * Fin s = Fin s"
    "Fin 1 + Fin s = Fin x" "1 \<le> x" "x \<le> 2" "x \<le> (1 + s) * (1 + unit_roundoff)"
    "(1 + s) * (1 - unit_roundoff) \<le> x"
proof -
  from assms obtain t where t: "X = Fin t" "0 \<le> t" "t < 10000" by (cases X) auto
  obtain s where s: "fl (t / 10000) = Fin s" "0 \<le> s" "s \<le> 1"
    by (rule fl_Fin_le [OF representable_1, of "t / 10000"]) (use t in simp_all)
  obtain x where x: "fl (1 + s) = Fin x" "0 \<le> x" "x \<le> 2"
    by (rule fl_Fin_le [OF representable_numeral [of "Num.Bit0 Num.One"], of "1 + s"])
      (use s in simp_all)
  have "1 \<le> x" using fl_ge_representable [OF representable_1, of "1 + s"] x s by simp
  moreover note fl_error [OF x(1) normal_of_ge]
  moreover have "fl s = Fin s" by (rule fl_representable [OF fl_FinD [OF s(1)]])
  ultimately show thesis using t s x by (intro that [of s x]) simp_all
qed

lemma cost_factor:
  fixes x y s f :: rat
  assumes "1 \<le> x" "x \<le> 2" "(1 + s) * (1 - unit_roundoff) \<le> x" "0 \<le> s"
    and "1 \<le> y" "y \<le> 2" "(1 + f) * (1 - unit_roundoff) \<le> y" "0 \<le> f"
  obtains b where "fl (x * y) = Fin b" "1 \<le> b" "(1 + s) * (1 + f) * (1 - unit_roundoff) ^ 3 \<le> b"
proof -
  obtain b where b: "fl (x * y) = Fin b" "0 \<le> b"
    by (rule fl_Fin_le [OF representable_numeral [of "Num.Bit0 (Num.Bit0 Num.One)"], of "x * y"])
      (use assms mult_mono [of x 2 y 2] in simp_all)
  have xy: "1 \<le> x * y" using assms mult_mono [of 1 x 1 y] by simp
  have b1: "1 \<le> b" using fl_ge_representable [OF representable_1 xy] b by simp
  have z: "0 \<le> 1 - unit_roundoff" by (simp add: unit_roundoff_def)
  have "((1 + s) * (1 - unit_roundoff)) * ((1 + f) * (1 - unit_roundoff)) \<le> x * y"
    using assms z by (intro mult_mono mult_nonneg_nonneg) auto
  then have "((1 + s) * (1 - unit_roundoff)) * ((1 + f) * (1 - unit_roundoff)) * (1 - unit_roundoff)
      \<le> x * y * (1 - unit_roundoff)"
    by (rule mult_right_mono) (rule z)
  also have "\<dots> \<le> b" by (rule fl_error(2) [OF b(1) normal_of_ge [OF xy]])
  finally have "(1 + s) * (1 + f) * (1 - unit_roundoff) ^ 3 \<le> b"
    by (simp add: power3_eq_cube mult_ac)
  with b(1) b1 show thesis by (rule that)
qed

text \<open>A notional of at least ten forces the cash it is taken from into the normal range.\<close>

lemma ge_1_of_fl: "1 \<le> a" if "fl a = Fin r" "1 < r"
  using fl_le_representable [OF representable_1, of a] that by (cases "1 \<le> a") simp_all

lemma planned_notional:
  assumes c: "representable c" "0 \<le> c" and b: "1 \<le> b" and delta: "Fin 0 < delta"
    and N: "N = js_min delta (Fin c / Fin b * (Fin 1 - fl (1 / 1000000000)))" "\<not> N < Fin 10"
  obtains n m k where "N = Fin n" "10 \<le> n" "1 \<le> c" "0 \<le> m" "m \<le> 1 - 9 / 10 ^ 10"
    "k \<le> c / b * (1 + unit_roundoff)" "n \<le> k * m * (1 + unit_roundoff)"
proof -
  obtain m where m: "Fin 1 - fl (1 / 1000000000) = Fin m" "0 \<le> m" "m \<le> 1 - 9 / 10 ^ 10"
    using margin by blast
  obtain k where k: "fl (c / b) = Fin k" "0 \<le> k" "k \<le> c"
    by (rule fl_Fin_le [OF c(1), of "c / b"])
      (use c b mult_left_mono [of 1 b c] in \<open>simp_all add: pos_divide_le_eq\<close>)
  obtain l where l: "fl (k * m) = Fin l" "0 \<le> l" "l \<le> k"
    by (rule fl_Fin_le [OF fl_FinD [OF k(1)], of "k * m"]) (use k m in \<open>simp_all add: mult_left_le\<close>)
  have "N = js_min delta (Fin l)" using N(1) m k l b by simp
  then obtain n where n: "N = Fin n" "10 \<le> n" "n \<le> l"
    using N(2) delta that by (cases delta) (auto simp: js_min_def split: if_splits)
  have cb: "1 \<le> c / b" by (rule ge_1_of_fl [OF k(1)]) (use n l in simp)
  have km: "1 \<le> k * m" by (rule ge_1_of_fl [OF l(1)]) (use n in simp)
  have "k \<le> c / b * (1 + unit_roundoff)" by (rule fl_error(1) [OF k(1) normal_of_ge [OF cb]])
  moreover have "l \<le> k * m * (1 + unit_roundoff)" by (rule fl_error(1) [OF l(1) normal_of_ge [OF km]])
  moreover have "1 \<le> c" using cb b by (simp add: pos_le_divide_eq)
  ultimately show thesis using n m by (intro that [of n m k]) simp_all
qed

text \<open>The quantity \<open>r\<close> bought at the price \<open>q\<close>: both are normal, and so is their product.\<close>

lemma planned_quantity:
  assumes p: "representable p" "0 < p" and n: "10 \<le> n" and x: "1 \<le> x"
    and r: "fl (n / p) = Fin r" and q: "fl (p * x) = Fin q"
  shows "0 \<le> r" "r \<le> n / p * (1 + unit_roundoff)" "0 \<le> q" "q \<le> p * x * (1 + unit_roundoff)"
    "1 \<le> q * r"
proof -
  have z: "0 \<le> 1 - unit_roundoff" by (simp add: unit_roundoff_def)
  have "10 / fl_limit \<le> n / p" using n p by (intro frac_le) (auto simp: representable_def)
  with limit_normal have np: "min_normal \<le> n / p" by simp
  have "p * 1 \<le> p * x" using p x by (intro mult_left_mono) auto
  with price_normal [OF r n p(2)] have px: "min_normal \<le> p * x" by simp
  show r0: "0 \<le> r" "0 \<le> q" using fl_nonneg [of "n / p"] fl_nonneg [of "p * x"] r q n p x by simp_all
  show "r \<le> n / p * (1 + unit_roundoff)" "q \<le> p * x * (1 + unit_roundoff)"
    by (rule fl_error(1) [OF r np], rule fl_error(1) [OF q px])
  have "(p * (1 - unit_roundoff)) * (n / p * (1 - unit_roundoff)) \<le> q * r"
  proof (rule mult_mono)
    have "p * 1 * (1 - unit_roundoff) \<le> p * x * (1 - unit_roundoff)"
      using x p z by (intro mult_right_mono mult_left_mono) auto
    with fl_error(2) [OF q px] show "p * (1 - unit_roundoff) \<le> q" by simp
  qed (use fl_error(2) [OF r np] r0 n p z in auto)
  moreover have "(p * (1 - unit_roundoff)) * (n / p * (1 - unit_roundoff)) = n * (1 - unit_roundoff) ^ 2"
    using p by (simp add: power2_eq_square)
  moreover have "10 * (1 - unit_roundoff) ^ 2 \<le> n * (1 - unit_roundoff) ^ 2"
    using n by (intro mult_right_mono) auto
  moreover have "1 \<le> 10 * (1 - unit_roundoff) ^ 2"
    by (simp add: unit_roundoff_def power_divide)
  ultimately show "1 \<le> q * r" by simp
qed

lemma buy_affordable:
  fixes S F :: number
  assumes c: "representable c" "0 \<le> c"
    and S: "isFinite S" "Fin 0 \<le> S" "S < Fin 10000" and F: "isFinite F" "Fin 0 \<le> F" "F < Fin 10000"
    and delta: "Fin 0 < delta" and p: "representable p" "0 < p"
    and N: "N = js_min delta (Fin c / ((Fin 1 + S / Fin 10000) * (Fin 1 + F / Fin 10000)) *
        (Fin 1 - fl (1 / 1000000000)))" "\<not> N < Fin 10"
    and q: "q = N / Fin p" "isFinite q"
    and P: "P = Fin p * (Fin 1 + Fin 1 * (S / Fin 10000))" "isFinite P"
  shows "P * q + P * q * (F / Fin 10000) \<le> Fin c \<and> 1 \<le> c"
proof -
  obtain s x where s: "S / Fin 10000 = Fin s" "0 \<le> s" "s \<le> 1" "Fin 1 * Fin s = Fin s"
    "Fin 1 + Fin s = Fin x" "1 \<le> x" "x \<le> 2" "x \<le> (1 + s) * (1 + unit_roundoff)"
    "(1 + s) * (1 - unit_roundoff) \<le> x"
    by (rule rate_fraction [OF S])
  obtain f y where f: "F / Fin 10000 = Fin f" "0 \<le> f" "f \<le> 1" "Fin 1 * Fin f = Fin f"
    "Fin 1 + Fin f = Fin y" "1 \<le> y" "y \<le> 2" "y \<le> (1 + f) * (1 + unit_roundoff)"
    "(1 + f) * (1 - unit_roundoff) \<le> y"
    by (rule rate_fraction [OF F])
  obtain b where b: "fl (x * y) = Fin b" "1 \<le> b" "(1 + s) * (1 + f) * (1 - unit_roundoff) ^ 3 \<le> b"
    by (rule cost_factor [OF s(6,7,9,2) f(6,7,9,2)])
  have N': "N = js_min delta (Fin c / Fin b * (Fin 1 - fl (1 / 1000000000)))"
    by (simp only: N(1) s f times_number.simps b)
  obtain n m k where n: "N = Fin n" "10 \<le> n" "1 \<le> c" "0 \<le> m" "m \<le> 1 - 9 / 10 ^ 10"
    "k \<le> c / b * (1 + unit_roundoff)" "n \<le> k * m * (1 + unit_roundoff)"
    by (rule planned_notional [OF c b(2) delta N' N(2)])
  obtain r where r: "fl (n / p) = Fin r" "q = Fin r"
    using q n p by (cases "fl (n / p)") auto
  have "P = fl (p * x)" using P(1) unfolding s(1) s(4) s(5) by simp
  with P(2) obtain v where v: "fl (p * x) = Fin v" "P = Fin v"
    by (cases "fl (p * x)") auto
  note w = planned_quantity [OF p n(2) s(6) r(1) v(1)]
  note cost = buy_cost_bound [OF n(3) p(2) s(2) f(2) s(8) b(3) n(4,5,6) _ n(7) w(1,2,3,4)]
  have "v * r + 0 \<le> c"
    by (rule cost) (use n w f less_imp_le [OF min_normal_pos] in
      \<open>auto simp: unit_roundoff_def intro!: add_nonneg_nonneg mult_nonneg_nonneg\<close>)
  then obtain t where t: "fl (v * r) = Fin t" "0 \<le> t" "t \<le> c"
    using fl_Fin_le [OF c(1), of "v * r"] w(5) by auto
  have tt: "t \<le> v * r * (1 + unit_roundoff)" by (rule fl_error(1) [OF t(1) normal_of_ge [OF w(5)]])
  obtain ch where ch: "fl (t * f) = Fin ch" "0 \<le> ch"
    by (rule fl_Fin_le [OF fl_FinD [OF t(1)], of "t * f"]) (use t f in \<open>simp_all add: mult_left_le\<close>)
  have "t + ch \<le> c"
    by (rule cost) (use n t tt f fl_upper [OF ch(1)] in auto)
  then have "fl (t + ch) \<le> Fin c" by (rule fl_le_representable [OF c(1)])
  then show ?thesis
    using v r f t ch n by simp
qed

subsection \<open>What a plan holds\<close>

lemmas plan_defs = planTargetExposure_def insufficientHistory_def Let_def

lemma findAnchor_less: "findAnchor cs k = Some a \<Longrightarrow> a < k"
  by (induction cs k rule: findAnchor.induct) (force split: option.splits if_splits)+

lemma plan_Some:
  assumes "te_side (planTargetExposure pow rt i) \<noteq> SigHold"
  obtains a where "findAnchor (te_candles i) (length (te_candles i)) = Some a" "te_candles i \<noteq> []"
proof (cases "findAnchor (te_candles i) (length (te_candles i))")
  case None
  with assms show thesis by (simp add: plan_defs split: if_splits)
next
  case (Some a)
  with findAnchor_less [OF Some] show thesis by (intro that) auto
qed

text \<open>What a buy, a sell and a target are, kept folded while the plan is taken apart.\<close>

definition buy_plan :: "TargetExposureInput \<Rightarrow> number \<Rightarrow> bool" where
  "buy_plan i q \<longleftrightarrow>
     (\<exists>delta N. Fin 0 < delta \<and> \<not> N < MIN_ORDER_NOTIONAL \<and>
        N = js_min delta ((js_max (Fin 0) (te_cash i) /
          ((Fin 1 + te_slippageBps i / Fin 10000) * (Fin 1 + te_feeBps i / Fin 10000))) *
          (Fin 1 - fl (1 / 1000000000))) \<and>
        q = N / close_price (te_candles i ! (length (te_candles i) - 1)))"

definition sell_plan :: "TargetExposureInput \<Rightarrow> number \<Rightarrow> bool" where
  "sell_plan i q \<longleftrightarrow> (\<exists>n. q = js_min n (js_max (Fin 0) (te_positionQuantity i)))"

definition plan_ok :: "TargetExposureInput \<Rightarrow> TargetExposureDecision \<Rightarrow> bool" where
  "plan_ok i d \<longleftrightarrow>
     (case te_side d of
        SigHold \<Rightarrow> te_quantity d = Fin 0 \<and> te_notional d = Fin 0
      | SigBuy \<Rightarrow> buy_plan i (te_quantity d) \<and> te_target d \<noteq> None
      | SigSell \<Rightarrow> sell_plan i (te_quantity d) \<and> te_target d \<noteq> None)"

lemma buy_planI:
  "Fin 0 < delta \<Longrightarrow> \<not> js_min delta ((js_max (Fin 0) (te_cash i) /
          ((Fin 1 + te_slippageBps i / Fin 10000) * (Fin 1 + te_feeBps i / Fin 10000))) *
          (Fin 1 - fl (1 / 1000000000))) < MIN_ORDER_NOTIONAL \<Longrightarrow>
   buy_plan i (js_min delta ((js_max (Fin 0) (te_cash i) /
          ((Fin 1 + te_slippageBps i / Fin 10000) * (Fin 1 + te_feeBps i / Fin 10000))) *
          (Fin 1 - fl (1 / 1000000000))) / close_price (te_candles i ! (length (te_candles i) - 1)))"
  unfolding buy_plan_def by blast

lemma sell_planI: "sell_plan i (js_min n (js_max (Fin 0) (te_positionQuantity i)))"
  unfolding sell_plan_def by blast

lemma plan_ok_insufficientHistory [simp]: "plan_ok i insufficientHistory"
  by (simp add: plan_ok_def insufficientHistory_def)

lemma plan_ok_if: "(c \<Longrightarrow> plan_ok i a) \<Longrightarrow> (\<not> c \<Longrightarrow> plan_ok i b) \<Longrightarrow> plan_ok i (if c then a else b)"
  by simp

lemma plan_ok_option:
  "plan_ok i a \<Longrightarrow> (\<And>x. plan_ok i (f x)) \<Longrightarrow> plan_ok i (case v of None \<Rightarrow> a | Some x \<Rightarrow> f x)"
  by (simp split: option.split)

lemma plan_ok_hold:
  "te_side d = SigHold \<Longrightarrow> te_quantity d = Fin 0 \<Longrightarrow> te_notional d = Fin 0 \<Longrightarrow> plan_ok i d"
  by (simp add: plan_ok_def)

lemma plan_ok_order:
  "te_side d = (if c then SigBuy else SigSell) \<Longrightarrow> te_quantity d = (if c then q else r) \<Longrightarrow>
   te_target d = Some t \<Longrightarrow> (c \<Longrightarrow> buy_plan i q) \<Longrightarrow> (\<not> c \<Longrightarrow> sell_plan i r) \<Longrightarrow> plan_ok i d"
  by (cases c) (simp_all add: plan_ok_def)

lemma plan_ok: "plan_ok i (planTargetExposure pow rt i)"
  unfolding planTargetExposure_def Let_def case_prod_conv
  by (intro plan_ok_if plan_ok_option plan_ok_insufficientHistory)
    ((rule plan_ok_hold; simp; fail) |
     (rule plan_ok_order, simp, simp, simp, simp add: buy_planI [simplified], rule sell_planI))+

lemma tolerance_nonneg: "x \<noteq> NaN \<Longrightarrow> Fin 0 \<le> tolerance x"
proof -
  assume "x \<noteq> NaN"
  then obtain y where y: "js_max (Fin 1) \<bar>x\<bar> = y" "Fin 1 \<le> y" by (cases x) (auto simp: js_max_def)
  have nonneg: "Fin 0 \<le> a * Fin b" if "Fin 0 \<le> a" "0 < b" for a b
    using that by (cases a) (auto simp: fl_nonneg inf_of_def)
  show ?thesis
    unfolding tolerance_def y(1) EPSILON_def
    using y(2) by (intro nonneg) (cases y; simp)+
qed

lemma le_plus_nonneg: "Fin r \<le> Fin r + t" if "representable r" "Fin 0 \<le> t"
  using that fl_ge_representable [of r] by (cases t) auto

lemma paper_accepts:
  assumes "validConfig c" "isFinite mp" "\<not> mp \<le> Fin 0"
    and "\<not> (side d = BUY \<and> cash pf + tolerance (cash pf) <
      executionPrice d mp c * quantity d + executionPrice d mp c * quantity d * (feeBps c / Fin 10000))"
    and "\<not> (side d = SELL \<and> positionQuantity pf + tolerance (positionQuantity pf) < quantity d)"
  shows "executePaperOrder pf d mp ts c \<notin>
    {err INVALID_BROKER_CONFIG, err INVALID_MARKET_PRICE, err INSUFFICIENT_CASH,
     err INSUFFICIENT_POSITION}"
proof -
  have fills: "(case r of Inl _ \<Rightarrow> err INVALID_FILL_RESULT | Inr f \<Rightarrow> ok (g f)) \<notin>
    {err INVALID_BROKER_CONFIG, err INVALID_MARKET_PRICE, err INSUFFICIENT_CASH, err INSUFFICIENT_POSITION}"
    for r and g :: "Fill \<Rightarrow> PaperExecution"
    by (cases r) simp_all
  show ?thesis
    unfolding executePaperOrder_def Let_def executionFee_def if_not_P [OF assms(4)] if_not_P [OF assms(5)]
    using assms(1-3) by (simp only: simp_thms if_False fills)
qed

text \<open>C29: the order a plan asks for is covered.  Executed at the close it was planned with, under the
  same fee and slippage, it is never refused by the paper broker for cash or for position: the
  one part in a thousand million the plan keeps back outweighs the rounding of the eleven
  operations between the two computations.
\<close>

theorem planned_order_is_covered:
  assumes config: "validConfig c" "te_feeBps i = feeBps c" "te_slippageBps i = slippageBps c"
    and portfolio: "te_cash i = cash pf" "te_positionQuantity i = positionQuantity pf"
      "isFinite (cash pf)" "binary64 (cash pf)" "isFinite (positionQuantity pf)"
      "binary64 (positionQuantity pf)" "Fin 0 \<le> positionQuantity pf"
    and price: "mp = close_price (last (te_candles i))" "isFinite mp" "binary64 mp" "Fin 0 < mp"
    and order: "te_side (planTargetExposure pow rt i) = (if side d = BUY then SigBuy else SigSell)"
      "quantity d = te_quantity (planTargetExposure pow rt i)" "isFinite (quantity d)"
      "isFinite (executionPrice d mp c)"
  shows "executePaperOrder pf d mp ts c \<notin>
    {err INVALID_BROKER_CONFIG, err INVALID_MARKET_PRICE, err INSUFFICIENT_CASH,
     err INSUFFICIENT_POSITION}"
proof -
  obtain h where h: "cash pf = Fin h" "representable h" using portfolio by (cases "cash pf") auto
  obtain w where w: "positionQuantity pf = Fin w" "representable w" "0 \<le> w"
    using portfolio by (cases "positionQuantity pf") auto
  obtain p where p: "mp = Fin p" "representable p" "0 < p" using price(2-) by (cases mp) auto
  have "te_candles i \<noteq> []"
    by (rule plan_Some [of pow rt i]) (use order(1) in \<open>auto split: if_splits\<close>)
  then have mp: "close_price (te_candles i ! (length (te_candles i) - 1)) = Fin p"
    using price(1) p(1) by (simp add: last_conv_nth)
  have cash: "js_max (Fin 0) (Fin h) = Fin (max 0 h)" by (simp add: js_max_def max_def)
  have buy: "\<not> cash pf + tolerance (cash pf) <
      executionPrice d mp c * quantity d + executionPrice d mp c * quantity d * (feeBps c / Fin 10000)"
    if "side d = BUY"
  proof -
    have "buy_plan i (quantity d)"
      using plan_ok [of i pow rt] order(1,2) that by (simp add: plan_ok_def)
    then obtain delta N where N: "Fin 0 < delta" "\<not> N < Fin 10"
      "N = js_min delta ((Fin (max 0 h) /
          ((Fin 1 + slippageBps c / Fin 10000) * (Fin 1 + feeBps c / Fin 10000))) *
          (Fin 1 - fl (1 / 1000000000)))" "quantity d = N / Fin p"
      unfolding buy_plan_def mp MIN_ORDER_NOTIONAL_def config portfolio h cash by blast
    have cost: "executionPrice d mp c * quantity d +
        executionPrice d mp c * quantity d * (feeBps c / Fin 10000)
        \<le> Fin (max 0 h) \<and> 1 \<le> max 0 h"
      by (rule buy_affordable [OF _ _ _ _ _ _ _ _ N(1) p(2,3) N(3,2,4) order(3) _ order(4)])
        (use config h that p in \<open>simp_all add: validConfig_def executionPrice_def direction_def max_def\<close>)
    then have "max 0 h = h" by (simp add: max_def split: if_splits)
    with cost show ?thesis
      using le_plus_nonneg [OF h(2), of "tolerance (cash pf)"] tolerance_nonneg [of "cash pf"] h(1)
      by (auto dest: number_le_lt_trans number_lt_le_trans)
  qed
  have sell: "\<not> positionQuantity pf + tolerance (positionQuantity pf) < quantity d" if "side d \<noteq> BUY"
  proof -
    have "sell_plan i (quantity d)"
      using plan_ok [of i pow rt] order(1,2) that by (simp add: plan_ok_def)
    then have "quantity d \<le> Fin w"
      using order(3) js_min_le [of _ "Fin w"] w portfolio(2) unfolding sell_plan_def
      by (auto simp: js_max_def) (metis isFinite_simps(4) js_min_eq_NaN)
    then show ?thesis
      using le_plus_nonneg [OF w(2), of "tolerance (positionQuantity pf)"] w(1)
        tolerance_nonneg [of "positionQuantity pf"]
      by (auto dest: number_le_lt_trans)
  qed
  have side: "side d = SELL \<longleftrightarrow> side d \<noteq> BUY" by (cases "side d") auto
  show ?thesis
    by (rule paper_accepts) (use config(1) p buy sell side in auto)
qed

subsection \<open>A sale of half a position\<close>

text \<open>Two hundred days at one price, then a rise on the last: the trend turns there.\<close>

definition day_candle :: "nat \<Rightarrow> rat \<Rightarrow> Candle" where
  "day_candle n p = \<lparr>start = Fin (of_nat n * 86400000), open_price = Fin p, high = Fin p, low = Fin p,
     close_price = Fin p, volume = Fin 1\<rparr>"

definition rising_candles :: "Candle list" where
  "rising_candles = map (\<lambda>n. day_candle n 64) [0..<200] @ [day_candle 200 128]"

lemma foldl_constant:
  "int k * 64 + n < 2 ^ 52 \<Longrightarrow> 0 \<le> n \<Longrightarrow>
   foldl (+) (Fin (of_int n)) (replicate k (Fin 64)) = Fin (of_int (int k * 64 + n))"
proof (induction k arbitrary: n)
  case (Suc k)
  have "fl (of_int n + 64) = Fin (of_int (n + 64))"
    using fl_add_int [of n 64] Suc.prems by simp
  then show ?case using Suc.IH [of "n + 64"] Suc.prems by (simp add: algebra_simps)
qed simp

lemma contiguousDays_iff:
  "contiguousDays cs \<longleftrightarrow>
     (\<forall>i. Suc i < length cs \<longrightarrow> num_eq (start (cs ! Suc i) - start (cs ! i)) (Fin 86400000))"
  by (induction cs rule: contiguousDays.induct) (auto simp: less_Suc_eq_0_disj)

lemma contiguous: "contiguousDays rising_candles"
proof -
  have "start (rising_candles ! i) = Fin (of_nat i * 86400000)" if "i < 201" for i
    using that by (cases "i = 200") (auto simp: rising_candles_def day_candle_def nth_append)
  then show ?thesis
    by (auto simp: contiguousDays_iff rising_candles_def number_diff_Fin algebra_simps)
qed

lemma closes: "map close_price rising_candles = replicate 200 (Fin 64) @ [Fin 128]"
  by (simp add: rising_candles_def day_candle_def map_replicate_const comp_def)

lemma sma0: "simpleMovingAverage (replicate 200 (Fin 64)) 200 = Some (Fin 64)"
  using foldl_constant [of 200 0] by (simp add: simpleMovingAverage_def)

lemma sma1: "simpleMovingAverage (replicate 200 (Fin 64) @ [Fin 128]) 200 = Some (fl (12864 / 200))"
proof -
  have "replicate 200 (Fin 64 :: number) = Fin 64 # replicate 199 (Fin 64)"
    by (simp add: eval_nat_numeral)
  then have "drop 1 (replicate 200 (Fin 64) @ [Fin 128]) = replicate 199 (Fin 64) @ [Fin (128::rat)]"
    by simp
  with foldl_constant [of 199 0] show ?thesis by (simp add: simpleMovingAverage_def)
qed

lemma trends: "trendAt (map close_price rising_candles) 200 = Some True"
  "trendAt (map close_price rising_candles) 199 = Some False"
  unfolding closes trendAt_def TREND_SMA_PERIOD_def
  using sma0 sma1 fl_le_representable [of 127 "12864 / 200"]
  by (auto simp: nth_append intro: number_le_lt_trans)

definition sample_plan :: TargetExposureDecision where
  "sample_plan = planTargetExposure (\<lambda>x _. x * x) (\<lambda>_. Fin 1)
     \<lparr>te_candles = rising_candles, te_positionQuantity = Fin 10, te_cash = Fin 0,
      te_feeBps = Fin 10, te_slippageBps = Fin 5\<rparr>"

lemma rising_length: "length rising_candles = 201"
  by (simp add: rising_candles_def)

lemma rising_last: "rising_candles ! 200 = day_candle 200 128" "last rising_candles = day_candle 200 128"
  by (simp_all add: rising_candles_def nth_append)

lemma rising_anchor: "findAnchor rising_candles 201 = Some 200"
  using trends findAnchor.simps(2) [of rising_candles 200] by simp

lemma sample_plan: "te_side sample_plan = SigSell" "te_quantity sample_plan = Fin 5"
proof -
  have "fl (1 / 2) = Fin (1 / 2)" using fl_frac [of 1 1] by simp
  then show "te_side sample_plan = SigSell" "te_quantity sample_plan = Fin 5"
    using contiguous rising_length rising_anchor trends rising_last
    by (simp_all add: sample_plan_def planTargetExposure_def Let_def annualizedRealizedVolatility_def
        VOL_PERIOD_def VOL_TARGET_def day_candle_def js_max_def js_min_def minus_number_def MIN_ORDER_NOTIONAL_def)
qed

theorem planned_order_is_covered_witness:
  "executePaperOrder \<lparr>cash = Fin 0, positionQuantity = Fin 10, averagePrice = Fin 64\<rparr>
     \<lparr>clientOrderId = ''c'', decisionId = ''d'', strategyIds = [''s''], productId = ''BTC-USD'',
      side = SELL, order_type = MARKET, quantity = Fin 5, limitPrice = None\<rparr>
     (Fin 128) (Fin 1) \<lparr>feeBps = Fin 10, slippageBps = Fin 5\<rparr>
   \<notin> {err INVALID_BROKER_CONFIG, err INVALID_MARKET_PRICE, err INSUFFICIENT_CASH,
       err INSUFFICIENT_POSITION}"
proof (rule planned_order_is_covered [where pow = "\<lambda>x _. x * x" and rt = "\<lambda>_. Fin 1" and
      i = "\<lparr>te_candles = rising_candles, te_positionQuantity = Fin 10, te_cash = Fin 0,
        te_feeBps = Fin 10, te_slippageBps = Fin 5\<rparr>"], goal_cases)
  case 18
  obtain s where s: "fl (5 / 10000) = Fin s" "0 \<le> s" "s \<le> 1"
    by (rule fl_Fin_le [OF representable_1, of "5 / 10000"]) simp_all
  obtain v where v: "fl (1 + - 1 * s) = Fin v" "0 \<le> v" "v \<le> 1"
    by (rule fl_Fin_le [OF representable_1, of "1 + - 1 * s"]) (use s in simp_all)
  obtain r where "fl (128 * v) = Fin r" "0 \<le> r" "r \<le> 128"
    by (rule fl_Fin_le [where b = 128 and a = "128 * v"]) (use v in simp_all)
  then show ?case
    using s v fl_FinD [OF s(1)] by (simp add: executionPrice_def direction_def fl_representable)
qed (use sample_plan rising_last in \<open>simp_all add: validConfig_def sample_plan_def day_candle_def\<close>)

end
