(* ===== verification/PlainMachine.thy ===== *)
theory PlainMachine
  imports Statechart
begin

text \<open>
  Machines whose tables have no eventless transition and no entry action: an event takes the
  first enabled row of the active state, else of the enclosing one, or is ignored.
\<close>

definition row_effect :: "'st \<Rightarrow> 'cx \<Rightarrow> 'ev \<Rightarrow> ('st, 'ev, 'cx) transition \<Rightarrow> ('st, 'cx) snapshot" where
  "row_effect st c e t =
     (case target_of t of None \<Rightarrow> st | Some st' \<Rightarrow> st', foldl (\<lambda>c a. a c e) c (actions_of t))"

locale flat_machine =
  fixes M :: "('st, 'ev, 'cx) machine"
  assumes no_always: "m_always M st = []"
    and no_entry: "m_entry M st = []"

sublocale flat_machine \<subseteq> shallow_machine
  by unfold_locales (simp add: eselect_def no_always)

sublocale flat_machine \<subseteq> actor: xstate_actor M "sc_start M" "sc_send M"
  by unfold_locales (rule runtime_sc)

context flat_machine
begin

lemma settle_id: "sc_settle M s = s"
  by (simp add: sc_settle_def eselect_def no_always)

lemma boot: "sc_start M c = (m_initial M, c)"
  by (simp add: sc_start_def settle_id enter_def no_entry)

text \<open>A fact about one event: it is ignored, or the first enabled row is taken.\<close>

lemma send_rule:
  assumes skip: "P (st, c)"
    and row: "\<And>t. Some t = find (\<lambda>t. guard_of t c e) (m_on M st e @ m_outer M st e) \<Longrightarrow>
      P (row_effect st c e t)"
  shows "P (sc_send M (st, c) e)"
proof (cases "find (\<lambda>t. guard_of t c e) (m_on M st e @ m_outer M st e)")
  case None
  with skip show ?thesis by (simp add: sc_send_def select_def settle_id)
next
  case (Some t)
  with row [of t] skip show ?thesis
    by (simp add: row_effect_def sc_send_def select_def settle_id microstep_def
        enter_def no_entry Let_def split: option.splits)
qed

lemma send_eval:
  "sc_send M (st, c) e =
     (if m_final M st then (st, c)
      else case find (\<lambda>t. guard_of t c e) (m_on M st e @ m_outer M st e) of
             None \<Rightarrow> (st, c) | Some t \<Rightarrow> row_effect st c e t)"
  by (simp add: sc_send_pair settle_id row_effect_def enter_def no_entry split: option.splits)

end

lemma pick_rowE:
  assumes "Some t = (if g then x else y)"
  obtains (enabled) g "Some t = x" | (disabled) "\<not> g" "Some t = y"
  using assms by (auto split: if_splits)

text \<open>
  What is recorded of a run beside its snapshot: every context with which a state is
  entered.
\<close>

definition log_entry :: "('st \<Rightarrow> bool) \<Rightarrow> (('st, 'cx) snapshot \<Rightarrow> 'ev \<Rightarrow> ('st, 'cx) snapshot)
    \<Rightarrow> ('st, 'cx) snapshot \<times> 'cx list \<Rightarrow> 'ev \<Rightarrow> ('st, 'cx) snapshot \<times> 'cx list" where
  "log_entry S send w e =
     (let s' = send (fst w) e
      in (s', if S (fst s') \<and> \<not> S (fst (fst w)) then snd w @ [snd s'] else snd w))"

abbreviation entries :: "('st \<Rightarrow> bool) \<Rightarrow> (('st, 'cx) snapshot \<Rightarrow> 'ev \<Rightarrow> ('st, 'cx) snapshot)
    \<Rightarrow> ('st, 'cx) snapshot \<Rightarrow> 'ev list \<Rightarrow> 'cx list" where
  "entries S send s es \<equiv> snd (foldl (log_entry S send) (s, []) es)"

lemma log_entry_parts:
  "fst (log_entry S send w e) = send (fst w) e"
  "snd (log_entry S send w e) =
     (if S (fst (send (fst w) e)) \<and> \<not> S (fst (fst w)) then snd w @ [snd (send (fst w) e)]
      else snd w)"
  by (simp_all add: log_entry_def Let_def)

lemma log_entry_snapshot: "fst (foldl (log_entry S send) w es) = play send (fst w) es"
  by (induction es arbitrary: w) (simp_all add: log_entry_parts)

lemma log_entry_none:
  assumes "\<And>es'. \<not> S (fst (play send (fst w) es'))"
  shows "snd (foldl (log_entry S send) w es) = snd w"
proof (induction es rule: rev_induct)
  case (snoc e es)
  then show ?case
    using assms [of "es @ [e]"] by (simp add: log_entry_parts log_entry_snapshot)
qed simp

text \<open>How many events of a run satisfy a condition on the snapshot that receives them.\<close>

primrec count_steps :: "('s \<Rightarrow> 'ev \<Rightarrow> 's) \<Rightarrow> ('s \<Rightarrow> 'ev \<Rightarrow> bool) \<Rightarrow> 's \<Rightarrow> 'ev list \<Rightarrow> nat" where
  "count_steps send Q s [] = 0"
| "count_steps send Q s (e # es) = of_bool (Q s e) + count_steps send Q (send s e) es"

abbreviation changes :: "('s \<Rightarrow> 'ev \<Rightarrow> 's) \<Rightarrow> 's \<Rightarrow> 'ev list \<Rightarrow> nat" where
  "changes send \<equiv> count_steps send (\<lambda>s e. send s e \<noteq> s)"

text \<open>
  A rank that every change decreases, but for the changes of a kind that restart the work,
  bounds the changes.
\<close>

lemma changes_bounded:
  assumes "I s"
    and kept: "\<And>s e. I s \<Longrightarrow> I (send s e)"
    and le: "\<And>s. I s \<Longrightarrow> rank s \<le> B"
    and less: "\<And>s e. I s \<Longrightarrow> send s e \<noteq> s \<Longrightarrow> \<not> Q s e \<Longrightarrow> rank (send s e) < rank s"
    and restart: "\<And>s e. I s \<Longrightarrow> send s e \<noteq> s \<Longrightarrow> 0 < rank s"
  shows "changes send s es \<le> rank s + count_steps send Q s es * B"
  using assms(1)
proof (induction es arbitrary: s)
  case (Cons e es)
  have IH: "changes send (send s e) es \<le> rank (send s e) + count_steps send Q (send s e) es * B"
    using Cons kept by blast
  show ?case
  proof (cases "send s e = s")
    case True
    with IH show ?thesis by (simp add: algebra_simps)
  next
    case False
    then show ?thesis
      using IH le [OF kept [OF Cons.prems, of e]] less [OF Cons.prems False]
        restart [OF Cons.prems False]
      by (cases "Q s e") (auto simp: algebra_simps)
  qed
qed simp

text \<open>An invariant that may look back at the events already received.\<close>

lemma play_trace:
  assumes "J [] s" "\<And>es e. J es (play send s es) \<Longrightarrow> J (es @ [e]) (send (play send s es) e)"
  shows "J es (play send s es)"
  using assms by (induction es rule: rev_induct) simp_all

text \<open>A state a run is in and did not start in was entered by one of its events.\<close>

lemma play_entered:
  assumes "\<not> X (fst s)" "X (fst (play send s es))"
  obtains es1 e es2 where "es = es1 @ e # es2" "\<not> X (fst (play send s es1))"
    "X (fst (send (play send s es1) e))"
  using assms
proof (induction es arbitrary: thesis rule: rev_induct)
  case (snoc e es)
  show ?case
  proof (cases "X (fst (play send s es))")
    case True
    from snoc.IH [OF _ snoc.prems(2) True] snoc.prems(1) show ?thesis
      by (metis append.assoc append_Cons)
  next
    case False
    then show ?thesis
      using snoc.prems(1) [of es e "[]"] snoc.prems(3) by simp
  qed
qed simp

end
