(* ===== verification/LiveAccountControl.thy ===== *)
theory LiveAccountControl
  imports Workflow PlainMachine
begin

text \<open>
  The kill switch, \<^verbatim>\<open>models/live-account-control.machine.ts\<close> over
  \<^verbatim>\<open>models/live-account-control.types.ts\<close>: clear the open orders, reconcile the account,
  sell what is available, verify that the account is flat.
\<close>

subsection \<open>Context and events\<close>

text \<open>
  \<open>LiveAccountControlRetryLimits\<close> and \<open>LiveAccountControlAttempts\<close> have the same fields; an
  attempt count starts at zero and is only incremented, so it is a natural number.
\<close>

record 'n controlCounts =
  cancellation :: 'n
  reconciliation :: 'n
  flatten :: 'n
  verification :: 'n

type_synonym LiveAccountControlRetryLimits = "number controlCounts"
type_synonym LiveAccountControlAttempts = "nat controlCounts"

record LiveAccountControlContext =
  productId :: "string option"
  flattenClientOrderPrefix :: "string option"
  permissions :: controlPermissions
  snapshotId :: "string option"
  totalBaseQuantity :: "number option"
  availableBaseQuantity :: "number option"
  dustQuantity :: "number option"
  openOrderCount :: "number option"
  flattenQuantity :: "number option"
  flattenOutcomeUnknown :: bool
  lastError :: "workflowError option"
  retryLimits :: LiveAccountControlRetryLimits
  attempts :: LiveAccountControlAttempts

text \<open>\<open>ACCOUNT_RECONCILED\<close>: snapshot, total, available, dust, open orders.\<close>

datatype LiveAccountControlEvent =
  KILL_REQUESTED string string controlPermissions
| ORDERS_CLEARED
| ACCOUNT_RECONCILED string number number number number
| FLATTEN_CONFIRMED
| FLATTEN_OUTCOME_UNKNOWN
| FLATTEN_REJECTED workflowError
| OPERATION_FAILED workflowError
| RETRY_TIMER_ELAPSED

type_synonym guard = "LiveAccountControlContext \<Rightarrow> LiveAccountControlEvent \<Rightarrow> bool"
type_synonym action =
  "LiveAccountControlContext \<Rightarrow> LiveAccountControlEvent \<Rightarrow> LiveAccountControlContext"

definition DEFAULT_RETRY_LIMITS :: LiveAccountControlRetryLimits where
  "DEFAULT_RETRY_LIMITS =
     \<lparr>cancellation = Fin 3, reconciliation = Fin 4, flatten = Fin 2, verification = Fin 4\<rparr>"

definition emptyAttempts :: LiveAccountControlAttempts where
  "emptyAttempts = \<lparr>cancellation = 0, reconciliation = 0, flatten = 0, verification = 0\<rparr>"

definition reconciliationFailure :: workflowError where
  "reconciliationFailure = mkError PhReconciliation ReconciliationFailure True"

definition invalidAccountFailure :: workflowError where
  "invalidAccountFailure = mkError PhReconciliation InvalidResponse False"

definition flattenFailure :: workflowError where
  "flattenFailure = mkError PhExecution OrderRejectedCode False"

definition validAccountEvent :: "LiveAccountControlEvent \<Rightarrow> bool" where
  "validAccountEvent e \<longleftrightarrow>
     (case e of
        ACCOUNT_RECONCILED i tot available dust orders \<Rightarrow>
          non_blank i \<and> isFinite tot \<and> Fin 0 \<le> tot \<and> isFinite available \<and>
          Fin 0 \<le> available \<and> isFinite dust \<and> Fin 0 < dust \<and> isSafeInteger orders \<and>
          Fin 0 \<le> orders \<and> available \<le> tot + dust
      | _ \<Rightarrow> False)"

definition account_fields :: action where
  "account_fields c e =
     (case e of
        ACCOUNT_RECONCILED i tot available dust orders \<Rightarrow>
          c\<lparr>snapshotId := Some i, totalBaseQuantity := Some tot,
            availableBaseQuantity := Some available, dustQuantity := Some dust,
            openOrderCount := Some orders\<rparr>
      | _ \<Rightarrow> c)"

subsection \<open>Guards\<close>

definition canStartKill :: guard where
  "canStartKill c e =
     (case e of
        KILL_REQUESTED p prefix ps \<Rightarrow> canControl ps \<and> non_blank p \<and> non_blank prefix
      | _ \<Rightarrow> False)"

definition accountIsInvalid :: guard where
  "accountIsInvalid c e =
     (case e of ACCOUNT_RECONCILED _ _ _ _ _ \<Rightarrow> \<not> validAccountEvent e | _ \<Rightarrow> False)"

definition accountHasOpenOrders :: guard where
  "accountHasOpenOrders c e \<longleftrightarrow> validAccountEvent e \<and>
     (case e of ACCOUNT_RECONCILED _ _ _ _ orders \<Rightarrow> Fin 0 < orders | _ \<Rightarrow> False)"

definition accountIsFlat :: guard where
  "accountIsFlat c e \<longleftrightarrow> validAccountEvent e \<and>
     (case e of
        ACCOUNT_RECONCILED _ tot _ dust orders \<Rightarrow> num_eq orders (Fin 0) \<and> tot \<le> dust
      | _ \<Rightarrow> False)"

definition accountCanBeFlattened :: guard where
  "accountCanBeFlattened c e \<longleftrightarrow> validAccountEvent e \<and>
     (case e of
        ACCOUNT_RECONCILED _ tot available dust orders \<Rightarrow>
          num_eq orders (Fin 0) \<and> dust < tot \<and> dust < available \<and> tot - available \<le> dust
      | _ \<Rightarrow> False) \<and>
     below (flatten (attempts c)) (flatten (retryLimits c)) \<and> \<not> flattenOutcomeUnknown c"

definition accountHasHeldQuantity :: guard where
  "accountHasHeldQuantity c e \<longleftrightarrow> validAccountEvent e \<and>
     (case e of
        ACCOUNT_RECONCILED _ tot available dust orders \<Rightarrow>
          num_eq orders (Fin 0) \<and> dust < tot \<and> (available \<le> dust \<or> dust < tot - available)
      | _ \<Rightarrow> False)"

definition canRetryHeldReconciliation :: guard where
  "canRetryHeldReconciliation c e \<longleftrightarrow> accountHasHeldQuantity c e \<and>
     below (reconciliation (attempts c)) (reconciliation (retryLimits c))"

definition canRetryHeldVerification :: guard where
  "canRetryHeldVerification c e \<longleftrightarrow> accountHasHeldQuantity c e \<and>
     below (verification (attempts c)) (verification (retryLimits c))"

definition canRetryCancellationFailure :: guard where
  "canRetryCancellationFailure c e =
     (case e of
        OPERATION_FAILED x \<Rightarrow>
          phase x = PhCancellation \<and> retryable x \<and>
          below (cancellation (attempts c)) (cancellation (retryLimits c))
      | _ \<Rightarrow> False)"

definition canRetryReconciliationFailure :: guard where
  "canRetryReconciliationFailure c e =
     (case e of
        OPERATION_FAILED x \<Rightarrow>
          phase x = PhReconciliation \<and> retryable x \<and>
          below (reconciliation (attempts c)) (reconciliation (retryLimits c))
      | _ \<Rightarrow> False)"

definition canRetryVerificationFailure :: guard where
  "canRetryVerificationFailure c e =
     (case e of
        OPERATION_FAILED x \<Rightarrow>
          phase x = PhReconciliation \<and> retryable x \<and>
          below (verification (attempts c)) (verification (retryLimits c))
      | _ \<Rightarrow> False)"

definition canRetryFlattenRejection :: guard where
  "canRetryFlattenRejection c e =
     (case e of
        FLATTEN_REJECTED x \<Rightarrow>
          retryable x \<and> below (flatten (attempts c)) (flatten (retryLimits c))
      | _ \<Rightarrow> False)"

subsection \<open>Actions\<close>

definition recordKillRequest :: action where
  "recordKillRequest c e =
     (case e of
        KILL_REQUESTED p prefix ps \<Rightarrow>
          c\<lparr>productId := Some p, flattenClientOrderPrefix := Some prefix, permissions := ps,
            lastError := None, attempts := emptyAttempts\<rparr>
      | _ \<Rightarrow> c)"

definition recordKillDenied :: action where
  "recordKillDenied c e =
     c\<lparr>lastError := Some
       (case e of
          KILL_REQUESTED _ _ ps \<Rightarrow>
            if \<not> canControl ps then mkError PhCancellation ControlPermissionRequired False
            else mkError PhCancellation InvalidResponse False
        | _ \<Rightarrow> mkError PhCancellation InvalidResponse False)\<rparr>"

definition recordAccount :: action where
  "recordAccount c e = (if validAccountEvent e then account_fields c e else c)"

definition recordInvalidAccount :: action where
  "recordInvalidAccount c e = c\<lparr>lastError := Some invalidAccountFailure\<rparr>"

definition prepareFlatten :: action where
  "prepareFlatten c e =
     (if validAccountEvent e
      then (account_fields c e)
        \<lparr>flattenQuantity :=
           (case e of ACCOUNT_RECONCILED _ _ available _ _ \<Rightarrow> Some available
            | _ \<Rightarrow> flattenQuantity c),
         attempts := (attempts c)\<lparr>flatten := flatten (attempts c) + 1\<rparr>,
         flattenOutcomeUnknown := False\<rparr>
      else c)"

definition recordHeldReconciliation :: action where
  "recordHeldReconciliation c e =
     (if validAccountEvent e
      then (account_fields c e)
        \<lparr>lastError := Some reconciliationFailure,
         attempts := (attempts c)\<lparr>reconciliation := reconciliation (attempts c) + 1\<rparr>\<rparr>
      else c)"

definition recordHeldVerification :: action where
  "recordHeldVerification c e =
     (if validAccountEvent e
      then (account_fields c e)
        \<lparr>lastError := Some reconciliationFailure,
         attempts := (attempts c)\<lparr>verification := verification (attempts c) + 1\<rparr>\<rparr>
      else c)"

definition recordHeldExhausted :: action where
  "recordHeldExhausted c e =
     (recordAccount c e)\<lparr>lastError := Some (reconciliationFailure\<lparr>retryable := False\<rparr>)\<rparr>"

definition recordUnflattenableAccount :: action where
  "recordUnflattenableAccount c e =
     (recordAccount c e)
       \<lparr>lastError := Some
         (if flattenOutcomeUnknown c then mkError PhExecution OrderOutcomeUnknownCode False
          else flattenFailure)\<rparr>"

definition markFlattenConfirmed :: action where
  "markFlattenConfirmed c e = c\<lparr>flattenOutcomeUnknown := False\<rparr>"

definition markFlattenUnknown :: action where
  "markFlattenUnknown c e = c\<lparr>flattenOutcomeUnknown := True\<rparr>"

definition recordOperationError :: action where
  "recordOperationError c e =
     c\<lparr>lastError := Some
       (case e of OPERATION_FAILED x \<Rightarrow> x | FLATTEN_REJECTED x \<Rightarrow> x
        | _ \<Rightarrow> invalidAccountFailure)\<rparr>"

definition incrementCancellationAttempt :: action where
  "incrementCancellationAttempt c e =
     c\<lparr>attempts := (attempts c)\<lparr>cancellation := cancellation (attempts c) + 1\<rparr>\<rparr>"

definition incrementReconciliationAttempt :: action where
  "incrementReconciliationAttempt c e =
     c\<lparr>attempts := (attempts c)\<lparr>reconciliation := reconciliation (attempts c) + 1\<rparr>\<rparr>"

definition incrementVerificationAttempt :: action where
  "incrementVerificationAttempt c e =
     c\<lparr>attempts := (attempts c)\<lparr>verification := verification (attempts c) + 1\<rparr>\<rparr>"

subsection \<open>The machine\<close>

datatype controlState =
  Idle | CancellingOrders | RetryingCancellation | ReconcilingPosition | RetryingReconciliation
| FlatteningPosition | VerifyingFlat | RetryingVerification | Completed | Failed

type_synonym rows =
  "LiveAccountControlEvent \<Rightarrow>
     (controlState, LiveAccountControlEvent, LiveAccountControlContext) transition list"

definition idle_rows :: rows where
  "idle_rows e =
     (case e of
        KILL_REQUESTED _ _ _ \<Rightarrow>
          [goto_if canStartKill CancellingOrders [recordKillRequest],
           goto Failed [recordKillDenied]]
      | _ \<Rightarrow> [])"

definition cancellingOrders_rows :: rows where
  "cancellingOrders_rows e =
     (case e of
        ORDERS_CLEARED \<Rightarrow> [goto ReconcilingPosition []]
      | OPERATION_FAILED _ \<Rightarrow>
          [goto_if canRetryCancellationFailure RetryingCancellation
             [recordOperationError, incrementCancellationAttempt],
           goto Failed [recordOperationError]]
      | _ \<Rightarrow> [])"

definition retryingCancellation_rows :: rows where
  "retryingCancellation_rows e =
     (case e of RETRY_TIMER_ELAPSED \<Rightarrow> [goto CancellingOrders []] | _ \<Rightarrow> [])"

definition reconcilingPosition_rows :: rows where
  "reconcilingPosition_rows e =
     (case e of
        ACCOUNT_RECONCILED _ _ _ _ _ \<Rightarrow>
          [goto_if accountIsInvalid Failed [recordInvalidAccount],
           goto_if accountHasOpenOrders CancellingOrders [recordAccount],
           goto_if accountIsFlat Completed [recordAccount],
           goto_if accountCanBeFlattened FlatteningPosition [prepareFlatten],
           goto_if canRetryHeldReconciliation RetryingReconciliation [recordHeldReconciliation],
           goto_if accountHasHeldQuantity Failed [recordHeldExhausted],
           goto Failed [recordUnflattenableAccount]]
      | OPERATION_FAILED _ \<Rightarrow>
          [goto_if canRetryReconciliationFailure RetryingReconciliation
             [recordOperationError, incrementReconciliationAttempt],
           goto Failed [recordOperationError]]
      | _ \<Rightarrow> [])"

definition retryingReconciliation_rows :: rows where
  "retryingReconciliation_rows e =
     (case e of RETRY_TIMER_ELAPSED \<Rightarrow> [goto ReconcilingPosition []] | _ \<Rightarrow> [])"

definition flatteningPosition_rows :: rows where
  "flatteningPosition_rows e =
     (case e of
        FLATTEN_CONFIRMED \<Rightarrow> [goto VerifyingFlat [markFlattenConfirmed]]
      | FLATTEN_OUTCOME_UNKNOWN \<Rightarrow> [goto VerifyingFlat [markFlattenUnknown]]
      | FLATTEN_REJECTED _ \<Rightarrow>
          [goto_if canRetryFlattenRejection ReconcilingPosition [recordOperationError],
           goto Failed [recordOperationError]]
      | _ \<Rightarrow> [])"

definition verifyingFlat_rows :: rows where
  "verifyingFlat_rows e =
     (case e of
        ACCOUNT_RECONCILED _ _ _ _ _ \<Rightarrow>
          [goto_if accountIsInvalid Failed [recordInvalidAccount],
           goto_if accountHasOpenOrders CancellingOrders [recordAccount],
           goto_if accountIsFlat Completed [recordAccount],
           goto_if accountCanBeFlattened FlatteningPosition [prepareFlatten],
           goto_if canRetryHeldVerification RetryingVerification [recordHeldVerification],
           goto_if accountHasHeldQuantity Failed [recordHeldExhausted],
           goto Failed [recordUnflattenableAccount]]
      | OPERATION_FAILED _ \<Rightarrow>
          [goto_if canRetryVerificationFailure RetryingVerification
             [recordOperationError, incrementVerificationAttempt],
           goto Failed [recordOperationError]]
      | _ \<Rightarrow> [])"

definition retryingVerification_rows :: rows where
  "retryingVerification_rows e =
     (case e of RETRY_TIMER_ELAPSED \<Rightarrow> [goto VerifyingFlat []] | _ \<Rightarrow> [])"

primrec control_on :: "controlState \<Rightarrow> rows" where
  "control_on Idle = idle_rows"
| "control_on CancellingOrders = cancellingOrders_rows"
| "control_on RetryingCancellation = retryingCancellation_rows"
| "control_on ReconcilingPosition = reconcilingPosition_rows"
| "control_on RetryingReconciliation = retryingReconciliation_rows"
| "control_on FlatteningPosition = flatteningPosition_rows"
| "control_on VerifyingFlat = verifyingFlat_rows"
| "control_on RetryingVerification = retryingVerification_rows"
| "control_on Completed = (\<lambda>_. [])"
| "control_on Failed = (\<lambda>_. [])"

definition liveAccountControlMachine ::
    "(controlState, LiveAccountControlEvent, LiveAccountControlContext) machine" where
  "liveAccountControlMachine =
     \<lparr>m_initial = Idle, m_on = control_on, m_outer = (\<lambda>_ _. []), m_always = (\<lambda>_. []),
      m_entry = (\<lambda>_. []), m_final = (\<lambda>st. st \<in> {Completed, Failed})\<rparr>"

text \<open>\<open>input.retryLimits\<close> overrides the default limits field by field.\<close>

definition control_limits :: "number option controlCounts option \<Rightarrow> LiveAccountControlRetryLimits" where
  "control_limits i =
     (case i of
        None \<Rightarrow> DEFAULT_RETRY_LIMITS
      | Some l \<Rightarrow>
          (let pick = (\<lambda>f g. case f l of None \<Rightarrow> g DEFAULT_RETRY_LIMITS | Some x \<Rightarrow> x)
           in \<lparr>cancellation = pick cancellation cancellation,
               reconciliation = pick reconciliation reconciliation,
               flatten = pick flatten flatten,
               verification = pick verification verification\<rparr>))"

definition control_context :: "LiveAccountControlRetryLimits \<Rightarrow> LiveAccountControlContext" where
  "control_context limits =
     \<lparr>productId = None, flattenClientOrderPrefix = None,
      permissions = \<lparr>canControl = False, canTrade = False\<rparr>, snapshotId = None,
      totalBaseQuantity = None, availableBaseQuantity = None, dustQuantity = None,
      openOrderCount = None, flattenQuantity = None, flattenOutcomeUnknown = False,
      lastError = None, retryLimits = limits, attempts = emptyAttempts\<rparr>"

lemma control_machine_simps [simp]:
  "m_initial liveAccountControlMachine = Idle" "m_on liveAccountControlMachine = control_on"
  "m_outer liveAccountControlMachine = (\<lambda>_ _. [])"
  "m_always liveAccountControlMachine = (\<lambda>_. [])"
  "m_entry liveAccountControlMachine = (\<lambda>_. [])"
  "m_final liveAccountControlMachine st \<longleftrightarrow> st \<in> {Completed, Failed}"
  by (simp_all add: liveAccountControlMachine_def)

lemmas control_row_defs =
  idle_rows_def cancellingOrders_rows_def retryingCancellation_rows_def
  reconcilingPosition_rows_def retryingReconciliation_rows_def flatteningPosition_rows_def
  verifyingFlat_rows_def retryingVerification_rows_def

lemmas control_actions =
  recordKillRequest_def recordKillDenied_def recordAccount_def recordInvalidAccount_def
  prepareFlatten_def recordHeldReconciliation_def recordHeldVerification_def
  recordHeldExhausted_def recordUnflattenableAccount_def markFlattenConfirmed_def
  markFlattenUnknown_def recordOperationError_def incrementCancellationAttempt_def
  incrementReconciliationAttempt_def incrementVerificationAttempt_def account_fields_def

lemmas control_guards =
  canStartKill_def accountIsInvalid_def accountHasOpenOrders_def accountIsFlat_def
  accountCanBeFlattened_def accountHasHeldQuantity_def canRetryHeldReconciliation_def
  canRetryHeldVerification_def canRetryCancellationFailure_def
  canRetryReconciliationFailure_def canRetryVerificationFailure_def canRetryFlattenRejection_def

interpretation control: flat_machine liveAccountControlMachine
  by unfold_locales simp_all

end
