(* ===== verification/LiveAccountProps.thy ===== *)
theory LiveAccountProps
  imports LiveAccountControl
begin

text \<open>
  The kill switch: it completes only on a flat account, sells what a fresh account lets it
  sell, never after an unknown outcome, and is bounded by its budgets.
\<close>

type_synonym control_snapshot = "(controlState, LiveAccountControlContext) snapshot"

abbreviation control_send :: "control_snapshot \<Rightarrow> LiveAccountControlEvent \<Rightarrow> control_snapshot" where
  "control_send \<equiv> sc_send liveAccountControlMachine"

lemma control_runtime:
  assumes "xstate_runtime liveAccountControlMachine init send"
  shows "init = sc_start liveAccountControlMachine" "send = control_send"
  using assms by (simp_all add: control.runtime_iff)

lemmas control_rows =
  control_machine_simps control_on.simps control_row_defs LiveAccountControlEvent.case
  append_Nil2 find.simps if_True transition.sel option.inject option.distinct

lemmas control_effects =
  row_effect_def transition.sel option.case foldl.simps control_actions

subsection \<open>Completed means flat\<close>

text \<open>The last reconciled account, as the context holds it.\<close>

definition account_is :: "(number \<Rightarrow> number \<Rightarrow> number \<Rightarrow> number \<Rightarrow> bool)
    \<Rightarrow> LiveAccountControlContext \<Rightarrow> bool" where
  "account_is P c \<longleftrightarrow>
     (\<exists>i tot available dust orders.
        validAccountEvent (ACCOUNT_RECONCILED i tot available dust orders) \<and>
        snapshotId c = Some i \<and> totalBaseQuantity c = Some tot \<and>
        availableBaseQuantity c = Some available \<and> dustQuantity c = Some dust \<and>
        openOrderCount c = Some orders \<and> P tot available dust orders)"

definition flat_account :: "LiveAccountControlContext \<Rightarrow> bool" where
  "flat_account =
     account_is (\<lambda>tot available dust orders. num_eq orders (Fin 0) \<and> tot \<le> dust)"

definition sellable_account :: "LiveAccountControlContext \<Rightarrow> bool" where
  "sellable_account c \<longleftrightarrow>
     account_is (\<lambda>tot available dust orders.
        num_eq orders (Fin 0) \<and> dust < tot \<and> dust < available \<and> tot - available \<le> dust \<and>
        flattenQuantity c = Some available) c"

definition control_ok :: "control_snapshot \<Rightarrow> bool" where
  "control_ok s \<longleftrightarrow>
     (case s of (st, c) \<Rightarrow>
       (st = Completed \<longrightarrow> flat_account c) \<and>
       (st = FlatteningPosition \<longrightarrow> sellable_account c \<and> \<not> flattenOutcomeUnknown c) \<and>
       (st = Failed \<longrightarrow> lastError c \<noteq> None) \<and>
       (st \<notin> {Idle, Failed} \<longrightarrow> canControl (permissions c) \<and> productId c \<noteq> None))"

lemma control_ok_send: "control_ok (st, c) \<Longrightarrow> control_ok (control_send (st, c) e)"
  by (rule control.send_rule, assumption, (cases st; cases e),
      simp_all only: control_rows, (safe elim!: pick_rowE),
      simp_all add: control_effects control_ok_def control_guards flat_account_def
        sellable_account_def account_is_def)

subsection \<open>What is sold\<close>

abbreviation flattening :: "controlState \<Rightarrow> bool" where
  "flattening st \<equiv> st = FlatteningPosition"

definition control_log :: "LiveAccountControlRetryLimits
    \<Rightarrow> control_snapshot \<times> LiveAccountControlContext list \<Rightarrow> bool" where
  "control_log L w \<longleftrightarrow>
     control_ok (fst w) \<and> retryLimits (snd (fst w)) = L \<and>
     length (snd w) = flatten (attempts (snd (fst w))) \<and> list_all sellable_account (snd w) \<and>
     (snd w \<noteq> [] \<longrightarrow> below (length (snd w) - 1) (flatten L)) \<and>
     (fst (fst w) = Idle \<longrightarrow> snd w = [])"

lemma control_counts:
  "fst (control_send (st, c) e) = FlatteningPosition \<and> st \<noteq> FlatteningPosition \<longrightarrow>
     below (flatten (attempts c)) (flatten (retryLimits c)) \<and>
     flatten (attempts (snd (control_send (st, c) e))) = flatten (attempts c) + 1"
  by (rule control.send_rule, simp, (cases st; cases e),
      simp_all only: control_rows, (safe elim!: pick_rowE),
      simp_all add: control_effects control_guards)

lemma control_frame:
  "retryLimits (snd (control_send (st, c) e)) = retryLimits c \<and>
   (\<not> (fst (control_send (st, c) e) = FlatteningPosition \<and> st \<noteq> FlatteningPosition) \<longrightarrow>
     st \<noteq> Idle \<longrightarrow> flatten (attempts (snd (control_send (st, c) e))) = flatten (attempts c)) \<and>
   (st = Idle \<longrightarrow> flatten (attempts c) = 0 \<longrightarrow>
     flatten (attempts (snd (control_send (st, c) e))) = 0 \<and>
     fst (control_send (st, c) e) \<noteq> FlatteningPosition) \<and>
   (fst (control_send (st, c) e) = Idle \<longrightarrow> st = Idle)"
  by (rule control.send_rule, simp, (cases st; cases e),
      simp_all only: control_rows, (safe elim!: pick_rowE),
      simp_all add: control_effects emptyAttempts_def split: if_splits)

lemma control_log_step:
  assumes "control_log L w"
  shows "control_log L (log_entry flattening control_send w e)"
proof -
  obtain st c xs where w: "w = ((st, c), xs)"
    by (metis prod.exhaust)
  have ok: "control_ok (control_send (st, c) e)"
    using assms by (auto simp: control_log_def w intro: control_ok_send)
  then have "fst (control_send (st, c) e) = FlatteningPosition \<Longrightarrow>
      sellable_account (snd (control_send (st, c) e))"
    by (simp add: control_ok_def case_prod_unfold)
  then show ?thesis
    using assms ok control_counts [of st c e] control_frame [of st c e]
    by (auto simp: control_log_def log_entry_parts w)
qed

text \<open>An unknown outcome closes the way back to a sale.\<close>

definition outcome_unknown :: "control_snapshot \<Rightarrow> bool" where
  "outcome_unknown s \<longleftrightarrow> flattenOutcomeUnknown (snd s) \<and> fst s \<noteq> FlatteningPosition"

lemma outcome_unknown_send:
  "outcome_unknown (st, c) \<Longrightarrow> outcome_unknown (control_send (st, c) e)"
  by (rule control.send_rule, assumption, (cases st; cases e),
      simp_all only: control_rows, (safe elim!: pick_rowE),
      simp_all add: control_effects outcome_unknown_def control_guards)

subsection \<open>The budgets bound the work\<close>

definition natural_counts :: "nat controlCounts \<Rightarrow> LiveAccountControlRetryLimits" where
  "natural_counts L =
     \<lparr>cancellation = Fin (of_nat (cancellation L)), reconciliation = Fin (of_nat (reconciliation L)),
      flatten = Fin (of_nat (flatten L)), verification = Fin (of_nat (verification L))\<rparr>"

definition work_left :: "nat controlCounts \<Rightarrow> LiveAccountControlContext \<Rightarrow> nat" where
  "work_left L c =
     2 * (cancellation L - cancellation (attempts c)) +
     2 * (reconciliation L - reconciliation (attempts c)) +
     4 * (flatten L - flatten (attempts c)) + 2 * (verification L - verification (attempts c))"

definition control_bound :: "nat controlCounts \<Rightarrow> nat" where
  "control_bound L =
     2 * cancellation L + 2 * reconciliation L + 4 * flatten L + 2 * verification L + 6"

fun control_rank :: "nat controlCounts \<Rightarrow> control_snapshot \<Rightarrow> nat" where
  "control_rank L (st, c) =
     (case st of
        Idle \<Rightarrow> control_bound L
      | CancellingOrders \<Rightarrow> work_left L c + 5
      | RetryingCancellation \<Rightarrow> work_left L c + 6
      | ReconcilingPosition \<Rightarrow> work_left L c + 3
      | RetryingReconciliation \<Rightarrow> work_left L c + 4
      | FlatteningPosition \<Rightarrow> work_left L c + 5
      | VerifyingFlat \<Rightarrow> work_left L c + 2
      | RetryingVerification \<Rightarrow> work_left L c + 3
      | Completed \<Rightarrow> 0
      | Failed \<Rightarrow> 0)"

text \<open>An answer that reports open orders sends the machine back to their cancellation.\<close>

definition reports_open_orders :: "control_snapshot \<Rightarrow> LiveAccountControlEvent \<Rightarrow> bool" where
  "reports_open_orders s e \<longleftrightarrow> accountHasOpenOrders (snd s) e"

lemma work_left_le: "work_left L c + 6 \<le> control_bound L"
  by (simp add: work_left_def control_bound_def add_mono)

lemma control_rank_le: "control_rank L s \<le> control_bound L"
  using work_left_le [of L "snd s"] by (cases s; cases "fst s") simp_all

lemma control_rank_pos: "control_send s e \<noteq> s \<Longrightarrow> 0 < control_rank L s"
  by (cases s; cases "fst s") (auto simp: sc_send_def control_bound_def)

lemma budget_Suc: "n < k \<Longrightarrow> k - n = Suc (k - Suc n)" for n k :: nat
  by simp

lemma control_rank_send:
  "retryLimits c = natural_counts L \<Longrightarrow> \<not> reports_open_orders (st, c) e \<Longrightarrow>
   control_send (st, c) e \<noteq> (st, c) \<longrightarrow> control_rank L (control_send (st, c) e) < control_rank L (st, c)"
  by (rule control.send_rule, simp, (cases st; cases e),
      simp_all only: control_rows, (safe elim!: pick_rowE),
      simp_all add: control_effects control_guards work_left_def control_bound_def
        reports_open_orders_def natural_counts_def below_Fin emptyAttempts_def budget_Suc)

subsection \<open>Properties\<close>

lemma control_ok_start: "control_ok (sc_start liveAccountControlMachine (control_context L))"
  by (simp add: control.boot control_ok_def control_context_def)

lemma control_ok_play:
  "control_ok (play control_send (sc_start liveAccountControlMachine (control_context L)) es)"
  by (rule control.actor.play_invariant [where I = control_ok, OF control_ok_start])
     (metis control_ok_send prod.exhaust)

text \<open>Every state past the cancellation comes after a request and cleared orders.\<close>

definition control_order :: "LiveAccountControlEvent list \<Rightarrow> control_snapshot \<Rightarrow> bool" where
  "control_order es s \<longleftrightarrow>
     (fst s \<notin> {Idle, CancellingOrders, RetryingCancellation, Failed} \<longrightarrow>
       ORDERS_CLEARED \<in> set es)"

lemma control_order_send:
  "control_order es (st, c) \<Longrightarrow> control_order (es @ [e]) (control_send (st, c) e)"
  by (rule control.send_rule, simp add: control_order_def, (cases st; cases e),
      simp_all only: control_rows, (safe elim!: pick_rowE),
      simp_all add: control_effects control_order_def)

lemma control_order_play:
  "control_order es (play control_send (sc_start liveAccountControlMachine c) es)"
proof (rule play_trace [where J = control_order])
  show "control_order [] (sc_start liveAccountControlMachine c)"
    by (simp add: control.boot control_order_def)
  show "control_order (es @ [e]) (control_send (play control_send (sc_start liveAccountControlMachine c) es) e)"
    if "control_order es (play control_send (sc_start liveAccountControlMachine c) es)" for es e
    using control_order_send [of es] that by (metis prod.exhaust)
qed

text \<open>What it takes to complete.\<close>

definition completing :: "control_snapshot \<Rightarrow> LiveAccountControlEvent \<Rightarrow> control_snapshot \<Rightarrow> bool" where
  "completing s e s' \<longleftrightarrow>
     fst s \<in> {ReconcilingPosition, VerifyingFlat} \<and>
     (\<exists>i tot available dust orders.
        e = ACCOUNT_RECONCILED i tot available dust orders \<and> validAccountEvent e \<and>
        num_eq orders (Fin 0) \<and> tot \<le> dust \<and> snapshotId (snd s') = Some i \<and>
        totalBaseQuantity (snd s') = Some tot \<and> openOrderCount (snd s') = Some orders)"

lemma completing_send:
  "fst (control_send (st, c) e) = Completed \<longrightarrow> st \<noteq> Completed \<longrightarrow>
     completing (st, c) e (control_send (st, c) e)"
  by (rule control.send_rule, simp, (cases st; cases e),
      simp_all only: control_rows, (safe elim!: pick_rowE),
      simp_all add: control_effects completing_def control_guards)

text \<open>A kill completes only on a flat account: the run is cut by one reconciliation, received
  after the open orders were reported cleared, whose account is valid, has no open order
  and holds at most the dust, and the context keeps that account.\<close>

theorem kill_completed_is_flat:
  assumes "xstate_runtime liveAccountControlMachine init send"
    and "s = play send (init (control_context L)) es" "fst s = Completed"
  shows "canControl (permissions (snd s)) \<and>
    (\<exists>es1 e es2. es = es1 @ e # es2 \<and> ORDERS_CLEARED \<in> set es1 \<and>
       completing (play send (init (control_context L)) es1) e s)"
proof -
  note rt = control_runtime [OF assms(1)]
  let ?s = "sc_start liveAccountControlMachine (control_context L)"
  have s: "s = play control_send ?s es"
    using assms(2) by (simp add: rt)
  obtain es1 e es2 where es: "es = es1 @ e # es2"
    and before: "fst (play control_send ?s es1) \<noteq> Completed"
    and at: "fst (control_send (play control_send ?s es1) e) = Completed"
    by (rule play_entered [of "\<lambda>st. st = Completed" ?s control_send es])
       (use assms(3) s in \<open>auto simp: control.boot\<close>)
  have "s = control_send (play control_send ?s es1) e"
    using control.actor.play_final [of "control_send (play control_send ?s es1) e" es2] at
    by (simp add: s es)
  moreover obtain st c where p: "play control_send ?s es1 = (st, c)"
    by (metis prod.exhaust)
  ultimately have "completing (play control_send ?s es1) e s"
    using completing_send [of st c e] before at by simp
  moreover from this have "ORDERS_CLEARED \<in> set es1"
    using control_order_play [of es1 "control_context L"]
    by (auto simp: control_order_def completing_def)
  moreover have "canControl (permissions (snd s))"
    using control_ok_play [of L es] assms(3) by (simp add: s control_ok_def case_prod_unfold)
  ultimately show ?thesis
    unfolding rt using es by blast
qed

text \<open>A run of the kill switch: one sale, verified.\<close>

definition kill_events :: "LiveAccountControlEvent list" where
  "kill_events =
     [KILL_REQUESTED ''BTC-USD'' ''kill-1'' \<lparr>canControl = True, canTrade = False\<rparr>,
      ORDERS_CLEARED, ACCOUNT_RECONCILED ''a1'' (Fin 8) (Fin 8) (Fin 1) (Fin 0)]"

lemmas kill_eval =
  control.boot control.send_eval control_machine_simps control_on.simps control_row_defs
  control_effects control_guards validAccountEvent_def control_context_def
  DEFAULT_RETRY_LIMITS_def emptyAttempts_def isFinite_def isSafeInteger_def non_blank_iff js_space_def
  minus_number_def

abbreviation kill_run :: "LiveAccountControlEvent list \<Rightarrow> control_snapshot" where
  "kill_run es \<equiv>
     play control_send (sc_start liveAccountControlMachine (control_context DEFAULT_RETRY_LIMITS)) es"

theorem kill_completed_is_flat_witness:
  "ORDERS_CLEARED \<in> set (kill_events @ [FLATTEN_CONFIRMED]) \<and>
   canControl (permissions (snd (kill_run (kill_events @ [FLATTEN_CONFIRMED,
     ACCOUNT_RECONCILED ''a2'' (Fin 1) (Fin 1) (Fin 1) (Fin 0)]))))"
proof -
  let ?es = "kill_events @ [FLATTEN_CONFIRMED,
     ACCOUNT_RECONCILED ''a2'' (Fin 1) (Fin 1) (Fin 1) (Fin 0)]"
  have "fst (kill_run ?es) = Completed"
    by (simp add: kill_events_def kill_eval)
  from kill_completed_is_flat [OF control.runtime_sc refl this] show ?thesis
    by (simp add: kill_events_def)
qed

lemma control_log_start:
  "control_log L (sc_start liveAccountControlMachine (control_context L), [])"
  using control_ok_start [of L]
  by (simp add: control_log_def control.boot control_context_def emptyAttempts_def)

text \<open>The kill switch sells what a fresh account shows to be sellable: whenever it enters
  the sale the last account has no open order, more than the dust, all of it available, and
  the quantity to sell is the available one; the sales of a kill stay within the budget.\<close>

theorem kill_sales_are_covered:
  assumes "xstate_runtime liveAccountControlMachine init send"
    and "sales = entries flattening send (init (control_context L)) es"
  shows "list_all sellable_account sales \<and>
    (sales \<noteq> [] \<longrightarrow> below (length sales - 1) (flatten L))"
proof -
  note rt = control_runtime [OF assms(1)]
  have "control_log L (foldl (log_entry flattening control_send)
      (sc_start liveAccountControlMachine (control_context L), []) es)"
    using control_log_start control_log_step by (rule foldl_invariant)
  then show ?thesis
    unfolding assms(2) rt control_log_def by blast
qed

theorem kill_sales_are_covered_witness:
  "entries flattening control_send
     (sc_start liveAccountControlMachine (control_context DEFAULT_RETRY_LIMITS)) kill_events \<noteq> [] \<and>
   length (entries flattening control_send
     (sc_start liveAccountControlMachine (control_context DEFAULT_RETRY_LIMITS)) kill_events) \<le> 2"
proof -
  let ?xs = "entries flattening control_send
     (sc_start liveAccountControlMachine (control_context DEFAULT_RETRY_LIMITS)) kill_events"
  have "?xs \<noteq> []"
    by (simp add: kill_events_def log_entry_def kill_eval)
  with kill_sales_are_covered [OF control.runtime_sc refl, of DEFAULT_RETRY_LIMITS kill_events]
  have "below (length ?xs - 1) (Fin 2)"
    by (simp add: DEFAULT_RETRY_LIMITS_def)
  with \<open>?xs \<noteq> []\<close> show ?thesis
    by simp
qed

text \<open>After a sale whose outcome is unknown the kill switch never sells again, whatever is
  reported next.\<close>

theorem unknown_sale_is_not_repeated:
  assumes "xstate_runtime liveAccountControlMachine init send" and "fst s = FlatteningPosition"
  shows "fst (play send (send s FLATTEN_OUTCOME_UNKNOWN) es) \<noteq> FlatteningPosition \<and>
    entries flattening send (send s FLATTEN_OUTCOME_UNKNOWN) es = []"
proof -
  note rt = control_runtime [OF assms(1)]
  obtain c where s: "s = (FlatteningPosition, c)"
    using assms(2) by (cases s) simp
  have "outcome_unknown (control_send s FLATTEN_OUTCOME_UNKNOWN)"
    by (simp add: s control.send_eval flatteningPosition_rows_def row_effect_def
        markFlattenUnknown_def outcome_unknown_def)
  then have "outcome_unknown (play control_send (control_send s FLATTEN_OUTCOME_UNKNOWN) es')" for es'
    by (rule control.actor.play_invariant [where I = outcome_unknown])
       (metis outcome_unknown_send prod.exhaust)
  then have never: "\<not> flattening (fst (play control_send (control_send s FLATTEN_OUTCOME_UNKNOWN) es'))"
    for es'
    by (simp add: outcome_unknown_def)
  then show ?thesis
    using log_entry_none [of flattening control_send "(control_send s FLATTEN_OUTCOME_UNKNOWN, [])" es]
    by (simp add: rt)
qed

theorem unknown_sale_is_not_repeated_witness:
  "fst (kill_run (kill_events @ [FLATTEN_OUTCOME_UNKNOWN,
     ACCOUNT_RECONCILED ''a2'' (Fin 8) (Fin 8) (Fin 1) (Fin 0)])) \<noteq> FlatteningPosition"
proof -
  have "fst (kill_run kill_events) = FlatteningPosition"
    by (simp add: kill_events_def kill_eval)
  from unknown_sale_is_not_repeated [OF control.runtime_sc this,
      of "[ACCOUNT_RECONCILED ''a2'' (Fin 8) (Fin 8) (Fin 1) (Fin 0)]"] show ?thesis
    by simp
qed

text \<open>The budgets bound the kill switch: from its start, over a run in which \<open>n\<close> of the answers
  report open orders, it changes at most \<open>(1 + n) * control_bound\<close> times in all, where
  \<open>control_bound\<close> is 36 with the default limits.\<close>

theorem kill_work_is_bounded:
  assumes "xstate_runtime liveAccountControlMachine init send"
    and "s = init (control_context (natural_counts L))"
  shows "changes send s es \<le> (1 + count_steps send reports_open_orders s es) * control_bound L"
proof -
  note rt = control_runtime [OF assms(1)]
  have "changes control_send s es \<le>
      control_rank L s + count_steps control_send reports_open_orders s es * control_bound L"
  proof (rule changes_bounded [where I = "\<lambda>s. retryLimits (snd s) = natural_counts L"])
    show "retryLimits (snd s) = natural_counts L"
      by (simp add: assms(2) rt control.boot control_context_def)
    show "retryLimits (snd (control_send s e)) = natural_counts L"
      if "retryLimits (snd s) = natural_counts L" for s e
      using that control_frame [of "fst s" "snd s" e] by simp
    show "control_rank L (control_send s e) < control_rank L s"
      if "retryLimits (snd s) = natural_counts L" "control_send s e \<noteq> s"
        "\<not> reports_open_orders s e" for s e
      using that control_rank_send [of "snd s" L "fst s" e] by simp
  qed (simp_all add: control_rank_le control_rank_pos)
  with control_rank_le [of L s] show ?thesis
    by (simp add: rt)
qed

lemma no_open_orders:
  "count_steps control_send reports_open_orders s
     (kill_events @ replicate n RETRY_TIMER_ELAPSED) = 0"
proof -
  have "count_steps control_send reports_open_orders s (replicate n RETRY_TIMER_ELAPSED) = 0" for s
    by (induction n arbitrary: s)
       (simp_all add: reports_open_orders_def accountHasOpenOrders_def validAccountEvent_def)
  then show ?thesis
    by (simp add: kill_events_def reports_open_orders_def accountHasOpenOrders_def validAccountEvent_def)
qed

theorem kill_work_is_bounded_witness:
  "changes control_send (sc_start liveAccountControlMachine (control_context DEFAULT_RETRY_LIMITS))
     (kill_events @ replicate 100 RETRY_TIMER_ELAPSED) \<le> 36"
proof -
  let ?L = "\<lparr>cancellation = 3, reconciliation = 4, flatten = 2, verification = 4\<rparr>"
  have L: "natural_counts ?L = DEFAULT_RETRY_LIMITS"
    by (simp add: natural_counts_def DEFAULT_RETRY_LIMITS_def)
  show ?thesis
    using kill_work_is_bounded [OF control.runtime_sc refl, of ?L
        "kill_events @ replicate 100 RETRY_TIMER_ELAPSED"]
    by (simp only: L no_open_orders) (simp add: control_bound_def)
qed

end
