(* ===== verification/LiveSellProtection.thy ===== *)
theory LiveSellProtection
  imports Workflow PlainMachine
begin

text \<open>
  The sale of a protected position, \<^verbatim>\<open>models/live-sell-protection.machine.ts\<close> over
  \<^verbatim>\<open>models/live-sell-protection.types.ts\<close>: cancel the protections, reconcile the account, sell,
  reconcile the residual, protect it again; any doubt leads to flattening the account.
\<close>

subsection \<open>Context and events\<close>

datatype LiveSellProtectionOutcome =
  IDLE | NO_SELL_NEEDED | SOLD_FLAT | SOLD_REPROTECTED | FLATTENED_AFTER_FAILURE | FAILED

record LiveSellProtectionContext =
  productId :: "string option"
  clientOrderId :: "string option"
  requestedQuantity :: "number option"
  permissions :: controlPermissions
  snapshotId :: "string option"
  totalBaseQuantity :: "number option"
  availableBaseQuantity :: "number option"
  averageEntryPrice :: "number option"
  dustQuantity :: "number option"
  exchangeOrderId :: "string option"
  protectiveOrderId :: "string option"
  outcome :: LiveSellProtectionOutcome
  lastError :: "workflowError option"

text \<open>\<open>ACCOUNT_RECONCILED\<close>: snapshot, total, available, entry price, dust.\<close>

datatype LiveSellProtectionEvent =
  SELL_REQUESTED string string number controlPermissions
| PROTECTIONS_CLEARED
| ACCOUNT_RECONCILED string number number number number
| SELL_ACKNOWLEDGED string
| SELL_OUTCOME_UNKNOWN "string option"
| SELL_CONFIRMED string
| SELL_REJECTED workflowError
| PROTECTION_ACKNOWLEDGED string
| PROTECTION_CONFIRMED
| OPERATION_FAILED workflowError
| SAFETY_FLATTEN_SUCCEEDED
| SAFETY_FLATTEN_FAILED workflowError

type_synonym guard = "LiveSellProtectionContext \<Rightarrow> LiveSellProtectionEvent \<Rightarrow> bool"
type_synonym action =
  "LiveSellProtectionContext \<Rightarrow> LiveSellProtectionEvent \<Rightarrow> LiveSellProtectionContext"

subsection \<open>Guards\<close>

definition fallbackError :: workflowError where
  "fallbackError = mkError PhReconciliation InvalidResponse False"

definition validAccount :: "LiveSellProtectionEvent \<Rightarrow> bool" where
  "validAccount e \<longleftrightarrow>
     (case e of
        ACCOUNT_RECONCILED i tot available entry dust \<Rightarrow>
          non_blank i \<and> isFinite tot \<and> Fin 0 \<le> tot \<and> isFinite available \<and>
          Fin 0 \<le> available \<and> isFinite entry \<and> Fin 0 \<le> entry \<and> isFinite dust \<and>
          Fin 0 < dust \<and> available \<le> tot + dust
      | _ \<Rightarrow> False)"

definition accountFields :: "LiveSellProtectionContext \<Rightarrow> LiveSellProtectionEvent
    \<Rightarrow> LiveSellProtectionContext" where
  "accountFields c e =
     (case e of
        ACCOUNT_RECONCILED i tot available entry dust \<Rightarrow>
          c\<lparr>snapshotId := Some i, totalBaseQuantity := Some tot,
            availableBaseQuantity := Some available, averageEntryPrice := Some entry,
            dustQuantity := Some dust\<rparr>
      | _ \<Rightarrow> c)"

definition validRequest :: guard where
  "validRequest c e =
     (case e of
        SELL_REQUESTED p i q ps \<Rightarrow>
          canControl ps \<and> canTrade ps \<and> non_blank p \<and> non_blank i \<and> isFinite q \<and> Fin 0 < q
      | _ \<Rightarrow> False)"

definition invalidAccount :: guard where
  "invalidAccount c e =
     (case e of ACCOUNT_RECONCILED _ _ _ _ _ \<Rightarrow> \<not> validAccount e | _ \<Rightarrow> False)"

definition accountIsFlat :: guard where
  "accountIsFlat c e \<longleftrightarrow> validAccount e \<and>
     (case e of ACCOUNT_RECONCILED _ tot _ _ dust \<Rightarrow> tot \<le> dust | _ \<Rightarrow> False)"

definition accountCanSellRequestedQuantity :: guard where
  "accountCanSellRequestedQuantity c e \<longleftrightarrow> validAccount e \<and>
     (case (e, requestedQuantity c) of
        (ACCOUNT_RECONCILED _ tot available _ dust, Some q) \<Rightarrow>
          dust < tot \<and> q \<le> tot + dust \<and> q \<le> available + dust \<and> tot - available \<le> dust
      | _ \<Rightarrow> False)"

definition residualCanBeProtected :: guard where
  "residualCanBeProtected c e \<longleftrightarrow> validAccount e \<and>
     (case e of
        ACCOUNT_RECONCILED _ tot available entry dust \<Rightarrow>
          dust < tot \<and> Fin 0 < entry \<and> dust < available \<and> tot - available \<le> dust
      | _ \<Rightarrow> False)"

subsection \<open>Actions\<close>

definition recordRequest :: action where
  "recordRequest c e =
     (case e of
        SELL_REQUESTED p i q ps \<Rightarrow>
          c\<lparr>productId := Some p, clientOrderId := Some i, requestedQuantity := Some q,
            permissions := ps, outcome := IDLE, lastError := None\<rparr>
      | _ \<Rightarrow> c)"

definition recordRequestFailure :: action where
  "recordRequestFailure c e =
     c\<lparr>outcome := FAILED,
       lastError := Some (mkError PhAuthorization TradePermissionRequired False)\<rparr>"

definition recordAccount :: action where
  "recordAccount c e = (if validAccount e then accountFields c e else c)"

definition recordNoSellNeeded :: action where
  "recordNoSellNeeded c e = (recordAccount c e)\<lparr>outcome := NO_SELL_NEEDED\<rparr>"

definition recordInvalidAccount :: action where
  "recordInvalidAccount c e = c\<lparr>lastError := Some fallbackError\<rparr>"

definition recordSellOrder :: action where
  "recordSellOrder c e =
     (case e of
        SELL_ACKNOWLEDGED x \<Rightarrow> c\<lparr>exchangeOrderId := Some x\<rparr>
      | SELL_CONFIRMED x \<Rightarrow> c\<lparr>exchangeOrderId := Some x\<rparr>
      | SELL_OUTCOME_UNKNOWN x \<Rightarrow> c\<lparr>exchangeOrderId := x\<rparr>
      | _ \<Rightarrow> c)"

definition recordOperationFailure :: action where
  "recordOperationFailure c e =
     c\<lparr>lastError := Some
       (case e of OPERATION_FAILED x \<Rightarrow> x | SELL_REJECTED x \<Rightarrow> x | SAFETY_FLATTEN_FAILED x \<Rightarrow> x
        | _ \<Rightarrow> fallbackError)\<rparr>"

definition recordProtection :: action where
  "recordProtection c e =
     (case e of PROTECTION_ACKNOWLEDGED x \<Rightarrow> c\<lparr>protectiveOrderId := Some x\<rparr> | _ \<Rightarrow> c)"

definition markSoldFlat :: action where
  "markSoldFlat c e = c\<lparr>outcome := SOLD_FLAT\<rparr>"

definition markSoldReprotected :: action where
  "markSoldReprotected c e = c\<lparr>outcome := SOLD_REPROTECTED\<rparr>"

definition markFlattenedAfterFailure :: action where
  "markFlattenedAfterFailure c e = c\<lparr>outcome := FLATTENED_AFTER_FAILURE\<rparr>"

definition markFailed :: action where
  "markFailed c e = c\<lparr>outcome := FAILED\<rparr>"

subsection \<open>The machine\<close>

datatype sellState =
  Idle | CancellingProtections | ReconcilingBeforeSell | SubmittingSell | ReconcilingSell
| ReconcilingResidual | ArmingResidual | ConfirmingResidualProtection | SafetyFlattening
| Completed | SafetyCompleted | Failed

type_synonym rows =
  "LiveSellProtectionEvent \<Rightarrow>
     (sellState, LiveSellProtectionEvent, LiveSellProtectionContext) transition list"

definition idle_rows :: rows where
  "idle_rows e =
     (case e of
        SELL_REQUESTED _ _ _ _ \<Rightarrow>
          [goto_if validRequest CancellingProtections [recordRequest],
           goto Failed [recordRequest, recordRequestFailure]]
      | _ \<Rightarrow> [])"

definition cancellingProtections_rows :: rows where
  "cancellingProtections_rows e =
     (case e of
        PROTECTIONS_CLEARED \<Rightarrow> [goto ReconcilingBeforeSell []]
      | OPERATION_FAILED _ \<Rightarrow> [goto SafetyFlattening [recordOperationFailure]]
      | _ \<Rightarrow> [])"

definition reconcilingBeforeSell_rows :: rows where
  "reconcilingBeforeSell_rows e =
     (case e of
        ACCOUNT_RECONCILED _ _ _ _ _ \<Rightarrow>
          [goto_if invalidAccount SafetyFlattening [recordInvalidAccount],
           goto_if accountIsFlat Completed [recordNoSellNeeded],
           goto_if accountCanSellRequestedQuantity SubmittingSell [recordAccount],
           goto SafetyFlattening [recordAccount, recordInvalidAccount]]
      | OPERATION_FAILED _ \<Rightarrow> [goto SafetyFlattening [recordOperationFailure]]
      | _ \<Rightarrow> [])"

definition submittingSell_rows :: rows where
  "submittingSell_rows e =
     (case e of
        SELL_CONFIRMED _ \<Rightarrow> [goto ReconcilingResidual [recordSellOrder]]
      | SELL_ACKNOWLEDGED _ \<Rightarrow> [goto ReconcilingSell [recordSellOrder]]
      | SELL_OUTCOME_UNKNOWN _ \<Rightarrow> [goto ReconcilingSell [recordSellOrder]]
      | SELL_REJECTED _ \<Rightarrow> [goto SafetyFlattening [recordOperationFailure]]
      | OPERATION_FAILED _ \<Rightarrow> [goto SafetyFlattening [recordOperationFailure]]
      | _ \<Rightarrow> [])"

definition reconcilingSell_rows :: rows where
  "reconcilingSell_rows e =
     (case e of
        SELL_CONFIRMED _ \<Rightarrow> [goto ReconcilingResidual [recordSellOrder]]
      | SELL_REJECTED _ \<Rightarrow> [goto SafetyFlattening [recordOperationFailure]]
      | OPERATION_FAILED _ \<Rightarrow> [goto SafetyFlattening [recordOperationFailure]]
      | _ \<Rightarrow> [])"

definition reconcilingResidual_rows :: rows where
  "reconcilingResidual_rows e =
     (case e of
        ACCOUNT_RECONCILED _ _ _ _ _ \<Rightarrow>
          [goto_if invalidAccount SafetyFlattening [recordInvalidAccount],
           goto_if accountIsFlat Completed [recordAccount, markSoldFlat],
           goto_if residualCanBeProtected ArmingResidual [recordAccount],
           goto SafetyFlattening [recordAccount, recordInvalidAccount]]
      | OPERATION_FAILED _ \<Rightarrow> [goto SafetyFlattening [recordOperationFailure]]
      | _ \<Rightarrow> [])"

definition armingResidual_rows :: rows where
  "armingResidual_rows e =
     (case e of
        PROTECTION_ACKNOWLEDGED _ \<Rightarrow> [goto ConfirmingResidualProtection [recordProtection]]
      | OPERATION_FAILED _ \<Rightarrow> [goto SafetyFlattening [recordOperationFailure]]
      | _ \<Rightarrow> [])"

definition confirmingResidualProtection_rows :: rows where
  "confirmingResidualProtection_rows e =
     (case e of
        PROTECTION_CONFIRMED \<Rightarrow> [goto Completed [markSoldReprotected]]
      | OPERATION_FAILED _ \<Rightarrow> [goto SafetyFlattening [recordOperationFailure]]
      | _ \<Rightarrow> [])"

definition safetyFlattening_rows :: rows where
  "safetyFlattening_rows e =
     (case e of
        SAFETY_FLATTEN_SUCCEEDED \<Rightarrow> [goto SafetyCompleted [markFlattenedAfterFailure]]
      | SAFETY_FLATTEN_FAILED _ \<Rightarrow> [goto Failed [recordOperationFailure, markFailed]]
      | _ \<Rightarrow> [])"

primrec sell_on :: "sellState \<Rightarrow> rows" where
  "sell_on Idle = idle_rows"
| "sell_on CancellingProtections = cancellingProtections_rows"
| "sell_on ReconcilingBeforeSell = reconcilingBeforeSell_rows"
| "sell_on SubmittingSell = submittingSell_rows"
| "sell_on ReconcilingSell = reconcilingSell_rows"
| "sell_on ReconcilingResidual = reconcilingResidual_rows"
| "sell_on ArmingResidual = armingResidual_rows"
| "sell_on ConfirmingResidualProtection = confirmingResidualProtection_rows"
| "sell_on SafetyFlattening = safetyFlattening_rows"
| "sell_on Completed = (\<lambda>_. [])"
| "sell_on SafetyCompleted = (\<lambda>_. [])"
| "sell_on Failed = (\<lambda>_. [])"

definition liveSellProtectionMachine ::
    "(sellState, LiveSellProtectionEvent, LiveSellProtectionContext) machine" where
  "liveSellProtectionMachine =
     \<lparr>m_initial = Idle, m_on = sell_on, m_outer = (\<lambda>_ _. []), m_always = (\<lambda>_. []),
      m_entry = (\<lambda>_. []), m_final = (\<lambda>st. st \<in> {Completed, SafetyCompleted, Failed})\<rparr>"

definition sell_context :: LiveSellProtectionContext where
  "sell_context =
     \<lparr>productId = None, clientOrderId = None, requestedQuantity = None,
      permissions = \<lparr>canControl = False, canTrade = False\<rparr>, snapshotId = None,
      totalBaseQuantity = None, availableBaseQuantity = None, averageEntryPrice = None,
      dustQuantity = None, exchangeOrderId = None, protectiveOrderId = None, outcome = IDLE,
      lastError = None\<rparr>"

lemma sell_machine_simps [simp]:
  "m_initial liveSellProtectionMachine = Idle" "m_on liveSellProtectionMachine = sell_on"
  "m_outer liveSellProtectionMachine = (\<lambda>_ _. [])"
  "m_always liveSellProtectionMachine = (\<lambda>_. [])"
  "m_entry liveSellProtectionMachine = (\<lambda>_. [])"
  "m_final liveSellProtectionMachine st \<longleftrightarrow> st \<in> {Completed, SafetyCompleted, Failed}"
  by (simp_all add: liveSellProtectionMachine_def)

lemmas sell_row_defs =
  idle_rows_def cancellingProtections_rows_def reconcilingBeforeSell_rows_def
  submittingSell_rows_def reconcilingSell_rows_def reconcilingResidual_rows_def
  armingResidual_rows_def confirmingResidualProtection_rows_def safetyFlattening_rows_def

lemmas sell_actions =
  recordRequest_def recordRequestFailure_def recordAccount_def recordNoSellNeeded_def
  recordInvalidAccount_def recordSellOrder_def recordOperationFailure_def recordProtection_def
  markSoldFlat_def markSoldReprotected_def markFlattenedAfterFailure_def markFailed_def
  accountFields_def

lemmas sell_guards =
  validRequest_def invalidAccount_def accountIsFlat_def accountCanSellRequestedQuantity_def
  residualCanBeProtected_def

interpretation sell: flat_machine liveSellProtectionMachine
  by unfold_locales simp_all

end
