(* ===== verification/LiveSellProps.thy ===== *)
theory LiveSellProps
  imports LiveSellProtection
begin

text \<open>
  The sale of a protected position: each terminal outcome tells what happened, the order is
  submitted at most once and only for a covered quantity.
\<close>

type_synonym sell_snapshot = "(sellState, LiveSellProtectionContext) snapshot"

abbreviation sell_send :: "sell_snapshot \<Rightarrow> LiveSellProtectionEvent \<Rightarrow> sell_snapshot" where
  "sell_send \<equiv> sc_send liveSellProtectionMachine"

lemma sell_runtime:
  assumes "xstate_runtime liveSellProtectionMachine init send"
  shows "init = sc_start liveSellProtectionMachine" "send = sell_send"
  using assms by (simp_all add: sell.runtime_iff)

lemmas sell_rows =
  sell_machine_simps sell_on.simps sell_row_defs LiveSellProtectionEvent.case
  append_Nil2 find.simps if_True transition.sel option.inject option.distinct

lemmas sell_effects =
  row_effect_def transition.sel option.case foldl.simps sell_actions

subsection \<open>What the outcomes say\<close>

text \<open>The account the context holds is flat.\<close>

definition holds_flat :: "LiveSellProtectionContext \<Rightarrow> bool" where
  "holds_flat c \<longleftrightarrow>
     (\<exists>tot dust. totalBaseQuantity c = Some tot \<and> dustQuantity c = Some dust \<and>
        Fin 0 < dust \<and> isFinite tot \<and> tot \<le> dust)"

text \<open>What the events of a run reported.\<close>

definition sale_confirmed :: "LiveSellProtectionEvent list \<Rightarrow> bool" where
  "sale_confirmed es \<longleftrightarrow> (\<exists>x. SELL_CONFIRMED x \<in> set es)"

definition residual_acknowledged :: "LiveSellProtectionEvent list \<Rightarrow> string option \<Rightarrow> bool" where
  "residual_acknowledged es i \<longleftrightarrow> (\<exists>y. i = Some y \<and> PROTECTION_ACKNOWLEDGED y \<in> set es)"

lemma reports_append [simp]:
  "sale_confirmed es \<Longrightarrow> sale_confirmed (es @ [e])"
  "sale_confirmed (es @ [SELL_CONFIRMED x])"
  "residual_acknowledged es i \<Longrightarrow> residual_acknowledged (es @ [e]) i"
  "residual_acknowledged (es @ [PROTECTION_ACKNOWLEDGED y]) (Some y)"
  by (auto simp: sale_confirmed_def residual_acknowledged_def)

text \<open>The outcome of a completed sale.\<close>

definition sale_told :: "LiveSellProtectionEvent list \<Rightarrow> LiveSellProtectionContext \<Rightarrow> bool" where
  "sale_told es c \<longleftrightarrow>
     (case outcome c of
        NO_SELL_NEEDED \<Rightarrow> holds_flat c
      | SOLD_FLAT \<Rightarrow> holds_flat c \<and> sale_confirmed es
      | SOLD_REPROTECTED \<Rightarrow>
          sale_confirmed es \<and> residual_acknowledged es (protectiveOrderId c) \<and>
          PROTECTION_CONFIRMED \<in> set es
      | _ \<Rightarrow> False)"

lemma sale_told_append: "sale_told es c \<Longrightarrow> sale_told (es @ [e]) c"
  by (auto simp: sale_told_def split: LiveSellProtectionOutcome.splits)

text \<open>What a run of events explains, state by state.\<close>

definition outcome_ok :: "LiveSellProtectionEvent list \<Rightarrow> sell_snapshot \<Rightarrow> bool" where
  "outcome_ok es s \<longleftrightarrow>
     (case s of (st, c) \<Rightarrow>
       case st of
         ReconcilingResidual \<Rightarrow> sale_confirmed es
       | ArmingResidual \<Rightarrow> sale_confirmed es
       | ConfirmingResidualProtection \<Rightarrow>
           sale_confirmed es \<and> residual_acknowledged es (protectiveOrderId c)
       | SafetyFlattening \<Rightarrow> lastError c \<noteq> None
       | Completed \<Rightarrow> sale_told es c
       | SafetyCompleted \<Rightarrow>
           outcome c = FLATTENED_AFTER_FAILURE \<and> lastError c \<noteq> None \<and>
           SAFETY_FLATTEN_SUCCEEDED \<in> set es
       | Failed \<Rightarrow> outcome c = FAILED \<and> lastError c \<noteq> None
       | _ \<Rightarrow> True)"

lemma outcome_ok_send:
  "outcome_ok es (st, c) \<Longrightarrow> outcome_ok (es @ [e]) (sell_send (st, c) e)"
  by (rule sell.send_rule,
      (cases st; simp add: outcome_ok_def sale_told_append), (cases st; cases e),
      simp_all only: sell_rows, (safe elim!: pick_rowE),
      simp_all add: sell_effects sell_guards outcome_ok_def sale_told_def holds_flat_def
        validAccount_def)

lemma outcome_ok_play:
  "outcome_ok es (play sell_send (sc_start liveSellProtectionMachine sell_context) es)"
proof (rule play_trace [where J = outcome_ok])
  show "outcome_ok [] (sc_start liveSellProtectionMachine sell_context)"
    by (simp add: sell.boot outcome_ok_def sell_context_def)
  show "outcome_ok (es @ [e])
      (sell_send (play sell_send (sc_start liveSellProtectionMachine sell_context) es) e)"
    if "outcome_ok es (play sell_send (sc_start liveSellProtectionMachine sell_context) es)" for es e
    using outcome_ok_send [of es] that by (metis prod.exhaust)
qed

subsection \<open>What is submitted\<close>

abbreviation submitting :: "sellState \<Rightarrow> bool" where
  "submitting st \<equiv> st = SubmittingSell"

text \<open>The request is valid and the reconciled account covers it.\<close>

definition covered :: "LiveSellProtectionContext \<Rightarrow> bool" where
  "covered c \<longleftrightarrow>
     canControl (permissions c) \<and> canTrade (permissions c) \<and>
     (\<exists>q tot available dust.
        requestedQuantity c = Some q \<and> totalBaseQuantity c = Some tot \<and>
        availableBaseQuantity c = Some available \<and> dustQuantity c = Some dust \<and>
        Fin 0 < q \<and> dust < tot \<and> q \<le> tot + dust \<and> q \<le> available + dust \<and> tot - available \<le> dust)"

definition sell_request :: "LiveSellProtectionContext
    \<Rightarrow> string option \<times> string option \<times> number option \<times> controlPermissions" where
  "sell_request c = (productId c, clientOrderId c, requestedQuantity c, permissions c)"

definition valid_request :: "LiveSellProtectionContext \<Rightarrow> bool" where
  "valid_request c \<longleftrightarrow>
     canControl (permissions c) \<and> canTrade (permissions c) \<and>
     (\<exists>q. requestedQuantity c = Some q \<and> Fin 0 < q)"

lemma request_kept: "st \<noteq> Idle \<longrightarrow> sell_request (snd (sell_send (st, c) e)) = sell_request c"
  by (rule sell.send_rule, simp, (cases st; cases e),
      simp_all only: sell_rows, (safe elim!: pick_rowE),
      simp_all add: sell_effects sell_request_def split: if_splits)

fun sell_rank :: "sellState \<Rightarrow> nat" where
  "sell_rank Idle = 9"
| "sell_rank CancellingProtections = 8"
| "sell_rank ReconcilingBeforeSell = 7"
| "sell_rank SubmittingSell = 6"
| "sell_rank ReconcilingSell = 5"
| "sell_rank ReconcilingResidual = 4"
| "sell_rank ArmingResidual = 3"
| "sell_rank ConfirmingResidualProtection = 2"
| "sell_rank SafetyFlattening = 1"
| "sell_rank Completed = 0"
| "sell_rank SafetyCompleted = 0"
| "sell_rank Failed = 0"

lemma sell_rank_send:
  "sell_send (st, c) e = (st, c) \<or> sell_rank (fst (sell_send (st, c) e)) < sell_rank st"
  by (rule sell.send_rule, simp, (cases st; cases e),
      simp_all only: sell_rows, (safe elim!: pick_rowE), simp_all add: sell_effects)

lemma sell_rank_pos: "sell_send (st, c) e \<noteq> (st, c) \<Longrightarrow> 0 < sell_rank st"
  using sell_rank_send [of st c e] by auto

definition sell_ready :: "sell_snapshot \<Rightarrow> bool" where
  "sell_ready s \<longleftrightarrow>
     (case s of (st, c) \<Rightarrow>
       (st \<notin> {Idle, Failed} \<longrightarrow> valid_request c) \<and> (st = SubmittingSell \<longrightarrow> covered c))"

lemma sell_ready_send: "sell_ready (st, c) \<Longrightarrow> sell_ready (sell_send (st, c) e)"
  by (rule sell.send_rule, assumption, (cases st; cases e),
      simp_all only: sell_rows, (safe elim!: pick_rowE),
      simp_all add: sell_effects sell_guards sell_ready_def covered_def valid_request_def
        validAccount_def split: option.splits if_splits)

text \<open>After a submission a sale does not complete as one that was not needed.\<close>

definition not_needed :: "sell_snapshot \<Rightarrow> bool" where
  "not_needed s \<longleftrightarrow> fst s = Completed \<and> outcome (snd s) = NO_SELL_NEEDED"

lemma not_needed_send:
  "sell_rank st \<le> 6 \<Longrightarrow> \<not> not_needed (st, c) \<longrightarrow> \<not> not_needed (sell_send (st, c) e)"
  by (rule sell.send_rule, simp, (cases st; cases e),
      simp_all only: sell_rows, (safe elim!: pick_rowE), simp_all add: sell_effects not_needed_def)

definition sell_log :: "sell_snapshot \<times> LiveSellProtectionContext list \<Rightarrow> bool" where
  "sell_log w \<longleftrightarrow>
     sell_ready (fst w) \<and> length (snd w) \<le> 1 \<and>
     (snd w \<noteq> [] \<longrightarrow> sell_rank (fst (fst w)) \<le> 6 \<and> \<not> not_needed (fst w)) \<and>
     list_all (\<lambda>c. covered c \<and> sell_request c = sell_request (snd (fst w))) (snd w)"

lemma sell_log_step: "sell_log w \<Longrightarrow> sell_log (log_entry submitting sell_send w e)"
proof -
  assume log: "sell_log w"
  obtain st c xs where w: "w = ((st, c), xs)"
    by (metis prod.exhaust)
  have ready: "sell_ready (sell_send (st, c) e)"
    using log by (auto simp: sell_log_def w intro: sell_ready_send)
  moreover have "sell_send (st, c) e = (st, c) \<or> sell_rank (fst (sell_send (st, c) e)) < sell_rank st"
    by (rule sell_rank_send)
  moreover have "fst (sell_send (st, c) e) = SubmittingSell \<Longrightarrow> covered (snd (sell_send (st, c) e))"
    using ready by (simp add: sell_ready_def case_prod_unfold)
  moreover have "xs \<noteq> [] \<Longrightarrow> \<not> not_needed (sell_send (st, c) e)"
    using log not_needed_send by (auto simp: sell_log_def w)
  moreover have "fst (sell_send (st, c) e) = SubmittingSell \<Longrightarrow> \<not> not_needed (sell_send (st, c) e)"
    by (simp add: not_needed_def)
  moreover have "xs \<noteq> [] \<Longrightarrow> st \<noteq> Idle"
    using log by (auto simp: sell_log_def w)
  ultimately show ?thesis
    using log request_kept [of st c e]
    by (auto simp: sell_log_def log_entry_parts w Let_def le_Suc_eq length_Suc_conv)
qed

subsection \<open>Properties\<close>

lemma sell_log_play: "sell_log (foldl (log_entry submitting sell_send) (sc_start liveSellProtectionMachine sell_context, []) es)"
proof -
  have "sell_log (sc_start liveSellProtectionMachine sell_context, [])"
    by (simp add: sell_log_def sell.boot sell_ready_def)
  then show ?thesis
    using sell_log_step by (rule foldl_invariant)
qed

text \<open>The outcome of a protected sale tells what happened: a completed one ends flat and has
  submitted no sale, or flat after a confirmed one, or with a confirmed protection of the
  residual; a safety flatten that was reported done is never such an outcome; any other end is a
  failure with its error.\<close>

theorem sale_outcome_is_truthful:
  assumes "xstate_runtime liveSellProtectionMachine init send"
    and "s = play send (init sell_context) es"
  shows "(case fst s of
      Completed \<Rightarrow> sale_told es (snd s)
    | SafetyCompleted \<Rightarrow>
        outcome (snd s) = FLATTENED_AFTER_FAILURE \<and> lastError (snd s) \<noteq> None \<and>
        SAFETY_FLATTEN_SUCCEEDED \<in> set es
    | Failed \<Rightarrow> outcome (snd s) = FAILED \<and> lastError (snd s) \<noteq> None
    | _ \<Rightarrow> True) \<and>
    (fst s = Completed \<longrightarrow> outcome (snd s) = NO_SELL_NEEDED \<longrightarrow>
      entries submitting send (init sell_context) es = [])"
proof -
  note rt = sell_runtime [OF assms(1)]
  have "outcome_ok es s"
    using outcome_ok_play [of es] assms(2) rt by simp
  then have "case fst s of
      Completed \<Rightarrow> sale_told es (snd s)
    | SafetyCompleted \<Rightarrow>
        outcome (snd s) = FLATTENED_AFTER_FAILURE \<and> lastError (snd s) \<noteq> None \<and>
        SAFETY_FLATTEN_SUCCEEDED \<in> set es
    | Failed \<Rightarrow> outcome (snd s) = FAILED \<and> lastError (snd s) \<noteq> None
    | _ \<Rightarrow> True"
    by (cases s; cases "fst s") (simp_all add: outcome_ok_def)
  moreover have "entries submitting send (init sell_context) es = []" if "not_needed s"
    using sell_log_play [of es] that unfolding sell_log_def assms(2) rt log_entry_snapshot by auto
  ultimately show ?thesis
    by (simp add: not_needed_def)
qed

definition sell_events :: "LiveSellProtectionEvent list" where
  "sell_events =
     [SELL_REQUESTED ''BTC-USD'' ''sell-1'' (Fin 3) \<lparr>canControl = True, canTrade = True\<rparr>,
      PROTECTIONS_CLEARED, ACCOUNT_RECONCILED ''a1'' (Fin 8) (Fin 8) (Fin 5) (Fin 1)]"

abbreviation sell_run :: "LiveSellProtectionEvent list \<Rightarrow> sell_snapshot" where
  "sell_run es \<equiv> play sell_send (sc_start liveSellProtectionMachine sell_context) es"

lemmas sell_eval =
  sell.boot sell.send_eval sell_machine_simps sell_on.simps sell_row_defs sell_effects
  sell_guards validAccount_def sell_context_def isFinite_def non_blank_iff js_space_def
  minus_number_def

theorem sale_outcome_is_truthful_witness:
  "PROTECTION_CONFIRMED \<in> set (sell_events @ [SELL_CONFIRMED ''o1'',
     ACCOUNT_RECONCILED ''a2'' (Fin 5) (Fin 5) (Fin 5) (Fin 1),
     PROTECTION_ACKNOWLEDGED ''p1'', PROTECTION_CONFIRMED])"
proof -
  let ?es = "sell_events @ [SELL_CONFIRMED ''o1'',
     ACCOUNT_RECONCILED ''a2'' (Fin 5) (Fin 5) (Fin 5) (Fin 1),
     PROTECTION_ACKNOWLEDGED ''p1'', PROTECTION_CONFIRMED]"
  have "fst (sell_run ?es) = Completed \<and> outcome (snd (sell_run ?es)) = SOLD_REPROTECTED"
    by (simp add: sell_events_def sell_eval)
  with conjunct1 [OF sale_outcome_is_truthful [OF sell.runtime_sc refl, of ?es]] show ?thesis
    by (simp only: sellState.case sale_told_def LiveSellProtectionOutcome.case)
qed

text \<open>A protected sale is submitted at most once, with the control and trade permissions, for
  the requested quantity, which the last account covers: nothing of it is held and the
  request exceeds neither what is owned nor what is available by more than the dust.\<close>

theorem sale_is_single_and_covered:
  assumes "xstate_runtime liveSellProtectionMachine init send"
    and "sales = entries submitting send (init sell_context) es"
  shows "length sales \<le> 1 \<and>
    list_all (\<lambda>c. covered c \<and>
      sell_request c = sell_request (snd (play send (init sell_context) es))) sales"
proof -
  note rt = sell_runtime [OF assms(1)]
  let ?w = "foldl (log_entry submitting sell_send) (sc_start liveSellProtectionMachine sell_context, []) es"
  have "sell_log ?w"
    by (rule sell_log_play)
  moreover have "fst ?w = sell_run es"
    by (simp add: log_entry_snapshot)
  ultimately show ?thesis
    unfolding assms(2) rt sell_log_def by metis
qed

theorem sale_is_single_and_covered_witness:
  "\<exists>c. entries submitting sell_send (sc_start liveSellProtectionMachine sell_context) sell_events = [c] \<and>
     covered c"
proof -
  let ?xs = "entries submitting sell_send (sc_start liveSellProtectionMachine sell_context) sell_events"
  have "?xs \<noteq> []"
    by (simp add: sell_events_def log_entry_def sell_eval)
  with sale_is_single_and_covered [OF sell.runtime_sc refl, of sell_events] show ?thesis
    by (cases ?xs) simp_all
qed

text \<open>A sale changes state at most nine times: no row leads back.\<close>

theorem sale_is_short:
  "changes sell_send s es \<le> 9"
proof -
  have "changes sell_send s es \<le>
      sell_rank (fst s) + count_steps sell_send (\<lambda>_ _. False) s es * 9"
  proof (rule changes_bounded [where I = "\<lambda>_. True"])
    show "sell_rank (fst s) \<le> 9" for s :: sell_snapshot
      by (cases "fst s") simp_all
    show "sell_rank (fst (sell_send s e)) < sell_rank (fst s)" if "sell_send s e \<noteq> s" for s e
      using that sell_rank_send [of "fst s" "snd s" e] by simp
    show "0 < sell_rank (fst s)" if "sell_send s e \<noteq> s" for s e
      using that sell_rank_pos [of "fst s" "snd s" e] by simp
  qed simp_all
  moreover have "count_steps sell_send (\<lambda>_ _. False) s es = 0" for s
    by (induction es arbitrary: s) simp_all
  moreover have "sell_rank (fst s) \<le> 9"
    by (cases "fst s") simp_all
  ultimately show ?thesis
    by simp
qed

end
