(* ===== verification/HyperliquidExecution.thy ===== *)
theory HyperliquidExecution
  imports Domain PlainMachine
begin

text \<open>
  One order of a perpetual future: the frozen envelope, its admission and the risk gate,
  \<^verbatim>\<open>models/hyperliquid-execution.ts\<close>, and the machine of the order,
  \<^verbatim>\<open>models/hyperliquid-execution.machine.ts\<close>, over
  \<^verbatim>\<open>models/hyperliquid-execution.types.ts\<close>.  The power operator is the parameter \<open>pow\<close>.
\<close>

subsection \<open>The envelope\<close>

record HyperliquidRiskEnvelope =
  env_maxOrderNotional :: number
  env_maxPositionNotional :: number
  env_maxGrossExposure :: number
  env_maxDailyLoss :: number

datatype perpExecutionMode = PAPER_MODE | LIVE_MODE

record HyperliquidPerpCandidate =
  cand_executionMode :: perpExecutionMode
  cand_venue :: string
  cand_productId :: string
  cand_timeframe :: string
  cand_maxLeverage :: number
  cand_risk :: HyperliquidRiskEnvelope

datatype perpRejection = PERP_PRODUCT_REJECTED | PERP_POLICY_MISMATCH

datatype HyperliquidPerpAdmission = ADMITTED | OUT_OF_SCOPE | NOT_ADMITTED perpRejection

record PerpOrderIntent =
  perp_productId :: string
  perp_side :: OrderSide
  perp_quantity :: number
  perp_markPrice :: number
  perp_leverage :: number

record PerpRiskGate =
  admissionApproved :: bool
  positionQuantity :: number
  gate_dailyPnl :: number
  otherGrossExposureNotional :: number

datatype PerpRefusalCode =
  PERP_INTENT_INVALID
| AGENT_WALLET_NOT_READY
| PERP_ADMISSION_REQUIRED
| PERP_PRODUCT_NOT_ALLOWED
| PERP_LEVERAGE_EXCEEDED
| PERP_DAILY_LOSS_BREACHED
| PERP_ORDER_NOTIONAL_EXCEEDED
| PERP_POSITION_EXCEEDED
| PERP_EXPOSURE_EXCEEDED

datatype PerpOrderAssessment = EXECUTABLE | REFUSED PerpRefusalCode

text \<open>\<open>HYPERLIQUID_PERP_POLICY\<close>, field by field.\<close>

definition PERP_VENUE :: string where "PERP_VENUE = ''HYPERLIQUID''"

definition PERP_PRODUCTS :: "string list" where "PERP_PRODUCTS = [''BTC-PERP'', ''ETH-PERP'']"

definition PERP_MAX_LEVERAGE :: number where "PERP_MAX_LEVERAGE = Fin 2"

definition PERP_TIMEFRAME :: string where "PERP_TIMEFRAME = ''ONE_DAY''"

definition sizeDecimals :: "string \<Rightarrow> number option" where
  "sizeDecimals p =
     (if p = ''BTC-PERP'' then Some (Fin 5) else if p = ''ETH-PERP'' then Some (Fin 4) else None)"

definition PERP_RISK :: HyperliquidRiskEnvelope where
  "PERP_RISK =
     \<lparr>env_maxOrderNotional = Fin 600, env_maxPositionNotional = Fin 10000,
      env_maxGrossExposure = Fin 10000, env_maxDailyLoss = Fin 1000\<rparr>"

definition isAllowedProduct :: "string \<Rightarrow> bool" where
  "isAllowedProduct p \<longleftrightarrow> p \<in> set PERP_PRODUCTS"

text \<open>The literal \<open>1e-9\<close>.\<close>

definition TOLERANCE :: number where "TOLERANCE = fl (1 / 1000000000)"

definition sameNumber :: "number \<Rightarrow> number \<Rightarrow> bool" where
  "sameNumber x y \<longleftrightarrow> \<bar>x - y\<bar> \<le> TOLERANCE"

definition matchesRisk :: "HyperliquidPerpCandidate \<Rightarrow> bool" where
  "matchesRisk c \<longleftrightarrow>
     sameNumber (env_maxOrderNotional (cand_risk c)) (env_maxOrderNotional PERP_RISK) \<and>
     sameNumber (env_maxPositionNotional (cand_risk c)) (env_maxPositionNotional PERP_RISK) \<and>
     sameNumber (env_maxGrossExposure (cand_risk c)) (env_maxGrossExposure PERP_RISK) \<and>
     sameNumber (env_maxDailyLoss (cand_risk c)) (env_maxDailyLoss PERP_RISK)"

definition admitHyperliquidPerpConfiguration :: "HyperliquidPerpCandidate \<Rightarrow> HyperliquidPerpAdmission" where
  "admitHyperliquidPerpConfiguration c =
     (if cand_executionMode c \<noteq> LIVE_MODE then OUT_OF_SCOPE
      else if \<not> isAllowedProduct (cand_productId c) then NOT_ADMITTED PERP_PRODUCT_REJECTED
      else if cand_venue c = PERP_VENUE \<and> cand_timeframe c = PERP_TIMEFRAME \<and>
              num_eq (cand_maxLeverage c) PERP_MAX_LEVERAGE \<and> matchesRisk c
      then ADMITTED else NOT_ADMITTED PERP_POLICY_MISMATCH)"

subsection \<open>The risk gate of an order\<close>

text \<open>The side is typed here, so the test that it is \<open>BUY\<close> or \<open>SELL\<close> is void.\<close>

definition invalidIntent :: "PerpOrderIntent \<Rightarrow> bool" where
  "invalidIntent i \<longleftrightarrow>
     \<not> isAllowedProduct (perp_productId i) \<or>
     \<not> isFinite (perp_quantity i) \<or> perp_quantity i \<le> Fin 0 \<or>
     \<not> isFinite (perp_markPrice i) \<or> perp_markPrice i \<le> Fin 0 \<or>
     \<not> isSafeInteger (perp_leverage i) \<or> perp_leverage i < Fin 1"

definition isWellFormedPerpIntent :: "PerpOrderIntent \<Rightarrow> bool" where
  "isWellFormedPerpIntent i \<longleftrightarrow> \<not> invalidIntent i"

definition perp_notional :: "PerpOrderIntent \<Rightarrow> number" where
  "perp_notional i = perp_quantity i * perp_markPrice i"

definition perp_position_notional :: "PerpOrderIntent \<Rightarrow> PerpRiskGate \<Rightarrow> number" where
  "perp_position_notional i g =
     (let signedQuantity = (if perp_side i = BUY then perp_quantity i else - perp_quantity i);
          resultingPosition = positionQuantity g + signedQuantity
      in \<bar>resultingPosition\<bar> * perp_markPrice i)"

definition perp_gross_exposure :: "PerpOrderIntent \<Rightarrow> PerpRiskGate \<Rightarrow> number" where
  "perp_gross_exposure i g =
     (let currentOwnExposure = \<bar>positionQuantity g\<bar> * perp_markPrice i
      in otherGrossExposureNotional g - currentOwnExposure + perp_position_notional i g)"

definition perp_refusal :: "PerpOrderIntent \<Rightarrow> PerpRiskGate \<Rightarrow> PerpRefusalCode option" where
  "perp_refusal i g =
     (if gate_dailyPnl g \<le> - env_maxDailyLoss PERP_RISK + TOLERANCE
      then Some PERP_DAILY_LOSS_BREACHED
      else if PERP_MAX_LEVERAGE < perp_leverage i then Some PERP_LEVERAGE_EXCEEDED
      else if env_maxOrderNotional PERP_RISK + TOLERANCE < perp_notional i
      then Some PERP_ORDER_NOTIONAL_EXCEEDED
      else if \<not> isFinite (positionQuantity g) then Some PERP_INTENT_INVALID
      else if env_maxPositionNotional PERP_RISK + TOLERANCE < perp_position_notional i g
      then Some PERP_POSITION_EXCEEDED
      else if env_maxGrossExposure PERP_RISK + TOLERANCE < perp_gross_exposure i g
      then Some PERP_EXPOSURE_EXCEEDED
      else None)"

definition assessPerpOrderIntent :: "PerpOrderIntent \<Rightarrow> PerpRiskGate \<Rightarrow> PerpOrderAssessment" where
  "assessPerpOrderIntent i g =
     (if invalidIntent i \<or> \<not> isFinite (gate_dailyPnl g) then REFUSED PERP_INTENT_INVALID
      else if \<not> admissionApproved g then REFUSED PERP_ADMISSION_REQUIRED
      else case perp_refusal i g of None \<Rightarrow> EXECUTABLE | Some r \<Rightarrow> REFUSED r)"

definition floorToSizeIncrement :: "(number \<Rightarrow> number \<Rightarrow> number) \<Rightarrow> string \<Rightarrow> number \<Rightarrow> number" where
  "floorToSizeIncrement pow p q =
     (if \<not> isFinite q \<or> q \<le> Fin 0 then Fin 0
      else case sizeDecimals p of
             None \<Rightarrow> NaN
           | Some decimals \<Rightarrow>
               let factor = pow (Fin 10) decimals in js_floor (q * factor + TOLERANCE) / factor)"

subsection \<open>The machine of an order\<close>

datatype perpErrorCode =
  PERSIST_INTENT_FAILED | SIGN_FAILED_CODE | RECONCILIATION_FAILED_CODE | PERSIST_OUTCOME_FAILED

datatype HyperliquidOrderOutcome = ACCEPTED | REJECTED

record HyperliquidPerpOrderContext =
  clientOrderId :: "string option"
  intent :: "PerpOrderIntent option"
  outcome :: "HyperliquidOrderOutcome option"
  lastRefusal :: "PerpRefusalCode option"
  lastError :: "perpErrorCode option"

text \<open>\<open>ORDER_INTENT_REQUESTED\<close>: intent, gate, client order identifier, signer ready.\<close>

datatype HyperliquidPerpOrderEvent =
  ORDER_INTENT_REQUESTED PerpOrderIntent PerpRiskGate string bool
| ORDER_RECOVERY_REQUESTED PerpOrderIntent string
| INTENT_PERSIST_SUCCEEDED
| INTENT_PERSIST_FAILED perpErrorCode
| ACTION_SIGNED
| SIGN_FAILED perpErrorCode
| SUBMIT_ACCEPTED
| SUBMIT_REJECTED
| SUBMIT_UNKNOWN
| RECONCILIATION_RESOLVED HyperliquidOrderOutcome
| RECONCILIATION_FAILED perpErrorCode
| PERSIST_SUCCEEDED
| PERSIST_FAILED perpErrorCode
| RESET

type_synonym guard = "HyperliquidPerpOrderContext \<Rightarrow> HyperliquidPerpOrderEvent \<Rightarrow> bool"
type_synonym action =
  "HyperliquidPerpOrderContext \<Rightarrow> HyperliquidPerpOrderEvent \<Rightarrow> HyperliquidPerpOrderContext"

text \<open>\<open>CLIENT_ORDER_ID_PATTERN\<close>: \<open>^[a-zA-Z0-9-]{8,64}$\<close>.\<close>

definition id_char :: "char \<Rightarrow> bool" where
  "id_char ch \<longleftrightarrow>
     (let n = of_char ch :: nat
      in (97 \<le> n \<and> n \<le> 122) \<or> (65 \<le> n \<and> n \<le> 90) \<or> (48 \<le> n \<and> n \<le> 57) \<or> n = 45)"

definition client_order_id_pattern :: "string \<Rightarrow> bool" where
  "client_order_id_pattern s \<longleftrightarrow> 8 \<le> length s \<and> length s \<le> 64 \<and> list_all id_char s"

definition executableIntent :: guard where
  "executableIntent c e =
     (case e of
        ORDER_INTENT_REQUESTED i g k ready \<Rightarrow>
          ready \<and> client_order_id_pattern k \<and> assessPerpOrderIntent i g = EXECUTABLE
      | _ \<Rightarrow> False)"

definition validRecoveryPayload :: guard where
  "validRecoveryPayload c e =
     (case e of
        ORDER_RECOVERY_REQUESTED i k \<Rightarrow> client_order_id_pattern k \<and> isWellFormedPerpIntent i
      | _ \<Rightarrow> False)"

definition recordIntent :: action where
  "recordIntent c e =
     (case e of
        ORDER_INTENT_REQUESTED i g k ready \<Rightarrow>
          c\<lparr>intent := Some i, clientOrderId := Some k, lastRefusal := None, lastError := None,
            outcome := None\<rparr>
      | ORDER_RECOVERY_REQUESTED i k \<Rightarrow>
          c\<lparr>intent := Some i, clientOrderId := Some k, lastRefusal := None, lastError := None,
            outcome := None\<rparr>
      | _ \<Rightarrow> c)"

definition recordRefusal :: action where
  "recordRefusal c e =
     (case e of
        ORDER_INTENT_REQUESTED i g k ready \<Rightarrow>
          c\<lparr>intent := None, clientOrderId := None, outcome := None,
            lastRefusal := Some
              (if \<not> ready then AGENT_WALLET_NOT_READY
               else case assessPerpOrderIntent i g of
                      REFUSED r \<Rightarrow> r | EXECUTABLE \<Rightarrow> PERP_INTENT_INVALID),
            lastError := None\<rparr>
      | _ \<Rightarrow> c)"

definition recordOutcome :: action where
  "recordOutcome c e =
     (case e of
        SUBMIT_ACCEPTED \<Rightarrow> c\<lparr>outcome := Some ACCEPTED, lastError := None\<rparr>
      | SUBMIT_REJECTED \<Rightarrow> c\<lparr>outcome := Some REJECTED, lastError := None\<rparr>
      | RECONCILIATION_RESOLVED x \<Rightarrow> c\<lparr>outcome := Some x, lastError := None\<rparr>
      | _ \<Rightarrow> c)"

definition recordError :: action where
  "recordError c e =
     (case e of
        INTENT_PERSIST_FAILED x \<Rightarrow> c\<lparr>lastError := Some x\<rparr>
      | SIGN_FAILED x \<Rightarrow> c\<lparr>lastError := Some x\<rparr>
      | RECONCILIATION_FAILED x \<Rightarrow> c\<lparr>lastError := Some x\<rparr>
      | PERSIST_FAILED x \<Rightarrow> c\<lparr>lastError := Some x\<rparr>
      | _ \<Rightarrow> c)"

definition perp_context :: HyperliquidPerpOrderContext where
  "perp_context =
     \<lparr>clientOrderId = None, intent = None, outcome = None, lastRefusal = None,
      lastError = None\<rparr>"

definition clearOrder :: action where
  "clearOrder c e =
     c\<lparr>clientOrderId := None, intent := None, outcome := None, lastRefusal := None,
       lastError := None\<rparr>"

datatype perpState =
  Idle | PersistingIntent | Signing | Submitting | Reconciling | PersistingOutcome | Settled | Failed

type_synonym rows =
  "HyperliquidPerpOrderEvent \<Rightarrow>
     (perpState, HyperliquidPerpOrderEvent, HyperliquidPerpOrderContext) transition list"

definition idle_rows :: rows where
  "idle_rows e =
     (case e of
        ORDER_INTENT_REQUESTED _ _ _ _ \<Rightarrow>
          [goto_if executableIntent PersistingIntent [recordIntent], stay [recordRefusal]]
      | ORDER_RECOVERY_REQUESTED _ _ \<Rightarrow>
          [goto_if validRecoveryPayload Reconciling [recordIntent], stay [recordRefusal]]
      | _ \<Rightarrow> [])"

definition persistingIntent_rows :: rows where
  "persistingIntent_rows e =
     (case e of
        INTENT_PERSIST_SUCCEEDED \<Rightarrow> [goto Signing []]
      | INTENT_PERSIST_FAILED _ \<Rightarrow> [goto Failed [recordError]]
      | _ \<Rightarrow> [])"

definition signing_rows :: rows where
  "signing_rows e =
     (case e of
        ACTION_SIGNED \<Rightarrow> [goto Submitting []]
      | SIGN_FAILED _ \<Rightarrow> [goto Failed [recordError]]
      | _ \<Rightarrow> [])"

definition submitting_rows :: rows where
  "submitting_rows e =
     (case e of
        SUBMIT_ACCEPTED \<Rightarrow> [goto PersistingOutcome [recordOutcome]]
      | SUBMIT_REJECTED \<Rightarrow> [goto PersistingOutcome [recordOutcome]]
      | SUBMIT_UNKNOWN \<Rightarrow> [goto Reconciling []]
      | _ \<Rightarrow> [])"

definition reconciling_rows :: rows where
  "reconciling_rows e =
     (case e of
        RECONCILIATION_RESOLVED _ \<Rightarrow> [goto PersistingOutcome [recordOutcome]]
      | RECONCILIATION_FAILED _ \<Rightarrow> [goto Failed [recordError]]
      | _ \<Rightarrow> [])"

definition persistingOutcome_rows :: rows where
  "persistingOutcome_rows e =
     (case e of
        PERSIST_SUCCEEDED \<Rightarrow> [goto Settled []]
      | PERSIST_FAILED _ \<Rightarrow> [goto Failed [recordError]]
      | _ \<Rightarrow> [])"

definition reset_rows :: rows where
  "reset_rows e = (case e of RESET \<Rightarrow> [goto Idle [clearOrder]] | _ \<Rightarrow> [])"

primrec perp_on :: "perpState \<Rightarrow> rows" where
  "perp_on Idle = idle_rows"
| "perp_on PersistingIntent = persistingIntent_rows"
| "perp_on Signing = signing_rows"
| "perp_on Submitting = submitting_rows"
| "perp_on Reconciling = reconciling_rows"
| "perp_on PersistingOutcome = persistingOutcome_rows"
| "perp_on Settled = reset_rows"
| "perp_on Failed = reset_rows"

definition hyperliquidPerpOrderMachine ::
    "(perpState, HyperliquidPerpOrderEvent, HyperliquidPerpOrderContext) machine" where
  "hyperliquidPerpOrderMachine =
     \<lparr>m_initial = Idle, m_on = perp_on, m_outer = (\<lambda>_. reset_rows), m_always = (\<lambda>_. []),
      m_entry = (\<lambda>_. []), m_final = (\<lambda>_. False)\<rparr>"

lemma perp_machine_simps [simp]:
  "m_initial hyperliquidPerpOrderMachine = Idle" "m_on hyperliquidPerpOrderMachine = perp_on"
  "m_outer hyperliquidPerpOrderMachine st = reset_rows"
  "m_always hyperliquidPerpOrderMachine = (\<lambda>_. [])"
  "m_entry hyperliquidPerpOrderMachine = (\<lambda>_. [])"
  "\<not> m_final hyperliquidPerpOrderMachine st"
  by (simp_all add: hyperliquidPerpOrderMachine_def)

lemmas perp_row_defs =
  idle_rows_def persistingIntent_rows_def signing_rows_def submitting_rows_def
  reconciling_rows_def persistingOutcome_rows_def reset_rows_def

lemmas perp_actions =
  recordIntent_def recordRefusal_def recordOutcome_def recordError_def clearOrder_def

lemmas perp_guards = executableIntent_def validRecoveryPayload_def

interpretation perp: flat_machine hyperliquidPerpOrderMachine
  by unfold_locales simp_all

end
