(* ===== verification/Json.thy ===== *)
theory Json
  imports Domain
begin

text \<open>
  JSON values as the agent reads them from the body of an answer, and the checks of the schemas
  it applies: a field of a given kind, or none.
\<close>

datatype json =
  JNull
| JBool bool
| JNum number
| JStr string
| JArr "json list"
| JObj "json dict"

text \<open>\<open>value?.key\<close>: \<open>undefined\<close> (\<open>None\<close>) on a value without that property.\<close>

fun get :: "json option \<Rightarrow> string \<Rightarrow> json option" where
  "get (Some (JObj d)) k = map_of d k"
| "get _ k = None"

text \<open>\<open>typeof value === "object"\<close> and not null.\<close>

fun is_object :: "json option \<Rightarrow> bool" where
  "is_object (Some (JObj _)) = True"
| "is_object (Some (JArr _)) = True"
| "is_object _ = False"

text \<open>Fields of a required kind: \<open>z.string()\<close>, \<open>z.string().min(1)\<close>, \<open>z.boolean()\<close>.\<close>

definition string_field :: "json option \<Rightarrow> string \<Rightarrow> string option" where
  "string_field j k = (case get j k of Some (JStr s) \<Rightarrow> Some s | _ \<Rightarrow> None)"

definition text_field :: "json option \<Rightarrow> string \<Rightarrow> string option" where
  "text_field j k =
     (case string_field j k of Some s \<Rightarrow> if s = [] then None else Some s | None \<Rightarrow> None)"

definition bool_field :: "json option \<Rightarrow> string \<Rightarrow> bool option" where
  "bool_field j k = (case get j k of Some (JBool b) \<Rightarrow> Some b | _ \<Rightarrow> None)"

text \<open>\<open>z.number().finite().nonnegative()\<close>.\<close>

definition amount_field :: "json option \<Rightarrow> string \<Rightarrow> number option" where
  "amount_field j k =
     (case get j k of Some (JNum x) \<Rightarrow> if isFinite x \<and> Fin 0 \<le> x then Some x else None | _ \<Rightarrow> None)"

definition array_field :: "json option \<Rightarrow> string \<Rightarrow> json list option" where
  "array_field j k = (case get j k of Some (JArr xs) \<Rightarrow> Some xs | _ \<Rightarrow> None)"

text \<open>\<open>.optional()\<close>: absent, or of the kind.\<close>

definition optional_field :: "(json option \<Rightarrow> string \<Rightarrow> 'v option) \<Rightarrow> json option \<Rightarrow> string
    \<Rightarrow> 'v option option" where
  "optional_field read j k =
     (case get j k of None \<Rightarrow> Some None | Some _ \<Rightarrow> map_option Some (read j k))"

subsection \<open>Strings\<close>

text \<open>\<open>startsWith\<close> and \<open>includes\<close>.\<close>

fun starts_with :: "string \<Rightarrow> string \<Rightarrow> bool" where
  "starts_with s [] = True"
| "starts_with [] (p # ps) = False"
| "starts_with (c # s) (p # ps) \<longleftrightarrow> c = p \<and> starts_with s ps"

fun contains_text :: "string \<Rightarrow> string \<Rightarrow> bool" where
  "contains_text [] p = starts_with [] p"
| "contains_text (c # s) p \<longleftrightarrow> starts_with (c # s) p \<or> contains_text s p"

end
