(* ===== verification/PerpShell.thy ===== *)
theory PerpShell
  imports HyperliquidExecution Json
begin

text \<open>
  What the agent reads from the exchange and decides without an effect:
  \<^verbatim>\<open>apps/agent/src/hyperliquid-execution.ts\<close>, \<^verbatim>\<open>hyperliquid-preflight.ts\<close> and the pure parts of
  \<^verbatim>\<open>hyperliquid-control.ts\<close>.  An answer is the JSON value of its body, or \<open>None\<close> when the
  bounded request gives null (network error, status, size).  \<open>Number(text)\<close> is the parameter
  \<open>toNum\<close>, the power operator the parameter \<open>pow\<close>; the digest behind a \<open>cloid\<close> is a third-party
  function, the parameter \<open>cloidOf\<close>.
\<close>

subsection \<open>Values\<close>

fun finiteFrom :: "(string \<Rightarrow> number) \<Rightarrow> json option \<Rightarrow> number option" where
  "finiteFrom toNum (Some (JNum x)) = (if isFinite x then Some x else None)"
| "finiteFrom toNum (Some (JStr s)) =
     (if length (js_trim s) > 0
      then (if isFinite (toNum s) then Some (toNum s) else None)
      else None)"
| "finiteFrom toNum _ = None"

subsection \<open>Markets\<close>

definition hyperliquidCoin :: "string \<Rightarrow> string option" where
  "hyperliquidCoin p =
     (if p = ''BTC-PERP'' then Some ''BTC'' else if p = ''ETH-PERP'' then Some ''ETH'' else None)"

text \<open>\<open>HyperliquidMeta\<close>: the array \<open>universe\<close>, its entries unchecked.\<close>

type_synonym HyperliquidMeta = "json list"

fun find_index :: "('v \<Rightarrow> bool) \<Rightarrow> 'v list \<Rightarrow> nat option" where
  "find_index P [] = None"
| "find_index P (x # xs) = (if P x then Some 0 else map_option Suc (find_index P xs))"

definition assetIndexForCoin :: "HyperliquidMeta \<Rightarrow> string \<Rightarrow> nat option" where
  "assetIndexForCoin universe coin =
     find_index (\<lambda>asset. get (Some asset) ''name'' = Some (JStr coin)) universe"

definition read_meta :: "json option \<Rightarrow> HyperliquidMeta option" where
  "read_meta parsed = (case get parsed ''universe'' of Some (JArr xs) \<Rightarrow> Some xs | _ \<Rightarrow> None)"

subsection \<open>Answers to an order\<close>

datatype HyperliquidSubmitIssue = SUBMIT_OK | SUBMIT_REFUSED string | SUBMIT_DOUBT

datatype HyperliquidReconciliationIssue = RESOLVED HyperliquidOrderOutcome | UNRESOLVED

definition orderErrorDetail :: "json option \<Rightarrow> string option" where
  "orderErrorDetail statuses =
     (case statuses of
        Some (JArr (first # _)) \<Rightarrow>
          (case get (Some first) ''error'' of Some (JStr s) \<Rightarrow> Some s | _ \<Rightarrow> None)
      | _ \<Rightarrow> None)"

definition read_submission :: "json option \<Rightarrow> HyperliquidSubmitIssue" where
  "read_submission parsed =
     (if \<not> is_object parsed then SUBMIT_DOUBT
      else if get parsed ''status'' = Some (JStr ''err'')
      then SUBMIT_REFUSED
        (case get parsed ''response'' of Some (JStr s) \<Rightarrow> s | _ \<Rightarrow> ''HYPERLIQUID_ERROR'')
      else if get parsed ''status'' \<noteq> Some (JStr ''ok'') then SUBMIT_DOUBT
      else case orderErrorDetail (get (get (get parsed ''response'') ''data'') ''statuses'') of
             Some detail \<Rightarrow> SUBMIT_REFUSED detail
           | None \<Rightarrow> SUBMIT_OK)"

definition read_order_status :: "json option \<Rightarrow> HyperliquidReconciliationIssue" where
  "read_order_status parsed =
     (if \<not> is_object parsed \<or> get parsed ''status'' \<noteq> Some (JStr ''ok'') then UNRESOLVED
      else let state = get (get parsed ''data'') ''status''
        in if \<not> is_object state then UNRESOLVED
           else case get state ''status'' of
             Some (JStr status) \<Rightarrow>
               if status = ''filled'' \<or> status = ''resting'' \<or> status = ''open''
               then RESOLVED ACCEPTED
               else if status = ''canceled'' \<or> status = ''marginCanceled''
               then RESOLVED ACCEPTED
               else if starts_with status ''Order was never placed'' then RESOLVED REJECTED
               else if contains_text status ''never placed'' \<or> contains_text status ''rejected''
               then RESOLVED REJECTED
               else UNRESOLVED
           | _ \<Rightarrow> UNRESOLVED)"

subsection \<open>The account and the risk gate\<close>

record HyperliquidAccountPosition =
  ap_coin :: string
  ap_quantity :: number
  ap_unrealizedPnl :: number

record HyperliquidAccountSnapshot =
  accountValue :: number
  totalRawUsd :: number
  positions :: "HyperliquidAccountPosition list"

fun read_positions :: "(string \<Rightarrow> number) \<Rightarrow> json list \<Rightarrow> HyperliquidAccountPosition list option" where
  "read_positions toNum [] = Some []"
| "read_positions toNum (entry # xs) =
     (let position = get (Some entry) ''position'';
          quantity = finiteFrom toNum (get position ''szi'');
          pnl = (case finiteFrom toNum (get position ''unrealizedPnl'') of
                   None \<Rightarrow> Fin 0 | Some x \<Rightarrow> x)
      in case (get position ''coin'', quantity) of
           (Some (JStr coin), Some q) \<Rightarrow>
             map_option (\<lambda>ps. \<lparr>ap_coin = coin, ap_quantity = q, ap_unrealizedPnl = pnl\<rparr> # ps)
               (read_positions toNum xs)
         | _ \<Rightarrow> None)"

definition read_account :: "(string \<Rightarrow> number) \<Rightarrow> json option \<Rightarrow> HyperliquidAccountSnapshot option" where
  "read_account toNum parsed =
     (case get parsed ''assetPositions'' of
        Some (JArr ps) \<Rightarrow>
          (let summary = get parsed ''marginSummary''
           in case (finiteFrom toNum (get summary ''accountValue''),
                    finiteFrom toNum (get summary ''totalRawUsd'')) of
                (Some v, Some u) \<Rightarrow>
                  map_option (\<lambda>xs. \<lparr>accountValue = v, totalRawUsd = u, positions = xs\<rparr>)
                    (read_positions toNum ps)
              | _ \<Rightarrow> None)
      | _ \<Rightarrow> None)"

definition derivePerpRiskGate :: "HyperliquidAccountSnapshot \<Rightarrow> string \<Rightarrow> number \<Rightarrow> number \<Rightarrow> PerpRiskGate" where
  "derivePerpRiskGate snapshot coin markPrice dailyPnl =
     (let own = find (\<lambda>p. ap_coin p = coin) (positions snapshot);
          quantity = (case own of None \<Rightarrow> Fin 0 | Some p \<Rightarrow> ap_quantity p);
          ownNotional = \<bar>quantity\<bar> * markPrice;
          otherGross = js_max (Fin 0) (totalRawUsd snapshot - ownNotional)
      in \<lparr>admissionApproved = True, positionQuantity = quantity, gate_dailyPnl = dailyPnl,
          otherGrossExposureNotional = otherGross\<rparr>)"

subsection \<open>Fills\<close>

record PerpFillFact =
  pf_fillId :: string
  pf_side :: OrderSide
  pf_price :: number
  pf_quantity :: number
  pf_fee :: number
  pf_closedPnl :: number
  pf_fillTime :: number

text \<open>\<open>isWellFormedPerpFillFact\<close> of \<^verbatim>\<open>models/hyperliquid-fill-persistence.ts\<close>.\<close>

definition isWellFormedPerpFillFact :: "PerpFillFact \<Rightarrow> bool" where
  "isWellFormedPerpFillFact f \<longleftrightarrow>
     non_blank (pf_fillId f) \<and>
     isFinite (pf_price f) \<and> Fin 0 < pf_price f \<and>
     isFinite (pf_quantity f) \<and> Fin 0 < pf_quantity f \<and>
     isFinite (pf_fee f) \<and> Fin 0 \<le> pf_fee f \<and> isFinite (pf_closedPnl f) \<and>
     isSafeInteger (pf_fillTime f) \<and> Fin 0 \<le> pf_fillTime f"

text \<open>\<open>String(fillId)\<close> of a positive safe integer.\<close>

fun integer_text :: "number \<Rightarrow> string" where
  "integer_text (Fin r) = radix 10 (nat \<lfloor>r\<rfloor>)"
| "integer_text _ = []"

definition read_fill :: "(string \<Rightarrow> number) \<Rightarrow> json \<Rightarrow> PerpFillFact option" where
  "read_fill toNum entry =
     (let field = (\<lambda>k. get (Some entry) k); num = (\<lambda>k. finiteFrom toNum (field k))
      in case (num ''tid'', num ''px'', num ''sz'', num ''fee'', num ''closedPnl'', num ''time'',
               field ''side'') of
           (Some tid, Some px, Some sz, Some fe, Some closedPnl, Some fillTime,
            Some (JStr sd)) \<Rightarrow>
             if \<not> isSafeInteger tid \<or> tid \<le> Fin 0 \<or> px \<le> Fin 0 \<or> sz \<le> Fin 0 \<or>
                fe < Fin 0 \<or> \<not> isSafeInteger fillTime \<or> sd \<noteq> ''B'' \<and> sd \<noteq> ''A''
             then None
             else Some \<lparr>pf_fillId = integer_text tid,
               pf_side = (if sd = ''B'' then BUY else SELL), pf_price = px,
               pf_quantity = sz, pf_fee = fe, pf_closedPnl = closedPnl,
               pf_fillTime = fillTime\<rparr>
         | _ \<Rightarrow> None)"

fun read_fills :: "(string \<Rightarrow> number) \<Rightarrow> string \<Rightarrow> json list \<Rightarrow> PerpFillFact list option" where
  "read_fills toNum cloid [] = Some []"
| "read_fills toNum cloid (entry # xs) =
     (if get (Some entry) ''cloid'' \<noteq> Some (JStr cloid) then read_fills toNum cloid xs
      else case read_fill toNum entry of
             None \<Rightarrow> None
           | Some f \<Rightarrow> map_option (\<lambda>fs. f # fs) (read_fills toNum cloid xs))"

definition read_order_fills :: "(string \<Rightarrow> number) \<Rightarrow> (string \<Rightarrow> string) \<Rightarrow> string
    \<Rightarrow> json option \<Rightarrow> PerpFillFact list option" where
  "read_order_fills toNum cloidOf cid parsed =
     (case parsed of Some (JArr xs) \<Rightarrow> read_fills toNum (cloidOf cid) xs | _ \<Rightarrow> None)"

subsection \<open>Funding rates of the decision candles\<close>

type_synonym HyperliquidFundingSample = "number \<times> number"

text \<open>The inner loop: from the cursor, the samples before the end of the candle.\<close>

fun take_window :: "number \<Rightarrow> number \<Rightarrow> HyperliquidFundingSample list \<Rightarrow> number \<Rightarrow> nat
    \<Rightarrow> number \<times> nat \<times> HyperliquidFundingSample list" where
  "take_window lo hi [] acc count = (acc, count, [])"
| "take_window lo hi ((t, r) # samples) acc count =
     (if hi \<le> t then (acc, count, (t, r) # samples)
      else if lo \<le> t then take_window lo hi samples (acc + r) (Suc count)
      else take_window lo hi samples acc count)"

fun window_rates :: "number \<Rightarrow> number list \<Rightarrow> HyperliquidFundingSample list \<Rightarrow> number list option" where
  "window_rates timeframe [] samples = Some []"
| "window_rates timeframe (s # starts) samples =
     (case take_window s (s + timeframe) samples (Fin 0) 0 of
        (acc, count, rest) \<Rightarrow>
          if count = 0 then None
          else map_option (\<lambda>rs. acc / Fin (of_nat count) # rs) (window_rates timeframe starts rest))"

text \<open>The candles are given by their starts.\<close>

definition fundingRatesForCandles :: "number list \<Rightarrow> HyperliquidFundingSample list \<Rightarrow> number list option" where
  "fundingRatesForCandles starts samples =
     (if length starts < 2 then None
      else let timeframe = starts ! (length starts - 1) - starts ! (length starts - 2)
        in if \<not> isSafeInteger timeframe \<or> timeframe \<le> Fin 0 then None
           else window_rates timeframe starts samples)"

fun read_funding_samples :: "(string \<Rightarrow> number) \<Rightarrow> number \<Rightarrow> json list
    \<Rightarrow> HyperliquidFundingSample list option" where
  "read_funding_samples toNum startTime [] = Some []"
| "read_funding_samples toNum startTime (entry # xs) =
     (case (finiteFrom toNum (get (Some entry) ''time''),
            finiteFrom toNum (get (Some entry) ''fundingRate'')) of
        (Some t, Some r) \<Rightarrow>
          if t < startTime then None
          else map_option (\<lambda>ss. (t, r) # ss) (read_funding_samples toNum startTime xs)
      | _ \<Rightarrow> None)"

text \<open>The answer is asked for only when the request is well formed.\<close>

definition read_funding_history :: "(string \<Rightarrow> number) \<Rightarrow> string \<Rightarrow> number \<Rightarrow> json option
    \<Rightarrow> HyperliquidFundingSample list option" where
  "read_funding_history toNum coin startTime parsed =
     (if coin = [] \<or> \<not> isSafeInteger startTime \<or> startTime < Fin 0 then None
      else case parsed of Some (JArr xs) \<Rightarrow> read_funding_samples toNum startTime xs | _ \<Rightarrow> None)"

subsection \<open>From a signal to an intent\<close>

definition perpProductForSignal :: "string \<Rightarrow> string option" where
  "perpProductForSignal p =
     (if p = ''BTC-USD'' then Some ''BTC-PERP'' else if p = ''ETH-USD'' then Some ''ETH-PERP''
      else None)"

definition toPerpIntent :: "(number \<Rightarrow> number \<Rightarrow> number) \<Rightarrow> string \<Rightarrow> OrderSide \<Rightarrow> number \<Rightarrow> number
    \<Rightarrow> PerpOrderIntent option" where
  "toPerpIntent pow signalProduct sd q markPrice =
     (case perpProductForSignal signalProduct of
        None \<Rightarrow> None
      | Some p \<Rightarrow>
          (case sizeDecimals p of
             None \<Rightarrow> None
           | Some decimals \<Rightarrow>
               if \<not> isFinite q \<or> q \<le> Fin 0 then None
               else let factor = pow (Fin 10) decimals;
                        floored = js_floor (q * factor + TOLERANCE) / factor
                 in if floored \<le> Fin 0 then None
                    else Some \<lparr>perp_productId = p, perp_side = sd, perp_quantity = floored,
                           perp_markPrice = markPrice, perp_leverage = Fin 1\<rparr>))"

subsection \<open>Preflight\<close>

datatype HyperliquidPreflightFindingCode =
  HYPERLIQUID_MARKET_MISSING
| HYPERLIQUID_SIZE_DECIMALS_MISMATCH
| HYPERLIQUID_LEVERAGE_CAP_UNAVAILABLE

text \<open>A finding: product, code, and the number read, if any (the expectation is the envelope's).\<close>

type_synonym HyperliquidPreflightFinding =
  "string \<times> HyperliquidPreflightFindingCode \<times> number option"

definition preflight_product :: "HyperliquidMeta \<Rightarrow> string \<Rightarrow> HyperliquidPreflightFinding list" where
  "preflight_product universe p =
     (let asset = (case hyperliquidCoin p of
                     None \<Rightarrow> None
                   | Some coin \<Rightarrow>
                       find (\<lambda>entry. get (Some entry) ''name'' = Some (JStr coin)) universe)
      in case (get asset ''szDecimals'', get asset ''maxLeverage'') of
           (Some (JNum decimals), Some (JNum leverage)) \<Rightarrow>
             if \<not> (case sizeDecimals p of None \<Rightarrow> False | Some d \<Rightarrow> num_eq decimals d)
             then [(p, HYPERLIQUID_SIZE_DECIMALS_MISMATCH, Some decimals)]
             else if leverage < PERP_MAX_LEVERAGE
             then [(p, HYPERLIQUID_LEVERAGE_CAP_UNAVAILABLE, Some leverage)]
             else []
         | _ \<Rightarrow> [(p, HYPERLIQUID_MARKET_MISSING, None)])"

definition runHyperliquidPreflight :: "HyperliquidMeta option \<Rightarrow> HyperliquidPreflightFinding list" where
  "runHyperliquidPreflight meta =
     (case meta of
        None \<Rightarrow> [(hd PERP_PRODUCTS, HYPERLIQUID_MARKET_MISSING, None)]
      | Some universe \<Rightarrow> concat (map (preflight_product universe) PERP_PRODUCTS))"

end
