(* ===== verification/PerpStore.thy ===== *)
theory PerpStore
  imports PerpShell
begin

text \<open>
  The store of orders and fills: the two implementations of \<open>PerpOrderStore\<close>, in memory in
  \<^verbatim>\<open>apps/agent/src/hyperliquid-orchestrator.ts\<close> and over SQLite in
  \<^verbatim>\<open>apps/agent/src/hyperliquid-store.ts\<close>, and the contract both keep.  A table is the list of
  its rows in the order they were inserted; the text of an intent or of a fill is the value it
  encodes.  An operation that throws gives \<open>None\<close>.
\<close>

record PerpOrderRecord =
  rec_clientOrderId :: string
  rec_intent :: PerpOrderIntent
  rec_createdAt :: number

subsection \<open>In memory\<close>

record perp_memory =
  intents :: "PerpOrderRecord dict"
  outcomes :: "HyperliquidOrderOutcome dict"
  memory_fills :: "PerpFillFact dict"

definition memory_empty :: perp_memory where
  "memory_empty = \<lparr>intents = [], outcomes = [], memory_fills = []\<rparr>"

definition memory_persistOrderIntent :: "PerpOrderRecord \<Rightarrow> perp_memory \<Rightarrow> perp_memory" where
  "memory_persistOrderIntent r m =
     m\<lparr>intents := AList.update (rec_clientOrderId r) r (intents m)\<rparr>"

definition memory_persistOutcome :: "string \<Rightarrow> HyperliquidOrderOutcome \<Rightarrow> number \<Rightarrow> perp_memory
    \<Rightarrow> perp_memory" where
  "memory_persistOutcome k x settledAt m = m\<lparr>outcomes := AList.update k x (outcomes m)\<rparr>"

definition fill_key :: "string \<Rightarrow> string \<Rightarrow> string" where
  "fill_key k i = k @ '':'' @ i"

definition memory_persistFills :: "string \<Rightarrow> PerpFillFact list \<Rightarrow> number \<Rightarrow> perp_memory
    \<Rightarrow> perp_memory option" where
  "memory_persistFills k fs persistedAt m =
     Some (m\<lparr>memory_fills := foldl (\<lambda>d f.
       if has_own d (fill_key k (pf_fillId f)) then d
       else AList.update (fill_key k (pf_fillId f)) f d) (memory_fills m) fs\<rparr>)"

definition memory_missing_fills :: "nat \<Rightarrow> perp_memory \<Rightarrow> string list option" where
  "memory_missing_fills limit m =
     (if limit < 1 then None
      else Some (take limit (map fst (filter (\<lambda>(k, x).
        x = ACCEPTED \<and> \<not> list_ex (\<lambda>(key, _). starts_with key (k @ '':'')) (memory_fills m))
        (rev (outcomes m))))))"

definition memory_unresolved :: "perp_memory \<Rightarrow> PerpOrderRecord list" where
  "memory_unresolved m =
     rev (filter (\<lambda>r. \<not> has_own (outcomes m) (rec_clientOrderId r)) (map snd (intents m)))"

subsection \<open>Over SQLite\<close>

record perp_row =
  row_clientOrderId :: string
  row_intent :: PerpOrderIntent
  row_outcome :: "HyperliquidOrderOutcome option"
  row_createdAt :: number
  row_settledAt :: "number option"

record perp_tables =
  perp_orders :: "perp_row list"
  perp_fills :: "((string \<times> string) \<times> PerpFillFact) list"

definition tables_empty :: perp_tables where
  "tables_empty = \<lparr>perp_orders = [], perp_fills = []\<rparr>"

text \<open>\<open>INSERT OR IGNORE\<close> on the primary key \<open>client_order_id\<close>.\<close>

definition sql_persistOrderIntent :: "PerpOrderRecord \<Rightarrow> perp_tables \<Rightarrow> perp_tables" where
  "sql_persistOrderIntent r s =
     (if list_ex (\<lambda>w. row_clientOrderId w = rec_clientOrderId r) (perp_orders s) then s
      else s\<lparr>perp_orders := perp_orders s @
        [\<lparr>row_clientOrderId = rec_clientOrderId r, row_intent = rec_intent r, row_outcome = None,
          row_createdAt = rec_createdAt r, row_settledAt = None\<rparr>]\<rparr>)"

text \<open>\<open>UPDATE ... WHERE client_order_id = ? AND outcome IS NULL\<close>.\<close>

definition sql_persistOutcome :: "string \<Rightarrow> HyperliquidOrderOutcome \<Rightarrow> number \<Rightarrow> perp_tables
    \<Rightarrow> perp_tables" where
  "sql_persistOutcome k x settledAt s =
     s\<lparr>perp_orders := map (\<lambda>w.
       if row_clientOrderId w = k \<and> row_outcome w = None
       then w\<lparr>row_outcome := Some x, row_settledAt := Some settledAt\<rparr> else w) (perp_orders s)\<rparr>"

text \<open>\<open>ORDER BY key DESC\<close>, equal keys in the order of the table.\<close>

primrec insert_desc :: "('v \<Rightarrow> 'v \<Rightarrow> bool) \<Rightarrow> 'v \<Rightarrow> 'v list \<Rightarrow> 'v list" where
  "insert_desc before x [] = [x]"
| "insert_desc before x (y # ys) = (if before y x then y # insert_desc before x ys else x # y # ys)"

definition order_by :: "('v \<Rightarrow> 'v \<Rightarrow> bool) \<Rightarrow> 'v list \<Rightarrow> 'v list" where
  "order_by before xs = foldr (insert_desc before) xs []"

definition sql_unresolved :: "perp_tables \<Rightarrow> PerpOrderRecord list" where
  "sql_unresolved s =
     map (\<lambda>w. \<lparr>rec_clientOrderId = row_clientOrderId w, rec_intent = row_intent w,
                rec_createdAt = Fin 0\<rparr>)
       (order_by (\<lambda>v w. row_createdAt w < row_createdAt v)
         (filter (\<lambda>w. row_outcome w = None) (perp_orders s)))"

definition settled_later :: "perp_row \<Rightarrow> perp_row \<Rightarrow> bool" where
  "settled_later v w =
     (case (row_settledAt v, row_settledAt w) of
        (Some t, Some u) \<Rightarrow> u < t \<or> (num_eq t u \<and> row_clientOrderId w < row_clientOrderId v)
      | (Some t, None) \<Rightarrow> True
      | (None, Some u) \<Rightarrow> False
      | (None, None) \<Rightarrow> row_clientOrderId w < row_clientOrderId v)"

definition sql_missing_fills :: "nat \<Rightarrow> perp_tables \<Rightarrow> string list option" where
  "sql_missing_fills limit s =
     (if limit < 1 then None
      else Some (take limit (map row_clientOrderId (order_by settled_later
        (filter (\<lambda>w. row_outcome w = Some ACCEPTED \<and>
           \<not> list_ex (\<lambda>((k, _), _). k = row_clientOrderId w) (perp_fills s)) (perp_orders s))))))"

text \<open>Every fill is checked before the first is written; \<open>INSERT OR IGNORE\<close> on the key.\<close>

definition insert_fill :: "string \<Rightarrow> ((string \<times> string) \<times> PerpFillFact) list \<Rightarrow> PerpFillFact
    \<Rightarrow> ((string \<times> string) \<times> PerpFillFact) list" where
  "insert_fill k d f = (if (k, pf_fillId f) \<in> fst ` set d then d else d @ [((k, pf_fillId f), f)])"

definition sql_persistFills :: "string \<Rightarrow> PerpFillFact list \<Rightarrow> number \<Rightarrow> perp_tables
    \<Rightarrow> perp_tables option" where
  "sql_persistFills k fs persistedAt s =
     (if list_all isWellFormedPerpFillFact fs
      then Some (s\<lparr>perp_fills := foldl (insert_fill k) (perp_fills s) fs\<rparr>) else None)"

subsection \<open>The contract\<close>

text \<open>
  What recovery relies on: the orders without an outcome are listed; an intent once written is
  among them until an outcome is written for it; fills change neither.
\<close>

locale perp_order_store =
  fixes put_intent :: "PerpOrderRecord \<Rightarrow> 's \<Rightarrow> 's"
    and put_outcome :: "string \<Rightarrow> HyperliquidOrderOutcome \<Rightarrow> number \<Rightarrow> 's \<Rightarrow> 's"
    and put_fills :: "string \<Rightarrow> PerpFillFact list \<Rightarrow> number \<Rightarrow> 's \<Rightarrow> 's option"
    and unresolved :: "'s \<Rightarrow> PerpOrderRecord list"
    and resolved :: "'s \<Rightarrow> string \<Rightarrow> bool"
    and store_ok :: "'s \<Rightarrow> bool"
  assumes ok_intent: "store_ok s \<Longrightarrow> store_ok (put_intent r s)"
    and ok_outcome: "store_ok s \<Longrightarrow> store_ok (put_outcome k x t s)"
    and ok_fills: "store_ok s \<Longrightarrow> put_fills k fs t s = Some s' \<Longrightarrow> store_ok s'"
    and unresolved_intent: "store_ok s \<Longrightarrow>
      rec_clientOrderId ` set (unresolved (put_intent r s)) =
        (if resolved s (rec_clientOrderId r) then rec_clientOrderId ` set (unresolved s)
         else insert (rec_clientOrderId r) (rec_clientOrderId ` set (unresolved s)))"
    and unresolved_outcome: "store_ok s \<Longrightarrow>
      rec_clientOrderId ` set (unresolved (put_outcome k x t s)) =
        rec_clientOrderId ` set (unresolved s) - {k}"
    and unresolved_fills: "store_ok s \<Longrightarrow> put_fills k fs t s = Some s' \<Longrightarrow>
      unresolved s' = unresolved s"
    and unresolved_disjoint: "store_ok s \<Longrightarrow> r \<in> set (unresolved s) \<Longrightarrow>
      \<not> resolved s (rec_clientOrderId r)"

text \<open>The writes of a run.\<close>

datatype store_write =
  WroteIntent PerpOrderRecord
| WroteOutcome string HyperliquidOrderOutcome number
| WroteFills string "PerpFillFact list" number

definition store_write :: "(PerpOrderRecord \<Rightarrow> 's \<Rightarrow> 's)
    \<Rightarrow> (string \<Rightarrow> HyperliquidOrderOutcome \<Rightarrow> number \<Rightarrow> 's \<Rightarrow> 's)
    \<Rightarrow> (string \<Rightarrow> PerpFillFact list \<Rightarrow> number \<Rightarrow> 's \<Rightarrow> 's option) \<Rightarrow> 's \<Rightarrow> store_write \<Rightarrow> 's" where
  "store_write put_intent put_outcome put_fills s w =
     (case w of
        WroteIntent r \<Rightarrow> put_intent r s
      | WroteOutcome k x t \<Rightarrow> put_outcome k x t s
      | WroteFills k fs t \<Rightarrow> (case put_fills k fs t s of None \<Rightarrow> s | Some s' \<Rightarrow> s'))"

context perp_order_store
begin

abbreviation writes :: "'s \<Rightarrow> store_write list \<Rightarrow> 's" where
  "writes \<equiv> foldl (store_write put_intent put_outcome put_fills)"

abbreviation open_ids :: "'s \<Rightarrow> string set" where
  "open_ids s \<equiv> rec_clientOrderId ` set (unresolved s)"

lemma write_ok: "store_ok s \<Longrightarrow> store_ok (store_write put_intent put_outcome put_fills s w)"
  by (auto simp: store_write_def ok_intent ok_outcome split: store_write.splits option.splits
      intro: ok_fills)

lemma write_open:
  assumes "store_ok s" "k \<in> open_ids s" "\<And>x t. w \<noteq> WroteOutcome k x t"
  shows "k \<in> open_ids (store_write put_intent put_outcome put_fills s w)"
  using assms
  by (auto simp: store_write_def unresolved_intent unresolved_outcome unresolved_fills
      split: store_write.splits option.splits)

text \<open>An open order stays open until its outcome is written.\<close>

lemma open_until_outcome:
  assumes "store_ok s" "k \<in> open_ids s" "\<And>x t. WroteOutcome k x t \<notin> set ws"
  shows "k \<in> open_ids (writes s ws)"
  using assms
proof (induction ws arbitrary: s)
  case (Cons w ws)
  have "k \<in> open_ids (store_write put_intent put_outcome put_fills s w)"
    by (rule write_open) (use Cons.prems in auto)
  with Cons show ?case
    by (simp add: write_ok)
qed simp

lemma intent_opens:
  assumes "store_ok s" "\<not> resolved s (rec_clientOrderId r)"
    "\<And>x t. WroteOutcome (rec_clientOrderId r) x t \<notin> set ws"
  shows "rec_clientOrderId r \<in> open_ids (writes s (WroteIntent r # ws))"
  using assms
  by (auto simp: store_write_def unresolved_intent ok_intent intro!: open_until_outcome)

end

subsection \<open>Both stores keep it\<close>

definition memory_ok :: "perp_memory \<Rightarrow> bool" where
  "memory_ok m \<longleftrightarrow> distinct (map fst (intents m)) \<and> (\<forall>(k, r) \<in> set (intents m). rec_clientOrderId r = k)"

definition memory_resolved :: "perp_memory \<Rightarrow> string \<Rightarrow> bool" where
  "memory_resolved m k \<longleftrightarrow> has_own (outcomes m) k"

definition tables_ok :: "perp_tables \<Rightarrow> bool" where
  "tables_ok s \<longleftrightarrow> distinct (map row_clientOrderId (perp_orders s))"

definition tables_resolved :: "perp_tables \<Rightarrow> string \<Rightarrow> bool" where
  "tables_resolved s k \<longleftrightarrow>
     list_ex (\<lambda>w. row_clientOrderId w = k \<and> row_outcome w \<noteq> None) (perp_orders s)"

lemma set_insert_desc [simp]: "set (insert_desc before x ys) = insert x (set ys)"
  by (induction ys) auto

lemma set_order_by [simp]: "set (order_by before xs) = set xs"
  by (induction xs) (simp_all add: order_by_def)

lemma sql_open_ids:
  "rec_clientOrderId ` set (sql_unresolved s) =
     row_clientOrderId ` {w \<in> set (perp_orders s). row_outcome w = None}"
  by (auto simp: sql_unresolved_def image_image)

lemma memory_open_ids:
  "memory_ok m \<Longrightarrow>
     rec_clientOrderId ` set (memory_unresolved m) = {k \<in> fst ` set (intents m). \<not> has_own (outcomes m) k}"
  by (force simp: memory_unresolved_def memory_ok_def)

lemma in_update: "p \<in> set (AList.update k v xs) \<Longrightarrow> p = (k, v) \<or> p \<in> set xs"
  by (induction xs) (auto split: if_splits)

interpretation memory: perp_order_store memory_persistOrderIntent memory_persistOutcome
  memory_persistFills memory_unresolved memory_resolved memory_ok
proof
  fix r m k x t fs m'
  assume ok: "memory_ok m"
  show ok': "memory_ok (memory_persistOrderIntent r m)"
    using ok by (auto simp: memory_ok_def memory_persistOrderIntent_def distinct_update
        dest!: in_update)
  show "memory_ok (memory_persistOutcome k x t m)"
    using ok by (simp add: memory_ok_def memory_persistOutcome_def)
  show "rec_clientOrderId ` set (memory_unresolved (memory_persistOrderIntent r m)) =
      (if memory_resolved m (rec_clientOrderId r) then rec_clientOrderId ` set (memory_unresolved m)
       else insert (rec_clientOrderId r) (rec_clientOrderId ` set (memory_unresolved m)))"
    using ok ok' by (auto simp: memory_open_ids memory_persistOrderIntent_def memory_resolved_def
        dom_update)
  show "rec_clientOrderId ` set (memory_unresolved (memory_persistOutcome k x t m)) =
      rec_clientOrderId ` set (memory_unresolved m) - {k}"
    using ok by (auto simp: memory_unresolved_def memory_persistOutcome_def)
  show "\<not> memory_resolved m (rec_clientOrderId r)" if "r \<in> set (memory_unresolved m)"
    using that by (auto simp: memory_unresolved_def memory_resolved_def)
  assume "memory_persistFills k fs t m = Some m'"
  then show "memory_ok m'" "memory_unresolved m' = memory_unresolved m"
    using ok by (auto simp: memory_persistFills_def memory_ok_def memory_unresolved_def)
qed

lemma open_row_after:
  "w \<in> set (perp_orders (sql_persistOutcome k x t s)) \<and> row_outcome w = None \<longleftrightarrow>
     w \<in> set (perp_orders s) \<and> row_outcome w = None \<and> row_clientOrderId w \<noteq> k"
proof -
  define f where "f v = (if row_clientOrderId v = k \<and> row_outcome v = None
      then v\<lparr>row_outcome := Some x, row_settledAt := Some t\<rparr> else v)" for v :: perp_row
  have f: "row_outcome (f v) = None \<longleftrightarrow> row_outcome v = None \<and> row_clientOrderId v \<noteq> k"
    "row_outcome (f v) = None \<Longrightarrow> f v = v" for v
    by (auto simp: f_def)
  have "perp_orders (sql_persistOutcome k x t s) = map f (perp_orders s)"
    by (simp add: sql_persistOutcome_def f_def)
  then show ?thesis
    using f by (auto simp: image_iff) (metis f)+
qed

interpretation sql: perp_order_store sql_persistOrderIntent sql_persistOutcome
  sql_persistFills sql_unresolved tables_resolved tables_ok
proof
  fix r s k x t fs s'
  assume ok: "tables_ok s"
  show "tables_ok (sql_persistOrderIntent r s)"
    using ok by (auto simp: tables_ok_def sql_persistOrderIntent_def list_ex_iff)
  have "map row_clientOrderId (map (\<lambda>w. if row_clientOrderId w = k \<and> row_outcome w = None
      then w\<lparr>row_outcome := Some x, row_settledAt := Some t\<rparr> else w) ws) = map row_clientOrderId ws"
    for ws :: "perp_row list"
    by (induction ws) auto
  then show "tables_ok (sql_persistOutcome k x t s)"
    using ok by (simp add: tables_ok_def sql_persistOutcome_def del: map_map)
  show "rec_clientOrderId ` set (sql_unresolved (sql_persistOrderIntent r s)) =
      (if tables_resolved s (rec_clientOrderId r) then rec_clientOrderId ` set (sql_unresolved s)
       else insert (rec_clientOrderId r) (rec_clientOrderId ` set (sql_unresolved s)))"
    using ok unfolding sql_open_ids
    by (auto simp: sql_persistOrderIntent_def tables_resolved_def list_ex_iff tables_ok_def
        distinct_map inj_on_def image_iff conj_disj_distribR ex_disj_distrib) metis
  show "rec_clientOrderId ` set (sql_unresolved (sql_persistOutcome k x t s)) =
      rec_clientOrderId ` set (sql_unresolved s) - {k}"
    unfolding sql_open_ids by (auto simp: open_row_after)
  show "\<not> tables_resolved s (rec_clientOrderId r)" if "r \<in> set (sql_unresolved s)"
    using that ok
    by (auto simp: sql_unresolved_def tables_resolved_def list_ex_iff tables_ok_def distinct_map
        inj_on_def)
  assume "sql_persistFills k fs t s = Some s'"
  then show "tables_ok s'" "sql_unresolved s' = sql_unresolved s"
    using ok by (auto simp: sql_persistFills_def tables_ok_def sql_unresolved_def split: if_splits)
qed

end
