(* ===== verification/PerpRunner.thy ===== *)
theory PerpRunner
  imports PerpStore Workflow
begin

text \<open>
  The runner of perpetual orders, \<^verbatim>\<open>apps/agent/src/hyperliquid-orchestrator.ts\<close>, and the control
  functions that call it, \<^verbatim>\<open>apps/agent/src/hyperliquid-control.ts\<close>.  It awaits one effect at a
  time, so an asynchronous function is a program: a tree whose inner nodes are the effect
  requested, with what to do on each answer.  A network or storage effect that throws answers
  \<open>None\<close> or \<open>False\<close>; a signature and the submission of its payload are values of the type \<open>'sub\<close>.
  The machine of the order is the snapshot the program carries, driven by \<open>init\<close> and \<open>send\<close>.
  Console output is left out.
\<close>

subsection \<open>Programs\<close>

datatype ('sub, 'a) prog =
  Return 'a
| FetchMeta "HyperliquidMeta option \<Rightarrow> ('sub, 'a) prog"
| SignOrder PerpOrderIntent nat string "'sub option \<Rightarrow> ('sub, 'a) prog"
| SubmitOrder 'sub "HyperliquidSubmitIssue \<Rightarrow> ('sub, 'a) prog"
| ReconcileOrder string "HyperliquidReconciliationIssue \<Rightarrow> ('sub, 'a) prog"
| FetchFills string "PerpFillFact list option \<Rightarrow> ('sub, 'a) prog"
| ReadClock "number \<Rightarrow> ('sub, 'a) prog"
| PutIntent PerpOrderRecord "bool \<Rightarrow> ('sub, 'a) prog"
| PutOutcome string HyperliquidOrderOutcome number "bool \<Rightarrow> ('sub, 'a) prog"
| PutFills string "PerpFillFact list" number "bool \<Rightarrow> ('sub, 'a) prog"
| LoadUnresolved "PerpOrderRecord list option \<Rightarrow> ('sub, 'a) prog"
| LoadMissingFills nat "string list option \<Rightarrow> ('sub, 'a) prog"
| FetchAccount "HyperliquidAccountSnapshot option \<Rightarrow> ('sub, 'a) prog"

primrec andThen :: "('sub, 'a) prog \<Rightarrow> ('a \<Rightarrow> ('sub, 'b) prog) \<Rightarrow> ('sub, 'b) prog" where
  "andThen (Return a) f = f a"
| "andThen (FetchMeta k) f = FetchMeta (\<lambda>x. andThen (k x) f)"
| "andThen (SignOrder i n c k) f = SignOrder i n c (\<lambda>x. andThen (k x) f)"
| "andThen (SubmitOrder u k) f = SubmitOrder u (\<lambda>x. andThen (k x) f)"
| "andThen (ReconcileOrder c k) f = ReconcileOrder c (\<lambda>x. andThen (k x) f)"
| "andThen (FetchFills c k) f = FetchFills c (\<lambda>x. andThen (k x) f)"
| "andThen (ReadClock k) f = ReadClock (\<lambda>x. andThen (k x) f)"
| "andThen (PutIntent r k) f = PutIntent r (\<lambda>x. andThen (k x) f)"
| "andThen (PutOutcome c y t k) f = PutOutcome c y t (\<lambda>x. andThen (k x) f)"
| "andThen (PutFills c fs t k) f = PutFills c fs t (\<lambda>x. andThen (k x) f)"
| "andThen (LoadUnresolved k) f = LoadUnresolved (\<lambda>x. andThen (k x) f)"
| "andThen (LoadMissingFills n k) f = LoadMissingFills n (\<lambda>x. andThen (k x) f)"
| "andThen (FetchAccount k) f = FetchAccount (\<lambda>x. andThen (k x) f)"

text \<open>What an outside observer sees of a run: the effects, in order, with their answers.\<close>

datatype 'sub effect =
  MetaFetched "HyperliquidMeta option"
| Signed PerpOrderIntent string "'sub option"
| Submitted 'sub HyperliquidSubmitIssue
| Reconciled string HyperliquidReconciliationIssue
| FillsRead string "PerpFillFact list option"
| ClockRead number
| IntentPut PerpOrderRecord bool
| OutcomePut string HyperliquidOrderOutcome number bool
| FillsPut string "PerpFillFact list" number bool
| UnresolvedLoaded "PerpOrderRecord list option"
| MissingLoaded nat "string list option"
| AccountFetched "HyperliquidAccountSnapshot option"

inductive runs :: "('sub, 'a) prog \<Rightarrow> 'sub effect list \<Rightarrow> 'a \<Rightarrow> bool" where
  run_return: "runs (Return a) [] a"
| run_meta: "runs (k x) tr a \<Longrightarrow> runs (FetchMeta k) (MetaFetched x # tr) a"
| run_sign: "runs (k x) tr a \<Longrightarrow> runs (SignOrder i n c k) (Signed i c x # tr) a"
| run_submit: "runs (k x) tr a \<Longrightarrow> runs (SubmitOrder u k) (Submitted u x # tr) a"
| run_reconcile: "runs (k x) tr a \<Longrightarrow> runs (ReconcileOrder c k) (Reconciled c x # tr) a"
| run_fills: "runs (k x) tr a \<Longrightarrow> runs (FetchFills c k) (FillsRead c x # tr) a"
| run_clock: "runs (k x) tr a \<Longrightarrow> runs (ReadClock k) (ClockRead x # tr) a"
| run_intent: "runs (k x) tr a \<Longrightarrow> runs (PutIntent r k) (IntentPut r x # tr) a"
| run_outcome: "runs (k x) tr a \<Longrightarrow> runs (PutOutcome c y t k) (OutcomePut c y t x # tr) a"
| run_put_fills: "runs (k x) tr a \<Longrightarrow> runs (PutFills c fs t k) (FillsPut c fs t x # tr) a"
| run_unresolved: "runs (k x) tr a \<Longrightarrow> runs (LoadUnresolved k) (UnresolvedLoaded x # tr) a"
| run_missing: "runs (k x) tr a \<Longrightarrow> runs (LoadMissingFills n k) (MissingLoaded n x # tr) a"
| run_account: "runs (k x) tr a \<Longrightarrow> runs (FetchAccount k) (AccountFetched x # tr) a"

inductive_simps runs_simps [simp]:
  "runs (Return a) tr b"
  "runs (FetchMeta k) tr b"
  "runs (SignOrder i n c k) tr b"
  "runs (SubmitOrder u k) tr b"
  "runs (ReconcileOrder c k) tr b"
  "runs (FetchFills c k) tr b"
  "runs (ReadClock k) tr b"
  "runs (PutIntent r k) tr b"
  "runs (PutOutcome c y t k) tr b"
  "runs (PutFills c fs t k) tr b"
  "runs (LoadUnresolved k) tr b"
  "runs (LoadMissingFills n k) tr b"
  "runs (FetchAccount k) tr b"

text \<open>A run of a sequence is a run of its first part, then one of its second.\<close>

lemma runs_split:
  "runs (andThen p f) tr b \<Longrightarrow> \<exists>tr1 a tr2. tr = tr1 @ tr2 \<and> runs p tr1 a \<and> runs (f a) tr2 b"
proof (induction p arbitrary: tr)
  case (Return x)
  then show ?case by simp
qed (simp, metis append_Cons rangeI)+

lemma runs_join: "runs p tr1 a \<Longrightarrow> runs (f a) tr2 b \<Longrightarrow> runs (andThen p f) (tr1 @ tr2) b"
  by (induction p tr1 a rule: runs.induct) simp_all

subsection \<open>The runner\<close>

datatype HyperliquidPerpRunResult =
  SETTLED HyperliquidOrderOutcome string nat
| RUN_REFUSED PerpRefusalCode
| RUN_FAILED perpErrorCode

record HyperliquidRecoveryReport =
  recovered :: nat
  unresolved_orders :: int
  fillPersistenceFailures :: nat
  fillBackfillFilled :: nat
  fillBackfillFailures :: nat
  fillBackfillUnresolved :: nat
  fillBackfillTruncated :: bool

datatype FillPersistIssue = PERSISTED nat | EMPTY | READ_FAILED | WRITE_FAILED

definition PERP_FILL_BACKFILL_MAX_GAPS_PER_CYCLE :: nat where
  "PERP_FILL_BACKFILL_MAX_GAPS_PER_CYCLE = 10"

definition candidateFor :: "string \<Rightarrow> HyperliquidPerpCandidate" where
  "candidateFor p =
     \<lparr>cand_executionMode = LIVE_MODE, cand_venue = PERP_VENUE, cand_productId = p,
      cand_timeframe = PERP_TIMEFRAME, cand_maxLeverage = PERP_MAX_LEVERAGE,
      cand_risk = PERP_RISK\<rparr>"

type_synonym perp_snapshot = "(perpState, HyperliquidPerpOrderContext) snapshot"
type_synonym perp_sender = "perp_snapshot \<Rightarrow> HyperliquidPerpOrderEvent \<Rightarrow> perp_snapshot"

definition signOnce :: "PerpOrderIntent \<Rightarrow> string \<Rightarrow> ('sub, 'sub option) prog" where
  "signOnce i cid =
     FetchMeta (\<lambda>meta.
       case (case (meta, hyperliquidCoin (perp_productId i)) of
               (Some universe, Some coin) \<Rightarrow> assetIndexForCoin universe coin
             | _ \<Rightarrow> None) of
         None \<Rightarrow> Return None
       | Some assetIndex \<Rightarrow> SignOrder i assetIndex cid Return)"

text \<open>The count \<open>n\<close> of failed fill reads and writes belongs to the runner and is threaded through.\<close>

definition persistReconciledFills :: "string \<Rightarrow> nat \<Rightarrow> ('sub, FillPersistIssue \<times> nat) prog" where
  "persistReconciledFills cid n =
     FetchFills cid (\<lambda>fills.
       case fills of
         None \<Rightarrow> Return (READ_FAILED, n + 1)
       | Some fs \<Rightarrow>
           if fs = [] then Return (EMPTY, n)
           else ReadClock (\<lambda>t. PutFills cid fs t (\<lambda>written.
             if written then Return (PERSISTED (length fs), n)
             else Return (WRITE_FAILED, n + 1))))"

primrec backfill_loop :: "string list \<Rightarrow> nat \<Rightarrow> nat \<Rightarrow> nat \<Rightarrow> nat
    \<Rightarrow> ('sub, nat \<times> nat \<times> nat \<times> nat) prog" where
  "backfill_loop [] filled failures left n = Return (filled, failures, left, n)"
| "backfill_loop (cid # cids) filled failures left n =
     andThen (persistReconciledFills cid n) (\<lambda>(issue, n).
       case issue of
         PERSISTED _ \<Rightarrow> backfill_loop cids (filled + 1) failures left n
       | EMPTY \<Rightarrow> backfill_loop cids filled failures (left + 1) n
       | READ_FAILED \<Rightarrow> backfill_loop cids filled (failures + 1) (left + 1) n
       | WRITE_FAILED \<Rightarrow> backfill_loop cids filled (failures + 1) (left + 1) n)"

text \<open>The answer: filled, failures, unresolved, truncated; and the count.\<close>

definition backfillMissingFills :: "nat \<Rightarrow> ('sub, (nat \<times> nat \<times> nat \<times> bool) \<times> nat) prog" where
  "backfillMissingFills n =
     LoadMissingFills (PERP_FILL_BACKFILL_MAX_GAPS_PER_CYCLE + 1) (\<lambda>answer.
       case answer of
         None \<Rightarrow> Return ((0, 1, 0, False), n)
       | Some detected \<Rightarrow>
           andThen (backfill_loop (take PERP_FILL_BACKFILL_MAX_GAPS_PER_CYCLE detected) 0 0 0 n)
             (\<lambda>(filled, failures, left, n).
               Return ((filled, failures, left,
                 PERP_FILL_BACKFILL_MAX_GAPS_PER_CYCLE < length detected), n)))"

definition run_result :: "perp_snapshot \<Rightarrow> string \<Rightarrow> nat \<Rightarrow> HyperliquidPerpRunResult" where
  "run_result m cid n =
     (if fst m = Settled
      then SETTLED (case outcome (snd m) of None \<Rightarrow> REJECTED | Some x \<Rightarrow> x) cid n
      else RUN_FAILED (case lastError (snd m) of None \<Rightarrow> PERSIST_OUTCOME_FAILED | Some x \<Rightarrow> x))"

definition finishOutcome :: "perp_sender \<Rightarrow> perp_snapshot \<Rightarrow> string \<Rightarrow> bool \<Rightarrow> nat
    \<Rightarrow> ('sub, HyperliquidPerpRunResult \<times> nat) prog" where
  "finishOutcome send m cid fillsHandled n =
     (if fst m \<noteq> PersistingOutcome then Return (run_result m cid n, n)
      else
        let x = (case outcome (snd m) of None \<Rightarrow> REJECTED | Some y \<Rightarrow> y)
        in andThen (if x = ACCEPTED \<and> \<not> fillsHandled then persistReconciledFills cid n
                    else Return (EMPTY, n))
          (\<lambda>(_, n). ReadClock (\<lambda>t. PutOutcome cid x t (\<lambda>written.
             let m' = send m (if written then PERSIST_SUCCEEDED
                              else PERSIST_FAILED PERSIST_OUTCOME_FAILED)
             in Return (run_result m' cid n, n)))))"

definition reconcileInFlight :: "perp_sender \<Rightarrow> perp_snapshot \<Rightarrow> string \<Rightarrow> nat
    \<Rightarrow> ('sub, HyperliquidPerpRunResult \<times> nat) prog" where
  "reconcileInFlight send m cid n =
     ReconcileOrder cid (\<lambda>issue.
       andThen (if issue = RESOLVED ACCEPTED then persistReconciledFills cid n
                else Return (EMPTY, n))
         (\<lambda>(_, n).
           let m' = send m (case issue of
                 RESOLVED x \<Rightarrow> RECONCILIATION_RESOLVED x
               | UNRESOLVED \<Rightarrow> RECONCILIATION_FAILED RECONCILIATION_FAILED_CODE)
           in finishOutcome send m' cid True n))"

text \<open>
  \<open>runOrder\<close>, cut where the machine may have failed: after the intent is written, after the
  signature, after the submission.
\<close>

definition after_submission :: "perp_sender \<Rightarrow> perp_snapshot \<Rightarrow> string \<Rightarrow> nat
    \<Rightarrow> ('sub, HyperliquidPerpRunResult \<times> nat) prog" where
  "after_submission send m cid n =
     (if fst m = Reconciling then reconcileInFlight send m cid n
      else finishOutcome send m cid False n)"

definition submit_once :: "perp_sender \<Rightarrow> perp_snapshot \<Rightarrow> string \<Rightarrow> 'sub option \<Rightarrow> nat
    \<Rightarrow> ('sub, HyperliquidPerpRunResult \<times> nat) prog" where
  "submit_once send m cid submission n =
     (if fst m = Failed
      then Return (RUN_FAILED (case lastError (snd m) of None \<Rightarrow> SIGN_FAILED_CODE | Some x \<Rightarrow> x), n)
      else case submission of
        Some payload \<Rightarrow>
          if fst m = Submitting
          then SubmitOrder payload (\<lambda>issue.
            after_submission send (send m (case issue of
                SUBMIT_OK \<Rightarrow> SUBMIT_ACCEPTED
              | SUBMIT_REFUSED _ \<Rightarrow> SUBMIT_REJECTED
              | SUBMIT_DOUBT \<Rightarrow> SUBMIT_UNKNOWN)) cid n)
          else after_submission send m cid n
      | None \<Rightarrow> after_submission send m cid n)"

definition sign_and_submit :: "perp_sender \<Rightarrow> perp_snapshot \<Rightarrow> PerpOrderIntent \<Rightarrow> string \<Rightarrow> nat
    \<Rightarrow> ('sub, HyperliquidPerpRunResult \<times> nat) prog" where
  "sign_and_submit send m i cid n =
     (if fst m = Failed
      then Return (RUN_FAILED (case lastError (snd m) of None \<Rightarrow> PERSIST_INTENT_FAILED | Some x \<Rightarrow> x), n)
      else if fst m = Signing
      then andThen (signOnce i cid) (\<lambda>signed.
        submit_once send
          (send m (if signed \<noteq> None then ACTION_SIGNED else SIGN_FAILED SIGN_FAILED_CODE))
          cid signed n)
      else submit_once send m cid None n)"

definition runOrder :: "(HyperliquidPerpOrderContext \<Rightarrow> perp_snapshot) \<Rightarrow> perp_sender
    \<Rightarrow> PerpOrderIntent \<Rightarrow> PerpRiskGate \<Rightarrow> string \<Rightarrow> nat
    \<Rightarrow> ('sub, HyperliquidPerpRunResult \<times> nat) prog" where
  "runOrder init send i g cid n =
     (if admitHyperliquidPerpConfiguration (candidateFor (perp_productId i)) \<noteq> ADMITTED
      then Return (RUN_REFUSED PERP_ADMISSION_REQUIRED, n)
      else
        let m = send (init perp_context) (ORDER_INTENT_REQUESTED i g cid True)
        in if fst m = Idle
           then Return (RUN_REFUSED
             (case lastRefusal (snd m) of None \<Rightarrow> PERP_INTENT_INVALID | Some r \<Rightarrow> r), n)
           else if fst m = PersistingIntent
           then ReadClock (\<lambda>t. PutIntent
             \<lparr>rec_clientOrderId = cid, rec_intent = i, rec_createdAt = t\<rparr> (\<lambda>written.
               sign_and_submit send
                 (send m (if written then INTENT_PERSIST_SUCCEEDED
                          else INTENT_PERSIST_FAILED PERSIST_INTENT_FAILED)) i cid n))
           else sign_and_submit send m i cid n)"

primrec recover_loop :: "(HyperliquidPerpOrderContext \<Rightarrow> perp_snapshot) \<Rightarrow> perp_sender
    \<Rightarrow> PerpOrderRecord list \<Rightarrow> nat \<Rightarrow> nat \<Rightarrow> ('sub, nat \<times> nat) prog" where
  "recover_loop init send [] settled n = Return (settled, n)"
| "recover_loop init send (r # rs) settled n =
     (let m = send (init perp_context)
            (ORDER_RECOVERY_REQUESTED (rec_intent r) (rec_clientOrderId r))
      in if fst m \<noteq> Reconciling then recover_loop init send rs settled n
         else andThen (reconcileInFlight send m (rec_clientOrderId r) n) (\<lambda>(result, n).
           recover_loop init send rs
             (case result of SETTLED _ _ _ \<Rightarrow> settled + 1 | _ \<Rightarrow> settled) n))"

text \<open>The answer \<open>None\<close>: the store threw while listing the orders in flight.\<close>

definition recoverPending :: "(HyperliquidPerpOrderContext \<Rightarrow> perp_snapshot) \<Rightarrow> perp_sender
    \<Rightarrow> nat \<Rightarrow> ('sub, HyperliquidRecoveryReport option) prog" where
  "recoverPending init send n =
     LoadUnresolved (\<lambda>answer.
       case answer of
         None \<Rightarrow> Return None
       | Some pending \<Rightarrow>
           andThen (recover_loop init send pending 0 n) (\<lambda>(settled, n).
             andThen (backfillMissingFills n) (\<lambda>((filled, failures, left, truncated), n).
               Return (Some
                 \<lparr>recovered = settled, unresolved_orders = int (length pending) - int settled,
                  fillPersistenceFailures = n, fillBackfillFilled = filled,
                  fillBackfillFailures = failures, fillBackfillUnresolved = left,
                  fillBackfillTruncated = truncated\<rparr>))))"

subsection \<open>Operator control\<close>

text \<open>
  The body of an operator's request.  Its parser is a third-party schema: \<open>None\<close> when the body
  has not these fields; \<open>perpOrderRequestSchema\<close> are the constraints the schema states.
\<close>

record perp_request =
  rq_intent :: PerpOrderIntent
  rq_positionQuantity :: "number option"
  rq_dailyPnl :: number
  rq_otherGross :: "number option"
  rq_clientOrderId :: string

definition perpOrderRequestSchema :: "perp_request \<Rightarrow> bool" where
  "perpOrderRequestSchema r \<longleftrightarrow>
     1 \<le> length (perp_productId (rq_intent r)) \<and> length (perp_productId (rq_intent r)) \<le> 40 \<and>
     isFinite (perp_quantity (rq_intent r)) \<and> Fin 0 < perp_quantity (rq_intent r) \<and>
     isFinite (perp_markPrice (rq_intent r)) \<and> Fin 0 < perp_markPrice (rq_intent r) \<and>
     isInteger (perp_leverage (rq_intent r)) \<and> Fin 1 \<le> perp_leverage (rq_intent r) \<and>
     perp_leverage (rq_intent r) \<le> Fin 10 \<and>
     (case rq_positionQuantity r of None \<Rightarrow> True | Some x \<Rightarrow> isFinite x) \<and>
     isFinite (rq_dailyPnl r) \<and>
     (case rq_otherGross r of None \<Rightarrow> True | Some x \<Rightarrow> isFinite x \<and> Fin 0 \<le> x) \<and>
     client_order_id_pattern (rq_clientOrderId r)"

datatype PerpOrderRequestResult =
  PERP_RESULT HyperliquidPerpRunResult
| CONTROL_PERMISSION_REQUIRED
| HYPERLIQUID_EXECUTION_UNAVAILABLE
| INVALID_PERP_ORDER_REQUEST
| PERP_ACCOUNT_UNAVAILABLE

text \<open>A runner is made for the request, so its count starts at zero.\<close>

definition run_request :: "(HyperliquidPerpOrderContext \<Rightarrow> perp_snapshot) \<Rightarrow> perp_sender
    \<Rightarrow> perp_request \<Rightarrow> PerpRiskGate \<Rightarrow> ('sub, PerpOrderRequestResult) prog" where
  "run_request init send r g =
     andThen (runOrder init send (rq_intent r) g (rq_clientOrderId r) 0)
       (\<lambda>(result, _). Return (PERP_RESULT result))"

definition submitPerpOrderIntent :: "(HyperliquidPerpOrderContext \<Rightarrow> perp_snapshot) \<Rightarrow> perp_sender
    \<Rightarrow> bool \<Rightarrow> controlPermissions \<Rightarrow> perp_request option
    \<Rightarrow> ('sub, PerpOrderRequestResult) prog" where
  "submitPerpOrderIntent init send settingsOk ps input =
     (if \<not> canControl ps \<or> \<not> canTrade ps then Return CONTROL_PERMISSION_REQUIRED
      else if \<not> settingsOk then Return HYPERLIQUID_EXECUTION_UNAVAILABLE
      else case input of
        None \<Rightarrow> Return INVALID_PERP_ORDER_REQUEST
      | Some r \<Rightarrow>
          if \<not> perpOrderRequestSchema r then Return INVALID_PERP_ORDER_REQUEST
          else case (rq_positionQuantity r, rq_otherGross r) of
            (Some held, Some otherGross) \<Rightarrow>
              run_request init send r
                \<lparr>admissionApproved = True, positionQuantity = held,
                 gate_dailyPnl = rq_dailyPnl r, otherGrossExposureNotional = otherGross\<rparr>
          | _ \<Rightarrow>
              (case hyperliquidCoin (perp_productId (rq_intent r)) of
                 None \<Rightarrow> Return INVALID_PERP_ORDER_REQUEST
               | Some coin \<Rightarrow> FetchAccount (\<lambda>answer.
                   case answer of
                     None \<Rightarrow> Return PERP_ACCOUNT_UNAVAILABLE
                   | Some account \<Rightarrow>
                       run_request init send r
                         (derivePerpRiskGate account coin (perp_markPrice (rq_intent r))
                            (rq_dailyPnl r)))))"

text \<open>\<open>recoverPerpOrders\<close>: the report, and whether execution is unavailable.\<close>

definition recoverPerpOrders :: "(HyperliquidPerpOrderContext \<Rightarrow> perp_snapshot) \<Rightarrow> perp_sender
    \<Rightarrow> bool \<Rightarrow> ('sub, (HyperliquidRecoveryReport \<times> bool) option) prog" where
  "recoverPerpOrders init send settingsOk =
     (if \<not> settingsOk
      then Return (Some
        (\<lparr>recovered = 0, unresolved_orders = 0, fillPersistenceFailures = 0,
          fillBackfillFilled = 0, fillBackfillFailures = 0, fillBackfillUnresolved = 0,
          fillBackfillTruncated = False\<rparr>, True))
      else andThen (recoverPending init send 0)
        (\<lambda>report. Return (map_option (\<lambda>r. (r, False)) report)))"

end
