(* ===== verification/PerpProps.thy ===== *)
theory PerpProps
  imports PerpRunner
begin

text \<open>
  Perpetual orders: what the runner does between a request and its result, what a recovery
  does, and where the code leaves its own rules.
\<close>

abbreviation perp_send :: perp_sender where
  "perp_send \<equiv> sc_send hyperliquidPerpOrderMachine"

lemma perp_runtime:
  assumes "xstate_runtime hyperliquidPerpOrderMachine init send"
  shows "init = sc_start hyperliquidPerpOrderMachine" "send = perp_send"
  using assms by (simp_all add: perp.runtime_iff)

lemmas perp_eval =
  perp.send_eval perp.boot perp_machine_simps perp_on.simps perp_row_defs row_effect_def perp_actions

subsection \<open>The machine, state by state\<close>

lemma perp_requested:
  "fst (perp_send (Idle, c) (ORDER_INTENT_REQUESTED i g k True)) \<in> {Idle, PersistingIntent}"
  "fst (perp_send (Idle, c) (ORDER_INTENT_REQUESTED i g k True)) = PersistingIntent \<longleftrightarrow>
     client_order_id_pattern k \<and> assessPerpOrderIntent i g = EXECUTABLE"
  by (simp_all add: perp_eval executableIntent_def)

lemma perp_steps [simp]:
  "perp_send (PersistingIntent, c) INTENT_PERSIST_SUCCEEDED = (Signing, c)"
  "perp_send (PersistingIntent, c) (INTENT_PERSIST_FAILED x) = (Failed, c\<lparr>lastError := Some x\<rparr>)"
  "perp_send (Signing, c) ACTION_SIGNED = (Submitting, c)"
  "perp_send (Signing, c) (SIGN_FAILED x) = (Failed, c\<lparr>lastError := Some x\<rparr>)"
  "perp_send (Submitting, c) SUBMIT_ACCEPTED =
     (PersistingOutcome, c\<lparr>outcome := Some ACCEPTED, lastError := None\<rparr>)"
  "perp_send (Submitting, c) SUBMIT_REJECTED =
     (PersistingOutcome, c\<lparr>outcome := Some REJECTED, lastError := None\<rparr>)"
  "perp_send (Submitting, c) SUBMIT_UNKNOWN = (Reconciling, c)"
  "perp_send (Reconciling, c) (RECONCILIATION_RESOLVED y) =
     (PersistingOutcome, c\<lparr>outcome := Some y, lastError := None\<rparr>)"
  "perp_send (Reconciling, c) (RECONCILIATION_FAILED x) = (Failed, c\<lparr>lastError := Some x\<rparr>)"
  "perp_send (PersistingOutcome, c) PERSIST_SUCCEEDED = (Settled, c)"
  "perp_send (PersistingOutcome, c) (PERSIST_FAILED x) = (Failed, c\<lparr>lastError := Some x\<rparr>)"
  by (simp_all add: perp_eval)

lemma perp_recovery:
  "fst (perp_send (Idle, c) (ORDER_RECOVERY_REQUESTED i k)) \<in> {Idle, Reconciling}"
  by (simp add: perp_eval)

subsection \<open>What a trace contains\<close>

fun submissions :: "'sub effect list \<Rightarrow> 'sub list" where
  "submissions [] = []"
| "submissions (Submitted u x # tr) = u # submissions tr"
| "submissions (_ # tr) = submissions tr"

fun writes_of :: "'sub effect list \<Rightarrow> store_write list" where
  "writes_of [] = []"
| "writes_of (IntentPut r True # tr) = WroteIntent r # writes_of tr"
| "writes_of (OutcomePut k x t True # tr) = WroteOutcome k x t # writes_of tr"
| "writes_of (FillsPut k fs t True # tr) = WroteFills k fs t # writes_of tr"
| "writes_of (_ # tr) = writes_of tr"

lemma submissions_append [simp]: "submissions (tr @ tr') = submissions tr @ submissions tr'"
  by (induction tr rule: submissions.induct) simp_all

lemma writes_append [simp]: "writes_of (tr @ tr') = writes_of tr @ writes_of tr'"
  by (induction tr rule: writes_of.induct) simp_all

lemma submissions_set: "u \<in> set (submissions tr) \<longleftrightarrow> (\<exists>x. Submitted u x \<in> set tr)"
  by (induction tr rule: submissions.induct) auto

lemma wrote_outcome: "WroteOutcome k x t \<in> set (writes_of tr) \<longleftrightarrow> OutcomePut k x t True \<in> set tr"
  by (induction tr rule: writes_of.induct) auto

text \<open>The effects of reading and writing fills, and those of closing an order.\<close>

fun fill_effect :: "'sub effect \<Rightarrow> bool" where
  "fill_effect (FillsRead _ _) = True"
| "fill_effect (ClockRead _) = True"
| "fill_effect (FillsPut _ _ _ _) = True"
| "fill_effect _ = False"

fun closing_effect :: "'sub effect \<Rightarrow> bool" where
  "closing_effect (Reconciled _ _) = True"
| "closing_effect (OutcomePut _ _ _ _) = True"
| "closing_effect e = fill_effect e"

lemma closing_if_fill: "fill_effect e \<Longrightarrow> closing_effect e"
  by (cases e) simp_all

lemma closing_no_submission: "list_all closing_effect tr \<Longrightarrow> submissions tr = []"
  by (induction tr rule: submissions.induct) simp_all

subsection \<open>What every run of a program ensures\<close>

definition ensures :: "('sub, 'a) prog \<Rightarrow> ('sub effect list \<Rightarrow> 'a \<Rightarrow> bool) \<Rightarrow> bool" where
  "ensures p Q \<longleftrightarrow> (\<forall>tr a. runs p tr a \<longrightarrow> Q tr a)"

lemma ensures_simps:
  "ensures (Return a) Q \<longleftrightarrow> Q [] a"
  "ensures (FetchMeta f2) Q2 \<longleftrightarrow> (\<forall>x. ensures (f2 x) (\<lambda>tr. Q2 (MetaFetched x # tr)))"
  "ensures (SignOrder i m c f3) Q3 \<longleftrightarrow> (\<forall>x. ensures (f3 x) (\<lambda>tr. Q3 (Signed i c x # tr)))"
  "ensures (SubmitOrder u f4) Q4 \<longleftrightarrow> (\<forall>x. ensures (f4 x) (\<lambda>tr. Q4 (Submitted u x # tr)))"
  "ensures (ReconcileOrder c f5) Q5 \<longleftrightarrow> (\<forall>x. ensures (f5 x) (\<lambda>tr. Q5 (Reconciled c x # tr)))"
  "ensures (FetchFills c f6) Q6 \<longleftrightarrow> (\<forall>x. ensures (f6 x) (\<lambda>tr. Q6 (FillsRead c x # tr)))"
  "ensures (ReadClock f7) Q7 \<longleftrightarrow> (\<forall>x. ensures (f7 x) (\<lambda>tr. Q7 (ClockRead x # tr)))"
  "ensures (PutIntent r f8) Q8 \<longleftrightarrow> (\<forall>x. ensures (f8 x) (\<lambda>tr. Q8 (IntentPut r x # tr)))"
  "ensures (PutOutcome c y t f9) Q9 \<longleftrightarrow> (\<forall>x. ensures (f9 x) (\<lambda>tr. Q9 (OutcomePut c y t x # tr)))"
  "ensures (PutFills c fs t f10) Q10 \<longleftrightarrow> (\<forall>x. ensures (f10 x) (\<lambda>tr. Q10 (FillsPut c fs t x # tr)))"
  "ensures (LoadUnresolved f11) Q11 \<longleftrightarrow> (\<forall>x. ensures (f11 x) (\<lambda>tr. Q11 (UnresolvedLoaded x # tr)))"
  "ensures (LoadMissingFills m f12) Q12 \<longleftrightarrow> (\<forall>x. ensures (f12 x) (\<lambda>tr. Q12 (MissingLoaded m x # tr)))"
  "ensures (FetchAccount f13) Q13 \<longleftrightarrow> (\<forall>x. ensures (f13 x) (\<lambda>tr. Q13 (AccountFetched x # tr)))"
  unfolding ensures_def runs_simps by blast+

lemma ensures_mono: "ensures p Q \<Longrightarrow> (\<And>tr a. Q tr a \<Longrightarrow> R tr a) \<Longrightarrow> ensures p R"
  by (auto simp: ensures_def)

lemma ensures_andThen:
  "ensures p (\<lambda>tr a. ensures (f a) (\<lambda>tr'. Q (tr @ tr'))) \<Longrightarrow> ensures (andThen p f) Q"
  unfolding ensures_def using runs_split by metis

lemma ensures_then:
  "ensures p R \<Longrightarrow> (\<And>tr a. R tr a \<Longrightarrow> ensures (f a) (\<lambda>tr'. Q (tr @ tr'))) \<Longrightarrow>
    ensures (andThen p f) Q"
  by (rule ensures_andThen) (rule ensures_mono)

lemma ensures_fills: "ensures (persistReconciledFills cid n) (\<lambda>tr a. list_all fill_effect tr)"
  by (simp add: persistReconciledFills_def ensures_simps split: option.split)

lemma ensures_fills_if:
  "ensures (if b then persistReconciledFills cid n else Return (EMPTY, n))
     (\<lambda>tr a. list_all fill_effect tr)"
  by (simp add: ensures_fills ensures_simps)

text \<open>
  An outcome is written for the order, and the result tells it: it is the outcome of the
  machine; nothing is settled without a written outcome.
\<close>

definition closes :: "string \<Rightarrow> HyperliquidOrderOutcome \<Rightarrow> 'sub effect list
    \<Rightarrow> HyperliquidPerpRunResult \<Rightarrow> bool" where
  "closes cid x tr res \<longleftrightarrow>
     (\<exists>tr' t n. list_all fill_effect tr' \<and>
        (tr = tr' @ [OutcomePut cid x t True] \<and> res = SETTLED x cid n \<or>
         tr = tr' @ [OutcomePut cid x t False] \<and> res = RUN_FAILED PERSIST_OUTCOME_FAILED))"

lemma closesI:
  "list_all fill_effect tr' \<Longrightarrow> closes cid x (tr' @ [OutcomePut cid x t True]) (SETTLED x cid n)"
  "list_all fill_effect tr' \<Longrightarrow>
     closes cid x (tr' @ [OutcomePut cid x t False]) (RUN_FAILED PERSIST_OUTCOME_FAILED)"
  by (auto simp: closes_def)

lemma ensures_finish:
  assumes "outcome c = Some x"
  shows "ensures (finishOutcome perp_send (PersistingOutcome, c) cid handled n)
    (\<lambda>tr a. closes cid x tr (fst a))"
proof -
  have step: "closes cid x (tr @ [ClockRead t, OutcomePut cid x t w])
      (if w then SETTLED x cid m else RUN_FAILED PERSIST_OUTCOME_FAILED)"
    if "list_all fill_effect tr" for tr t w m
    using closesI [of "tr @ [ClockRead t]" cid x t] that by simp
  have final: "fst (run_result' w m) = (if w then SETTLED x cid m else RUN_FAILED PERSIST_OUTCOME_FAILED)"
    if "run_result' = (\<lambda>w m. (run_result (perp_send (PersistingOutcome, c)
      (if w then PERSIST_SUCCEEDED else PERSIST_FAILED PERSIST_OUTCOME_FAILED)) cid m, m))"
    for run_result' w and m :: nat
    using that assms by (cases w) (simp_all add: run_result_def)
  show ?thesis
    unfolding finishOutcome_def fst_conv snd_conv assms option.case Let_def
    by (simp only: simp_thms if_False, rule ensures_then [OF ensures_fills_if])
       (auto simp only: split_def ensures_simps final [OF refl] intro: step)
qed

subsection \<open>The protocol of an order\<close>

text \<open>A reconciliation: the outcome the venue reports is written, a doubt fails the run.\<close>

definition reconciles :: "string \<Rightarrow> 'sub effect list \<Rightarrow> HyperliquidPerpRunResult \<Rightarrow> bool" where
  "reconciles cid tr res \<longleftrightarrow>
     (\<exists>issue tr'. tr = Reconciled cid issue # tr' \<and>
        (case issue of
           RESOLVED x \<Rightarrow> closes cid x tr' res
         | UNRESOLVED \<Rightarrow> tr' = [] \<and> res = RUN_FAILED RECONCILIATION_FAILED_CODE))"

text \<open>A submission: the answer is written; a doubt is reconciled, never submitted again.\<close>

definition submits :: "string \<Rightarrow> 'sub \<Rightarrow> 'sub effect list \<Rightarrow> HyperliquidPerpRunResult \<Rightarrow> bool" where
  "submits cid u tr res \<longleftrightarrow>
     (\<exists>issue tr'. tr = Submitted u issue # tr' \<and>
        (case issue of
           SUBMIT_OK \<Rightarrow> closes cid ACCEPTED tr' res
         | SUBMIT_REFUSED _ \<Rightarrow> closes cid REJECTED tr' res
         | SUBMIT_DOUBT \<Rightarrow> reconciles cid tr' res))"

text \<open>An order: refused without an effect; or its intent is written, then signed, then submitted.\<close>

definition signs :: "PerpOrderIntent \<Rightarrow> string \<Rightarrow> 'sub effect list \<Rightarrow> HyperliquidPerpRunResult \<Rightarrow> bool" where
  "signs i cid tr res \<longleftrightarrow>
     (\<exists>meta. tr = [MetaFetched meta] \<and> res = RUN_FAILED SIGN_FAILED_CODE) \<or>
     (\<exists>meta. tr = [MetaFetched meta, Signed i cid None] \<and> res = RUN_FAILED SIGN_FAILED_CODE) \<or>
     (\<exists>meta u tr'. tr = MetaFetched meta # Signed i cid (Some u) # tr' \<and> submits cid u tr' res)"

definition order_protocol :: "PerpOrderIntent \<Rightarrow> PerpRiskGate \<Rightarrow> string \<Rightarrow> 'sub effect list
    \<Rightarrow> HyperliquidPerpRunResult \<Rightarrow> bool" where
  "order_protocol i g cid tr res \<longleftrightarrow>
     (tr = [] \<and> (\<exists>r. res = RUN_REFUSED r)) \<or>
     (assessPerpOrderIntent i g = EXECUTABLE \<and> client_order_id_pattern cid \<and>
      (\<exists>t written tr'.
         tr = ClockRead t # IntentPut \<lparr>rec_clientOrderId = cid, rec_intent = i, rec_createdAt = t\<rparr> written # tr' \<and>
         (if written then signs i cid tr' res
          else tr' = [] \<and> res = RUN_FAILED PERSIST_INTENT_FAILED)))"

lemma closes_after_fills: "list_all fill_effect tr \<Longrightarrow> closes cid x tr' res \<Longrightarrow> closes cid x (tr @ tr') res"
  unfolding closes_def by (metis append.assoc list_all_append)

lemma ensures_reconcile:
  "ensures (reconcileInFlight perp_send (Reconciling, c) cid n) (\<lambda>tr a. reconciles cid tr (fst a))"
proof -
  have "ensures (andThen (if issue = RESOLVED ACCEPTED then persistReconciledFills cid n
                else Return (EMPTY, n))
         (\<lambda>(_, n).
           let m' = perp_send (Reconciling, c) (case issue of
                 RESOLVED x \<Rightarrow> RECONCILIATION_RESOLVED x
               | UNRESOLVED \<Rightarrow> RECONCILIATION_FAILED RECONCILIATION_FAILED_CODE)
           in finishOutcome perp_send m' cid True n))
      (\<lambda>tr a. reconciles cid (Reconciled cid issue # tr) (fst a))" for issue
  proof (cases issue)
    case (RESOLVED x)
    have "ensures (finishOutcome perp_send
        (PersistingOutcome, c\<lparr>outcome := Some x, lastError := None\<rparr>) cid True m)
        (\<lambda>tr' a. reconciles cid (Reconciled cid issue # tr @ tr') (fst a))"
      if "list_all fill_effect tr" for tr m
      by (rule ensures_mono, rule ensures_finish, simp)
         (simp add: reconciles_def RESOLVED closes_after_fills that)
    then show ?thesis
      by (intro ensures_then [OF ensures_fills_if]) (auto simp: RESOLVED Let_def)
  next
    case UNRESOLVED
    then show ?thesis
      by (auto simp: finishOutcome_def run_result_def reconciles_def ensures_simps Let_def
          intro!: ensures_then [OF ensures_fills_if])
  qed
  then show ?thesis
    unfolding reconcileInFlight_def ensures_simps by (rule allI)
qed

lemma ensures_submit:
  "ensures (submit_once perp_send (Submitting, c) cid (Some u) n) (\<lambda>tr a. submits cid u tr (fst a))"
proof -
  have "ensures (after_submission perp_send (perp_send (Submitting, c) (case issue of
                SUBMIT_OK \<Rightarrow> SUBMIT_ACCEPTED
              | SUBMIT_REFUSED _ \<Rightarrow> SUBMIT_REJECTED
              | SUBMIT_DOUBT \<Rightarrow> SUBMIT_UNKNOWN)) cid n)
      (\<lambda>tr a. submits cid u (Submitted u issue # tr) (fst a))" for issue
    by (cases issue)
       (auto simp: after_submission_def submits_def intro: ensures_mono [OF ensures_finish]
          ensures_mono [OF ensures_reconcile])
  then show ?thesis
    by (simp add: submit_once_def ensures_simps)
qed

lemma ensures_sign_once:
  "ensures (signOnce i cid) (\<lambda>tr a.
      (\<exists>meta. tr = [MetaFetched meta] \<and> a = None) \<or> (\<exists>meta. tr = [MetaFetched meta, Signed i cid a]))"
  by (simp add: signOnce_def ensures_simps split: option.split)

lemma ensures_sign:
  "ensures (sign_and_submit perp_send (Signing, c) i cid n) (\<lambda>tr a. signs i cid tr (fst a))"
proof -
  have step: "ensures (submit_once perp_send (perp_send (Signing, c)
          (if a \<noteq> None then ACTION_SIGNED else SIGN_FAILED SIGN_FAILED_CODE)) cid a n)
      (\<lambda>tr' b. signs i cid (tr @ tr') (fst b))"
    if "(\<exists>meta. tr = [MetaFetched meta] \<and> a = None) \<or> (\<exists>meta. tr = [MetaFetched meta, Signed i cid a])"
    for tr a
  proof (cases a)
    case None
    with that show ?thesis
      by (auto simp: submit_once_def ensures_simps signs_def)
  next
    case (Some u)
    with that obtain meta where "tr = [MetaFetched meta, Signed i cid (Some u)]"
      by auto
    then show ?thesis
      by (auto simp: Some signs_def intro: ensures_mono [OF ensures_submit])
  qed
  show ?thesis
    unfolding sign_and_submit_def fst_conv
    by (simp only: perpState.distinct simp_thms if_True if_False)
       (rule ensures_then [OF ensures_sign_once], rule step)
qed

lemma protocol_refused: "order_protocol i g cid [] (RUN_REFUSED r)"
  by (simp add: order_protocol_def)

lemma ensures_order:
  "ensures (runOrder (sc_start hyperliquidPerpOrderMachine) perp_send i g cid n)
     (\<lambda>tr a. order_protocol i g cid tr (fst a))"
proof -
  obtain st c where m: "perp_send (Idle, perp_context) (ORDER_INTENT_REQUESTED i g cid True) = (st, c)"
    by (metis prod.exhaust)
  show ?thesis
  proof (cases "st = PersistingIntent")
    case True
    then have ok: "client_order_id_pattern cid" "assessPerpOrderIntent i g = EXECUTABLE"
      using perp_requested(2) [of perp_context i g cid] by (simp_all add: m)
    have step: "ensures (sign_and_submit perp_send (perp_send (PersistingIntent, c)
          (if w then INTENT_PERSIST_SUCCEEDED else INTENT_PERSIST_FAILED PERSIST_INTENT_FAILED))
          i cid n)
        (\<lambda>tr a. order_protocol i g cid (ClockRead t #
          IntentPut \<lparr>rec_clientOrderId = cid, rec_intent = i, rec_createdAt = t\<rparr> w # tr) (fst a))"
      for t w
    proof (cases w)
      case True
      then show ?thesis
        by (auto simp: order_protocol_def ok intro: ensures_mono [OF ensures_sign])
    next
      case False
      then show ?thesis
        by (auto simp: order_protocol_def ok sign_and_submit_def ensures_simps)
    qed
    show ?thesis
      unfolding runOrder_def perp.boot m Let_def perp_machine_simps fst_conv
      by (simp only: True ensures_simps perpState.distinct simp_thms if_True if_False split: if_split)
         (auto simp only: ensures_simps fst_conv protocol_refused
           intro: step [of True, unfolded if_True] step [of False, unfolded if_False])
  next
    case False
    then have "st = Idle"
      using perp_requested(1) [of perp_context i g cid] by (simp add: m)
    then show ?thesis
      by (simp add: runOrder_def perp.boot m ensures_simps order_protocol_def)
  qed
qed

subsection \<open>What the protocol says of a trace\<close>

lemma fill_effects: "list_all fill_effect tr \<Longrightarrow> submissions tr = [] \<and>
    (\<forall>k x t w. OutcomePut k x t w \<notin> set tr) \<and> (\<forall>i k s. Signed i k s \<notin> set tr) \<and> (\<forall>r w. IntentPut r w \<notin> set tr)"
  by (induction tr rule: submissions.induct) auto

lemma reconcilesE:
  assumes "reconciles cid tr res"
  obtains (reported) x tr' where "tr = Reconciled cid (RESOLVED x) # tr'" "closes cid x tr' res"
  | (doubt) "tr = [Reconciled cid UNRESOLVED]" "res = RUN_FAILED RECONCILIATION_FAILED_CODE"
proof -
  obtain issue tr' where tr: "tr = Reconciled cid issue # tr'"
    and res: "case issue of RESOLVED x \<Rightarrow> closes cid x tr' res
      | UNRESOLVED \<Rightarrow> tr' = [] \<and> res = RUN_FAILED RECONCILIATION_FAILED_CODE"
    using assms by (auto simp only: reconciles_def)
  from tr res show thesis
    by (cases issue) (auto intro: that)
qed

lemma submitsE:
  assumes "submits cid u tr res"
  obtains (accepted) tr' where "tr = Submitted u SUBMIT_OK # tr'" "closes cid ACCEPTED tr' res"
  | (refused) d tr' where "tr = Submitted u (SUBMIT_REFUSED d) # tr'" "closes cid REJECTED tr' res"
  | (doubt) tr' where "tr = Submitted u SUBMIT_DOUBT # tr'" "reconciles cid tr' res"
proof -
  obtain issue tr' where tr: "tr = Submitted u issue # tr'"
    and res: "case issue of SUBMIT_OK \<Rightarrow> closes cid ACCEPTED tr' res
      | SUBMIT_REFUSED _ \<Rightarrow> closes cid REJECTED tr' res
      | SUBMIT_DOUBT \<Rightarrow> reconciles cid tr' res"
    using assms by (auto simp only: submits_def)
  from tr res show thesis
    by (cases issue) (auto intro: that)
qed

lemma protocolE:
  assumes "order_protocol i g cid tr res"
  obtains (idle) "submissions tr = []" "\<And>k y t w. OutcomePut k y t w \<notin> set tr"
      "\<And>y k m. res \<noteq> SETTLED y k m"
  | (submitted) t meta u tr' where "assessPerpOrderIntent i g = EXECUTABLE"
      "client_order_id_pattern cid" "submits cid u tr' res"
      "tr = [ClockRead t, IntentPut \<lparr>rec_clientOrderId = cid, rec_intent = i, rec_createdAt = t\<rparr> True,
             MetaFetched meta, Signed i cid (Some u)] @ tr'"
  using assms by (auto simp: order_protocol_def signs_def split: if_split_asm)

lemma closes_effects:
  assumes "closes cid x tr res"
  shows "submissions tr = []" "OutcomePut k y t w \<in> set tr \<Longrightarrow> k = cid \<and> y = x"
    "Signed i k s \<notin> set tr" "IntentPut r w \<notin> set tr"
    "res = SETTLED y k m \<Longrightarrow> k = cid \<and> y = x \<and> (\<exists>t. OutcomePut cid x t True \<in> set tr)"
  using assms by (auto simp: closes_def dest: fill_effects)

lemma reconciles_effects:
  assumes "reconciles cid tr res"
  shows "submissions tr = []"
    "OutcomePut k y t w \<in> set tr \<Longrightarrow> k = cid \<and> Reconciled cid (RESOLVED y) \<in> set tr"
    "Signed i k s \<notin> set tr" "IntentPut r w \<notin> set tr"
    "res = SETTLED y k m \<Longrightarrow> k = cid \<and> (\<exists>t. OutcomePut cid y t True \<in> set tr)"
  using assms by (elim reconcilesE; auto simp: closes_effects dest: closes_effects(2,5))+

text \<open>The venue reported the outcome: in answer to the submission, or to a reconciliation.\<close>

definition venue_reported :: "string \<Rightarrow> HyperliquidOrderOutcome \<Rightarrow> 'sub effect list \<Rightarrow> bool" where
  "venue_reported cid x tr \<longleftrightarrow>
     (\<exists>u. Submitted u SUBMIT_OK \<in> set tr \<and> x = ACCEPTED) \<or>
     (\<exists>u d. Submitted u (SUBMIT_REFUSED d) \<in> set tr \<and> x = REJECTED) \<or>
     Reconciled cid (RESOLVED x) \<in> set tr"

lemma submits_effects:
  assumes "submits cid u tr res"
  shows "submissions tr = [u]" "\<exists>x tr'. tr = Submitted u x # tr'"
    "OutcomePut k y t w \<in> set tr \<Longrightarrow> k = cid \<and> venue_reported cid y tr"
    "res = SETTLED y k m \<Longrightarrow> k = cid \<and> (\<exists>t. OutcomePut cid y t True \<in> set tr)"
  using assms
  by (elim submitsE; auto simp: venue_reported_def closes_effects reconciles_effects
      dest: closes_effects(2,5) reconciles_effects(2,5))+

lemma venue_reported_append: "venue_reported k y tr \<Longrightarrow> venue_reported k y (pre @ tr)"
  by (auto simp: venue_reported_def)

lemma protocol_outcomes:
  assumes "order_protocol i g cid tr res"
  shows "OutcomePut k y t w \<in> set tr \<Longrightarrow> k = cid \<and> venue_reported cid y tr"
    "res = SETTLED y k m \<Longrightarrow> k = cid \<and> (\<exists>t. OutcomePut cid y t True \<in> set tr)"
  using assms
  by (elim protocolE; auto dest: submits_effects(3,4) simp del: append.simps
      intro: venue_reported_append)+

subsection \<open>Properties of an order\<close>

text \<open>Before the submission, the intent was written and the payload signed.\<close>

definition prepared :: "PerpOrderIntent \<Rightarrow> string \<Rightarrow> 'sub \<Rightarrow> 'sub effect list \<Rightarrow> bool" where
  "prepared i cid u tr \<longleftrightarrow>
     (\<exists>t x tr1 tr2. tr = tr1 @ Submitted u x # tr2 \<and> Signed i cid (Some u) \<in> set tr1 \<and>
        IntentPut \<lparr>rec_clientOrderId = cid, rec_intent = i, rec_createdAt = t\<rparr> True \<in> set tr1)"

subsection \<open>Recovery\<close>

text \<open>A recovery writes no intent, signs and submits nothing, and writes only reported outcomes.\<close>

definition recovers :: "'sub effect list \<Rightarrow> bool" where
  "recovers tr \<longleftrightarrow>
     submissions tr = [] \<and> (\<forall>i k s. Signed i k s \<notin> set tr) \<and> (\<forall>r w. IntentPut r w \<notin> set tr) \<and>
     (\<forall>k y t w. OutcomePut k y t w \<in> set tr \<longrightarrow> Reconciled k (RESOLVED y) \<in> set tr)"

fun outcomes_written :: "'sub effect list \<Rightarrow> nat" where
  "outcomes_written [] = 0"
| "outcomes_written (OutcomePut k y t True # tr) = Suc (outcomes_written tr)"
| "outcomes_written (_ # tr) = outcomes_written tr"

lemma outcomes_written_append [simp]:
  "outcomes_written (tr @ tr') = outcomes_written tr + outcomes_written tr'"
  by (induction tr rule: outcomes_written.induct) simp_all

lemma outcomes_written_fills: "list_all fill_effect tr \<Longrightarrow> outcomes_written tr = 0"
  by (induction tr rule: outcomes_written.induct) simp_all

lemma recovers_append: "recovers tr \<Longrightarrow> recovers tr' \<Longrightarrow> recovers (tr @ tr')"
  unfolding recovers_def by (simp, blast)

lemma recovers_Nil [simp]: "recovers []"
  by (simp add: recovers_def)

lemma recovers_fills: "list_all fill_effect tr \<Longrightarrow> recovers tr"
  using fill_effects [of tr] by (simp add: recovers_def)

lemma recovers_reconciles: "reconciles k tr res \<Longrightarrow> recovers tr"
  using reconciles_effects [of k tr res] unfolding recovers_def by blast

definition is_settled :: "HyperliquidPerpRunResult \<Rightarrow> bool" where
  "is_settled res \<longleftrightarrow> (case res of SETTLED _ _ _ \<Rightarrow> True | _ \<Rightarrow> False)"

lemma closes_count: "closes k x tr res \<Longrightarrow> outcomes_written tr = of_bool (is_settled res)"
  by (auto simp: closes_def outcomes_written_fills is_settled_def)

lemma reconciles_count: "reconciles k tr res \<Longrightarrow> outcomes_written tr = of_bool (is_settled res)"
  by (elim reconcilesE) (auto simp: closes_count is_settled_def)

lemma ensures_recover_loop:
  "ensures (recover_loop (sc_start hyperliquidPerpOrderMachine) perp_send rs m n
       :: ('sub, nat \<times> nat) prog)
     (\<lambda>tr a. recovers tr \<and> fst a = m + outcomes_written tr)"
proof (induction rs arbitrary: m n)
  case Nil
  show ?case by (simp add: ensures_simps)
next
  case (Cons r rs)
  obtain st c where s: "perp_send (Idle, perp_context)
      (ORDER_RECOVERY_REQUESTED (rec_intent r) (rec_clientOrderId r)) = (st, c)"
    by (metis prod.exhaust)
  have step: "ensures (recover_loop (sc_start hyperliquidPerpOrderMachine) perp_send rs
        (case res of SETTLED _ _ _ \<Rightarrow> m + 1 | _ \<Rightarrow> m) n')
      (\<lambda>tr' a. recovers (tr @ tr') \<and> fst a = m + outcomes_written (tr @ tr'))"
    if "reconciles (rec_clientOrderId r) tr res" for tr :: "'sub effect list" and res n'
    by (rule ensures_mono [OF Cons.IH])
       (use that in \<open>auto simp: recovers_append recovers_reconciles reconciles_count is_settled_def
          split: HyperliquidPerpRunResult.split\<close>)
  show ?case
  proof (cases "st = Reconciling")
    case True
    show ?thesis
      unfolding recover_loop.simps perp.boot [of perp_context] perp_machine_simps s Let_def fst_conv
      by (simp only: True simp_thms if_False, rule ensures_then [OF ensures_reconcile])
         (auto simp only: split_def intro: step)
  next
    case False
    then show ?thesis
      using Cons.IH by (simp add: perp.boot s)
  qed
qed

lemma ensures_backfill_loop:
  "ensures (backfill_loop ks a b c n :: ('sub, nat \<times> nat \<times> nat \<times> nat) prog)
     (\<lambda>tr _. list_all fill_effect tr)"
proof (induction ks arbitrary: a b c n)
  case Nil
  show ?case by (simp add: ensures_simps)
next
  case (Cons k ks)
  have "ensures (case x of (issue, n) \<Rightarrow> case issue of
         PERSISTED _ \<Rightarrow> backfill_loop ks (a + 1) b c n
       | EMPTY \<Rightarrow> backfill_loop ks a b (c + 1) n
       | READ_FAILED \<Rightarrow> backfill_loop ks a (b + 1) (c + 1) n
       | WRITE_FAILED \<Rightarrow> backfill_loop ks a (b + 1) (c + 1) n)
      (\<lambda>tr' _. list_all fill_effect (tr @ tr'))" if "list_all fill_effect tr"
    for x and tr :: "'sub effect list"
    using that Cons.IH by (auto split: prod.split FillPersistIssue.split)
  then show ?case
    unfolding backfill_loop.simps by (rule ensures_then [OF ensures_fills])
qed

lemma ensures_backfill:
  "ensures (backfillMissingFills n :: ('sub, (nat \<times> nat \<times> nat \<times> bool) \<times> nat) prog)
     (\<lambda>tr _. recovers tr \<and> outcomes_written tr = 0)"
proof -
  have fills: "recovers (MissingLoaded m x # tr) \<and> outcomes_written (MissingLoaded m x # tr) = 0"
    if "list_all fill_effect tr" for m x and tr :: "'sub effect list"
    using recovers_fills [OF that] outcomes_written_fills [OF that] by (simp add: recovers_def)
  show ?thesis
    unfolding backfillMissingFills_def ensures_simps
    by (auto simp: ensures_simps split_def fills outcomes_written_fills split: option.split
        intro!: ensures_then [OF ensures_backfill_loop])
qed

lemma ensures_recovery:
  "ensures (recoverPending (sc_start hyperliquidPerpOrderMachine) perp_send n
       :: ('sub, HyperliquidRecoveryReport option) prog)
     (\<lambda>tr res. recovers tr \<and> (\<forall>rep. res = Some rep \<longrightarrow> recovered rep = outcomes_written tr))"
proof -
  have head: "recovers (UnresolvedLoaded x # tr) = recovers tr" for x and tr :: "'sub effect list"
    by (simp add: recovers_def)
  have last: "ensures (andThen (backfillMissingFills m) (\<lambda>((p, q, r, s), m). Return (Some
       \<lparr>recovered = k, unresolved_orders = u, fillPersistenceFailures = m, fillBackfillFilled = p,
        fillBackfillFailures = q, fillBackfillUnresolved = r, fillBackfillTruncated = s\<rparr>)))
      (\<lambda>tr' res. recovers (tr @ tr') \<and>
         (\<forall>rep. res = Some rep \<longrightarrow> recovered rep = outcomes_written (tr @ tr')))"
    if "recovers tr" "k = outcomes_written tr" for tr :: "'sub effect list" and k u m
    by (rule ensures_then [OF ensures_backfill])
       (use that in \<open>auto simp: ensures_simps recovers_append\<close>)
  show ?thesis
    unfolding recoverPending_def ensures_simps
    by (auto simp: ensures_simps head split_def split: option.split
        intro!: ensures_then [OF ensures_recover_loop] last [unfolded split_def])
qed

end
