(* ===== verification/PerpCorrect.thy ===== *)
theory PerpCorrect
  imports PerpProps
begin

text \<open>
  Perpetual orders against the SQLite store: a recovery loses no order; a second run under the
  identifier of an order in flight submits again; the gate and the rounding at their limits;
  and the concrete runs that witness the properties.
\<close>

abbreviation open_orders :: "perp_tables \<Rightarrow> string set" where
  "open_orders s \<equiv> rec_clientOrderId ` set (sql_unresolved s)"

abbreviation sql_after :: "perp_tables \<Rightarrow> store_write list \<Rightarrow> perp_tables" where
  "sql_after \<equiv> foldl (store_write sql_persistOrderIntent sql_persistOutcome sql_persistFills)"

subsection \<open>Limits\<close>

lemma perp_tolerance_nonneg: "Fin 0 \<le> TOLERANCE" and perp_tolerance_le_1: "TOLERANCE \<le> Fin 1"
  using fl_le_representable [of 1 "1 / 1000000000"] by (simp_all add: TOLERANCE_def fl_nonneg)

lemma tolerance_Fin: obtains e where "TOLERANCE = Fin e" "0 \<le> e" "e \<le> 1"
proof -
  obtain e where e: "TOLERANCE = Fin e"
    using perp_tolerance_nonneg perp_tolerance_le_1 by (cases TOLERANCE) simp_all
  from perp_tolerance_nonneg perp_tolerance_le_1 show thesis
    unfolding e by (intro that [of e, OF e]) simp_all
qed

lemma candidate_admitted: "isAllowedProduct p \<Longrightarrow> admitHyperliquidPerpConfiguration (candidateFor p) = ADMITTED"
  using perp_tolerance_nonneg
  by (simp add: admitHyperliquidPerpConfiguration_def candidateFor_def matchesRisk_def sameNumber_def
      PERP_RISK_def PERP_MAX_LEVERAGE_def minus_number_def)

lemma executable_allowed: "assessPerpOrderIntent i g = EXECUTABLE \<Longrightarrow> isAllowedProduct (perp_productId i)"
  by (auto simp: assessPerpOrderIntent_def invalidIntent_def split: if_splits)

lemma allowed_coin: "isAllowedProduct p \<Longrightarrow> \<exists>coin. hyperliquidCoin p = Some coin"
  by (auto simp: isAllowedProduct_def PERP_PRODUCTS_def hyperliquidCoin_def)

lemma plus_tolerance:
  assumes "\<bar>k\<bar> < 2 ^ 53"
  shows "Fin (of_int k) \<le> Fin (of_int k) + TOLERANCE" "Fin (of_int k) + TOLERANCE \<le> Fin (of_int (k + 1))"
proof -
  obtain e where e: "TOLERANCE = Fin e" "0 \<le> e" "e \<le> 1"
    by (rule tolerance_Fin)
  show "Fin (of_int k) \<le> Fin (of_int k) + TOLERANCE"
    unfolding e plus_number.simps by (rule fl_ge_representable [OF representable_of_int]) (use assms e in auto)
  show "Fin (of_int k) + TOLERANCE \<le> Fin (of_int (k + 1))"
    unfolding e plus_number.simps by (rule fl_le_representable [OF representable_of_int]) (use assms e in auto)
qed

lemma lt_limits:
  "\<bar>k\<bar> < 2 ^ 53 \<Longrightarrow> x \<le> of_int k \<Longrightarrow> \<not> Fin (of_int k) + TOLERANCE < Fin x"
  "\<bar>k\<bar> < 2 ^ 53 \<Longrightarrow> of_int (k + 1) < x \<Longrightarrow> Fin (of_int k) + TOLERANCE < Fin x"
  using plus_tolerance [of k] by (cases "Fin (of_int k) + TOLERANCE"; simp)+

lemma no_loss: "\<not> Fin 0 \<le> Fin (- 1000) + TOLERANCE"
  using plus_tolerance(2) [of "- 1000"] by (cases "Fin (- 1000) + TOLERANCE") simp_all

subsection \<open>An order\<close>

text \<open>The effects of an order up to its submission when the venue answers each request.\<close>

definition before :: "PerpOrderIntent \<Rightarrow> string \<Rightarrow> string \<Rightarrow> 'sub \<Rightarrow> 'sub effect list" where
  "before i cid coin u =
     [ClockRead (Fin 0),
      IntentPut \<lparr>rec_clientOrderId = cid, rec_intent = i, rec_createdAt = Fin 0\<rparr> True,
      MetaFetched (Some [JObj [(''name'', JStr coin)]]), Signed i cid (Some u)]"

lemma run_until_submission:
  assumes "assessPerpOrderIntent i g = EXECUTABLE" "client_order_id_pattern cid"
    and "hyperliquidCoin (perp_productId i) = Some coin"
  shows "\<exists>c. \<forall>(u :: 'sub) tr res.
    runs (runOrder (sc_start hyperliquidPerpOrderMachine) perp_send i g cid 0) (before i cid coin u @ tr) res \<longleftrightarrow>
    runs (submit_once perp_send (Submitting, c) cid (Some u) 0) tr res"
proof -
  define c where "c = perp_context\<lparr>intent := Some i, clientOrderId := Some cid, lastRefusal := None,
      lastError := None, outcome := None\<rparr>"
  have m: "perp_send (Idle, perp_context) (ORDER_INTENT_REQUESTED i g cid True) = (PersistingIntent, c)"
    using assms by (simp add: perp_eval executableIntent_def c_def)
  have "runs (runOrder (sc_start hyperliquidPerpOrderMachine) perp_send i g cid 0) (before i cid coin u @ tr) res \<longleftrightarrow>
      runs (submit_once perp_send (Submitting, c) cid (Some u) 0) tr res" for u :: 'sub and tr res
    using candidate_admitted [OF executable_allowed [OF assms(1)]]
    by (simp add: runOrder_def perp.boot m sign_and_submit_def signOnce_def assms(3) before_def
        assetIndexForCoin_def Let_def ex_bool_eq)
  then show ?thesis by blast
qed

text \<open>An order of five units at 100 on a flat account, whose answer is lost and then reported.\<close>

definition demo_intent :: PerpOrderIntent where
  "demo_intent = \<lparr>perp_productId = ''BTC-PERP'', perp_side = BUY, perp_quantity = Fin 5,
     perp_markPrice = Fin 100, perp_leverage = Fin 1\<rparr>"

definition demo_gate :: PerpRiskGate where
  "demo_gate = \<lparr>admissionApproved = True, positionQuantity = Fin 0, gate_dailyPnl = Fin 0,
     otherGrossExposureNotional = Fin 0\<rparr>"

definition demo_trace :: "nat effect list" where
  "demo_trace = before demo_intent ''order-0001'' ''BTC'' 7 @
     [Submitted 7 SUBMIT_DOUBT, Reconciled ''order-0001'' (RESOLVED REJECTED), ClockRead (Fin 9),
      OutcomePut ''order-0001'' REJECTED (Fin 9) True]"

lemma demo_executable: "assessPerpOrderIntent demo_intent demo_gate = EXECUTABLE"
proof -
  have "perp_notional demo_intent = Fin 500" "perp_position_notional demo_intent demo_gate = Fin 500"
    "perp_gross_exposure demo_intent demo_gate = Fin 500"
    by (simp_all add: perp_notional_def perp_position_notional_def perp_gross_exposure_def
        demo_intent_def demo_gate_def minus_number_def js_max_def)
  moreover have "\<not> Fin 600 + TOLERANCE < Fin 500" "\<not> Fin 10000 + TOLERANCE < Fin 500"
    using lt_limits(1) [of 600 500] lt_limits(1) [of 10000 500] by simp_all
  moreover note no_loss
  ultimately show ?thesis
    by (simp add: assessPerpOrderIntent_def invalidIntent_def perp_refusal_def PERP_RISK_def
        PERP_MAX_LEVERAGE_def isAllowedProduct_def PERP_PRODUCTS_def isSafeInteger_def)
       (simp add: demo_intent_def demo_gate_def)
qed

lemma demo_run:
  "runs (runOrder (sc_start hyperliquidPerpOrderMachine) perp_send demo_intent demo_gate ''order-0001'' 0)
     demo_trace (SETTLED REJECTED ''order-0001'' 0, 0)"
proof -
  have "client_order_id_pattern ''order-0001''"
    by (simp add: client_order_id_pattern_def id_char_def)
  moreover have "hyperliquidCoin (perp_productId demo_intent) = Some ''BTC''"
    by (simp add: hyperliquidCoin_def demo_intent_def)
  ultimately obtain c where start: "\<And>(u :: nat) tr res.
      runs (runOrder (sc_start hyperliquidPerpOrderMachine) perp_send demo_intent demo_gate ''order-0001'' 0)
        (before demo_intent ''order-0001'' ''BTC'' u @ tr) res \<longleftrightarrow>
      runs (submit_once perp_send (Submitting, c) ''order-0001'' (Some u) 0) tr res"
    using run_until_submission [OF demo_executable] by metis
  show ?thesis
    unfolding demo_trace_def start
    by (simp add: submit_once_def after_submission_def reconcileInFlight_def finishOutcome_def
        run_result_def ex_bool_eq)
qed

text \<open>C20: the runner of a perpetual order refines its protocol: whatever the network and the store
  answer, a run is either a refusal without any effect, or writes the intent, signs it,
  submits the payload and closes on the answer of the venue, stopping at the first failure.\<close>

theorem perp_run_follows_protocol:
  assumes "xstate_runtime hyperliquidPerpOrderMachine init send"
    and "runs (runOrder init send i g cid n) tr (res, n')"
  shows "order_protocol i g cid tr res"
  using ensures_order [of i g cid n] assms(2)
  by (auto simp: ensures_def perp_runtime [OF assms(1)])

theorem perp_run_follows_protocol_witness:
  "order_protocol demo_intent demo_gate ''order-0001'' demo_trace (SETTLED REJECTED ''order-0001'' 0)"
  by (rule perp_run_follows_protocol [OF perp.runtime_sc demo_run])

text \<open>C19: a run submits at most one payload, and only for an intent its risk gate finds executable,
  written under its identifier before it was signed; and every outcome it writes is the one
  the venue reported for this order.\<close>

theorem perp_submission_is_prepared:
  assumes "xstate_runtime hyperliquidPerpOrderMachine init send"
    and "runs (runOrder init send i g cid n) tr (res, n')"
  shows "length (submissions tr) \<le> 1 \<and>
    (\<forall>u \<in> set (submissions tr). assessPerpOrderIntent i g = EXECUTABLE \<and> prepared i cid u tr) \<and>
    (\<forall>k y t w. OutcomePut k y t w \<in> set tr \<longrightarrow> k = cid \<and> venue_reported cid y tr)"
proof -
  have protocol: "order_protocol i g cid tr res"
    using ensures_order [of i g cid n] assms(2)
    by (auto simp: ensures_def perp_runtime [OF assms(1)])
  have outcomes: "\<forall>k y t w. OutcomePut k y t w \<in> set tr \<longrightarrow> k = cid \<and> venue_reported cid y tr"
    using protocol_outcomes(1) [OF protocol] by blast
  from protocol show ?thesis
  proof (cases rule: protocolE)
    case idle
    with outcomes show ?thesis by simp
  next
    case (submitted t meta u tr')
    obtain x tr2 where tr': "tr' = Submitted u x # tr2"
      using submits_effects(2) [OF submitted(3)] by blast
    let ?r = "\<lparr>rec_clientOrderId = cid, rec_intent = i, rec_createdAt = t\<rparr>"
    define pre where "pre = [ClockRead t, IntentPut ?r True, MetaFetched meta, Signed i cid (Some u)]"
    have "tr = pre @ Submitted u x # tr2" "Signed i cid (Some u) \<in> set pre" "IntentPut ?r True \<in> set pre"
      by (simp_all add: pre_def submitted(4) tr')
    then have "prepared i cid u tr"
      unfolding prepared_def by blast
    moreover have "submissions tr = [u]"
      by (simp add: submitted(4) submits_effects(1) [OF submitted(3)])
    ultimately show ?thesis
      using submitted(1) by (intro conjI outcomes) simp_all
  qed
qed

theorem perp_submission_is_prepared_witness:
  "prepared demo_intent ''order-0001'' 7 demo_trace"
  using perp_submission_is_prepared [OF perp.runtime_sc demo_run]
  by (simp add: demo_trace_def before_def)

subsection \<open>Recovery\<close>

text \<open>C21: a recovery neither signs nor submits, writes an outcome only when the venue reports it in
  answer to the reconciliation of that order, and counts the outcomes it writes; an order in
  flight in the tables stays in flight until such an outcome is written for it.\<close>

theorem perp_recovery_is_sound:
  assumes "xstate_runtime hyperliquidPerpOrderMachine init send"
    and "runs (recoverPending init send n) tr res" and "tables_ok s"
  shows "recovers tr \<and>
    (\<forall>rep. res = Some rep \<longrightarrow> recovered rep = outcomes_written tr) \<and>
    (\<forall>k \<in> open_orders s. k \<in> open_orders (sql_after s (writes_of tr)) \<or>
       (\<exists>y t. OutcomePut k y t True \<in> set tr \<and> Reconciled k (RESOLVED y) \<in> set tr))"
proof -
  have *: "recovers tr" "\<forall>rep. res = Some rep \<longrightarrow> recovered rep = outcomes_written tr"
    using ensures_recovery [of n] assms(2) by (auto simp: ensures_def perp_runtime [OF assms(1)])
  have "k \<in> open_orders (sql_after s (writes_of tr)) \<or>
      (\<exists>y t. OutcomePut k y t True \<in> set tr \<and> Reconciled k (RESOLVED y) \<in> set tr)"
    if k: "k \<in> open_orders s" for k
  proof (cases "\<exists>y t. OutcomePut k y t True \<in> set tr")
    case True
    with *(1) show ?thesis unfolding recovers_def by blast
  next
    case False
    then show ?thesis
      using sql.open_until_outcome [OF assms(3) k] by (auto simp: wrote_outcome)
  qed
  with * show ?thesis by blast
qed

theorem perp_recovery_is_sound_witness:
  "\<exists>tr. runs (recoverPending (sc_start hyperliquidPerpOrderMachine) perp_send 0 :: (nat, _) prog) tr
       (Some \<lparr>recovered = 0, unresolved_orders = 0, fillPersistenceFailures = 0, fillBackfillFilled = 0,
          fillBackfillFailures = 0, fillBackfillUnresolved = 0, fillBackfillTruncated = False\<rparr>) \<and>
     recovers tr"
proof -
  let ?tr = "[UnresolvedLoaded (Some []), MissingLoaded 11 (Some [])] :: nat effect list"
  have run: "runs (recoverPending (sc_start hyperliquidPerpOrderMachine) perp_send 0) ?tr
       (Some \<lparr>recovered = 0, unresolved_orders = 0, fillPersistenceFailures = 0, fillBackfillFilled = 0,
          fillBackfillFailures = 0, fillBackfillUnresolved = 0, fillBackfillTruncated = False\<rparr>)"
    by (simp add: recoverPending_def backfillMissingFills_def PERP_FILL_BACKFILL_MAX_GAPS_PER_CYCLE_def)
  show ?thesis
    using perp_recovery_is_sound [OF perp.runtime_sc run, of tables_empty] run
    by (auto simp: tables_ok_def tables_empty_def)
qed

subsection \<open>An order in flight can be submitted again\<close>

text \<open>The store over SQLite answers the requests of a run from its tables, from \<open>s\<close> to \<open>s'\<close>.\<close>

fun serves :: "perp_tables \<Rightarrow> 'sub effect list \<Rightarrow> perp_tables \<Rightarrow> bool" where
  "serves s [] s' \<longleftrightarrow> s' = s"
| "serves s (IntentPut r b # tr) s' \<longleftrightarrow> b \<and> serves (sql_persistOrderIntent r s) tr s'"
| "serves s (OutcomePut k x t b # tr) s' \<longleftrightarrow> b \<and> serves (sql_persistOutcome k x t s) tr s'"
| "serves s (FillsPut k fs t b # tr) s' \<longleftrightarrow>
     (case sql_persistFills k fs t s of
        None \<Rightarrow> \<not> b \<and> serves s tr s' | Some s1 \<Rightarrow> b \<and> serves s1 tr s')"
| "serves s (UnresolvedLoaded x # tr) s' \<longleftrightarrow> x = Some (sql_unresolved s) \<and> serves s tr s'"
| "serves s (MissingLoaded n x # tr) s' \<longleftrightarrow> x = sql_missing_fills n s \<and> serves s tr s'"
| "serves s (_ # tr) s' \<longleftrightarrow> serves s tr s'"

text \<open>C37: an order in flight can be submitted again.  Take tables without the identifier.  When
  the answer to a submission is lost and the reconciliation fails, the row of the order is left in
  the tables, without an outcome.  A second run under the same identifier, served from those
  tables, writes its intent again: the write is answered as done and changes nothing, since the
  row is already there; the run then signs and submits a new payload, and ends settled.\<close>

theorem perp_retry_submits_again:
  assumes "xstate_runtime hyperliquidPerpOrderMachine init send"
    and "assessPerpOrderIntent i g = EXECUTABLE" "client_order_id_pattern cid"
    and "cid \<notin> row_clientOrderId ` set (perp_orders s0)"
  shows "\<exists>tr1 tr2 s1 s2 r.
    runs (runOrder init send i g cid 0) tr1 (RUN_FAILED RECONCILIATION_FAILED_CODE, 0) \<and>
    serves s0 tr1 s1 \<and> cid \<in> open_orders s1 \<and>
    runs (runOrder init send i g cid 0) tr2 (SETTLED ACCEPTED cid 0, 0) \<and>
    serves s1 tr2 s2 \<and> IntentPut r True \<in> set tr2 \<and> rec_clientOrderId r = cid \<and>
    sql_persistOrderIntent r s1 = s1 \<and> submissions (tr1 @ tr2) = [u, v]"
proof -
  note rt = perp_runtime [OF assms(1)]
  obtain coin where coin: "hyperliquidCoin (perp_productId i) = Some coin"
    using allowed_coin executable_allowed assms(2) by blast
  obtain c where start: "\<And>(u :: 'a) tr res. runs (runOrder init send i g cid 0) (before i cid coin u @ tr) res \<longleftrightarrow>
      runs (submit_once perp_send (Submitting, c) cid (Some u) 0) tr res"
    using run_until_submission [OF assms(2,3) coin] unfolding rt by metis
  let ?r = "\<lparr>rec_clientOrderId = cid, rec_intent = i, rec_createdAt = Fin 0\<rparr>"
  define tr1 where "tr1 = before i cid coin u @ [Submitted u SUBMIT_DOUBT, Reconciled cid UNRESOLVED]"
  define tr2 where "tr2 = before i cid coin v @ [Submitted v SUBMIT_OK, FillsRead cid (Some []), ClockRead (Fin 0),
    OutcomePut cid ACCEPTED (Fin 0) True]"
  define s1 where "s1 = sql_persistOrderIntent ?r s0"
  have "runs (runOrder init send i g cid 0) tr1 (RUN_FAILED RECONCILIATION_FAILED_CODE, 0)"
    unfolding tr1_def start
    by (simp add: submit_once_def after_submission_def reconcileInFlight_def finishOutcome_def
        run_result_def ex_bool_eq)
  moreover have "runs (runOrder init send i g cid 0) tr2 (SETTLED ACCEPTED cid 0, 0)"
    unfolding tr2_def start
    by (simp add: submit_once_def after_submission_def finishOutcome_def persistReconciledFills_def
        run_result_def ex_bool_eq)
  moreover have "submissions (tr1 @ tr2) = [u, v]" "serves s0 tr1 s1" "IntentPut ?r True \<in> set tr2"
    by (simp_all add: tr1_def tr2_def before_def s1_def)
  moreover have again: "sql_persistOrderIntent ?r s1 = s1"
    by (auto simp: s1_def sql_persistOrderIntent_def list_ex_iff)
  then have "serves s1 tr2 (sql_persistOutcome cid ACCEPTED (Fin 0) s1)"
    by (simp add: tr2_def before_def)
  moreover have "cid \<in> open_orders s1"
    using assms(4) unfolding s1_def sql_open_ids sql_persistOrderIntent_def
    by (intro image_eqI [where x = "\<lparr>row_clientOrderId = cid, row_intent = i, row_outcome = None,
          row_createdAt = Fin 0, row_settledAt = None\<rparr>"]) (auto simp: list_ex_iff)
  ultimately show ?thesis
    by - (rule exI [of _ tr1], rule exI [of _ tr2], rule exI [of _ s1],
        rule exI [of _ "sql_persistOutcome cid ACCEPTED (Fin 0) s1"], rule exI [of _ ?r], simp add: again)
qed

theorem perp_retry_submits_again_witness:
  "\<exists>tr1 tr2 s1. runs (runOrder (sc_start hyperliquidPerpOrderMachine) perp_send demo_intent demo_gate
       ''order-0001'' 0) tr1 (RUN_FAILED RECONCILIATION_FAILED_CODE, 0) \<and>
     serves tables_empty tr1 s1 \<and> ''order-0001'' \<in> open_orders s1 \<and> submissions (tr1 @ tr2) = [7 :: nat, 8]"
  using perp_retry_submits_again [OF perp.runtime_sc demo_executable, of "''order-0001''" tables_empty 7 8]
  by (auto simp: client_order_id_pattern_def id_char_def tables_empty_def)

subsection \<open>The exposure of an account\<close>

text \<open>
  The documented rule 7 of \<^verbatim>\<open>models/hyperliquid-execution.md\<close>: the exposure outside the product
  and the resulting position together.
\<close>

definition documented_exposure :: "PerpOrderIntent \<Rightarrow> PerpRiskGate \<Rightarrow> number" where
  "documented_exposure i g = otherGrossExposureNotional g + perp_position_notional i g"

text \<open>C38: the gate counts the product's own position twice: it subtracts it from an exposure from
  which the account reading has already left it out, so there is an account for which an
  order is executable although the documented exposure exceeds the limit.\<close>

theorem perp_exposure_understated:
  "\<exists>account i g. g = derivePerpRiskGate account ''BTC'' (perp_markPrice i) (Fin 0) \<and>
     assessPerpOrderIntent i g = EXECUTABLE \<and>
     env_maxGrossExposure PERP_RISK + TOLERANCE < documented_exposure i g"
proof -
  define account where "account = \<lparr>accountValue = Fin 10000, totalRawUsd = Fin 10500,
    positions = [\<lparr>ap_coin = ''BTC'', ap_quantity = Fin 10, ap_unrealizedPnl = Fin 0\<rparr>]\<rparr>"
  define i where "i = \<lparr>perp_productId = ''BTC-PERP'', perp_side = BUY, perp_quantity = Fin 5,
    perp_markPrice = Fin 100, perp_leverage = Fin 1\<rparr>"
  define g where "g = derivePerpRiskGate account ''BTC'' (perp_markPrice i) (Fin 0)"
  have g: "g = \<lparr>admissionApproved = True, positionQuantity = Fin 10, gate_dailyPnl = Fin 0,
      otherGrossExposureNotional = Fin 9500\<rparr>"
    by (simp add: g_def derivePerpRiskGate_def account_def i_def minus_number_def js_max_def)
  have amounts: "perp_notional i = Fin 500" "perp_position_notional i g = Fin 1500"
    "perp_gross_exposure i g = Fin 10000" "documented_exposure i g = Fin 11000"
    by (simp_all add: perp_notional_def perp_position_notional_def perp_gross_exposure_def
        documented_exposure_def g i_def minus_number_def)
  note no_loss
  moreover have "\<not> Fin 600 + TOLERANCE < Fin 500"
    "\<not> Fin 10000 + TOLERANCE < Fin 1500" "\<not> Fin 10000 + TOLERANCE < Fin 10000"
    "Fin 10000 + TOLERANCE < Fin 11000"
    using lt_limits(1) [of 600 500] lt_limits(1) [of 10000] lt_limits(2) [of 10000 11000]
    by simp_all
  ultimately have "assessPerpOrderIntent i g = EXECUTABLE"
    "env_maxGrossExposure PERP_RISK + TOLERANCE < documented_exposure i g"
    by (simp_all add: assessPerpOrderIntent_def invalidIntent_def perp_refusal_def PERP_RISK_def
        PERP_MAX_LEVERAGE_def amounts isAllowedProduct_def PERP_PRODUCTS_def isSafeInteger_def)
       (simp_all add: g i_def)
  then show ?thesis
    using g_def by blast
qed

end
