(* ===== verification/Effects.thy ===== *)
theory Effects
  imports Main
begin

text \<open>
  Programs that ask for effects: a program ends with a value, or asks one question and goes on
  with any answer.  The order of the questions is the order in which the code awaits them; what
  the world answers is open.
\<close>

datatype ('q, 'r, 'a) program =
  Done 'a
| Ask 'q "'r \<Rightarrow> ('q, 'r, 'a) program"

primrec follow :: "('q, 'r, 'a) program \<Rightarrow> ('a \<Rightarrow> ('q, 'r, 'b) program) \<Rightarrow> ('q, 'r, 'b) program" where
  "follow (Done a) f = f a"
| "follow (Ask q k) f = Ask q (\<lambda>r. follow (k r) f)"

text \<open>
  The program ends with \<open>b\<close> after the questions and answers \<open>tr\<close>.
\<close>

primrec performs :: "('q, 'r, 'a) program \<Rightarrow> ('q \<times> 'r) list \<Rightarrow> 'a \<Rightarrow> bool" where
  "performs (Done a) tr b \<longleftrightarrow> tr = [] \<and> b = a"
| "performs (Ask q k) tr b \<longleftrightarrow>
     (case tr of [] \<Rightarrow> False | (q', r) # tr' \<Rightarrow> q' = q \<and> performs (k r) tr' b)"

text \<open>A world that answers every question runs a program to its end.\<close>

primrec execute :: "('w \<Rightarrow> 'q \<Rightarrow> 'r \<times> 'w) \<Rightarrow> ('q, 'r, 'a) program \<Rightarrow> 'w \<Rightarrow> 'a \<times> ('q \<times> 'r) list" where
  "execute w (Done a) s = (a, [])"
| "execute w (Ask q k) s =
     (let (r, s') = w s q; (a, tr) = execute w (k r) s' in (a, (q, r) # tr))"

lemma performs_execute: "performs p (snd (execute w p s)) (fst (execute w p s))"
  by (induction p arbitrary: s) (simp_all add: case_prod_unfold Let_def)

lemma performs_Ask:
  "performs (Ask q k) tr b \<longleftrightarrow> (\<exists>r tr'. tr = (q, r) # tr' \<and> performs (k r) tr' b)"
  by (auto split: list.splits)

lemma performs_follow:
  "performs (follow p f) tr b \<longleftrightarrow>
     (\<exists>tr1 a tr2. tr = tr1 @ tr2 \<and> performs p tr1 a \<and> performs (f a) tr2 b)"
proof (induction p arbitrary: tr)
  case (Ask q k)
  have "performs (follow (Ask q k) f) tr b \<longleftrightarrow>
      (\<exists>r tr1 a tr2. tr = (q, r) # tr1 @ tr2 \<and> performs (k r) tr1 a \<and> performs (f a) tr2 b)"
    by (simp only: follow.simps performs_Ask Ask.IH [OF rangeI]) blast
  then show ?case
    unfolding performs_Ask by (metis append_Cons)
qed auto

lemma performs_followI:
  "performs p tr1 a \<Longrightarrow> performs (f a) tr2 b \<Longrightarrow> performs (follow p f) (tr1 @ tr2) b"
  unfolding performs_follow by blast

lemma performs_follow_Cons:
  "performs p [x] a \<Longrightarrow> performs (f a) tr b \<Longrightarrow> performs (follow p f) (x # tr) b"
  using performs_followI [of p "[x]"] by simp

lemma follow_cong: "(\<And>tr a. performs p tr a \<Longrightarrow> f a = g a) \<Longrightarrow> follow p f = follow p g"
proof (induction p)
  case (Ask q k)
  have "follow (k r) f = follow (k r) g" for r
    by (rule Ask.IH [OF rangeI]) (rule Ask.prems [of "(q, r) # _"], simp)
  then show ?case
    by simp
qed simp

lemma performs_follow_Done:
  "performs (follow p (\<lambda>a. Done (f a))) tr b \<longleftrightarrow> (\<exists>a. performs p tr a \<and> b = f a)"
  by (simp add: performs_follow)

subsection \<open>What every run ensures\<close>

definition assures :: "('q, 'r, 'a) program \<Rightarrow> (('q \<times> 'r) list \<Rightarrow> 'a \<Rightarrow> bool) \<Rightarrow> bool" where
  "assures p Q \<longleftrightarrow> (\<forall>tr a. performs p tr a \<longrightarrow> Q tr a)"

lemma assures_Done [simp]: "assures (Done a) Q \<longleftrightarrow> Q [] a"
  by (simp add: assures_def)

lemma assures_Ask [simp]: "assures (Ask q k) Q \<longleftrightarrow> (\<forall>r. assures (k r) (\<lambda>tr. Q ((q, r) # tr)))"
  unfolding assures_def performs_Ask by blast

lemma assures_mono: "assures p R \<Longrightarrow> (\<And>tr a. R tr a \<Longrightarrow> Q tr a) \<Longrightarrow> assures p Q"
  by (auto simp: assures_def)

lemma assures_follow:
  "assures (follow p f) Q \<longleftrightarrow> assures p (\<lambda>tr a. assures (f a) (\<lambda>tr'. Q (tr @ tr')))"
  unfolding assures_def performs_follow by blast

lemma assures_conj: "assures p (\<lambda>tr a. Q tr a \<and> R tr a) \<longleftrightarrow> assures p Q \<and> assures p R"
  by (auto simp: assures_def)

lemma assures_then:
  "assures p R \<Longrightarrow> (\<And>tr a. R tr a \<Longrightarrow> assures (f a) (\<lambda>tr'. Q (tr @ tr'))) \<Longrightarrow>
    assures (follow p f) Q"
  unfolding assures_follow by (rule assures_mono)

text \<open>A trace without questions of a kind.\<close>

definition asks_none :: "('q \<Rightarrow> bool) \<Rightarrow> ('q \<times> 'r) list \<Rightarrow> bool" where
  "asks_none K tr \<longleftrightarrow> (\<forall>(q, r) \<in> set tr. \<not> K q)"

lemma asks_none_simps [simp]:
  "asks_none K []" "asks_none K ((q, r) # tr) \<longleftrightarrow> \<not> K q \<and> asks_none K tr"
  "asks_none K (tr @ tr') \<longleftrightarrow> asks_none K tr \<and> asks_none K tr'"
  by (auto simp: asks_none_def)

text \<open>A program that never asks a question of a kind.\<close>

definition quiet :: "('q \<Rightarrow> bool) \<Rightarrow> ('q, 'r, 'a) program \<Rightarrow> bool" where
  "quiet K p \<longleftrightarrow> assures p (\<lambda>tr a. asks_none K tr)"

lemma quiet_Done [simp, intro]: "quiet K (Done a)"
  by (simp add: quiet_def)

lemma quiet_Ask [intro]: "\<not> K q \<Longrightarrow> (\<And>r. quiet K (k r)) \<Longrightarrow> quiet K (Ask q k)"
  by (simp add: quiet_def)

lemma quiet_follow [intro!]: "quiet K p \<Longrightarrow> (\<And>a. quiet K (f a)) \<Longrightarrow> quiet K (follow p f)"
  unfolding quiet_def by (rule assures_then) (auto intro: assures_mono)

lemma quiet_performs: "quiet K p \<Longrightarrow> performs p tr a \<Longrightarrow> asks_none K tr"
  by (auto simp: quiet_def assures_def)

subsection \<open>Loops\<close>

text \<open>At most \<open>n\<close> steps; a step ends the loop with a value or goes on with a state.\<close>

primrec repeat :: "nat \<Rightarrow> ('s \<Rightarrow> ('q, 'r, 'a + 's) program) \<Rightarrow> ('s \<Rightarrow> 'a) \<Rightarrow> 's
    \<Rightarrow> ('q, 'r, 'a) program" where
  "repeat 0 step limit s = Done (limit s)"
| "repeat (Suc n) step limit s =
     follow (step s) (\<lambda>x. case x of Inl a \<Rightarrow> Done a | Inr s' \<Rightarrow> repeat n step limit s')"

lemma repeat_invariant:
  assumes "performs (repeat n step limit s) tr a" and "J tr0 s"
    and step: "\<And>tr s tr' x. J tr s \<Longrightarrow> performs (step s) tr' x \<Longrightarrow>
      (case x of Inl a \<Rightarrow> Q (tr @ tr') a | Inr s' \<Rightarrow> J (tr @ tr') s')"
    and limit: "\<And>tr s. J tr s \<Longrightarrow> Q tr (limit s)"
  shows "Q (tr0 @ tr) a"
  using assms(1,2)
proof (induction n arbitrary: tr0 s tr)
  case 0
  then show ?case
    using limit by simp
next
  case (Suc n)
  from Suc.prems(1) obtain tr1 x tr2 where tr: "tr = tr1 @ tr2" and x: "performs (step s) tr1 x"
    and rest: "performs (case x of Inl a \<Rightarrow> Done a | Inr s' \<Rightarrow> repeat n step limit s') tr2 a"
    by (auto simp: performs_follow)
  show ?case
  proof (cases x)
    case (Inl b)
    then show ?thesis
      using step [OF Suc.prems(2) x] rest by (simp add: tr)
  next
    case (Inr s')
    then show ?thesis
      using Suc.IH [of s' tr2 "tr0 @ tr1"] step [OF Suc.prems(2) x] rest by (simp add: tr)
  qed
qed

text \<open>A loop whose steps descend is the same with any limit above its rank.\<close>

lemma repeat_fuel:
  assumes "\<And>s tr s'. performs (step s) tr (Inr s') \<Longrightarrow> R s' < (R s :: nat)"
  shows "R s < n \<Longrightarrow> R s < k \<Longrightarrow> repeat n step limit s = repeat k step limit s"
proof (induction n arbitrary: s k)
  case (Suc n)
  then obtain k' where k: "k = Suc k'"
    by (cases k) simp_all
  show ?case
    unfolding k repeat.simps
  proof (rule follow_cong)
    fix tr x
    assume x: "performs (step s) tr x"
    show "(case x of Inl a \<Rightarrow> Done a | Inr s' \<Rightarrow> repeat n step limit s') =
        (case x of Inl a \<Rightarrow> Done a | Inr s' \<Rightarrow> repeat k' step limit s')"
    proof (cases x)
      case (Inr s')
      then show ?thesis
        using assms x Suc.prems Suc.IH [of s' k'] by (fastforce simp: k)
    qed simp
  qed
qed simp

lemma repeat_next:
  "performs (step s) tr1 (Inr s') \<Longrightarrow> performs (repeat n step limit s') tr2 a \<Longrightarrow>
   performs (repeat (Suc n) step limit s) (tr1 @ tr2) a"
  by (unfold repeat.simps, rule performs_followI, assumption) simp

lemma repeat_end: "performs (step s) tr (Inl a) \<Longrightarrow> performs (repeat (Suc n) step limit s) tr a"
  by (subst append_Nil2 [symmetric], unfold repeat.simps, rule performs_followI, assumption) simp

lemma quiet_repeat: "(\<And>s. quiet K (step s)) \<Longrightarrow> quiet K (repeat n step limit s)"
  by (induction n arbitrary: s) (auto split: sum.split)

end
