(* ===== verification/CoinbaseWire.thy ===== *)
theory CoinbaseWire
  imports Json Interpreter LiveSellProtection Effects
begin

text \<open>
  What the Coinbase programs share: settings, authorizations and requests of
  \<^verbatim>\<open>apps/agent/src/coinbase-execution.ts\<close>, \<^verbatim>\<open>coinbase-jwt.ts\<close> and \<^verbatim>\<open>workflow-errors.ts\<close>, and
  the decimal text of amounts.  Functions of the runtime the code calls and does not define (the
  URL parser, numbers to and from text, dates) are collected in a \<open>cb_host\<close>; the clock, the
  signature, the network, the timer and the checkpoint are questions a program asks.
\<close>

subsection \<open>Host and settings\<close>

record Url =
  url_protocol :: string
  url_host :: string
  url_username :: string
  url_password :: string
  url_search :: string
  url_hash :: string
  url_pathname :: string

text \<open>\<open>new URL(text)\<close> (none when it throws), \<open>Number(text)\<close>, \<open>String(x)\<close>, \<open>Date.parse(text)\<close>.\<close>

record cb_host =
  parseUrl :: "string \<Rightarrow> Url option"
  toNumber :: "string \<Rightarrow> number"
  numberText :: "number \<Rightarrow> string"
  parseDate :: "string \<Rightarrow> number"

record CoinbaseExecutionSettings =
  apiBaseUrl :: string
  apiKeyId :: string
  privateKeyPem :: string
  portfolioId :: string

datatype CoinbaseHttpMethod = GET | POST

record CoinbaseJwtCredential =
  cred_token :: string
  cred_method :: CoinbaseHttpMethod
  cred_host :: string
  cred_path :: string

text \<open>The credential is of unknown type in the code: \<open>None\<close> is a value of another shape.\<close>

record CoinbaseAuthorization =
  issuedAt :: number
  expiresAt :: number
  credential :: "CoinbaseJwtCredential option"

record CoinbaseProtectionPlan =
  stopLossPrice :: number
  takeProfitPrice :: number

record CoinbaseAccountSnapshot =
  ca_snapshotId :: string
  ca_observedAt :: number
  ca_portfolioId :: string
  ca_portfolio :: PaperPortfolio
  ca_accountEquity :: number
  ca_targetExposureNotional :: number
  ca_otherExposureNotional :: number
  ca_availableBaseQuantity :: number
  ca_totalBaseQuantity :: number

text \<open>A confirmed submission: the exchange's order, the portfolio, the fill, the protective order.\<close>

record ConfirmedOrderSubmission =
  co_exchangeOrderId :: string
  co_portfolio :: PaperPortfolio
  co_fill :: "Fill option"
  co_protectiveOrderId :: "string option"

record CoinbaseProtectedSellCheckpoint =
  cp_state :: sellState
  cp_context :: LiveSellProtectionContext
  cp_account :: "CoinbaseAccountSnapshot option"
  cp_sellSubmission :: "ConfirmedOrderSubmission option"
  cp_protectionPlan :: "CoinbaseProtectionPlan option"

subsection \<open>Questions and answers\<close>

record http_request =
  rq_method :: CoinbaseHttpMethod
  rq_path :: string
  rq_query :: "(string \<times> string) list"
  rq_token :: string
  rq_body :: "json option"

text \<open>
  No response is a network error or a timeout.  A response has a status and the value of its
  body, \<open>None\<close> when it cannot be read as JSON within its bound.
\<close>

datatype http_response = NoResponse | Response nat "json option"

datatype cb_question =
  ReadClock
| SignJwt CoinbaseHttpMethod string string number
| Fetch http_request
| WaitFor number
| SaveCheckpoint CoinbaseProtectedSellCheckpoint

datatype cb_answer =
  Time number
| Token "string option"
| Reply http_response
| Elapsed
| Saved "workflowError option"

type_synonym 'a cb = "(cb_question, cb_answer, 'a) program"

text \<open>An answer of another kind counts as none.\<close>

definition read_clock :: "(number \<Rightarrow> 'a cb) \<Rightarrow> 'a cb" where
  "read_clock k = Ask ReadClock (\<lambda>r. k (case r of Time t \<Rightarrow> t | _ \<Rightarrow> NaN))"

definition sign_jwt :: "CoinbaseHttpMethod \<Rightarrow> string \<Rightarrow> string \<Rightarrow> number \<Rightarrow> (string option \<Rightarrow> 'a cb) \<Rightarrow> 'a cb" where
  "sign_jwt method host path t k =
     Ask (SignJwt method host path t) (\<lambda>r. k (case r of Token x \<Rightarrow> x | _ \<Rightarrow> None))"

definition fetch :: "http_request \<Rightarrow> (http_response \<Rightarrow> 'a cb) \<Rightarrow> 'a cb" where
  "fetch q k = Ask (Fetch q) (\<lambda>r. k (case r of Reply x \<Rightarrow> x | _ \<Rightarrow> NoResponse))"

definition wait_for :: "number \<Rightarrow> 'a cb \<Rightarrow> 'a cb" where
  "wait_for ms k = Ask (WaitFor ms) (\<lambda>_. k)"

definition save_checkpoint :: "CoinbaseProtectedSellCheckpoint \<Rightarrow> (workflowError option \<Rightarrow> 'a cb) \<Rightarrow> 'a cb" where
  "save_checkpoint c k =
     Ask (SaveCheckpoint c) (\<lambda>r. k (case r of Saved x \<Rightarrow> x
       | _ \<Rightarrow> Some (mkError PhPersistence PersistenceFailure False)))"

text \<open>\<open>response.ok\<close>.\<close>

definition status_ok :: "nat \<Rightarrow> bool" where
  "status_ok n \<longleftrightarrow> 200 \<le> n \<and> n \<le> 299"

definition get_request :: "string \<Rightarrow> string \<Rightarrow> http_request" where
  "get_request path token =
     \<lparr>rq_method = GET, rq_path = path, rq_query = [], rq_token = token, rq_body = None\<rparr>"

definition post_request :: "string \<Rightarrow> string \<Rightarrow> json \<Rightarrow> http_request" where
  "post_request path token body =
     \<lparr>rq_method = POST, rq_path = path, rq_query = [], rq_token = token, rq_body = Some body\<rparr>"

subsection \<open>Errors\<close>

definition executionError :: "workflowErrorCode \<Rightarrow> bool \<Rightarrow> workflowError" where
  "executionError = mkError PhExecution"

definition reconciliationError :: "workflowErrorCode \<Rightarrow> bool \<Rightarrow> workflowError" where
  "reconciliationError = mkError PhReconciliation"

definition authorizationError :: workflowError where
  "authorizationError = mkError PhAuthorization AuthenticationFailure False"

text \<open>\<open>reconciliationError()\<close>, its defaults.\<close>

abbreviation notReconciled :: workflowError where
  "notReconciled \<equiv> reconciliationError ReconciliationFailure True"

abbreviation invalidAnswer :: workflowError where
  "invalidAnswer \<equiv> reconciliationError InvalidResponse False"

subsection \<open>Authorizations\<close>

definition COINBASE_CREATE_ORDER_PATH :: string where
  "COINBASE_CREATE_ORDER_PATH = ''/api/v3/brokerage/orders''"

text \<open>\<open>encodeURIComponent\<close>: a code unit from 128 on is two bytes of UTF-8.\<close>

definition uri_plain :: "char \<Rightarrow> bool" where
  "uri_plain c \<longleftrightarrow>
     (let n = (of_char c :: nat)
      in (48 \<le> n \<and> n \<le> 57) \<or> (65 \<le> n \<and> n \<le> 90) \<or> (97 \<le> n \<and> n \<le> 122) \<or>
         n \<in> {33, 39, 40, 41, 42, 45, 46, 95, 126})"

definition uri_byte :: "nat \<Rightarrow> string" where
  "uri_byte n = ''%'' @ concat (map upper_char (pad_start 2 (CHR ''0'') (radix 16 n)))"

definition encodeURIComponent :: "string \<Rightarrow> string" where
  "encodeURIComponent s =
     concat (map (\<lambda>c. if uri_plain c then [c]
       else let n = of_char c
         in if n < 128 then uri_byte n else uri_byte (192 + n div 64) @ uri_byte (128 + n mod 64)) s)"

definition coinbaseProductPath :: "string \<Rightarrow> string" where
  "coinbaseProductPath p = ''/api/v3/brokerage/products/'' @ encodeURIComponent p"

text \<open>\<open>None\<close>: it throws.\<close>

definition coinbaseOrderPath :: "string \<Rightarrow> string option" where
  "coinbaseOrderPath i =
     (if \<not> non_blank i then None
      else Some (COINBASE_CREATE_ORDER_PATH @ ''/historical/'' @ encodeURIComponent i))"

definition requestTarget :: "cb_host \<Rightarrow> CoinbaseExecutionSettings \<Rightarrow> string option" where
  "requestTarget h s =
     (case parseUrl h (apiBaseUrl s) of
        None \<Rightarrow> None
      | Some base \<Rightarrow>
          if url_protocol base \<noteq> ''https:'' \<or> url_username base \<noteq> [] \<or> url_password base \<noteq> [] \<or>
             url_search base \<noteq> [] \<or> url_hash base \<noteq> [] \<or>
             url_pathname base \<noteq> ''/'' \<and> url_pathname base \<noteq> []
          then None else Some (url_host base))"

definition JWT_TTL_SECONDS :: number where
  "JWT_TTL_SECONDS = Fin 120"

text \<open>
  \<open>createCoinbaseJwt\<close>: the checks of the request and of the time; the key, the nonce and the
  signature are the answer to one question.
\<close>

definition createCoinbaseJwt :: "CoinbaseExecutionSettings \<Rightarrow> CoinbaseHttpMethod \<Rightarrow> string \<Rightarrow> string
    \<Rightarrow> number \<Rightarrow> (string \<times> number \<times> number) option cb" where
  "createCoinbaseJwt s method host path nowSeconds =
     (if \<not> non_blank (apiKeyId s) \<or> \<not> non_blank (privateKeyPem s) \<or> \<not> non_blank host \<or>
         take 1 path \<noteq> ''/'' \<or> CHR ''?'' \<in> set path \<or> CHR ''#'' \<in> set path
      then Done None
      else if \<not> isSafeInteger nowSeconds \<or> nowSeconds < Fin 0 then Done None
      else sign_jwt method host path nowSeconds (\<lambda>signed. Done (map_option (\<lambda>token.
        (token, nowSeconds * Fin 1000, (nowSeconds + JWT_TTL_SECONDS) * Fin 1000)) signed)))"

text \<open>\<open>createCoinbaseAuthorization\<close> at a time already read, and reading the clock.\<close>

definition authorization_at :: "cb_host \<Rightarrow> CoinbaseExecutionSettings \<Rightarrow> CoinbaseHttpMethod \<Rightarrow> string
    \<Rightarrow> string \<Rightarrow> number \<Rightarrow> (CoinbaseAuthorization, workflowError) result cb" where
  "authorization_at h s method path host t =
     follow (createCoinbaseJwt s method host path (js_floor (t / Fin 1000))) (\<lambda>jwt.
       Done (case jwt of
            None \<Rightarrow> err authorizationError
          | Some (token, iat, expiry) \<Rightarrow>
              ok \<lparr>issuedAt = iat, expiresAt = expiry,
                  credential = Some \<lparr>cred_token = token, cred_method = method, cred_host = host,
                                     cred_path = path\<rparr>\<rparr>))"

definition createCoinbaseAuthorization :: "cb_host \<Rightarrow> CoinbaseExecutionSettings \<Rightarrow> CoinbaseHttpMethod
    \<Rightarrow> string \<Rightarrow> (CoinbaseAuthorization, workflowError) result cb" where
  "createCoinbaseAuthorization h s method path =
     (case requestTarget h s of
        None \<Rightarrow> Done (err authorizationError)
      | Some host \<Rightarrow> read_clock (\<lambda>t. authorization_at h s method path host t))"

text \<open>The token of an authorization that is good for the request now.\<close>

definition credentialFor :: "CoinbaseAuthorization \<Rightarrow> CoinbaseHttpMethod \<Rightarrow> string \<Rightarrow> string \<Rightarrow> number
    \<Rightarrow> string option" where
  "credentialFor a method host path t =
     (case credential a of
        None \<Rightarrow> None
      | Some c \<Rightarrow>
          if cred_token c \<noteq> [] \<and> cred_method c = method \<and> cred_host c = host \<and>
             cred_path c = path \<and> issuedAt a \<le> t \<and> t < expiresAt a
          then Some (cred_token c) else None)"

definition credentialToken :: "CoinbaseAuthorization \<Rightarrow> string option" where
  "credentialToken a =
     (case credential a of
        None \<Rightarrow> None | Some c \<Rightarrow> if cred_token c = [] then None else Some (cred_token c))"

subsection \<open>Decimal text\<close>

text \<open>\<open>x.toFixed(d)\<close>: the nearest multiple of \<open>10^-d\<close>, the greater of two.\<close>

definition fixed_digits :: "nat \<Rightarrow> nat \<Rightarrow> string" where
  "fixed_digits d n =
     (let m = pad_start (d + 1) (CHR ''0'') (radix 10 n)
      in if d = 0 then m else take (length m - d) m @ ''.'' @ drop (length m - d) m)"

fun toFixed :: "cb_host \<Rightarrow> nat \<Rightarrow> number \<Rightarrow> string" where
  "toFixed h d (Fin r) =
     (if 10 ^ 21 \<le> \<bar>r\<bar> then numberText h (Fin r)
      else (if r < 0 then ''-'' else []) @ fixed_digits d (nat \<lfloor>\<bar>r\<bar> * 10 ^ d + 1 / 2\<rfloor>))"
| "toFixed h d x = numberText h x"

definition digits_only :: "string \<Rightarrow> bool" where
  "digits_only s \<longleftrightarrow> list_all (\<lambda>c. CHR ''0'' \<le> c \<and> c \<le> CHR ''9'') s"

text \<open>The number of decimals of a plain decimal, by the pattern of the code.\<close>

definition decimalPlaces :: "string \<Rightarrow> nat option" where
  "decimalPlaces s =
     (let whole = (\<lambda>i. i = ''0'' \<or> i \<noteq> [] \<and> digits_only i \<and> hd i \<noteq> CHR ''0'')
      in case split_on (CHR ''.'') s of
           [i] \<Rightarrow> if whole i then Some 0 else None
         | [i, f] \<Rightarrow> if whole i \<and> f \<noteq> [] \<and> digits_only f then Some (length f) else None
         | _ \<Rightarrow> None)"

text \<open>The digits of a coefficient with the decimal point moved to a place.\<close>

definition exponent_text :: "string \<Rightarrow> int \<Rightarrow> string" where
  "exponent_text digits decimalAt =
     (if decimalAt \<le> 0 then ''0.'' @ replicate (nat (- decimalAt)) (CHR ''0'') @ digits
      else if int (length digits) \<le> decimalAt
      then digits @ replicate (nat decimalAt - length digits) (CHR ''0'')
      else take (nat decimalAt) digits @ ''.'' @ drop (nat decimalAt) digits)"

text \<open>\<open>None\<close>: it throws.\<close>

definition decimalString :: "cb_host \<Rightarrow> number \<Rightarrow> string option" where
  "decimalString h x =
     (if \<not> isFinite x \<or> x \<le> Fin 0 then None
      else let source = numberText h x
        in case split_on (CHR ''e'') source of
             [coefficient, exponentSource] \<Rightarrow>
               (case (split_on (CHR ''.'') (filter (\<lambda>c. c \<noteq> CHR ''-'') coefficient),
                      toNumber h exponentSource) of
                  (integer # fraction, Fin e) \<Rightarrow>
                    Some (exponent_text (integer @ concat (take 1 fraction))
                      (int (length integer) + \<lfloor>e\<rfloor>))
                | _ \<Rightarrow> None)
           | _ \<Rightarrow> Some source)"

end
