(* ===== verification/LivePolicy.thy ===== *)
theory LivePolicy
  imports Domain
begin

text \<open>
  What may trade live: the frozen policy and its admission,
  \<^verbatim>\<open>models/live-trading-policy.ts\<close>; the evidence of a preflight, \<^verbatim>\<open>models/live-preflight.ts\<close>
  over \<^verbatim>\<open>models/live-preflight.types.ts\<close>; and whether a spot order is executable,
  \<^verbatim>\<open>models/spot-permission.ts\<close>.
\<close>

subsection \<open>The live policy\<close>

definition LIVE_TRADING_PRODUCTS :: "string list" where
  "LIVE_TRADING_PRODUCTS = [''GRT-USD'', ''MANA-USD'', ''XTZ-USD'', ''ZEC-USD'']"

record LiveTradingSizing =
  lts_type :: string
  lts_targetSignalNotional :: "number option"
  lts_confidenceCalibration :: "string option"

record LiveTradingRiskPolicy =
  ltr_maxOrderNotional :: number
  ltr_maxPositionNotional :: number
  ltr_maxGrossExposure :: number
  ltr_maxDailyLoss :: number
  ltr_cooldownMs :: number
  ltr_stopLossBps :: number
  ltr_takeProfitBps :: number

record LiveTradingCandidate =
  ltc_executionMode :: string
  ltc_productId :: string
  ltc_timeframe :: string
  ltc_strategyIds :: "string list"
  ltc_intervalSeconds :: number
  ltc_maxMarketStalenessMs :: number
  ltc_candleLimit :: number
  ltc_initialCapital :: number
  ltc_maxDecisionNotional :: number
  ltc_minNetQuantity :: number
  ltc_sizingPolicy :: LiveTradingSizing
  ltc_risk :: LiveTradingRiskPolicy

text \<open>\<open>baseIncrements[productId]\<close>.\<close>

definition baseIncrement :: "string \<Rightarrow> number option" where
  "baseIncrement p =
     (if p = ''GRT-USD'' \<or> p = ''MANA-USD'' \<or> p = ''XTZ-USD'' then Some (fl (1 / 100))
      else if p = ''ZEC-USD'' then Some (fl (1 / 100000000)) else None)"

definition LIVE_RISK :: LiveTradingRiskPolicy where
  "LIVE_RISK =
     \<lparr>ltr_maxOrderNotional = Fin 600, ltr_maxPositionNotional = Fin 10000,
      ltr_maxGrossExposure = Fin 20000, ltr_maxDailyLoss = Fin 1000, ltr_cooldownMs = Fin 0,
      ltr_stopLossBps = Fin 150, ltr_takeProfitBps = Fin 300\<rparr>"

definition LIVE_SIZING :: LiveTradingSizing where
  "LIVE_SIZING =
     \<lparr>lts_type = ''TARGET_SIGNAL_NOTIONAL'', lts_targetSignalNotional = Some (Fin 1000),
      lts_confidenceCalibration = Some ''POWER_THIRD''\<rparr>"

text \<open>The policy, as the candidate that matches it for a product.\<close>

definition LIVE_TRADING_POLICY :: "string \<Rightarrow> LiveTradingCandidate" where
  "LIVE_TRADING_POLICY p =
     \<lparr>ltc_executionMode = ''live'', ltc_productId = p, ltc_timeframe = ''ONE_DAY'',
      ltc_strategyIds = [''breakout'', ''ema-cross'', ''rsi-reversion''],
      ltc_intervalSeconds = Fin 3600, ltc_maxMarketStalenessMs = Fin 7200000,
      ltc_candleLimit = Fin 200, ltc_initialCapital = Fin 10000,
      ltc_maxDecisionNotional = Fin 600, ltc_minNetQuantity = fl (1 / 1000000),
      ltc_sizingPolicy = LIVE_SIZING, ltc_risk = LIVE_RISK\<rparr>"

datatype LiveTradingAdmission = LIVE_APPROVED | LIVE_PRODUCT_NOT_ALLOWED | LIVE_POLICY_MISMATCH

definition lower_char :: "char \<Rightarrow> char" where
  "lower_char c =
     (let n = (of_char c :: nat)
      in if (65 \<le> n \<and> n \<le> 90) \<or> (192 \<le> n \<and> n \<le> 222 \<and> n \<noteq> 215) then char_of (n + 32) else c)"

definition liveTradingAgentName :: "string \<Rightarrow> string" where
  "liveTradingAgentName p = map lower_char p @ ''--multi''"

text \<open>\<open>assessLiveTradingAgentIdentity\<close>: approved, or \<open>LIVE_AGENT_NAME_MISMATCH\<close>.\<close>

definition assessLiveTradingAgentIdentity :: "string \<Rightarrow> string \<Rightarrow> bool" where
  "assessLiveTradingAgentIdentity p agentName \<longleftrightarrow> agentName = liveTradingAgentName p"

definition sameOrderedStrings :: "string list \<Rightarrow> string list \<Rightarrow> bool" where
  "sameOrderedStrings xs ys \<longleftrightarrow>
     length xs = length ys \<and> list_all (\<lambda>(x, y). x = y) (zip xs ys)"

definition same_optional :: "number option \<Rightarrow> number option \<Rightarrow> bool" where
  "same_optional x y =
     (case (x, y) of (Some a, Some b) \<Rightarrow> num_eq a b | (None, None) \<Rightarrow> True | _ \<Rightarrow> False)"

definition matchesSizing :: "LiveTradingCandidate \<Rightarrow> bool" where
  "matchesSizing c \<longleftrightarrow>
     lts_type (ltc_sizingPolicy c) = lts_type LIVE_SIZING \<and>
     same_optional (lts_targetSignalNotional (ltc_sizingPolicy c)) (lts_targetSignalNotional LIVE_SIZING) \<and>
     lts_confidenceCalibration (ltc_sizingPolicy c) = lts_confidenceCalibration LIVE_SIZING"

definition matchesLiveRisk :: "LiveTradingCandidate \<Rightarrow> bool" where
  "matchesLiveRisk c \<longleftrightarrow>
     num_eq (ltr_maxOrderNotional (ltc_risk c)) (ltr_maxOrderNotional LIVE_RISK) \<and>
     num_eq (ltr_maxPositionNotional (ltc_risk c)) (ltr_maxPositionNotional LIVE_RISK) \<and>
     num_eq (ltr_maxGrossExposure (ltc_risk c)) (ltr_maxGrossExposure LIVE_RISK) \<and>
     num_eq (ltr_maxDailyLoss (ltc_risk c)) (ltr_maxDailyLoss LIVE_RISK) \<and>
     num_eq (ltr_cooldownMs (ltc_risk c)) (ltr_cooldownMs LIVE_RISK) \<and>
     num_eq (ltr_stopLossBps (ltc_risk c)) (ltr_stopLossBps LIVE_RISK) \<and>
     num_eq (ltr_takeProfitBps (ltc_risk c)) (ltr_takeProfitBps LIVE_RISK)"

definition assessLiveTradingPolicy :: "LiveTradingCandidate \<Rightarrow> LiveTradingAdmission" where
  "assessLiveTradingPolicy c =
     (if ltc_productId c \<notin> set LIVE_TRADING_PRODUCTS then LIVE_PRODUCT_NOT_ALLOWED
      else
        let expected = LIVE_TRADING_POLICY (ltc_productId c)
        in if ltc_executionMode c = ''live'' \<and>
              ltc_timeframe c = ltc_timeframe expected \<and>
              sameOrderedStrings (ltc_strategyIds c) (ltc_strategyIds expected) \<and>
              num_eq (ltc_intervalSeconds c) (ltc_intervalSeconds expected) \<and>
              num_eq (ltc_maxMarketStalenessMs c) (ltc_maxMarketStalenessMs expected) \<and>
              num_eq (ltc_candleLimit c) (ltc_candleLimit expected) \<and>
              num_eq (ltc_initialCapital c) (ltc_initialCapital expected) \<and>
              num_eq (ltc_maxDecisionNotional c) (ltc_maxDecisionNotional expected) \<and>
              num_eq (ltc_minNetQuantity c) (ltc_minNetQuantity expected) \<and>
              matchesSizing c \<and> matchesLiveRisk c
           then LIVE_APPROVED else LIVE_POLICY_MISMATCH)"

subsection \<open>Preflight\<close>

datatype LivePreflightFailureReason =
  LIVE_MUST_BE_DISABLED
| CREDENTIALS_MISSING
| TELEMETRY_MISSING
| OPERATOR_NOTIFICATIONS_MISSING
| KEY_PERMISSION_MISMATCH
| PORTFOLIO_SCOPE_MISMATCH
| PRODUCT_NOT_ALLOWED
| ACCOUNT_RECONCILIATION_FAILED
| ORDER_OWNERSHIP_DRIFT
| PRODUCT_RULES_INVALID

record LivePreflightEvidence =
  liveTradingDisabled :: bool
  credentialsConfigured :: bool
  telemetryConfigured :: bool
  operatorNotificationsConfigured :: bool
  keyCanView :: bool
  keyCanTrade :: bool
  keyCanTransfer :: bool
  keyPortfolioMatches :: bool
  productAllowed :: bool
  accountReconciled :: bool
  allOpenOrdersOwned :: bool
  productRulesValid :: bool

datatype LivePreflightAssessment = PREFLIGHT_APPROVED | PREFLIGHT_REJECTED LivePreflightFailureReason

definition assessLivePreflight :: "LivePreflightEvidence \<Rightarrow> LivePreflightAssessment" where
  "assessLivePreflight ev =
     (if \<not> liveTradingDisabled ev then PREFLIGHT_REJECTED LIVE_MUST_BE_DISABLED
      else if \<not> credentialsConfigured ev then PREFLIGHT_REJECTED CREDENTIALS_MISSING
      else if \<not> telemetryConfigured ev then PREFLIGHT_REJECTED TELEMETRY_MISSING
      else if \<not> operatorNotificationsConfigured ev
      then PREFLIGHT_REJECTED OPERATOR_NOTIFICATIONS_MISSING
      else if \<not> keyCanView ev \<or> \<not> keyCanTrade ev \<or> keyCanTransfer ev
      then PREFLIGHT_REJECTED KEY_PERMISSION_MISMATCH
      else if \<not> keyPortfolioMatches ev then PREFLIGHT_REJECTED PORTFOLIO_SCOPE_MISMATCH
      else if \<not> productAllowed ev then PREFLIGHT_REJECTED PRODUCT_NOT_ALLOWED
      else if \<not> accountReconciled ev then PREFLIGHT_REJECTED ACCOUNT_RECONCILIATION_FAILED
      else if \<not> allOpenOrdersOwned ev then PREFLIGHT_REJECTED ORDER_OWNERSHIP_DRIFT
      else if productRulesValid ev then PREFLIGHT_APPROVED
      else PREFLIGHT_REJECTED PRODUCT_RULES_INVALID)"

subsection \<open>Spot orders\<close>

definition SPOT_QUANTITY_TOLERANCE :: number where
  "SPOT_QUANTITY_TOLERANCE = fl (1 / 1000000000000)"

datatype SpotPermission = SPOT_EXECUTABLE | SHORT_FORBIDDEN

text \<open>\<open>None\<close>: \<open>INVALID_SPOT_PERMISSION_INPUT\<close>.\<close>

definition resolveSpotPermission :: "OrderSide \<Rightarrow> number \<Rightarrow> number \<Rightarrow> SpotPermission option" where
  "resolveSpotPermission sd q held =
     (if \<not> isFinite q \<or> q \<le> Fin 0 \<or> \<not> isFinite held then None
      else let signed = (if sd = BUY then q else - q)
        in if held + signed < - SPOT_QUANTITY_TOLERANCE then Some SHORT_FORBIDDEN
           else Some SPOT_EXECUTABLE)"

end
