(* ===== verification/CoinbaseOrders.thy ===== *)
theory CoinbaseOrders
  imports CoinbaseWire LivePolicy
begin

text \<open>
  Orders at Coinbase, \<^verbatim>\<open>apps/agent/src/coinbase-execution.ts\<close>: the trading rules of a product
  and the formatting of prices and sizes, the submission of an order, the lookup of an order, and
  the protective bracket.
\<close>

subsection \<open>Schemas of the answers\<close>

definition side_field :: "json option \<Rightarrow> string \<Rightarrow> OrderSide option" where
  "side_field j k =
     (case string_field j k of
        Some s \<Rightarrow> if s = ''BUY'' then Some BUY else if s = ''SELL'' then Some SELL else None
      | None \<Rightarrow> None)"

text \<open>An acknowledged order: its identifier, product, side and client identifier; or refused.\<close>

datatype create_order_response = Acknowledged string string OrderSide string | NotCreated

definition createOrderResponseSchema :: "json \<Rightarrow> create_order_response option" where
  "createOrderResponseSchema j =
     (case bool_field (Some j) ''success'' of
        Some True \<Rightarrow>
          (let r = get (Some j) ''success_response''
           in case (text_field r ''order_id'', text_field r ''product_id'', side_field r ''side'',
                    text_field r ''client_order_id'') of
                (Some i, Some p, Some sd, Some cid) \<Rightarrow> Some (Acknowledged i p sd cid)
              | _ \<Rightarrow> None)
      | Some False \<Rightarrow>
          (case get (Some j) ''error_response'' of
             Some (JObj d) \<Rightarrow>
               if list_all (\<lambda>k. optional_field string_field (Some (JObj d)) k \<noteq> None)
                    [''error'', ''message'', ''error_details'']
               then Some NotCreated else None
           | _ \<Rightarrow> None)
      | None \<Rightarrow> None)"

definition ORDER_STATUSES :: "string list" where
  "ORDER_STATUSES =
     [''PENDING'', ''OPEN'', ''FILLED'', ''CANCELLED'', ''EXPIRED'', ''FAILED'',
      ''UNKNOWN_ORDER_STATUS'', ''QUEUED'', ''CANCEL_QUEUED'', ''EDIT_QUEUED'']"

text \<open>\<open>base_size\<close> is a string or a number.\<close>

record trigger_bracket =
  tb_base_size :: json
  tb_limit_price :: string
  tb_stop_trigger_price :: string

record coinbase_order =
  or_order_id :: string
  or_product_id :: string
  or_client_order_id :: string
  or_side :: OrderSide
  or_status :: string
  or_average_filled_price :: string
  or_total_fees :: string
  or_filled_size :: string
  or_last_fill_time :: "string option"
  or_last_update_time :: "string option"
  or_attached_order_id :: "string option"
  or_bracket :: "trigger_bracket option"

definition bracketSchema :: "json option \<Rightarrow> trigger_bracket option" where
  "bracketSchema j =
     (case (get j ''base_size'', string_field j ''limit_price'', string_field j ''stop_trigger_price'') of
        (Some sz, Some lp, Some sp) \<Rightarrow>
          (case sz of
             JStr _ \<Rightarrow> Some \<lparr>tb_base_size = sz, tb_limit_price = lp, tb_stop_trigger_price = sp\<rparr>
           | JNum _ \<Rightarrow> Some \<lparr>tb_base_size = sz, tb_limit_price = lp, tb_stop_trigger_price = sp\<rparr>
           | _ \<Rightarrow> None)
      | _ \<Rightarrow> None)"

text \<open>\<open>order_configuration\<close> is optional; when present it must hold the bracket.\<close>

definition configurationSchema :: "json option \<Rightarrow> string \<Rightarrow> trigger_bracket option" where
  "configurationSchema j k = bracketSchema (get (get j k) ''trigger_bracket_gtc'')"

definition orderSchema :: "json option \<Rightarrow> coinbase_order option" where
  "orderSchema j =
     (case (text_field j ''order_id'', text_field j ''product_id'', text_field j ''client_order_id'',
            side_field j ''side'', string_field j ''status'') of
        (Some oid, Some p, Some cid, Some sd, Some st) \<Rightarrow>
          if st \<notin> set ORDER_STATUSES then None
          else
            (case (string_field j ''average_filled_price'', string_field j ''total_fees'',
                   string_field j ''filled_size'', optional_field string_field j ''last_fill_time'',
                   optional_field string_field j ''last_update_time'',
                   optional_field text_field j ''attached_order_id'',
                   optional_field configurationSchema j ''order_configuration'') of
               (Some px, Some fees, Some sz, Some fillTime, Some updateTime, Some attached,
                Some bracket) \<Rightarrow>
                 Some \<lparr>or_order_id = oid, or_product_id = p, or_client_order_id = cid, or_side = sd,
                   or_status = st, or_average_filled_price = px, or_total_fees = fees,
                   or_filled_size = sz, or_last_fill_time = fillTime,
                   or_last_update_time = updateTime, or_attached_order_id = attached,
                   or_bracket = bracket\<rparr>
             | _ \<Rightarrow> None)
      | _ \<Rightarrow> None)"

definition getOrderResponseSchema :: "json \<Rightarrow> coinbase_order option" where
  "getOrderResponseSchema j = orderSchema (get (Some j) ''order'')"

record productTradingRules =
  ptr_product_id :: string
  ptr_base_increment :: string
  ptr_quote_increment :: string
  ptr_base_min_size :: string
  ptr_closed :: bool

text \<open>The four flags default to false; \<open>ptr_closed\<close> is their disjunction.\<close>

definition flag_field :: "json option \<Rightarrow> string \<Rightarrow> bool option" where
  "flag_field j k = map_option (\<lambda>v. v = Some True) (optional_field bool_field j k)"

definition productTradingRulesSchema :: "json \<Rightarrow> productTradingRules option" where
  "productTradingRulesSchema j =
     (case (text_field (Some j) ''product_id'', text_field (Some j) ''base_increment'',
            text_field (Some j) ''quote_increment'', text_field (Some j) ''base_min_size'',
            flag_field (Some j) ''trading_disabled'', flag_field (Some j) ''cancel_only'',
            flag_field (Some j) ''view_only'', flag_field (Some j) ''is_disabled'') of
        (Some p, Some bi, Some qi, Some bm, Some f1, Some f2, Some f3, Some f4) \<Rightarrow>
          Some \<lparr>ptr_product_id = p, ptr_base_increment = bi, ptr_quote_increment = qi,
            ptr_base_min_size = bm, ptr_closed = (f1 \<or> f2 \<or> f3 \<or> f4)\<rparr>
      | _ \<Rightarrow> None)"

subsection \<open>Prices and sizes\<close>

record FormattedProtectionPlan =
  fp_stopTriggerPrice :: string
  fp_takeProfitPrice :: string
  fp_baseIncrement :: string
  fp_baseMinimum :: string

datatype rounding = UP | DOWN

definition roundToIncrement :: "cb_host \<Rightarrow> number \<Rightarrow> string \<Rightarrow> rounding \<Rightarrow> string option" where
  "roundToIncrement h x incrementSource way =
     (let increment = toNumber h incrementSource
      in case decimalPlaces incrementSource of
           None \<Rightarrow> None
         | Some decimals \<Rightarrow>
             if \<not> isFinite x \<or> x \<le> Fin 0 \<or> \<not> isFinite increment \<or> increment \<le> Fin 0 then None
             else
               let rawUnits = x / increment;
                   tol = js_max (Fin 1) \<bar>rawUnits\<bar> * EPSILON * Fin 16;
                   units = (case way of
                       UP \<Rightarrow> js_ceil (rawUnits - tol) | DOWN \<Rightarrow> js_floor (rawUnits + tol))
               in if units \<le> Fin 0 then None else Some (toFixed h decimals (units * increment)))"

definition formatBaseSize :: "cb_host \<Rightarrow> number \<Rightarrow> string \<Rightarrow> string \<Rightarrow> string option" where
  "formatBaseSize h q incrementSource minimumSource =
     (let increment = toNumber h incrementSource; least = toNumber h minimumSource
      in case decimalPlaces incrementSource of
           None \<Rightarrow> None
         | Some decimals \<Rightarrow>
             if \<not> isFinite q \<or> q \<le> Fin 0 \<or> \<not> isFinite increment \<or> increment \<le> Fin 0 \<or>
                \<not> isFinite least \<or> least \<le> Fin 0
             then None
             else
               let units = js_floor (q / increment + EPSILON * Fin 16);
                   rounded = units * increment
               in if units \<le> Fin 0 \<or> rounded + EPSILON < least then None
                  else Some (toFixed h decimals rounded))"

text \<open>\<open>coinbaseBaseSize\<close>: \<open>None\<close> when it throws.\<close>

definition coinbaseBaseSize :: "cb_host \<Rightarrow> string \<Rightarrow> number \<Rightarrow> string option" where
  "coinbaseBaseSize h p q =
     (case baseIncrement p of
        None \<Rightarrow> decimalString h q
      | Some increment \<Rightarrow>
          (case decimalString h increment of
             None \<Rightarrow> None
           | Some text \<Rightarrow>
               let decimals = (case split_on (CHR ''.'') text of _ # f # _ \<Rightarrow> length f | _ \<Rightarrow> 0);
                   units = js_floor (q / increment + fl (1 / 1000000000))
               in if units \<le> Fin 0 then None else Some (toFixed h decimals (units * increment))))"

text \<open>The body of \<open>loadFormattedProtection\<close> after a good status.\<close>

definition format_protection :: "cb_host \<Rightarrow> string \<Rightarrow> CoinbaseProtectionPlan \<Rightarrow> json option
    \<Rightarrow> (FormattedProtectionPlan, workflowError) result" where
  "format_protection h p plan body =
     (case (case body of None \<Rightarrow> None | Some j \<Rightarrow> productTradingRulesSchema j) of
        None \<Rightarrow> err (executionError InvalidResponse False)
      | Some rules \<Rightarrow>
          let baseInc = toNumber h (ptr_base_increment rules);
              least = toNumber h (ptr_base_min_size rules)
          in if ptr_product_id rules \<noteq> p \<or> ptr_closed rules
             then err (executionError InvalidResponse False)
             else if \<not> isFinite baseInc \<or> baseInc \<le> Fin 0 \<or> \<not> isFinite least \<or> least \<le> Fin 0
             then err (executionError InvalidResponse False)
             else
               (case (roundToIncrement h (stopLossPrice plan) (ptr_quote_increment rules) UP,
                      roundToIncrement h (takeProfitPrice plan) (ptr_quote_increment rules) DOWN) of
                  (Some sp, Some tp) \<Rightarrow>
                    if toNumber h tp \<le> toNumber h sp then err (executionError InvalidResponse False)
                    else ok \<lparr>fp_stopTriggerPrice = sp, fp_takeProfitPrice = tp,
                             fp_baseIncrement = ptr_base_increment rules,
                             fp_baseMinimum = ptr_base_min_size rules\<rparr>
                | _ \<Rightarrow> err (executionError InvalidResponse False)))"

definition loadFormattedProtection :: "cb_host \<Rightarrow> CoinbaseExecutionSettings \<Rightarrow> string
    \<Rightarrow> CoinbaseProtectionPlan \<Rightarrow> (FormattedProtectionPlan, workflowError) result cb" where
  "loadFormattedProtection h s p plan =
     (let path = coinbaseProductPath p
      in follow (createCoinbaseAuthorization h s GET path) (\<lambda>authorized.
        case authorized of
          Inl e \<Rightarrow> Done (err e)
        | Inr a \<Rightarrow>
            (case requestTarget h s of
               None \<Rightarrow> Done (err (executionError InvalidResponse False))
             | Some host \<Rightarrow> read_clock (\<lambda>t.
                 case credentialFor a GET host path t of
                   None \<Rightarrow> Done (err (executionError AuthorizationExpired True))
                 | Some token \<Rightarrow> fetch (get_request path token) (\<lambda>response.
                     case response of
                       NoResponse \<Rightarrow> Done (err (executionError NetworkUnavailable True))
                     | Response status body \<Rightarrow>
                         if 500 \<le> status then Done (err (executionError NetworkUnavailable True))
                         else if status = 429 then Done (err (executionError RateLimited True))
                         else if \<not> status_ok status
                         then Done (err (executionError InvalidResponse False))
                         else Done (format_protection h p plan body))))))"

definition verifyCoinbaseProductTradingRules :: "cb_host \<Rightarrow> CoinbaseExecutionSettings \<Rightarrow> string
    \<Rightarrow> ((unit, workflowError) result) cb" where
  "verifyCoinbaseProductTradingRules h s p =
     follow (loadFormattedProtection h s p \<lparr>stopLossPrice = Fin 1, takeProfitPrice = Fin 2\<rparr>) (\<lambda>verified.
       Done (case verified of Inl e \<Rightarrow> err e | Inr _ \<Rightarrow> ok ()))"

subsection \<open>Submission\<close>

text \<open>The body of an order.\<close>

definition order_body :: "OrderIntent \<Rightarrow> string \<Rightarrow> FormattedProtectionPlan option \<Rightarrow> json" where
  "order_body i sz protection =
     JObj ([(''client_order_id'', JStr (OrderIntent.clientOrderId i)), (''product_id'', JStr (OrderIntent.productId i)),
            (''side'', JStr (if side i = BUY then ''BUY'' else ''SELL'')),
            (''order_configuration'',
              JObj [(''market_market_ioc'', JObj [(''base_size'', JStr sz)])])] @
       (case protection of
          None \<Rightarrow> []
        | Some f \<Rightarrow>
            [(''attached_order_configuration'',
              JObj [(''trigger_bracket_gtc'',
                JObj [(''limit_price'', JStr (fp_takeProfitPrice f)),
                      (''stop_trigger_price'', JStr (fp_stopTriggerPrice f))])])]))"

definition read_acknowledgement :: "OrderIntent \<Rightarrow> json option \<Rightarrow> OrderSubmission" where
  "read_acknowledgement i body =
     (case (case body of None \<Rightarrow> None | Some j \<Rightarrow> createOrderResponseSchema j) of
        None \<Rightarrow> UNKNOWN None (executionError InvalidResponse True)
      | Some NotCreated \<Rightarrow> SUBMISSION_REJECTED (executionError OrderRejectedCode False)
      | Some (Acknowledged oid p sd cid) \<Rightarrow>
          if cid \<noteq> OrderIntent.clientOrderId i \<or> p \<noteq> OrderIntent.productId i \<or> sd \<noteq> side i
          then UNKNOWN None (executionError InvalidResponse True)
          else UNKNOWN (Some oid) (executionError OrderOutcomeUnknownCode True))"

text \<open>The outcome of the request, by its answer.\<close>

definition read_submission :: "OrderIntent \<Rightarrow> http_response \<Rightarrow> OrderSubmission" where
  "read_submission i response =
     (case response of
        NoResponse \<Rightarrow> UNKNOWN None (executionError OrderOutcomeUnknownCode True)
      | Response status body \<Rightarrow>
          if 500 \<le> status then UNKNOWN None (executionError OrderOutcomeUnknownCode True)
          else if status = 429 then SUBMISSION_REJECTED (executionError RateLimited True)
          else if \<not> status_ok status then SUBMISSION_REJECTED (executionError OrderRejectedCode False)
          else read_acknowledgement i body)"

text \<open>The request, once the protection is formatted.\<close>

definition send_order :: "cb_host \<Rightarrow> OrderIntent \<Rightarrow> string \<Rightarrow> FormattedProtectionPlan option
    \<Rightarrow> OrderSubmission cb" where
  "send_order h i token protection =
     (case coinbaseBaseSize h (OrderIntent.productId i) (quantity i) of
        None \<Rightarrow> Done (SUBMISSION_REJECTED (executionError OrderRejectedCode False))
      | Some sz \<Rightarrow>
          fetch (post_request COINBASE_CREATE_ORDER_PATH token (order_body i sz protection))
            (\<lambda>response. Done (read_submission i response)))"

definition submitCoinbaseOrder :: "cb_host \<Rightarrow> CoinbaseExecutionSettings \<Rightarrow> OrderIntent
    \<Rightarrow> CoinbaseAuthorization \<Rightarrow> CoinbaseProtectionPlan option \<Rightarrow> OrderSubmission cb" where
  "submitCoinbaseOrder h s i a protection =
     (case requestTarget h s of
        None \<Rightarrow> Done (SUBMISSION_REJECTED (executionError OrderRejectedCode False))
      | Some host \<Rightarrow> read_clock (\<lambda>t.
          case credentialFor a POST host COINBASE_CREATE_ORDER_PATH t of
            None \<Rightarrow> Done (SUBMISSION_REJECTED (executionError AuthorizationExpired True))
          | Some token \<Rightarrow>
              (case (side i, protection) of
                 (BUY, Some plan) \<Rightarrow>
                   follow (loadFormattedProtection h s (OrderIntent.productId i) plan) (\<lambda>formatted.
                     case formatted of
                       Inl e \<Rightarrow> Done (SUBMISSION_REJECTED e)
                     | Inr f \<Rightarrow> send_order h i token (Some f))
               | _ \<Rightarrow> send_order h i token None)))"

subsection \<open>Lookup of an order\<close>

text \<open>\<open>applyCoinbaseFill\<close>: the portfolio after a fill; \<open>None\<close> is \<open>INVALID_FILL\<close>.\<close>

definition math_sign :: "number \<Rightarrow> number" where
  "math_sign x = (if Fin 0 < x then Fin 1 else if x < Fin 0 then Fin (- 1) else x)"

definition fill_average :: "PaperPortfolio \<Rightarrow> number \<Rightarrow> number \<Rightarrow> number" where
  "fill_average w delta px =
     (let current = positionQuantity w;
          sameDirection = (num_eq current (Fin 0) \<or> num_eq (math_sign current) (math_sign delta));
          after = current + delta
      in if sameDirection
         then (if num_eq after (Fin 0) then Fin 0
               else (\<bar>current\<bar> * averagePrice w + \<bar>delta\<bar> * px) / \<bar>after\<bar>)
         else if num_eq after (Fin 0) then Fin 0
         else if \<not> num_eq (math_sign after) (math_sign current) then px
         else averagePrice w)"

definition applyCoinbaseFill :: "PaperPortfolio \<Rightarrow> OrderIntent \<Rightarrow> string \<Rightarrow> number \<Rightarrow> number
    \<Rightarrow> number \<Rightarrow> number \<Rightarrow> (PaperPortfolio \<times> Fill) option" where
  "applyCoinbaseFill w i oid px q fe t =
     (if quantity i * (Fin 1 + EPSILON * Fin 8) < q then None
      else
        case createFill \<lparr>fillId = ''coinbase:'' @ oid, fill_clientOrderId = OrderIntent.clientOrderId i,
            Fill.exchangeOrderId = oid, price = px, fill_quantity = q, fee = fe, executedAt = t\<rparr> of
          Inl _ \<Rightarrow> None
        | Inr f \<Rightarrow>
            let delta = (if side i = BUY then Fin 1 else Fin (- 1)) * fill_quantity f;
                gross = price f * fill_quantity f;
                cashDelta = (if side i = BUY then - (gross + fee f) else gross - fee f)
            in Some (\<lparr>cash = cash w + cashDelta, positionQuantity = positionQuantity w + delta,
                      averagePrice = fill_average w delta (price f)\<rparr>, f))"

definition parseFinite :: "cb_host \<Rightarrow> string \<Rightarrow> number option" where
  "parseFinite h s = (if isFinite (toNumber h s) then Some (toNumber h s) else None)"

definition TERMINAL_STATUSES :: "string list" where
  "TERMINAL_STATUSES = [''FILLED'', ''CANCELLED'', ''EXPIRED'', ''FAILED'']"

text \<open>\<open>order.last_fill_time || order.last_update_time\<close>, parsed, or the time of the lookup.\<close>

definition fill_time :: "cb_host \<Rightarrow> coinbase_order \<Rightarrow> number \<Rightarrow> number" where
  "fill_time h ord t =
     (let raw = (case or_last_fill_time ord of
                   Some s \<Rightarrow> if s = [] then or_last_update_time ord else Some s
                 | None \<Rightarrow> or_last_update_time ord);
          parsed = (case raw of None \<Rightarrow> NaN | Some s \<Rightarrow> parseDate h s)
      in if isFinite parsed then parsed else t)"

text \<open>What a lookup gives: a confirmed order, or a certain rejection.\<close>

datatype order_lookup = LOOKUP_CONFIRMED ConfirmedOrderSubmission | LOOKUP_REJECTED workflowError

definition read_order :: "cb_host \<Rightarrow> OrderIntent \<Rightarrow> string \<Rightarrow> PaperPortfolio \<Rightarrow> bool \<Rightarrow> number
    \<Rightarrow> json option \<Rightarrow> (order_lookup, workflowError) result" where
  "read_order h i oid w protected t body =
     (case (case body of None \<Rightarrow> None | Some j \<Rightarrow> getOrderResponseSchema j) of
        None \<Rightarrow> err invalidAnswer
      | Some ord \<Rightarrow>
          if or_order_id ord \<noteq> oid \<or> or_client_order_id ord \<noteq> OrderIntent.clientOrderId i \<or>
             or_product_id ord \<noteq> OrderIntent.productId i \<or> or_side ord \<noteq> side i
          then err invalidAnswer
          else if or_status ord \<notin> set TERMINAL_STATUSES then err notReconciled
          else
            case (parseFinite h (or_filled_size ord), parseFinite h (or_total_fees ord)) of
              (Some q, Some fe) \<Rightarrow>
                if q < Fin 0 \<or> fe < Fin 0 then err invalidAnswer
                else if num_eq q (Fin 0)
                then ok (LOOKUP_REJECTED (executionError OrderRejectedCode False))
                else if side i = BUY \<and> protected \<and> or_attached_order_id ord = None
                then err invalidAnswer
                else
                  (case parseFinite h (or_average_filled_price ord) of
                     None \<Rightarrow> err invalidAnswer
                   | Some px \<Rightarrow>
                       if px \<le> Fin 0 then err invalidAnswer
                       else
                         case applyCoinbaseFill w i oid px q fe (fill_time h ord t) of
                           None \<Rightarrow> err invalidAnswer
                         | Some (w', f) \<Rightarrow> ok (LOOKUP_CONFIRMED
                             \<lparr>co_exchangeOrderId = oid, co_portfolio = w', co_fill = Some f,
                              co_protectiveOrderId = or_attached_order_id ord\<rparr>))
            | _ \<Rightarrow> err invalidAnswer)"

text \<open>
  A request under an authorization that is checked against the clock, as both lookups make it: the
  time and the body of a good answer.
\<close>

definition authorized_get :: "cb_host \<Rightarrow> CoinbaseExecutionSettings \<Rightarrow> string \<Rightarrow> CoinbaseAuthorization
    \<Rightarrow> (number \<times> json option, workflowError) result cb" where
  "authorized_get h s path a =
     (case requestTarget h s of
        None \<Rightarrow> Done (err invalidAnswer)
      | Some host \<Rightarrow> read_clock (\<lambda>t.
          case credentialFor a GET host path t of
            None \<Rightarrow> Done (err (reconciliationError AuthorizationExpired True))
          | Some token \<Rightarrow> fetch (get_request path token) (\<lambda>response.
              Done (case response of
                NoResponse \<Rightarrow> err notReconciled
              | Response status body \<Rightarrow>
                  if status = 429 \<or> 500 \<le> status then err notReconciled
                  else if \<not> status_ok status then err invalidAnswer
                  else ok (t, body)))))"

definition getCoinbaseOrder :: "cb_host \<Rightarrow> CoinbaseExecutionSettings \<Rightarrow> OrderIntent \<Rightarrow> string
    \<Rightarrow> CoinbaseAuthorization \<Rightarrow> PaperPortfolio \<Rightarrow> bool \<Rightarrow> (order_lookup, workflowError) result cb" where
  "getCoinbaseOrder h s i oid a w protected =
     (case coinbaseOrderPath oid of
        None \<Rightarrow> Done (err invalidAnswer)
      | Some path \<Rightarrow>
          follow (authorized_get h s path a) (\<lambda>answer.
            Done (case answer of
              Inl e \<Rightarrow> err e
            | Inr (t, body) \<Rightarrow> read_order h i oid w protected t body)))"

subsection \<open>The protective bracket\<close>

definition PROTECTIVE_STATUSES :: "string list" where
  "PROTECTIVE_STATUSES = [''PENDING'', ''OPEN'', ''QUEUED'']"

definition size_number :: "cb_host \<Rightarrow> json \<Rightarrow> number" where
  "size_number h j = (case j of JStr s \<Rightarrow> toNumber h s | JNum x \<Rightarrow> x | _ \<Rightarrow> NaN)"

definition read_protective_order :: "cb_host \<Rightarrow> string \<Rightarrow> string \<Rightarrow> FormattedProtectionPlan
    \<Rightarrow> number option \<Rightarrow> json option \<Rightarrow> (unit, workflowError) result" where
  "read_protective_order h p oid f expected body =
     (case (case body of None \<Rightarrow> None | Some j \<Rightarrow> getOrderResponseSchema j) of
        None \<Rightarrow> err invalidAnswer
      | Some ord \<Rightarrow>
          (case or_bracket ord of
             None \<Rightarrow> err invalidAnswer
           | Some b \<Rightarrow>
               if or_order_id ord \<noteq> oid \<or> or_product_id ord \<noteq> p \<or> or_side ord \<noteq> SELL \<or>
                  or_status ord \<notin> set PROTECTIVE_STATUSES \<or>
                  size_number h (tb_base_size b) \<le> Fin 0 \<or>
                  (case expected of
                     None \<Rightarrow> False
                   | Some q \<Rightarrow>
                       (case formatBaseSize h q (fp_baseIncrement f) (fp_baseMinimum f) of
                          None \<Rightarrow> True
                        | Some sz \<Rightarrow> \<not> num_eq (size_number h (tb_base_size b)) (toNumber h sz))) \<or>
                  tb_limit_price b \<noteq> fp_takeProfitPrice f \<or>
                  tb_stop_trigger_price b \<noteq> fp_stopTriggerPrice f
               then err invalidAnswer else ok ()))"

definition confirmCoinbaseProtectiveOrder :: "cb_host \<Rightarrow> CoinbaseExecutionSettings \<Rightarrow> string
    \<Rightarrow> string \<Rightarrow> CoinbaseProtectionPlan \<Rightarrow> number option
    \<Rightarrow> (unit, workflowError) result cb" where
  "confirmCoinbaseProtectiveOrder h s p oid plan expected =
     follow (loadFormattedProtection h s p plan) (\<lambda>formatted.
       case formatted of
         Inl e \<Rightarrow> Done (err (e\<lparr>phase := PhReconciliation\<rparr>))
       | Inr f \<Rightarrow>
           (case coinbaseOrderPath oid of
              None \<Rightarrow> Done (err invalidAnswer)
            | Some path \<Rightarrow> follow (createCoinbaseAuthorization h s GET path) (\<lambda>authorized.
                case authorized of
                  Inl e \<Rightarrow> Done (err e)
                | Inr a \<Rightarrow> follow (authorized_get h s path a) (\<lambda>answer.
                    Done (case answer of
                      Inl e \<Rightarrow> err e
                    | Inr (t, body) \<Rightarrow> read_protective_order h p oid f expected body)))))"

definition bracket_body :: "string \<Rightarrow> string \<Rightarrow> string \<Rightarrow> FormattedProtectionPlan \<Rightarrow> json" where
  "bracket_body cid p sz f =
     JObj [(''client_order_id'', JStr cid), (''product_id'', JStr p), (''side'', JStr ''SELL''),
       (''order_configuration'',
         JObj [(''trigger_bracket_gtc'',
           JObj [(''base_size'', JStr sz), (''limit_price'', JStr (fp_takeProfitPrice f)),
                 (''stop_trigger_price'', JStr (fp_stopTriggerPrice f))])])]"

definition read_protection_answer :: "http_response \<Rightarrow> (string, workflowError) result" where
  "read_protection_answer response =
     (case response of
        NoResponse \<Rightarrow> err (executionError OrderOutcomeUnknownCode False)
      | Response status body \<Rightarrow>
          if 500 \<le> status then err (executionError OrderOutcomeUnknownCode False)
          else if status = 429 then err (executionError RateLimited False)
          else if \<not> status_ok status then err (executionError OrderRejectedCode False)
          else
            (case body of
               None \<Rightarrow> err (executionError OrderOutcomeUnknownCode False)
             | Some j \<Rightarrow>
                 (case createOrderResponseSchema j of
                    Some (Acknowledged oid _ _ _) \<Rightarrow> ok oid
                  | _ \<Rightarrow> err (executionError OrderRejectedCode False))))"

definition submitCoinbaseProtectionOrder :: "cb_host \<Rightarrow> CoinbaseExecutionSettings \<Rightarrow> string
    \<Rightarrow> string \<Rightarrow> number \<Rightarrow> CoinbaseProtectionPlan \<Rightarrow> (string, workflowError) result cb" where
  "submitCoinbaseProtectionOrder h s p cid q plan =
     (if \<not> non_blank cid then Done (err (executionError InvalidResponse False))
      else follow (loadFormattedProtection h s p plan) (\<lambda>formatted.
        case formatted of
          Inl e \<Rightarrow> Done (err e)
        | Inr f \<Rightarrow>
            (case formatBaseSize h q (fp_baseIncrement f) (fp_baseMinimum f) of
               None \<Rightarrow> Done (err (executionError InvalidResponse False))
             | Some sz \<Rightarrow>
                 follow (createCoinbaseAuthorization h s POST COINBASE_CREATE_ORDER_PATH) (\<lambda>authorized.
                   case authorized of
                     Inl e \<Rightarrow> Done (err e)
                   | Inr a \<Rightarrow>
                       (case requestTarget h s of
                          None \<Rightarrow> Done (err (executionError InvalidResponse False))
                        | Some host \<Rightarrow> read_clock (\<lambda>t.
                            case credentialFor a POST host COINBASE_CREATE_ORDER_PATH t of
                              None \<Rightarrow> Done (err (executionError AuthorizationExpired True))
                            | Some token \<Rightarrow>
                                fetch (post_request COINBASE_CREATE_ORDER_PATH token
                                    (bracket_body cid p sz f))
                                  (\<lambda>response. Done (read_protection_answer response))))))))"

end
