(* ===== verification/CoinbaseAccount.thy ===== *)
theory CoinbaseAccount
  imports CoinbaseWire
begin

text \<open>
  The account at Coinbase, \<^verbatim>\<open>apps/agent/src/coinbase-account.ts\<close>: one request for the portfolio,
  read into a snapshot, or an error.
\<close>

definition ACCOUNT_COMPONENT_TOLERANCE_USD :: number where
  "ACCOUNT_COMPONENT_TOLERANCE_USD = fl (1 / 100)"

subsection \<open>Schema\<close>

record money =
  mo_value :: string
  mo_currency :: string

definition moneySchema :: "json option \<Rightarrow> money option" where
  "moneySchema j =
     (case (text_field j ''value'', text_field j ''currency'') of
        (Some v, Some c) \<Rightarrow> Some \<lparr>mo_value = v, mo_currency = c\<rparr> | _ \<Rightarrow> None)"

record spot_position =
  sp_asset :: string
  sp_total_balance_fiat :: number
  sp_total_balance_crypto :: number
  sp_available_to_trade_fiat :: number
  sp_available_to_trade_crypto :: number
  sp_average_entry_price :: money

definition spotPositionSchema :: "json \<Rightarrow> spot_position option" where
  "spotPositionSchema v =
     (let j = Some v
      in case (text_field j ''asset'', text_field j ''account_uuid'',
               amount_field j ''total_balance_fiat'', amount_field j ''total_balance_crypto'',
               amount_field j ''available_to_trade_fiat'', amount_field j ''available_to_trade_crypto'',
               moneySchema (get j ''average_entry_price''), bool_field j ''is_cash'') of
           (Some a, Some _, Some tf, Some tc, Some af, Some ac, Some px, Some _) \<Rightarrow>
             Some \<lparr>sp_asset = a, sp_total_balance_fiat = tf, sp_total_balance_crypto = tc,
               sp_available_to_trade_fiat = af, sp_available_to_trade_crypto = ac,
               sp_average_entry_price = px\<rparr>
         | _ \<Rightarrow> None)"

record breakdown =
  bd_uuid :: string
  bd_deleted :: bool
  bd_total_balance :: money
  bd_spot_positions :: "spot_position list"

definition portfolioBreakdownSchema :: "json \<Rightarrow> breakdown option" where
  "portfolioBreakdownSchema v =
     (let b = get (Some v) ''breakdown''; portfolio = get b ''portfolio''
      in case (text_field portfolio ''uuid'', bool_field portfolio ''deleted'',
               moneySchema (get (get b ''portfolio_balances'') ''total_balance''),
               array_field b ''spot_positions'') of
           (Some u, Some d, Some m, Some xs) \<Rightarrow>
             map_option (\<lambda>ps. \<lparr>bd_uuid = u, bd_deleted = d, bd_total_balance = m, bd_spot_positions = ps\<rparr>)
               (those (map spotPositionSchema xs))
         | _ \<Rightarrow> None)"

subsection \<open>Reading\<close>

definition coinbasePortfolioPath :: "string \<Rightarrow> string option" where
  "coinbasePortfolioPath i =
     (if \<not> non_blank i then None
      else Some (''/api/v3/brokerage/portfolios/'' @ encodeURIComponent i))"

definition parseNonNegative :: "cb_host \<Rightarrow> string \<Rightarrow> number option" where
  "parseNonNegative h s =
     (if isFinite (toNumber h s) \<and> Fin 0 \<le> toNumber h s then Some (toNumber h s) else None)"

text \<open>The text before and after the last dash, both non-empty.\<close>

definition productCurrencies :: "string \<Rightarrow> (string \<times> string) option" where
  "productCurrencies p =
     (let quote = rev (takeWhile (\<lambda>c. c \<noteq> CHR ''-'') (rev p));
          base = take (length p - length quote - 1) p
      in if CHR ''-'' \<notin> set p \<or> base = [] \<or> quote = [] then None else Some (base, quote))"

definition amount_of :: "(spot_position \<Rightarrow> number) \<Rightarrow> spot_position list \<Rightarrow> number" where
  "amount_of f ps = (case ps of [] \<Rightarrow> Fin 0 | p # _ \<Rightarrow> f p)"

text \<open>The average price of the base: zero without a position, else the entry price in dollars.\<close>

definition average_of :: "cb_host \<Rightarrow> spot_position list \<Rightarrow> number \<Rightarrow> number option" where
  "average_of h ps tot =
     (if num_eq tot (Fin 0) then Some (Fin 0)
      else case ps of
             [] \<Rightarrow> None
           | p # _ \<Rightarrow>
               if mo_currency (sp_average_entry_price p) = ''USD''
               then parseNonNegative h (mo_value (sp_average_entry_price p)) else None)"

definition read_snapshot :: "cb_host \<Rightarrow> CoinbaseExecutionSettings \<Rightarrow> string \<Rightarrow> string \<Rightarrow> number
    \<Rightarrow> json option \<Rightarrow> (CoinbaseAccountSnapshot, workflowError) result" where
  "read_snapshot h s base quote t body =
     (case (case body of None \<Rightarrow> None | Some j \<Rightarrow> portfolioBreakdownSchema j) of
        None \<Rightarrow> err invalidAnswer
      | Some b \<Rightarrow>
          if bd_uuid b \<noteq> portfolioId s \<or> bd_deleted b \<or> mo_currency (bd_total_balance b) \<noteq> ''USD''
          then err invalidAnswer
          else
            case parseNonNegative h (mo_value (bd_total_balance b)) of
              None \<Rightarrow> err invalidAnswer
            | Some worth \<Rightarrow>
                let bases = filter (\<lambda>p. sp_asset p = base) (bd_spot_positions b);
                    quotes = filter (\<lambda>p. sp_asset p = quote) (bd_spot_positions b);
                    totalBase = amount_of sp_total_balance_crypto bases;
                    availableBase = amount_of sp_available_to_trade_crypto bases;
                    targetExposure = amount_of sp_total_balance_fiat bases;
                    residual = worth - amount_of sp_total_balance_fiat quotes - targetExposure
                in if 1 < length bases \<or> 1 < length quotes then err invalidAnswer
                   else case average_of h bases totalBase of
                     None \<Rightarrow> err invalidAnswer
                   | Some average \<Rightarrow>
                       if totalBase + EPSILON * Fin 8 < availableBase then err invalidAnswer
                       else if residual < - ACCOUNT_COMPONENT_TOLERANCE_USD then err invalidAnswer
                       else ok
                         \<lparr>ca_snapshotId = ''coinbase:'' @ portfolioId s @ '':'' @ numberText h t,
                          ca_observedAt = t, ca_portfolioId = portfolioId s,
                          ca_portfolio = \<lparr>cash = amount_of sp_available_to_trade_fiat quotes,
                            positionQuantity = totalBase, averagePrice = average\<rparr>,
                          ca_accountEquity = worth, ca_targetExposureNotional = targetExposure,
                          ca_otherExposureNotional = js_max (Fin 0) residual,
                          ca_availableBaseQuantity = availableBase, ca_totalBaseQuantity = totalBase\<rparr>)"

definition reconcileCoinbaseAccount :: "cb_host \<Rightarrow> CoinbaseExecutionSettings \<Rightarrow> string
    \<Rightarrow> (CoinbaseAccountSnapshot, workflowError) result cb" where
  "reconcileCoinbaseAccount h s p =
     (case productCurrencies p of
        None \<Rightarrow> Done (err invalidAnswer)
      | Some (base, quote) \<Rightarrow>
          if quote \<noteq> ''USD'' then Done (err invalidAnswer)
          else
            (case coinbasePortfolioPath (portfolioId s) of
               None \<Rightarrow> Done (err invalidAnswer)
             | Some path \<Rightarrow> read_clock (\<lambda>t.
                 case requestTarget h s of
                   None \<Rightarrow> Done (err authorizationError)
                 | Some host \<Rightarrow> follow (authorization_at h s GET path host t) (\<lambda>authorized.
                     case authorized of
                       Inl e \<Rightarrow> Done (err e)
                     | Inr a \<Rightarrow>
                         (case credentialToken a of
                            None \<Rightarrow> Done (err (reconciliationError AuthenticationFailure False))
                          | Some token \<Rightarrow> fetch (get_request path token) (\<lambda>response.
                              case response of
                                NoResponse \<Rightarrow> Done (err notReconciled)
                              | Response status body \<Rightarrow>
                                  if status = 429 \<or> 500 \<le> status then Done (err notReconciled)
                                  else if \<not> status_ok status then Done (err invalidAnswer)
                                  else Done (read_snapshot h s base quote t body)))))))"

end
