(* ===== verification/CoinbaseControl.thy ===== *)
theory CoinbaseControl
  imports CoinbaseOrders CoinbaseAccount
begin

text \<open>
  The open orders of a product at Coinbase, \<^verbatim>\<open>apps/agent/src/coinbase-control.ts\<close>: listing them
  page by page, cancelling them batch by batch, and reconciling the account beside them.  The
  kill and the protected sale stand in their own theories.
\<close>

definition COINBASE_LIST_ORDERS_PATH :: string where
  "COINBASE_LIST_ORDERS_PATH = ''/api/v3/brokerage/orders/historical/batch''"

definition COINBASE_CANCEL_ORDERS_PATH :: string where
  "COINBASE_CANCEL_ORDERS_PATH = ''/api/v3/brokerage/orders/batch_cancel''"

definition MAX_ORDER_PAGES :: nat where "MAX_ORDER_PAGES = 20"

definition CANCEL_BATCH_SIZE :: nat where "CANCEL_BATCH_SIZE = 100"

definition MAX_CONTROL_STEPS :: nat where "MAX_CONTROL_STEPS = 64"

definition deriveCoinbaseControlClientOrderId :: "string \<Rightarrow> string" where
  "deriveCoinbaseControlClientOrderId source =
     (let digest = hex (hash32 source 0x811c9dc5) @ hex (hash32 source 0x9e3779b9) @
            hex (hash32 source 0x85ebca6b) @ hex (hash32 source 0xc2b2ae35)
      in slice 0 8 digest @ ''-'' @ slice 8 12 digest @ ''-6'' @ slice 13 16 digest @ ''-a'' @
         slice 17 20 digest @ ''-'' @ slice 20 32 digest)"

subsection \<open>Open orders\<close>

definition OPEN_STATUSES :: "string list" where
  "OPEN_STATUSES = [''PENDING'', ''OPEN'', ''QUEUED'', ''CANCEL_QUEUED'', ''EDIT_QUEUED'']"

text \<open>An open order: its identifier and product.\<close>

definition openOrderSchema :: "json \<Rightarrow> (string \<times> string) option" where
  "openOrderSchema v =
     (case (text_field (Some v) ''order_id'', text_field (Some v) ''product_id'',
            string_field (Some v) ''status'') of
        (Some i, Some p, Some st) \<Rightarrow> if st \<in> set OPEN_STATUSES then Some (i, p) else None
      | _ \<Rightarrow> None)"

record orders_page =
  op_orders :: "(string \<times> string) list"
  op_has_next :: bool
  op_cursor :: string

definition listOrdersSchema :: "json \<Rightarrow> orders_page option" where
  "listOrdersSchema v =
     (case (array_field (Some v) ''orders'', bool_field (Some v) ''has_next'',
            string_field (Some v) ''cursor'') of
        (Some xs, Some n, Some c) \<Rightarrow>
          map_option (\<lambda>os. \<lparr>op_orders = os, op_has_next = n, op_cursor = c\<rparr>)
            (those (map openOrderSchema xs))
      | _ \<Rightarrow> None)"

text \<open>A result of a cancellation: success and order.\<close>

definition cancelResultSchema :: "json \<Rightarrow> (bool \<times> string) option" where
  "cancelResultSchema v =
     (case (bool_field (Some v) ''success'', string_field (Some v) ''failure_reason'',
            text_field (Some v) ''order_id'') of
        (Some b, Some _, Some i) \<Rightarrow> Some (b, i) | _ \<Rightarrow> None)"

definition cancelOrdersSchema :: "json \<Rightarrow> (bool \<times> string) list option" where
  "cancelOrdersSchema v =
     (case array_field (Some v) ''results'' of
        Some xs \<Rightarrow> those (map cancelResultSchema xs) | None \<Rightarrow> None)"

definition authorizedFetch :: "cb_host \<Rightarrow> CoinbaseExecutionSettings \<Rightarrow> CoinbaseHttpMethod \<Rightarrow> string
    \<Rightarrow> (string \<times> string) list \<Rightarrow> json option \<Rightarrow> (nat \<times> json option, workflowError) result cb" where
  "authorizedFetch h s method path query body =
     read_clock (\<lambda>t.
       case requestTarget h s of
         None \<Rightarrow> Done (err authorizationError)
       | Some host \<Rightarrow> follow (authorization_at h s method path host t) (\<lambda>authorized.
           case authorized of
             Inl e \<Rightarrow> Done (err e)
           | Inr a \<Rightarrow>
               (case credentialToken a of
                  None \<Rightarrow> Done (err (reconciliationError AuthenticationFailure False))
                | Some token \<Rightarrow>
                    fetch \<lparr>rq_method = method, rq_path = path, rq_query = query, rq_token = token,
                           rq_body = body\<rparr> (\<lambda>response.
                      Done (case response of
                        NoResponse \<Rightarrow> err (reconciliationError NetworkUnavailable True)
                      | Response status answer \<Rightarrow> ok (status, answer))))))"

definition list_query :: "string \<Rightarrow> string option \<Rightarrow> (string \<times> string) list" where
  "list_query p cursor =
     (''product_ids'', p) # map (\<lambda>st. (''order_status'', st)) OPEN_STATUSES @ [(''limit'', ''250'')] @
     (case cursor of None \<Rightarrow> [] | Some c \<Rightarrow> [(''cursor'', c)])"

text \<open>One page: an error, the last page's orders, or orders and the next cursor.\<close>

definition read_page :: "string \<Rightarrow> string list \<Rightarrow> nat \<times> json option
    \<Rightarrow> (string list \<times> string option, workflowError) result" where
  "read_page p seen answer =
     (case answer of (status, body) \<Rightarrow>
       if status = 429 \<or> 500 \<le> status then err notReconciled
       else if \<not> status_ok status then err invalidAnswer
       else
         case (case body of None \<Rightarrow> None | Some j \<Rightarrow> listOrdersSchema j) of
           None \<Rightarrow> err invalidAnswer
         | Some pg \<Rightarrow>
             if list_ex (\<lambda>(_, product). product \<noteq> p) (op_orders pg) then err invalidAnswer
             else if \<not> op_has_next pg then ok (map fst (op_orders pg), None)
             else if op_cursor pg = [] \<or> op_cursor pg \<in> set seen then err invalidAnswer
             else ok (map fst (op_orders pg), Some (op_cursor pg)))"

text \<open>\<open>[...new Set(xs)]\<close>.\<close>

definition first_occurrences :: "string list \<Rightarrow> string list" where
  "first_occurrences xs = rev (remdups (rev xs))"

text \<open>The pages left to read, the identifiers and cursors seen, the cursor of the next page.\<close>

primrec list_pages :: "nat \<Rightarrow> cb_host \<Rightarrow> CoinbaseExecutionSettings \<Rightarrow> string \<Rightarrow> string list
    \<Rightarrow> string list \<Rightarrow> string option \<Rightarrow> (string list, workflowError) result cb" where
  "list_pages 0 h s p found seen cursor = Done (err invalidAnswer)"
| "list_pages (Suc n) h s p found seen cursor =
     follow (authorizedFetch h s GET COINBASE_LIST_ORDERS_PATH (list_query p cursor) None) (\<lambda>answer.
       case answer of
         Inl e \<Rightarrow> Done (err e)
       | Inr response \<Rightarrow>
           (case read_page p seen response of
              Inl e \<Rightarrow> Done (err e)
            | Inr (page, None) \<Rightarrow> Done (ok (first_occurrences (found @ page)))
            | Inr (page, Some next_cursor) \<Rightarrow>
                list_pages n h s p (found @ page) (next_cursor # seen) (Some next_cursor)))"

definition listOpenProductOrders :: "cb_host \<Rightarrow> CoinbaseExecutionSettings \<Rightarrow> string
    \<Rightarrow> (string list, workflowError) result cb" where
  "listOpenProductOrders h s p = list_pages MAX_ORDER_PAGES h s p [] [] None"

definition known_orders :: "string list \<Rightarrow> string list" where
  "known_orders known = filter non_blank known"

definition reconcileCoinbaseOwnedAccount :: "cb_host \<Rightarrow> CoinbaseExecutionSettings \<Rightarrow> string
    \<Rightarrow> string list \<Rightarrow> (CoinbaseAccountSnapshot, workflowError) result cb" where
  "reconcileCoinbaseOwnedAccount h s p known =
     follow (reconcileCoinbaseAccount h s p) (\<lambda>account.
       case account of
         Inl e \<Rightarrow> Done (err e)
       | Inr v \<Rightarrow> follow (listOpenProductOrders h s p) (\<lambda>listed.
           Done (case listed of
             Inl e \<Rightarrow> err e
           | Inr found \<Rightarrow>
               if list_all (\<lambda>i. i \<in> set (known_orders known)) found then ok v
               else err (reconciliationError ReconciliationFailure False))))"

subsection \<open>Cancellation\<close>

definition cancellationError :: "bool \<Rightarrow> workflowError" where
  "cancellationError = mkError PhCancellation CancellationFailure"

text \<open>The results of a batch succeed, one for each order, none left and none twice.\<close>

primrec all_cancelled :: "(bool \<times> string) list \<Rightarrow> string list \<Rightarrow> bool" where
  "all_cancelled [] expected \<longleftrightarrow> expected = []"
| "all_cancelled (r # rs) expected \<longleftrightarrow>
     fst r \<and> snd r \<in> set expected \<and> all_cancelled rs (removeAll (snd r) expected)"

definition read_cancellation :: "string list \<Rightarrow> nat \<times> json option \<Rightarrow> (unit, workflowError) result" where
  "read_cancellation batch answer =
     (case answer of (status, body) \<Rightarrow>
       if status = 429 \<or> 500 \<le> status then err (cancellationError True)
       else if \<not> status_ok status then err (cancellationError False)
       else
         case (case body of None \<Rightarrow> None | Some j \<Rightarrow> cancelOrdersSchema j) of
           None \<Rightarrow> err (cancellationError False)
         | Some rs \<Rightarrow>
             let expected = first_occurrences batch
             in if length rs \<noteq> length expected \<or> \<not> all_cancelled rs expected
                then err (cancellationError False) else ok ())"

text \<open>The batches of at most \<open>CANCEL_BATCH_SIZE\<close>.\<close>

function batches :: "nat \<Rightarrow> 'v list \<Rightarrow> 'v list list" where
  "batches n xs = (if xs = [] \<or> n = 0 then [] else take n xs # batches n (drop n xs))"
  by pat_completeness auto
termination by (relation "measure (\<lambda>(n, xs). length xs)") auto

declare batches.simps [simp del]

definition as_cancellation :: "workflowError \<Rightarrow> workflowError" where
  "as_cancellation e = e\<lparr>phase := PhCancellation\<rparr>"

primrec cancel_batches :: "cb_host \<Rightarrow> CoinbaseExecutionSettings \<Rightarrow> string list list
    \<Rightarrow> (unit, workflowError) result cb" where
  "cancel_batches h s [] = Done (ok ())"
| "cancel_batches h s (batch # bs) =
     follow (authorizedFetch h s POST COINBASE_CANCEL_ORDERS_PATH []
         (Some (JObj [(''order_ids'', JArr (map JStr batch))]))) (\<lambda>answer.
       case answer of
         Inl e \<Rightarrow> Done (err (as_cancellation e))
       | Inr response \<Rightarrow>
           (case read_cancellation batch response of
              Inl e \<Rightarrow> Done (err e)
            | Inr _ \<Rightarrow> cancel_batches h s bs))"

definition cancelOrderIds :: "cb_host \<Rightarrow> CoinbaseExecutionSettings \<Rightarrow> string list
    \<Rightarrow> (unit, workflowError) result cb" where
  "cancelOrderIds h s found = cancel_batches h s (batches CANCEL_BATCH_SIZE found)"

text \<open>Cancel the listed orders, if any, and list again.\<close>

definition cancel_and_confirm :: "cb_host \<Rightarrow> CoinbaseExecutionSettings \<Rightarrow> string \<Rightarrow> string list
    \<Rightarrow> (unit, workflowError) result cb" where
  "cancel_and_confirm h s p found =
     (if found = [] then Done (ok ())
      else follow (cancelOrderIds h s found) (\<lambda>cancelled.
        case cancelled of
          Inl e \<Rightarrow> Done (err e)
        | Inr _ \<Rightarrow> follow (listOpenProductOrders h s p) (\<lambda>confirmed.
            Done (case confirmed of
              Inl e \<Rightarrow> err (as_cancellation e)
            | Inr left \<Rightarrow> if left = [] then ok () else err (cancellationError True)))))"

definition cancelAndConfirmProductOrders :: "cb_host \<Rightarrow> CoinbaseExecutionSettings \<Rightarrow> string
    \<Rightarrow> (unit, workflowError) result cb" where
  "cancelAndConfirmProductOrders h s p =
     follow (listOpenProductOrders h s p) (\<lambda>listed.
       case listed of
         Inl e \<Rightarrow> Done (err (as_cancellation e))
       | Inr found \<Rightarrow> cancel_and_confirm h s p found)"

definition clearCoinbaseOwnedProtections :: "cb_host \<Rightarrow> CoinbaseExecutionSettings \<Rightarrow> string
    \<Rightarrow> string list \<Rightarrow> (unit, workflowError) result cb" where
  "clearCoinbaseOwnedProtections h s p known =
     follow (listOpenProductOrders h s p) (\<lambda>listed.
       case listed of
         Inl e \<Rightarrow> Done (err (as_cancellation e))
       | Inr found \<Rightarrow>
           if list_ex (\<lambda>i. i \<notin> set (known_orders known)) found
           then Done (err (cancellationError False))
           else cancel_and_confirm h s p found)"

definition accountAndOrderCount :: "cb_host \<Rightarrow> CoinbaseExecutionSettings \<Rightarrow> string
    \<Rightarrow> (CoinbaseAccountSnapshot \<times> nat, workflowError) result cb" where
  "accountAndOrderCount h s p =
     follow (reconcileCoinbaseAccount h s p) (\<lambda>account.
       case account of
         Inl e \<Rightarrow> Done (err e)
       | Inr v \<Rightarrow> follow (listOpenProductOrders h s p) (\<lambda>listed.
           Done (case listed of Inl e \<Rightarrow> err e | Inr found \<Rightarrow> ok (v, length found))))"

end
