(* ===== verification/CoinbaseKill.thy ===== *)
theory CoinbaseKill
  imports CoinbaseControl LiveAccountProps
begin

text \<open>
  The kill of a live account, \<open>executeCoinbaseKill\<close> of \<^verbatim>\<open>apps/agent/src/coinbase-control.ts\<close>:
  it performs the effect of each state of \<open>liveAccountControlMachine\<close> and sends the outcome, at
  most 64 times.  A result \<open>None\<close> is an exception: an order identifier of blanks in an answer.
\<close>

type_synonym control_sender = "control_snapshot \<Rightarrow> LiveAccountControlEvent \<Rightarrow> control_snapshot"

datatype flatten_answer = FLAT_CONFIRMED | FLAT_UNKNOWN | FLAT_ERROR workflowError

definition submission_error :: "OrderSubmission \<Rightarrow> workflowError option" where
  "submission_error x =
     (case x of
        CONFIRMED _ _ _ _ _ _ _ \<Rightarrow> None
      | PROTECTION_FAILED _ _ _ _ _ _ _ e \<Rightarrow> Some e
      | TERMINAL_FAILED _ _ e \<Rightarrow> Some e
      | OrderSubmission.NO_SELL_NEEDED _ _ _ _ \<Rightarrow> None
      | SUBMISSION_REJECTED e \<Rightarrow> Some e
      | UNKNOWN _ e \<Rightarrow> Some e)"

definition kill_intent :: "string \<Rightarrow> string \<Rightarrow> number \<Rightarrow> OrderIntent" where
  "kill_intent cid p q =
     \<lparr>OrderIntent.clientOrderId = cid, OrderIntent.decisionId = cid,
      OrderIntent.strategyIds = [''kill-switch''], OrderIntent.productId = p,
      OrderIntent.side = SELL, OrderIntent.order_type = MARKET, OrderIntent.quantity = q,
      OrderIntent.limitPrice = None\<rparr>"

text \<open>The lookup of a sale whose order is known.\<close>

definition lookup_flatten :: "cb_host \<Rightarrow> CoinbaseExecutionSettings \<Rightarrow> OrderIntent \<Rightarrow> string
    \<Rightarrow> PaperPortfolio \<Rightarrow> flatten_answer option cb" where
  "lookup_flatten h s i oid w =
     (case coinbaseOrderPath oid of
        None \<Rightarrow> Done None
      | Some path \<Rightarrow> follow (createCoinbaseAuthorization h s GET path) (\<lambda>authorized.
          case authorized of
            Inl _ \<Rightarrow> Done (Some FLAT_UNKNOWN)
          | Inr a \<Rightarrow> follow (getCoinbaseOrder h s i oid a w False) (\<lambda>reconciled.
              Done (Some (case reconciled of
                Inl _ \<Rightarrow> FLAT_UNKNOWN
              | Inr (LOOKUP_CONFIRMED _) \<Rightarrow> FLAT_CONFIRMED
              | Inr (LOOKUP_REJECTED e) \<Rightarrow> FLAT_ERROR e)))))"

definition read_flatten :: "cb_host \<Rightarrow> CoinbaseExecutionSettings \<Rightarrow> OrderIntent \<Rightarrow> PaperPortfolio
    \<Rightarrow> OrderSubmission \<Rightarrow> flatten_answer option cb" where
  "read_flatten h s i w submitted =
     (case submitted of
        SUBMISSION_REJECTED e \<Rightarrow> Done (Some (FLAT_ERROR e))
      | CONFIRMED _ _ _ _ _ _ _ \<Rightarrow> Done (Some FLAT_CONFIRMED)
      | UNKNOWN None _ \<Rightarrow> Done (Some FLAT_UNKNOWN)
      | UNKNOWN (Some oid) _ \<Rightarrow> lookup_flatten h s i oid w
      | _ \<Rightarrow> Done (Some (FLAT_ERROR
          (case submission_error submitted of
             None \<Rightarrow> executionError InvalidResponse False | Some e \<Rightarrow> e))))"

definition flattenReconciledPosition :: "cb_host \<Rightarrow> CoinbaseExecutionSettings \<Rightarrow> string \<Rightarrow> string
    \<Rightarrow> number \<Rightarrow> PaperPortfolio \<Rightarrow> flatten_answer option cb" where
  "flattenReconciledPosition h s p cid q w =
     follow (createCoinbaseAuthorization h s POST COINBASE_CREATE_ORDER_PATH) (\<lambda>authorized.
       case authorized of
         Inl e \<Rightarrow> Done (Some (FLAT_ERROR e))
       | Inr a \<Rightarrow> follow (submitCoinbaseOrder h s (kill_intent cid p q) a None)
           (read_flatten h s (kill_intent cid p q) w))"

definition retryDelayMs :: "nat \<Rightarrow> number" where
  "retryDelayMs attempt = js_min (Fin 30000) (Fin 1000 * Fin (2 ^ (attempt - 1)))"

text \<open>The text hashed into the client identifier of a sale.\<close>

definition kill_source :: "LiveAccountControlContext \<Rightarrow> string \<Rightarrow> string" where
  "kill_source c prefix =
     prefix @ [char_of (31 :: nat)] @
     (case LiveAccountControlContext.snapshotId c of None \<Rightarrow> ''missing'' | Some i \<Rightarrow> i) @
     [char_of (31 :: nat)] @ radix 10 (flatten (attempts c))"

text \<open>A step ends the kill, or leaves the machine and the last account.\<close>

type_synonym kill_result = "(CoinbaseAccountSnapshot, workflowError) result option"
type_synonym kill_state = "control_snapshot \<times> CoinbaseAccountSnapshot option"
type_synonym kill_outcome = "kill_result + kill_state"

definition account_event :: "number \<Rightarrow> CoinbaseAccountSnapshot \<Rightarrow> nat \<Rightarrow> LiveAccountControlEvent" where
  "account_event increment v orders =
     LiveAccountControlEvent.ACCOUNT_RECONCILED (ca_snapshotId v) (ca_totalBaseQuantity v)
       (ca_availableBaseQuantity v) increment (Fin (of_nat orders))"

definition kill_reconcile :: "control_sender \<Rightarrow> cb_host \<Rightarrow> CoinbaseExecutionSettings \<Rightarrow> string
    \<Rightarrow> number \<Rightarrow> kill_state \<Rightarrow> kill_outcome cb" where
  "kill_reconcile send h s p increment st =
     follow (accountAndOrderCount h s p) (\<lambda>counted.
       Done (Inr (case counted of
         Inl e \<Rightarrow> (send (fst st) (LiveAccountControlEvent.OPERATION_FAILED e), snd st)
       | Inr (v, orders) \<Rightarrow> (send (fst st) (account_event increment v orders), Some v))))"

definition flatten_event :: "flatten_answer \<Rightarrow> LiveAccountControlEvent" where
  "flatten_event answer =
     (case answer of
        FLAT_CONFIRMED \<Rightarrow> FLATTEN_CONFIRMED
      | FLAT_UNKNOWN \<Rightarrow> FLATTEN_OUTCOME_UNKNOWN
      | FLAT_ERROR e \<Rightarrow> FLATTEN_REJECTED e)"

definition kill_flatten :: "control_sender \<Rightarrow> cb_host \<Rightarrow> CoinbaseExecutionSettings \<Rightarrow> string
    \<Rightarrow> kill_state \<Rightarrow> kill_outcome cb" where
  "kill_flatten send h s p st =
     (let m = fst st; c = snd m
      in case (snd st, flattenQuantity c, flattenClientOrderPrefix c) of
           (Some v, Some q, Some prefix) \<Rightarrow>
             follow (flattenReconciledPosition h s p
                 (deriveCoinbaseControlClientOrderId (kill_source c prefix)) q (ca_portfolio v))
               (\<lambda>answer. Done (case answer of
                  None \<Rightarrow> Inl None
                | Some x \<Rightarrow> Inr (send m (flatten_event x), snd st)))
         | _ \<Rightarrow> Done (Inr
             (send m (FLATTEN_REJECTED (executionError InvalidResponse False)), snd st)))"

definition kill_wait :: "control_sender \<Rightarrow> nat \<Rightarrow> kill_state \<Rightarrow> kill_outcome cb" where
  "kill_wait send attempt st =
     wait_for (retryDelayMs attempt) (Done (Inr (send (fst st) RETRY_TIMER_ELAPSED, snd st)))"

definition kill_step :: "control_sender \<Rightarrow> cb_host \<Rightarrow> CoinbaseExecutionSettings \<Rightarrow> string
    \<Rightarrow> number \<Rightarrow> kill_state \<Rightarrow> kill_outcome cb" where
  "kill_step send h s p increment st =
     (let m = fst st; c = snd m
      in case fst m of
           controlState.CancellingOrders \<Rightarrow>
             follow (cancelAndConfirmProductOrders h s p) (\<lambda>cleared.
               Done (Inr (send m (case cleared of
                   Inl e \<Rightarrow> LiveAccountControlEvent.OPERATION_FAILED e
                 | Inr _ \<Rightarrow> ORDERS_CLEARED), snd st)))
         | controlState.ReconcilingPosition \<Rightarrow> kill_reconcile send h s p increment st
         | controlState.VerifyingFlat \<Rightarrow> kill_reconcile send h s p increment st
         | controlState.FlatteningPosition \<Rightarrow> kill_flatten send h s p st
         | controlState.RetryingCancellation \<Rightarrow> kill_wait send (cancellation (attempts c)) st
         | controlState.RetryingReconciliation \<Rightarrow>
             kill_wait send (controlCounts.reconciliation (attempts c)) st
         | controlState.RetryingVerification \<Rightarrow> kill_wait send (verification (attempts c)) st
         | controlState.Completed \<Rightarrow>
             Done (Inl (Some (case snd st of None \<Rightarrow> err invalidAnswer | Some v \<Rightarrow> ok v)))
         | controlState.Failed \<Rightarrow>
             Done (Inl (Some (err (case LiveAccountControlContext.lastError c of
                 None \<Rightarrow> reconciliationError ReconciliationFailure False | Some e \<Rightarrow> e))))
         | controlState.Idle \<Rightarrow> Done (Inl (Some (err invalidAnswer))))"

definition kill_loop :: "nat \<Rightarrow> control_sender \<Rightarrow> cb_host \<Rightarrow> CoinbaseExecutionSettings \<Rightarrow> string
    \<Rightarrow> number \<Rightarrow> kill_state \<Rightarrow> kill_result cb" where
  "kill_loop n send h s p increment =
     repeat n (kill_step send h s p increment)
       (\<lambda>_. Some (err (reconciliationError ReconciliationFailure False)))"

definition executeCoinbaseKill :: "(LiveAccountControlContext \<Rightarrow> control_snapshot) \<Rightarrow> control_sender
    \<Rightarrow> cb_host \<Rightarrow> CoinbaseExecutionSettings \<Rightarrow> string \<Rightarrow> controlPermissions \<Rightarrow> string
    \<Rightarrow> kill_result cb" where
  "executeCoinbaseKill init send h s p ps prefix =
     (case baseIncrement p of
        None \<Rightarrow> Done (Some (err invalidAnswer))
      | Some increment \<Rightarrow>
          kill_loop MAX_CONTROL_STEPS send h s p increment
            (send (init (control_context (control_limits None))) (KILL_REQUESTED p prefix ps), None))"

end
