(* ===== verification/CoinbaseSell.thy ===== *)
theory CoinbaseSell
  imports CoinbaseKill LiveSellProps
begin

text \<open>
  A protected sale, \<open>executeCoinbaseProtectedSell\<close> of \<^verbatim>\<open>apps/agent/src/coinbase-control.ts\<close>: it
  performs the effect of each state of \<open>liveSellProtectionMachine\<close>, saving a checkpoint before
  each, and falls back on the kill.  A result \<open>None\<close> is an exception, as in \<^verbatim>\<open>CoinbaseKill\<close>.
\<close>

type_synonym sell_sender = "sell_snapshot \<Rightarrow> LiveSellProtectionEvent \<Rightarrow> sell_snapshot"

record CoinbaseProtectedSellPolicy =
  sellStopLossBps :: number
  sellTakeProfitBps :: number

text \<open>The actors of both machines, and what restores a sale from its checkpoint.\<close>

record sell_actors =
  control_init :: "LiveAccountControlContext \<Rightarrow> control_snapshot"
  control_next :: control_sender
  sell_init :: "LiveSellProtectionContext \<Rightarrow> sell_snapshot"
  sell_next :: sell_sender
  sell_restore :: "sell_snapshot \<Rightarrow> sell_snapshot"

text \<open>What a sale is about: settings, intent, permissions, known protections, policy, increment.\<close>

record sell_job =
  job_settings :: CoinbaseExecutionSettings
  job_intent :: OrderIntent
  job_permissions :: controlPermissions
  job_known :: "string list"
  job_policy :: CoinbaseProtectedSellPolicy
  job_increment :: number

text \<open>The variables of the loop.\<close>

record sell_vars =
  sv_machine :: sell_snapshot
  sv_account :: "CoinbaseAccountSnapshot option"
  sv_submission :: "ConfirmedOrderSubmission option"
  sv_plan :: "CoinbaseProtectionPlan option"

type_synonym sell_outcome = "OrderSubmission option + sell_vars"

definition sv_fill :: "sell_vars \<Rightarrow> Fill option" where
  "sv_fill v = (case sv_submission v of None \<Rightarrow> None | Some x \<Rightarrow> co_fill x)"

definition advance :: "sell_actors \<Rightarrow> sell_vars \<Rightarrow> LiveSellProtectionEvent \<Rightarrow> sell_outcome" where
  "advance A v e = Inr (v\<lparr>sv_machine := sell_next A (sv_machine v) e\<rparr>)"

definition residualProtectionClientOrderId :: "string \<Rightarrow> string" where
  "residualProtectionClientOrderId parent =
     deriveCoinbaseControlClientOrderId (parent @ [char_of (31 :: nat)] @ ''residual'')"

subsection \<open>One step\<close>

definition sell_clear :: "sell_actors \<Rightarrow> cb_host \<Rightarrow> sell_job \<Rightarrow> sell_vars \<Rightarrow> sell_outcome cb" where
  "sell_clear A h j v =
     follow (clearCoinbaseOwnedProtections h (job_settings j) (OrderIntent.productId (job_intent j))
         (job_known j)) (\<lambda>cleared.
       Done (advance A v (case cleared of
           Inl e \<Rightarrow> LiveSellProtectionEvent.OPERATION_FAILED e | Inr _ \<Rightarrow> PROTECTIONS_CLEARED)))"

definition sell_account_event :: "number \<Rightarrow> CoinbaseAccountSnapshot \<Rightarrow> LiveSellProtectionEvent" where
  "sell_account_event increment a =
     LiveSellProtectionEvent.ACCOUNT_RECONCILED (ca_snapshotId a) (ca_totalBaseQuantity a)
       (ca_availableBaseQuantity a) (averagePrice (ca_portfolio a)) increment"

definition sell_reconcile :: "sell_actors \<Rightarrow> cb_host \<Rightarrow> sell_job \<Rightarrow> sell_vars \<Rightarrow> sell_outcome cb" where
  "sell_reconcile A h j v =
     follow (reconcileCoinbaseAccount h (job_settings j)
         (OrderIntent.productId (job_intent j))) (\<lambda>reconciled.
       Done (case reconciled of
         Inl e \<Rightarrow> advance A v (LiveSellProtectionEvent.OPERATION_FAILED e)
       | Inr a \<Rightarrow> advance A (v\<lparr>sv_account := Some a\<rparr>) (sell_account_event (job_increment j) a)))"

text \<open>The order is submitted under a fresh authorization.\<close>

definition submit_sale :: "cb_host \<Rightarrow> sell_job \<Rightarrow> (OrderSubmission, workflowError) result cb" where
  "submit_sale h j =
     follow (createCoinbaseAuthorization h (job_settings j) POST COINBASE_CREATE_ORDER_PATH) (\<lambda>authorized.
       case authorized of
         Inl e \<Rightarrow> Done (err e)
       | Inr a \<Rightarrow> follow (submitCoinbaseOrder h (job_settings j) (job_intent j) a None) (\<lambda>submitted.
           Done (ok submitted)))"

definition confirmed_submission :: "string \<Rightarrow> PaperPortfolio \<Rightarrow> Fill option \<Rightarrow> string option
    \<Rightarrow> ConfirmedOrderSubmission" where
  "confirmed_submission oid w f prot =
     \<lparr>co_exchangeOrderId = oid, co_portfolio = w, co_fill = f, co_protectiveOrderId = prot\<rparr>"

definition sell_submit :: "sell_actors \<Rightarrow> cb_host \<Rightarrow> sell_job \<Rightarrow> sell_vars \<Rightarrow> sell_outcome cb" where
  "sell_submit A h j v =
     follow (submit_sale h j) (\<lambda>answer.
       Done (case answer of
         Inl e \<Rightarrow> advance A v (LiveSellProtectionEvent.OPERATION_FAILED e)
       | Inr (CONFIRMED oid w f prot _ _ _) \<Rightarrow>
           advance A (v\<lparr>sv_submission := Some (confirmed_submission oid w f prot)\<rparr>)
             (SELL_CONFIRMED oid)
       | Inr (UNKNOWN oid _) \<Rightarrow> advance A v (SELL_OUTCOME_UNKNOWN oid)
       | Inr (SUBMISSION_REJECTED e) \<Rightarrow> advance A v (SELL_REJECTED e)
       | Inr other \<Rightarrow> advance A v (LiveSellProtectionEvent.OPERATION_FAILED
           (case submission_error other of
              None \<Rightarrow> executionError InvalidResponse False | Some e \<Rightarrow> e))))"

definition lookup_sale :: "sell_actors \<Rightarrow> cb_host \<Rightarrow> sell_job \<Rightarrow> sell_vars
    \<Rightarrow> CoinbaseAccountSnapshot \<Rightarrow> string \<Rightarrow> sell_outcome cb" where
  "lookup_sale A h j v account oid =
     (case coinbaseOrderPath oid of
        None \<Rightarrow> Done (Inl None)
      | Some path \<Rightarrow> follow (createCoinbaseAuthorization h (job_settings j) GET path) (\<lambda>authorized.
          case authorized of
            Inl e \<Rightarrow> Done (advance A v (LiveSellProtectionEvent.OPERATION_FAILED e))
          | Inr a \<Rightarrow>
              follow (getCoinbaseOrder h (job_settings j) (job_intent j) oid a (ca_portfolio account) False)
                (\<lambda>reconciled. Done (case reconciled of
                   Inl e \<Rightarrow> advance A v (LiveSellProtectionEvent.OPERATION_FAILED e)
                 | Inr (LOOKUP_CONFIRMED x) \<Rightarrow>
                     advance A (v\<lparr>sv_submission := Some x\<rparr>) (SELL_CONFIRMED oid)
                 | Inr (LOOKUP_REJECTED e) \<Rightarrow> advance A v (SELL_REJECTED e)))))"

text \<open>Without an order identifier the same intent is submitted again, under its own identifier.\<close>

definition sell_resolve :: "sell_actors \<Rightarrow> cb_host \<Rightarrow> sell_job \<Rightarrow> sell_vars \<Rightarrow> sell_outcome cb" where
  "sell_resolve A h j v =
     (case sv_account v of
        None \<Rightarrow> Done (advance A v (LiveSellProtectionEvent.OPERATION_FAILED invalidAnswer))
      | Some account \<Rightarrow>
          (case LiveSellProtectionContext.exchangeOrderId (snd (sv_machine v)) of
             Some oid \<Rightarrow> lookup_sale A h j v account oid
           | None \<Rightarrow> follow (submit_sale h j) (\<lambda>replayed.
               case replayed of
                 Inl e \<Rightarrow> Done (advance A v (LiveSellProtectionEvent.OPERATION_FAILED e))
               | Inr (CONFIRMED oid w f prot _ _ _) \<Rightarrow>
                   Done (advance A (v\<lparr>sv_submission := Some (confirmed_submission oid w f prot)\<rparr>)
                     (SELL_CONFIRMED oid))
               | Inr (SUBMISSION_REJECTED e) \<Rightarrow> Done (advance A v (SELL_REJECTED e))
               | Inr (UNKNOWN (Some oid) _) \<Rightarrow> lookup_sale A h j v account oid
               | Inr _ \<Rightarrow> Done (advance A v (LiveSellProtectionEvent.OPERATION_FAILED
                   (reconciliationError OrderOutcomeUnknownCode False))))))"

definition residual_plan :: "CoinbaseProtectedSellPolicy \<Rightarrow> number \<Rightarrow> CoinbaseProtectionPlan" where
  "residual_plan policy entry =
     \<lparr>stopLossPrice = entry * (Fin 1 - sellStopLossBps policy / Fin 10000),
      takeProfitPrice = entry * (Fin 1 + sellTakeProfitBps policy / Fin 10000)\<rparr>"

definition sell_arm :: "sell_actors \<Rightarrow> cb_host \<Rightarrow> sell_job \<Rightarrow> sell_vars \<Rightarrow> sell_outcome cb" where
  "sell_arm A h j v =
     (let c = snd (sv_machine v)
      in case (LiveSellProtectionContext.totalBaseQuantity c, averageEntryPrice c) of
           (Some q, Some entry) \<Rightarrow>
             if entry \<le> Fin 0
             then Done (advance A v (LiveSellProtectionEvent.OPERATION_FAILED invalidAnswer))
             else
               let plan = residual_plan (job_policy j) entry
               in follow (submitCoinbaseProtectionOrder h (job_settings j)
                     (OrderIntent.productId (job_intent j))
                     (residualProtectionClientOrderId (OrderIntent.clientOrderId (job_intent j))) q plan)
                   (\<lambda>submitted. Done (advance A (v\<lparr>sv_plan := Some plan\<rparr>)
                     (case submitted of
                        Inl e \<Rightarrow> LiveSellProtectionEvent.OPERATION_FAILED e
                      | Inr oid \<Rightarrow> PROTECTION_ACKNOWLEDGED oid)))
         | _ \<Rightarrow> Done (advance A v (LiveSellProtectionEvent.OPERATION_FAILED invalidAnswer)))"

definition sell_confirm :: "sell_actors \<Rightarrow> cb_host \<Rightarrow> sell_job \<Rightarrow> sell_vars \<Rightarrow> sell_outcome cb" where
  "sell_confirm A h j v =
     (let c = snd (sv_machine v)
      in case (LiveSellProtectionContext.protectiveOrderId c,
               LiveSellProtectionContext.totalBaseQuantity c, sv_plan v) of
           (Some oid, Some q, Some plan) \<Rightarrow>
             follow (confirmCoinbaseProtectiveOrder h (job_settings j)
                 (OrderIntent.productId (job_intent j)) oid plan (Some q))
               (\<lambda>confirmed. Done (advance A v (case confirmed of
                  Inl e \<Rightarrow> LiveSellProtectionEvent.OPERATION_FAILED e
                | Inr _ \<Rightarrow> PROTECTION_CONFIRMED)))
         | _ \<Rightarrow> Done (advance A v (LiveSellProtectionEvent.OPERATION_FAILED invalidAnswer)))"

definition sell_flatten :: "sell_actors \<Rightarrow> cb_host \<Rightarrow> sell_job \<Rightarrow> sell_vars \<Rightarrow> sell_outcome cb" where
  "sell_flatten A h j v =
     follow (executeCoinbaseKill (control_init A) (control_next A) h (job_settings j)
         (OrderIntent.productId (job_intent j)) (job_permissions j)
         (''sell-safety-'' @ OrderIntent.clientOrderId (job_intent j))) (\<lambda>killed.
       Done (case killed of
         None \<Rightarrow> Inl None
       | Some (Inr a) \<Rightarrow> advance A (v\<lparr>sv_account := Some a\<rparr>) SAFETY_FLATTEN_SUCCEEDED
       | Some (Inl e) \<Rightarrow> advance A v (SAFETY_FLATTEN_FAILED e)))"

definition sell_completed :: "sell_vars \<Rightarrow> OrderSubmission" where
  "sell_completed v =
     (let c = snd (sv_machine v)
      in if outcome c = LiveSellProtectionOutcome.NO_SELL_NEEDED
         then (case sv_account v of
                 None \<Rightarrow> TERMINAL_FAILED None None invalidAnswer
               | Some a \<Rightarrow> OrderSubmission.NO_SELL_NEEDED (ca_portfolio a) (ca_accountEquity a)
                   (ca_otherExposureNotional a) (ca_observedAt a))
         else
           case (sv_account v, sv_submission v) of
             (Some a, Some x) \<Rightarrow>
               CONFIRMED (co_exchangeOrderId x) (ca_portfolio a) (co_fill x)
                 (case LiveSellProtectionContext.protectiveOrderId c of
                    None \<Rightarrow> co_protectiveOrderId x | Some i \<Rightarrow> Some i)
                 (Some (ca_accountEquity a)) (Some (ca_otherExposureNotional a))
                 (Some (ca_observedAt a))
           | _ \<Rightarrow> TERMINAL_FAILED (LiveSellProtectionContext.exchangeOrderId c) (sv_fill v)
               invalidAnswer)"

definition sell_error :: "LiveSellProtectionContext \<Rightarrow> workflowError" where
  "sell_error c =
     (case LiveSellProtectionContext.lastError c of
        None \<Rightarrow> reconciliationError ReconciliationFailure False | Some e \<Rightarrow> e)"

definition sell_safely_completed :: "sell_vars \<Rightarrow> OrderSubmission" where
  "sell_safely_completed v =
     (let c = snd (sv_machine v)
      in case sv_account v of
           None \<Rightarrow> TERMINAL_FAILED (LiveSellProtectionContext.exchangeOrderId c) (sv_fill v) (sell_error c)
         | Some a \<Rightarrow>
             PROTECTION_FAILED (LiveSellProtectionContext.exchangeOrderId c) (ca_portfolio a)
               (sv_fill v) None (ca_accountEquity a) (ca_otherExposureNotional a) (ca_observedAt a)
               ((sell_error c)\<lparr>retryable := False\<rparr>))"

definition sell_step :: "sell_actors \<Rightarrow> cb_host \<Rightarrow> sell_job \<Rightarrow> sell_vars \<Rightarrow> sell_outcome cb" where
  "sell_step A h j v =
     (let c = snd (sv_machine v)
      in case fst (sv_machine v) of
           sellState.CancellingProtections \<Rightarrow> sell_clear A h j v
         | sellState.ReconcilingBeforeSell \<Rightarrow> sell_reconcile A h j v
         | sellState.ReconcilingResidual \<Rightarrow> sell_reconcile A h j v
         | sellState.SubmittingSell \<Rightarrow> sell_submit A h j v
         | sellState.ReconcilingSell \<Rightarrow> sell_resolve A h j v
         | sellState.ArmingResidual \<Rightarrow> sell_arm A h j v
         | sellState.ConfirmingResidualProtection \<Rightarrow> sell_confirm A h j v
         | sellState.SafetyFlattening \<Rightarrow> sell_flatten A h j v
         | sellState.Completed \<Rightarrow> Done (Inl (Some (sell_completed v)))
         | sellState.SafetyCompleted \<Rightarrow> Done (Inl (Some (sell_safely_completed v)))
         | sellState.Failed \<Rightarrow>
             Done (Inl (Some (TERMINAL_FAILED (LiveSellProtectionContext.exchangeOrderId c) (sv_fill v)
               ((sell_error c)\<lparr>retryable := False\<rparr>))))
         | sellState.Idle \<Rightarrow>
             Done (Inl (Some (TERMINAL_FAILED (LiveSellProtectionContext.exchangeOrderId c) (sv_fill v)
               invalidAnswer))))"

subsection \<open>The loop\<close>

definition checkpoint_of :: "sell_vars \<Rightarrow> CoinbaseProtectedSellCheckpoint" where
  "checkpoint_of v =
     \<lparr>cp_state = fst (sv_machine v), cp_context = snd (sv_machine v), cp_account = sv_account v,
      cp_sellSubmission = sv_submission v, cp_protectionPlan = sv_plan v\<rparr>"

text \<open>With a port, the step is taken only once its checkpoint is saved.\<close>

definition sell_checkpointed :: "bool \<Rightarrow> sell_actors \<Rightarrow> cb_host \<Rightarrow> sell_job \<Rightarrow> sell_vars
    \<Rightarrow> sell_outcome cb" where
  "sell_checkpointed persistent A h j v =
     (if persistent
      then save_checkpoint (checkpoint_of v) (\<lambda>failure.
        case failure of
          Some e \<Rightarrow> Done (Inl (Some (UNKNOWN
            (LiveSellProtectionContext.exchangeOrderId (snd (sv_machine v))) (e\<lparr>retryable := True\<rparr>))))
        | None \<Rightarrow> sell_step A h j v)
      else sell_step A h j v)"

definition sell_loop :: "nat \<Rightarrow> bool \<Rightarrow> sell_actors \<Rightarrow> cb_host \<Rightarrow> sell_job \<Rightarrow> sell_vars
    \<Rightarrow> OrderSubmission option cb" where
  "sell_loop n persistent A h j =
     repeat n (sell_checkpointed persistent A h j)
       (\<lambda>v. Some (TERMINAL_FAILED None (sv_fill v) (reconciliationError ReconciliationFailure False)))"

definition invalid_sale :: "OrderIntent \<Rightarrow> CoinbaseProtectedSellPolicy \<Rightarrow> bool" where
  "invalid_sale i policy \<longleftrightarrow>
     side i \<noteq> SELL \<or> \<not> isFinite (sellStopLossBps policy) \<or> sellStopLossBps policy \<le> Fin 0 \<or>
     Fin 10000 \<le> sellStopLossBps policy \<or> \<not> isFinite (sellTakeProfitBps policy) \<or>
     sellTakeProfitBps policy \<le> Fin 0"

text \<open>The checkpoint belongs to another sale.\<close>

definition foreign_checkpoint :: "OrderIntent \<Rightarrow> CoinbaseProtectedSellCheckpoint \<Rightarrow> bool" where
  "foreign_checkpoint i cp \<longleftrightarrow>
     LiveSellProtectionContext.productId (cp_context cp) \<noteq> Some (OrderIntent.productId i) \<or>
     LiveSellProtectionContext.clientOrderId (cp_context cp) \<noteq> Some (OrderIntent.clientOrderId i) \<or>
     (case requestedQuantity (cp_context cp) of
        None \<Rightarrow> True | Some q \<Rightarrow> \<not> num_eq q (quantity i))"

text \<open>\<open>port\<close> is \<open>None\<close> without persistence, and holds the checkpoint it found otherwise.\<close>

definition executeCoinbaseProtectedSell :: "sell_actors \<Rightarrow> cb_host \<Rightarrow> CoinbaseExecutionSettings
    \<Rightarrow> OrderIntent \<Rightarrow> controlPermissions \<Rightarrow> string list \<Rightarrow> CoinbaseProtectedSellPolicy
    \<Rightarrow> CoinbaseProtectedSellCheckpoint option option \<Rightarrow> OrderSubmission option cb" where
  "executeCoinbaseProtectedSell A h s i ps known policy port =
     (if invalid_sale i policy
      then Done (Some (TERMINAL_FAILED None None (executionError InvalidResponse False)))
      else case baseIncrement (OrderIntent.productId i) of
        None \<Rightarrow> Done (Some (TERMINAL_FAILED None None (executionError InvalidResponse False)))
      | Some increment \<Rightarrow>
          let j = \<lparr>job_settings = s, job_intent = i, job_permissions = ps, job_known = known,
                   job_policy = policy, job_increment = increment\<rparr>;
              persistent = (port \<noteq> None)
          in case (case port of None \<Rightarrow> None | Some restored \<Rightarrow> restored) of
               None \<Rightarrow>
                 sell_loop MAX_CONTROL_STEPS persistent A h j
                   \<lparr>sv_machine = sell_next A (sell_init A sell_context)
                      (SELL_REQUESTED (OrderIntent.productId i) (OrderIntent.clientOrderId i)
                         (quantity i) ps),
                    sv_account = None, sv_submission = None, sv_plan = None\<rparr>
             | Some cp \<Rightarrow>
                 if foreign_checkpoint i cp
                 then Done (Some (TERMINAL_FAILED None None invalidAnswer))
                 else sell_loop MAX_CONTROL_STEPS persistent A h j
                   \<lparr>sv_machine = sell_restore A (cp_state cp, cp_context cp), sv_account = cp_account cp,
                    sv_submission = cp_sellSubmission cp, sv_plan = cp_protectionPlan cp\<rparr>)"

end
