(* ===== verification/CoinbaseQuiet.thy ===== *)
theory CoinbaseQuiet
  imports CoinbaseControl
begin

text \<open>
  What the Coinbase programs never ask.  A kind of questions that neither reads the clock nor
  signs nor fetches anything but a new order is asked by no lookup, no reading of the account
  and no cancellation; the submission of an order and the wait are such kinds.
\<close>

definition is_order :: "cb_question \<Rightarrow> bool" where
  "is_order q \<longleftrightarrow>
     (case q of
        Fetch rq \<Rightarrow> rq_method rq = POST \<and> rq_path rq = COINBASE_CREATE_ORDER_PATH
      | _ \<Rightarrow> False)"

definition is_wait :: "cb_question \<Rightarrow> bool" where
  "is_wait q \<longleftrightarrow> (case q of WaitFor _ \<Rightarrow> True | _ \<Rightarrow> False)"

locale calm =
  fixes K :: "cb_question \<Rightarrow> bool"
  assumes calm_clock: "\<not> K ReadClock"
    and calm_sign: "\<not> K (SignJwt m host path t)"
    and calm_fetch: "K (Fetch rq) \<Longrightarrow> is_order (Fetch rq)"
begin

lemma quiet_read_clock [intro!]: "(\<And>t. quiet K (k t)) \<Longrightarrow> quiet K (read_clock k)"
  by (auto simp: read_clock_def calm_clock)

lemma quiet_sign [intro!]: "(\<And>x. quiet K (k x)) \<Longrightarrow> quiet K (sign_jwt m host path t k)"
  by (auto simp: sign_jwt_def calm_sign)

lemma quiet_fetch:
  "rq_method rq = GET \<or> rq_path rq \<noteq> COINBASE_CREATE_ORDER_PATH \<Longrightarrow>
    (\<And>x. quiet K (k x)) \<Longrightarrow> quiet K (fetch rq k)"
  using calm_fetch [of rq] by (auto simp: fetch_def is_order_def)

lemma quiet_get [intro!]: "(\<And>x. quiet K (k x)) \<Longrightarrow> quiet K (fetch (get_request path token) k)"
  by (rule quiet_fetch) (simp add: get_request_def)

lemma quiet_authorization_at [intro!]: "quiet K (authorization_at h s m path host t)"
  by (auto simp: authorization_at_def createCoinbaseJwt_def)

lemma quiet_authorization [intro!]: "quiet K (createCoinbaseAuthorization h s m path)"
  by (auto simp: createCoinbaseAuthorization_def split: option.split)

lemma quiet_protection [intro!]: "quiet K (loadFormattedProtection h s p plan)"
  by (auto simp: loadFormattedProtection_def Let_def split: sum.split option.split http_response.split)

lemma quiet_authorized_get [intro!]: "quiet K (authorized_get h s path a)"
  by (auto simp: authorized_get_def split: option.split)

lemma quiet_lookup [intro!]: "quiet K (getCoinbaseOrder h s i oid a w protected)"
  by (auto simp: getCoinbaseOrder_def split: option.split)

lemma quiet_confirm [intro!]: "quiet K (confirmCoinbaseProtectiveOrder h s p oid plan expected)"
  by (auto simp: confirmCoinbaseProtectiveOrder_def split: option.split sum.split)

lemma quiet_account [intro!]: "quiet K (reconcileCoinbaseAccount h s p)"
  by (auto simp: reconcileCoinbaseAccount_def split: option.split sum.split http_response.split)

lemma quiet_authorized_fetch:
  "m = GET \<or> path \<noteq> COINBASE_CREATE_ORDER_PATH \<Longrightarrow>
    quiet K (authorizedFetch h s m path query body)"
  by (auto simp: authorizedFetch_def intro!: quiet_fetch split: option.split sum.split)

lemma quiet_pages: "quiet K (list_pages n h s p found seen cursor)"
  by (induction n arbitrary: found seen cursor)
     (auto intro!: quiet_authorized_fetch split: sum.split option.split prod.split)

lemma quiet_listing [intro!]: "quiet K (listOpenProductOrders h s p)"
  by (simp add: listOpenProductOrders_def quiet_pages)

lemma quiet_batches: "quiet K (cancel_batches h s bs)"
proof (induction bs)
  case (Cons b bs)
  have "COINBASE_CANCEL_ORDERS_PATH \<noteq> COINBASE_CREATE_ORDER_PATH"
    by (simp add: COINBASE_CANCEL_ORDERS_PATH_def COINBASE_CREATE_ORDER_PATH_def)
  with Cons show ?case
    by (auto intro!: quiet_authorized_fetch split: sum.split)
qed simp

lemma quiet_cancel_and_confirm [intro!]: "quiet K (cancel_and_confirm h s p found)"
  by (auto simp: cancel_and_confirm_def cancelOrderIds_def intro!: quiet_batches split: sum.split)

lemma quiet_cancellation [intro!]: "quiet K (cancelAndConfirmProductOrders h s p)"
  by (auto simp: cancelAndConfirmProductOrders_def split: sum.split)

lemma quiet_clear [intro!]: "quiet K (clearCoinbaseOwnedProtections h s p known)"
  by (auto simp: clearCoinbaseOwnedProtections_def split: sum.split)

lemma quiet_count [intro!]: "quiet K (accountAndOrderCount h s p)"
  by (auto simp: accountAndOrderCount_def split: sum.split)

end

interpretation ordering: calm is_order
  by unfold_locales (simp_all add: is_order_def)

interpretation waiting: calm is_wait
  by unfold_locales (simp_all add: is_wait_def is_order_def)

end
