(* ===== verification/CoinbaseKillProps.thy ===== *)
theory CoinbaseKillProps
  imports CoinbaseKill CoinbaseQuiet
begin

text \<open>
  What a kill does at the exchange: how many orders it submits and which, when it stops selling,
  how long it waits, and what a success has read.
\<close>

subsection \<open>Orders in a trace\<close>

type_synonym cb_trace = "(cb_question \<times> cb_answer) list"

text \<open>The bodies of the orders submitted, each with its answer.\<close>

definition orders :: "cb_trace \<Rightarrow> (json option \<times> cb_answer) list" where
  "orders tr =
     concat (map (\<lambda>(q, r). case q of
        Fetch rq \<Rightarrow> if is_order q then [(rq_body rq, r)] else [] | _ \<Rightarrow> []) tr)"

lemma orders_simps [simp]:
  "orders [] = []" "orders (tr @ tr') = orders tr @ orders tr'"
  "orders ((q, r) # tr) =
     (case q of Fetch rq \<Rightarrow> if is_order q then [(rq_body rq, r)] else [] | _ \<Rightarrow> []) @ orders tr"
  by (simp_all add: orders_def)

lemma orders_none: "asks_none is_order tr \<Longrightarrow> orders tr = []"
  by (induction tr) (auto split: cb_question.split)

lemma quiet_orders: "quiet is_order p \<Longrightarrow> assures p (\<lambda>tr a. orders tr = [])"
  unfolding quiet_def by (auto intro: assures_mono orders_none)

lemma performs_orders: "quiet is_order p \<Longrightarrow> performs p tr a \<Longrightarrow> orders tr = []"
  by (auto intro: orders_none quiet_performs)

text \<open>The response in an answer, and an answer that tells nothing about the order.\<close>

definition response_of :: "cb_answer \<Rightarrow> http_response" where
  "response_of r = (case r of Reply x \<Rightarrow> x | _ \<Rightarrow> NoResponse)"

definition unresolved :: "OrderIntent \<Rightarrow> cb_answer \<Rightarrow> bool" where
  "unresolved i r \<longleftrightarrow> (\<exists>e. read_submission i (response_of r) = UNKNOWN None e)"

text \<open>No answer, the answer of a failing server, or a body that cannot be read.\<close>

definition lost_answer :: "cb_answer \<Rightarrow> bool" where
  "lost_answer r \<longleftrightarrow>
     (case r of
        Reply (Response n body) \<Rightarrow> 500 \<le> n \<or> status_ok n \<and> body = None
      | _ \<Rightarrow> True)"

lemma lost_unresolved: "lost_answer r \<Longrightarrow> unresolved i r"
  by (auto simp: lost_answer_def unresolved_def response_of_def read_submission_def
      read_acknowledgement_def status_ok_def split: cb_answer.splits http_response.splits)

text \<open>A submission: refused before it was sent, or one order whose answer tells the outcome.\<close>

definition submitted_as :: "cb_host \<Rightarrow> OrderIntent \<Rightarrow> cb_trace \<Rightarrow> OrderSubmission \<Rightarrow> bool" where
  "submitted_as h i tr x \<longleftrightarrow>
     orders tr = [] \<and> (\<exists>e. x = SUBMISSION_REJECTED e) \<or>
     (\<exists>sz r. coinbaseBaseSize h (OrderIntent.productId i) (quantity i) = Some sz \<and>
        orders tr = [(Some (order_body i sz None), r)] \<and> x = read_submission i (response_of r))"

lemma send_order_submits: "assures (send_order h i token None) (submitted_as h i)"
  by (auto simp: send_order_def fetch_def submitted_as_def is_order_def post_request_def response_of_def
      split: option.split cb_answer.split)

lemma submitted_as_more: "submitted_as h i tr x \<Longrightarrow> orders tr' = [] \<Longrightarrow> submitted_as h i (tr' @ tr) x"
  by (simp add: submitted_as_def)

lemma submit_submits: "assures (submitCoinbaseOrder h s i a None) (submitted_as h i)"
proof -
  have "assures (send_order h i token None) (\<lambda>tr. submitted_as h i ((ReadClock, r) # tr))" for token r
    using send_order_submits [of h i token]
    by (rule assures_mono) (simp add: submitted_as_def)
  then show ?thesis
    by (auto simp: submitCoinbaseOrder_def read_clock_def submitted_as_def split: option.split OrderSide.split)
qed

lemma performs_submit: "performs (submitCoinbaseOrder h s i a None) tr x \<Longrightarrow> submitted_as h i tr x"
  using submit_submits unfolding assures_def by blast

text \<open>At most one order, for an intent; a lost answer has a consequence.\<close>

definition one_order :: "cb_host \<Rightarrow> OrderIntent \<Rightarrow> cb_trace \<Rightarrow> bool \<Rightarrow> bool" where
  "one_order h i tr consequence \<longleftrightarrow>
     orders tr = [] \<or>
     (\<exists>sz r. coinbaseBaseSize h (OrderIntent.productId i) (quantity i) = Some sz \<and>
        orders tr = [(Some (order_body i sz None), r)] \<and> (lost_answer r \<longrightarrow> consequence))"

lemma one_order_none: "orders tr = [] \<Longrightarrow> one_order h i tr B"
  by (simp add: one_order_def)

lemma submitted_one_order: "submitted_as h i tr x \<Longrightarrow> one_order h i tr (\<exists>e. x = UNKNOWN None e)"
  using lost_unresolved by (auto simp: submitted_as_def one_order_def unresolved_def)

lemma lookup_flatten_quiet: "quiet is_order (lookup_flatten h s i oid w)"
  by (auto simp: lookup_flatten_def split: option.split sum.split order_lookup.split)

lemma read_flatten_quiet: "quiet is_order (read_flatten h s i w x)"
  by (auto simp: read_flatten_def intro: lookup_flatten_quiet split: OrderSubmission.split option.split)

lemma read_flatten_lost: "performs (read_flatten h s i w (UNKNOWN None e)) tr x \<Longrightarrow> x = Some FLAT_UNKNOWN"
  by (simp add: read_flatten_def)

lemma flatten_submits:
  assumes "performs (flattenReconciledPosition h s p cid q w) tr x"
  shows "one_order h (kill_intent cid p q) tr (x = Some FLAT_UNKNOWN)"
proof -
  let ?i = "kill_intent cid p q"
  obtain tr1 a tr2 where tr: "tr = tr1 @ tr2"
    and "performs (createCoinbaseAuthorization h s POST COINBASE_CREATE_ORDER_PATH) tr1 a"
    and rest: "performs (case a of Inl e \<Rightarrow> Done (Some (FLAT_ERROR e))
        | Inr a \<Rightarrow> follow (submitCoinbaseOrder h s ?i a None) (read_flatten h s ?i w)) tr2 x"
    using assms unfolding flattenReconciledPosition_def performs_follow by blast
  then have none: "orders tr1 = []"
    by (blast intro: performs_orders)
  show ?thesis
  proof (cases a)
    case (Inr b)
    with rest obtain tr3 y tr4 where tr2: "tr2 = tr3 @ tr4"
      and y: "performs (submitCoinbaseOrder h s ?i b None) tr3 y"
      and x: "performs (read_flatten h s ?i w y) tr4 x"
      by (auto simp: performs_follow)
    have "one_order h ?i tr3 (\<exists>e. y = UNKNOWN None e)"
      using y by (blast intro: submitted_one_order performs_submit)
    then show ?thesis
      unfolding tr tr2
      using x none performs_orders [OF read_flatten_quiet x]
      by (auto simp: one_order_def dest: read_flatten_lost)
  qed (use tr none rest in \<open>simp add: one_order_none\<close>)
qed


subsection \<open>Steps of the kill\<close>

text \<open>The attempt a retrying state waits for.\<close>

fun waits_for :: "control_snapshot \<Rightarrow> nat option" where
  "waits_for (st, c) =
     (case st of
        RetryingCancellation \<Rightarrow> Some (cancellation (attempts c))
      | RetryingReconciliation \<Rightarrow> Some (controlCounts.reconciliation (attempts c))
      | RetryingVerification \<Rightarrow> Some (verification (attempts c))
      | _ \<Rightarrow> None)"

abbreviation reading :: "controlState \<Rightarrow> bool" where
  "reading st \<equiv> st = ReconcilingPosition \<or> st = VerifyingFlat"

lemma kill_reconcile_cases:
  assumes "performs (kill_reconcile send h s p increment (m, acc)) tr x"
  obtains
    v n where "performs (accountAndOrderCount h s p) tr (ok (v, n))"
      "x = Inr (send m (account_event increment v n), Some v)"
  | e where "performs (accountAndOrderCount h s p) tr (err e)"
      "x = Inr (send m (LiveAccountControlEvent.OPERATION_FAILED e), acc)"
proof -
  obtain counted where "performs (accountAndOrderCount h s p) tr counted"
    "x = Inr (case counted of
       Inl e \<Rightarrow> (send m (LiveAccountControlEvent.OPERATION_FAILED e), acc)
     | Inr (v, n) \<Rightarrow> (send m (account_event increment v n), Some v))"
    using assms unfolding kill_reconcile_def performs_follow_Done fst_conv snd_conv by blast
  then show ?thesis
    by (cases counted) (auto intro: that [unfolded ok_def err_def])
qed

lemma kill_step_cases:
  assumes "performs (kill_step send h s p increment ((st, c), acc)) tr x"
  obtains
    (cancel) r where "st = CancellingOrders" "performs (cancelAndConfirmProductOrders h s p) tr r"
      "x = Inr (send (st, c) (case r of Inl e \<Rightarrow> LiveAccountControlEvent.OPERATION_FAILED e
         | Inr _ \<Rightarrow> ORDERS_CLEARED), acc)"
  | (read) v n where "reading st" "performs (accountAndOrderCount h s p) tr (ok (v, n))"
      "x = Inr (send (st, c) (account_event increment v n), Some v)"
  | (unread) e where "reading st" "performs (accountAndOrderCount h s p) tr (err e)"
      "x = Inr (send (st, c) (LiveAccountControlEvent.OPERATION_FAILED e), acc)"
  | (sell) v q cid answer where "st = FlatteningPosition" "acc = Some v" "flattenQuantity c = Some q"
      "performs (flattenReconciledPosition h s p cid q (ca_portfolio v)) tr answer"
      "x = (case answer of None \<Rightarrow> Inl None | Some a \<Rightarrow> Inr (send (st, c) (flatten_event a), acc))"
  | (nosale) e where "st = FlatteningPosition" "tr = []" "x = Inr (send (st, c) (FLATTEN_REJECTED e), acc)"
  | (wait) k r where "waits_for (st, c) = Some k" "tr = [(WaitFor (retryDelayMs k), r)]"
      "x = Inr (send (st, c) RETRY_TIMER_ELAPSED, acc)"
  | (completed) "st = Completed" "tr = []" "x = Inl (Some (case acc of None \<Rightarrow> err invalidAnswer | Some v \<Rightarrow> ok v))"
  | (failed) e where "st = Failed \<or> st = Idle" "tr = []" "x = Inl (Some (err e))"
proof (cases st)
  case CancellingOrders
  with assms show ?thesis
    by (auto simp: kill_step_def performs_follow Let_def intro: cancel)
next
  case ReconcilingPosition
  with assms have "performs (kill_reconcile send h s p increment ((st, c), acc)) tr x"
    by (simp add: kill_step_def)
  then show ?thesis
    by (rule kill_reconcile_cases) (rule read unread; use ReconcilingPosition in simp)+
next
  case VerifyingFlat
  with assms have "performs (kill_reconcile send h s p increment ((st, c), acc)) tr x"
    by (simp add: kill_step_def)
  then show ?thesis
    by (rule kill_reconcile_cases) (rule read unread; use VerifyingFlat in simp)+
next
  case FlatteningPosition
  with assms show ?thesis
    by (auto simp: kill_step_def kill_flatten_def performs_follow Let_def intro: sell nosale
        split: option.splits)
qed (use assms in \<open>auto simp: kill_step_def kill_wait_def wait_for_def performs_Ask Let_def
      simp del: performs.simps(2) intro: wait completed failed\<close>)

lemma kill_loop_invariant:
  assumes "performs (kill_loop n send h s p increment st) tr r" and "J tr0 st"
    and "\<And>tr st tr' x. J tr st \<Longrightarrow> performs (kill_step send h s p increment st) tr' x \<Longrightarrow>
      (case x of Inl r \<Rightarrow> Q (tr @ tr') r | Inr st' \<Rightarrow> J (tr @ tr') st')"
    and "\<And>tr st. J tr st \<Longrightarrow> Q tr (Some (err (reconciliationError ReconciliationFailure False)))"
  shows "Q (tr0 @ tr) r"
  using assms unfolding kill_loop_def by (rule repeat_invariant)

subsection \<open>Sales\<close>

definition reached :: "control_snapshot \<Rightarrow> bool" where
  "reached m \<longleftrightarrow>
     control_ok m \<and> retryLimits (snd m) = DEFAULT_RETRY_LIMITS \<and> fst m \<noteq> Idle"

lemma reached_send: "reached (st, c) \<Longrightarrow> reached (control_send (st, c) e)"
  using control_ok_send [of st c e] control_frame [of st c e] by (auto simp: reached_def)

definition has_lost_order :: "cb_trace \<Rightarrow> bool" where
  "has_lost_order tr \<longleftrightarrow> list_ex (\<lambda>(b, r). lost_answer r) (orders tr)"

lemma has_lost_order_simps [simp]:
  "\<not> has_lost_order []" "has_lost_order (tr @ tr') \<longleftrightarrow> has_lost_order tr \<or> has_lost_order tr'"
  by (simp_all add: has_lost_order_def)

definition sales_bounded :: "cb_trace \<Rightarrow> control_snapshot \<Rightarrow> bool" where
  "sales_bounded tr m \<longleftrightarrow>
     reached m \<and> flatten (attempts (snd m)) \<le> 2 \<and>
     length (orders tr) + (if fst m = FlatteningPosition then 1 else 0) \<le> flatten (attempts (snd m)) \<and>
     list_all (\<lambda>(b, r). \<not> lost_answer r) (butlast (orders tr)) \<and>
     (has_lost_order tr \<longrightarrow> outcome_unknown m)"

text \<open>What a bounded run leaves: two sales, each but the last with an answer that was read.\<close>

definition two_sales :: "cb_trace \<Rightarrow> bool" where
  "two_sales tr \<longleftrightarrow>
     length (orders tr) \<le> 2 \<and> list_all (\<lambda>(b, r). \<not> lost_answer r) (butlast (orders tr))"

lemma sales_bounded_two: "sales_bounded tr m \<Longrightarrow> two_sales tr"
  by (auto simp: sales_bounded_def two_sales_def)

lemma not_lost: "\<not> has_lost_order tr \<longleftrightarrow> list_all (\<lambda>(b, r). \<not> lost_answer r) (orders tr)"
  by (auto simp: has_lost_order_def list_all_iff list_ex_iff)

lemma one_more_sale:
  assumes "\<not> has_lost_order tr" and "length (orders tr') \<le> 1"
  shows "list_all (\<lambda>(b, r). \<not> lost_answer r) (butlast (orders (tr @ tr')))"
  using assms by (cases "orders tr'") (auto simp: not_lost butlast_append list_all_iff dest: in_set_butlastD)

lemma sales_bounded_quiet:
  assumes "sales_bounded tr (st, c)" and "st \<noteq> FlatteningPosition" and "orders tr' = []"
  shows "sales_bounded (tr @ tr') (control_send (st, c) e)"
proof -
  have "has_lost_order tr \<Longrightarrow> outcome_unknown (control_send (st, c) e)"
    using assms(1) outcome_unknown_send by (auto simp: sales_bounded_def)
  moreover have "\<not> has_lost_order tr'"
    by (simp add: has_lost_order_def assms(3))
  moreover have "reached (control_send (st, c) e)"
    using assms(1) by (auto simp: sales_bounded_def intro: reached_send)
  ultimately show ?thesis
    using assms control_counts [of st c e] control_frame [of st c e]
    by (auto simp: sales_bounded_def reached_def DEFAULT_RETRY_LIMITS_def below_Fin)
qed

lemma flatten_event_leaves:
  "fst (control_send (FlatteningPosition, c) (flatten_event a)) \<noteq> FlatteningPosition"
  "fst (control_send (FlatteningPosition, c) (FLATTEN_REJECTED e)) \<noteq> FlatteningPosition"
  "attempts (snd (control_send (FlatteningPosition, c) (flatten_event a))) = attempts c"
  "attempts (snd (control_send (FlatteningPosition, c) (FLATTEN_REJECTED e))) = attempts c"
  "outcome_unknown (control_send (FlatteningPosition, c) (flatten_event FLAT_UNKNOWN))"
  by (cases a; simp add: flatten_event_def kill_eval outcome_unknown_def)+

lemma sales_bounded_sale:
  assumes "sales_bounded tr (FlatteningPosition, c)" and "one_order h i tr' (a = FLAT_UNKNOWN)"
  shows "sales_bounded (tr @ tr') (control_send (FlatteningPosition, c) (flatten_event a))"
proof -
  have "\<not> has_lost_order tr"
    using assms(1) by (auto simp: sales_bounded_def outcome_unknown_def)
  moreover have "has_lost_order tr' \<Longrightarrow> a = FLAT_UNKNOWN" "length (orders tr') \<le> 1"
    using assms(2) by (auto simp: one_order_def has_lost_order_def)
  moreover have "reached (control_send (FlatteningPosition, c) (flatten_event a))"
    using assms(1) by (auto simp: sales_bounded_def intro: reached_send)
  ultimately show ?thesis
    using assms(1) one_more_sale [of tr tr'] by (auto simp: sales_bounded_def flatten_event_leaves)
qed

text \<open>A sale cut short by an exception.\<close>

lemma sales_bounded_stop:
  assumes "sales_bounded tr (FlatteningPosition, c)" and "one_order h i tr' B"
  shows "two_sales (tr @ tr')"
proof -
  have "\<not> has_lost_order tr" "length (orders tr') \<le> 1"
    using assms by (auto simp: sales_bounded_def outcome_unknown_def one_order_def)
  then show ?thesis
    using assms(1) one_more_sale [of tr tr'] by (auto simp: sales_bounded_def two_sales_def)
qed

lemma sales_bounded_step:
  assumes "sales_bounded tr (fst st)" and "performs (kill_step control_send h s p increment st) tr' x"
  shows "case x of Inl r \<Rightarrow> two_sales (tr @ tr') | Inr st' \<Rightarrow> sales_bounded (tr @ tr') (fst st')"
proof -
  obtain m c acc where st: "st = ((m, c), acc)"
    by (metis prod.exhaust)
  note bounded = assms(1) [unfolded st fst_conv]
  from assms(2) [unfolded st] show ?thesis
  proof (cases rule: kill_step_cases)
    case (cancel r)
    then show ?thesis
      using sales_bounded_quiet [OF bounded] performs_orders [OF ordering.quiet_cancellation] by auto
  next
    case (read v n)
    then show ?thesis
      using sales_bounded_quiet [OF bounded] performs_orders [OF ordering.quiet_count] by auto
  next
    case (unread e)
    then show ?thesis
      using sales_bounded_quiet [OF bounded] performs_orders [OF ordering.quiet_count] by auto
  next
    case (sell v q cid answer)
    have one: "one_order h (kill_intent cid p q) tr' (answer = Some FLAT_UNKNOWN)"
      using sell by (auto intro: flatten_submits)
    show ?thesis
    proof (cases answer)
      case None
      then show ?thesis
        using sell one bounded by (auto intro: sales_bounded_stop)
    next
      case (Some a)
      then show ?thesis
        using sell one sales_bounded_sale [of tr c h "kill_intent cid p q" tr' a] bounded by simp
    qed
  next
    case (nosale e)
    then show ?thesis
      using sales_bounded_sale [of tr c h i "[]" "FLAT_ERROR e"] bounded
      by (simp add: one_order_def flatten_event_def)
  next
    case (wait k r)
    then show ?thesis
      using sales_bounded_quiet [OF bounded, of tr' RETRY_TIMER_ELAPSED] by (cases m) simp_all
  qed (use sales_bounded_two [OF bounded] in simp_all)
qed


subsection \<open>Readings\<close>

text \<open>A trace holds a run of a program that ended with a value.\<close>

definition holds_run :: "'a cb \<Rightarrow> 'a \<Rightarrow> cb_trace \<Rightarrow> bool" where
  "holds_run c a tr \<longleftrightarrow> (\<exists>tr1 tr2 tr3. tr = tr1 @ tr2 @ tr3 \<and> performs c tr2 a)"

definition ends_with_run :: "'a cb \<Rightarrow> 'a \<Rightarrow> cb_trace \<Rightarrow> bool" where
  "ends_with_run c a tr \<longleftrightarrow> (\<exists>tr1 tr2. tr = tr1 @ tr2 \<and> performs c tr2 a)"

lemma holds_run_append: "holds_run c a tr \<Longrightarrow> holds_run c a (tr @ tr')"
  unfolding holds_run_def by (metis append.assoc)

lemma holds_run_after: "holds_run c a tr' \<Longrightarrow> holds_run c a (tr @ tr')"
  unfolding holds_run_def by (metis append.assoc)

lemma ends_holds_run: "ends_with_run c a tr \<Longrightarrow> holds_run c a tr"
  unfolding holds_run_def ends_with_run_def by (metis append_Nil2)

lemma performs_ends_with: "performs c tr' a \<Longrightarrow> ends_with_run c a (tr @ tr')"
  unfolding ends_with_run_def by blast

lemma count_reads_account:
  assumes "performs (accountAndOrderCount h s p) tr (ok (v, n))"
  shows "holds_run (reconcileCoinbaseAccount h s p) (ok v) tr"
proof -
  obtain tr1 a tr2 where "tr = [] @ tr1 @ tr2" "performs (reconcileCoinbaseAccount h s p) tr1 a"
    and rest: "performs (case a of Inl e \<Rightarrow> Done (err e)
      | Inr v \<Rightarrow> follow (listOpenProductOrders h s p) (\<lambda>listed.
          Done (case listed of Inl e \<Rightarrow> err e | Inr found \<Rightarrow> ok (v, length found)))) tr2 (ok (v, n))"
    using assms unfolding accountAndOrderCount_def performs_follow append_Nil by blast
  moreover have "a = ok v"
  proof (cases a)
    case (Inr w)
    obtain listed :: "(string list, workflowError) result" where "ok (v, n) = (case listed of Inl e \<Rightarrow> err e | Inr found \<Rightarrow> ok (w, length found))"
      using rest unfolding Inr sum.case performs_follow_Done by blast
    then show ?thesis
      unfolding Inr by (cases listed) (simp_all add: ok_def err_def)
  qed (use rest in \<open>simp add: ok_def err_def\<close>)
  ultimately show ?thesis
    unfolding holds_run_def by blast
qed

text \<open>A body sells what an account, read in the trace, has available; in a trace every order does so
  with an account read before it.\<close>

definition sells_available :: "cb_host \<Rightarrow> CoinbaseExecutionSettings \<Rightarrow> string \<Rightarrow> cb_trace
    \<Rightarrow> json option \<Rightarrow> bool" where
  "sells_available h s p tr b \<longleftrightarrow>
     (\<exists>v cid sz. holds_run (reconcileCoinbaseAccount h s p) (ok v) tr \<and>
        coinbaseBaseSize h p (ca_availableBaseQuantity v) = Some sz \<and>
        b = Some (order_body (kill_intent cid p (ca_availableBaseQuantity v)) sz None))"

definition sells_read :: "cb_host \<Rightarrow> CoinbaseExecutionSettings \<Rightarrow> string \<Rightarrow> cb_trace \<Rightarrow> bool" where
  "sells_read h s p tr \<longleftrightarrow>
     (\<forall>tr1 x tr2. tr = tr1 @ x # tr2 \<longrightarrow> list_all (\<lambda>(b, r). sells_available h s p tr1 b) (orders [x]))"

lemma sells_available_append:
  "list_all (\<lambda>(b, r). sells_available h s p tr b) xs \<Longrightarrow>
   list_all (\<lambda>(b, r). sells_available h s p (tr @ tr') b) xs"
  unfolding list_all_iff sells_available_def by (blast intro: holds_run_append)

lemma sells_read_append:
  assumes "sells_read h s p tr" and "list_all (\<lambda>(b, r). sells_available h s p tr b) (orders tr')"
  shows "sells_read h s p (tr @ tr')"
  unfolding sells_read_def
proof (intro allI impI)
  fix tr1 x tr2
  assume "tr @ tr' = tr1 @ x # tr2"
  then consider us where "tr = tr1 @ x # us" | us where "tr1 = tr @ us" "tr' = us @ x # tr2"
    by (auto simp: append_eq_append_conv2 append_eq_Cons_conv)
  then show "list_all (\<lambda>(b, r). sells_available h s p tr1 b) (orders [x])"
  proof cases
    case 1
    then show ?thesis
      using assms(1) unfolding sells_read_def by blast
  next
    case 2
    have "orders tr' = orders us @ orders [x] @ orders tr2"
      unfolding 2 by (simp add: orders_def)
    then show ?thesis
      using assms(2) unfolding 2(1) by (simp add: sells_available_append)
  qed
qed

lemma sells_read_quiet: "sells_read h s p tr \<Longrightarrow> orders tr' = [] \<Longrightarrow> sells_read h s p (tr @ tr')"
  by (simp add: sells_read_append)

lemma sells_read_Nil [simp]: "sells_read h s p []"
  by (simp add: sells_read_def)

definition kill_readings :: "cb_host \<Rightarrow> CoinbaseExecutionSettings \<Rightarrow> string \<Rightarrow> number \<Rightarrow> cb_trace
    \<Rightarrow> kill_state \<Rightarrow> bool" where
  "kill_readings h s p increment tr st \<longleftrightarrow>
     (case st of ((m, c), acc) \<Rightarrow>
       sells_read h s p tr \<and>
       (\<forall>v. acc = Some v \<longrightarrow> holds_run (reconcileCoinbaseAccount h s p) (ok v) tr) \<and>
       (m = FlatteningPosition \<longrightarrow>
         (\<exists>v. acc = Some v \<and> flattenQuantity c = Some (ca_availableBaseQuantity v))) \<and>
       (m \<notin> {Idle, CancellingOrders, RetryingCancellation, Failed} \<longrightarrow>
         holds_run (cancelAndConfirmProductOrders h s p) (ok ()) tr) \<and>
       (m = Completed \<longrightarrow>
         (\<exists>v. acc = Some v \<and> ca_totalBaseQuantity v \<le> increment \<and>
            ends_with_run (accountAndOrderCount h s p) (ok (v, 0)) tr)))"

lemma entering:
  "(fst (control_send (st, c) e) = FlatteningPosition \<and> st \<noteq> FlatteningPosition \<longrightarrow>
     (\<exists>i tot available dust n. e = ACCOUNT_RECONCILED i tot available dust n \<and>
        flattenQuantity (snd (control_send (st, c) e)) = Some available)) \<and>
   (fst (control_send (st, c) e) \<notin> {Idle, CancellingOrders, RetryingCancellation, Failed} \<longrightarrow>
     st \<notin> {Idle, CancellingOrders, RetryingCancellation, Failed} \<or> e = ORDERS_CLEARED)"
  by (rule control.send_rule, simp, (cases st; cases e),
      simp_all only: control_rows, (safe elim!: pick_rowE), simp_all add: control_effects accountCanBeFlattened_def)


lemma account_event_parts:
  "account_event increment v n = ACCOUNT_RECONCILED i tot available dust k \<longleftrightarrow>
     i = ca_snapshotId v \<and> tot = ca_totalBaseQuantity v \<and> available = ca_availableBaseQuantity v \<and>
     dust = increment \<and> k = Fin (of_nat n)"
  "account_event increment v n \<noteq> ORDERS_CLEARED"
  by (auto simp: account_event_def)

lemma kill_intent_simps:
  "OrderIntent.productId (kill_intent cid p q) = p" "quantity (kill_intent cid p q) = q"
  by (simp_all add: kill_intent_def)

lemma sells_availableI:
  "holds_run (reconcileCoinbaseAccount h s p) (ok v) tr \<Longrightarrow>
   coinbaseBaseSize h p (ca_availableBaseQuantity v) = Some sz \<Longrightarrow>
   sells_available h s p tr (Some (order_body (kill_intent cid p (ca_availableBaseQuantity v)) sz None))"
  unfolding sells_available_def by blast

text \<open>A step that sells nothing keeps the readings.\<close>

lemma kill_readings_quiet:
  assumes "kill_readings h s p increment tr ((st, c), acc)" and "orders tr' = []"
    and read: "\<And>v. acc' = Some v \<Longrightarrow>
      acc' = acc \<or> holds_run (reconcileCoinbaseAccount h s p) (ok v) (tr @ tr')"
    and cleared: "e = ORDERS_CLEARED \<Longrightarrow> performs (cancelAndConfirmProductOrders h s p) tr' (ok ())"
    and event: "\<And>i tot available dust k. e = ACCOUNT_RECONCILED i tot available dust k \<Longrightarrow>
      (\<exists>v n. acc' = Some v \<and> e = account_event increment v n \<and>
         performs (accountAndOrderCount h s p) tr' (ok (v, n)))"
    and st: "st \<notin> {FlatteningPosition, Completed}"
  shows "kill_readings h s p increment (tr @ tr') (control_send (st, c) e, acc')"
proof -
  obtain m' c' where m': "control_send (st, c) e = (m', c')"
    by (metis prod.exhaust)
  have "sells_read h s p (tr @ tr')"
    using assms(1,2) by (simp add: kill_readings_def sells_read_quiet)
  moreover have "holds_run (reconcileCoinbaseAccount h s p) (ok v) (tr @ tr')" if "acc' = Some v" for v
    using read [OF that] that assms(1) by (auto simp: kill_readings_def intro: holds_run_append)
  moreover have "\<exists>v. acc' = Some v \<and> flattenQuantity c' = Some (ca_availableBaseQuantity v)"
    if sale: "m' = FlatteningPosition"
  proof -
    obtain i tot available dust k where e: "e = ACCOUNT_RECONCILED i tot available dust k"
      and q: "flattenQuantity c' = Some available"
      using entering [of st c e] sale st by (auto simp: m')
    from event [OF e] q show ?thesis
      by (auto simp: e account_event_parts dest!: sym [of "ACCOUNT_RECONCILED i tot available dust k"])
  qed
  moreover have "holds_run (cancelAndConfirmProductOrders h s p) (ok ()) (tr @ tr')"
    if "m' \<notin> {Idle, CancellingOrders, RetryingCancellation, Failed}"
  proof (cases "e = ORDERS_CLEARED")
    case True
    show ?thesis
      using cleared [OF True] by (rule ends_holds_run [OF performs_ends_with])
  next
    case False
    then show ?thesis
      using entering [of st c e] that assms(1) by (auto simp: m' kill_readings_def intro: holds_run_append)
  qed
  moreover have "\<exists>v. acc' = Some v \<and> ca_totalBaseQuantity v \<le> increment \<and>
      ends_with_run (accountAndOrderCount h s p) (ok (v, 0)) (tr @ tr')" if complete: "m' = Completed"
  proof -
    obtain i tot available dust k where e: "e = ACCOUNT_RECONCILED i tot available dust k"
      and flat: "num_eq k (Fin 0)" "tot \<le> dust"
      using completing_send [of st c e] complete st by (auto simp: m' completing_def)
    from event [OF e] obtain v n where "acc' = Some v" "e = account_event increment v n"
      "performs (accountAndOrderCount h s p) tr' (ok (v, n))"
      by blast
    moreover from this flat e have "n = 0" "ca_totalBaseQuantity v \<le> increment"
      by (auto simp: account_event_def)
    ultimately show ?thesis
      by (auto intro: performs_ends_with)
  qed
  ultimately show ?thesis
    by (simp add: kill_readings_def m')
qed


text \<open>A sale sells what the last reading had available.\<close>

lemma kill_readings_sale:
  assumes "kill_readings h s p increment tr ((FlatteningPosition, c), acc)"
    and one: "one_order h (kill_intent cid p q) tr' B" and "flattenQuantity c = Some q"
  shows "sells_read h s p (tr @ tr')"
    "kill_readings h s p increment (tr @ tr') (control_send (FlatteningPosition, c) (flatten_event a), acc)"
proof -
  obtain v where v: "acc = Some v" "q = ca_availableBaseQuantity v"
    "holds_run (reconcileCoinbaseAccount h s p) (ok v) tr"
    using assms(1,3) by (auto simp: kill_readings_def)
  then have "list_all (\<lambda>(b, r). sells_available h s p tr b) (orders tr')"
    using one by (auto simp: one_order_def kill_intent_simps intro: sells_availableI)
  then show all: "sells_read h s p (tr @ tr')"
    using assms(1) by (intro sells_read_append) (simp_all add: kill_readings_def)
  obtain m' c' where m': "control_send (FlatteningPosition, c) (flatten_event a) = (m', c')"
    by (metis prod.exhaust)
  have "m' \<noteq> Completed"
    using completing_send [of FlatteningPosition c "flatten_event a"]
    by (auto simp: m' completing_def)
  moreover have "m' \<noteq> FlatteningPosition"
    using flatten_event_leaves(1) [of c a] by (simp add: m')
  moreover have "holds_run (cancelAndConfirmProductOrders h s p) (ok ()) (tr @ tr')"
    using assms(1) by (simp add: kill_readings_def holds_run_append)
  ultimately show "kill_readings h s p increment (tr @ tr')
      (control_send (FlatteningPosition, c) (flatten_event a), acc)"
    using all v by (simp add: kill_readings_def m' holds_run_append)
qed

text \<open>What a kill has done when it ends.\<close>

definition kill_told :: "cb_host \<Rightarrow> CoinbaseExecutionSettings \<Rightarrow> string \<Rightarrow> number \<Rightarrow> cb_trace
    \<Rightarrow> kill_result \<Rightarrow> bool" where
  "kill_told h s p increment tr r \<longleftrightarrow>
     sells_read h s p tr \<and>
     (\<forall>v. r = Some (ok v) \<longrightarrow>
       holds_run (cancelAndConfirmProductOrders h s p) (ok ()) tr \<and>
       ends_with_run (accountAndOrderCount h s p) (ok (v, 0)) tr \<and>
       ca_totalBaseQuantity v \<le> increment)"

lemma kill_readings_step:
  assumes "kill_readings h s p increment tr st"
    and "performs (kill_step control_send h s p increment st) tr' x"
  shows "case x of Inl r \<Rightarrow> kill_told h s p increment (tr @ tr') r
    | Inr st' \<Rightarrow> kill_readings h s p increment (tr @ tr') st'"
proof -
  obtain m c acc where st: "st = ((m, c), acc)"
    by (metis prod.exhaust)
  note readings = assms(1) [unfolded st]
  from assms(2) [unfolded st] show ?thesis
  proof (cases rule: kill_step_cases)
    case (cancel r)
    have "kill_readings h s p increment (tr @ tr') (control_send (m, c)
        (case r of Inl e \<Rightarrow> LiveAccountControlEvent.OPERATION_FAILED e | Inr _ \<Rightarrow> ORDERS_CLEARED), acc)"
      by (rule kill_readings_quiet [OF readings])
         (use cancel performs_orders [OF ordering.quiet_cancellation] in
            \<open>auto simp: ok_def split: sum.splits\<close>)
    then show ?thesis
      using cancel by simp
  next
    case (read v n)
    have "kill_readings h s p increment (tr @ tr')
        (control_send (m, c) (account_event increment v n), Some v)"
      by (rule kill_readings_quiet [OF readings])
         (use read performs_orders [OF ordering.quiet_count] holds_run_after [OF count_reads_account] in
            \<open>auto simp: account_event_parts intro: performs_ends_with\<close>)
    then show ?thesis
      using read by simp
  next
    case (unread e)
    have "kill_readings h s p increment (tr @ tr')
        (control_send (m, c) (LiveAccountControlEvent.OPERATION_FAILED e), acc)"
      by (rule kill_readings_quiet [OF readings])
         (use unread performs_orders [OF ordering.quiet_count] in auto)
    then show ?thesis
      using unread by simp
  next
    case (sell v q cid answer)
    note one = flatten_submits [OF sell(4)]
    show ?thesis
      using kill_readings_sale [OF readings [unfolded sell(1)] one sell(3)] sell
      by (auto simp: kill_told_def split: option.split)
  next
    case (nosale e)
    have "kill_readings h s p increment (tr @ [])
        (control_send (FlatteningPosition, c) (flatten_event (FLAT_ERROR e)), acc)"
    proof -
      obtain q where "flattenQuantity c = Some q"
        using readings nosale by (auto simp: kill_readings_def)
      then show ?thesis
        using kill_readings_sale(2) [OF readings [unfolded nosale(1)], where tr' = "[]" and q = q and B = True]
        by (simp add: one_order_def)
    qed
    then show ?thesis
      using nosale by (simp add: flatten_event_def)
  next
    case (wait k r)
    have "kill_readings h s p increment (tr @ tr') (control_send (m, c) RETRY_TIMER_ELAPSED, acc)"
      by (rule kill_readings_quiet [OF readings]) (use wait in \<open>cases m; auto\<close>)+
    then show ?thesis
      using wait by simp
  next
    case completed
    then show ?thesis
      using readings by (auto simp: kill_told_def kill_readings_def)
  next
    case (failed e)
    then show ?thesis
      using readings by (auto simp: kill_told_def kill_readings_def ok_def err_def)
  qed
qed


subsection \<open>Waits\<close>

definition waits :: "cb_trace \<Rightarrow> number list" where
  "waits tr = concat (map (\<lambda>(q, r). case q of WaitFor ms \<Rightarrow> [ms] | _ \<Rightarrow> []) tr)"

lemma waits_simps [simp]:
  "waits [] = []" "waits (tr @ tr') = waits tr @ waits tr'"
  "waits ((q, r) # tr) = (case q of WaitFor ms \<Rightarrow> [ms] | _ \<Rightarrow> []) @ waits tr"
  by (simp_all add: waits_def)

lemma waits_none: "asks_none is_wait tr \<Longrightarrow> waits tr = []"
  by (induction tr) (auto simp: is_wait_def split: cb_question.splits)

lemma performs_waits: "quiet is_wait p \<Longrightarrow> performs p tr a \<Longrightarrow> waits tr = []"
  by (auto intro: waits_none quiet_performs)

lemma fetch_waits: "(\<And>x. quiet is_wait (k x)) \<Longrightarrow> quiet is_wait (fetch rq k)"
  by (auto simp: fetch_def is_wait_def)

lemma send_order_waits: "quiet is_wait (send_order h i token protection)"
  by (auto simp: send_order_def intro!: fetch_waits split: option.split)

lemma submit_waits: "quiet is_wait (submitCoinbaseOrder h s i a protection)"
  by (auto simp: submitCoinbaseOrder_def intro!: send_order_waits
      split: option.split OrderSide.split sum.split)

lemma flatten_waits: "quiet is_wait (flattenReconciledPosition h s p cid q w)"
  by (auto simp: flattenReconciledPosition_def read_flatten_def lookup_flatten_def intro!: submit_waits
      split: sum.split option.split OrderSubmission.split order_lookup.split)

definition retries :: "LiveAccountControlContext \<Rightarrow> nat" where
  "retries c = cancellation (attempts c) + controlCounts.reconciliation (attempts c) +
     verification (attempts c)"

definition waits_counted :: "nat \<Rightarrow> control_snapshot \<Rightarrow> bool" where
  "waits_counted n m \<longleftrightarrow>
     fst m \<noteq> Idle \<and> retryLimits (snd m) = DEFAULT_RETRY_LIMITS \<and>
     cancellation (attempts (snd m)) \<le> 3 \<and> controlCounts.reconciliation (attempts (snd m)) \<le> 4 \<and>
     verification (attempts (snd m)) \<le> 4 \<and>
     n + (if waits_for m = None then 0 else 1) \<le> retries (snd m) \<and>
     (\<forall>k. waits_for m = Some k \<longrightarrow> 1 \<le> k)"

lemma waits_counted_send:
  "waits_counted n (st, c) \<Longrightarrow> waits_for (st, c) = None \<Longrightarrow> waits_counted n (control_send (st, c) e)"
  by (rule control.send_rule, simp, (cases st; cases e),
      simp_all only: control_rows, (safe elim!: pick_rowE),
      simp_all add: control_effects control_guards waits_counted_def retries_def DEFAULT_RETRY_LIMITS_def
        below_Fin split: if_splits)

lemma waits_counted_timer:
  "waits_counted n (st, c) \<Longrightarrow> waits_for (st, c) = Some k \<Longrightarrow>
    k \<in> {1, 2, 3, 4} \<and> waits_counted (Suc n) (control_send (st, c) RETRY_TIMER_ELAPSED)"
  by (cases st) (auto simp: waits_counted_def retries_def kill_eval)

definition paced :: "cb_trace \<Rightarrow> bool" where
  "paced tr \<longleftrightarrow> length (waits tr) \<le> 11 \<and> set (waits tr) \<subseteq> {Fin 1000, Fin 2000, Fin 4000, Fin 8000}"

definition kill_paced :: "cb_trace \<Rightarrow> kill_state \<Rightarrow> bool" where
  "kill_paced tr st \<longleftrightarrow>
     waits_counted (length (waits tr)) (fst st) \<and>
     set (waits tr) \<subseteq> {Fin 1000, Fin 2000, Fin 4000, Fin 8000}"

lemma kill_paced_le: "kill_paced tr st \<Longrightarrow> paced tr"
  by (auto simp: kill_paced_def paced_def waits_counted_def retries_def split: if_splits)

lemma retry_delays:
  "k \<in> {1, 2, 3, 4} \<Longrightarrow> retryDelayMs k \<in> {Fin 1000, Fin 2000, Fin 4000, Fin 8000}"
  by (auto simp: retryDelayMs_def js_min_def)


lemma kill_paced_step:
  assumes "kill_paced tr st" and "performs (kill_step control_send h s p increment st) tr' x"
  shows "case x of Inl r \<Rightarrow> paced (tr @ tr') | Inr st' \<Rightarrow> kill_paced (tr @ tr') st'"
proof -
  obtain m c acc where st: "st = ((m, c), acc)"
    by (metis prod.exhaust)
  note counted = assms(1) [unfolded st]
  have send: "kill_paced (tr @ tr') (control_send (m, c) e, acc')"
    if "waits_for (m, c) = None" "waits tr' = []" for e acc'
    using waits_counted_send [of "length (waits tr)" m c e] counted that by (simp add: kill_paced_def)
  from assms(2) [unfolded st] show ?thesis
  proof (cases rule: kill_step_cases)
    case (sell v q cid answer)
    then have "waits tr' = []"
      by (blast intro: performs_waits flatten_waits)
    then show ?thesis
      using sell send kill_paced_le [OF counted] by (auto simp: paced_def split: option.split)
  next
    case (wait k r)
    have "k \<in> {1, 2, 3, 4}" "waits_counted (Suc (length (waits tr))) (control_send (m, c) RETRY_TIMER_ELAPSED)"
      using waits_counted_timer [of "length (waits tr)" m c k] counted wait by (auto simp: kill_paced_def)
    then show ?thesis
      using wait counted retry_delays [of k] by (simp add: kill_paced_def)
  qed (use send kill_paced_le [OF counted] performs_waits [OF waiting.quiet_cancellation]
        performs_waits [OF waiting.quiet_count] in \<open>auto simp: paced_def\<close>)
qed

subsection \<open>Runs\<close>

abbreviation kill_start :: "string \<Rightarrow> string \<Rightarrow> controlPermissions \<Rightarrow> control_snapshot" where
  "kill_start p prefix ps \<equiv>
     control_send (sc_start liveAccountControlMachine (control_context (control_limits None)))
       (KILL_REQUESTED p prefix ps)"

lemma kill_request:
  "fst (kill_start p prefix ps) \<in> {CancellingOrders, Failed}"
  "retryLimits (snd (kill_start p prefix ps)) = DEFAULT_RETRY_LIMITS"
  "attempts (snd (kill_start p prefix ps)) = emptyAttempts"
  "control_ok (kill_start p prefix ps)"
  using control_ok_send [of Idle "control_context (control_limits None)" "KILL_REQUESTED p prefix ps"]
    control_ok_start [of "control_limits None"]
  by (simp_all add: control.boot) (simp_all add: kill_eval control_limits_def)

lemma kill_cases:
  assumes "xstate_runtime liveAccountControlMachine init send"
    and "performs (executeCoinbaseKill init send h s p ps prefix) tr r"
  obtains (unknown) "tr = []" "r = Some (err invalidAnswer)"
  | (run) increment where "baseIncrement p = Some increment"
      "performs (kill_loop MAX_CONTROL_STEPS control_send h s p increment
        (kill_start p prefix ps, None)) tr r"
  using assms(2) unfolding executeCoinbaseKill_def control_runtime [OF assms(1)]
  by (cases "baseIncrement p") simp_all

lemma kill_run_told:
  assumes "performs (kill_loop n control_send h s p increment (kill_start p prefix ps, None)) tr r"
  shows "kill_told h s p increment tr r"
proof -
  have "kill_readings h s p increment [] (kill_start p prefix ps, None)"
    using kill_request(1) [of p prefix ps] by (auto simp: kill_readings_def split: prod.split)
  moreover have "kill_told h s p increment tr (Some (err e))"
    if "kill_readings h s p increment tr st" for tr st e
    using that by (auto simp: kill_told_def kill_readings_def ok_def err_def)
  ultimately show ?thesis
    using kill_loop_invariant [OF assms, of "kill_readings h s p increment" "[]"
      "kill_told h s p increment"] kill_readings_step by simp
qed


text \<open>What every kill leaves behind.\<close>

lemma kill_two_sales:
  assumes "xstate_runtime liveAccountControlMachine init send"
    and "performs (executeCoinbaseKill init send h s p ps prefix) tr r"
  shows "two_sales tr \<and> sells_read h s p tr"
  using assms
proof (cases rule: kill_cases)
  case (run increment)
  have "sales_bounded [] (kill_start p prefix ps)"
    using kill_request [of p prefix ps]
    by (auto simp: sales_bounded_def reached_def emptyAttempts_def)
  then have "two_sales tr"
    using kill_loop_invariant [OF run(2), of "\<lambda>tr st. sales_bounded tr (fst st)" "[]" "\<lambda>tr r. two_sales tr"]
      sales_bounded_step sales_bounded_two by simp
  then show ?thesis
    using kill_run_told [OF run(2)] by (simp add: kill_told_def)
qed (simp add: two_sales_def)

lemma kill_success:
  assumes "xstate_runtime liveAccountControlMachine init send"
    and "performs (executeCoinbaseKill init send h s p ps prefix) tr (Some (ok v))"
  obtains increment where "baseIncrement p = Some increment" "ca_totalBaseQuantity v \<le> increment"
    "holds_run (cancelAndConfirmProductOrders h s p) (ok ()) tr"
    "ends_with_run (accountAndOrderCount h s p) (ok (v, 0)) tr"
  using assms
proof (cases rule: kill_cases)
  case (run increment)
  then show ?thesis
    using kill_run_told [OF run(2)] that by (simp add: kill_told_def)
qed (simp add: ok_def err_def)

lemma kill_reads:
  assumes "xstate_runtime liveAccountControlMachine init send"
    and "performs (executeCoinbaseKill init send h s p ps prefix) tr (Some (ok v))"
  shows "holds_run (reconcileCoinbaseAccount h s p) (ok v) tr"
proof -
  obtain tr1 tr2 where "tr = tr1 @ tr2" "performs (accountAndOrderCount h s p) tr2 (ok (v, 0))"
    by (rule kill_success [OF assms]) (auto simp: ends_with_run_def)
  then show ?thesis
    by (simp add: count_reads_account holds_run_after)
qed

end
