(* ===== verification/CoinbaseKillCorrect.thy ===== *)
theory CoinbaseKillCorrect
  imports CoinbaseKillProps
begin

text \<open>
  The kill at the exchange: it ends flat, sells at most twice and what it has read, and waits a
  bounded time.  The run that shows the hypotheses satisfiable lists the orders in vain, waits, and
  then finds the account flat.
\<close>

subsection \<open>A run\<close>

definition demo_host :: cb_host where
  "demo_host =
     \<lparr>parseUrl = (\<lambda>_. Some \<lparr>url_protocol = ''https:'', url_host = ''api'', url_username = [],
        url_password = [], url_search = [], url_hash = [], url_pathname = ''/''\<rparr>),
      toNumber = (\<lambda>t. if t = ''8'' then Fin 8 else Fin 100), numberText = (\<lambda>_. ''1''),
      parseDate = (\<lambda>_. Fin 1)\<rparr>"

definition demo_settings :: CoinbaseExecutionSettings where
  "demo_settings =
     \<lparr>apiBaseUrl = ''https://api'', apiKeyId = ''k'', privateKeyPem = ''s'', portfolioId = ''f''\<rparr>"

definition demo_orders :: json where
  "demo_orders = JObj [(''orders'', JArr []), (''has_next'', JBool False), (''cursor'', JStr [])]"

definition demo_account :: json where
  "demo_account = JObj [(''breakdown'', JObj
     [(''portfolio'', JObj [(''uuid'', JStr ''f''), (''deleted'', JBool False)]),
      (''portfolio_balances'', JObj [(''total_balance'',
         JObj [(''value'', JStr ''100''), (''currency'', JStr ''USD'')])]),
      (''spot_positions'', JArr [])])]"

definition demo_get :: "string \<Rightarrow> (string \<times> string) list \<Rightarrow> http_response \<Rightarrow> cb_trace" where
  "demo_get path query response =
     [(ReadClock, Time (Fin 1000)), (SignJwt GET ''api'' path (Fin 1), Token (Some ''t'')),
      (Fetch \<lparr>rq_method = GET, rq_path = path, rq_query = query, rq_token = ''t'', rq_body = None\<rparr>,
       Reply response)]"

lemma demo_target [simp]: "requestTarget demo_host demo_settings = Some ''api''"
  by (simp add: requestTarget_def demo_host_def)

lemma demo_authorization:
  "take 1 path = ''/'' \<Longrightarrow> CHR ''?'' \<notin> set path \<Longrightarrow> CHR ''#'' \<notin> set path \<Longrightarrow>
   performs (authorization_at demo_host demo_settings m path ''api'' (Fin 1000))
     [(SignJwt m ''api'' path (Fin 1), Token (Some ''t''))]
     (ok \<lparr>issuedAt = Fin 1000, expiresAt = Fin 121000,
          credential = Some \<lparr>cred_token = ''t'', cred_method = m, cred_host = ''api'', cred_path = path\<rparr>\<rparr>)"
  by (simp add: authorization_at_def createCoinbaseJwt_def sign_jwt_def performs_follow_Done
      demo_settings_def non_blank_iff js_space_def isSafeInteger_def JWT_TTL_SECONDS_def performs_follow)

lemma demo_fetch:
  assumes "take 1 path = ''/''" "CHR ''?'' \<notin> set path" "CHR ''#'' \<notin> set path"
  shows "performs (authorizedFetch demo_host demo_settings GET path query None)
     (demo_get path query (Response 200 (Some j))) (ok (200, Some j))"
    "performs (authorizedFetch demo_host demo_settings GET path query None)
     (demo_get path query NoResponse) (err (reconciliationError NetworkUnavailable True))"
  by (simp_all add: authorizedFetch_def read_clock_def demo_get_def credentialToken_def fetch_def
      performs_follow_Cons [OF demo_authorization [OF assms]] ok_def)

lemma demo_listing:
  "performs (listOpenProductOrders demo_host demo_settings p)
     (demo_get COINBASE_LIST_ORDERS_PATH (list_query p None) (Response 200 (Some demo_orders))) (ok [])"
  "performs (listOpenProductOrders demo_host demo_settings p)
     (demo_get COINBASE_LIST_ORDERS_PATH (list_query p None) NoResponse)
     (err (reconciliationError NetworkUnavailable True))"
proof -
  have path: "take 1 COINBASE_LIST_ORDERS_PATH = ''/''" "CHR ''?'' \<notin> set COINBASE_LIST_ORDERS_PATH"
    "CHR ''#'' \<notin> set COINBASE_LIST_ORDERS_PATH"
    by (simp_all add: COINBASE_LIST_ORDERS_PATH_def)
  have pages: "MAX_ORDER_PAGES = Suc 19"
    by (simp add: MAX_ORDER_PAGES_def)
  show "performs (listOpenProductOrders demo_host demo_settings p)
     (demo_get COINBASE_LIST_ORDERS_PATH (list_query p None) (Response 200 (Some demo_orders))) (ok [])"
    unfolding listOpenProductOrders_def pages list_pages.simps
    by (subst append_Nil2 [symmetric], rule performs_followI [OF demo_fetch(1) [OF path]])
       (simp add: ok_def read_page_def status_ok_def listOrdersSchema_def demo_orders_def array_field_def
         bool_field_def string_field_def first_occurrences_def)
  show "performs (listOpenProductOrders demo_host demo_settings p)
     (demo_get COINBASE_LIST_ORDERS_PATH (list_query p None) NoResponse)
     (err (reconciliationError NetworkUnavailable True))"
    unfolding listOpenProductOrders_def pages list_pages.simps
    by (subst append_Nil2 [symmetric], rule performs_followI [OF demo_fetch(2) [OF path]])
       (simp add: err_def)
qed

definition demo_snapshot :: CoinbaseAccountSnapshot where
  "demo_snapshot =
     \<lparr>ca_snapshotId = ''coinbase:f:1'', ca_observedAt = Fin 1000, ca_portfolioId = ''f'',
      ca_portfolio = \<lparr>cash = Fin 0, positionQuantity = Fin 0, averagePrice = Fin 0\<rparr>,
      ca_accountEquity = Fin 100, ca_targetExposureNotional = Fin 0, ca_otherExposureNotional = Fin 100,
      ca_availableBaseQuantity = Fin 0, ca_totalBaseQuantity = Fin 0\<rparr>"

lemma demo_account_read:
  "performs (reconcileCoinbaseAccount demo_host demo_settings ''GRT-USD'')
     (demo_get ''/api/v3/brokerage/portfolios/f'' [] (Response 200 (Some demo_account))) (ok demo_snapshot)"
proof -
  let ?path = "''/api/v3/brokerage/portfolios/f''"
  have path: "coinbasePortfolioPath (portfolioId demo_settings) = Some ?path"
    by (simp add: coinbasePortfolioPath_def demo_settings_def non_blank_iff js_space_def encodeURIComponent_def
        uri_plain_def)
  have currencies: "productCurrencies ''GRT-USD'' = Some (''GRT'', ''USD'')"
    by (simp add: productCurrencies_def)
  have tol: "\<not> Fin 100 < - ACCOUNT_COMPONENT_TOLERANCE_USD"
    using fl_nonneg [of "1 / 100"] unfolding ACCOUNT_COMPONENT_TOLERANCE_USD_def
    by (cases "fl (1 / 100)") simp_all
  have "\<not> fl x < Fin 0" if "0 \<le> x" for x
    using fl_nonneg [OF that] by (cases "fl x") simp_all
  then have eps: "\<not> Fin 0 + EPSILON * Fin 8 < Fin 0"
    using fl_frac [of 1 49] by (simp add: EPSILON_def)
  have "read_snapshot demo_host demo_settings ''GRT'' ''USD'' (Fin 1000) (Some demo_account) = ok demo_snapshot"
    by (simp add: read_snapshot_def portfolioBreakdownSchema_def demo_account_def moneySchema_def text_field_def
        string_field_def bool_field_def array_field_def demo_settings_def parseNonNegative_def demo_host_def
        isFinite_def amount_of_def average_of_def demo_snapshot_def Let_def tol eps js_max_def minus_number_def)
  then show ?thesis
    by (simp add: reconcileCoinbaseAccount_def currencies path read_clock_def demo_get_def credentialToken_def
        fetch_def performs_follow_Cons [OF demo_authorization] ok_def get_request_def status_ok_def)
qed


lemma demo_counted:
  "performs (accountAndOrderCount demo_host demo_settings ''GRT-USD'')
     (demo_get ''/api/v3/brokerage/portfolios/f'' [] (Response 200 (Some demo_account)) @
      demo_get COINBASE_LIST_ORDERS_PATH (list_query ''GRT-USD'' None) (Response 200 (Some demo_orders)))
     (ok (demo_snapshot, 0))"
  unfolding accountAndOrderCount_def
  by (rule performs_followI [OF demo_account_read])
     (use demo_listing(1) [of "''GRT-USD''"] in \<open>auto simp: ok_def performs_follow_Done\<close>)

lemma demo_cancelled:
  "performs (cancelAndConfirmProductOrders demo_host demo_settings p)
     (demo_get COINBASE_LIST_ORDERS_PATH (list_query p None) (Response 200 (Some demo_orders))) (ok ())"
  "performs (cancelAndConfirmProductOrders demo_host demo_settings p)
     (demo_get COINBASE_LIST_ORDERS_PATH (list_query p None) NoResponse)
     (err (as_cancellation (reconciliationError NetworkUnavailable True)))"
  unfolding cancelAndConfirmProductOrders_def
  by (subst append_Nil2 [symmetric], rule performs_followI [OF demo_listing(1)],
      simp add: ok_def cancel_and_confirm_def)
     (subst append_Nil2 [symmetric], rule performs_followI [OF demo_listing(2)],
      simp add: err_def)

text \<open>The listing fails once, then the account turns out to be flat.\<close>

definition demo_kill_trace :: cb_trace where
  "demo_kill_trace =
     demo_get COINBASE_LIST_ORDERS_PATH (list_query ''GRT-USD'' None) NoResponse @
     [(WaitFor (Fin 1000), Elapsed)] @
     demo_get COINBASE_LIST_ORDERS_PATH (list_query ''GRT-USD'' None) (Response 200 (Some demo_orders)) @
     demo_get ''/api/v3/brokerage/portfolios/f'' [] (Response 200 (Some demo_account)) @
     demo_get COINBASE_LIST_ORDERS_PATH (list_query ''GRT-USD'' None) (Response 200 (Some demo_orders))"

abbreviation demo_permissions :: controlPermissions where
  "demo_permissions \<equiv> \<lparr>canControl = True, canTrade = False\<rparr>"

lemma demo_kill:
  "performs (executeCoinbaseKill (sc_start liveAccountControlMachine) control_send demo_host demo_settings
     ''GRT-USD'' demo_permissions ''kill'') demo_kill_trace (Some (ok demo_snapshot))"
proof -
  define increment where "increment = fl (1 / 100)"
  obtain e where increment: "increment = Fin e" "0 < e"
    using fl_ge_representable [OF representable_frac [of 1 7], of "1 / 100"]
      fl_le_representable [of 1 "1 / 100"]
    by (cases increment) (auto simp: increment_def)
  let ?step = "kill_step control_send demo_host demo_settings ''GRT-USD'' increment"
  let ?m0 = "kill_start ''GRT-USD'' ''kill'' demo_permissions"
  let ?m1 = "control_send ?m0 (LiveAccountControlEvent.OPERATION_FAILED
     (as_cancellation (reconciliationError NetworkUnavailable True)))"
  let ?m2 = "control_send ?m1 RETRY_TIMER_ELAPSED"
  let ?m3 = "control_send ?m2 ORDERS_CLEARED"
  let ?m4 = "control_send ?m3 (account_event increment demo_snapshot 0)"
  note eval = kill_eval control_limits_def as_cancellation_def reconciliationError_def mkError_def below_Fin
  have m: "fst ?m0 = CancellingOrders" "waits_for ?m1 = Some 1" "fst ?m1 = RetryingCancellation" "fst ?m2 = CancellingOrders"
    "fst ?m3 = ReconcilingPosition"
    by (simp_all add: eval)
  have m4: "fst ?m4 = Completed"
    using increment by (simp add: eval account_event_def demo_snapshot_def fl_nonneg)
  have step1: "performs (?step (?m0, None))
      (demo_get COINBASE_LIST_ORDERS_PATH (list_query ''GRT-USD'' None) NoResponse) (Inr (?m1, None))"
    using m(1) by (simp add: kill_step_def performs_follow_Done)
       (rule exI, rule conjI, rule demo_cancelled(2), simp add: err_def)
  have step2: "performs (?step (?m1, None))
      [(WaitFor (Fin 1000), Elapsed)] (Inr (?m2, None))"
    using m(2,3) retry_delays [of 1] by (cases ?m1) (simp add: kill_step_def kill_wait_def wait_for_def retryDelayMs_def js_min_def)
  have step3: "performs (?step (?m2, None))
      (demo_get COINBASE_LIST_ORDERS_PATH (list_query ''GRT-USD'' None) (Response 200 (Some demo_orders))) (Inr (?m3, None))"
    using m(4) by (simp add: kill_step_def performs_follow_Done)
       (rule exI, rule conjI, rule demo_cancelled(1), simp add: ok_def)
  have step4: "performs (?step (?m3, None))
      (demo_get ''/api/v3/brokerage/portfolios/f'' [] (Response 200 (Some demo_account)) @
       demo_get COINBASE_LIST_ORDERS_PATH (list_query ''GRT-USD'' None) (Response 200 (Some demo_orders)))
      (Inr (?m4, Some demo_snapshot))"
    using m(5) by (simp add: kill_step_def kill_reconcile_def performs_follow_Done Let_def)
       (rule exI, rule conjI, rule demo_counted, simp add: ok_def)
  have step5: "performs (?step (?m4, Some demo_snapshot))
      [] (Inl (Some (ok demo_snapshot)))"
    using m4 by (simp add: kill_step_def)
  have steps: "MAX_CONTROL_STEPS = Suc (Suc (Suc (Suc (Suc 59))))"
    and known: "baseIncrement ''GRT-USD'' = Some increment"
    by (simp_all add: MAX_CONTROL_STEPS_def baseIncrement_def increment_def)
  note on = repeat_next [where step = ?step] and last = repeat_end [where step = ?step]
  show ?thesis
    unfolding executeCoinbaseKill_def kill_loop_def known option.case steps demo_kill_trace_def
    by (rule on [OF step1 on [OF step2 on [OF step3
          on [OF step4 last [OF step5], simplified append_assoc append_Nil2]]]])
qed

lemmas demo_trace_simps =
  demo_kill_trace_def demo_get_def is_order_def COINBASE_LIST_ORDERS_PATH_def COINBASE_CREATE_ORDER_PATH_def

subsection \<open>Properties\<close>

text \<open>C6: a kill that succeeds has cancelled the open orders of the product and had their absence
  confirmed, and its last requests read the account and list the open orders: there is none, and
  the position is at most one increment.\<close>

theorem kill_ends_flat:
  assumes "xstate_runtime liveAccountControlMachine init send"
    and "performs (executeCoinbaseKill init send h s p ps prefix) tr (Some (ok v))"
  shows "holds_run (cancelAndConfirmProductOrders h s p) (ok ()) tr \<and>
    ends_with_run (accountAndOrderCount h s p) (ok (v, 0)) tr \<and>
    (\<exists>increment. baseIncrement p = Some increment \<and> ca_totalBaseQuantity v \<le> increment)"
  by (rule kill_success [OF assms]) blast

theorem kill_ends_flat_witness:
  "ends_with_run (accountAndOrderCount demo_host demo_settings ''GRT-USD'') (ok (demo_snapshot, 0))
     demo_kill_trace \<and> ca_totalBaseQuantity demo_snapshot = Fin 0"
  using kill_ends_flat [OF control.runtime_sc demo_kill] by (simp add: demo_snapshot_def)

text \<open>C7: a kill submits at most two orders; each sells, at the market, what an account it has read
  before has available, and an order whose answer is lost is the last one.\<close>

theorem kill_sells_at_most_twice:
  assumes "xstate_runtime liveAccountControlMachine init send"
    and "performs (executeCoinbaseKill init send h s p ps prefix) tr r"
  shows "length (orders tr) \<le> 2 \<and>
    sells_read h s p tr \<and>
    list_all (\<lambda>(b, a). \<not> lost_answer a) (butlast (orders tr))"
  using kill_two_sales [OF assms] by (simp add: two_sales_def)

theorem kill_sells_at_most_twice_witness:
  "length (orders demo_kill_trace) \<le> 2 \<and> length demo_kill_trace = 13"
  using kill_sells_at_most_twice [OF control.runtime_sc demo_kill] by (simp add: demo_trace_simps)

text \<open>A kill waits at most eleven times, for one, two, four or eight seconds.\<close>

theorem kill_waits_are_bounded:
  assumes "xstate_runtime liveAccountControlMachine init send"
    and "performs (executeCoinbaseKill init send h s p ps prefix) tr r"
  shows "length (waits tr) \<le> 11 \<and> set (waits tr) \<subseteq> {Fin 1000, Fin 2000, Fin 4000, Fin 8000}"
  using assms
proof (cases rule: kill_cases)
  case (run increment)
  have "kill_paced [] (kill_start p prefix ps, None)"
    using kill_request [of p prefix ps]
    by (cases "kill_start p prefix ps")
       (auto simp: kill_paced_def waits_counted_def retries_def emptyAttempts_def)
  then have "paced tr"
    using kill_loop_invariant [OF run(2), of kill_paced "[]" "\<lambda>tr r. paced tr"]
      kill_paced_step kill_paced_le by simp
  then show ?thesis
    by (simp add: paced_def)
qed simp

theorem kill_waits_are_bounded_witness:
  "waits demo_kill_trace = [Fin 1000] \<and> set (waits demo_kill_trace) \<subseteq> {Fin 1000, Fin 2000, Fin 4000, Fin 8000}"
  using kill_waits_are_bounded [OF control.runtime_sc demo_kill] by (simp add: demo_trace_simps)

end
