(* ===== verification/CoinbaseSellProps.thy ===== *)
theory CoinbaseSellProps
  imports CoinbaseSell CoinbaseKillCorrect
begin

text \<open>
  What a protected sale does at the exchange: the orders it submits, what a confirmed result has
  read, the checkpoints it saves, and why the limit of its loop is never reached.
\<close>

subsection \<open>Steps\<close>

text \<open>The events a state of the sale waits for.\<close>

fun expected :: "sellState \<Rightarrow> LiveSellProtectionEvent \<Rightarrow> bool" where
  "expected sellState.CancellingProtections e \<longleftrightarrow>
     (case e of PROTECTIONS_CLEARED \<Rightarrow> True | LiveSellProtectionEvent.OPERATION_FAILED _ \<Rightarrow> True | _ \<Rightarrow> False)"
| "expected sellState.ReconcilingBeforeSell e \<longleftrightarrow>
     (case e of LiveSellProtectionEvent.ACCOUNT_RECONCILED _ _ _ _ _ \<Rightarrow> True
      | LiveSellProtectionEvent.OPERATION_FAILED _ \<Rightarrow> True | _ \<Rightarrow> False)"
| "expected sellState.ReconcilingResidual e \<longleftrightarrow>
     (case e of LiveSellProtectionEvent.ACCOUNT_RECONCILED _ _ _ _ _ \<Rightarrow> True
      | LiveSellProtectionEvent.OPERATION_FAILED _ \<Rightarrow> True | _ \<Rightarrow> False)"
| "expected sellState.SubmittingSell e \<longleftrightarrow>
     (case e of SELL_CONFIRMED _ \<Rightarrow> True | SELL_OUTCOME_UNKNOWN _ \<Rightarrow> True | SELL_REJECTED _ \<Rightarrow> True
      | LiveSellProtectionEvent.OPERATION_FAILED _ \<Rightarrow> True | _ \<Rightarrow> False)"
| "expected sellState.ReconcilingSell e \<longleftrightarrow>
     (case e of SELL_CONFIRMED _ \<Rightarrow> True | SELL_REJECTED _ \<Rightarrow> True
      | LiveSellProtectionEvent.OPERATION_FAILED _ \<Rightarrow> True | _ \<Rightarrow> False)"
| "expected sellState.ArmingResidual e \<longleftrightarrow>
     (case e of PROTECTION_ACKNOWLEDGED _ \<Rightarrow> True | LiveSellProtectionEvent.OPERATION_FAILED _ \<Rightarrow> True
      | _ \<Rightarrow> False)"
| "expected sellState.ConfirmingResidualProtection e \<longleftrightarrow>
     (case e of PROTECTION_CONFIRMED \<Rightarrow> True | LiveSellProtectionEvent.OPERATION_FAILED _ \<Rightarrow> True
      | _ \<Rightarrow> False)"
| "expected sellState.SafetyFlattening e \<longleftrightarrow>
     (case e of SAFETY_FLATTEN_SUCCEEDED \<Rightarrow> True | SAFETY_FLATTEN_FAILED _ \<Rightarrow> True | _ \<Rightarrow> False)"
| "expected _ e \<longleftrightarrow> False"

lemma expected_progress:
  "expected st e \<Longrightarrow> sell_rank (fst (sell_send (st, c) e)) < sell_rank st"
proof -
  assume "expected st e"
  then have "fst (sell_send (st, c) e) \<noteq> st"
    by (cases st; cases e) (simp_all add: sell.send_eval sell_row_defs row_effect_def)
  then have "sell_send (st, c) e \<noteq> (st, c)"
    by auto
  then show ?thesis
    using sell_rank_send [of st c e] by blast
qed

text \<open>Every outcome of a step that goes on sends an expected event.\<close>

definition steps_to :: "sell_actors \<Rightarrow> sell_vars \<Rightarrow> sell_outcome \<Rightarrow> bool" where
  "steps_to A v x \<longleftrightarrow>
     (case x of Inl r \<Rightarrow> True
      | Inr v' \<Rightarrow> (\<exists>e. expected (fst (sv_machine v)) e \<and> sv_machine v' = sell_next A (sv_machine v) e))"

lemma advance_steps:
  "expected (fst (sv_machine v)) e \<Longrightarrow> sv_machine w = sv_machine v \<Longrightarrow> steps_to A v (advance A w e)"
  by (auto simp: steps_to_def advance_def)

lemma steps_to_end: "steps_to A v (Inl r)"
  by (simp add: steps_to_def)

lemma advance_parts:
  "advance A v e \<noteq> Inl r"
  "advance A v e = Inr v' \<longleftrightarrow> v' = v\<lparr>sv_machine := sell_next A (sv_machine v) e\<rparr>"
  by (auto simp: advance_def)

definition moves :: "sell_actors \<Rightarrow> sell_vars \<Rightarrow> sell_outcome cb \<Rightarrow> bool" where
  "moves A v c \<longleftrightarrow> assures c (\<lambda>tr. steps_to A v)"

lemma moves_Done [intro!]: "steps_to A v x \<Longrightarrow> moves A v (Done x)"
  by (simp add: moves_def)

lemma moves_follow [intro!]: "(\<And>a. moves A v (f a)) \<Longrightarrow> moves A v (follow c f)"
  unfolding moves_def assures_follow by (simp add: assures_def)

lemma moves_Ask [intro!]: "(\<And>r. moves A v (k r)) \<Longrightarrow> moves A v (Ask q k)"
  by (simp add: moves_def)

lemma sell_step_moves: "moves A v (sell_step A h j v)"
proof (cases "fst (sv_machine v)")
  case CancellingProtections
  then show ?thesis
    by (auto simp: sell_step_def sell_clear_def intro!: advance_steps split: sum.split)
next
  case ReconcilingBeforeSell
  then show ?thesis
    by (auto simp: sell_step_def sell_reconcile_def sell_account_event_def intro!: advance_steps split: sum.split)
next
  case ReconcilingResidual
  then show ?thesis
    by (auto simp: sell_step_def sell_reconcile_def sell_account_event_def intro!: advance_steps split: sum.split)
next
  case SubmittingSell
  then show ?thesis
    by (auto simp: sell_step_def sell_submit_def intro!: advance_steps split: sum.split OrderSubmission.split)
next
  case ReconcilingSell
  then have lookup: "moves A v (lookup_sale A h j v account oid)" for account oid
    by (auto simp: lookup_sale_def intro!: advance_steps steps_to_end
        split: option.split sum.split order_lookup.split)
  show ?thesis
    using ReconcilingSell
    by (auto simp: sell_step_def sell_resolve_def intro!: advance_steps lookup
        split: option.split sum.split OrderSubmission.split)
next
  case ArmingResidual
  then show ?thesis
    by (auto simp: sell_step_def sell_arm_def Let_def intro!: advance_steps split: option.split sum.split)
next
  case ConfirmingResidualProtection
  then show ?thesis
    by (auto simp: sell_step_def sell_confirm_def Let_def intro!: advance_steps split: option.split sum.split)
next
  case SafetyFlattening
  then show ?thesis
    by (auto simp: sell_step_def sell_flatten_def intro!: advance_steps steps_to_end
        split: option.split sum.split)
qed (auto simp: sell_step_def Let_def intro!: steps_to_end)


lemma sell_checkpointed_moves: "moves A v (sell_checkpointed persistent A h j v)"
proof -
  have "moves A v (case f of Some e \<Rightarrow> Done (Inl (g e)) | None \<Rightarrow> sell_step A h j v)" for f g
    by (cases f) (auto intro!: sell_step_moves steps_to_end)
  then show ?thesis
    by (auto simp: sell_checkpointed_def save_checkpoint_def intro!: sell_step_moves)
qed

lemma performs_moves: "performs c tr x \<Longrightarrow> moves A v c \<Longrightarrow> steps_to A v x"
  unfolding moves_def assures_def by blast

lemma sell_step_descends:
  assumes "sell_next A = sell_send" and "performs (sell_checkpointed persistent A h j v) tr (Inr v')"
  shows "sell_rank (fst (sv_machine v')) < sell_rank (fst (sv_machine v))"
proof -
  obtain e where "expected (fst (sv_machine v)) e" "sv_machine v' = sell_send (sv_machine v) e"
    using performs_moves [OF assms(2) sell_checkpointed_moves] by (auto simp: steps_to_def assms(1))
  then show ?thesis
    using expected_progress [of "fst (sv_machine v)" e "snd (sv_machine v)"] by simp
qed


subsection \<open>Outcomes of a step\<close>

definition job_product :: "sell_job \<Rightarrow> string" where
  "job_product j = OrderIntent.productId (job_intent j)"

text \<open>The exchange confirmed an order under the identifiers of the intent.\<close>

definition looked_up :: "cb_host \<Rightarrow> sell_job \<Rightarrow> ConfirmedOrderSubmission \<Rightarrow> cb_trace \<Rightarrow> bool" where
  "looked_up h j x tr \<longleftrightarrow>
     (\<exists>oid a w. holds_run (getCoinbaseOrder h (job_settings j) (job_intent j) oid a w False)
        (ok (LOOKUP_CONFIRMED x)) tr)"

lemma looked_up_append: "looked_up h j x tr \<Longrightarrow> looked_up h j x (tr @ tr')"
  "looked_up h j x tr \<Longrightarrow> looked_up h j x (tr' @ tr)"
  unfolding looked_up_def by (blast intro: holds_run_append holds_run_after)+

definition looks_up :: "sell_actors \<Rightarrow> cb_host \<Rightarrow> sell_job \<Rightarrow> sell_vars \<Rightarrow> string \<Rightarrow> cb_trace
    \<Rightarrow> sell_outcome \<Rightarrow> bool" where
  "looks_up A h j v oid tr x \<longleftrightarrow>
     orders tr = [] \<and>
     (x = Inl None \<or>
      (\<exists>e. x = advance A v (LiveSellProtectionEvent.OPERATION_FAILED e)) \<or>
      (\<exists>e. x = advance A v (SELL_REJECTED e)) \<or>
      (\<exists>y. x = advance A (v\<lparr>sv_submission := Some y\<rparr>) (SELL_CONFIRMED oid) \<and> looked_up h j y tr))"

lemma lookup_sale_performs:
  assumes "performs (lookup_sale A h j v account oid) tr x"
  shows "looks_up A h j v oid tr x"
proof (cases "coinbaseOrderPath oid")
  case None
  then show ?thesis
    using assms by (simp add: lookup_sale_def looks_up_def)
next
  case (Some path)
  let ?s = "job_settings j" and ?i = "job_intent j"
  from assms Some obtain tr1 authorized tr2 where tr: "tr = tr1 @ tr2"
    and "performs (createCoinbaseAuthorization h ?s GET path) tr1 authorized"
    and rest: "performs (case authorized of
        Inl e \<Rightarrow> Done (advance A v (LiveSellProtectionEvent.OPERATION_FAILED e))
      | Inr a \<Rightarrow> follow (getCoinbaseOrder h ?s ?i oid a (ca_portfolio account) False) (\<lambda>reconciled.
          Done (case reconciled of
            Inl e \<Rightarrow> advance A v (LiveSellProtectionEvent.OPERATION_FAILED e)
          | Inr (LOOKUP_CONFIRMED y) \<Rightarrow> advance A (v\<lparr>sv_submission := Some y\<rparr>) (SELL_CONFIRMED oid)
          | Inr (LOOKUP_REJECTED e) \<Rightarrow> advance A v (SELL_REJECTED e)))) tr2 x"
    unfolding lookup_sale_def by (auto simp: performs_follow)
  then have none: "orders tr1 = []"
    by (blast intro: performs_orders)
  show ?thesis
  proof (cases authorized)
    case (Inr a)
    from rest [unfolded Inr sum.case performs_follow_Done] obtain reconciled where
      got: "performs (getCoinbaseOrder h ?s ?i oid a (ca_portfolio account) False) tr2 reconciled"
      and x: "x = (case reconciled of
            Inl e \<Rightarrow> advance A v (LiveSellProtectionEvent.OPERATION_FAILED e)
          | Inr (LOOKUP_CONFIRMED y) \<Rightarrow> advance A (v\<lparr>sv_submission := Some y\<rparr>) (SELL_CONFIRMED oid)
          | Inr (LOOKUP_REJECTED e) \<Rightarrow> advance A v (SELL_REJECTED e))"
      by blast
    have "orders tr2 = []"
      using got by (blast intro: performs_orders)
    moreover have "looked_up h j y tr" if "reconciled = Inr (LOOKUP_CONFIRMED y)" for y
      unfolding looked_up_def tr using got that
      by (auto simp: ok_def intro!: ends_holds_run performs_ends_with)
    ultimately show ?thesis
      using none x by (auto simp: looks_up_def tr split: sum.splits order_lookup.splits)
  qed (use none rest in \<open>auto simp: looks_up_def tr\<close>)
qed

text \<open>The outcome of a submission as an event.\<close>

definition submission_event :: "OrderSubmission \<Rightarrow> LiveSellProtectionEvent" where
  "submission_event y =
     (case y of
        UNKNOWN oid e \<Rightarrow> SELL_OUTCOME_UNKNOWN oid
      | SUBMISSION_REJECTED e \<Rightarrow> SELL_REJECTED e
      | _ \<Rightarrow> LiveSellProtectionEvent.OPERATION_FAILED (executionError InvalidResponse False))"

lemma read_submission_kinds:
  "(\<exists>oid e. read_submission i r = UNKNOWN oid e) \<or> (\<exists>e. read_submission i r = SUBMISSION_REJECTED e)"
proof -
  have "(\<exists>oid e. read_acknowledgement i b = UNKNOWN oid e) \<or> (\<exists>e. read_acknowledgement i b = SUBMISSION_REJECTED e)"
    for b
    by (simp add: read_acknowledgement_def split: option.split create_order_response.split)
  then show ?thesis
    by (cases r) (simp_all add: read_submission_def)
qed

lemma submitted_kinds:
  "submitted_as h i tr x \<Longrightarrow> (\<exists>oid e. x = UNKNOWN oid e) \<or> (\<exists>e. x = SUBMISSION_REJECTED e)"
  using read_submission_kinds by (auto simp: submitted_as_def)

lemma submit_sale_performs:
  assumes "performs (submit_sale h j) tr y"
  shows "(\<exists>e. y = Inl e \<and> orders tr = []) \<or> (\<exists>x. y = Inr x \<and> submitted_as h (job_intent j) tr x)"
proof -
  from assms obtain tr1 authorized tr2 where tr: "tr = tr1 @ tr2"
    and "performs (createCoinbaseAuthorization h (job_settings j) POST COINBASE_CREATE_ORDER_PATH) tr1 authorized"
    and rest: "performs (case authorized of Inl e \<Rightarrow> Done (err e)
      | Inr a \<Rightarrow> follow (submitCoinbaseOrder h (job_settings j) (job_intent j) a None)
          (\<lambda>submitted. Done (ok submitted))) tr2 y"
    unfolding submit_sale_def performs_follow by blast
  then have none: "orders tr1 = []"
    by (blast intro: performs_orders)
  show ?thesis
  proof (cases authorized)
    case (Inr a)
    then obtain x where "performs (submitCoinbaseOrder h (job_settings j) (job_intent j) a None) tr2 x"
      "y = ok x"
      using rest by (auto simp: performs_follow_Done)
    then show ?thesis
      using none by (auto simp: tr ok_def intro: submitted_as_more performs_submit)
  qed (use none rest in \<open>auto simp: tr err_def\<close>)
qed


text \<open>At most one order, the bracket of a residual.\<close>

definition one_bracket :: "string \<Rightarrow> string \<Rightarrow> cb_trace \<Rightarrow> bool" where
  "one_bracket p cid tr \<longleftrightarrow>
     orders tr = [] \<or> (\<exists>sz f r. orders tr = [(Some (bracket_body cid p sz f), r)])"

definition brackets :: "string \<Rightarrow> string \<Rightarrow> 'a cb \<Rightarrow> bool" where
  "brackets p cid c \<longleftrightarrow> assures c (\<lambda>tr a. one_bracket p cid tr)"

lemma brackets_Done [intro!]: "brackets p cid (Done a)"
  by (simp add: brackets_def one_bracket_def)

lemma brackets_quiet [intro]:
  assumes "quiet is_order c" and "\<And>a. brackets p cid (f a)"
  shows "brackets p cid (follow c f)"
  unfolding brackets_def
proof (rule assures_then [OF quiet_orders [OF assms(1)]])
  show "assures (f a) (\<lambda>tr' b. one_bracket p cid (tr @ tr'))" if "orders tr = []" for tr a
    using that
    by (intro assures_mono [OF assms(2) [unfolded brackets_def]]) (simp add: one_bracket_def)
qed

lemma brackets_clock [intro!]: "(\<And>t. brackets p cid (k t)) \<Longrightarrow> brackets p cid (read_clock k)"
  unfolding brackets_def read_clock_def assures_Ask
  by (intro allI, rule assures_mono, assumption) (simp add: one_bracket_def)

lemma brackets_send [intro!]:
  "brackets p cid (fetch (post_request path token (bracket_body cid p sz f)) (\<lambda>r. Done (g r)))"
  by (auto simp: brackets_def fetch_def one_bracket_def post_request_def)

lemma protection_performs:
  "performs (submitCoinbaseProtectionOrder h s p cid q plan) tr x \<Longrightarrow> one_bracket p cid tr"
proof -
  have "brackets p cid (submitCoinbaseProtectionOrder h s p cid q plan)"
    by (auto simp: submitCoinbaseProtectionOrder_def intro!: brackets_quiet split: option.split sum.split)
  then show "performs (submitCoinbaseProtectionOrder h s p cid q plan) tr x \<Longrightarrow> one_bracket p cid tr"
    by (auto simp: brackets_def assures_def)
qed

abbreviation failure :: "workflowError \<Rightarrow> LiveSellProtectionEvent" where
  "failure \<equiv> LiveSellProtectionEvent.OPERATION_FAILED"

text \<open>A second submission, made only without an order identifier, and what follows it.\<close>

definition replays :: "sell_actors \<Rightarrow> cb_host \<Rightarrow> sell_job \<Rightarrow> sell_vars \<Rightarrow> cb_trace \<Rightarrow> sell_outcome \<Rightarrow> bool" where
  "replays A h j v tr x \<longleftrightarrow>
     (\<exists>tr1 y tr2. tr = tr1 @ tr2 \<and> submitted_as h (job_intent j) tr1 y \<and>
        (tr2 = [] \<and> ((\<exists>e. x = advance A v (SELL_REJECTED e)) \<or> (\<exists>e. x = advance A v (failure e))) \<or>
         (\<exists>oid. looks_up A h j v oid tr2 x)))"

lemma sell_resolve_performs:
  assumes "performs (sell_resolve A h j v) tr x"
  shows "(\<exists>e. orders tr = [] \<and> x = advance A v (failure e)) \<or>
    (\<exists>oid. LiveSellProtectionContext.exchangeOrderId (snd (sv_machine v)) = Some oid \<and>
       looks_up A h j v oid tr x) \<or>
    (LiveSellProtectionContext.exchangeOrderId (snd (sv_machine v)) = None \<and> replays A h j v tr x)"
proof (cases "sv_account v")
  case None
  then show ?thesis
    using assms by (auto simp: sell_resolve_def)
next
  case (Some account)
  show ?thesis
  proof (cases "LiveSellProtectionContext.exchangeOrderId (snd (sv_machine v))")
    case None
    from assms [unfolded sell_resolve_def Some option.case None] obtain tr1 replayed tr2
      where tr: "tr = tr1 @ tr2" and y: "performs (submit_sale h j) tr1 replayed"
      and rest: "performs (case replayed of
         Inl e \<Rightarrow> Done (advance A v (failure e))
       | Inr (CONFIRMED oid w f prot _ _ _) \<Rightarrow>
           Done (advance A (v\<lparr>sv_submission := Some (confirmed_submission oid w f prot)\<rparr>)
             (SELL_CONFIRMED oid))
       | Inr (SUBMISSION_REJECTED e) \<Rightarrow> Done (advance A v (SELL_REJECTED e))
       | Inr (UNKNOWN (Some oid) _) \<Rightarrow> lookup_sale A h j v account oid
       | Inr _ \<Rightarrow> Done (advance A v (failure (reconciliationError OrderOutcomeUnknownCode False)))) tr2 x"
      unfolding performs_follow by blast
    from submit_sale_performs [OF y] show ?thesis
    proof (elim disjE exE conjE)
      fix z
      assume "replayed = Inr z" and z: "submitted_as h (job_intent j) tr1 z"
      then have "tr2 = [] \<and> ((\<exists>e. x = advance A v (SELL_REJECTED e)) \<or> (\<exists>e. x = advance A v (failure e))) \<or>
         (\<exists>oid. looks_up A h j v oid tr2 x)"
        using rest submitted_kinds [OF z]
        by (auto split: option.splits dest!: lookup_sale_performs)
      then show ?thesis
        unfolding replays_def tr using None z by blast
    qed (use rest in \<open>auto simp: tr\<close>)
  qed (use assms Some in \<open>auto simp: sell_resolve_def dest: lookup_sale_performs\<close>)
qed


lemma sell_reconcile_cases:
  assumes "performs (sell_reconcile A h j v) tr x"
  obtains e where "orders tr = []" "x = advance A v (failure e)"
  | a where "performs (reconcileCoinbaseAccount h (job_settings j) (job_product j)) tr (ok a)"
      "x = advance A (v\<lparr>sv_account := Some a\<rparr>) (sell_account_event (job_increment j) a)"
proof -
  obtain r where r: "performs (reconcileCoinbaseAccount h (job_settings j) (job_product j)) tr r"
    and x: "x = (case r of
       Inl e \<Rightarrow> advance A v (failure e)
     | Inr a \<Rightarrow> advance A (v\<lparr>sv_account := Some a\<rparr>) (sell_account_event (job_increment j) a))"
    using assms unfolding sell_reconcile_def performs_follow_Done job_product_def by blast
  show ?thesis
    using that r x performs_orders [OF ordering.quiet_account r] by (cases r) (auto simp: ok_def)
qed

lemma sell_arm_cases:
  assumes "performs (sell_arm A h j v) tr x"
  obtains e where "orders tr = []" "x = advance A v (failure e)"
  | plan e where "one_bracket (job_product j)
         (residualProtectionClientOrderId (OrderIntent.clientOrderId (job_intent j))) tr"
      "x = advance A (v\<lparr>sv_plan := Some plan\<rparr>) e" "expected sellState.ArmingResidual e"
proof (cases "LiveSellProtectionContext.totalBaseQuantity (snd (sv_machine v))")
  case (Some q)
  show ?thesis
  proof (cases "averageEntryPrice (snd (sv_machine v))")
    case (Some entry)
    show ?thesis
    proof (cases "entry \<le> Fin 0")
      case True
      then show ?thesis
        using assms Some \<open>LiveSellProtectionContext.totalBaseQuantity (snd (sv_machine v)) = Some q\<close> that
        by (simp add: sell_arm_def)
    next
      case False
      let ?plan = "residual_plan (job_policy j) entry"
      obtain r where r: "performs (submitCoinbaseProtectionOrder h (job_settings j) (job_product j)
            (residualProtectionClientOrderId (OrderIntent.clientOrderId (job_intent j))) q ?plan) tr r"
        and x: "x = advance A (v\<lparr>sv_plan := Some ?plan\<rparr>)
          (case r of Inl e \<Rightarrow> failure e | Inr oid \<Rightarrow> PROTECTION_ACKNOWLEDGED oid)"
        using assms Some \<open>LiveSellProtectionContext.totalBaseQuantity (snd (sv_machine v)) = Some q\<close> False
        by (auto simp: sell_arm_def Let_def performs_follow_Done job_product_def)
      show ?thesis
        using protection_performs [OF r] x by (rule that(2)) (simp split: sum.split)
    qed
  qed (use assms that Some in \<open>simp add: sell_arm_def\<close>)
qed (use assms that in \<open>simp add: sell_arm_def\<close>)

lemma sell_confirm_cases:
  assumes "performs (sell_confirm A h j v) tr x"
  obtains e where "orders tr = []" "x = advance A v (failure e)"
  | oid plan q where "LiveSellProtectionContext.protectiveOrderId (snd (sv_machine v)) = Some oid"
      "performs (confirmCoinbaseProtectiveOrder h (job_settings j) (job_product j) oid plan (Some q)) tr (ok ())"
      "x = advance A v PROTECTION_CONFIRMED"
proof (cases "\<exists>oid q plan. LiveSellProtectionContext.protectiveOrderId (snd (sv_machine v)) = Some oid \<and>
    LiveSellProtectionContext.totalBaseQuantity (snd (sv_machine v)) = Some q \<and> sv_plan v = Some plan")
  case True
  then obtain oid q plan where some: "LiveSellProtectionContext.protectiveOrderId (snd (sv_machine v)) = Some oid"
    "LiveSellProtectionContext.totalBaseQuantity (snd (sv_machine v)) = Some q" "sv_plan v = Some plan"
    by blast
  obtain r where r: "performs (confirmCoinbaseProtectiveOrder h (job_settings j) (job_product j) oid plan (Some q)) tr r"
    and x: "x = advance A v (case r of Inl e \<Rightarrow> failure e | Inr _ \<Rightarrow> PROTECTION_CONFIRMED)"
    using assms some by (auto simp: sell_confirm_def performs_follow_Done job_product_def)
  show ?thesis
    using that r x some performs_orders [OF ordering.quiet_confirm r] by (cases r) (auto simp: ok_def)
next
  case False
  then have "tr = [] \<and> x = advance A v (failure invalidAnswer)"
    using assms by (auto simp: sell_confirm_def Let_def split: option.splits)
  then show ?thesis
    using that by simp
qed

lemma sell_submit_cases:
  assumes "performs (sell_submit A h j v) tr x"
  obtains e where "orders tr = []" "x = advance A v (failure e)"
  | y where "submitted_as h (job_intent j) tr y" "x = advance A v (submission_event y)"
proof -
  obtain y where y: "performs (submit_sale h j) tr y"
    and x: "x = (case y of
         Inl e \<Rightarrow> advance A v (failure e)
       | Inr (CONFIRMED oid w f prot _ _ _) \<Rightarrow>
           advance A (v\<lparr>sv_submission := Some (confirmed_submission oid w f prot)\<rparr>) (SELL_CONFIRMED oid)
       | Inr (UNKNOWN oid _) \<Rightarrow> advance A v (SELL_OUTCOME_UNKNOWN oid)
       | Inr (SUBMISSION_REJECTED e) \<Rightarrow> advance A v (SELL_REJECTED e)
       | Inr other \<Rightarrow> advance A v (failure
           (case submission_error other of
              None \<Rightarrow> executionError InvalidResponse False | Some e \<Rightarrow> e)))"
    using assms unfolding sell_submit_def performs_follow_Done by blast
  from submit_sale_performs [OF y] show ?thesis
  proof (elim disjE exE conjE)
    fix z
    assume "y = Inr z" and z: "submitted_as h (job_intent j) tr z"
    then show ?thesis
      using submitted_kinds [OF z] x
      by (intro that(2) [OF z]) (auto simp: submission_event_def)
  qed (use x that in simp)
qed

text \<open>What one step does, state by state.\<close>

lemma sell_step_cases:
  assumes "performs (sell_step A h j v) tr x" and m: "sv_machine v = (st, c)"
  obtains
    (failed) e where "expected st (failure e)" "st \<noteq> sellState.SubmittingSell" "orders tr = []" "x = advance A v (failure e)"
  | (cleared) "st = sellState.CancellingProtections" "orders tr = []" "x = advance A v PROTECTIONS_CLEARED"
  | (read) a where "st = sellState.ReconcilingBeforeSell \<or> st = sellState.ReconcilingResidual"
      "performs (reconcileCoinbaseAccount h (job_settings j) (job_product j)) tr (ok a)"
      "x = advance A (v\<lparr>sv_account := Some a\<rparr>) (sell_account_event (job_increment j) a)"
  | (unsent) e where "st = sellState.SubmittingSell" "orders tr = []" "x = advance A v (failure e)"
  | (sent) y where "st = sellState.SubmittingSell" "submitted_as h (job_intent j) tr y"
      "x = advance A v (submission_event y)"
  | (lookup) oid where "st = sellState.ReconcilingSell" "LiveSellProtectionContext.exchangeOrderId c = Some oid"
      "looks_up A h j v oid tr x"
  | (replay) "st = sellState.ReconcilingSell" "LiveSellProtectionContext.exchangeOrderId c = None"
      "replays A h j v tr x"
  | (armed) plan e where "st = sellState.ArmingResidual"
      "one_bracket (job_product j)
         (residualProtectionClientOrderId (OrderIntent.clientOrderId (job_intent j))) tr"
      "x = advance A (v\<lparr>sv_plan := Some plan\<rparr>) e" "expected sellState.ArmingResidual e"
  | (confirmed) oid plan q where "st = sellState.ConfirmingResidualProtection"
      "LiveSellProtectionContext.protectiveOrderId c = Some oid"
      "performs (confirmCoinbaseProtectiveOrder h (job_settings j) (job_product j) oid plan (Some q)) tr (ok ())"
      "x = advance A v PROTECTION_CONFIRMED"
  | (killed) r where "st = sellState.SafetyFlattening"
      "performs (executeCoinbaseKill (control_init A) (control_next A) h (job_settings j) (job_product j)
         (job_permissions j) (''sell-safety-'' @ OrderIntent.clientOrderId (job_intent j))) tr r"
      "x = (case r of
         None \<Rightarrow> Inl None
       | Some (Inr a) \<Rightarrow> advance A (v\<lparr>sv_account := Some a\<rparr>) SAFETY_FLATTEN_SUCCEEDED
       | Some (Inl e) \<Rightarrow> advance A v (SAFETY_FLATTEN_FAILED e))"
  | (ended) r where "tr = []" "x = Inl (Some r)" "st = sellState.Completed \<Longrightarrow> r = sell_completed v"
      "st \<noteq> sellState.Completed \<Longrightarrow>
        (\<forall>oid w f prot eq oth t. r \<noteq> CONFIRMED oid w f prot eq oth t)"
proof (cases st)
  case CancellingProtections
  with assms obtain r where "performs (clearCoinbaseOwnedProtections h (job_settings j)
      (OrderIntent.productId (job_intent j)) (job_known j)) tr r"
    "x = advance A v (case r of Inl e \<Rightarrow> failure e | Inr _ \<Rightarrow> PROTECTIONS_CLEARED)"
    by (auto simp: sell_step_def sell_clear_def performs_follow_Done)
  then show ?thesis
    using CancellingProtections performs_orders [OF ordering.quiet_clear]
    by (cases r) (auto intro: failed cleared)
next
  case SubmittingSell
  then have "performs (sell_submit A h j v) tr x"
    using assms by (simp add: sell_step_def)
  then show ?thesis
    by (rule sell_submit_cases) (use SubmittingSell in \<open>auto intro: unsent sent\<close>)
next
  case ReconcilingSell
  then have "performs (sell_resolve A h j v) tr x"
    using assms by (simp add: sell_step_def)
  then show ?thesis
    using sell_resolve_performs [of A h j v tr x] ReconcilingSell m
    by (auto intro: failed lookup replay)
next
  case SafetyFlattening
  with assms show ?thesis
    by (auto simp: sell_step_def sell_flatten_def performs_follow_Done job_product_def intro: killed)
next
  case ReconcilingBeforeSell
  then have "performs (sell_reconcile A h j v) tr x"
    using assms by (simp add: sell_step_def)
  then show ?thesis
    by (rule sell_reconcile_cases) (use ReconcilingBeforeSell in \<open>auto intro: read failed\<close>)
next
  case ReconcilingResidual
  then have "performs (sell_reconcile A h j v) tr x"
    using assms by (simp add: sell_step_def)
  then show ?thesis
    by (rule sell_reconcile_cases) (use ReconcilingResidual in \<open>auto intro: read failed\<close>)
next
  case ArmingResidual
  then have "performs (sell_arm A h j v) tr x"
    using assms by (simp add: sell_step_def)
  then show ?thesis
    by (rule sell_arm_cases) (use ArmingResidual in \<open>auto intro: armed failed\<close>)
next
  case ConfirmingResidualProtection
  then have "performs (sell_confirm A h j v) tr x"
    using assms by (simp add: sell_step_def)
  then show ?thesis
    by (rule sell_confirm_cases) (use ConfirmingResidualProtection m in \<open>auto intro: confirmed failed\<close>)
qed (use assms in \<open>simp_all add: sell_step_def ended sell_safely_completed_def split: option.split\<close>)


subsection \<open>What is known\<close>

text \<open>The machines of a sale.\<close>

definition sell_runtime_ok :: "sell_actors \<Rightarrow> bool" where
  "sell_runtime_ok A \<longleftrightarrow>
     xstate_runtime liveSellProtectionMachine (sell_init A) (sell_next A) \<and>
     xstate_runtime liveAccountControlMachine (control_init A) (control_next A)"

lemma sell_runtime_next: "sell_runtime_ok A \<Longrightarrow> sell_next A = sell_send"
  by (auto simp: sell_runtime_ok_def dest: sell_runtime(2))

lemma sell_completes:
  "fst (sell_send (st, c) e) = sellState.Completed \<longrightarrow> st \<noteq> sellState.Completed \<longrightarrow>
     (case e of
        LiveSellProtectionEvent.ACCOUNT_RECONCILED i tot available px dust \<Rightarrow>
          outcome (snd (sell_send (st, c) e)) \<noteq> LiveSellProtectionOutcome.NO_SELL_NEEDED \<longrightarrow> tot \<le> dust
      | PROTECTION_CONFIRMED \<Rightarrow>
          LiveSellProtectionContext.protectiveOrderId (snd (sell_send (st, c) e)) =
          LiveSellProtectionContext.protectiveOrderId c
      | _ \<Rightarrow> False)"
  by (rule sell.send_rule, simp, (cases st; cases e),
      simp_all only: sell_rows, (safe elim!: pick_rowE),
      simp_all add: sell_effects LiveSellProtection.accountIsFlat_def)

text \<open>The residual is at most one increment, or its protection was confirmed.\<close>

definition residual_safe :: "cb_host \<Rightarrow> sell_job \<Rightarrow> cb_trace \<Rightarrow> sell_vars \<Rightarrow> bool" where
  "residual_safe h j tr v \<longleftrightarrow>
     (\<exists>a. sv_account v = Some a \<and> ca_totalBaseQuantity a \<le> job_increment j) \<or>
     (\<exists>oid plan q. LiveSellProtectionContext.protectiveOrderId (snd (sv_machine v)) = Some oid \<and>
        holds_run (confirmCoinbaseProtectiveOrder h (job_settings j) (job_product j) oid plan (Some q))
          (ok ()) tr)"

definition sell_known :: "cb_host \<Rightarrow> sell_job \<Rightarrow> cb_trace \<Rightarrow> sell_vars \<Rightarrow> bool" where
  "sell_known h j tr v \<longleftrightarrow>
     (\<forall>a. sv_account v = Some a \<longrightarrow>
        holds_run (reconcileCoinbaseAccount h (job_settings j) (job_product j)) (ok a) tr) \<and>
     (\<forall>x. sv_submission v = Some x \<longrightarrow> looked_up h j x tr) \<and>
     (fst (sv_machine v) = sellState.Completed \<longrightarrow>
        outcome (snd (sv_machine v)) \<noteq> LiveSellProtectionOutcome.NO_SELL_NEEDED \<longrightarrow> residual_safe h j tr v)"

text \<open>An event that does not complete the sale keeps what is known.\<close>

lemma sell_known_advance:
  assumes A: "sell_next A = sell_send" and "sell_known h j tr v" and m: "sv_machine v = (st, c)"
    and st: "st \<noteq> sellState.Completed" and w: "sv_machine w = (st, c)"
    and account: "sv_account w = sv_account v \<or>
      (\<exists>a. sv_account w = Some a \<and>
         holds_run (reconcileCoinbaseAccount h (job_settings j) (job_product j)) (ok a) (tr @ tr'))"
    and submission: "sv_submission w = sv_submission v \<or>
      (\<exists>x. sv_submission w = Some x \<and> looked_up h j x (tr @ tr'))"
    and read: "\<And>i tot available px dust. e = LiveSellProtectionEvent.ACCOUNT_RECONCILED i tot available px dust \<Longrightarrow>
      (\<exists>a. sv_account w = Some a \<and> e = sell_account_event (job_increment j) a)"
    and confirmed: "e = PROTECTION_CONFIRMED \<Longrightarrow>
      (\<exists>oid plan q. LiveSellProtectionContext.protectiveOrderId c = Some oid \<and>
        performs (confirmCoinbaseProtectiveOrder h (job_settings j) (job_product j) oid plan (Some q)) tr' (ok ()))"
    and x: "advance A w e = Inr v'"
  shows "sell_known h j (tr @ tr') v'"
proof -
  have v': "v' = w\<lparr>sv_machine := sell_send (st, c) e\<rparr>"
    using x by (simp add: advance_parts A w)
  have "holds_run (reconcileCoinbaseAccount h (job_settings j) (job_product j)) (ok a) (tr @ tr')"
    if "sv_account w = Some a" for a
    using assms(2) account that by (auto simp: sell_known_def intro: holds_run_append)
  moreover have "looked_up h j y (tr @ tr')" if "sv_submission w = Some y" for y
    using assms(2) submission that by (auto simp: sell_known_def intro: looked_up_append)
  moreover have "residual_safe h j (tr @ tr') v'"
    if complete: "fst (sell_send (st, c) e) = sellState.Completed"
      "outcome (snd (sell_send (st, c) e)) \<noteq> LiveSellProtectionOutcome.NO_SELL_NEEDED"
  proof (cases "e = PROTECTION_CONFIRMED")
    case True
    then have "LiveSellProtectionContext.protectiveOrderId (snd (sv_machine v')) =
        LiveSellProtectionContext.protectiveOrderId c"
      using sell_completes [of st c e] complete st by (simp add: v')
    moreover obtain oid plan q where "LiveSellProtectionContext.protectiveOrderId c = Some oid"
      and "performs (confirmCoinbaseProtectiveOrder h (job_settings j) (job_product j) oid plan (Some q)) tr' (ok ())"
      using confirmed [OF True] by blast
    ultimately show ?thesis
      unfolding residual_safe_def by (metis ends_holds_run performs_ends_with)
  next
    case False
    then obtain i tot available px dust
      where e: "e = LiveSellProtectionEvent.ACCOUNT_RECONCILED i tot available px dust" and "tot \<le> dust"
      using sell_completes [of st c e] complete st by (cases e) auto
    from read [OF e] this show ?thesis
      by (auto simp: residual_safe_def v' sell_account_event_def)
  qed
  ultimately show ?thesis
    by (simp add: sell_known_def v')
qed

lemma sell_known_step:
  assumes A: "sell_runtime_ok A" and known: "sell_known h j tr v" and "performs (sell_step A h j v) tr' (Inr v')"
  shows "sell_known h j (tr @ tr') v'"
proof -
  obtain st c where m: "sv_machine v = (st, c)"
    by (metis prod.exhaust)
  note keep = sell_known_advance [OF sell_runtime_next [OF A] known m, where tr' = tr' and v' = v']
  have looked: "sell_known h j (tr @ tr') v'"
    if "st = sellState.ReconcilingSell" "looks_up A h j v oid tr2 (Inr v')" "\<exists>tr1. tr' = tr1 @ tr2" for oid tr2
    using that unfolding looks_up_def
  proof (elim conjE disjE exE)
    fix e
    assume "Inr v' = advance A v (failure e)"
    then show ?thesis
      by (intro keep [where w = v and e = "failure e"]) (use that(1) in \<open>auto simp: m\<close>)
  next
    fix e
    assume "Inr v' = advance A v (SELL_REJECTED e)"
    then show ?thesis
      by (intro keep [where w = v and e = "SELL_REJECTED e"]) (use that(1) in \<open>auto simp: m\<close>)
  next
    fix y tr1
    assume "Inr v' = advance A (v\<lparr>sv_submission := Some y\<rparr>) (SELL_CONFIRMED oid)" "looked_up h j y tr2"
      "tr' = tr1 @ tr2"
    then show ?thesis
      by (intro keep [where w = "v\<lparr>sv_submission := Some y\<rparr>" and e = "SELL_CONFIRMED oid"])
         (use that(1) in \<open>auto simp: m intro: looked_up_append\<close>)
  qed simp
  from assms(3) m show ?thesis
  proof (cases rule: sell_step_cases)
    case (killed r)
    then obtain z where r: "r = Some z"
      by (cases r) auto
    show ?thesis
    proof (cases z)
      case (Inl e)
      then show ?thesis
        using killed r by (intro keep [where w = v and e = "SAFETY_FLATTEN_FAILED e"]) (auto simp: m)
    next
      case (Inr a)
      then have "holds_run (reconcileCoinbaseAccount h (job_settings j) (job_product j)) (ok a) (tr @ tr')"
        using kill_reads [of "control_init A" "control_next A"] A killed(2)
        by (auto simp: sell_runtime_ok_def r ok_def intro: holds_run_after)
      then show ?thesis
        using killed r Inr
        by (intro keep [where w = "v\<lparr>sv_account := Some a\<rparr>" and e = SAFETY_FLATTEN_SUCCEEDED]) (auto simp: m)
    qed
  next
    case (failed e)
    then have "st \<noteq> sellState.Completed"
      by auto
    then show ?thesis
      by (intro keep [where w = v and e = "failure e"]) (use failed in \<open>auto simp: m\<close>)
  next
    case cleared
    then show ?thesis
      by (intro keep [where w = v and e = PROTECTIONS_CLEARED]) (auto simp: m)
  next
    case (read a)
    then show ?thesis
      by (intro keep [where w = "v\<lparr>sv_account := Some a\<rparr>" and e = "sell_account_event (job_increment j) a"])
         (auto simp: m sell_account_event_def intro: ends_holds_run performs_ends_with)
  next
    case (unsent e)
    then show ?thesis
      by (intro keep [where w = v and e = "failure e"]) (auto simp: m)
  next
    case (sent y)
    then show ?thesis
      using submitted_kinds [OF sent(2)]
      by (intro keep [where w = v and e = "submission_event y"]) (auto simp: m submission_event_def)
  next
    case (lookup oid)
    then show ?thesis
      using looked [of oid tr'] by simp
  next
    case replay
    from replay(3) obtain tr1 y tr2 where tr': "tr' = tr1 @ tr2"
      and "tr2 = [] \<and> ((\<exists>e. Inr v' = advance A v (SELL_REJECTED e)) \<or> (\<exists>e. Inr v' = advance A v (failure e))) \<or>
         (\<exists>oid. looks_up A h j v oid tr2 (Inr v'))"
      unfolding replays_def by blast
    then show ?thesis
    proof (elim disjE exE conjE)
      fix e
      assume "Inr v' = advance A v (SELL_REJECTED e)"
      then show ?thesis
        by (intro keep [where w = v and e = "SELL_REJECTED e"]) (use replay in \<open>auto simp: m\<close>)
    next
      fix e
      assume "Inr v' = advance A v (failure e)"
      then show ?thesis
        by (intro keep [where w = v and e = "failure e"]) (use replay in \<open>auto simp: m\<close>)
    next
      fix oid
      assume "looks_up A h j v oid tr2 (Inr v')"
      then show ?thesis
        using looked [OF replay(1), of oid tr2] tr' by simp
    qed
  next
    case (armed plan e)
    then show ?thesis
      by (intro keep [where w = "v\<lparr>sv_plan := Some plan\<rparr>" and e = e])
         (auto simp: m split: LiveSellProtectionEvent.splits)
  next
    case (confirmed oid plan q)
    then show ?thesis
      by (intro keep [where w = v and e = PROTECTION_CONFIRMED]) (auto simp: m)
  qed simp
qed

end
