(* ===== verification/CoinbaseSellRuns.thy ===== *)
theory CoinbaseSellRuns
  imports CoinbaseSellProps
begin

text \<open>
  Runs of the protected sale: which orders they submit, which checkpoints they save, and what a
  confirmed result has read, as invariants of the steps.
\<close>

subsection \<open>Orders\<close>

text \<open>Orders of the intent itself: at most two, the second only after an unresolved first.\<close>

definition sale_orders :: "cb_host \<Rightarrow> OrderIntent \<Rightarrow> (json option \<times> cb_answer) list \<Rightarrow> bool" where
  "sale_orders h i xs \<longleftrightarrow>
     length xs \<le> 2 \<and>
     list_all (\<lambda>(b, r). \<exists>sz. coinbaseBaseSize h (OrderIntent.productId i) (quantity i) = Some sz \<and>
        b = Some (order_body i sz None)) xs \<and>
     list_all (\<lambda>(b, r). unresolved i r) (butlast xs)"

definition is_bracket :: "sell_job \<Rightarrow> json option \<Rightarrow> bool" where
  "is_bracket j b \<longleftrightarrow>
     (\<exists>sz f. b = Some (bracket_body (residualProtectionClientOrderId
        (OrderIntent.clientOrderId (job_intent j))) (job_product j) sz f))"

text \<open>Sales, then at most one bracket, while no kill has begun.\<close>

definition sale_trace :: "cb_host \<Rightarrow> sell_job \<Rightarrow> cb_trace \<Rightarrow> (json option \<times> cb_answer) list
    \<Rightarrow> (json option \<times> cb_answer) list \<Rightarrow> bool" where
  "sale_trace h j tr xs ys \<longleftrightarrow>
     orders tr = xs @ ys \<and> sale_orders h (job_intent j) xs \<and>
     length ys \<le> 1 \<and> list_all (\<lambda>(b, r). is_bracket j b) ys"

definition sale_progress :: "cb_host \<Rightarrow> sell_job \<Rightarrow> cb_trace \<Rightarrow> sell_vars \<Rightarrow> bool" where
  "sale_progress h j tr v \<longleftrightarrow>
     (\<exists>xs ys. sale_trace h j tr xs ys \<and>
        (6 \<le> sell_rank (fst (sv_machine v)) \<longrightarrow> xs = []) \<and>
        (3 \<le> sell_rank (fst (sv_machine v)) \<longrightarrow> ys = []) \<and>
        (fst (sv_machine v) = sellState.ReconcilingSell \<longrightarrow>
           length xs \<le> 1 \<and>
           (LiveSellProtectionContext.exchangeOrderId (snd (sv_machine v)) = None \<longrightarrow>
              list_all (\<lambda>(b, r). unresolved (job_intent j) r) xs)))"

text \<open>All orders of a sale: its own, a bracket, and the sales of a kill.\<close>

definition sale_reported :: "cb_host \<Rightarrow> sell_job \<Rightarrow> cb_trace \<Rightarrow> bool" where
  "sale_reported h j tr \<longleftrightarrow>
     (\<exists>tr1 tr2 xs ys. tr = tr1 @ tr2 \<and> orders tr1 = xs @ ys \<and> sale_orders h (job_intent j) xs \<and>
        length ys \<le> 1 \<and> list_all (\<lambda>(b, r). is_bracket j b) ys \<and>
        length (orders tr2) \<le> 2 \<and> sells_read h (job_settings j) (job_product j) tr2)"

lemma sale_orders_one:
  "submitted_as h i tr y \<Longrightarrow> sale_orders h i (orders tr) \<and> length (orders tr) \<le> 1 \<and>
     ((\<exists>e. y = UNKNOWN None e) \<longrightarrow> list_all (\<lambda>(b, r). unresolved i r) (orders tr))"
  by (auto simp: submitted_as_def sale_orders_def unresolved_def)

lemma sale_orders_two:
  assumes "sale_orders h i xs" "length xs \<le> 1" "list_all (\<lambda>(b, r). unresolved i r) xs"
    and "submitted_as h i tr y"
  shows "sale_orders h i (xs @ orders tr)"
proof -
  have "list_all (\<lambda>(b, r). unresolved i r) (butlast (xs @ orders tr))"
    using assms(3,4) by (auto simp: submitted_as_def butlast_append list_all_iff dest: in_set_butlastD)
  then show ?thesis
    using assms by (auto simp: sale_orders_def submitted_as_def)
qed

lemma sell_ranks: "6 \<le> sell_rank st \<longleftrightarrow> st \<in> {sellState.Idle, sellState.CancellingProtections,
     sellState.ReconcilingBeforeSell, sellState.SubmittingSell}"
  "3 \<le> sell_rank st \<longleftrightarrow> st \<in> {sellState.Idle, sellState.CancellingProtections,
     sellState.ReconcilingBeforeSell, sellState.SubmittingSell, sellState.ReconcilingSell,
     sellState.ReconcilingResidual, sellState.ArmingResidual}"
  by (cases st; simp)+

lemma reconciling_sale:
  "fst (sell_send (st, c) e) = sellState.ReconcilingSell \<and> st \<noteq> sellState.ReconcilingSell \<longrightarrow>
     st = sellState.SubmittingSell \<and>
     (\<forall>oid. e = SELL_OUTCOME_UNKNOWN oid \<longrightarrow>
        LiveSellProtectionContext.exchangeOrderId (snd (sell_send (st, c) e)) = oid)"
  by (rule sell.send_rule, simp, (cases st; cases e),
      simp_all only: sell_rows, (safe elim!: pick_rowE), simp_all add: sell_effects)

text \<open>A step without an order.\<close>

lemma sale_progress_quiet:
  assumes A: "sell_next A = sell_send" and "sale_progress h j tr v" and "orders tr' = []"
    and m: "sv_machine v = (st, c)" "sv_machine w = (st, c)" and "expected st e"
    and st: "st \<noteq> sellState.SubmittingSell" and x: "advance A w e = Inr v'"
  shows "sale_progress h j (tr @ tr') v'"
proof -
  have v': "sv_machine v' = sell_send (st, c) e"
    using x by (simp add: advance_parts A m)
  have rank: "sell_rank (fst (sell_send (st, c) e)) < sell_rank st"
    using assms(6) by (rule expected_progress)
  have not_sale: "fst (sell_send (st, c) e) \<noteq> sellState.ReconcilingSell"
    using reconciling_sale [of st c e] st rank by auto
  obtain xs ys where xs: "sale_trace h j tr xs ys"
    and "6 \<le> sell_rank st \<longrightarrow> xs = []" "3 \<le> sell_rank st \<longrightarrow> ys = []"
    using assms(2) m by (auto simp: sale_progress_def)
  moreover from xs have "sale_trace h j (tr @ tr') xs ys"
    by (simp add: sale_trace_def assms(3))
  ultimately show ?thesis
    unfolding sale_progress_def v' using rank not_sale by (intro exI [of _ xs] exI [of _ ys]) simp
qed

definition sale_state :: "cb_host \<Rightarrow> sell_job \<Rightarrow> cb_trace \<Rightarrow> sell_vars \<Rightarrow> bool" where
  "sale_state h j tr v \<longleftrightarrow>
     sale_progress h j tr v \<or> (sell_rank (fst (sv_machine v)) = 0 \<and> sale_reported h j tr)"

lemma sale_state_told: "sale_state h j tr v \<Longrightarrow> sale_reported h j tr"
proof -
  have "sale_reported h j tr" if "sale_trace h j tr xs ys" for xs ys
    unfolding sale_reported_def using that
    by (intro exI [of _ tr] exI [of _ "[]"] exI [of _ xs] exI [of _ ys]) (simp add: sale_trace_def)
  then show "sale_state h j tr v \<Longrightarrow> sale_reported h j tr"
    by (auto simp: sale_state_def sale_progress_def)
qed

lemma sale_reported_quiet:
  assumes "sale_reported h j tr" "orders tr' = []"
  shows "sale_reported h j (tr @ tr')"
proof -
  obtain tr1 tr2 xs ys where "tr = tr1 @ tr2" "orders tr1 = xs @ ys" "sale_orders h (job_intent j) xs"
    "length ys \<le> 1" "list_all (\<lambda>(b, r). is_bracket j b) ys" "length (orders tr2) \<le> 2"
    "sells_read h (job_settings j) (job_product j) tr2"
    using assms(1) unfolding sale_reported_def by blast
  then show ?thesis
    unfolding sale_reported_def using assms(2)
    by (intro exI [of _ tr1] exI [of _ "tr2 @ tr'"] exI [of _ xs] exI [of _ ys]) (simp add: sells_read_quiet)
qed

text \<open>A step that adds sales: the first, or the second after an unresolved one.\<close>

lemma sale_progress_sold:
  assumes A: "sell_next A = sell_send" and m: "sv_machine w = (st, c)" and "expected st e"
    and xs: "orders (tr @ tr') = xs" "sale_orders h (job_intent j) xs"
    and st: "st \<in> {sellState.SubmittingSell, sellState.ReconcilingSell}"
    and one: "st = sellState.SubmittingSell \<Longrightarrow> length xs \<le> 1"
    and unknown: "\<And>oid. st = sellState.SubmittingSell \<Longrightarrow> e = SELL_OUTCOME_UNKNOWN oid \<Longrightarrow> oid = None \<Longrightarrow>
      list_all (\<lambda>(b, r). unresolved (job_intent j) r) xs"
    and x: "advance A w e = Inr v'"
  shows "sale_progress h j (tr @ tr') v'"
proof -
  have v': "sv_machine v' = sell_send (st, c) e"
    using x by (simp add: advance_parts A m)
  have rank: "sell_rank (fst (sell_send (st, c) e)) < 6"
    using expected_progress [OF assms(3), of c] st by auto
  have "sale_trace h j (tr @ tr') xs []"
    using xs by (simp add: sale_trace_def)
  moreover have "length xs \<le> 1 \<and>
      (LiveSellProtectionContext.exchangeOrderId (snd (sell_send (st, c) e)) = None \<longrightarrow>
         list_all (\<lambda>(b, r). unresolved (job_intent j) r) xs)"
    if sale: "fst (sell_send (st, c) e) = sellState.ReconcilingSell"
  proof -
    have "st = sellState.SubmittingSell"
      using reconciling_sale [of st c e] expected_progress [OF assms(3), of c] sale by auto
    moreover from this have "\<exists>oid. e = SELL_OUTCOME_UNKNOWN oid"
      using assms(3) sale by (cases e) (simp_all add: sell.send_eval sell_row_defs row_effect_def)
    ultimately show ?thesis
      using one unknown reconciling_sale [of st c e] sale by auto
  qed
  ultimately show ?thesis
    unfolding sale_progress_def v' using rank by (intro exI [of _ xs] exI [of _ "[]"]) simp
qed


lemma bracket_all:
  assumes "one_bracket (job_product j)
      (residualProtectionClientOrderId (OrderIntent.clientOrderId (job_intent j))) tr"
  shows "length (orders tr) \<le> 1 \<and> list_all (\<lambda>(b, r). is_bracket j b) (orders tr)"
proof -
  have "is_bracket j (Some (bracket_body
      (residualProtectionClientOrderId (OrderIntent.clientOrderId (job_intent j))) (job_product j) sz f))" for sz f
    unfolding is_bracket_def by blast
  then show ?thesis
    using assms unfolding one_bracket_def by (elim disjE exE) simp_all
qed

lemma sale_progress_armed:
  assumes A: "sell_next A = sell_send" and "sale_progress h j tr v" and m: "sv_machine v = (sellState.ArmingResidual, c)"
    and one: "one_bracket (job_product j)
      (residualProtectionClientOrderId (OrderIntent.clientOrderId (job_intent j))) tr'"
    and "expected sellState.ArmingResidual e" and x: "advance A (v\<lparr>sv_plan := Some plan\<rparr>) e = Inr v'"
  shows "sale_progress h j (tr @ tr') v'"
proof -
  have v': "sv_machine v' = sell_send (sellState.ArmingResidual, c) e"
    using x by (simp add: advance_parts A m)
  have "sell_rank (fst (sell_send (sellState.ArmingResidual, c) e)) < 3"
    using expected_progress [OF assms(5), of c] by simp
  moreover from this have "fst (sell_send (sellState.ArmingResidual, c) e) \<noteq> sellState.ReconcilingSell"
    by auto
  moreover obtain xs where "sale_trace h j tr xs []"
    using assms(2) m by (auto simp: sale_progress_def)
  then have "sale_trace h j (tr @ tr') xs (orders tr')"
    using bracket_all [OF one] by (simp add: sale_trace_def)
  ultimately show ?thesis
    unfolding sale_progress_def v' by (intro exI [of _ xs] exI [of _ "orders tr'"]) simp
qed

text \<open>The kill adds its own sales.\<close>

lemma sale_reported_killed:
  assumes A: "sell_runtime_ok A" and "sale_progress h j tr v"
    and "performs (executeCoinbaseKill (control_init A) (control_next A) h (job_settings j) (job_product j) ps prefix)
      tr' r"
  shows "sale_reported h j (tr @ tr')"
proof -
  obtain xs ys where xs: "sale_trace h j tr xs ys"
    using assms(2) by (auto simp: sale_progress_def)
  have "two_sales tr' \<and> sells_read h (job_settings j) (job_product j) tr'"
    using kill_two_sales [OF _ assms(3)] A by (simp add: sell_runtime_ok_def)
  then show ?thesis
    unfolding sale_reported_def using xs
    by (intro exI [of _ tr] exI [of _ tr'] exI [of _ xs] exI [of _ ys]) (simp add: sale_trace_def two_sales_def)
qed

lemma looks_up_events:
  assumes "looks_up A h j v oid tr (Inr v')"
  obtains w e where "advance A w e = Inr v'" "sv_machine w = sv_machine v" "expected sellState.ReconcilingSell e"
  using assms unfolding looks_up_def
proof (elim conjE disjE exE)
  fix e
  assume "Inr v' = advance A v (failure e)"
  then show thesis
    by (intro that [of v "failure e"]) simp_all
next
  fix e
  assume "Inr v' = advance A v (SELL_REJECTED e)"
  then show thesis
    by (intro that [of v "SELL_REJECTED e"]) simp_all
next
  fix y
  assume "Inr v' = advance A (v\<lparr>sv_submission := Some y\<rparr>) (SELL_CONFIRMED oid)"
  then show thesis
    by (intro that [of "v\<lparr>sv_submission := Some y\<rparr>" "SELL_CONFIRMED oid"]) simp_all
qed simp

lemma replays_events:
  assumes "replays A h j v tr (Inr v')"
  obtains w e y tr1 tr2 where "advance A w e = Inr v'" "sv_machine w = sv_machine v"
    "expected sellState.ReconcilingSell e" "tr = tr1 @ tr2" "submitted_as h (job_intent j) tr1 y" "orders tr2 = []"
proof -
  obtain tr1 y tr2 where tr: "tr = tr1 @ tr2" "submitted_as h (job_intent j) tr1 y"
    and "tr2 = [] \<and> ((\<exists>e. Inr v' = advance A v (SELL_REJECTED e)) \<or> (\<exists>e. Inr v' = advance A v (failure e))) \<or>
      (\<exists>oid. looks_up A h j v oid tr2 (Inr v'))"
    using assms unfolding replays_def by blast
  then show thesis
  proof (elim disjE exE conjE)
    fix e
    assume "tr2 = []" "Inr v' = advance A v (SELL_REJECTED e)"
    with tr show thesis
      by (intro that [of v "SELL_REJECTED e" tr1 tr2 y]) simp_all
  next
    fix e
    assume "tr2 = []" "Inr v' = advance A v (failure e)"
    with tr show thesis
      by (intro that [of v "failure e" tr1 tr2 y]) simp_all
  next
    fix oid
    assume "looks_up A h j v oid tr2 (Inr v')"
    moreover from this obtain w e where "advance A w e = Inr v'" "sv_machine w = sv_machine v"
      "expected sellState.ReconcilingSell e"
      by (rule looks_up_events)
    ultimately show thesis
      using tr by (intro that [of w e tr1 tr2 y]) (simp_all add: looks_up_def)
  qed
qed

lemma sale_progress_step:
  assumes A: "sell_runtime_ok A" and progress: "sale_progress h j tr v"
    and "performs (sell_step A h j v) tr' (Inr v')"
  shows "sale_state h j (tr @ tr') v'"
proof -
  obtain st c where m: "sv_machine v = (st, c)"
    by (metis prod.exhaust)
  note A' = sell_runtime_next [OF A]
  note quiet = sale_progress_quiet [OF A' progress _ m]
  note sold = sale_progress_sold [OF A', where h = h and j = j and tr = tr and tr' = tr' and v' = v']
  from assms(3) m show ?thesis
  proof (cases rule: sell_step_cases)
    case (failed e)
    then show ?thesis
      using quiet [of tr' v "failure e" v'] m by (simp add: sale_state_def)
  next
    case cleared
    then show ?thesis
      using quiet [of tr' v PROTECTIONS_CLEARED v'] m by (simp add: sale_state_def)
  next
    case (read a)
    then show ?thesis
      using quiet [of tr' "v\<lparr>sv_account := Some a\<rparr>" "sell_account_event (job_increment j) a" v']
        performs_orders [OF ordering.quiet_account read(2)] m
      by (auto simp: sale_state_def sell_account_event_def)
  next
    case (unsent e)
    have "orders tr = []"
      using progress m unsent by (auto simp: sale_progress_def sale_trace_def)
    then have "sale_progress h j (tr @ tr') v'"
      using unsent m by (intro sold [of v st c "failure e" "[]"]) (simp_all add: sale_orders_def)
    then show ?thesis
      by (simp add: sale_state_def)
  next
    case (sent y)
    have "orders tr = []"
      using progress m sent by (auto simp: sale_progress_def sale_trace_def)
    then have "sale_progress h j (tr @ tr') v'"
      using sent m sale_orders_one [OF sent(2)] submitted_kinds [OF sent(2)]
      by (intro sold [of v st c "submission_event y" "orders tr'"]) (auto simp: submission_event_def)
    then show ?thesis
      by (simp add: sale_state_def)
  next
    case (lookup oid)
    obtain w e where "advance A w e = Inr v'" "sv_machine w = sv_machine v" "expected sellState.ReconcilingSell e"
      using lookup(3) by (rule looks_up_events)
    then show ?thesis
      using quiet [of tr' w e v'] lookup m by (simp add: sale_state_def looks_up_def)
  next
    case replay
    obtain w e y tr1 tr2 where e: "advance A w e = Inr v'" "sv_machine w = sv_machine v"
      "expected sellState.ReconcilingSell e" and tr': "tr' = tr1 @ tr2" "submitted_as h (job_intent j) tr1 y"
      "orders tr2 = []"
      using replay(3) by (rule replays_events)
    obtain xs where "sale_trace h j tr xs []" "length xs \<le> 1" "list_all (\<lambda>(b, r). unresolved (job_intent j) r) xs"
      using progress m replay by (auto simp: sale_progress_def)
    then have "sale_progress h j (tr @ tr') v'"
      using e replay m tr' sale_orders_two [of h "job_intent j" xs tr1 y]
      by (intro sold [of w st c e "xs @ orders tr1"]) (auto simp: sale_trace_def)
    then show ?thesis
      by (simp add: sale_state_def)
  next
    case (armed plan e)
    then show ?thesis
      using sale_progress_armed [OF A' progress, of c tr' e plan v'] m by (simp add: sale_state_def)
  next
    case (confirmed oid plan q)
    then show ?thesis
      using quiet [of tr' v PROTECTION_CONFIRMED v'] performs_orders [OF ordering.quiet_confirm confirmed(3)] m
      by (simp add: sale_state_def)
  next
    case (killed r)
    obtain e where "expected st e" "sv_machine v' = sell_send (st, c) e"
      using performs_moves [OF assms(3) sell_step_moves] by (auto simp: steps_to_def A' m)
    then have "sell_rank (fst (sv_machine v')) = 0"
      using expected_progress [of st e c] killed(1) by simp
    then show ?thesis
      using sale_reported_killed [OF A progress killed(2)] by (simp add: sale_state_def)
  qed simp
qed


lemma sale_state_step:
  assumes A: "sell_runtime_ok A" and state: "sale_state h j tr v" and step: "performs (sell_step A h j v) tr' x"
  shows "case x of Inl r \<Rightarrow> sale_reported h j (tr @ tr') | Inr v' \<Rightarrow> sale_state h j (tr @ tr') v'"
proof (cases x)
  case (Inr v')
  have "expected (fst (sv_machine v)) e \<Longrightarrow> sell_rank (fst (sv_machine v)) \<noteq> 0" for e
    using expected_progress [of "fst (sv_machine v)" e undefined] by simp
  moreover obtain e where "expected (fst (sv_machine v)) e"
    using performs_moves [OF step sell_step_moves] by (auto simp: Inr steps_to_def)
  ultimately have "sale_progress h j tr v"
    using state unfolding sale_state_def by blast
  then show ?thesis
    using sale_progress_step [OF A] step by (simp add: Inr)
next
  case (Inl r)
  obtain st c where m: "sv_machine v = (st, c)"
    by (metis prod.exhaust)
  have "sale_reported h j (tr @ tr')"
    using step m
  proof (cases rule: sell_step_cases)
    case (killed z)
    then have "sale_progress h j tr v"
      using state m by (simp add: sale_state_def)
    then show ?thesis
      using sale_reported_killed [OF A _ killed(2)] by blast
  next
    case (replay)
    then have progress: "sale_progress h j tr v"
      using state m by (simp add: sale_state_def)
    obtain xs where xs: "sale_trace h j tr xs []" "length xs \<le> 1" "list_all (\<lambda>(b, r). unresolved (job_intent j) r) xs"
      using progress m replay by (auto simp: sale_progress_def)
    obtain tr1 y tr2 where "tr' = tr1 @ tr2" "submitted_as h (job_intent j) tr1 y" "orders tr2 = []"
      using replay(3) by (auto simp: replays_def Inl advance_def looks_up_def)
    then show ?thesis
      unfolding sale_reported_def using xs sale_orders_two [of h "job_intent j" xs tr1 y]
      by (intro exI [of _ "tr @ tr'"] exI [of _ "[]"] exI [of _ "xs @ orders tr1"] exI [of _ "[]"])
        (simp add: sale_trace_def)
  next
    case (ended z)
    then show ?thesis
      using sale_state_told [OF state] by simp
  qed (use Inl sale_reported_quiet [OF sale_state_told [OF state]] in
        \<open>auto simp: advance_def looks_up_def\<close>)
  then show ?thesis
    by (simp add: Inl)
qed

subsection \<open>Checkpoints\<close>

definition is_save :: "cb_question \<Rightarrow> bool" where
  "is_save q \<longleftrightarrow> (case q of SaveCheckpoint _ \<Rightarrow> True | _ \<Rightarrow> False)"

interpretation saving: calm is_save
  by unfold_locales (simp_all add: is_save_def is_order_def)

lemma fetch_saves [intro!]: "(\<And>x. quiet is_save (k x)) \<Longrightarrow> quiet is_save (fetch rq k)"
  by (auto simp: fetch_def is_save_def)

lemma wait_saves [intro!]: "quiet is_save c \<Longrightarrow> quiet is_save (wait_for ms c)"
  by (auto simp: wait_for_def is_save_def)

lemma submit_saves [intro!]: "quiet is_save (submitCoinbaseOrder h s i a protection)"
  by (auto simp: submitCoinbaseOrder_def send_order_def split: option.split OrderSide.split sum.split)

lemma protection_saves [intro!]: "quiet is_save (submitCoinbaseProtectionOrder h s p cid q plan)"
  by (auto simp: submitCoinbaseProtectionOrder_def split: option.split sum.split)

lemma flatten_saves [intro!]: "quiet is_save (flattenReconciledPosition h s p cid q w)"
  by (auto simp: flattenReconciledPosition_def read_flatten_def lookup_flatten_def
      split: sum.split option.split OrderSubmission.split order_lookup.split)

lemma kill_saves [intro!]: "quiet is_save (executeCoinbaseKill init send h s p ps prefix)"
proof -
  have "quiet is_save (kill_step send h s p increment st)" for increment st
    by (auto simp: kill_step_def kill_reconcile_def kill_flatten_def kill_wait_def Let_def
        split: controlState.split option.split)
  then show ?thesis
    by (auto simp: executeCoinbaseKill_def kill_loop_def intro!: quiet_repeat split: option.split)
qed

lemma submit_sale_saves [intro!]: "quiet is_save (submit_sale h j)"
  by (auto simp: submit_sale_def split: sum.split)

lemma lookup_sale_saves [intro!]: "quiet is_save (lookup_sale A h j v account oid)"
  by (auto simp: lookup_sale_def split: option.split sum.split)

lemma sell_step_saves: "quiet is_save (sell_step A h j v)"
proof -
  have "quiet is_save (sell_resolve A h j v)"
    by (auto simp: sell_resolve_def split: option.split sum.split OrderSubmission.split)
  moreover have "quiet is_save (sell_clear A h j v)" "quiet is_save (sell_reconcile A h j v)"
    "quiet is_save (sell_submit A h j v)" "quiet is_save (sell_flatten A h j v)"
    by (auto simp: sell_clear_def sell_reconcile_def sell_submit_def sell_flatten_def split: sum.split)
  moreover have "quiet is_save (sell_arm A h j v)" "quiet is_save (sell_confirm A h j v)"
    by (auto simp: sell_arm_def sell_confirm_def Let_def split: option.split)
  ultimately show ?thesis
    by (simp add: sell_step_def Let_def split: sellState.split)
qed

text \<open>
  The orders each state sends, and traces in which the last checkpoint before an order was saved and
  is of a state that sends it: a sale of the intent, the bracket of the residual, or any order of the
  safety kill.
\<close>

definition sent_from :: "OrderIntent \<Rightarrow> sellState \<Rightarrow> json option \<Rightarrow> bool" where
  "sent_from i st b \<longleftrightarrow>
     (st \<in> {sellState.SubmittingSell, sellState.ReconcilingSell} \<and> (\<exists>sz. b = Some (order_body i sz None))) \<or>
     (st = sellState.ArmingResidual \<and>
        (\<exists>sz f. b = Some (bracket_body (residualProtectionClientOrderId (OrderIntent.clientOrderId i))
           (OrderIntent.productId i) sz f))) \<or>
     st = sellState.SafetyFlattening"

fun orders_checkpointed :: "OrderIntent \<Rightarrow> sellState option \<Rightarrow> cb_trace \<Rightarrow> bool" where
  "orders_checkpointed i saved [] = True"
| "orders_checkpointed i saved ((SaveCheckpoint cp, r) # tr) =
     orders_checkpointed i (if r = Saved None then Some (cp_state cp) else None) tr"
| "orders_checkpointed i saved ((q, r) # tr) \<longleftrightarrow>
     list_all (\<lambda>(b, _). \<exists>st. saved = Some st \<and> sent_from i st b) (orders [(q, r)]) \<and>
     orders_checkpointed i saved tr"

lemma checkpointed_append:
  "orders_checkpointed i saved tr \<Longrightarrow> (\<And>saved'. orders_checkpointed i saved' tr') \<Longrightarrow>
     orders_checkpointed i saved (tr @ tr')"
  by (induction i saved tr rule: orders_checkpointed.induct) simp_all

lemma checkpointed_step:
  "asks_none is_save tr \<Longrightarrow> list_all (\<lambda>(b, _). sent_from i st b) (orders tr) \<Longrightarrow>
     orders_checkpointed i (Some st) tr"
proof (induction tr)
  case (Cons x tr)
  obtain q r where x: "x = (q, r)"
    by (metis prod.exhaust)
  from Cons show ?case
    by (cases q) (auto simp: x is_save_def split: if_splits)
qed simp

lemma sell_step_orders:
  assumes "performs (sell_step A h j v) tr x"
  shows "list_all (\<lambda>(b, _). sent_from (job_intent j) (fst (sv_machine v)) b) (orders tr)"
proof -
  obtain st c where m: "sv_machine v = (st, c)"
    by (metis prod.exhaust)
  have sale: "list_all (\<lambda>(b, _). sent_from (job_intent j) st b) (orders tr)"
    if "submitted_as h (job_intent j) tr y" "st \<in> {sellState.SubmittingSell, sellState.ReconcilingSell}" for tr y
    using that by (auto simp: submitted_as_def sent_from_def)
  from assms(1) m show ?thesis
  proof (cases rule: sell_step_cases)
    case (read a)
    then show ?thesis
      using performs_orders [OF ordering.quiet_account] by simp
  next
    case (sent y)
    then show ?thesis
      using sale m by simp
  next
    case (lookup oid)
    then show ?thesis
      by (simp add: looks_up_def)
  next
    case replay
    then obtain tr1 y tr2 where "tr = tr1 @ tr2" "submitted_as h (job_intent j) tr1 y" "orders tr2 = []"
      unfolding replays_def looks_up_def using orders_simps(1) by blast
    then show ?thesis
      using sale [of tr1 y] replay(1) m by simp
  next
    case (armed plan e)
    have "is_bracket j b \<Longrightarrow> sent_from (job_intent j) sellState.ArmingResidual b" for b
      by (auto simp: is_bracket_def sent_from_def job_product_def)
    then show ?thesis
      using bracket_all [OF armed(2)] m armed(1) by (auto simp: list_all_iff)
  next
    case (confirmed oid plan q)
    then show ?thesis
      using performs_orders [OF ordering.quiet_confirm] by simp
  next
    case (killed r)
    then show ?thesis
      using m by (simp add: sent_from_def list_all_iff split_beta)
  qed simp_all
qed

lemma sell_checkpointed_trace:
  assumes "performs (sell_checkpointed True A h j v) tr x"
  shows "orders_checkpointed (job_intent j) saved tr"
proof -
  obtain r tr' where tr: "tr = (SaveCheckpoint (checkpoint_of v), r) # tr'"
    and rest: "performs (case (case r of Saved x \<Rightarrow> x | _ \<Rightarrow> Some (mkError PhPersistence PersistenceFailure False)) of
        Some e \<Rightarrow> Done (Inl (Some (UNKNOWN
            (LiveSellProtectionContext.exchangeOrderId (snd (sv_machine v))) (e\<lparr>retryable := True\<rparr>))))
      | None \<Rightarrow> sell_step A h j v) tr' x"
    using assms unfolding sell_checkpointed_def save_checkpoint_def if_True performs_Ask by blast
  show ?thesis
  proof (cases "r = Saved None")
    case True
    then have step: "performs (sell_step A h j v) tr' x"
      using rest by simp
    have "orders_checkpointed (job_intent j) (Some (fst (sv_machine v))) tr'"
      using checkpointed_step [OF quiet_performs [OF sell_step_saves step] sell_step_orders [OF step]] .
    then show ?thesis
      by (simp add: tr True checkpoint_of_def)
  next
    case False
    then have "tr' = []"
      using rest by (auto split: cb_answer.splits option.splits)
    then show ?thesis
      by (simp add: tr)
  qed
qed

subsection \<open>Runs\<close>

lemma sell_loop_invariant:
  assumes "performs (sell_loop n persistent A h j v) tr r" and "J tr0 v"
    and "\<And>tr v tr' x. J tr v \<Longrightarrow> performs (sell_checkpointed persistent A h j v) tr' x \<Longrightarrow>
      (case x of Inl r \<Rightarrow> Q (tr @ tr') r | Inr v' \<Rightarrow> J (tr @ tr') v')"
    and "\<And>tr v. J tr v \<Longrightarrow>
      Q tr (Some (TERMINAL_FAILED None (sv_fill v) (reconciliationError ReconciliationFailure False)))"
  shows "Q (tr0 @ tr) r"
  using assms unfolding sell_loop_def by (rule repeat_invariant)

text \<open>A checkpointed step is a failed save, or the step after a save without orders.\<close>

lemma sell_checkpointed_cases:
  assumes "performs (sell_checkpointed persistent A h j v) tr x"
  obtains (unsaved) oid e where "orders tr = []" "x = Inl (Some (UNKNOWN oid e))"
  | (step) tr0 tr' where "tr = tr0 @ tr'" "orders tr0 = []" "performs (sell_step A h j v) tr' x"
proof (cases persistent)
  case True
  then obtain r tr' where tr: "tr = (SaveCheckpoint (checkpoint_of v), r) # tr'"
    and rest: "performs (case (case r of Saved x \<Rightarrow> x | _ \<Rightarrow> Some (mkError PhPersistence PersistenceFailure False)) of
        Some e \<Rightarrow> Done (Inl (Some (UNKNOWN
            (LiveSellProtectionContext.exchangeOrderId (snd (sv_machine v))) (e\<lparr>retryable := True\<rparr>))))
      | None \<Rightarrow> sell_step A h j v) tr' x"
    using assms [unfolded sell_checkpointed_def save_checkpoint_def if_P [OF True] performs_Ask] by blast
  show ?thesis
  proof (cases "r = Saved None")
    case True
    then show ?thesis
      using rest by (intro step [of "[(SaveCheckpoint (checkpoint_of v), r)]" tr']) (simp_all add: tr)
  next
    case False
    then have "tr' = [] \<and> (\<exists>oid e. x = Inl (Some (UNKNOWN oid e)))"
      using rest by (auto split: cb_answer.splits option.splits)
    then show ?thesis
      using unsaved by (auto simp: tr)
  qed
next
  case False
  then show ?thesis
    using assms by (intro step [of "[]" tr]) (simp_all add: sell_checkpointed_def)
qed

definition sell_start :: "sell_actors \<Rightarrow> OrderIntent \<Rightarrow> controlPermissions \<Rightarrow> sell_vars" where
  "sell_start A i ps =
     \<lparr>sv_machine = sell_next A (sell_init A sell_context)
        (SELL_REQUESTED (OrderIntent.productId i) (OrderIntent.clientOrderId i) (quantity i) ps),
      sv_account = None, sv_submission = None, sv_plan = None\<rparr>"

lemma sell_start_state:
  assumes "sell_runtime_ok A"
  shows "fst (sv_machine (sell_start A i ps)) \<in> {sellState.CancellingProtections, sellState.Failed}"
proof -
  have "sell_init A = sc_start liveSellProtectionMachine" "sell_next A = sell_send"
    using assms by (auto simp: sell_runtime_ok_def dest: sell_runtime)
  then show ?thesis
    by (simp add: sell_start_def sell.boot sell.send_eval sell_row_defs row_effect_def)
qed

text \<open>A run from the request: refused at once, or the loop.\<close>

lemma sale_cases:
  assumes "performs (executeCoinbaseProtectedSell A h s i ps known policy port) tr r"
    and "port = None \<or> port = Some None"
  obtains (refused) e where "tr = []" "r = Some (TERMINAL_FAILED None None e)"
  | (run) j where "baseIncrement (OrderIntent.productId i) = Some (job_increment j)"
      "job_settings j = s" "job_intent j = i" "job_product j = OrderIntent.productId i"
      "performs (sell_loop MAX_CONTROL_STEPS (port \<noteq> None) A h j (sell_start A i ps)) tr r"
proof (cases "invalid_sale i policy")
  case True
  then show ?thesis
    using assms(1) refused by (simp add: executeCoinbaseProtectedSell_def)
next
  case False
  show ?thesis
  proof (cases "baseIncrement (OrderIntent.productId i)")
    case None
    then show ?thesis
      using assms(1) False refused by (simp add: executeCoinbaseProtectedSell_def)
  next
    case (Some increment)
    let ?j = "\<lparr>job_settings = s, job_intent = i, job_permissions = ps, job_known = known,
                   job_policy = policy, job_increment = increment\<rparr>"
    have "performs (sell_loop MAX_CONTROL_STEPS (port \<noteq> None) A h ?j (sell_start A i ps)) tr r"
      using assms False Some by (auto simp: executeCoinbaseProtectedSell_def sell_start_def Let_def)
    then show ?thesis
      using Some by (intro run [of ?j]) (simp_all add: job_product_def)
  qed
qed

text \<open>The account was read after the lookup of the order.\<close>

definition accounted :: "cb_host \<Rightarrow> sell_job \<Rightarrow> ConfirmedOrderSubmission \<Rightarrow> CoinbaseAccountSnapshot
    \<Rightarrow> cb_trace \<Rightarrow> bool" where
  "accounted h j x a tr \<longleftrightarrow>
     (\<exists>tr1 tr2. tr = tr1 @ tr2 \<and> looked_up h j x tr1 \<and>
        holds_run (reconcileCoinbaseAccount h (job_settings j) (job_product j)) (ok a) tr2)"

lemma accounted_append: "accounted h j x a tr \<Longrightarrow> accounted h j x a (tr @ tr')"
  unfolding accounted_def by (metis append.assoc holds_run_append)

lemma accountedI:
  "looked_up h j x tr \<Longrightarrow> holds_run (reconcileCoinbaseAccount h (job_settings j) (job_product j)) (ok a) tr' \<Longrightarrow>
     accounted h j x a (tr @ tr')"
  unfolding accounted_def by blast

abbreviation reports_sale :: "sellState \<Rightarrow> bool" where
  "reports_sale st \<equiv> st \<in> {sellState.ArmingResidual, sellState.ConfirmingResidualProtection, sellState.Completed}"

definition sale_read :: "cb_host \<Rightarrow> sell_job \<Rightarrow> cb_trace \<Rightarrow> sell_vars \<Rightarrow> bool" where
  "sale_read h j tr v \<longleftrightarrow>
     (\<forall>x a. reports_sale (fst (sv_machine v)) \<longrightarrow> sv_submission v = Some x \<longrightarrow> sv_account v = Some a \<longrightarrow>
        accounted h j x a tr)"

text \<open>Only an account, or the end of the safety kill, leads to the states that report the sale.\<close>

lemma reporting_sale:
  "reports_sale (fst (sell_send (st, c) e)) \<longrightarrow>
     reports_sale st \<or> (st = sellState.ReconcilingBeforeSell \<or> st = sellState.ReconcilingResidual) \<and>
       (\<exists>i tot available px dust. e = LiveSellProtectionEvent.ACCOUNT_RECONCILED i tot available px dust)"
  by (rule sell.send_rule, simp, (cases st; cases e),
      simp_all only: sell_rows, (safe elim!: pick_rowE), simp_all add: sell_effects)

lemma sale_read_step:
  assumes A: "sell_runtime_ok A" and known: "sell_known h j tr v" "sale_read h j tr v"
    and step: "performs (sell_step A h j v) tr' (Inr v')"
  shows "sale_read h j (tr @ tr') v'"
proof -
  obtain st c where m: "sv_machine v = (st, c)"
    by (metis prod.exhaust)
  note A' = sell_runtime_next [OF A]
  have keep: "sale_read h j (tr @ tr') v'"
    if "advance A w e = Inr v'" "sv_machine w = (st, c)" "sv_account w = sv_account v" "sv_submission w = sv_submission v"
      "\<And>i tot available px dust. e \<noteq> LiveSellProtectionEvent.ACCOUNT_RECONCILED i tot available px dust" for w e
    using that known(2) reporting_sale [of st c e] m
    by (auto simp: sale_read_def advance_parts A' intro: accounted_append)
  have other: "sale_read h j (tr @ tr') v'"
    if "advance A w e = Inr v'" "sv_machine w = (st, c)" "\<not> reports_sale st"
      "\<And>i tot available px dust. e \<noteq> LiveSellProtectionEvent.ACCOUNT_RECONCILED i tot available px dust" for w e
    using that reporting_sale [of st c e] by (auto simp: sale_read_def advance_parts A')
  from step m show ?thesis
  proof (cases rule: sell_step_cases)
    case (failed e)
    then show ?thesis
      using keep [of v "failure e"] m by simp
  next
    case cleared
    then show ?thesis
      using keep [of v PROTECTIONS_CLEARED] m by simp
  next
    case (read a)
    have run: "holds_run (reconcileCoinbaseAccount h (job_settings j) (job_product j)) (ok a) tr'"
      using ends_holds_run [OF performs_ends_with [OF read(2), of "[]"]] by simp
    then show ?thesis
      using read(3) [symmetric] known(1) by (auto simp: sale_read_def advance_parts A' sell_known_def intro: accountedI)
  next
    case (unsent e)
    then show ?thesis
      using keep [of v "failure e"] m by simp
  next
    case (sent y)
    then show ?thesis
      using keep [of v "submission_event y"] m by (auto simp: submission_event_def split: OrderSubmission.splits)
  next
    case (lookup oid)
    then obtain w e where "advance A w e = Inr v'" "sv_machine w = sv_machine v" "expected sellState.ReconcilingSell e"
      by (blast elim: looks_up_events)
    then show ?thesis
      using other [of w e] lookup(1) m by (cases e) auto
  next
    case replay
    then obtain w e where "advance A w e = Inr v'" "sv_machine w = sv_machine v" "expected sellState.ReconcilingSell e"
      by (blast elim: replays_events)
    then show ?thesis
      using other [of w e] replay(1) m by (cases e) auto
  next
    case (armed plan e)
    then show ?thesis
      using keep [of "v\<lparr>sv_plan := Some plan\<rparr>" e] m by (cases e) auto
  next
    case (confirmed oid plan q)
    then show ?thesis
      using keep [of v PROTECTION_CONFIRMED] m by simp
  next
    case (killed r)
    then obtain w e where "advance A w e = Inr v'" "sv_machine w = (st, c)"
      "e = SAFETY_FLATTEN_SUCCEEDED \<or> (\<exists>x. e = SAFETY_FLATTEN_FAILED x)"
      using m by (auto split: option.splits sum.splits)
    then show ?thesis
      using other [of w e] killed(1) by auto
  qed simp
qed

text \<open>What a confirmed result tells.\<close>

definition confirmed_sale :: "cb_host \<Rightarrow> sell_job \<Rightarrow> cb_trace \<Rightarrow> OrderSubmission option \<Rightarrow> bool" where
  "confirmed_sale h j tr r \<longleftrightarrow>
     (\<forall>oid w f prot eq oth t. r = Some (CONFIRMED oid w f prot eq oth t) \<longrightarrow>
        (\<exists>x a. accounted h j x a tr \<and> co_exchangeOrderId x = oid \<and> co_fill x = f \<and>
           ca_portfolio a = w \<and>
           (ca_totalBaseQuantity a \<le> job_increment j \<or>
            (\<exists>pid plan q. prot = Some pid \<and>
               holds_run (confirmCoinbaseProtectiveOrder h (job_settings j) (job_product j) pid plan (Some q))
                 (ok ()) tr))))"

lemma sell_known_prefix: "sell_known h j tr v \<Longrightarrow> sell_known h j (tr @ tr') v"
proof -
  have "residual_safe h j tr v \<Longrightarrow> residual_safe h j (tr @ tr') v"
    unfolding residual_safe_def by (blast intro: holds_run_append)
  then show "sell_known h j tr v \<Longrightarrow> sell_known h j (tr @ tr') v"
    unfolding sell_known_def by (blast intro: holds_run_append looked_up_append)
qed

lemma completed_confirmed:
  assumes "sell_known h j tr v" "sale_read h j tr v" "fst (sv_machine v) = sellState.Completed"
  shows "confirmed_sale h j tr (Some (sell_completed v))"
proof (cases "sv_account v")
  case (Some a)
  note account = Some
  show ?thesis
  proof (cases "sv_submission v")
    case (Some x)
    then show ?thesis
      using assms account
      by (auto simp: confirmed_sale_def sell_completed_def Let_def sell_known_def sale_read_def residual_safe_def
          split: option.splits if_splits) blast
  qed (simp add: confirmed_sale_def sell_completed_def account Let_def)
qed (simp add: confirmed_sale_def sell_completed_def Let_def split: option.split)

lemma sell_known_loop_step:
  assumes "sell_runtime_ok A" and "sell_known h j tr v \<and> sale_read h j tr v" and "performs (sell_checkpointed persistent A h j v) tr' x"
  shows "case x of Inl r \<Rightarrow> confirmed_sale h j (tr @ tr') r | Inr v' \<Rightarrow> sell_known h j (tr @ tr') v' \<and> sale_read h j (tr @ tr') v'"
  using assms(3)
proof (cases rule: sell_checkpointed_cases)
  case (unsaved oid e)
  then show ?thesis
    by (simp add: confirmed_sale_def)
next
  case (step tr0 tr1)
  have known: "sell_known h j (tr @ tr0) v" "sale_read h j (tr @ tr0) v"
    using assms(2) by (auto simp: sale_read_def intro: sell_known_prefix accounted_append)
  obtain st c where m: "sv_machine v = (st, c)"
    by (metis prod.exhaust)
  show ?thesis
  proof (cases x)
    case (Inr v')
    then show ?thesis
      using sell_known_step [OF assms(1) known(1), of tr1 v'] sale_read_step [OF assms(1) known, of tr1 v'] step
      by simp
  next
    case (Inl r)
    have "confirmed_sale h j (tr @ tr') r"
      using step(3) m
    proof (cases rule: sell_step_cases)
      case (ended z)
      then show ?thesis
        using completed_confirmed [OF known] m Inl step
        by (cases "st = sellState.Completed") (auto simp: confirmed_sale_def)
    qed (auto simp: Inl advance_def looks_up_def replays_def confirmed_sale_def split: option.splits sum.splits)
    then show ?thesis
      by (simp add: Inl)
  qed
qed


text \<open>The three invariants over a run.\<close>

lemma sale_state_more:
  assumes "sale_state h j tr v" "orders tr' = []"
  shows "sale_state h j (tr @ tr') v"
proof -
  have "sale_trace h j (tr @ tr') = sale_trace h j tr"
    by (simp add: fun_eq_iff sale_trace_def assms(2))
  then have "sale_progress h j tr v \<Longrightarrow> sale_progress h j (tr @ tr') v"
    by (simp add: sale_progress_def)
  then show ?thesis
    using assms sale_reported_quiet by (auto simp: sale_state_def)
qed

lemma sale_state_loop_step:
  assumes "sell_runtime_ok A" and "sale_state h j tr v" and "performs (sell_checkpointed persistent A h j v) tr' x"
  shows "case x of Inl r \<Rightarrow> sale_reported h j (tr @ tr') | Inr v' \<Rightarrow> sale_state h j (tr @ tr') v'"
  using assms(3)
proof (cases rule: sell_checkpointed_cases)
  case (unsaved oid e)
  then show ?thesis
    using sale_reported_quiet [OF sale_state_told [OF assms(2)]] by simp
next
  case (step tr0 tr1)
  then show ?thesis
    using sale_state_step [OF assms(1) sale_state_more [OF assms(2) step(2)] step(3)]
    by (cases x) simp_all
qed

lemma sale_run_reported:
  assumes "sell_runtime_ok A" and "performs (sell_loop n persistent A h j (sell_start A i ps)) tr r"
  shows "sale_reported h j tr"
proof -
  have "sale_trace h j [] [] []"
    by (simp add: sale_trace_def sale_orders_def)
  then have "sale_progress h j [] (sell_start A i ps)"
    unfolding sale_progress_def using sell_start_state [OF assms(1), of i ps]
    by (intro exI [of _ "[]"]) auto
  then have start: "sale_state h j [] (sell_start A i ps)"
    by (simp add: sale_state_def)
  have "sale_reported h j ([] @ tr)"
    by (rule sell_loop_invariant [where J = "sale_state h j" and Q = "\<lambda>tr r. sale_reported h j tr",
        OF assms(2) start])
       (use sale_state_loop_step [OF assms(1)] sale_state_told in blast)+
  then show ?thesis
    by simp
qed

lemma sale_run_confirmed:
  assumes "sell_runtime_ok A" and "performs (sell_loop n persistent A h j (sell_start A i ps)) tr r"
  shows "confirmed_sale h j tr r"
proof -
  have start: "sell_known h j [] (sell_start A i ps) \<and> sale_read h j [] (sell_start A i ps)"
    using sell_start_state [OF assms(1), of i ps] by (auto simp: sell_known_def sale_read_def sell_start_def)
  have "confirmed_sale h j ([] @ tr) r"
    by (rule sell_loop_invariant [where J = "\<lambda>tr v. sell_known h j tr v \<and> sale_read h j tr v" and Q = "confirmed_sale h j",
        OF assms(2) start])
       (use sell_known_loop_step [OF assms(1)] in \<open>blast, simp add: confirmed_sale_def\<close>)
  then show ?thesis
    by simp
qed

lemma sale_run_checkpointed:
  assumes "performs (sell_loop n True A h j v) tr r"
  shows "orders_checkpointed (job_intent j) saved tr"
proof -
  have start: "\<forall>saved. orders_checkpointed (job_intent j) saved []"
    by simp
  have "\<forall>saved. orders_checkpointed (job_intent j) saved ([] @ tr)"
  proof (rule sell_loop_invariant [where J = "\<lambda>tr v. \<forall>saved. orders_checkpointed (job_intent j) saved tr"
        and Q = "\<lambda>tr r. \<forall>saved. orders_checkpointed (job_intent j) saved tr", OF assms start])
    fix tr :: cb_trace and v tr' and x :: sell_outcome
    assume "\<forall>saved. orders_checkpointed (job_intent j) saved tr" and "performs (sell_checkpointed True A h j v) tr' x"
    then have "\<forall>saved. orders_checkpointed (job_intent j) saved (tr @ tr')"
      by (blast intro: checkpointed_append sell_checkpointed_trace)
    then show "case x of Inl r \<Rightarrow> \<forall>saved. orders_checkpointed (job_intent j) saved (tr @ tr')
        | Inr v' \<Rightarrow> \<forall>saved. orders_checkpointed (job_intent j) saved (tr @ tr')"
      by (cases x) simp_all
  qed
  then show ?thesis
    by simp
qed

end
