(* ===== verification/CoinbaseSellCorrect.thy ===== *)
theory CoinbaseSellCorrect
  imports CoinbaseSellRuns
begin

text \<open>
  The protected sale at the exchange.  The run that shows the hypotheses satisfiable sells a whole
  position: protections cleared, account read, order acknowledged and looked up, account flat,
  with a checkpoint before each step.
\<close>

subsection \<open>A run\<close>

definition demo_intent :: OrderIntent where
  "demo_intent =
     \<lparr>OrderIntent.clientOrderId = ''c'', OrderIntent.decisionId = ''d'', OrderIntent.strategyIds = [''s''],
      OrderIntent.productId = ''GRT-USD'', OrderIntent.side = SELL, OrderIntent.order_type = MARKET,
      OrderIntent.quantity = Fin 8, OrderIntent.limitPrice = None\<rparr>"

definition demo_job :: sell_job where
  "demo_job =
     \<lparr>job_settings = demo_settings, job_intent = demo_intent,
      job_permissions = \<lparr>canControl = True, canTrade = True\<rparr>, job_known = [],
      job_policy = \<lparr>sellStopLossBps = Fin 150, sellTakeProfitBps = Fin 300\<rparr>,
      job_increment = fl (1 / 100)\<rparr>"

definition demo_actors :: sell_actors where
  "demo_actors =
     \<lparr>control_init = sc_start liveAccountControlMachine, control_next = control_send,
      sell_init = sc_start liveSellProtectionMachine, sell_next = sell_send,
      sell_restore = (\<lambda>m. m)\<rparr>"

text \<open>The account before the sale.\<close>

definition demo_position :: json where
  "demo_position = JObj [(''breakdown'', JObj
     [(''portfolio'', JObj [(''uuid'', JStr ''f''), (''deleted'', JBool False)]),
      (''portfolio_balances'', JObj [(''total_balance'',
         JObj [(''value'', JStr ''100''), (''currency'', JStr ''USD'')])]),
      (''spot_positions'', JArr [JObj
        [(''asset'', JStr ''GRT''), (''account_uuid'', JStr ''u''), (''total_balance_fiat'', JNum (Fin 0)),
         (''total_balance_crypto'', JNum (Fin 8)), (''available_to_trade_fiat'', JNum (Fin 0)),
         (''available_to_trade_crypto'', JNum (Fin 8)),
         (''average_entry_price'', JObj [(''value'', JStr ''100''), (''currency'', JStr ''USD'')]),
         (''is_cash'', JBool False)]])])]"

definition demo_holding :: CoinbaseAccountSnapshot where
  "demo_holding =
     \<lparr>ca_snapshotId = ''coinbase:f:1'', ca_observedAt = Fin 1000, ca_portfolioId = ''f'',
      ca_portfolio = \<lparr>cash = Fin 0, positionQuantity = Fin 8, averagePrice = Fin 100\<rparr>,
      ca_accountEquity = Fin 100, ca_targetExposureNotional = Fin 0, ca_otherExposureNotional = Fin 100,
      ca_availableBaseQuantity = Fin 8, ca_totalBaseQuantity = Fin 8\<rparr>"

lemma demo_position_read:
  "performs (reconcileCoinbaseAccount demo_host demo_settings ''GRT-USD'')
     (demo_get ''/api/v3/brokerage/portfolios/f'' [] (Response 200 (Some demo_position))) (ok demo_holding)"
proof -
  let ?path = "''/api/v3/brokerage/portfolios/f''"
  have path: "coinbasePortfolioPath (portfolioId demo_settings) = Some ?path"
    by (simp add: coinbasePortfolioPath_def demo_settings_def non_blank_iff js_space_def encodeURIComponent_def
        uri_plain_def)
  have currencies: "productCurrencies ''GRT-USD'' = Some (''GRT'', ''USD'')"
    by (simp add: productCurrencies_def)
  have tol: "\<not> Fin 100 < - ACCOUNT_COMPONENT_TOLERANCE_USD"
    using fl_nonneg [of "1 / 100"] unfolding ACCOUNT_COMPONENT_TOLERANCE_USD_def
    by (cases "fl (1 / 100)") simp_all
  have "\<not> fl x < Fin 8" if "8 \<le> x" for x
    using fl_ge_representable [of 8 x] representable_of_int [of 8] that by (cases "fl x") simp_all
  then have eps: "\<not> Fin 8 + EPSILON * Fin 8 < Fin 8"
    using fl_frac [of 1 49] by (simp add: EPSILON_def)
  have "read_snapshot demo_host demo_settings ''GRT'' ''USD'' (Fin 1000) (Some demo_position) = ok demo_holding"
    by (simp add: read_snapshot_def portfolioBreakdownSchema_def demo_position_def moneySchema_def text_field_def
        string_field_def bool_field_def array_field_def amount_field_def spotPositionSchema_def demo_settings_def
        parseNonNegative_def demo_host_def isFinite_def amount_of_def average_of_def demo_holding_def Let_def tol eps
        js_max_def minus_number_def)
  then show ?thesis
    by (simp add: reconcileCoinbaseAccount_def currencies path read_clock_def demo_get_def credentialToken_def
        fetch_def performs_follow_Cons [OF demo_authorization] ok_def get_request_def status_ok_def)
qed

text \<open>The sale is acknowledged, then looked up.\<close>

definition demo_ack :: json where
  "demo_ack = JObj [(''success'', JBool True), (''success_response'', JObj
     [(''order_id'', JStr ''o''), (''product_id'', JStr ''GRT-USD''), (''side'', JStr ''SELL''),
      (''client_order_id'', JStr ''c'')])]"

definition demo_sold :: json where
  "demo_sold = JObj [(''order'', JObj
     [(''order_id'', JStr ''o''), (''product_id'', JStr ''GRT-USD''), (''client_order_id'', JStr ''c''),
      (''side'', JStr ''SELL''), (''status'', JStr ''FILLED''), (''average_filled_price'', JStr ''100''),
      (''total_fees'', JStr ''8''), (''filled_size'', JStr ''8'')])]"

definition demo_size :: string where
  "demo_size = (case coinbaseBaseSize demo_host ''GRT-USD'' (Fin 8) of None \<Rightarrow> [] | Some sz \<Rightarrow> sz)"

lemma demo_size: "coinbaseBaseSize demo_host ''GRT-USD'' (Fin 8) = Some demo_size"
proof -
  have unit: "baseIncrement ''GRT-USD'' = Some (fl (1 / 100))"
    by (simp add: baseIncrement_def)
  obtain e where e: "fl (1 / 100) = Fin e" "1 / 128 \<le> e" "e \<le> 1"
    using fl_ge_representable [OF representable_frac [of 1 7], of "1 / 100"]
      fl_le_representable [of 1 "1 / 100"] by (cases "fl (1 / 100)") auto
  have bounds: "Fin 8 \<le> fl x" "fl x \<le> Fin 2000" if "8 \<le> x" "x \<le> 2000" for x
    using that fl_ge_representable [of 8 x] fl_le_representable [of 2000 x] representable_of_int [of 8]
      representable_of_int [of 2000] by simp_all
  have "8 * e \<le> 8" "8 \<le> 1024 * e"
    using e by simp_all
  then have "8 \<le> 8 / e" "8 / e \<le> 1024"
    using e by (simp_all add: le_divide_eq divide_le_eq)
  then obtain d where d: "fl (8 / e) = Fin d" "8 \<le> d" "d \<le> 1024"
    using e fl_ge_representable [of 8 "8 / e"] fl_le_representable [of 1024 "8 / e"] representable_of_int [of 8]
      representable_of_int [of 1024]
    by (cases "fl (8 / e)") auto
  obtain t where t: "fl (1 / 1000000000) = Fin t" "0 \<le> t" "t \<le> 1"
    using fl_nonneg [of "1 / 1000000000"] fl_le_representable [of 1 "1 / 1000000000"]
    by (cases "fl (1 / 1000000000)") auto
  obtain u where u: "Fin d + Fin t = Fin u" "8 \<le> u"
    using bounds [of "d + t"] d t by (cases "fl (d + t)") auto
  have "decimalString demo_host (fl (1 / 100)) = Some ''1''"
    using e by (simp add: decimalString_def demo_host_def isFinite_def)
  then have "coinbaseBaseSize demo_host ''GRT-USD'' (Fin 8) \<noteq> None"
    using u e(2) by (auto simp: coinbaseBaseSize_def unit Let_def e(1) d(1) t(1) le_floor_iff)
  then show ?thesis
    by (auto simp: demo_size_def)
qed

definition demo_post :: cb_trace where
  "demo_post =
     [(ReadClock, Time (Fin 1000)), (SignJwt POST ''api'' COINBASE_CREATE_ORDER_PATH (Fin 1), Token (Some ''t'')),
      (ReadClock, Time (Fin 1000)),
      (Fetch (post_request COINBASE_CREATE_ORDER_PATH ''t'' (order_body demo_intent demo_size None)),
       Reply (Response 200 (Some demo_ack)))]"

lemma demo_path: "take 1 COINBASE_CREATE_ORDER_PATH = ''/''" "CHR ''?'' \<notin> set COINBASE_CREATE_ORDER_PATH"
  "CHR ''#'' \<notin> set COINBASE_CREATE_ORDER_PATH"
  by (simp_all add: COINBASE_CREATE_ORDER_PATH_def)

lemma demo_submitted:
  "performs (submit_sale demo_host demo_job) demo_post
     (ok (UNKNOWN (Some ''o'') (executionError OrderOutcomeUnknownCode True)))"
proof -
  have "read_submission demo_intent (Response 200 (Some demo_ack)) =
      UNKNOWN (Some ''o'') (executionError OrderOutcomeUnknownCode True)"
    by (simp add: read_submission_def status_ok_def read_acknowledgement_def createOrderResponseSchema_def demo_ack_def
        bool_field_def text_field_def string_field_def side_field_def demo_intent_def)
  moreover have "OrderIntent.productId demo_intent = ''GRT-USD''" "quantity demo_intent = Fin 8" "side demo_intent = SELL"
    by (simp_all add: demo_intent_def)
  ultimately show ?thesis
    by (simp add: submit_sale_def demo_post_def createCoinbaseAuthorization_def demo_job_def read_clock_def
        performs_follow_Cons [OF demo_authorization [OF demo_path]] ok_def submitCoinbaseOrder_def credentialFor_def
        send_order_def demo_size fetch_def)
qed


definition demo_lookup :: cb_trace where
  "demo_lookup =
     [(ReadClock, Time (Fin 1000)),
      (SignJwt GET ''api'' (COINBASE_CREATE_ORDER_PATH @ ''/historical/o'') (Fin 1), Token (Some ''t'')),
      (ReadClock, Time (Fin 1000)),
      (Fetch (get_request (COINBASE_CREATE_ORDER_PATH @ ''/historical/o'') ''t''),
       Reply (Response 200 (Some demo_sold)))]"

definition demo_fill :: Fill where
  "demo_fill =
     \<lparr>fillId = ''coinbase:o'', fill_clientOrderId = ''c'', Fill.exchangeOrderId = ''o'', price = Fin 100,
      fill_quantity = Fin 8, fee = Fin 8, executedAt = Fin 1000\<rparr>"

definition demo_confirmed :: ConfirmedOrderSubmission where
  "demo_confirmed =
     \<lparr>co_exchangeOrderId = ''o'',
      co_portfolio = \<lparr>cash = Fin 792, positionQuantity = Fin 0, averagePrice = Fin 0\<rparr>,
      co_fill = Some demo_fill, co_protectiveOrderId = None\<rparr>"

lemma demo_looked_up:
  "performs (lookup_sale demo_actors demo_host demo_job v demo_holding ''o'') demo_lookup
     (advance demo_actors (v\<lparr>sv_submission := Some demo_confirmed\<rparr>) (SELL_CONFIRMED ''o''))"
proof -
  let ?path = "COINBASE_CREATE_ORDER_PATH @ ''/historical/o''"
  have path: "coinbaseOrderPath ''o'' = Some ?path"
    by (simp add: coinbaseOrderPath_def non_blank_iff js_space_def encodeURIComponent_def uri_plain_def)
  obtain u where u: "Fin 1 + EPSILON * Fin 8 = Fin u" "1 \<le> u" "u \<le> 2"
    using fl_frac [of 1 49] fl_ge_representable [of 1 "1 + 1 / 562949953421312"]
      fl_le_representable [of 2 "1 + 1 / 562949953421312"] representable_of_int [of 2]
    by (cases "fl (1 + 1 / 562949953421312)") (auto simp: EPSILON_def)
  then have "Fin 8 * (Fin 1 + EPSILON * Fin 8) < Fin 8 \<longleftrightarrow> False"
    using fl_ge_representable [of 8 "8 * u"] representable_of_int [of 8] by (cases "fl (8 * u)") auto
  then have "read_order demo_host demo_intent ''o'' (ca_portfolio demo_holding) False (Fin 1000) (Some demo_sold) =
      ok (LOOKUP_CONFIRMED demo_confirmed)"
    by (simp add: read_order_def getOrderResponseSchema_def orderSchema_def demo_sold_def text_field_def string_field_def
        side_field_def ORDER_STATUSES_def optional_field_def demo_intent_def TERMINAL_STATUSES_def parseFinite_def
        demo_host_def isFinite_def applyCoinbaseFill_def createFill_def fill_time_def demo_confirmed_def demo_fill_def
        demo_holding_def isNonEmpty_def isPositiveFinite_def isSafeInteger_def fill_average_def math_sign_def
        minus_number_def js_space_def non_blank_iff)
  moreover have "take 1 ?path = ''/''" "CHR ''?'' \<notin> set ?path" "CHR ''#'' \<notin> set ?path"
    by (simp_all add: COINBASE_CREATE_ORDER_PATH_def)
  note authorize = performs_follow_Cons [OF demo_authorization [OF this]]
  ultimately show ?thesis
    by (simp add: lookup_sale_def path demo_job_def createCoinbaseAuthorization_def read_clock_def demo_lookup_def
        authorize getCoinbaseOrder_def authorized_get_def credentialFor_def fetch_def status_ok_def ok_def)
qed


abbreviation demo_listed :: cb_trace where
  "demo_listed \<equiv> demo_get COINBASE_LIST_ORDERS_PATH (list_query ''GRT-USD'' None) (Response 200 (Some demo_orders))"

abbreviation demo_saved :: "sell_vars \<Rightarrow> cb_trace" where
  "demo_saved v \<equiv> [(SaveCheckpoint (checkpoint_of v), Saved None)]"

text \<open>The variables of the loop, numbered from 2, and the run.\<close>

definition demo_vars :: "nat \<Rightarrow> sell_vars" where
  "demo_vars n =
     (let sell = (\<lambda>v e. v\<lparr>sv_machine := sell_send (sv_machine v) e\<rparr>);
          v0 = sell_start demo_actors demo_intent (job_permissions demo_job);
          v1 = sell v0 PROTECTIONS_CLEARED;
          v2 = sell (v1\<lparr>sv_account := Some demo_holding\<rparr>) (sell_account_event (fl (1 / 100)) demo_holding);
          v3 = sell v2 (SELL_OUTCOME_UNKNOWN (Some ''o''));
          v4 = sell (v3\<lparr>sv_submission := Some demo_confirmed\<rparr>) (SELL_CONFIRMED ''o'');
          v5 = sell (v4\<lparr>sv_account := Some demo_snapshot\<rparr>) (sell_account_event (fl (1 / 100)) demo_snapshot)
      in [v0, v1, v2, v3, v4, v5] ! (n - 2))"

definition demo_sale_trace :: cb_trace where
  "demo_sale_trace =
     demo_saved (demo_vars 2) @ demo_listed @
     demo_saved (demo_vars 3) @ demo_get ''/api/v3/brokerage/portfolios/f'' [] (Response 200 (Some demo_position)) @
     demo_saved (demo_vars 4) @ demo_post @
     demo_saved (demo_vars 5) @ demo_lookup @
     demo_saved (demo_vars 6) @ demo_get ''/api/v3/brokerage/portfolios/f'' [] (Response 200 (Some demo_account)) @
     demo_saved (demo_vars 7)"

definition demo_result :: OrderSubmission where
  "demo_result = CONFIRMED ''o'' (ca_portfolio demo_snapshot) (Some demo_fill) None (Some (Fin 100))
     (Some (Fin 100)) (Some (Fin 1000))"

lemma demo_machine:
  "fst (sv_machine (demo_vars 2)) = sellState.CancellingProtections"
  "fst (sv_machine (demo_vars 3)) = sellState.ReconcilingBeforeSell"
  "fst (sv_machine (demo_vars 4)) = sellState.SubmittingSell"
  "fst (sv_machine (demo_vars 5)) = sellState.ReconcilingSell"
  "LiveSellProtectionContext.exchangeOrderId (snd (sv_machine (demo_vars 5))) = Some ''o''"
  "fst (sv_machine (demo_vars 6)) = sellState.ReconcilingResidual"
  "fst (sv_machine (demo_vars 7)) = sellState.Completed"
  "outcome (snd (sv_machine (demo_vars 7))) = SOLD_FLAT"
  "LiveSellProtectionContext.protectiveOrderId (snd (sv_machine (demo_vars 7))) = None"
proof -
  obtain e where e: "fl (1 / 100) = Fin e" "1 / 128 \<le> e" "e \<le> 1"
    using fl_ge_representable [OF representable_frac [of 1 7], of "1 / 100"]
      fl_le_representable [of 1 "1 / 100"] by (cases "fl (1 / 100)") auto
  have more: "Fin 8 \<le> Fin 8 + Fin e" "Fin 0 \<le> Fin 0 + Fin e"
    using fl_ge_representable [of 8 "8 + e"] fl_nonneg [of e] representable_of_int [of 8] e by simp_all
  note eval = demo_vars_def Let_def sell_start_def demo_actors_def demo_intent_def demo_job_def
    sell_account_event_def demo_holding_def demo_snapshot_def sell_eval e(1)
  show "fst (sv_machine (demo_vars 2)) = sellState.CancellingProtections"
    by (simp add: eval)
  show "fst (sv_machine (demo_vars 3)) = sellState.ReconcilingBeforeSell"
    by (simp add: eval)
  show "fst (sv_machine (demo_vars 4)) = sellState.SubmittingSell"
    using e more by (simp add: eval)
  show "fst (sv_machine (demo_vars 5)) = sellState.ReconcilingSell"
    "LiveSellProtectionContext.exchangeOrderId (snd (sv_machine (demo_vars 5))) = Some ''o''"
    using e more by (simp_all add: eval)
  show "fst (sv_machine (demo_vars 6)) = sellState.ReconcilingResidual"
    using e more by (simp add: eval)
  show "fst (sv_machine (demo_vars 7)) = sellState.Completed"
    "outcome (snd (sv_machine (demo_vars 7))) = SOLD_FLAT"
    "LiveSellProtectionContext.protectiveOrderId (snd (sv_machine (demo_vars 7))) = None"
    using e more by (simp_all add: eval)
qed


lemma demo_step:
  "performs (sell_step A h j v) tr x \<Longrightarrow> performs (sell_checkpointed True A h j v) (demo_saved v @ tr) x"
  by (simp add: sell_checkpointed_def save_checkpoint_def)

lemma demo_moves:
  "demo_vars 3 = (demo_vars 2)\<lparr>sv_machine := sell_send (sv_machine (demo_vars 2)) PROTECTIONS_CLEARED\<rparr>"
  "demo_vars 4 = (demo_vars 3)\<lparr>sv_account := Some demo_holding,
     sv_machine := sell_send (sv_machine (demo_vars 3)) (sell_account_event (fl (1 / 100)) demo_holding)\<rparr>"
  "demo_vars 5 = (demo_vars 4)
     \<lparr>sv_machine := sell_send (sv_machine (demo_vars 4)) (SELL_OUTCOME_UNKNOWN (Some ''o''))\<rparr>"
  "demo_vars 6 = (demo_vars 5)\<lparr>sv_submission := Some demo_confirmed,
     sv_machine := sell_send (sv_machine (demo_vars 5)) (SELL_CONFIRMED ''o'')\<rparr>"
  "demo_vars 7 = (demo_vars 6)\<lparr>sv_account := Some demo_snapshot,
     sv_machine := sell_send (sv_machine (demo_vars 6)) (sell_account_event (fl (1 / 100)) demo_snapshot)\<rparr>"
  "sv_account (demo_vars 5) = Some demo_holding" "sv_account (demo_vars 7) = Some demo_snapshot"
  "sv_submission (demo_vars 7) = Some demo_confirmed"
  by (simp_all add: demo_vars_def Let_def)

lemma demo_steps:
  "performs (sell_step demo_actors demo_host demo_job (demo_vars 2)) demo_listed (Inr (demo_vars 3))"
  "performs (sell_step demo_actors demo_host demo_job (demo_vars 3))
     (demo_get ''/api/v3/brokerage/portfolios/f'' [] (Response 200 (Some demo_position))) (Inr (demo_vars 4))"
  "performs (sell_step demo_actors demo_host demo_job (demo_vars 4)) demo_post (Inr (demo_vars 5))"
  "performs (sell_step demo_actors demo_host demo_job (demo_vars 5)) demo_lookup (Inr (demo_vars 6))"
  "performs (sell_step demo_actors demo_host demo_job (demo_vars 6))
     (demo_get ''/api/v3/brokerage/portfolios/f'' [] (Response 200 (Some demo_account))) (Inr (demo_vars 7))"
  "performs (sell_step demo_actors demo_host demo_job (demo_vars 7)) [] (Inl (Some demo_result))"
proof -
  have parts: "job_settings demo_job = demo_settings" "OrderIntent.productId (job_intent demo_job) = ''GRT-USD''"
    "job_increment demo_job = fl (1 / 100)" "job_known demo_job = []" "sell_next demo_actors = sell_send"
    by (simp_all add: demo_job_def demo_intent_def demo_actors_def)
  have cleared: "performs (clearCoinbaseOwnedProtections demo_host demo_settings ''GRT-USD'' []) demo_listed (ok ())"
    unfolding clearCoinbaseOwnedProtections_def
    by (subst append_Nil2 [symmetric], rule performs_followI [OF demo_listing(1)])
       (simp add: ok_def cancel_and_confirm_def)
  note step = sell_step_def demo_machine advance_def parts performs_follow_Done Let_def
  show "performs (sell_step demo_actors demo_host demo_job (demo_vars 2)) demo_listed (Inr (demo_vars 3))"
    by (simp add: step sell_clear_def demo_moves(1)) (rule exI, rule conjI, rule cleared, simp add: ok_def step)
  show "performs (sell_step demo_actors demo_host demo_job (demo_vars 3))
     (demo_get ''/api/v3/brokerage/portfolios/f'' [] (Response 200 (Some demo_position))) (Inr (demo_vars 4))"
    by (simp add: step sell_reconcile_def demo_moves(2))
       (rule exI, rule conjI, rule demo_position_read, simp add: ok_def step)
  show "performs (sell_step demo_actors demo_host demo_job (demo_vars 4)) demo_post (Inr (demo_vars 5))"
    by (simp add: step sell_submit_def demo_moves(3))
       (rule exI, rule conjI, rule demo_submitted, simp add: ok_def step)
  show "performs (sell_step demo_actors demo_host demo_job (demo_vars 5)) demo_lookup (Inr (demo_vars 6))"
    using demo_looked_up [of "demo_vars 5"] by (simp add: step sell_resolve_def demo_moves(4,6))
  show "performs (sell_step demo_actors demo_host demo_job (demo_vars 6))
     (demo_get ''/api/v3/brokerage/portfolios/f'' [] (Response 200 (Some demo_account))) (Inr (demo_vars 7))"
    by (simp add: step sell_reconcile_def demo_moves(5))
       (rule exI, rule conjI, rule demo_account_read, simp add: ok_def step)
  have "outcome (snd (sv_machine (demo_vars 7))) \<noteq> LiveSellProtectionOutcome.NO_SELL_NEEDED"
    by (simp add: demo_machine(8))
  then show "performs (sell_step demo_actors demo_host demo_job (demo_vars 7)) [] (Inl (Some demo_result))"
    by (simp add: step sell_completed_def demo_moves(7,8) demo_result_def demo_confirmed_def)
       (simp add: demo_snapshot_def)
qed

lemma demo_sale:
  "performs (executeCoinbaseProtectedSell demo_actors demo_host demo_settings demo_intent (job_permissions demo_job) []
     (job_policy demo_job) (Some None)) demo_sale_trace (Some demo_result)"
proof -
  have steps: "MAX_CONTROL_STEPS = Suc (Suc (Suc (Suc (Suc (Suc 58)))))"
    by (simp add: MAX_CONTROL_STEPS_def)
  have start: "sell_start demo_actors demo_intent (job_permissions demo_job) = demo_vars 2"
    by (simp add: demo_vars_def Let_def)
  let ?step = "sell_checkpointed True demo_actors demo_host demo_job"
  note on = repeat_next [where step = ?step] and last = repeat_end [where step = ?step]
  note s = demo_steps [THEN demo_step]
  have "performs (sell_loop MAX_CONTROL_STEPS True demo_actors demo_host demo_job (demo_vars 2)) demo_sale_trace
      (Some demo_result)"
    unfolding sell_loop_def steps demo_sale_trace_def
    by (rule on [OF s(1) on [OF s(2) on [OF s(3) on [OF s(4) on [OF s(5) last [OF s(6)]]]]],
          simplified append_assoc append_Nil2])
  moreover have "\<not> invalid_sale demo_intent (job_policy demo_job)"
    by (simp add: invalid_sale_def demo_intent_def demo_job_def isFinite_def)
  moreover have "baseIncrement (OrderIntent.productId demo_intent) = Some (fl (1 / 100))"
    by (simp add: baseIncrement_def demo_intent_def)
  ultimately show ?thesis
    unfolding start [symmetric]
    by (simp add: executeCoinbaseProtectedSell_def sell_start_def demo_job_def)
qed

lemma demo_runtime: "sell_runtime_ok demo_actors"
  by (simp add: sell_runtime_ok_def demo_actors_def control.runtime_sc sell.runtime_sc)

subsection \<open>Properties\<close>





text \<open>C10: with a port of persistence, no order leaves before the checkpoint of the state that sends
  it is saved: at every order the last checkpoint was saved, and it is of the state the order belongs
  to: a sale of the intent of the states that submit or resolve it, the bracket of the residual of
  the state that arms it, and any other order of the safety kill.  This holds of a restored sale
  too.\<close>

theorem protected_sale_checkpointed:
  assumes "performs (executeCoinbaseProtectedSell A h s i ps known policy (Some restored)) tr r"
  shows "orders_checkpointed i None tr"
proof -
  have run: "orders_checkpointed (job_intent j) None tr" if "performs (sell_loop n True A h j v) tr r" for n j v
    using that by (rule sale_run_checkpointed)
  show ?thesis
    using assms unfolding executeCoinbaseProtectedSell_def
    by (auto simp: Let_def dest!: run split: if_splits option.splits)
qed

theorem protected_sale_checkpointed_witness:
  "orders_checkpointed demo_intent None demo_sale_trace \<and> orders demo_sale_trace \<noteq> []"
proof -
  have "orders demo_sale_trace \<noteq> []"
    by (simp add: demo_sale_trace_def demo_trace_simps demo_post_def demo_lookup_def get_request_def post_request_def)
  then show ?thesis
    using protected_sale_checkpointed [OF demo_sale] by simp
qed

text \<open>C11: the limit of 64 steps of a protected sale is never reached: whatever the state it starts
  from, the loop with 64 steps is the loop with ten.\<close>

theorem protected_sale_terminates:
  assumes "xstate_runtime liveSellProtectionMachine (sell_init A) (sell_next A)"
  shows "sell_loop MAX_CONTROL_STEPS persistent A h j v = sell_loop 10 persistent A h j v"
proof -
  have A: "sell_next A = sell_send"
    using assms by (rule sell_runtime)
  have "sell_rank (fst (sv_machine v)) \<le> 9"
    by (cases "fst (sv_machine v)") simp_all
  then show ?thesis
    unfolding sell_loop_def MAX_CONTROL_STEPS_def
    by (intro repeat_fuel [where R = "\<lambda>v. sell_rank (fst (sv_machine v))"]) (simp_all add: sell_step_descends [OF A])
qed

theorem protected_sale_terminates_witness:
  "sell_loop MAX_CONTROL_STEPS True demo_actors demo_host demo_job (demo_vars 2) =
   sell_loop 10 True demo_actors demo_host demo_job (demo_vars 2)"
  using protected_sale_terminates [of demo_actors] demo_runtime by (simp add: sell_runtime_ok_def)

end
