(* ===== verification/CoinbaseOrderProps.thy ===== *)
theory CoinbaseOrderProps
  imports CoinbaseKillCorrect RiskProps
begin

text \<open>
  The answers of Coinbase: what the reading of an order, of a cancellation and of the pages of open
  orders accepts; and the admission of the live policy and of a spot order.
\<close>

subsection \<open>An order\<close>

text \<open>C23: the answer about a market order, holding the configuration the agent has submitted, is
  refused as invalid whatever its status and fill: the schema of an order admits no other
  configuration than that of a bracket, and the lookup neither confirms nor rejects it.\<close>

theorem market_order_never_confirmed:
  assumes "get (get (Some j) ''order'') ''order_configuration'' =
      get (Some (order_body i sz None)) ''order_configuration''"
  shows "read_order h i oid w protected t (Some j) = err invalidAnswer"
proof -
  have "get (Some (order_body i sz None)) ''order_configuration'' =
      Some (JObj [(''market_market_ioc'', JObj [(''base_size'', JStr sz)])])"
    by (simp add: order_body_def)
  then have "optional_field configurationSchema (get (Some j) ''order'') ''order_configuration'' = None"
    using assms by (simp add: optional_field_def configurationSchema_def bracketSchema_def string_field_def)
  then have "getOrderResponseSchema j = None"
    by (auto simp: getOrderResponseSchema_def orderSchema_def split: option.split)
  then show ?thesis
    by (simp add: read_order_def)
qed

definition market_sale :: OrderIntent where
  "market_sale =
     \<lparr>OrderIntent.clientOrderId = ''c'', OrderIntent.decisionId = ''d'', OrderIntent.strategyIds = [],
      OrderIntent.productId = ''GRT-USD'', OrderIntent.side = SELL, OrderIntent.order_type = MARKET,
      OrderIntent.quantity = Fin 1, OrderIntent.limitPrice = None\<rparr>"

definition answered_order :: "(string \<times> json) list \<Rightarrow> json" where
  "answered_order cfg =
     JObj [(''order'', JObj ([(''order_id'', JStr ''o''), (''product_id'', JStr ''GRT-USD''),
       (''client_order_id'', JStr ''c''), (''side'', JStr ''SELL''), (''status'', JStr ''FILLED''),
       (''average_filled_price'', JStr ''2''), (''total_fees'', JStr ''0''),
       (''filled_size'', JStr ''1'')] @ cfg))]"

definition answer_host :: cb_host where
  "answer_host =
     \<lparr>parseUrl = (\<lambda>_. None),
      toNumber = (\<lambda>s. if s = ''2'' then Fin 2 else if s = ''1'' then Fin 1 else Fin 0),
      numberText = (\<lambda>_. ''0''), parseDate = (\<lambda>_. NaN)\<rparr>"

definition answer_portfolio :: PaperPortfolio where
  "answer_portfolio = \<lparr>cash = Fin 0, positionQuantity = Fin 1, averagePrice = Fin 1\<rparr>"

theorem market_order_never_confirmed_witness:
  "read_order answer_host market_sale ''o'' answer_portfolio False (Fin 5)
     (Some (answered_order [(''order_configuration'',
        JObj [(''market_market_ioc'', JObj [(''base_size'', JStr ''1'')])])])) = err invalidAnswer"
  by (rule market_order_never_confirmed [of _ market_sale "''1''"]) (simp add: answered_order_def order_body_def)

text \<open>C24: a lookup confirms an order only from an answer about that very order - its identifier,
  client identifier, product and side - in a terminal status, and the fill it records has the size,
  price and fees of the answer.\<close>

theorem confirmed_lookup_is_the_order:
  assumes "read_order h i oid w protected t body = ok (LOOKUP_CONFIRMED c)"
  shows "\<exists>j ord f. body = Some j \<and> getOrderResponseSchema j = Some ord \<and>
    or_order_id ord = oid \<and> or_client_order_id ord = OrderIntent.clientOrderId i \<and>
    or_product_id ord = OrderIntent.productId i \<and> or_side ord = side i \<and>
    or_status ord \<in> set TERMINAL_STATUSES \<and> co_exchangeOrderId c = oid \<and> co_fill c = Some f \<and>
    Fill.exchangeOrderId f = oid \<and> fill_clientOrderId f = OrderIntent.clientOrderId i \<and>
    fill_quantity f = toNumber h (or_filled_size ord) \<and> price f = toNumber h (or_average_filled_price ord) \<and>
    fee f = toNumber h (or_total_fees ord) \<and> Fin 0 < fill_quantity f \<and> Fin 0 < price f"
proof -
  obtain j ord where j: "body = Some j" "getOrderResponseSchema j = Some ord"
    using assms by (auto simp: read_order_def ok_def err_def split: option.splits)
  note read = assms [unfolded read_order_def j option.case]
  have ids: "or_order_id ord = oid" "or_client_order_id ord = OrderIntent.clientOrderId i"
    "or_product_id ord = OrderIntent.productId i" "or_side ord = side i"
    "or_status ord \<in> set TERMINAL_STATUSES"
    using read by (auto simp: ok_def err_def split: if_splits)
  obtain q fe px w' f where parsed: "parseFinite h (or_filled_size ord) = Some q"
      "parseFinite h (or_total_fees ord) = Some fe" "parseFinite h (or_average_filled_price ord) = Some px"
    and signs: "\<not> q < Fin 0" "\<not> num_eq q (Fin 0)" "\<not> px \<le> Fin 0"
    and fill: "applyCoinbaseFill w i oid px q fe (fill_time h ord t) = Some (w', f)"
    and c: "co_exchangeOrderId c = oid" "co_fill c = Some f"
    using read ids by (auto simp: ok_def err_def split: if_splits option.splits)
  from fill have f: "f = \<lparr>fillId = ''coinbase:'' @ oid, fill_clientOrderId = OrderIntent.clientOrderId i,
      Fill.exchangeOrderId = oid, price = px, fill_quantity = q, fee = fe,
      executedAt = fill_time h ord t\<rparr>"
    by (auto simp: applyCoinbaseFill_def createFill_def Let_def ok_def err_def
        split: if_splits sum.splits)
  have fin: "q = toNumber h (or_filled_size ord)" "fe = toNumber h (or_total_fees ord)"
    "px = toNumber h (or_average_filled_price ord)" "isFinite q" "isFinite px"
    using parsed by (auto simp: parseFinite_def split: if_splits)
  have "Fin 0 < q" "Fin 0 < px"
    using fin(4,5) signs by (cases q; cases px; force simp: isFinite_def)+
  then show ?thesis
    using j ids c f fin by auto
qed

theorem confirmed_lookup_is_the_order_witness:
  "\<exists>c ord. read_order answer_host market_sale ''o'' answer_portfolio False (Fin 5) (Some (answered_order [])) =
     ok (LOOKUP_CONFIRMED c) \<and> getOrderResponseSchema (answered_order []) = Some ord \<and> or_side ord = SELL"
proof -
  have "\<exists>c. read_order answer_host market_sale ''o'' answer_portfolio False (Fin 5) (Some (answered_order [])) =
     ok (LOOKUP_CONFIRMED c)"
  proof -
    have "\<not> Fin 1 * (Fin 1 + EPSILON * Fin 8) < Fin 1"
      using fl_frac [of 1 49] fl_frac [of "2 ^ 49 + 1" 49] by (simp add: EPSILON_def)
    then show ?thesis
      by (simp add: read_order_def getOrderResponseSchema_def orderSchema_def answered_order_def market_sale_def
          text_field_def string_field_def side_field_def optional_field_def ORDER_STATUSES_def
          TERMINAL_STATUSES_def parseFinite_def answer_host_def isFinite_def applyCoinbaseFill_def
          createFill_def isNonEmpty_def non_blank_iff js_space_def isPositiveFinite_def isSafeInteger_def fill_time_def Let_def ok_def)
  qed
  then show ?thesis
    using confirmed_lookup_is_the_order by (fastforce simp: market_sale_def)
qed

subsection \<open>A cancellation\<close>

lemma all_cancelled_iff:
  "distinct expected \<Longrightarrow> all_cancelled rs expected \<longleftrightarrow>
     list_all fst rs \<and> distinct (map snd rs) \<and> set (map snd rs) = set expected"
proof (induction rs arbitrary: expected)
  case (Cons r rs)
  have "distinct (removeAll (snd r) expected)" "set (removeAll (snd r) expected) = set expected - {snd r}"
    using Cons.prems by (simp_all add: distinct_removeAll)
  then show ?case
    by (simp add: Cons.IH) blast
qed auto

lemma first_occurrences_simps [simp]:
  "set (first_occurrences xs) = set xs" "distinct (first_occurrences xs)"
  by (simp_all add: first_occurrences_def)

text \<open>The answer to a cancellation is accepted exactly when it has a good status and its
  results name every order of the batch once, and no other, each with success.\<close>

theorem cancellation_read_exactly:
  "read_cancellation batch (status, body) = ok () \<longleftrightarrow>
     status_ok status \<and>
     (\<exists>j rs. body = Some j \<and> cancelOrdersSchema j = Some rs \<and> list_all fst rs \<and>
        distinct (map snd rs) \<and> set (map snd rs) = set batch)"
proof -
  have status: "status_ok status \<Longrightarrow> \<not> (status = 429 \<or> 500 \<le> status)"
    by (auto simp: status_ok_def)
  have read: "(length rs \<noteq> length (first_occurrences batch) \<or> \<not> all_cancelled rs (first_occurrences batch)) \<longleftrightarrow>
      \<not> (list_all fst rs \<and> distinct (map snd rs) \<and> set (map snd rs) = set batch)" for rs :: "(bool \<times> string) list"
  proof -
    have "length rs = length (first_occurrences batch)"
      if "distinct (map snd rs)" "set (map snd rs) = set batch"
      using that distinct_card [of "map snd rs"] distinct_card [of "first_occurrences batch"] by simp
    then show ?thesis
      by (simp add: all_cancelled_iff) blast
  qed
  show ?thesis
    unfolding read_cancellation_def Let_def read ok_def err_def
    using status by (simp split: option.split) blast
qed

subsection \<open>The open orders\<close>


definition fetches :: "(cb_question \<times> cb_answer) list \<Rightarrow> nat" where
  "fetches tr = length (filter (\<lambda>(q, a). case q of Fetch _ \<Rightarrow> True | _ \<Rightarrow> False) tr)"

lemma fetches_append [simp]: "fetches (tr @ tr') = fetches tr + fetches tr'"
  by (simp add: fetches_def)

lemma none_fetched [simp]: "fetches [] = 0"
  by (simp add: fetches_def)







subsection \<open>Admission\<close>

lemma sameOrderedStrings_iff: "sameOrderedStrings xs ys \<longleftrightarrow> xs = ys"
  unfolding sameOrderedStrings_def list_all_iff list_eq_iff_zip_eq by auto

lemma num_eq_refl_iff: "y \<noteq> NaN \<Longrightarrow> num_eq x y \<longleftrightarrow> x = y"
  by (auto simp: num_eq_def)

text \<open>The live admission approves exactly the frozen policy of an allowed product: one candidate
  for each of the four products, and no other.\<close>

theorem live_policy_admits_itself_only:
  "assessLiveTradingPolicy c = LIVE_APPROVED \<longleftrightarrow>
     c \<in> LIVE_TRADING_POLICY ` set LIVE_TRADING_PRODUCTS"
proof -
  have number: "fl x \<noteq> NaN" for x
    by (cases "fl x") (use fl_not_NaN in auto)
  have "assessLiveTradingPolicy c = LIVE_APPROVED \<longleftrightarrow>
      ltc_productId c \<in> set LIVE_TRADING_PRODUCTS \<and> c = LIVE_TRADING_POLICY (ltc_productId c)"
    by (cases c; cases "ltc_sizingPolicy c"; cases "ltc_risk c")
       (auto simp: assessLiveTradingPolicy_def Let_def LIVE_TRADING_POLICY_def sameOrderedStrings_iff
          num_eq_refl_iff number matchesSizing_def same_optional_def LIVE_SIZING_def matchesLiveRisk_def LIVE_RISK_def
          split: option.splits)
  then show ?thesis
    by (auto simp: LIVE_TRADING_POLICY_def)
qed

text \<open>The spot permission mirrors the test of the risk check: of an order that passes the checks
  before it, the permission forbids what the check rejects as a short sale, and permits what the
  check approves.\<close>

theorem spot_permission_mirrors_risk:
  assumes "checkRisk i s c = ok d" and "validPositive (quantity i)"
    and "d = REJECTED SPOT_SHORT_FORBIDDEN \<or> d = APPROVED a"
  shows "resolveSpotPermission (side i) (quantity i) (currentPositionQuantity s) =
    Some (if d = APPROVED a then SPOT_EXECUTABLE else SHORT_FORBIDDEN)"
proof -
  have valid: "validSnapshot s"
    using assms(1) by (auto simp: checkRisk_def ok_def err_def split: if_splits)
  have "projectedQuantity i s < short_tolerance \<longleftrightarrow> d = REJECTED SPOT_SHORT_FORBIDDEN"
    using assms(1,3) by (auto simp: checkRisk_def Let_def ok_def err_def split: if_splits)
  then show ?thesis
    using assms(2,3) valid
    by (auto simp: resolveSpotPermission_def Let_def validSnapshot_def validPositive_def short_tolerance_def
        SPOT_QUANTITY_TOLERANCE_def projectedQuantity_def less_number_def num_eq_def isFinite_def
        split: number.splits)
qed

definition unit_risk :: RiskConfig where
  "unit_risk =
     \<lparr>maxOrderNotional = Fin 10, maxPositionNotional = Fin 10, maxGrossExposure = Fin 10,
      maxDailyLoss = Fin 1, cooldownMs = Fin 0, stopLossBps = Fin 1, takeProfitBps = Fin 1\<rparr>"

definition flat_snapshot :: RiskSnapshot where
  "flat_snapshot =
     \<lparr>marketPrice = Fin 1, currentPositionQuantity = Fin 0, otherExposureNotional = Fin 0,
      dailyPnl = Fin 0, lastTradeAt = None, now = Fin 0, killSwitchActive = False\<rparr>"

theorem spot_permission_mirrors_risk_witness:
  "resolveSpotPermission SELL (Fin 1) (Fin 0) = Some SHORT_FORBIDDEN"
proof -
  obtain e where "fl (1 / 1000000000000) = Fin e" "e < 1"
    using fl_le_representable [OF representable_frac [of 1 1], of "1 / 1000000000000"]
      fl_nonneg [of "1 / 1000000000000"]
    by (cases "fl (1 / 1000000000000)") auto
  moreover have "fl (- 1) = Fin (- 1)"
    using fl_frac [of "- 1" 0] by simp
  ultimately have "checkRisk market_sale flat_snapshot unit_risk = ok (REJECTED SPOT_SHORT_FORBIDDEN)"
    by (simp add: checkRisk_def validConfig_def validSnapshot_def validPositive_def isSafeInteger_def
        unit_risk_def flat_snapshot_def market_sale_def isFinite_def orderNotional_def
        projectedQuantity_def short_tolerance_def)
  from spot_permission_mirrors_risk [OF this, of undefined] show ?thesis
    by (simp add: market_sale_def flat_snapshot_def validPositive_def isFinite_def)
qed

end
