(* ===== verification/ExecutionResolution.thy ===== *)
theory ExecutionResolution
  imports Domain
begin

text \<open>
  Which execution candles belong to a decision candle, \<^verbatim>\<open>models/execution-resolution.ts\<close>
  over \<^verbatim>\<open>models/execution-resolution.types.ts\<close>.
\<close>

record ExecutionScheduleBucket =
  primaryCandle :: Candle
  executionCandles :: "Candle list"

record ExecutionSchedule =
  resolutionRatio :: number
  buckets :: "ExecutionScheduleBucket list"

datatype ExecutionScheduleErrorCode =
  EMPTY_PRIMARY_SERIES
| INSUFFICIENT_PRIMARY_CANDLES
| INSUFFICIENT_EXECUTION_CANDLES
| NON_UNIFORM_PRIMARY_INTERVAL
| NON_UNIFORM_EXECUTION_INTERVAL
| INVALID_EXECUTION_RATIO
| MISALIGNED_EXECUTION_RANGE
| EXECUTION_AGGREGATION_MISMATCH

definition closeEnough :: "number \<Rightarrow> number \<Rightarrow> bool" where
  "closeEnough x y \<longleftrightarrow> \<bar>x - y\<bar> \<le> js_max (js_max (Fin 1) \<bar>x\<bar>) \<bar>y\<bar> * EPSILON * Fin 64"

fun follows_by :: "number \<Rightarrow> Candle list \<Rightarrow> bool" where
  "follows_by d (p # c # cs) \<longleftrightarrow> num_eq (start c) (start p + d) \<and> follows_by d (c # cs)"
| "follows_by d cs \<longleftrightarrow> True"

definition uniformInterval :: "Candle list \<Rightarrow> number option" where
  "uniformInterval cs =
     (case cs of
        x # y # _ \<Rightarrow>
          let d = start y - start x
          in if \<not> isSafeInteger d \<or> d \<le> Fin 0 then None
             else if follows_by d cs then Some d else None
      | _ \<Rightarrow> None)"

text \<open>\<open>Math.max(...xs)\<close> and \<open>Math.min(...xs)\<close>.\<close>

definition aggregatesToPrimary :: "Candle \<Rightarrow> Candle list \<Rightarrow> bool" where
  "aggregatesToPrimary primary execution \<longleftrightarrow>
     execution \<noteq> [] \<and>
     closeEnough (open_price primary) (open_price (hd execution)) \<and>
     closeEnough (close_price primary) (close_price (last execution)) \<and>
     closeEnough (high primary) (foldl js_max NegInf (map high execution)) \<and>
     closeEnough (low primary) (foldl js_min PosInf (map low execution))"

definition oneToOneSchedule :: "Candle list \<Rightarrow> ExecutionSchedule" where
  "oneToOneSchedule cs =
     \<lparr>resolutionRatio = Fin 1,
      buckets = map (\<lambda>c. \<lparr>primaryCandle = c, executionCandles = [c]\<rparr>) cs\<rparr>"

definition resolveRiskEvaluationTimestamp :: "number \<Rightarrow> number option \<Rightarrow> number" where
  "resolveRiskEvaluationTimestamp t last_trade =
     (case last_trade of None \<Rightarrow> t | Some l \<Rightarrow> js_max t l)"

text \<open>\<open>a % b\<close> of positive finite numbers; the remainder is exact.\<close>

definition js_rem :: "number \<Rightarrow> number \<Rightarrow> number" where
  "js_rem a b =
     (case (a, b) of
        (Fin x, Fin y) \<Rightarrow> if y = 0 then NaN else Fin (x - y * of_int \<lfloor>x / y\<rfloor>)
      | _ \<Rightarrow> NaN)"

definition nat_of_number :: "number \<Rightarrow> nat" where
  "nat_of_number x = (case x of Fin r \<Rightarrow> nat \<lfloor>r\<rfloor> | _ \<Rightarrow> 0)"

text \<open>The loop over the primary candles: the next execution candles, as many as the ratio.\<close>

fun schedule_buckets :: "nat \<Rightarrow> Candle list \<Rightarrow> Candle list
    \<Rightarrow> (ExecutionScheduleBucket list, ExecutionScheduleErrorCode) result" where
  "schedule_buckets ratio [] execution = ok []"
| "schedule_buckets ratio (c # cs) execution =
     (let part = take ratio execution
      in if length part \<noteq> ratio \<or> part = [] \<or> \<not> num_eq (start (hd part)) (start c)
         then err MISALIGNED_EXECUTION_RANGE
         else if \<not> aggregatesToPrimary c part then err EXECUTION_AGGREGATION_MISMATCH
         else case schedule_buckets ratio cs (drop ratio execution) of
             Inl e \<Rightarrow> err e
           | Inr bs \<Rightarrow> ok (\<lparr>primaryCandle = c, executionCandles = part\<rparr> # bs))"

definition resolve_schedule :: "number \<Rightarrow> number \<Rightarrow> Candle list \<Rightarrow> Candle list
    \<Rightarrow> (ExecutionSchedule, ExecutionScheduleErrorCode) result" where
  "resolve_schedule primaryInterval executionInterval primary execution =
     (if primaryInterval \<le> executionInterval \<or>
         \<not> num_eq (js_rem primaryInterval executionInterval) (Fin 0)
      then err INVALID_EXECUTION_RATIO
      else
        let ratio = primaryInterval / executionInterval
        in if \<not> num_eq (Fin (of_nat (length execution))) (Fin (of_nat (length primary)) * ratio) \<or>
              \<not> num_eq (start (hd execution)) (start (hd primary))
           then err MISALIGNED_EXECUTION_RANGE
           else if uniformInterval execution \<noteq> Some executionInterval
           then err NON_UNIFORM_EXECUTION_INTERVAL
           else case schedule_buckets (nat_of_number ratio) primary execution of
               Inl e \<Rightarrow> err e
             | Inr bs \<Rightarrow> ok \<lparr>resolutionRatio = ratio, buckets = bs\<rparr>)"

definition createExecutionSchedule :: "Candle list \<Rightarrow> Candle list option
    \<Rightarrow> (ExecutionSchedule, ExecutionScheduleErrorCode) result" where
  "createExecutionSchedule primary execution =
     (if primary = [] then err EMPTY_PRIMARY_SERIES
      else case execution of
        None \<Rightarrow> ok (oneToOneSchedule primary)
      | Some cs \<Rightarrow>
          if length primary < 2 then err INSUFFICIENT_PRIMARY_CANDLES
          else
            (case cs of
               x # y # _ \<Rightarrow>
                 (case uniformInterval primary of
                    None \<Rightarrow> err NON_UNIFORM_PRIMARY_INTERVAL
                  | Some primaryInterval \<Rightarrow>
                      let executionInterval = start y - start x
                      in if \<not> isSafeInteger executionInterval \<or> executionInterval \<le> Fin 0
                         then err NON_UNIFORM_EXECUTION_INTERVAL
                         else resolve_schedule primaryInterval executionInterval primary cs)
             | _ \<Rightarrow> err INSUFFICIENT_EXECUTION_CANDLES))"

subsection \<open>What a schedule is\<close>

lemma schedule_buckets_spec:
  "schedule_buckets ratio cs execution = Inr bs \<Longrightarrow>
     map primaryCandle bs = cs \<and>
     concat (map executionCandles bs) = take (ratio * length cs) execution \<and>
     list_all (\<lambda>b. length (executionCandles b) = ratio \<and> executionCandles b \<noteq> [] \<and>
       num_eq (start (hd (executionCandles b))) (start (primaryCandle b)) \<and>
       aggregatesToPrimary (primaryCandle b) (executionCandles b)) bs"
proof (induction ratio cs execution arbitrary: bs rule: schedule_buckets.induct)
  case (2 ratio c cs execution)
  let ?part = "take ratio execution"
  from "2.prems" obtain bs' where part: "length ?part = ratio" "?part \<noteq> []" "num_eq (start (hd ?part)) (start c)"
      "aggregatesToPrimary c ?part"
    and rest: "schedule_buckets ratio cs (drop ratio execution) = Inr bs'"
    and bs: "bs = \<lparr>primaryCandle = c, executionCandles = ?part\<rparr> # bs'"
    by (auto simp: Let_def split: if_splits sum.splits)
  have "take (ratio * length (c # cs)) execution = ?part @ take (ratio * length cs) (drop ratio execution)"
    by (simp add: take_add)
  moreover have "map primaryCandle bs' = cs \<and>
      concat (map executionCandles bs') = take (ratio * length cs) (drop ratio execution) \<and>
      list_all (\<lambda>b. length (executionCandles b) = ratio \<and> executionCandles b \<noteq> [] \<and>
        num_eq (start (hd (executionCandles b))) (start (primaryCandle b)) \<and>
        aggregatesToPrimary (primaryCandle b) (executionCandles b)) bs'"
    using part rest by (intro "2.IH") auto
  ultimately show ?case
    using part by (simp add: bs)
qed simp

end
