(* ===== verification/BacktestReport.thy ===== *)
theory BacktestReport
  imports Risk PaperExecution
begin

text \<open>
  What a replay reports: the diagnostics of \<^verbatim>\<open>models/backtest-diagnostics.ts\<close> and the metrics of
  \<^verbatim>\<open>packages/backtest/src/metrics.ts\<close>.  The power operator and the square root are parameters.
\<close>

subsection \<open>Diagnostics\<close>

record SignalDiagnosticObservation =
  sdo_strategyId :: string
  sdo_side :: SignalSide
  sdo_confidence :: number
  sdo_suggestedSize :: number
  sdo_referencePrice :: number

record AllocationDiagnosticObservation =
  ado_requestedNetNotional :: number
  ado_allocatedNotional :: number
  ado_spotInexecutableNotional :: number
  ado_riskApprovedNotional :: number
  ado_rejectedReasonCodes :: "RiskReasonCode list"

definition RISK_REJECTION_REASON_CODES :: "RiskReasonCode list" where
  "RISK_REJECTION_REASON_CODES =
     [KILL_SWITCH_ACTIVE, DAILY_LOSS_LIMIT, COOLDOWN_ACTIVE, SPOT_SHORT_FORBIDDEN,
      ORDER_NOTIONAL_LIMIT, POSITION_NOTIONAL_LIMIT, GROSS_EXPOSURE_LIMIT]"

record NumericDistribution =
  nd_count :: nat
  nd_min :: "number option"
  nd_median :: "number option"
  nd_p95 :: "number option"
  nd_max :: "number option"

record StrategySignalDiagnostics =
  ssd_strategyId :: string
  ssd_evaluationCount :: nat
  ssd_activeSignalCount :: nat
  ssd_buySignalCount :: nat
  ssd_sellSignalCount :: nat
  ssd_activeSignalRate :: number
  ssd_confidence :: NumericDistribution
  ssd_requestedNotional :: NumericDistribution

record AllocationDiagnostics =
  ad_opportunityCount :: nat
  ad_cappedCount :: nat
  ad_capRate :: number
  ad_spotInexecutableCount :: nat
  ad_riskEvaluationCount :: nat
  ad_riskRejectedCount :: nat
  ad_riskRejectionRate :: number
  ad_riskRejectionReasons :: "(RiskReasonCode \<times> nat) list"
  ad_requestedNetNotional :: NumericDistribution
  ad_allocatedNotional :: NumericDistribution
  ad_riskApprovedNotional :: NumericDistribution

record BacktestDiagnostics =
  bd_signals :: "StrategySignalDiagnostics list"
  bd_allocation :: AllocationDiagnostics

datatype BacktestDiagnosticsErrorCode =
  INVALID_SIGNAL_DIAGNOSTIC_OBSERVATION
| INVALID_ALLOCATION_DIAGNOSTIC_OBSERVATION

definition nonNegativeFinite :: "number \<Rightarrow> bool" where
  "nonNegativeFinite x \<longleftrightarrow> isFinite x \<and> Fin 0 \<le> x"

definition positiveFinite :: "number \<Rightarrow> bool" where
  "positiveFinite x \<longleftrightarrow> isFinite x \<and> Fin 0 < x"

definition validConfidence :: "number \<Rightarrow> bool" where
  "validConfidence x \<longleftrightarrow> isFinite x \<and> Fin 0 \<le> x \<and> x \<le> Fin 1"

text \<open>An element by a number that is an index.\<close>

definition at_index :: "number list \<Rightarrow> number \<Rightarrow> number option" where
  "at_index xs k =
     (case k of
        Fin r \<Rightarrow> if 0 \<le> r \<and> nat \<lfloor>r\<rfloor> < length xs then Some (xs ! nat \<lfloor>r\<rfloor>) else None
      | _ \<Rightarrow> None)"

definition quantile :: "number list \<Rightarrow> number \<Rightarrow> number option" where
  "quantile xs probability =
     (if xs = [] then None
      else
        let position = (Fin (of_nat (length xs)) - Fin 1) * probability;
            lowerIndex = js_floor position
        in case (at_index xs lowerIndex, at_index xs (js_ceil position)) of
             (Some lower, Some upper) \<Rightarrow> Some (lower + (upper - lower) * (position - lowerIndex))
           | _ \<Rightarrow> None)"

text \<open>\<open>[...values].sort((left, right) => left - right)\<close> of finite values.\<close>

fun insert_number :: "number \<Rightarrow> number list \<Rightarrow> number list" where
  "insert_number x [] = [x]"
| "insert_number x (y # ys) = (if x \<le> y then x # y # ys else y # insert_number x ys)"

definition sort_numbers :: "number list \<Rightarrow> number list" where
  "sort_numbers xs = foldr insert_number xs []"

definition distribution :: "number list \<Rightarrow> NumericDistribution" where
  "distribution values =
     (if values = []
      then \<lparr>nd_count = 0, nd_min = None, nd_median = None, nd_p95 = None, nd_max = None\<rparr>
      else
        let xs = sort_numbers values
        in \<lparr>nd_count = length xs, nd_min = Some (hd xs),
            nd_median = quantile xs (Fin (1 / 2)), nd_p95 = quantile xs (fl (95 / 100)),
            nd_max = Some (last xs)\<rparr>)"

definition diagnostic_tolerance :: "number \<Rightarrow> number" where
  "diagnostic_tolerance reference = js_max (Fin 1) reference * EPSILON * Fin 64"

definition requested_of :: "SignalDiagnosticObservation \<Rightarrow> number" where
  "requested_of s = sdo_suggestedSize s * sdo_confidence s * sdo_referencePrice s"

definition validSignalObservation :: "SignalDiagnosticObservation \<Rightarrow> bool" where
  "validSignalObservation s \<longleftrightarrow>
     non_blank (sdo_strategyId s) \<and> validConfidence (sdo_confidence s) \<and>
     nonNegativeFinite (sdo_suggestedSize s) \<and> positiveFinite (sdo_referencePrice s) \<and>
     (sdo_side s \<noteq> SigHold \<or> num_eq (sdo_suggestedSize s) (Fin 0)) \<and>
     nonNegativeFinite (requested_of s)"

definition validAllocationObservation :: "AllocationDiagnosticObservation \<Rightarrow> bool" where
  "validAllocationObservation a \<longleftrightarrow>
     positiveFinite (ado_requestedNetNotional a) \<and> nonNegativeFinite (ado_allocatedNotional a) \<and>
     nonNegativeFinite (ado_spotInexecutableNotional a) \<and>
     nonNegativeFinite (ado_riskApprovedNotional a) \<and>
     list_all (\<lambda>c. c \<in> set RISK_REJECTION_REASON_CODES) (ado_rejectedReasonCodes a) \<and>
     ado_allocatedNotional a
       \<le> ado_requestedNetNotional a + diagnostic_tolerance (ado_requestedNetNotional a) \<and>
     ado_spotInexecutableNotional a
       \<le> ado_allocatedNotional a + diagnostic_tolerance (ado_allocatedNotional a) \<and>
     ado_riskApprovedNotional a
       \<le> ado_allocatedNotional a + diagnostic_tolerance (ado_allocatedNotional a)"

text \<open>\<open>[...new Set(ids)].sort()\<close>.\<close>

definition strategy_ids_of :: "SignalDiagnosticObservation list \<Rightarrow> string list" where
  "strategy_ids_of obs = sort (remdups (map sdo_strategyId obs))"

definition extractBacktestDiagnosticSamples :: "SignalDiagnosticObservation list
    \<Rightarrow> ((string \<times> number list) list, BacktestDiagnosticsErrorCode) result" where
  "extractBacktestDiagnosticSamples obs =
     (if \<not> list_all validSignalObservation obs then err INVALID_SIGNAL_DIAGNOSTIC_OBSERVATION
      else ok (map (\<lambda>i. (i, map requested_of
          (filter (\<lambda>s. sdo_strategyId s = i \<and> sdo_side s \<noteq> SigHold) obs))) (strategy_ids_of obs)))"

definition rate_of :: "nat \<Rightarrow> nat \<Rightarrow> number" where
  "rate_of k n = (if n = 0 then Fin 0 else Fin (of_nat k) / Fin (of_nat n))"

definition signal_diagnostics :: "SignalDiagnosticObservation list \<Rightarrow> string
    \<Rightarrow> StrategySignalDiagnostics" where
  "signal_diagnostics obs i =
     (let observations = filter (\<lambda>s. sdo_strategyId s = i) obs;
          active = filter (\<lambda>s. sdo_side s \<noteq> SigHold) observations
      in \<lparr>ssd_strategyId = i, ssd_evaluationCount = length observations,
          ssd_activeSignalCount = length active,
          ssd_buySignalCount = length (filter (\<lambda>s. sdo_side s = SigBuy) active),
          ssd_sellSignalCount = length (filter (\<lambda>s. sdo_side s = SigSell) active),
          ssd_activeSignalRate = rate_of (length active) (length observations),
          ssd_confidence = distribution (map sdo_confidence active),
          ssd_requestedNotional = distribution (map requested_of active)\<rparr>)"

definition allocation_capped :: "AllocationDiagnosticObservation \<Rightarrow> bool" where
  "allocation_capped a \<longleftrightarrow>
     ado_allocatedNotional a
       < ado_requestedNetNotional a - diagnostic_tolerance (ado_requestedNetNotional a)"

definition allocation_rejected :: "AllocationDiagnosticObservation \<Rightarrow> bool" where
  "allocation_rejected a \<longleftrightarrow>
     (let executable = ado_allocatedNotional a - ado_spotInexecutableNotional a
      in ado_riskApprovedNotional a < executable - diagnostic_tolerance executable)"

definition allocation_diagnostics :: "AllocationDiagnosticObservation list \<Rightarrow> AllocationDiagnostics" where
  "allocation_diagnostics obs =
     (let capped = length (filter allocation_capped obs);
          evaluated = filter
            (\<lambda>a. Fin 0 < ado_allocatedNotional a - ado_spotInexecutableNotional a) obs;
          rejected = length (filter allocation_rejected evaluated)
      in \<lparr>ad_opportunityCount = length obs, ad_cappedCount = capped,
          ad_capRate = rate_of capped (length obs),
          ad_spotInexecutableCount =
            length (filter (\<lambda>a. Fin 0 < ado_spotInexecutableNotional a) obs),
          ad_riskEvaluationCount = length evaluated, ad_riskRejectedCount = rejected,
          ad_riskRejectionRate = rate_of rejected (length evaluated),
          ad_riskRejectionReasons = map (\<lambda>c. (c, sum_list (map (\<lambda>a.
              length (filter (\<lambda>r. r = c) (ado_rejectedReasonCodes a))) obs)))
            RISK_REJECTION_REASON_CODES,
          ad_requestedNetNotional = distribution (map ado_requestedNetNotional obs),
          ad_allocatedNotional = distribution (map ado_allocatedNotional obs),
          ad_riskApprovedNotional = distribution (map ado_riskApprovedNotional obs)\<rparr>)"

definition summarizeBacktestDiagnostics :: "SignalDiagnosticObservation list
    \<Rightarrow> AllocationDiagnosticObservation list
    \<Rightarrow> (BacktestDiagnostics, BacktestDiagnosticsErrorCode) result" where
  "summarizeBacktestDiagnostics obs allocs =
     (if \<not> list_all validSignalObservation obs then err INVALID_SIGNAL_DIAGNOSTIC_OBSERVATION
      else if \<not> list_all validAllocationObservation allocs
      then err INVALID_ALLOCATION_DIAGNOSTIC_OBSERVATION
      else ok \<lparr>bd_signals = map (signal_diagnostics obs) (strategy_ids_of obs),
               bd_allocation = allocation_diagnostics allocs\<rparr>)"

subsection \<open>Metrics\<close>

record EquityPoint =
  eq_at :: number
  eq_equity :: number

record BacktestMetrics =
  bm_pnl :: number
  bm_realizedPnl :: number
  bm_unrealizedPnl :: number
  bm_fees :: number
  bm_grossTradedNotional :: number
  bm_turnover :: number
  bm_totalReturn :: number
  bm_winRate :: number
  bm_winRateLiquidative :: number
  bm_profitFactor :: "number option"
  bm_sharpe :: number
  bm_maxDrawdown :: number

text \<open>\<open>values.reduce((sum, value) => sum + value, 0)\<close>.\<close>

definition js_sum :: "number list \<Rightarrow> number" where
  "js_sum = foldl (+) (Fin 0)"

definition standardDeviation :: "(number \<Rightarrow> number \<Rightarrow> number) \<Rightarrow> (number \<Rightarrow> number) \<Rightarrow> number list
    \<Rightarrow> number" where
  "standardDeviation pow sqrt_of values =
     (if length values < 2 then Fin 0
      else
        let mean = js_sum values / Fin (of_nat (length values))
        in sqrt_of (js_sum (map (\<lambda>v. pow (v - mean) (Fin 2)) values)
             / (Fin (of_nat (length values)) - Fin 1)))"

fun equity_returns :: "number list \<Rightarrow> number list" where
  "equity_returns (p # c # xs) =
     (if num_eq p (Fin 0) then equity_returns (c # xs)
      else ((c - p) / p) # equity_returns (c # xs))"
| "equity_returns xs = []"

text \<open>The peak and the drawdown so far.\<close>

definition drawdown_step :: "number \<times> number \<Rightarrow> number \<Rightarrow> number \<times> number" where
  "drawdown_step st equity =
     (let peak = js_max (fst st) equity;
          drawdown = (if num_eq peak (Fin 0) then Fin 0 else (peak - equity) / peak)
      in (peak, js_max (snd st) drawdown))"

definition calculateMetrics :: "(number \<Rightarrow> number \<Rightarrow> number) \<Rightarrow> (number \<Rightarrow> number)
    \<Rightarrow> EquityPoint list \<Rightarrow> PaperTrade list \<Rightarrow> number \<Rightarrow> number \<Rightarrow> BacktestMetrics" where
  "calculateMetrics pow sqrt_of curve trades capital open_quantity =
     (let finalEquity = (if curve = [] then capital else eq_equity (last curve));
          pnl = finalEquity - capital;
          closedTrades = filter (\<lambda>x. Fin 0 < closedQuantity x) trades;
          realized = map realizedPnl closedTrades;
          wins = filter (\<lambda>x. Fin 0 < x) realized;
          losses = filter (\<lambda>x. x < Fin 0) realized;
          grossLoss = \<bar>js_sum losses\<bar>;
          realizedTotal = js_sum realized;
          unrealized = pnl - realizedTotal;
          hasOpen = (Fin 0 < open_quantity);
          liquidativeTrades = length closedTrades + (if hasOpen then 1 else 0);
          liquidativeWins = length wins + (if hasOpen \<and> Fin 0 < unrealized then 1 else 0);
          gross = js_sum (map (\<lambda>x. \<bar>price (fill x) * fill_quantity (fill x)\<bar>) trades);
          returns = equity_returns (map eq_equity curve);
          deviation = standardDeviation pow sqrt_of returns;
          averageReturn = (if returns = [] then Fin 0
            else js_sum returns / Fin (of_nat (length returns)))
      in \<lparr>bm_pnl = pnl, bm_realizedPnl = realizedTotal, bm_unrealizedPnl = unrealized,
          bm_fees = js_sum (map (\<lambda>x. fee (fill x)) trades), bm_grossTradedNotional = gross,
          bm_turnover = (if num_eq capital (Fin 0) then Fin 0 else gross / capital),
          bm_totalReturn = (if num_eq capital (Fin 0) then Fin 0 else pnl / capital),
          bm_winRate = rate_of (length wins) (length closedTrades),
          bm_winRateLiquidative = rate_of liquidativeWins liquidativeTrades,
          bm_profitFactor = (if num_eq grossLoss (Fin 0) then None
            else Some (js_sum wins / grossLoss)),
          bm_sharpe = (if num_eq deviation (Fin 0) then Fin 0
            else (averageReturn / deviation) * sqrt_of (Fin 252)),
          bm_maxDrawdown = snd (foldl drawdown_step (capital, Fin 0) (map eq_equity curve))\<rparr>)"

end
