(* ===== verification/Replay.thy ===== *)
theory Replay
  imports ExecutionResolution BacktestReport Interpreter LivePolicy ProtectiveOrder
    RegimeFilter
begin

text \<open>
  The replay of a decision series, \<^verbatim>\<open>packages/backtest/src/replay.ts\<close>: the strategies, the
  allocator, the risk check and the simulated broker over past candles, with protective orders,
  regimes and funding.  The machine package, the indicators (Prolog), the power operator and the
  square root are parameters; the rest is the code of the other components.
\<close>

subsection \<open>Types\<close>

datatype ProtectiveExitPolicy =
  PROTECT_NONE
| PROTECT_ACTIVE ActiveProtectiveExitPolicy
| PROTECT_BY_REGIME RegimeConditionalExitPolicy

record BacktestConfig =
  bc_runId :: string
  bc_agentId :: string
  bc_productId :: string
  bc_intervalMs :: number
  bc_initialCapital :: number
  bc_maxDecisionNotional :: number
  bc_minNetQuantity :: number
  bc_indicators :: IndicatorConfig
  bc_strategies :: StrategyRegistry
  bc_risk :: RiskConfig
  bc_broker :: PaperBrokerConfig
  bc_protectiveExit :: "ProtectiveExitPolicy option"
  bc_regimeFilter :: "RegimeFilterPolicy option"
  bc_regimeConditionalSizing :: "RegimeConditionalSizingPolicy option"
  bc_regimePermissions :: "RegimePermissions option"
  bc_fundingRates :: "number list option"

record BacktestReplayOptions =
  opt_executionCandles :: "Candle list option"
  opt_executionIntervalMs :: "number option"
  opt_includeDiagnosticSamples :: bool

record PreparedBacktestIndicators =
  prep_config :: IndicatorConfig
  prep_snapshots :: "IndicatorSnapshot option list"

record ProtectiveExitExecution =
  pe_resolution :: ProtectiveExitResolution
  pe_positionId :: string
  pe_quantity :: number
  pe_fillId :: string
  pe_fillPrice :: number

datatype execution_cause =
  EXECUTION_DATA MarketDataIntegrityError
| EXECUTION_SCHEDULE ExecutionScheduleErrorCode

datatype protective_cause =
  PROTECTIVE_CODE ProtectiveOrderErrorCode
| PROTECTIVE_INTENT TradingValidationError

datatype BacktestReplayError =
  INVALID_BACKTEST_CONFIG
| INVALID_CANDLES MarketDataIntegrityError
| INVALID_EXECUTION_CANDLES execution_cause
| INVALID_PREPARED_INDICATORS
| INDICATOR_FAILURE string
| STRATEGY_FAILURE StrategyError
| ALLOCATION_FAILURE AllocationError
| RISK_FAILURE RiskError
| SPOT_PERMISSION_FAILURE
| BROKER_FAILURE PaperBrokerError
| PROTECTIVE_ORDER_FAILURE protective_cause
| REGIME_FILTER_FAILURE
| REGIME_SIZING_FAILURE
| DIAGNOSTICS_FAILURE BacktestDiagnosticsErrorCode

type_synonym protective_snapshot = "protectiveState \<times> ProtectiveOrderContext"
type_synonym regime_snapshot = "regimeState \<times> RegimeFilterContext"

record replay_host =
  rh_protective_init :: "ProtectiveOrderContext \<Rightarrow> protective_snapshot"
  rh_protective_send :: "protective_snapshot \<Rightarrow> ProtectiveOrderEvent \<Rightarrow> protective_snapshot"
  rh_regime_init :: "RegimeFilterContext \<Rightarrow> regime_snapshot"
  rh_regime_send :: "regime_snapshot \<Rightarrow> RegimeFilterEvent \<Rightarrow> regime_snapshot"
  rh_indicators :: "Candle list \<Rightarrow> IndicatorConfig \<Rightarrow> (number list \<times> number) option
    \<Rightarrow> (IndicatorSnapshot, string) result"
  rh_pow :: "number \<Rightarrow> number \<Rightarrow> number"
  rh_sqrt :: "number \<Rightarrow> number"

text \<open>What a run reads: the validated candles, the schedule, the prepared indicators.\<close>

record replay_input =
  ri_config :: BacktestConfig
  ri_candles :: "Candle list"
  ri_buckets :: "ExecutionScheduleBucket list"
  ri_prepared :: "PreparedBacktestIndicators option"

text \<open>The variables of the loop.\<close>

record replay_state =
  rs_portfolio :: PaperPortfolio
  rs_trades :: "PaperTrade list"
  rs_equityCurve :: "EquityPoint list"
  rs_previousIndicators :: "IndicatorSnapshot option"
  rs_lastTradeAt :: "number option"
  rs_dailyRiskWindow :: "DailyRiskWindow option"
  rs_pendingOrders :: "OrderIntent list"
  rs_activeProtectivePolicy :: "ActiveProtectiveExitPolicy option"
  rs_protectiveActor :: "protective_snapshot option"
  rs_protectivePositionSequence :: nat
  rs_protectiveExits :: "ProtectiveExitExecution list"
  rs_signalObservations :: "SignalDiagnosticObservation list"
  rs_allocationObservations :: "AllocationDiagnosticObservation list"
  rs_regimeActor :: "regime_snapshot option"
  rs_observationsFed :: nat
  rs_signalsPassed :: nat
  rs_signalsFiltered :: nat
  rs_deniedByStrategy :: "nat dict"
  rs_passedByRegime :: "RegimeKind \<Rightarrow> nat"
  rs_deniedByRegime :: "RegimeKind \<Rightarrow> nat"
  rs_fundingPaid :: number

type_synonym replay_answer = "(replay_state, BacktestReplayError) result"

record RegimeGatingSummary =
  rg_policy :: RegimeFilterPolicy
  rg_finalRegime :: "RegimeKind option"
  rg_observationsFed :: nat
  rg_signalsPassed :: nat
  rg_signalsFiltered :: nat
  rg_deniedByStrategy :: "nat dict"
  rg_passedByRegime :: "RegimeKind \<Rightarrow> nat"
  rg_deniedByRegime :: "RegimeKind \<Rightarrow> nat"

record BacktestResult =
  br_runId :: string
  br_trades :: "PaperTrade list"
  br_equityCurve :: "EquityPoint list"
  br_metrics :: BacktestMetrics
  br_finalPortfolio :: PaperPortfolio
  br_processedCandles :: nat
  br_fundingPaid :: number
  br_protectiveExits :: "ProtectiveExitExecution list"
  br_diagnostics :: BacktestDiagnostics
  br_diagnosticSamples :: "(string \<times> number list) list option"
  br_regimeGating :: "RegimeGatingSummary option"

text \<open>\<open>if (!result.ok) return result\<close>, then the rest.\<close>

definition and_then :: "('a, 'e) result \<Rightarrow> ('a \<Rightarrow> ('b, 'e) result) \<Rightarrow> ('b, 'e) result" where
  "and_then r f = (case r of Inl e \<Rightarrow> err e | Inr v \<Rightarrow> f v)"

subsection \<open>Validation\<close>

definition validProtectivePolicy :: "ProtectiveExitPolicy option \<Rightarrow> bool" where
  "validProtectivePolicy p =
     (case p of
        None \<Rightarrow> True
      | Some PROTECT_NONE \<Rightarrow> True
      | Some (PROTECT_BY_REGIME r) \<Rightarrow> isValidRegimeConditionalExitPolicy r
      | Some (PROTECT_ACTIVE a) \<Rightarrow> isValidProtectiveExitPolicy a)"

definition by_regime :: "ProtectiveExitPolicy option \<Rightarrow> bool" where
  "by_regime p \<longleftrightarrow> (case p of Some (PROTECT_BY_REGIME _) \<Rightarrow> True | _ \<Rightarrow> False)"

definition validBacktestConfig :: "BacktestConfig \<Rightarrow> bool" where
  "validBacktestConfig c \<longleftrightarrow>
     non_blank (bc_runId c) \<and> non_blank (bc_agentId c) \<and>
     isFinite (bc_initialCapital c) \<and> Fin 0 < bc_initialCapital c \<and>
     isFinite (bc_maxDecisionNotional c) \<and> Fin 0 < bc_maxDecisionNotional c \<and>
     isFinite (bc_minNetQuantity c) \<and> Fin 0 \<le> bc_minNetQuantity c \<and>
     validProtectivePolicy (bc_protectiveExit c) \<and>
     (\<not> by_regime (bc_protectiveExit c) \<or> bc_regimeFilter c \<noteq> None) \<and>
     (case bc_regimeFilter c of None \<Rightarrow> True | Some p \<Rightarrow> isValidRegimeFilterPolicy p) \<and>
     (case bc_regimeConditionalSizing c of
        None \<Rightarrow> True
      | Some p \<Rightarrow> isValidRegimeConditionalSizingPolicy p \<and> bc_regimeFilter c \<noteq> None) \<and>
     (case bc_regimePermissions c of
        None \<Rightarrow> True | Some p \<Rightarrow> isValidRegimePermissions p \<and> bc_regimeFilter c \<noteq> None) \<and>
     (case bc_fundingRates c of None \<Rightarrow> True | Some rates \<Rightarrow> list_all isFinite rates)"

definition requiredIndicatorCandles :: "IndicatorConfig \<Rightarrow> number" where
  "requiredIndicatorCandles c =
     foldl js_max NegInf
       [rsiPeriod c + Fin 1, emaSlowPeriod c,
        (case signalEmaSlowPeriod c of None \<Rightarrow> Fin 0 | Some n \<Rightarrow> n),
        atrPeriod c, historicalVolatilityPeriod c + Fin 1, momentumPeriod c + Fin 1,
        (if returnPeriods c = [] then Fin 0 else last (returnPeriods c)) + Fin 1,
        vwapPeriod c, relativeVolumePeriod c + Fin 1, volumeTrendPeriod c,
        trendStrengthPeriod c * Fin 2]"

definition same_indicator_config :: "IndicatorConfig \<Rightarrow> IndicatorConfig \<Rightarrow> bool" where
  "same_indicator_config a b \<longleftrightarrow>
     num_eq (rsiPeriod a) (rsiPeriod b) \<and> num_eq (emaFastPeriod a) (emaFastPeriod b) \<and>
     num_eq (emaSlowPeriod a) (emaSlowPeriod b) \<and> num_eq (atrPeriod a) (atrPeriod b) \<and>
     num_eq (historicalVolatilityPeriod a) (historicalVolatilityPeriod b) \<and>
     num_eq (momentumPeriod a) (momentumPeriod b) \<and>
     length (returnPeriods a) = length (returnPeriods b) \<and>
     list_all (\<lambda>(x, y). num_eq x y) (zip (returnPeriods a) (returnPeriods b)) \<and>
     num_eq (vwapPeriod a) (vwapPeriod b) \<and>
     num_eq (relativeVolumePeriod a) (relativeVolumePeriod b) \<and>
     num_eq (volumeSpikeThreshold a) (volumeSpikeThreshold b) \<and>
     num_eq (volumeTrendPeriod a) (volumeTrendPeriod b) \<and>
     num_eq (trendStrengthPeriod a) (trendStrengthPeriod b) \<and>
     same_optional (signalEmaFastPeriod a) (signalEmaFastPeriod b) \<and>
     same_optional (signalEmaSlowPeriod a) (signalEmaSlowPeriod b)"

definition validPreparedIndicators :: "PreparedBacktestIndicators \<Rightarrow> Candle list \<Rightarrow> IndicatorConfig
    \<Rightarrow> number \<Rightarrow> bool" where
  "validPreparedIndicators p cs c warmup \<longleftrightarrow>
     same_indicator_config (prep_config p) c \<and> length (prep_snapshots p) = length cs \<and>
     list_all (\<lambda>(i, snapshot, candle).
         if Fin (of_nat i) < warmup - Fin 1 then snapshot = None
         else case snapshot of
             None \<Rightarrow> False
           | Some x \<Rightarrow> num_eq (candleClosedAt x) (Candle.start candle))
       (zip [0..<length cs] (zip (prep_snapshots p) cs))"

subsection \<open>Orders\<close>

definition capSpotOrder :: "OrderIntent \<Rightarrow> PaperPortfolio \<Rightarrow> number \<Rightarrow> PaperBrokerConfig \<Rightarrow> number
    \<Rightarrow> OrderIntent option" where
  "capSpotOrder i w mp b least =
     (let executed = mp * (Fin 1 + (if side i = BUY then Fin 1 else Fin (- 1)) *
            (slippageBps b / Fin 10000));
          feeRate = feeBps b / Fin 10000;
          available = (if side i = BUY then cash w / (executed * (Fin 1 + feeRate))
            else js_max (Fin 0) (positionQuantity w));
          q = js_min (OrderIntent.quantity i) available
      in if \<not> isFinite q \<or> q \<le> least then None
         else if num_eq q (OrderIntent.quantity i) then Some i
         else Some (i\<lparr>OrderIntent.quantity := q\<rparr>))"

definition executed :: "PaperExecution \<Rightarrow> number \<Rightarrow> replay_state \<Rightarrow> replay_state" where
  "executed x t s =
     s\<lparr>rs_portfolio := portfolio x, rs_trades := rs_trades s @ [trade x], rs_lastTradeAt := Some t\<rparr>"

subsection \<open>Protective orders\<close>

definition sequence_failure :: BacktestReplayError where
  "sequence_failure = PROTECTIVE_ORDER_FAILURE (PROTECTIVE_CODE INVALID_PROTECTIVE_SEQUENCE)"

definition actorFailure :: "replay_state \<Rightarrow> BacktestReplayError option" where
  "actorFailure s =
     (case rs_protectiveActor s of
        None \<Rightarrow> None
      | Some m \<Rightarrow>
          if fst m = protectiveState.Failed
          then Some (PROTECTIVE_ORDER_FAILURE (PROTECTIVE_CODE
            (case ProtectiveOrderContext.lastError (snd m) of
               None \<Rightarrow> INVALID_PROTECTIVE_SEQUENCE | Some e \<Rightarrow> e)))
          else None)"

definition exit_kind_text :: "ProtectiveExitKind \<Rightarrow> string" where
  "exit_kind_text k = (case k of STOP_LOSS \<Rightarrow> ''stop_loss'' | TAKE_PROFIT \<Rightarrow> ''take_profit'')"

definition protective_intent :: "BacktestConfig \<Rightarrow> replay_state \<Rightarrow> Candle
    \<Rightarrow> ProtectiveExitResolution \<Rightarrow> OrderIntent" where
  "protective_intent c s candle r =
     \<lparr>OrderIntent.clientOrderId = bc_runId c @ '':protective:'' @
        radix 10 (rs_protectivePositionSequence s) @ '':'' @ timestamp_string (Candle.start candle),
      OrderIntent.decisionId = bc_runId c @ '':protective:'' @ timestamp_string (Candle.start candle),
      OrderIntent.strategyIds = [''protective-'' @ exit_kind_text (kind r)],
      OrderIntent.productId = bc_productId c, OrderIntent.side = SELL,
      OrderIntent.order_type = MARKET,
      OrderIntent.quantity = positionQuantity (rs_portfolio s), OrderIntent.limitPrice = None\<rparr>"

definition execute_exit :: "BacktestConfig \<Rightarrow> Candle \<Rightarrow> replay_state \<Rightarrow> ProtectiveExitResolution
    \<Rightarrow> ProtectiveOrderPlan \<Rightarrow> replay_answer" where
  "execute_exit c candle s r p =
     (case createOrderIntent (protective_intent c s candle r) of
        Inl e \<Rightarrow> err (PROTECTIVE_ORDER_FAILURE (PROTECTIVE_INTENT e))
      | Inr i \<Rightarrow>
          (case executePaperOrder (rs_portfolio s) i (referencePrice r) (Candle.start candle)
              (bc_broker c) of
             Inl e \<Rightarrow> err (BROKER_FAILURE e)
           | Inr x \<Rightarrow> ok ((executed x (Candle.start candle) s)
               \<lparr>rs_protectiveExits := rs_protectiveExits s @
                  [\<lparr>pe_resolution = r, pe_positionId = positionId p,
                    pe_quantity = positionQuantity (rs_portfolio s), pe_fillId = fillId (fill (trade x)),
                    pe_fillPrice = price (fill (trade x))\<rparr>],
                rs_protectiveActor := None\<rparr>)))"

definition executeTriggeredProtectiveExit :: "BacktestConfig \<Rightarrow> Candle \<Rightarrow> replay_state \<Rightarrow> replay_answer" where
  "executeTriggeredProtectiveExit c candle s =
     (case rs_protectiveActor s of
        None \<Rightarrow> ok s
      | Some m \<Rightarrow>
          (case actorFailure s of
             Some e \<Rightarrow> err e
           | None \<Rightarrow>
               if fst m \<noteq> protectiveState.Triggered then ok s
               else
                 (case (resolution (snd m), plan (snd m)) of
                    (Some r, Some p) \<Rightarrow>
                      if positionQuantity (rs_portfolio s) \<le> Fin 0 then err sequence_failure
                      else execute_exit c candle s r p
                  | _ \<Rightarrow> err sequence_failure)))"

text \<open>\<open>actorFailure() ?? executeTriggeredProtectiveExit(candle)\<close>.\<close>

definition settle_actor :: "BacktestConfig \<Rightarrow> Candle \<Rightarrow> replay_state \<Rightarrow> replay_answer" where
  "settle_actor c candle s =
     (case actorFailure s of Some e \<Rightarrow> err e | None \<Rightarrow> executeTriggeredProtectiveExit c candle s)"

definition unless_failed :: "replay_state \<Rightarrow> replay_answer" where
  "unless_failed s = (case actorFailure s of Some e \<Rightarrow> err e | None \<Rightarrow> ok s)"

definition tell_protective :: "replay_host \<Rightarrow> protective_snapshot \<Rightarrow> ProtectiveOrderEvent
    \<Rightarrow> replay_state \<Rightarrow> replay_state" where
  "tell_protective h m e s = s\<lparr>rs_protectiveActor := Some (rh_protective_send h m e)\<rparr>"

definition armProtectivePlan :: "replay_host \<Rightarrow> BacktestConfig \<Rightarrow> Candle \<Rightarrow> number option
    \<Rightarrow> replay_state \<Rightarrow> replay_answer" where
  "armProtectivePlan h c candle at_r s =
     (case rs_activeProtectivePolicy s of
        None \<Rightarrow> ok s
      | Some p \<Rightarrow>
          if positionQuantity (rs_portfolio s) \<le> Fin 0 then ok s
          else
            let n = rs_protectivePositionSequence s + 1;
                actor = rh_protective_init h (protectiveOrder_context p)
            in unless_failed (tell_protective h actor
                 (ARM_REQUESTED (bc_runId c @ '':position:'' @ radix 10 n)
                    (positionQuantity (rs_portfolio s)) (averagePrice (rs_portfolio s)) at_r
                    (Candle.start candle))
                 (s\<lparr>rs_protectivePositionSequence := n\<rparr>)))"

definition open_actor :: "replay_host \<Rightarrow> BacktestConfig \<Rightarrow> Candle \<Rightarrow> protective_snapshot
    \<Rightarrow> replay_state \<Rightarrow> replay_answer" where
  "open_actor h c candle m s =
     settle_actor c candle
       (tell_protective h m (CANDLE_OPENED (Candle.start candle) (open_price candle)) s)"

definition armProtectivePosition :: "replay_host \<Rightarrow> BacktestConfig \<Rightarrow> Candle \<Rightarrow> number option
    \<Rightarrow> replay_state \<Rightarrow> replay_answer" where
  "armProtectivePosition h c candle at_r s =
     and_then (armProtectivePlan h c candle at_r s) (\<lambda>s'.
       case rs_protectiveActor s' of None \<Rightarrow> ok s' | Some m \<Rightarrow> open_actor h c candle m s')"

subsection \<open>Execution candles\<close>

definition previous_atr :: "replay_state \<Rightarrow> number option" where
  "previous_atr s = map_option atr (rs_previousIndicators s)"

text \<open>The protective order after the position has changed.\<close>

definition follow_position :: "replay_host \<Rightarrow> BacktestConfig \<Rightarrow> Candle \<Rightarrow> number \<Rightarrow> replay_state
    \<Rightarrow> replay_answer" where
  "follow_position h c candle before s =
     (let after = positionQuantity (rs_portfolio s);
          tol = js_max (js_max (Fin 1) \<bar>before\<bar>) \<bar>after\<bar> * EPSILON * Fin 16
      in if rs_activeProtectivePolicy s = None then ok s
         else if num_eq after (Fin 0)
         then
           (case rs_protectiveActor s of
              None \<Rightarrow> ok s
            | Some m \<Rightarrow>
                if fst (rh_protective_send h m (CANCEL_REQUESTED POSITION_CLOSED)) \<noteq> protectiveState.Cancelled
                then err sequence_failure else ok (s\<lparr>rs_protectiveActor := None\<rparr>))
         else if before + tol < after
         then
           (case rs_protectiveActor s of
              None \<Rightarrow> armProtectivePosition h c candle (previous_atr s) s
            | Some m \<Rightarrow> unless_failed (tell_protective h m
                (POSITION_INCREASED after (averagePrice (rs_portfolio s)) (previous_atr s)
                   (Candle.start candle)) s))
         else if after < before - tol
         then
           (case rs_protectiveActor s of
              None \<Rightarrow> err sequence_failure
            | Some m \<Rightarrow> unless_failed (tell_protective h m
                (POSITION_REDUCED after (Candle.start candle)) s))
         else ok s)"

definition fill_pending :: "replay_host \<Rightarrow> BacktestConfig \<Rightarrow> Candle \<Rightarrow> OrderIntent \<Rightarrow> replay_state
    \<Rightarrow> replay_answer" where
  "fill_pending h c candle pending s =
     (case capSpotOrder pending (rs_portfolio s) (open_price candle) (bc_broker c) (bc_minNetQuantity c) of
        None \<Rightarrow> ok s
      | Some order \<Rightarrow>
          (case executePaperOrder (rs_portfolio s) order (open_price candle) (Candle.start candle)
              (bc_broker c) of
             Inl e \<Rightarrow> err (BROKER_FAILURE e)
           | Inr x \<Rightarrow> follow_position h c candle (positionQuantity (rs_portfolio s))
               (executed x (Candle.start candle) s)))"

primrec fill_all :: "replay_host \<Rightarrow> BacktestConfig \<Rightarrow> Candle \<Rightarrow> OrderIntent list \<Rightarrow> replay_state
    \<Rightarrow> replay_answer" where
  "fill_all h c candle [] s = ok s"
| "fill_all h c candle (i # is) s = and_then (fill_pending h c candle i s) (fill_all h c candle is)"

definition at_open :: "replay_host \<Rightarrow> BacktestConfig \<Rightarrow> Candle \<Rightarrow> replay_state \<Rightarrow> replay_answer" where
  "at_open h c candle s =
     (case rs_protectiveActor s of
        None \<Rightarrow> ok s
      | Some m \<Rightarrow>
          if fst m \<noteq> ArmedAwaitingOpen then err sequence_failure else open_actor h c candle m s)"

definition at_range :: "replay_host \<Rightarrow> BacktestConfig \<Rightarrow> Candle \<Rightarrow> replay_state \<Rightarrow> replay_answer" where
  "at_range h c candle s =
     (case rs_protectiveActor s of
        None \<Rightarrow> ok s
      | Some m \<Rightarrow>
          if fst m \<noteq> ArmedAwaitingRange then err sequence_failure
          else settle_actor c candle (tell_protective h m
            (CANDLE_RANGE_REPLAYED (Candle.start candle) (high candle) (low candle)) s))"

text \<open>The pending orders are filled at the first execution candle of the bucket.\<close>

definition execution_candle :: "replay_host \<Rightarrow> BacktestConfig \<Rightarrow> bool \<Rightarrow> Candle \<Rightarrow> replay_state
    \<Rightarrow> replay_answer" where
  "execution_candle h c first candle s =
     and_then (at_open h c candle s) (\<lambda>s1.
     and_then (if first then fill_all h c candle (rs_pendingOrders s1) s1 else ok s1) (\<lambda>s2.
       at_range h c candle (if first then s2\<lparr>rs_pendingOrders := []\<rparr> else s2)))"

primrec execution_bucket :: "replay_host \<Rightarrow> BacktestConfig \<Rightarrow> bool \<Rightarrow> Candle list \<Rightarrow> replay_state
    \<Rightarrow> replay_answer" where
  "execution_bucket h c first [] s = ok s"
| "execution_bucket h c first (x # xs) s =
     and_then (execution_candle h c first x s) (execution_bucket h c False xs)"

subsection \<open>Decisions\<close>

definition mark_equity :: "Candle \<Rightarrow> replay_state \<Rightarrow> number" where
  "mark_equity candle s =
     cash (rs_portfolio s) + positionQuantity (rs_portfolio s) * close_price candle"

definition applyFundingCost :: "BacktestConfig \<Rightarrow> Candle \<Rightarrow> nat \<Rightarrow> replay_state \<Rightarrow> replay_state" where
  "applyFundingCost c candle i s =
     (case bc_fundingRates c of
        None \<Rightarrow> s
      | Some rates \<Rightarrow>
          if length rates \<le> i \<or> num_eq (positionQuantity (rs_portfolio s)) (Fin 0) then s
          else
            let cost = positionQuantity (rs_portfolio s) * close_price candle * (rates ! i)
            in s\<lparr>rs_fundingPaid := rs_fundingPaid s + cost,
                 rs_portfolio := (rs_portfolio s)\<lparr>cash := cash (rs_portfolio s) - cost\<rparr>\<rparr>)"

text \<open>The end of a candle: funding, then a point of the equity curve.\<close>

definition close_candle :: "BacktestConfig \<Rightarrow> Candle \<Rightarrow> nat \<Rightarrow> replay_state \<Rightarrow> replay_state" where
  "close_candle c candle i s =
     (let s' = applyFundingCost c candle i s
      in s'\<lparr>rs_equityCurve := rs_equityCurve s' @
          [\<lparr>eq_at = Candle.start candle, eq_equity = mark_equity candle s'\<rparr>]\<rparr>)"

definition funding_window :: nat where "funding_window = 72"

definition fundingInputFor :: "BacktestConfig \<Rightarrow> nat \<Rightarrow> (number list \<times> number) option" where
  "fundingInputFor c n =
     map_option (\<lambda>rates. (drop (n - funding_window) (take n rates), FUNDING_AVG_PERIOD))
       (bc_fundingRates c)"

definition indicators_at :: "replay_host \<Rightarrow> replay_input \<Rightarrow> nat \<Rightarrow> (IndicatorSnapshot, BacktestReplayError) result" where
  "indicators_at h I i =
     (let history = take (Suc i) (ri_candles I); c = ri_config I;
          prepared = (case ri_prepared I of
              None \<Rightarrow> None
            | Some p \<Rightarrow> if i < length (prep_snapshots p) then prep_snapshots p ! i else None)
      in case prepared of
           Some x \<Rightarrow> ok x
         | None \<Rightarrow>
             (case rh_indicators h history (bc_indicators c) (fundingInputFor c (length history)) of
                Inl e \<Rightarrow> err (INDICATOR_FAILURE e) | Inr x \<Rightarrow> ok x))"

definition observe_signals :: "Candle \<Rightarrow> Signal list \<Rightarrow> replay_state \<Rightarrow> replay_state" where
  "observe_signals candle sigs s =
     s\<lparr>rs_signalObservations := rs_signalObservations s @ map (\<lambda>g.
         \<lparr>sdo_strategyId = sig_strategyId g, sdo_side = sig_side g, sdo_confidence = sig_confidence g,
          sdo_suggestedSize = sig_suggestedSize g, sdo_referencePrice = close_price candle\<rparr>) sigs\<rparr>"

text \<open>The regime hears of the candle when both averages are positive.\<close>

definition hear_regime :: "replay_host \<Rightarrow> IndicatorSnapshot \<Rightarrow> regime_snapshot \<Rightarrow> replay_state
    \<Rightarrow> replay_state" where
  "hear_regime h x m s =
     (if isFinite (IndicatorSnapshot.emaFast x) \<and> Fin 0 < IndicatorSnapshot.emaFast x \<and>
         isFinite (IndicatorSnapshot.emaSlow x) \<and> Fin 0 < IndicatorSnapshot.emaSlow x
      then s\<lparr>rs_regimeActor := Some (rh_regime_send h m (CANDLE_CLOSED
              \<lparr>RegimeObservation.start = candleClosedAt x,
               RegimeObservation.emaFast = IndicatorSnapshot.emaFast x,
               RegimeObservation.emaSlow = IndicatorSnapshot.emaSlow x\<rparr>)),
             rs_observationsFed := rs_observationsFed s + 1\<rparr>
      else s)"

text \<open>Under a policy by regime, another arm cancels the protective order and arms a new one.\<close>

definition switch_arm :: "replay_host \<Rightarrow> BacktestConfig \<Rightarrow> Candle \<Rightarrow> RegimeKind option \<Rightarrow> replay_state
    \<Rightarrow> replay_answer" where
  "switch_arm h c candle active s =
     (case bc_protectiveExit c of
        Some (PROTECT_BY_REGIME r) \<Rightarrow>
          (let arm = resolveRegimeExitArm r active
           in if activeProtectivePolicyEquals arm (rs_activeProtectivePolicy s) then ok s
              else
                let s' = s\<lparr>rs_activeProtectivePolicy := arm, rs_protectiveActor := None\<rparr>
                in if (case rs_protectiveActor s of
                         None \<Rightarrow> False
                       | Some m \<Rightarrow> fst (rh_protective_send h m (CANCEL_REQUESTED REGIME_CHANGED))
                           \<noteq> protectiveState.Cancelled)
                   then err sequence_failure
                   else if arm \<noteq> None \<and> Fin 0 < positionQuantity (rs_portfolio s)
                   then armProtectivePlan h c candle (previous_atr s) s'
                   else ok s')
      | _ \<Rightarrow> ok s)"

definition permitted :: "BacktestConfig \<Rightarrow> RegimeKind option \<Rightarrow> Signal \<Rightarrow> bool" where
  "permitted c active g =
     (case active of
        None \<Rightarrow> False
      | Some k \<Rightarrow>
          resolveRegimePermission k (sig_strategyId g)
            (case bc_regimePermissions c of None \<Rightarrow> DEFAULT_REGIME_PERMISSIONS | Some p \<Rightarrow> p) = ok True)"

definition count_in :: "RegimeKind option \<Rightarrow> (RegimeKind \<Rightarrow> nat) \<Rightarrow> RegimeKind \<Rightarrow> nat" where
  "count_in active f = (case active of None \<Rightarrow> f | Some k \<Rightarrow> f(k := f k + 1))"

definition count_signal :: "BacktestConfig \<Rightarrow> RegimeKind option \<Rightarrow> replay_state \<Rightarrow> Signal \<Rightarrow> replay_state" where
  "count_signal c active s g =
     (if permitted c active g
      then s\<lparr>rs_signalsPassed := rs_signalsPassed s + 1,
             rs_passedByRegime := count_in active (rs_passedByRegime s)\<rparr>
      else s\<lparr>rs_signalsFiltered := rs_signalsFiltered s + 1,
             rs_deniedByStrategy := AList.update (sig_strategyId g)
               ((case map_of (rs_deniedByStrategy s) (sig_strategyId g) of None \<Rightarrow> 0 | Some n \<Rightarrow> n) + 1)
               (rs_deniedByStrategy s),
             rs_deniedByRegime := count_in active (rs_deniedByRegime s)\<rparr>)"

definition CALIBRATED_STRATEGY_IDS :: "string list" where
  "CALIBRATED_STRATEGY_IDS = [''ema-cross'', ''breakout'']"

primrec recalibrate :: "replay_host \<Rightarrow> string \<Rightarrow> Signal list \<Rightarrow> (Signal list, BacktestReplayError) result" where
  "recalibrate h profile [] = ok []"
| "recalibrate h profile (g # gs) =
     and_then
       (if sig_side g = SigHold \<or> sig_strategyId g \<notin> set CALIBRATED_STRATEGY_IDS then ok g
        else case calibrateConfidence (rh_pow h) profile (sig_confidence g) of
            Inl _ \<Rightarrow> err REGIME_SIZING_FAILURE
          | Inr x \<Rightarrow> ok (g\<lparr>sig_confidence := x\<rparr>))
       (\<lambda>g'. and_then (recalibrate h profile gs) (\<lambda>gs'. ok (g' # gs')))"

definition regime_sizing :: "replay_host \<Rightarrow> BacktestConfig \<Rightarrow> RegimeKind option \<Rightarrow> Signal list
    \<Rightarrow> (Signal list, BacktestReplayError) result" where
  "regime_sizing h c active sigs =
     (case bc_regimeConditionalSizing c of
        None \<Rightarrow> ok sigs
      | Some p \<Rightarrow>
          let profile = resolveRegimeSizingProfile p active
          in if profile = ''IDENTITY'' then ok sigs else recalibrate h profile sigs)"

text \<open>The signals that pass the regime, and the state after it.\<close>

definition gate_signals :: "replay_host \<Rightarrow> BacktestConfig \<Rightarrow> Candle \<Rightarrow> IndicatorSnapshot \<Rightarrow> Signal list
    \<Rightarrow> replay_state \<Rightarrow> (Signal list \<times> replay_state, BacktestReplayError) result" where
  "gate_signals h c candle x sigs s =
     (case rs_regimeActor s of
        None \<Rightarrow> ok (sigs, s)
      | Some m \<Rightarrow>
          let s1 = hear_regime h x m s
          in case rs_regimeActor s1 of
               None \<Rightarrow> ok (sigs, s1)
             | Some m1 \<Rightarrow>
                 if fst m1 = regimeState.Failed then err REGIME_FILTER_FAILURE
                 else
                   let active = regime (snd m1)
                   in and_then (switch_arm h c candle active s1) (\<lambda>s2.
                      and_then (regime_sizing h c active (filter (permitted c active) sigs)) (\<lambda>gated.
                        ok (gated, foldl (count_signal c active) s2 sigs))))"

subsection \<open>Allocation and risk\<close>

definition allocation_of :: "BacktestConfig \<Rightarrow> Candle \<Rightarrow> Signal list \<Rightarrow> replay_state
    \<Rightarrow> (AllocationDecision, AllocationError) result" where
  "allocation_of c candle sigs s =
     allocateSignals
       \<lparr>agentId = bc_agentId c,
        cycleId = bc_runId c @ '':'' @ timestamp_string (Candle.start candle),
        alloc_decisionId = bc_runId c @ '':decision:'' @ timestamp_string (Candle.start candle),
        signals = sigs, marketPrices = [(bc_productId c, close_price candle)],
        capitalAvailable = js_max (Fin 0) (cash (rs_portfolio s)),
        AllocationInput.maxDecisionNotional = bc_maxDecisionNotional c,
        AllocationInput.minNetQuantity = bc_minNetQuantity c\<rparr>"

definition notional_of :: "Candle \<Rightarrow> OrderIntent list \<Rightarrow> number" where
  "notional_of candle orders =
     foldl (\<lambda>total i. total + OrderIntent.quantity i * close_price candle) (Fin 0) orders"

definition replay_snapshot :: "Candle \<Rightarrow> replay_state \<Rightarrow> number \<Rightarrow> RiskSnapshot" where
  "replay_snapshot candle s day_result =
     \<lparr>marketPrice = close_price candle,
      currentPositionQuantity = positionQuantity (rs_portfolio s),
      RiskSnapshot.otherExposureNotional = Fin 0, dailyPnl = day_result, lastTradeAt = rs_lastTradeAt s,
      now = resolveRiskEvaluationTimestamp (Candle.start candle) (rs_lastTradeAt s),
      killSwitchActive = False\<rparr>"

text \<open>Approved orders, reasons of rejections, notional that is not executable.\<close>

type_synonym screening = "OrderIntent list \<times> RiskReasonCode list \<times> number"

definition screen_order :: "BacktestConfig \<Rightarrow> Candle \<Rightarrow> RiskSnapshot \<Rightarrow> OrderIntent \<Rightarrow> screening
    \<Rightarrow> (screening, BacktestReplayError) result" where
  "screen_order c candle snapshot i acc =
     (case acc of (approved, codes, inexecutable) \<Rightarrow>
       case resolveSpotPermission (side i) (OrderIntent.quantity i) (currentPositionQuantity snapshot) of
         None \<Rightarrow> err SPOT_PERMISSION_FAILURE
       | Some SHORT_FORBIDDEN \<Rightarrow>
           ok (approved, codes, inexecutable + OrderIntent.quantity i * close_price candle)
       | Some SPOT_EXECUTABLE \<Rightarrow>
           (case checkRisk i snapshot (bc_risk c) of
              Inl e \<Rightarrow> err (RISK_FAILURE e)
            | Inr (RiskDecision.REJECTED rc) \<Rightarrow> ok (approved, codes @ [rc], inexecutable)
            | Inr (RiskDecision.APPROVED _) \<Rightarrow> ok (approved @ [i], codes, inexecutable)))"

primrec screen_orders :: "BacktestConfig \<Rightarrow> Candle \<Rightarrow> RiskSnapshot \<Rightarrow> OrderIntent list \<Rightarrow> screening
    \<Rightarrow> (screening, BacktestReplayError) result" where
  "screen_orders c candle snapshot [] acc = ok acc"
| "screen_orders c candle snapshot (i # is) acc =
     and_then (screen_order c candle snapshot i acc) (screen_orders c candle snapshot is)"

definition observe_allocation :: "BacktestConfig \<Rightarrow> Candle \<Rightarrow> AllocationDecision \<Rightarrow> screening
    \<Rightarrow> replay_state \<Rightarrow> replay_state" where
  "observe_allocation c candle d acc s =
     (case acc of (approved, codes, inexecutable) \<Rightarrow>
       let requested = \<bar>case map_of (netQuantities d) (bc_productId c) of None \<Rightarrow> Fin 0 | Some q \<Rightarrow> q\<bar>
       in if bc_minNetQuantity c < requested
          then s\<lparr>rs_allocationObservations := rs_allocationObservations s @
                 [\<lparr>ado_requestedNetNotional = requested * close_price candle,
                   ado_allocatedNotional = notional_of candle (dec_orders d),
                   ado_spotInexecutableNotional = inexecutable,
                   ado_riskApprovedNotional = notional_of candle approved,
                   ado_rejectedReasonCodes = codes\<rparr>]\<rparr>
          else s)"

text \<open>The daily window, rolled at every evaluated candle, and the result of the day.\<close>

definition roll_day :: "Candle \<Rightarrow> replay_state \<Rightarrow> replay_state \<times> number" where
  "roll_day candle s =
     (let daily = resolveDailyRiskWindow (rs_dailyRiskWindow s) (Candle.start candle)
            (mark_equity candle s)
      in (s\<lparr>rs_dailyRiskWindow := Some (risk_window daily)\<rparr>, risk_dailyPnl daily))"

text \<open>The orders of a decision that pass the spot permission and the risk check.\<close>

definition decide :: "BacktestConfig \<Rightarrow> Candle \<Rightarrow> Signal list \<Rightarrow> replay_state \<Rightarrow> replay_answer" where
  "decide c candle sigs s =
     (case allocation_of c candle sigs s of
        Inl e \<Rightarrow> err (ALLOCATION_FAILURE e)
      | Inr d \<Rightarrow>
          (case roll_day candle s of (s1, day_result) \<Rightarrow>
             and_then (screen_orders c candle (replay_snapshot candle s1 day_result)
                 (dec_orders d) ([], [], Fin 0)) (\<lambda>acc.
               ok ((observe_allocation c candle d acc s1)\<lparr>rs_pendingOrders := fst acc\<rparr>))))"

definition act_on_signals :: "replay_host \<Rightarrow> BacktestConfig \<Rightarrow> nat \<Rightarrow> Candle \<Rightarrow> IndicatorSnapshot
    \<Rightarrow> Signal list \<Rightarrow> replay_state \<Rightarrow> replay_answer" where
  "act_on_signals h c i candle x sigs s =
     and_then (gate_signals h c candle x sigs (observe_signals candle sigs s)) (\<lambda>(gated, s1).
     and_then (decide c candle gated s1) (\<lambda>s2.
       ok ((close_candle c candle i s2)\<lparr>rs_previousIndicators := Some x\<rparr>)))"

definition evaluate_candle :: "replay_host \<Rightarrow> replay_input \<Rightarrow> nat \<Rightarrow> Candle \<Rightarrow> replay_state
    \<Rightarrow> replay_answer" where
  "evaluate_candle h I i candle s =
     and_then (indicators_at h I i) (\<lambda>x.
       case evaluateAll (bc_strategies (ri_config I))
           \<lparr>ctx_productId = bc_productId (ri_config I), ctx_candles = take (Suc i) (ri_candles I),
            ctx_indicators = x, ctx_previousIndicators = rs_previousIndicators s\<rparr> of
         Inl e \<Rightarrow> err (STRATEGY_FAILURE e)
       | Inr sigs \<Rightarrow> act_on_signals h (ri_config I) i candle x sigs s)"

subsection \<open>The loop\<close>

definition replay_candle :: "replay_host \<Rightarrow> replay_input \<Rightarrow> nat \<Rightarrow> replay_state \<Rightarrow> replay_answer" where
  "replay_candle h I i s =
     (let c = ri_config I; candle = ri_candles I ! i
      in if length (ri_buckets I) \<le> i
         then err (INVALID_EXECUTION_CANDLES (EXECUTION_SCHEDULE MISALIGNED_EXECUTION_RANGE))
         else and_then (execution_bucket h c True (executionCandles (ri_buckets I ! i)) s) (\<lambda>s1.
           if Fin (of_nat i) < requiredIndicatorCandles (bc_indicators c) - Fin 1
           then ok (close_candle c candle i s1)
           else evaluate_candle h I i candle s1))"

primrec replay_candles :: "replay_host \<Rightarrow> replay_input \<Rightarrow> nat list \<Rightarrow> replay_state \<Rightarrow> replay_answer" where
  "replay_candles h I [] s = ok s"
| "replay_candles h I (i # is) s = and_then (replay_candle h I i s) (replay_candles h I is)"

definition initial_policy :: "ProtectiveExitPolicy option \<Rightarrow> ActiveProtectiveExitPolicy option" where
  "initial_policy p =
     (case p of
        Some (PROTECT_ACTIVE a) \<Rightarrow> Some a
      | Some (PROTECT_BY_REGIME r) \<Rightarrow> resolveRegimeExitArm r None
      | _ \<Rightarrow> None)"

definition replay_start :: "replay_host \<Rightarrow> BacktestConfig \<Rightarrow> replay_state" where
  "replay_start h c =
     \<lparr>rs_portfolio = \<lparr>cash = bc_initialCapital c, positionQuantity = Fin 0, averagePrice = Fin 0\<rparr>,
      rs_trades = [], rs_equityCurve = [], rs_previousIndicators = None, rs_lastTradeAt = None,
      rs_dailyRiskWindow = None, rs_pendingOrders = [],
      rs_activeProtectivePolicy = initial_policy (bc_protectiveExit c), rs_protectiveActor = None,
      rs_protectivePositionSequence = 0, rs_protectiveExits = [], rs_signalObservations = [],
      rs_allocationObservations = [],
      rs_regimeActor = map_option (\<lambda>p. rh_regime_init h (regimeFilter_context p)) (bc_regimeFilter c),
      rs_observationsFed = 0, rs_signalsPassed = 0, rs_signalsFiltered = 0, rs_deniedByStrategy = [],
      rs_passedByRegime = (\<lambda>_. 0), rs_deniedByRegime = (\<lambda>_. 0), rs_fundingPaid = Fin 0\<rparr>"

definition regime_summary :: "BacktestConfig \<Rightarrow> replay_state \<Rightarrow> RegimeGatingSummary option" where
  "regime_summary c s =
     (case (bc_regimeFilter c, rs_regimeActor s) of
        (Some p, Some m) \<Rightarrow> Some
          \<lparr>rg_policy = p, rg_finalRegime = regime (snd m), rg_observationsFed = rs_observationsFed s,
           rg_signalsPassed = rs_signalsPassed s, rg_signalsFiltered = rs_signalsFiltered s,
           rg_deniedByStrategy = rs_deniedByStrategy s, rg_passedByRegime = rs_passedByRegime s,
           rg_deniedByRegime = rs_deniedByRegime s\<rparr>
      | _ \<Rightarrow> None)"

definition replay_result :: "replay_host \<Rightarrow> BacktestConfig \<Rightarrow> bool \<Rightarrow> nat \<Rightarrow> replay_state
    \<Rightarrow> (BacktestResult, BacktestReplayError) result" where
  "replay_result h c samples n s =
     (case summarizeBacktestDiagnostics (rs_signalObservations s) (rs_allocationObservations s) of
        Inl e \<Rightarrow> err (DIAGNOSTICS_FAILURE e)
      | Inr diagnostics \<Rightarrow>
          (case (if samples
                 then map_option Some (case extractBacktestDiagnosticSamples (rs_signalObservations s) of
                     Inl _ \<Rightarrow> None | Inr v \<Rightarrow> Some v)
                 else Some None) of
             None \<Rightarrow> err (DIAGNOSTICS_FAILURE INVALID_SIGNAL_DIAGNOSTIC_OBSERVATION)
           | Some diagnosticSamples \<Rightarrow> ok
               \<lparr>br_runId = bc_runId c, br_trades = rs_trades s, br_equityCurve = rs_equityCurve s,
                br_metrics = calculateMetrics (rh_pow h) (rh_sqrt h) (rs_equityCurve s) (rs_trades s)
                  (bc_initialCapital c) (positionQuantity (rs_portfolio s)),
                br_finalPortfolio = rs_portfolio s, br_processedCandles = n,
                br_fundingPaid = rs_fundingPaid s, br_protectiveExits = rs_protectiveExits s,
                br_diagnostics = diagnostics, br_diagnosticSamples = diagnosticSamples,
                br_regimeGating = regime_summary c s\<rparr>))"

text \<open>The execution candles, validated at their own interval.\<close>

definition validated_execution :: "BacktestReplayOptions option
    \<Rightarrow> (Candle list option, MarketDataIntegrityError) result" where
  "validated_execution options =
     (case options of
        None \<Rightarrow> ok None
      | Some opt \<Rightarrow>
          (case opt_executionCandles opt of
             None \<Rightarrow> ok None
           | Some cs \<Rightarrow>
               (case opt_executionIntervalMs opt of
                  None \<Rightarrow> err INVALID_INTERVAL
                | Some d \<Rightarrow>
                    (case validateMarketDataIntegrity cs d None of
                       Inl e \<Rightarrow> err e | Inr v \<Rightarrow> ok (Some v)))))"

definition replayBacktest :: "replay_host \<Rightarrow> Candle list \<Rightarrow> BacktestConfig
    \<Rightarrow> PreparedBacktestIndicators option \<Rightarrow> BacktestReplayOptions option
    \<Rightarrow> (BacktestResult, BacktestReplayError) result" where
  "replayBacktest h cs c prepared options =
     (if \<not> validBacktestConfig c then err INVALID_BACKTEST_CONFIG
      else case validateMarketDataIntegrity cs (bc_intervalMs c) None of
        Inl e \<Rightarrow> err (INVALID_CANDLES e)
      | Inr v \<Rightarrow>
          (case validated_execution options of
             Inl e \<Rightarrow> err (INVALID_EXECUTION_CANDLES (EXECUTION_DATA e))
           | Inr executions \<Rightarrow>
               (case createExecutionSchedule v executions of
                  Inl e \<Rightarrow> err (INVALID_EXECUTION_CANDLES (EXECUTION_SCHEDULE e))
                | Inr sched \<Rightarrow>
                    if (case bc_fundingRates c of None \<Rightarrow> False | Some rates \<Rightarrow> length rates \<noteq> length v)
                    then err INVALID_BACKTEST_CONFIG
                    else if (case prepared of
                        None \<Rightarrow> False
                      | Some p \<Rightarrow> \<not> validPreparedIndicators p v (bc_indicators c)
                          (requiredIndicatorCandles (bc_indicators c)))
                    then err INVALID_PREPARED_INDICATORS
                    else
                      let I = \<lparr>ri_config = c, ri_candles = v, ri_buckets = buckets sched,
                               ri_prepared = prepared\<rparr>
                      in and_then (replay_candles h I [0..<length v] (replay_start h c))
                        (replay_result h c
                          (case options of None \<Rightarrow> False | Some opt \<Rightarrow> opt_includeDiagnosticSamples opt)
                          (length v)))))"

end
