(* ===== verification/ReplayProps.thy ===== *)
theory ReplayProps
  imports Replay PaperProps DomainProps
begin

text \<open>
  What every step of a replay keeps: the position is never short, a trade fills an order the risk
  check has approved or leaves by a protective exit, and trades and points are only appended.
\<close>

lemma and_then_Inr: "and_then r f = Inr v \<longleftrightarrow> (\<exists>w. r = Inr w \<and> f w = Inr v)"
  by (auto simp: and_then_def err_def split: sum.split)

lemma and_thenE: "and_then r f = Inr v \<Longrightarrow> (\<And>w. r = Inr w \<Longrightarrow> f w = Inr v \<Longrightarrow> P) \<Longrightarrow> P"
  by (auto simp: and_then_Inr)

lemma and_then_simps [simp]: "and_then (ok v) f = f v" "and_then (err e) f = err e" "and_then (Inr v) f = f v"
  by (simp_all add: and_then_def ok_def err_def)

subsection \<open>The simulated broker\<close>

definition not_short :: "number \<Rightarrow> bool" where
  "not_short x \<longleftrightarrow> \<not> x < Fin 0 \<and> binary64 x"

lemma not_short_0 [simp]: "not_short (Fin 0)"
  by (simp add: not_short_def)

lemma fl_positive: "0 \<le> r \<Longrightarrow> fl r = PosInf \<or> (\<exists>s. fl r = Fin s \<and> 0 \<le> s)"
  using fl_nonneg [of r] by (cases "fl r") auto

lemma fl_not_below: "0 \<le> r \<Longrightarrow> \<not> fl r < Fin 0"
  using fl_positive [of r] by auto

lemma not_short_buy: "not_short x \<Longrightarrow> 0 < r \<Longrightarrow> not_short (x + Fin 1 * Fin r)"
  using fl_positive [of r] by (cases x) (auto simp: not_short_def fl_not_below)

lemma not_short_sell:
  assumes "not_short x" "Fin r \<le> js_max (Fin 0) x" "0 < r"
  shows "not_short (x + Fin (- 1) * Fin r)"
proof (cases x)
  case (Fin p)
  then have p: "r \<le> p" "representable p" "0 \<le> p"
    using assms by (auto simp: not_short_def js_max_def split: if_splits)
  then obtain s where "fl r = Fin s" "s \<le> p"
    using fl_le_representable [of p r] fl_positive [of r] assms(3) by auto
  then show ?thesis
    by (simp add: Fin not_short_def fl_uminus fl_not_below)
next
  case PosInf
  then show ?thesis
    by (cases "fl (- r)") (auto simp: not_short_def)
qed (use assms in \<open>auto simp: not_short_def js_max_def\<close>)

lemma paper_order_effect:
  assumes "executePaperOrder w i mp t b = Inr x"
  shows "executedAt (fill (trade x)) = t \<and> fill_clientOrderId (fill (trade x)) = OrderIntent.clientOrderId i \<and>
    fill_quantity (fill (trade x)) = OrderIntent.quantity i \<and> isPositiveFinite (OrderIntent.quantity i) \<and>
    (positionQuantity (portfolio x) = positionQuantity w + direction i * OrderIntent.quantity i \<or>
     positionQuantity (portfolio x) = Fin 0)"
  using assms by (auto simp: executePaperOrder_def Let_def createFill_ok ok_def err_def split: if_splits sum.splits)

text \<open>A sale of no more than the position, or a purchase, leaves no short position.\<close>

lemma paper_order_not_short:
  assumes "executePaperOrder w i mp t b = Inr x" and "not_short (positionQuantity w)"
    and "side i = SELL \<longrightarrow> OrderIntent.quantity i \<le> js_max (Fin 0) (positionQuantity w)"
  shows "not_short (positionQuantity (portfolio x))"
proof -
  obtain r where r: "OrderIntent.quantity i = Fin r" "0 < r"
    using paper_order_effect [OF assms(1)]
    by (cases "OrderIntent.quantity i") (auto simp: isPositiveFinite_def isFinite_def)
  then have "not_short (positionQuantity w + direction i * OrderIntent.quantity i)"
    using assms(2,3) not_short_buy [of "positionQuantity w" r] not_short_sell [of "positionQuantity w" r]
    by (cases "side i") (simp_all add: direction_def)
  then show ?thesis
    using paper_order_effect [OF assms(1)] by auto
qed

lemma capSpotOrder_Some:
  assumes "capSpotOrder i w mp b least = Some j"
  shows "side j = side i \<and> OrderIntent.clientOrderId j = OrderIntent.clientOrderId i \<and>
    OrderIntent.quantity j \<le> OrderIntent.quantity i \<and>
    (side i = SELL \<longrightarrow> OrderIntent.quantity j \<le> js_max (Fin 0) (positionQuantity w))"
proof -
  define available where "available = (if side i = BUY
    then cash w / (mp * (Fin 1 + (if side i = BUY then Fin 1 else Fin (- 1)) * (slippageBps b / Fin 10000)) *
      (Fin 1 + feeBps b / Fin 10000)) else js_max (Fin 0) (positionQuantity w))"
  define q where "q = js_min (OrderIntent.quantity i) available"
  have j: "isFinite q" "j = (if num_eq q (OrderIntent.quantity i) then i else i\<lparr>OrderIntent.quantity := q\<rparr>)"
    using assms by (auto simp: capSpotOrder_def q_def available_def Let_def split: if_splits)
  have "q \<noteq> NaN"
    using j(1) by (auto simp: isFinite_def)
  then have le: "q \<le> OrderIntent.quantity i" "q \<le> available"
    using js_min_le [of "OrderIntent.quantity i" available] by (auto simp: q_def)
  then have "OrderIntent.quantity j = q"
    using j(2) by (auto simp: num_eq_def)
  then show ?thesis
    using le j(2) by (auto simp: available_def)
qed

subsection \<open>The invariant\<close>

text \<open>A trade is a protective exit, or fills an order of a given kind.\<close>

definition explained :: "(OrderIntent \<Rightarrow> bool) \<Rightarrow> ProtectiveExitExecution list \<Rightarrow> PaperTrade \<Rightarrow> bool" where
  "explained P es x \<longleftrightarrow>
     (\<exists>e\<in>set es. pe_fillId e = fillId (fill x)) \<or>
     (\<exists>i. P i \<and> fill_clientOrderId (fill x) = OrderIntent.clientOrderId i \<and>
        fill_quantity (fill x) \<le> OrderIntent.quantity i)"

lemma explained_mono:
  "explained P es x \<Longrightarrow> set es \<subseteq> set es' \<Longrightarrow> (\<And>i. P i \<Longrightarrow> P' i) \<Longrightarrow> explained P' es' x"
  by (auto simp: explained_def)

definition sound :: "(OrderIntent \<Rightarrow> bool) \<Rightarrow> replay_state \<Rightarrow> bool" where
  "sound P s \<longleftrightarrow> not_short (positionQuantity (rs_portfolio s)) \<and> (\<forall>i\<in>set (rs_pendingOrders s). P i)"

text \<open>
  A step from a sound state: trades that the pending orders and the protective exits explain are
  appended, at the given times, and the curve is kept.
\<close>

definition goes :: "(OrderIntent \<Rightarrow> bool) \<Rightarrow> number set \<Rightarrow> replay_state \<Rightarrow> replay_state \<Rightarrow> bool" where
  "goes P T s s' \<longleftrightarrow>
     (sound P s \<longrightarrow> sound P s' \<and> rs_equityCurve s' = rs_equityCurve s \<and>
        (\<exists>ts es. rs_trades s' = rs_trades s @ ts \<and> rs_protectiveExits s' = rs_protectiveExits s @ es \<and>
           (\<forall>x\<in>set ts. executedAt (fill x) \<in> T \<and> explained P es x)))"

lemma goesI:
  assumes "sound P s \<Longrightarrow> sound P s'" "rs_equityCurve s' = rs_equityCurve s"
    "rs_trades s' = rs_trades s @ ts" "rs_protectiveExits s' = rs_protectiveExits s @ es"
    "\<And>x. x \<in> set ts \<Longrightarrow> executedAt (fill x) \<in> T \<and> explained P es x"
  shows "goes P T s s'"
  unfolding goes_def using assms by blast

lemma goes_trans:
  assumes "goes P T s s'" "goes P T s' s''"
  shows "goes P T s s''"
proof (cases "sound P s")
  case True
  obtain ts es where 1: "sound P s'" "rs_equityCurve s' = rs_equityCurve s" "rs_trades s' = rs_trades s @ ts"
      "rs_protectiveExits s' = rs_protectiveExits s @ es" "\<forall>x\<in>set ts. executedAt (fill x) \<in> T \<and> explained P es x"
    using assms(1) True unfolding goes_def by blast
  obtain us fs where 2: "sound P s''" "rs_equityCurve s'' = rs_equityCurve s'" "rs_trades s'' = rs_trades s' @ us"
      "rs_protectiveExits s'' = rs_protectiveExits s' @ fs" "\<forall>x\<in>set us. executedAt (fill x) \<in> T \<and> explained P fs x"
    using assms(2) 1(1) unfolding goes_def by blast
  show ?thesis
    by (rule goesI [where ts = "ts @ us" and es = "es @ fs"]) (use 1 2 in \<open>auto simp: explained_def\<close>)
qed (simp add: goes_def)

lemma goes_mono: "goes P T s s' \<Longrightarrow> T \<subseteq> T' \<Longrightarrow> goes P T' s s'"
  unfolding goes_def by blast

lemma goes_same:
  "rs_portfolio s' = rs_portfolio s \<Longrightarrow> rs_pendingOrders s' = rs_pendingOrders s \<Longrightarrow>
   rs_trades s' = rs_trades s \<Longrightarrow> rs_protectiveExits s' = rs_protectiveExits s \<Longrightarrow>
   rs_equityCurve s' = rs_equityCurve s \<Longrightarrow> goes P T s s'"
  by (rule goesI [where ts = "[]" and es = "[]"]) (simp_all add: sound_def)

lemma goes_refl [simp]: "goes P T s s"
  by (rule goes_same) simp_all

text \<open>Steps that leave the account, the orders and the records alone.\<close>

definition keeps :: "replay_state \<Rightarrow> replay_state \<Rightarrow> bool" where
  "keeps s s' \<longleftrightarrow>
     rs_portfolio s' = rs_portfolio s \<and> rs_lastTradeAt s' = rs_lastTradeAt s \<and>
     rs_dailyRiskWindow s' = rs_dailyRiskWindow s \<and> rs_pendingOrders s' = rs_pendingOrders s \<and>
     rs_trades s' = rs_trades s \<and> rs_protectiveExits s' = rs_protectiveExits s \<and>
     rs_equityCurve s' = rs_equityCurve s"

lemma keeps_refl [simp]: "keeps s s"
  by (simp add: keeps_def)

lemma keeps_trans: "keeps s s' \<Longrightarrow> keeps s' s'' \<Longrightarrow> keeps s s''"
  by (simp add: keeps_def)

lemma keeps_goes: "keeps s s' \<Longrightarrow> goes P T s s'"
  by (rule goes_same) (simp_all add: keeps_def)

subsection \<open>Protective orders\<close>

lemma tell_keeps: "keeps s (tell_protective h m e s)"
  by (simp add: keeps_def tell_protective_def)

lemma tell_goes: "goes P T (tell_protective h m e s) s' \<Longrightarrow> goes P T s s'"
  by (rule goes_trans [OF keeps_goes [OF tell_keeps]])

lemma unless_failed_same: "unless_failed s = Inr s' \<Longrightarrow> s' = s"
  by (auto simp: unless_failed_def ok_def err_def split: option.splits)

lemma execute_exit_goes:
  assumes "execute_exit c candle s r p = Inr s'"
  shows "goes P {Candle.start candle} s s'"
proof -
  obtain x where i: "isPositiveFinite (positionQuantity (rs_portfolio s))"
    and x: "executePaperOrder (rs_portfolio s) (protective_intent c s candle r) (referencePrice r)
      (Candle.start candle) (bc_broker c) = Inr x"
    and s': "s' = (executed x (Candle.start candle) s)
      \<lparr>rs_protectiveExits := rs_protectiveExits s @
         [\<lparr>pe_resolution = r, pe_positionId = positionId p, pe_quantity = positionQuantity (rs_portfolio s),
           pe_fillId = fillId (fill (trade x)), pe_fillPrice = price (fill (trade x))\<rparr>],
       rs_protectiveActor := None\<rparr>"
    using assms by (auto simp: execute_exit_def createOrderIntent_def protective_intent_def split: if_splits sum.splits)
  have "Fin 0 \<le> positionQuantity (rs_portfolio s) \<Longrightarrow>
      positionQuantity (rs_portfolio s) \<le> js_max (Fin 0) (positionQuantity (rs_portfolio s))"
    using i by (cases "positionQuantity (rs_portfolio s)") (auto simp: isPositiveFinite_def isFinite_def js_max_def)
  moreover have "Fin 0 \<le> positionQuantity (rs_portfolio s)"
    using i by (cases "positionQuantity (rs_portfolio s)") (auto simp: isPositiveFinite_def isFinite_def)
  ultimately have "not_short (positionQuantity (rs_portfolio s)) \<Longrightarrow> not_short (positionQuantity (portfolio x))"
    by (intro paper_order_not_short [OF x]) (simp_all add: protective_intent_def)
  then show ?thesis
    using paper_order_effect [OF x]
    by (intro goesI [where ts = "[trade x]"]) (auto simp: sound_def s' executed_def explained_def)
qed

lemma settle_goes:
  "settle_actor c candle s = Inr s' \<Longrightarrow> goes P {Candle.start candle} s s'"
  by (auto simp: settle_actor_def executeTriggeredProtectiveExit_def split: option.splits if_splits
      intro: execute_exit_goes)

lemma open_actor_goes: "open_actor h c candle m s = Inr s' \<Longrightarrow> goes P {Candle.start candle} s s'"
  unfolding open_actor_def by (rule tell_goes, rule settle_goes)

lemma arm_plan_keeps: "armProtectivePlan h c candle v s = Inr s' \<Longrightarrow> keeps s s'"
  by (auto simp: armProtectivePlan_def Let_def tell_protective_def keeps_def split: option.splits if_splits
      dest!: unless_failed_same)

lemma arm_position_goes:
  "armProtectivePosition h c candle v s = Inr s' \<Longrightarrow> goes P {Candle.start candle} s s'"
  by (auto simp: armProtectivePosition_def and_then_Inr split: option.splits
      dest!: keeps_goes [OF arm_plan_keeps, of _ _ _ _ _ _ P "{Candle.start candle}"] dest: open_actor_goes intro: goes_trans)

subsection \<open>Execution candles\<close>

lemma follow_position_goes:
  assumes "follow_position h c candle before s = Inr s'"
  shows "goes P {Candle.start candle} s s'"
proof -
  have unless: "unless_failed (tell_protective h m e s) = Inr s' \<Longrightarrow> goes P T s s'" for m e T
    using unless_failed_same keeps_goes [OF tell_keeps] by metis
  have gone: "goes P T s (s\<lparr>rs_protectiveActor := None\<rparr>)" for T
    by (rule goes_same) simp_all
  show ?thesis
    using assms unfolding follow_position_def Let_def
    by (auto split: if_splits option.splits intro: arm_position_goes unless gone)
qed

lemma fill_pending_goes:
  assumes "fill_pending h c candle i s = Inr s'" and "P i"
  shows "goes P {Candle.start candle} s s'"
proof (cases "capSpotOrder i (rs_portfolio s) (open_price candle) (bc_broker c) (bc_minNetQuantity c)")
  case None
  then show ?thesis
    using assms(1) by (simp add: fill_pending_def)
next
  case (Some order)
  then obtain x where x: "executePaperOrder (rs_portfolio s) order (open_price candle) (Candle.start candle)
      (bc_broker c) = Inr x"
    and follow: "follow_position h c candle (positionQuantity (rs_portfolio s))
      (executed x (Candle.start candle) s) = Inr s'"
    using assms(1) by (auto simp: fill_pending_def split: sum.splits)
  note cap = capSpotOrder_Some [OF Some] and effect = paper_order_effect [OF x]
  have short: "not_short (positionQuantity (rs_portfolio s)) \<Longrightarrow> not_short (positionQuantity (portfolio x))"
    using cap by (intro paper_order_not_short [OF x]) simp_all
  have "explained P [] (trade x)"
    using cap effect assms(2) by (auto simp: explained_def)
  then have "goes P {Candle.start candle} s (executed x (Candle.start candle) s)"
    using effect short by (intro goesI [where ts = "[trade x]" and es = "[]"]) (simp_all add: sound_def executed_def)
  then show ?thesis
    using follow_position_goes [OF follow] by (rule goes_trans)
qed

lemma fill_all_goes:
  "fill_all h c candle is s = Inr s' \<Longrightarrow> \<forall>i\<in>set is. P i \<Longrightarrow> goes P {Candle.start candle} s s'"
proof (induction "is" arbitrary: s)
  case (Cons i "is")
  then obtain s1 where "fill_pending h c candle i s = Inr s1" "fill_all h c candle is s1 = Inr s'"
    by (auto simp: and_then_Inr)
  then show ?case
    using Cons.IH Cons.prems(2) by (auto intro: goes_trans fill_pending_goes)
qed simp

lemma at_open_goes: "at_open h c candle s = Inr s' \<Longrightarrow> goes P {Candle.start candle} s s'"
  by (auto simp: at_open_def split: option.splits if_splits intro: open_actor_goes)

lemma at_range_goes: "at_range h c candle s = Inr s' \<Longrightarrow> goes P {Candle.start candle} s s'"
  by (auto simp: at_range_def split: option.splits if_splits intro: tell_goes settle_goes)

lemma execution_candle_goes:
  assumes "execution_candle h c first candle s = Inr s'"
  shows "goes P {Candle.start candle} s s'"
proof -
  obtain s1 s2 where s1: "at_open h c candle s = Inr s1"
    and s2: "(if first then fill_all h c candle (rs_pendingOrders s1) s1 else ok s1) = Inr s2"
    and s': "at_range h c candle (if first then s2\<lparr>rs_pendingOrders := []\<rparr> else s2) = Inr s'"
    using assms by (auto simp: execution_candle_def and_then_Inr)
  have "goes P {Candle.start candle} s1 s2"
    using s2 fill_all_goes [of h c candle "rs_pendingOrders s1" s1 s2 P]
    by (cases "sound P s1") (auto simp: sound_def goes_def split: if_splits)
  moreover have "goes P {Candle.start candle} s2 (if first then s2\<lparr>rs_pendingOrders := []\<rparr> else s2)"
    by (auto intro!: goesI [where ts = "[]" and es = "[]"] simp: sound_def)
  ultimately show ?thesis
    using at_open_goes [OF s1] at_range_goes [OF s'] by (blast intro: goes_trans)
qed

lemma execution_bucket_goes:
  "execution_bucket h c first xs s = Inr s' \<Longrightarrow> goes P (Candle.start ` set xs) s s'"
proof (induction xs arbitrary: first s)
  case (Cons x xs)
  then obtain s1 where "execution_candle h c first x s = Inr s1" "execution_bucket h c False xs s1 = Inr s'"
    by (auto simp: and_then_Inr)
  then have "goes P {Candle.start x} s s1" "goes P (Candle.start ` set xs) s1 s'"
    using Cons.IH execution_candle_goes by blast+
  then show ?case
    by (auto intro: goes_trans goes_mono)
qed simp

subsection \<open>Decisions\<close>

lemma observation_keeps: "keeps s (observe_signals candle sigs s)"
  by (simp add: keeps_def observe_signals_def)

lemma hear_regime_keeps: "keeps s (hear_regime h x m s)"
  by (simp add: keeps_def hear_regime_def)

lemma count_keeps: "keeps s (foldl (count_signal c active) s sigs)"
proof (induction sigs arbitrary: s)
  case (Cons g sigs)
  have "keeps s (count_signal c active s g)"
    by (simp add: keeps_def count_signal_def)
  then show ?case
    using keeps_trans [OF _ Cons.IH] by simp
qed simp

lemma switch_arm_keeps:
  assumes "switch_arm h c candle active s = Inr s'"
  shows "keeps s s'"
proof (cases "s' = s")
  case False
  then obtain arm where "s' = s\<lparr>rs_activeProtectivePolicy := arm, rs_protectiveActor := None\<rparr> \<or>
      armProtectivePlan h c candle (previous_atr s)
        (s\<lparr>rs_activeProtectivePolicy := arm, rs_protectiveActor := None\<rparr>) = Inr s'"
    using assms by (auto simp: switch_arm_def Let_def split: option.splits ProtectiveExitPolicy.splits if_splits)
  moreover have "keeps s (s\<lparr>rs_activeProtectivePolicy := arm, rs_protectiveActor := None\<rparr>)"
    by (simp add: keeps_def)
  ultimately show ?thesis
    by (blast intro: arm_plan_keeps keeps_trans)
qed simp

lemma gate_signals_keeps:
  assumes "gate_signals h c candle x sigs s = Inr (gated, s')"
  shows "keeps s s'"
proof (cases "rs_regimeActor s")
  case None
  then show ?thesis
    using assms by (simp add: gate_signals_def)
next
  case (Some m)
  let ?s1 = "hear_regime h x m s"
  have "rs_regimeActor ?s1 \<noteq> None"
    by (simp add: hear_regime_def Some)
  then obtain m1 where m1: "rs_regimeActor ?s1 = Some m1"
    by blast
  let ?active = "regime (snd m1)"
  have r: "and_then (switch_arm h c candle ?active ?s1) (\<lambda>s2.
      and_then (regime_sizing h c ?active (filter (permitted c ?active) sigs)) (\<lambda>gated.
        ok (gated, foldl (count_signal c ?active) s2 sigs))) = Inr (gated, s')"
    using assms by (simp add: gate_signals_def Some m1 Let_def err_def split: if_split_asm)
  obtain s2 where s2: "switch_arm h c candle ?active ?s1 = Inr s2"
    and s': "s' = foldl (count_signal c ?active) s2 sigs"
    using r by (auto simp: ok_def elim!: and_thenE)
  have "keeps s s2"
    by (rule keeps_trans [OF hear_regime_keeps switch_arm_keeps [OF s2]])
  then show ?thesis
    unfolding s' by (rule keeps_trans) (rule count_keeps)
qed

text \<open>
  The risk check approves an order of the allocation, on the account as the close of a candle
  finds it: the position, the time of the last trade and the result of the day at that price.
\<close>

definition risk_approves :: "BacktestConfig \<Rightarrow> Candle \<Rightarrow> replay_state \<Rightarrow> OrderIntent \<Rightarrow> bool" where
  "risk_approves c candle s i \<longleftrightarrow>
     (\<exists>sigs d a. allocation_of c candle sigs s = Inr d \<and> i \<in> set (dec_orders d) \<and>
        checkRisk i
          \<lparr>marketPrice = close_price candle, currentPositionQuantity = positionQuantity (rs_portfolio s),
           RiskSnapshot.otherExposureNotional = Fin 0,
           dailyPnl = risk_dailyPnl (resolveDailyRiskWindow (rs_dailyRiskWindow s) (Candle.start candle)
             (cash (rs_portfolio s) + positionQuantity (rs_portfolio s) * close_price candle)),
           lastTradeAt = rs_lastTradeAt s,
           now = resolveRiskEvaluationTimestamp (Candle.start candle) (rs_lastTradeAt s),
           killSwitchActive = False\<rparr> (bc_risk c) = Inr (RiskDecision.APPROVED a))"

lemma risk_approves_keeps: "keeps s s' \<Longrightarrow> risk_approves c candle s' i \<longleftrightarrow> risk_approves c candle s i"
  by (simp add: keeps_def risk_approves_def allocation_of_def)

lemma screen_orders_approved:
  "screen_orders c candle snapshot is acc = Inr acc' \<Longrightarrow> i \<in> set (fst acc') \<Longrightarrow>
     i \<in> set (fst acc) \<or> i \<in> set is \<and> (\<exists>a. checkRisk i snapshot (bc_risk c) = Inr (RiskDecision.APPROVED a))"
proof (induction "is" arbitrary: acc)
  case (Cons j "is")
  obtain acc1 where acc1: "screen_order c candle snapshot j acc = Inr acc1"
    and "screen_orders c candle snapshot is acc1 = Inr acc'"
    using Cons.prems(1) by (auto elim: and_thenE simp del: split_paired_All split_paired_Ex)
  then have "i \<in> set (fst acc1) \<or> i \<in> set is \<and> (\<exists>a. checkRisk i snapshot (bc_risk c) = Inr (RiskDecision.APPROVED a))"
    using Cons.IH Cons.prems(2) by blast
  moreover have "i \<in> set (fst acc1) \<Longrightarrow>
      i \<in> set (fst acc) \<or> i = j \<and> (\<exists>a. checkRisk i snapshot (bc_risk c) = Inr (RiskDecision.APPROVED a))"
    using acc1 by (cases acc)
      (auto simp: screen_order_def ok_def err_def split: option.splits SpotPermission.splits sum.splits RiskDecision.splits)
  ultimately show ?case
    by auto
qed (simp add: ok_def)

text \<open>A decision replaces the pending orders and changes nothing else of the account.\<close>

lemma decide_spec:
  assumes "decide c candle sigs s = Inr s'"
  shows "rs_portfolio s' = rs_portfolio s" "rs_trades s' = rs_trades s"
    "rs_protectiveExits s' = rs_protectiveExits s" "rs_equityCurve s' = rs_equityCurve s"
    "i \<in> set (rs_pendingOrders s') \<Longrightarrow> risk_approves c candle s i"
proof -
  obtain s1 day_result where roll: "roll_day candle s = (s1, day_result)"
    by fastforce
  obtain d where d: "allocation_of c candle sigs s = Inr d"
    using assms by (cases "allocation_of c candle sigs s") (simp_all add: decide_def err_def)
  obtain acc where
    screened: "screen_orders c candle (replay_snapshot candle s1 day_result) (dec_orders d) ([], [], Fin 0) = Inr acc"
    and s': "s' = (observe_allocation c candle d acc s1)\<lparr>rs_pendingOrders := fst acc\<rparr>"
    using assms by (auto simp: decide_def d roll ok_def elim: and_thenE)
  have same: "rs_portfolio s1 = rs_portfolio s" "rs_trades s1 = rs_trades s" "rs_lastTradeAt s1 = rs_lastTradeAt s"
      "rs_protectiveExits s1 = rs_protectiveExits s" "rs_equityCurve s1 = rs_equityCurve s"
      "day_result = risk_dailyPnl (resolveDailyRiskWindow (rs_dailyRiskWindow s) (Candle.start candle)
        (cash (rs_portfolio s) + positionQuantity (rs_portfolio s) * close_price candle))"
    using roll by (auto simp: roll_day_def Let_def mark_equity_def)
  have "rs_portfolio (observe_allocation c candle d acc s1) = rs_portfolio s1 \<and>
      rs_trades (observe_allocation c candle d acc s1) = rs_trades s1 \<and>
      rs_protectiveExits (observe_allocation c candle d acc s1) = rs_protectiveExits s1 \<and>
      rs_equityCurve (observe_allocation c candle d acc s1) = rs_equityCurve s1"
    by (cases acc) (simp add: observe_allocation_def Let_def)
  then show "rs_portfolio s' = rs_portfolio s" "rs_trades s' = rs_trades s"
    "rs_protectiveExits s' = rs_protectiveExits s" "rs_equityCurve s' = rs_equityCurve s"
    by (simp_all add: s' same)
  assume "i \<in> set (rs_pendingOrders s')"
  then have "i \<in> set (dec_orders d) \<and>
      (\<exists>a. checkRisk i (replay_snapshot candle s1 day_result) (bc_risk c) = Inr (RiskDecision.APPROVED a))"
    using screen_orders_approved [OF screened, of i] by (simp add: s')
  then show "risk_approves c candle s i"
    unfolding risk_approves_def replay_snapshot_def same using d by blast
qed

text \<open>The end of a candle: its point is appended, the pending orders are those it approved.\<close>

definition ends_candle :: "(OrderIntent \<Rightarrow> bool) \<Rightarrow> Candle \<Rightarrow> replay_state \<Rightarrow> replay_state \<Rightarrow> bool" where
  "ends_candle Q candle s s' \<longleftrightarrow>
     positionQuantity (rs_portfolio s') = positionQuantity (rs_portfolio s) \<and> rs_trades s' = rs_trades s \<and>
     rs_protectiveExits s' = rs_protectiveExits s \<and> (\<forall>i\<in>set (rs_pendingOrders s'). Q i) \<and>
     (\<exists>x. rs_equityCurve s' = rs_equityCurve s @ [x] \<and> eq_at x = Candle.start candle)"

lemma close_candle_ends:
  assumes "\<forall>i\<in>set (rs_pendingOrders s). Q i"
  shows "ends_candle Q candle s (close_candle c candle i s)"
    "ends_candle Q candle s ((close_candle c candle i s)\<lparr>rs_previousIndicators := x\<rparr>)"
  using assms by (auto simp: ends_candle_def close_candle_def applyFundingCost_def Let_def split: option.splits)

lemma evaluate_candle_ends:
  assumes "evaluate_candle h I i candle s = Inr s'"
  shows "ends_candle (risk_approves (ri_config I) candle s) candle s s'"
proof -
  obtain x sigs where "act_on_signals h (ri_config I) i candle x sigs s = Inr s'"
    using assms(1) unfolding evaluate_candle_def
    by (elim and_thenE) (auto simp: err_def split: sum.split_asm)
  then obtain r s2 where
    gate: "gate_signals h (ri_config I) candle x sigs (observe_signals candle sigs s) = Inr r"
    and s2: "decide (ri_config I) candle (fst r) (snd r) = Inr s2"
    and s': "s' = (close_candle (ri_config I) candle i s2)\<lparr>rs_previousIndicators := Some x\<rparr>"
    unfolding act_on_signals_def by (elim and_thenE) (auto simp: split_beta ok_def elim!: and_thenE simp del: split_paired_All split_paired_Ex)
  have "gate_signals h (ri_config I) candle x sigs (observe_signals candle sigs s) = Inr (fst r, snd r)"
    using gate by simp
  then have kept: "keeps s (snd r)"
    by (rule keeps_trans [OF observation_keeps gate_signals_keeps])
  have "ends_candle (risk_approves (ri_config I) candle s) candle s2 s'"
    unfolding s' using decide_spec(5) [OF s2] by (intro close_candle_ends) (simp add: risk_approves_keeps [OF kept])
  then show ?thesis
    using decide_spec(1-4) [OF s2] kept by (simp add: ends_candle_def keeps_def)
qed

text \<open>One candle: the bucket, then its end.\<close>

abbreviation warming :: "replay_input \<Rightarrow> nat \<Rightarrow> bool" where
  "warming I i \<equiv> Fin (of_nat i) < requiredIndicatorCandles (bc_indicators (ri_config I)) - Fin 1"

lemma replay_candle_steps:
  assumes "replay_candle h I i s = Inr s'"
  obtains s1 where
    "execution_bucket h (ri_config I) True (executionCandles (ri_buckets I ! i)) s = Inr s1"
    "goes P (Candle.start ` set (executionCandles (ri_buckets I ! i))) s s1"
    "ends_candle (if warming I i then \<lambda>x. x \<in> set (rs_pendingOrders s1)
       else risk_approves (ri_config I) (ri_candles I ! i) s1) (ri_candles I ! i) s1 s'"
proof -
  obtain s1 where s1: "execution_bucket h (ri_config I) True (executionCandles (ri_buckets I ! i)) s = Inr s1"
    and s': "(if warming I i then ok (close_candle (ri_config I) (ri_candles I ! i) i s1)
      else evaluate_candle h I i (ri_candles I ! i) s1) = Inr s'"
    using assms(1) by (auto simp: replay_candle_def Let_def and_then_Inr split: if_splits)
  show thesis
    by (rule that [OF s1 execution_bucket_goes [OF s1]])
       (use s' in \<open>auto simp: ok_def split: if_splits intro: close_candle_ends evaluate_candle_ends\<close>)
qed

end
