(* ===== verification/ReplayCorrect.thy ===== *)
theory ReplayCorrect
  imports ReplayProps
begin

text \<open>
  What a whole replay guarantees: a point of the curve per candle, no short position, trades that
  the risk check approved, and no look-ahead: a decision depends only on the candles and the
  funding rates up to it.
\<close>

subsection \<open>The run\<close>

lemma replay_candles_append:
  "replay_candles h I (is @ js) s = and_then (replay_candles h I is s) (replay_candles h I js)"
  by (induction "is" arbitrary: s) (simp_all add: and_then_def ok_def err_def split: sum.split)

text \<open>Candles from a state: each adds its point, and trades at starts of its execution candles.\<close>

definition replays :: "number set \<Rightarrow> number list \<Rightarrow> replay_state \<Rightarrow> replay_state \<Rightarrow> bool" where
  "replays T ats s s' \<longleftrightarrow>
     (\<exists>xs. rs_equityCurve s' = rs_equityCurve s @ xs \<and> map eq_at xs = ats) \<and>
     (\<exists>ts. rs_trades s' = rs_trades s @ ts \<and> (\<forall>x\<in>set ts. executedAt (fill x) \<in> T))"

lemma replays_step:
  assumes "replays T [t] s s1" "replays T' ats s1 s'"
  shows "replays (T \<union> T') (t # ats) s s'"
proof -
  obtain xs ts ys us where "rs_equityCurve s1 = rs_equityCurve s @ xs" "map eq_at xs = [t]"
      "rs_trades s1 = rs_trades s @ ts" "\<forall>x\<in>set ts. executedAt (fill x) \<in> T"
      "rs_equityCurve s' = rs_equityCurve s1 @ ys" "map eq_at ys = ats"
      "rs_trades s' = rs_trades s1 @ us" "\<forall>x\<in>set us. executedAt (fill x) \<in> T'"
    using assms unfolding replays_def by (elim conjE exE) (rule that)
  then show ?thesis
    unfolding replays_def by auto
qed

lemma runs_appends:
  "replays T ats s s' \<Longrightarrow> T \<subseteq> U \<Longrightarrow>
     \<exists>xs ts. rs_equityCurve s' = rs_equityCurve s @ xs \<and> map eq_at xs = ats \<and>
       rs_trades s' = rs_trades s @ ts \<and> (\<forall>x\<in>set ts. executedAt (fill x) \<in> U)"
  unfolding replays_def by blast

lemma candle_replays:
  assumes "replay_candle h I i s = Inr s'" and "not_short (positionQuantity (rs_portfolio s))"
  shows "replays (Candle.start ` set (executionCandles (ri_buckets I ! i))) [Candle.start (ri_candles I ! i)] s s'"
    "not_short (positionQuantity (rs_portfolio s'))"
proof -
  let ?T = "Candle.start ` set (executionCandles (ri_buckets I ! i))"
  obtain s1 where goes: "goes (\<lambda>_. True) ?T s s1"
    and ends: "ends_candle (if warming I i then \<lambda>x. x \<in> set (rs_pendingOrders s1)
       else risk_approves (ri_config I) (ri_candles I ! i) s1) (ri_candles I ! i) s1 s'"
    using replay_candle_steps [OF assms(1)] by metis
  obtain ts where ts: "rs_trades s1 = rs_trades s @ ts" "\<forall>x\<in>set ts. executedAt (fill x) \<in> ?T"
    and s1: "rs_equityCurve s1 = rs_equityCurve s" "not_short (positionQuantity (rs_portfolio s1))"
    using goes assms(2) unfolding goes_def sound_def by blast
  obtain x where "rs_equityCurve s' = rs_equityCurve s @ [x]" "eq_at x = Candle.start (ri_candles I ! i)"
      "rs_trades s' = rs_trades s1" and flat: "positionQuantity (rs_portfolio s') = positionQuantity (rs_portfolio s1)"
    using ends s1(1) unfolding ends_candle_def by auto
  then show "replays ?T [Candle.start (ri_candles I ! i)] s s'"
    using ts unfolding replays_def by simp
  show "not_short (positionQuantity (rs_portfolio s'))"
    using s1(2) by (simp add: flat)
qed

lemma replay_candles_replays:
  "replay_candles h I is s = Inr s' \<Longrightarrow> not_short (positionQuantity (rs_portfolio s)) \<Longrightarrow>
     replays (\<Union>i\<in>set is. Candle.start ` set (executionCandles (ri_buckets I ! i)))
       (map (\<lambda>i. Candle.start (ri_candles I ! i)) is) s s' \<and> not_short (positionQuantity (rs_portfolio s'))"
proof (induction "is" arbitrary: s)
  case Nil
  then show ?case
    by (simp add: replays_def ok_def)
next
  case (Cons i "is")
  obtain s1 where s1: "replay_candle h I i s = Inr s1" and rest: "replay_candles h I is s1 = Inr s'"
    using Cons.prems(1) by (auto elim: and_thenE)
  note first = candle_replays [OF s1 Cons.prems(2)]
  show ?case
    using replays_step [OF first(1)] Cons.IH [OF rest first(2)] by simp
qed

subsection \<open>Approvals\<close>

text \<open>The account at the close of candle \<open>n\<close>: after the candles before it and its own executions.\<close>

definition at_close :: "replay_host \<Rightarrow> replay_input \<Rightarrow> nat \<Rightarrow> replay_state \<Rightarrow> bool" where
  "at_close h I n s \<longleftrightarrow>
     (\<exists>s0. replay_candles h I [0..<n] (replay_start h (ri_config I)) = Inr s0 \<and>
        execution_bucket h (ri_config I) True (executionCandles (ri_buckets I ! n)) s0 = Inr s)"

definition approved_at :: "replay_host \<Rightarrow> replay_input \<Rightarrow> nat \<Rightarrow> OrderIntent \<Rightarrow> bool" where
  "approved_at h I n i \<longleftrightarrow>
     (\<exists>s. at_close h I n s \<and> risk_approves (ri_config I) (ri_candles I ! n) s i)"

text \<open>A trade of candle \<open>m\<close> is a protective exit, or fills an order of the candle before it.\<close>

definition traded_at :: "replay_host \<Rightarrow> replay_input \<Rightarrow> ProtectiveExitExecution list \<Rightarrow> nat \<Rightarrow> PaperTrade \<Rightarrow> bool" where
  "traded_at h I es m x \<longleftrightarrow>
     executedAt (fill x) \<in> Candle.start ` set (executionCandles (ri_buckets I ! m)) \<and>
     explained (\<lambda>i. \<exists>n. m = Suc n \<and> approved_at h I n i) es x"

definition run_ok :: "replay_host \<Rightarrow> replay_input \<Rightarrow> nat \<Rightarrow> replay_state \<Rightarrow> bool" where
  "run_ok h I n s \<longleftrightarrow>
     sound (\<lambda>i. \<exists>k. n = Suc k \<and> \<not> warming I k \<and> approved_at h I k i) s \<and>
     (\<forall>x\<in>set (rs_trades s). \<exists>m<n. traded_at h I (rs_protectiveExits s) m x)"

lemma traded_at_more: "traded_at h I es m x \<Longrightarrow> traded_at h I (es @ es') m x"
  by (auto simp: traded_at_def explained_def)

lemma warming_Suc: "warming I (Suc k) \<Longrightarrow> warming I k"
  by (rule number_le_lt_trans) simp_all

lemma run_ok_step:
  assumes ok: "run_ok h I n s" and run: "replay_candles h I [0..<n] (replay_start h (ri_config I)) = Inr s"
    and step: "replay_candle h I n s = Inr s'"
  shows "run_ok h I (Suc n) s'"
proof -
  let ?P = "\<lambda>i. \<exists>k. n = Suc k \<and> \<not> warming I k \<and> approved_at h I k i"
  let ?T = "Candle.start ` set (executionCandles (ri_buckets I ! n))"
  obtain s1 where bucket: "execution_bucket h (ri_config I) True (executionCandles (ri_buckets I ! n)) s = Inr s1"
    and goes: "goes ?P ?T s s1"
    and ends: "ends_candle (if warming I n then \<lambda>x. x \<in> set (rs_pendingOrders s1)
       else risk_approves (ri_config I) (ri_candles I ! n) s1) (ri_candles I ! n) s1 s'"
    by (rule replay_candle_steps [OF step])
  have close: "at_close h I n s1"
    using run bucket by (auto simp: at_close_def)
  obtain ts es where s1: "sound ?P s1" "rs_trades s1 = rs_trades s @ ts"
      "rs_protectiveExits s1 = rs_protectiveExits s @ es"
    and ts: "\<forall>x\<in>set ts. executedAt (fill x) \<in> ?T \<and> explained ?P es x"
    using goes ok unfolding goes_def run_ok_def by blast
  have s': "positionQuantity (rs_portfolio s') = positionQuantity (rs_portfolio s1)" "rs_trades s' = rs_trades s1"
      "rs_protectiveExits s' = rs_protectiveExits s1"
    using ends by (simp_all add: ends_candle_def)
  have pending: "\<not> warming I n \<and> approved_at h I n i" if "i \<in> set (rs_pendingOrders s')" for i
  proof (cases "warming I n")
    case True
    then have "i \<in> set (rs_pendingOrders s1)"
      using ends that by (simp add: ends_candle_def)
    then obtain k where "n = Suc k" "\<not> warming I k"
      using s1(1) unfolding sound_def by blast
    then show ?thesis
      using True warming_Suc by blast
  next
    case False
    then have "risk_approves (ri_config I) (ri_candles I ! n) s1 i"
      using ends that by (simp add: ends_candle_def)
    then show ?thesis
      using False close unfolding approved_at_def by blast
  qed
  have "traded_at h I (rs_protectiveExits s') n x" if "x \<in> set ts" for x
    using ts that unfolding traded_at_def s' s1(3) explained_def by auto
  moreover have "\<exists>m<n. traded_at h I (rs_protectiveExits s') m x" if "x \<in> set (rs_trades s)" for x
    using ok that unfolding run_ok_def s' s1(3) by (blast intro: traded_at_more)
  ultimately have "\<forall>x\<in>set (rs_trades s'). \<exists>m<Suc n. traded_at h I (rs_protectiveExits s') m x"
    unfolding s' s1(2) by (auto simp: less_Suc_eq)
  then show ?thesis
    using pending s1(1) s'(1) unfolding run_ok_def sound_def by simp
qed

lemma run_ok_candles:
  "replay_candles h I [0..<n] (replay_start h (ri_config I)) = Inr s \<Longrightarrow> run_ok h I n s"
proof (induction n arbitrary: s)
  case 0
  then show ?case
    by (auto simp: run_ok_def sound_def replay_start_def ok_def)
next
  case (Suc n)
  obtain s0 where s0: "replay_candles h I [0..<n] (replay_start h (ri_config I)) = Inr s0"
    and "replay_candle h I n s0 = Inr s"
    using Suc.prems by (auto simp: replay_candles_append elim!: and_thenE simp del: split_paired_All split_paired_Ex)
  then show ?case
    using run_ok_step [OF Suc.IH [OF s0] s0] by blast
qed

subsection \<open>The answer\<close>

lemma replay_start_flat: "not_short (positionQuantity (rs_portfolio (replay_start h c)))"
  by (simp add: replay_start_def)

lemma replay_start_empty: "rs_trades (replay_start h c) = []" "rs_equityCurve (replay_start h c) = []"
  by (simp_all add: replay_start_def)

lemma integrity_returns: "validateMarketDataIntegrity cs d ticker = Inr vs \<Longrightarrow> vs = cs"
  using validate_candles_ok [of 0 None cs]
  by (auto simp: validateMarketDataIntegrity_def validateCandleSeries_def Let_def
      simp del: times_number.simps divide_number.simps
      split: if_splits sum.splits option.splits list.splits)

lemma replay_result_fields:
  "replay_result h c samples n s = Inr r \<Longrightarrow>
     br_trades r = rs_trades s \<and> br_equityCurve r = rs_equityCurve s \<and> br_finalPortfolio r = rs_portfolio s \<and>
     br_processedCandles r = n \<and> br_protectiveExits r = rs_protectiveExits s"
  by (auto simp: replay_result_def split: sum.split_asm option.split_asm if_split_asm)

text \<open>A replay that answers is a run of the loop.\<close>

lemma replay_run:
  assumes "replayBacktest h cs c prepared options = Inr r"
  obtains executions sched s where
    "validated_execution options = Inr executions"
    "createExecutionSchedule cs executions = Inr sched"
    "replay_candles h \<lparr>ri_config = c, ri_candles = cs, ri_buckets = buckets sched, ri_prepared = prepared\<rparr>
       [0..<length cs] (replay_start h c) = Inr s"
    "br_trades r = rs_trades s" "br_equityCurve r = rs_equityCurve s"
    "br_finalPortfolio r = rs_portfolio s" "br_processedCandles r = length cs"
    "br_protectiveExits r = rs_protectiveExits s"
proof -
  obtain v where v: "validateMarketDataIntegrity cs (bc_intervalMs c) None = Inr v"
    using assms by (cases "validateMarketDataIntegrity cs (bc_intervalMs c) None")
      (auto simp: replayBacktest_def split: if_split_asm)
  obtain x where x: "validated_execution options = Inr x"
    using assms v by (cases "validated_execution options") (auto simp: replayBacktest_def split: if_split_asm)
  obtain sched where sched: "createExecutionSchedule v x = Inr sched"
    using assms v x by (cases "createExecutionSchedule v x") (auto simp: replayBacktest_def split: if_split_asm)
  have "v = cs"
    using v by (rule integrity_returns)
  have "\<exists>samples. and_then (replay_candles h \<lparr>ri_config = c, ri_candles = cs, ri_buckets = buckets sched,
      ri_prepared = prepared\<rparr> [0..<length cs] (replay_start h c)) (replay_result h c samples (length cs)) = Inr r"
    using assms v x sched \<open>v = cs\<close>
    by (auto simp: replayBacktest_def Let_def simp del: upt_Suc split: if_split_asm)
  then obtain samples s where
    run: "replay_candles h \<lparr>ri_config = c, ri_candles = cs, ri_buckets = buckets sched,
      ri_prepared = prepared\<rparr> [0..<length cs] (replay_start h c) = Inr s"
    and "replay_result h c samples (length cs) s = Inr r"
    by (auto simp: and_then_Inr)
  then have r: "replay_result h c samples (length cs) s = Inr r"
    by blast
  show thesis
    using that [OF x _ run] replay_result_fields [OF r] sched \<open>v = cs\<close> by simp
qed

lemma replay_runs:
  assumes "replayBacktest h cs c prepared options = Inr r"
  shows "map eq_at (br_equityCurve r) = map Candle.start cs \<and> br_processedCandles r = length cs \<and>
    not_short (positionQuantity (br_finalPortfolio r)) \<and>
    (\<exists>executions sched. validated_execution options = Inr executions \<and>
       createExecutionSchedule cs executions = Inr sched \<and>
       (\<forall>x\<in>set (br_trades r). \<exists>m<length cs.
          traded_at h \<lparr>ri_config = c, ri_candles = cs, ri_buckets = buckets sched, ri_prepared = prepared\<rparr>
            (br_protectiveExits r) m x))"
proof -
  from assms obtain executions sched s where
    sched: "validated_execution options = Inr executions" "createExecutionSchedule cs executions = Inr sched"
    and run: "replay_candles h \<lparr>ri_config = c, ri_candles = cs, ri_buckets = buckets sched, ri_prepared = prepared\<rparr>
       [0..<length cs] (replay_start h c) = Inr s"
    and r: "br_trades r = rs_trades s" "br_equityCurve r = rs_equityCurve s"
    "br_finalPortfolio r = rs_portfolio s" "br_processedCandles r = length cs"
    "br_protectiveExits r = rs_protectiveExits s"
    by (rule replay_run)
  have ats: "map (\<lambda>i. Candle.start (cs ! i)) [0..<length cs] = map Candle.start cs"
    by (rule nth_equalityI) simp_all
  let ?I = "\<lparr>ri_config = c, ri_candles = cs, ri_buckets = buckets sched, ri_prepared = prepared\<rparr>"
  have config: "ri_config ?I = c"
    by simp
  have "map eq_at (rs_equityCurve s) = map Candle.start cs" "not_short (positionQuantity (rs_portfolio s))"
    using replay_candles_replays [OF run replay_start_flat] by (auto simp: replays_def replay_start_empty ats)
  moreover have "run_ok h ?I (length cs) s"
    by (rule run_ok_candles) (use run in \<open>simp only: config\<close>)
  ultimately show ?thesis
    using sched unfolding run_ok_def r by blast
qed

subsection \<open>No look-ahead\<close>

text \<open>Funding rates are read at two places only.\<close>

abbreviation funded :: "BacktestConfig \<Rightarrow> number list option \<Rightarrow> BacktestConfig" where
  "funded c f \<equiv> c\<lparr>bc_fundingRates := f\<rparr>"

lemma funded_fields:
  "bc_runId (funded c f) = bc_runId c" "bc_agentId (funded c f) = bc_agentId c"
  "bc_productId (funded c f) = bc_productId c" "bc_intervalMs (funded c f) = bc_intervalMs c"
  "bc_maxDecisionNotional (funded c f) = bc_maxDecisionNotional c"
  "bc_minNetQuantity (funded c f) = bc_minNetQuantity c" "bc_indicators (funded c f) = bc_indicators c"
  "bc_initialCapital (funded c f) = bc_initialCapital c"
  "bc_strategies (funded c f) = bc_strategies c" "bc_risk (funded c f) = bc_risk c"
  "bc_broker (funded c f) = bc_broker c" "bc_protectiveExit (funded c f) = bc_protectiveExit c"
  "bc_regimeFilter (funded c f) = bc_regimeFilter c"
  "bc_regimeConditionalSizing (funded c f) = bc_regimeConditionalSizing c"
  "bc_regimePermissions (funded c f) = bc_regimePermissions c"
  "bc_fundingRates (funded c f) = f"
  by simp_all

lemma funded_exits:
  "executeTriggeredProtectiveExit (funded c f) = executeTriggeredProtectiveExit c"
  "settle_actor (funded c f) = settle_actor c" "open_actor h (funded c f) = open_actor h c"
  "armProtectivePlan h (funded c f) = armProtectivePlan h c"
  "armProtectivePosition h (funded c f) = armProtectivePosition h c"
  "follow_position h (funded c f) = follow_position h c"
  "fill_pending h (funded c f) = fill_pending h c"
  unfolding fill_pending_def follow_position_def armProtectivePosition_def armProtectivePlan_def
      open_actor_def settle_actor_def executeTriggeredProtectiveExit_def execute_exit_def
      protective_intent_def funded_fields by (rule refl)+

lemma funded_fill_all: "fill_all h (funded c f) candle is s = fill_all h c candle is s"
  by (induction "is" arbitrary: s) (simp_all add: funded_exits and_then_def split: sum.split)

lemma funded_candle: "execution_candle h (funded c f) = execution_candle h c"
  unfolding execution_candle_def at_open_def at_range_def funded_exits funded_fill_all by (rule refl)+

lemma funded_bucket: "execution_bucket h (funded c f) first xs s = execution_bucket h c first xs s"
  by (induction xs arbitrary: first s) (simp_all add: funded_candle and_then_def split: sum.split)

lemma funded_gate: "gate_signals h (funded c f) = gate_signals h c"
proof -
  have p: "permitted (funded c f) = permitted c" "switch_arm h (funded c f) = switch_arm h c"
      "regime_sizing h (funded c f) = regime_sizing h c"
    unfolding permitted_def switch_arm_def regime_sizing_def funded_exits funded_fields by (rule refl)+
  have q: "count_signal (funded c f) = count_signal c"
    unfolding count_signal_def p by (rule refl)+
  show ?thesis
    unfolding gate_signals_def p q by (rule refl)+
qed

lemma funded_decide: "decide (funded c f) = decide c"
proof -
  have p: "screen_order (funded c f) = screen_order c"
    unfolding screen_order_def funded_fields by (rule refl)+
  have q: "screen_orders (funded c f) candle snapshot is acc = screen_orders c candle snapshot is acc"
    for candle snapshot "is" acc
    by (induction "is" arbitrary: acc) (simp_all add: p and_then_def split: sum.split)
  show ?thesis
    unfolding decide_def allocation_of_def observe_allocation_def q funded_fields by (rule refl)+
qed

text \<open>The rates up to \<open>n\<close>.\<close>

definition known_rates :: "nat \<Rightarrow> number list option \<Rightarrow> number list option" where
  "known_rates n f = map_option (take n) f"

lemma known_rates_le: "known_rates n f = known_rates n g \<Longrightarrow> m \<le> n \<Longrightarrow> known_rates m f = known_rates m g"
proof -
  assume a: "known_rates n f = known_rates n g" "m \<le> n"
  have "known_rates m f = known_rates m (known_rates n f)" for f
    using a(2) by (cases f) (simp_all add: known_rates_def min_absorb1)
  then show ?thesis
    using a(1) by metis
qed

lemma funded_close:
  assumes "known_rates (Suc i) (bc_fundingRates c) = known_rates (Suc i) f"
  shows "close_candle (funded c f) candle i s = close_candle c candle i s"
proof -
  have "applyFundingCost (funded c f) candle i s = applyFundingCost c candle i s"
  proof (cases "bc_fundingRates c"; cases f)
    fix rs rs'
    assume *: "bc_fundingRates c = Some rs" "f = Some rs'"
    then have take: "take (Suc i) rs = take (Suc i) rs'"
      using assms by (simp add: known_rates_def)
    have "i < length rs \<longleftrightarrow> i < length rs'"
      using arg_cong [OF take, of length] by auto
    moreover have "rs ! i = rs' ! i"
      using take by (metis lessI nth_take)
    ultimately show ?thesis
      using * by (auto simp: applyFundingCost_def not_less [symmetric] Let_def)
  qed (use assms in \<open>auto simp: applyFundingCost_def known_rates_def\<close>)
  then show ?thesis
    by (simp add: close_candle_def)
qed

lemma funded_input:
  "known_rates n (bc_fundingRates c) = known_rates n f \<Longrightarrow> fundingInputFor (funded c f) n = fundingInputFor c n"
  by (cases "bc_fundingRates c"; cases f) (auto simp: fundingInputFor_def known_rates_def)

text \<open>A step reads the candles up to its own.\<close>

lemma replay_candle_agree:
  assumes cs: "i < length cs" "take (Suc i) cs = take (Suc i) cs'"
    and f: "known_rates (Suc i) (bc_fundingRates c) = known_rates (Suc i) f"
  defines "I \<equiv> \<lparr>ri_config = c, ri_candles = cs, ri_buckets = buckets (oneToOneSchedule cs), ri_prepared = None\<rparr>"
    and "J \<equiv> \<lparr>ri_config = funded c f, ri_candles = cs', ri_buckets = buckets (oneToOneSchedule cs'), ri_prepared = None\<rparr>"
  shows "replay_candle h J i s = replay_candle h I i s"
proof -
  have "length (take (Suc i) cs) = length (take (Suc i) cs')"
    by (simp only: cs(2))
  then have i: "i < length cs'"
    using cs(1) by simp
  have nth: "cs' ! i = cs ! i"
    using nth_take [of i "Suc i" cs] nth_take [of i "Suc i" cs'] by (simp add: cs(2))
  have n: "length (take (Suc i) cs') = Suc i"
    using i by simp
  have x: "indicators_at h J i = indicators_at h I i"
    using funded_input [OF f] n
    by (simp add: indicators_at_def I_def J_def Let_def cs(2) funded_fields)
  have "evaluate_candle h J i (cs ! i) t = evaluate_candle h I i (cs ! i) t" for t
    unfolding evaluate_candle_def x act_on_signals_def
    by (simp only: I_def J_def replay_input.simps funded_fields funded_gate funded_decide funded_close [OF f] cs(2))
  moreover have "ri_config I = c" "ri_config J = funded c f" "ri_candles I ! i = cs ! i" "ri_candles J ! i = cs ! i"
      "length (ri_buckets I) \<le> i \<longleftrightarrow> False" "length (ri_buckets J) \<le> i \<longleftrightarrow> False"
      "executionCandles (ri_buckets I ! i) = [cs ! i]" "executionCandles (ri_buckets J ! i) = [cs ! i]"
    using i cs(1) by (simp_all add: I_def J_def oneToOneSchedule_def nth)
  ultimately show ?thesis
    by (simp only: replay_candle_def Let_def if_False funded_bucket funded_close [OF f] funded_fields)
qed

lemma replay_candles_agree:
  assumes agree: "take n cs = take n cs'" and f: "known_rates n (bc_fundingRates c) = known_rates n f"
    and "set is \<subseteq> {0..<n}" "n \<le> length cs"
  shows "replay_candles h \<lparr>ri_config = funded c f, ri_candles = cs', ri_buckets = buckets (oneToOneSchedule cs'),
      ri_prepared = None\<rparr> is s =
    replay_candles h \<lparr>ri_config = c, ri_candles = cs, ri_buckets = buckets (oneToOneSchedule cs),
      ri_prepared = None\<rparr> is s"
  using assms(3)
proof (induction "is" arbitrary: s)
  case (Cons i "is")
  then have i: "i < n"
    by simp
  have "take (Suc i) cs = take (Suc i) (take n cs)" "take (Suc i) cs' = take (Suc i) (take n cs')"
    using i by (simp_all add: min_absorb1)
  then have "take (Suc i) cs = take (Suc i) cs'"
    by (simp only: agree)
  note step = replay_candle_agree [OF _ this known_rates_le [OF f], of h s]
  show ?case
    using Cons i assms(4) by (simp add: step and_then_def split: sum.split)
qed simp

text \<open>After the candles that both series share, only later candles trade.\<close>

lemma replay_prefix:
  assumes "replayBacktest h (xs @ ys) c None None = Inr r"
    and "replay_candles h \<lparr>ri_config = c, ri_candles = xs @ ys, ri_buckets = buckets (oneToOneSchedule (xs @ ys)),
      ri_prepared = None\<rparr> [0..<length xs] (replay_start h c) = p"
  shows "\<exists>s us. p = Inr s \<and> length (rs_equityCurve s) = length xs \<and>
    take (length xs) (br_equityCurve r) = rs_equityCurve s \<and> br_trades r = rs_trades s @ us \<and>
    (\<forall>x\<in>set us. executedAt (fill x) \<in> Candle.start ` set ys)"
proof -
  let ?I = "\<lparr>ri_config = c, ri_candles = xs @ ys, ri_buckets = buckets (oneToOneSchedule (xs @ ys)), ri_prepared = None\<rparr>"
  from assms(1) obtain executions sched s' where
    "validated_execution None = Inr executions" "createExecutionSchedule (xs @ ys) executions = Inr sched"
    and run: "replay_candles h \<lparr>ri_config = c, ri_candles = xs @ ys, ri_buckets = buckets sched, ri_prepared = None\<rparr>
       [0..<length (xs @ ys)] (replay_start h c) = Inr s'"
    and r: "br_trades r = rs_trades s'" "br_equityCurve r = rs_equityCurve s'"
    by (rule replay_run)
  then have sched: "sched = oneToOneSchedule (xs @ ys)"
    by (simp add: validated_execution_def createExecutionSchedule_def ok_def split: if_split_asm)
  have split: "[0..<length (xs @ ys)] = [0..<length xs] @ [length xs..<length xs + length ys]"
    by (simp add: upt_add_eq_append [symmetric])
  obtain s where s: "replay_candles h ?I [0..<length xs] (replay_start h c) = Inr s"
    and rest: "replay_candles h ?I [length xs..<length xs + length ys] s = Inr s'"
    using run unfolding sched split replay_candles_append by (rule and_thenE)
  have c: "ri_config ?I = c"
    by simp
  note first = replay_candles_replays [OF s replay_start_flat]
  note second = conjunct1 [OF replay_candles_replays [OF rest conjunct2 [OF first]]]
  have later: "executionCandles (ri_buckets ?I ! i) = [ys ! (i - length xs)]"
    if "i \<in> set [length xs..<length xs + length ys]" for i
  proof -
    have "i - length xs < length ys"
      using that by auto
    then show ?thesis
      using that by (simp add: oneToOneSchedule_def nth_append)
  qed
  have times: "(\<Union>i\<in>set [length xs..<length xs + length ys]. Candle.start ` set (executionCandles (ri_buckets ?I ! i)))
      \<subseteq> Candle.start ` set ys"
    using later by (auto simp del: set_upt replay_input.simps) (auto intro!: imageI nth_mem)
  obtain as where curve: "rs_equityCurve s = as" "map eq_at as = map (\<lambda>i. Candle.start ((xs @ ys) ! i)) [0..<length xs]"
    using first by (auto simp: replays_def replay_start_empty)
  have "length as = length xs"
    using arg_cong [OF curve(2), of length] by simp
  moreover obtain bs ts where "rs_equityCurve s' = rs_equityCurve s @ bs" "rs_trades s' = rs_trades s @ ts"
      "\<forall>x\<in>set ts. executedAt (fill x) \<in> Candle.start ` set ys"
    using runs_appends [OF second times] by blast
  ultimately show ?thesis
    using assms(2) s r curve(1) by auto
qed

end
