(* ===== verification/ReplayRun.thy ===== *)
theory ReplayRun
  imports ReplayCorrect InterpreterCorrect
begin

text \<open>
  The guarantees of a whole replay, and a replay of three candles that buys: the strategy asks for
  two units at the second candle, and the order is filled at the open of the third.
\<close>

definition run_host :: replay_host where
  "run_host =
     \<lparr>rh_protective_init = (\<lambda>x. (ArmedAwaitingOpen, x)), rh_protective_send = (\<lambda>m _. m),
      rh_regime_init = (\<lambda>x. (regimeState.Failed, x)), rh_regime_send = (\<lambda>m _. m),
      rh_indicators = (\<lambda>_ _ _. Inr demo_indicators), rh_pow = (\<lambda>x _. x), rh_sqrt = (\<lambda>x. x)\<rparr>"

definition run_indicators :: IndicatorConfig where
  "run_indicators =
     \<lparr>rsiPeriod = Fin 1, emaFastPeriod = Fin 1, emaSlowPeriod = Fin 1, atrPeriod = Fin 1,
      historicalVolatilityPeriod = Fin 1, momentumPeriod = Fin 1, returnPeriods = [],
      vwapPeriod = Fin 1, relativeVolumePeriod = Fin 1, volumeSpikeThreshold = Fin 2,
      volumeTrendPeriod = Fin 1, trendStrengthPeriod = Fin 1, signalEmaFastPeriod = None,
      signalEmaSlowPeriod = None\<rparr>"

text \<open>Buys at the second candle, holds at the others.\<close>

definition run_registry :: StrategyRegistry where
  "run_registry =
     \<lparr>ids = [''rsi-reversion''], get_strategy = (\<lambda>_. None),
      evaluateAll = (\<lambda>x. Inr (if length (ctx_candles x) = 2 then [demo_signal] else []))\<rparr>"

definition run_config :: BacktestConfig where
  "run_config =
     \<lparr>bc_runId = ''run'', bc_agentId = ''agent'', bc_productId = ''BTC-USD'', bc_intervalMs = Fin 60000,
      bc_initialCapital = Fin 1024, bc_maxDecisionNotional = Fin 512, bc_minNetQuantity = Fin 0,
      bc_indicators = run_indicators, bc_strategies = run_registry, bc_risk = sample_config,
      bc_broker = \<lparr>feeBps = Fin 0, slippageBps = Fin 0\<rparr>, bc_protectiveExit = None,
      bc_regimeFilter = None, bc_regimeConditionalSizing = None, bc_regimePermissions = None,
      bc_fundingRates = None\<rparr>"

definition run_candle :: "rat \<Rightarrow> Candle" where
  "run_candle t = \<lparr>Candle.start = Fin t, open_price = Fin 128, high = Fin 128, low = Fin 128,
     close_price = Fin 128, volume = Fin 1\<rparr>"

definition run_series :: "Candle list" where
  "run_series = [run_candle 0, run_candle 60000, run_candle 120000]"

lemmas run_defs = run_host_def run_config_def run_candle_def

lemma run_warmup: "requiredIndicatorCandles run_indicators = Fin 2"
  by (simp add: requiredIndicatorCandles_def run_indicators_def js_max_def)

lemma run_valid: "validBacktestConfig run_config"
  by (simp add: validBacktestConfig_def run_config_def non_blank_iff js_space_def
      validProtectivePolicy_def by_regime_def isFinite_def)

lemma run_integrity: "validateMarketDataIntegrity run_series (Fin 60000) None = Inr run_series"
  "validateMarketDataIntegrity (take 2 run_series) (Fin 60000) None = Inr (take 2 run_series)"
  by (code_simp, code_simp)

text \<open>A candle with nothing pending and nothing armed.\<close>

lemma quiet_candle:
  assumes "rs_protectiveActor s = None" "rs_pendingOrders s = []"
  shows "execution_candle h c True candle s = Inr s"
  using assms by (simp add: execution_candle_def at_open_def at_range_def ok_def)

lemma run_start: "rs_protectiveActor (replay_start h run_config) = None"
  "rs_pendingOrders (replay_start h run_config) = []" "rs_regimeActor (replay_start h run_config) = None"
  "rs_portfolio (replay_start h run_config) = \<lparr>cash = Fin 1024, positionQuantity = Fin 0, averagePrice = Fin 0\<rparr>"
  "rs_equityCurve (replay_start h run_config) = []" "rs_trades (replay_start h run_config) = []"
  by (simp_all add: replay_start_def run_config_def)

lemma non_blank_append: "non_blank s \<Longrightarrow> non_blank (s @ t)"
  by (auto simp: non_blank_iff)

definition run_input :: replay_input where
  "run_input = \<lparr>ri_config = run_config, ri_candles = run_series,
     ri_buckets = buckets (oneToOneSchedule run_series), ri_prepared = None\<rparr>"

lemma run_buckets:
  "ri_buckets run_input = [\<lparr>primaryCandle = run_candle 0, executionCandles = [run_candle 0]\<rparr>,
     \<lparr>primaryCandle = run_candle 60000, executionCandles = [run_candle 60000]\<rparr>,
     \<lparr>primaryCandle = run_candle 120000, executionCandles = [run_candle 120000]\<rparr>]"
  by (simp add: run_input_def oneToOneSchedule_def run_series_def)

lemma run_input_fields: "ri_config run_input = run_config" "ri_candles run_input = run_series"
  "ri_prepared run_input = None" "bc_indicators run_config = run_indicators" "bc_fundingRates run_config = None"
  by (simp_all add: run_input_def run_config_def)

definition run_first :: replay_state where
  "run_first = (replay_start run_host run_config)\<lparr>rs_equityCurve := [\<lparr>eq_at = Fin 0, eq_equity = Fin 1024\<rparr>]\<rparr>"

lemma run_closes:
  "close_candle run_config candle i s = s\<lparr>rs_equityCurve := rs_equityCurve s @
     [\<lparr>eq_at = Candle.start candle, eq_equity = mark_equity candle s\<rparr>]\<rparr>"
  by (simp add: close_candle_def applyFundingCost_def run_input_fields)

lemma first_candle: "replay_candle run_host run_input 0 (replay_start run_host run_config) = Inr run_first"
proof -
  have "mark_equity (run_candle 0) (replay_start run_host run_config) = Fin 1024"
    by (simp add: mark_equity_def run_start run_candle_def)
  moreover have "Fin 0 < Fin 2 - Fin 1"
    by (simp add: number_diff_Fin)
  ultimately show ?thesis
    by (simp add: replay_candle_def run_buckets run_input_fields run_warmup quiet_candle run_start
        ok_def Let_def run_closes run_first_def run_series_def) (simp add: run_candle_def)
qed

text \<open>The decision at the second candle.\<close>

lemma run_indicators_at: "indicators_at run_host run_input i = Inr demo_indicators"
  by (simp add: indicators_at_def run_input_fields run_host_def ok_def)

lemma run_strategies:
  "evaluateAll (bc_strategies run_config) x = Inr (if length (ctx_candles x) = 2 then [demo_signal] else [])"
  by (simp add: run_config_def run_registry_def)

lemma run_gate: "rs_regimeActor s = None \<Longrightarrow> gate_signals run_host run_config candle x sigs s = Inr (sigs, s)"
  by (simp add: gate_signals_def ok_def)

definition run_observed :: replay_state where
  "run_observed = observe_signals (run_candle 60000) [demo_signal] run_first"

lemma run_names: "non_blank (CHR ''r'' # s)"
  by (simp add: non_blank_iff js_space_def)

abbreviation run_time :: string where "run_time \<equiv> timestamp_string (Fin 60000)"

lemma run_allocates:
  "\<exists>d x. allocation_of run_config (run_candle 60000) [demo_signal] run_observed = Inr d \<and>
     dec_orders d = [x] \<and> side x = BUY \<and> OrderIntent.quantity x = Fin 2 \<and> OrderIntent.productId x = ''BTC-USD'' \<and>
     isNonEmpty (OrderIntent.clientOrderId x) \<and> map_of (netQuantities d) ''BTC-USD'' = Some (Fin 2)"
proof -
  obtain u where u: "createClientOrderId ''agent'' (''run:'' @ run_time) (''run:decision:'' @ run_time) (Fin 0) = Inr u" "non_blank u"
    using createClientOrderId_ok [OF demo_names(3), of "''run:'' @ run_time" "''run:decision:'' @ run_time" 0]
    by (auto simp: run_names)
  have g: "groupSignals [demo_signal] = [(''BTC-USD'', [demo_signal])]"
    by (simp add: groupSignals_def demo_signal_def)
  have "rs_portfolio run_observed = \<lparr>cash = Fin 1024, positionQuantity = Fin 0, averagePrice = Fin 0\<rparr>"
    by (simp add: run_observed_def observe_signals_def run_first_def run_start)
  then have same: "allocation_of run_config (run_candle 60000) [demo_signal] run_observed =
      allocateSignals (demo_allocation\<lparr>cycleId := ''run:'' @ run_time, alloc_decisionId := ''run:decision:'' @ run_time\<rparr>)"
    by (simp add: allocation_of_def demo_allocation_def run_config_def run_candle_def run_names js_max_def)
  show ?thesis
    using u g unfolding same demo_allocation_def
    by (simp add: allocateSignals_def validInput_def Let_def allocateProduct_def createOrderIntent_def
        isNonEmpty_def netOf_def contributors_def js_min_def isPositiveFinite_def minus_number_def
        sorted_keys_def demo_names run_names demo_signal_def)
qed

lemma run_observed_fields: "rs_portfolio run_observed = \<lparr>cash = Fin 1024, positionQuantity = Fin 0, averagePrice = Fin 0\<rparr>"
  "rs_regimeActor run_observed = None" "rs_protectiveActor run_observed = None"
  "rs_activeProtectivePolicy run_observed = None" "rs_trades run_observed = []"
  "rs_equityCurve run_observed = rs_equityCurve run_first" "rs_allocationObservations run_observed = []"
  "rs_lastTradeAt run_observed = None" "rs_dailyRiskWindow run_observed = None"
  "rs_signalObservations run_observed =
    [\<lparr>sdo_strategyId = ''rsi-reversion'', sdo_side = SigBuy, sdo_confidence = Fin 1,
      sdo_suggestedSize = Fin 2, sdo_referencePrice = Fin 128\<rparr>]"
  by (simp_all add: run_observed_def observe_signals_def run_first_def replay_start_def run_config_def
      initial_policy_def demo_signal_def run_candle_def)

lemma run_screens:
  assumes "side x = BUY" "OrderIntent.quantity x = Fin 2"
    and "marketPrice w = Fin 128" "currentPositionQuantity w = Fin 0" "otherExposureNotional w = Fin 0"
      "dailyPnl w = Fin 0" "lastTradeAt w = None" "now w = Fin 60000" "\<not> killSwitchActive w"
  shows "screen_order run_config candle w x ([], [], Fin 0) = Inr ([x], [], Fin 0)"
proof -
  have "\<not> Fin 2 < - t" if "Fin 0 \<le> t" for t
    using that by (cases t) auto
  then have "\<not> Fin 2 < - SPOT_QUANTITY_TOLERANCE"
    by (simp add: SPOT_QUANTITY_TOLERANCE_def fl_nonneg)
  then have spot: "resolveSpotPermission (side x) (OrderIntent.quantity x) (currentPositionQuantity w) = Some SPOT_EXECUTABLE"
    by (simp add: resolveSpotPermission_def assms isFinite_def)
  have "\<not> Fin 2 < short_tolerance"
    using number_lt_le_trans [of "Fin 2" short_tolerance "Fin 0"] short_tolerance_bounds(1) by auto
  then obtain a where "checkRisk x w sample_config = Inr (RiskDecision.APPROVED a)"
    unfolding checkRisk_def using assms by (simp add: sample_config_def risk_eval)
  then show ?thesis
    unfolding screen_order_def using spot by (simp add: run_config_def ok_def)
qed

definition run_decided :: "OrderIntent \<Rightarrow> replay_state \<Rightarrow> bool" where
  "run_decided x s \<longleftrightarrow>
     rs_pendingOrders s = [x] \<and> side x = BUY \<and> OrderIntent.quantity x = Fin 2 \<and>
     isNonEmpty (OrderIntent.clientOrderId x) \<and>
     rs_regimeActor s = None \<and> rs_protectiveActor s = None \<and> rs_activeProtectivePolicy s = None \<and>
     rs_portfolio s = \<lparr>cash = Fin 1024, positionQuantity = Fin 0, averagePrice = Fin 0\<rparr> \<and> rs_trades s = [] \<and>
     rs_signalObservations s = rs_signalObservations run_observed \<and>
     rs_allocationObservations s =
       [\<lparr>ado_requestedNetNotional = Fin 256, ado_allocatedNotional = Fin 256, ado_spotInexecutableNotional = Fin 0,
         ado_riskApprovedNotional = Fin 256, ado_rejectedReasonCodes = []\<rparr>]"

lemma second_decision:
  "\<exists>x s. decide run_config (run_candle 60000) [demo_signal] run_observed = Inr s \<and> run_decided x s"
proof -
  obtain d x where d: "allocation_of run_config (run_candle 60000) [demo_signal] run_observed = Inr d"
    and x: "dec_orders d = [x]" "side x = BUY" "OrderIntent.quantity x = Fin 2" "isNonEmpty (OrderIntent.clientOrderId x)"
    and net: "map_of (netQuantities d) ''BTC-USD'' = Some (Fin 2)"
    using run_allocates by blast
  obtain s1 day_result where roll: "roll_day (run_candle 60000) run_observed = (s1, day_result)"
    by fastforce
  have s1: "s1 = run_observed\<lparr>rs_dailyRiskWindow := rs_dailyRiskWindow s1\<rparr>" "day_result = Fin 0"
    using roll by (auto simp: roll_day_def Let_def resolveDailyRiskWindow_def mark_equity_def
        run_observed_fields run_candle_def number_diff_Fin)
  have p: "rs_portfolio s1 = rs_portfolio run_observed" "rs_lastTradeAt s1 = rs_lastTradeAt run_observed"
    "rs_allocationObservations s1 = []" "rs_signalObservations s1 = rs_signalObservations run_observed"
    "rs_regimeActor s1 = None" "rs_protectiveActor s1 = None" "rs_activeProtectivePolicy s1 = None" "rs_trades s1 = []"
    by (subst s1(1), simp add: run_observed_fields)+
  have "screen_order run_config (run_candle 60000) (replay_snapshot (run_candle 60000) s1 day_result) x ([], [], Fin 0) =
      Inr ([x], [], Fin 0)"
    by (rule run_screens [OF x(2,3)])
      (simp_all add: replay_snapshot_def p s1(2) run_observed_fields run_candle_def resolveRiskEvaluationTimestamp_def)
  then have "decide run_config (run_candle 60000) [demo_signal] run_observed =
      Inr ((observe_allocation run_config (run_candle 60000) d ([x], [], Fin 0) s1)\<lparr>rs_pendingOrders := [x]\<rparr>)"
    by (simp add: decide_def d roll x(1) ok_def)
  moreover have "run_decided x ((observe_allocation run_config (run_candle 60000) d ([x], [], Fin 0) s1)\<lparr>rs_pendingOrders := [x]\<rparr>)"
    by (simp add: run_decided_def observe_allocation_def Let_def run_config_def net x p run_observed_fields
        notional_of_def run_candle_def)
  ultimately show ?thesis
    by blast
qed

definition run_second :: "replay_state \<Rightarrow> replay_state" where
  "run_second s = (close_candle run_config (run_candle 60000) 1 s)\<lparr>rs_previousIndicators := Some demo_indicators\<rparr>"

lemma run_second_decided: "run_decided x (run_second s) \<longleftrightarrow> run_decided x s"
  by (simp add: run_decided_def run_second_def run_closes)

lemma run_first_fields: "rs_protectiveActor run_first = None" "rs_pendingOrders run_first = []"
  "rs_regimeActor run_first = None"
  by (simp_all add: run_first_def run_start)

lemma second_candle: "\<exists>x s. replay_candle run_host run_input 1 run_first = Inr s \<and> run_decided x s"
proof -
  obtain x s where s: "decide run_config (run_candle 60000) [demo_signal] run_observed = Inr s" "run_decided x s"
    using second_decision by blast
  have "gate_signals run_host run_config (run_candle 60000) demo_indicators [demo_signal] run_observed =
      Inr ([demo_signal], run_observed)"
    by (rule run_gate) (rule run_observed_fields)
  then have act: "act_on_signals run_host run_config 1 (run_candle 60000) demo_indicators [demo_signal] run_first =
      Inr (run_second s)"
    by (simp add: act_on_signals_def run_observed_def [symmetric] s(1) run_second_def ok_def)
  have "evaluate_candle run_host run_input 1 (run_candle 60000) run_first = Inr (run_second s)"
    by (simp add: evaluate_candle_def run_indicators_at run_input_fields run_strategies run_series_def act [simplified])
  moreover have "\<not> Fin 1 < Fin 2 - Fin 1"
    by (simp add: number_diff_Fin)
  ultimately have "replay_candle run_host run_input 1 run_first = Inr (run_second s)"
    by (simp add: replay_candle_def run_buckets run_input_fields run_warmup quiet_candle run_first_fields
        ok_def Let_def run_series_def)
  then show ?thesis
    using s(2) run_second_decided by blast
qed

lemma run_caps:
  assumes "side x = BUY" "OrderIntent.quantity x = Fin 2"
  shows "capSpotOrder x \<lparr>cash = Fin 1024, positionQuantity = Fin 0, averagePrice = Fin 0\<rparr> (Fin 128)
    \<lparr>feeBps = Fin 0, slippageBps = Fin 0\<rparr> (Fin 0) = Some x"
  using assms by (simp add: capSpotOrder_def Let_def js_min_def)

lemma run_fills:
  assumes "side x = BUY" "OrderIntent.quantity x = Fin 2" "isNonEmpty (OrderIntent.clientOrderId x)"
  shows "\<exists>e. executePaperOrder \<lparr>cash = Fin 1024, positionQuantity = Fin 0, averagePrice = Fin 0\<rparr> x (Fin 128) (Fin 120000)
    \<lparr>feeBps = Fin 0, slippageBps = Fin 0\<rparr> = Inr e \<and> isFinite (cash (portfolio e))"
proof -
  have names: "isNonEmpty (''paper:'' @ s)" for s
    by (simp add: isNonEmpty_def paper_non_blank [simplified])
  have fills: "createFill \<lparr>fillId = ''paper:'' @ OrderIntent.clientOrderId x @ '':'' @ timestamp_string (Fin 120000),
      fill_clientOrderId = OrderIntent.clientOrderId x, exchangeOrderId = ''paper:'' @ OrderIntent.clientOrderId x,
      price = Fin 128, fill_quantity = Fin 2, fee = Fin 0, executedAt = Fin 120000\<rparr> =
    Inr \<lparr>fillId = ''paper:'' @ OrderIntent.clientOrderId x @ '':'' @ timestamp_string (Fin 120000),
      fill_clientOrderId = OrderIntent.clientOrderId x, exchangeOrderId = ''paper:'' @ OrderIntent.clientOrderId x,
      price = Fin 128, fill_quantity = Fin 2, fee = Fin 0, executedAt = Fin 120000\<rparr>"
    unfolding createFill_ok using assms(3) names by (simp add: isPositiveFinite_def isSafeInteger_def)
  have "\<not> Fin 1024 + tolerance (Fin 1024) < Fin 256"
    using fl_frac [of 1 42] fl_frac [of 1 38] fl_frac [of "2 ^ 48 + 1" 38] by (simp add: tolerance_def EPSILON_def js_max_def)
  then show ?thesis
    unfolding executePaperOrder_def using assms fills
    by (simp add: Let_def validConfig_def executionPrice_def executionFee_def direction_def ok_def number_diff_Fin)
qed

lemma third_candle:
  assumes "run_decided x s"
  shows "\<exists>s'. replay_candle run_host run_input 2 s = Inr s' \<and> length (rs_trades s') = 1 \<and>
    rs_signalObservations s' = rs_signalObservations s \<and> rs_allocationObservations s' = rs_allocationObservations s"
proof -
  have x: "side x = BUY" "OrderIntent.quantity x = Fin 2" "isNonEmpty (OrderIntent.clientOrderId x)"
    and s: "rs_pendingOrders s = [x]" "rs_regimeActor s = None" "rs_protectiveActor s = None"
      "rs_activeProtectivePolicy s = None" "rs_trades s = []"
      "rs_portfolio s = \<lparr>cash = Fin 1024, positionQuantity = Fin 0, averagePrice = Fin 0\<rparr>"
    using assms by (simp_all add: run_decided_def)
  obtain e where e: "executePaperOrder \<lparr>cash = Fin 1024, positionQuantity = Fin 0, averagePrice = Fin 0\<rparr> x
      (Fin 128) (Fin 120000) \<lparr>feeBps = Fin 0, slippageBps = Fin 0\<rparr> = Inr e" "isFinite (cash (portfolio e))"
    using run_fills [OF x] by blast
  have config: "bc_broker run_config = \<lparr>feeBps = Fin 0, slippageBps = Fin 0\<rparr>" "bc_minNetQuantity run_config = Fin 0"
    by (simp_all add: run_config_def)
  have candle: "open_price (run_candle 120000) = Fin 128" "Candle.start (run_candle 120000) = Fin 120000"
    by (simp_all add: run_candle_def)
  let ?s1 = "(executed e (Fin 120000) s)\<lparr>rs_pendingOrders := []\<rparr>"
  have "fill_pending run_host run_config (run_candle 120000) x s = Inr (executed e (Fin 120000) s)"
    unfolding fill_pending_def config candle s run_caps [OF x(1,2)] option.case e(1) sum.case
    by (simp add: follow_position_def Let_def executed_def s ok_def)
  then have first: "execution_candle run_host run_config True (run_candle 120000) s = Inr ?s1"
    by (simp add: execution_candle_def at_open_def at_range_def s ok_def executed_def)
  have none: "observe_signals (run_candle 120000) [] ?s1 = ?s1"
    by (simp add: observe_signals_def)
  have gate: "gate_signals run_host run_config (run_candle 120000) demo_indicators [] ?s1 = Inr ([], ?s1)"
    by (rule run_gate) (simp add: executed_def s)
  obtain d where d: "allocation_of run_config (run_candle 120000) [] ?s1 = Inr d" "dec_orders d = []" "netQuantities d = []"
  proof -
    have "isFinite (js_max (Fin 0) (cash (portfolio e)))" "Fin 0 \<le> js_max (Fin 0) (cash (portfolio e))"
      using e(2) by (auto simp: js_max_def isFinite_def split: number.splits)
    then show thesis
      using that unfolding allocation_of_def
      by (simp add: allocateSignals_def validInput_def run_config_def executed_def run_names demo_names
          groupSignals_def sorted_keys_def ok_def)
  qed
  obtain s2 day_result where roll: "roll_day (run_candle 120000) ?s1 = (s2, day_result)"
    by fastforce
  have s2: "s2 = ?s1\<lparr>rs_dailyRiskWindow := rs_dailyRiskWindow s2\<rparr>"
    using roll by (auto simp: roll_day_def Let_def)
  have "observe_allocation run_config (run_candle 120000) d ([], [], Fin 0) s2 = s2"
    by (simp add: observe_allocation_def d Let_def config)
  then have decide: "decide run_config (run_candle 120000) [] ?s1 = Inr (s2\<lparr>rs_pendingOrders := []\<rparr>)"
    by (simp add: decide_def d roll ok_def)
  let ?s' = "(close_candle run_config (run_candle 120000) 2 (s2\<lparr>rs_pendingOrders := []\<rparr>))
    \<lparr>rs_previousIndicators := Some demo_indicators\<rparr>"
  have act: "act_on_signals run_host run_config 2 (run_candle 120000) demo_indicators [] ?s1 = Inr ?s'"
    unfolding act_on_signals_def none gate by (simp only: and_then_simps prod.case decide ok_def)
  have "evaluate_candle run_host run_input 2 (run_candle 120000) ?s1 = Inr ?s'"
    unfolding evaluate_candle_def run_indicators_at and_then_simps run_input_fields run_strategies
    by (simp add: run_series_def) (rule act)
  moreover have "\<not> Fin 2 < Fin 2 - Fin 1"
    by (simp add: number_diff_Fin)
  ultimately have "replay_candle run_host run_input 2 s = Inr ?s'"
    unfolding replay_candle_def run_buckets run_input_fields run_warmup Let_def
    by (simp add: first ok_def run_series_def)
  moreover have "length (rs_trades ?s') = 1" "rs_signalObservations ?s' = rs_signalObservations s"
    "rs_allocationObservations ?s' = rs_allocationObservations s"
    unfolding run_closes by (subst s2, simp add: executed_def s)+
  ultimately show ?thesis
    by blast
qed

lemma run_summarizes:
  "\<exists>d. summarizeBacktestDiagnostics (rs_signalObservations run_observed)
     [\<lparr>ado_requestedNetNotional = Fin 256, ado_allocatedNotional = Fin 256, ado_spotInexecutableNotional = Fin 0,
       ado_riskApprovedNotional = Fin 256, ado_rejectedReasonCodes = []\<rparr>] = Inr d"
  using fl_frac [of 1 44] fl_frac [of 1 38] fl_frac [of "2 ^ 46 + 1" 38]
  by (simp add: summarizeBacktestDiagnostics_def validSignalObservation_def validAllocationObservation_def
      run_observed_fields run_names validConfidence_def nonNegativeFinite_def BacktestReport.positiveFinite_def isFinite_def
      requested_of_def diagnostic_tolerance_def EPSILON_def js_max_def ok_def)

lemma run_replays:
  assumes "validateMarketDataIntegrity cs (Fin 60000) None = Inr cs" "cs \<noteq> []"
    and "replay_candles run_host \<lparr>ri_config = run_config, ri_candles = cs, ri_buckets = buckets (oneToOneSchedule cs),
      ri_prepared = None\<rparr> [0..<length cs] (replay_start run_host run_config) = Inr s"
    and "rs_signalObservations s = rs_signalObservations run_observed"
    and "rs_allocationObservations s = [\<lparr>ado_requestedNetNotional = Fin 256, ado_allocatedNotional = Fin 256,
      ado_spotInexecutableNotional = Fin 0, ado_riskApprovedNotional = Fin 256, ado_rejectedReasonCodes = []\<rparr>]"
  shows "\<exists>r. replayBacktest run_host cs run_config None None = Inr r \<and> br_trades r = rs_trades s"
proof -
  obtain d where "summarizeBacktestDiagnostics (rs_signalObservations s) (rs_allocationObservations s) = Inr d"
    using run_summarizes assms(4,5) by auto
  then have "\<exists>r. replay_result run_host run_config False (length cs) s = Inr r \<and> br_trades r = rs_trades s"
    by (simp add: replay_result_def ok_def)
  moreover have "bc_intervalMs run_config = Fin 60000" "bc_fundingRates run_config = None"
    by (simp_all add: run_config_def)
  ultimately show ?thesis
    using assms(1-3) by (simp add: replayBacktest_def run_valid validated_execution_def createExecutionSchedule_def
        ok_def Let_def)
qed

lemma run_input_eq: "run_input = \<lparr>ri_config = run_config, ri_candles = run_series,
    ri_buckets = buckets (oneToOneSchedule run_series), ri_prepared = None\<rparr>"
  by (simp add: run_input_def)

lemma run_both:
  "\<exists>r. replayBacktest run_host run_series run_config None None = Inr r \<and> length (br_trades r) = 1"
  "\<exists>r. replayBacktest run_host (take 2 run_series) run_config None None = Inr r \<and> br_trades r = []"
proof -
  obtain x s where s: "replay_candle run_host run_input 1 run_first = Inr s" "run_decided x s"
    using second_candle by blast
  obtain s' where s': "replay_candle run_host run_input 2 s = Inr s'" "length (rs_trades s') = 1"
    "rs_signalObservations s' = rs_signalObservations s" "rs_allocationObservations s' = rs_allocationObservations s"
    using third_candle [OF s(2)] by blast
  have lengths: "length run_series = 3" "run_series \<noteq> []"
    by (simp_all add: run_series_def)
  have upt: "[0..<length run_series] = [0, 1, 2]" "[0..<length (take 2 run_series)] = [0, 1]"
    by (simp_all add: lengths upt_rec)
  have two: "replay_candles run_host run_input [0, 1] (replay_start run_host run_config) = Inr s"
    using s(1) by (simp add: first_candle ok_def)
  have "replay_candles run_host run_input [0, 1, 2] (replay_start run_host run_config) = Inr s'"
    using s(1) s'(1) by (simp add: first_candle ok_def)
  then show "\<exists>r. replayBacktest run_host run_series run_config None None = Inr r \<and> length (br_trades r) = 1"
    using run_replays [OF run_integrity(1) lengths(2), unfolded upt run_input_eq [symmetric]] s'(2-4) s(2)
    by (auto simp: run_decided_def)
  have config: "run_config\<lparr>bc_fundingRates := None\<rparr> = run_config"
    by (simp add: run_config_def)
  have "replay_candles run_host \<lparr>ri_config = run_config, ri_candles = take 2 run_series,
      ri_buckets = buckets (oneToOneSchedule (take 2 run_series)), ri_prepared = None\<rparr> [0, 1]
      (replay_start run_host run_config) = Inr s"
    using replay_candles_agree [of 2 run_series "take 2 run_series" run_config None "[0, 1]" run_host
        "replay_start run_host run_config"]
    unfolding config run_input_eq [symmetric] two
    by (simp add: lengths known_rates_def run_input_fields del: replay_candles.simps)
  then show "\<exists>r. replayBacktest run_host (take 2 run_series) run_config None None = Inr r \<and> br_trades r = []"
    using run_replays [OF run_integrity(2), unfolded upt] s(2) lengths by (auto simp: run_decided_def)
qed

subsection \<open>The properties\<close>

text \<open>C14: Every candle counts once.  A replay that answers has one point of the equity curve
  per candle, at its start and in their order, whether the candle trades, is evaluated, or only
  warms the indicators; and it counts as many processed candles.\<close>

theorem replay_covers_series:
  assumes "replayBacktest h cs c prepared options = Inr r"
  shows "map eq_at (br_equityCurve r) = map Candle.start cs \<and> br_processedCandles r = length cs"
  using replay_runs [OF assms] by blast

theorem replay_covers_series_witness:
  "\<exists>r. replayBacktest run_host run_series run_config None None = Inr r \<and>
     map eq_at (br_equityCurve r) = [Fin 0, Fin 60000, Fin 120000]"
proof -
  obtain r where r: "replayBacktest run_host run_series run_config None None = Inr r"
    using run_both(1) by blast
  then show ?thesis
    using replay_covers_series [OF r] by (auto simp: run_series_def run_candle_def)
qed

text \<open>C13: No trade without an approval, and no short position.  Every trade of a replay is
  executed at the start of an execution candle of some candle \<open>m\<close>, and is a protective exit of the
  position, or fills, for no more than its quantity, an order that the risk check approved at the
  close of the candle just before \<open>m\<close>: an order of the allocation over that account, checked against
  the position, the last trade and the result of the day that the candles until then had left.
  The final position is not negative, nor NaN.\<close>

theorem replay_trades_are_approved:
  assumes "replayBacktest h cs c prepared options = Inr r"
  shows "(\<exists>executions sched. validated_execution options = Inr executions \<and>
       createExecutionSchedule cs executions = Inr sched \<and>
       (\<forall>x\<in>set (br_trades r). \<exists>m<length cs.
          executedAt (fill x) \<in> Candle.start ` set (executionCandles (buckets sched ! m)) \<and>
          ((\<exists>e\<in>set (br_protectiveExits r). pe_fillId e = fillId (fill x)) \<or>
           (\<exists>n i. m = Suc n \<and>
              approved_at h \<lparr>ri_config = c, ri_candles = cs, ri_buckets = buckets sched, ri_prepared = prepared\<rparr> n i \<and>
              fill_clientOrderId (fill x) = OrderIntent.clientOrderId i \<and>
              fill_quantity (fill x) \<le> OrderIntent.quantity i)))) \<and>
    \<not> positionQuantity (br_finalPortfolio r) < Fin 0 \<and> binary64 (positionQuantity (br_finalPortfolio r))"
  using replay_runs [OF assms] unfolding traded_at_def explained_def not_short_def replay_input.simps by metis

theorem replay_trades_are_approved_witness:
  "\<exists>r x. replayBacktest run_host run_series run_config None None = Inr r \<and> x \<in> set (br_trades r) \<and>
     (\<exists>m<3. executedAt (fill x) \<in> Candle.start ` set (executionCandles (buckets (oneToOneSchedule run_series) ! m)))"
proof -
  obtain r where r: "replayBacktest run_host run_series run_config None None = Inr r" "length (br_trades r) = 1"
    using run_both(1) by blast
  then obtain x where x: "x \<in> set (br_trades r)"
    by (cases "br_trades r") auto
  obtain executions sched where "validated_execution None = Inr executions"
      "createExecutionSchedule run_series executions = Inr sched"
    and "\<exists>m<length run_series. executedAt (fill x) \<in> Candle.start ` set (executionCandles (buckets sched ! m))"
    using conjunct1 [OF replay_trades_are_approved [OF r(1)]] x by metis
  moreover from this(1,2) have "sched = oneToOneSchedule run_series"
    by (simp add: validated_execution_def createExecutionSchedule_def ok_def split: if_split_asm)
  moreover have "length run_series = 3"
    by (simp add: run_series_def)
  ultimately show ?thesis
    using r(1) x by metis
qed

text \<open>C12: No look-ahead.  Take two series with a common beginning and funding rates that agree
  on it, whatever follows.  The replays agree on the equity of every common candle, and on all
  the trades but those executed at the open of a later candle: no decision reads a candle or a
  rate that is not yet known.\<close>

theorem replay_no_look_ahead:
  assumes "replayBacktest h (xs @ ys) c None None = Inr r"
    and "replayBacktest h (xs @ zs) (c\<lparr>bc_fundingRates := f\<rparr>) None None = Inr r'"
    and "map_option (take (length xs)) (bc_fundingRates c) = map_option (take (length xs)) f"
  shows "take (length xs) (br_equityCurve r) = take (length xs) (br_equityCurve r') \<and>
    length (take (length xs) (br_equityCurve r)) = length xs \<and>
    (\<exists>ts us vs. br_trades r = ts @ us \<and> br_trades r' = ts @ vs \<and>
      (\<forall>x\<in>set us. executedAt (fill x) \<in> Candle.start ` set ys) \<and>
      (\<forall>x\<in>set vs. executedAt (fill x) \<in> Candle.start ` set zs))"
proof -
  have rates: "known_rates (length xs) (bc_fundingRates c) = known_rates (length xs) f"
    using assms(3) by (simp add: known_rates_def)
  have start: "replay_start h (funded c f) = replay_start h c"
    by (simp add: replay_start_def)
  have agree: "replay_candles h \<lparr>ri_config = funded c f, ri_candles = xs @ zs,
      ri_buckets = buckets (oneToOneSchedule (xs @ zs)), ri_prepared = None\<rparr> [0..<length xs] (replay_start h (funded c f)) =
    replay_candles h \<lparr>ri_config = c, ri_candles = xs @ ys,
      ri_buckets = buckets (oneToOneSchedule (xs @ ys)), ri_prepared = None\<rparr> [0..<length xs] (replay_start h c)"
    unfolding start by (rule replay_candles_agree [OF _ rates]) simp_all
  show ?thesis
    using replay_prefix [OF assms(1) refl] replay_prefix [OF assms(2) agree] by fastforce
qed

theorem replay_no_look_ahead_witness:
  "\<exists>r r'. replayBacktest run_host (take 2 run_series @ [run_candle 120000]) run_config None None = Inr r \<and>
     replayBacktest run_host (take 2 run_series @ []) (run_config\<lparr>bc_fundingRates := None\<rparr>) None None = Inr r' \<and>
     length (br_trades r) = 1 \<and> br_trades r' = [] \<and> take 2 (br_equityCurve r) = take 2 (br_equityCurve r')"
proof -
  have series: "take 2 run_series @ [run_candle 120000] = run_series" "length (take 2 run_series) = 2"
    by (simp_all add: run_series_def)
  have config: "run_config\<lparr>bc_fundingRates := None\<rparr> = run_config" "bc_fundingRates run_config = None"
    by (simp_all add: run_config_def)
  obtain r r' where
    r: "replayBacktest run_host (take 2 run_series @ [run_candle 120000]) run_config None None = Inr r" "length (br_trades r) = 1"
    and r': "replayBacktest run_host (take 2 run_series @ []) (run_config\<lparr>bc_fundingRates := None\<rparr>) None None = Inr r'"
      "br_trades r' = []"
    using run_both unfolding series config append_Nil2 by blast
  have "take (length (take 2 run_series)) (br_equityCurve r) = take (length (take 2 run_series)) (br_equityCurve r')"
    using replay_no_look_ahead [OF r(1) r'(1)] by (simp add: config)
  then show ?thesis
    using r r' unfolding series by blast
qed

end
