(* ===== verification/MultiReplay.thy ===== *)
theory MultiReplay
  imports Replay
begin

text \<open>
  The replay of several products on one account, \<^verbatim>\<open>packages/backtest/src/multi-product-replay.ts\<close>:
  shared cash, one position per product, consolidated risk.  No protective order and no regime.
\<close>

record MultiProductBacktestProductConfig =
  mb_productId :: string
  mb_candles :: "Candle list"
  mb_strategies :: StrategyRegistry
  mb_indicators :: IndicatorConfig
  mb_risk :: RiskConfig

record MultiProductBacktestConfig =
  mc_runId :: string
  mc_agentId :: string
  mc_initialCapital :: number
  mc_maxDecisionNotional :: number
  mc_minNetQuantity :: number
  mc_broker :: PaperBrokerConfig
  mc_portfolioRisk :: PortfolioRiskLimits
  mc_products :: "MultiProductBacktestProductConfig list"

record MultiProductPosition =
  mp_quantity :: number
  mp_averagePrice :: number

record MultiProductProductResult =
  mpr_productId :: string
  mpr_trades :: "PaperTrade list"
  mpr_realizedPnl :: number
  mpr_finalPosition :: MultiProductPosition

record MultiProductBacktestResult =
  mbr_runId :: string
  mbr_trades :: "PaperTrade list"
  mbr_equityCurve :: "EquityPoint list"
  mbr_metrics :: BacktestMetrics
  mbr_finalCash :: number
  mbr_finalPositions :: "MultiProductPosition dict"
  mbr_processedCandles :: nat
  mbr_perProduct :: "MultiProductProductResult list"

datatype MultiProductBacktestError =
  INVALID_MULTI_PRODUCT_CONFIG
| MULTI_INVALID_CANDLES string MarketValidationError
| MISALIGNED_PRODUCT_CANDLES
| MULTI_INDICATOR_FAILURE string
| MULTI_STRATEGY_FAILURE StrategyError
| MULTI_ALLOCATION_FAILURE AllocationError
| MULTI_RISK_FAILURE PortfolioRiskError
| MULTI_SPOT_PERMISSION_FAILURE string
| MULTI_BROKER_FAILURE PaperBrokerError

text \<open>The variables of the loop.  The maps hold every product from the start.\<close>

record multi_state =
  mr_positions :: "string \<Rightarrow> MultiProductPosition"
  mr_realized :: "string \<Rightarrow> number"
  mr_trades :: "PaperTrade list"
  mr_productTrades :: "string \<Rightarrow> PaperTrade list"
  mr_lastTradeAt :: "string \<Rightarrow> number option"
  mr_previousIndicators :: "string \<Rightarrow> IndicatorSnapshot option"
  mr_dailyWindows :: "string \<Rightarrow> DailyRiskWindow option"
  mr_consolidatedWindow :: "DailyRiskWindow option"
  mr_cash :: number
  mr_pendingOrders :: "(string \<times> OrderIntent) list"
  mr_equityCurve :: "EquityPoint list"

type_synonym multi_answer = "(multi_state, MultiProductBacktestError) result"

subsection \<open>Validation\<close>

definition validPortfolioLimits :: "PortfolioRiskLimits \<Rightarrow> bool" where
  "validPortfolioLimits l \<longleftrightarrow>
     isFinite (pf_maxGrossExposure l) \<and> Fin 0 < pf_maxGrossExposure l \<and>
     isFinite (pf_maxDailyLoss l) \<and> Fin 0 < pf_maxDailyLoss l"

definition validMultiConfig :: "MultiProductBacktestConfig \<Rightarrow> bool" where
  "validMultiConfig c \<longleftrightarrow>
     non_blank (mc_runId c) \<and> non_blank (mc_agentId c) \<and>
     isFinite (mc_initialCapital c) \<and> Fin 0 < mc_initialCapital c \<and>
     isFinite (mc_maxDecisionNotional c) \<and> Fin 0 < mc_maxDecisionNotional c \<and>
     isFinite (mc_minNetQuantity c) \<and> Fin 0 \<le> mc_minNetQuantity c \<and>
     validPortfolioLimits (mc_portfolioRisk c) \<and> mc_products c \<noteq> []"

fun same_neighbours :: "string list \<Rightarrow> bool" where
  "same_neighbours (x # y # xs) \<longleftrightarrow> x = y \<or> same_neighbours (y # xs)"
| "same_neighbours _ \<longleftrightarrow> False"

text \<open>Every series validated, in the order of the products.\<close>

type_synonym traded = "MultiProductBacktestProductConfig \<times> Candle list"

primrec validated_series :: "MultiProductBacktestProductConfig list
    \<Rightarrow> (traded list, MultiProductBacktestError) result" where
  "validated_series [] = ok []"
| "validated_series (p # ps) =
     (case validateCandleSeries (mb_candles p) of
        Inl e \<Rightarrow> err (MULTI_INVALID_CANDLES (mb_productId p) e)
      | Inr v \<Rightarrow> and_then (validated_series ps) (\<lambda>rest. ok ((p, v) # rest)))"

definition aligned_series :: "traded list \<Rightarrow> bool" where
  "aligned_series xs \<longleftrightarrow>
     (case xs of
        [] \<Rightarrow> False
      | (_, reference) # _ \<Rightarrow>
          reference \<noteq> [] \<and>
          list_all (\<lambda>(_, series). length series = length reference \<and>
            list_all (\<lambda>(a, b). num_eq (Candle.start a) (Candle.start b)) (zip series reference)) xs)"

subsection \<open>Marks\<close>

definition equity_at :: "traded list \<Rightarrow> nat \<Rightarrow> multi_state \<Rightarrow> number" where
  "equity_at xs i s =
     foldl (\<lambda>equity (p, series).
         equity + mp_quantity (mr_positions s (mb_productId p)) * close_price (series ! i))
       (mr_cash s) xs"

definition productPnlProxy :: "string \<Rightarrow> number \<Rightarrow> multi_state \<Rightarrow> number" where
  "productPnlProxy k px s =
     (let position = mr_positions s k;
          unrealized = (if num_eq (mp_quantity position) (Fin 0) then Fin 0
            else mp_quantity position * (px - mp_averagePrice position))
      in mr_realized s k + unrealized)"

subsection \<open>Pending orders\<close>

definition virtual_portfolio :: "string \<Rightarrow> multi_state \<Rightarrow> PaperPortfolio" where
  "virtual_portfolio k s =
     \<lparr>cash = mr_cash s, positionQuantity = mp_quantity (mr_positions s k),
      averagePrice = mp_averagePrice (mr_positions s k)\<rparr>"

definition multi_executed :: "string \<Rightarrow> PaperExecution \<Rightarrow> number \<Rightarrow> multi_state \<Rightarrow> multi_state" where
  "multi_executed k x t s =
     s\<lparr>mr_cash := cash (portfolio x),
       mr_positions := (mr_positions s)(k := \<lparr>mp_quantity = positionQuantity (portfolio x),
         mp_averagePrice = averagePrice (portfolio x)\<rparr>),
       mr_realized := (mr_realized s)(k := mr_realized s k + realizedPnl (trade x)),
       mr_trades := mr_trades s @ [trade x],
       mr_productTrades := (mr_productTrades s)(k := mr_productTrades s k @ [trade x]),
       mr_lastTradeAt := (mr_lastTradeAt s)(k := Some t)\<rparr>"

definition multi_fill :: "MultiProductBacktestConfig \<Rightarrow> traded list \<Rightarrow> nat \<Rightarrow> string \<times> OrderIntent
    \<Rightarrow> multi_state \<Rightarrow> multi_answer" where
  "multi_fill c xs i pending s =
     (case pending of (k, order) \<Rightarrow>
       case find (\<lambda>(p, _). mb_productId p = k) xs of
         None \<Rightarrow> err INVALID_MULTI_PRODUCT_CONFIG
       | Some (_, series) \<Rightarrow>
           if length series \<le> i then err MISALIGNED_PRODUCT_CANDLES
           else
             let candle = series ! i; w = virtual_portfolio k s
             in case resolveSpotPermission (side order) (OrderIntent.quantity order) (positionQuantity w) of
                  None \<Rightarrow> err (MULTI_SPOT_PERMISSION_FAILURE k)
                | Some SHORT_FORBIDDEN \<Rightarrow> ok s
                | Some SPOT_EXECUTABLE \<Rightarrow>
                    (case capSpotOrder order w (open_price candle) (mc_broker c) (mc_minNetQuantity c) of
                       None \<Rightarrow> ok s
                     | Some capped \<Rightarrow>
                         (case executePaperOrder w capped (open_price candle) (Candle.start candle)
                             (mc_broker c) of
                            Inl e \<Rightarrow> err (MULTI_BROKER_FAILURE e)
                          | Inr x \<Rightarrow> ok (multi_executed k x (Candle.start candle) s))))"

primrec multi_fills :: "MultiProductBacktestConfig \<Rightarrow> traded list \<Rightarrow> nat \<Rightarrow> (string \<times> OrderIntent) list
    \<Rightarrow> multi_state \<Rightarrow> multi_answer" where
  "multi_fills c xs i [] s = ok s"
| "multi_fills c xs i (o1 # os) s = and_then (multi_fill c xs i o1 s) (multi_fills c xs i os)"

subsection \<open>Signals\<close>

text \<open>The signals of one product, and the indicators it saw.\<close>

definition product_signals :: "replay_host \<Rightarrow> nat \<Rightarrow> traded \<Rightarrow> multi_state
    \<Rightarrow> (Signal list \<times> multi_state, MultiProductBacktestError) result" where
  "product_signals h i x s =
     (case x of (p, series) \<Rightarrow>
       case rh_indicators h (take (Suc i) series) (mb_indicators p) None of
         Inl e \<Rightarrow> err (MULTI_INDICATOR_FAILURE e)
       | Inr snapshot \<Rightarrow>
           (case evaluateAll (mb_strategies p)
               \<lparr>ctx_productId = mb_productId p, ctx_candles = take (Suc i) series,
                ctx_indicators = snapshot,
                ctx_previousIndicators = mr_previousIndicators s (mb_productId p)\<rparr> of
              Inl e \<Rightarrow> err (MULTI_STRATEGY_FAILURE e)
            | Inr sigs \<Rightarrow> ok (sigs, s\<lparr>mr_previousIndicators :=
                (mr_previousIndicators s)(mb_productId p := Some snapshot)\<rparr>)))"

primrec pooled_signals :: "replay_host \<Rightarrow> nat \<Rightarrow> traded list \<Rightarrow> Signal list \<Rightarrow> multi_state
    \<Rightarrow> (Signal list \<times> multi_state, MultiProductBacktestError) result" where
  "pooled_signals h i [] pooled s = ok (pooled, s)"
| "pooled_signals h i (x # xs) pooled s =
     and_then (product_signals h i x s) (\<lambda>(sigs, s'). pooled_signals h i xs (pooled @ sigs) s')"

definition multi_allocation :: "MultiProductBacktestConfig \<Rightarrow> traded list \<Rightarrow> nat \<Rightarrow> number \<Rightarrow> Signal list
    \<Rightarrow> multi_state \<Rightarrow> (AllocationDecision, AllocationError) result" where
  "multi_allocation c xs i t sigs s =
     allocateSignals
       \<lparr>agentId = mc_agentId c, cycleId = mc_runId c @ '':'' @ timestamp_string t,
        alloc_decisionId = mc_runId c @ '':decision:'' @ timestamp_string t, signals = sigs,
        marketPrices = map (\<lambda>(p, series). (mb_productId p, close_price (series ! i))) xs,
        capitalAvailable = js_max (Fin 0) (mr_cash s),
        AllocationInput.maxDecisionNotional = mc_maxDecisionNotional c,
        AllocationInput.minNetQuantity = mc_minNetQuantity c\<rparr>"

subsection \<open>Risk\<close>

definition order_for :: "OrderIntent list \<Rightarrow> string \<Rightarrow> OrderIntent option" where
  "order_for orders = map_of (rev (map (\<lambda>x. (OrderIntent.productId x, x)) orders))"

definition risk_input :: "nat \<Rightarrow> number \<Rightarrow> OrderIntent list \<Rightarrow> traded \<Rightarrow> multi_state
    \<Rightarrow> PortfolioProductRiskInput \<times> multi_state" where
  "risk_input i t orders x s =
     (case x of (p, series) \<Rightarrow>
       let k = mb_productId p;
           px = close_price (series ! i);
           daily = resolveDailyRiskWindow (mr_dailyWindows s k) t (productPnlProxy k px s)
       in (\<lparr>pf_productId = k, pf_intent = order_for orders k,
             pf_snapshot = \<lparr>marketPrice = px,
               currentPositionQuantity = mp_quantity (mr_positions s k),
               RiskSnapshot.otherExposureNotional = Fin 0, dailyPnl = risk_dailyPnl daily,
               lastTradeAt = mr_lastTradeAt s k,
               now = resolveRiskEvaluationTimestamp t (mr_lastTradeAt s k),
               killSwitchActive = False\<rparr>,
             pf_config = mb_risk p\<rparr>,
           s\<lparr>mr_dailyWindows := (mr_dailyWindows s)(k := Some (risk_window daily))\<rparr>))"

primrec risk_inputs :: "nat \<Rightarrow> number \<Rightarrow> OrderIntent list \<Rightarrow> traded list \<Rightarrow> multi_state
    \<Rightarrow> PortfolioProductRiskInput list \<times> multi_state" where
  "risk_inputs i t orders [] s = ([], s)"
| "risk_inputs i t orders (x # xs) s =
     (case risk_input i t orders x s of (p, s') \<Rightarrow>
        case risk_inputs i t orders xs s' of (ps, s'') \<Rightarrow> (p # ps, s''))"

definition approved_orders :: "OrderIntent list \<Rightarrow> PortfolioProductRiskOutcome list
    \<Rightarrow> (string \<times> OrderIntent) list" where
  "approved_orders orders outcomes =
     List.map_filter (\<lambda>(k, d). case d of
         PF_APPROVED _ \<Rightarrow> map_option (Pair k) (order_for orders k)
       | _ \<Rightarrow> None) outcomes"

definition multi_point :: "traded list \<Rightarrow> nat \<Rightarrow> number \<Rightarrow> multi_state \<Rightarrow> multi_state" where
  "multi_point xs i t s =
     s\<lparr>mr_equityCurve := mr_equityCurve s @ [\<lparr>eq_at = t, eq_equity = equity_at xs i s\<rparr>]\<rparr>"

definition roll_consolidated :: "traded list \<Rightarrow> nat \<Rightarrow> number \<Rightarrow> multi_state \<Rightarrow> multi_state" where
  "roll_consolidated xs i t s =
     s\<lparr>mr_consolidatedWindow := Some (risk_window
         (resolveDailyRiskWindow (mr_consolidatedWindow s) t (equity_at xs i s)))\<rparr>"

definition multi_decide :: "MultiProductBacktestConfig \<Rightarrow> traded list \<Rightarrow> nat \<Rightarrow> number \<Rightarrow> Signal list
    \<Rightarrow> multi_state \<Rightarrow> multi_answer" where
  "multi_decide c xs i t sigs s =
     (case multi_allocation c xs i t sigs s of
        Inl e \<Rightarrow> err (MULTI_ALLOCATION_FAILURE e)
      | Inr d \<Rightarrow>
          (case risk_inputs i t (dec_orders d) xs s of (inputs, s1) \<Rightarrow>
             case evaluatePortfolioRisk inputs (mc_portfolioRisk c) of
               Inl e \<Rightarrow> err (MULTI_RISK_FAILURE e)
             | Inr evaluation \<Rightarrow>
                 ok (multi_point xs i t (roll_consolidated xs i t
                   (s1\<lparr>mr_pendingOrders := approved_orders (dec_orders d) (decisions evaluation)\<rparr>)))))"

subsection \<open>The loop\<close>

definition warmup_max :: "traded list \<Rightarrow> number" where
  "warmup_max xs = foldl js_max NegInf (map (\<lambda>(p, _). requiredIndicatorCandles (mb_indicators p)) xs)"

definition aligned_start :: "traded list \<Rightarrow> nat \<Rightarrow> number" where
  "aligned_start xs i = (case xs of [] \<Rightarrow> Fin 0 | (_, series) # _ \<Rightarrow> Candle.start (series ! i))"

definition multi_candle :: "replay_host \<Rightarrow> MultiProductBacktestConfig \<Rightarrow> traded list \<Rightarrow> nat
    \<Rightarrow> multi_state \<Rightarrow> multi_answer" where
  "multi_candle h c xs i s =
     and_then (multi_fills c xs i (mr_pendingOrders s) s) (\<lambda>s1.
       let s2 = s1\<lparr>mr_pendingOrders := []\<rparr>; t = aligned_start xs i
       in if Fin (of_nat i) < warmup_max xs - Fin 1 then ok (multi_point xs i t s2)
          else and_then (pooled_signals h i xs [] s2) (\<lambda>(sigs, s3). multi_decide c xs i t sigs s3))"

primrec multi_candles :: "replay_host \<Rightarrow> MultiProductBacktestConfig \<Rightarrow> traded list \<Rightarrow> nat list
    \<Rightarrow> multi_state \<Rightarrow> multi_answer" where
  "multi_candles h c xs [] s = ok s"
| "multi_candles h c xs (i # is) s = and_then (multi_candle h c xs i s) (multi_candles h c xs is)"

definition multi_start :: "MultiProductBacktestConfig \<Rightarrow> multi_state" where
  "multi_start c =
     \<lparr>mr_positions = (\<lambda>_. \<lparr>mp_quantity = Fin 0, mp_averagePrice = Fin 0\<rparr>), mr_realized = (\<lambda>_. Fin 0),
      mr_trades = [], mr_productTrades = (\<lambda>_. []), mr_lastTradeAt = (\<lambda>_. None),
      mr_previousIndicators = (\<lambda>_. None), mr_dailyWindows = (\<lambda>_. None),
      mr_consolidatedWindow = None, mr_cash = mc_initialCapital c, mr_pendingOrders = [],
      mr_equityCurve = []\<rparr>"

definition product_result :: "multi_state \<Rightarrow> MultiProductBacktestProductConfig
    \<Rightarrow> MultiProductProductResult" where
  "product_result s p =
     (let k = mb_productId p
      in \<lparr>mpr_productId = k, mpr_trades = mr_productTrades s k, mpr_realizedPnl = mr_realized s k,
          mpr_finalPosition = mr_positions s k\<rparr>)"

definition multi_result :: "replay_host \<Rightarrow> MultiProductBacktestConfig
    \<Rightarrow> MultiProductBacktestProductConfig list \<Rightarrow> nat \<Rightarrow> multi_state \<Rightarrow> MultiProductBacktestResult" where
  "multi_result h c ps n s =
     \<lparr>mbr_runId = mc_runId c, mbr_trades = mr_trades s, mbr_equityCurve = mr_equityCurve s,
      mbr_metrics = calculateMetrics (rh_pow h) (rh_sqrt h) (mr_equityCurve s) (mr_trades s)
        (mc_initialCapital c)
        (js_sum (map (\<lambda>p. mp_quantity (mr_positions s (mb_productId p))) ps)),
      mbr_finalCash = mr_cash s,
      mbr_finalPositions = map (\<lambda>p. (mb_productId p, mr_positions s (mb_productId p))) ps,
      mbr_processedCandles = n, mbr_perProduct = map (product_result s) ps\<rparr>"

definition replayMultiProductBacktest :: "replay_host \<Rightarrow> MultiProductBacktestConfig
    \<Rightarrow> (MultiProductBacktestResult, MultiProductBacktestError) result" where
  "replayMultiProductBacktest h c =
     (if \<not> validMultiConfig c then err INVALID_MULTI_PRODUCT_CONFIG
      else
        let products = sort_key mb_productId (mc_products c)
        in if same_neighbours (map mb_productId products) then err INVALID_MULTI_PRODUCT_CONFIG
           else and_then (validated_series products) (\<lambda>xs.
             if \<not> aligned_series xs then err MISALIGNED_PRODUCT_CANDLES
             else
               let n = length (snd (hd xs))
               in and_then (multi_candles h c xs [0..<n] (multi_start c)) (\<lambda>s.
                    ok (multi_result h c products n s))))"

end
