(* ===== verification/MultiReplayProps.thy ===== *)
theory MultiReplayProps
  imports MultiReplay ReplayProps
begin

text \<open>
  The replay of several products: what is pending was approved by the consolidated risk check, no
  product is ever short, and every candle counts once.
\<close>

subsection \<open>Fills\<close>

text \<open>A trade of a candle: it fills an order of a given kind, at the open of a product.\<close>

definition multi_explained :: "(string \<Rightarrow> OrderIntent \<Rightarrow> bool) \<Rightarrow> traded list \<Rightarrow> nat \<Rightarrow> PaperTrade \<Rightarrow> bool" where
  "multi_explained P xs m x \<longleftrightarrow>
     (\<exists>(p, series)\<in>set xs. executedAt (fill x) = Candle.start (series ! m) \<and>
        (\<exists>i. P (mb_productId p) i \<and> fill_clientOrderId (fill x) = OrderIntent.clientOrderId i \<and>
           fill_quantity (fill x) \<le> OrderIntent.quantity i))"

definition multi_flat :: "multi_state \<Rightarrow> bool" where
  "multi_flat s \<longleftrightarrow> (\<forall>k. not_short (mp_quantity (mr_positions s k)))"

definition multi_goes :: "(string \<Rightarrow> OrderIntent \<Rightarrow> bool) \<Rightarrow> traded list \<Rightarrow> nat \<Rightarrow> multi_state \<Rightarrow> multi_state \<Rightarrow> bool" where
  "multi_goes P xs m s s' \<longleftrightarrow>
     (multi_flat s \<longrightarrow> multi_flat s') \<and> mr_equityCurve s' = mr_equityCurve s \<and>
     (\<exists>ts. mr_trades s' = mr_trades s @ ts \<and> (\<forall>x\<in>set ts. multi_explained P xs m x))"

lemma multi_goes_trans: "multi_goes P xs m s s' \<Longrightarrow> multi_goes P xs m s' s'' \<Longrightarrow> multi_goes P xs m s s''"
  unfolding multi_goes_def by fastforce

lemma find_SomeD: "find P xs = Some x \<Longrightarrow> x \<in> set xs \<and> P x"
  by (induction xs) (auto split: if_split_asm)

lemma multi_fill_goes:
  assumes "multi_fill c xs m (k, order) s = Inr s'" "P k order"
  shows "multi_goes P xs m s s'"
proof -
  obtain p series where found: "find (\<lambda>(p, _). mb_productId p = k) xs = Some (p, series)"
    using assms(1) by (cases "find (\<lambda>(p, _). mb_productId p = k) xs") (auto simp: multi_fill_def err_def)
  then have member: "(p, series) \<in> set xs" "mb_productId p = k"
    by (auto dest!: find_SomeD)
  have "s' = s \<or> (\<exists>capped x.
      capSpotOrder order (virtual_portfolio k s) (open_price (series ! m)) (mc_broker c) (mc_minNetQuantity c) = Some capped \<and>
      executePaperOrder (virtual_portfolio k s) capped (open_price (series ! m)) (Candle.start (series ! m)) (mc_broker c) = Inr x \<and>
      s' = multi_executed k x (Candle.start (series ! m)) s)"
    using assms(1) unfolding multi_fill_def
    by (auto simp: found Let_def ok_def err_def
        split: option.split_asm if_split_asm SpotPermission.split_asm sum.split_asm)
  then show ?thesis
  proof (elim disjE exE conjE)
    fix capped x
    assume cap: "capSpotOrder order (virtual_portfolio k s) (open_price (series ! m)) (mc_broker c) (mc_minNetQuantity c) = Some capped"
      and x: "executePaperOrder (virtual_portfolio k s) capped (open_price (series ! m)) (Candle.start (series ! m)) (mc_broker c) = Inr x"
      and s': "s' = multi_executed k x (Candle.start (series ! m)) s"
    note capped = capSpotOrder_Some [OF cap]
    have "not_short (positionQuantity (portfolio x))" if "multi_flat s"
      using paper_order_not_short [OF x] capped that by (simp add: multi_flat_def virtual_portfolio_def)
    moreover have "multi_explained P xs m (trade x)"
      using paper_order_effect [OF x] capped assms(2) member unfolding multi_explained_def by fastforce
    ultimately show ?thesis
      by (simp add: s' multi_executed_def multi_goes_def multi_flat_def)
  qed (simp add: multi_goes_def)
qed

lemma multi_fills_goes:
  "multi_fills c xs m os s = Inr s' \<Longrightarrow> \<forall>(k, x)\<in>set os. P k x \<Longrightarrow> multi_goes P xs m s s'"
proof (induction os arbitrary: s)
  case (Cons o1 os)
  obtain k x where o1: "o1 = (k, x)"
    by (cases o1)
  obtain s1 where "multi_fill c xs m o1 s = Inr s1" "multi_fills c xs m os s1 = Inr s'"
    using Cons.prems(1) by (auto elim: and_thenE)
  then show ?case
    using multi_fill_goes [of c xs m k x s s1 P] Cons.IH [of s1] Cons.prems(2) by (auto simp: o1 intro: multi_goes_trans)
qed (simp add: ok_def multi_goes_def)

subsection \<open>Decisions\<close>

text \<open>Steps that leave the accounts alone.\<close>

definition multi_keeps :: "multi_state \<Rightarrow> multi_state \<Rightarrow> bool" where
  "multi_keeps s s' \<longleftrightarrow>
     mr_positions s' = mr_positions s \<and> mr_realized s' = mr_realized s \<and> mr_lastTradeAt s' = mr_lastTradeAt s \<and>
     mr_dailyWindows s' = mr_dailyWindows s \<and> mr_cash s' = mr_cash s \<and> mr_trades s' = mr_trades s \<and>
     mr_equityCurve s' = mr_equityCurve s"

lemma pooled_signals_keeps: "pooled_signals h i ys pooled s = Inr r \<Longrightarrow> multi_keeps s (snd r)"
proof (induction ys arbitrary: pooled s)
  case (Cons x ys)
  obtain r1 where r1: "product_signals h i x s = Inr r1" "pooled_signals h i ys (pooled @ fst r1) (snd r1) = Inr r"
    using Cons.prems by (auto elim: and_thenE simp: split_beta)
  have "multi_keeps s (snd r1)"
    using r1(1) by (auto simp: product_signals_def multi_keeps_def ok_def err_def split: prod.split_asm sum.split_asm)
  then show ?case
    using Cons.IH [OF r1(2)] by (simp add: multi_keeps_def)
qed (auto simp: ok_def multi_keeps_def)

text \<open>
  What the consolidated check reads of a product, on the accounts as the close of candle \<open>n\<close> finds
  them: its position, its last trade, and the result of its day, realized and not.
\<close>

definition product_input :: "nat \<Rightarrow> number \<Rightarrow> OrderIntent list \<Rightarrow> multi_state \<Rightarrow> traded \<Rightarrow> PortfolioProductRiskInput" where
  "product_input n t orders s x =
     (case x of (p, series) \<Rightarrow>
       let k = mb_productId p
       in \<lparr>pf_productId = k, pf_intent = order_for orders k,
           pf_snapshot = \<lparr>marketPrice = close_price (series ! n),
             currentPositionQuantity = mp_quantity (mr_positions s k),
             RiskSnapshot.otherExposureNotional = Fin 0,
             dailyPnl = risk_dailyPnl (resolveDailyRiskWindow (mr_dailyWindows s k) t
               (productPnlProxy k (close_price (series ! n)) s)),
             lastTradeAt = mr_lastTradeAt s k, now = resolveRiskEvaluationTimestamp t (mr_lastTradeAt s k),
             killSwitchActive = False\<rparr>,
           pf_config = mb_risk p\<rparr>)"

lemma product_input_keeps: "multi_keeps s s' \<Longrightarrow> product_input n t orders s' = product_input n t orders s"
  by (rule ext) (simp add: product_input_def multi_keeps_def productPnlProxy_def split_beta)

abbreviation distinct_ids :: "traded list \<Rightarrow> bool" where
  "distinct_ids xs \<equiv> distinct (map (\<lambda>x. mb_productId (fst x)) xs)"

lemma risk_inputs_spec:
  "risk_inputs i t orders ys s = (inputs, s') \<Longrightarrow> distinct_ids ys \<Longrightarrow>
     inputs = map (product_input i t orders s) ys \<and> mr_positions s' = mr_positions s \<and> mr_trades s' = mr_trades s \<and>
     mr_equityCurve s' = mr_equityCurve s"
proof (induction ys arbitrary: s inputs s')
  case (Cons y ys)
  obtain p series where y: "y = (p, series)"
    by (cases y)
  obtain x s1 where x: "risk_input i t orders y s = (x, s1)"
    by fastforce
  obtain ps s2 where ps: "risk_inputs i t orders ys s1 = (ps, s2)"
    by fastforce
  have r: "inputs = x # ps" "s' = s2"
    using Cons.prems(1) by (simp_all add: x ps)
  have one: "x = product_input i t orders s y" "mr_positions s1 = mr_positions s" "mr_trades s1 = mr_trades s"
    "mr_equityCurve s1 = mr_equityCurve s" "mr_realized s1 = mr_realized s" "mr_lastTradeAt s1 = mr_lastTradeAt s"
    and windows: "k \<noteq> mb_productId p \<Longrightarrow> mr_dailyWindows s1 k = mr_dailyWindows s k" for k
    using x by (auto simp: risk_input_def product_input_def y Let_def)
  have "product_input i t orders s1 z = product_input i t orders s z" if "z \<in> set ys" for z
  proof -
    have "mb_productId (fst z) \<noteq> mb_productId p"
      using Cons.prems(2) imageI [OF that, of "\<lambda>x. mb_productId (fst x)"] unfolding y by (metis distinct.simps(2) fst_conv list.map(2) list.set_map)
    then show ?thesis
      using windows by (simp add: product_input_def one(2,5,6) productPnlProxy_def split_beta)
  qed
  then show ?case
    using Cons.IH [OF ps] Cons.prems(2) one by (simp add: r)
qed simp

lemma approved_orders_mem:
  "(k, x) \<in> set (approved_orders orders outcomes) \<Longrightarrow>
     order_for orders k = Some x \<and> (\<exists>a. (k, PF_APPROVED a) \<in> set outcomes)"
  by (auto simp: approved_orders_def List.map_filter_def split: PortfolioProductDecision.split_asm)

text \<open>
  The consolidated check approves this order for this product, on the accounts \<open>s\<close>: an order of the
  allocation over the shared cash, evaluated together with those of all the products.
\<close>

definition consolidated :: "MultiProductBacktestConfig \<Rightarrow> traded list \<Rightarrow> nat \<Rightarrow> multi_state \<Rightarrow> string \<Rightarrow> OrderIntent \<Rightarrow> bool" where
  "consolidated c xs n s k i \<longleftrightarrow>
     (\<exists>sigs d e a. multi_allocation c xs n (aligned_start xs n) sigs s = Inr d \<and>
        order_for (dec_orders d) k = Some i \<and>
        evaluatePortfolioRisk (map (product_input n (aligned_start xs n) (dec_orders d) s) xs) (mc_portfolioRisk c) = Inr e \<and>
        (k, PF_APPROVED a) \<in> set (decisions e))"

lemma consolidated_keeps: "multi_keeps s s' \<Longrightarrow> consolidated c xs n s' k i \<longleftrightarrow> consolidated c xs n s k i"
  using product_input_keeps [of s s'] by (simp add: consolidated_def multi_keeps_def multi_allocation_def)

text \<open>The end of a candle: its point is appended, the pending orders are those it approved.\<close>

definition multi_ends :: "(string \<Rightarrow> OrderIntent \<Rightarrow> bool) \<Rightarrow> number \<Rightarrow> multi_state \<Rightarrow> multi_state \<Rightarrow> bool" where
  "multi_ends Q t s s' \<longleftrightarrow>
     mr_positions s' = mr_positions s \<and> mr_trades s' = mr_trades s \<and>
     (\<forall>(k, i)\<in>set (mr_pendingOrders s'). Q k i) \<and>
     (\<exists>x. mr_equityCurve s' = mr_equityCurve s @ [x] \<and> eq_at x = t)"

lemma multi_decide_ends:
  assumes "multi_decide c xs n (aligned_start xs n) sigs s = Inr s'" "distinct_ids xs"
  shows "multi_ends (consolidated c xs n s) (aligned_start xs n) s s'"
proof -
  let ?t = "aligned_start xs n"
  obtain d where d: "multi_allocation c xs n ?t sigs s = Inr d"
    using assms(1) by (cases "multi_allocation c xs n ?t sigs s") (auto simp: multi_decide_def err_def)
  obtain inputs s1 where inputs: "risk_inputs n ?t (dec_orders d) xs s = (inputs, s1)"
    by fastforce
  obtain e where e: "evaluatePortfolioRisk inputs (mc_portfolioRisk c) = Inr e"
    using assms(1) by (cases "evaluatePortfolioRisk inputs (mc_portfolioRisk c)")
      (auto simp: multi_decide_def err_def d inputs)
  let ?pending = "approved_orders (dec_orders d) (decisions e)"
  have s': "s' = multi_point xs n ?t (roll_consolidated xs n ?t (s1\<lparr>mr_pendingOrders := ?pending\<rparr>))"
    using assms(1) by (simp add: multi_decide_def d inputs e ok_def)
  note spec = risk_inputs_spec [OF inputs assms(2)]
  have "consolidated c xs n s k i" if "(k, i) \<in> set ?pending" for k i
    using approved_orders_mem [OF that] d e spec unfolding consolidated_def by blast
  then show ?thesis
    using spec by (auto simp: s' multi_ends_def multi_point_def roll_consolidated_def)
qed

lemma multi_candle_steps:
  assumes "multi_candle h c xs n s = Inr s'" "distinct_ids xs"
  obtains s1 where "multi_fills c xs n (mr_pendingOrders s) s = Inr s1"
    "multi_ends (consolidated c xs n s1) (aligned_start xs n) s1 s'"
proof -
  let ?t = "aligned_start xs n"
  obtain s1 where s1: "multi_fills c xs n (mr_pendingOrders s) s = Inr s1"
    and rest: "(let s2 = s1\<lparr>mr_pendingOrders := []\<rparr>; t = ?t
       in if Fin (of_nat n) < warmup_max xs - Fin 1 then ok (multi_point xs n t s2)
          else and_then (pooled_signals h n xs [] s2) (\<lambda>(sigs, s3). multi_decide c xs n t sigs s3)) = Inr s'"
    using assms(1) unfolding multi_candle_def by (rule and_thenE)
  let ?s2 = "s1\<lparr>mr_pendingOrders := []\<rparr>"
  show thesis
  proof (cases "Fin (of_nat n) < warmup_max xs - Fin 1")
    case True
    then have "s' = multi_point xs n ?t ?s2"
      using rest by (simp add: ok_def)
    then show ?thesis
      using that [OF s1] by (simp add: multi_ends_def multi_point_def)
  next
    case False
    then obtain r where r: "pooled_signals h n xs [] ?s2 = Inr r" "multi_decide c xs n ?t (fst r) (snd r) = Inr s'"
      using rest by (auto elim: and_thenE simp: split_beta Let_def)
    have keeps: "multi_keeps s1 (snd r)"
      using pooled_signals_keeps [OF r(1)] by (simp add: multi_keeps_def)
    have "consolidated c xs n (snd r) = consolidated c xs n s1"
      using consolidated_keeps [OF keeps] by blast
    then show ?thesis
      using that [OF s1] multi_decide_ends [OF r(2) assms(2)] keeps
      by (simp add: multi_ends_def multi_keeps_def)
  qed
qed

subsection \<open>The run\<close>

text \<open>The accounts at the close of candle \<open>n\<close>: after the candles before it and its own fills.\<close>

definition multi_close :: "replay_host \<Rightarrow> MultiProductBacktestConfig \<Rightarrow> traded list \<Rightarrow> nat \<Rightarrow> multi_state \<Rightarrow> bool" where
  "multi_close h c xs n s \<longleftrightarrow>
     (\<exists>s0. multi_candles h c xs [0..<n] (multi_start c) = Inr s0 \<and>
        multi_fills c xs n (mr_pendingOrders s0) s0 = Inr s)"

definition multi_ok :: "replay_host \<Rightarrow> MultiProductBacktestConfig \<Rightarrow> traded list \<Rightarrow> nat \<Rightarrow> multi_state \<Rightarrow> bool" where
  "multi_ok h c xs n s \<longleftrightarrow>
     multi_flat s \<and> map eq_at (mr_equityCurve s) = map (aligned_start xs) [0..<n] \<and>
     (\<forall>(k, i)\<in>set (mr_pendingOrders s).
        \<exists>j s'. n = Suc j \<and> multi_close h c xs j s' \<and> consolidated c xs j s' k i) \<and>
     (\<forall>x\<in>set (mr_trades s). \<exists>j s'. Suc j < n \<and> multi_close h c xs j s' \<and>
        multi_explained (consolidated c xs j s') xs (Suc j) x)"

lemma multi_explained_close:
  "multi_explained (\<lambda>k i. \<exists>j s. n = Suc j \<and> multi_close h c xs j s \<and> consolidated c xs j s k i) xs m x \<Longrightarrow>
     \<exists>j s. n = Suc j \<and> multi_close h c xs j s \<and> multi_explained (consolidated c xs j s) xs m x"
  unfolding multi_explained_def by blast

lemma multi_ok_step:
  assumes ok: "multi_ok h c xs n s" and run: "multi_candles h c xs [0..<n] (multi_start c) = Inr s"
    and step: "multi_candle h c xs n s = Inr s'" and ids: "distinct_ids xs"
  shows "multi_ok h c xs (Suc n) s'"
proof -
  let ?P = "\<lambda>k i. \<exists>j s'. n = Suc j \<and> multi_close h c xs j s' \<and> consolidated c xs j s' k i"
  obtain s1 where fills: "multi_fills c xs n (mr_pendingOrders s) s = Inr s1"
    and ends: "multi_ends (consolidated c xs n s1) (aligned_start xs n) s1 s'"
    by (rule multi_candle_steps [OF step ids])
  have close: "multi_close h c xs n s1"
    using run fills by (auto simp: multi_close_def)
  have goes: "multi_goes ?P xs n s s1"
    using ok by (intro multi_fills_goes [OF fills]) (simp add: multi_ok_def)
  then obtain ts where ts: "mr_trades s1 = mr_trades s @ ts" "\<forall>x\<in>set ts. multi_explained ?P xs n x"
    unfolding multi_goes_def by blast
  have "multi_flat s'"
    using goes ok ends by (simp add: multi_goes_def multi_ok_def multi_ends_def multi_flat_def)
  moreover have "map eq_at (mr_equityCurve s') = map (aligned_start xs) [0..<Suc n]"
    using goes ok ends by (auto simp: multi_goes_def multi_ok_def multi_ends_def)
  moreover have "\<forall>(k, i)\<in>set (mr_pendingOrders s').
      \<exists>j s'. Suc n = Suc j \<and> multi_close h c xs j s' \<and> consolidated c xs j s' k i"
    using ends close unfolding multi_ends_def by blast
  moreover have "\<exists>j s'. Suc j < Suc n \<and> multi_close h c xs j s' \<and> multi_explained (consolidated c xs j s') xs (Suc j) x"
    if "x \<in> set ts" for x
    using multi_explained_close [of n h c xs n x] ts(2) that by auto
  moreover have "\<exists>j s'. Suc j < Suc n \<and> multi_close h c xs j s' \<and> multi_explained (consolidated c xs j s') xs (Suc j) x"
    if "x \<in> set (mr_trades s)" for x
    using ok that unfolding multi_ok_def by (meson less_SucI)
  moreover have "mr_trades s' = mr_trades s @ ts"
    using ends ts(1) by (simp add: multi_ends_def)
  ultimately show ?thesis
    unfolding multi_ok_def by auto
qed

lemma multi_candles_append:
  "multi_candles h c xs (is @ js) s = and_then (multi_candles h c xs is s) (multi_candles h c xs js)"
  by (induction "is" arbitrary: s) (simp_all add: and_then_def ok_def err_def split: sum.split)

lemma multi_ok_candles:
  "multi_candles h c xs [0..<n] (multi_start c) = Inr s \<Longrightarrow> distinct_ids xs \<Longrightarrow> multi_ok h c xs n s"
proof (induction n arbitrary: s)
  case 0
  then show ?case
    by (auto simp: multi_ok_def multi_flat_def multi_start_def ok_def)
next
  case (Suc n)
  obtain s0 where s0: "multi_candles h c xs [0..<n] (multi_start c) = Inr s0"
    and "multi_candle h c xs n s0 = Inr s"
    using Suc.prems(1) by (auto simp: multi_candles_append elim!: and_thenE simp del: split_paired_All split_paired_Ex)
  then show ?case
    using multi_ok_step [OF Suc.IH [OF s0 Suc.prems(2)] s0] Suc.prems(2) by blast
qed

subsection \<open>The series\<close>

lemma validated_series_spec:
  "validated_series ps = Inr xs \<Longrightarrow> xs = map (\<lambda>p. (p, mb_candles p)) ps"
proof (induction ps arbitrary: xs)
  case (Cons p ps)
  obtain v where v: "validateCandleSeries (mb_candles p) = Inr v"
    using Cons.prems by (cases "validateCandleSeries (mb_candles p)") (auto simp: err_def)
  obtain rest where rest: "validated_series ps = Inr rest"
    using Cons.prems by (cases "validated_series ps") (auto simp: v err_def and_then_def)
  have "v = mb_candles p"
    using v validate_candles_ok [of 0 None "mb_candles p" v] by (auto simp: validateCandleSeries_def split: if_splits)
  then show ?case
    using Cons.prems Cons.IH [OF rest] by (simp add: v rest ok_def)
qed (simp add: ok_def)

lemma aligned_starts:
  assumes "aligned_series xs" "(p, series) \<in> set xs"
  shows "map (aligned_start xs) [0..<length (snd (hd xs))] = map Candle.start series \<and> length series = length (snd (hd xs))"
proof -
  obtain q reference rest where xs: "xs = (q, reference) # rest"
    using assms(2) by (cases xs) auto
  have len: "length series = length reference"
    and same: "list_all (\<lambda>(a, b). num_eq (Candle.start a) (Candle.start b)) (zip series reference)"
    using assms by (auto simp: aligned_series_def xs list_all_iff)
  have "Candle.start (reference ! i) = Candle.start (series ! i)" if "i < length reference" for i
    using same that len by (auto simp: list_all_length num_eq_def)
  then show ?thesis
    using len by (auto simp: xs aligned_start_def intro!: nth_equalityI)
qed

lemma same_neighbours_distinct: "sorted ks \<Longrightarrow> \<not> same_neighbours ks \<Longrightarrow> distinct ks"
proof (induction ks rule: same_neighbours.induct)
  case (1 x y xs)
  then show ?case
    by (auto simp: order_antisym)
qed auto

lemma multi_run:
  assumes "replayMultiProductBacktest h c = Inr r"
    and "xs = map (\<lambda>p. (p, mb_candles p)) (sort_key mb_productId (mc_products c))"
  shows "\<exists>n s. multi_ok h c xs n s \<and> mbr_trades r = mr_trades s \<and>
    mbr_finalPositions r = map (\<lambda>p. (mb_productId p, mr_positions s (mb_productId p))) (sort_key mb_productId (mc_products c)) \<and>
    (\<forall>p\<in>set (mc_products c). length (mb_candles p) = n \<and> map eq_at (mbr_equityCurve r) = map Candle.start (mb_candles p))"
proof -
  let ?ps = "sort_key mb_productId (mc_products c)"
  have neighbours: "\<not> same_neighbours (map mb_productId ?ps)"
    using assms by (auto simp: replayMultiProductBacktest_def Let_def err_def split: if_split_asm)
  obtain ys where ys: "validated_series ?ps = Inr ys" and aligned: "aligned_series ys"
    using assms by (cases "validated_series ?ps")
      (auto simp: replayMultiProductBacktest_def Let_def err_def and_then_def split: if_split_asm)
  have xs: "ys = xs"
    using validated_series_spec [OF ys] by (simp add: assms(2))
  let ?n = "length (snd (hd xs))"
  obtain s where s: "multi_candles h c xs [0..<?n] (multi_start c) = Inr s" and r: "r = multi_result h c ?ps ?n s"
    using assms(1) aligned by (auto simp: replayMultiProductBacktest_def Let_def ys xs err_def ok_def
        elim!: and_thenE split: if_split_asm)
  have "distinct (map mb_productId ?ps)"
    using neighbours by (intro same_neighbours_distinct) simp_all
  then have "distinct_ids xs"
    by (simp add: assms(2) o_def)
  note ok = multi_ok_candles [OF s this]
  moreover have "length (mb_candles p) = ?n \<and> map eq_at (mr_equityCurve s) = map Candle.start (mb_candles p)"
    if "p \<in> set (mc_products c)" for p
  proof -
    have "(p, mb_candles p) \<in> set xs"
      using that by (simp add: assms(2))
    then show ?thesis
      using ok aligned_starts [OF aligned [unfolded xs]] by (simp add: multi_ok_def)
  qed
  ultimately show ?thesis
    by (intro exI [of _ ?n] exI [of _ s]) (simp add: r multi_result_def)
qed

end
