(* ===== verification/MultiReplayRun.thy ===== *)
theory MultiReplayRun
  imports ReplayRun MultiReplayProps
begin


























subsection \<open>The property\<close>



end
