(* ===== verification/LaunchGates.thy ===== *)
theory LaunchGates
  imports LivePolicy PlainMachine
begin

text \<open>
  The gates before a release: the launch in production (\<^verbatim>\<open>models/production-launch.ts\<close>,
  \<^verbatim>\<open>production-launch.machine.ts\<close>, \<^verbatim>\<open>production-launch.types.ts\<close>) and the quality gate of a
  commit (\<^verbatim>\<open>models/quality-gate.machine.ts\<close>, \<^verbatim>\<open>quality-gate.types.ts\<close>).
\<close>

subsection \<open>Evidence\<close>

datatype ProductionLaunchStage = Research | RiskStage | Engineering | Operations | Canary

datatype ProductionLaunchFailureReason =
  RESEARCH_SCOPE_MISMATCH | RESEARCH_EVIDENCE_INCOMPLETE | RESEARCH_OOS_FAILED
| RESEARCH_COST_MODEL_INCOMPLETE | RESEARCH_NOT_DEPLOYABLE
| RISK_PROTECTION_MISSING | RISK_ACCOUNT_NOT_RECONCILED | RISK_KILL_NOT_FLATTENING
| RISK_DAILY_LIMIT_INEFFECTIVE | RISK_FAILURE_NOT_CLOSED | RISK_TEST_COVERAGE_INCOMPLETE
| ENGINEERING_CI_NOT_GREEN | ENGINEERING_TESTS_UNSTABLE | ENGINEERING_SECURITY_AUDIT_FAILED
| ENGINEERING_SECRET_SCAN_FAILED | ENGINEERING_BRANCH_UNPROTECTED
| ENGINEERING_RELEASE_SHA_MISMATCH | ENGINEERING_EDGE_HARDENING_MISSING
| OPERATIONS_SCOPE_MISMATCH | OPERATIONS_EVIDENCE_STALE | OPERATIONS_OBSERVABILITY_MISSING
| OPERATIONS_ALERTING_MISSING | OPERATIONS_HEALTHCHECK_FAILED | OPERATIONS_RUNBOOK_MISSING
| OPERATIONS_ROLLBACK_UNVERIFIED | OPERATIONS_ROLLOUT_UNSAFE | OPERATIONS_SECRETS_UNVERIFIED
| CANARY_SCOPE_MISMATCH | CANARY_SHADOW_INSUFFICIENT | CANARY_SAMPLE_INSUFFICIENT
| CANARY_EXECUTION_INTEGRITY_FAILED | CANARY_SLIPPAGE_FAILED | CANARY_RISK_LIMIT_BREACHED
| CANARY_CONTROL_UNAVAILABLE | CANARY_OBSERVATION_INCOMPLETE

record ProductionLaunchScope =
  releaseSha :: string
  policyId :: string
  productIds :: "string list"
  evaluatedAt :: number

record ResearchProductEvidence =
  rp_productId :: string
  rp_cleanFoldCount :: number
  rp_profitableFoldCount :: number
  rp_medianNetReturn :: number
  rp_profitFactor :: number
  rp_expectedValuePerTrade :: number
  rp_maxDrawdown :: number
  rp_winRate :: number

datatype ResearchVerdict = VALIDATED | RESEARCH_ONLY | DECLASSIFIED

record ResearchCosts =
  feesIncluded :: bool
  spreadIncluded :: bool
  slippageIncluded :: bool
  executionLatencyIncluded :: bool

record ResearchEvidence =
  re_releaseSha :: string
  re_policyId :: string
  re_productIds :: "string list"
  re_verdict :: ResearchVerdict
  re_preRegistered :: bool
  re_noPostHocExclusions :: bool
  re_costs :: ResearchCosts
  re_products :: "ResearchProductEvidence list"

record RiskEvidence =
  exchangeProtectionConfirmed :: bool
  accountReconciledBeforeDecision :: bool
  accountExposureAggregated :: bool
  killCancelsOpenOrders :: bool
  killFlattensManagedPosition :: bool
  killReconcilesBeforeHalt :: bool
  dailyLossLimitEffective :: bool
  failuresCloseNewEntries :: bool
  lifecycleTestsComplete :: bool

record EngineeringEvidence =
  ee_releaseSha :: string
  ee_cleanCiPassed :: bool
  ee_unstableTestCount :: number
  ee_criticalVulnerabilityCount :: number
  ee_highVulnerabilityCount :: number
  ee_secretFindingCount :: number
  ee_branchProtected :: bool
  ee_requiredCiCheckConfigured :: bool
  ee_directPushBlocked :: bool
  ee_deploymentSha :: string
  ee_securityHeadersConfigured :: bool
  ee_authenticationRateLimitConfigured :: bool

record OperationsEvidence =
  oe_releaseSha :: string
  oe_deploymentSha :: string
  oe_collectedAt :: number
  oe_structuredTradingTelemetry :: bool
  oe_alertsConfigured :: bool
  oe_allHealthChecksPassed :: bool
  oe_incidentRunbookReady :: bool
  oe_onCallOwnerAssigned :: bool
  oe_rollbackVerified :: bool
  oe_deploysLiveDisabledFirst :: bool
  oe_singleProductRollout :: bool
  oe_rollbackThresholdsFrozen :: bool
  oe_productionSecretsVerified :: bool

record CanaryEvidence =
  ce_releaseSha :: string
  ce_policyId :: string
  ce_productId :: string
  ce_shadowCalendarDays :: number
  ce_closedTradeCount :: number
  ce_rareSignalProtocol :: bool
  ce_unresolvedOrderCount :: number
  ce_duplicateOrderCount :: number
  ce_unreconciledPositionCount :: number
  ce_p95SlippageBps :: number
  ce_slippageBudgetBps :: number
  ce_maxDrawdown :: number
  ce_dailyLossBreachCount :: number
  ce_exposureBreachCount :: number
  ce_approvedLossBudget :: bool
  ce_humanObserverAvailable :: bool
  ce_killSwitchPreflightPassed :: bool
  ce_observationHours :: number
  ce_rollbackTriggerCount :: number

text \<open>An assessment: \<open>None\<close> accepts, \<open>Some\<close> gives the reason of a refusal.\<close>

type_synonym ProductionLaunchAssessment = "ProductionLaunchFailureReason option"

subsection \<open>Assessments\<close>

definition sameUniqueStrings :: "string list \<Rightarrow> string list \<Rightarrow> bool" where
  "sameUniqueStrings left right \<longleftrightarrow>
     length left = length right \<and> distinct left \<and> distinct right \<and>
     list_all (\<lambda>x. x \<in> set right) left"

definition isNonNegativeInteger :: "number \<Rightarrow> bool" where
  "isNonNegativeInteger x \<longleftrightarrow> isSafeInteger x \<and> Fin 0 \<le> x"

definition isFiniteRate :: "number \<Rightarrow> bool" where
  "isFiniteRate x \<longleftrightarrow> isFinite x \<and> Fin 0 \<le> x \<and> x \<le> Fin 1"

definition validResearchProduct :: "ResearchProductEvidence \<Rightarrow> bool" where
  "validResearchProduct p \<longleftrightarrow>
     rp_productId p \<noteq> [] \<and> isNonNegativeInteger (rp_cleanFoldCount p) \<and>
     isNonNegativeInteger (rp_profitableFoldCount p) \<and>
     rp_profitableFoldCount p \<le> rp_cleanFoldCount p \<and> isFinite (rp_medianNetReturn p) \<and>
     isFinite (rp_profitFactor p) \<and> Fin 0 \<le> rp_profitFactor p \<and>
     isFinite (rp_expectedValuePerTrade p) \<and> isFiniteRate (rp_maxDrawdown p) \<and>
     isFiniteRate (rp_winRate p)"

definition is_release_sha :: "string \<Rightarrow> bool" where
  "is_release_sha s \<longleftrightarrow> length s = 40 \<and> list_all (\<lambda>c. c \<in> set ''0123456789abcdef'') s"

definition OPERATIONS_EVIDENCE_MAX_AGE_MS :: number where
  "OPERATIONS_EVIDENCE_MAX_AGE_MS = Fin 86400000"

definition LIVE_TRADING_POLICY_ID :: string where
  "LIVE_TRADING_POLICY_ID = ''CONFIDENCE_POWER_THIRD_2026_08''"

definition assessProductionLaunchScope :: "ProductionLaunchScope \<Rightarrow> ProductionLaunchAssessment" where
  "assessProductionLaunchScope s =
     (if is_release_sha (releaseSha s) \<and> policyId s = LIVE_TRADING_POLICY_ID \<and>
         sameUniqueStrings (productIds s) LIVE_TRADING_PRODUCTS \<and>
         isSafeInteger (evaluatedAt s) \<and> Fin 0 < evaluatedAt s
      then None else Some RESEARCH_SCOPE_MISMATCH)"

definition fails_out_of_sample :: "ResearchProductEvidence \<Rightarrow> bool" where
  "fails_out_of_sample p \<longleftrightarrow>
     rp_cleanFoldCount p < Fin 4 \<or> rp_profitableFoldCount p < Fin 3 \<or>
     rp_medianNetReturn p \<le> Fin 0 \<or> rp_profitFactor p \<le> Fin 1 \<or>
     rp_expectedValuePerTrade p \<le> Fin 0 \<or> fl (1 / 10) < rp_maxDrawdown p"

definition assessResearchEvidence :: "ProductionLaunchScope \<Rightarrow> ResearchEvidence
    \<Rightarrow> ProductionLaunchAssessment" where
  "assessResearchEvidence s e =
     (case assessProductionLaunchScope s of
        Some r \<Rightarrow> Some r
      | None \<Rightarrow>
          if re_releaseSha e \<noteq> releaseSha s \<or> re_policyId e \<noteq> policyId s \<or>
             \<not> sameUniqueStrings (re_productIds e) (productIds s) \<or>
             \<not> sameUniqueStrings (map rp_productId (re_products e)) (productIds s)
          then Some RESEARCH_SCOPE_MISMATCH
          else if re_verdict e \<noteq> VALIDATED then Some RESEARCH_NOT_DEPLOYABLE
          else if \<not> re_preRegistered e \<or> \<not> re_noPostHocExclusions e \<or>
             list_ex (\<lambda>p. \<not> validResearchProduct p) (re_products e)
          then Some RESEARCH_EVIDENCE_INCOMPLETE
          else if \<not> feesIncluded (re_costs e) \<or> \<not> spreadIncluded (re_costs e) \<or>
             \<not> slippageIncluded (re_costs e) \<or> \<not> executionLatencyIncluded (re_costs e)
          then Some RESEARCH_COST_MODEL_INCOMPLETE
          else if list_ex fails_out_of_sample (re_products e) then Some RESEARCH_OOS_FAILED
          else None)"

definition assessRiskEvidence :: "RiskEvidence \<Rightarrow> ProductionLaunchAssessment" where
  "assessRiskEvidence e =
     (if \<not> exchangeProtectionConfirmed e then Some RISK_PROTECTION_MISSING
      else if \<not> accountReconciledBeforeDecision e \<or> \<not> accountExposureAggregated e
      then Some RISK_ACCOUNT_NOT_RECONCILED
      else if \<not> killCancelsOpenOrders e \<or> \<not> killFlattensManagedPosition e \<or>
         \<not> killReconcilesBeforeHalt e
      then Some RISK_KILL_NOT_FLATTENING
      else if \<not> dailyLossLimitEffective e then Some RISK_DAILY_LIMIT_INEFFECTIVE
      else if \<not> failuresCloseNewEntries e then Some RISK_FAILURE_NOT_CLOSED
      else if lifecycleTestsComplete e then None else Some RISK_TEST_COVERAGE_INCOMPLETE)"

definition assessEngineeringEvidence :: "ProductionLaunchScope \<Rightarrow> EngineeringEvidence
    \<Rightarrow> ProductionLaunchAssessment" where
  "assessEngineeringEvidence s e =
     (if ee_releaseSha e \<noteq> releaseSha s \<or> ee_deploymentSha e \<noteq> releaseSha s
      then Some ENGINEERING_RELEASE_SHA_MISMATCH
      else if \<not> ee_cleanCiPassed e then Some ENGINEERING_CI_NOT_GREEN
      else if \<not> isNonNegativeInteger (ee_unstableTestCount e) \<or> Fin 0 < ee_unstableTestCount e
      then Some ENGINEERING_TESTS_UNSTABLE
      else if \<not> isNonNegativeInteger (ee_criticalVulnerabilityCount e) \<or>
         \<not> isNonNegativeInteger (ee_highVulnerabilityCount e) \<or>
         Fin 0 < ee_criticalVulnerabilityCount e \<or> Fin 0 < ee_highVulnerabilityCount e
      then Some ENGINEERING_SECURITY_AUDIT_FAILED
      else if \<not> isNonNegativeInteger (ee_secretFindingCount e) \<or> Fin 0 < ee_secretFindingCount e
      then Some ENGINEERING_SECRET_SCAN_FAILED
      else if \<not> ee_branchProtected e \<or> \<not> ee_requiredCiCheckConfigured e \<or> \<not> ee_directPushBlocked e
      then Some ENGINEERING_BRANCH_UNPROTECTED
      else if \<not> ee_securityHeadersConfigured e \<or> \<not> ee_authenticationRateLimitConfigured e
      then Some ENGINEERING_EDGE_HARDENING_MISSING
      else None)"

definition assessOperationsEvidence :: "ProductionLaunchScope \<Rightarrow> OperationsEvidence
    \<Rightarrow> ProductionLaunchAssessment" where
  "assessOperationsEvidence s e =
     (if assessProductionLaunchScope s \<noteq> None \<or> oe_releaseSha e \<noteq> releaseSha s \<or>
         oe_deploymentSha e \<noteq> releaseSha s
      then Some OPERATIONS_SCOPE_MISMATCH
      else if \<not> isSafeInteger (oe_collectedAt e) \<or> oe_collectedAt e \<le> Fin 0 \<or>
         evaluatedAt s < oe_collectedAt e \<or>
         OPERATIONS_EVIDENCE_MAX_AGE_MS < evaluatedAt s - oe_collectedAt e
      then Some OPERATIONS_EVIDENCE_STALE
      else if \<not> oe_structuredTradingTelemetry e then Some OPERATIONS_OBSERVABILITY_MISSING
      else if \<not> oe_alertsConfigured e then Some OPERATIONS_ALERTING_MISSING
      else if \<not> oe_allHealthChecksPassed e then Some OPERATIONS_HEALTHCHECK_FAILED
      else if \<not> oe_incidentRunbookReady e \<or> \<not> oe_onCallOwnerAssigned e
      then Some OPERATIONS_RUNBOOK_MISSING
      else if \<not> oe_rollbackVerified e then Some OPERATIONS_ROLLBACK_UNVERIFIED
      else if \<not> oe_deploysLiveDisabledFirst e \<or> \<not> oe_singleProductRollout e \<or>
         \<not> oe_rollbackThresholdsFrozen e
      then Some OPERATIONS_ROLLOUT_UNSAFE
      else if oe_productionSecretsVerified e then None else Some OPERATIONS_SECRETS_UNVERIFIED)"

definition assessCanaryEvidence :: "ProductionLaunchScope \<Rightarrow> CanaryEvidence
    \<Rightarrow> ProductionLaunchAssessment" where
  "assessCanaryEvidence s e =
     (if ce_releaseSha e \<noteq> releaseSha s \<or> ce_policyId e \<noteq> policyId s \<or>
         ce_productId e \<notin> set (productIds s)
      then Some CANARY_SCOPE_MISMATCH
      else if \<not> isNonNegativeInteger (ce_shadowCalendarDays e) \<or> ce_shadowCalendarDays e < Fin 30
      then Some CANARY_SHADOW_INSUFFICIENT
      else if \<not> isNonNegativeInteger (ce_closedTradeCount e) \<or>
         (ce_closedTradeCount e < Fin 30 \<and>
          (\<not> ce_rareSignalProtocol e \<or> ce_shadowCalendarDays e < Fin 90))
      then Some CANARY_SAMPLE_INSUFFICIENT
      else if \<not> isNonNegativeInteger (ce_unresolvedOrderCount e) \<or>
         \<not> isNonNegativeInteger (ce_duplicateOrderCount e) \<or>
         \<not> isNonNegativeInteger (ce_unreconciledPositionCount e) \<or>
         Fin 0 < ce_unresolvedOrderCount e \<or> Fin 0 < ce_duplicateOrderCount e \<or>
         Fin 0 < ce_unreconciledPositionCount e
      then Some CANARY_EXECUTION_INTEGRITY_FAILED
      else if \<not> isFinite (ce_p95SlippageBps e) \<or> \<not> isFinite (ce_slippageBudgetBps e) \<or>
         ce_p95SlippageBps e < Fin 0 \<or> ce_slippageBudgetBps e < Fin 0 \<or>
         ce_slippageBudgetBps e < ce_p95SlippageBps e
      then Some CANARY_SLIPPAGE_FAILED
      else if \<not> isFiniteRate (ce_maxDrawdown e) \<or> fl (1 / 10) < ce_maxDrawdown e \<or>
         \<not> isNonNegativeInteger (ce_dailyLossBreachCount e) \<or>
         \<not> isNonNegativeInteger (ce_exposureBreachCount e) \<or>
         Fin 0 < ce_dailyLossBreachCount e \<or> Fin 0 < ce_exposureBreachCount e
      then Some CANARY_RISK_LIMIT_BREACHED
      else if \<not> ce_approvedLossBudget e \<or> \<not> ce_humanObserverAvailable e \<or>
         \<not> ce_killSwitchPreflightPassed e
      then Some CANARY_CONTROL_UNAVAILABLE
      else if \<not> isFinite (ce_observationHours e) \<or> ce_observationHours e < Fin 48 \<or>
         \<not> isNonNegativeInteger (ce_rollbackTriggerCount e) \<or> Fin 0 < ce_rollbackTriggerCount e
      then Some CANARY_OBSERVATION_INCOMPLETE
      else None)"

subsection \<open>The launch\<close>

record ProductionLaunchContext =
  launch_scope :: ProductionLaunchScope
  passedStages :: "ProductionLaunchStage list"
  failedStage :: "ProductionLaunchStage option"
  reasonCode :: "ProductionLaunchFailureReason option"

datatype ProductionLaunchEvent =
  LAUNCH_REQUESTED
| RESEARCH_EVIDENCE_SUBMITTED ResearchEvidence
| RISK_EVIDENCE_SUBMITTED RiskEvidence
| ENGINEERING_EVIDENCE_SUBMITTED EngineeringEvidence
| OPERATIONS_EVIDENCE_SUBMITTED OperationsEvidence
| CANARY_EVIDENCE_SUBMITTED CanaryEvidence
| LAUNCH_CANCEL_REQUESTED
| LAUNCH_RETRY_REQUESTED
| LAUNCH_RESET

type_synonym launch_guard = "ProductionLaunchContext \<Rightarrow> ProductionLaunchEvent \<Rightarrow> bool"
type_synonym launch_action =
  "ProductionLaunchContext \<Rightarrow> ProductionLaunchEvent \<Rightarrow> ProductionLaunchContext"

definition launchScopeAccepted :: launch_guard where
  "launchScopeAccepted c e \<longleftrightarrow> assessProductionLaunchScope (launch_scope c) = None"

definition researchAccepted :: launch_guard where
  "researchAccepted c e \<longleftrightarrow> (case e of
     RESEARCH_EVIDENCE_SUBMITTED x \<Rightarrow> assessResearchEvidence (launch_scope c) x = None | _ \<Rightarrow> False)"

definition riskAccepted :: launch_guard where
  "riskAccepted c e \<longleftrightarrow> (case e of
     RISK_EVIDENCE_SUBMITTED x \<Rightarrow> assessRiskEvidence x = None | _ \<Rightarrow> False)"

definition engineeringAccepted :: launch_guard where
  "engineeringAccepted c e \<longleftrightarrow> (case e of
     ENGINEERING_EVIDENCE_SUBMITTED x \<Rightarrow> assessEngineeringEvidence (launch_scope c) x = None | _ \<Rightarrow> False)"

definition operationsAccepted :: launch_guard where
  "operationsAccepted c e \<longleftrightarrow> (case e of
     OPERATIONS_EVIDENCE_SUBMITTED x \<Rightarrow> assessOperationsEvidence (launch_scope c) x = None | _ \<Rightarrow> False)"

definition canaryAccepted :: launch_guard where
  "canaryAccepted c e \<longleftrightarrow> (case e of
     CANARY_EVIDENCE_SUBMITTED x \<Rightarrow> assessCanaryEvidence (launch_scope c) x = None | _ \<Rightarrow> False)"

definition appendStage :: "ProductionLaunchStage \<Rightarrow> launch_action" where
  "appendStage stage c e = c\<lparr>passedStages := passedStages c @ [stage]\<rparr>"

text \<open>What a refused assessment records; an accepted one records nothing.\<close>

definition reject_stage :: "ProductionLaunchStage \<Rightarrow> ProductionLaunchAssessment
    \<Rightarrow> ProductionLaunchContext \<Rightarrow> ProductionLaunchContext" where
  "reject_stage stage r c =
     (case r of None \<Rightarrow> c | Some x \<Rightarrow> c\<lparr>failedStage := Some stage, reasonCode := Some x\<rparr>)"

definition rejectResearch :: launch_action where
  "rejectResearch c e = (case e of
     RESEARCH_EVIDENCE_SUBMITTED x \<Rightarrow> reject_stage Research (assessResearchEvidence (launch_scope c) x) c | _ \<Rightarrow> c)"

definition rejectRisk :: launch_action where
  "rejectRisk c e = (case e of
     RISK_EVIDENCE_SUBMITTED x \<Rightarrow> reject_stage RiskStage (assessRiskEvidence x) c | _ \<Rightarrow> c)"

definition rejectEngineering :: launch_action where
  "rejectEngineering c e = (case e of
     ENGINEERING_EVIDENCE_SUBMITTED x \<Rightarrow>
       reject_stage Engineering (assessEngineeringEvidence (launch_scope c) x) c | _ \<Rightarrow> c)"

definition rejectOperations :: launch_action where
  "rejectOperations c e = (case e of
     OPERATIONS_EVIDENCE_SUBMITTED x \<Rightarrow>
       reject_stage Operations (assessOperationsEvidence (launch_scope c) x) c | _ \<Rightarrow> c)"

definition rejectCanary :: launch_action where
  "rejectCanary c e = (case e of
     CANARY_EVIDENCE_SUBMITTED x \<Rightarrow> reject_stage Canary (assessCanaryEvidence (launch_scope c) x) c | _ \<Rightarrow> c)"

definition clearAssessment :: launch_action where
  "clearAssessment c e = c\<lparr>passedStages := [], failedStage := None, reasonCode := None\<rparr>"

definition rejectInvalidScope :: launch_action where
  "rejectInvalidScope c e =
     c\<lparr>passedStages := [], failedStage := Some Research, reasonCode := Some RESEARCH_SCOPE_MISMATCH\<rparr>"

datatype launchState =
  LaunchIdle | AssessingResearch | AssessingRisk | AssessingEngineering | AssessingOperations
| AssessingCanary | LaunchRejected | LaunchApproved | LaunchCancelled

type_synonym launch_rows =
  "ProductionLaunchEvent \<Rightarrow> (launchState, ProductionLaunchEvent, ProductionLaunchContext) transition list"

definition launchIdle_rows :: launch_rows where
  "launchIdle_rows e = (case e of
     LAUNCH_REQUESTED \<Rightarrow> [goto_if launchScopeAccepted AssessingResearch [], goto LaunchRejected [rejectInvalidScope]]
   | _ \<Rightarrow> [])"

definition assessingResearch_rows :: launch_rows where
  "assessingResearch_rows e = (case e of
     LAUNCH_CANCEL_REQUESTED \<Rightarrow> [goto LaunchCancelled []]
   | RESEARCH_EVIDENCE_SUBMITTED _ \<Rightarrow>
       [goto_if researchAccepted AssessingRisk [appendStage Research], goto LaunchRejected [rejectResearch]]
   | _ \<Rightarrow> [])"

definition assessingRisk_rows :: launch_rows where
  "assessingRisk_rows e = (case e of
     LAUNCH_CANCEL_REQUESTED \<Rightarrow> [goto LaunchCancelled []]
   | RISK_EVIDENCE_SUBMITTED _ \<Rightarrow>
       [goto_if riskAccepted AssessingEngineering [appendStage RiskStage], goto LaunchRejected [rejectRisk]]
   | _ \<Rightarrow> [])"

definition assessingEngineering_rows :: launch_rows where
  "assessingEngineering_rows e = (case e of
     LAUNCH_CANCEL_REQUESTED \<Rightarrow> [goto LaunchCancelled []]
   | ENGINEERING_EVIDENCE_SUBMITTED _ \<Rightarrow>
       [goto_if engineeringAccepted AssessingOperations [appendStage Engineering],
        goto LaunchRejected [rejectEngineering]]
   | _ \<Rightarrow> [])"

definition assessingOperations_rows :: launch_rows where
  "assessingOperations_rows e = (case e of
     LAUNCH_CANCEL_REQUESTED \<Rightarrow> [goto LaunchCancelled []]
   | OPERATIONS_EVIDENCE_SUBMITTED _ \<Rightarrow>
       [goto_if operationsAccepted AssessingCanary [appendStage Operations],
        goto LaunchRejected [rejectOperations]]
   | _ \<Rightarrow> [])"

definition assessingCanary_rows :: launch_rows where
  "assessingCanary_rows e = (case e of
     LAUNCH_CANCEL_REQUESTED \<Rightarrow> [goto LaunchCancelled []]
   | CANARY_EVIDENCE_SUBMITTED _ \<Rightarrow>
       [goto_if canaryAccepted LaunchApproved [appendStage Canary], goto LaunchRejected [rejectCanary]]
   | _ \<Rightarrow> [])"

definition launchRejected_rows :: launch_rows where
  "launchRejected_rows e = (case e of
     LAUNCH_RETRY_REQUESTED \<Rightarrow> [goto AssessingResearch [clearAssessment]]
   | LAUNCH_RESET \<Rightarrow> [goto LaunchIdle [clearAssessment]]
   | _ \<Rightarrow> [])"

primrec launch_on :: "launchState \<Rightarrow> launch_rows" where
  "launch_on LaunchIdle = launchIdle_rows"
| "launch_on AssessingResearch = assessingResearch_rows"
| "launch_on AssessingRisk = assessingRisk_rows"
| "launch_on AssessingEngineering = assessingEngineering_rows"
| "launch_on AssessingOperations = assessingOperations_rows"
| "launch_on AssessingCanary = assessingCanary_rows"
| "launch_on LaunchRejected = launchRejected_rows"
| "launch_on LaunchApproved = (\<lambda>_. [])"
| "launch_on LaunchCancelled = (\<lambda>_. [])"

definition productionLaunchMachine ::
    "(launchState, ProductionLaunchEvent, ProductionLaunchContext) machine" where
  "productionLaunchMachine =
     \<lparr>m_initial = LaunchIdle, m_on = launch_on, m_outer = (\<lambda>_ _. []), m_always = (\<lambda>_. []),
      m_entry = (\<lambda>_. []), m_final = (\<lambda>st. st \<in> {LaunchApproved, LaunchCancelled})\<rparr>"

definition launch_context :: "ProductionLaunchScope \<Rightarrow> ProductionLaunchContext" where
  "launch_context s = \<lparr>launch_scope = s, passedStages = [], failedStage = None, reasonCode = None\<rparr>"

lemma launch_machine_simps [simp]:
  "m_initial productionLaunchMachine = LaunchIdle" "m_on productionLaunchMachine = launch_on"
  "m_outer productionLaunchMachine = (\<lambda>_ _. [])" "m_always productionLaunchMachine = (\<lambda>_. [])"
  "m_entry productionLaunchMachine = (\<lambda>_. [])"
  "m_final productionLaunchMachine st \<longleftrightarrow> st \<in> {LaunchApproved, LaunchCancelled}"
  by (simp_all add: productionLaunchMachine_def)

interpretation launch: flat_machine productionLaunchMachine
  by unfold_locales simp_all

subsection \<open>The quality gate\<close>

datatype QualityGateSource = PRE_COMMIT | PRE_PUSH | CI

datatype QualityGateStage =
  STAGE_ENVIRONMENT | STAGE_DEPENDENCY_AUDIT | STAGE_SECRET_SCAN | STAGE_CHECK | STAGE_TEST
| STAGE_BUILD | STAGE_ARTIFACT_TEST

datatype QualityGateErrorCode =
  ENVIRONMENT_INVALID | DEPENDENCY_AUDIT_FAILED_CODE | SECRET_SCAN_FAILED_CODE | CHECK_FAILED_CODE
| TEST_FAILED | BUILD_FAILED_CODE | ARTIFACT_TEST_FAILED

type_synonym QualityGateError = "QualityGateErrorCode \<times> QualityGateStage"

record QualityGateContext =
  gate_source :: "QualityGateSource option"
  gate_lastError :: "QualityGateError option"

datatype QualityGateEvent =
  GATE_REQUESTED QualityGateSource
| ENVIRONMENT_VALIDATED | ENVIRONMENT_FAILED
| DEPENDENCY_AUDIT_PASSED | DEPENDENCY_AUDIT_FAILED
| SECRET_SCAN_PASSED | SECRET_SCAN_FAILED
| CHECK_PASSED | CHECK_FAILED
| TESTS_PASSED | TESTS_FAILED
| BUILD_PASSED | BUILD_FAILED
| ARTIFACT_TESTS_PASSED | ARTIFACT_TESTS_FAILED
| GATE_CANCEL_REQUESTED | GATE_RETRY_REQUESTED | GATE_RESET

definition errorFor :: "QualityGateEvent \<Rightarrow> QualityGateError option" where
  "errorFor e = (case e of
     ENVIRONMENT_FAILED \<Rightarrow> Some (ENVIRONMENT_INVALID, STAGE_ENVIRONMENT)
   | DEPENDENCY_AUDIT_FAILED \<Rightarrow> Some (DEPENDENCY_AUDIT_FAILED_CODE, STAGE_DEPENDENCY_AUDIT)
   | SECRET_SCAN_FAILED \<Rightarrow> Some (SECRET_SCAN_FAILED_CODE, STAGE_SECRET_SCAN)
   | CHECK_FAILED \<Rightarrow> Some (CHECK_FAILED_CODE, STAGE_CHECK)
   | TESTS_FAILED \<Rightarrow> Some (TEST_FAILED, STAGE_TEST)
   | BUILD_FAILED \<Rightarrow> Some (BUILD_FAILED_CODE, STAGE_BUILD)
   | ARTIFACT_TESTS_FAILED \<Rightarrow> Some (ARTIFACT_TEST_FAILED, STAGE_ARTIFACT_TEST)
   | _ \<Rightarrow> None)"

definition isPreCommit :: "QualityGateContext \<Rightarrow> QualityGateEvent \<Rightarrow> bool" where
  "isPreCommit c e \<longleftrightarrow> gate_source c = Some PRE_COMMIT"

definition gate_initialize :: "QualityGateContext \<Rightarrow> QualityGateEvent \<Rightarrow> QualityGateContext" where
  "gate_initialize c e = (case e of
     GATE_REQUESTED s \<Rightarrow> c\<lparr>gate_source := Some s, gate_lastError := None\<rparr> | _ \<Rightarrow> c)"

definition clearError :: "QualityGateContext \<Rightarrow> QualityGateEvent \<Rightarrow> QualityGateContext" where
  "clearError c e = c\<lparr>gate_lastError := None\<rparr>"

definition gate_recordError :: "QualityGateContext \<Rightarrow> QualityGateEvent \<Rightarrow> QualityGateContext" where
  "gate_recordError c e = c\<lparr>gate_lastError := errorFor e\<rparr>"

definition gate_reset :: "QualityGateContext \<Rightarrow> QualityGateEvent \<Rightarrow> QualityGateContext" where
  "gate_reset c e = c\<lparr>gate_source := None, gate_lastError := None\<rparr>"

datatype gateState =
  GateIdle | ValidatingEnvironment | AuditingDependencies | ScanningSecrets | Checking | Testing
| Building | TestingArtifact | GateFailed | GatePassed | GateCancelled

type_synonym gate_rows =
  "QualityGateEvent \<Rightarrow> (gateState, QualityGateEvent, QualityGateContext) transition list"

definition gateIdle_rows :: gate_rows where
  "gateIdle_rows e = (case e of
     GATE_REQUESTED _ \<Rightarrow> [goto ValidatingEnvironment [gate_initialize]] | _ \<Rightarrow> [])"

definition validatingEnvironment_rows :: gate_rows where
  "validatingEnvironment_rows e = (case e of
     GATE_CANCEL_REQUESTED \<Rightarrow> [goto GateCancelled []]
   | ENVIRONMENT_VALIDATED \<Rightarrow> [goto_if isPreCommit Checking [], goto AuditingDependencies []]
   | ENVIRONMENT_FAILED \<Rightarrow> [goto GateFailed [gate_recordError]]
   | _ \<Rightarrow> [])"

definition auditingDependencies_rows :: gate_rows where
  "auditingDependencies_rows e = (case e of
     GATE_CANCEL_REQUESTED \<Rightarrow> [goto GateCancelled []]
   | DEPENDENCY_AUDIT_PASSED \<Rightarrow> [goto ScanningSecrets []]
   | DEPENDENCY_AUDIT_FAILED \<Rightarrow> [goto GateFailed [gate_recordError]]
   | _ \<Rightarrow> [])"

definition scanningSecrets_rows :: gate_rows where
  "scanningSecrets_rows e = (case e of
     GATE_CANCEL_REQUESTED \<Rightarrow> [goto GateCancelled []]
   | SECRET_SCAN_PASSED \<Rightarrow> [goto Checking []]
   | SECRET_SCAN_FAILED \<Rightarrow> [goto GateFailed [gate_recordError]]
   | _ \<Rightarrow> [])"

definition checking_rows :: gate_rows where
  "checking_rows e = (case e of
     GATE_CANCEL_REQUESTED \<Rightarrow> [goto GateCancelled []]
   | CHECK_PASSED \<Rightarrow> [goto_if isPreCommit GatePassed [], goto Testing []]
   | CHECK_FAILED \<Rightarrow> [goto GateFailed [gate_recordError]]
   | _ \<Rightarrow> [])"

definition testing_rows :: gate_rows where
  "testing_rows e = (case e of
     GATE_CANCEL_REQUESTED \<Rightarrow> [goto GateCancelled []]
   | TESTS_PASSED \<Rightarrow> [goto Building []]
   | TESTS_FAILED \<Rightarrow> [goto GateFailed [gate_recordError]]
   | _ \<Rightarrow> [])"

definition building_rows :: gate_rows where
  "building_rows e = (case e of
     GATE_CANCEL_REQUESTED \<Rightarrow> [goto GateCancelled []]
   | BUILD_PASSED \<Rightarrow> [goto TestingArtifact []]
   | BUILD_FAILED \<Rightarrow> [goto GateFailed [gate_recordError]]
   | _ \<Rightarrow> [])"

definition testingArtifact_rows :: gate_rows where
  "testingArtifact_rows e = (case e of
     GATE_CANCEL_REQUESTED \<Rightarrow> [goto GateCancelled []]
   | ARTIFACT_TESTS_PASSED \<Rightarrow> [goto GatePassed []]
   | ARTIFACT_TESTS_FAILED \<Rightarrow> [goto GateFailed [gate_recordError]]
   | _ \<Rightarrow> [])"

definition gateFailed_rows :: gate_rows where
  "gateFailed_rows e = (case e of
     GATE_RETRY_REQUESTED \<Rightarrow> [goto ValidatingEnvironment [clearError]]
   | GATE_RESET \<Rightarrow> [goto GateIdle [gate_reset]]
   | _ \<Rightarrow> [])"

primrec gate_on :: "gateState \<Rightarrow> gate_rows" where
  "gate_on GateIdle = gateIdle_rows"
| "gate_on ValidatingEnvironment = validatingEnvironment_rows"
| "gate_on AuditingDependencies = auditingDependencies_rows"
| "gate_on ScanningSecrets = scanningSecrets_rows"
| "gate_on Checking = checking_rows"
| "gate_on Testing = testing_rows"
| "gate_on Building = building_rows"
| "gate_on TestingArtifact = testingArtifact_rows"
| "gate_on GateFailed = gateFailed_rows"
| "gate_on GatePassed = (\<lambda>_. [])"
| "gate_on GateCancelled = (\<lambda>_. [])"

definition qualityGateMachine :: "(gateState, QualityGateEvent, QualityGateContext) machine" where
  "qualityGateMachine =
     \<lparr>m_initial = GateIdle, m_on = gate_on, m_outer = (\<lambda>_ _. []), m_always = (\<lambda>_. []),
      m_entry = (\<lambda>_. []), m_final = (\<lambda>st. st \<in> {GatePassed, GateCancelled})\<rparr>"

definition gate_context :: QualityGateContext where
  "gate_context = \<lparr>gate_source = None, gate_lastError = None\<rparr>"

lemma gate_machine_simps [simp]:
  "m_initial qualityGateMachine = GateIdle" "m_on qualityGateMachine = gate_on"
  "m_outer qualityGateMachine = (\<lambda>_ _. [])" "m_always qualityGateMachine = (\<lambda>_. [])"
  "m_entry qualityGateMachine = (\<lambda>_. [])"
  "m_final qualityGateMachine st \<longleftrightarrow> st \<in> {GatePassed, GateCancelled}"
  by (simp_all add: qualityGateMachine_def)

interpretation gate: flat_machine qualityGateMachine
  by unfold_locales simp_all

end
