(* ===== verification/LaunchGatesProps.thy ===== *)
theory LaunchGatesProps
  imports LaunchGates "HOL-Library.Sublist"
begin

text \<open>
  A release is approved, and a commit passes, only after every gate, in order.
\<close>

abbreviation launch_send where "launch_send \<equiv> sc_send productionLaunchMachine"
abbreviation gate_send where "gate_send \<equiv> sc_send qualityGateMachine"

lemmas launch_rows_eval =
  launch_machine_simps launch_on.simps launchIdle_rows_def assessingResearch_rows_def assessingRisk_rows_def
  assessingEngineering_rows_def assessingOperations_rows_def assessingCanary_rows_def launchRejected_rows_def
  ProductionLaunchEvent.case append_Nil2 find.simps if_True transition.sel option.inject option.distinct

lemmas launch_effects =
  row_effect_def transition.sel option.case foldl.simps appendStage_def rejectResearch_def rejectRisk_def
  rejectEngineering_def rejectOperations_def rejectCanary_def clearAssessment_def rejectInvalidScope_def reject_stage_def

lemmas launch_guards =
  launchScopeAccepted_def researchAccepted_def riskAccepted_def engineeringAccepted_def operationsAccepted_def
  canaryAccepted_def

subsection \<open>The launch\<close>

text \<open>The evidence of a stage that its assessment accepts.\<close>

definition accepts :: "ProductionLaunchScope \<Rightarrow> ProductionLaunchEvent \<Rightarrow> ProductionLaunchStage \<Rightarrow> bool" where
  "accepts s e stage \<longleftrightarrow>
     (case e of
        RESEARCH_EVIDENCE_SUBMITTED x \<Rightarrow> stage = Research \<and> assessResearchEvidence s x = None
      | RISK_EVIDENCE_SUBMITTED x \<Rightarrow> stage = RiskStage \<and> assessRiskEvidence x = None
      | ENGINEERING_EVIDENCE_SUBMITTED x \<Rightarrow> stage = Engineering \<and> assessEngineeringEvidence s x = None
      | OPERATIONS_EVIDENCE_SUBMITTED x \<Rightarrow> stage = Operations \<and> assessOperationsEvidence s x = None
      | CANARY_EVIDENCE_SUBMITTED x \<Rightarrow> stage = Canary \<and> assessCanaryEvidence s x = None
      | _ \<Rightarrow> False)"

fun stages_before :: "launchState \<Rightarrow> ProductionLaunchStage list option" where
  "stages_before LaunchIdle = Some []"
| "stages_before AssessingResearch = Some []"
| "stages_before AssessingRisk = Some [Research]"
| "stages_before AssessingEngineering = Some [Research, RiskStage]"
| "stages_before AssessingOperations = Some [Research, RiskStage, Engineering]"
| "stages_before AssessingCanary = Some [Research, RiskStage, Engineering, Operations]"
| "stages_before LaunchApproved = Some [Research, RiskStage, Engineering, Operations, Canary]"
| "stages_before _ = None"

definition launch_ok :: "ProductionLaunchScope \<Rightarrow> ProductionLaunchEvent list
    \<Rightarrow> (launchState, ProductionLaunchContext) snapshot \<Rightarrow> bool" where
  "launch_ok s es w \<longleftrightarrow>
     launch_scope (snd w) = s \<and>
     (\<forall>stages. stages_before (fst w) = Some stages \<longrightarrow>
        passedStages (snd w) = stages \<and>
        (\<exists>xs. subseq xs es \<and> list_all2 (accepts s) xs stages))"

lemma accepted_snoc:
  "\<exists>xs. subseq xs es \<and> list_all2 P xs stages \<Longrightarrow> P e stage \<Longrightarrow>
     \<exists>xs. subseq xs (es @ [e]) \<and> list_all2 P xs (stages @ [stage])"
proof (elim exE conjE)
  fix xs
  assume "subseq xs es" "list_all2 P xs stages" "P e stage"
  then have "subseq (xs @ [e]) (es @ [e])" "list_all2 P (xs @ [e]) (stages @ [stage])"
    by (simp_all add: list_all2_appendI)
  then show ?thesis
    by blast
qed

text \<open>
  What one event does: it leaves the assessments, or goes on with the same stages, or starts
  them again, or adds the stage whose evidence it carries.
\<close>

definition launch_move where
  "launch_move st c e w \<longleftrightarrow>
     launch_scope (snd w) = launch_scope c \<and>
     (stages_before (fst w) = None \<or>
      stages_before (fst w) = stages_before st \<and> passedStages (snd w) = passedStages c \<or>
      stages_before (fst w) = Some [] \<and> passedStages (snd w) = [] \<or>
      (\<exists>pre stage. stages_before st = Some pre \<and> stages_before (fst w) = Some (pre @ [stage]) \<and>
         passedStages (snd w) = passedStages c @ [stage] \<and> accepts (launch_scope c) e stage))"

lemma launch_move_send: "launch_move st c e (launch_send (st, c) e)"
  by (rule launch.send_rule, simp add: launch_move_def, (cases st; cases e),
      simp_all only: launch_rows_eval, (safe elim!: pick_rowE),
      simp_all add: launch_effects launch_guards launch_move_def accepts_def reject_stage_def split: option.split)

lemma launch_ok_step:
  assumes ok: "launch_ok s es (st, c)"
  shows "launch_ok s (es @ [e]) (launch_send (st, c) e)"
proof -
  have keep: "\<exists>xs. subseq xs (es @ [e]) \<and> list_all2 (accepts s) xs stages"
    if "stages_before st = Some stages" for stages
    using that ok by (auto simp: launch_ok_def intro: list_emb_prefix)
  have none: "\<exists>xs. subseq xs (es @ [e]) \<and> list_all2 (accepts s) xs []"
    by (intro exI [of _ "[]"]) simp
  have scope: "launch_scope c = s"
    using ok by (simp add: launch_ok_def)
  from launch_move_send [of st c e] show ?thesis
    unfolding launch_move_def
  proof (elim conjE disjE exE)
    fix pre stage
    assume "stages_before st = Some pre" "accepts (launch_scope c) e stage"
      "stages_before (fst (launch_send (st, c) e)) = Some (pre @ [stage])"
      "passedStages (snd (launch_send (st, c) e)) = passedStages c @ [stage]"
      "launch_scope (snd (launch_send (st, c) e)) = launch_scope c"
    then show ?thesis
      using ok accepted_snoc [of es "accepts s" pre e stage] by (simp add: launch_ok_def scope)
  qed (use ok keep none in \<open>simp_all add: launch_ok_def\<close>)
qed

lemma launch_ok_play: "launch_ok s es (play launch_send (sc_start productionLaunchMachine (launch_context s)) es)"
proof (rule play_trace)
  show "launch_ok s [] (sc_start productionLaunchMachine (launch_context s))"
    by (simp add: launch.boot launch_ok_def launch_context_def)
next
  fix es e
  assume "launch_ok s es (play launch_send (sc_start productionLaunchMachine (launch_context s)) es)"
  then show "launch_ok s (es @ [e])
      (launch_send (play launch_send (sc_start productionLaunchMachine (launch_context s)) es) e)"
    by (cases "play launch_send (sc_start productionLaunchMachine (launch_context s)) es") (simp add: launch_ok_step)
qed

lemma research_scope: "assessResearchEvidence s x = None \<Longrightarrow> assessProductionLaunchScope s = None"
  by (simp add: assessResearchEvidence_def split: option.split_asm)

text \<open>C34: No launch without every gate.  When the launch machine reaches its approved state, its
  scope is valid and the events it has received contain, in this order, an accepted evidence of
  research, of risk, of engineering, of operations and of a canary, all assessed against the scope
  the machine was started with; the five stages are those the context lists.\<close>

theorem launch_passes_every_gate:
  assumes "xstate_runtime productionLaunchMachine init send"
    and "fst (play send (init (launch_context s)) es) = LaunchApproved"
  shows "assessProductionLaunchScope s = None \<and>
    passedStages (snd (play send (init (launch_context s)) es)) = [Research, RiskStage, Engineering, Operations, Canary] \<and>
    (\<exists>r k g p c. subseq [RESEARCH_EVIDENCE_SUBMITTED r, RISK_EVIDENCE_SUBMITTED k, ENGINEERING_EVIDENCE_SUBMITTED g,
        OPERATIONS_EVIDENCE_SUBMITTED p, CANARY_EVIDENCE_SUBMITTED c] es \<and>
      assessResearchEvidence s r = None \<and> assessRiskEvidence k = None \<and> assessEngineeringEvidence s g = None \<and>
      assessOperationsEvidence s p = None \<and> assessCanaryEvidence s c = None)"
proof -
  have run: "init = sc_start productionLaunchMachine" "send = launch_send"
    using assms(1) by (simp_all add: launch.runtime_iff)
  obtain xs where xs: "subseq xs es" "list_all2 (accepts s) xs [Research, RiskStage, Engineering, Operations, Canary]"
    and passed: "passedStages (snd (play send (init (launch_context s)) es)) =
      [Research, RiskStage, Engineering, Operations, Canary]"
    using launch_ok_play [of s es] assms(2) unfolding run by (auto simp: launch_ok_def)
  obtain a1 a2 a3 a4 a5 where list: "xs = [a1, a2, a3, a4, a5]" and "accepts s a1 Research" "accepts s a2 RiskStage"
      "accepts s a3 Engineering" "accepts s a4 Operations" "accepts s a5 Canary"
    using xs(2) by (auto simp: list_all2_Cons2)
  then obtain r k g p c where "a1 = RESEARCH_EVIDENCE_SUBMITTED r" "a2 = RISK_EVIDENCE_SUBMITTED k"
      "a3 = ENGINEERING_EVIDENCE_SUBMITTED g" "a4 = OPERATIONS_EVIDENCE_SUBMITTED p" "a5 = CANARY_EVIDENCE_SUBMITTED c"
      "assessResearchEvidence s r = None" "assessRiskEvidence k = None" "assessEngineeringEvidence s g = None"
      "assessOperationsEvidence s p = None" "assessCanaryEvidence s c = None"
    by (auto simp: accepts_def split: ProductionLaunchEvent.split_asm)
  then show ?thesis
    using xs(1) passed research_scope unfolding list by blast
qed

definition sample_scope :: ProductionLaunchScope where
  "sample_scope = \<lparr>releaseSha = replicate 40 (CHR ''a''), policyId = LIVE_TRADING_POLICY_ID,
     productIds = LIVE_TRADING_PRODUCTS, evaluatedAt = Fin 100000000\<rparr>"

definition sample_research :: ResearchEvidence where
  "sample_research =
     \<lparr>re_releaseSha = replicate 40 (CHR ''a''), re_policyId = LIVE_TRADING_POLICY_ID,
      re_productIds = LIVE_TRADING_PRODUCTS, re_verdict = VALIDATED, re_preRegistered = True,
      re_noPostHocExclusions = True,
      re_costs = \<lparr>feesIncluded = True, spreadIncluded = True, slippageIncluded = True,
        executionLatencyIncluded = True\<rparr>,
      re_products = map (\<lambda>p. \<lparr>rp_productId = p, rp_cleanFoldCount = Fin 4, rp_profitableFoldCount = Fin 4,
        rp_medianNetReturn = Fin 1, rp_profitFactor = Fin 2, rp_expectedValuePerTrade = Fin 1,
        rp_maxDrawdown = Fin 0, rp_winRate = Fin 1\<rparr>) LIVE_TRADING_PRODUCTS\<rparr>"

definition sample_launch :: "ProductionLaunchEvent list" where
  "sample_launch =
     [LAUNCH_REQUESTED, RESEARCH_EVIDENCE_SUBMITTED sample_research,
      RISK_EVIDENCE_SUBMITTED \<lparr>exchangeProtectionConfirmed = True, accountReconciledBeforeDecision = True,
        accountExposureAggregated = True, killCancelsOpenOrders = True, killFlattensManagedPosition = True,
        killReconcilesBeforeHalt = True, dailyLossLimitEffective = True, failuresCloseNewEntries = True,
        lifecycleTestsComplete = True\<rparr>,
      ENGINEERING_EVIDENCE_SUBMITTED \<lparr>ee_releaseSha = replicate 40 (CHR ''a''), ee_cleanCiPassed = True,
        ee_unstableTestCount = Fin 0, ee_criticalVulnerabilityCount = Fin 0, ee_highVulnerabilityCount = Fin 0,
        ee_secretFindingCount = Fin 0, ee_branchProtected = True, ee_requiredCiCheckConfigured = True,
        ee_directPushBlocked = True, ee_deploymentSha = replicate 40 (CHR ''a''),
        ee_securityHeadersConfigured = True, ee_authenticationRateLimitConfigured = True\<rparr>,
      OPERATIONS_EVIDENCE_SUBMITTED \<lparr>oe_releaseSha = replicate 40 (CHR ''a''),
        oe_deploymentSha = replicate 40 (CHR ''a''), oe_collectedAt = Fin 99999999,
        oe_structuredTradingTelemetry = True, oe_alertsConfigured = True, oe_allHealthChecksPassed = True,
        oe_incidentRunbookReady = True, oe_onCallOwnerAssigned = True, oe_rollbackVerified = True,
        oe_deploysLiveDisabledFirst = True, oe_singleProductRollout = True, oe_rollbackThresholdsFrozen = True,
        oe_productionSecretsVerified = True\<rparr>,
      CANARY_EVIDENCE_SUBMITTED \<lparr>ce_releaseSha = replicate 40 (CHR ''a''), ce_policyId = LIVE_TRADING_POLICY_ID,
        ce_productId = ''GRT-USD'', ce_shadowCalendarDays = Fin 30, ce_closedTradeCount = Fin 30,
        ce_rareSignalProtocol = False, ce_unresolvedOrderCount = Fin 0, ce_duplicateOrderCount = Fin 0,
        ce_unreconciledPositionCount = Fin 0, ce_p95SlippageBps = Fin 1, ce_slippageBudgetBps = Fin 2,
        ce_maxDrawdown = Fin 0, ce_dailyLossBreachCount = Fin 0, ce_exposureBreachCount = Fin 0,
        ce_approvedLossBudget = True, ce_humanObserverAvailable = True, ce_killSwitchPreflightPassed = True,
        ce_observationHours = Fin 48, ce_rollbackTriggerCount = Fin 0\<rparr>]"

lemma sample_scope_ok: "assessProductionLaunchScope sample_scope = None"
  by (simp add: assessProductionLaunchScope_def sample_scope_def is_release_sha_def sameUniqueStrings_def
      LIVE_TRADING_PRODUCTS_def isSafeInteger_def list_all_iff set_replicate_conv_if)

lemma sample_research_ok: "assessResearchEvidence sample_scope sample_research = None"
proof -
  have "Fin 0 \<le> fl (1 / 10)"
    by (simp add: fl_nonneg)
  then have "\<not> fl (1 / 10) < Fin 0"
    by (cases "fl (1 / 10)") auto
  then show ?thesis
    by (simp add: assessResearchEvidence_def sample_scope_ok)
      (simp add: sample_research_def sample_scope_def sameUniqueStrings_def LIVE_TRADING_PRODUCTS_def
        validResearchProduct_def isNonNegativeInteger_def isSafeInteger_def isFinite_def isFiniteRate_def
        fails_out_of_sample_def)
qed

lemma sample_launch_approved:
  "fst (play launch_send (sc_start productionLaunchMachine (launch_context sample_scope)) sample_launch) = LaunchApproved"
proof -
  have "Fin 0 \<le> fl (1 / 10)"
    by (simp add: fl_nonneg)
  then have tenth: "\<not> fl (1 / 10) < Fin 0"
    by (cases "fl (1 / 10)") auto
  have fields: "releaseSha sample_scope = replicate 40 (CHR ''a'')" "policyId sample_scope = LIVE_TRADING_POLICY_ID"
    "''GRT-USD'' \<in> set (productIds sample_scope)" "evaluatedAt sample_scope = Fin 100000000"
    by (simp_all add: sample_scope_def LIVE_TRADING_PRODUCTS_def)
  show ?thesis
    using tenth
    by (simp add: sample_launch_def launch.boot launch.send_eval launch_rows_eval launch_effects launch_guards
        launch_context_def sample_scope_ok sample_research_ok assessRiskEvidence_def assessEngineeringEvidence_def
        assessOperationsEvidence_def assessCanaryEvidence_def fields isNonNegativeInteger_def isSafeInteger_def
        isFinite_def isFiniteRate_def OPERATIONS_EVIDENCE_MAX_AGE_MS_def number_diff_Fin)
qed

theorem launch_passes_every_gate_witness:
  "assessProductionLaunchScope sample_scope = None \<and>
   passedStages (snd (play launch_send (sc_start productionLaunchMachine (launch_context sample_scope)) sample_launch)) =
     [Research, RiskStage, Engineering, Operations, Canary]"
  using launch_passes_every_gate [OF launch.actor.runtime sample_launch_approved] by blast

subsection \<open>The quality gate\<close>

lemmas gate_rows_eval =
  gate_machine_simps gate_on.simps gateIdle_rows_def validatingEnvironment_rows_def auditingDependencies_rows_def
  scanningSecrets_rows_def checking_rows_def testing_rows_def building_rows_def testingArtifact_rows_def
  gateFailed_rows_def QualityGateEvent.case append_Nil2 find.simps if_True transition.sel option.inject
  option.distinct

lemmas gate_effects =
  row_effect_def transition.sel option.case foldl.simps gate_initialize_def clearError_def gate_recordError_def
  gate_reset_def isPreCommit_def

text \<open>The events that a source must have reported before it is in a state.\<close>

definition required_checks :: "QualityGateSource \<Rightarrow> QualityGateEvent list" where
  "required_checks s =
     (if s = PRE_COMMIT then [ENVIRONMENT_VALIDATED, CHECK_PASSED]
      else [ENVIRONMENT_VALIDATED, DEPENDENCY_AUDIT_PASSED, SECRET_SCAN_PASSED, CHECK_PASSED, TESTS_PASSED,
        BUILD_PASSED, ARTIFACT_TESTS_PASSED])"

primrec checks_done :: "bool \<Rightarrow> gateState \<Rightarrow> nat option" where
  "checks_done p GateIdle = None"
| "checks_done p ValidatingEnvironment = Some 0"
| "checks_done p AuditingDependencies = (if p then None else Some 1)"
| "checks_done p ScanningSecrets = (if p then None else Some 2)"
| "checks_done p Checking = Some (if p then 1 else 3)"
| "checks_done p Testing = (if p then None else Some 4)"
| "checks_done p Building = (if p then None else Some 5)"
| "checks_done p TestingArtifact = (if p then None else Some 6)"
| "checks_done p GateFailed = Some 0"
| "checks_done p GatePassed = Some (if p then 2 else 7)"
| "checks_done p GateCancelled = None"

definition reported :: "QualityGateSource \<Rightarrow> gateState \<Rightarrow> QualityGateEvent list option" where
  "reported s st =
     (case checks_done (s = PRE_COMMIT) st of
        None \<Rightarrow> None | Some n \<Rightarrow> Some (GATE_REQUESTED s # take n (required_checks s)))"

definition gate_ok :: "QualityGateEvent list \<Rightarrow> (gateState, QualityGateContext) snapshot \<Rightarrow> bool" where
  "gate_ok es w \<longleftrightarrow>
     (fst w \<in> {GateIdle, GateCancelled} \<or>
      (\<exists>s l. gate_source (snd w) = Some s \<and> reported s (fst w) = Some l \<and> subseq l es)) \<and>
     (gate_lastError (snd w) \<noteq> None \<longleftrightarrow> fst w = GateFailed)"

text \<open>What one event does to what is reported.\<close>

definition gate_move :: "gateState \<Rightarrow> QualityGateContext \<Rightarrow> QualityGateEvent
    \<Rightarrow> (gateState, QualityGateContext) snapshot \<Rightarrow> bool" where
  "gate_move st c e w \<longleftrightarrow>
     (gate_lastError c \<noteq> None \<longleftrightarrow> st = GateFailed) \<longrightarrow>
     (gate_lastError (snd w) \<noteq> None \<longleftrightarrow> fst w = GateFailed) \<and>
     (fst w \<in> {GateIdle, GateCancelled} \<or>
      (\<exists>s. e = GATE_REQUESTED s \<and> gate_source (snd w) = Some s \<and> reported s (fst w) = Some [e]) \<or>
      gate_source (snd w) = gate_source c \<and> st \<notin> {GateIdle, GateCancelled} \<and>
      (\<forall>s l. gate_source c = Some s \<longrightarrow> reported s st = Some l \<longrightarrow>
         reported s (fst w) \<in> {Some l, Some (l @ [e]), Some [GATE_REQUESTED s]}))"

lemma gate_move_send: "gate_move st c e (gate_send (st, c) e)"
  by (rule gate.send_rule, simp add: gate_move_def, blast, (cases st; cases e),
      simp_all only: gate_rows_eval, (safe elim!: pick_rowE),
      simp_all add: gate_effects gate_move_def reported_def required_checks_def errorFor_def
        split: if_splits)

lemma gate_ok_step:
  assumes ok: "gate_ok es (st, c)"
  shows "gate_ok (es @ [e]) (gate_send (st, c) e)"
proof -
  have longer: "subseq l es \<Longrightarrow> subseq l (es @ [e])" for l
    by (rule list_emb_prefix)
  have one: "subseq [e] (es @ [e])"
    by (simp add: subseq_singleton_left)
  have start: "reported s st = Some l \<Longrightarrow> subseq l es \<Longrightarrow> subseq [GATE_REQUESTED s] es" for s l
    by (auto simp: reported_def subseq_singleton_left split: option.split_asm dest: list_emb_set)
  show ?thesis
    using gate_move_send [of st c e] ok longer one start unfolding gate_move_def gate_ok_def
    by (auto 0 3)
qed

lemma gate_ok_play: "gate_ok es (play gate_send (sc_start qualityGateMachine gate_context) es)"
proof (rule play_trace)
  show "gate_ok [] (sc_start qualityGateMachine gate_context)"
    by (simp add: gate.boot gate_ok_def gate_context_def)
next
  fix es e
  assume "gate_ok es (play gate_send (sc_start qualityGateMachine gate_context) es)"
  then show "gate_ok (es @ [e]) (gate_send (play gate_send (sc_start qualityGateMachine gate_context) es) e)"
    by (cases "play gate_send (sc_start qualityGateMachine gate_context) es") (simp add: gate_ok_step)
qed

text \<open>C35: Nothing passes the quality gate unchecked.  When the gate passes, it has received the
  request of the source its context names and, after it and in this order, the success of every
  step that source requires: the environment and the static check for a commit; the environment,
  the audit of the dependencies, the scan for secrets, the static check, the tests, the build and
  the tests of the artifact for a push or a run in CI; and no error is recorded.\<close>

theorem gate_passes_when_checked:
  assumes "xstate_runtime qualityGateMachine init send"
    and "fst (play send (init gate_context) es) = GatePassed"
  shows "gate_lastError (snd (play send (init gate_context) es)) = None \<and>
    (\<exists>s. gate_source (snd (play send (init gate_context) es)) = Some s \<and>
       subseq (GATE_REQUESTED s # required_checks s) es)"
proof -
  have run: "init = sc_start qualityGateMachine" "send = gate_send"
    using assms(1) by (simp_all add: gate.runtime_iff)
  have "gate_lastError (snd (play send (init gate_context) es)) = None"
    using gate_ok_play [of es] assms(2) unfolding run by (simp add: gate_ok_def del: not_None_eq)
  moreover obtain s l where "gate_source (snd (play send (init gate_context) es)) = Some s"
      "reported s GatePassed = Some l" "subseq l es"
    using gate_ok_play [of es] assms(2) unfolding run by (auto simp: gate_ok_def)
  moreover from this(2) have "l = GATE_REQUESTED s # required_checks s"
    by (cases "s = PRE_COMMIT") (simp_all add: reported_def required_checks_def)
  ultimately show ?thesis
    by blast
qed

definition sample_push :: "QualityGateEvent list" where
  "sample_push =
     [GATE_REQUESTED PRE_PUSH, ENVIRONMENT_VALIDATED, DEPENDENCY_AUDIT_FAILED, GATE_RETRY_REQUESTED] @
     required_checks PRE_PUSH"

lemma sample_push_passed:
  "fst (play gate_send (sc_start qualityGateMachine gate_context) sample_push) = GatePassed"
  by (simp add: sample_push_def required_checks_def gate.boot gate.send_eval gate_rows_eval gate_effects gate_context_def)

theorem gate_passes_when_checked_witness:
  "gate_lastError (snd (play gate_send (sc_start qualityGateMachine gate_context) sample_push)) = None \<and>
   (\<exists>s. gate_source (snd (play gate_send (sc_start qualityGateMachine gate_context) sample_push)) = Some s \<and>
      subseq (GATE_REQUESTED s # required_checks s) sample_push)"
  using gate_passes_when_checked [OF gate.actor.runtime sample_push_passed] by blast

end
