(* ===== verification/Spec2Isabelle.thy ===== *)
theory Spec2Isabelle
  imports TradingCycleCorrect InterpreterCorrect CyclePlanning RegimeFilterProps ProtectiveOrderProps
    DomainProps RiskProps PaperProps AllocatorProps PortfolioMachineProps StrategiesProps
    TargetExposureProps LiveAccountProps LiveSellProps PerpCorrect
    CoinbaseSellCorrect CoinbaseOrderProps ReplayRun MultiReplayRun LaunchGatesProps
begin

text \<open>
  Dodash is an autonomous trading agent written in TypeScript.  An operator starts the agent;
  an alarm wakes it for a cycle; a cycle reads the market, computes indicators, asks
  strategies for signals, allocates them into orders, checks the risk of each order, records
  the intent, obtains an authorization, submits, reconciles and persists.  The control flow of
  every such process is a state chart (a table for the \<^verbatim>\<open>xstate\<close> package) under
  \<^verbatim>\<open>src/models\<close>; the decisions are pure functions under \<^verbatim>\<open>src/models\<close> and
  \<^verbatim>\<open>src/packages\<close>.  Durable Objects, HTTP clients and the dashboard under \<^verbatim>\<open>src/apps\<close>
  run the charts and perform their effects.  This development models the charts and the pure
  functions: what is decided, in which order, and what can never happen.

  \<^bold>\<open>Shared theories.\<close>

  \<^item> \<^verbatim>\<open>Prelude\<close>: results (\<^verbatim>\<open>packages/domain/src/result.ts\<close>: \<open>err\<close> is \<^term>\<open>Inl\<close>, \<open>ok\<close> is
    \<^term>\<open>Inr\<close>), strings as lists of code units below 256, string-keyed objects as association
    lists in insertion order.
  \<^item> \<^verbatim>\<open>JsNumber\<close>: the \<open>number\<close> type.  A finite number is a rational, rounded after every
    operation to the nearest binary64 value, ties to even (\<open>fl\<close>), with overflow to infinity,
    subnormals and \<open>NaN\<close>.  Comparisons with \<open>NaN\<close> are false.  The two zeros are one value:
    the code compares them with \<open>===\<close>, and no modelled function divides by a zero it computed
    with a sign.  Monotonicity and exactness of rounding are proved here and used by all.
  \<^item> \<^verbatim>\<open>Statechart\<close>: tables of guarded transitions as data, and the documented reading of such a
    table by the package.  The package is not part of the repository: a property of a machine is
    stated for every pair \<open>init\<close>, \<open>send\<close> with \<open>xstate_runtime\<close>, and the locales
    \<open>shallow_machine\<close> (eventless transitions do not chain) and \<open>xstate_actor\<close> hold the lemmas
    every chart shares; both are interpreted for each machine, so the hypothesis is satisfied by
    an executable function.
  \<^item> \<^verbatim>\<open>PlainMachine\<close>: charts without eventless transitions and without entry actions (locale
    \<open>flat_machine\<close>, an extension of both): one event takes one row; logs of the entries into a
    state and the number of changes of state along a run.
  \<^item> \<^verbatim>\<open>Workflow\<close>: phases, errors, permissions and retry counters shared by the machines.

  \<^bold>\<open>Components.\<close>

  \<^item> \<^verbatim>\<open>TradingCycle\<close> (\<^verbatim>\<open>models/trading-cycle.machine.ts\<close>, \<^verbatim>\<open>.types.ts\<close>): the chart of one agent,
    25 states, all guards, actions and rows by their names in the code.
    \<^verbatim>\<open>TradingCycleProps\<close> has one lemma per invariant over one event and the predicates on logs of
    events; \<^verbatim>\<open>TradingCycleCorrect\<close> has the properties over whole runs: an order is in flight only
    after a recorded intent, a positive risk decision and an authorization; bounded retries and
    submissions; strictly increasing decision candles; what stop, kill and revocation do.
  \<^item> \<^verbatim>\<open>RegimeFilter\<close>, \<^verbatim>\<open>RegimeFilterProps\<close> (\<^verbatim>\<open>models/regime-filter*.ts\<close>): classification of
    candles into regimes and the debouncing chart; the chart refines an abstract debouncer.
  \<^item> \<^verbatim>\<open>ProtectiveOrder\<close>, \<^verbatim>\<open>ProtectiveOrderProps\<close> (\<^verbatim>\<open>models/protective-order*.ts\<close>): stops,
    objectives, trailing; which price fires which side; the invariant of an armed order.
  \<^item> \<^verbatim>\<open>Domain\<close>, \<^verbatim>\<open>DomainProps\<close> (\<^verbatim>\<open>packages/domain/src\<close>): validated signals, orders, fills,
    candles, product identifiers, client order identifiers over 32-bit words.
  \<^item> \<^verbatim>\<open>Allocator\<close>, \<^verbatim>\<open>AllocatorProps\<close> (\<^verbatim>\<open>packages/allocator/src\<close>): netting of signals into orders
    under a budget.
  \<^item> \<^verbatim>\<open>Risk\<close>, \<^verbatim>\<open>RiskProps\<close> (\<^verbatim>\<open>packages/risk/src\<close>): the risk gate of one order and the
    consolidated admission of a portfolio.
  \<^item> \<^verbatim>\<open>PaperExecution\<close>, \<^verbatim>\<open>PaperProps\<close> (\<^verbatim>\<open>packages/paper-execution/src\<close>): simulated fills.
  \<^item> \<^verbatim>\<open>Strategies\<close>, \<^verbatim>\<open>StrategiesProps\<close> (\<^verbatim>\<open>packages/strategies/src\<close>,
    \<^verbatim>\<open>models/signal-sizing.ts\<close>, \<^verbatim>\<open>models/regime-sizing.ts\<close>): the registry, the strategies and their
    wrappers; they answer valid signals, and the band strategy trades the change of the regime.
  \<^item> \<^verbatim>\<open>TargetExposure\<close>, \<^verbatim>\<open>TargetExposureProps\<close> (\<^verbatim>\<open>models/target-exposure.ts\<close>): the policy that
    steers a position to a target; with \<^verbatim>\<open>RoundingError\<close> (the relative error of one rounding) a
    planned order is shown to be covered by the portfolio it was planned for.
  \<^item> \<^verbatim>\<open>PortfolioMachine\<close>, \<^verbatim>\<open>PortfolioMachineProps\<close>
    (\<^verbatim>\<open>models/multi-product-portfolio.machine.ts\<close>): consolidated admission and kill switch of
    several products.

  \<^item> \<^verbatim>\<open>CyclePlanning\<close> (\<^verbatim>\<open>models/cycle-wake.ts\<close>, \<^verbatim>\<open>daily-risk.ts\<close>, \<^verbatim>\<open>paper-valuation.ts\<close>,
    \<^verbatim>\<open>market-retry-schedule.ts\<close>, \<^verbatim>\<open>market-source-failover.ts\<close>, \<^verbatim>\<open>cycle-schedule.ts\<close>,
    \<^verbatim>\<open>decision-admission-telemetry.ts\<close>): what is decided around a cycle.
  \<^item> \<^verbatim>\<open>Interpreter\<close> (\<^verbatim>\<open>apps/agent/src/interpreter.ts\<close>, \<^verbatim>\<open>machine-session.ts\<close>,
    \<^verbatim>\<open>strategy-registry.ts\<close>, \<^verbatim>\<open>types.ts\<close>): the loop that runs a cycle.  An effect is a function on
    a world of any type that answers a value or throws; one definition per phase
    (\<open>submittingOrder_effect\<close>, ...), composed by \<open>interpreter_step\<close> and \<open>interpreter_loop\<close>.
    \<^verbatim>\<open>CycleBudget\<close> gives the events that answer a phase and a rank each of them lowers;
    \<^verbatim>\<open>InterpreterProps\<close> shows that a run sends such an event in every step, so that it returns;
    \<^verbatim>\<open>CycleJournal\<close> and \<^verbatim>\<open>InterpreterSafety\<close> follow a journal of the effects and prove that a
    submission has been persisted, checked and authorized; \<^verbatim>\<open>JournalFaithful\<close> shows that the
    journal changes nothing; \<^verbatim>\<open>InterpreterCorrect\<close> runs a cycle to a confirmed order.
  \<^item> \<^verbatim>\<open>LiveAccountControl\<close>, \<^verbatim>\<open>LiveAccountProps\<close> (\<^verbatim>\<open>models/live-account-control*.ts\<close>): the kill
    switch of a live account: it completes only on a flat account, sells what the account has and
    never twice after an unknown answer, and ends within its retry budgets.
  \<^item> \<^verbatim>\<open>LiveSellProtection\<close>, \<^verbatim>\<open>LiveSellProps\<close> (\<^verbatim>\<open>models/live-sell-protection*.ts\<close>): the sale of a
    protected position: one sale, covered, and an outcome that tells what happened.
  \<^item> \<^verbatim>\<open>LivePolicy\<close> (\<^verbatim>\<open>models/live-trading-policy.ts\<close>, \<^verbatim>\<open>live-preflight*.ts\<close>,
    \<^verbatim>\<open>spot-permission.ts\<close>): the frozen live policy, the preflight, the spot permission.
  \<^item> \<^verbatim>\<open>CoinbaseWire\<close> (\<^verbatim>\<open>apps/agent/src/coinbase-jwt.ts\<close> and what the clients share),
    \<^verbatim>\<open>CoinbaseOrders\<close> (\<^verbatim>\<open>coinbase-execution.ts\<close>), \<^verbatim>\<open>CoinbaseAccount\<close> (\<^verbatim>\<open>coinbase-account.ts\<close>),
    \<^verbatim>\<open>CoinbaseControl\<close>, \<^verbatim>\<open>CoinbaseKill\<close> and \<^verbatim>\<open>CoinbaseSell\<close> (\<^verbatim>\<open>coinbase-control.ts\<close>): the
    live account.  Each operation is a program (theory \<^verbatim>\<open>Effects\<close>) that asks one question at a
    time (the clock, a signature, a request, a delay, a checkpoint) and goes on with any answer;
    \<open>performs p tr a\<close> says that \<open>p\<close> ends with \<open>a\<close> after the questions and answers \<open>tr\<close>.  The kill
    and the protected sale perform the effect of each state of their machines.
    \<^verbatim>\<open>CoinbaseQuiet\<close> (locale \<open>calm\<close>) collects what no lookup ever asks; \<^verbatim>\<open>CoinbaseKillProps\<close>,
    \<^verbatim>\<open>CoinbaseKillCorrect\<close>, \<^verbatim>\<open>CoinbaseSellProps\<close>, \<^verbatim>\<open>CoinbaseSellRuns\<close> and
    \<^verbatim>\<open>CoinbaseSellCorrect\<close> prove the safety of both loops against the exchange: which orders
    leave, when, after which checkpoint, and what a result says of the account;
    \<^verbatim>\<open>CoinbaseOrderProps\<close> proves what the reading of answers accepts.
  \<^item> \<^verbatim>\<open>HyperliquidExecution\<close> (\<^verbatim>\<open>models/hyperliquid-execution*.ts\<close>): the envelope, the risk gate and
    the chart of a perpetual order; \<^verbatim>\<open>PerpShell\<close> (\<^verbatim>\<open>apps/agent/src/hyperliquid-execution.ts\<close>,
    \<^verbatim>\<open>hyperliquid-control.ts\<close>, \<^verbatim>\<open>hyperliquid-preflight.ts\<close>): reading the answers of the
    exchange; \<^verbatim>\<open>PerpStore\<close> (\<^verbatim>\<open>hyperliquid-store.ts\<close>): both stores, as interpretations of the
    locale \<open>perp_order_store\<close>; \<^verbatim>\<open>PerpRunner\<close> (\<^verbatim>\<open>hyperliquid-orchestrator.ts\<close>): the runner, a
    program that asks for one effect at a time and continues with any answer.  \<open>runs p tr a\<close> says
    that \<open>p\<close> ends with \<open>a\<close> after the effects \<open>tr\<close>.  \<^verbatim>\<open>PerpProps\<close> and \<^verbatim>\<open>PerpCorrect\<close> prove the
    protocol of an order and of a recovery, and the two places where the code leaves its own
    rules.
  \<^item> \<^verbatim>\<open>ExecutionResolution\<close> (\<^verbatim>\<open>models/execution-resolution.ts\<close>), \<^verbatim>\<open>BacktestReport\<close>
    (\<^verbatim>\<open>models/backtest-diagnostics.ts\<close>, \<^verbatim>\<open>packages/backtest/src/metrics.ts\<close>) and \<^verbatim>\<open>Replay\<close>
    (\<^verbatim>\<open>packages/backtest/src/replay.ts\<close>): the replay of past candles through the same strategies,
    allocator, risk check and simulated broker, with protective orders, regimes and funding.  The
    variables of the loop are the record \<open>replay_state\<close>; one definition per step, composed by
    \<open>replay_candle\<close> and \<open>replay_candles\<close>.  \<^verbatim>\<open>ReplayProps\<close> shows what each step keeps (\<open>goes\<close>,
    \<open>ends_candle\<close>) and when an order is approved (\<open>risk_approves\<close>), \<^verbatim>\<open>ReplayCorrect\<close> what a run keeps and that a step reads nothing later than its
    candle; \<^verbatim>\<open>ReplayRun\<close> has the properties (a point per candle, approved trades, no look-ahead)
    and a replay that trades.  \<^verbatim>\<open>MultiReplay\<close> (\<^verbatim>\<open>multi-product-replay.ts\<close>), \<^verbatim>\<open>MultiReplayProps\<close>
    and \<^verbatim>\<open>MultiReplayRun\<close> do the same for several products that share cash and a consolidated
    risk check: \<open>multi_close\<close> is the account at the close of a candle, \<open>consolidated\<close> the approval on it.
  \<^item> \<^verbatim>\<open>LaunchGates\<close> (\<^verbatim>\<open>models/production-launch*.ts\<close>, \<^verbatim>\<open>models/quality-gate*.ts\<close>): the evidence
    for a launch, its five assessments and the chart of the launch; the chart of the checks of a
    commit and of a push.  Both are interpretations of \<open>flat_machine\<close>.  \<^verbatim>\<open>LaunchGatesProps\<close>
    describes what one event does (\<open>launch_move\<close>, \<open>gate_move\<close>) and concludes that nothing is
    approved without all of its evidence, in order.

  \<^bold>\<open>Bounds and fuel.\<close>  Every loop of the modelled code walks a list, except the loop of the
  interpreter and the loops of the kill and of the protected sale, which stop after 64 steps, and
  the listing of open orders, which stops after 20 pages.  A cycle needs at most \<open>cycle_bound\<close> steps, 61 with
  the default retry limits, so the limit is not reached (\<open>run_returns\<close>); neither is that of the
  protected sale (\<open>protected_sale_terminates\<close>), and a kill waits at most eleven times (\<open>kill_waits_are_bounded\<close>).  The chart of
  the kill switch changes at most 36 times, and 36 times more for each report of open orders, a sale at
  most nine times.  Runs
  of a machine are finite lists of events of any length.  Retry limits are the naturals of the
  configuration.

  \<^bold>\<open>Parameters.\<close>  The machine package (\<open>init\<close>, \<open>send\<close>), the Prolog engine, the power operator
  \<open>pow\<close>, the square root, \<open>Number(text)\<close> (\<open>toNum\<close>), the rendering of numbers as text, URL and date parsing
  (\<open>cb_host\<close>), the machines, the indicators and the two functions of a replay (\<open>replay_host\<close>), and the digest behind an order identifier of the exchange (\<open>cloidOf\<close>).  No property assumes more of them than
  its hypotheses say.

  \<^bold>\<open>Not modelled.\<close>  Request signing and the wire format of perpetual prices and sizes (a
  third-party library), Durable Object storage, alarms, HTTP handlers (\<^verbatim>\<open>trading-agent.ts\<close>) and
  user interfaces: effects, not decisions.  The parsing of the configuration
  (\<^verbatim>\<open>configuration.ts\<close>, a third-party schema).  The Prolog engine of the indicators (an embedded
  interpreter running \<^verbatim>\<open>.pl\<close> files).  Research scripts, suites of replays and
  generated worker types.
\<close>

end
